(* ===== verification/Base.thy ===== *)
theory Base
  imports Main "HOL-Library.Word"
begin

text \<open>
  The prelude of the development: names for the machine types of \<open>src/OpenRTI/Types.h\<close>
  and \<open>src/OpenRTI/Handle.h\<close>, the vector operations of the C++ standard library that the
  sources use, and the generic lemmas on lists, folds and options shared by the components.
\<close>

named_theorems inv_defs \<open>definitions of the components' invariants\<close>
named_theorems step_defs \<open>definitions of the components' operations\<close>

type_synonym u8 = "8 word"
type_synonym u32 = "32 word"
type_synonym u64 = "64 word"

text \<open>The value of a \<open>VariableLengthData\<close>: its bytes.\<close>

type_synonym vld = "u8 list"

text \<open>\<open>Handle<T>::invalid()\<close> and \<open>valid()\<close>.\<close>

definition invalid_handle :: "'a::len word" where
  "invalid_handle = - 1"

definition handle_valid :: "'a::len word \<Rightarrow> bool" where
  "handle_valid h \<longleftrightarrow> h \<noteq> invalid_handle"

text \<open>
  \<open>std::vector::resize(n)\<close>: the first \<open>n\<close> elements, filled up with value initialised
  elements \<open>x\<close>.
\<close>

definition vec_resize :: "nat \<Rightarrow> 'a \<Rightarrow> 'a list \<Rightarrow> 'a list" where
  "vec_resize n x xs = take n xs @ replicate (n - length xs) x"

lemma length_vec_resize [simp]: "length (vec_resize n x xs) = n"
  by (simp add: vec_resize_def)

lemma nth_vec_resize:
  "i < n \<Longrightarrow> vec_resize n x xs ! i = (if i < length xs then xs ! i else x)"
  by (auto simp: vec_resize_def nth_append)

text \<open>Loops over the index range of a vector that update one cell in each turn.\<close>

lemma length_fold_list_update [simp]:
  "length (fold (\<lambda>c ys. ys[c := g c ys]) cs xs) = length xs"
  by (induction cs arbitrary: xs) auto

lemma nth_fold_list_update:
  assumes "distinct cs" and "i < length xs"
  shows "fold (\<lambda>c ys. ys[c := f c (ys ! c)]) cs xs ! i
    = (if i \<in> set cs then f i (xs ! i) else xs ! i)"
  using assms
proof (induction cs arbitrary: xs)
  case Nil
  then show ?case by simp
next
  case (Cons c cs)
  then show ?case by (cases "i = c") auto
qed

lemma fold_insert_set: "fold Set.insert xs A = A \<union> set xs"
  by (induction xs arbitrary: A) auto

lemma fold_inter: "fold (\<lambda>T S. S \<inter> T) Ss S = S \<inter> \<Inter> (set Ss)"
  by (induction Ss arbitrary: S) auto

text \<open>The index of the first element that satisfies a condition.\<close>

fun first_index :: "('a \<Rightarrow> bool) \<Rightarrow> 'a list \<Rightarrow> nat option" where
  "first_index P [] = None"
| "first_index P (x # xs) = (if P x then Some 0 else map_option Suc (first_index P xs))"

lemma first_index_None: "first_index P xs = None \<longleftrightarrow> (\<forall>x \<in> set xs. \<not> P x)"
  by (induction xs) auto

lemma first_index_Some:
  "first_index P xs = Some i \<Longrightarrow> i < length xs \<and> P (xs ! i) \<and> (\<forall>j < i. \<not> P (xs ! j))"
proof (induction xs arbitrary: i)
  case Nil
  then show ?case by simp
next
  case (Cons x xs)
  then show ?case
    by (auto split: if_splits simp: nth_Cons split: nat.splits)
qed

text \<open>\<open>std::vector::erase\<close> of one position.\<close>

definition vec_erase :: "nat \<Rightarrow> 'a list \<Rightarrow> 'a list" where
  "vec_erase i xs = take i xs @ drop (Suc i) xs"

lemma length_vec_erase: "i < length xs \<Longrightarrow> length (vec_erase i xs) = length xs - 1"
  by (simp add: vec_erase_def)

lemma nth_vec_erase:
  "i < length xs \<Longrightarrow> j < length xs - 1 \<Longrightarrow>
     vec_erase i xs ! j = (if j < i then xs ! j else xs ! Suc j)"
  by (auto simp: vec_erase_def nth_append min_def)

lemma set_vec_erase_subset: "set (vec_erase i xs) \<subseteq> set xs"
  by (auto simp: vec_erase_def dest: in_set_takeD in_set_dropD)

end
