(* ===== verification/Tuple_Set.thy ===== *)
theory Tuple_Set
  imports Base
begin

text \<open>
  \<open>VariableLengthDataTupleSet\<close> of \<open>src/OpenRTI/VariableLengthDataTuple.{h,cpp}\<close>: the
  rows of the interaction filters of one connection, with a per-column index from a value to
  the rows that hold it. The empty value is the wildcard. A row is a list of values, a
  \<open>std::set\<close> of row indices is a set of naturals, a \<open>std::map\<close> whose iteration order is
  never observed is a partial function.
\<close>

type_synonym vld_tuple = "vld list"

record tuple_set =
  mTupleSize :: nat
  mImpl :: "vld_tuple list"
  mIndexSets :: "(vld \<rightharpoonup> nat set) list"
  mWildcardIndexSets :: "nat set list"

definition empty_tuple_set :: tuple_set where
  "empty_tuple_set =
     \<lparr>mTupleSize = 0, mImpl = [], mIndexSets = [], mWildcardIndexSets = []\<rparr>"

subsection \<open>The operations\<close>

text \<open>The two index structures of one column, after a row with a new value.\<close>

definition column_values_add :: "vld \<Rightarrow> nat \<Rightarrow> nat set \<Rightarrow> (vld \<rightharpoonup> nat set) \<Rightarrow> (vld \<rightharpoonup> nat set)" where
  "column_values_add val row W m =
     (let m1 = (case m val of
                  None \<Rightarrow> m(val \<mapsto> {row} \<union> W)
                | Some S \<Rightarrow> m(val \<mapsto> insert row (S \<union> W)))
      in if val = [] then (\<lambda>v. map_option (\<lambda>S. S \<union> insert row W) (m1 v)) else m1)"

definition AddColumnValueToIndexSets :: "vld \<Rightarrow> nat \<Rightarrow> nat \<Rightarrow> tuple_set \<Rightarrow> tuple_set" where
  "AddColumnValueToIndexSets val row col s =
     (let W = mWildcardIndexSets s ! col;
          m = mIndexSets s ! col
      in s\<lparr>mIndexSets := (mIndexSets s)[col := column_values_add val row W m],
           mWildcardIndexSets :=
             (mWildcardIndexSets s)[col := (if val = [] then insert row W else W)]\<rparr>)"

text \<open>
  Row \<open>row\<close> disappears: the rows behind it move up in the value index. The wildcard index
  only drops \<open>row\<close> itself.
\<close>

definition shift_rows :: "nat \<Rightarrow> nat set \<Rightarrow> nat set" where
  "shift_rows row S = {i \<in> S. i < row} \<union> (\<lambda>i. i - 1) ` {i \<in> S. row < i}"

definition RemoveRowFromIndexSets :: "nat \<Rightarrow> nat \<Rightarrow> tuple_set \<Rightarrow> tuple_set" where
  "RemoveRowFromIndexSets row col s =
     s\<lparr>mIndexSets := (mIndexSets s)[col := (\<lambda>v.
           case (mIndexSets s ! col) v of
             None \<Rightarrow> None
           | Some S \<Rightarrow> (if shift_rows row S = {} then None else Some (shift_rows row S)))],
       mWildcardIndexSets :=
         (mWildcardIndexSets s)[col := mWildcardIndexSets s ! col - {row}]\<rparr>"

definition SetTupleSize :: "nat \<Rightarrow> tuple_set \<Rightarrow> tuple_set" where
  "SetTupleSize newTupleSize s =
     (if mTupleSize s < newTupleSize then
        s\<lparr>mTupleSize := newTupleSize,
          mImpl := map (vec_resize newTupleSize []) (mImpl s),
          mIndexSets := vec_resize newTupleSize Map.empty (mIndexSets s),
          mWildcardIndexSets :=
            fold (\<lambda>col W. W[col := fold Set.insert [0..<length (mImpl s)] (W ! col)])
              [mTupleSize s..<newTupleSize]
              (vec_resize newTupleSize {} (mWildcardIndexSets s))\<rparr>
      else s)"

definition TupleSet_Insert :: "vld_tuple \<Rightarrow> tuple_set \<Rightarrow> tuple_set" where
  "TupleSet_Insert newTuple s =
     (let s1 = SetTupleSize (length newTuple) s;
          s2 = s1\<lparr>mImpl := mImpl s1 @ [newTuple]\<rparr>;
          newRowIndex = length (mImpl s2) - 1
      in fold (\<lambda>col. AddColumnValueToIndexSets (newTuple ! col) newRowIndex col)
           [0..<length newTuple] s2)"

text \<open>The first loop of \<open>FindNormalized\<close>: the index sets of the columns to intersect.\<close>

definition resultIndexSets :: "vld_tuple \<Rightarrow> tuple_set \<Rightarrow> nat set list" where
  "resultIndexSets val s =
     concat (map (\<lambda>col.
       if val ! col = [] then []
       else case (mIndexSets s ! col) (val ! col) of
              Some S \<Rightarrow> [S]
            | None \<Rightarrow> [mWildcardIndexSets s ! col]) [0..<mTupleSize s])"

definition FindNormalized :: "vld_tuple \<Rightarrow> tuple_set \<Rightarrow> bool" where
  "FindNormalized valueTuple s =
     (if length valueTuple \<noteq> mTupleSize s then False
      else case resultIndexSets valueTuple s of
             [] \<Rightarrow> True
           | S # Ss \<Rightarrow> fold (\<lambda>T S. S \<inter> T) Ss S \<noteq> {})"

text \<open>The same search with the matching rows as its out parameter.\<close>

definition FindMatchingTuples :: "vld_tuple \<Rightarrow> tuple_set \<Rightarrow> nat set \<Rightarrow> bool \<times> nat set" where
  "FindMatchingTuples normalizedValueTuple s matchingRows =
     (if length normalizedValueTuple \<noteq> mTupleSize s then (False, matchingRows)
      else case resultIndexSets normalizedValueTuple s of
             [] \<Rightarrow> (True, set [0..<length (mImpl s)])
           | S # Ss \<Rightarrow> (let R = fold (\<lambda>T S. S \<inter> T) Ss S in (R \<noteq> {}, R)))"

definition TupleSet_Contains :: "vld_tuple \<Rightarrow> tuple_set \<Rightarrow> bool" where
  "TupleSet_Contains newTuple s = list_ex (\<lambda>tuple. tuple = newTuple) (mImpl s)"

definition TupleSet_Erase :: "vld_tuple \<Rightarrow> tuple_set \<Rightarrow> bool \<times> tuple_set" where
  "TupleSet_Erase ref s =
     (case first_index (\<lambda>tuple. tuple = ref) (mImpl s) of
        None \<Rightarrow> (False, s)
      | Some rowIndex \<Rightarrow>
          (True, fold (\<lambda>col. RemoveRowFromIndexSets rowIndex col) [0..<length ref]
                   (s\<lparr>mImpl := vec_erase rowIndex (mImpl s)\<rparr>)))"

subsection \<open>What the index promises\<close>

text \<open>
  A value tuple matches a row when every column agrees or is a wildcard on either side.
\<close>

definition row_matches :: "vld_tuple \<Rightarrow> vld_tuple \<Rightarrow> bool" where
  "row_matches val r \<longleftrightarrow>
     (\<forall>c \<in> set [0..<length val]. val ! c = [] \<or> r ! c = [] \<or> r ! c = val ! c)"

text \<open>The index structures of column \<open>c\<close> describe the rows.\<close>

definition column_ok :: "vld_tuple list \<Rightarrow> nat \<Rightarrow> (vld \<rightharpoonup> nat set) \<Rightarrow> nat set \<Rightarrow> bool" where
  [inv_defs]: "column_ok rows c m W \<longleftrightarrow>
     W = {i. i < length rows \<and> rows ! i ! c = []} \<and>
     (\<forall>v. v \<noteq> [] \<longrightarrow>
        (case m v of
           None \<Rightarrow> \<forall>i < length rows. rows ! i ! c \<noteq> v
         | Some S \<Rightarrow> S = {i. i < length rows \<and> (rows ! i ! c = v \<or> rows ! i ! c = [])}))"

definition tuple_set_inv :: "tuple_set \<Rightarrow> bool" where
  [inv_defs]: "tuple_set_inv s \<longleftrightarrow>
     length (mIndexSets s) = mTupleSize s \<and>
     length (mWildcardIndexSets s) = mTupleSize s \<and>
     (\<forall>r \<in> set (mImpl s). length r = mTupleSize s) \<and>
     (\<forall>c < mTupleSize s. column_ok (mImpl s) c (mIndexSets s ! c) (mWildcardIndexSets s ! c))"

lemma tuple_set_invI:
  assumes "length (mIndexSets s) = mTupleSize s" "length (mWildcardIndexSets s) = mTupleSize s"
    and "\<And>r. r \<in> set (mImpl s) \<Longrightarrow> length r = mTupleSize s"
    and "\<And>c. c < mTupleSize s \<Longrightarrow>
           column_ok (mImpl s) c (mIndexSets s ! c) (mWildcardIndexSets s ! c)"
  shows "tuple_set_inv s"
  using assms by (simp add: tuple_set_inv_def)

lemma tuple_set_invD:
  assumes "tuple_set_inv s"
  shows "length (mIndexSets s) = mTupleSize s" "length (mWildcardIndexSets s) = mTupleSize s"
    and "\<And>r. r \<in> set (mImpl s) \<Longrightarrow> length r = mTupleSize s"
    and "\<And>i. i < length (mImpl s) \<Longrightarrow> length (mImpl s ! i) = mTupleSize s"
    and "\<And>c. c < mTupleSize s \<Longrightarrow>
           column_ok (mImpl s) c (mIndexSets s ! c) (mWildcardIndexSets s ! c)"
  using assms by (auto simp: tuple_set_inv_def)

lemma column_ok_wild: "column_ok rows c m W \<Longrightarrow> i \<in> W \<longleftrightarrow> i < length rows \<and> rows ! i ! c = []"
  by (simp add: column_ok_def)

lemma column_ok_Some:
  "column_ok rows c m W \<Longrightarrow> v \<noteq> [] \<Longrightarrow> m v = Some S \<Longrightarrow>
     i \<in> S \<longleftrightarrow> i < length rows \<and> (rows ! i ! c = v \<or> rows ! i ! c = [])"
  by (auto simp: column_ok_def split: option.splits)

lemma column_ok_None:
  "column_ok rows c m W \<Longrightarrow> v \<noteq> [] \<Longrightarrow> m v = None \<Longrightarrow> i < length rows \<Longrightarrow> rows ! i ! c \<noteq> v"
  by (force simp: column_ok_def)

lemma column_okI:
  assumes "\<And>i. i \<in> W \<longleftrightarrow> i < length rows \<and> rows ! i ! c = []"
    and "\<And>v S i. v \<noteq> [] \<Longrightarrow> m v = Some S \<Longrightarrow>
           i \<in> S \<longleftrightarrow> i < length rows \<and> (rows ! i ! c = v \<or> rows ! i ! c = [])"
    and "\<And>v i. v \<noteq> [] \<Longrightarrow> m v = None \<Longrightarrow> i < length rows \<Longrightarrow> rows ! i ! c \<noteq> v"
  shows "column_ok rows c m W"
  unfolding column_ok_def
proof (intro conjI allI impI)
  show "W = {i. i < length rows \<and> rows ! i ! c = []}" using assms(1) by blast
next
  fix v :: vld
  assume v: "v \<noteq> []"
  show "case m v of None \<Rightarrow> \<forall>i<length rows. rows ! i ! c \<noteq> v
      | Some S \<Rightarrow> S = {i. i < length rows \<and> (rows ! i ! c = v \<or> rows ! i ! c = [])}"
    using assms(2,3)[OF v] by (auto split: option.split)
qed

text \<open>The intersection of the result index sets holds exactly the matching rows.\<close>

lemma mem_resultIndexSets:
  assumes inv: "tuple_set_inv s" and len: "length val = mTupleSize s"
    and i: "i < length (mImpl s)"
  shows "(\<forall>S \<in> set (resultIndexSets val s). i \<in> S) \<longleftrightarrow> row_matches val (mImpl s ! i)"
proof -
  have col: "(i \<in> (case (mIndexSets s ! c) (val ! c) of Some S \<Rightarrow> S
                   | None \<Rightarrow> mWildcardIndexSets s ! c))
      \<longleftrightarrow> mImpl s ! i ! c = [] \<or> mImpl s ! i ! c = val ! c"
    if c: "c < mTupleSize s" "val ! c \<noteq> []" for c
  proof (cases "(mIndexSets s ! c) (val ! c)")
    case None
    with column_ok_None[OF tuple_set_invD(5)[OF inv c(1)] c(2) None i]
      column_ok_wild[OF tuple_set_invD(5)[OF inv c(1)], of i] i
    show ?thesis by simp
  next
    case (Some S)
    with column_ok_Some[OF tuple_set_invD(5)[OF inv c(1)] c(2) Some, of i] i
    show ?thesis by auto
  qed
  have "(\<forall>S \<in> set (resultIndexSets val s). i \<in> S) \<longleftrightarrow>
    (\<forall>c < mTupleSize s. val ! c \<noteq> [] \<longrightarrow>
       i \<in> (case (mIndexSets s ! c) (val ! c) of Some S \<Rightarrow> S
            | None \<Rightarrow> mWildcardIndexSets s ! c))"
    by (fastforce simp: resultIndexSets_def split: option.splits if_splits)
  then show ?thesis using col len by (auto simp: row_matches_def)
qed

lemma resultIndexSets_rows:
  assumes inv: "tuple_set_inv s" and len: "length val = mTupleSize s"
    and S: "S \<in> set (resultIndexSets val s)" and i: "i \<in> S"
  shows "i < length (mImpl s)"
proof -
  from S len obtain c where c: "c < mTupleSize s" "val ! c \<noteq> []"
    "S = (case (mIndexSets s ! c) (val ! c) of Some S \<Rightarrow> S | None \<Rightarrow> mWildcardIndexSets s ! c)"
    by (auto simp: resultIndexSets_def split: option.splits if_splits)
  with i tuple_set_invD(5)[OF inv c(1)] show ?thesis
    by (auto simp: column_ok_wild column_ok_Some split: option.splits)
qed

lemma resultIndexSets_Nil:
  assumes "length val = mTupleSize s"
  shows "resultIndexSets val s = [] \<longleftrightarrow> (\<forall>v \<in> set val. v = [])"
proof -
  have col: "(if v = [] then []
      else case m v of Some S \<Rightarrow> [S] | None \<Rightarrow> [W]) = [] \<longleftrightarrow> v = []"
    for v :: vld and m :: "vld \<rightharpoonup> nat set" and W
    by (cases "m v") auto
  have "resultIndexSets val s = [] \<longleftrightarrow> (\<forall>c < mTupleSize s. val ! c = [])"
    by (simp only: resultIndexSets_def concat_eq_Nil_conv list.set_map ball_simps(9) col)
      (simp add: Ball_def)
  with assms show ?thesis by (simp add: all_set_conv_all_nth)
qed

lemma intersection_matches:
  assumes inv: "tuple_set_inv s" and len: "length val = mTupleSize s"
    and ne: "resultIndexSets val s = S # Ss"
  shows "fold (\<lambda>T S. S \<inter> T) Ss S = {i. i < length (mImpl s) \<and> row_matches val (mImpl s ! i)}"
proof -
  have "fold (\<lambda>T S. S \<inter> T) Ss S = \<Inter> (set (resultIndexSets val s))"
    by (simp add: ne fold_inter)
  also have "\<dots> = {i. i < length (mImpl s) \<and> row_matches val (mImpl s ! i)}"
  proof -
    have "i < length (mImpl s)" if "i \<in> \<Inter> (set (resultIndexSets val s))" for i
      using that ne resultIndexSets_rows[OF inv len, of S i] by auto
    then show ?thesis using mem_resultIndexSets[OF inv len] by blast
  qed
  finally show ?thesis .
qed

lemma row_matches_wild: "\<forall>v \<in> set val. v = [] \<Longrightarrow> row_matches val r"
  by (auto simp: row_matches_def)

lemma FindNormalized_iff:
  assumes inv: "tuple_set_inv s"
  shows "FindNormalized val s \<longleftrightarrow>
    length val = mTupleSize s \<and>
    ((\<forall>v \<in> set val. v = []) \<or> (\<exists>r \<in> set (mImpl s). row_matches val r))"
proof (cases "length val = mTupleSize s")
  case len: True
  show ?thesis
  proof (cases "resultIndexSets val s")
    case Nil
    with len show ?thesis by (simp add: FindNormalized_def resultIndexSets_Nil[symmetric])
  next
    case (Cons S Ss)
    then have "\<not> (\<forall>v \<in> set val. v = [])"
      using resultIndexSets_Nil[OF len] by simp
    moreover have "FindNormalized val s \<longleftrightarrow>
        {i. i < length (mImpl s) \<and> row_matches val (mImpl s ! i)} \<noteq> {}"
      using Cons len intersection_matches[OF inv len Cons] by (simp add: FindNormalized_def)
    moreover have "\<dots> \<longleftrightarrow> (\<exists>r \<in> set (mImpl s). row_matches val r)"
      by (auto simp: Bex_def in_set_conv_nth)
    ultimately show ?thesis using len by blast
  qed
qed (simp add: FindNormalized_def)

lemma FindMatchingTuples_rows:
  assumes inv: "tuple_set_inv s" and len: "length val = mTupleSize s"
  shows "snd (FindMatchingTuples val s R) =
    {i. i < length (mImpl s) \<and> row_matches val (mImpl s ! i)}"
proof (cases "resultIndexSets val s")
  case Nil
  with resultIndexSets_Nil[OF len] row_matches_wild[of val] len show ?thesis
    by (auto simp: FindMatchingTuples_def)
next
  case (Cons S Ss)
  with len intersection_matches[OF inv len Cons] show ?thesis
    by (simp add: FindMatchingTuples_def Let_def)
qed

subsection \<open>Insertion keeps the index\<close>

lemma empty_tuple_set_simps [simp]:
  "tuple_set_inv empty_tuple_set" "mImpl empty_tuple_set = []" "mTupleSize empty_tuple_set = 0"
  by (simp_all add: tuple_set_inv_def empty_tuple_set_def)

lemma SetTupleSize_simps [simp]:
  "mTupleSize (SetTupleSize n s) = max n (mTupleSize s)"
  "length (mImpl (SetTupleSize n s)) = length (mImpl s)"
  by (auto simp: SetTupleSize_def)

lemma mImpl_SetTupleSize:
  "mImpl (SetTupleSize n s) =
     (if mTupleSize s < n then map (vec_resize n []) (mImpl s) else mImpl s)"
  by (simp add: SetTupleSize_def)

lemma column_ok_new:
  "(\<And>r. r \<in> set rows \<Longrightarrow> r ! c = []) \<Longrightarrow> column_ok rows c Map.empty {0..<length rows}"
  by (rule column_okI) auto

lemma column_ok_cong:
  "length rows' = length rows \<Longrightarrow> (\<And>i. i < length rows \<Longrightarrow> rows' ! i ! c = rows ! i ! c) \<Longrightarrow>
     column_ok rows c m W \<Longrightarrow> column_ok rows' c m W"
  by (rule column_okI) (auto simp: column_ok_wild column_ok_Some column_ok_None)

lemma SetTupleSize_inv:
  assumes inv: "tuple_set_inv s"
  shows "tuple_set_inv (SetTupleSize n s)"
proof (cases "mTupleSize s < n")
  case grow: True
  let ?rows = "map (vec_resize n []) (mImpl s)"
  show ?thesis
  proof (rule tuple_set_invI)
    fix c
    assume "c < mTupleSize (SetTupleSize n s)"
    with grow have c: "c < n" by simp
    have cell: "?rows ! i ! c = (if c < mTupleSize s then mImpl s ! i ! c else [])"
      if "i < length (mImpl s)" for i
      using that c tuple_set_invD(4)[OF inv that] by (simp add: nth_vec_resize)
    have wild: "mWildcardIndexSets (SetTupleSize n s) ! c =
        (if c < mTupleSize s then mWildcardIndexSets s ! c else {0..<length (mImpl s)})"
      using grow c tuple_set_invD(2)[OF inv]
      by (simp add: SetTupleSize_def fold_insert_set nth_vec_resize
        nth_fold_list_update[where f = "\<lambda>c A. A \<union> {0..<length (mImpl s)}"])
    have idx: "mIndexSets (SetTupleSize n s) ! c =
        (if c < mTupleSize s then mIndexSets s ! c else Map.empty)"
      using grow c tuple_set_invD(1)[OF inv] by (simp add: SetTupleSize_def nth_vec_resize)
    show "column_ok (mImpl (SetTupleSize n s)) c (mIndexSets (SetTupleSize n s) ! c)
        (mWildcardIndexSets (SetTupleSize n s) ! c)"
    proof (cases "c < mTupleSize s")
      case True
      with tuple_set_invD(5)[OF inv True] cell grow show ?thesis
        by (simp only: wild idx if_True mImpl_SetTupleSize) (auto intro: column_ok_cong)
    next
      case False
      with cell grow have "\<And>r. r \<in> set ?rows \<Longrightarrow> r ! c = []"
        by (auto simp: in_set_conv_nth)
      then have "column_ok ?rows c Map.empty {0..<length ?rows}"
        by (rule column_ok_new)
      with False grow show ?thesis
        by (simp only: wild idx if_False mImpl_SetTupleSize) simp
    qed
  qed (use grow inv in \<open>auto simp: SetTupleSize_def\<close>)
qed (use inv in \<open>simp add: SetTupleSize_def\<close>)

text \<open>One column, after the row \<open>t\<close> has been appended.\<close>

lemma column_ok_add:
  assumes ok: "column_ok rows c m W"
  shows "column_ok (rows @ [t]) c (column_values_add (t ! c) (length rows) W m)
           (if t ! c = [] then insert (length rows) W else W)"
proof (rule column_okI)
  fix i
  show "i \<in> (if t ! c = [] then insert (length rows) W else W) \<longleftrightarrow>
      i < length (rows @ [t]) \<and> (rows @ [t]) ! i ! c = []"
    using column_ok_wild[OF ok, of i] by (auto simp: nth_append less_Suc_eq)
next
  fix v S i
  assume v: "v \<noteq> []" and S: "column_values_add (t ! c) (length rows) W m v = Some S"
  show "i \<in> S \<longleftrightarrow> i < length (rows @ [t]) \<and>
      ((rows @ [t]) ! i ! c = v \<or> (rows @ [t]) ! i ! c = [])"
  proof (cases "m v")
    case None
    have "i < length rows \<Longrightarrow> rows ! i ! c \<noteq> v" using column_ok_None[OF ok v None] .
    with None S v column_ok_wild[OF ok, of i] show ?thesis
      by (auto simp: column_values_add_def Let_def nth_append less_Suc_eq
               split: if_splits option.splits)
  next
    case (Some T)
    with S v column_ok_Some[OF ok v Some, of i] column_ok_wild[OF ok, of i] show ?thesis
      by (auto simp: column_values_add_def Let_def nth_append less_Suc_eq
               split: if_splits option.splits)
  qed
next
  fix v i
  assume "v \<noteq> []" "column_values_add (t ! c) (length rows) W m v = None"
    "i < length (rows @ [t])"
  with column_ok_None[OF ok, of v i] show "(rows @ [t]) ! i ! c \<noteq> v"
    by (auto simp: column_values_add_def Let_def nth_append less_Suc_eq
             split: if_splits option.splits)
qed

text \<open>The loop over the columns, as an update of each column on its own.\<close>

lemma fold_AddColumn:
  fixes t row s n
  assumes "length (mIndexSets s) = length (mWildcardIndexSets s)" "n \<le> length (mIndexSets s)"
  defines "s' \<equiv> fold (\<lambda>col. AddColumnValueToIndexSets (t ! col) row col) [0..<n] s"
  shows "mTupleSize s' = mTupleSize s \<and> mImpl s' = mImpl s \<and>
    length (mIndexSets s') = length (mIndexSets s) \<and>
    length (mWildcardIndexSets s') = length (mWildcardIndexSets s) \<and>
    (\<forall>c < length (mIndexSets s).
       mIndexSets s' ! c = (if c < n then column_values_add (t ! c) row
           (mWildcardIndexSets s ! c) (mIndexSets s ! c) else mIndexSets s ! c) \<and>
       mWildcardIndexSets s' ! c = (if c < n \<and> t ! c = []
           then insert row (mWildcardIndexSets s ! c) else mWildcardIndexSets s ! c))"
  using assms(1,2) unfolding s'_def
proof (induction n)
  case 0
  then show ?case by simp
next
  case (Suc n)
  then show ?case
    by (simp add: AddColumnValueToIndexSets_def Let_def nth_list_update less_Suc_eq)
qed

lemma TupleSet_Insert_rows:
  "mImpl (TupleSet_Insert t s) = mImpl (SetTupleSize (length t) s) @ [t]"
proof -
  have "mImpl (fold (\<lambda>col. AddColumnValueToIndexSets (t ! col) row col) cs s2) = mImpl s2"
    for row cs s2
    by (induction cs arbitrary: s2) (simp_all add: AddColumnValueToIndexSets_def Let_def)
  then show ?thesis by (simp add: TupleSet_Insert_def Let_def)
qed

lemma TupleSet_Insert_size: "mTupleSize (TupleSet_Insert t s) = max (length t) (mTupleSize s)"
proof -
  have "mTupleSize (fold (\<lambda>col. AddColumnValueToIndexSets (t ! col) row col) cs s2) = mTupleSize s2"
    for row cs s2
    by (induction cs arbitrary: s2) (simp_all add: AddColumnValueToIndexSets_def Let_def)
  then show ?thesis by (simp add: TupleSet_Insert_def Let_def)
qed

lemma TupleSet_Insert_inv:
  assumes inv: "tuple_set_inv s" and len: "mTupleSize s \<le> length t"
  shows "tuple_set_inv (TupleSet_Insert t s)"
proof -
  let ?s1 = "SetTupleSize (length t) s"
  let ?s2 = "?s1\<lparr>mImpl := mImpl ?s1 @ [t]\<rparr>"
  let ?row = "length (mImpl ?s1)"
  have inv1: "tuple_set_inv ?s1" by (rule SetTupleSize_inv[OF inv])
  have size: "mTupleSize ?s1 = length t" using len by simp
  have lens: "length (mIndexSets ?s2) = length t" "length (mWildcardIndexSets ?s2) = length t"
    using tuple_set_invD(1,2)[OF inv1] size by simp_all
  have eq: "TupleSet_Insert t s =
      fold (\<lambda>col. AddColumnValueToIndexSets (t ! col) ?row col) [0..<length t] ?s2"
    by (simp add: TupleSet_Insert_def Let_def)
  note loop = fold_AddColumn[of ?s2 "length t" t ?row, folded eq, simplified lens, simplified]
  show ?thesis
  proof (rule tuple_set_invI)
    fix c
    assume "c < mTupleSize (TupleSet_Insert t s)"
    then have c: "c < length t" using loop size by simp
    with loop column_ok_add[OF tuple_set_invD(5)[OF inv1], of c t] size
    show "column_ok (mImpl (TupleSet_Insert t s)) c (mIndexSets (TupleSet_Insert t s) ! c)
        (mWildcardIndexSets (TupleSet_Insert t s) ! c)"
      by (cases "t ! c = []") simp_all
  qed (use loop size tuple_set_invD(3)[OF inv1] in \<open>auto\<close>)
qed

subsection \<open>Erasing a row\<close>

lemma mem_shift_rows:
  "i \<in> shift_rows row S \<longleftrightarrow> (if i < row then i \<in> S else Suc i \<in> S)"
proof (cases "i < row")
  case True
  then show ?thesis by (auto simp: shift_rows_def)
next
  case False
  then show ?thesis
    by (auto simp: shift_rows_def image_iff intro!: bexI[of _ "Suc i"])
qed

text \<open>
  One column when row \<open>k\<close> goes: the value index always stays right; the wildcard index does
  when no later row has a wildcard in the column.
\<close>

lemma column_ok_remove:
  assumes ok: "column_ok rows c m W" and k: "k < length rows"
    and nowild: "\<And>i. k < i \<Longrightarrow> i < length rows \<Longrightarrow> rows ! i ! c \<noteq> []"
  shows "column_ok (vec_erase k rows) c
    (\<lambda>v. case m v of None \<Rightarrow> None
      | Some S \<Rightarrow> (if shift_rows k S = {} then None else Some (shift_rows k S))) (W - {k})"
proof (rule column_okI)
  fix i
  show "i \<in> W - {k} \<longleftrightarrow> i < length (vec_erase k rows) \<and> vec_erase k rows ! i ! c = []"
  proof (cases "i < length rows - 1")
    case True
    with k nowild[of i] nowild[of "Suc i"] column_ok_wild[OF ok, of i] show ?thesis
      by (cases "i < k"; cases "i = k") (auto simp: length_vec_erase nth_vec_erase)
  next
    case False
    with k nowild[of i] column_ok_wild[OF ok, of i] show ?thesis
      by (cases "i = k") (auto simp: length_vec_erase)
  qed
next
  fix v S i
  assume v: "v \<noteq> []" and S: "(case m v of None \<Rightarrow> None
      | Some S \<Rightarrow> (if shift_rows k S = {} then None else Some (shift_rows k S))) = Some S"
  then obtain T where T: "m v = Some T" "S = shift_rows k T"
    by (auto split: option.splits if_splits)
  show "i \<in> S \<longleftrightarrow> i < length (vec_erase k rows) \<and>
      (vec_erase k rows ! i ! c = v \<or> vec_erase k rows ! i ! c = [])"
    using T k column_ok_Some[OF ok v T(1), of i] column_ok_Some[OF ok v T(1), of "Suc i"]
    by (cases "i < length rows - 1") (auto simp: mem_shift_rows length_vec_erase nth_vec_erase)
next
  fix v i
  assume v: "v \<noteq> []" and None: "(case m v of None \<Rightarrow> None
      | Some S \<Rightarrow> (if shift_rows k S = {} then None else Some (shift_rows k S))) = None"
    and "i < length (vec_erase k rows)"
  then have i: "i < length rows - 1" using k by (simp add: length_vec_erase)
  show "vec_erase k rows ! i ! c \<noteq> v"
  proof (cases "m v")
    case None
    with i k column_ok_None[OF ok v None] show ?thesis by (simp add: nth_vec_erase)
  next
    case (Some T)
    with None have "i \<notin> shift_rows k T" by (auto split: if_splits)
    with i k Some column_ok_Some[OF ok v Some, of i] column_ok_Some[OF ok v Some, of "Suc i"]
    show ?thesis by (auto simp: mem_shift_rows nth_vec_erase split: if_splits)
  qed
qed

lemma fold_RemoveRow:
  fixes s row n
  assumes "length (mIndexSets s) = length (mWildcardIndexSets s)" "n \<le> length (mIndexSets s)"
  defines "s' \<equiv> fold (\<lambda>col. RemoveRowFromIndexSets row col) [0..<n] s"
  shows "mTupleSize s' = mTupleSize s \<and> mImpl s' = mImpl s \<and>
    length (mIndexSets s') = length (mIndexSets s) \<and>
    length (mWildcardIndexSets s') = length (mWildcardIndexSets s) \<and>
    (\<forall>c < length (mIndexSets s).
       mIndexSets s' ! c = (if c < n then (\<lambda>v. case (mIndexSets s ! c) v of None \<Rightarrow> None
         | Some S \<Rightarrow> (if shift_rows row S = {} then None else Some (shift_rows row S)))
         else mIndexSets s ! c) \<and>
       mWildcardIndexSets s' ! c = (if c < n
           then mWildcardIndexSets s ! c - {row} else mWildcardIndexSets s ! c))"
  using assms(1,2) unfolding s'_def
proof (induction n)
  case 0
  then show ?case by simp
next
  case (Suc n)
  then show ?case by (simp add: RemoveRowFromIndexSets_def nth_list_update less_Suc_eq)
qed

lemma TupleSet_Erase_rows:
  "mImpl (snd (TupleSet_Erase ref s)) =
     (case first_index (\<lambda>tuple. tuple = ref) (mImpl s) of
        None \<Rightarrow> mImpl s | Some k \<Rightarrow> vec_erase k (mImpl s))"
proof -
  have "mImpl (fold (\<lambda>col. RemoveRowFromIndexSets row col) cs s2) = mImpl s2" for row cs s2
    by (induction cs arbitrary: s2) (simp_all add: RemoveRowFromIndexSets_def)
  then show ?thesis by (simp add: TupleSet_Erase_def split: option.split)
qed

lemma TupleSet_Erase_size [simp]: "mTupleSize (snd (TupleSet_Erase ref s)) = mTupleSize s"
proof -
  have "mTupleSize (fold (\<lambda>col. RemoveRowFromIndexSets row col) cs s2) = mTupleSize s2"
    for row cs s2
    by (induction cs arbitrary: s2) (simp_all add: RemoveRowFromIndexSets_def)
  then show ?thesis by (simp add: TupleSet_Erase_def split: option.split)
qed

lemma TupleSet_Erase_inv:
  assumes inv: "tuple_set_inv s" and k: "first_index (\<lambda>tuple. tuple = ref) (mImpl s) = Some k"
    and nowild: "\<And>i. k < i \<Longrightarrow> i < length (mImpl s) \<Longrightarrow> [] \<notin> set (mImpl s ! i)"
  shows "tuple_set_inv (snd (TupleSet_Erase ref s))"
proof -
  from first_index_Some[OF k] have kl: "k < length (mImpl s)" and ref: "mImpl s ! k = ref"
    by auto
  then have len: "length ref = mTupleSize s" using tuple_set_invD(4)[OF inv] by auto
  let ?s1 = "s\<lparr>mImpl := vec_erase k (mImpl s)\<rparr>"
  let ?s' = "snd (TupleSet_Erase ref s)"
  have eq: "?s' = fold (\<lambda>col. RemoveRowFromIndexSets k col) [0..<length ref] ?s1"
    by (simp add: TupleSet_Erase_def k)
  note loop = fold_RemoveRow[of ?s1 "length ref" k, folded eq, simplified
      tuple_set_invD(1,2)[OF inv] len, simplified]
  show ?thesis
  proof (rule tuple_set_invI)
    fix c
    assume "c < mTupleSize ?s'"
    then have c: "c < mTupleSize s" using loop tuple_set_invD(1,2)[OF inv] len by simp
    have "mImpl s ! i ! c \<noteq> []" if "k < i" "i < length (mImpl s)" for i
      using nowild[OF that] tuple_set_invD(4)[OF inv that(2)] c by (metis nth_mem)
    from column_ok_remove[OF tuple_set_invD(5)[OF inv c] kl this]
    show "column_ok (mImpl ?s') c (mIndexSets ?s' ! c) (mWildcardIndexSets ?s' ! c)"
      using loop c tuple_set_invD(1,2)[OF inv] len by simp
  next
    fix r assume "r \<in> set (mImpl ?s')"
    then show "length r = mTupleSize ?s'"
      using loop tuple_set_invD[OF inv] len set_vec_erase_subset[of k "mImpl s"] by auto
  qed (use loop tuple_set_invD(1,2)[OF inv] len in \<open>auto\<close>)
qed

subsection \<open>The interface of the filter index\<close>

text \<open>
  What \<open>InteractionClass\<close> relies on: an index of rows that can be inserted and widened,
  whose search finds a row that matches.
\<close>

locale filter_index =
  fixes new :: "'s" and ins :: "vld_tuple \<Rightarrow> 's \<Rightarrow> 's" and widen :: "nat \<Rightarrow> 's \<Rightarrow> 's"
    and search :: "vld_tuple \<Rightarrow> 's \<Rightarrow> bool" and width :: "'s \<Rightarrow> nat"
    and rows :: "'s \<Rightarrow> vld_tuple list" and inv :: "'s \<Rightarrow> bool"
  assumes inv_new: "inv new" and rows_new: "rows new = []" and width_new: "width new = 0"
    and inv_ins: "inv s \<Longrightarrow> width s \<le> length t \<Longrightarrow> inv (ins t s)"
    and width_ins: "width (ins t s) = max (length t) (width s)"
    and rows_ins: "inv s \<Longrightarrow> width s \<le> length t \<Longrightarrow>
          rows (ins t s) = map (vec_resize (length t) []) (rows s) @ [t]"
    and inv_widen: "inv s \<Longrightarrow> inv (widen n s)"
    and width_widen: "width (widen n s) = max n (width s)"
    and rows_widen: "inv s \<Longrightarrow> width s \<le> n \<Longrightarrow>
          rows (widen n s) = map (vec_resize n []) (rows s)"
    and rows_width: "inv s \<Longrightarrow> r \<in> set (rows s) \<Longrightarrow> length r = width s"
    and search: "inv s \<Longrightarrow> search val s \<longleftrightarrow> length val = width s \<and>
          ((\<forall>v \<in> set val. v = []) \<or> (\<exists>r \<in> set (rows s). row_matches val r))"
begin

lemma search_wrong_width: "inv s \<Longrightarrow> length val \<noteq> width s \<Longrightarrow> \<not> search val s"
  by (simp add: search)

lemma search_nonempty:
  assumes "inv s" "rows s \<noteq> []" "length val = width s"
  shows "search val s \<longleftrightarrow> (\<exists>r \<in> set (rows s). row_matches val r)"
proof (cases "\<forall>v \<in> set val. v = []")
  case True
  with assms(2) row_matches_wild[OF True] show ?thesis
    by (auto simp: search assms(1,3) neq_Nil_conv)
qed (auto simp: search assms(1,3))

lemma search_ins:
  assumes s: "inv s" "width s \<le> length t" and val: "length val = length t"
  shows "search val (ins t s) \<longleftrightarrow>
    row_matches val t \<or> (\<exists>r \<in> set (rows s). row_matches val (vec_resize (length t) [] r))"
  using search_nonempty[OF inv_ins[OF s], of val] s val by (auto simp: rows_ins width_ins)

end

lemma vec_resize_same [simp]: "n = length xs \<Longrightarrow> vec_resize n x xs = xs"
  by (simp add: vec_resize_def)

lemma map_vec_resize_same: "(\<And>r. r \<in> set rs \<Longrightarrow> length r = n) \<Longrightarrow> map (vec_resize n x) rs = rs"
  by (rule map_idI) simp

interpretation ts: filter_index empty_tuple_set TupleSet_Insert SetTupleSize FindNormalized
  mTupleSize mImpl tuple_set_inv
proof unfold_locales
  fix s :: tuple_set and t :: vld_tuple and n :: nat and r val
  assume inv: "tuple_set_inv s"
  show "mTupleSize s \<le> length t \<Longrightarrow> tuple_set_inv (TupleSet_Insert t s)"
    by (rule TupleSet_Insert_inv[OF inv])
  show rows: "mImpl (SetTupleSize n s) = map (vec_resize n []) (mImpl s)" if "mTupleSize s \<le> n"
    for n
    using that map_vec_resize_same[of "mImpl s" n "[]"] tuple_set_invD(3)[OF inv]
    by (auto simp: mImpl_SetTupleSize)
  then show "mTupleSize s \<le> length t \<Longrightarrow>
      mImpl (TupleSet_Insert t s) = map (vec_resize (length t) []) (mImpl s) @ [t]"
    by (simp add: TupleSet_Insert_rows)
  show "tuple_set_inv (SetTupleSize n s)" by (rule SetTupleSize_inv[OF inv])
  show "r \<in> set (mImpl s) \<Longrightarrow> length r = mTupleSize s" by (rule tuple_set_invD(3)[OF inv])
  show "FindNormalized val s \<longleftrightarrow> length val = mTupleSize s \<and>
      ((\<forall>v \<in> set val. v = []) \<or> (\<exists>r \<in> set (mImpl s). row_matches val r))"
    by (rule FindNormalized_iff[OF inv])
qed (simp_all add: TupleSet_Insert_size)

subsection \<open>Properties\<close>

text \<open>The index states that the code builds without erasing rows.\<close>

inductive built :: "tuple_set \<Rightarrow> bool" where
  built_empty: "built empty_tuple_set"
| built_insert: "built s \<Longrightarrow> mTupleSize s \<le> length t \<Longrightarrow> built (TupleSet_Insert t s)"
| built_widen: "built s \<Longrightarrow> built (SetTupleSize n s)"

lemma built_inv: "built s \<Longrightarrow> tuple_set_inv s"
  by (induction rule: built.induct) (auto intro: ts.inv_ins ts.inv_widen)

text \<open>
  C18: In every state that insertions and widenings build, the index search of
  \<open>FindNormalized\<close> gives what a linear search over the rows with wildcards gives, with one
  exception: a value tuple of the current width is found exactly when some row agrees with it in every
  column where neither is a wildcard, or when it consists of wildcards only. Such a tuple, also the one
  of width 0, is found even in a table without rows, where a linear search finds nothing and where the
  comment on the function, which asks for an existing tuple, has it not found.
\<close>

theorem FindNormalized_refines_linear_search:
  assumes "built s"
  shows "FindNormalized val s \<longleftrightarrow> length val = mTupleSize s \<and>
    ((\<forall>v \<in> set val. v = []) \<or> (\<exists>r \<in> set (mImpl s). row_matches val r))"
  by (rule FindNormalized_iff[OF built_inv[OF assms]])

definition example_index :: tuple_set where
  "example_index = TupleSet_Insert [[], [7]] (TupleSet_Insert [[1], [2]] empty_tuple_set)"

lemma example_index_built: "built example_index"
  unfolding example_index_def
  by (intro built.intros) (simp_all add: TupleSet_Insert_size)

theorem FindNormalized_refines_linear_search_witness:
  "built example_index \<and>
   (FindNormalized [[9], [7]] example_index \<longleftrightarrow> length [[9], [7]] = mTupleSize example_index \<and>
    ((\<forall>v \<in> set [[9], [7]]. v = ([] :: vld)) \<or>
     (\<exists>r \<in> set (mImpl example_index). row_matches [[9], [7]] r)))"
  using FindNormalized_refines_linear_search[OF example_index_built] example_index_built by simp

text \<open>
  C31: Erasing a row breaks the search: \<open>RemoveRowFromIndexSets\<close> moves the rows behind the
  erased one up in the value index but not in the wildcard index. With the rows \<open>(x, y)\<close>
  and \<open>(*, z)\<close>, after \<open>(x, y)\<close> is erased the only row left matches the tuple
  \<open>(q, z)\<close>, and the search does not find it.
\<close>

theorem Erase_leaves_stale_wildcards:
  assumes "x \<noteq> []" "z \<noteq> []" "q \<noteq> []" "q \<noteq> x" "y \<noteq> z" "y \<noteq> []"
  defines "s \<equiv> TupleSet_Insert [[], z] (TupleSet_Insert [x, y] empty_tuple_set)"
  shows "mImpl (snd (TupleSet_Erase [x, y] s)) = [[[], z]] \<and>
    row_matches [q, z] [[], z] \<and> \<not> FindNormalized [q, z] (snd (TupleSet_Erase [x, y] s))"
proof -
  have "s = \<lparr>mTupleSize = 2, mImpl = [[x, y], [[], z]],
      mIndexSets = [[x \<mapsto> {0, 1}, [] \<mapsto> {1}], [y \<mapsto> {0}, z \<mapsto> {1}]],
      mWildcardIndexSets = [{1}, {}]\<rparr>"
    using assms(1-6)
    by (auto simp: s_def TupleSet_Insert_def SetTupleSize_def empty_tuple_set_def Let_def
        AddColumnValueToIndexSets_def column_values_add_def vec_resize_def upt_rec fun_eq_iff)
  moreover have "shift_rows 0 {0, 1} = {0}" "shift_rows 0 {Suc 0} = {0}" "shift_rows 0 {0} = {}"
    by (auto simp: shift_rows_def)
  ultimately show ?thesis
    using assms(1-6)
    by (simp add: TupleSet_Erase_def RemoveRowFromIndexSets_def vec_erase_def upt_rec
        FindNormalized_def resultIndexSets_def row_matches_def nth_Cons')
qed

theorem Erase_leaves_stale_wildcards_witness:
  "mImpl (snd (TupleSet_Erase [[1], [2]] example_index)) = [[[], [7]]] \<and>
   row_matches [[9], [7]] [[], [7]] \<and>
   \<not> FindNormalized [[9], [7]] (snd (TupleSet_Erase [[1], [2]] example_index))"
  using Erase_leaves_stale_wildcards[of "[1]" "[7]" "[9]" "[2]"]
  by (simp add: example_index_def)

lemma vec_erase_first: "first_index (\<lambda>t. t = x) xs = Some k \<Longrightarrow> vec_erase k xs = remove1 x xs"
proof (induction xs arbitrary: k)
  case Nil
  then show ?case by simp
next
  case (Cons y ys)
  then show ?case by (auto simp: vec_erase_def split: if_splits)
qed

text \<open>
  \<open>Erase\<close> removes the first row equal to the tuple and reports whether there was one;
  when no row behind it has a wildcard, the search over what is left is again exact.
\<close>

theorem Erase_exact_without_later_wildcards:
  assumes "built s"
    and "\<And>k i. first_index (\<lambda>t. t = ref) (mImpl s) = Some k \<Longrightarrow> k < i \<Longrightarrow>
           i < length (mImpl s) \<Longrightarrow> [] \<notin> set (mImpl s ! i)"
  shows "mImpl (snd (TupleSet_Erase ref s)) = remove1 ref (mImpl s) \<and>
    fst (TupleSet_Erase ref s) = (ref \<in> set (mImpl s)) \<and>
    (FindNormalized val (snd (TupleSet_Erase ref s)) \<longleftrightarrow>
       length val = mTupleSize (snd (TupleSet_Erase ref s)) \<and>
       ((\<forall>v \<in> set val. v = []) \<or> (\<exists>r \<in> set (remove1 ref (mImpl s)). row_matches val r)))"
proof (cases "first_index (\<lambda>t. t = ref) (mImpl s)")
  case None
  then have "ref \<notin> set (mImpl s)" by (auto simp: first_index_None)
  with None show ?thesis
    using FindNormalized_iff[OF built_inv[OF assms(1)]]
    by (simp add: TupleSet_Erase_def remove1_idem)
next
  case (Some k)
  then have rows: "mImpl (snd (TupleSet_Erase ref s)) = remove1 ref (mImpl s)"
    by (simp add: TupleSet_Erase_rows vec_erase_first)
  have "tuple_set_inv (snd (TupleSet_Erase ref s))"
    using TupleSet_Erase_inv[OF built_inv[OF assms(1)] Some] assms(2)[OF Some] by blast
  moreover have "ref \<in> set (mImpl s)" using first_index_Some[OF Some] by auto
  ultimately show ?thesis
    using Some rows by (simp add: FindNormalized_iff) (simp add: TupleSet_Erase_def)
qed

theorem Erase_exact_without_later_wildcards_witness:
  "mImpl (snd (TupleSet_Erase [[], [7]] example_index)) = remove1 [[], [7]] (mImpl example_index) \<and>
   FindNormalized [[1], [2]] (snd (TupleSet_Erase [[], [7]] example_index))"
proof -
  have rows: "mImpl example_index = [[[1], [2]], [[], [7]]]"
    by (simp add: example_index_def TupleSet_Insert_rows TupleSet_Insert_size mImpl_SetTupleSize
        vec_resize_def)
  have size: "mTupleSize example_index = 2"
    by (simp add: example_index_def TupleSet_Insert_size)
  have "first_index (\<lambda>t. t = [[], [7]]) (mImpl example_index) = Some 1" by (simp add: rows)
  then have "[] \<notin> set (mImpl example_index ! i)"
    if "first_index (\<lambda>t. t = [[], [7]]) (mImpl example_index) = Some k" "k < i"
      "i < length (mImpl example_index)" for k i
    using that rows by simp
  from Erase_exact_without_later_wildcards[where ref = "[[], [7]]" and val = "[[1], [2]]",
      OF example_index_built this]
  show ?thesis by (simp add: size) (simp add: rows row_matches_def)
qed

end
