(* ===== verification/Interaction_Filter.thy ===== *)
theory Interaction_Filter
  imports Tuple_Set
begin

text \<open>
  The interaction filters of \<open>ServerModel::InteractionClass\<close> (\<open>src/OpenRTI/ServerModel.cpp\<close>):
  the parameters ever named in a filter form the key prototype, each connection has a
  \<open>VariableLengthDataTupleSet\<close> of rows over it, and a message is normalised to the prototype
  before the search.
\<close>

type_synonym ParameterHandle = u32
type_synonym ConnectHandle = u32
type_synonym ParameterValueVector = "(ParameterHandle \<times> vld) list"

record interaction_filters =
  parameterFilterKeyPrototype :: "ParameterHandle list"
  parameterFiltersByConnect :: "ConnectHandle \<rightharpoonup> tuple_set"

definition no_filters :: interaction_filters where
  "no_filters = \<lparr>parameterFilterKeyPrototype = [], parameterFiltersByConnect = Map.empty\<rparr>"

subsection \<open>The operations\<close>

definition NormalizeFilterValues ::
    "ParameterHandle list \<Rightarrow> ParameterValueVector \<Rightarrow> ParameterHandle list \<times> vld_tuple" where
  "NormalizeFilterValues proto parameterFilters =
     (map (\<lambda>filterKey. case find (\<lambda>pv. fst pv = filterKey) parameterFilters of
              None \<Rightarrow> invalid_handle | Some _ \<Rightarrow> filterKey) proto,
      map (\<lambda>filterKey. case find (\<lambda>pv. fst pv = filterKey) parameterFilters of
              None \<Rightarrow> [] | Some pv \<Rightarrow> snd pv) proto)"

text \<open>The loop that both \<open>AddParameterFilterValues\<close> and \<open>RemoveParameterFilterValues\<close> start with.\<close>

definition extend_prototype ::
    "ParameterValueVector \<Rightarrow> ParameterHandle list \<Rightarrow> ParameterHandle list" where
  "extend_prototype = fold (\<lambda>item proto.
     if list_ex (\<lambda>h. h = fst item) proto then proto else proto @ [fst item])"

definition AddParameterFilterValues ::
    "ParameterHandle list \<Rightarrow> tuple_set \<Rightarrow> ParameterValueVector
      \<Rightarrow> bool \<times> ParameterHandle list \<times> tuple_set" where
  "AddParameterFilterValues proto filterValueTuples parameterFilters =
     (let proto' = extend_prototype parameterFilters proto;
          filterValueTuple = snd (NormalizeFilterValues proto' parameterFilters)
      in if \<not> TupleSet_Contains filterValueTuple filterValueTuples
         then (True, proto', TupleSet_Insert filterValueTuple filterValueTuples)
         else (False, proto', filterValueTuples))"

definition RemoveParameterFilterValues ::
    "ParameterHandle list \<Rightarrow> tuple_set \<Rightarrow> ParameterValueVector
      \<Rightarrow> bool \<times> ParameterHandle list \<times> tuple_set" where
  "RemoveParameterFilterValues proto filterValueTuples parameterFilters =
     (let proto' = extend_prototype parameterFilters proto;
          filterValueTuple = snd (NormalizeFilterValues proto' parameterFilters)
      in if TupleSet_Contains filterValueTuple filterValueTuples
         then (True, proto', snd (TupleSet_Erase filterValueTuple filterValueTuples))
         else (False, proto', filterValueTuples))"

text \<open>
  \<open>None\<close> is the undefined behaviour of the source: with \<open>remove\<close> set and no entry for the
  connection, the code dereferences the end iterator of the map.
\<close>

definition updateParameterFilterValues ::
    "ConnectHandle \<Rightarrow> ParameterValueVector \<Rightarrow> bool \<Rightarrow> interaction_filters
      \<Rightarrow> (bool \<times> interaction_filters) option" where
  "updateParameterFilterValues connectHandle parameterFilters remove ic =
     (if \<not> handle_valid connectHandle then Some (False, ic)
      else case parameterFiltersByConnect ic connectHandle of
        None \<Rightarrow>
          (if \<not> remove then
             (let (_, proto, newSet) = AddParameterFilterValues (parameterFilterKeyPrototype ic)
                    empty_tuple_set parameterFilters
              in Some (True, ic\<lparr>parameterFilterKeyPrototype := proto,
                   parameterFiltersByConnect :=
                     (parameterFiltersByConnect ic)(connectHandle \<mapsto> newSet)\<rparr>))
           else None)
      | Some existing \<Rightarrow>
          (if remove then
             (let (result, proto, existing') = RemoveParameterFilterValues
                    (parameterFilterKeyPrototype ic) existing parameterFilters;
                  m = (parameterFiltersByConnect ic)(connectHandle \<mapsto> existing')
              in Some (result, ic\<lparr>parameterFilterKeyPrototype := proto,
                   parameterFiltersByConnect :=
                     (if parameterFilters = [] then m(connectHandle := None) else m)\<rparr>))
           else
             (let (result, proto, existing') = AddParameterFilterValues
                    (parameterFilterKeyPrototype ic) existing parameterFilters;
                  m = (parameterFiltersByConnect ic)(connectHandle \<mapsto> existing')
              in Some (result, ic\<lparr>parameterFilterKeyPrototype := proto,
                   parameterFiltersByConnect := (\<lambda>c. if c \<noteq> connectHandle
                     then map_option (SetTupleSize (length proto)) (m c) else m c)\<rparr>))))"

definition clearParameterFilters ::
    "ConnectHandle \<Rightarrow> interaction_filters \<Rightarrow> bool \<times> interaction_filters" where
  "clearParameterFilters connectHandle ic =
     (if \<not> handle_valid connectHandle then (False, ic)
      else case parameterFiltersByConnect ic connectHandle of
        Some _ \<Rightarrow> (True, ic\<lparr>parameterFiltersByConnect :=
                      (parameterFiltersByConnect ic)(connectHandle := None)\<rparr>)
      | None \<Rightarrow> (False, ic))"

definition hasFilterSubscriptions :: "ConnectHandle \<Rightarrow> interaction_filters \<Rightarrow> bool" where
  "hasFilterSubscriptions connectHandle ic =
     (if \<not> handle_valid connectHandle then False
      else parameterFiltersByConnect ic connectHandle \<noteq> None)"

definition isMatching :: "ConnectHandle \<Rightarrow> ParameterValueVector \<Rightarrow> interaction_filters \<Rightarrow> bool" where
  "isMatching connectHandle parameterValues ic =
     (case parameterFiltersByConnect ic connectHandle of
        None \<Rightarrow> True
      | Some parameterFilterMap \<Rightarrow>
          (if mImpl parameterFilterMap = [] then True
           else FindNormalized
                  (snd (NormalizeFilterValues (parameterFilterKeyPrototype ic) parameterValues))
                  parameterFilterMap))"

definition getParameterFilterPrototype :: "interaction_filters \<Rightarrow> ParameterValueVector" where
  "getParameterFilterPrototype ic = map (\<lambda>h. (h, [])) (parameterFilterKeyPrototype ic)"

text \<open>
  Writing the values of a row over the prototype; a row longer than the prototype would
  run past the end of the vector (\<open>None\<close>).
\<close>

fun fill_values :: "ParameterValueVector \<Rightarrow> vld_tuple \<Rightarrow> ParameterValueVector option" where
  "fill_values pvs [] = Some pvs"
| "fill_values [] (v # vs) = None"
| "fill_values (p # pvs) (v # vs) = map_option ((#) (fst p, v)) (fill_values pvs vs)"

definition getParameterFilters ::
    "ConnectHandle \<Rightarrow> interaction_filters \<Rightarrow> ParameterValueVector list option" where
  "getParameterFilters connectHandle ic =
     (case parameterFiltersByConnect ic connectHandle of
        None \<Rightarrow> Some []
      | Some s \<Rightarrow> those (map (fill_values (getParameterFilterPrototype ic)) (mImpl s)))"

subsection \<open>What a filter means\<close>

text \<open>The value a filter or a message gives to a parameter; empty when it gives none.\<close>

definition param_value :: "ParameterValueVector \<Rightarrow> ParameterHandle \<Rightarrow> vld" where
  "param_value pvs h = (case find (\<lambda>pv. fst pv = h) pvs of None \<Rightarrow> [] | Some pv \<Rightarrow> snd pv)"

text \<open>A filter accepts a message when no parameter has two different nonempty values.\<close>

definition filter_accepts :: "ParameterValueVector \<Rightarrow> ParameterValueVector \<Rightarrow> bool" where
  "filter_accepts f vals \<longleftrightarrow> (\<forall>h \<in> set (map fst f).
     param_value vals h = [] \<or> param_value f h = [] \<or> param_value f h = param_value vals h)"

text \<open>The same for a stored row, whose cells belong to the first handles of the prototype.\<close>

definition row_accepts :: "ParameterHandle list \<Rightarrow> ParameterValueVector \<Rightarrow> vld_tuple \<Rightarrow> bool" where
  "row_accepts proto vals r \<longleftrightarrow> (\<forall>j \<in> set [0..<length r].
     param_value vals (proto ! j) = [] \<or> r ! j = [] \<or> r ! j = param_value vals (proto ! j))"

definition connect_rows :: "ConnectHandle \<Rightarrow> interaction_filters \<Rightarrow> vld_tuple list" where
  "connect_rows c ic = (case parameterFiltersByConnect ic c of None \<Rightarrow> [] | Some s \<Rightarrow> mImpl s)"

definition connect_accepts :: "ConnectHandle \<Rightarrow> ParameterValueVector \<Rightarrow> interaction_filters \<Rightarrow> bool" where
  "connect_accepts c vals ic \<longleftrightarrow>
     list_ex (row_accepts (parameterFilterKeyPrototype ic) vals) (connect_rows c ic)"

definition filters_wf :: "interaction_filters \<Rightarrow> bool" where
  [inv_defs]: "filters_wf ic \<longleftrightarrow> distinct (parameterFilterKeyPrototype ic) \<and>
     (\<forall>c s. parameterFiltersByConnect ic c = Some s \<longrightarrow>
        tuple_set_inv s \<and> mTupleSize s \<le> length (parameterFilterKeyPrototype ic))"

lemma filters_wf_none [simp]: "filters_wf no_filters"
  by (simp add: filters_wf_def no_filters_def)

lemma filters_wfD:
  "filters_wf ic \<Longrightarrow> distinct (parameterFilterKeyPrototype ic)"
  "filters_wf ic \<Longrightarrow> parameterFiltersByConnect ic c = Some s \<Longrightarrow> tuple_set_inv s"
  "filters_wf ic \<Longrightarrow> parameterFiltersByConnect ic c = Some s \<Longrightarrow>
     mTupleSize s \<le> length (parameterFilterKeyPrototype ic)"
  by (auto simp: filters_wf_def)

lemma snd_NormalizeFilterValues:
  "snd (NormalizeFilterValues proto pvs) = map (param_value pvs) proto"
  by (simp add: NormalizeFilterValues_def param_value_def)

lemma param_value_notin: "h \<notin> set (map fst pvs) \<Longrightarrow> param_value pvs h = []"
  by (induction pvs) (auto simp: param_value_def)

lemma extend_prototype_props:
  "\<exists>ys. extend_prototype f proto = proto @ ys"
  "set (extend_prototype f proto) = set proto \<union> set (map fst f)"
  "distinct proto \<Longrightarrow> distinct (extend_prototype f proto)"
proof -
  have "(\<exists>ys. extend_prototype f proto = proto @ ys) \<and>
    set (extend_prototype f proto) = set proto \<union> set (map fst f) \<and>
    (distinct proto \<longrightarrow> distinct (extend_prototype f proto))"
  proof (induction f arbitrary: proto)
    case Nil
    then show ?case by (simp add: extend_prototype_def)
  next
    case (Cons x f)
    let ?proto = "if fst x \<in> set proto then proto else proto @ [fst x]"
    have "extend_prototype (x # f) proto = extend_prototype f ?proto"
      by (simp add: extend_prototype_def list_ex_iff)
    with Cons[of ?proto] show ?case by (auto split: if_splits)
  qed
  then show "\<exists>ys. extend_prototype f proto = proto @ ys"
    "set (extend_prototype f proto) = set proto \<union> set (map fst f)"
    "distinct proto \<Longrightarrow> distinct (extend_prototype f proto)"
    by blast+
qed

lemma row_matches_filter:
  assumes "set (map fst f) \<subseteq> set proto"
  shows "row_matches (map (param_value vals) proto) (map (param_value f) proto)
    \<longleftrightarrow> filter_accepts f vals"
proof -
  have "row_matches (map (param_value vals) proto) (map (param_value f) proto) \<longleftrightarrow>
    (\<forall>h \<in> set proto. param_value vals h = [] \<or> param_value f h = [] \<or>
       param_value f h = param_value vals h)"
    by (auto simp: row_matches_def all_set_conv_all_nth)
  also have "\<dots> \<longleftrightarrow> filter_accepts f vals"
    using assms param_value_notin[of _ f] unfolding filter_accepts_def by blast
  finally show ?thesis .
qed

lemma row_matches_row:
  assumes "length r \<le> length proto"
  shows "row_matches (map (param_value vals) (proto @ ys)) (vec_resize (length (proto @ ys)) [] r)
    \<longleftrightarrow> row_accepts proto vals r"
proof -
  let ?n = "length (proto @ ys)" and ?val = "map (param_value vals) (proto @ ys)"
  have cell: "(?val ! j = [] \<or> vec_resize ?n [] r ! j = [] \<or> vec_resize ?n [] r ! j = ?val ! j)
    \<longleftrightarrow> (j < length r \<longrightarrow> param_value vals (proto ! j) = [] \<or> r ! j = [] \<or>
           r ! j = param_value vals (proto ! j))" if "j < ?n" for j
    using that assms by (cases "j < length r") (simp_all add: nth_vec_resize nth_append)
  have "row_matches ?val (vec_resize ?n [] r) \<longleftrightarrow> (\<forall>j < ?n. j < length r \<longrightarrow>
      param_value vals (proto ! j) = [] \<or> r ! j = [] \<or> r ! j = param_value vals (proto ! j))"
    unfolding row_matches_def using cell by (simp add: Ball_def)
  also have "\<dots> \<longleftrightarrow> row_accepts proto vals r"
  proof -
    have "j < ?n" if "j < length r" for j using that assms by simp
    then show ?thesis unfolding row_accepts_def by (simp add: Ball_def) blast
  qed
  finally show ?thesis .
qed

subsection \<open>Subscribing\<close>

lemma AddParameterFilterValues_cases:
  assumes wf: "tuple_set_inv s" "mTupleSize s \<le> length proto"
    and add: "AddParameterFilterValues proto s f = (b, proto', s')"
  shows "proto' = extend_prototype f proto" "tuple_set_inv s'" "mTupleSize s' = length proto'"
    "\<And>vals. list_ex (row_accepts proto' vals) (mImpl s') \<longleftrightarrow>
       filter_accepts f vals \<or> list_ex (row_accepts proto vals) (mImpl s)"
    "mImpl s' \<noteq> []"
proof -
  let ?t = "map (param_value f) proto'"
  show proto': "proto' = extend_prototype f proto"
    using add by (auto simp: AddParameterFilterValues_def Let_def split: if_splits)
  from extend_prototype_props(1)[of f proto] obtain ys where ys: "proto' = proto @ ys"
    using proto' by auto
  have sub: "set (map fst f) \<subseteq> set proto'" using extend_prototype_props(2) proto' by simp
  have s': "s' = (if ?t \<in> set (mImpl s) then s else TupleSet_Insert ?t s)"
    using add proto' by (auto simp: AddParameterFilterValues_def Let_def TupleSet_Contains_def
        list_ex_iff snd_NormalizeFilterValues split: if_splits)
  have le: "mTupleSize s \<le> length ?t" using wf(2) ys by simp
  have size_in: "length ?t = mTupleSize s" if "?t \<in> set (mImpl s)"
    by (rule ts.rows_width[OF wf(1) that])
  show inv': "tuple_set_inv s'" using wf(1) le ts.inv_ins s' by simp
  show width': "mTupleSize s' = length proto'"
    using s' le size_in by (simp add: TupleSet_Insert_size)
  have rows': "set (mImpl s') = insert ?t (vec_resize (length proto') [] ` set (mImpl s))"
  proof (cases "?t \<in> set (mImpl s)")
    case True
    have "map (vec_resize (length proto') []) (mImpl s) = mImpl s"
      using size_in[OF True] ts.rows_width[OF wf(1)] by (intro map_vec_resize_same) simp
    then show ?thesis using True s' by (metis insert_absorb set_map)
  next
    case False
    then show ?thesis using s' ts.rows_ins[OF wf(1) le] by simp
  qed
  show "mImpl s' \<noteq> []" using rows' by auto
  fix vals
  have acc: "row_accepts proto' vals r \<longleftrightarrow> row_matches (map (param_value vals) proto') r"
    if "length r = length proto'" for r
    using row_matches_row[of r proto' vals "[]"] that by simp
  have "row_accepts proto' vals ?t \<longleftrightarrow> filter_accepts f vals"
    using acc[of ?t] row_matches_filter[OF sub] by simp
  moreover have "row_accepts proto' vals (vec_resize (length proto') [] r) \<longleftrightarrow>
      row_accepts proto vals r" if "r \<in> set (mImpl s)" for r
    using acc[of "vec_resize (length proto') [] r"] row_matches_row[of r proto vals ys]
      ts.rows_width[OF wf(1) that] wf(2) ys by simp
  ultimately show "list_ex (row_accepts proto' vals) (mImpl s') \<longleftrightarrow>
      filter_accepts f vals \<or> list_ex (row_accepts proto vals) (mImpl s)"
    by (auto simp: list_ex_iff rows')
qed

text \<open>The search of a connection that is up to date with the prototype.\<close>

definition filters_synced :: "ConnectHandle \<Rightarrow> interaction_filters \<Rightarrow> bool" where
  [inv_defs]: "filters_synced c ic \<longleftrightarrow>
     (case parameterFiltersByConnect ic c of None \<Rightarrow> True
      | Some s \<Rightarrow> mTupleSize s = length (parameterFilterKeyPrototype ic))"

lemma isMatching_synced:
  assumes s: "parameterFiltersByConnect ic c = Some s" and inv: "tuple_set_inv s"
    and width: "mTupleSize s = length (parameterFilterKeyPrototype ic)"
  shows "isMatching c vals ic \<longleftrightarrow> mImpl s = [] \<or>
    list_ex (row_accepts (parameterFilterKeyPrototype ic) vals) (mImpl s)"
proof -
  let ?proto = "parameterFilterKeyPrototype ic"
  have "row_matches (map (param_value vals) ?proto) r \<longleftrightarrow> row_accepts ?proto vals r"
    if "r \<in> set (mImpl s)" for r
    using row_matches_row[of r ?proto vals "[]"] ts.rows_width[OF inv that] width by simp
  then show ?thesis
    using ts.search_nonempty[OF inv, of "map (param_value vals) ?proto"] s width
    by (auto simp: isMatching_def list_ex_iff snd_NormalizeFilterValues)
qed

lemma isMatching_iff:
  assumes wf: "filters_wf ic" and sync: "filters_synced c ic"
  shows "isMatching c vals ic \<longleftrightarrow> connect_rows c ic = [] \<or> connect_accepts c vals ic"
  using isMatching_synced[where ic = ic and c = c, OF _ filters_wfD(2)[OF wf]] sync
  by (cases "parameterFiltersByConnect ic c")
    (auto simp: isMatching_def connect_rows_def connect_accepts_def filters_synced_def)

lemma subscribe_changes:
  assumes upd: "updateParameterFilterValues c f False ic = Some (b, ic')" and c: "handle_valid c"
  obtains b' proto' s' where
    "AddParameterFilterValues (parameterFilterKeyPrototype ic)
       (case parameterFiltersByConnect ic c of None \<Rightarrow> empty_tuple_set | Some s \<Rightarrow> s) f = (b', proto', s')"
    "parameterFilterKeyPrototype ic' = proto'"
    "parameterFiltersByConnect ic' c = Some s'"
    "\<And>d. d \<noteq> c \<Longrightarrow> parameterFiltersByConnect ic' d =
       (if parameterFiltersByConnect ic c = None then parameterFiltersByConnect ic d
        else map_option (SetTupleSize (length proto')) (parameterFiltersByConnect ic d))"
  using upd c that by (auto simp: updateParameterFilterValues_def Let_def split: option.splits prod.splits)

lemma subscribe_cases:
  assumes wf: "filters_wf ic" and upd: "updateParameterFilterValues c f False ic = Some (b, ic')"
    and c: "handle_valid c"
  defines "s \<equiv> case parameterFiltersByConnect ic c of None \<Rightarrow> empty_tuple_set | Some s \<Rightarrow> s"
  obtains b' proto' s' where
    "AddParameterFilterValues (parameterFilterKeyPrototype ic) s f = (b', proto', s')"
    "tuple_set_inv s" "mTupleSize s \<le> length (parameterFilterKeyPrototype ic)"
    "parameterFilterKeyPrototype ic' = proto'"
    "parameterFiltersByConnect ic' c = Some s'"
    "\<And>d. d \<noteq> c \<Longrightarrow> parameterFiltersByConnect ic' d =
       (if parameterFiltersByConnect ic c = None then parameterFiltersByConnect ic d
        else map_option (SetTupleSize (length proto')) (parameterFiltersByConnect ic d))"
proof -
  have "tuple_set_inv s" "mTupleSize s \<le> length (parameterFilterKeyPrototype ic)"
    using filters_wfD[OF wf] by (auto simp: s_def split: option.split)
  then show ?thesis using subscribe_changes[OF upd c] that by (metis s_def)
qed

lemma subscribe_wf:
  assumes wf: "filters_wf ic" and upd: "updateParameterFilterValues c f False ic = Some (b, ic')"
  shows "filters_wf ic'"
proof (cases "handle_valid c")
  case True
  from subscribe_cases[OF wf upd True] obtain b' proto' s' s where
    add: "AddParameterFilterValues (parameterFilterKeyPrototype ic) s f = (b', proto', s')"
    and s: "tuple_set_inv s" "mTupleSize s \<le> length (parameterFilterKeyPrototype ic)"
    and ic': "parameterFilterKeyPrototype ic' = proto'" "parameterFiltersByConnect ic' c = Some s'"
    "\<And>d. d \<noteq> c \<Longrightarrow> parameterFiltersByConnect ic' d =
       (if parameterFiltersByConnect ic c = None then parameterFiltersByConnect ic d
        else map_option (SetTupleSize (length proto')) (parameterFiltersByConnect ic d))"
    by metis
  note new = AddParameterFilterValues_cases[OF s add]
  from extend_prototype_props(1)[of f "parameterFilterKeyPrototype ic"]
  have grow: "length (parameterFilterKeyPrototype ic) \<le> length proto'" using new(1) by auto
  show ?thesis unfolding filters_wf_def
  proof (intro conjI allI impI)
    show "distinct (parameterFilterKeyPrototype ic')"
      using extend_prototype_props(3) filters_wfD(1)[OF wf] new(1) ic'(1) by simp
    fix d t
    assume t: "parameterFiltersByConnect ic' d = Some t"
    show "tuple_set_inv t" "mTupleSize t \<le> length (parameterFilterKeyPrototype ic')"
      using t new(2,3) ic' filters_wfD(2,3)[OF wf, of d] grow ts.inv_widen
      by (cases "d = c"; auto split: if_splits intro: le_trans)+
  qed
next
  case False
  with upd wf show ?thesis by (simp add: updateParameterFilterValues_def)
qed

lemma subscribe_accepts:
  assumes wf: "filters_wf ic" and upd: "updateParameterFilterValues c f False ic = Some (b, ic')"
    and c: "handle_valid c"
  shows "isMatching c vals ic' \<longleftrightarrow> filter_accepts f vals \<or> connect_accepts c vals ic"
proof -
  let ?s = "case parameterFiltersByConnect ic c of None \<Rightarrow> empty_tuple_set | Some s \<Rightarrow> s"
  from subscribe_cases[OF wf upd c] obtain b' proto' s' where
    add: "AddParameterFilterValues (parameterFilterKeyPrototype ic) ?s f = (b', proto', s')"
    and s: "tuple_set_inv ?s" "mTupleSize ?s \<le> length (parameterFilterKeyPrototype ic)"
    and ic': "parameterFilterKeyPrototype ic' = proto'" "parameterFiltersByConnect ic' c = Some s'"
    by metis
  note new = AddParameterFilterValues_cases[OF s add]
  have "isMatching c vals ic' \<longleftrightarrow> connect_accepts c vals ic'"
    using isMatching_iff[OF subscribe_wf[OF wf upd], of c vals] ic' new(3,5)
    by (simp add: filters_synced_def connect_rows_def)
  also have "\<dots> \<longleftrightarrow> filter_accepts f vals \<or> connect_accepts c vals ic"
    using new(4)[of vals] ic'
    by (auto simp: connect_accepts_def connect_rows_def split: option.splits)
  finally show ?thesis .
qed

lemma subscribe_defined:
  "\<exists>b ic'. updateParameterFilterValues c f False ic = Some (b, ic')"
  by (cases "handle_valid c"; cases "parameterFiltersByConnect ic c")
    (auto simp: updateParameterFilterValues_def Let_def split: prod.split)

lemma subscribe_new_defined:
  assumes "handle_valid c" "parameterFiltersByConnect ic c = None"
  shows "\<exists>ic'. updateParameterFilterValues c f False ic = Some (True, ic')"
  using assms by (simp add: updateParameterFilterValues_def Let_def split: prod.split)

subsection \<open>Properties\<close>

definition example_filters :: interaction_filters where
  "example_filters =
     (case updateParameterFilterValues 1 [(5, [1])] False no_filters of
        Some (_, ic) \<Rightarrow> ic | None \<Rightarrow> no_filters)"

lemma example_filters_step:
  "updateParameterFilterValues 1 [(5, [1])] False no_filters = Some (True, example_filters)"
  by (simp add: example_filters_def updateParameterFilterValues_def no_filters_def
      handle_valid_def invalid_handle_def split: prod.split)

lemma example_filters_wf: "filters_wf example_filters"
  by (rule subscribe_wf[OF _ example_filters_step]) simp

lemma example_filters_eq:
  "example_filters = \<lparr>parameterFilterKeyPrototype = [5],
     parameterFiltersByConnect = [1 \<mapsto> TupleSet_Insert [[1]] empty_tuple_set]\<rparr>"
  by (simp add: example_filters_def updateParameterFilterValues_def no_filters_def Let_def
      handle_valid_def invalid_handle_def AddParameterFilterValues_def extend_prototype_def
      TupleSet_Contains_def NormalizeFilterValues_def)

text \<open>
  The histories of the filters of a class, with a log of what each connection has subscribed since it
  last had no entry. \<open>None\<close> in the log says that a filter has been taken out of the table since then.
\<close>

inductive filter_history ::
    "interaction_filters \<Rightarrow> (ConnectHandle \<Rightarrow> ParameterValueVector list option) \<Rightarrow> bool" where
  start: "filter_history no_filters (\<lambda>_. Some [])"
| subscribe: "filter_history ic log \<Longrightarrow> handle_valid c \<Longrightarrow>
    updateParameterFilterValues c f False ic = Some (b, ic') \<Longrightarrow>
    filter_history ic' (log(c := map_option (\<lambda>fs. fs @ [f]) (log c)))"
| unsubscribe: "filter_history ic log \<Longrightarrow> handle_valid c \<Longrightarrow>
    updateParameterFilterValues c f True ic = Some (b, ic') \<Longrightarrow>
    filter_history ic' (log(c := if f = [] then Some [] else if b then None else log c))"
| clear: "filter_history ic log \<Longrightarrow> handle_valid c \<Longrightarrow> clearParameterFilters c ic = (b, ic') \<Longrightarrow>
    filter_history ic' (log(c := Some []))"

text \<open>The table of a connection accepts what its log does.\<close>

definition entry_logged ::
    "ParameterHandle list \<Rightarrow> tuple_set option \<Rightarrow> ParameterValueVector list \<Rightarrow> bool" where
  "entry_logged proto e fs \<longleftrightarrow> (case e of None \<Rightarrow> fs = [] | Some s \<Rightarrow>
     tuple_set_inv s \<and> mTupleSize s \<le> length proto \<and>
     (\<forall>vals. list_ex (row_accepts proto vals) (mImpl s) \<longleftrightarrow> list_ex (\<lambda>g. filter_accepts g vals) fs))"

definition filters_logged ::
    "interaction_filters \<Rightarrow> (ConnectHandle \<Rightarrow> ParameterValueVector list option) \<Rightarrow> bool" where
  "filters_logged ic log \<longleftrightarrow> (\<forall>c fs. log c = Some fs \<longrightarrow>
     entry_logged (parameterFilterKeyPrototype ic) (parameterFiltersByConnect ic c) fs)"

lemma row_accepts_extend: "length r \<le> length proto \<Longrightarrow> row_accepts (proto @ ys) vals r = row_accepts proto vals r"
  by (auto simp: row_accepts_def nth_append)

lemma row_accepts_widen: "row_accepts proto vals (vec_resize n [] r) = row_accepts proto vals r" if "length r \<le> n"
proof -
  have "j < length r \<or> vec_resize n [] r ! j = []" if "j < n" for j
    using that by (simp add: nth_vec_resize)
  then show ?thesis
    using that by (auto simp: row_accepts_def nth_vec_resize)
qed

lemma entry_logged_extend:
  assumes "entry_logged proto e fs" shows "entry_logged (proto @ ys) e fs"
proof (cases e)
  case (Some s)
  then have s: "tuple_set_inv s" "mTupleSize s \<le> length proto" using assms by (simp_all add: entry_logged_def)
  have "row_accepts (proto @ ys) vals r = row_accepts proto vals r" if "r \<in> set (mImpl s)" for r vals
    using row_accepts_extend ts.rows_width[OF s(1) that] s(2) by simp
  then show ?thesis using assms Some by (auto simp: entry_logged_def list_ex_iff)
qed (use assms in \<open>simp add: entry_logged_def\<close>)

lemma entry_logged_widen:
  assumes "entry_logged proto e fs" "n \<le> length proto"
  shows "entry_logged proto (map_option (SetTupleSize n) e) fs"
proof (cases e)
  case (Some s)
  then have s: "tuple_set_inv s" "mTupleSize s \<le> length proto" using assms by (simp_all add: entry_logged_def)
  have "list_ex (row_accepts proto vals) (mImpl (SetTupleSize n s)) = list_ex (row_accepts proto vals) (mImpl s)" for vals
    using row_accepts_widen ts.rows_width[OF s(1)] by (auto simp: mImpl_SetTupleSize list_ex_iff)
  then show ?thesis using assms Some ts.inv_widen[OF s(1)] by (auto simp: entry_logged_def)
qed (use assms in \<open>simp add: entry_logged_def\<close>)

lemma entry_logged_add:
  assumes "entry_logged proto e fs"
    and add: "AddParameterFilterValues proto (case e of None \<Rightarrow> empty_tuple_set | Some s \<Rightarrow> s) f = (b, proto', s')"
  shows "entry_logged proto' (Some s') (fs @ [f])"
proof -
  let ?s = "case e of None \<Rightarrow> empty_tuple_set | Some s \<Rightarrow> s"
  have s: "tuple_set_inv ?s" "mTupleSize ?s \<le> length proto"
    "\<And>vals. list_ex (row_accepts proto vals) (mImpl ?s) \<longleftrightarrow> list_ex (\<lambda>g. filter_accepts g vals) fs"
    using assms(1) by (auto simp: entry_logged_def split: option.splits)
  from AddParameterFilterValues_cases[OF s(1,2) add] s(3) show ?thesis by (auto simp: entry_logged_def)
qed

lemma filters_logged_subscribe:
  assumes ok: "filters_logged ic log" and c: "handle_valid c"
    and upd: "updateParameterFilterValues c f False ic = Some (b, ic')"
  shows "filters_logged ic' (log(c := map_option (\<lambda>fs. fs @ [f]) (log c)))"
proof -
  obtain b' proto' s' where
    add: "AddParameterFilterValues (parameterFilterKeyPrototype ic)
       (case parameterFiltersByConnect ic c of None \<Rightarrow> empty_tuple_set | Some s \<Rightarrow> s) f = (b', proto', s')"
    and ic': "parameterFilterKeyPrototype ic' = proto'" "parameterFiltersByConnect ic' c = Some s'"
    and others: "\<And>d. d \<noteq> c \<Longrightarrow> parameterFiltersByConnect ic' d =
       (if parameterFiltersByConnect ic c = None then parameterFiltersByConnect ic d
        else map_option (SetTupleSize (length proto')) (parameterFiltersByConnect ic d))"
    using subscribe_changes[OF upd c] by metis
  have "proto' = extend_prototype f (parameterFilterKeyPrototype ic)"
    using add by (auto simp: AddParameterFilterValues_def Let_def split: if_splits)
  then obtain ys where ys: "proto' = parameterFilterKeyPrototype ic @ ys" using extend_prototype_props(1) by metis
  have "entry_logged proto' (parameterFiltersByConnect ic' d) gs"
    if gs: "(log(c := map_option (\<lambda>fs. fs @ [f]) (log c))) d = Some gs" for d gs
  proof (cases "d = c")
    case True
    then obtain fs where "log c = Some fs" "gs = fs @ [f]" using gs by auto
    then show ?thesis using ok entry_logged_add[OF _ add] ic' True by (simp add: filters_logged_def)
  next
    case False
    then have "entry_logged proto' (parameterFiltersByConnect ic d) gs"
      using gs ok entry_logged_extend unfolding ys by (simp add: filters_logged_def)
    then show ?thesis using others[OF False] entry_logged_widen by simp
  qed
  then show ?thesis using ic' by (simp add: filters_logged_def)
qed

lemma filters_logged_unsubscribe:
  assumes ok: "filters_logged ic log" and c: "handle_valid c"
    and upd: "updateParameterFilterValues c f True ic = Some (b, ic')"
  shows "filters_logged ic' (log(c := if f = [] then Some [] else if b then None else log c))"
proof -
  obtain s s' where s: "parameterFiltersByConnect ic c = Some s"
    and ic': "parameterFilterKeyPrototype ic' = extend_prototype f (parameterFilterKeyPrototype ic)"
      "parameterFiltersByConnect ic' = (parameterFiltersByConnect ic)(c := if f = [] then None else Some s')"
    and s': "\<not> b \<Longrightarrow> s' = s"
    using upd c by (auto simp: updateParameterFilterValues_def RemoveParameterFilterValues_def Let_def
        split: option.splits if_splits)
  obtain ys where ys: "parameterFilterKeyPrototype ic' = parameterFilterKeyPrototype ic @ ys"
    using extend_prototype_props(1) ic'(1) by metis
  have "entry_logged (parameterFilterKeyPrototype ic') (parameterFiltersByConnect ic' d) gs"
    if "(log(c := if f = [] then Some [] else if b then None else log c)) d = Some gs" for d gs
  proof (cases "d = c \<and> f = []")
    case True
    then show ?thesis using that ic' by (simp add: entry_logged_def)
  next
    case False
    then have "log d = Some gs" "parameterFiltersByConnect ic' d = parameterFiltersByConnect ic d"
      using that s s' ic' by (auto split: if_splits)
    then show ?thesis using ok entry_logged_extend unfolding ys by (simp add: filters_logged_def)
  qed
  then show ?thesis by (simp add: filters_logged_def)
qed

lemma filter_history_logged: "filter_history ic log \<Longrightarrow> filters_logged ic log"
proof (induction rule: filter_history.induct)
  case start
  then show ?case by (simp add: filters_logged_def entry_logged_def no_filters_def)
next
  case (clear ic log c b ic')
  then have "parameterFilterKeyPrototype ic' = parameterFilterKeyPrototype ic"
    "parameterFiltersByConnect ic' = (parameterFiltersByConnect ic)(c := None)"
    by (auto simp: clearParameterFilters_def split: option.splits)
  then show ?case using clear.IH by (auto simp: filters_logged_def entry_logged_def)
qed (blast intro: filters_logged_subscribe filters_logged_unsubscribe)+

text \<open>
  C21: A filtered connection gets the messages of its filters and no others. After any subscriptions,
  withdrawals and clearings of filters by any connections, when a connection subscribes with a filter, a
  message passes for it exactly if this filter, or one it has subscribed since it last had no entry,
  accepts the message: no parameter has two different nonempty values. Filters of other connections, and
  parameters they named first, make no difference. Only a connection from whose table a filter has been
  taken out is exempt until its entry is cleared: its table can refuse what a row accepts.
\<close>

theorem subscribe_adds_filter:
  assumes "filter_history ic log" "handle_valid c" "log c = Some fs"
    and "updateParameterFilterValues c f False ic = Some (b, ic')"
  shows "isMatching c vals ic' \<longleftrightarrow> list_ex (\<lambda>g. filter_accepts g vals) (fs @ [f])"
proof -
  obtain b' proto' s' where
    add: "AddParameterFilterValues (parameterFilterKeyPrototype ic)
       (case parameterFiltersByConnect ic c of None \<Rightarrow> empty_tuple_set | Some s \<Rightarrow> s) f = (b', proto', s')"
    and ic': "parameterFilterKeyPrototype ic' = proto'" "parameterFiltersByConnect ic' c = Some s'"
    using subscribe_changes[OF assms(4,2)] by metis
  have e: "entry_logged (parameterFilterKeyPrototype ic) (parameterFiltersByConnect ic c) fs"
    using filter_history_logged[OF assms(1)] assms(3) by (simp add: filters_logged_def)
  then have s: "tuple_set_inv (case parameterFiltersByConnect ic c of None \<Rightarrow> empty_tuple_set | Some s \<Rightarrow> s)"
    "mTupleSize (case parameterFiltersByConnect ic c of None \<Rightarrow> empty_tuple_set | Some s \<Rightarrow> s)
      \<le> length (parameterFilterKeyPrototype ic)"
    by (auto simp: entry_logged_def split: option.splits)
  note new = AddParameterFilterValues_cases[OF s add]
  show ?thesis
    using isMatching_synced[OF ic'(2) new(2), of vals] new(3,5) ic'(1) entry_logged_add[OF e add]
    by (simp add: entry_logged_def)
qed

text \<open>Connection 1 subscribes with parameter 5, connection 2 with a new parameter 6, connection 1 again.\<close>

theorem subscribe_adds_filter_witness:
  "\<exists>ic log b ic'. filter_history ic log \<and> updateParameterFilterValues 1 [(6, [4])] False ic = Some (b, ic') \<and>
     isMatching 1 [(5, [2]), (6, [4])] ic' \<and> isMatching 1 [(5, [1]), (6, [9])] ic' \<and>
     \<not> isMatching 1 [(5, [2]), (6, [9])] ic'"
proof -
  have c: "handle_valid (1 :: ConnectHandle)" "handle_valid (2 :: ConnectHandle)"
    by (simp_all add: handle_valid_def invalid_handle_def)
  obtain b ic where ic: "updateParameterFilterValues 2 [(6, [7])] False example_filters = Some (b, ic)"
    using subscribe_defined by blast
  obtain b' ic' where ic': "updateParameterFilterValues 1 [(6, [4])] False ic = Some (b', ic')"
    using subscribe_defined by blast
  note h = filter_history.subscribe[OF filter_history.subscribe[OF filter_history.start c(1) example_filters_step] c(2) ic]
  note sub = subscribe_adds_filter[OF h c(1) _ ic', of "[[(5, [1])]]"]
  have "isMatching 1 [(5, [2]), (6, [4])] ic'" "isMatching 1 [(5, [1]), (6, [9])] ic'"
    "\<not> isMatching 1 [(5, [2]), (6, [9])] ic'"
    by (simp_all add: sub filter_accepts_def param_value_def)
  then show ?thesis using h ic' by blast
qed

text \<open>
  Why a withdrawn filter is exempt: after \<open>{5: 1, 6: 2}\<close> and \<open>{6: 7}\<close> are subscribed, the first is withdrawn
  and \<open>{5: 3, 6: 4}\<close> subscribed, a row accepts the message \<open>{5: 9, 6: 7}\<close> and \<open>isMatching\<close> refuses it.
\<close>

definition filter_updates :: "(ParameterValueVector \<times> bool) list \<Rightarrow> interaction_filters" where
  "filter_updates us = fold (\<lambda>(f, remove) ic.
     case updateParameterFilterValues 1 f remove ic of None \<Rightarrow> ic | Some (_, ic') \<Rightarrow> ic') us no_filters"

lemma withdrawn_filter_hides_others:
  defines "ic \<equiv> filter_updates [([(5, [1]), (6, [2])], False), ([(6, [7])], False),
     ([(5, [1]), (6, [2])], True), ([(5, [3]), (6, [4])], False)]"
  shows "connect_accepts 1 [(5, [9]), (6, [7])] ic \<and> \<not> isMatching 1 [(5, [9]), (6, [7])] ic"
  unfolding ic_def by code_simp

text \<open>
  Adding a filter to a connection that already has an entry widens the entries of all the
  other connections to the prototype, so that each of them again matches exactly the messages
  its rows accept.
\<close>

theorem resubscribe_syncs_others:
  assumes wf: "filters_wf ic" and upd: "updateParameterFilterValues c f False ic = Some (b, ic')"
    and c: "handle_valid c" and old: "parameterFiltersByConnect ic c = Some s" and d: "d \<noteq> c"
  shows "filters_synced d ic' \<and>
    (isMatching d vals ic' \<longleftrightarrow> connect_rows d ic' = [] \<or> connect_accepts d vals ic')"
proof -
  from subscribe_cases[OF wf upd c] obtain b' proto' s' s0 where
    add: "AddParameterFilterValues (parameterFilterKeyPrototype ic) s0 f = (b', proto', s')"
    and s0: "tuple_set_inv s0" "mTupleSize s0 \<le> length (parameterFilterKeyPrototype ic)"
    and proto: "parameterFilterKeyPrototype ic' = proto'"
    and others: "\<And>d. d \<noteq> c \<Longrightarrow> parameterFiltersByConnect ic' d =
       (if parameterFiltersByConnect ic c = None then parameterFiltersByConnect ic d
        else map_option (SetTupleSize (length proto')) (parameterFiltersByConnect ic d))"
    by metis
  have "length (parameterFilterKeyPrototype ic) \<le> length proto'"
    using extend_prototype_props(1)[of f "parameterFilterKeyPrototype ic"]
      AddParameterFilterValues_cases(1)[OF s0 add] by auto
  then have "filters_synced d ic'"
    using others[OF d] old proto filters_wfD(3)[OF wf, of d]
    by (auto simp: filters_synced_def split: option.split)
  then show ?thesis using isMatching_iff[OF subscribe_wf[OF wf upd]] by blast
qed

definition example_filters2 :: interaction_filters where
  "example_filters2 = example_filters\<lparr>parameterFiltersByConnect :=
     (parameterFiltersByConnect example_filters)(2 \<mapsto> TupleSet_Insert [[3]] empty_tuple_set)\<rparr>"

theorem resubscribe_syncs_others_witness:
  "\<exists>b ic'. updateParameterFilterValues 2 [(6, [4])] False example_filters2 = Some (b, ic') \<and>
     filters_synced 1 ic'"
proof -
  have wf: "filters_wf example_filters2"
    using example_filters_wf ts.inv_ins[of empty_tuple_set "[[3]]"]
    by (auto simp: filters_wf_def example_filters2_def example_filters_eq TupleSet_Insert_size
      split: if_splits)
  have c: "handle_valid (2 :: ConnectHandle)" by (simp add: handle_valid_def invalid_handle_def)
  have e: "parameterFiltersByConnect example_filters2 2 = Some (TupleSet_Insert [[3]] empty_tuple_set)"
    by (simp add: example_filters2_def)
  obtain b ic' where
    u: "updateParameterFilterValues 2 [(6, [4])] False example_filters2 = Some (b, ic')"
    using subscribe_defined by blast
  show ?thesis using resubscribe_syncs_others[OF wf u c e, of 1] u by auto
qed

text \<open>
  C32: The first filter of a new connection that names a parameter no filter named before
  silences the filters of every other connection: their rows keep the old width, the
  normalised message has the new one, and \<open>isMatching\<close> refuses every message until one of
  the connections subscribes again.
\<close>

theorem first_filter_of_new_connect_silences_others:
  assumes wf: "filters_wf ic" and c: "handle_valid c"
    and new: "parameterFiltersByConnect ic c = None"
    and fresh: "\<not> set (map fst f) \<subseteq> set (parameterFilterKeyPrototype ic)"
    and d: "connect_rows d ic \<noteq> []"
  shows "\<exists>ic'. updateParameterFilterValues c f False ic = Some (True, ic') \<and>
    connect_rows d ic' = connect_rows d ic \<and> (\<forall>vals. \<not> isMatching d vals ic')"
proof -
  obtain ic' where upd: "updateParameterFilterValues c f False ic = Some (True, ic')"
    using subscribe_new_defined[OF c new] by blast
  from subscribe_cases[OF wf upd c] obtain b' proto' s' s0 where
    add: "AddParameterFilterValues (parameterFilterKeyPrototype ic) s0 f = (b', proto', s')"
    and s0: "tuple_set_inv s0" "mTupleSize s0 \<le> length (parameterFilterKeyPrototype ic)"
    and proto: "parameterFilterKeyPrototype ic' = proto'"
    and others: "\<And>d. d \<noteq> c \<Longrightarrow> parameterFiltersByConnect ic' d =
       (if parameterFiltersByConnect ic c = None then parameterFiltersByConnect ic d
        else map_option (SetTupleSize (length proto')) (parameterFiltersByConnect ic d))"
    by metis
  from d obtain s where s: "parameterFiltersByConnect ic d = Some s" "mImpl s \<noteq> []"
    by (auto simp: connect_rows_def split: option.splits)
  with new have dc: "d \<noteq> c" by auto
  have proto': "proto' = extend_prototype f (parameterFilterKeyPrototype ic)"
    by (rule AddParameterFilterValues_cases(1)[OF s0 add])
  obtain ys where ys: "proto' = parameterFilterKeyPrototype ic @ ys"
    using extend_prototype_props(1) proto' by metis
  have "proto' \<noteq> parameterFilterKeyPrototype ic"
    using extend_prototype_props(2)[of f "parameterFilterKeyPrototype ic"] proto' fresh by auto
  with ys have "length (parameterFilterKeyPrototype ic) < length proto'" by simp
  with filters_wfD(3)[OF wf s(1)] have "mTupleSize s < length proto'" by simp
  then have "\<not> isMatching d vals ic'" for vals
    using others[OF dc] new s proto ts.search_wrong_width[OF filters_wfD(2)[OF wf s(1)],
      of "map (param_value vals) proto'"]
    by (simp add: isMatching_def snd_NormalizeFilterValues)
  moreover have "connect_rows d ic' = connect_rows d ic"
    using others[OF dc] new by (simp add: connect_rows_def)
  ultimately show ?thesis using upd by blast
qed

theorem first_filter_of_new_connect_silences_others_witness:
  "\<exists>ic'. updateParameterFilterValues 2 [(6, [4])] False example_filters = Some (True, ic') \<and>
     isMatching 1 [(5, [1])] example_filters \<and> \<not> isMatching 1 [(5, [1])] ic'"
proof -
  have c: "handle_valid (1 :: ConnectHandle)" "handle_valid (2 :: ConnectHandle)"
    by (simp_all add: handle_valid_def invalid_handle_def)
  have before: "isMatching 1 [(5, [1])] example_filters"
    using subscribe_accepts[OF filters_wf_none example_filters_step c(1)]
    by (simp add: filter_accepts_def param_value_def)
  have new: "parameterFiltersByConnect example_filters 2 = None"
    and rows: "connect_rows 1 example_filters \<noteq> []"
    by (simp_all add: example_filters_eq connect_rows_def TupleSet_Insert_rows)
  have "\<not> set (map fst [(6 :: u32, [4 :: u8])]) \<subseteq> set (parameterFilterKeyPrototype example_filters)"
    by (simp add: example_filters_eq)
  from first_filter_of_new_connect_silences_others[OF example_filters_wf c(2) new this rows] before
  show ?thesis by blast
qed

lemma extend_prototype_idem:
  "set (map fst f) \<subseteq> set proto \<Longrightarrow> extend_prototype f proto = proto"
  by (induction f) (simp_all add: extend_prototype_def list_ex_iff)

lemma connect_without_rows_matches:
  "connect_rows c ic = [] \<Longrightarrow> isMatching c vals ic"
  by (simp add: isMatching_def connect_rows_def split: option.splits)

text \<open>
  C33: A connection that subscribes with one filter and then unsubscribes that filter keeps an
  empty entry: \<open>hasFilterSubscriptions\<close> still holds, so the server keeps the subscription,
  and \<open>isMatching\<close> now lets every message through.
\<close>

theorem removing_last_filter_matches_everything:
  assumes wf: "filters_wf ic" and c: "handle_valid c"
    and new: "parameterFiltersByConnect ic c = None" and f: "f \<noteq> []"
  shows "\<exists>ic1 ic2. updateParameterFilterValues c f False ic = Some (True, ic1) \<and>
    updateParameterFilterValues c f True ic1 = Some (True, ic2) \<and>
    hasFilterSubscriptions c ic2 \<and> (\<forall>vals. isMatching c vals ic2)"
proof -
  obtain ic1 where upd: "updateParameterFilterValues c f False ic = Some (True, ic1)"
    using subscribe_new_defined[OF c new] by blast
  let ?proto = "extend_prototype f (parameterFilterKeyPrototype ic)"
  let ?t = "map (param_value f) ?proto"
  let ?s = "TupleSet_Insert ?t empty_tuple_set"
  have ic1: "parameterFilterKeyPrototype ic1 = ?proto" "parameterFiltersByConnect ic1 c = Some ?s"
    using upd c new by (auto simp: updateParameterFilterValues_def AddParameterFilterValues_def
        Let_def TupleSet_Contains_def snd_NormalizeFilterValues)
  have same: "extend_prototype f ?proto = ?proto"
    by (rule extend_prototype_idem) (simp add: extend_prototype_props(2))
  have rows: "mImpl ?s = [?t]" using ts.rows_ins[of empty_tuple_set ?t] by simp
  obtain ic2 where rem: "updateParameterFilterValues c f True ic1 = Some (True, ic2)"
    and ic2: "parameterFiltersByConnect ic2 c = Some (snd (TupleSet_Erase ?t ?s))"
    using c f ic1 rows same by (simp add: updateParameterFilterValues_def Let_def
        RemoveParameterFilterValues_def TupleSet_Contains_def snd_NormalizeFilterValues)
  have "mImpl (snd (TupleSet_Erase ?t ?s)) = []"
    by (simp add: TupleSet_Erase_rows rows vec_erase_def)
  then have "connect_rows c ic2 = []" by (simp add: connect_rows_def ic2)
  then show ?thesis
    using upd rem ic2 c connect_without_rows_matches by (auto simp: hasFilterSubscriptions_def)
qed

theorem removing_last_filter_matches_everything_witness:
  "\<exists>ic1 ic2. updateParameterFilterValues 1 [(5, [1])] False no_filters = Some (True, ic1) \<and>
    updateParameterFilterValues 1 [(5, [1])] True ic1 = Some (True, ic2) \<and>
    hasFilterSubscriptions 1 ic2 \<and> (\<forall>vals. isMatching 1 vals ic2)"
  by (rule removing_last_filter_matches_everything)
    (simp_all add: handle_valid_def invalid_handle_def no_filters_def filters_wf_def)

text \<open>
  The update reaches undefined behaviour (it dereferences the end iterator) exactly when a
  filter is to be removed for a valid connection that has no entry.
\<close>

theorem remove_without_entry_undefined:
  "updateParameterFilterValues c f remove ic = None \<longleftrightarrow>
     handle_valid c \<and> remove \<and> parameterFiltersByConnect ic c = None"
  by (cases "parameterFiltersByConnect ic c")
    (auto simp: updateParameterFilterValues_def Let_def split: prod.split)

end
