(* ===== verification/Data_Stream.thy ===== *)
theory Data_Stream
  imports Base
begin

text \<open>
  The byte level of the wire format: the accessors of \<open>src/OpenRTI/VariableLengthData.h\<close> that store
  and load words at an offset, \<open>src/OpenRTI/EncodeDataStream.h\<close> and
  \<open>src/OpenRTI/DecodeDataStream.h\<close>. A stream is the data it works on and its offset; reading past
  the end is the error the code throws. Signed integers and floating point numbers travel as the
  bits of the unsigned word of their width, so their accessors are the ones below.
\<close>

unbundle bit_operations_syntax

section \<open>Words in a byte array\<close>

definition setUInt8 :: "u8 \<Rightarrow> nat \<Rightarrow> vld \<Rightarrow> vld" where
  "setUInt8 value offset d = d[offset := value]"

definition getUInt8 :: "nat \<Rightarrow> vld \<Rightarrow> u8" where
  "getUInt8 offset d = d ! offset"

definition setUInt16LE :: "16 word \<Rightarrow> nat \<Rightarrow> vld \<Rightarrow> vld" where
  "setUInt16LE value offset d =
     d[offset := ucast value, offset + 1 := ucast (drop_bit 8 value)]"

definition setUInt16BE :: "16 word \<Rightarrow> nat \<Rightarrow> vld \<Rightarrow> vld" where
  "setUInt16BE value offset d =
     d[offset := ucast (drop_bit 8 value), offset + 1 := ucast value]"

definition getUInt16LE :: "nat \<Rightarrow> vld \<Rightarrow> 16 word" where
  "getUInt16LE offset d = ucast (d ! offset) OR push_bit 8 (ucast (d ! (offset + 1)))"

definition getUInt16BE :: "nat \<Rightarrow> vld \<Rightarrow> 16 word" where
  "getUInt16BE offset d = push_bit 8 (ucast (d ! offset)) OR ucast (d ! (offset + 1))"

definition setUInt32LE :: "u32 \<Rightarrow> nat \<Rightarrow> vld \<Rightarrow> vld" where
  "setUInt32LE value offset d =
     d[offset := ucast value, offset + 1 := ucast (drop_bit 8 value),
       offset + 2 := ucast (drop_bit 16 value), offset + 3 := ucast (drop_bit 24 value)]"

definition setUInt32BE :: "u32 \<Rightarrow> nat \<Rightarrow> vld \<Rightarrow> vld" where
  "setUInt32BE value offset d =
     d[offset := ucast (drop_bit 24 value), offset + 1 := ucast (drop_bit 16 value),
       offset + 2 := ucast (drop_bit 8 value), offset + 3 := ucast value]"

definition getUInt32LE :: "nat \<Rightarrow> vld \<Rightarrow> u32" where
  "getUInt32LE offset d =
     ucast (d ! offset) OR push_bit 8 (ucast (d ! (offset + 1)))
     OR push_bit 16 (ucast (d ! (offset + 2))) OR push_bit 24 (ucast (d ! (offset + 3)))"

definition getUInt32BE :: "nat \<Rightarrow> vld \<Rightarrow> u32" where
  "getUInt32BE offset d =
     push_bit 24 (ucast (d ! offset)) OR push_bit 16 (ucast (d ! (offset + 1)))
     OR push_bit 8 (ucast (d ! (offset + 2))) OR ucast (d ! (offset + 3))"

definition setUInt64LE :: "u64 \<Rightarrow> nat \<Rightarrow> vld \<Rightarrow> vld" where
  "setUInt64LE value offset d =
     d[offset := ucast value, offset + 1 := ucast (drop_bit 8 value),
       offset + 2 := ucast (drop_bit 16 value), offset + 3 := ucast (drop_bit 24 value),
       offset + 4 := ucast (drop_bit 32 value), offset + 5 := ucast (drop_bit 40 value),
       offset + 6 := ucast (drop_bit 48 value), offset + 7 := ucast (drop_bit 56 value)]"

definition setUInt64BE :: "u64 \<Rightarrow> nat \<Rightarrow> vld \<Rightarrow> vld" where
  "setUInt64BE value offset d =
     d[offset := ucast (drop_bit 56 value), offset + 1 := ucast (drop_bit 48 value),
       offset + 2 := ucast (drop_bit 40 value), offset + 3 := ucast (drop_bit 32 value),
       offset + 4 := ucast (drop_bit 24 value), offset + 5 := ucast (drop_bit 16 value),
       offset + 6 := ucast (drop_bit 8 value), offset + 7 := ucast value]"

definition getUInt64LE :: "nat \<Rightarrow> vld \<Rightarrow> u64" where
  "getUInt64LE offset d =
     ucast (d ! offset) OR push_bit 8 (ucast (d ! (offset + 1)))
     OR push_bit 16 (ucast (d ! (offset + 2))) OR push_bit 24 (ucast (d ! (offset + 3)))
     OR push_bit 32 (ucast (d ! (offset + 4))) OR push_bit 40 (ucast (d ! (offset + 5)))
     OR push_bit 48 (ucast (d ! (offset + 6))) OR push_bit 56 (ucast (d ! (offset + 7)))"

definition getUInt64BE :: "nat \<Rightarrow> vld \<Rightarrow> u64" where
  "getUInt64BE offset d =
     push_bit 56 (ucast (d ! offset)) OR push_bit 48 (ucast (d ! (offset + 1)))
     OR push_bit 40 (ucast (d ! (offset + 2))) OR push_bit 32 (ucast (d ! (offset + 3)))
     OR push_bit 24 (ucast (d ! (offset + 4))) OR push_bit 16 (ucast (d ! (offset + 5)))
     OR push_bit 8 (ucast (d ! (offset + 6))) OR ucast (d ! (offset + 7))"

section \<open>EncodeDataStream\<close>

record encode_stream =
  enc_data :: vld
  enc_offset :: nat

text \<open>\<open>resize\<close> leaves the bytes it adds uninitialised; the model has zeros there.\<close>

definition write_at ::
  "nat \<Rightarrow> (nat \<Rightarrow> vld \<Rightarrow> vld) \<Rightarrow> 'a encode_stream_scheme \<Rightarrow> 'a encode_stream_scheme" where
  "write_at n store s =
     (let offset = enc_offset s;
          limit = offset + n;
          d = (if length (enc_data s) < limit then vec_resize limit 0 (enc_data s) else enc_data s)
      in s\<lparr>enc_data := store offset d, enc_offset := limit\<rparr>)"

definition enc_trunc :: "'a encode_stream_scheme \<Rightarrow> 'a encode_stream_scheme" where
  "enc_trunc s = s\<lparr>enc_data := [], enc_offset := 0\<rparr>"

definition enc_seek :: "nat \<Rightarrow> 'a encode_stream_scheme \<Rightarrow> 'a encode_stream_scheme" where
  "enc_seek offset s =
     (let s = s\<lparr>enc_offset := offset\<rparr>
      in if length (enc_data s) < enc_offset s
         then s\<lparr>enc_data := vec_resize (enc_offset s) 0 (enc_data s)\<rparr> else s)"

definition writeUInt8BE :: "u8 \<Rightarrow> 'a encode_stream_scheme \<Rightarrow> 'a encode_stream_scheme" where
  "writeUInt8BE value = write_at 1 (setUInt8 value)"

definition writeUInt16LE :: "16 word \<Rightarrow> 'a encode_stream_scheme \<Rightarrow> 'a encode_stream_scheme" where
  "writeUInt16LE value = write_at 2 (setUInt16LE value)"

definition writeUInt16BE :: "16 word \<Rightarrow> 'a encode_stream_scheme \<Rightarrow> 'a encode_stream_scheme" where
  "writeUInt16BE value = write_at 2 (setUInt16BE value)"

definition writeUInt32LE :: "u32 \<Rightarrow> 'a encode_stream_scheme \<Rightarrow> 'a encode_stream_scheme" where
  "writeUInt32LE value = write_at 4 (setUInt32LE value)"

definition writeUInt32BE :: "u32 \<Rightarrow> 'a encode_stream_scheme \<Rightarrow> 'a encode_stream_scheme" where
  "writeUInt32BE value = write_at 4 (setUInt32BE value)"

definition writeUInt64LE :: "u64 \<Rightarrow> 'a encode_stream_scheme \<Rightarrow> 'a encode_stream_scheme" where
  "writeUInt64LE value = write_at 8 (setUInt64LE value)"

definition writeUInt64BE :: "u64 \<Rightarrow> 'a encode_stream_scheme \<Rightarrow> 'a encode_stream_scheme" where
  "writeUInt64BE value = write_at 8 (setUInt64BE value)"

text \<open>\<open>align\<close> fills up with \<open>0xff\<close> bytes.\<close>

definition align_up :: "nat \<Rightarrow> nat \<Rightarrow> nat" where
  "align_up alignSize offset = (offset + alignSize - 1) div alignSize * alignSize"

function enc_fill :: "nat \<Rightarrow> 'a encode_stream_scheme \<Rightarrow> 'a encode_stream_scheme" where
  "enc_fill offset s =
     (if enc_offset s < offset then enc_fill offset (writeUInt8BE 0xff s) else s)"
  by pat_completeness auto
termination
  by (relation "measure (\<lambda>(offset, s). offset - enc_offset s)")
    (auto simp: writeUInt8BE_def write_at_def Let_def)

declare enc_fill.simps [simp del]

definition enc_align :: "nat \<Rightarrow> 'a encode_stream_scheme \<Rightarrow> 'a encode_stream_scheme" where
  "enc_align alignSize s =
     (if alignSize = 0 then s else enc_fill (align_up alignSize (enc_offset s)) s)"

definition enc_writeBool :: "bool \<Rightarrow> 'a encode_stream_scheme \<Rightarrow> 'a encode_stream_scheme" where
  "enc_writeBool value = writeUInt8BE (if value then 1 else 0)"

definition writeChar :: "u8 \<Rightarrow> 'a encode_stream_scheme \<Rightarrow> 'a encode_stream_scheme" where
  "writeChar value = writeUInt8BE value"

definition writeData :: "vld \<Rightarrow> 'a encode_stream_scheme \<Rightarrow> 'a encode_stream_scheme" where
  "writeData bs = write_at (length bs)
     (\<lambda>offset d. take offset d @ bs @ drop (offset + length bs) d)"

text \<open>
  \<open>writeTemplateCompressed\<close>: seven bits of the value in each byte, the lowest first, and the top
  bit set in every byte but the last.
\<close>

lemma unat_drop_bit_7: "unat (drop_bit 7 v) = unat v div 128" for v :: "'w::len word"
  unfolding unsigned_drop_bit_eq by (simp add: drop_bit_eq_div take_bit_nat_def div_le_dividend)

lemma unat_drop_bit_7_less: "v AND NOT 0x7f \<noteq> 0 \<Longrightarrow> unat (drop_bit 7 v) < unat v"
  for v :: "'w::len word"
proof -
  assume "v AND NOT 0x7f \<noteq> 0"
  then have "v \<noteq> 0" by auto
  then have "0 < unat v" by (simp add: unat_gt_0)
  then show "unat (drop_bit 7 v) < unat v" unfolding unat_drop_bit_7 by simp
qed

function writeTemplateCompressed ::
  "'w::len word \<Rightarrow> 'a encode_stream_scheme \<Rightarrow> 'a encode_stream_scheme" where
  "writeTemplateCompressed value s =
     (if value AND NOT 0x7f \<noteq> 0
      then writeTemplateCompressed (drop_bit 7 value) (writeUInt8BE (0x80 OR (0x7f AND ucast value)) s)
      else writeUInt8BE (ucast value) s)"
  by pat_completeness auto
termination
  by (relation "measure (\<lambda>(v, s). unat v)") (auto simp: unat_drop_bit_7_less)

declare writeTemplateCompressed.simps [simp del]

definition writeUInt8Compressed :: "u8 \<Rightarrow> 'a encode_stream_scheme \<Rightarrow> 'a encode_stream_scheme" where
  "writeUInt8Compressed value = writeTemplateCompressed value"

definition writeUInt16Compressed :: "16 word \<Rightarrow> 'a encode_stream_scheme \<Rightarrow> 'a encode_stream_scheme" where
  "writeUInt16Compressed value = writeTemplateCompressed value"

definition writeUInt32Compressed :: "u32 \<Rightarrow> 'a encode_stream_scheme \<Rightarrow> 'a encode_stream_scheme" where
  "writeUInt32Compressed value = writeTemplateCompressed value"

definition writeUInt64Compressed :: "u64 \<Rightarrow> 'a encode_stream_scheme \<Rightarrow> 'a encode_stream_scheme" where
  "writeUInt64Compressed value = writeTemplateCompressed value"

text \<open>Sizes are 64 bit words: the size of a container is taken modulo \<open>2^64\<close>.\<close>

definition writeSizeTCompressed :: "nat \<Rightarrow> 'a encode_stream_scheme \<Rightarrow> 'a encode_stream_scheme" where
  "writeSizeTCompressed value = writeTemplateCompressed (word_of_nat value :: u64)"

section \<open>DecodeDataStream\<close>

datatype decode_error =
    ReadingBeyondEnd
  | SeekingBeyondEnd
  | UndefinedShift
  | EndOfPayload

record decode_stream =
  dec_data :: vld
  dec_offset :: nat

type_synonym ('a, 's) decoder = "'s \<Rightarrow> decode_error + 'a \<times> 's"

definition dec_return :: "'a \<Rightarrow> ('a, 's) decoder" where
  "dec_return x s = Inr (x, s)"

definition dec_bind :: "('a, 's) decoder \<Rightarrow> ('a \<Rightarrow> ('b, 's) decoder) \<Rightarrow> ('b, 's) decoder" where
  "dec_bind m f s = (case m s of Inl e \<Rightarrow> Inl e | Inr (x, s') \<Rightarrow> f x s')"

definition read_at :: "nat \<Rightarrow> (nat \<Rightarrow> vld \<Rightarrow> 'a) \<Rightarrow> ('a, 'b decode_stream_scheme) decoder" where
  "read_at n load s =
     (let offset = dec_offset s;
          limit = offset + n
      in if length (dec_data s) < limit then Inl ReadingBeyondEnd
         else Inr (load offset (dec_data s), s\<lparr>dec_offset := limit\<rparr>))"

definition dec_seek :: "nat \<Rightarrow> (unit, 'b decode_stream_scheme) decoder" where
  "dec_seek offset s =
     (if length (dec_data s) < offset then Inl SeekingBeyondEnd
      else Inr ((), s\<lparr>dec_offset := offset\<rparr>))"

definition dec_align :: "nat \<Rightarrow> (unit, 'b decode_stream_scheme) decoder" where
  "dec_align alignSize s =
     (if alignSize = 0 then Inr ((), s) else dec_seek (align_up alignSize (dec_offset s)) s)"

definition readUInt8BE :: "(u8, 'b decode_stream_scheme) decoder" where
  "readUInt8BE = read_at 1 getUInt8"

definition readUInt16LE :: "(16 word, 'b decode_stream_scheme) decoder" where
  "readUInt16LE = read_at 2 getUInt16LE"

definition readUInt16BE :: "(16 word, 'b decode_stream_scheme) decoder" where
  "readUInt16BE = read_at 2 getUInt16BE"

definition readUInt32LE :: "(u32, 'b decode_stream_scheme) decoder" where
  "readUInt32LE = read_at 4 getUInt32LE"

definition readUInt32BE :: "(u32, 'b decode_stream_scheme) decoder" where
  "readUInt32BE = read_at 4 getUInt32BE"

definition readUInt64LE :: "(u64, 'b decode_stream_scheme) decoder" where
  "readUInt64LE = read_at 8 getUInt64LE"

definition readUInt64BE :: "(u64, 'b decode_stream_scheme) decoder" where
  "readUInt64BE = read_at 8 getUInt64BE"

definition readBoolCompressed :: "(bool, 'b decode_stream_scheme) decoder" where
  "readBoolCompressed = dec_bind readUInt8BE (\<lambda>byte. dec_return (byte \<noteq> 0))"

definition readChar :: "(u8, 'b decode_stream_scheme) decoder" where
  "readChar = readUInt8BE"

text \<open>
  \<open>readData\<close> adds the size to the offset in \<open>size_t\<close> arithmetic before it compares with the size of
  the data. The result is the sub-range of the data from the old offset on.
\<close>

definition readData :: "u64 \<Rightarrow> (vld, 'b decode_stream_scheme) decoder" where
  "readData n s =
     (let offset = dec_offset s;
          limit = (offset + unat n) mod 2 ^ 64
      in if length (dec_data s) < limit then Inl ReadingBeyondEnd
         else Inr (take (unat n) (drop offset (dec_data s)), s\<lparr>dec_offset := limit\<rparr>))"

text \<open>
  The loop of \<open>readTemplateCompressed\<close>. Shifting by the width of the (promoted) type or more is
  undefined, as is shifting a bit out of the \<open>int\<close> the narrow types are promoted to.
\<close>

definition undefined_shift :: "nat \<Rightarrow> u8 \<Rightarrow> nat \<Rightarrow> bool" where
  "undefined_shift width bits shift \<longleftrightarrow>
     max 32 width \<le> shift \<or> width < 32 \<and> 2 ^ 32 \<le> unat bits * 2 ^ shift"

function compressed_loop ::
  "u8 \<Rightarrow> 'w::len word \<Rightarrow> nat \<Rightarrow> ('w word, 'b decode_stream_scheme) decoder" where
  "compressed_loop byte value shift s =
     (if byte AND 0x80 = 0 then Inr (value, s)
      else case readUInt8BE s of
          Inl e \<Rightarrow> Inl e
        | Inr (byte, s) \<Rightarrow>
            if undefined_shift LENGTH('w) (byte AND 0x7f) shift then Inl UndefinedShift
            else compressed_loop byte (value OR push_bit shift (ucast (byte AND 0x7f))) (shift + 7) s)"
  by pat_completeness auto
termination
  by (relation "measure (\<lambda>(_, _, _, s). length (dec_data s) - dec_offset s)")
    (auto simp: readUInt8BE_def read_at_def Let_def split: if_splits)

declare compressed_loop.simps [simp del]

definition readTemplateCompressed :: "('w::len word, 'b decode_stream_scheme) decoder" where
  "readTemplateCompressed =
     dec_bind readUInt8BE (\<lambda>byte. compressed_loop byte (ucast (byte AND 0x7f)) 7)"

definition readUInt8Compressed :: "(u8, 'b decode_stream_scheme) decoder" where
  "readUInt8Compressed = readTemplateCompressed"

definition readUInt16Compressed :: "(16 word, 'b decode_stream_scheme) decoder" where
  "readUInt16Compressed = readTemplateCompressed"

definition readUInt32Compressed :: "(u32, 'b decode_stream_scheme) decoder" where
  "readUInt32Compressed = readTemplateCompressed"

definition readUInt64Compressed :: "(u64, 'b decode_stream_scheme) decoder" where
  "readUInt64Compressed = readTemplateCompressed"

text \<open>\<open>size_t\<close> has 64 bits, so the value always fits.\<close>

definition readSizeTCompressed :: "(u64, 'b decode_stream_scheme) decoder" where
  "readSizeTCompressed = readUInt64Compressed"

section \<open>Writing at the end and reading what was written\<close>

text \<open>
  A stream that was only written to has its offset at the end of its data; \<open>push\<close> adds bytes there.
  \<open>supplies s bs\<close> says that the next bytes of a stream are \<open>bs\<close>, \<open>skip n s\<close> is the stream after them.
\<close>

definition at_end :: "'a encode_stream_scheme \<Rightarrow> bool" where
  "at_end s \<longleftrightarrow> enc_offset s = length (enc_data s)"

definition push :: "u8 list \<Rightarrow> 'a encode_stream_scheme \<Rightarrow> 'a encode_stream_scheme" where
  "push bs s = s\<lparr>enc_data := enc_data s @ bs, enc_offset := enc_offset s + length bs\<rparr>"

definition supplies :: "'b decode_stream_scheme \<Rightarrow> u8 list \<Rightarrow> bool" where
  "supplies s bs \<longleftrightarrow> dec_offset s \<le> length (dec_data s)
     \<and> take (length bs) (drop (dec_offset s) (dec_data s)) = bs"

definition skip :: "nat \<Rightarrow> 'b decode_stream_scheme \<Rightarrow> 'b decode_stream_scheme" where
  "skip n s = s\<lparr>dec_offset := dec_offset s + n\<rparr>"

lemma at_end_push [simp]: "at_end s \<Longrightarrow> at_end (push bs s)"
  by (simp add: at_end_def push_def)

lemma push_append: "push (as @ bs) s = push bs (push as s)"
  by (simp add: push_def)

lemma push_Nil [simp]: "push [] s = s"
  by (simp add: push_def)

lemma supplies_length:
  assumes "supplies s bs"
  shows "dec_offset s + length bs \<le> length (dec_data s)"
proof -
  have "length bs = min (length bs) (length (dec_data s) - dec_offset s)"
    using assms unfolding supplies_def by (metis length_drop length_take min.commute)
  moreover have "dec_offset s \<le> length (dec_data s)" using assms by (simp add: supplies_def)
  ultimately show ?thesis by linarith
qed

lemma supplies_append: "supplies s (as @ bs) \<longleftrightarrow> supplies s as \<and> supplies (skip (length as) s) bs"
proof
  assume *: "supplies s (as @ bs)"
  then have l: "dec_offset s + length as \<le> length (dec_data s)" using supplies_length by force
  have "take (length as) (drop (dec_offset s) (dec_data s))
      @ take (length bs) (drop (length as) (drop (dec_offset s) (dec_data s))) = as @ bs"
    using * by (simp add: supplies_def take_add)
  moreover have "length (take (length as) (drop (dec_offset s) (dec_data s))) = length as"
    using l by simp
  ultimately show "supplies s as \<and> supplies (skip (length as) s) bs"
    using * l by (simp add: supplies_def skip_def append_eq_append_conv ac_simps)
next
  assume "supplies s as \<and> supplies (skip (length as) s) bs"
  then show "supplies s (as @ bs)" by (simp add: supplies_def skip_def take_add ac_simps)
qed

lemma supplies_nth: "supplies s bs \<Longrightarrow> i < length bs \<Longrightarrow> dec_data s ! (dec_offset s + i) = bs ! i"
  unfolding supplies_def by (metis nth_drop nth_take)

lemma skip_0 [simp]: "skip 0 s = s"
  by (simp add: skip_def)

lemma skip_skip [simp]: "skip n (skip m s) = skip (m + n) s"
  by (simp add: skip_def ac_simps)

lemma write_at_push:
  assumes "at_end s" and "length bs = n"
    and "\<And>d offset. length d = offset + n \<Longrightarrow> store offset d = take offset d @ bs"
  shows "write_at n store s = push bs s"
proof -
  have "take (length (enc_data s)) (vec_resize (length (enc_data s) + n) 0 (enc_data s)) = enc_data s"
    by (simp add: vec_resize_def)
  then show ?thesis using assms by (cases "n = 0") (auto simp: write_at_def push_def at_end_def Let_def)
qed

lemma read_at_supplied:
  assumes "supplies s bs" and "length bs = n"
  shows "read_at n load s = Inr (load (dec_offset s) (dec_data s), skip n s)"
  using supplies_length[OF assms(1)] assms(2) by (simp add: read_at_def skip_def Let_def)

lemma writeUInt8BE_push: "at_end s \<Longrightarrow> writeUInt8BE v s = push [v] s"
  unfolding writeUInt8BE_def setUInt8_def
  by (rule write_at_push) (auto simp: list_update_append upd_conv_take_nth_drop)

lemma readUInt8BE_supplied: "supplies s [v] \<Longrightarrow> readUInt8BE s = Inr (v, skip 1 s)"
  unfolding readUInt8BE_def
  using supplies_nth[of s "[v]" 0] by (simp add: read_at_supplied getUInt8_def)


text \<open>The eight fixed width formats as the list of the bytes they write.\<close>

lemmas set_defs = setUInt16LE_def setUInt16BE_def setUInt32LE_def setUInt32BE_def
  setUInt64LE_def setUInt64BE_def
lemmas get_defs = getUInt16LE_def getUInt16BE_def getUInt32LE_def getUInt32BE_def
  getUInt64LE_def getUInt64BE_def

lemma split_tail:
  assumes "length d = k + n"
  obtains d' e where "d = d' @ e" "length d' = k" "length e = n"
  using assms by (metis append_take_drop_id length_drop length_take diff_add_inverse min.absorb2
      le_add1)

lemma set16_push:
  assumes "length d = k + 2"
  shows "setUInt16LE v k d = take k d @ [ucast v, ucast (drop_bit 8 v)]"
    and "setUInt16BE v k d = take k d @ [ucast (drop_bit 8 v), ucast v]"
  by (rule split_tail[OF assms], auto simp: set_defs list_update_append eval_nat_numeral length_Suc_conv)+

lemma set32_push:
  assumes "length d = k + 4"
  shows "setUInt32LE v k d = take k d @
      [ucast v, ucast (drop_bit 8 v), ucast (drop_bit 16 v), ucast (drop_bit 24 v)]"
    and "setUInt32BE v k d = take k d @
      [ucast (drop_bit 24 v), ucast (drop_bit 16 v), ucast (drop_bit 8 v), ucast v]"
  by (rule split_tail[OF assms], auto simp: set_defs list_update_append eval_nat_numeral length_Suc_conv)+

lemma set64_push:
  assumes "length d = k + 8"
  shows "setUInt64LE v k d = take k d @
      [ucast v, ucast (drop_bit 8 v), ucast (drop_bit 16 v), ucast (drop_bit 24 v),
       ucast (drop_bit 32 v), ucast (drop_bit 40 v), ucast (drop_bit 48 v), ucast (drop_bit 56 v)]"
    and "setUInt64BE v k d = take k d @
      [ucast (drop_bit 56 v), ucast (drop_bit 48 v), ucast (drop_bit 40 v), ucast (drop_bit 32 v),
       ucast (drop_bit 24 v), ucast (drop_bit 16 v), ucast (drop_bit 8 v), ucast v]"
  by (rule split_tail[OF assms], auto simp: set_defs list_update_append eval_nat_numeral length_Suc_conv)+

lemma ucast_ucast_byte: "ucast (ucast v :: u8) = take_bit 8 v" for v :: "'w::len word"
  by (rule bit_eqI) (auto simp: bit_simps)

lemma next_byte: "take_bit n v OR push_bit n (ucast (ucast (drop_bit n v) :: u8)) = take_bit (n + 8) v"
  for v :: "'w::len word"
  by (rule bit_eqI) (auto simp: bit_simps)

lemmas next_bytes = next_byte[of 8, simplified] next_byte[of 16, simplified]
  next_byte[of 24, simplified] next_byte[of 32, simplified] next_byte[of 40, simplified]
  next_byte[of 48, simplified] next_byte[of 56, simplified]

lemma join16: "ucast (ucast v :: u8) OR push_bit 8 (ucast (ucast (drop_bit 8 v) :: u8)) = v"
  for v :: "16 word"
  by (simp only: or.assoc[symmetric] ucast_ucast_byte[of v] next_bytes) (simp add: take_bit_word_eq_self)

lemma join32:
  "ucast (ucast v :: u8) OR push_bit 8 (ucast (ucast (drop_bit 8 v) :: u8))
   OR push_bit 16 (ucast (ucast (drop_bit 16 v) :: u8))
   OR push_bit 24 (ucast (ucast (drop_bit 24 v) :: u8)) = v" for v :: u32
  by (simp only: or.assoc[symmetric] ucast_ucast_byte[of v] next_bytes) (simp add: take_bit_word_eq_self)

lemma join64:
  "ucast (ucast v :: u8) OR push_bit 8 (ucast (ucast (drop_bit 8 v) :: u8))
   OR push_bit 16 (ucast (ucast (drop_bit 16 v) :: u8))
   OR push_bit 24 (ucast (ucast (drop_bit 24 v) :: u8))
   OR push_bit 32 (ucast (ucast (drop_bit 32 v) :: u8))
   OR push_bit 40 (ucast (ucast (drop_bit 40 v) :: u8))
   OR push_bit 48 (ucast (ucast (drop_bit 48 v) :: u8))
   OR push_bit 56 (ucast (ucast (drop_bit 56 v) :: u8)) = v" for v :: u64
  by (simp only: or.assoc[symmetric] ucast_ucast_byte[of v] next_bytes) (simp add: take_bit_word_eq_self)


lemma dec_bind_assoc: "dec_bind (dec_bind m f) g = dec_bind m (\<lambda>x. dec_bind (f x) g)"
  by (auto simp: dec_bind_def fun_eq_iff split: sum.split)

text \<open>What the fixed width readers find where the bytes of a word are.\<close>

lemma read16_supplied:
  fixes v :: "16 word"
  shows "supplies s [ucast v, ucast (drop_bit 8 v)] \<Longrightarrow> readUInt16LE s = Inr (v, skip 2 s)"
    and "supplies s [ucast (drop_bit 8 v), ucast v] \<Longrightarrow> readUInt16BE s = Inr (v, skip 2 s)"
proof -
  assume *: "supplies s [ucast v, ucast (drop_bit 8 v)]"
  from supplies_nth[OF *, of 0] supplies_nth[OF *, of 1] show "readUInt16LE s = Inr (v, skip 2 s)"
    by (simp add: readUInt16LE_def read_at_supplied[OF *] getUInt16LE_def join16)
next
  assume *: "supplies s [ucast (drop_bit 8 v), ucast v]"
  from supplies_nth[OF *, of 0] supplies_nth[OF *, of 1] show "readUInt16BE s = Inr (v, skip 2 s)"
    using join16[of v] by (simp add: readUInt16BE_def read_at_supplied[OF *] getUInt16BE_def or.commute)
qed

lemma read32_supplied:
  fixes v :: u32
  shows "supplies s [ucast v, ucast (drop_bit 8 v), ucast (drop_bit 16 v), ucast (drop_bit 24 v)]
      \<Longrightarrow> readUInt32LE s = Inr (v, skip 4 s)"
    and "supplies s [ucast (drop_bit 24 v), ucast (drop_bit 16 v), ucast (drop_bit 8 v), ucast v]
      \<Longrightarrow> readUInt32BE s = Inr (v, skip 4 s)"
proof -
  assume *: "supplies s [ucast v, ucast (drop_bit 8 v), ucast (drop_bit 16 v), ucast (drop_bit 24 v)]"
  from supplies_nth[OF *, of 0] supplies_nth[OF *, of 1] supplies_nth[OF *, of 2]
    supplies_nth[OF *, of 3]
  show "readUInt32LE s = Inr (v, skip 4 s)"
    by (simp add: readUInt32LE_def read_at_supplied[OF *] getUInt32LE_def join32)
next
  assume *: "supplies s [ucast (drop_bit 24 v), ucast (drop_bit 16 v), ucast (drop_bit 8 v), ucast v]"
  from supplies_nth[OF *, of 0] supplies_nth[OF *, of 1] supplies_nth[OF *, of 2]
    supplies_nth[OF *, of 3]
  show "readUInt32BE s = Inr (v, skip 4 s)"
    using join32[of v]
    by (simp add: readUInt32BE_def read_at_supplied[OF *] getUInt32BE_def or.commute or.left_commute)
qed

lemma read64_supplied:
  fixes v :: u64
  shows "supplies s [ucast v, ucast (drop_bit 8 v), ucast (drop_bit 16 v), ucast (drop_bit 24 v),
        ucast (drop_bit 32 v), ucast (drop_bit 40 v), ucast (drop_bit 48 v), ucast (drop_bit 56 v)]
      \<Longrightarrow> readUInt64LE s = Inr (v, skip 8 s)"
    and "supplies s [ucast (drop_bit 56 v), ucast (drop_bit 48 v), ucast (drop_bit 40 v),
        ucast (drop_bit 32 v), ucast (drop_bit 24 v), ucast (drop_bit 16 v), ucast (drop_bit 8 v), ucast v]
      \<Longrightarrow> readUInt64BE s = Inr (v, skip 8 s)"
proof -
  assume *: "supplies s [ucast v, ucast (drop_bit 8 v), ucast (drop_bit 16 v), ucast (drop_bit 24 v),
      ucast (drop_bit 32 v), ucast (drop_bit 40 v), ucast (drop_bit 48 v), ucast (drop_bit 56 v)]"
  from supplies_nth[OF *, of 0] supplies_nth[OF *, of 1] supplies_nth[OF *, of 2]
    supplies_nth[OF *, of 3] supplies_nth[OF *, of 4] supplies_nth[OF *, of 5]
    supplies_nth[OF *, of 6] supplies_nth[OF *, of 7]
  show "readUInt64LE s = Inr (v, skip 8 s)"
    by (simp add: readUInt64LE_def read_at_supplied[OF *] getUInt64LE_def join64)
next
  assume *: "supplies s [ucast (drop_bit 56 v), ucast (drop_bit 48 v), ucast (drop_bit 40 v),
      ucast (drop_bit 32 v), ucast (drop_bit 24 v), ucast (drop_bit 16 v), ucast (drop_bit 8 v), ucast v]"
  from supplies_nth[OF *, of 0] supplies_nth[OF *, of 1] supplies_nth[OF *, of 2]
    supplies_nth[OF *, of 3] supplies_nth[OF *, of 4] supplies_nth[OF *, of 5]
    supplies_nth[OF *, of 6] supplies_nth[OF *, of 7]
  show "readUInt64BE s = Inr (v, skip 8 s)"
    using join64[of v]
    by (simp add: readUInt64BE_def read_at_supplied[OF *] getUInt64BE_def or.commute or.left_commute)
qed

section \<open>The compressed format\<close>

function compressed :: "'w::len word \<Rightarrow> u8 list" where
  "compressed v = (if v AND NOT 0x7f \<noteq> 0
     then (0x80 OR (0x7f AND ucast v)) # compressed (drop_bit 7 v) else [ucast v])"
  by pat_completeness auto
termination
  by (relation "measure unat") (auto simp: unat_drop_bit_7_less)

declare compressed.simps [simp del]

lemma compressed_not_Nil [simp]: "compressed v \<noteq> []"
  by (subst compressed.simps) simp

lemma writeTemplateCompressed_push: "at_end s \<Longrightarrow> writeTemplateCompressed v s = push (compressed v) s"
proof (induction v s rule: writeTemplateCompressed.induct)
  case (1 v s)
  show ?case
  proof (cases "v AND NOT 0x7f = 0")
    case True
    then show ?thesis using 1(2)
      by (subst writeTemplateCompressed.simps, subst compressed.simps) (simp add: writeUInt8BE_push)
  next
    case False
    then show ?thesis using 1
      by (subst writeTemplateCompressed.simps, subst compressed.simps)
        (simp add: writeUInt8BE_push flip: push_append)
  qed
qed

lemma mask_7: "(0x7f :: 'w::len word) = mask 7"
  by (simp add: mask_eq_exp_minus_1)

lemma no_high_bits: "v AND NOT 0x7f = 0 \<longleftrightarrow> take_bit 7 v = v" for v :: "'w::len word"
  unfolding mask_7 bit_eq_iff by (auto simp: bit_simps)

lemma bit_0x80: "bit (0x80 :: u8) n \<longleftrightarrow> n = 7"
proof -
  have "(0x80 :: u8) = push_bit 7 1" by simp
  then have "bit (0x80 :: u8) n \<longleftrightarrow> bit (push_bit 7 1 :: u8) n" by (rule arg_cong)
  also have "\<dots> \<longleftrightarrow> n = 7" by (auto simp: bit_push_bit_iff bit_1_iff simp del: push_bit_of_1)
  finally show ?thesis .
qed

lemma low_byte_bits:
  "(0x80 OR (0x7f AND b)) AND 0x7f = take_bit 7 b" "(0x80 OR (0x7f AND b)) AND 0x80 \<noteq> 0"
  for b :: u8
proof -
  show "(0x80 OR (0x7f AND b)) AND 0x7f = take_bit 7 b"
    unfolding mask_7
    by (rule bit_eqI, unfold bit_and_iff bit_or_iff bit_take_bit_iff bit_0x80) (auto simp: bit_mask_iff)
  have "bit ((0x80 OR (0x7f AND b)) AND 0x80 :: u8) 7" by (simp add: bit_simps bit_0x80)
  then show "(0x80 OR (0x7f AND b)) AND 0x80 \<noteq> 0" by (metis bit_0_eq bot_apply bot_bool_def)
qed

definition compressed_step ::
  "'w::len word \<Rightarrow> nat \<Rightarrow> ('w word, 'b decode_stream_scheme) decoder" where
  "compressed_step value shift s = (case readUInt8BE s of
       Inl e \<Rightarrow> Inl e
     | Inr (byte, s) \<Rightarrow>
         if undefined_shift LENGTH('w) (byte AND 0x7f) shift then Inl UndefinedShift
         else compressed_loop byte (value OR push_bit shift (ucast (byte AND 0x7f))) (shift + 7) s)"

lemma readTemplateCompressed_step: "readTemplateCompressed s = compressed_step 0 0 s"
proof -
  have "\<not> undefined_shift n b 0" for n b
    using unsigned_less[of b, where 'a = nat] by (simp add: undefined_shift_def)
  then show ?thesis
    by (auto simp: readTemplateCompressed_def dec_bind_def compressed_step_def split: sum.split)
qed

lemma compressed_loop_continue:
  "byte AND 0x80 \<noteq> 0 \<Longrightarrow> compressed_loop byte value shift s = compressed_step value shift s"
  by (subst compressed_loop.simps) (simp add: compressed_step_def)

lemma compressed_loop_done: "byte AND 0x80 = 0 \<Longrightarrow> compressed_loop byte value shift s = Inr (value, s)"
  by (subst compressed_loop.simps) simp

lemma defined_shift:
  assumes "k < n" and "unat b * 2 ^ k < 2 ^ n"
  shows "\<not> undefined_shift n b k"
proof -
  have "(2 :: nat) ^ n \<le> 2 ^ 32" if "n < 32" using that by (intro power_increasing) auto
  then show ?thesis using assms by (auto simp: undefined_shift_def max_def)
qed

lemma push_take_drop: "push_bit k v = push_bit k (take_bit 7 v) OR push_bit (k + 7) (drop_bit 7 v)"
  for v :: "'w::len word"
proof -
  have "push_bit k (take_bit 7 v OR push_bit 7 (drop_bit 7 v))
    = push_bit k (take_bit 7 v) OR push_bit (k + 7) (drop_bit 7 v)"
    by (simp add: push_bit_or push_bit_push_bit)
  moreover have "take_bit 7 v OR push_bit 7 (drop_bit 7 v) = v"
  proof (rule bit_eqI)
    fix n
    show "bit (take_bit 7 v OR push_bit 7 (drop_bit 7 v)) n \<longleftrightarrow> bit v n"
      by (cases "n < 7") (auto simp: bit_simps dest: bit_imp_le_length)
  qed
  ultimately show ?thesis by simp
qed

lemma compressed_step_supplied:
  fixes v :: "'w::len word"
  assumes "8 \<le> LENGTH('w)" and "supplies s (compressed v)" and "k < LENGTH('w)"
    and "unat v * 2 ^ k < 2 ^ LENGTH('w)"
  shows "compressed_step acc k s = Inr (acc OR push_bit k v, skip (length (compressed v)) s)"
  using assms
proof (induction v arbitrary: acc k s rule: compressed.induct)
  case (1 v)
  show ?case
  proof (cases "v AND NOT 0x7f = 0")
    case True
    then have v7: "take_bit 7 v = v" unfolding no_high_bits .
    have c: "compressed v = [ucast v]" using True by (subst compressed.simps) simp
    have b: "(ucast v :: u8) AND 0x7f = ucast v" unfolding mask_7
      by (subst v7[symmetric]) (rule bit_eqI, auto simp: bit_simps)
    have z: "(ucast v :: u8) AND 0x80 = 0"
      by (subst v7[symmetric], rule bit_eqI, unfold bit_and_iff bit_0x80) (auto simp: bit_simps)
    have same: "ucast (ucast v :: u8) = v"
      by (subst (1 2) v7[symmetric]) (rule bit_eqI, auto simp: bit_simps)
    have "unat (ucast v :: u8) \<le> unat v" by (simp add: unsigned_ucast_eq take_bit_nat_less_eq_self)
    then have "unat (ucast v :: u8) * 2 ^ k < 2 ^ LENGTH('w)"
      using "1.prems"(4) by (meson mult_le_mono1 order_le_less_trans)
    from defined_shift[OF "1.prems"(3) this] show ?thesis
      using readUInt8BE_supplied[of s "ucast v"] "1.prems"(2)
      by (simp add: compressed_step_def c b same compressed_loop_done[OF z])
  next
    case False
    let ?b = "0x80 OR (0x7f AND ucast v) :: u8" and ?v = "drop_bit 7 v"
    have c: "compressed v = ?b # compressed ?v" using False by (subst compressed.simps) simp
    have sup: "supplies s [?b]" "supplies (skip 1 s) (compressed ?v)"
      using "1.prems"(2) supplies_append[of s "[?b]" "compressed ?v"] by (simp_all add: c)
    have tb: "ucast (take_bit 7 (ucast v :: u8)) = take_bit 7 v"
      using "1.prems"(1) by (intro bit_eqI) (auto simp: bit_simps)
    have "unat (take_bit 7 (ucast v :: u8)) \<le> unat v"
      by (simp add: unsigned_take_bit_eq unsigned_ucast_eq take_bit_nat_less_eq_self)
    then have "unat (take_bit 7 (ucast v :: u8)) * 2 ^ k < 2 ^ LENGTH('w)"
      using "1.prems"(4) by (meson mult_le_mono1 order_le_less_trans)
    from defined_shift[OF "1.prems"(3) this]
    have "compressed_step acc k s = compressed_step (acc OR push_bit k (take_bit 7 v)) (k + 7) (skip 1 s)"
      using readUInt8BE_supplied[OF sup(1)]
      by (simp add: compressed_step_def[of acc] low_byte_bits tb compressed_loop_continue)
    also have "\<dots> = Inr ((acc OR push_bit k (take_bit 7 v)) OR push_bit (k + 7) ?v,
        skip (length (compressed ?v)) (skip 1 s))"
    proof (rule "1.IH"[OF False "1.prems"(1) sup(2)])
      have "unat ?v * 2 ^ (k + 7) = unat v div 128 * 128 * 2 ^ k"
        by (simp add: unat_drop_bit_7 power_add)
      also have "\<dots> \<le> unat v * 2 ^ k" by simp
      finally show lt: "unat ?v * 2 ^ (k + 7) < 2 ^ LENGTH('w)" using "1.prems"(4) by linarith
      have "take_bit 7 v \<noteq> v" using False unfolding no_high_bits .
      then have "?v \<noteq> 0" by (metis bits_ident push_bit_of_0 add_0)
      then have "1 \<le> unat ?v" by (simp add: unat_gt_0 Suc_le_eq)
      then have "1 * 2 ^ (k + 7) \<le> unat ?v * 2 ^ (k + 7)" by (intro mult_le_mono1)
      then have "(2 :: nat) ^ (k + 7) < 2 ^ LENGTH('w)" using lt by linarith
      then show "k + 7 < LENGTH('w)" by (rule power_less_imp_less_exp[rotated]) simp
    qed
    also have "(acc OR push_bit k (take_bit 7 v)) OR push_bit (k + 7) ?v = acc OR push_bit k v"
    proof -
      have "push_bit k v = push_bit k (take_bit 7 v) OR push_bit (k + 7) ?v"
        using push_take_drop[of k v] .
      then show ?thesis by (simp add: or.assoc)
    qed
    finally show ?thesis by (simp add: c)
  qed
qed


lemma readTemplateCompressed_supplied:
  fixes v :: "'w::len word"
  assumes "8 \<le> LENGTH('w)" and "supplies s (compressed v)"
  shows "readTemplateCompressed s = Inr (v, skip (length (compressed v)) s)"
proof -
  have "unat v * 2 ^ 0 < 2 ^ LENGTH('w)" using unsigned_less[of v, where 'a = nat] by simp
  from compressed_step_supplied[OF assms(1,2) _ this, of 0] show ?thesis
    using assms(1) by (simp add: readTemplateCompressed_step)
qed

lemma length_compressed: "length (compressed v) \<le> (LENGTH('w) + 6) div 7"
  for v :: "'w::len word"
proof -
  have "length (compressed v) \<le> Suc ((n - 1) div 7)" if "unat v < 2 ^ n" "0 < n" for n
    using that
  proof (induction v arbitrary: n rule: compressed.induct)
    case (1 v)
    show ?case
    proof (cases "v AND NOT 0x7f = 0")
      case True
      then show ?thesis by (subst compressed.simps) simp
    next
      case False
      have "\<not> unat v < 128"
      proof
        assume "unat v < 128"
        then have "take_bit 7 v = v"
          by (simp add: word_unat_eq_iff unsigned_take_bit_eq take_bit_nat_def)
        with False show False unfolding no_high_bits by simp
      qed
      then have "(2 :: nat) ^ 7 < 2 ^ n" using "1.prems"(1) by simp
      then have n: "7 < n" by (rule power_less_imp_less_exp[rotated]) simp
      have "(2 :: nat) ^ n = 2 ^ (n - 7) * 2 ^ 7" unfolding power_add[symmetric] using n by simp
      then have "unat v < 2 ^ (n - 7) * 128" using "1.prems"(1) by simp
      then have "unat (drop_bit 7 v) < 2 ^ (n - 7)" unfolding unat_drop_bit_7 by (simp add: less_mult_imp_div_less)
      from "1.IH"[OF False this] n have "length (compressed (drop_bit 7 v)) \<le> Suc ((n - 7 - 1) div 7)" by simp
      also have "Suc ((n - 7 - 1) div 7) = (n - 1) div 7" using n by (simp add: div_eq_dividend_iff)
      finally show ?thesis using False by (subst compressed.simps) simp
    qed
  qed
  from this[of "LENGTH('w)"] have "length (compressed v) \<le> Suc ((LENGTH('w) - 1) div 7)"
    using unsigned_less[of v, where 'a = nat] by simp
  also have "\<dots> = (LENGTH('w) + 6) div 7"
    using len_gt_0[where 'a = 'w] by (cases "LENGTH('w)") simp_all
  finally show ?thesis .
qed


lemma supplies_after:
  assumes "at_end s" and "dec_data t = enc_data (push bs s) @ rest" and "dec_offset t = enc_offset s"
  shows "supplies t bs"
  using assms by (simp add: supplies_def push_def at_end_def)

text \<open>
  C36: a compressed number of 8, 16, 32 or 64 bits is read back as it was written: writing appends
  between one and \<open>(w + 6) / 7\<close> bytes, and a reader positioned at them gets the number and stops
  right behind them, without an undefined shift.
\<close>

theorem compressed_roundtrip:
  fixes v :: "'w::len word"
  assumes "8 \<le> LENGTH('w)" and "at_end s"
  shows "let s' = writeTemplateCompressed v s; n = enc_offset s' - enc_offset s
    in at_end s' \<and> 0 < n \<and> n \<le> (LENGTH('w) + 6) div 7 \<and> take (enc_offset s) (enc_data s') = enc_data s
      \<and> readTemplateCompressed \<lparr>dec_data = enc_data s' @ rest, dec_offset = enc_offset s\<rparr>
        = Inr (v, \<lparr>dec_data = enc_data s' @ rest, dec_offset = enc_offset s'\<rparr>)"
proof -
  let ?s' = "push (compressed v) s"
  let ?t = "\<lparr>dec_data = enc_data ?s' @ rest, dec_offset = enc_offset s\<rparr>"
  have "supplies ?t (compressed v)" by (rule supplies_after[OF assms(2)]) simp_all
  from readTemplateCompressed_supplied[OF assms(1) this] show ?thesis
    using assms(2) length_compressed[of v]
    by (simp add: writeTemplateCompressed_push Let_def) (simp add: push_def skip_def at_end_def)
qed

theorem compressed_roundtrip_witness:
  "readTemplateCompressed \<lparr>dec_data = [0xac, 0x02, 7], dec_offset = 0\<rparr>
     = Inr (300 :: u32, \<lparr>dec_data = [0xac, 0x02, 7], dec_offset = 2\<rparr>)"
proof -
  let ?s = "\<lparr>enc_data = [], enc_offset = 0\<rparr>"
  have "at_end ?s" by (simp add: at_end_def)
  moreover have "writeTemplateCompressed (300 :: u32) ?s = \<lparr>enc_data = [0xac, 0x02], enc_offset = 2\<rparr>"
    by code_simp
  ultimately show ?thesis using compressed_roundtrip[of ?s "300 :: u32" "[7]"] by (simp add: Let_def)
qed

text \<open>
  \<open>reads_back wr rd v s rest\<close>: after \<open>wr\<close> has written \<open>v\<close> to the stream \<open>s\<close> and whatever follows,
  \<open>rd\<close> started where \<open>v\<close> was written returns \<open>v\<close> and stops behind it.
\<close>

definition reads_back :: "('v \<Rightarrow> encode_stream \<Rightarrow> encode_stream) \<Rightarrow> ('v, decode_stream) decoder
    \<Rightarrow> 'v \<Rightarrow> encode_stream \<Rightarrow> vld \<Rightarrow> bool" where
  "reads_back wr rd v s rest \<longleftrightarrow>
     rd \<lparr>dec_data = enc_data (wr v s) @ rest, dec_offset = enc_offset s\<rparr>
     = Inr (v, \<lparr>dec_data = enc_data (wr v s) @ rest, dec_offset = enc_offset (wr v s)\<rparr>)"

lemma reads_backI:
  assumes "at_end s" and "wr v s = push bs s"
    and "\<And>t. supplies t bs \<Longrightarrow> rd t = Inr (v, skip (length bs) t)"
  shows "reads_back wr rd v s rest"
  using assms(3)[OF supplies_after[OF assms(1), of _ bs rest]] assms(2)
  by (simp add: reads_back_def push_def skip_def)

lemma write_fixed_push:
  assumes "at_end s"
  shows "writeUInt16LE v16 s = push [ucast v16, ucast (drop_bit 8 v16)] s"
    and "writeUInt16BE v16 s = push [ucast (drop_bit 8 v16), ucast v16] s"
    and "writeUInt32LE v32 s = push
      [ucast v32, ucast (drop_bit 8 v32), ucast (drop_bit 16 v32), ucast (drop_bit 24 v32)] s"
    and "writeUInt32BE v32 s = push
      [ucast (drop_bit 24 v32), ucast (drop_bit 16 v32), ucast (drop_bit 8 v32), ucast v32] s"
    and "writeUInt64LE v64 s = push
      [ucast v64, ucast (drop_bit 8 v64), ucast (drop_bit 16 v64), ucast (drop_bit 24 v64),
       ucast (drop_bit 32 v64), ucast (drop_bit 40 v64), ucast (drop_bit 48 v64),
       ucast (drop_bit 56 v64)] s"
    and "writeUInt64BE v64 s = push
      [ucast (drop_bit 56 v64), ucast (drop_bit 48 v64), ucast (drop_bit 40 v64),
       ucast (drop_bit 32 v64), ucast (drop_bit 24 v64), ucast (drop_bit 16 v64),
       ucast (drop_bit 8 v64), ucast v64] s"
  unfolding writeUInt16LE_def writeUInt16BE_def writeUInt32LE_def writeUInt32BE_def
    writeUInt64LE_def writeUInt64BE_def
  by (rule write_at_push[OF assms], simp, simp only: set16_push set32_push set64_push)+

lemma read_back_fixed:
  assumes "at_end s"
  shows "reads_back writeUInt8BE readUInt8BE v8 s rest"
    and "reads_back writeUInt16LE readUInt16LE v16 s rest"
    and "reads_back writeUInt16BE readUInt16BE v16 s rest"
    and "reads_back writeUInt32LE readUInt32LE v32 s rest"
    and "reads_back writeUInt32BE readUInt32BE v32 s rest"
    and "reads_back writeUInt64LE readUInt64LE v64 s rest"
    and "reads_back writeUInt64BE readUInt64BE v64 s rest"
  by (rule reads_backI[OF assms], rule writeUInt8BE_push[OF assms] write_fixed_push[OF assms],
      simp add: readUInt8BE_supplied read16_supplied read32_supplied read64_supplied eval_nat_numeral)+

end
