(* ===== verification/Wire_Codec.thy ===== *)
theory Wire_Codec
  imports Data_Stream "HOL-Library.List_Lexorder" "HOL-Library.Finite_Map"
begin

text \<open>
  The layer between the byte streams and the messages: the encode and decode streams of
  \<open>src/OpenRTI/TightBE1MessageEncoding.cpp\<close>, which beside the bytes of the message body hand whole
  buffers to the connection (\<open>addWriteBuffer\<close>) and ask for buffers (\<open>addReadBuffer\<close>), and its
  writers and readers of strings, sequences, sets, maps and opaque data. The locales
  \<open>payload_codec\<close> and \<open>wire_codec\<close> are the contract of a pair of a writer and a reader.
\<close>

record message_encode = encode_stream +
  writeBuffers :: "vld list"

record message_decode = decode_stream +
  readBuffers :: "nat list"

type_synonym 'a writer = "'a \<Rightarrow> message_encode \<Rightarrow> message_encode"
type_synonym 'a reader = "('a, message_decode) decoder"

text \<open>A \<open>std::string\<close> is its bytes, ordered as \<open>std::string\<close> orders them; a \<open>double\<close> is its bits.\<close>

type_synonym wire_string = "u8 list"
type_synonym double_bits = u64

text \<open>Writers one after the other.\<close>

fun writes :: "('s \<Rightarrow> 's) list \<Rightarrow> 's \<Rightarrow> 's" where
  "writes [] = id"
| "writes [f] = f"
| "writes (f # g # fs) = fcomp f (writes (g # fs))"

section \<open>Containers\<close>

definition addWriteBuffer :: "vld \<Rightarrow> message_encode \<Rightarrow> message_encode" where
  "addWriteBuffer d s = (if d = [] then s else s\<lparr>writeBuffers := writeBuffers s @ [d]\<rparr>)"

definition addReadBuffer :: "nat \<Rightarrow> message_decode \<Rightarrow> message_decode" where
  "addReadBuffer n s = s\<lparr>readBuffers := readBuffers s @ [n]\<rparr>"

definition write_vector :: "'a writer \<Rightarrow> 'a list writer" where
  "write_vector wr xs = fcomp (writeSizeTCompressed (length xs)) (fold wr xs)"

definition write_set :: "'a::linorder writer \<Rightarrow> 'a fset writer" where
  "write_set wr X = fcomp (writeSizeTCompressed (fcard X)) (fold wr (sorted_list_of_fset X))"

fun read_elements :: "'a reader \<Rightarrow> nat \<Rightarrow> 'a list reader" where
  "read_elements rd 0 = dec_return []"
| "read_elements rd (Suc n) =
     dec_bind rd (\<lambda>x. dec_bind (read_elements rd n) (\<lambda>xs. dec_return (x # xs)))"

text \<open>
  A vector is resized to the size read and then each element is read. The model starts reading at
  once: a size that memory cannot hold, for which \<open>resize\<close> throws, runs into the end of the packet.
\<close>

definition read_vector :: "'a reader \<Rightarrow> 'a list reader" where
  "read_vector rd = dec_bind readSizeTCompressed (\<lambda>n. read_elements rd (unat n))"

definition read_set :: "'a reader \<Rightarrow> 'a fset reader" where
  "read_set rd = dec_bind readSizeTCompressed (\<lambda>n.
     dec_bind (read_elements rd (unat n)) (\<lambda>xs. dec_return (fold finsert xs {||})))"

definition writeString :: "wire_string writer" where
  "writeString v = fcomp (writeSizeTCompressed (length v)) (fold writeChar v)"

definition readString :: "wire_string reader" where
  "readString = dec_bind readSizeTCompressed (\<lambda>n. read_elements readChar (unat n))"

definition writeBool :: "bool writer" where
  "writeBool v = enc_writeBool v"

definition readBool :: "bool reader" where
  "readBool = readBoolCompressed"

definition writeDouble :: "double_bits writer" where
  "writeDouble v = writeUInt64Compressed v"

definition readDouble :: "double_bits reader" where
  "readDouble = readUInt64Compressed"

text \<open>Opaque data travels in a buffer of its own; the body has its size. It is read as data of that
  size whose bytes are filled in when the buffer has arrived: the model has zeros until then.\<close>

definition writeVariableLengthData :: "vld writer" where
  "writeVariableLengthData v =
     fcomp (writeSizeTCompressed (length v)) (if v = [] then id else addWriteBuffer v)"

definition readVariableLengthData :: "vld reader" where
  "readVariableLengthData = dec_bind readSizeTCompressed (\<lambda>n s.
     Inr (replicate (unat n) 0, if n \<noteq> 0 then addReadBuffer (unat n) s else s))"

definition readPayloadVariableLengthData :: "vld \<Rightarrow> (vld, vld list) decoder" where
  "readPayloadVariableLengthData v bufs =
     (if v = [] then Inr (v, bufs)
      else case bufs of [] \<Rightarrow> Inl EndOfPayload | b # bufs \<Rightarrow> Inr (b, bufs))"

fun readPayload_vector :: "('a \<Rightarrow> ('a, vld list) decoder) \<Rightarrow> 'a list \<Rightarrow> ('a list, vld list) decoder" where
  "readPayload_vector fill [] = dec_return []"
| "readPayload_vector fill (x # xs) =
     dec_bind (fill x) (\<lambda>y. dec_bind (readPayload_vector fill xs) (\<lambda>ys. dec_return (y # ys)))"

section \<open>Reading what was written\<close>

definition emit :: "u8 list \<Rightarrow> vld list \<Rightarrow> message_encode \<Rightarrow> message_encode" where
  "emit bs ps s = (push bs s)\<lparr>writeBuffers := writeBuffers s @ ps\<rparr>"

definition accept :: "nat \<Rightarrow> nat list \<Rightarrow> message_decode \<Rightarrow> message_decode" where
  "accept n szs s = (skip n s)\<lparr>readBuffers := readBuffers s @ szs\<rparr>"

text \<open>
  \<open>rt n f r ps y\<close>: the writer \<open>f\<close> appends some bytes to the body, at least \<open>n\<close>, and the buffers
  \<open>ps\<close>; where these bytes are read, \<open>r\<close> stops behind them, asks for buffers of the sizes of
  \<open>ps\<close> and returns \<open>y\<close>. Sizes are 64 bit words, so this holds for data smaller than \<open>2^64\<close> bytes.
\<close>

definition small :: "u8 list \<Rightarrow> vld list \<Rightarrow> bool" where
  "small bs ps \<longleftrightarrow> length bs < 2 ^ 64 \<and> (\<forall>p \<in> set ps. length p < 2 ^ 64)"

definition rt ::
  "nat \<Rightarrow> (message_encode \<Rightarrow> message_encode) \<Rightarrow> 'a reader \<Rightarrow> vld list \<Rightarrow> 'a \<Rightarrow> bool" where
  "rt n f r ps y \<longleftrightarrow> (\<exists>bs. n \<le> length bs \<and> (\<forall>s. at_end s \<longrightarrow> f s = emit bs ps s)
     \<and> (small bs ps \<longrightarrow>
          (\<forall>d. supplies d bs \<longrightarrow> r d = Inr (y, accept (length bs) (map length ps) d))))"

lemma rtI:
  assumes "n \<le> length bs" and "\<And>s. at_end s \<Longrightarrow> f s = emit bs ps s"
    and "\<And>d. small bs ps \<Longrightarrow> supplies d bs \<Longrightarrow> r d = Inr (y, accept (length bs) (map length ps) d)"
  shows "rt n f r ps y"
  using assms unfolding rt_def by blast

lemma rtE:
  assumes "rt n f r ps y"
  obtains bs where "n \<le> length bs" "\<And>s. at_end s \<Longrightarrow> f s = emit bs ps s"
    "\<And>d. small bs ps \<Longrightarrow> supplies d bs \<Longrightarrow> r d = Inr (y, accept (length bs) (map length ps) d)"
  using assms unfolding rt_def by blast

lemma small_append: "small (bs @ bs') (ps @ ps') \<Longrightarrow> small bs ps \<and> small bs' ps'"
  by (auto simp: small_def)

lemma at_end_emit [simp]: "at_end s \<Longrightarrow> at_end (emit bs ps s)"
  by (simp add: emit_def at_end_def push_def)

lemma emit_emit: "emit bs' ps' (emit bs ps s) = emit (bs @ bs') (ps @ ps') s"
  by (simp add: emit_def push_def)

lemma supplies_more [simp]: "supplies (d\<lparr>readBuffers := b\<rparr>) bs = supplies d bs"
  by (simp add: supplies_def)

lemma accept_accept: "accept n' z' (accept n z d) = accept (n + n') (z @ z') d"
  by (simp add: accept_def skip_def)

lemma supplies_accept: "supplies d (bs @ bs') \<Longrightarrow> supplies (accept (length bs) z d) bs'"
  by (simp add: supplies_append accept_def)

lemma push_emit: "push bs s = emit bs [] s"
  by (simp add: emit_def push_def)

lemma skip_accept: "skip n d = accept n [] d"
  by (simp add: accept_def skip_def)

lemma rt_weaken: "rt n f r ps y \<Longrightarrow> m \<le> n \<Longrightarrow> rt m f r ps y"
  unfolding rt_def using order_trans by blast

lemma rt_bind:
  assumes "rt m f r ps y" and "rt n g (k y) ps' z"
  shows "rt (m + n) (fcomp f g) (dec_bind r k) (ps @ ps') z"
proof -
  obtain bs where bs: "m \<le> length bs" "\<And>s. at_end s \<Longrightarrow> f s = emit bs ps s"
    "\<And>d. small bs ps \<Longrightarrow> supplies d bs \<Longrightarrow> r d = Inr (y, accept (length bs) (map length ps) d)"
    using assms(1) by (rule rtE) auto
  obtain bs' where bs': "n \<le> length bs'" "\<And>s. at_end s \<Longrightarrow> g s = emit bs' ps' s"
    "\<And>d. small bs' ps' \<Longrightarrow> supplies d bs' \<Longrightarrow> k y d = Inr (z, accept (length bs') (map length ps') d)"
    using assms(2) by (rule rtE) auto
  show ?thesis
  proof (rule rtI[of _ "bs @ bs'"])
    show "m + n \<le> length (bs @ bs')" using bs(1) bs'(1) by simp
    show "at_end s \<Longrightarrow> (fcomp f g) s = emit (bs @ bs') (ps @ ps') s" for s
      using bs(2) bs'(2) by (simp add: fcomp_def emit_emit)
    fix d :: message_decode
    assume "small (bs @ bs') (ps @ ps')" and sup: "supplies d (bs @ bs')"
    then have "small bs ps" "small bs' ps'" "supplies d bs"
      using small_append[of bs bs' ps ps'] by (simp_all add: supplies_append)
    with bs(3)[of d] bs'(3)[OF _ supplies_accept[OF sup]]
    show "dec_bind r k d = Inr (z, accept (length (bs @ bs')) (map length (ps @ ps')) d)"
      by (simp add: dec_bind_def accept_accept)
  qed
qed

lemma rt_return: "x = y \<Longrightarrow> rt 0 id (dec_return x) [] y"
  by (rule rtI[of _ "[]"]) (simp_all add: emit_def accept_def dec_return_def)

lemma rt_last: "rt n f r ps y \<Longrightarrow> h y = z \<Longrightarrow> rt n f (dec_bind r (\<lambda>x. dec_return (h x))) ps z"
  using rt_bind[of n f r ps y 0 id "\<lambda>x. dec_return (h x)" "[]" z] by (simp add: rt_return)

text \<open>The field rules for the writers and readers of classes.\<close>

lemma rt_field: "rt 1 f r ps y \<Longrightarrow> rt 0 g (k y) ps' z \<Longrightarrow> rt 1 (fcomp f g) (dec_bind r k) (ps @ ps') z"
  using rt_bind[of 1 f r ps y 0 g k ps' z] by simp

lemma rt_field_plain: "rt 1 f r [] y \<Longrightarrow> rt 0 g (k y) [] z \<Longrightarrow> rt 1 (fcomp f g) (dec_bind r k) [] z"
  using rt_field[of f r "[]" y g k "[]" z] by simp

lemma rt_field_first: "rt 1 f r [] y \<Longrightarrow> rt 0 g (k y) ps z \<Longrightarrow> rt 1 (fcomp f g) (dec_bind r k) ps z"
  using rt_field[of f r "[]" y g k ps z] by simp

subsection \<open>Numbers, strings and opaque data\<close>

lemma rt_compressed:
  fixes v :: "'w::len word"
  assumes "8 \<le> LENGTH('w)"
  shows "rt 1 (writeTemplateCompressed v) readTemplateCompressed [] v"
proof (rule rtI[of _ "compressed v"])
  show "1 \<le> length (compressed v)" by (simp add: Suc_le_eq)
  show "at_end s \<Longrightarrow> writeTemplateCompressed v s = emit (compressed v) [] s" for s
    by (simp add: writeTemplateCompressed_push push_emit)
  show "supplies d (compressed v) \<Longrightarrow>
      readTemplateCompressed d = Inr (v, accept (length (compressed v)) (map length []) d)" for d
    using assms by (simp add: readTemplateCompressed_supplied skip_accept)
qed

lemma rt_uint8: "rt 1 (writeUInt8Compressed v8) readUInt8Compressed [] v8"
  and rt_uint16: "rt 1 (writeUInt16Compressed v16) readUInt16Compressed [] v16"
  and rt_uint32: "rt 1 (writeUInt32Compressed v32) readUInt32Compressed [] v32"
  and rt_uint64: "rt 1 (writeUInt64Compressed v64) readUInt64Compressed [] v64"
  and rt_sizeT: "rt 1 (writeSizeTCompressed n) readSizeTCompressed [] (word_of_nat n)"
  unfolding writeUInt8Compressed_def readUInt8Compressed_def writeUInt16Compressed_def
    readUInt16Compressed_def writeUInt32Compressed_def readUInt32Compressed_def
    writeUInt64Compressed_def readUInt64Compressed_def writeSizeTCompressed_def readSizeTCompressed_def
  by (rule rt_compressed, simp)+

lemma rt_byte: "rt 1 (writeUInt8BE v) readUInt8BE [] v"
  by (rule rtI[of _ "[v]"]) (simp_all add: writeUInt8BE_push push_emit readUInt8BE_supplied skip_accept)

text \<open>Something of size \<open>n\<close> that takes at least \<open>n\<close> bytes of the body, or a buffer, after its size.\<close>

lemma rt_sized:
  assumes "rt m g (k n) ps z" and "n \<le> m \<or> (\<exists>p \<in> set ps. n \<le> length p)"
  shows "rt 1 (fcomp (writeSizeTCompressed n) g) (dec_bind readSizeTCompressed (\<lambda>v. k (unat v))) ps z"
proof -
  obtain as where as: "1 \<le> length as" "\<And>s. at_end s \<Longrightarrow> writeSizeTCompressed n s = emit as [] s"
    "\<And>d. small as [] \<Longrightarrow> supplies d as
      \<Longrightarrow> readSizeTCompressed d = Inr (word_of_nat n, accept (length as) [] d)"
    using rt_sizeT[of n] by (rule rtE) auto
  obtain bs where bs: "m \<le> length bs" "\<And>s. at_end s \<Longrightarrow> g s = emit bs ps s"
    "\<And>d. small bs ps \<Longrightarrow> supplies d bs \<Longrightarrow> k n d = Inr (z, accept (length bs) (map length ps) d)"
    using assms(1) by (rule rtE) auto
  show ?thesis
  proof (rule rtI[of _ "as @ bs"])
    show "1 \<le> length (as @ bs)" using as(1) by simp
    show "at_end s \<Longrightarrow> (fcomp (writeSizeTCompressed n) g) s = emit (as @ bs) ps s" for s
      using as(2) bs(2) by (simp add: fcomp_def emit_emit)
    fix d :: message_decode
    assume sm: "small (as @ bs) ps" and sup: "supplies d (as @ bs)"
    have "n < 2 ^ 64" using assms(2) sm bs(1) by (auto simp: small_def)
    then have "unat (word_of_nat n :: u64) = n" by (simp add: unat_of_nat take_bit_nat_eq_self)
    moreover have "small as []" "small bs ps" "supplies d as"
      using small_append[of as bs "[]" ps] sm sup by (auto simp: supplies_append)
    ultimately show "dec_bind readSizeTCompressed (\<lambda>v. k (unat v)) d
        = Inr (z, accept (length (as @ bs)) (map length ps) d)"
      using as(3)[of d] bs(3)[OF _ supplies_accept[OF sup]] by (simp add: dec_bind_def accept_accept)
  qed
qed

lemma rt_elements:
  assumes "\<And>x. rt 1 (wr x) rd (pl x) (h x)"
  shows "rt (length xs) (fold wr xs) (read_elements rd (length xs)) (concat (map pl xs)) (map h xs)"
proof (induction xs)
  case Nil
  then show ?case using rt_return[of "[]" "[]"] by (simp add: id_def)
next
  case (Cons x xs)
  have "rt (1 + (length xs)) (fcomp (wr x) (fold wr xs))
      (dec_bind rd (\<lambda>y. dec_bind (read_elements rd (length xs)) (\<lambda>ys. dec_return (y # ys))))
      (pl x @ concat (map pl xs)) (h x # map h xs)"
    using assms by (rule rt_bind) (rule rt_last[OF Cons.IH], simp)
  then show ?case by (simp add: fcomp_def comp_def)
qed

section \<open>The contract of a writer and its reader\<close>

text \<open>
  \<open>pl x\<close> are the buffers that travel with \<open>x\<close>, \<open>hollow x\<close> is what the reader of the body returns and
  \<open>fill\<close> the payload decoder that puts the buffers in place.
\<close>

locale payload_codec =
  fixes wr :: "'a writer" and rd :: "'a reader" and pl :: "'a \<Rightarrow> vld list" and hollow :: "'a \<Rightarrow> 'a"
    and fill :: "'a \<Rightarrow> ('a, vld list) decoder"
  assumes body: "rt 1 (wr x) rd (pl x) (hollow x)"
    and payload: "fill (hollow x) (pl x @ rest) = Inr (x, rest)"
    and no_payload: "pl x = [] \<Longrightarrow> hollow x = x"
    and nonempty: "p \<in> set (pl x) \<Longrightarrow> p \<noteq> []"
begin

lemma vector:
  "payload_codec (write_vector wr) (read_vector rd) (\<lambda>xs. concat (map pl xs)) (map hollow)
    (readPayload_vector fill)"
proof
  fix xs :: "'a list"
  show "rt 1 (write_vector wr xs) (read_vector rd) (concat (map pl xs)) (map hollow xs)"
    unfolding write_vector_def read_vector_def
    using rt_elements[of wr rd pl hollow xs, OF body] by (rule rt_sized) simp
  fix rest
  show "readPayload_vector fill (map hollow xs) (concat (map pl xs) @ rest) = Inr (xs, rest)"
    by (induction xs) (simp_all add: dec_return_def dec_bind_def payload)
  show "map hollow xs = xs" if "concat (map pl xs) = []"
    using that by (induction xs) (simp_all add: no_payload)
  show "p \<noteq> []" if "p \<in> set (concat (map pl xs))" for p
    using that nonempty by auto
qed

end

text \<open>The contract of a writer that puts everything into the body.\<close>

locale wire_codec =
  fixes wr :: "'a writer" and rd :: "'a reader"
  assumes body: "rt 1 (wr x) rd [] x"
begin

lemma elements: "rt (length xs) (fold wr xs) (read_elements rd (length xs)) [] xs"
proof -
  have "concat (map (\<lambda>_. []) xs) = ([] :: vld list)" by (induction xs) auto
  then show ?thesis
    using rt_elements[of wr rd "\<lambda>_. []" "\<lambda>x. x" xs, OF body] by (simp only: list.map_ident)
qed

lemma vector: "wire_codec (write_vector wr) (read_vector rd)"
proof
  fix xs :: "'a list"
  show "rt 1 (write_vector wr xs) (read_vector rd) [] xs"
    unfolding write_vector_def read_vector_def using elements[of xs] by (rule rt_sized) simp
qed

lemma pair:
  assumes "wire_codec wr' rd'"
  shows "wire_codec (\<lambda>(a, b). writes [wr a, wr' b]) (dec_bind rd (\<lambda>a. dec_bind rd' (\<lambda>b. dec_return (a, b))))"
proof
  fix x :: "'a \<times> 'b"
  have "rt 0 (wr' (snd x)) (dec_bind rd' (\<lambda>b. dec_return (fst x, b))) [] x"
    using rt_last[OF wire_codec.body[OF assms], of "Pair (fst x)" "snd x"] by (simp add: rt_weaken)
  then show "rt 1 ((\<lambda>(a, b). writes [wr a, wr' b]) x)
      (dec_bind rd (\<lambda>a. dec_bind rd' (\<lambda>b. dec_return (a, b)))) [] x"
    using rt_field_plain[OF body] by (cases x) simp
qed

end

lemma finsert_fold: "fold finsert xs X = fset_of_list xs |\<union>| X"
  by (induction xs arbitrary: X) auto

lemma wire_set:
  fixes wr :: "'a::linorder writer"
  assumes "wire_codec wr rd"
  shows "wire_codec (write_set wr) (read_set rd)"
proof
  fix X :: "'a fset"
  let ?xs = "sorted_list_of_fset X"
  have "length ?xs = fcard X"
    by (simp add: sorted_list_of_fset.rep_eq fcard.rep_eq)
  moreover have "rt (length ?xs) (fold wr ?xs)
      (dec_bind (read_elements rd (length ?xs)) (\<lambda>xs. dec_return (fold finsert xs {||}))) [] X"
    by (rule rt_last[OF wire_codec.elements[OF assms]]) (simp add: finsert_fold)
  ultimately show "rt 1 (write_set wr X) (read_set rd) [] X"
    unfolding write_set_def read_set_def
    using rt_sized[of "fcard X" "fold wr ?xs"
        "\<lambda>n. dec_bind (read_elements rd n) (\<lambda>xs. dec_return (fold finsert xs {||}))" "fcard X" "[]" X]
    by simp
qed

interpretation wire_char: wire_codec writeChar readChar
  by unfold_locales (simp only: writeChar_def readChar_def rt_byte)

interpretation wire_String: wire_codec writeString readString
  using wire_char.vector
  by (simp add: writeString_def[abs_def] readString_def write_vector_def[abs_def] read_vector_def)

interpretation wire_Double: wire_codec writeDouble readDouble
  by unfold_locales (simp only: writeDouble_def readDouble_def rt_uint64)

interpretation wire_Bool: wire_codec writeBool readBool
proof
  fix v
  show "rt 1 (writeBool v) readBool [] v"
    unfolding writeBool_def readBool_def enc_writeBool_def readBoolCompressed_def
    by (rule rt_last[OF rt_byte]) simp
qed

definition vld_payload :: "vld \<Rightarrow> vld list" where
  "vld_payload v = (if v = [] then [] else [v])"

definition vld_hollow :: "vld \<Rightarrow> vld" where
  "vld_hollow v = replicate (length v) 0"

interpretation wire_VariableLengthData: payload_codec writeVariableLengthData readVariableLengthData
  vld_payload vld_hollow readPayloadVariableLengthData
proof
  fix v :: vld
  let ?k = "\<lambda>n s. Inr (replicate n 0, if n \<noteq> 0 then addReadBuffer n s else s) :: decode_error + vld \<times> message_decode"
  have "rt 0 (if v = [] then id else addWriteBuffer v) (?k (length v)) (vld_payload v) (vld_hollow v)"
    by (rule rtI[of _ "[]"])
      (auto simp: vld_payload_def vld_hollow_def addWriteBuffer_def addReadBuffer_def emit_def accept_def)
  from rt_sized[of 0 _ ?k "length v", OF this]
  show "rt 1 (writeVariableLengthData v) readVariableLengthData (vld_payload v) (vld_hollow v)"
    unfolding writeVariableLengthData_def readVariableLengthData_def
    by (simp add: vld_payload_def unat_eq_0)
  show "readPayloadVariableLengthData (vld_hollow v) (vld_payload v @ rest) = Inr (v, rest)" for rest
    by (simp add: readPayloadVariableLengthData_def vld_hollow_def vld_payload_def)
qed (auto simp: vld_hollow_def vld_payload_def split: if_splits)

subsection \<open>Fields of a class and entries of a map\<close>

lemma rt_first:
  "wire_codec w r \<Longrightarrow> rt 0 g (k y) ps z \<Longrightarrow> rt 1 (fcomp (w y) g) (dec_bind r k) ps z"
  by (rule rt_field_first[OF wire_codec.body])

lemma rt_next:
  "wire_codec w r \<Longrightarrow> rt 0 g (k y) ps z \<Longrightarrow> rt 0 (fcomp (w y) g) (dec_bind r k) ps z"
  using rt_weaken[OF rt_first[of w r g k y ps z]] by simp

lemma rt_single:
  "wire_codec w r \<Longrightarrow> h y = z \<Longrightarrow> rt 1 (w y) (dec_bind r (\<lambda>x. dec_return (h x))) [] z"
  by (rule rt_last[OF wire_codec.body])

lemma rt_end:
  "wire_codec w r \<Longrightarrow> h y = z \<Longrightarrow> rt 0 (w y) (dec_bind r (\<lambda>x. dec_return (h x))) [] z"
  by (rule rt_weaken[OF rt_single]) simp_all

lemma rt_pfirst:
  "payload_codec w r pl ho fill \<Longrightarrow> rt 0 g (k (ho y)) ps z
    \<Longrightarrow> rt 1 (fcomp (w y) g) (dec_bind r k) (pl y @ ps) z"
  by (rule rt_field[OF payload_codec.body])

lemma rt_pnext:
  "payload_codec w r pl ho fill \<Longrightarrow> rt 0 g (k (ho y)) ps z
    \<Longrightarrow> rt 0 (fcomp (w y) g) (dec_bind r k) (pl y @ ps) z"
  using rt_weaken[OF rt_pfirst[of w r pl ho fill g k y ps z]] by simp

lemma rt_psingle:
  "payload_codec w r pl ho fill \<Longrightarrow> h (ho y) = z
    \<Longrightarrow> rt 1 (w y) (dec_bind r (\<lambda>x. dec_return (h x))) (pl y) z"
  by (rule rt_last[OF payload_codec.body])

lemma rt_pend:
  "payload_codec w r pl ho fill \<Longrightarrow> h (ho y) = z
    \<Longrightarrow> rt 0 (w y) (dec_bind r (\<lambda>x. dec_return (h x))) (pl y) z"
  by (rule rt_weaken[OF rt_psingle]) simp_all

lemma fmlookup_fold_fmupd:
  "distinct (map fst kvs) \<Longrightarrow>
    fmlookup (fold (\<lambda>(key, v) m. fmupd key v m) kvs m) = fmlookup m ++ map_of kvs"
proof (induction kvs arbitrary: m)
  case (Cons kv kvs)
  then have "map_of kvs (fst kv) = None" by (simp add: map_of_eq_None_iff)
  with Cons show ?case by (cases kv) (auto simp: fun_eq_iff map_add_def split: option.split)
qed simp

lemma fold_fmupd_sorted_list:
  "fold (\<lambda>(key, v) m. fmupd key v m) (sorted_list_of_fmap m) fmempty = m"
proof (rule fmap_ext)
  have "map fst (sorted_list_of_fmap m) = sorted_list_of_fset (fmdom m)"
    by (simp add: sorted_list_of_fmap_def comp_def)
  then have "distinct (map fst (sorted_list_of_fmap m))" by (simp add: sorted_list_of_fset.rep_eq)
  then show "fmlookup (fold (\<lambda>(key, v) m. fmupd key v m) (sorted_list_of_fmap m) fmempty) x
    = fmlookup m x" for x by (simp add: fmlookup_fold_fmupd map_add_def split: option.split)
qed

lemma wire_map:
  fixes wk :: "'k::linorder writer" and wv :: "'v writer"
  assumes "wire_codec wk rk" and "wire_codec wv rv"
  shows "wire_codec
    (\<lambda>m. writes [writeSizeTCompressed (fcard (fmdom m)),
      fold (\<lambda>(key, v). writes [wk key, wv v]) (sorted_list_of_fmap m)])
    (dec_bind readSizeTCompressed (\<lambda>n. dec_bind
      (read_elements (dec_bind rk (\<lambda>key. dec_bind rv (\<lambda>v. dec_return (key, v)))) (unat n))
      (\<lambda>kvs. dec_return (fold (\<lambda>(key, v) m. fmupd key v m) kvs fmempty))))"
proof
  fix m :: "('k, 'v) fmap"
  let ?kvs = "sorted_list_of_fmap m"
  let ?wr = "\<lambda>(key, v). writes [wk key, wv v]"
  let ?rd = "dec_bind rk (\<lambda>key. dec_bind rv (\<lambda>v. dec_return (key, v)))"
  let ?k = "\<lambda>n. dec_bind (read_elements ?rd n)
    (\<lambda>kvs. dec_return (fold (\<lambda>(key, v) m. fmupd key v m) kvs fmempty))"
  have "length ?kvs = fcard (fmdom m)"
    by (simp add: sorted_list_of_fmap_def sorted_list_of_fset.rep_eq fcard.rep_eq)
  moreover note fold_fmupd_sorted_list[of m]
  ultimately show "rt 1 (writes [writeSizeTCompressed (fcard (fmdom m)), fold ?wr ?kvs])
      (dec_bind readSizeTCompressed (\<lambda>n. ?k (unat n))) [] m"
    using rt_sized[of "length ?kvs" "fold ?wr ?kvs" ?k "length ?kvs" "[]" m,
        OF rt_last[OF wire_codec.elements[OF wire_codec.pair[OF assms]]]] by simp
qed

end
