(* ===== verification/Wire_Types.thy ===== *)
theory Wire_Types
  imports Wire_Codec
begin

text \<open>
  The data of \<open>src/OpenRTI/Message.h\<close>: the enumerations, the handles, containers and pairs, and the
  classes whose values travel in messages. A class is the record of its members; the copy-on-write
  implementation pointers of the FOM classes are not visible to their users. Sets and maps are
  finite sets and maps.
\<close>

datatype CallbackModel =
    HLA_IMMEDIATE | HLA_EVOKED

datatype OrderType =
    RECEIVE | TIMESTAMP

datatype TransportationType =
    RELIABLE | BEST_EFFORT

datatype SubscriptionType =
    Unsubscribed | SubscribedPassive | SubscribedActive

datatype PublicationType =
    Unpublished | Published

datatype ResignAction =
    UNCONDITIONALLY_DIVEST_ATTRIBUTES | DELETE_OBJECTS | CANCEL_PENDING_OWNERSHIP_ACQUISITIONS |
    DELETE_OBJECTS_THEN_DIVEST | CANCEL_THEN_DELETE_THEN_DIVEST | NO_ACTION

datatype RestoreFailureReason =
    RTI_UNABLE_TO_RESTORE | FEDERATE_REPORTED_FAILURE_DURING_RESTORE |
    FEDERATE_RESIGNED_DURING_RESTORE | RTI_DETECTED_FAILURE_DURING_RESTORE

datatype RestoreStatus =
    NO_RESTORE_IN_PROGRESS | FEDERATE_RESTORE_REQUEST_PENDING |
    FEDERATE_WAITING_FOR_RESTORE_TO_BEGIN | FEDERATE_PREPARED_TO_RESTORE | FEDERATE_RESTORING |
    FEDERATE_WAITING_FOR_FEDERATION_TO_RESTORE

datatype SaveFailureReason =
    RTI_UNABLE_TO_SAVE | FEDERATE_REPORTED_FAILURE_DURING_SAVE | FEDERATE_RESIGNED_DURING_SAVE |
    RTI_DETECTED_FAILURE_DURING_SAVE | SAVE_TIME_CANNOT_BE_HONORED

datatype SaveStatus =
    NO_SAVE_IN_PROGRESS | FEDERATE_INSTRUCTED_TO_SAVE | FEDERATE_SAVING |
    FEDERATE_WAITING_FOR_FEDERATION_TO_SAVE

datatype ServiceGroupIndicator =
    FEDERATION_MANAGEMENT | DECLARATION_MANAGEMENT | OBJECT_MANAGEMENT | OWNERSHIP_MANAGEMENT |
    TIME_MANAGEMENT | DATA_DISTRIBUTION_MANAGEMENT | SUPPORT_SERVICES

datatype LowerBoundTimeStampCommitType =
    TimeAdvanceCommit | NextMessageCommit | TimeAdvanceAndNextMessageCommit

datatype SwitchesType =
    InteractionRelevanceAdvisorySwitchesType | ObjectClassRelevanceAdvisorySwitchesType |
    AttributeRelevanceAdvisorySwitchesType | AttributeScopeAdvisorySwitchesType |
    AutoProvideSwitchesType | ConveyRegionDesignatorSetsSwitchesType |
    ServiceReportingSwitchesType

datatype ArrayDataTypeEncoding =
    FixedArrayDataTypeEncoding | VariableArrayDataTypeEncoding

datatype Endianness =
    BigEndian | LittleEndian

datatype CreateFederationExecutionResponseType =
    CreateFederationExecutionResponseSuccess |
    CreateFederationExecutionResponseFederationExecutionAlreadyExists |
    CreateFederationExecutionResponseCouldNotOpenFDD |
    CreateFederationExecutionResponseErrorReadingFDD |
    CreateFederationExecutionResponseCouldNotCreateLogicalTimeFactory |
    CreateFederationExecutionResponseInconsistentFDD |
    CreateFederationExecutionResponseRTIinternalError | CreateFederationExecutionResponseTimeout

datatype DestroyFederationExecutionResponseType =
    DestroyFederationExecutionResponseSuccess |
    DestroyFederationExecutionResponseFederatesCurrentlyJoined |
    DestroyFederationExecutionResponseFederationExecutionDoesNotExist |
    DestroyFederationExecutionResponseRTIinternalError

datatype JoinFederationExecutionResponseType =
    JoinFederationExecutionResponseSuccess |
    JoinFederationExecutionResponseFederateNameAlreadyInUse |
    JoinFederationExecutionResponseFederationExecutionDoesNotExist |
    JoinFederationExecutionResponseSaveInProgress |
    JoinFederationExecutionResponseRestoreInProgress |
    JoinFederationExecutionResponseInconsistentFDD | JoinFederationExecutionResponseTimeout

datatype RegisterFederationSynchronizationPointResponseType =
    RegisterFederationSynchronizationPointResponseSuccess |
    RegisterFederationSynchronizationPointResponseLabelNotUnique |
    RegisterFederationSynchronizationPointResponseMemberNotJoined

type_synonym Unsigned = u32
type_synonym FederationHandle = "16 word"
type_synonym ModuleHandle = "16 word"
type_synonym AttributeHandle = u32
type_synonym DimensionHandle = u32
type_synonym UpdateRateHandle = u32
type_synonym BasicDataTypeHandle = u32
type_synonym SimpleDataTypeHandle = u32
type_synonym EnumeratedDataTypeHandle = u32
type_synonym ArrayDataTypeHandle = u32
type_synonym FixedRecordDataTypeHandle = u32
type_synonym VariantRecordDataTypeHandle = u32
type_synonym ObjectClassHandle = u32
type_synonym ObjectInstanceHandle = u32
type_synonym InteractionClassHandle = u32
type_synonym ParameterHandle = u32
type_synonym FederateHandle = u32
type_synonym SpaceHandle = u32
type_synonym TransportationHandle = u8
type_synonym OrderingHandle = u8
type_synonym MessageRetractionHandle = u64
type_synonym RegionHandle = u64
type_synonym Bool = bool
type_synonym String = wire_string
type_synonym Double = double_bits
type_synonym VariableLengthData = vld

type_synonym AttributeHandleVector = "AttributeHandle list"
type_synonym FederateHandleVector = "FederateHandle list"
type_synonym ParameterHandleVector = "ParameterHandle list"
type_synonym DimensionHandleVector = "DimensionHandle list"
type_synonym DimensionHandleSet = "DimensionHandle fset"
type_synonym ObjectInstanceHandleVector = "ObjectInstanceHandle list"
type_synonym RegionHandleVector = "RegionHandle list"
type_synonym ModuleHandleVector = "ModuleHandle list"
type_synonym StringVector = "String list"
type_synonym StringSet = "String fset"
type_synonym FederateHandleBoolPair = "FederateHandle \<times> Bool"
type_synonym FederateHandleBoolPairVector = "FederateHandleBoolPair list"

record RangeBoundsValue =
  RangeBoundsValue_lowerBound :: Unsigned
  RangeBoundsValue_upperBound :: Unsigned

type_synonym DimensionHandleRangeBoundsValuePair = "DimensionHandle \<times> RangeBoundsValue"
type_synonym RegionValue = "DimensionHandleRangeBoundsValuePair list"
type_synonym RegionValueList = "RegionValue list"
type_synonym RegionHandleDimensionHandleSetPair = "RegionHandle \<times> DimensionHandleSet"
type_synonym RegionHandleDimensionHandleSetPairVector = "RegionHandleDimensionHandleSetPair list"
type_synonym RegionHandleSpaceHandlePair = "RegionHandle \<times> SpaceHandle"
type_synonym RegionHandleSpaceHandlePairVector = "RegionHandleSpaceHandlePair list"
type_synonym RegionHandleRegionValuePair = "RegionHandle \<times> RegionValue"
type_synonym RegionHandleRegionValuePairVector = "RegionHandleRegionValuePair list"
type_synonym InteractionClassHandleRegionValueListPair = "InteractionClassHandle \<times> RegionValueList"
type_synonym AttributeHandleRegionValueListPair = "AttributeHandle \<times> RegionValueList"

record AttributeState =
  AttributeState_attributeHandle :: AttributeHandle
  AttributeState_ownerFederate :: FederateHandle

type_synonym AttributeStateVector = "AttributeState list"

record ParameterValue =
  ParameterValue_parameterHandle :: ParameterHandle
  ParameterValue_value :: VariableLengthData

type_synonym ParameterValueVector = "ParameterValue list"

record AttributeValue =
  AttributeValue_attributeHandle :: AttributeHandle
  AttributeValue_value :: VariableLengthData

type_synonym AttributeValueVector = "AttributeValue list"
type_synonym FederateHandleSaveStatusPair = "FederateHandle \<times> SaveStatus"
type_synonym FederateHandleSaveStatusPairVector = "FederateHandleSaveStatusPair list"
type_synonym FederateHandleRestoreStatusPair = "FederateHandle \<times> RestoreStatus"
type_synonym FederateHandleRestoreStatusPairVector = "FederateHandleRestoreStatusPair list"

record FederationExecutionInformation =
  FederationExecutionInformation_federationExecutionName :: String
  FederationExecutionInformation_logicalTimeFactoryName :: String

type_synonym FederationExecutionInformationVector = "FederationExecutionInformation list"
type_synonym ObjectInstanceHandleNamePair = "ObjectInstanceHandle \<times> String"
type_synonym ObjectInstanceHandleNamePairVector = "ObjectInstanceHandleNamePair list"
type_synonym ConfigurationParameterMap = "(String, StringVector) fmap"

record FOMStringBasicDataType =
  FOMStringBasicDataType_name :: String
  FOMStringBasicDataType_size :: Unsigned
  FOMStringBasicDataType_endian :: Endianness

type_synonym FOMStringBasicDataTypeList = "FOMStringBasicDataType list"

record FOMStringSimpleDataType =
  FOMStringSimpleDataType_name :: String
  FOMStringSimpleDataType_representation :: String

type_synonym FOMStringSimpleDataTypeList = "FOMStringSimpleDataType list"

record FOMStringEnumerator =
  FOMStringEnumerator_name :: String
  FOMStringEnumerator_value :: Unsigned

type_synonym FOMStringEnumeratorList = "FOMStringEnumerator list"

record FOMStringEnumeratedDataType =
  FOMStringEnumeratedDataType_name :: String
  FOMStringEnumeratedDataType_representation :: String
  FOMStringEnumeratedDataType_enumerators :: FOMStringEnumeratorList

type_synonym FOMStringEnumeratedDataTypeList = "FOMStringEnumeratedDataType list"

record FOMStringArrayDataType =
  FOMStringArrayDataType_name :: String
  FOMStringArrayDataType_dataType :: String
  FOMStringArrayDataType_cardinality :: String
  FOMStringArrayDataType_encoding :: String

type_synonym FOMStringArrayDataTypeList = "FOMStringArrayDataType list"

record FOMStringArrayDataType2 =
  FOMStringArrayDataType2_name :: String
  FOMStringArrayDataType2_dataType :: String
  FOMStringArrayDataType2_cardinality :: String
  FOMStringArrayDataType2_encoding :: ArrayDataTypeEncoding

type_synonym FOMStringArrayDataType2List = "FOMStringArrayDataType2 list"

record FOMStringFixedRecordField =
  FOMStringFixedRecordField_name :: String
  FOMStringFixedRecordField_dataType :: Unsigned

type_synonym FOMStringFixedRecordFieldList = "FOMStringFixedRecordField list"

record FOMStringFixedRecordDataType =
  FOMStringFixedRecordDataType_name :: String
  FOMStringFixedRecordDataType_encoding :: String
  FOMStringFixedRecordDataType_fields :: FOMStringFixedRecordFieldList

type_synonym FOMStringFixedRecordDataTypeList = "FOMStringFixedRecordDataType list"

record FOMStringFixedRecordField2 =
  FOMStringFixedRecordField2_name :: String
  FOMStringFixedRecordField2_dataType :: String
  FOMStringFixedRecordField2_version :: Unsigned

type_synonym FOMStringFixedRecordField2List = "FOMStringFixedRecordField2 list"

record FOMStringFixedRecordDataType2 =
  FOMStringFixedRecordDataType2_name :: String
  FOMStringFixedRecordDataType2_encoding :: String
  FOMStringFixedRecordDataType2_include :: String
  FOMStringFixedRecordDataType2_version :: Unsigned
  FOMStringFixedRecordDataType2_fields :: FOMStringFixedRecordField2List

type_synonym FOMStringFixedRecordDataType2List = "FOMStringFixedRecordDataType2 list"

record FOMStringVariantRecordAlternative =
  FOMStringVariantRecordAlternative_enumerator :: String
  FOMStringVariantRecordAlternative_name :: String
  FOMStringVariantRecordAlternative_dataType :: Unsigned

type_synonym FOMStringVariantRecordAlternativeList = "FOMStringVariantRecordAlternative list"

record FOMStringVariantRecordDataType =
  FOMStringVariantRecordDataType_name :: String
  FOMStringVariantRecordDataType_discriminant :: String
  FOMStringVariantRecordDataType_dataType :: String
  FOMStringVariantRecordDataType_alternatives :: FOMStringVariantRecordAlternativeList
  FOMStringVariantRecordDataType_encoding :: String

type_synonym FOMStringVariantRecordDataTypeList = "FOMStringVariantRecordDataType list"

record FOMStringVariantRecordAlternative2 =
  FOMStringVariantRecordAlternative2_enumerator :: String
  FOMStringVariantRecordAlternative2_name :: String
  FOMStringVariantRecordAlternative2_dataType :: String

type_synonym FOMStringVariantRecordAlternative2List = "FOMStringVariantRecordAlternative2 list"

record FOMStringVariantRecordDataType2 =
  FOMStringVariantRecordDataType2_name :: String
  FOMStringVariantRecordDataType2_discriminant :: String
  FOMStringVariantRecordDataType2_dataType :: String
  FOMStringVariantRecordDataType2_alternatives :: FOMStringVariantRecordAlternative2List
  FOMStringVariantRecordDataType2_encoding :: String

type_synonym FOMStringVariantRecordDataType2List = "FOMStringVariantRecordDataType2 list"

record FOMStringTransportationType =
  FOMStringTransportationType_name :: String

type_synonym FOMStringTransportationTypeList = "FOMStringTransportationType list"

record FOMStringDimension =
  FOMStringDimension_name :: String
  FOMStringDimension_upperBound :: Unsigned

type_synonym FOMStringDimensionList = "FOMStringDimension list"

record FOMStringRoutingSpace =
  FOMStringRoutingSpace_name :: String
  FOMStringRoutingSpace_dimensionSet :: StringSet

type_synonym FOMStringRoutingSpaceList = "FOMStringRoutingSpace list"

record FOMStringParameter =
  FOMStringParameter_name :: String
  FOMStringParameter_dataType :: String

type_synonym FOMStringParameterList = "FOMStringParameter list"

record FOMStringInteractionClass =
  FOMStringInteractionClass_name :: StringVector
  FOMStringInteractionClass_orderType :: String
  FOMStringInteractionClass_transportationType :: String
  FOMStringInteractionClass_routingSpace :: String
  FOMStringInteractionClass_dimensionSet :: StringSet
  FOMStringInteractionClass_parameterList :: FOMStringParameterList

type_synonym FOMStringInteractionClassList = "FOMStringInteractionClass list"

record FOMStringAttribute =
  FOMStringAttribute_name :: String
  FOMStringAttribute_dataType :: String
  FOMStringAttribute_orderType :: String
  FOMStringAttribute_transportationType :: String
  FOMStringAttribute_routingSpace :: String
  FOMStringAttribute_dimensionSet :: StringSet

type_synonym FOMStringAttributeList = "FOMStringAttribute list"

record FOMStringObjectClass =
  FOMStringObjectClass_name :: StringVector
  FOMStringObjectClass_attributeList :: FOMStringAttributeList

type_synonym FOMStringObjectClassList = "FOMStringObjectClass list"

record FOMStringUpdateRate =
  FOMStringUpdateRate_name :: String
  FOMStringUpdateRate_rate :: Double

type_synonym FOMStringUpdateRateList = "FOMStringUpdateRate list"

record FOMStringSwitch =
  FOMStringSwitch_switchesType :: SwitchesType
  FOMStringSwitch_enabled :: Bool

type_synonym FOMStringSwitchList = "FOMStringSwitch list"

record FOMStringModule =
  FOMStringModule_designator :: String
  FOMStringModule_transportationTypeList :: FOMStringTransportationTypeList
  FOMStringModule_dimensionList :: FOMStringDimensionList
  FOMStringModule_routingSpaceList :: FOMStringRoutingSpaceList
  FOMStringModule_interactionClassList :: FOMStringInteractionClassList
  FOMStringModule_objectClassList :: FOMStringObjectClassList
  FOMStringModule_updateRateList :: FOMStringUpdateRateList
  FOMStringModule_switchList :: FOMStringSwitchList
  FOMStringModule_simpleDataTypeList :: FOMStringSimpleDataTypeList
  FOMStringModule_enumeratedDataTypeList :: FOMStringEnumeratedDataTypeList
  FOMStringModule_arrayDataTypeList :: FOMStringArrayDataTypeList
  FOMStringModule_fixedRecordDataTypeList :: FOMStringFixedRecordDataTypeList
  FOMStringModule_variantRecordDataTypeList :: FOMStringVariantRecordDataTypeList
  FOMStringModule_artificialInteractionRoot :: Bool
  FOMStringModule_artificialObjectRoot :: Bool

type_synonym FOMStringModuleList = "FOMStringModule list"

record FOMStringModule2 =
  FOMStringModule2_designator :: String
  FOMStringModule2_transportationTypeList :: FOMStringTransportationTypeList
  FOMStringModule2_dimensionList :: FOMStringDimensionList
  FOMStringModule2_routingSpaceList :: FOMStringRoutingSpaceList
  FOMStringModule2_interactionClassList :: FOMStringInteractionClassList
  FOMStringModule2_objectClassList :: FOMStringObjectClassList
  FOMStringModule2_updateRateList :: FOMStringUpdateRateList
  FOMStringModule2_switchList :: FOMStringSwitchList
  FOMStringModule2_basicDataTypeList :: FOMStringBasicDataTypeList
  FOMStringModule2_simpleDataTypeList :: FOMStringSimpleDataTypeList
  FOMStringModule2_enumeratedDataTypeList :: FOMStringEnumeratedDataTypeList
  FOMStringModule2_arrayDataTypeList :: FOMStringArrayDataType2List
  FOMStringModule2_fixedRecordDataTypeList :: FOMStringFixedRecordDataType2List
  FOMStringModule2_variantRecordDataTypeList :: FOMStringVariantRecordDataType2List
  FOMStringModule2_artificialInteractionRoot :: Bool
  FOMStringModule2_artificialObjectRoot :: Bool

type_synonym FOMStringModule2List = "FOMStringModule2 list"

record FOMTransportationType =
  FOMTransportationType_name :: String
  FOMTransportationType_transportationType :: TransportationType

type_synonym FOMTransportationTypeList = "FOMTransportationType list"

record FOMDimension =
  FOMDimension_name :: String
  FOMDimension_dimensionHandle :: DimensionHandle
  FOMDimension_upperBound :: Unsigned

type_synonym FOMDimensionList = "FOMDimension list"

record FOMRoutingSpace =
  FOMRoutingSpace_name :: String
  FOMRoutingSpace_spaceHandle :: SpaceHandle
  FOMRoutingSpace_dimensionHandleSet :: DimensionHandleSet

type_synonym FOMRoutingSpaceList = "FOMRoutingSpace list"

record FOMParameter =
  FOMParameter_name :: String
  FOMParameter_dataType :: String
  FOMParameter_parameterHandle :: ParameterHandle

type_synonym FOMParameterList = "FOMParameter list"

record FOMInteractionClass =
  FOMInteractionClass_name :: String
  FOMInteractionClass_interactionClassHandle :: InteractionClassHandle
  FOMInteractionClass_parentInteractionClassHandle :: InteractionClassHandle
  FOMInteractionClass_orderType :: OrderType
  FOMInteractionClass_transportationType :: TransportationType
  FOMInteractionClass_dimensionHandleSet :: DimensionHandleSet
  FOMInteractionClass_parameterList :: FOMParameterList

type_synonym FOMInteractionClassList = "FOMInteractionClass list"

record FOMAttribute =
  FOMAttribute_name :: String
  FOMAttribute_dataType :: String
  FOMAttribute_attributeHandle :: AttributeHandle
  FOMAttribute_orderType :: OrderType
  FOMAttribute_transportationType :: TransportationType
  FOMAttribute_dimensionHandleSet :: DimensionHandleSet

type_synonym FOMAttributeList = "FOMAttribute list"

record FOMObjectClass =
  FOMObjectClass_name :: String
  FOMObjectClass_objectClassHandle :: ObjectClassHandle
  FOMObjectClass_parentObjectClassHandle :: ObjectClassHandle
  FOMObjectClass_attributeList :: FOMAttributeList

type_synonym FOMObjectClassList = "FOMObjectClass list"

record FOMUpdateRate =
  FOMUpdateRate_name :: String
  FOMUpdateRate_updateRateHandle :: UpdateRateHandle
  FOMUpdateRate_rate :: Double

type_synonym FOMUpdateRateList = "FOMUpdateRate list"

record FOMSwitch =
  FOMSwitch_switchesType :: SwitchesType
  FOMSwitch_enabled :: Bool

type_synonym FOMSwitchList = "FOMSwitch list"

record FOMBasicDataType =
  FOMBasicDataType_name :: String
  FOMBasicDataType_size :: Unsigned
  FOMBasicDataType_endian :: Endianness
  FOMBasicDataType_handle :: BasicDataTypeHandle

type_synonym FOMBasicDataTypeList = "FOMBasicDataType list"

record FOMSimpleDataType =
  FOMSimpleDataType_name :: String
  FOMSimpleDataType_representation :: String
  FOMSimpleDataType_handle :: SimpleDataTypeHandle

type_synonym FOMSimpleDataTypeList = "FOMSimpleDataType list"

record FOMEnumerator =
  FOMEnumerator_name :: String
  FOMEnumerator_value :: Unsigned

type_synonym FOMEnumeratorList = "FOMEnumerator list"

record FOMEnumeratedDataType =
  FOMEnumeratedDataType_name :: String
  FOMEnumeratedDataType_representation :: String
  FOMEnumeratedDataType_enumerators :: FOMEnumeratorList
  FOMEnumeratedDataType_handle :: EnumeratedDataTypeHandle

type_synonym FOMEnumeratedDataTypeList = "FOMEnumeratedDataType list"

record FOMArrayDataType =
  FOMArrayDataType_name :: String
  FOMArrayDataType_dataType :: String
  FOMArrayDataType_cardinality :: String
  FOMArrayDataType_encoding :: ArrayDataTypeEncoding
  FOMArrayDataType_handle :: ArrayDataTypeHandle

type_synonym FOMArrayDataTypeList = "FOMArrayDataType list"

record FOMFixedRecordField =
  FOMFixedRecordField_name :: String
  FOMFixedRecordField_dataType :: String
  FOMFixedRecordField_version :: Unsigned

type_synonym FOMFixedRecordFieldList = "FOMFixedRecordField list"

record FOMFixedRecordDataType =
  FOMFixedRecordDataType_name :: String
  FOMFixedRecordDataType_encoding :: String
  FOMFixedRecordDataType_include :: String
  FOMFixedRecordDataType_version :: Unsigned
  FOMFixedRecordDataType_fields :: FOMFixedRecordFieldList
  FOMFixedRecordDataType_handle :: FixedRecordDataTypeHandle

type_synonym FOMFixedRecordDataTypeList = "FOMFixedRecordDataType list"

record FOMVariantRecordAlternative =
  FOMVariantRecordAlternative_enumerator :: String
  FOMVariantRecordAlternative_name :: String
  FOMVariantRecordAlternative_dataType :: String

type_synonym FOMVariantRecordAlternativeList = "FOMVariantRecordAlternative list"

record FOMVariantRecordDataType =
  FOMVariantRecordDataType_name :: String
  FOMVariantRecordDataType_discriminant :: String
  FOMVariantRecordDataType_dataType :: String
  FOMVariantRecordDataType_alternatives :: FOMVariantRecordAlternativeList
  FOMVariantRecordDataType_encoding :: String
  FOMVariantRecordDataType_handle :: VariantRecordDataTypeHandle

type_synonym FOMVariantRecordDataTypeList = "FOMVariantRecordDataType list"

record FOMModule =
  FOMModule_moduleHandle :: ModuleHandle
  FOMModule_transportationTypeList :: FOMTransportationTypeList
  FOMModule_dimensionList :: FOMDimensionList
  FOMModule_routingSpaceList :: FOMRoutingSpaceList
  FOMModule_interactionClassList :: FOMInteractionClassList
  FOMModule_objectClassList :: FOMObjectClassList
  FOMModule_updateRateList :: FOMUpdateRateList
  FOMModule_switchList :: FOMSwitchList
  FOMModule_artificialInteractionRoot :: Bool
  FOMModule_artificialObjectRoot :: Bool
  FOMModule_designator :: String

type_synonym FOMModuleList = "FOMModule list"

record FOMModule2 =
  FOMModule2_basicDataTypeList :: FOMBasicDataTypeList
  FOMModule2_simpleDataTypeList :: FOMSimpleDataTypeList
  FOMModule2_enumeratedDataTypeList :: FOMEnumeratedDataTypeList
  FOMModule2_arrayDataTypeList :: FOMArrayDataTypeList
  FOMModule2_fixedRecordDataTypeList :: FOMFixedRecordDataTypeList
  FOMModule2_variantRecordDataTypeList :: FOMVariantRecordDataTypeList

type_synonym FOMModule2List = "FOMModule2 list"

end
