(* ===== verification/Publish_Subscribe.thy ===== *)
theory Publish_Subscribe
  imports Interaction_Filter Wire_Types
begin

text \<open>
  \<open>BroadcastConnectHandleSet\<close> and \<open>PublishSubscribe\<close> of \<open>src/OpenRTI/ServerModel.h\<close>: the connects
  of a server node that publish or subscribe something, and which of the other connects have to
  be told when one of them changes its mind. A \<open>ConnectHandleSet\<close> (\<open>std::set\<close>) is a finite set,
  \<open>*begin()\<close> is its least element. The locale \<open>announced_set\<close> is the contract the message
  handlers rely on; it is interpreted for publications and for subscriptions.
\<close>

type_synonym ConnectHandleSet = "ConnectHandle fset"

datatype PropagationType = PropagateBroadcast | PropagateSend | PropagateNone

type_synonym Propagation = "PropagationType \<times> ConnectHandle"

section \<open>BroadcastConnectHandleSet\<close>

definition broadcast_set_insert ::
    "ConnectHandle \<Rightarrow> ConnectHandleSet \<Rightarrow> Propagation \<times> ConnectHandleSet" where
  [step_defs]: "broadcast_set_insert connectHandle connectHandleSet =
     (let initialConnectHandleSetSize = fcard connectHandleSet;
          previousExclusiveConnectHandle =
            (if initialConnectHandleSetSize = 1 then fMin connectHandleSet else invalid_handle)
      in if connectHandle |\<in>| connectHandleSet
         then ((PropagateNone, invalid_handle), connectHandleSet)
         else (if initialConnectHandleSetSize = 0 then (PropagateBroadcast, invalid_handle)
               else if initialConnectHandleSetSize = 1
               then (PropagateSend, previousExclusiveConnectHandle)
               else (PropagateNone, invalid_handle),
               finsert connectHandle connectHandleSet))"

definition broadcast_set_erase ::
    "ConnectHandle \<Rightarrow> ConnectHandleSet \<Rightarrow> Propagation \<times> ConnectHandleSet" where
  [step_defs]: "broadcast_set_erase connectHandle connectHandleSet =
     (if connectHandle |\<notin>| connectHandleSet
      then ((PropagateNone, invalid_handle), connectHandleSet)
      else (let connectHandleSet' = connectHandleSet |-| {|connectHandle|}
            in (if fcard connectHandleSet' = 0 then (PropagateBroadcast, invalid_handle)
                else if fcard connectHandleSet' = 1 then (PropagateSend, fMin connectHandleSet')
                else (PropagateNone, invalid_handle),
                connectHandleSet')))"

definition containsMoreThan :: "ConnectHandle \<Rightarrow> ConnectHandleSet \<Rightarrow> bool" where
  "containsMoreThan connectHandle connectHandleSet =
     (let size = fcard connectHandleSet
      in if 1 < size then True
         else if size = 1 \<and> fMin connectHandleSet \<noteq> connectHandle then True
         else False)"

section \<open>PublishSubscribe\<close>

record PublishSubscribe =
  cumulativeSubscribedConnectHandleSet :: ConnectHandleSet
  publishedConnects :: ConnectHandleSet
  subscribedConnects :: ConnectHandleSet
  activeSubscribedConnects :: ConnectHandleSet

definition no_connects :: PublishSubscribe where
  "no_connects = \<lparr>cumulativeSubscribedConnectHandleSet = {||}, publishedConnects = {||},
     subscribedConnects = {||}, activeSubscribedConnects = {||}\<rparr>"

definition setPublicationType ::
    "ConnectHandle \<Rightarrow> PublicationType \<Rightarrow> 'a PublishSubscribe_scheme \<Rightarrow> Propagation \<times> 'a PublishSubscribe_scheme" where
  "setPublicationType connectHandle publicationType ps =
     (let (propagation, s) =
        (if publicationType = Published
         then broadcast_set_insert connectHandle (publishedConnects ps)
         else broadcast_set_erase connectHandle (publishedConnects ps))
      in (propagation, ps\<lparr>publishedConnects := s\<rparr>))"

definition getPublicationType :: "ConnectHandle \<Rightarrow> 'a PublishSubscribe_scheme \<Rightarrow> PublicationType" where
  "getPublicationType connectHandle ps =
     (if connectHandle |\<in>| publishedConnects ps then Published else Unpublished)"

definition getPublicationType_any :: "'a PublishSubscribe_scheme \<Rightarrow> PublicationType" where
  "getPublicationType_any ps =
     (if publishedConnects ps = {||} then Unpublished else Published)"

definition setSubscriptionType ::
    "ConnectHandle \<Rightarrow> SubscriptionType \<Rightarrow> 'a PublishSubscribe_scheme \<Rightarrow> Propagation \<times> 'a PublishSubscribe_scheme" where
  "setSubscriptionType connectHandle subscriptionType ps =
     (let (propagation, s) =
        (if subscriptionType \<noteq> Unsubscribed
         then broadcast_set_insert connectHandle (subscribedConnects ps)
         else broadcast_set_erase connectHandle (subscribedConnects ps))
      in (propagation, ps\<lparr>subscribedConnects := s\<rparr>))"

definition getSubscriptionType_any :: "'a PublishSubscribe_scheme \<Rightarrow> SubscriptionType" where
  "getSubscriptionType_any ps =
     (if activeSubscribedConnects ps \<noteq> {||} then SubscribedActive
      else if subscribedConnects ps \<noteq> {||} then SubscribedPassive
      else Unsubscribed)"

definition getSubscriptionType :: "ConnectHandle \<Rightarrow> 'a PublishSubscribe_scheme \<Rightarrow> SubscriptionType" where
  "getSubscriptionType connectHandle ps =
     (if connectHandle |\<in>| activeSubscribedConnects ps then SubscribedActive
      else if connectHandle |\<in>| subscribedConnects ps then SubscribedPassive
      else Unsubscribed)"

definition getSubscriptionTypeToConnect ::
    "ConnectHandle \<Rightarrow> 'a PublishSubscribe_scheme \<Rightarrow> SubscriptionType" where
  "getSubscriptionTypeToConnect connectHandle ps =
     (if containsMoreThan connectHandle (activeSubscribedConnects ps) then SubscribedActive
      else if containsMoreThan connectHandle (subscribedConnects ps) then SubscribedPassive
      else Unsubscribed)"

text \<open>The assertions of \<open>removeConnect\<close> hold for a connect that unpublished before.\<close>

definition removeConnect :: "ConnectHandle \<Rightarrow> 'a PublishSubscribe_scheme \<Rightarrow> 'a PublishSubscribe_scheme" where
  "removeConnect connectHandle ps = snd (setSubscriptionType connectHandle Unsubscribed ps)"

definition updateCumulativeSubscribedConnectHandleSet ::
    "ConnectHandle \<Rightarrow> bool \<Rightarrow> 'a PublishSubscribe_scheme \<Rightarrow> bool \<times> 'a PublishSubscribe_scheme" where
  "updateCumulativeSubscribedConnectHandleSet connectHandle subscribe ps =
     (let s = cumulativeSubscribedConnectHandleSet ps
      in if subscribe
         then (connectHandle |\<notin>| s,
               ps\<lparr>cumulativeSubscribedConnectHandleSet := finsert connectHandle s\<rparr>)
         else (connectHandle |\<in>| s,
               ps\<lparr>cumulativeSubscribedConnectHandleSet := s |-| {|connectHandle|}\<rparr>))"

section \<open>Who is told what\<close>

text \<open>The connects that get the message of a propagation, out of all connects of the node.\<close>

fun recipients :: "ConnectHandle \<Rightarrow> ConnectHandle set \<Rightarrow> Propagation \<Rightarrow> ConnectHandle set" where
  "recipients c U (PropagateBroadcast, _) = U - {c}"
| "recipients c U (PropagateSend, d) = U \<inter> {d}"
| "recipients c U (PropagateNone, _) = {}"

text \<open>What the node means to a connect: somebody other than the connect itself is in the set.\<close>

definition others_in :: "ConnectHandle \<Rightarrow> ConnectHandle set \<Rightarrow> bool" where
  "others_in x S \<longleftrightarrow> S - {x} \<noteq> {}"

lemma fcard_single [simp]: "fcard {|x|} = 1"
  by (simp add: fcard.rep_eq)

lemma fcard_none [simp]: "fcard {||} = 0"
  by (simp add: fcard.rep_eq)

lemma fset_single: "fset S = {x} \<longleftrightarrow> S = {|x|}"
  by (metis bot_fset.rep_eq finsert.rep_eq fset_inject)

lemma fset_none: "fset S = {} \<longleftrightarrow> S = {||}"
  by (metis bot_fset.rep_eq fset_inject)

lemma fset_sizes:
  obtains "S = {||}" | x where "S = {|x|}" | "fcard S \<noteq> 0" "fcard S \<noteq> 1" "\<And>x. others_in x (fset S)"
proof (cases "fcard S = 0 \<or> fcard S = 1")
  case True
  then have "fset S = {} \<or> (\<exists>x. fset S = {x})"
    using card_1_singletonE[of "fset S"] by (auto simp: fcard.rep_eq)
  then show ?thesis using that(1,2) fset_single fset_none by metis
next
  case False
  have "others_in x (fset S)" for x
  proof (rule ccontr)
    assume "\<not> others_in x (fset S)"
    then have "fset S = {} \<or> fset S = {x}" by (auto simp: others_in_def)
    then show False using False by (auto simp: fcard.rep_eq)
  qed
  with False show ?thesis using that(3) by blast
qed

lemma fMin_singleton [simp]: "fMin {|x|} = (x :: 'a :: linorder)"
  by transfer simp

lemma others_in_simps [simp]:
  "others_in x {} = False" "others_in x {y} \<longleftrightarrow> x \<noteq> y"
  "others_in x (insert y S) \<longleftrightarrow> x \<noteq> y \<or> others_in x S"
  by (auto simp: others_in_def)

lemma containsMoreThan_iff: "containsMoreThan c S \<longleftrightarrow> others_in c (fset S)"
proof (cases S rule: fset_sizes)
  case 3
  have "1 < fcard S" using 3(1,2) by arith
  then show ?thesis using 3(3) by (simp add: containsMoreThan_def)
qed (simp_all add: containsMoreThan_def eq_commute)

lemma broadcast_set_insert_members [simp]:
  "fset (snd (broadcast_set_insert c S)) = insert c (fset S)"
  by (simp add: broadcast_set_insert_def Let_def insert_absorb)

lemma broadcast_set_erase_members [simp]:
  "fset (snd (broadcast_set_erase c S)) = fset S - {c}"
  by (simp add: broadcast_set_erase_def Let_def)

lemma broadcast_set_insert_exact:
  assumes "fset S \<subseteq> U"
  shows "x \<in> recipients c U (fst (broadcast_set_insert c S)) \<longleftrightarrow>
    x \<in> U \<and> others_in x (fset S) \<noteq> others_in x (insert c (fset S))"
proof (cases "c |\<in>| S")
  case True
  then show ?thesis by (simp add: broadcast_set_insert_def Let_def insert_absorb del: others_in_simps)
next
  case c: False
  then show ?thesis
  proof (cases S rule: fset_sizes)
    case 1
    then show ?thesis by (auto simp: broadcast_set_insert_def)
  next
    case (2 d)
    then show ?thesis using c assms by (auto simp: broadcast_set_insert_def)
  next
    case 3
    then show ?thesis using c by (simp add: broadcast_set_insert_def Let_def)
  qed
qed

lemma broadcast_set_erase_exact:
  assumes "fset S \<subseteq> U"
  shows "x \<in> recipients c U (fst (broadcast_set_erase c S)) \<longleftrightarrow>
    x \<in> U \<and> others_in x (fset S) \<noteq> others_in x (fset S - {c})"
proof (cases "c |\<in>| S")
  case False
  then show ?thesis by (simp add: broadcast_set_erase_def Let_def)
next
  case c: True
  define T where "T = S |-| {|c|}"
  have S: "fset S = insert c (fset T)" and cT: "c \<notin> fset T" and "fset T \<subseteq> U"
    and T: "fset S - {c} = fset T"
    using c assms by (auto simp: T_def)
  have e: "fst (broadcast_set_erase c S) =
      (if fcard T = 0 then (PropagateBroadcast, invalid_handle)
       else if fcard T = 1 then (PropagateSend, fMin T) else (PropagateNone, invalid_handle))"
    unfolding broadcast_set_erase_def T_def[symmetric] Let_def using c by simp
  show ?thesis unfolding e T unfolding S
  proof (cases T rule: fset_sizes)
    case (2 d)
    then show "x \<in> recipients c U (if fcard T = 0 then (PropagateBroadcast, invalid_handle)
       else if fcard T = 1 then (PropagateSend, fMin T) else (PropagateNone, invalid_handle)) \<longleftrightarrow>
       x \<in> U \<and> others_in x (insert c (fset T)) \<noteq> others_in x (fset T)"
      using cT \<open>fset T \<subseteq> U\<close> by auto
  qed auto
qed

section \<open>The contract of the two sets\<close>

text \<open>
  One change of the set with the messages it causes: \<open>told x\<close> is what the connect \<open>x\<close> has heard
  last. The message carries the new state \<open>b\<close> of the connect that changed.
\<close>

definition announce ::
    "(ConnectHandle \<Rightarrow> bool \<Rightarrow> 's \<Rightarrow> Propagation \<times> 's) \<Rightarrow> ConnectHandle set \<Rightarrow>
     ConnectHandle \<times> bool \<Rightarrow> (ConnectHandle \<Rightarrow> bool) \<times> 's \<Rightarrow> (ConnectHandle \<Rightarrow> bool) \<times> 's" where
  "announce change U = (\<lambda>(c, b) (told, s). let (p, s') = change c b s
     in (\<lambda>x. if x \<in> recipients c U p then b else told x, s'))"

locale announced_set =
  fixes members :: "'s \<Rightarrow> ConnectHandle set"
    and change :: "ConnectHandle \<Rightarrow> bool \<Rightarrow> 's \<Rightarrow> Propagation \<times> 's"
  assumes members_change: "members (snd (change c b s)) =
      (if b then insert c (members s) else members s - {c})"
    and exact: "members s \<subseteq> U \<Longrightarrow> x \<in> recipients c U (fst (change c b s)) \<longleftrightarrow>
      x \<in> U \<and> others_in x (members s) \<noteq> others_in x (members (snd (change c b s)))"
begin

lemma told_step:
  assumes "members s \<subseteq> U" "x \<in> U"
  shows "others_in x (members (snd (change c b s))) \<longleftrightarrow>
    (if x \<in> recipients c U (fst (change c b s)) then b else others_in x (members s))"
  using exact[OF assms(1), of x c b] assms(2) by (auto simp: members_change others_in_def)

lemma announce_step:
  assumes "members s \<subseteq> U" "c \<in> U" "\<forall>x \<in> U. told x \<longleftrightarrow> others_in x (members s)"
    and "announce change U (c, b) (told, s) = (told', s')"
  shows "members s' \<subseteq> U \<and> (\<forall>x \<in> U. told' x \<longleftrightarrow> others_in x (members s'))"
proof -
  have s': "s' = snd (change c b s)"
    and told': "told' = (\<lambda>x. if x \<in> recipients c U (fst (change c b s)) then b else told x)"
    using assms(4) by (auto simp: announce_def split: prod.splits)
  show ?thesis unfolding s' told'
    using told_step[OF assms(1)] assms(1-3) by (auto simp: members_change)
qed

lemma announce_run:
  assumes "members s \<subseteq> U" "fst ` set changes \<subseteq> U"
    and "\<forall>x \<in> U. told x \<longleftrightarrow> others_in x (members s)"
    and "fold (announce change U) changes (told, s) = (told', s')"
  shows "members s' \<subseteq> U \<and> (\<forall>x \<in> U. told' x \<longleftrightarrow> others_in x (members s'))"
  using assms
proof (induction changes arbitrary: told s)
  case (Cons cb changes)
  obtain c b where cb: "cb = (c, b)" by fastforce
  obtain t1 s1 where step: "announce change U (c, b) (told, s) = (t1, s1)" by fastforce
  with announce_step[OF Cons.prems(1) _ Cons.prems(3) step] Cons.IH[of s1 t1] Cons.prems cb
  show ?case by simp
qed auto

end

text \<open>
  Subscriptions are only told to the connects in \<open>P\<close> that publish. A connect that starts to
  publish is told when there is a subscriber already (\<open>ask\<close>); nothing is taken back from a connect
  that stops publishing, so what it heard may be out of date when it publishes again, but only in
  the harmless direction: no publisher misses a subscriber.
\<close>

locale asked_set = announced_set +
  fixes ask :: "ConnectHandle \<Rightarrow> 'a \<Rightarrow> bool"
  assumes ask: "ask c s \<longleftrightarrow> others_in c (members s)"
begin

lemma publisher_starts:
  assumes "\<forall>x \<in> P. others_in x (members s) \<longrightarrow> told x"
  shows "\<forall>x \<in> insert p P. others_in x (members s) \<longrightarrow> (told x \<or> x = p \<and> ask p s)"
  using assms ask by auto

lemma subscription_changes:
  assumes "members s \<subseteq> U" "P \<subseteq> U" "\<forall>x \<in> P. others_in x (members s) \<longrightarrow> told x"
  shows "\<forall>x \<in> P. others_in x (members (snd (change c b s))) \<longrightarrow>
    (if x \<in> recipients c U (fst (change c b s)) then b else told x)"
  using told_step[OF assms(1)] assms(2,3) by (auto split: if_splits)

end

definition change_published ::
    "ConnectHandle \<Rightarrow> bool \<Rightarrow> 'a PublishSubscribe_scheme \<Rightarrow> Propagation \<times> 'a PublishSubscribe_scheme"
  where "change_published c b = setPublicationType c (if b then Published else Unpublished)"

definition change_subscribed ::
    "ConnectHandle \<Rightarrow> bool \<Rightarrow> 'a PublishSubscribe_scheme \<Rightarrow> Propagation \<times> 'a PublishSubscribe_scheme"
  where "change_subscribed c b = setSubscriptionType c (if b then SubscribedPassive else Unsubscribed)"

lemma setPublicationType_simps [simp]:
  "fst (setPublicationType c t ps) =
     fst (if t = Published then broadcast_set_insert c (publishedConnects ps)
          else broadcast_set_erase c (publishedConnects ps))"
  "publishedConnects (snd (setPublicationType c t ps)) =
     snd (if t = Published then broadcast_set_insert c (publishedConnects ps)
          else broadcast_set_erase c (publishedConnects ps))"
  "subscribedConnects (snd (setPublicationType c t ps)) = subscribedConnects ps"
  "activeSubscribedConnects (snd (setPublicationType c t ps)) = activeSubscribedConnects ps"
  "cumulativeSubscribedConnectHandleSet (snd (setPublicationType c t ps)) =
     cumulativeSubscribedConnectHandleSet ps"
  by (simp_all add: setPublicationType_def case_prod_beta)

lemma setSubscriptionType_simps [simp]:
  "fst (setSubscriptionType c t ps) =
     fst (if t \<noteq> Unsubscribed then broadcast_set_insert c (subscribedConnects ps)
          else broadcast_set_erase c (subscribedConnects ps))"
  "subscribedConnects (snd (setSubscriptionType c t ps)) =
     snd (if t \<noteq> Unsubscribed then broadcast_set_insert c (subscribedConnects ps)
          else broadcast_set_erase c (subscribedConnects ps))"
  "publishedConnects (snd (setSubscriptionType c t ps)) = publishedConnects ps"
  "activeSubscribedConnects (snd (setSubscriptionType c t ps)) = activeSubscribedConnects ps"
  "cumulativeSubscribedConnectHandleSet (snd (setSubscriptionType c t ps)) =
     cumulativeSubscribedConnectHandleSet ps"
  by (simp_all add: setSubscriptionType_def case_prod_beta)

lemma setSubscriptionType_active:
  "setSubscriptionType c t = change_subscribed c (t \<noteq> Unsubscribed)"
  by (simp add: change_subscribed_def setSubscriptionType_def fun_eq_iff)

interpretation published: announced_set "\<lambda>ps. fset (publishedConnects ps)" change_published
  by unfold_locales
    (simp_all add: change_published_def broadcast_set_insert_exact broadcast_set_erase_exact)

interpretation subscribed: asked_set "\<lambda>ps. fset (subscribedConnects ps)" change_subscribed
    "\<lambda>c ps. containsMoreThan c (subscribedConnects ps)"
  by unfold_locales
    (simp_all add: change_subscribed_def broadcast_set_insert_exact broadcast_set_erase_exact
      containsMoreThan_iff)

end
