(* ===== verification/Interaction_Class.thy ===== *)
theory Interaction_Class
  imports Publish_Subscribe
begin

text \<open>
  \<open>ServerModel::InteractionClass\<close> (\<open>src/OpenRTI/ServerModel.h\<close>) with the tree of classes of a
  federation. The classes are the list of the objects in the order of their creation and a class
  is its position; a parent is created before its children, so the children of a class are found
  behind it. Each class caches the connects that subscribed it or an ancestor, which is what the
  routing of interactions reads; the main result is that \<open>updateCumulativeSubscription\<close> keeps the
  cache equal to what the subscriptions say.
\<close>

record InteractionClass = PublishSubscribe +
  interactionClassHandle :: InteractionClassHandle
  parentInteractionClass :: "nat option"
  parameterHandleClassParameterMap :: "ParameterHandle list"
  interactionFilters :: interaction_filters

definition getClassParameter :: "ParameterHandle \<Rightarrow> InteractionClass \<Rightarrow> bool" where
  "getClassParameter parameterHandle ic =
     List.member (parameterHandleClassParameterMap ic) parameterHandle"

text \<open>\<open>IntrusiveUnorderedMap::find\<close>\<close>

definition getInteractionClass :: "InteractionClassHandle \<Rightarrow> InteractionClass list \<Rightarrow> nat option" where
  "getInteractionClass h classes = first_index (\<lambda>ic. interactionClassHandle ic = h) classes"

section \<open>The tree\<close>

definition childInteractionClassList :: "nat option list \<Rightarrow> nat \<Rightarrow> nat list" where
  "childInteractionClassList parents i =
     filter (\<lambda>j. parents ! j = Some i) [Suc i..<length parents]"

definition classes_tree :: "nat option list \<Rightarrow> bool" where
  [inv_defs]: "classes_tree parents \<longleftrightarrow> (\<forall>i < length parents. \<forall>p. parents ! i = Some p \<longrightarrow> p < i)"

text \<open>A class and its ancestors, the class itself first.\<close>

function class_path :: "nat option list \<Rightarrow> nat \<Rightarrow> nat list" where
  "class_path parents i = i # (case parents ! i of
     None \<Rightarrow> [] | Some p \<Rightarrow> if p < i then class_path parents p else [])"
  by auto
termination by (relation "measure snd") auto

declare class_path.simps [simp del]

lemma class_path_parent:
  assumes "classes_tree parents" "i < length parents"
  shows "class_path parents i = i # (case parents ! i of
     None \<Rightarrow> [] | Some p \<Rightarrow> class_path parents p)"
  using assms by (subst class_path.simps) (auto simp: classes_tree_def split: option.split)

lemma class_path_iff:
  "k \<in> set (class_path parents i) \<longleftrightarrow>
     k = i \<or> (\<exists>p. parents ! i = Some p \<and> p < i \<and> k \<in> set (class_path parents p))"
  by (subst class_path.simps) (auto split: option.split)

lemma class_path_self [simp]: "i \<in> set (class_path parents i)"
  using class_path_iff[of i parents i] by blast

lemma class_path_le: "k \<in> set (class_path parents i) \<Longrightarrow> k \<le> i"
proof (induction i rule: less_induct)
  case (less i)
  then show ?case using class_path_iff[of k parents i] by fastforce
qed

text \<open>Two ancestors of a class that have the same parent are the same.\<close>

lemma class_path_siblings:
  assumes "k \<in> set (class_path parents j)" "k' \<in> set (class_path parents j)"
    and sib: "parents ! k = Some i" "parents ! k' = Some i" "i < k" "i < k'"
  shows "k = k'"
  using assms(1,2)
proof (induction j rule: less_induct)
  case (less j)
  have False if "l \<noteq> j" "l \<in> set (class_path parents j)" "parents ! j = Some i" "i < l" for l
    using that class_path_le[of l parents i] class_path_iff[of l parents j] by auto
  then show ?case
    using less class_path_iff[of k parents j] class_path_iff[of k' parents j] sib
    by (metis option.inject)
qed

text \<open>A descendant of a class is the class itself or descends from one of its children.\<close>

lemma descendant_cases:
  assumes "classes_tree parents" "j < length parents"
  shows "i \<in> set (class_path parents j) \<longleftrightarrow>
    j = i \<or> (\<exists>k \<in> set (childInteractionClassList parents i). k \<in> set (class_path parents j))"
    (is "?l j \<longleftrightarrow> ?r j")
  using assms(2)
proof (induction j rule: less_induct)
  case (less j)
  show ?case
  proof (cases "parents ! j")
    case None
    then show ?thesis using class_path_parent[OF assms(1) less.prems] 
      by (auto simp: childInteractionClassList_def)
  next
    case (Some p)
    then have p: "p < j" using assms(1) less.prems by (auto simp: classes_tree_def)
    have path: "set (class_path parents j) = insert j (set (class_path parents p))"
      using class_path_parent[OF assms(1) less.prems] Some by simp
    have child: "j \<in> set (childInteractionClassList parents i) \<longleftrightarrow> p = i"
      using Some p less.prems by (auto simp: childInteractionClassList_def)
    have "i \<in> set (class_path parents p) \<longleftrightarrow> p = i \<or>
      (\<exists>k \<in> set (childInteractionClassList parents i). k \<in> set (class_path parents p))"
      using less.IH[OF p] p less.prems by simp
    then show ?thesis unfolding path using child by blast
  qed
qed

section \<open>The cumulative subscriptions\<close>

text \<open>
  \<open>_updateCumulativeSubscription\<close> walks down the tree as long as something changes.
\<close>

function update_cumulative ::
    "nat option list \<Rightarrow> ConnectHandle \<Rightarrow> bool \<Rightarrow> nat \<Rightarrow> InteractionClass list \<Rightarrow> InteractionClass list" where
  "update_cumulative parents c subscribe i classes =
     (let subscribe' = (subscribe \<or> getSubscriptionType c (classes ! i) \<noteq> Unsubscribed);
          (changed, ic) = updateCumulativeSubscribedConnectHandleSet c subscribe' (classes ! i)
      in if \<not> changed then classes[i := ic]
         else fold (update_cumulative parents c subscribe') (childInteractionClassList parents i)
                (classes[i := ic]))"
  by auto
termination
  by (relation "measure (\<lambda>(parents, c, subscribe, i, classes). length parents - i)")
    (auto simp: childInteractionClassList_def)

declare update_cumulative.simps [simp del]

definition class_parents :: "InteractionClass list \<Rightarrow> nat option list" where
  "class_parents classes = map parentInteractionClass classes"

definition updateCumulativeSubscription ::
    "ConnectHandle \<Rightarrow> nat \<Rightarrow> InteractionClass list \<Rightarrow> InteractionClass list" where
  "updateCumulativeSubscription c i classes =
     (let parentSubscribed = (case parentInteractionClass (classes ! i) of
            None \<Rightarrow> False
          | Some p \<Rightarrow> c |\<in>| cumulativeSubscribedConnectHandleSet (classes ! p))
      in update_cumulative (class_parents classes) c parentSubscribed i classes)"

text \<open>What the cache has to say: the class or one of its ancestors is subscribed.\<close>

definition subscribed_by :: "ConnectHandle \<Rightarrow> InteractionClass \<Rightarrow> bool" where
  "subscribed_by c ic \<longleftrightarrow> getSubscriptionType c ic \<noteq> Unsubscribed"

definition subscribed_above :: "ConnectHandle \<Rightarrow> InteractionClass list \<Rightarrow> nat \<Rightarrow> bool" where
  "subscribed_above c classes i \<longleftrightarrow>
     list_ex (\<lambda>k. subscribed_by c (classes ! k)) (class_path (class_parents classes) i)"

abbreviation in_cumulative :: "ConnectHandle \<Rightarrow> InteractionClass \<Rightarrow> bool" where
  "in_cumulative c ic \<equiv> c |\<in>| cumulativeSubscribedConnectHandleSet ic"

definition settled :: "ConnectHandle \<Rightarrow> bool \<Rightarrow> InteractionClass \<Rightarrow> InteractionClass" where
  "settled c b ic = ic\<lparr>cumulativeSubscribedConnectHandleSet :=
     (if b then finsert c (cumulativeSubscribedConnectHandleSet ic)
      else cumulativeSubscribedConnectHandleSet ic |-| {|c|})\<rparr>"

lemma settled_same: "in_cumulative c ic = b \<Longrightarrow> settled c b ic = ic"
  by (auto simp: settled_def finsert_absorb)

lemma settled_simps [simp]:
  "subscribed_by d (settled c b ic) = subscribed_by d ic"
  "in_cumulative c (settled c b ic) = b"
  "d \<noteq> c \<Longrightarrow> in_cumulative d (settled c b ic) = in_cumulative d ic"
  "parentInteractionClass (settled c b ic) = parentInteractionClass ic"
  by (simp_all add: settled_def subscribed_by_def getSubscriptionType_def)

lemma update_cumulative_unfold:
  "update_cumulative parents c subscribe i classes =
     (let b = (subscribe \<or> subscribed_by c (classes ! i)); classes' = classes[i := settled c b (classes ! i)]
      in if in_cumulative c (classes ! i) = b then classes'
         else fold (update_cumulative parents c b) (childInteractionClassList parents i) classes')"
  by (subst update_cumulative.simps)
    (simp add: updateCumulativeSubscribedConnectHandleSet_def settled_def subscribed_by_def Let_def)

text \<open>
  The effect of one call: the subtree of the class gets the flags \<open>A\<close> that follow from the
  subscriptions, provided the subtree below the class was consistent before.
\<close>

definition subtree :: "nat option list \<Rightarrow> nat \<Rightarrow> nat set" where
  "subtree parents i = {j. j < length parents \<and> i \<in> set (class_path parents j)}"

definition flags_below ::
    "nat option list \<Rightarrow> nat \<Rightarrow> (nat \<Rightarrow> bool) \<Rightarrow> (nat \<Rightarrow> bool) \<Rightarrow> bool" where
  "flags_below parents i sub A \<longleftrightarrow> (\<forall>j \<in> subtree parents i. j \<noteq> i \<longrightarrow>
     A j = (sub j \<or> (\<exists>p. parents ! j = Some p \<and> A p)))"

lemma flags_below_unique:
  assumes tree: "classes_tree parents" and "flags_below parents i sub A" "flags_below parents i sub B"
    and "A i = B i" and "j \<in> subtree parents i"
  shows "A j = B j"
  using assms(5)
proof (induction j rule: less_induct)
  case (less j)
  show ?case
  proof (cases "j = i")
    case False
    from less.prems have j: "j < length parents" "i \<in> set (class_path parents j)"
      by (auto simp: subtree_def)
    with False obtain p where p: "parents ! j = Some p" "p < j" "i \<in> set (class_path parents p)"
      using class_path_iff[of i parents j] by auto
    then have "A p = B p" using less.IH[of p] j by (simp add: subtree_def)
    then show ?thesis using assms(2,3) less.prems False p by (simp add: flags_below_def)
  qed (use assms(4) in simp)
qed

lemma subtree_child:
  assumes tree: "classes_tree parents" and k: "k \<in> set (childInteractionClassList parents i)"
    and j: "j \<in> subtree parents k"
  shows "j \<in> subtree parents i" "j \<noteq> i"
    and "k' \<in> set (childInteractionClassList parents i) \<Longrightarrow> k' \<noteq> k \<Longrightarrow> j \<notin> subtree parents k'"
proof -
  have *: "j < length parents" "k \<in> set (class_path parents j)" using j by (auto simp: subtree_def)
  show "j \<in> subtree parents i" using descendant_cases[OF tree *(1), of i] k * by (auto simp: subtree_def)
  show "j \<noteq> i" using class_path_le[OF *(2)] k by (auto simp: childInteractionClassList_def)
  show "j \<notin> subtree parents k'" if "k' \<in> set (childInteractionClassList parents i)" "k' \<noteq> k"
    using class_path_siblings[OF *(2), of k' i] that k
    by (auto simp: subtree_def childInteractionClassList_def)
qed

lemma flags_below_child:
  assumes tree: "classes_tree parents" and k: "k \<in> set (childInteractionClassList parents i)"
    and "flags_below parents i sub A"
  shows "flags_below parents k sub A"
  using assms subtree_child(1,2)[OF tree k] by (auto simp: flags_below_def)

definition settle_subtree ::
    "nat option list \<Rightarrow> ConnectHandle \<Rightarrow> (nat \<Rightarrow> bool) \<Rightarrow> nat \<Rightarrow> InteractionClass list
      \<Rightarrow> InteractionClass list" where
  "settle_subtree parents c A i classes = map (\<lambda>j. if j \<in> subtree parents i
     then settled c (A j) (classes ! j) else classes ! j) [0..<length classes]"

lemma settle_subtree_nth:
  "length (settle_subtree parents c A i classes) = length classes"
  "j < length classes \<Longrightarrow> settle_subtree parents c A i classes ! j =
     (if j \<in> subtree parents i then settled c (A j) (classes ! j) else classes ! j)"
  by (simp_all add: settle_subtree_def)

definition upd_pre ::
    "nat option list \<Rightarrow> ConnectHandle \<Rightarrow> (nat \<Rightarrow> bool) \<Rightarrow> (nat \<Rightarrow> bool) \<Rightarrow> nat
      \<Rightarrow> InteractionClass list \<Rightarrow> bool" where
  "upd_pre parents c sub A i classes \<longleftrightarrow>
     length classes = length parents \<and> i < length parents \<and>
     flags_below parents i sub A \<and>
     flags_below parents i sub (\<lambda>j. in_cumulative c (classes ! j)) \<and>
     (\<forall>j < length parents. subscribed_by c (classes ! j) = sub j)"

lemma upd_pre_settle_sibling:
  assumes tree: "classes_tree parents" and pre: "upd_pre parents c sub A k' classes"
    and "k \<in> set (childInteractionClassList parents i)"
    and "k' \<in> set (childInteractionClassList parents i)" "k' \<noteq> k"
  shows "upd_pre parents c sub A k' (settle_subtree parents c A k classes)"
proof -
  let ?cs = "settle_subtree parents c A k classes"
  have same: "?cs ! j = classes ! j" if "j \<in> subtree parents k'" for j
    using subtree_child(3)[OF tree assms(4) that assms(3)] that assms(5) pre
    by (auto simp: settle_subtree_nth subtree_def upd_pre_def)
  have up: "p \<in> subtree parents k'"
    if "j \<in> subtree parents k'" "j \<noteq> k'" "parents ! j = Some p" for j p
    using that class_path_iff[of k' parents j] tree
    by (auto simp: subtree_def classes_tree_def intro: less_trans)
  have "flags_below parents k' sub (\<lambda>j. in_cumulative c (?cs ! j))"
    using pre same up by (fastforce simp: upd_pre_def flags_below_def)
  then show ?thesis using pre by (auto simp: upd_pre_def settle_subtree_nth)
qed

lemma settle_children:
  assumes tree: "classes_tree parents" and "distinct ks"
    and "set ks \<subseteq> set (childInteractionClassList parents i)"
    and "\<forall>k \<in> set ks. upd_pre parents c sub A k classes"
    and "\<And>k cs. k \<in> set ks \<Longrightarrow> upd_pre parents c sub A k cs \<Longrightarrow>
       f k cs = settle_subtree parents c A k cs"
    and "length classes = length parents" "j < length parents"
  shows "length (fold f ks classes) = length parents \<and> fold f ks classes ! j =
    (if \<exists>k \<in> set ks. j \<in> subtree parents k then settled c (A j) (classes ! j) else classes ! j)"
  using assms(2-6)
proof (induction ks arbitrary: classes)
  case Nil
  then show ?case by simp
next
  case (Cons k ks)
  let ?cs = "settle_subtree parents c A k classes"
  have fk: "f k classes = ?cs" using Cons.prems by simp
  have k: "k \<in> set (childInteractionClassList parents i)" using Cons.prems by simp
  have "\<forall>k' \<in> set ks. upd_pre parents c sub A k' ?cs"
  proof
    fix k' assume k': "k' \<in> set ks"
    then have "k' \<noteq> k" "k' \<in> set (childInteractionClassList parents i)"
      "upd_pre parents c sub A k' classes" using Cons.prems by auto
    then show "upd_pre parents c sub A k' ?cs" using upd_pre_settle_sibling[OF tree _ k] by blast
  qed
  then have IH: "length (fold f ks ?cs) = length parents \<and> fold f ks ?cs ! j =
    (if \<exists>k \<in> set ks. j \<in> subtree parents k then settled c (A j) (?cs ! j) else ?cs ! j)"
    using Cons.prems by (intro Cons.IH) (auto simp: settle_subtree_nth)
  have "j \<notin> subtree parents k" if "k' \<in> set ks" "j \<in> subtree parents k'" for k'
    using subtree_child(3)[OF tree _ that(2) k] that(1) Cons.prems by auto
  then show ?case using IH fk Cons.prems(5) assms(7) by (auto simp: settle_subtree_nth)
qed

lemma subtree_split:
  assumes "classes_tree parents" "i < length parents"
  shows "j \<in> subtree parents i \<longleftrightarrow>
    j = i \<or> (\<exists>k \<in> set (childInteractionClassList parents i). j \<in> subtree parents k)"
  using descendant_cases[OF assms(1), of j i] assms(2) by (auto simp: subtree_def)

lemma update_cumulative_settles:
  assumes tree: "classes_tree parents"
  shows "upd_pre parents c sub A i classes \<Longrightarrow> A i = (subscribe \<or> sub i) \<Longrightarrow>
    update_cumulative parents c subscribe i classes = settle_subtree parents c A i classes"
proof (induction "length parents - i" arbitrary: i subscribe classes rule: less_induct)
  case less
  let ?cs = "classes[i := settled c (A i) (classes ! i)]"
  let ?ks = "childInteractionClassList parents i"
  have len: "length classes = length parents" "i < length parents"
    and A: "flags_below parents i sub A"
    and old: "flags_below parents i sub (\<lambda>j. in_cumulative c (classes ! j))"
    and sub: "\<forall>j < length parents. subscribed_by c (classes ! j) = sub j"
    using less.prems(1) by (auto simp: upd_pre_def)
  have b: "(subscribe \<or> subscribed_by c (classes ! i)) = A i" using less.prems(2) sub len by simp
  show ?case
  proof (cases "in_cumulative c (classes ! i) = A i")
    case True
    have "in_cumulative c (classes ! j) = A j" if "j \<in> subtree parents i" for j
      using flags_below_unique[OF tree old A True that] .
    then have "settle_subtree parents c A i classes = classes"
      by (intro nth_equalityI) (auto simp: settle_subtree_nth settled_same)
    moreover have "?cs = classes" using settled_same[OF True] by simp
    ultimately show ?thesis using True by (simp add: update_cumulative_unfold b)
  next
    case False
    have kid: "k < length parents" "i < k" "parents ! k = Some i" if "k \<in> set ?ks" for k
      using that by (auto simp: childInteractionClassList_def)
    have cs: "?cs ! j = classes ! j" if "k \<in> set ?ks" "j \<in> subtree parents k" for k j
      using subtree_child(2)[OF tree that] by simp
    have up: "p \<in> subtree parents k"
      if "j \<in> subtree parents k" "j \<noteq> k" "parents ! j = Some p" for j p k
      using that class_path_iff[of k parents j] tree
      by (auto simp: subtree_def classes_tree_def intro: less_trans)
    have pre: "upd_pre parents c sub A k ?cs" if k: "k \<in> set ?ks" for k
    proof -
      have "flags_below parents k sub (\<lambda>j. in_cumulative c (?cs ! j))"
        using flags_below_child[OF tree k old] cs[OF k] up
        unfolding flags_below_def by (metis (no_types, lifting))
      then show ?thesis using kid[OF k] len sub flags_below_child[OF tree k A]
        by (auto simp: upd_pre_def nth_list_update)
    qed
    have IH: "update_cumulative parents c (A i) k cs = settle_subtree parents c A k cs"
      if "k \<in> set ?ks" "upd_pre parents c sub A k cs" for k cs
    proof (rule less.hyps[OF _ that(2)])
      have "k \<in> subtree parents i" "k \<noteq> i" using kid[OF that(1)]
        class_path_iff[of i parents k] by (auto simp: subtree_def)
      then show "A k = (A i \<or> sub k)" using A kid[OF that(1)] by (auto simp: flags_below_def)
    qed (use kid[OF that(1)] in simp)
    have "fold (update_cumulative parents c (A i)) ?ks ?cs = settle_subtree parents c A i classes"
    proof (rule nth_equalityI)
      fix j
      have d: "distinct ?ks" by (simp add: childInteractionClassList_def)
      note run = settle_children[OF tree d subset_refl, of c sub A ?cs "update_cumulative parents c (A i)"]
      show "length (fold (update_cumulative parents c (A i)) ?ks ?cs) =
        length (settle_subtree parents c A i classes)"
        using run[of i] pre IH len by (simp add: settle_subtree_nth)
      assume "j < length (fold (update_cumulative parents c (A i)) ?ks ?cs)"
      then have j: "j < length parents" using run[of i] pre IH len by simp
      have "fold (update_cumulative parents c (A i)) ?ks ?cs ! j =
        (if \<exists>k \<in> set ?ks. j \<in> subtree parents k then settled c (A j) (?cs ! j) else ?cs ! j)"
        using run[of j] pre IH len j by simp
      then show "fold (update_cumulative parents c (A i)) ?ks ?cs ! j =
        settle_subtree parents c A i classes ! j"
        using subtree_split[OF tree len(2), of j] subtree_child(2)[OF tree, of _ i j] len j
        by (cases "j = i") (auto simp: settle_subtree_nth)
    qed
    then show ?thesis using False by (simp add: update_cumulative_unfold b Let_def)
  qed
qed

section \<open>The cache is right\<close>

definition cumulative_ok :: "InteractionClass list \<Rightarrow> bool" where
  [inv_defs]: "cumulative_ok classes \<longleftrightarrow> classes_tree (class_parents classes) \<and>
     (\<forall>i < length classes. \<forall>c. in_cumulative c (classes ! i) = subscribed_above c classes i)"

lemma length_class_parents [simp]: "length (class_parents classes) = length classes"
  by (simp add: class_parents_def)

lemma class_parents_nth [simp]:
  "i < length classes \<Longrightarrow> class_parents classes ! i = parentInteractionClass (classes ! i)"
  by (simp add: class_parents_def)

lemma class_parents_update [simp]:
  "i < length classes \<Longrightarrow> parentInteractionClass ic = parentInteractionClass (classes ! i) \<Longrightarrow>
   class_parents (classes[i := ic]) = class_parents classes"
  by (simp add: class_parents_def map_update) (metis length_map list_update_id nth_map)

lemma subscribed_above_rec:
  assumes "classes_tree (class_parents classes)" "j < length classes"
  shows "subscribed_above c classes j \<longleftrightarrow> subscribed_by c (classes ! j) \<or>
    (\<exists>p. parentInteractionClass (classes ! j) = Some p \<and> subscribed_above c classes p)"
  using class_path_parent[OF assms(1)] assms(2)
  by (auto simp: subscribed_above_def split: option.splits)

lemma subscribed_above_cong:
  assumes "class_parents cs = class_parents cs'"
    and "\<And>k. k \<in> set (class_path (class_parents cs') i) \<Longrightarrow>
      subscribed_by c (cs ! k) = subscribed_by c (cs' ! k)"
  shows "subscribed_above c cs i = subscribed_above c cs' i"
  using assms by (auto simp: subscribed_above_def list_ex_iff)

lemma class_parents_settle [simp]:
  "class_parents (settle_subtree parents c A i classes) = class_parents classes"
  by (rule nth_equalityI) (auto simp: settle_subtree_nth)

lemma subscribed_above_settle [simp]:
  assumes "j < length classes"
  shows "subscribed_above d (settle_subtree parents c A i classes) j = subscribed_above d classes j"
proof (rule subscribed_above_cong)
  fix k assume "k \<in> set (class_path (class_parents classes) j)"
  then have "k < length classes" using class_path_le assms by fastforce
  then show "subscribed_by d (settle_subtree parents c A i classes ! k) = subscribed_by d (classes ! k)"
    by (simp add: settle_subtree_nth)
qed simp

lemma updateCumulativeSubscription_settles:
  assumes ok: "cumulative_ok classes" and i: "i < length classes"
    and ic: "parentInteractionClass ic = parentInteractionClass (classes ! i)"
      "cumulativeSubscribedConnectHandleSet ic = cumulativeSubscribedConnectHandleSet (classes ! i)"
  shows "updateCumulativeSubscription c i (classes[i := ic]) =
    settle_subtree (class_parents classes) c (subscribed_above c (classes[i := ic])) i (classes[i := ic])"
proof -
  let ?cs = "classes[i := ic]" and ?ps = "class_parents classes"
  let ?A = "subscribed_above c ?cs" and ?sub = "\<lambda>j. subscribed_by c (?cs ! j)"
  have tree: "classes_tree ?ps" using ok by (simp add: cumulative_ok_def)
  have ps: "class_parents ?cs = ?ps" using i ic(1) by simp
  have rec: "j < length classes \<Longrightarrow> ?A j \<longleftrightarrow> ?sub j \<or> (\<exists>p. ?ps ! j = Some p \<and> ?A p)" for j
    using subscribed_above_rec[of ?cs j c] tree ps i ic(1) by (cases "j = i") auto
  have rec0: "in_cumulative c (classes ! j) \<longleftrightarrow>
      subscribed_by c (classes ! j) \<or> (\<exists>p. ?ps ! j = Some p \<and> in_cumulative c (classes ! p))"
    if j: "j < length classes" for j
  proof -
    have "in_cumulative c (classes ! p) = subscribed_above c classes p" if "?ps ! j = Some p" for p
      using ok j tree that by (force simp: cumulative_ok_def classes_tree_def)
    moreover have "in_cumulative c (classes ! j) = subscribed_above c classes j"
      using ok j by (simp add: cumulative_ok_def)
    ultimately show ?thesis using subscribed_above_rec[OF tree j, of c] j by auto
  qed
  have cum: "j < length classes \<Longrightarrow>
      in_cumulative c (?cs ! j) = in_cumulative c (classes ! j)" for j
    using ic(2) by (cases "j = i") auto
  have "flags_below ?ps i ?sub (\<lambda>j. in_cumulative c (?cs ! j))"
    unfolding flags_below_def
  proof (intro ballI impI)
    fix j assume "j \<in> subtree ?ps i" "j \<noteq> i"
    then have j: "j < length classes" "?cs ! j = classes ! j" by (auto simp: subtree_def)
    then have *: "in_cumulative c (?cs ! p) = in_cumulative c (classes ! p)" if "?ps ! j = Some p" for p
      using cum[of p] tree that by (auto simp: classes_tree_def)
    show "in_cumulative c (?cs ! j) \<longleftrightarrow>
        subscribed_by c (?cs ! j) \<or> (\<exists>p. ?ps ! j = Some p \<and> in_cumulative c (?cs ! p))"
      unfolding j(2) using rec0[OF j(1)] * by blast
  qed
  moreover have "flags_below ?ps i ?sub ?A"
    using rec by (auto simp: flags_below_def subtree_def)
  ultimately have pre: "upd_pre ?ps c ?sub ?A i ?cs" using i by (simp add: upd_pre_def)
  have parent: "?A p = in_cumulative c (?cs ! p)" if "?ps ! i = Some p" for p
  proof -
    have p: "p < i" using tree that i by (simp add: classes_tree_def)
    have "?A p = subscribed_above c classes p"
      by (rule subscribed_above_cong[OF ps]) (use p in \<open>auto dest!: class_path_le\<close>)
    then show ?thesis using ok p i cum[of p] by (simp add: cumulative_ok_def)
  qed
  have "?A i = ((case parentInteractionClass (?cs ! i) of None \<Rightarrow> False
      | Some p \<Rightarrow> in_cumulative c (?cs ! p)) \<or> ?sub i)"
    using rec[OF i] parent i ic(1) by (auto split: option.split)
  from update_cumulative_settles[OF tree pre this] show ?thesis
    by (simp add: updateCumulativeSubscription_def ps)
qed

lemma updateCumulativeSubscription_ok:
  assumes ok: "cumulative_ok classes" and i: "i < length classes"
    and ic: "parentInteractionClass ic = parentInteractionClass (classes ! i)"
      "cumulativeSubscribedConnectHandleSet ic = cumulativeSubscribedConnectHandleSet (classes ! i)"
      "\<And>d. d \<noteq> c \<Longrightarrow> subscribed_by d ic = subscribed_by d (classes ! i)"
  shows "cumulative_ok (updateCumulativeSubscription c i (classes[i := ic]))"
proof -
  let ?cs = "classes[i := ic]" and ?ps = "class_parents classes"
  let ?st = "settle_subtree ?ps c (subscribed_above c ?cs) i ?cs"
  have ps: "class_parents ?cs = ?ps" using i ic(1) by simp
  have "in_cumulative d (?st ! j) = subscribed_above d ?st j" if j: "j < length classes" for d j
  proof (cases "d = c \<and> j \<in> subtree ?ps i")
    case True
    then show ?thesis using j by (simp add: settle_subtree_nth)
  next
    case False
    have "subscribed_above d ?cs j = subscribed_above d classes j"
    proof (rule subscribed_above_cong[OF ps])
      fix k assume "k \<in> set (class_path ?ps j)"
      then have "k = i \<Longrightarrow> d \<noteq> c" using False j by (auto simp: subtree_def)
      then show "subscribed_by d (?cs ! k) = subscribed_by d (classes ! k)"
        using ic(3) i by (cases "k = i") auto
    qed
    moreover have "in_cumulative d (?cs ! j) = in_cumulative d (classes ! j)"
      using ic(2) i by (cases "j = i") auto
    ultimately show ?thesis using False j ok by (auto simp: settle_subtree_nth cumulative_ok_def)
  qed
  then show ?thesis
    using ok by (simp add: updateCumulativeSubscription_settles[OF ok i ic(1,2)] cumulative_ok_def
      settle_subtree_nth ps)
qed

end
