(* ===== verification/Handle_Allocator.thy ===== *)
theory Handle_Allocator
  imports Base
begin

text \<open>
  \<open>src/OpenRTI/HandleAllocator.h\<close>: the allocator of object instance and federate handles.
  Handles are machine words, the largest of them is the invalid handle; the counter of handles
  that were never handed out runs into it when the handles are used up. The locale
  \<open>handle_source\<close> is what the users of the allocator rely on.
\<close>

record 'h allocator =
  handleSet :: "'h set"
  nextHandle :: 'h

datatype allocator_error = ResourceError

definition new_allocator :: "'w::len word allocator" where
  "new_allocator = \<lparr>handleSet = {}, nextHandle = 0\<rparr>"

lemma unat_inc: "n < h \<Longrightarrow> unat (n + 1) = Suc (unat n)" for n h :: "'w::len word"
proof -
  assume "n < h"
  then have "n \<noteq> - 1" using word_order.extremum_strict by blast
  then have "n + 1 \<noteq> 0" by (metis add.right_neutral add_left_cancel add_uminus_conv_diff diff_self
        add.commute minus_add_cancel)
  then have "1 + n \<noteq> 0" by (simp add: add.commute)
  then show ?thesis by (metis unatSuc add.commute)
qed

text \<open>The loop of \<open>take\<close>: the handles that are skipped become free ones.\<close>

function take_loop :: "'w::len word \<Rightarrow> 'w word set \<Rightarrow> 'w word \<Rightarrow> 'w word set \<times> 'w word" where
  "take_loop handle S n =
     (if n < handle then take_loop handle (insert n S) (n + 1) else (S, n))"
  by pat_completeness auto
termination
  by (relation "measure (\<lambda>(h, _, n). unat h - unat n)")
    (auto simp: word_less_nat_alt unat_inc)

declare take_loop.simps [simp del]

definition allocator_take :: "'w::len word \<Rightarrow> 'w word allocator \<Rightarrow> 'w word allocator" where
  "allocator_take handle a =
     (if \<not> handle_valid handle then a
      else if handle \<in> handleSet a then a\<lparr>handleSet := handleSet a - {handle}\<rparr>
      else case take_loop handle (handleSet a) (nextHandle a) of
        (S, n) \<Rightarrow> \<lparr>handleSet = S, nextHandle = n + 1\<rparr>)"

definition allocator_get ::
  "'w::len word allocator \<Rightarrow> allocator_error + 'w word \<times> 'w word allocator" where
  "allocator_get a =
     (if handleSet a = {} then
        if \<not> handle_valid (nextHandle a) then Inl ResourceError
        else Inr (nextHandle a, a\<lparr>nextHandle := nextHandle a + 1\<rparr>)
      else let handle = Min (handleSet a)
        in Inr (handle, a\<lparr>handleSet := handleSet a - {handle}\<rparr>))"

definition allocator_put :: "'w::len word \<Rightarrow> 'w word allocator \<Rightarrow> 'w word allocator" where
  "allocator_put handle a =
     (if \<not> handle_valid handle then a else a\<lparr>handleSet := insert handle (handleSet a)\<rparr>)"

definition getOrTake ::
  "'w::len word \<Rightarrow> 'w word allocator \<Rightarrow> allocator_error + 'w word \<times> 'w word allocator" where
  "getOrTake handle a =
     (if \<not> handle_valid handle then allocator_get a else Inr (handle, allocator_take handle a))"

definition allocator_used :: "'w::len word allocator \<Rightarrow> bool" where
  "allocator_used a \<longleftrightarrow> card (handleSet a) < unat (nextHandle a)"

definition allocator_empty :: "'w::len word allocator \<Rightarrow> bool" where
  "allocator_empty a \<longleftrightarrow> handleSet a = {} \<and> \<not> handle_valid (nextHandle a)"

text \<open>
  A \<open>Candidate\<close> is the handle it holds beside the allocator; its constructor, its \<open>take\<close> and
  its destructor.
\<close>

definition candidate_construct ::
  "'w::len word \<Rightarrow> 'w word allocator \<Rightarrow> allocator_error + 'w word \<times> 'w word allocator" where
  "candidate_construct handle a =
     (if handle_valid handle then Inr (handle, allocator_take handle a) else allocator_get a)"

definition candidate_take :: "'w::len word \<Rightarrow> 'w word \<times> 'w word" where
  "candidate_take handle = (handle, invalid_handle)"

definition candidate_destruct :: "'w::len word \<Rightarrow> 'w word allocator \<Rightarrow> 'w word allocator" where
  "candidate_destruct handle a =
     (if handle_valid handle then allocator_put handle a else a)"

section \<open>The handles in use\<close>

definition allocator_inv :: "'w::len word allocator \<Rightarrow> bool" where
  [inv_defs]: "allocator_inv a \<longleftrightarrow> (\<forall>h \<in> handleSet a. h < nextHandle a)"

definition inUse :: "'w::len word allocator \<Rightarrow> 'w word set" where
  "inUse a = {h. h < nextHandle a \<and> h \<notin> handleSet a}"

lemma inc_below: "n < h \<Longrightarrow> m < n + 1 \<longleftrightarrow> m < n \<or> m = n" for n m h :: "'w::len word"
  using unat_inc[of n h] by (auto simp: word_less_nat_alt word_unat_eq_iff)

lemma valid_below: "handle_valid h \<longleftrightarrow> h < - 1" for h :: "'w::len word"
  unfolding handle_valid_def invalid_handle_def by (rule word_order.not_eq_extremum)

lemma take_loop_result:
  "n \<le> h \<Longrightarrow> take_loop h S n = (S \<union> {x. n \<le> x \<and> x < h}, h)" for n h :: "'w::len word"
proof (induction h S n rule: take_loop.induct)
  case (1 h S n)
  show ?case
  proof (cases "n < h")
    case True
    note suc = unat_inc[OF True]
    from True suc have "n + 1 \<le> h" by (simp add: word_le_nat_alt word_less_nat_alt)
    moreover have "n + 1 \<le> x \<longleftrightarrow> n \<le> x \<and> x \<noteq> n" for x
      using suc by (auto simp: word_le_nat_alt word_unat_eq_iff)
    ultimately show ?thesis using 1 True by (subst take_loop.simps) (auto simp: order_le_less)
  next
    case False
    with 1(2) have "n = h" by simp
    then show ?thesis by (subst take_loop.simps) auto
  qed
qed

lemma new_allocator_inUse [simp]: "allocator_inv new_allocator" "inUse new_allocator = {}"
  by (auto simp: allocator_inv_def inUse_def new_allocator_def)

lemma allocator_get_law:
  assumes "allocator_inv a"
  shows "case allocator_get a of
      Inl _ \<Rightarrow> inUse a = {h. handle_valid h}
    | Inr (h, a') \<Rightarrow> handle_valid h \<and> h \<notin> inUse a \<and> inUse a' = insert h (inUse a) \<and> allocator_inv a'"
proof (cases "handleSet a = {}")
  case True
  show ?thesis
  proof (cases "handle_valid (nextHandle a)")
    case True
    then show ?thesis using \<open>handleSet a = {}\<close> inc_below[of "nextHandle a" "- 1"]
      by (auto simp: allocator_get_def inUse_def allocator_inv_def valid_below)
  next
    case False
    then have "nextHandle a = - 1" by (simp add: handle_valid_def invalid_handle_def)
    then show ?thesis using \<open>handleSet a = {}\<close>
      by (auto simp: allocator_get_def inUse_def valid_below)
  qed
next
  case False
  let ?m = "Min (handleSet a)"
  have m: "?m \<in> handleSet a" using False by (simp add: Min_in)
  with assms have "?m < nextHandle a" by (simp add: allocator_inv_def)
  moreover from this have "?m < - 1" by (meson order_less_le_trans word_order.extremum)
  ultimately have "allocator_get a = Inr (?m, a\<lparr>handleSet := handleSet a - {?m}\<rparr>)" "handle_valid ?m"
    "?m \<notin> inUse a" "inUse (a\<lparr>handleSet := handleSet a - {?m}\<rparr>) = insert ?m (inUse a)"
    using m False by (auto simp: allocator_get_def inUse_def valid_below Let_def simp del: Min_less_iff)
  then show ?thesis using assms by (simp add: allocator_inv_def)
qed

lemma allocator_take_law:
  assumes "allocator_inv a" and "handle_valid h" and "h \<notin> inUse a"
  shows "inUse (allocator_take h a) = insert h (inUse a) \<and> allocator_inv (allocator_take h a)"
proof (cases "h \<in> handleSet a")
  case True
  with assms show ?thesis by (auto simp: allocator_take_def inUse_def allocator_inv_def)
next
  case False
  with assms have le: "nextHandle a \<le> h" by (auto simp: inUse_def)
  from assms(2) have "h < - 1" by (simp add: valid_below)
  note below = inc_below[OF this]
  have "allocator_take h a
    = \<lparr>handleSet = handleSet a \<union> {x. nextHandle a \<le> x \<and> x < h}, nextHandle = h + 1\<rparr>"
    using assms(2) False le by (simp add: allocator_take_def take_loop_result)
  then show ?thesis using assms(1) le False
    by (force simp: inUse_def allocator_inv_def below)
qed

lemma allocator_put_law:
  assumes "allocator_inv a" and "h \<in> inUse a"
  shows "inUse (allocator_put h a) = inUse a - {h} \<and> allocator_inv (allocator_put h a)"
proof -
  from assms(2) have "h < nextHandle a" by (simp add: inUse_def)
  moreover from this have "handle_valid h"
    unfolding valid_below by (meson order_less_le_trans word_order.extremum)
  ultimately show ?thesis using assms by (auto simp: allocator_put_def inUse_def allocator_inv_def)
qed

lemma card_below: "card {x :: 'w::len word. x < n} = unat n"
proof -
  have "unat ` {x. x < n} = {..<unat n}"
  proof (intro equalityI subsetI)
    fix k assume "k \<in> {..<unat n}"
    then have "k < unat n" by simp
    then have "k < 2 ^ LENGTH('w)" using unsigned_less[of n, where 'a = nat] by linarith
    then have "unat (word_of_nat k :: 'w word) = k" by (simp add: unat_of_nat take_bit_nat_eq_self)
    with \<open>k < unat n\<close> show "k \<in> unat ` {x. x < n}"
      by (intro image_eqI[of _ _ "word_of_nat k"]) (auto simp: word_less_nat_alt)
  qed (auto simp: word_less_nat_alt)
  moreover have "inj_on unat {x. x < n}" by (simp add: inj_on_def word_unat_eq_iff)
  ultimately show ?thesis by (metis card_image card_lessThan)
qed

lemma allocator_used_law:
  assumes "allocator_inv a"
  shows "allocator_used a \<longleftrightarrow> inUse a \<noteq> {}"
proof -
  let ?B = "{x. x < nextHandle a}"
  have sub: "handleSet a \<subseteq> ?B" using assms by (auto simp: allocator_inv_def)
  have "inUse a = ?B - handleSet a" by (auto simp: inUse_def)
  moreover have "card (handleSet a) < card ?B \<longleftrightarrow> handleSet a \<noteq> ?B"
    using sub by (metis card_subset_eq finite_code less_irrefl psubsetI psubset_card_mono)
  ultimately show ?thesis using sub by (auto simp: allocator_used_def card_below)
qed

section \<open>What the users of an allocator rely on\<close>

locale handle_source =
  fixes inv :: "'s \<Rightarrow> bool"
    and live :: "'s \<Rightarrow> 'h set"
    and valid :: "'h \<Rightarrow> bool"
    and obtain_handle :: "'s \<Rightarrow> 'e + 'h \<times> 's"
    and reserve release :: "'h \<Rightarrow> 's \<Rightarrow> 's"
  assumes obtain_law: "inv a \<Longrightarrow> case obtain_handle a of
      Inl _ \<Rightarrow> live a = {h. valid h}
    | Inr (h, a') \<Rightarrow> valid h \<and> h \<notin> live a \<and> live a' = insert h (live a) \<and> inv a'"
    and reserve_law: "inv a \<Longrightarrow> valid h \<Longrightarrow> h \<notin> live a
      \<Longrightarrow> live (reserve h a) = insert h (live a) \<and> inv (reserve h a)"
    and release_law: "inv a \<Longrightarrow> h \<in> live a
      \<Longrightarrow> live (release h a) = live a - {h} \<and> inv (release h a)"
begin

lemma obtain_fresh:
  assumes "inv a" and "obtain_handle a = Inr (h, a')"
  shows "valid h" "h \<notin> live a" "live a' = insert h (live a)" "inv a'"
  using obtain_law[OF assms(1)] assms(2) by auto

lemma obtain_exhausted: "inv a \<Longrightarrow> obtain_handle a = Inl e \<Longrightarrow> live a = {h. valid h}"
  using obtain_law[of a] by auto

lemma obtain_possible: "inv a \<Longrightarrow> valid h \<Longrightarrow> h \<notin> live a \<Longrightarrow> \<exists>h' a'. obtain_handle a = Inr (h', a')"
  using obtain_law[of a] by (cases "obtain_handle a") auto

lemma obtain_release:
  assumes "inv a" and "obtain_handle a = Inr (h, a')"
  shows "live (release h a') = live a \<and> inv (release h a')"
  using obtain_fresh[OF assms] release_law[of a' h] by auto

lemma reserve_release:
  assumes "inv a" and "valid h" and "h \<notin> live a"
  shows "live (release h (reserve h a)) = live a \<and> inv (release h (reserve h a))"
  using reserve_law[OF assms] release_law[of "reserve h a" h] assms(3) by auto

end

interpretation alloc: handle_source allocator_inv inUse handle_valid allocator_get allocator_take
  allocator_put
  by unfold_locales (simp_all only: allocator_get_law allocator_take_law allocator_put_law simp_thms)

text \<open>
  The histories of an allocator whose users release only handles they hold and reserve only
  handles nobody holds: \<open>L\<close> is the set of the handles they hold.
\<close>

inductive alloc_history :: "'w::len word set \<Rightarrow> 'w word allocator \<Rightarrow> bool" where
  history_new: "alloc_history {} new_allocator"
| history_get: "alloc_history L a \<Longrightarrow> allocator_get a = Inr (h, a') \<Longrightarrow> alloc_history (insert h L) a'"
| history_take: "alloc_history L a \<Longrightarrow> handle_valid h \<Longrightarrow> h \<notin> L
    \<Longrightarrow> alloc_history (insert h L) (allocator_take h a)"
| history_put: "alloc_history L a \<Longrightarrow> h \<in> L \<Longrightarrow> alloc_history (L - {h}) (allocator_put h a)"

lemma alloc_history_inUse: "alloc_history L a \<Longrightarrow> allocator_inv a \<and> inUse a = L"
proof (induction rule: alloc_history.induct)
  case (history_get L a h a')
  then show ?case using alloc.obtain_fresh[of a h a'] by auto
next
  case (history_take L a h)
  then show ?case using alloc.reserve_law[of a h] by auto
next
  case (history_put L a h)
  then show ?case using alloc.release_law[of a h] by auto
qed simp_all

lemma allocator_empty_law:
  assumes "allocator_inv a"
  shows "allocator_empty a \<longleftrightarrow> inUse a = {h. handle_valid h}"
proof -
  have "allocator_empty a \<longleftrightarrow> (\<exists>e. allocator_get a = Inl e)"
    by (auto simp: allocator_empty_def allocator_get_def Let_def)
  also have "\<dots> \<longleftrightarrow> inUse a = {h. handle_valid h}"
    using alloc.obtain_law[OF assms] by (auto split: sum.splits)
  finally show ?thesis .
qed

text \<open>
  C22: the handle \<open>get\<close> hands out is a valid one that nobody holds, whatever handles were
  taken, handed out and put back before; it raises \<open>ResourceError\<close> exactly when every valid
  handle is held, and \<open>used()\<close> and \<open>empty()\<close> tell whether any and whether all are held.
\<close>

theorem handles_are_unique:
  assumes "alloc_history L a"
  shows "(case allocator_get a of
      Inl ResourceError \<Rightarrow> L = {h. handle_valid h}
    | Inr (h, a') \<Rightarrow> handle_valid h \<and> h \<notin> L \<and> alloc_history (insert h L) a')
    \<and> (allocator_used a \<longleftrightarrow> L \<noteq> {})
    \<and> (allocator_empty a \<longleftrightarrow> L = {h. handle_valid h})"
proof (intro conjI)
  from alloc_history_inUse[OF assms] have inv: "allocator_inv a" and L: "inUse a = L" by auto
  show "case allocator_get a of
      Inl ResourceError \<Rightarrow> L = {h. handle_valid h}
    | Inr (h, a') \<Rightarrow> handle_valid h \<and> h \<notin> L \<and> alloc_history (insert h L) a'"
    using alloc.obtain_law[OF inv] history_get[OF assms] L
    by (auto split: sum.splits allocator_error.splits)
  show "allocator_used a \<longleftrightarrow> L \<noteq> {}" using allocator_used_law[OF inv] L by simp
  show "allocator_empty a \<longleftrightarrow> L = {h. handle_valid h}"
    using allocator_empty_law[OF inv] L by simp
qed

lemma history_of_two:
  "alloc_history {0, 3 :: 8 word} \<lparr>handleSet = {1, 2}, nextHandle = 4\<rparr>"
proof -
  have "allocator_take 3 (new_allocator :: 8 word allocator)
    = \<lparr>handleSet = {0, 1, 2}, nextHandle = 4\<rparr>" by code_simp
  moreover have "allocator_get \<lparr>handleSet = {0, 1, 2}, nextHandle = 4 :: 8 word\<rparr>
    = Inr (0, \<lparr>handleSet = {1, 2}, nextHandle = 4\<rparr>)" by code_simp
  moreover have "handle_valid (3 :: 8 word)" by code_simp
  ultimately show ?thesis using history_get history_take[OF history_new] by fastforce
qed

theorem handles_are_unique_witness:
  "alloc_history {1, 0, 3 :: 8 word} \<lparr>handleSet = {2}, nextHandle = 4\<rparr>
   \<and> allocator_used \<lparr>handleSet = {1, 2}, nextHandle = 4 :: 8 word\<rparr>"
proof -
  have "allocator_get \<lparr>handleSet = {1, 2}, nextHandle = 4 :: 8 word\<rparr>
    = Inr (1, \<lparr>handleSet = {2}, nextHandle = 4\<rparr>)" by code_simp
  with handles_are_unique[OF history_of_two] show ?thesis by simp
qed

text \<open>
  A \<open>Candidate\<close> gets a free handle for an invalid one and reserves a valid one. Destroyed
  before its handle was taken it leaves exactly the handles in use that were in use before, and
  when its handle was taken that handle stays in use.
\<close>

lemma candidate_is_a_transaction:
  assumes "alloc_history L a" and "handle \<notin> L" and "candidate_construct handle a = Inr (c, a')"
  shows "(handle_valid handle \<longrightarrow> c = handle) \<and> handle_valid c \<and> c \<notin> L
    \<and> inUse (candidate_destruct c a') = L
    \<and> (case candidate_take c of (h, c') \<Rightarrow>
        h = c \<and> inUse (candidate_destruct c' a') = insert h L)"
proof -
  from alloc_history_inUse[OF assms(1)] have inv: "allocator_inv a" and L: "inUse a = L" by auto
  have "(handle_valid handle \<longrightarrow> c = handle) \<and> handle_valid c \<and> c \<notin> L \<and> inUse a' = insert c L
    \<and> inUse (allocator_put c a') = L"
  proof (cases "handle_valid handle")
    case True
    with assms(3) have "c = handle" "a' = allocator_take handle a"
      by (auto simp: candidate_construct_def)
    with True show ?thesis
      using assms(2) alloc.reserve_release[OF inv True] alloc.reserve_law[OF inv True] L by simp
  next
    case False
    with assms(3) have "allocator_get a = Inr (c, a')" by (simp add: candidate_construct_def)
    with False show ?thesis
      using alloc.obtain_release[OF inv] alloc.obtain_fresh[OF inv] L by simp
  qed
  then show ?thesis
    by (auto simp: candidate_destruct_def candidate_take_def handle_valid_def)
qed

end
