(* ===== verification/Message_Types.thy ===== *)
theory Message_Types
  imports Wire_Types
begin

text \<open>
  The messages of \<open>src/OpenRTI/Message.h\<close> that travel between servers, each the record of its
  members, and the type of all messages. \<open>OtherMessage\<close> stands for the messages that have no
  encoding because they never leave a process.
\<close>

record ConnectionLostMessage =
  ConnectionLostMessage_faultDescription :: String

record CreateFederationExecutionRequestMessage =
  CreateFederationExecutionRequestMessage_federationExecution :: String
  CreateFederationExecutionRequestMessage_logicalTimeFactoryName :: String
  CreateFederationExecutionRequestMessage_fOMStringModuleList :: FOMStringModuleList

record CreateFederationExecutionRequest2Message =
  CreateFederationExecutionRequest2Message_federationExecution :: String
  CreateFederationExecutionRequest2Message_logicalTimeFactoryName :: String
  CreateFederationExecutionRequest2Message_fOMStringModuleList :: FOMStringModule2List

record CreateFederationExecutionResponseMessage =
  CreateFederationExecutionResponseMessage_createFederationExecutionResponseType :: CreateFederationExecutionResponseType
  CreateFederationExecutionResponseMessage_exceptionString :: String

record DestroyFederationExecutionRequestMessage =
  DestroyFederationExecutionRequestMessage_federationExecution :: String

record DestroyFederationExecutionResponseMessage =
  DestroyFederationExecutionResponseMessage_destroyFederationExecutionResponseType :: DestroyFederationExecutionResponseType

type_synonym EnumerateFederationExecutionsRequestMessage = unit

record EnumerateFederationExecutionsResponseMessage =
  EnumerateFederationExecutionsResponseMessage_federationExecutionInformationVector :: FederationExecutionInformationVector

record InsertFederationExecutionMessage =
  InsertFederationExecutionMessage_federationHandle :: FederationHandle
  InsertFederationExecutionMessage_federationName :: String
  InsertFederationExecutionMessage_logicalTimeFactoryName :: String
  InsertFederationExecutionMessage_configurationParameterMap :: ConfigurationParameterMap

record ShutdownFederationExecutionMessage =
  ShutdownFederationExecutionMessage_federationHandle :: FederationHandle

record EraseFederationExecutionMessage =
  EraseFederationExecutionMessage_federationHandle :: FederationHandle

record ReleaseFederationHandleMessage =
  ReleaseFederationHandleMessage_federationHandle :: FederationHandle

record InsertModulesMessage =
  InsertModulesMessage_federationHandle :: FederationHandle
  InsertModulesMessage_fOMModuleList :: FOMModuleList

record InsertModules2Message =
  InsertModules2Message_federationHandle :: FederationHandle
  InsertModules2Message_fOMModule2List :: FOMModule2List

record JoinFederationExecutionRequestMessage =
  JoinFederationExecutionRequestMessage_federationExecution :: String
  JoinFederationExecutionRequestMessage_federateType :: String
  JoinFederationExecutionRequestMessage_federateName :: String
  JoinFederationExecutionRequestMessage_fOMStringModuleList :: FOMStringModuleList
  JoinFederationExecutionRequestMessage_configurationParameterMap :: ConfigurationParameterMap
  JoinFederationExecutionRequestMessage_isInternal :: Bool

record JoinFederationExecutionRequest2Message =
  JoinFederationExecutionRequest2Message_federationExecution :: String
  JoinFederationExecutionRequest2Message_federateType :: String
  JoinFederationExecutionRequest2Message_federateName :: String
  JoinFederationExecutionRequest2Message_fOMStringModuleList :: FOMStringModule2List
  JoinFederationExecutionRequest2Message_configurationParameterMap :: ConfigurationParameterMap
  JoinFederationExecutionRequest2Message_isInternal :: Bool

record JoinFederationExecutionResponseMessage =
  JoinFederationExecutionResponseMessage_federationHandle :: FederationHandle
  JoinFederationExecutionResponseMessage_joinFederationExecutionResponseType :: JoinFederationExecutionResponseType
  JoinFederationExecutionResponseMessage_exceptionString :: String
  JoinFederationExecutionResponseMessage_federateHandle :: FederateHandle
  JoinFederationExecutionResponseMessage_federateType :: String
  JoinFederationExecutionResponseMessage_federateName :: String

record ResignFederationExecutionRequestMessage =
  ResignFederationExecutionRequestMessage_federationHandle :: FederationHandle
  ResignFederationExecutionRequestMessage_federateHandle :: FederateHandle

record JoinFederateNotifyMessage =
  JoinFederateNotifyMessage_federationHandle :: FederationHandle
  JoinFederateNotifyMessage_federateHandle :: FederateHandle
  JoinFederateNotifyMessage_federateType :: String
  JoinFederateNotifyMessage_federateName :: String
  JoinFederateNotifyMessage_isInternal :: Bool

record ResignFederateNotifyMessage =
  ResignFederateNotifyMessage_federationHandle :: FederationHandle
  ResignFederateNotifyMessage_federateHandle :: FederateHandle

record ChangeAutomaticResignDirectiveMessage =
  ChangeAutomaticResignDirectiveMessage_federationHandle :: FederationHandle
  ChangeAutomaticResignDirectiveMessage_federateHandle :: FederateHandle
  ChangeAutomaticResignDirectiveMessage_resignAction :: ResignAction

record RegisterFederationSynchronizationPointMessage =
  RegisterFederationSynchronizationPointMessage_federationHandle :: FederationHandle
  RegisterFederationSynchronizationPointMessage_federateHandle :: FederateHandle
  RegisterFederationSynchronizationPointMessage_label :: String
  RegisterFederationSynchronizationPointMessage_tag :: VariableLengthData
  RegisterFederationSynchronizationPointMessage_federateHandleVector :: FederateHandleVector

record RegisterFederationSynchronizationPointResponseMessage =
  RegisterFederationSynchronizationPointResponseMessage_federationHandle :: FederationHandle
  RegisterFederationSynchronizationPointResponseMessage_federateHandle :: FederateHandle
  RegisterFederationSynchronizationPointResponseMessage_label :: String
  RegisterFederationSynchronizationPointResponseMessage_registerFederationSynchronizationPointResponseType :: RegisterFederationSynchronizationPointResponseType

record AnnounceSynchronizationPointMessage =
  AnnounceSynchronizationPointMessage_federationHandle :: FederationHandle
  AnnounceSynchronizationPointMessage_label :: String
  AnnounceSynchronizationPointMessage_tag :: VariableLengthData
  AnnounceSynchronizationPointMessage_addJoiningFederates :: Bool
  AnnounceSynchronizationPointMessage_federateHandleVector :: FederateHandleVector

record SynchronizationPointAchievedMessage =
  SynchronizationPointAchievedMessage_federationHandle :: FederationHandle
  SynchronizationPointAchievedMessage_label :: String
  SynchronizationPointAchievedMessage_federateHandleBoolPairVector :: FederateHandleBoolPairVector

record FederationSynchronizedMessage =
  FederationSynchronizedMessage_federationHandle :: FederationHandle
  FederationSynchronizedMessage_label :: String
  FederationSynchronizedMessage_federateHandleBoolPairVector :: FederateHandleBoolPairVector

record EnableTimeRegulationRequestMessage =
  EnableTimeRegulationRequestMessage_federationHandle :: FederationHandle
  EnableTimeRegulationRequestMessage_federateHandle :: FederateHandle
  EnableTimeRegulationRequestMessage_timeStamp :: VariableLengthData
  EnableTimeRegulationRequestMessage_commitId :: Unsigned

record EnableTimeRegulationResponseMessage =
  EnableTimeRegulationResponseMessage_federationHandle :: FederationHandle
  EnableTimeRegulationResponseMessage_federateHandle :: FederateHandle
  EnableTimeRegulationResponseMessage_respondingFederateHandle :: FederateHandle
  EnableTimeRegulationResponseMessage_timeStampValid :: Bool
  EnableTimeRegulationResponseMessage_timeStamp :: VariableLengthData

record DisableTimeRegulationRequestMessage =
  DisableTimeRegulationRequestMessage_federationHandle :: FederationHandle
  DisableTimeRegulationRequestMessage_federateHandle :: FederateHandle

record EnableTimeConstrainedNotifyMessage =
  EnableTimeConstrainedNotifyMessage_federationHandle :: FederationHandle
  EnableTimeConstrainedNotifyMessage_federateHandle :: FederateHandle

record DisableTimeConstrainedNotifyMessage =
  DisableTimeConstrainedNotifyMessage_federationHandle :: FederationHandle
  DisableTimeConstrainedNotifyMessage_federateHandle :: FederateHandle

record CommitLowerBoundTimeStampMessage =
  CommitLowerBoundTimeStampMessage_federationHandle :: FederationHandle
  CommitLowerBoundTimeStampMessage_federateHandle :: FederateHandle
  CommitLowerBoundTimeStampMessage_timeStamp :: VariableLengthData
  CommitLowerBoundTimeStampMessage_commitType :: LowerBoundTimeStampCommitType
  CommitLowerBoundTimeStampMessage_commitId :: Unsigned

record CommitLowerBoundTimeStampResponseMessage =
  CommitLowerBoundTimeStampResponseMessage_federationHandle :: FederationHandle
  CommitLowerBoundTimeStampResponseMessage_federateHandle :: FederateHandle
  CommitLowerBoundTimeStampResponseMessage_sendingFederateHandle :: FederateHandle
  CommitLowerBoundTimeStampResponseMessage_commitId :: Unsigned

record LockedByNextMessageRequestMessage =
  LockedByNextMessageRequestMessage_federationHandle :: FederationHandle
  LockedByNextMessageRequestMessage_sendingFederateHandle :: FederateHandle
  LockedByNextMessageRequestMessage_lockedByNextMessage :: Bool

record InsertRegionMessage =
  InsertRegionMessage_federationHandle :: FederationHandle
  InsertRegionMessage_regionHandleDimensionHandleSetPairVector :: RegionHandleDimensionHandleSetPairVector

record CommitRegionMessage =
  CommitRegionMessage_federationHandle :: FederationHandle
  CommitRegionMessage_regionHandleRegionValuePairVector :: RegionHandleRegionValuePairVector

record EraseRegionMessage =
  EraseRegionMessage_federationHandle :: FederationHandle
  EraseRegionMessage_regionHandleVector :: RegionHandleVector

record ChangeInteractionClassPublicationMessage =
  ChangeInteractionClassPublicationMessage_federationHandle :: FederationHandle
  ChangeInteractionClassPublicationMessage_publicationType :: PublicationType
  ChangeInteractionClassPublicationMessage_interactionClassHandle :: InteractionClassHandle

record ChangeObjectClassPublicationMessage =
  ChangeObjectClassPublicationMessage_federationHandle :: FederationHandle
  ChangeObjectClassPublicationMessage_publicationType :: PublicationType
  ChangeObjectClassPublicationMessage_objectClassHandle :: ObjectClassHandle
  ChangeObjectClassPublicationMessage_attributeHandles :: AttributeHandleVector

record ChangeInteractionClassSubscriptionMessage =
  ChangeInteractionClassSubscriptionMessage_federationHandle :: FederationHandle
  ChangeInteractionClassSubscriptionMessage_subscriptionType :: SubscriptionType
  ChangeInteractionClassSubscriptionMessage_interactionClassHandle :: InteractionClassHandle
  ChangeInteractionClassSubscriptionMessage_parameterFilterValues :: ParameterValueVector

record ChangeObjectClassSubscriptionMessage =
  ChangeObjectClassSubscriptionMessage_federationHandle :: FederationHandle
  ChangeObjectClassSubscriptionMessage_subscriptionType :: SubscriptionType
  ChangeObjectClassSubscriptionMessage_objectClassHandle :: ObjectClassHandle
  ChangeObjectClassSubscriptionMessage_attributeHandles :: AttributeHandleVector

record ChangeObjectInstanceSubscriptionMessage =
  ChangeObjectInstanceSubscriptionMessage_federationHandle :: FederationHandle
  ChangeObjectInstanceSubscriptionMessage_subscriptionType :: SubscriptionType
  ChangeObjectInstanceSubscriptionMessage_objectClassHandle :: ObjectClassHandle
  ChangeObjectInstanceSubscriptionMessage_objectInstanceHandle :: ObjectInstanceHandle

record InteractionMessage =
  InteractionMessage_federationHandle :: FederationHandle
  InteractionMessage_federateHandle :: FederateHandle
  InteractionMessage_interactionClassHandle :: InteractionClassHandle
  InteractionMessage_transportationType :: TransportationType
  InteractionMessage_tag :: VariableLengthData
  InteractionMessage_parameterValues :: ParameterValueVector

record TimeStampedInteractionMessage =
  TimeStampedInteractionMessage_federationHandle :: FederationHandle
  TimeStampedInteractionMessage_federateHandle :: FederateHandle
  TimeStampedInteractionMessage_interactionClassHandle :: InteractionClassHandle
  TimeStampedInteractionMessage_orderType :: OrderType
  TimeStampedInteractionMessage_transportationType :: TransportationType
  TimeStampedInteractionMessage_tag :: VariableLengthData
  TimeStampedInteractionMessage_timeStamp :: VariableLengthData
  TimeStampedInteractionMessage_messageRetractionHandle :: MessageRetractionHandle
  TimeStampedInteractionMessage_parameterValues :: ParameterValueVector

record ObjectInstanceHandlesRequestMessage =
  ObjectInstanceHandlesRequestMessage_federationHandle :: FederationHandle
  ObjectInstanceHandlesRequestMessage_federateHandle :: FederateHandle
  ObjectInstanceHandlesRequestMessage_count :: Unsigned

record ObjectInstanceHandlesResponseMessage =
  ObjectInstanceHandlesResponseMessage_federationHandle :: FederationHandle
  ObjectInstanceHandlesResponseMessage_federateHandle :: FederateHandle
  ObjectInstanceHandlesResponseMessage_objectInstanceHandleNamePairVector :: ObjectInstanceHandleNamePairVector

record ReleaseMultipleObjectInstanceNameHandlePairsMessage =
  ReleaseMultipleObjectInstanceNameHandlePairsMessage_federationHandle :: FederationHandle
  ReleaseMultipleObjectInstanceNameHandlePairsMessage_objectInstanceHandleVector :: ObjectInstanceHandleVector

record ReserveObjectInstanceNameRequestMessage =
  ReserveObjectInstanceNameRequestMessage_federationHandle :: FederationHandle
  ReserveObjectInstanceNameRequestMessage_federateHandle :: FederateHandle
  ReserveObjectInstanceNameRequestMessage_name :: String
  ReserveObjectInstanceNameRequestMessage_isInternal :: Bool

record ReserveObjectInstanceNameResponseMessage =
  ReserveObjectInstanceNameResponseMessage_federationHandle :: FederationHandle
  ReserveObjectInstanceNameResponseMessage_federateHandle :: FederateHandle
  ReserveObjectInstanceNameResponseMessage_objectInstanceHandleNamePair :: ObjectInstanceHandleNamePair
  ReserveObjectInstanceNameResponseMessage_success :: Bool

record ReserveMultipleObjectInstanceNameRequestMessage =
  ReserveMultipleObjectInstanceNameRequestMessage_federationHandle :: FederationHandle
  ReserveMultipleObjectInstanceNameRequestMessage_federateHandle :: FederateHandle
  ReserveMultipleObjectInstanceNameRequestMessage_nameList :: StringVector

record ReserveMultipleObjectInstanceNameResponseMessage =
  ReserveMultipleObjectInstanceNameResponseMessage_federationHandle :: FederationHandle
  ReserveMultipleObjectInstanceNameResponseMessage_federateHandle :: FederateHandle
  ReserveMultipleObjectInstanceNameResponseMessage_objectInstanceHandleNamePairVector :: ObjectInstanceHandleNamePairVector
  ReserveMultipleObjectInstanceNameResponseMessage_success :: Bool

record InsertObjectInstanceMessage =
  InsertObjectInstanceMessage_federationHandle :: FederationHandle
  InsertObjectInstanceMessage_objectClassHandle :: ObjectClassHandle
  InsertObjectInstanceMessage_objectInstanceHandle :: ObjectInstanceHandle
  InsertObjectInstanceMessage_name :: String
  InsertObjectInstanceMessage_attributeStateVector :: AttributeStateVector

record DeleteObjectInstanceMessage =
  DeleteObjectInstanceMessage_federationHandle :: FederationHandle
  DeleteObjectInstanceMessage_federateHandle :: FederateHandle
  DeleteObjectInstanceMessage_objectInstanceHandle :: ObjectInstanceHandle
  DeleteObjectInstanceMessage_tag :: VariableLengthData

record TimeStampedDeleteObjectInstanceMessage =
  TimeStampedDeleteObjectInstanceMessage_federationHandle :: FederationHandle
  TimeStampedDeleteObjectInstanceMessage_federateHandle :: FederateHandle
  TimeStampedDeleteObjectInstanceMessage_objectInstanceHandle :: ObjectInstanceHandle
  TimeStampedDeleteObjectInstanceMessage_orderType :: OrderType
  TimeStampedDeleteObjectInstanceMessage_tag :: VariableLengthData
  TimeStampedDeleteObjectInstanceMessage_timeStamp :: VariableLengthData
  TimeStampedDeleteObjectInstanceMessage_messageRetractionHandle :: MessageRetractionHandle

record AttributeUpdateMessage =
  AttributeUpdateMessage_federationHandle :: FederationHandle
  AttributeUpdateMessage_federateHandle :: FederateHandle
  AttributeUpdateMessage_objectInstanceHandle :: ObjectInstanceHandle
  AttributeUpdateMessage_tag :: VariableLengthData
  AttributeUpdateMessage_transportationType :: TransportationType
  AttributeUpdateMessage_attributeValues :: AttributeValueVector

record TimeStampedAttributeUpdateMessage =
  TimeStampedAttributeUpdateMessage_federationHandle :: FederationHandle
  TimeStampedAttributeUpdateMessage_federateHandle :: FederateHandle
  TimeStampedAttributeUpdateMessage_objectInstanceHandle :: ObjectInstanceHandle
  TimeStampedAttributeUpdateMessage_tag :: VariableLengthData
  TimeStampedAttributeUpdateMessage_timeStamp :: VariableLengthData
  TimeStampedAttributeUpdateMessage_messageRetractionHandle :: MessageRetractionHandle
  TimeStampedAttributeUpdateMessage_orderType :: OrderType
  TimeStampedAttributeUpdateMessage_transportationType :: TransportationType
  TimeStampedAttributeUpdateMessage_attributeValues :: AttributeValueVector

record RequestAttributeUpdateMessage =
  RequestAttributeUpdateMessage_federationHandle :: FederationHandle
  RequestAttributeUpdateMessage_objectInstanceHandle :: ObjectInstanceHandle
  RequestAttributeUpdateMessage_attributeHandles :: AttributeHandleVector
  RequestAttributeUpdateMessage_tag :: VariableLengthData

record RequestClassAttributeUpdateMessage =
  RequestClassAttributeUpdateMessage_federationHandle :: FederationHandle
  RequestClassAttributeUpdateMessage_objectClassHandle :: ObjectClassHandle
  RequestClassAttributeUpdateMessage_attributeHandles :: AttributeHandleVector
  RequestClassAttributeUpdateMessage_tag :: VariableLengthData

record QueryAttributeOwnershipRequestMessage =
  QueryAttributeOwnershipRequestMessage_federationHandle :: FederationHandle
  QueryAttributeOwnershipRequestMessage_objectInstanceHandle :: ObjectInstanceHandle
  QueryAttributeOwnershipRequestMessage_attributeHandle :: AttributeHandle

record QueryAttributeOwnershipResponseMessage =
  QueryAttributeOwnershipResponseMessage_federationHandle :: FederationHandle
  QueryAttributeOwnershipResponseMessage_objectInstanceHandle :: ObjectInstanceHandle
  QueryAttributeOwnershipResponseMessage_attributeHandle :: AttributeHandle
  QueryAttributeOwnershipResponseMessage_owner :: FederateHandle

datatype (plugins only: code) message =
    ConnectionLostMessage ConnectionLostMessage
  | CreateFederationExecutionRequestMessage CreateFederationExecutionRequestMessage
  | CreateFederationExecutionRequest2Message CreateFederationExecutionRequest2Message
  | CreateFederationExecutionResponseMessage CreateFederationExecutionResponseMessage
  | DestroyFederationExecutionRequestMessage DestroyFederationExecutionRequestMessage
  | DestroyFederationExecutionResponseMessage DestroyFederationExecutionResponseMessage
  | EnumerateFederationExecutionsRequestMessage EnumerateFederationExecutionsRequestMessage
  | EnumerateFederationExecutionsResponseMessage EnumerateFederationExecutionsResponseMessage
  | InsertFederationExecutionMessage InsertFederationExecutionMessage
  | ShutdownFederationExecutionMessage ShutdownFederationExecutionMessage
  | EraseFederationExecutionMessage EraseFederationExecutionMessage
  | ReleaseFederationHandleMessage ReleaseFederationHandleMessage
  | InsertModulesMessage InsertModulesMessage
  | InsertModules2Message InsertModules2Message
  | JoinFederationExecutionRequestMessage JoinFederationExecutionRequestMessage
  | JoinFederationExecutionRequest2Message JoinFederationExecutionRequest2Message
  | JoinFederationExecutionResponseMessage JoinFederationExecutionResponseMessage
  | ResignFederationExecutionRequestMessage ResignFederationExecutionRequestMessage
  | JoinFederateNotifyMessage JoinFederateNotifyMessage
  | ResignFederateNotifyMessage ResignFederateNotifyMessage
  | ChangeAutomaticResignDirectiveMessage ChangeAutomaticResignDirectiveMessage
  | RegisterFederationSynchronizationPointMessage RegisterFederationSynchronizationPointMessage
  | RegisterFederationSynchronizationPointResponseMessage RegisterFederationSynchronizationPointResponseMessage
  | AnnounceSynchronizationPointMessage AnnounceSynchronizationPointMessage
  | SynchronizationPointAchievedMessage SynchronizationPointAchievedMessage
  | FederationSynchronizedMessage FederationSynchronizedMessage
  | EnableTimeRegulationRequestMessage EnableTimeRegulationRequestMessage
  | EnableTimeRegulationResponseMessage EnableTimeRegulationResponseMessage
  | DisableTimeRegulationRequestMessage DisableTimeRegulationRequestMessage
  | EnableTimeConstrainedNotifyMessage EnableTimeConstrainedNotifyMessage
  | DisableTimeConstrainedNotifyMessage DisableTimeConstrainedNotifyMessage
  | CommitLowerBoundTimeStampMessage CommitLowerBoundTimeStampMessage
  | CommitLowerBoundTimeStampResponseMessage CommitLowerBoundTimeStampResponseMessage
  | LockedByNextMessageRequestMessage LockedByNextMessageRequestMessage
  | InsertRegionMessage InsertRegionMessage
  | CommitRegionMessage CommitRegionMessage
  | EraseRegionMessage EraseRegionMessage
  | ChangeInteractionClassPublicationMessage ChangeInteractionClassPublicationMessage
  | ChangeObjectClassPublicationMessage ChangeObjectClassPublicationMessage
  | ChangeInteractionClassSubscriptionMessage ChangeInteractionClassSubscriptionMessage
  | ChangeObjectClassSubscriptionMessage ChangeObjectClassSubscriptionMessage
  | ChangeObjectInstanceSubscriptionMessage ChangeObjectInstanceSubscriptionMessage
  | InteractionMessage InteractionMessage
  | TimeStampedInteractionMessage TimeStampedInteractionMessage
  | ObjectInstanceHandlesRequestMessage ObjectInstanceHandlesRequestMessage
  | ObjectInstanceHandlesResponseMessage ObjectInstanceHandlesResponseMessage
  | ReleaseMultipleObjectInstanceNameHandlePairsMessage ReleaseMultipleObjectInstanceNameHandlePairsMessage
  | ReserveObjectInstanceNameRequestMessage ReserveObjectInstanceNameRequestMessage
  | ReserveObjectInstanceNameResponseMessage ReserveObjectInstanceNameResponseMessage
  | ReserveMultipleObjectInstanceNameRequestMessage ReserveMultipleObjectInstanceNameRequestMessage
  | ReserveMultipleObjectInstanceNameResponseMessage ReserveMultipleObjectInstanceNameResponseMessage
  | InsertObjectInstanceMessage InsertObjectInstanceMessage
  | DeleteObjectInstanceMessage DeleteObjectInstanceMessage
  | TimeStampedDeleteObjectInstanceMessage TimeStampedDeleteObjectInstanceMessage
  | AttributeUpdateMessage AttributeUpdateMessage
  | TimeStampedAttributeUpdateMessage TimeStampedAttributeUpdateMessage
  | RequestAttributeUpdateMessage RequestAttributeUpdateMessage
  | RequestClassAttributeUpdateMessage RequestClassAttributeUpdateMessage
  | QueryAttributeOwnershipRequestMessage QueryAttributeOwnershipRequestMessage
  | QueryAttributeOwnershipResponseMessage QueryAttributeOwnershipResponseMessage
  | OtherMessage

end
