(* ===== verification/Federation_Model.thy ===== *)
theory Federation_Model
  imports Interaction_Class Handle_Allocator Message_Types
begin

text \<open>
  The server model of one federation at one server node (\<open>src/OpenRTI/ServerModel.h\<close>,
  \<open>src/OpenRTI/ServerModel.cpp\<close>): its connects, federates, synchronization points and interaction
  classes, and the primitives that send messages to connects. Intrusive maps and lists are
  association lists in the order of iteration; an object that is linked in several of them is
  stored in one and named by its handle in the others. Messages that leave the node and the
  notifications of the metrics are collected as \<open>effects\<close> in the order of the code.
\<close>

type_synonym Label = "Wire_Types.String"

record NodeConnect =
  isParentConnect :: bool
  messageSender :: bool

record FederationConnect =
  nodeConnect :: NodeConnect
  active :: bool
  federateList :: "FederateHandle list"
  timeRegulatingFederateList :: "FederateHandle list"
  timeConstrainedFederateList :: "FederateHandle list"

record Federate =
  federateName :: "Wire_Types.String"
  federateType :: "Wire_Types.String"
  resignAction :: ResignAction
  resignPending :: bool
  federationConnect :: "ConnectHandle option"
  synchronizationFederateList :: "Label list"
  timeAdvanceTimeStamp :: VariableLengthData
  nextMessageTimeStamp :: VariableLengthData
  commitId :: Unsigned
  isInternal :: bool

text \<open>The entries of the two maps are the federates with their flag \<open>_successful\<close>.\<close>

record Synchronization =
  synchronizationTag :: VariableLengthData
  addJoiningFederates :: bool
  waitingFederates :: "(FederateHandle \<times> bool) list"
  achievedFederates :: "(FederateHandle \<times> bool) list"

record Federation =
  federationHandle :: FederationHandle
  parentConnect :: "(ConnectHandle \<times> NodeConnect) option"
  federationConnects :: "(ConnectHandle \<times> FederationConnect) list"
  federates :: "(FederateHandle \<times> Federate) list"
  federateHandleAllocator :: "FederateHandle allocator"
  timeRegulatingConnects :: "ConnectHandle list"
  timeConstrainedConnects :: "ConnectHandle list"
  synchronizations :: "(Label \<times> Synchronization) list"
  interactionClasses :: "InteractionClass list"

text \<open>What \<open>Federation::interactionSent\<close> and its relatives report to the metrics of a connect.\<close>

datatype metric =
    interactionSent InteractionClassHandle
  | interactionReceived InteractionClassHandle
  | interactionClassSubscribed InteractionClassHandle bool
  | interactionClassUnsubscribed InteractionClassHandle
  | interactionClassPublished InteractionClassHandle
  | interactionClassUnpublished InteractionClassHandle
  | objectClassSubscribed ObjectClassHandle AttributeHandleVector bool
  | objectClassUnsubscribed ObjectClassHandle AttributeHandleVector
  | objectClassPublished ObjectClassHandle AttributeHandleVector
  | objectClassUnpublished ObjectClassHandle AttributeHandleVector
  | objectInstanceUpdateSent ObjectInstanceHandle
  | objectInstanceReflectionReceived ObjectInstanceHandle

datatype effect = Sent ConnectHandle message | Metric ConnectHandle metric

text \<open>A handler throws an exception or has undefined behaviour, or it returns.\<close>

datatype handler_error = MessageError | HandleAllocationError | UndefinedBehaviour

type_synonym handled = "handler_error + Federation \<times> effect list"

section \<open>Association lists as intrusive maps\<close>

definition entry_update :: "'k \<Rightarrow> ('v \<Rightarrow> 'v) \<Rightarrow> ('k \<times> 'v) list \<Rightarrow> ('k \<times> 'v) list" where
  "entry_update k f = map (\<lambda>(k', v). (k', if k' = k then f v else v))"

definition entry_erase :: "'k \<Rightarrow> ('k \<times> 'v) list \<Rightarrow> ('k \<times> 'v) list" where
  "entry_erase k = filter (\<lambda>(k', v). k' \<noteq> k)"

lemma map_of_entry_update [simp]:
  "map_of (entry_update k f xs) k' = (if k' = k then map_option f (map_of xs k) else map_of xs k')"
  by (induction xs) (auto simp: entry_update_def)

lemma map_of_entry_erase [simp]:
  "map_of (entry_erase k xs) k' = (if k' = k then None else map_of xs k')"
  by (induction xs) (auto simp: entry_erase_def)

lemma keys_entry_update [simp]: "map fst (entry_update k f xs) = map fst xs"
  by (induction xs) (auto simp: entry_update_def)

lemma keys_entry_erase [simp]: "map fst (entry_erase k xs) = filter (\<lambda>k'. k' \<noteq> k) (map fst xs)"
  by (induction xs) (auto simp: entry_erase_def)

text \<open>\<open>getReservedName\<close>: a prefix with the decimal digits of the handle, as ASCII.\<close>

function decimal :: "nat \<Rightarrow> Wire_Types.String" where
  "decimal n = (if n < 10 then [] else decimal (n div 10)) @ [of_nat (48 + n mod 10)]"
  by auto
termination by (relation "measure id") auto

declare decimal.simps [simp del]

definition getReservedName :: "string \<Rightarrow> 'w::len word \<Rightarrow> Wire_Types.String" where
  "getReservedName prefix h = map (\<lambda>ch. of_nat (of_char ch)) prefix @ decimal (unat h)"

section \<open>Sending\<close>

definition isRootServer :: "Federation \<Rightarrow> bool" where
  "isRootServer f \<longleftrightarrow> parentConnect f = None"

definition node_connect_send :: "ConnectHandle \<Rightarrow> NodeConnect \<Rightarrow> message \<Rightarrow> effect list" where
  "node_connect_send c nc message = (if \<not> messageSender nc then [] else [Sent c message])"

definition sendToParent :: "Federation \<Rightarrow> message \<Rightarrow> effect list" where
  "sendToParent f message =
     (case parentConnect f of None \<Rightarrow> [] | Some (c, nc) \<Rightarrow> node_connect_send c nc message)"

definition federation_connect_send ::
    "ConnectHandle \<Rightarrow> FederationConnect \<Rightarrow> message \<Rightarrow> effect list" where
  "federation_connect_send c fc message =
     (if \<not> active fc then [] else node_connect_send c (nodeConnect fc) message)"

text \<open>\<open>Federation::send\<close> to a connect, to a federate and to a set of connects.\<close>

definition fed_send :: "Federation \<Rightarrow> ConnectHandle \<Rightarrow> message \<Rightarrow> effect list" where
  "fed_send f connectHandle message = (case map_of (federationConnects f) connectHandle of
     None \<Rightarrow> [] | Some fc \<Rightarrow> federation_connect_send connectHandle fc message)"

definition send_federate :: "Federation \<Rightarrow> FederateHandle \<Rightarrow> message \<Rightarrow> effect list" where
  "send_federate f federateHandle message = (case map_of (federates f) federateHandle of
     None \<Rightarrow> []
   | Some federate \<Rightarrow> (case federationConnect federate of
       None \<Rightarrow> [] | Some c \<Rightarrow> fed_send f c message))"

definition send_set :: "Federation \<Rightarrow> ConnectHandleSet \<Rightarrow> message \<Rightarrow> effect list" where
  "send_set f connectHandleSet message =
     concat (map (\<lambda>c. fed_send f c message) (sorted_list_of_fset connectHandleSet))"

definition send_set_except ::
    "Federation \<Rightarrow> ConnectHandleSet \<Rightarrow> ConnectHandle \<Rightarrow> message \<Rightarrow> effect list" where
  "send_set_except f connectHandleSet connectHandle message =
     concat (map (\<lambda>c. if c = connectHandle then [] else fed_send f c message)
       (sorted_list_of_fset connectHandleSet))"

definition broadcast :: "Federation \<Rightarrow> message \<Rightarrow> effect list" where
  "broadcast f message =
     concat (map (\<lambda>(c, fc). federation_connect_send c fc message) (federationConnects f))"

definition broadcast_except :: "Federation \<Rightarrow> ConnectHandle \<Rightarrow> message \<Rightarrow> effect list" where
  "broadcast_except f connectHandle message =
     concat (map (\<lambda>(c, fc). if c = connectHandle then [] else federation_connect_send c fc message)
       (federationConnects f))"

definition broadcastToChildren :: "Federation \<Rightarrow> message \<Rightarrow> effect list" where
  "broadcastToChildren f message =
     concat (map (\<lambda>(c, fc). if isParentConnect (nodeConnect fc) then []
       else federation_connect_send c fc message) (federationConnects f))"

text \<open>The connects a message can reach: the connect takes part in the federation and is alive.\<close>

definition reachable :: "Federation \<Rightarrow> ConnectHandle \<Rightarrow> bool" where
  "reachable f c \<longleftrightarrow> (case map_of (federationConnects f) c of
     None \<Rightarrow> False | Some fc \<Rightarrow> active fc \<and> messageSender (nodeConnect fc))"

lemma fed_send_reachable: "fed_send f c m = (if reachable f c then [Sent c m] else [])"
  by (auto simp: fed_send_def federation_connect_send_def node_connect_send_def reachable_def
      split: option.split)

lemma set_send_set_except:
  "set (send_set_except f S c m) =
    {Sent d m | d. d |\<in>| S \<and> d \<noteq> c \<and> reachable f d}"
  by (auto simp: send_set_except_def fed_send_reachable)

lemma reachable_iff:
  assumes "distinct (map fst (federationConnects f))"
  shows "reachable f c \<longleftrightarrow> (\<exists>fc. (c, fc) \<in> set (federationConnects f) \<and> active fc \<and>
    messageSender (nodeConnect fc))"
  by (auto simp: reachable_def map_of_eq_Some_iff[OF assms, symmetric] split: option.split)

lemma set_broadcast_except:
  assumes "distinct (map fst (federationConnects f))"
  shows "set (broadcast_except f c m) = {Sent d m | d. d \<noteq> c \<and> reachable f d}"
  unfolding reachable_iff[OF assms]
  by (force simp: broadcast_except_def federation_connect_send_def node_connect_send_def
      split: if_splits)

text \<open>The messages among the effects that go to a connect.\<close>

fun sent_to :: "ConnectHandle \<Rightarrow> effect list \<Rightarrow> message list" where
  "sent_to c [] = []"
| "sent_to c (Sent d m # es) = (if d = c then m # sent_to c es else sent_to c es)"
| "sent_to c (Metric _ _ # es) = sent_to c es"

lemma sent_to_append [simp]: "sent_to c (es @ es') = sent_to c es @ sent_to c es'"
  by (induction c es rule: sent_to.induct) auto

lemma sent_to_fed_send [simp]:
  "sent_to c (fed_send f d m) = (if d = c \<and> reachable f c then [m] else [])"
  by (auto simp: fed_send_reachable)

lemma sent_to_concat_distinct:
  assumes "distinct xs" and "\<And>x. x \<in> set xs \<Longrightarrow> x \<noteq> c \<Longrightarrow> sent_to c (g x) = []"
  shows "sent_to c (concat (map g xs)) = (if c \<in> set xs then sent_to c (g c) else [])"
  using assms by (induction xs) auto

lemma sent_to_send_set_except:
  "sent_to x (send_set_except f S c m) = (if x |\<in>| S \<and> x \<noteq> c \<and> reachable f x then [m] else [])"
  unfolding send_set_except_def
  by (subst sent_to_concat_distinct) (auto simp: sorted_list_of_fset.rep_eq)

lemma sent_to_broadcast_sub: "set (sent_to x (broadcast_except f c m)) \<subseteq> {m}"
proof -
  have "set (sent_to x (concat (map (\<lambda>(d, fc). if d = c then [] else federation_connect_send d fc m) cs)))
      \<subseteq> {m}" for cs
    by (induction cs) (auto simp: federation_connect_send_def node_connect_send_def split: if_splits)
  then show ?thesis by (simp add: broadcast_except_def)
qed

lemma sent_to_send_set:
  "sent_to x (send_set f S m) = (if x |\<in>| S \<and> reachable f x then [m] else [])"
  unfolding send_set_def
  by (subst sent_to_concat_distinct) (auto simp: sorted_list_of_fset.rep_eq)

lemma sent_to_broadcast_except:
  assumes "distinct (map fst (federationConnects f))"
  shows "sent_to x (broadcast_except f c m) = (if x \<noteq> c \<and> reachable f x then [m] else [])"
proof -
  have "sent_to x (concat (map (\<lambda>(d, fc). if d = c then [] else federation_connect_send d fc m) cs)) =
      (if x \<noteq> c \<and> (case map_of cs x of None \<Rightarrow> False | Some fc \<Rightarrow> active fc \<and> messageSender (nodeConnect fc))
       then [m] else [])" if "distinct (map fst cs)" for cs
    using that
  proof (induction cs)
    case (Cons a cs)
    obtain d fc where a: "a = (d, fc)" by fastforce
    have "map_of cs d = None" using Cons.prems a by (simp add: map_of_eq_None_iff)
    then show ?case using Cons a
      by (auto simp: federation_connect_send_def node_connect_send_def split: option.splits)
  qed simp
  from this[OF assms] show ?thesis by (simp add: broadcast_except_def reachable_def)
qed

end
