(* ===== verification/Interaction_Routing.thy ===== *)
theory Interaction_Routing
  imports Federation_Model
begin

text \<open>
  The handlers of \<open>FederationServer\<close> (\<open>src/OpenRTI/ServerNode.cpp\<close>) for publications and
  subscriptions of interaction classes and for interactions. \<open>Inl\<close> is the thrown \<open>MessageError\<close> or
  undefined behaviour of the filter tables, otherwise the result is the new state with the
  messages and notifications in the order of the code.
\<close>

section \<open>The handlers\<close>

text \<open>Parameter values of messages as the pairs the filter tables work on, and back.\<close>

definition filter_pairs :: "Wire_Types.ParameterValueVector \<Rightarrow> Interaction_Filter.ParameterValueVector" where
  "filter_pairs = map (\<lambda>v. (ParameterValue_parameterHandle v, ParameterValue_value v))"

definition filter_values :: "Interaction_Filter.ParameterValueVector \<Rightarrow> Wire_Types.ParameterValueVector" where
  "filter_values = map (\<lambda>(h, v). \<lparr>ParameterValue_parameterHandle = h, ParameterValue_value = v\<rparr>)"

definition hasFilterSubscriptions_any :: "interaction_filters \<Rightarrow> bool" where
  "hasFilterSubscriptions_any ic \<longleftrightarrow> parameterFiltersByConnect ic \<noteq> Map.empty"

definition set_class :: "nat \<Rightarrow> InteractionClass \<Rightarrow> Federation \<Rightarrow> Federation" where
  "set_class i ic f = f\<lparr>interactionClasses := (interactionClasses f)[i := ic]\<rparr>"

definition subscription_message ::
    "Federation \<Rightarrow> InteractionClass \<Rightarrow> SubscriptionType \<Rightarrow> Wire_Types.ParameterValueVector \<Rightarrow> message" where
  "subscription_message f ic subscriptionType parameters =
     message.ChangeInteractionClassSubscriptionMessage
       \<lparr>ChangeInteractionClassSubscriptionMessage_federationHandle = federationHandle f,
        ChangeInteractionClassSubscriptionMessage_subscriptionType = subscriptionType,
        ChangeInteractionClassSubscriptionMessage_interactionClassHandle = interactionClassHandle ic,
        ChangeInteractionClassSubscriptionMessage_parameterFilterValues = parameters\<rparr>"

text \<open>
  The answer to a publication: the publisher is told the subscriptions there are. The loop over
  the subscribers reads the filters of each of them.
\<close>

definition subscriber_messages ::
    "Federation \<Rightarrow> InteractionClass \<Rightarrow> SubscriptionType \<Rightarrow> ConnectHandle \<Rightarrow> message list option" where
  "subscriber_messages f ic subscriptionType subscriber =
     map_option (\<lambda>parameterFilters.
       if parameterFilters = [] then [subscription_message f ic subscriptionType []]
       else map (\<lambda>parameters. subscription_message f ic subscriptionType (filter_values parameters))
              parameterFilters)
     (getParameterFilters subscriber (interactionFilters ic))"

definition publication_response ::
    "Federation \<Rightarrow> ConnectHandle \<Rightarrow> InteractionClass \<Rightarrow> message list option" where
  "publication_response f connectHandle ic =
     (let subscriptionType = getSubscriptionTypeToConnect connectHandle ic
      in if subscriptionType = Unsubscribed then Some []
         else if hasFilterSubscriptions_any (interactionFilters ic)
         then map_option concat (those (map (subscriber_messages f ic subscriptionType)
                (sorted_list_of_fset (subscribedConnects ic))))
         else Some [subscription_message f ic subscriptionType []])"

definition acceptChangeInteractionClassPublication ::
    "ConnectHandle \<Rightarrow> ChangeInteractionClassPublicationMessage \<Rightarrow> Federation \<Rightarrow> handled" where
  "acceptChangeInteractionClassPublication connectHandle m f =
     (let h = ChangeInteractionClassPublicationMessage_interactionClassHandle m;
          publicationType = ChangeInteractionClassPublicationMessage_publicationType m;
          msg = message.ChangeInteractionClassPublicationMessage m
      in case getInteractionClass h (interactionClasses f) of
        None \<Rightarrow> Inr (f, [])
      | Some i \<Rightarrow>
          (let (propagation, ic) =
                 setPublicationType connectHandle publicationType (interactionClasses f ! i);
               f' = set_class i ic f;
               metric = Metric connectHandle
                 (if publicationType = Unpublished
                  then interactionClassUnpublished (interactionClassHandle ic)
                  else interactionClassPublished (interactionClassHandle ic));
               propagated = (case propagation of
                   (PropagateBroadcast, _) \<Rightarrow> broadcast_except f' connectHandle msg
                 | (PropagateSend, d) \<Rightarrow> fed_send f' d msg
                 | (PropagateNone, _) \<Rightarrow> [])
           in if publicationType = Published
              then (case publication_response f' connectHandle ic of
                  None \<Rightarrow> Inl UndefinedBehaviour
                | Some ms \<Rightarrow> Inr (f', metric # propagated @
                    concat (map (fed_send f' connectHandle) ms)))
              else Inr (f', metric # propagated)))"

text \<open>
  The change of the class by a subscription message: whether the filters changed, what to
  propagate, and the class. \<open>None\<close> is undefined behaviour of the filter tables.
\<close>

definition changed_filters ::
    "ConnectHandle \<Rightarrow> Interaction_Filter.ParameterValueVector \<Rightarrow> interaction_filters
      \<Rightarrow> (bool \<times> interaction_filters) option" where
  "changed_filters connectHandle parameterFilterValues filters =
     (case (if parameterFilterValues \<noteq> [] then Some True
            else map_option (\<lambda>old. old \<noteq> []) (getParameterFilters connectHandle filters)) of
        None \<Rightarrow> None
      | Some True \<Rightarrow>
          updateParameterFilterValues connectHandle parameterFilterValues False filters
      | Some False \<Rightarrow> Some (False, filters))"

definition change_subscription ::
    "ConnectHandle \<Rightarrow> SubscriptionType \<Rightarrow> Interaction_Filter.ParameterValueVector \<Rightarrow> InteractionClass
      \<Rightarrow> (bool \<times> Propagation \<times> InteractionClass) option" where
  "change_subscription connectHandle subscriptionType parameterFilterValues ic =
     (if subscriptionType = Unsubscribed then
        (if parameterFilterValues \<noteq> [] then
           (case updateParameterFilterValues connectHandle parameterFilterValues True
                   (interactionFilters ic) of
              None \<Rightarrow> None
            | Some (filterChanged, filters) \<Rightarrow>
                (let ic' = ic\<lparr>interactionFilters := filters\<rparr>
                 in Some (filterChanged,
                      if \<not> hasFilterSubscriptions connectHandle filters
                      then setSubscriptionType connectHandle Unsubscribed ic'
                      else ((PropagateBroadcast, invalid_handle), ic'))))
         else
           (let (filterChanged, filters) =
                  clearParameterFilters connectHandle (interactionFilters ic)
            in Some (filterChanged, setSubscriptionType connectHandle Unsubscribed
                 (ic\<lparr>interactionFilters := filters\<rparr>))))
      else
        (case changed_filters connectHandle parameterFilterValues (interactionFilters ic) of
           None \<Rightarrow> None
         | Some (filterChanged, filters) \<Rightarrow>
             Some (filterChanged, setSubscriptionType connectHandle subscriptionType
               (ic\<lparr>interactionFilters := filters\<rparr>))))"

definition acceptChangeInteractionClassSubscription ::
    "ConnectHandle \<Rightarrow> ChangeInteractionClassSubscriptionMessage \<Rightarrow> Federation \<Rightarrow> handled" where
  "acceptChangeInteractionClassSubscription connectHandle m f =
     (let h = ChangeInteractionClassSubscriptionMessage_interactionClassHandle m;
          subscriptionType = ChangeInteractionClassSubscriptionMessage_subscriptionType m;
          parameterFilterValues =
            filter_pairs (ChangeInteractionClassSubscriptionMessage_parameterFilterValues m);
          msg = message.ChangeInteractionClassSubscriptionMessage m
      in case getInteractionClass h (interactionClasses f) of
        None \<Rightarrow> Inl MessageError
      | Some i \<Rightarrow>
          (case change_subscription connectHandle subscriptionType parameterFilterValues
                  (interactionClasses f ! i) of
             None \<Rightarrow> Inl UndefinedBehaviour
           | Some (filterChanged, propagation, ic) \<Rightarrow>
               (let f' = f\<lparr>interactionClasses := updateCumulativeSubscription connectHandle i
                      ((interactionClasses f)[i := ic])\<rparr>;
                    metric = Metric connectHandle
                      (if subscriptionType = Unsubscribed
                       then interactionClassUnsubscribed (interactionClassHandle ic)
                       else interactionClassSubscribed (interactionClassHandle ic)
                              (subscriptionType = SubscribedActive));
                    publishers = send_set_except f' (publishedConnects ic) connectHandle msg
                in Inr (f', metric # (case propagation of
                     (PropagateBroadcast, _) \<Rightarrow> publishers
                   | (PropagateSend, d) \<Rightarrow> fed_send f' d msg
                   | (PropagateNone, _) \<Rightarrow> (if filterChanged then publishers else []))))))"

text \<open>
  Interactions. For each subscriber the loop walks up from the class of the message to the first
  class the subscriber has subscribed; a parent class gets the parameters it knows.
\<close>

fun nearest_subscribed ::
    "ConnectHandle \<Rightarrow> InteractionClass list \<Rightarrow> nat list \<Rightarrow> nat option" where
  "nearest_subscribed subscriber classes [] = None"
| "nearest_subscribed subscriber classes (k # ks) =
     (if getSubscriptionType subscriber (classes ! k) \<noteq> Unsubscribed then Some k
      else nearest_subscribed subscriber classes ks)"

definition deliver_interaction ::
    "Federation \<Rightarrow> nat \<Rightarrow> Interaction_Filter.ParameterValueVector \<Rightarrow> message
      \<Rightarrow> (InteractionClass \<Rightarrow> message) \<Rightarrow> ConnectHandle \<Rightarrow> effect list" where
  "deliver_interaction f i parameterValues msg restricted subscriber =
     (case nearest_subscribed subscriber (interactionClasses f)
             (class_path (class_parents (interactionClasses f)) i) of
        None \<Rightarrow> []
      | Some k \<Rightarrow>
          (let ic = interactionClasses f ! k;
               received = Metric subscriber (interactionReceived (interactionClassHandle ic))
           in if k = i then
                (if isMatching subscriber parameterValues (interactionFilters ic)
                 then fed_send f subscriber msg @ [received] else [])
              else fed_send f subscriber (restricted ic) @ [received]))"

definition route_interaction ::
    "Federation \<Rightarrow> ConnectHandle \<Rightarrow> nat \<Rightarrow> Interaction_Filter.ParameterValueVector \<Rightarrow> message
      \<Rightarrow> (InteractionClass \<Rightarrow> message) \<Rightarrow> effect list" where
  "route_interaction f connectHandle i parameterValues msg restricted =
     concat (map (\<lambda>subscriber. if subscriber = connectHandle then []
         else deliver_interaction f i parameterValues msg restricted subscriber)
       (sorted_list_of_fset (cumulativeSubscribedConnectHandleSet (interactionClasses f ! i))))"

definition known_parameters ::
    "InteractionClass \<Rightarrow> Wire_Types.ParameterValueVector \<Rightarrow> Wire_Types.ParameterValueVector" where
  "known_parameters ic = filter (\<lambda>v. getClassParameter (ParameterValue_parameterHandle v) ic)"

definition acceptInteractionMessage ::
    "ConnectHandle \<Rightarrow> InteractionMessage \<Rightarrow> Federation \<Rightarrow> handled" where
  "acceptInteractionMessage connectHandle m f =
     (case getInteractionClass (InteractionMessage_interactionClassHandle m) (interactionClasses f) of
        None \<Rightarrow> Inl MessageError
      | Some i \<Rightarrow> Inr (f,
          Metric connectHandle (interactionSent (interactionClassHandle (interactionClasses f ! i)))
          # route_interaction f connectHandle i (filter_pairs (InteractionMessage_parameterValues m))
              (message.InteractionMessage m)
              (\<lambda>ic. message.InteractionMessage
                 (m\<lparr>InteractionMessage_parameterValues :=
                      known_parameters ic (InteractionMessage_parameterValues m),
                    InteractionMessage_interactionClassHandle := interactionClassHandle ic\<rparr>))))"

definition acceptTimeStampedInteractionMessage ::
    "ConnectHandle \<Rightarrow> TimeStampedInteractionMessage \<Rightarrow> Federation \<Rightarrow> handled" where
  "acceptTimeStampedInteractionMessage connectHandle m f =
     (case getInteractionClass (TimeStampedInteractionMessage_interactionClassHandle m)
             (interactionClasses f) of
        None \<Rightarrow> Inl MessageError
      | Some i \<Rightarrow> Inr (f,
          route_interaction f connectHandle i
              (filter_pairs (TimeStampedInteractionMessage_parameterValues m))
              (message.TimeStampedInteractionMessage m)
              (\<lambda>ic. message.TimeStampedInteractionMessage
                 (m\<lparr>TimeStampedInteractionMessage_parameterValues :=
                      known_parameters ic (TimeStampedInteractionMessage_parameterValues m),
                    TimeStampedInteractionMessage_interactionClassHandle :=
                      interactionClassHandle ic\<rparr>))))"

section \<open>Reachable states\<close>

text \<open>
  A federation that starts with a tree of classes nobody has subscribed and then handles
  messages of these kinds from any of its connects.
\<close>

definition fresh_classes :: "InteractionClass list \<Rightarrow> bool" where
  "fresh_classes classes \<longleftrightarrow> classes_tree (class_parents classes) \<and>
     (\<forall>ic \<in> set classes. cumulativeSubscribedConnectHandleSet ic = {||} \<and>
        publishedConnects ic = {||} \<and> subscribedConnects ic = {||} \<and>
        activeSubscribedConnects ic = {||} \<and> interactionFilters ic = no_filters)"

inductive routing_history :: "Federation \<Rightarrow> effect list \<Rightarrow> bool" where
  start: "fresh_classes (interactionClasses f) \<Longrightarrow> routing_history f []"
| publication: "routing_history f tr \<Longrightarrow>
    acceptChangeInteractionClassPublication c m f = Inr (f', es) \<Longrightarrow> routing_history f' (tr @ es)"
| subscription: "routing_history f tr \<Longrightarrow>
    acceptChangeInteractionClassSubscription c m f = Inr (f', es) \<Longrightarrow> routing_history f' (tr @ es)"
| interaction: "routing_history f tr \<Longrightarrow>
    acceptInteractionMessage c im f = Inr (f', es) \<Longrightarrow> routing_history f' (tr @ es)"
| ts_interaction: "routing_history f tr \<Longrightarrow>
    acceptTimeStampedInteractionMessage c tm f = Inr (f', es) \<Longrightarrow> routing_history f' (tr @ es)"

lemma getInteractionClass_Some:
  "getInteractionClass h classes = Some i \<Longrightarrow> i < length classes \<and> interactionClassHandle (classes ! i) = h"
  unfolding getInteractionClass_def by (auto dest: first_index_Some)

lemma setPublicationType_class [simp]:
  "parentInteractionClass (snd (setPublicationType c t ic)) = parentInteractionClass ic"
  "subscribed_by d (snd (setPublicationType c t ic)) = subscribed_by d ic"
  "interactionFilters (snd (setPublicationType c t ic)) = interactionFilters ic"
  "interactionClassHandle (snd (setPublicationType c t ic)) = interactionClassHandle ic"
  by (simp_all add: setPublicationType_def subscribed_by_def getSubscriptionType_def case_prod_beta)

lemma setSubscriptionType_class [simp]:
  "parentInteractionClass (snd (setSubscriptionType c t ic)) = parentInteractionClass ic"
  "d \<noteq> c \<Longrightarrow> subscribed_by d (snd (setSubscriptionType c t ic)) = subscribed_by d ic"
  "interactionFilters (snd (setSubscriptionType c t ic)) = interactionFilters ic"
  "interactionClassHandle (snd (setSubscriptionType c t ic)) = interactionClassHandle ic"
  by (auto simp: setSubscriptionType_def subscribed_by_def getSubscriptionType_def case_prod_beta)

lemma set_filters_class [simp]:
  "subscribed_by d (ic\<lparr>interactionFilters := flt\<rparr>) = subscribed_by d ic"
  by (simp add: subscribed_by_def getSubscriptionType_def)

text \<open>A subscription message changes the subscription of its sender and the filters, nothing else.\<close>

lemma change_subscription_class:
  assumes "change_subscription c t pfv ic = Some (b, p, ic')"
  shows "parentInteractionClass ic' = parentInteractionClass ic"
    "cumulativeSubscribedConnectHandleSet ic' = cumulativeSubscribedConnectHandleSet ic"
    "publishedConnects ic' = publishedConnects ic"
    "activeSubscribedConnects ic' = activeSubscribedConnects ic"
    "interactionClassHandle ic' = interactionClassHandle ic"
    "d \<noteq> c \<Longrightarrow> subscribed_by d ic' = subscribed_by d ic"
proof -
  have "\<exists>flt. ic' = ic\<lparr>interactionFilters := flt\<rparr> \<or>
      ic' = snd (setSubscriptionType c t (ic\<lparr>interactionFilters := flt\<rparr>))"
    using assms by (auto simp: change_subscription_def Let_def split: if_splits option.splits prod.splits)
      (metis snd_conv)+
  then obtain flt where "ic' = ic\<lparr>interactionFilters := flt\<rparr> \<or>
      ic' = snd (setSubscriptionType c t (ic\<lparr>interactionFilters := flt\<rparr>))" ..
  then show "parentInteractionClass ic' = parentInteractionClass ic"
    "cumulativeSubscribedConnectHandleSet ic' = cumulativeSubscribedConnectHandleSet ic"
    "publishedConnects ic' = publishedConnects ic"
    "activeSubscribedConnects ic' = activeSubscribedConnects ic"
    "interactionClassHandle ic' = interactionClassHandle ic"
    "d \<noteq> c \<Longrightarrow> subscribed_by d ic' = subscribed_by d ic"
    by auto
qed

lemma cumulative_ok_update:
  assumes ok: "cumulative_ok classes" and i: "i < length classes"
    and "parentInteractionClass ic = parentInteractionClass (classes ! i)"
      "cumulativeSubscribedConnectHandleSet ic = cumulativeSubscribedConnectHandleSet (classes ! i)"
      "\<And>d. subscribed_by d ic = subscribed_by d (classes ! i)"
  shows "cumulative_ok (classes[i := ic])"
proof -
  have ps: "class_parents (classes[i := ic]) = class_parents classes" using assms by simp
  have "subscribed_above d (classes[i := ic]) j = subscribed_above d classes j" for d j
    using assms(5) i by (intro subscribed_above_cong ps) (auto simp: nth_list_update)
  then show ?thesis using assms ps by (simp add: cumulative_ok_def nth_list_update)
qed

lemma fresh_cumulative_ok: "fresh_classes classes \<Longrightarrow> cumulative_ok classes"
proof -
  assume fresh: "fresh_classes classes"
  have "\<not> subscribed_above c classes i" if "i < length classes" for c i
  proof
    assume "subscribed_above c classes i"
    then obtain k where "k \<le> i" "subscribed_by c (classes ! k)"
      using class_path_le by (auto simp: subscribed_above_def list_ex_iff)
    with that fresh show False
      by (auto simp: fresh_classes_def subscribed_by_def getSubscriptionType_def)
  qed
  then show ?thesis using fresh by (auto simp: cumulative_ok_def fresh_classes_def)
qed

lemma publication_classes:
  assumes "acceptChangeInteractionClassPublication c m f = Inr (f', es)"
  obtains "interactionClasses f' = interactionClasses f"
  | i where "i < length (interactionClasses f)" "interactionClasses f' = (interactionClasses f)[i :=
      snd (setPublicationType c (ChangeInteractionClassPublicationMessage_publicationType m)
        (interactionClasses f ! i))]"
proof (cases "getInteractionClass (ChangeInteractionClassPublicationMessage_interactionClassHandle m)
    (interactionClasses f)")
  case None
  then show ?thesis using assms that(1) by (simp add: acceptChangeInteractionClassPublication_def)
next
  case (Some i)
  obtain p ic where ic: "setPublicationType c (ChangeInteractionClassPublicationMessage_publicationType m)
      (interactionClasses f ! i) = (p, ic)" by fastforce
  then have "f' = set_class i ic f"
    using assms Some by (simp add: acceptChangeInteractionClassPublication_def Let_def
        split: if_split_asm option.split_asm)
  then show ?thesis using that(2)[of i] getInteractionClass_Some[OF Some] ic
    by (simp add: set_class_def)
qed

lemma subscription_classes:
  assumes "acceptChangeInteractionClassSubscription c m f = Inr (f', es)"
  obtains i b p ic where
    "getInteractionClass (ChangeInteractionClassSubscriptionMessage_interactionClassHandle m)
      (interactionClasses f) = Some i"
    "i < length (interactionClasses f)"
    "change_subscription c (ChangeInteractionClassSubscriptionMessage_subscriptionType m)
      (filter_pairs (ChangeInteractionClassSubscriptionMessage_parameterFilterValues m))
      (interactionClasses f ! i) = Some (b, p, ic)"
    "interactionClasses f' = updateCumulativeSubscription c i ((interactionClasses f)[i := ic])"
proof (cases "getInteractionClass (ChangeInteractionClassSubscriptionMessage_interactionClassHandle m)
    (interactionClasses f)")
  case None
  then show ?thesis using assms by (simp add: acceptChangeInteractionClassSubscription_def)
next
  case (Some i)
  let ?r = "change_subscription c (ChangeInteractionClassSubscriptionMessage_subscriptionType m)
      (filter_pairs (ChangeInteractionClassSubscriptionMessage_parameterFilterValues m))
      (interactionClasses f ! i)"
  show ?thesis
  proof (cases ?r)
    case None
    then show ?thesis using assms Some by (simp add: acceptChangeInteractionClassSubscription_def)
  next
    case (Some r)
    obtain b p ic where r: "r = (b, p, ic)" by (cases r)
    then have "f' = f\<lparr>interactionClasses :=
        updateCumulativeSubscription c i ((interactionClasses f)[i := ic])\<rparr>"
      using assms \<open>getInteractionClass _ _ = Some i\<close> Some
      by (simp add: acceptChangeInteractionClassSubscription_def Let_def)
    then show ?thesis using that[OF \<open>getInteractionClass _ _ = Some i\<close>]
        getInteractionClass_Some[OF \<open>getInteractionClass _ _ = Some i\<close>] Some r by simp
  qed
qed

lemma interaction_state:
  "acceptInteractionMessage c im f = Inr (f', es) \<Longrightarrow> f' = f"
  "acceptTimeStampedInteractionMessage c tm f = Inr (f', es) \<Longrightarrow> f' = f"
  by (auto simp: acceptInteractionMessage_def acceptTimeStampedInteractionMessage_def
      split: option.splits)

lemma routing_cumulative_ok: "routing_history f tr \<Longrightarrow> cumulative_ok (interactionClasses f)"
proof (induction rule: routing_history.induct)
  case (publication f tr c m f' es)
  from publication(2) show ?case
    by (rule publication_classes) (use publication.IH cumulative_ok_update in auto)
next
  case (subscription f tr c m f' es)
  from subscription(2) obtain i b p ic where
    "getInteractionClass (ChangeInteractionClassSubscriptionMessage_interactionClassHandle m)
      (interactionClasses f) = Some i"
    "i < length (interactionClasses f)"
    "change_subscription c (ChangeInteractionClassSubscriptionMessage_subscriptionType m)
      (filter_pairs (ChangeInteractionClassSubscriptionMessage_parameterFilterValues m))
      (interactionClasses f ! i) = Some (b, p, ic)"
    "interactionClasses f' = updateCumulativeSubscription c i ((interactionClasses f)[i := ic])"
    by (rule subscription_classes)
  then show ?case
    using updateCumulativeSubscription_ok[OF subscription.IH] change_subscription_class by metis
qed (auto simp: fresh_cumulative_ok dest: interaction_state)

section \<open>Where interactions go\<close>

text \<open>
  What a connect is to get for a message of class \<open>i\<close>, from its own subscriptions and filters
  alone: nothing, the message itself, or the part of it that the nearest subscribed ancestor knows.
\<close>

definition interaction_for ::
    "ConnectHandle \<Rightarrow> InteractionClass list \<Rightarrow> nat \<Rightarrow> Interaction_Filter.ParameterValueVector
      \<Rightarrow> message \<Rightarrow> (InteractionClass \<Rightarrow> message) \<Rightarrow> message list" where
  "interaction_for d classes i parameterValues msg restricted =
     (case filter (\<lambda>k. subscribed_by d (classes ! k)) (class_path (class_parents classes) i) of
        [] \<Rightarrow> []
      | k # _ \<Rightarrow>
          (if k \<noteq> i then [restricted (classes ! k)]
           else if isMatching d parameterValues (interactionFilters (classes ! i)) then [msg] else []))"

lemma nearest_subscribed_filter:
  "nearest_subscribed d classes ks =
     (case filter (\<lambda>k. subscribed_by d (classes ! k)) ks of [] \<Rightarrow> None | k # _ \<Rightarrow> Some k)"
  by (induction ks) (auto simp: subscribed_by_def)

lemma sent_to_deliver:
  "sent_to c (deliver_interaction f i pv msg restricted d) =
     (if c = d \<and> reachable f c
      then interaction_for d (interactionClasses f) i pv msg restricted else [])"
  by (auto simp: deliver_interaction_def interaction_for_def nearest_subscribed_filter Let_def
      split: list.split)

lemma route_interaction_exact:
  assumes ok: "cumulative_ok (interactionClasses f)" and i: "i < length (interactionClasses f)"
  shows "sent_to d (route_interaction f c i pv msg restricted) =
    (if d \<noteq> c \<and> reachable f d
     then interaction_for d (interactionClasses f) i pv msg restricted else [])"
proof -
  let ?S = "cumulativeSubscribedConnectHandleSet (interactionClasses f ! i)"
  let ?g = "\<lambda>s. if s = c then [] else deliver_interaction f i pv msg restricted s"
  have "sent_to d (concat (map ?g (sorted_list_of_fset ?S))) = (if d |\<in>| ?S then sent_to d (?g d) else [])"
    by (subst sent_to_concat_distinct) (auto simp: sent_to_deliver sorted_list_of_fset.rep_eq)
  moreover have "interaction_for d (interactionClasses f) i pv msg restricted = []" if "d |\<notin>| ?S"
  proof -
    have "\<not> subscribed_above d (interactionClasses f) i"
      using ok i that by (simp add: cumulative_ok_def)
    then show ?thesis
      by (auto simp: interaction_for_def subscribed_above_def list_ex_iff filter_empty_conv
          split: list.split dest: Cons_eq_filterD)
  qed
  ultimately show ?thesis by (auto simp: route_interaction_def sent_to_deliver)
qed

section \<open>Publishers know of subscribers\<close>

text \<open>Histories without parameter filters in which all connects in \<open>U\<close> stay reachable.\<close>

inductive subscription_history :: "ConnectHandle set \<Rightarrow> Federation \<Rightarrow> effect list \<Rightarrow> bool"
  for U :: "ConnectHandle set" where
  start: "fresh_classes (interactionClasses f) \<Longrightarrow>
    distinct (map interactionClassHandle (interactionClasses f)) \<Longrightarrow>
    (\<forall>c \<in> U. reachable f c) \<Longrightarrow> subscription_history U f []"
| publication: "subscription_history U f tr \<Longrightarrow> c \<in> U \<Longrightarrow>
    acceptChangeInteractionClassPublication c m f = Inr (f', es) \<Longrightarrow>
    subscription_history U f' (tr @ es)"
| subscription: "subscription_history U f tr \<Longrightarrow> c \<in> U \<Longrightarrow>
    ChangeInteractionClassSubscriptionMessage_parameterFilterValues m = [] \<Longrightarrow>
    acceptChangeInteractionClassSubscription c m f = Inr (f', es) \<Longrightarrow>
    subscription_history U f' (tr @ es)"

text \<open>The last subscription message about a class says that somebody is interested.\<close>

fun hear :: "InteractionClassHandle \<Rightarrow> message \<Rightarrow> bool \<Rightarrow> bool" where
  "hear h (message.ChangeInteractionClassSubscriptionMessage m) b =
     (if ChangeInteractionClassSubscriptionMessage_interactionClassHandle m = h
      then ChangeInteractionClassSubscriptionMessage_subscriptionType m \<noteq> Unsubscribed else b)"
| "hear h _ b = b"

definition heard :: "InteractionClassHandle \<Rightarrow> message list \<Rightarrow> bool" where
  "heard h ms = fold (hear h) ms False"

lemma heard_simps [simp]: "heard h (ms @ ms') = fold (hear h) ms' (heard h ms)" "\<not> heard h []"
  by (simp_all add: heard_def)

definition unfiltered_class :: "ConnectHandle set \<Rightarrow> InteractionClass \<Rightarrow> bool" where
  [inv_defs]: "unfiltered_class U ic \<longleftrightarrow> parameterFiltersByConnect (interactionFilters ic) = Map.empty \<and>
     activeSubscribedConnects ic = {||} \<and> fset (publishedConnects ic) \<subseteq> U \<and>
     fset (subscribedConnects ic) \<subseteq> U"

definition publishers_told :: "ConnectHandle set \<Rightarrow> Federation \<Rightarrow> effect list \<Rightarrow> bool" where
  [inv_defs]: "publishers_told U f tr \<longleftrightarrow>
     distinct (map interactionClassHandle (interactionClasses f)) \<and>
     cumulative_ok (interactionClasses f) \<and> (\<forall>c \<in> U. reachable f c) \<and>
     (\<forall>ic \<in> set (interactionClasses f). unfiltered_class U ic \<and>
        (\<forall>x. x |\<in>| publishedConnects ic \<longrightarrow> others_in x (fset (subscribedConnects ic)) \<longrightarrow>
             heard (interactionClassHandle ic) (sent_to x tr)))"

text \<open>What matters of a class here; the cumulative subscriptions do not.\<close>

definition class_view :: "InteractionClass \<Rightarrow> InteractionClass" where
  "class_view ic = ic\<lparr>cumulativeSubscribedConnectHandleSet := {||}\<rparr>"

lemma class_view_settled [simp]: "class_view (settled c b ic) = class_view ic"
  by (simp add: class_view_def settled_def)

lemma class_view_fields:
  "publishedConnects (class_view ic) = publishedConnects ic"
  "subscribedConnects (class_view ic) = subscribedConnects ic"
  "interactionClassHandle (class_view ic) = interactionClassHandle ic"
  "unfiltered_class U (class_view ic) = unfiltered_class U ic"
  by (simp_all add: class_view_def unfiltered_class_def)

lemma class_view_eqD:
  assumes "class_view ic = class_view ic'"
  shows "unfiltered_class U ic = unfiltered_class U ic'"
    "publishedConnects ic = publishedConnects ic'" "subscribedConnects ic = subscribedConnects ic'"
    "interactionClassHandle ic = interactionClassHandle ic'"
  using class_view_fields[where ic = ic] class_view_fields[where ic = ic'] unfolding assms by simp_all

text \<open>
  One step of the invariant: class \<open>i\<close> becomes \<open>ic\<close>, the messages are about its handle only.
\<close>

lemma publishers_told_step:
  assumes inv: "publishers_told U f tr" and i: "i < length (interactionClasses f)"
    and views: "map class_view (interactionClasses f') = map class_view ((interactionClasses f)[i := ic])"
    and ic: "interactionClassHandle ic = interactionClassHandle (interactionClasses f ! i)"
      "unfiltered_class U ic"
    and ok: "cumulative_ok (interactionClasses f')" "\<forall>c \<in> U. reachable f' c"
    and others: "\<And>h x b. h \<noteq> interactionClassHandle ic \<Longrightarrow> fold (hear h) (sent_to x es) b = b"
    and told: "\<And>x. x |\<in>| publishedConnects ic \<Longrightarrow> others_in x (fset (subscribedConnects ic)) \<Longrightarrow>
      fold (hear (interactionClassHandle ic)) (sent_to x es) (heard (interactionClassHandle ic) (sent_to x tr))"
  shows "publishers_told U f' (tr @ es)"
proof -
  let ?cs = "interactionClasses f" and ?cs' = "interactionClasses f'"
  have len: "length ?cs' = length ?cs" using views by (metis length_list_update length_map)
  have view: "class_view (?cs' ! j) = class_view (if j = i then ic else ?cs ! j)" if "j < length ?cs" for j
  proof -
    have "map class_view ?cs' ! j = map class_view (?cs[i := ic]) ! j" by (simp only: views)
    then show ?thesis using that len by (cases "j = i") simp_all
  qed
  note eq = class_view_eqD[OF view]
  have handles: "map interactionClassHandle ?cs' = map interactionClassHandle ?cs"
  proof (rule nth_equalityI)
    fix j assume "j < length (map interactionClassHandle ?cs')"
    then have j: "j < length ?cs" using len by simp
    then show "map interactionClassHandle ?cs' ! j = map interactionClassHandle ?cs ! j"
      using eq(4)[OF j] ic(1) len by (cases "j = i") simp_all
  qed (simp add: len)
  have distinct: "distinct (map interactionClassHandle ?cs)" using inv by (simp add: publishers_told_def)
  have "unfiltered_class U (?cs' ! j) \<and> (\<forall>x. x |\<in>| publishedConnects (?cs' ! j) \<longrightarrow>
      others_in x (fset (subscribedConnects (?cs' ! j))) \<longrightarrow>
      heard (interactionClassHandle (?cs' ! j)) (sent_to x (tr @ es)))" if j: "j < length ?cs" for j
  proof (cases "j = i")
    case True
    then show ?thesis using eq[OF j] ic(2) told by simp
  next
    case False
    then have "interactionClassHandle (?cs ! j) \<noteq> interactionClassHandle ic"
      using distinct i j ic(1) by (auto simp: distinct_conv_nth)
    then show ?thesis using eq[OF j] False others inv j by (simp add: publishers_told_def)
  qed
  then show ?thesis using ok distinct handles len by (auto simp: publishers_told_def in_set_conv_nth)
qed

lemma fold_hear_other:
  assumes "\<forall>m \<in> set ms. \<forall>b. hear h m b = b" shows "fold (hear h) ms b = b"
  using assms by (induction ms) auto

lemma publication_response_unfiltered:
  assumes "unfiltered_class U ic"
  shows "publication_response f c ic =
    Some (if others_in c (fset (subscribedConnects ic))
          then [subscription_message f ic SubscribedPassive []] else [])"
  using assms by (simp add: publication_response_def getSubscriptionTypeToConnect_def
      containsMoreThan_iff unfiltered_class_def hasFilterSubscriptions_any_def)

lemma propagated_publication:
  "fold (hear h) (sent_to x (case p of
      (PropagateBroadcast, _) \<Rightarrow> broadcast_except f c (message.ChangeInteractionClassPublicationMessage m)
    | (PropagateSend, d) \<Rightarrow> fed_send f d (message.ChangeInteractionClassPublicationMessage m)
    | (PropagateNone, _) \<Rightarrow> [])) b = b"
proof -
  let ?m = "message.ChangeInteractionClassPublicationMessage m"
  have "set (sent_to x (case p of (PropagateBroadcast, _) \<Rightarrow> broadcast_except f c ?m
      | (PropagateSend, d) \<Rightarrow> fed_send f d ?m | (PropagateNone, _) \<Rightarrow> [])) \<subseteq> {?m}"
    using sent_to_broadcast_sub[of x f c ?m]
    by (cases p; cases "fst p") auto
  then show ?thesis by (intro fold_hear_other) auto
qed

lemma publication_told:
  assumes inv: "publishers_told U f tr" and c: "c \<in> U"
    and acc: "acceptChangeInteractionClassPublication c m f = Inr (f', es)"
  shows "publishers_told U f' (tr @ es)"
proof (cases "getInteractionClass (ChangeInteractionClassPublicationMessage_interactionClassHandle m)
    (interactionClasses f)")
  case None
  then have "f' = f" "es = []" using acc by (simp_all add: acceptChangeInteractionClassPublication_def)
  then show ?thesis using inv by simp
next
  case (Some i)
  let ?t = "ChangeInteractionClassPublicationMessage_publicationType m"
  let ?cs = "interactionClasses f"
  have i: "i < length ?cs" using getInteractionClass_Some[OF Some] by simp
  obtain p ic where pic: "setPublicationType c ?t (?cs ! i) = (p, ic)" by fastforce
  then have ic: "ic = snd (setPublicationType c ?t (?cs ! i))" by simp
  have old: "unfiltered_class U (?cs ! i)"
    and known: "\<And>x. x |\<in>| publishedConnects (?cs ! i) \<Longrightarrow> others_in x (fset (subscribedConnects (?cs ! i)))
      \<Longrightarrow> heard (interactionClassHandle (?cs ! i)) (sent_to x tr)"
    using inv i by (auto simp: publishers_told_def)
  have handle: "interactionClassHandle ic = interactionClassHandle (?cs ! i)"
    and subs: "subscribedConnects ic = subscribedConnects (?cs ! i)" by (simp_all add: ic)
  have pub: "fset (publishedConnects ic) = (if ?t = Published then insert c (fset (publishedConnects (?cs ! i)))
      else fset (publishedConnects (?cs ! i)) - {c})" by (simp add: ic)
  have new: "unfiltered_class U ic" using old c pub by (auto simp: unfiltered_class_def ic split: if_splits)
  let ?f = "set_class i ic f"
  let ?answer = "if ?t = Published \<and> others_in c (fset (subscribedConnects ic))
    then [subscription_message ?f ic SubscribedPassive []] else []"
  define propagated where "propagated = (case p of
      (PropagateBroadcast, _) \<Rightarrow> broadcast_except ?f c (message.ChangeInteractionClassPublicationMessage m)
    | (PropagateSend, d) \<Rightarrow> fed_send ?f d (message.ChangeInteractionClassPublicationMessage m)
    | (PropagateNone, _) \<Rightarrow> [])"
  obtain metric where f': "f' = ?f" and es: "es = Metric c metric # propagated @
      concat (map (fed_send ?f c) ?answer)"
    using acc Some pic publication_response_unfiltered[OF new, of ?f c]
    by (auto simp: acceptChangeInteractionClassPublication_def Let_def propagated_def split: if_splits)
  have quiet: "fold (hear h) (sent_to x propagated) b = b" for h x b
    unfolding propagated_def by (rule propagated_publication)
  have reach: "\<forall>c \<in> U. reachable f' c" using inv
    by (simp add: publishers_told_def f' set_class_def reachable_def)
  show ?thesis
  proof (rule publishers_told_step[OF inv i _ handle new _ reach])
    show "map class_view (interactionClasses f') = map class_view (?cs[i := ic])"
      by (simp add: f' set_class_def)
    show "cumulative_ok (interactionClasses f')"
      using inv i cumulative_ok_update[of ?cs i ic]
      by (simp add: f' set_class_def ic publishers_told_def)
    show "fold (hear h) (sent_to x es) b = b" if "h \<noteq> interactionClassHandle ic" for h x b
      using that quiet by (simp add: es subscription_message_def)
    show "fold (hear (interactionClassHandle ic)) (sent_to x es)
        (heard (interactionClassHandle ic) (sent_to x tr))"
      if "x |\<in>| publishedConnects ic" "others_in x (fset (subscribedConnects ic))" for x
    proof (cases "x = c \<and> ?t = Published")
      case True
      then show ?thesis using that(2) reach f' c quiet by (simp add: es subscription_message_def)
    next
      case False
      then have "x |\<in>| publishedConnects (?cs ! i)" using that(1) pub by (auto split: if_splits)
      then have "heard (interactionClassHandle ic) (sent_to x tr)" using known that(2) handle subs by simp
      then show ?thesis using quiet by (simp add: es subscription_message_def)
    qed
  qed
qed

lemma change_subscription_unfiltered:
  assumes "unfiltered_class U ic"
  shows "change_subscription c t [] ic = Some (False, setSubscriptionType c t ic)"
proof -
  have "parameterFiltersByConnect (interactionFilters ic) c = None"
    using assms by (simp add: unfiltered_class_def)
  then show ?thesis
    by (simp add: change_subscription_def clearParameterFilters_def changed_filters_def
        getParameterFilters_def Let_def)
qed

lemma sent_to_propagated:
  assumes "x |\<in>| P" "x \<in> U" "reachable f x"
  shows "sent_to x (case p of
      (PropagateBroadcast, _) \<Rightarrow> send_set_except f P c m
    | (PropagateSend, d) \<Rightarrow> fed_send f d m
    | (PropagateNone, _) \<Rightarrow> []) = (if x \<in> recipients c U p then [m] else [])"
  using assms by (cases p; cases "fst p") (auto simp: sent_to_send_set_except)

lemma fold_hear_propagated:
  assumes "\<And>b. hear h m b = b"
  shows "fold (hear h) (sent_to x (case p of
      (PropagateBroadcast, _) \<Rightarrow> send_set_except f P c m
    | (PropagateSend, d) \<Rightarrow> fed_send f d m
    | (PropagateNone, _) \<Rightarrow> [])) b = b"
  using assms by (cases p; cases "fst p") (auto simp: sent_to_send_set_except)

lemma subscription_told:
  assumes inv: "publishers_told U f tr" and c: "c \<in> U"
    and pfv: "ChangeInteractionClassSubscriptionMessage_parameterFilterValues m = []"
    and acc: "acceptChangeInteractionClassSubscription c m f = Inr (f', es)"
  shows "publishers_told U f' (tr @ es)"
proof -
  let ?t = "ChangeInteractionClassSubscriptionMessage_subscriptionType m"
  let ?cs = "interactionClasses f" and ?m = "message.ChangeInteractionClassSubscriptionMessage m"
  from acc obtain i b p ic where
    get: "getInteractionClass (ChangeInteractionClassSubscriptionMessage_interactionClassHandle m) ?cs = Some i"
    and i: "i < length ?cs" and chg: "change_subscription c ?t
      (filter_pairs (ChangeInteractionClassSubscriptionMessage_parameterFilterValues m)) (?cs ! i) = Some (b, p, ic)"
    and cs': "interactionClasses f' = updateCumulativeSubscription c i (?cs[i := ic])"
    by (rule subscription_classes)
  have old: "unfiltered_class U (?cs ! i)"
    and known: "\<forall>x \<in> fset (publishedConnects (?cs ! i)). others_in x (fset (subscribedConnects (?cs ! i)))
      \<longrightarrow> heard (interactionClassHandle (?cs ! i)) (sent_to x tr)"
    and ok: "cumulative_ok ?cs"
    using inv i by (auto simp: publishers_told_def)
  have b: "b = False" and change: "change_subscribed c (?t \<noteq> Unsubscribed) (?cs ! i) = (p, ic)"
    using chg change_subscription_unfiltered[OF old]
    by (auto simp: pfv filter_pairs_def setSubscriptionType_active)
  note kept = change_subscription_class[OF chg]
  have subs: "fset (subscribedConnects ic) = (if ?t \<noteq> Unsubscribed
      then insert c (fset (subscribedConnects (?cs ! i))) else fset (subscribedConnects (?cs ! i)) - {c})"
    using subscribed.members_change[of c "?t \<noteq> Unsubscribed" "?cs ! i"] by (simp add: change)
  have flt: "interactionFilters ic = interactionFilters (?cs ! i)"
    using setSubscriptionType_class(3)[of c ?t "?cs ! i"] by (simp add: setSubscriptionType_active change)
  have new: "unfiltered_class U ic"
    using old c subs kept(3,4) flt by (auto simp: unfiltered_class_def split: if_splits)
  have fields: "federationConnects f' = federationConnects f"
    and es: "\<exists>metric. es = Metric c metric # (case p of
         (PropagateBroadcast, _) \<Rightarrow> send_set_except f' (publishedConnects ic) c ?m
       | (PropagateSend, d) \<Rightarrow> fed_send f' d ?m
       | (PropagateNone, _) \<Rightarrow> [])"
    using acc get chg b by (auto simp: acceptChangeInteractionClassSubscription_def Let_def)
  then obtain metric where es: "es = Metric c metric # (case p of
         (PropagateBroadcast, _) \<Rightarrow> send_set_except f' (publishedConnects ic) c ?m
       | (PropagateSend, d) \<Rightarrow> fed_send f' d ?m
       | (PropagateNone, _) \<Rightarrow> [])" by blast
  have reach: "\<forall>c \<in> U. reachable f' c" using inv fields by (simp add: publishers_told_def reachable_def)
  have handle: "interactionClassHandle ic = interactionClassHandle (?cs ! i)" by (rule kept(5))
  have hm: "ChangeInteractionClassSubscriptionMessage_interactionClassHandle m = interactionClassHandle ic"
    using getInteractionClass_Some[OF get] handle by simp
  show ?thesis
  proof (rule publishers_told_step[OF inv i _ handle new _ reach])
    show "map class_view (interactionClasses f') = map class_view (?cs[i := ic])"
      unfolding cs' updateCumulativeSubscription_settles[OF ok i kept(1,2)]
      by (rule nth_equalityI) (auto simp: settle_subtree_nth)
    show "cumulative_ok (interactionClasses f')"
      unfolding cs' by (rule updateCumulativeSubscription_ok[OF ok i kept(1,2)]) (rule kept(6))
    show "fold (hear h) (sent_to x es) b = b" if "h \<noteq> interactionClassHandle ic" for h x b
      using that hm by (simp add: es fold_hear_propagated)
    show "fold (hear (interactionClassHandle ic)) (sent_to x es)
        (heard (interactionClassHandle ic) (sent_to x tr))"
      if pub: "x |\<in>| publishedConnects ic" and others: "others_in x (fset (subscribedConnects ic))" for x
    proof -
      have xU: "x \<in> U" using pub new by (auto simp: unfiltered_class_def)
      have "sent_to x es = (if x \<in> recipients c U p then [?m] else [])"
        using sent_to_propagated[OF pub xU] reach xU by (simp add: es)
      moreover have "if x \<in> recipients c U p then ?t \<noteq> Unsubscribed
          else heard (interactionClassHandle ic) (sent_to x tr)"
        using subscribed.subscription_changes[of "?cs ! i" U "fset (publishedConnects ic)" "\<lambda>x. heard (interactionClassHandle ic) (sent_to x tr)"
            c "?t \<noteq> Unsubscribed"] known pub others kept(3) old handle
        by (auto simp: change unfiltered_class_def)
      ultimately show ?thesis using hm by (auto split: if_splits)
    qed
  qed
qed

lemma subscription_history_told: "subscription_history U f tr \<Longrightarrow> publishers_told U f tr"
proof (induction rule: subscription_history.induct)
  case (start f)
  then show ?case by (auto simp: publishers_told_def fresh_cumulative_ok fresh_classes_def
      unfiltered_class_def no_filters_def)
qed (auto intro: publication_told subscription_told)

lemma publisher_told:
  assumes "subscription_history U f tr" "ic \<in> set (interactionClasses f)"
    and "x |\<in>| publishedConnects ic" "y |\<in>| subscribedConnects ic" "y \<noteq> x"
  shows "heard (interactionClassHandle ic) (sent_to x tr)"
  using subscription_history_told[OF assms(1)] assms(2-) by (auto simp: publishers_told_def others_in_def)

section \<open>Properties\<close>

text \<open>
  C2: In every state that the handlers of publications, subscriptions and interactions reach
  from a tree of classes without subscriptions, an interaction and a time stamped interaction of
  a known class are handled without an error and change nothing, and each connect is sent exactly
  what its own subscriptions and filters ask for: nothing if it is the sender, not reachable, or
  has not subscribed the class or an ancestor. If it has subscribed the class itself, it is sent the
  message when its filters match and nothing when they do not, whatever ancestors it has subscribed. If it
  has subscribed ancestors only, it is sent one message, of the nearest of them, with the parameters
  that this class knows.
\<close>

theorem interactions_reach_exactly_subscribers:
  assumes hist: "routing_history f tr"
    and i: "getInteractionClass (InteractionMessage_interactionClassHandle im) (interactionClasses f) = Some i"
      "getInteractionClass (TimeStampedInteractionMessage_interactionClassHandle tm) (interactionClasses f) = Some i"
  shows "\<exists>es ts. acceptInteractionMessage c im f = Inr (f, es) \<and>
    acceptTimeStampedInteractionMessage c tm f = Inr (f, ts) \<and>
    sent_to d es = (if d \<noteq> c \<and> reachable f d
      then interaction_for d (interactionClasses f) i (filter_pairs (InteractionMessage_parameterValues im))
        (message.InteractionMessage im)
        (\<lambda>ic. message.InteractionMessage (im\<lparr>
           InteractionMessage_parameterValues := known_parameters ic (InteractionMessage_parameterValues im),
           InteractionMessage_interactionClassHandle := interactionClassHandle ic\<rparr>))
      else []) \<and>
    sent_to d ts = (if d \<noteq> c \<and> reachable f d
      then interaction_for d (interactionClasses f) i (filter_pairs (TimeStampedInteractionMessage_parameterValues tm))
        (message.TimeStampedInteractionMessage tm)
        (\<lambda>ic. message.TimeStampedInteractionMessage (tm\<lparr>
           TimeStampedInteractionMessage_parameterValues :=
             known_parameters ic (TimeStampedInteractionMessage_parameterValues tm),
           TimeStampedInteractionMessage_interactionClassHandle := interactionClassHandle ic\<rparr>))
      else [])"
  using route_interaction_exact[OF routing_cumulative_ok[OF hist]] getInteractionClass_Some[OF i(1)] i
  by (simp add: acceptInteractionMessage_def acceptTimeStampedInteractionMessage_def)

text \<open>A node with three connects and two classes; connect 2 subscribes the parent, 3 the child.\<close>

definition example_class :: "InteractionClassHandle \<Rightarrow> nat option \<Rightarrow> ParameterHandle list \<Rightarrow> InteractionClass" where
  "example_class h p ps = \<lparr>cumulativeSubscribedConnectHandleSet = {||}, publishedConnects = {||},
     subscribedConnects = {||}, activeSubscribedConnects = {||}, interactionClassHandle = h,
     parentInteractionClass = p, parameterHandleClassParameterMap = ps, interactionFilters = no_filters\<rparr>"

definition example_connect :: FederationConnect where
  "example_connect = \<lparr>nodeConnect = \<lparr>isParentConnect = False, messageSender = True\<rparr>, active = True,
     federateList = [], timeRegulatingFederateList = [], timeConstrainedFederateList = []\<rparr>"

definition example_federation :: Federation where
  "example_federation = \<lparr>federationHandle = 0, parentConnect = None,
     federationConnects = [(1, example_connect), (2, example_connect), (3, example_connect)],
     federates = [], federateHandleAllocator = new_allocator, timeRegulatingConnects = [],
     timeConstrainedConnects = [], synchronizations = [],
     interactionClasses = [example_class 10 None [5], example_class 11 (Some 0) [5, 6]]\<rparr>"

definition example_subscribe ::
    "InteractionClassHandle \<Rightarrow> SubscriptionType \<Rightarrow> ChangeInteractionClassSubscriptionMessage" where
  "example_subscribe h t = \<lparr>ChangeInteractionClassSubscriptionMessage_federationHandle = 0,
     ChangeInteractionClassSubscriptionMessage_subscriptionType = t,
     ChangeInteractionClassSubscriptionMessage_interactionClassHandle = h,
     ChangeInteractionClassSubscriptionMessage_parameterFilterValues = []\<rparr>"

definition example_interaction :: InteractionMessage where
  "example_interaction = \<lparr>InteractionMessage_federationHandle = 0, InteractionMessage_federateHandle = 7,
     InteractionMessage_interactionClassHandle = 11, InteractionMessage_transportationType = RELIABLE,
     InteractionMessage_tag = [], InteractionMessage_parameterValues =
       [\<lparr>ParameterValue_parameterHandle = 5, ParameterValue_value = [1]\<rparr>,
        \<lparr>ParameterValue_parameterHandle = 6, ParameterValue_value = [2]\<rparr>]\<rparr>"

definition example_ts_interaction :: TimeStampedInteractionMessage where
  "example_ts_interaction = \<lparr>TimeStampedInteractionMessage_federationHandle = 0,
     TimeStampedInteractionMessage_federateHandle = 7,
     TimeStampedInteractionMessage_interactionClassHandle = 11,
     TimeStampedInteractionMessage_orderType = TIMESTAMP,
     TimeStampedInteractionMessage_transportationType = RELIABLE,
     TimeStampedInteractionMessage_tag = [], TimeStampedInteractionMessage_timeStamp = [0],
     TimeStampedInteractionMessage_messageRetractionHandle = 0,
     TimeStampedInteractionMessage_parameterValues = []\<rparr>"

definition example_subscribed :: Federation where
  "example_subscribed = example_federation\<lparr>interactionClasses :=
      [(example_class 10 None [5])\<lparr>subscribedConnects := {|2|}, cumulativeSubscribedConnectHandleSet := {|2|}\<rparr>,
       (example_class 11 (Some 0) [5, 6])\<lparr>cumulativeSubscribedConnectHandleSet := {|2|}\<rparr>]\<rparr>"

definition example_subscribed2 :: Federation where
  "example_subscribed2 = example_federation\<lparr>interactionClasses :=
      [(example_class 10 None [5])\<lparr>subscribedConnects := {|2|}, cumulativeSubscribedConnectHandleSet := {|2|}\<rparr>,
       (example_class 11 (Some 0) [5, 6])\<lparr>subscribedConnects := {|3|},
          cumulativeSubscribedConnectHandleSet := {|3, 2|}\<rparr>]\<rparr>"

lemmas example_defs = example_federation_def example_class_def example_subscribe_def no_filters_def
  example_subscribed_def example_subscribed2_def

lemmas subscription_defs = acceptChangeInteractionClassSubscription_def getInteractionClass_def
  change_subscription_def changed_filters_def getParameterFilters_def filter_pairs_def
  setSubscriptionType_def broadcast_set_insert_def updateCumulativeSubscription_def
  update_cumulative.simps updateCumulativeSubscribedConnectHandleSet_def getSubscriptionType_def
  class_parents_def childInteractionClassList_def send_set_except_def sorted_list_of_fset.rep_eq

lemma example_steps:
  "acceptChangeInteractionClassSubscription 2 (example_subscribe 10 SubscribedPassive)
     example_federation = Inr (example_subscribed, [Metric 2 (interactionClassSubscribed 10 False)])"
  "acceptChangeInteractionClassSubscription 3 (example_subscribe 11 SubscribedActive)
     example_subscribed = Inr (example_subscribed2, [Metric 3 (interactionClassSubscribed 11 True)])"
  by (simp_all add: example_defs subscription_defs)

lemma example_history:
  "routing_history example_subscribed2
     [Metric 2 (interactionClassSubscribed 10 False), Metric 3 (interactionClassSubscribed 11 True)]"
proof -
  have "fresh_classes (interactionClasses example_federation)"
    by (auto simp: fresh_classes_def example_defs classes_tree_def class_parents_def less_Suc_eq)
  from routing_history.subscription[OF routing_history.subscription[OF
    routing_history.start[OF this] example_steps(1)] example_steps(2)] show ?thesis by simp
qed

theorem interactions_reach_exactly_subscribers_witness:
  "\<exists>es. acceptInteractionMessage 1 example_interaction example_subscribed2 = Inr (example_subscribed2, es) \<and>
     sent_to 2 es = [message.InteractionMessage (example_interaction\<lparr>
       InteractionMessage_parameterValues := [\<lparr>ParameterValue_parameterHandle = 5, ParameterValue_value = [1]\<rparr>],
       InteractionMessage_interactionClassHandle := 10\<rparr>)] \<and>
     sent_to 3 es = [message.InteractionMessage example_interaction] \<and> sent_to 1 es = []"
proof -
  have i: "getInteractionClass (InteractionMessage_interactionClassHandle example_interaction)
      (interactionClasses example_subscribed2) = Some 1"
    "getInteractionClass (TimeStampedInteractionMessage_interactionClassHandle example_ts_interaction)
      (interactionClasses example_subscribed2) = Some 1"
    by (simp_all add: getInteractionClass_def example_defs example_interaction_def example_ts_interaction_def)
  note reach = interactions_reach_exactly_subscribers[OF example_history i, of 1]
  have "reachable example_subscribed2 2" "reachable example_subscribed2 3"
    by (simp_all add: reachable_def example_defs example_connect_def)
  moreover have "class_path (class_parents (interactionClasses example_subscribed2)) 1 = [1, 0]"
    by (simp add: class_path.simps class_parents_def example_defs)
  ultimately show ?thesis
    using reach[of 1] reach[of 2] reach[of 3]
    by (auto simp: interaction_for_def subscribed_by_def getSubscriptionType_def isMatching_def
        known_parameters_def getClassParameter_def example_interaction_def example_defs)
qed

text \<open>
  C8: Without parameter filters, and while the connects can be reached, no publisher misses a
  subscriber: after any sequence of publications and subscriptions, when one connect publishes an
  interaction class and another one has subscribed it, the last subscription message that the
  publisher was sent about this class says that it is subscribed.
\<close>

theorem publishers_know_of_subscribers:
  assumes "subscription_history U f tr" "ic \<in> set (interactionClasses f)"
    and "x |\<in>| publishedConnects ic" "y |\<in>| subscribedConnects ic" "y \<noteq> x"
  shows "heard (interactionClassHandle ic) (sent_to x tr)"
  by (rule publisher_told[OF assms])

definition example_publish :: ChangeInteractionClassPublicationMessage where
  "example_publish = \<lparr>ChangeInteractionClassPublicationMessage_federationHandle = 0,
     ChangeInteractionClassPublicationMessage_publicationType = Published,
     ChangeInteractionClassPublicationMessage_interactionClassHandle = 10\<rparr>"

theorem publishers_know_of_subscribers_witness:
  "\<exists>f es. acceptChangeInteractionClassPublication 1 example_publish example_subscribed = Inr (f, es) \<and>
     1 |\<in>| publishedConnects (interactionClasses f ! 0) \<and>
     heard 10 (sent_to 1 (Metric 2 (interactionClassSubscribed 10 False) # es))"
proof -
  have "subscription_history {1, 2} example_federation []"
    by (rule subscription_history.start) (auto simp: fresh_classes_def example_defs classes_tree_def
        class_parents_def less_Suc_eq reachable_def example_connect_def)
  from subscription_history.subscription[OF this _ _ example_steps(1)]
  have hist: "subscription_history {1, 2} example_subscribed [Metric 2 (interactionClassSubscribed 10 False)]"
    by (simp add: example_subscribe_def)
  have "\<exists>f es. acceptChangeInteractionClassPublication 1 example_publish example_subscribed = Inr (f, es) \<and>
      1 |\<in>| publishedConnects (interactionClasses f ! 0) \<and>
      2 |\<in>| subscribedConnects (interactionClasses f ! 0) \<and>
      interactionClassHandle (interactionClasses f ! 0) = 10 \<and> interactionClasses f \<noteq> []"
    by (simp add: acceptChangeInteractionClassPublication_def getInteractionClass_def example_publish_def
        setPublicationType_def broadcast_set_insert_def set_class_def publication_response_def Let_def
        getSubscriptionTypeToConnect_def containsMoreThan_def hasFilterSubscriptions_any_def example_defs)
  then obtain f es where step:
    "acceptChangeInteractionClassPublication 1 example_publish example_subscribed = Inr (f, es)"
    and pub: "1 |\<in>| publishedConnects (interactionClasses f ! 0)"
      "2 |\<in>| subscribedConnects (interactionClasses f ! 0)"
      "interactionClassHandle (interactionClasses f ! 0) = 10" "interactionClasses f \<noteq> []"
    by blast
  have "interactionClasses f ! 0 \<in> set (interactionClasses f)" using pub(4) by simp
  from publishers_know_of_subscribers[OF subscription_history.publication[OF hist _ step] this pub(1,2)]
  show ?thesis using step pub by (auto simp del: heard_simps)
qed

end
