(* ===== verification/Intrusive_Map.thy ===== *)
theory Intrusive_Map
  imports Base
begin

text \<open>
  \<open>src/OpenRTI/IntrusiveUnorderedMap.h\<close>: the hash map of the server model. Its elements carry
  their key and their hooks, so one element is in the list of all elements and in one bucket. The
  model keeps the elements themselves in both lists; linking an element twice is excluded by the
  assertions of the code. The number of buckets never changes. The main result is that the map
  behaves as an association list in the order of insertion, which is how the theories of the server
  model represent it.
\<close>

section \<open>Hash functions\<close>

text \<open>\<open>Hash<std::string>\<close>; a \<open>char\<close> is signed, as on the platforms with signed characters.\<close>

definition string_hash :: "u8 list \<Rightarrow> u64" where
  "string_hash s = fold (\<lambda>c hash. 5 * hash + scast c) s 0"

definition string_vector_hash :: "u8 list list \<Rightarrow> u64" where
  "string_vector_hash v = fold (\<lambda>s hash. fold (\<lambda>c hash. 5 * hash + scast c) s hash) v 0"

section \<open>The map\<close>

record 'e imap =
  elements :: "'e list"
  buckets :: "'e list list"

definition empty_imap :: "nat \<Rightarrow> 'e imap" where
  "empty_imap numBuckets = \<lparr>elements = [], buckets = replicate numBuckets []\<rparr>"

definition bucket_index :: "('k \<Rightarrow> u64) \<Rightarrow> 'k \<Rightarrow> 'e imap \<Rightarrow> nat" where
  "bucket_index hash k m = unat (hash k) mod length (buckets m)"

text \<open>\<open>_IntrusiveList::insert\<close> in front of an element, or at the end for the end iterator.\<close>

fun insert_before :: "'e option \<Rightarrow> 'e \<Rightarrow> 'e list \<Rightarrow> 'e list" where
  "insert_before None e xs = xs @ [e]"
| "insert_before (Some p) e [] = [e]"
| "insert_before (Some p) e (x # xs) = (if x = p then e # x # xs else x # insert_before (Some p) e xs)"

definition imap_link :: "('k \<Rightarrow> u64) \<Rightarrow> ('e \<Rightarrow> 'k) \<Rightarrow> 'e \<Rightarrow> 'e imap \<Rightarrow> 'e imap" where
  "imap_link hash getKey value m =
     (let b = bucket_index hash (getKey value) m;
          bucketList = buckets m ! b;
          i = find (\<lambda>x. getKey value = getKey x) bucketList
      in m\<lparr>buckets := (buckets m)[b := insert_before i value bucketList],
           elements := insert_before i value (elements m)\<rparr>)"

definition imap_find :: "('k \<Rightarrow> u64) \<Rightarrow> ('e \<Rightarrow> 'k) \<Rightarrow> 'k \<Rightarrow> 'e imap \<Rightarrow> 'e option" where
  "imap_find hash getKey k m = find (\<lambda>x. k = getKey x) (buckets m ! bucket_index hash k m)"

definition imap_remove :: "('k \<Rightarrow> u64) \<Rightarrow> ('e \<Rightarrow> 'k) \<Rightarrow> 'e \<Rightarrow> 'e imap \<Rightarrow> 'e imap" where
  "imap_remove hash getKey value m =
     (let b = bucket_index hash (getKey value) m
      in m\<lparr>buckets := (buckets m)[b := remove1 value (buckets m ! b)],
           elements := remove1 value (elements m)\<rparr>)"

text \<open>\<open>clear\<close> erases the elements one after the other from the front.\<close>

fun imap_clear_loop :: "('k \<Rightarrow> u64) \<Rightarrow> ('e \<Rightarrow> 'k) \<Rightarrow> 'e list \<Rightarrow> 'e imap \<Rightarrow> 'e imap" where
  "imap_clear_loop hash getKey [] m = m"
| "imap_clear_loop hash getKey (e # es) m = imap_clear_loop hash getKey es (imap_remove hash getKey e m)"

definition imap_clear :: "('k \<Rightarrow> u64) \<Rightarrow> ('e \<Rightarrow> 'k) \<Rightarrow> 'e imap \<Rightarrow> 'e imap" where
  "imap_clear hash getKey m = imap_clear_loop hash getKey (elements m) m"

section \<open>The association list\<close>

text \<open>Insertion in front of the first entry with the same key, else at the end.\<close>

fun imap_insert :: "'k \<Rightarrow> 'v \<Rightarrow> ('k \<times> 'v) list \<Rightarrow> ('k \<times> 'v) list" where
  "imap_insert k v [] = [(k, v)]"
| "imap_insert k v ((k', v') # xs) =
     (if k = k' then (k, v) # (k', v') # xs else (k', v') # imap_insert k v xs)"

text \<open>Unlinking the entry that \<open>find\<close> returns.\<close>

fun imap_unlink :: "'k \<Rightarrow> ('k \<times> 'v) list \<Rightarrow> ('k \<times> 'v) list" where
  "imap_unlink k [] = []"
| "imap_unlink k ((k', v) # xs) = (if k = k' then xs else (k', v) # imap_unlink k xs)"

lemma map_of_imap_insert [simp]: "map_of (imap_insert k v xs) = (map_of xs)(k \<mapsto> v)"
  by (induction k v xs rule: imap_insert.induct) (auto simp: fun_eq_iff)

lemma set_imap_insert [simp]: "fst ` set (imap_insert k v xs) = insert k (fst ` set xs)"
  by (induction k v xs rule: imap_insert.induct) auto

lemma distinct_imap_insert [simp]:
  "k \<notin> fst ` set xs \<Longrightarrow> distinct (map fst (imap_insert k v xs)) = distinct (map fst xs)"
  by (induction k v xs rule: imap_insert.induct) auto

lemma set_imap_unlink [simp]:
  "distinct (map fst xs) \<Longrightarrow> fst ` set (imap_unlink k xs) = fst ` set xs - {k}"
  by (induction k xs rule: imap_unlink.induct) auto

lemma distinct_imap_unlink [simp]:
  "distinct (map fst xs) \<Longrightarrow> distinct (map fst (imap_unlink k xs))"
proof (induction k xs rule: imap_unlink.induct)
  case (2 k k' v xs)
  then show ?case using set_imap_unlink[of xs k] by auto
qed simp

definition imap_abs :: "('e \<Rightarrow> 'k) \<Rightarrow> 'e imap \<Rightarrow> ('k \<times> 'e) list" where
  "imap_abs getKey m = map (\<lambda>e. (getKey e, e)) (elements m)"

definition imap_inv :: "('k \<Rightarrow> u64) \<Rightarrow> ('e \<Rightarrow> 'k) \<Rightarrow> 'e imap \<Rightarrow> bool" where
  [inv_defs]: "imap_inv hash getKey m \<longleftrightarrow> buckets m \<noteq> [] \<and> distinct (elements m) \<and>
     (\<forall>b < length (buckets m). buckets m ! b =
        filter (\<lambda>e. bucket_index hash (getKey e) m = b) (elements m))"

lemma imap_inv_empty: "0 < n \<Longrightarrow> imap_inv hash getKey (empty_imap n)"
  by (simp add: imap_inv_def empty_imap_def)

lemma imap_inv_bucket:
  assumes "imap_inv hash getKey m"
  shows "buckets m ! bucket_index hash k m =
    filter (\<lambda>e. bucket_index hash (getKey e) m = bucket_index hash k m) (elements m)"
    "bucket_index hash k m < length (buckets m)"
  using assms by (simp_all add: imap_inv_def bucket_index_def)

lemma find_filter:
  "(\<And>x. P x \<Longrightarrow> Q x) \<Longrightarrow> find P (filter Q xs) = find P xs"
  by (induction xs) auto

lemma imap_find_elements:
  assumes "imap_inv hash getKey m"
  shows "imap_find hash getKey k m = find (\<lambda>e. k = getKey e) (elements m)"
  unfolding imap_find_def imap_inv_bucket(1)[OF assms] by (rule find_filter) simp

lemma find_map_of: "find (\<lambda>e. k = getKey e) xs = map_of (map (\<lambda>e. (getKey e, e)) xs) k"
  by (induction xs) auto

lemma insert_before_filter:
  assumes "distinct xs" "p = None \<or> (\<exists>x. p = Some x \<and> x \<in> set xs \<and> Q x)" "Q e"
  shows "filter Q (insert_before p e xs) = insert_before p e (filter Q xs)"
  using assms
proof (induction p e xs rule: insert_before.induct)
  case (3 p e x xs)
  then show ?case by auto
qed auto

lemma insert_before_filter_out:
  "\<not> Q e \<Longrightarrow> filter Q (insert_before p e xs) = filter Q xs"
  by (induction p e xs rule: insert_before.induct) auto

lemma set_insert_before [simp]: "set (insert_before p e xs) = insert e (set xs)"
  by (induction p e xs rule: insert_before.induct) auto

lemma distinct_insert_before [simp]:
  "e \<notin> set xs \<Longrightarrow> distinct (insert_before p e xs) = distinct xs"
  by (induction p e xs rule: insert_before.induct) auto

lemma imap_insert_before:
  "imap_insert (getKey e) e (map (\<lambda>e. (getKey e, e)) xs) =
     map (\<lambda>e. (getKey e, e)) (insert_before (find (\<lambda>x. getKey e = getKey x) xs) e xs)"
proof (induction xs)
  case (Cons x xs)
  show ?case
  proof (cases "getKey e = getKey x")
    case False
    then have "find (\<lambda>y. getKey e = getKey y) xs \<noteq> Some x"
      by (auto simp: find_Some_iff)
    then have "insert_before (find (\<lambda>y. getKey e = getKey y) xs) e (x # xs) =
        x # insert_before (find (\<lambda>y. getKey e = getKey y) xs) e xs"
      by (cases "find (\<lambda>y. getKey e = getKey y) xs") auto
    then show ?thesis using False Cons by simp
  qed simp
qed simp

lemma imap_link_refines:
  assumes inv: "imap_inv hash getKey m" and new: "e \<notin> set (elements m)"
  shows "imap_inv hash getKey (imap_link hash getKey e m)"
    "imap_abs getKey (imap_link hash getKey e m) = imap_insert (getKey e) e (imap_abs getKey m)"
proof -
  let ?k = "getKey e" and ?m = "imap_link hash getKey e m"
  let ?i = "find (\<lambda>x. ?k = getKey x) (elements m)" and ?b = "bucket_index hash ?k m"
  have i: "find (\<lambda>x. ?k = getKey x) (buckets m ! ?b) = ?i"
    using imap_find_elements[OF inv, of ?k] by (simp add: imap_find_def)
  have m: "elements ?m = insert_before ?i e (elements m)"
    "buckets ?m = (buckets m)[?b := insert_before ?i e (buckets m ! ?b)]"
    by (simp_all add: imap_link_def Let_def i)
  have idx: "bucket_index hash k ?m = bucket_index hash k m" for k by (simp add: bucket_index_def m)
  have dist: "distinct (elements m)" using inv by (simp add: imap_inv_def)
  have "buckets ?m ! b = filter (\<lambda>x. bucket_index hash (getKey x) m = b) (elements ?m)"
    if b: "b < length (buckets m)" for b
  proof (cases "b = ?b")
    case True
    have "?i = None \<or> (\<exists>x. ?i = Some x \<and> x \<in> set (elements m) \<and> bucket_index hash (getKey x) m = ?b)"
      by (cases ?i) (auto simp: find_Some_iff)
    from insert_before_filter[OF dist this] show ?thesis
      using True b imap_inv_bucket(1)[OF inv, of ?k] by (simp add: m)
  next
    case False
    then show ?thesis using b inv by (simp add: m insert_before_filter_out imap_inv_def)
  qed
  then show "imap_inv hash getKey ?m" using inv new idx by (auto simp: imap_inv_def m)
  show "imap_abs getKey ?m = imap_insert ?k e (imap_abs getKey m)"
    by (simp add: imap_abs_def m imap_insert_before)
qed

lemma imap_remove_refines:
  assumes inv: "imap_inv hash getKey m"
  shows "imap_inv hash getKey (imap_remove hash getKey e m)"
    "imap_abs getKey (imap_remove hash getKey e m) = filter (\<lambda>(k, x). x \<noteq> e) (imap_abs getKey m)"
proof -
  let ?m = "imap_remove hash getKey e m" and ?b = "bucket_index hash (getKey e) m"
  have m: "elements ?m = remove1 e (elements m)"
    "buckets ?m = (buckets m)[?b := remove1 e (buckets m ! ?b)]"
    by (simp_all add: imap_remove_def Let_def)
  have idx: "bucket_index hash k ?m = bucket_index hash k m" for k by (simp add: bucket_index_def m)
  have dist: "distinct (elements m)" using inv by (simp add: imap_inv_def)
  have "buckets ?m ! b = filter (\<lambda>x. bucket_index hash (getKey x) m = b) (elements ?m)"
    if b: "b < length (buckets m)" for b
    using b inv by (cases "b = ?b") (auto simp: m filter_remove1 imap_inv_def remove1_idem)
  then show "imap_inv hash getKey ?m" using inv idx by (auto simp: imap_inv_def m)
  show "imap_abs getKey ?m = filter (\<lambda>(k, x). x \<noteq> e) (imap_abs getKey m)"
    using dist by (simp add: imap_abs_def m distinct_remove1_removeAll removeAll_filter_not_eq
        filter_map comp_def eq_commute)
qed

lemma imap_clear_empty:
  assumes "imap_inv hash getKey m"
  shows "elements (imap_clear hash getKey m) = []" "imap_inv hash getKey (imap_clear hash getKey m)"
proof -
  have "imap_inv hash getKey m \<Longrightarrow> elements m = es \<Longrightarrow>
      elements (imap_clear_loop hash getKey es m) = [] \<and> imap_inv hash getKey (imap_clear_loop hash getKey es m)"
    for es m
  proof (induction es arbitrary: m)
    case (Cons e es)
    have "elements (imap_remove hash getKey e m) = es" using Cons.prems by (simp add: imap_remove_def Let_def)
    with Cons.IH imap_remove_refines(1)[OF Cons.prems(1)] show ?case by simp
  qed simp
  from this[OF assms refl] show "elements (imap_clear hash getKey m) = []"
    "imap_inv hash getKey (imap_clear hash getKey m)" by (simp_all add: imap_clear_def)
qed

section \<open>The refinement\<close>

inductive imap_history :: "('k \<Rightarrow> u64) \<Rightarrow> ('e \<Rightarrow> 'k) \<Rightarrow> 'e imap \<Rightarrow> bool"
  for hash :: "'k \<Rightarrow> u64" and getKey :: "'e \<Rightarrow> 'k" where
  empty: "0 < n \<Longrightarrow> imap_history hash getKey (empty_imap n)"
| link: "imap_history hash getKey m \<Longrightarrow> e \<notin> set (elements m) \<Longrightarrow>
    imap_history hash getKey (imap_link hash getKey e m)"
| remove: "imap_history hash getKey m \<Longrightarrow> imap_history hash getKey (imap_remove hash getKey e m)"
| clear: "imap_history hash getKey m \<Longrightarrow> imap_history hash getKey (imap_clear hash getKey m)"

lemma imap_history_inv: "imap_history hash getKey m \<Longrightarrow> imap_inv hash getKey m"
  by (induction rule: imap_history.induct)
    (auto intro: imap_inv_empty imap_link_refines(1) imap_remove_refines(1) imap_clear_empty(2))

text \<open>
  C17: The intrusive hash map is an association list in the order of insertion, whatever the hash
  function and the number of buckets: in every state that insertions, removals and clearing reach,
  a lookup in the bucket of the key finds the first entry of the list with that key, an insertion
  puts the element in front of the entries with the same key or at the end, and a removal takes out
  exactly that element.
\<close>

theorem intrusive_map_refines_association_list:
  assumes "imap_history hash getKey m" "e \<notin> set (elements m)"
  shows "imap_find hash getKey k m = map_of (imap_abs getKey m) k \<and>
    imap_abs getKey (imap_link hash getKey e m) = imap_insert (getKey e) e (imap_abs getKey m) \<and>
    imap_abs getKey (imap_remove hash getKey d m) = filter (\<lambda>(k, x). x \<noteq> d) (imap_abs getKey m) \<and>
    imap_abs getKey (imap_clear hash getKey m) = []"
proof -
  note inv = imap_history_inv[OF assms(1)]
  have "imap_find hash getKey k m = map_of (imap_abs getKey m) k"
    unfolding imap_find_elements[OF inv] find_map_of imap_abs_def by (rule refl)
  moreover have "imap_abs getKey (imap_clear hash getKey m) = []"
    by (simp add: imap_abs_def imap_clear_empty(1)[OF inv])
  ultimately show ?thesis
    using imap_link_refines(2)[OF inv assms(2)] imap_remove_refines(2)[OF inv, of d] by (intro conjI)
qed

theorem intrusive_map_refines_association_list_witness:
  "imap_find string_hash fst [65] (imap_link string_hash fst ([65], 1 :: nat) (empty_imap 128)) =
     Some ([65], 1) \<and>
   map fst (imap_abs fst (imap_link string_hash fst ([66], 2 :: nat)
     (imap_link string_hash fst ([65], 1) (empty_imap 128)))) = [[65], [66]]"
proof -
  have h0: "imap_history string_hash fst (empty_imap 128 :: (u8 list \<times> nat) imap)"
    by (rule imap_history.empty) simp
  have new: "([65], 1 :: nat) \<notin> set (elements (empty_imap 128))" by (simp add: empty_imap_def)
  note first = intrusive_map_refines_association_list[OF h0 new]
  have abs: "imap_abs fst (imap_link string_hash fst ([65], 1 :: nat) (empty_imap 128)) = [([65], ([65], 1))]"
    using first by (simp add: imap_abs_def empty_imap_def)
  have h1: "imap_history string_hash fst (imap_link string_hash fst ([65], 1 :: nat) (empty_imap 128))"
    by (rule imap_history.link[OF h0 new])
  have "([66], 2 :: nat) \<notin> set (elements (imap_link string_hash fst ([65], 1) (empty_imap 128)))"
    using abs by (auto simp: imap_abs_def)
  from intrusive_map_refines_association_list[OF h1 this] abs show ?thesis by simp
qed

end
