(* ===== verification/Object_Model.thy ===== *)
theory Object_Model
  imports Federation_Model Intrusive_Map
begin

text \<open>
  Object classes, object instances and their attributes at a server node: \<open>ObjectClass\<close>,
  \<open>ClassAttribute\<close>, \<open>ObjectInstance\<close>, \<open>InstanceAttribute\<close> and \<open>ObjectInstanceConnect\<close>
  (\<open>src/OpenRTI/ServerModel.cpp\<close>). The classes are a list in which a parent stands in front of its
  children, as for interactions. Each instance attribute keeps the set of connects its updates go to;
  \<open>updateCumulativeSubscription\<close> keeps these sets and the caches of the classes in step with the
  subscriptions, which the main lemma of this theory shows.
\<close>

section \<open>The state\<close>

record InstanceAttribute =
  receivingConnects :: ConnectHandleSet
  ownerConnectHandle :: ConnectHandle
  ownerFederate :: FederateHandle

record ObjectInstance = PublishSubscribe +
  objectInstanceName :: "Wire_Types.String"
  objectClass :: "nat option"
  instanceAttributes :: "(AttributeHandle \<times> InstanceAttribute) list"

record ObjectClass =
  objectClassHandle :: ObjectClassHandle
  parentObjectClass :: "nat option"
  classAttributes :: "(AttributeHandle \<times> PublishSubscribe) list"
  objectInstanceList :: "ObjectInstanceHandle list"

text \<open>
  The \<open>ObjectInstanceConnect\<close> objects are linked in a map of the instance and in a list of the
  connect; both are parts of the list of all of them in the order of their creation.
\<close>

record ObjectModel =
  objectClasses :: "ObjectClass list"
  objectInstances :: "(ObjectInstanceHandle \<times> ObjectInstance) list"
  objectInstanceHandleAllocator :: "ObjectInstanceHandle allocator"
  objectInstanceConnects :: "(ConnectHandle \<times> ObjectInstanceHandle) list"

type_synonym object_handled = "handler_error + ObjectModel \<times> effect list"

definition getObjectClass :: "ObjectClassHandle \<Rightarrow> ObjectModel \<Rightarrow> nat option" where
  "getObjectClass h m = first_index (\<lambda>oc. objectClassHandle oc = h) (objectClasses m)"

definition getClassAttribute :: "AttributeHandle \<Rightarrow> ObjectClass \<Rightarrow> PublishSubscribe option" where
  "getClassAttribute a oc = map_of (classAttributes oc) a"

definition set_class_attribute :: "AttributeHandle \<Rightarrow> PublishSubscribe \<Rightarrow> ObjectClass \<Rightarrow> ObjectClass" where
  "set_class_attribute a ps oc = oc\<lparr>classAttributes := entry_update a (\<lambda>_. ps) (classAttributes oc)\<rparr>"

definition getObjectInstance :: "ObjectInstanceHandle \<Rightarrow> ObjectModel \<Rightarrow> ObjectInstance option" where
  "getObjectInstance h m = map_of (objectInstances m) h"

definition isObjectInstanceNameInUse :: "Wire_Types.String \<Rightarrow> ObjectModel \<Rightarrow> bool" where
  "isObjectInstanceNameInUse name m = list_ex (\<lambda>(_, oi). objectInstanceName oi = name) (objectInstances m)"

definition getInstanceAttribute :: "AttributeHandle \<Rightarrow> ObjectInstance \<Rightarrow> InstanceAttribute option" where
  "getInstanceAttribute a oi = map_of (instanceAttributes oi) a"

text \<open>\<open>AttributeHandle(0)\<close> is the privilege to delete the object.\<close>

definition privilegeToDelete :: AttributeHandle where
  "privilegeToDelete = 0"

definition update_instance ::
    "ObjectInstanceHandle \<Rightarrow> (ObjectInstance \<Rightarrow> ObjectInstance) \<Rightarrow> ObjectModel \<Rightarrow> ObjectModel" where
  "update_instance h g m = m\<lparr>objectInstances := entry_update h g (objectInstances m)\<rparr>"

definition update_attribute ::
    "AttributeHandle \<Rightarrow> (InstanceAttribute \<Rightarrow> InstanceAttribute) \<Rightarrow> ObjectInstance \<Rightarrow> ObjectInstance" where
  "update_attribute a g oi = oi\<lparr>instanceAttributes := entry_update a g (instanceAttributes oi)\<rparr>"

section \<open>Instances\<close>

definition new_instance_attribute :: "PublishSubscribe \<Rightarrow> InstanceAttribute" where
  "new_instance_attribute ps = \<lparr>receivingConnects = cumulativeSubscribedConnectHandleSet ps,
     ownerConnectHandle = invalid_handle, ownerFederate = invalid_handle\<rparr>"

definition setOwnerConnectHandle :: "ConnectHandle \<Rightarrow> InstanceAttribute \<Rightarrow> InstanceAttribute" where
  "setOwnerConnectHandle c ia = ia\<lparr>receivingConnects := receivingConnects ia |-| {|c|},
     ownerConnectHandle := c\<rparr>"

definition attribute_removeConnect :: "ConnectHandle \<Rightarrow> InstanceAttribute \<Rightarrow> InstanceAttribute" where
  "attribute_removeConnect c ia =
     (let ia' = ia\<lparr>receivingConnects := receivingConnects ia |-| {|c|}\<rparr>
      in if ownerConnectHandle ia' = c then ia'\<lparr>ownerConnectHandle := invalid_handle\<rparr> else ia')"

definition instance_removeConnect :: "ConnectHandle \<Rightarrow> ObjectInstance \<Rightarrow> ObjectInstance" where
  "instance_removeConnect c oi = oi\<lparr>instanceAttributes :=
     map (\<lambda>(a, ia). (a, attribute_removeConnect c ia)) (instanceAttributes oi)\<rparr>"

definition object_reference :: "ConnectHandle \<Rightarrow> ObjectInstanceHandle \<Rightarrow> ObjectModel \<Rightarrow> ObjectModel" where
  "object_reference c h m =
     (if (c, h) \<in> set (objectInstanceConnects m) then m
      else m\<lparr>objectInstanceConnects := objectInstanceConnects m @ [(c, h)]\<rparr>)"

text \<open>\<open>None\<close> is the erased end iterator; the flag tells that no connect refers to the instance any more.\<close>

definition object_unreference ::
    "ConnectHandle \<Rightarrow> ObjectInstanceHandle \<Rightarrow> ObjectModel \<Rightarrow> (bool \<times> ObjectModel) option" where
  "object_unreference c h m =
     (if (c, h) \<notin> set (objectInstanceConnects m) then None
      else let refs = remove1 (c, h) (objectInstanceConnects m)
           in Some (list_all (\<lambda>(_, h'). h' \<noteq> h) refs, m\<lparr>objectInstanceConnects := refs\<rparr>))"

text \<open>
  \<open>ObjectInstance::setObjectClass\<close>: the instance gets an attribute for each one of the class and the
  subscribers of the attributes. An instance that has another class already would be linked twice.
\<close>

definition instance_of_class :: "nat \<Rightarrow> ObjectClass \<Rightarrow> ObjectInstance \<Rightarrow> ObjectInstance" where
  "instance_of_class i oc oi =
     fold (\<lambda>(a, ps) oi'. fold (\<lambda>c oi''. snd (setSubscriptionType c SubscribedActive oi''))
         (sorted_list_of_fset (cumulativeSubscribedConnectHandleSet ps))
         (oi'\<lparr>instanceAttributes := instanceAttributes oi' @ [(a, new_instance_attribute ps)]\<rparr>))
       (classAttributes oc) (oi\<lparr>objectClass := Some i\<rparr>)"

definition setObjectClass :: "nat \<Rightarrow> ObjectInstanceHandle \<Rightarrow> ObjectModel \<Rightarrow> ObjectModel option" where
  "setObjectClass i h m = (case getObjectInstance h m of
     None \<Rightarrow> None
   | Some oi \<Rightarrow> (case objectClass oi of
       Some j \<Rightarrow> (if j = i then Some m else None)
     | None \<Rightarrow>
         (let oc = objectClasses m ! i
          in Some (update_instance h (instance_of_class i oc) (m\<lparr>objectClasses :=
               (objectClasses m)[i := oc\<lparr>objectInstanceList := objectInstanceList oc @ [h]\<rparr>]\<rparr>)))))"

text \<open>\<open>Federation::insertObjectInstance\<close> with the handle it has taken.\<close>

definition new_instance :: "Wire_Types.String \<Rightarrow> ObjectInstance" where
  "new_instance name = PublishSubscribe.extend no_connects
     \<lparr>objectInstanceName = name, objectClass = None, instanceAttributes = []\<rparr>"

definition instance_name :: "ObjectInstanceHandle \<Rightarrow> Wire_Types.String \<Rightarrow> Wire_Types.String" where
  "instance_name h name = (if name = [] then getReservedName ''HLAobjectInstance'' h else name)"

definition insertObjectInstance ::
    "ObjectInstanceHandle \<Rightarrow> Wire_Types.String \<Rightarrow> ObjectModel
      \<Rightarrow> handler_error + ObjectInstanceHandle \<times> ObjectModel" where
  "insertObjectInstance objectInstanceHandle name m =
     (case getOrTake objectInstanceHandle (objectInstanceHandleAllocator m) of
        Inl _ \<Rightarrow> Inl HandleAllocationError
      | Inr (h, a) \<Rightarrow> Inr (h, m\<lparr>objectInstanceHandleAllocator := a,
          objectInstances := imap_insert h
            (new_instance (instance_name h name)) (objectInstances m)\<rparr>))"

text \<open>
  \<open>Federation::erase\<close>; the destructor unlinks the references and the entry in the list of the class.
\<close>

definition erase_instance :: "ObjectInstanceHandle \<Rightarrow> ObjectModel \<Rightarrow> ObjectModel" where
  "erase_instance h m = m\<lparr>
     objectInstanceHandleAllocator := allocator_put h (objectInstanceHandleAllocator m),
     objectInstances := entry_erase h (objectInstances m),
     objectClasses := map (\<lambda>oc. oc\<lparr>objectInstanceList :=
       filter (\<lambda>h'. h' \<noteq> h) (objectInstanceList oc)\<rparr>) (objectClasses m),
     objectInstanceConnects := filter (\<lambda>(_, h'). h' \<noteq> h) (objectInstanceConnects m)\<rparr>"

section \<open>Subscriptions of a class\<close>

text \<open>
  The loop of \<open>_updateCumulativeSubscription\<close> over the instances of one class. The second part of the
  state is the list of instances the connect does not know yet.
\<close>

definition route_instance ::
    "ConnectHandle \<Rightarrow> AttributeHandle \<Rightarrow> bool \<Rightarrow> ObjectInstanceHandle
      \<Rightarrow> ObjectModel \<times> ObjectInstanceHandle list \<Rightarrow> ObjectModel \<times> ObjectInstanceHandle list" where
  "route_instance c a subscribe h s =
     (case Option.bind (getObjectInstance h (fst s)) (getInstanceAttribute a) of
        None \<Rightarrow> s
      | Some ia \<Rightarrow>
          (if ownerConnectHandle ia = c then s
           else if subscribe then
             (if c |\<in>| receivingConnects ia then s
              else (update_instance h (update_attribute a
                      (\<lambda>ia. ia\<lparr>receivingConnects := finsert c (receivingConnects ia)\<rparr>)) (fst s),
                    if a = privilegeToDelete then snd s @ [h] else snd s))
           else if a = privilegeToDelete then s
           else (update_instance h (update_attribute a
                   (\<lambda>ia. ia\<lparr>receivingConnects := receivingConnects ia |-| {|c|}\<rparr>)) (fst s), snd s)))"

definition object_parents :: "ObjectModel \<Rightarrow> nat option list" where
  "object_parents m = map parentObjectClass (objectClasses m)"

text \<open>\<open>None\<close> is the null pointer of a class without the attribute.\<close>

function object_update_cumulative ::
    "nat option list \<Rightarrow> ConnectHandle \<Rightarrow> AttributeHandle \<Rightarrow> bool \<Rightarrow> nat
      \<Rightarrow> ObjectModel \<times> ObjectInstanceHandle list \<Rightarrow> (ObjectModel \<times> ObjectInstanceHandle list) option" where
  "object_update_cumulative parents c a subscribe i s =
     (case getClassAttribute a (objectClasses (fst s) ! i) of
        None \<Rightarrow> None
      | Some ps \<Rightarrow>
          (let subscribe' = (subscribe \<or> getSubscriptionType c ps \<noteq> Unsubscribed);
               (changed, ps') = updateCumulativeSubscribedConnectHandleSet c subscribe' ps;
               classes = (objectClasses (fst s))[i := set_class_attribute a ps' (objectClasses (fst s) ! i)];
               s' = (fst s\<lparr>objectClasses := classes\<rparr>, snd s)
           in if \<not> changed then Some s'
              else map_option (\<lambda>s''. fold (route_instance c a subscribe')
                     (objectInstanceList (objectClasses (fst s'') ! i)) s'')
                (fold (\<lambda>k r. Option.bind r (object_update_cumulative parents c a subscribe' k))
                  (childInteractionClassList parents i) (Some s'))))"
  by pat_completeness auto
termination
  by (relation "measure (\<lambda>(parents, c, a, subscribe, i, s). length parents - i)")
    (auto simp: childInteractionClassList_def)

declare object_update_cumulative.simps [simp del]

definition object_updateCumulativeSubscription ::
    "ConnectHandle \<Rightarrow> AttributeHandle \<Rightarrow> nat
      \<Rightarrow> ObjectModel \<times> ObjectInstanceHandle list \<Rightarrow> (ObjectModel \<times> ObjectInstanceHandle list) option" where
  "object_updateCumulativeSubscription c a i s =
     (let parentSubscribed = (case parentObjectClass (objectClasses (fst s) ! i) of
            None \<Rightarrow> False
          | Some p \<Rightarrow> (case getClassAttribute a (objectClasses (fst s) ! p) of
              None \<Rightarrow> False
            | Some ps \<Rightarrow> c |\<in>| cumulativeSubscribedConnectHandleSet ps))
      in object_update_cumulative (object_parents (fst s)) c a parentSubscribed i s)"

section \<open>What an update of the cache changes\<close>

text \<open>The three facts an update is about: caches, receivers and owners.\<close>

definition in_cum :: "ConnectHandle \<Rightarrow> AttributeHandle \<Rightarrow> nat \<Rightarrow> ObjectModel \<Rightarrow> bool" where
  "in_cum c a j m \<longleftrightarrow> (case getClassAttribute a (objectClasses m ! j) of
     None \<Rightarrow> False | Some ps \<Rightarrow> c |\<in>| cumulativeSubscribedConnectHandleSet ps)"

definition instance_attribute :: "AttributeHandle \<Rightarrow> ObjectInstanceHandle \<Rightarrow> ObjectModel \<Rightarrow> InstanceAttribute option" where
  "instance_attribute a h m = Option.bind (getObjectInstance h m) (getInstanceAttribute a)"

definition receives :: "ConnectHandle \<Rightarrow> AttributeHandle \<Rightarrow> ObjectInstanceHandle \<Rightarrow> ObjectModel \<Rightarrow> bool" where
  "receives c a h m \<longleftrightarrow> (case instance_attribute a h m of
     None \<Rightarrow> False | Some ia \<Rightarrow> c |\<in>| receivingConnects ia)"

definition owner_of :: "AttributeHandle \<Rightarrow> ObjectInstanceHandle \<Rightarrow> ObjectModel \<Rightarrow> ConnectHandle option" where
  "owner_of a h m = map_option ownerConnectHandle (instance_attribute a h m)"

text \<open>All that it does not change.\<close>

definition instance_frame where
  "instance_frame (oi :: ObjectInstance) = (PublishSubscribe.truncate oi, objectInstanceName oi, objectClass oi,
     map (\<lambda>(a, ia). (a, ownerConnectHandle ia, ownerFederate ia)) (instanceAttributes oi))"

definition class_frame where
  "class_frame (oc :: ObjectClass) = (objectClassHandle oc, parentObjectClass oc, map fst (classAttributes oc),
     objectInstanceList oc)"

definition model_frame where
  "model_frame (m :: ObjectModel) = (map class_frame (objectClasses m),
     map (\<lambda>(h, oi). (h, instance_frame oi)) (objectInstances m),
     objectInstanceHandleAllocator m, objectInstanceConnects m)"

definition uncached :: "AttributeHandle \<Rightarrow> nat \<Rightarrow> ObjectModel \<Rightarrow> PublishSubscribe option" where
  "uncached a j m = map_option (\<lambda>ps. ps\<lparr>cumulativeSubscribedConnectHandleSet := {||}\<rparr>)
     (getClassAttribute a (objectClasses m ! j))"

lemma map_entry_update:
  "(\<And>v. f (g v) = f v) \<Longrightarrow> map (\<lambda>(k, v). (k, f v)) (entry_update h g xs) = map (\<lambda>(k, v). (k, f v)) xs"
  by (auto simp: entry_update_def)

lemma map_of_frame:
  assumes "map (\<lambda>(k, v). (k, f v)) xs = map (\<lambda>(k, v). (k, f v)) ys"
  shows "map_option f (map_of xs k) = map_option f (map_of ys k)"
proof -
  have "map_of (map (\<lambda>(k, v). (k, f v)) zs) k = map_option f (map_of zs k)" for zs
    by (induction zs) auto
  from this[of xs] this[of ys] assms show ?thesis by simp
qed

lemma model_frame_owner:
  assumes "model_frame m' = model_frame m"
  shows "owner_of a h m' = owner_of a h m"
proof -
  have *: "map_option instance_frame (getObjectInstance h m') = map_option instance_frame (getObjectInstance h m)"
    unfolding getObjectInstance_def by (rule map_of_frame) (use assms in \<open>simp add: model_frame_def\<close>)
  have "owner_of a h m = map_option fst (Option.bind (map_option instance_frame (getObjectInstance h m))
      (\<lambda>(_, _, _, as). map_of as a))" for m
  proof (cases "getObjectInstance h m")
    case (Some oi)
    have "map_of (map (\<lambda>(a, ia). (a, ownerConnectHandle ia, ownerFederate ia)) as) a =
        map_option (\<lambda>ia. (ownerConnectHandle ia, ownerFederate ia)) (map_of as a)"
      for as :: "(AttributeHandle \<times> InstanceAttribute) list"
      by (induction as) auto
    then show ?thesis using Some
      by (simp add: owner_of_def instance_attribute_def getInstanceAttribute_def instance_frame_def
        option.map_comp comp_def)
  qed (simp add: owner_of_def instance_attribute_def)
  then show ?thesis using * by simp
qed

lemma model_frame_parts:
  assumes "model_frame m' = model_frame m"
  shows "length (objectClasses m') = length (objectClasses m)" "object_parents m' = object_parents m"
    "objectInstanceHandleAllocator m' = objectInstanceHandleAllocator m"
    "objectInstanceConnects m' = objectInstanceConnects m"
    "map fst (objectInstances m') = map fst (objectInstances m)"
proof -
  have c: "map class_frame (objectClasses m') = map class_frame (objectClasses m)"
    using assms by (simp add: model_frame_def)
  then show "length (objectClasses m') = length (objectClasses m)" by (rule map_eq_imp_length_eq)
  have *: "object_parents m = map (\<lambda>(_, p, _). p) (map class_frame (objectClasses m))" for m
    by (simp add: object_parents_def class_frame_def)
  show "object_parents m' = object_parents m" unfolding * c by (rule refl)
  show "objectInstanceHandleAllocator m' = objectInstanceHandleAllocator m"
    "objectInstanceConnects m' = objectInstanceConnects m" using assms by (simp_all add: model_frame_def)
  have "map (\<lambda>(h, oi). (h, instance_frame oi)) (objectInstances m') =
      map (\<lambda>(h, oi). (h, instance_frame oi)) (objectInstances m)"
    using assms by (simp add: model_frame_def)
  from arg_cong[OF this, of "map fst"]
  show "map fst (objectInstances m') = map fst (objectInstances m)"
    by (simp add: comp_def case_prod_unfold)
qed

lemma model_frame_class:
  assumes "model_frame m' = model_frame m" "j < length (objectClasses m)"
  shows "class_frame (objectClasses m' ! j) = class_frame (objectClasses m ! j)"
proof -
  have "map class_frame (objectClasses m') ! j = map class_frame (objectClasses m) ! j"
    using assms(1) by (simp add: model_frame_def)
  then show ?thesis using assms(2) model_frame_parts(1)[OF assms(1)] by simp
qed

text \<open>The routing of one attribute of an instance of class \<open>j\<close> to one connect is right.\<close>

definition in_sync :: "ConnectHandle \<Rightarrow> AttributeHandle \<Rightarrow> ObjectModel \<Rightarrow> nat \<Rightarrow> ObjectInstanceHandle \<Rightarrow> bool" where
  "in_sync c a m j h \<longleftrightarrow> (instance_attribute a h m \<noteq> None \<longrightarrow> owner_of a h m \<noteq> Some c \<longrightarrow>
     receives c a h m = in_cum c a j m)"

definition lists_disjoint :: "ObjectModel \<Rightarrow> bool" where
  "lists_disjoint m \<longleftrightarrow> (\<forall>i < length (objectClasses m). \<forall>j < length (objectClasses m). i \<noteq> j \<longrightarrow>
     set (objectInstanceList (objectClasses m ! i)) \<inter> set (objectInstanceList (objectClasses m ! j)) = {})"

section \<open>The instances of one class\<close>

lemma instance_attribute_update:
  "instance_attribute a' h' (update_instance h (update_attribute a g) m) =
     (if h' = h \<and> a' = a then map_option g (instance_attribute a h m) else instance_attribute a' h' m)"
  by (cases "map_of (objectInstances m) h")
    (auto simp: instance_attribute_def getObjectInstance_def update_instance_def getInstanceAttribute_def
      update_attribute_def)

definition routable :: "ConnectHandle \<Rightarrow> AttributeHandle \<Rightarrow> bool \<Rightarrow> ObjectInstanceHandle \<Rightarrow> ObjectModel \<Rightarrow> bool" where
  "routable c a b h m \<longleftrightarrow> instance_attribute a h m \<noteq> None \<and> owner_of a h m \<noteq> Some c \<and>
     (b \<or> a \<noteq> privilegeToDelete)"

lemma route_instance_simps:
  "objectClasses (fst (route_instance c a b h s)) = objectClasses (fst s)"
  "model_frame (fst (route_instance c a b h s)) = model_frame (fst s)"
  "receives c' a' h' (fst (route_instance c a b h s)) =
     (if c' = c \<and> a' = a \<and> h' = h \<and> routable c a b h (fst s)
      then b else receives c' a' h' (fst s))"
proof -
  have frame: "instance_frame (update_attribute a (\<lambda>ia. ia\<lparr>receivingConnects := f ia\<rparr>) oi) = instance_frame oi" for f a oi
    by (auto simp: instance_frame_def update_attribute_def entry_update_def PublishSubscribe.defs)
  have upd: "model_frame (update_instance h (update_attribute a (\<lambda>ia. ia\<lparr>receivingConnects := f ia\<rparr>)) m) =
      model_frame m" for f a m
    by (simp add: model_frame_def update_instance_def map_entry_update[where f = instance_frame, OF frame])
  show "objectClasses (fst (route_instance c a b h s)) = objectClasses (fst s)"
    by (auto simp: route_instance_def update_instance_def split: option.split)
  show "model_frame (fst (route_instance c a b h s)) = model_frame (fst s)"
    unfolding route_instance_def using upd by (simp split: option.split)
  show "receives c' a' h' (fst (route_instance c a b h s)) =
     (if c' = c \<and> a' = a \<and> h' = h \<and> routable c a b h (fst s)
      then b else receives c' a' h' (fst s))"
    by (auto simp: route_instance_def instance_attribute_def[symmetric] receives_def owner_of_def routable_def
      instance_attribute_update split: option.split)
qed

lemma route_instances_frame:
  "objectClasses (fst (fold (route_instance c a b) hs s)) = objectClasses (fst s) \<and>
   model_frame (fst (fold (route_instance c a b) hs s)) = model_frame (fst s)"
  by (induction hs arbitrary: s) (simp_all add: route_instance_simps)

lemma model_frame_attribute:
  "model_frame m' = model_frame m \<Longrightarrow> (instance_attribute a h m' = None) = (instance_attribute a h m = None)"
  using model_frame_owner[of m' m a h] by (auto simp: owner_of_def)

lemma routable_frame: "model_frame m' = model_frame m \<Longrightarrow> routable c a b h m' = routable c a b h m"
  unfolding routable_def using model_frame_owner[of m' m a h] model_frame_attribute[of m' m a h] by simp

lemma route_instances:
  "receives c' a' h' (fst (fold (route_instance c a b) hs s)) =
     (if c' = c \<and> a' = a \<and> h' \<in> set hs \<and> routable c a b h' (fst s) then b else receives c' a' h' (fst s))"
  by (induction hs arbitrary: s)
    (auto simp: route_instance_simps routable_frame[OF route_instance_simps(2)])

section \<open>The whole update\<close>

lemma getClassAttribute_set:
  "getClassAttribute a' (set_class_attribute a ps oc) =
     (if a' = a then map_option (\<lambda>_. ps) (getClassAttribute a oc) else getClassAttribute a' oc)"
  by (simp add: getClassAttribute_def set_class_attribute_def map_of_entry_update)

lemma class_frame_set [simp]: "class_frame (set_class_attribute a ps oc) = class_frame oc"
  by (simp add: class_frame_def set_class_attribute_def)

lemma objectInstanceList_set [simp]: "objectInstanceList (set_class_attribute a ps oc) = objectInstanceList oc"
  by (simp add: set_class_attribute_def)

lemma model_frame_classes:
  "i < length (objectClasses m) \<Longrightarrow> class_frame oc = class_frame (objectClasses m ! i) \<Longrightarrow>
   model_frame (m\<lparr>objectClasses := (objectClasses m)[i := oc]\<rparr>) = model_frame m"
  by (simp add: model_frame_def map_update) (metis list_update_id map_update)

lemma instances_only [simp]:
  "instance_attribute a h (m\<lparr>objectClasses := cs\<rparr>) = instance_attribute a h m"
  "receives c a h (m\<lparr>objectClasses := cs\<rparr>) = receives c a h m"
  "owner_of a h (m\<lparr>objectClasses := cs\<rparr>) = owner_of a h m"
  by (simp_all add: instance_attribute_def getObjectInstance_def receives_def owner_of_def)

lemma cache_set:
  assumes i: "i < length (objectClasses m)" and ps: "getClassAttribute a (objectClasses m ! i) = Some ps"
    and ps': "updateCumulativeSubscribedConnectHandleSet c b ps = (changed, ps')"
  defines "m1 \<equiv> m\<lparr>objectClasses := (objectClasses m)[i := set_class_attribute a ps' (objectClasses m ! i)]\<rparr>"
  shows "model_frame m1 = model_frame m" "uncached a' j m1 = uncached a' j m"
    "j \<noteq> i \<Longrightarrow> objectClasses m1 ! j = objectClasses m ! j"
    "in_cum c' a' j m1 = (if c' = c \<and> a' = a \<and> j = i then b else in_cum c' a' j m)"
    "changed \<longleftrightarrow> in_cum c a i m \<noteq> b"
    "objectInstanceList (objectClasses m1 ! j) = objectInstanceList (objectClasses m ! j)"
proof -
  show "model_frame m1 = model_frame m" unfolding m1_def by (rule model_frame_classes[OF i]) simp
  have att: "getClassAttribute a' (objectClasses m1 ! j) =
      (if a' = a \<and> j = i then Some ps' else getClassAttribute a' (objectClasses m ! j))" for a' j
    using i ps by (cases "j = i") (simp_all add: m1_def getClassAttribute_set)
  have strip: "ps'\<lparr>cumulativeSubscribedConnectHandleSet := {||}\<rparr> = ps\<lparr>cumulativeSubscribedConnectHandleSet := {||}\<rparr>"
    and mem: "c' |\<in>| cumulativeSubscribedConnectHandleSet ps' \<longleftrightarrow>
      (if c' = c then b else c' |\<in>| cumulativeSubscribedConnectHandleSet ps)"
    and ch: "changed \<longleftrightarrow> (c |\<in>| cumulativeSubscribedConnectHandleSet ps) \<noteq> b" for c'
    using ps' by (auto simp: updateCumulativeSubscribedConnectHandleSet_def Let_def split: if_splits)
  show "uncached a' j m1 = uncached a' j m" using ps strip by (simp add: uncached_def att)
  show "j \<noteq> i \<Longrightarrow> objectClasses m1 ! j = objectClasses m ! j" by (simp add: m1_def)
  show "in_cum c' a' j m1 = (if c' = c \<and> a' = a \<and> j = i then b else in_cum c' a' j m)"
    using ps mem by (simp add: in_cum_def att)
  show "changed \<longleftrightarrow> in_cum c a i m \<noteq> b" using ps ch by (simp add: in_cum_def)
  show "objectInstanceList (objectClasses m1 ! j) = objectInstanceList (objectClasses m ! j)"
    using i by (cases "j = i") (simp_all add: m1_def)
qed

definition upd_frame :: "ConnectHandle \<Rightarrow> AttributeHandle \<Rightarrow> nat \<Rightarrow> ObjectModel \<Rightarrow> ObjectModel \<Rightarrow> bool" where
  "upd_frame c a n m m' \<longleftrightarrow>
     model_frame m' = model_frame m \<and>
     (\<forall>a' j. uncached a' j m' = uncached a' j m) \<and>
     (\<forall>j < n. objectClasses m' ! j = objectClasses m ! j) \<and>
     (\<forall>c' a' j. (c', a') \<noteq> (c, a) \<longrightarrow> in_cum c' a' j m' = in_cum c' a' j m) \<and>
     (\<forall>c' a' h. (c', a') \<noteq> (c, a) \<or> owner_of a' h m = Some c' \<longrightarrow> receives c' a' h m' = receives c' a' h m)"

definition upd_rel :: "ConnectHandle \<Rightarrow> AttributeHandle \<Rightarrow> nat \<Rightarrow> ObjectModel \<Rightarrow> ObjectModel \<Rightarrow> bool" where
  "upd_rel c a n m m' \<longleftrightarrow> upd_frame c a n m m' \<and>
     (a \<noteq> privilegeToDelete \<longrightarrow> lists_disjoint m \<longrightarrow>
       (\<forall>j < length (objectClasses m). \<forall>h \<in> set (objectInstanceList (objectClasses m ! j)).
          in_sync c a m j h \<longrightarrow> in_sync c a m' j h))"

lemma lists_disjoint_frame:
  assumes "model_frame m' = model_frame m"
  shows "lists_disjoint m' = lists_disjoint m"
  using model_frame_class[OF assms] model_frame_parts(1)[OF assms]
  by (auto simp: lists_disjoint_def class_frame_def)

lemma upd_rel_refl: "upd_rel c a n m m"
  by (simp add: upd_rel_def upd_frame_def)

lemma upd_frame_trans: "upd_frame c a n m m' \<Longrightarrow> upd_frame c a n m' m'' \<Longrightarrow> upd_frame c a n m m''"
  unfolding upd_frame_def by (simp add: model_frame_owner[of m' m])

lemma upd_rel_trans: "upd_rel c a n m m' \<Longrightarrow> upd_rel c a n m' m'' \<Longrightarrow> upd_rel c a n m m''"
  using lists_disjoint_frame[of m' m] model_frame_parts(1)[of m' m] upd_frame_trans[of c a n m m' m'']
    model_frame_class[of m' m]
  unfolding upd_rel_def by (simp add: upd_frame_def class_frame_def)

lemma upd_rel_mono: "upd_rel c a n m m' \<Longrightarrow> k \<le> n \<Longrightarrow> upd_rel c a k m m'"
  by (auto simp: upd_rel_def upd_frame_def)

lemma fold_bind_rel:
  assumes "fold (\<lambda>k r. Option.bind r (f k)) ks (Some s) = Some s'"
    and "\<And>k s s'. k \<in> set ks \<Longrightarrow> P s \<Longrightarrow> f k s = Some s' \<Longrightarrow> R s s' \<and> P s'"
    and "\<And>s. R s s" "\<And>s s' s''. R s s' \<Longrightarrow> R s' s'' \<Longrightarrow> R s s''" and "P s"
  shows "R s s' \<and> P s'"
  using assms(1,2,5)
proof (induction ks arbitrary: s)
  case (Cons k ks)
  show ?case
  proof (cases "f k s")
    case None
    have "fold (\<lambda>k r. Option.bind r (f k)) ks None = None" by (induction ks) simp_all
    then show ?thesis using Cons.prems None by simp
  next
    case (Some s1)
    then have "R s s1 \<and> P s1" using Cons.prems(2)[of k s s1] Cons.prems(3) by simp
    moreover have "R s1 s' \<and> P s'"
      using Cons.prems Some calculation by (intro Cons.IH) auto
    ultimately show ?thesis using assms(4) by blast
  qed
qed (use assms(3) in auto)

text \<open>A class that is out of step is in step again after the loop over its instances.\<close>

lemma route_class_rel:
  assumes classes: "i < length (objectClasses m1)" "upd_frame c a i m m1"
    and others: "\<And>j h. j < length (objectClasses m) \<Longrightarrow> j \<noteq> i \<Longrightarrow> a \<noteq> privilegeToDelete \<Longrightarrow>
      h \<in> set (objectInstanceList (objectClasses m ! j)) \<Longrightarrow>
      lists_disjoint m \<Longrightarrow> in_sync c a m j h \<Longrightarrow> in_sync c a m1 j h"
    and b: "in_cum c a i m1 = b"
  shows "upd_rel c a i m (fst (fold (route_instance c a b) (objectInstanceList (objectClasses m1 ! i)) (m1, found)))"
proof -
  let ?hs = "objectInstanceList (objectClasses m1 ! i)"
  let ?m2 = "fst (fold (route_instance c a b) ?hs (m1, found))"
  have cls: "objectClasses ?m2 = objectClasses m1" and fr: "model_frame ?m2 = model_frame m1"
    using route_instances_frame[of c a b ?hs "(m1, found)"] by simp_all
  note rec = route_instances[of _ _ _ c a b ?hs "(m1, found)", unfolded fst_conv]
  have rec': "receives c' a' h ?m2 = receives c' a' h m1" if "(c', a') \<noteq> (c, a) \<or> owner_of a' h m = Some c'" for c' a' h
    using that classes(2) model_frame_owner[of m1 m] by (auto simp: rec routable_def upd_frame_def)
  have cum: "in_cum c' a' j ?m2 = in_cum c' a' j m1" for c' a' j by (simp add: in_cum_def cls)
  have own: "owner_of a' h ?m2 = owner_of a' h m1"
    "(instance_attribute a' h ?m2 = None) = (instance_attribute a' h m1 = None)" for a' h
    using model_frame_owner[OF fr] model_frame_attribute[OF fr] by auto
  have frm: "model_frame m1 = model_frame m" using classes(2) by (simp add: upd_frame_def)
  have "in_sync c a ?m2 j h"
    if j: "j < length (objectClasses m)" and a: "a \<noteq> privilegeToDelete"
      and h: "h \<in> set (objectInstanceList (objectClasses m ! j))"
      and dis: "lists_disjoint m" and sync: "in_sync c a m j h" for j h
  proof -
    have h1: "h \<in> set (objectInstanceList (objectClasses m1 ! j))"
      using h model_frame_class[OF frm j] by (simp add: class_frame_def)
    show ?thesis
    proof (cases "j = i")
      case True
      then show ?thesis using a h1 b by (simp add: in_sync_def cls cum own rec routable_def)
    next
      case False
      have "lists_disjoint m1" using lists_disjoint_frame[OF frm] dis by simp
      then have "h \<notin> set ?hs"
        using h1 False classes(1) j model_frame_parts(1)[OF frm] unfolding lists_disjoint_def by fastforce
      then show ?thesis using others[OF j False a h dis sync] by (simp add: in_sync_def cls cum own rec)
    qed
  qed
  then show ?thesis
    using classes(2) fr cls cum rec' unfolding upd_rel_def upd_frame_def uncached_def by simp
qed

lemma object_update_cumulative_rel:
  "object_update_cumulative parents c a subscribe i s = Some s' \<Longrightarrow> i < length parents \<Longrightarrow>
   length parents = length (objectClasses (fst s)) \<Longrightarrow> upd_rel c a i (fst s) (fst s')"
proof (induction "length parents - i" arbitrary: i subscribe s s' rule: less_induct)
  case less
  let ?m = "fst s"
  have i: "i < length (objectClasses ?m)" using less.prems by simp
  obtain ps where ps: "getClassAttribute a (objectClasses ?m ! i) = Some ps"
    using less.prems(1) by (subst (asm) object_update_cumulative.simps) (auto split: option.splits)
  define b where "b \<longleftrightarrow> subscribe \<or> getSubscriptionType c ps \<noteq> Unsubscribed"
  obtain changed ps' where ps': "updateCumulativeSubscribedConnectHandleSet c b ps = (changed, ps')"
    by (cases "updateCumulativeSubscribedConnectHandleSet c b ps")
  define m1 where "m1 = ?m\<lparr>objectClasses := (objectClasses ?m)[i := set_class_attribute a ps' (objectClasses ?m ! i)]\<rparr>"
  note set1 = cache_set[OF i ps ps', folded m1_def]
  let ?ks = "childInteractionClassList parents i"
  let ?walk = "fold (\<lambda>k r. Option.bind r (object_update_cumulative parents c a b k)) ?ks (Some (m1, snd s))"
  have "object_update_cumulative parents c a subscribe i s = (if \<not> changed then Some (m1, snd s)
      else map_option (\<lambda>s''. fold (route_instance c a b) (objectInstanceList (objectClasses (fst s'') ! i)) s'') ?walk)"
    unfolding object_update_cumulative.simps[of parents c a subscribe i s] ps option.case Let_def
      b_def[symmetric] ps' prod.case m1_def[symmetric] fst_conv by (rule refl)
  with less.prems(1) have step: "(if \<not> changed then Some (m1, snd s)
      else map_option (\<lambda>s''. fold (route_instance c a b) (objectInstanceList (objectClasses (fst s'') ! i)) s'') ?walk) =
      Some s'" by simp
  have sync1: "in_sync c a m1 j h = in_sync c a ?m j h" if "j \<noteq> i" for j h
    using that by (simp add: in_sync_def set1) (simp add: m1_def)
  have frame1: "upd_frame c a i ?m m1" using set1 by (auto simp: upd_frame_def m1_def)
  have rel1: "upd_rel c a i ?m m1 \<or> changed"
  proof -
    have "in_sync c a m1 j h = in_sync c a ?m j h" if "\<not> changed" for j h
      using that set1 by (simp add: in_sync_def) (simp add: m1_def)
    then show ?thesis using frame1 by (auto simp: upd_rel_def)
  qed
  show ?case
  proof (cases changed)
    case False
    then show ?thesis using step rel1 by auto
  next
    case True
    with step obtain s2 where s2: "?walk = Some s2"
      "s' = fold (route_instance c a b) (objectInstanceList (objectClasses (fst s2) ! i)) s2" by auto
    have "upd_rel c a (Suc i) (fst (m1, snd s)) (fst s2) \<and> length parents = length (objectClasses (fst s2))"
    proof (rule fold_bind_rel[OF s2(1), where R = "\<lambda>s s'. upd_rel c a (Suc i) (fst s) (fst s')"])
      fix k t t' assume k: "k \<in> set ?ks" and P: "length parents = length (objectClasses (fst t))"
        and t: "object_update_cumulative parents c a b k t = Some t'"
      have "i < k" "k < length parents" using k by (auto simp: childInteractionClassList_def)
      then have "upd_rel c a k (fst t) (fst t')" using less.hyps[OF _ t _ P] by simp
      then show "upd_rel c a (Suc i) (fst t) (fst t') \<and> length parents = length (objectClasses (fst t'))"
        using \<open>i < k\<close> P model_frame_parts(1)[of "fst t'" "fst t"] by (auto intro: upd_rel_mono simp: upd_rel_def upd_frame_def)
    qed (use less.prems(3) set1(1) model_frame_parts(1)[of m1 ?m] upd_rel_refl upd_rel_trans in auto)
    then have rel2: "upd_rel c a (Suc i) m1 (fst s2)" and len: "length (objectClasses (fst s2)) = length parents"
      by simp_all
    have same: "objectClasses (fst s2) ! i = objectClasses m1 ! i" using rel2 by (simp add: upd_rel_def upd_frame_def)
    then have b2: "in_cum c a i (fst s2) = b" using set1(4)[of c a i] by (simp add: in_cum_def)
    have "upd_rel c a i ?m (fst (fold (route_instance c a b) (objectInstanceList (objectClasses (fst s2) ! i)) (fst s2, snd s2)))"
    proof (rule route_class_rel[OF _ _ _ b2])
      have "upd_frame c a i m1 (fst s2)" using rel2 upd_rel_mono[of c a "Suc i" m1 "fst s2" i] by (simp add: upd_rel_def)
      with frame1 show "upd_frame c a i ?m (fst s2)" by (rule upd_frame_trans)
      fix j h assume "j < length (objectClasses ?m)" "j \<noteq> i" "a \<noteq> privilegeToDelete"
        "h \<in> set (objectInstanceList (objectClasses ?m ! j))" "lists_disjoint ?m" "in_sync c a ?m j h"
      then show "in_sync c a (fst s2) j h"
        using rel2 sync1 lists_disjoint_frame[OF set1(1)] model_frame_parts(1)[OF set1(1)]
        by (simp add: upd_rel_def set1(6))
    qed (use len less.prems(2) in simp)
    then show ?thesis using s2(2) by simp
  qed
qed

section \<open>One attribute of all classes\<close>

text \<open>
  For one attribute the object classes are a forest like that of the interaction classes, with the
  classes that have the attribute as its nodes, and the update is the one of interactions.
\<close>

definition has_attribute :: "AttributeHandle \<Rightarrow> ObjectClass \<Rightarrow> bool" where
  "has_attribute a oc \<longleftrightarrow> a \<in> fst ` set (classAttributes oc)"

definition attribute_parent :: "AttributeHandle \<Rightarrow> ObjectClass list \<Rightarrow> ObjectClass \<Rightarrow> nat option" where
  "attribute_parent a classes oc = (case parentObjectClass oc of
     None \<Rightarrow> None | Some p \<Rightarrow> if has_attribute a oc \<and> has_attribute a (classes ! p) then Some p else None)"

definition attribute_class :: "nat option \<Rightarrow> PublishSubscribe option \<Rightarrow> InteractionClass" where
  "attribute_class parent ps = PublishSubscribe.extend (case ps of None \<Rightarrow> no_connects | Some ps \<Rightarrow> ps)
     \<lparr>interactionClassHandle = 0, parentInteractionClass = parent, parameterHandleClassParameterMap = [],
      interactionFilters = no_filters\<rparr>"

definition attribute_view :: "AttributeHandle \<Rightarrow> ObjectModel \<Rightarrow> InteractionClass list" where
  "attribute_view a m = map (\<lambda>oc. attribute_class (attribute_parent a (objectClasses m) oc) (getClassAttribute a oc))
     (objectClasses m)"

definition inherits :: "ObjectModel \<Rightarrow> bool" where
  [inv_defs]: "inherits m \<longleftrightarrow> classes_tree (object_parents m) \<and>
     (\<forall>i < length (objectClasses m). \<forall>p. parentObjectClass (objectClasses m ! i) = Some p \<longrightarrow>
       fst ` set (classAttributes (objectClasses m ! p)) \<subseteq> fst ` set (classAttributes (objectClasses m ! i)))"

lemma has_attribute_iff: "has_attribute a oc \<longleftrightarrow> getClassAttribute a oc \<noteq> None"
  by (simp add: has_attribute_def getClassAttribute_def map_of_eq_None_iff)

lemma attribute_class_simps [simp]:
  "parentInteractionClass (attribute_class p ps) = p"
  "getSubscriptionType c (attribute_class p (Some ps')) = getSubscriptionType c ps'"
  "updateCumulativeSubscribedConnectHandleSet c b (attribute_class p (Some ps')) =
     (fst (updateCumulativeSubscribedConnectHandleSet c b ps'),
      attribute_class p (Some (snd (updateCumulativeSubscribedConnectHandleSet c b ps'))))"
  by (simp_all add: attribute_class_def PublishSubscribe.defs getSubscriptionType_def
    updateCumulativeSubscribedConnectHandleSet_def Let_def)

lemma attribute_view_nth:
  "length (attribute_view a m) = length (objectClasses m)"
  "j < length (objectClasses m) \<Longrightarrow> attribute_view a m ! j =
     attribute_class (attribute_parent a (objectClasses m) (objectClasses m ! j)) (getClassAttribute a (objectClasses m ! j))"
  by (simp_all add: attribute_view_def)

text \<open>Classes and the attributes they have are part of the frame, so the forest is.\<close>

lemma frame_attributes:
  assumes "model_frame m' = model_frame m" "j < length (objectClasses m)"
  shows "has_attribute a (objectClasses m' ! j) = has_attribute a (objectClasses m ! j)"
    "parentObjectClass (objectClasses m' ! j) = parentObjectClass (objectClasses m ! j)"
    "fst ` set (classAttributes (objectClasses m' ! j)) = fst ` set (classAttributes (objectClasses m ! j))"
    "objectInstanceList (objectClasses m' ! j) = objectInstanceList (objectClasses m ! j)"
    "objectClassHandle (objectClasses m' ! j) = objectClassHandle (objectClasses m ! j)"
proof -
  have f: "class_frame (objectClasses m' ! j) = class_frame (objectClasses m ! j)"
    using model_frame_class[OF assms] .
  then have k: "set (map fst (classAttributes (objectClasses m' ! j))) = set (map fst (classAttributes (objectClasses m ! j)))"
    by (simp add: class_frame_def)
  then show "fst ` set (classAttributes (objectClasses m' ! j)) = fst ` set (classAttributes (objectClasses m ! j))" by simp
  then show "has_attribute a (objectClasses m' ! j) = has_attribute a (objectClasses m ! j)" by (simp add: has_attribute_def)
  show "parentObjectClass (objectClasses m' ! j) = parentObjectClass (objectClasses m ! j)"
    "objectInstanceList (objectClasses m' ! j) = objectInstanceList (objectClasses m ! j)"
    "objectClassHandle (objectClasses m' ! j) = objectClassHandle (objectClasses m ! j)"
    using f by (simp_all add: class_frame_def)
qed

lemma inherits_parent:
  assumes "inherits m" "j < length (objectClasses m)" "parentObjectClass (objectClasses m ! j) = Some p"
  shows "p < j" "has_attribute a (objectClasses m ! p) \<Longrightarrow> has_attribute a (objectClasses m ! j)"
proof -
  have "object_parents m ! j = Some p" using assms by (simp add: object_parents_def)
  then show "p < j" using assms(1,2) by (simp add: inherits_def classes_tree_def object_parents_def)
  show "has_attribute a (objectClasses m ! p) \<Longrightarrow> has_attribute a (objectClasses m ! j)"
    using assms unfolding inherits_def has_attribute_def by blast
qed

lemma inherits_frame:
  assumes "model_frame m' = model_frame m" "inherits m"
  shows "inherits m'"
  unfolding inherits_def
proof (intro conjI allI impI)
  show "classes_tree (object_parents m')"
    using assms(2) model_frame_parts(2)[OF assms(1)] by (simp add: inherits_def)
  fix i p assume i: "i < length (objectClasses m')" and p: "parentObjectClass (objectClasses m' ! i) = Some p"
  have i': "i < length (objectClasses m)" using i model_frame_parts(1)[OF assms(1)] by simp
  have p': "parentObjectClass (objectClasses m ! i) = Some p" using p frame_attributes(2)[OF assms(1) i'] by simp
  have "p < length (objectClasses m)" using inherits_parent(1)[OF assms(2) i' p'] i' by simp
  then show "fst ` set (classAttributes (objectClasses m' ! p)) \<subseteq> fst ` set (classAttributes (objectClasses m' ! i))"
    using assms(2) i' p' by (simp add: frame_attributes(3)[OF assms(1)] inherits_def)
qed

lemma attribute_parent_frame:
  assumes "model_frame m' = model_frame m" "inherits m" "j < length (objectClasses m)"
  shows "attribute_parent a (objectClasses m') (objectClasses m' ! j) =
    attribute_parent a (objectClasses m) (objectClasses m ! j)"
  using frame_attributes[OF assms(1)] assms(3) inherits_parent(1)[OF assms(2,3)]
  by (auto simp: attribute_parent_def split: option.split)

lemma class_parents_frame:
  assumes "model_frame m' = model_frame m" "inherits m"
  shows "class_parents (attribute_view a m') = class_parents (attribute_view a m)"
  using attribute_parent_frame[OF assms] model_frame_parts(1)[OF assms(1)]
  by (intro nth_equalityI) (simp_all add: attribute_view_nth)

lemma children_view:
  assumes "inherits m" "has_attribute a (objectClasses m ! i)"
  shows "childInteractionClassList (class_parents (attribute_view a m)) i = childInteractionClassList (object_parents m) i"
proof -
  have "class_parents (attribute_view a m) ! j = Some i \<longleftrightarrow> object_parents m ! j = Some i"
    if j: "j < length (objectClasses m)" for j
    using inherits_parent[OF assms(1) j] assms(2) j
    by (auto simp: attribute_view_nth object_parents_def attribute_parent_def split: option.splits if_splits)
  then show ?thesis
    by (auto simp: childInteractionClassList_def attribute_view_nth object_parents_def intro!: filter_cong)
qed

lemma fold_bind_view:
  assumes "\<And>k s. k \<in> set ks \<Longrightarrow> P s \<Longrightarrow> \<exists>s'. f k s = Some s' \<and> P s' \<and> V s' = g k (V s)" and "P s"
  shows "\<exists>s'. fold (\<lambda>k r. Option.bind r (f k)) ks (Some s) = Some s' \<and> P s' \<and> V s' = fold g ks (V s)"
  using assms
proof (induction ks arbitrary: s)
  case (Cons k ks)
  from Cons.prems(1)[of k s] Cons.prems(2) obtain s1 where s1: "f k s = Some s1" "P s1" "V s1 = g k (V s)" by auto
  have "\<exists>s'. fold (\<lambda>k r. Option.bind r (f k)) ks (Some s1) = Some s' \<and> P s' \<and> V s' = fold g ks (V s1)"
    by (rule Cons.IH[OF _ s1(2)]) (simp add: Cons.prems(1))
  then show ?case using s1 by simp
qed simp

lemma view_set:
  assumes i: "i < length (objectClasses m)" and ps: "getClassAttribute a (objectClasses m ! i) = Some ps"
  shows "attribute_view a (m\<lparr>objectClasses := (objectClasses m)[i := set_class_attribute a ps' (objectClasses m ! i)]\<rparr>) =
    (attribute_view a m)[i := attribute_class (parentInteractionClass (attribute_view a m ! i)) (Some ps')]"
proof -
  let ?cs = "(objectClasses m)[i := set_class_attribute a ps' (objectClasses m ! i)]"
  have has: "has_attribute a (?cs ! j) = has_attribute a (objectClasses m ! j)"
    "parentObjectClass (?cs ! j) = parentObjectClass (objectClasses m ! j)" for j
    using i by (cases "j = i"; simp add: has_attribute_iff getClassAttribute_set; simp add: set_class_attribute_def)+
  have "attribute_parent a ?cs (?cs ! j) = attribute_parent a (objectClasses m) (objectClasses m ! j)" for j
    by (simp add: attribute_parent_def has split: option.split)
  moreover have "getClassAttribute a (?cs ! j) =
      (if j = i then Some ps' else getClassAttribute a (objectClasses m ! j))" for j
    using i ps by (cases "j = i") (simp_all add: getClassAttribute_set)
  ultimately show ?thesis
    using i by (intro nth_equalityI) (auto simp: attribute_view_nth nth_list_update)
qed

lemma update_view:
  assumes inh: "inherits m0"
  shows "model_frame (fst s) = model_frame m0 \<Longrightarrow> i < length (objectClasses m0) \<Longrightarrow>
    has_attribute a (objectClasses m0 ! i) \<Longrightarrow>
    \<exists>s'. object_update_cumulative (object_parents m0) c a subscribe i s = Some s' \<and>
      model_frame (fst s') = model_frame m0 \<and>
      attribute_view a (fst s') =
        update_cumulative (class_parents (attribute_view a m0)) c subscribe i (attribute_view a (fst s))"
proof (induction "length (objectClasses m0) - i" arbitrary: i subscribe s rule: less_induct)
  case less
  let ?m = "fst s" and ?V = "\<lambda>s :: ObjectModel \<times> ObjectInstanceHandle list. attribute_view a (fst s)"
  have i: "i < length (objectClasses ?m)" using less.prems model_frame_parts(1)[OF less.prems(1)] by simp
  have "has_attribute a (objectClasses ?m ! i)"
    using frame_attributes(1)[OF less.prems(1,2)] less.prems(3) by simp
  then obtain ps where ps: "getClassAttribute a (objectClasses ?m ! i) = Some ps" by (auto simp: has_attribute_iff)
  define b where "b \<longleftrightarrow> subscribe \<or> getSubscriptionType c ps \<noteq> Unsubscribed"
  obtain changed ps' where ps': "updateCumulativeSubscribedConnectHandleSet c b ps = (changed, ps')"
    by (cases "updateCumulativeSubscribedConnectHandleSet c b ps")
  define m1 where "m1 = ?m\<lparr>objectClasses := (objectClasses ?m)[i := set_class_attribute a ps' (objectClasses ?m ! i)]\<rparr>"
  let ?ks = "childInteractionClassList (object_parents m0) i"
  let ?walk = "fold (\<lambda>k r. Option.bind r (object_update_cumulative (object_parents m0) c a b k)) ?ks (Some (m1, snd s))"
  have run: "object_update_cumulative (object_parents m0) c a subscribe i s = (if \<not> changed then Some (m1, snd s)
      else map_option (\<lambda>s''. fold (route_instance c a b) (objectInstanceList (objectClasses (fst s'') ! i)) s'') ?walk)"
    unfolding object_update_cumulative.simps[of "object_parents m0" c a subscribe i s] ps option.case Let_def
      b_def[symmetric] ps' prod.case m1_def[symmetric] fst_conv by (rule refl)
  have f1: "model_frame m1 = model_frame m0"
    using cache_set(1)[OF i ps ps'] less.prems(1) by (simp add: m1_def)
  have v: "?V s ! i = attribute_class (attribute_parent a (objectClasses ?m) (objectClasses ?m ! i)) (Some ps)"
    using i ps by (simp add: attribute_view_nth)
  let ?ic = "attribute_class (parentInteractionClass (?V s ! i)) (Some ps')"
  have upd: "update_cumulative (class_parents (attribute_view a m0)) c subscribe i (?V s) =
      (if \<not> changed then attribute_view a m1
       else fold (update_cumulative (class_parents (attribute_view a m0)) c b) ?ks (attribute_view a m1))"
    using ps' by (subst update_cumulative.simps)
      (simp add: v b_def[symmetric] Let_def m1_def view_set[OF i ps] children_view[OF inh less.prems(3)])
  have "\<exists>s'. ?walk = Some s' \<and> model_frame (fst s') = model_frame m0 \<and>
      ?V s' = fold (update_cumulative (class_parents (attribute_view a m0)) c b) ?ks (?V (m1, snd s))"
  proof (rule fold_bind_view)
    fix k and t :: "ObjectModel \<times> ObjectInstanceHandle list"
    assume k: "k \<in> set ?ks" and t: "model_frame (fst t) = model_frame m0"
    have k': "i < k" "k < length (objectClasses m0)" "parentObjectClass (objectClasses m0 ! k) = Some i"
      using k by (auto simp: childInteractionClassList_def object_parents_def)
    have "has_attribute a (objectClasses m0 ! k)" using inherits_parent(2)[OF inh k'(2,3)] less.prems(3) by simp
    then show "\<exists>s'. object_update_cumulative (object_parents m0) c a b k t = Some s' \<and>
        model_frame (fst s') = model_frame m0 \<and>
        ?V s' = update_cumulative (class_parents (attribute_view a m0)) c b k (?V t)"
      using less.hyps[OF _ t k'(2)] k' by simp
  qed (use f1 in simp)
  then obtain s2 where s2: "?walk = Some s2" "model_frame (fst s2) = model_frame m0"
    "?V s2 = fold (update_cumulative (class_parents (attribute_view a m0)) c b) ?ks (attribute_view a m1)" by auto
  let ?s3 = "fold (route_instance c a b) (objectInstanceList (objectClasses (fst s2) ! i)) s2"
  have "model_frame (fst ?s3) = model_frame m0" "?V ?s3 = ?V s2"
    using route_instances_frame[of c a b _ s2] s2(2) by (simp_all add: attribute_view_def)
  then show ?case unfolding run upd using s2 f1 by (cases changed) (simp_all del: split_paired_Ex)
qed

end
