(* ===== verification/Object_Routing.thy ===== *)
theory Object_Routing
  imports Object_Model
begin

text \<open>
  The handlers of \<open>FederationServer\<close> (\<open>src/OpenRTI/ServerNode.cpp\<close>) for publications and
  subscriptions of object classes, for object instances and their names, and for attribute updates,
  requests and queries. They read the federation and change its object model. \<open>Inl\<close> is a thrown
  \<open>MessageError\<close>, a handle allocator without handles or a null pointer the code follows.
\<close>

text \<open>
  A \<open>std::map\<close> from connects to vectors that is filled by \<open>push_back\<close>: the pairs are the calls.
\<close>

definition by_connect :: "(ConnectHandle \<times> 'a) list \<Rightarrow> (ConnectHandle \<times> 'a list) list" where
  "by_connect calls = map (\<lambda>c. (c, map snd (filter (\<lambda>(d, _). d = c) calls))) (sort (remdups (map fst calls)))"

definition is_parent :: "Federation \<Rightarrow> ConnectHandle \<Rightarrow> bool" where
  "is_parent f c \<longleftrightarrow> (case parentConnect f of None \<Rightarrow> False | Some (p, _) \<Rightarrow> p = c)"

definition set_object_attribute :: "nat \<Rightarrow> AttributeHandle \<Rightarrow> PublishSubscribe \<Rightarrow> ObjectModel \<Rightarrow> ObjectModel" where
  "set_object_attribute i a ps m = m\<lparr>objectClasses :=
     (objectClasses m)[i := set_class_attribute a ps (objectClasses m ! i)]\<rparr>"

section \<open>Publications and subscriptions of a class\<close>

text \<open>The lists the loop over the attributes builds up beside the state.\<close>

record publication_lists =
  broadcastAttributeHandles :: AttributeHandleVector
  sendAttributeHandles :: "(ConnectHandle \<times> AttributeHandle) list"
  passiveSubscribeAttributeHandles :: AttributeHandleVector
  activeSubscribeAttributeHandles :: AttributeHandleVector

definition publish_attribute ::
    "ConnectHandle \<Rightarrow> PublicationType \<Rightarrow> nat \<Rightarrow> AttributeHandle
      \<Rightarrow> ObjectModel \<times> publication_lists \<Rightarrow> ObjectModel \<times> publication_lists" where
  "publish_attribute c publicationType i a = (\<lambda>(m, ls).
     (case getClassAttribute a (objectClasses m ! i) of
        None \<Rightarrow> (m, ls)
      | Some attribute \<Rightarrow>
          (let (propagation, attribute) = setPublicationType c publicationType attribute;
               ls = (case propagation of
                   (PropagateBroadcast, _) \<Rightarrow>
                     ls\<lparr>broadcastAttributeHandles := broadcastAttributeHandles ls @ [a]\<rparr>
                 | (PropagateSend, d) \<Rightarrow> ls\<lparr>sendAttributeHandles := sendAttributeHandles ls @ [(d, a)]\<rparr>
                 | (PropagateNone, _) \<Rightarrow> ls);
               ls = (case getSubscriptionTypeToConnect c attribute of
                   Unsubscribed \<Rightarrow> ls
                 | SubscribedPassive \<Rightarrow>
                     ls\<lparr>passiveSubscribeAttributeHandles := passiveSubscribeAttributeHandles ls @ [a]\<rparr>
                 | SubscribedActive \<Rightarrow>
                     ls\<lparr>activeSubscribeAttributeHandles := activeSubscribeAttributeHandles ls @ [a]\<rparr>)
           in (set_object_attribute i a attribute m, ls))))"

definition object_subscription_message ::
    "Federation \<Rightarrow> ObjectClass \<Rightarrow> SubscriptionType \<Rightarrow> AttributeHandleVector \<Rightarrow> message" where
  "object_subscription_message f oc subscriptionType attributeHandles =
     message.ChangeObjectClassSubscriptionMessage
       \<lparr>ChangeObjectClassSubscriptionMessage_federationHandle = federationHandle f,
        ChangeObjectClassSubscriptionMessage_subscriptionType = subscriptionType,
        ChangeObjectClassSubscriptionMessage_objectClassHandle = objectClassHandle oc,
        ChangeObjectClassSubscriptionMessage_attributeHandles = attributeHandles\<rparr>"

definition acceptChangeObjectClassPublication ::
    "ConnectHandle \<Rightarrow> ChangeObjectClassPublicationMessage \<Rightarrow> Federation \<Rightarrow> ObjectModel \<Rightarrow> object_handled" where
  "acceptChangeObjectClassPublication c msg f m =
     (let t = ChangeObjectClassPublicationMessage_publicationType msg;
          attributes = ChangeObjectClassPublicationMessage_attributeHandles msg
      in case getObjectClass (ChangeObjectClassPublicationMessage_objectClassHandle msg) m of
        None \<Rightarrow> Inr (m, [])
      | Some i \<Rightarrow>
          (let oc = objectClasses m ! i;
               metric = Metric c (if t = Unpublished then objectClassUnpublished (objectClassHandle oc) attributes
                  else objectClassPublished (objectClassHandle oc) attributes);
               (m', ls) = fold (publish_attribute c t i) attributes
                  (m, \<lparr>broadcastAttributeHandles = [], sendAttributeHandles = [],
                       passiveSubscribeAttributeHandles = [], activeSubscribeAttributeHandles = []\<rparr>);
               request = (\<lambda>as. message.ChangeObjectClassPublicationMessage
                  (msg\<lparr>ChangeObjectClassPublicationMessage_attributeHandles := as\<rparr>));
               passive = passiveSubscribeAttributeHandles ls;
               active = activeSubscribeAttributeHandles ls;
               existing = (\<lambda>s as. if as = [] then [] else
                  fed_send f c (object_subscription_message f oc (if t = Published then s else Unsubscribed) as))
           in Inr (m', metric #
                (if broadcastAttributeHandles ls = [] then []
                 else broadcast_except f c (request (broadcastAttributeHandles ls))) @
                concat (map (\<lambda>(d, as). fed_send f d (request as)) (by_connect (sendAttributeHandles ls))) @
                existing SubscribedPassive passive @ existing SubscribedActive active)))"

text \<open>
  The loop of the subscription handler: the object model with the instances that are new to the
  connect, and the attributes for each publisher. \<open>None\<close> is a null pointer.
\<close>

definition subscribe_attribute ::
    "ConnectHandle \<Rightarrow> SubscriptionType \<Rightarrow> nat \<Rightarrow> AttributeHandle
      \<Rightarrow> (ObjectModel \<times> ObjectInstanceHandle list) \<times> (ConnectHandle \<times> AttributeHandle) list
      \<Rightarrow> ((ObjectModel \<times> ObjectInstanceHandle list) \<times> (ConnectHandle \<times> AttributeHandle) list) option" where
  "subscribe_attribute c subscriptionType i a = (\<lambda>((m, new), sends).
     (case getClassAttribute a (objectClasses m ! i) of
        None \<Rightarrow> Some ((m, new), sends)
      | Some attribute \<Rightarrow>
          (let (propagation, attribute) = setSubscriptionType c subscriptionType attribute;
               sends' = (case propagation of
                   (PropagateNone, _) \<Rightarrow> []
                 | (PropagateBroadcast, _) \<Rightarrow> map (\<lambda>d. (d, a)) (filter (\<lambda>d. d \<noteq> c)
                     (sorted_list_of_fset (publishedConnects attribute)))
                 | (PropagateSend, d) \<Rightarrow> if getPublicationType d attribute = Published then [(d, a)] else [])
           in map_option (\<lambda>s. (s, sends @ sends'))
                (object_updateCumulativeSubscription c a i (set_object_attribute i a attribute m, new)))))"

definition insert_message :: "Federation \<Rightarrow> ObjectClass \<Rightarrow> ObjectInstanceHandle \<Rightarrow> ObjectInstance \<Rightarrow> message" where
  "insert_message f oc h oi = message.InsertObjectInstanceMessage
     \<lparr>InsertObjectInstanceMessage_federationHandle = federationHandle f,
      InsertObjectInstanceMessage_objectClassHandle = objectClassHandle oc,
      InsertObjectInstanceMessage_objectInstanceHandle = h,
      InsertObjectInstanceMessage_name = objectInstanceName oi,
      InsertObjectInstanceMessage_attributeStateVector = map (\<lambda>(a, ia).
        \<lparr>AttributeState_attributeHandle = a, AttributeState_ownerFederate = ownerFederate ia\<rparr>) (instanceAttributes oi)\<rparr>"

text \<open>An instance that is new to the connect. \<open>None\<close>: the connect, the instance or its class is null.\<close>

definition announce_instance ::
    "Federation \<Rightarrow> ConnectHandle \<Rightarrow> ObjectInstanceHandle \<Rightarrow> ObjectModel \<times> effect list
      \<Rightarrow> (ObjectModel \<times> effect list) option" where
  "announce_instance f c h = (\<lambda>(m, es).
     (case (map_of (federationConnects f) c, getObjectInstance h m) of
        (Some fc, Some oi) \<Rightarrow>
          (case objectClass oi of
             None \<Rightarrow> None
           | Some j \<Rightarrow>
               (let oi' = snd (setSubscriptionType c SubscribedPassive oi);
                    m' = update_instance h (\<lambda>_. oi') m
                in Some (if is_parent f c then m' else object_reference c h m',
                     es @ federation_connect_send c fc
                            (insert_message f (objectClasses m' ! j) h oi'))))
      | _ \<Rightarrow> None))"

definition acceptChangeObjectClassSubscription ::
    "ConnectHandle \<Rightarrow> ChangeObjectClassSubscriptionMessage \<Rightarrow> Federation \<Rightarrow> ObjectModel \<Rightarrow> object_handled" where
  "acceptChangeObjectClassSubscription c msg f m =
     (let t = ChangeObjectClassSubscriptionMessage_subscriptionType msg;
          attributes = ChangeObjectClassSubscriptionMessage_attributeHandles msg
      in case getObjectClass (ChangeObjectClassSubscriptionMessage_objectClassHandle msg) m of
        None \<Rightarrow> Inr (m, [])
      | Some i \<Rightarrow>
          (let h = objectClassHandle (objectClasses m ! i);
               metric = Metric c (if t = Unsubscribed then objectClassUnsubscribed h attributes
                  else objectClassSubscribed h attributes (t = SubscribedActive))
           in case fold (\<lambda>a r. Option.bind r (subscribe_attribute c t i a)) attributes (Some ((m, []), [])) of
                None \<Rightarrow> Inl UndefinedBehaviour
              | Some ((m', new), sends) \<Rightarrow>
                  (let propagated = concat (map (\<lambda>(d, as). fed_send f d
                         (message.ChangeObjectClassSubscriptionMessage
                            (msg\<lparr>ChangeObjectClassSubscriptionMessage_attributeHandles := as\<rparr>))) (by_connect sends))
                   in case (if t = Unsubscribed then Some (m', [])
                            else fold (\<lambda>h r. Option.bind r (announce_instance f c h)) new (Some (m', []))) of
                        None \<Rightarrow> Inl UndefinedBehaviour
                      | Some (m'', es) \<Rightarrow> Inr (m'', metric # propagated @ es))))"

definition acceptChangeObjectInstanceSubscription ::
    "ConnectHandle \<Rightarrow> ChangeObjectInstanceSubscriptionMessage \<Rightarrow> Federation \<Rightarrow> ObjectModel \<Rightarrow> object_handled" where
  "acceptChangeObjectInstanceSubscription c msg f m =
     (let h = ChangeObjectInstanceSubscriptionMessage_objectInstanceHandle msg
      in case getObjectClass (ChangeObjectInstanceSubscriptionMessage_objectClassHandle msg) m of
        None \<Rightarrow> Inr (m, [])
      | Some _ \<Rightarrow>
          (case getObjectInstance h m of
             None \<Rightarrow> Inl UndefinedBehaviour
           | Some oi \<Rightarrow>
               (let (propagation, oi) =
                      setSubscriptionType c (ChangeObjectInstanceSubscriptionMessage_subscriptionType msg) oi;
                    connects = (case propagation of
                        (PropagateNone, _) \<Rightarrow> {||}
                      | (PropagateBroadcast, _) \<Rightarrow> publishedConnects oi |-| {|c|}
                      | (PropagateSend, d) \<Rightarrow> if getPublicationType d oi = Published then {|d|} else {||})
                in Inr (update_instance h (\<lambda>_. oi) m,
                     send_set f connects (message.ChangeObjectInstanceSubscriptionMessage msg)))))"

section \<open>Object instance handles and names\<close>

text \<open>The loops that insert an instance for each handle and name and refer to it from a connect.\<close>

fun insert_instances ::
    "ConnectHandle \<Rightarrow> ObjectInstanceHandleNamePairVector \<Rightarrow> ObjectModel
      \<Rightarrow> handler_error + ObjectInstanceHandleNamePairVector \<times> ObjectModel" where
  "insert_instances c [] m = Inr ([], m)"
| "insert_instances c ((h, name) # pairs) m =
     (case insertObjectInstance h name m of
        Inl e \<Rightarrow> Inl e
      | Inr (h', m') \<Rightarrow>
          (case insert_instances c pairs (object_reference c h' m') of
             Inl e \<Rightarrow> Inl e
           | Inr (inserted, m'') \<Rightarrow> Inr ((h', instance_name h' name) # inserted, m'')))"

definition acceptObjectInstanceHandlesRequest ::
    "ConnectHandle \<Rightarrow> ObjectInstanceHandlesRequestMessage \<Rightarrow> Federation \<Rightarrow> ObjectModel \<Rightarrow> object_handled" where
  "acceptObjectInstanceHandlesRequest c msg f m =
     (if isRootServer f then
        (case map_of (federationConnects f) c of
           None \<Rightarrow> Inl UndefinedBehaviour
         | Some fc \<Rightarrow>
             (case insert_instances c (replicate (unat (ObjectInstanceHandlesRequestMessage_count msg)) (invalid_handle, [])) m of
                Inl e \<Rightarrow> Inl e
              | Inr (inserted, m') \<Rightarrow> Inr (m', federation_connect_send c fc
                  (message.ObjectInstanceHandlesResponseMessage
                    \<lparr>ObjectInstanceHandlesResponseMessage_federationHandle = ObjectInstanceHandlesRequestMessage_federationHandle msg,
                     ObjectInstanceHandlesResponseMessage_federateHandle = ObjectInstanceHandlesRequestMessage_federateHandle msg,
                     ObjectInstanceHandlesResponseMessage_objectInstanceHandleNamePairVector = inserted\<rparr>))))
      else Inr (m, sendToParent f (message.ObjectInstanceHandlesRequestMessage msg)))"

text \<open>
  The responses from the parent: \<open>pairs\<close> are the instances the node has to know now. A federate
  that has gone or resigns gets nothing.
\<close>

definition accept_instances ::
    "FederateHandle \<Rightarrow> ObjectInstanceHandleNamePairVector \<Rightarrow> message \<Rightarrow> Federation \<Rightarrow> ObjectModel \<Rightarrow> object_handled" where
  "accept_instances federateHandle pairs msg f m =
     (case map_of (federates f) federateHandle of
        None \<Rightarrow> Inl MessageError
      | Some federate \<Rightarrow>
          (case federationConnect federate of
             None \<Rightarrow> Inr (m, [])
           | Some c \<Rightarrow>
               (if resignPending federate then Inr (m, [])
                else case insert_instances c pairs m of
                    Inl e \<Rightarrow> Inl e
                  | Inr (_, m') \<Rightarrow> Inr (m', fed_send f c msg))))"

definition acceptObjectInstanceHandlesResponse ::
    "ObjectInstanceHandlesResponseMessage \<Rightarrow> Federation \<Rightarrow> ObjectModel \<Rightarrow> object_handled" where
  "acceptObjectInstanceHandlesResponse msg =
     accept_instances (ObjectInstanceHandlesResponseMessage_federateHandle msg)
       (ObjectInstanceHandlesResponseMessage_objectInstanceHandleNamePairVector msg)
       (message.ObjectInstanceHandlesResponseMessage msg)"

definition acceptReserveObjectInstanceNameResponse ::
    "ReserveObjectInstanceNameResponseMessage \<Rightarrow> Federation \<Rightarrow> ObjectModel \<Rightarrow> object_handled" where
  "acceptReserveObjectInstanceNameResponse msg =
     accept_instances (ReserveObjectInstanceNameResponseMessage_federateHandle msg)
       (if ReserveObjectInstanceNameResponseMessage_success msg
        then [ReserveObjectInstanceNameResponseMessage_objectInstanceHandleNamePair msg] else [])
       (message.ReserveObjectInstanceNameResponseMessage msg)"

definition acceptReserveMultipleObjectInstanceNameResponse ::
    "ReserveMultipleObjectInstanceNameResponseMessage \<Rightarrow> Federation \<Rightarrow> ObjectModel \<Rightarrow> object_handled" where
  "acceptReserveMultipleObjectInstanceNameResponse msg =
     accept_instances (ReserveMultipleObjectInstanceNameResponseMessage_federateHandle msg)
       (if ReserveMultipleObjectInstanceNameResponseMessage_success msg
        then ReserveMultipleObjectInstanceNameResponseMessage_objectInstanceHandleNamePairVector msg else [])
       (message.ReserveMultipleObjectInstanceNameResponseMessage msg)"

definition reserved_prefix :: "Wire_Types.String \<Rightarrow> bool" where
  "reserved_prefix name \<longleftrightarrow> take 3 name = map (\<lambda>ch. of_nat (of_char ch)) ''HLA''"

definition acceptReserveObjectInstanceNameRequest ::
    "ReserveObjectInstanceNameRequestMessage \<Rightarrow> Federation \<Rightarrow> ObjectModel \<Rightarrow> object_handled" where
  "acceptReserveObjectInstanceNameRequest msg f m =
     (let federateHandle = ReserveObjectInstanceNameRequestMessage_federateHandle msg;
          name = ReserveObjectInstanceNameRequestMessage_name msg;
          response = (\<lambda>pair success. message.ReserveObjectInstanceNameResponseMessage
            \<lparr>ReserveObjectInstanceNameResponseMessage_federationHandle = federationHandle f,
             ReserveObjectInstanceNameResponseMessage_federateHandle = federateHandle,
             ReserveObjectInstanceNameResponseMessage_objectInstanceHandleNamePair = pair,
             ReserveObjectInstanceNameResponseMessage_success = success\<rparr>)
      in case map_of (federates f) federateHandle of
        None \<Rightarrow> Inl MessageError
      | Some federate \<Rightarrow>
          (if \<not> ReserveObjectInstanceNameRequestMessage_isInternal msg \<and> reserved_prefix name
           then Inl MessageError
           else if isRootServer f then
             (case federationConnect federate of
                None \<Rightarrow> Inl UndefinedBehaviour
              | Some c \<Rightarrow>
                  (if isObjectInstanceNameInUse name m
                   then Inr (m, fed_send f c (response (invalid_handle, name) False))
                   else case insert_instances c [(invalid_handle, name)] m of
                       Inl e \<Rightarrow> Inl e
                     | Inr (inserted, m') \<Rightarrow> Inr (m', fed_send f c (response (hd inserted) True))))
           else Inr (m, sendToParent f (message.ReserveObjectInstanceNameRequestMessage msg))))"

definition acceptReserveMultipleObjectInstanceNameRequest ::
    "ReserveMultipleObjectInstanceNameRequestMessage \<Rightarrow> Federation \<Rightarrow> ObjectModel \<Rightarrow> object_handled" where
  "acceptReserveMultipleObjectInstanceNameRequest msg f m =
     (let federateHandle = ReserveMultipleObjectInstanceNameRequestMessage_federateHandle msg;
          names = ReserveMultipleObjectInstanceNameRequestMessage_nameList msg;
          unnamed = map (\<lambda>name. (invalid_handle, name)) names;
          response = (\<lambda>pairs success. message.ReserveMultipleObjectInstanceNameResponseMessage
            \<lparr>ReserveMultipleObjectInstanceNameResponseMessage_federationHandle = ReserveMultipleObjectInstanceNameRequestMessage_federationHandle msg,
             ReserveMultipleObjectInstanceNameResponseMessage_federateHandle = federateHandle,
             ReserveMultipleObjectInstanceNameResponseMessage_objectInstanceHandleNamePairVector = pairs,
             ReserveMultipleObjectInstanceNameResponseMessage_success = success\<rparr>)
      in case map_of (federates f) federateHandle of
        None \<Rightarrow> Inl MessageError
      | Some federate \<Rightarrow>
          (if list_ex reserved_prefix names then Inl MessageError
           else if isRootServer f then
             (case federationConnect federate of
                None \<Rightarrow> Inl UndefinedBehaviour
              | Some c \<Rightarrow>
                  (if list_ex (\<lambda>name. isObjectInstanceNameInUse name m) names
                   then Inr (m, fed_send f c (response unnamed False))
                   else case insert_instances c unnamed m of
                       Inl e \<Rightarrow> Inl e
                     | Inr (inserted, m') \<Rightarrow> Inr (m',
                         fed_send f c (response (map (\<lambda>((h, _), name). (h, name)) (zip inserted names)) True))))
           else Inr (m, sendToParent f (message.ReserveMultipleObjectInstanceNameRequestMessage msg))))"

text \<open>
  \<open>ReleaseMultipleObjectInstanceNameHandlePairsMessage\<close>: the loop collects the handles that were
  erased. A connect without a reference is the erased end iterator.
\<close>

definition forget_attributes :: "ConnectHandle \<Rightarrow> ObjectInstanceHandle \<Rightarrow> ObjectModel \<Rightarrow> ObjectModel" where
  "forget_attributes c h = update_instance h (instance_removeConnect c)"

fun release_instances ::
    "ConnectHandle \<Rightarrow> ObjectInstanceHandle list \<Rightarrow> ObjectModel
      \<Rightarrow> handler_error + ObjectInstanceHandle list \<times> ObjectModel" where
  "release_instances c [] m = Inr ([], m)"
| "release_instances c (h # hs) m =
     (if getObjectInstance h m = None then Inl MessageError
      else case object_unreference c h (forget_attributes c h m) of
          None \<Rightarrow> Inl UndefinedBehaviour
        | Some (unused, m') \<Rightarrow>
            (case release_instances c hs (if unused then erase_instance h m' else m') of
               Inl e \<Rightarrow> Inl e
             | Inr (released, m'') \<Rightarrow> Inr (if unused then h # released else released, m'')))"

definition release_message :: "Federation \<Rightarrow> ObjectInstanceHandle list \<Rightarrow> message" where
  "release_message f hs = message.ReleaseMultipleObjectInstanceNameHandlePairsMessage
     \<lparr>ReleaseMultipleObjectInstanceNameHandlePairsMessage_federationHandle = federationHandle f,
      ReleaseMultipleObjectInstanceNameHandlePairsMessage_objectInstanceHandleVector = hs\<rparr>"

definition acceptReleaseMultipleObjectInstanceNameHandlePairs ::
    "ConnectHandle \<Rightarrow> ReleaseMultipleObjectInstanceNameHandlePairsMessage \<Rightarrow> Federation \<Rightarrow> ObjectModel \<Rightarrow> object_handled" where
  "acceptReleaseMultipleObjectInstanceNameHandlePairs c msg f m =
     (case release_instances c (ReleaseMultipleObjectInstanceNameHandlePairsMessage_objectInstanceHandleVector msg) m of
        Inl e \<Rightarrow> Inl e
      | Inr (released, m') \<Rightarrow> Inr (m',
          if isRootServer f \<or> released = [] then [] else sendToParent f (release_message f released)))"

section \<open>Object instances\<close>

text \<open>
  The loop of the insert handler over the subscribers of the class: the instance is made for the
  first of them the node knows nothing of it from.
\<close>

definition insert_for_subscriber ::
    "Federation \<Rightarrow> ConnectHandle \<Rightarrow> InsertObjectInstanceMessage \<Rightarrow> ConnectHandle
      \<Rightarrow> handler_error + ObjectInstanceHandle option \<times> ObjectModel
      \<Rightarrow> handler_error + ObjectInstanceHandle option \<times> ObjectModel" where
  "insert_for_subscriber f c msg d r =
     (case r of
        Inl e \<Rightarrow> Inl e
      | Inr (oi, m) \<Rightarrow>
          (if is_parent f d \<or> d = c then Inr (oi, m)
           else case (case oi of
                   Some h \<Rightarrow> Inr (h, m)
                 | None \<Rightarrow> insertObjectInstance (InsertObjectInstanceMessage_objectInstanceHandle msg)
                     (InsertObjectInstanceMessage_name msg) m) of
               Inl e \<Rightarrow> Inl e
             | Inr (h, m') \<Rightarrow> Inr (Some h,
                 if map_of (federationConnects f) d = None then m' else object_reference d h m')))"

definition own_attribute ::
    "ConnectHandle \<Rightarrow> ObjectInstanceHandle \<Rightarrow> AttributeState \<Rightarrow> ObjectModel \<Rightarrow> ObjectModel option" where
  "own_attribute c h attributeState m =
     (case Option.bind (getObjectInstance h m) (getInstanceAttribute (AttributeState_attributeHandle attributeState)) of
        None \<Rightarrow> None
      | Some _ \<Rightarrow> Some (update_instance h (update_attribute (AttributeState_attributeHandle attributeState)
          (\<lambda>ia. (setOwnerConnectHandle c ia)\<lparr>ownerFederate := AttributeState_ownerFederate attributeState\<rparr>)) m))"

definition known_instance :: "ObjectInstanceHandle \<Rightarrow> ObjectModel \<Rightarrow> ObjectInstanceHandle option" where
  "known_instance h m = (if getObjectInstance h m = None then None else Some h)"

definition insert_in_class ::
    "Federation \<Rightarrow> ConnectHandle \<Rightarrow> InsertObjectInstanceMessage \<Rightarrow> nat \<Rightarrow> ObjectInstanceHandle \<Rightarrow> ObjectModel \<Rightarrow> object_handled" where
  "insert_in_class f c msg i h m =
     (let m1 = update_instance h (\<lambda>oi. snd (setPublicationType c Published oi)) m
      in case Option.bind (setObjectClass i h m1)
             (\<lambda>m2. fold (\<lambda>as r. Option.bind r (own_attribute c h as))
               (InsertObjectInstanceMessage_attributeStateVector msg) (Some m2)) of
           None \<Rightarrow> Inl UndefinedBehaviour
         | Some m3 \<Rightarrow>
             (case instance_attribute privilegeToDelete h m3 of
                None \<Rightarrow> Inl UndefinedBehaviour
              | Some ia \<Rightarrow> Inr (m3, send_set f (receivingConnects ia) (message.InsertObjectInstanceMessage msg))))"

definition acceptInsertObjectInstance ::
    "ConnectHandle \<Rightarrow> InsertObjectInstanceMessage \<Rightarrow> Federation \<Rightarrow> ObjectModel \<Rightarrow> object_handled" where
  "acceptInsertObjectInstance c msg f m =
     (let h = InsertObjectInstanceMessage_objectInstanceHandle msg
      in case getObjectClass (InsertObjectInstanceMessage_objectClassHandle msg) m of
        None \<Rightarrow> Inl MessageError
      | Some i \<Rightarrow>
          (case (case getClassAttribute privilegeToDelete (objectClasses m ! i) of
                   None \<Rightarrow> Inr (known_instance h m, m)
                 | Some ps \<Rightarrow> fold (insert_for_subscriber f c msg)
                     (sorted_list_of_fset (cumulativeSubscribedConnectHandleSet ps)) (Inr (known_instance h m, m))) of
             Inl e \<Rightarrow> Inl e
           | Inr (None, m') \<Rightarrow> Inr (m', sendToParent f (release_message f [h]))
           | Inr (Some h', m') \<Rightarrow> insert_in_class f c msg i h' m'))"

definition to_receivers ::
    "ObjectInstanceHandle \<Rightarrow> message \<Rightarrow> Federation \<Rightarrow> ObjectModel \<Rightarrow> object_handled" where
  "to_receivers h msg f m =
     (if getObjectInstance h m = None then Inr (m, [])
      else case instance_attribute privilegeToDelete h m of
          None \<Rightarrow> Inl UndefinedBehaviour
        | Some ia \<Rightarrow> Inr (m, send_set f (receivingConnects ia) msg))"

definition acceptDeleteObjectInstance ::
    "ConnectHandle \<Rightarrow> DeleteObjectInstanceMessage \<Rightarrow> Federation \<Rightarrow> ObjectModel \<Rightarrow> object_handled" where
  "acceptDeleteObjectInstance c msg =
     to_receivers (DeleteObjectInstanceMessage_objectInstanceHandle msg) (message.DeleteObjectInstanceMessage msg)"

definition acceptTimeStampedDeleteObjectInstance ::
    "ConnectHandle \<Rightarrow> TimeStampedDeleteObjectInstanceMessage \<Rightarrow> Federation \<Rightarrow> ObjectModel \<Rightarrow> object_handled" where
  "acceptTimeStampedDeleteObjectInstance c msg =
     to_receivers (TimeStampedDeleteObjectInstanceMessage_objectInstanceHandle msg)
       (message.TimeStampedDeleteObjectInstanceMessage msg)"

section \<open>Attribute updates, requests and queries\<close>

text \<open>
  The values each connect receives, as the calls of \<open>push_back\<close>, and the messages with them. The
  notification reads the class of the instance, a null pointer for a name that is only reserved.
\<close>

definition attribute_receivers :: "ObjectInstance \<Rightarrow> AttributeValueVector \<Rightarrow> (ConnectHandle \<times> AttributeValue) list" where
  "attribute_receivers oi values = concat (map (\<lambda>v.
     (case getInstanceAttribute (AttributeValue_attributeHandle v) oi of
        None \<Rightarrow> []
      | Some ia \<Rightarrow> map (\<lambda>d. (d, v)) (filter (\<lambda>d. getSubscriptionType d oi \<noteq> Unsubscribed)
          (sorted_list_of_fset (receivingConnects ia))))) values)"

definition route_update ::
    "ConnectHandle \<Rightarrow> ObjectInstanceHandle \<Rightarrow> AttributeValueVector \<Rightarrow> (AttributeValueVector \<Rightarrow> message)
      \<Rightarrow> Federation \<Rightarrow> ObjectModel \<Rightarrow> object_handled" where
  "route_update c h values update f m =
     (case getObjectInstance h m of
        None \<Rightarrow> Inr (m, [])
      | Some oi \<Rightarrow>
          (if objectClass oi = None then Inl UndefinedBehaviour
           else Inr (m, Metric c (objectInstanceUpdateSent h) #
             concat (map (\<lambda>(d, vs). fed_send f d (update vs) @ [Metric d (objectInstanceReflectionReceived h)])
               (by_connect (attribute_receivers oi values))))))"

definition acceptAttributeUpdate ::
    "ConnectHandle \<Rightarrow> AttributeUpdateMessage \<Rightarrow> Federation \<Rightarrow> ObjectModel \<Rightarrow> object_handled" where
  "acceptAttributeUpdate c msg f = route_update c (AttributeUpdateMessage_objectInstanceHandle msg)
     (AttributeUpdateMessage_attributeValues msg)
     (\<lambda>values. message.AttributeUpdateMessage (msg\<lparr>AttributeUpdateMessage_federationHandle := federationHandle f,
        AttributeUpdateMessage_attributeValues := values\<rparr>)) f"

definition acceptTimeStampedAttributeUpdate ::
    "ConnectHandle \<Rightarrow> TimeStampedAttributeUpdateMessage \<Rightarrow> Federation \<Rightarrow> ObjectModel \<Rightarrow> object_handled" where
  "acceptTimeStampedAttributeUpdate c msg f = route_update c (TimeStampedAttributeUpdateMessage_objectInstanceHandle msg)
     (TimeStampedAttributeUpdateMessage_attributeValues msg)
     (\<lambda>values. message.TimeStampedAttributeUpdateMessage
        (msg\<lparr>TimeStampedAttributeUpdateMessage_federationHandle := federationHandle f,
          TimeStampedAttributeUpdateMessage_attributeValues := values\<rparr>)) f"

definition attribute_owners :: "ObjectInstance \<Rightarrow> AttributeHandleVector \<Rightarrow> (ConnectHandle \<times> AttributeHandle) list" where
  "attribute_owners oi attributes = concat (map (\<lambda>a.
     (case getInstanceAttribute a oi of
        None \<Rightarrow> []
      | Some ia \<Rightarrow> if handle_valid (ownerConnectHandle ia) then [(ownerConnectHandle ia, a)] else [])) attributes)"

definition acceptRequestAttributeUpdate ::
    "ConnectHandle \<Rightarrow> RequestAttributeUpdateMessage \<Rightarrow> Federation \<Rightarrow> ObjectModel \<Rightarrow> object_handled" where
  "acceptRequestAttributeUpdate c msg f m =
     (let h = RequestAttributeUpdateMessage_objectInstanceHandle msg
      in case getObjectInstance h m of
        None \<Rightarrow> Inr (m, [])
      | Some oi \<Rightarrow>
          (let oi' = snd (setSubscriptionType c SubscribedPassive oi)
           in Inr (update_instance h (\<lambda>_. oi') m,
                concat (map (\<lambda>(d, as). fed_send f d (message.RequestAttributeUpdateMessage
                    \<lparr>RequestAttributeUpdateMessage_federationHandle = federationHandle f,
                     RequestAttributeUpdateMessage_objectInstanceHandle = h,
                     RequestAttributeUpdateMessage_attributeHandles = as,
                     RequestAttributeUpdateMessage_tag = RequestAttributeUpdateMessage_tag msg\<rparr>))
                  (by_connect (attribute_owners oi' (RequestAttributeUpdateMessage_attributeHandles msg)))))))"

text \<open>\<open>accumulateAllPublications\<close>; a class without the privilege to delete is a null pointer.\<close>

function accumulateAllPublications ::
    "nat option list \<Rightarrow> ObjectClass list \<Rightarrow> nat \<Rightarrow> ConnectHandleSet \<Rightarrow> ConnectHandleSet option" where
  "accumulateAllPublications parents classes i S =
     (case getClassAttribute privilegeToDelete (classes ! i) of
        None \<Rightarrow> None
      | Some ps \<Rightarrow> fold (\<lambda>k r. Option.bind r (accumulateAllPublications parents classes k))
          (childInteractionClassList parents i) (Some (S |\<union>| publishedConnects ps)))"
  by pat_completeness auto
termination
  by (relation "measure (\<lambda>(parents, classes, i, S). length parents - i)")
    (auto simp: childInteractionClassList_def)

declare accumulateAllPublications.simps [simp del]

definition acceptRequestClassAttributeUpdate ::
    "ConnectHandle \<Rightarrow> RequestClassAttributeUpdateMessage \<Rightarrow> Federation \<Rightarrow> ObjectModel \<Rightarrow> object_handled" where
  "acceptRequestClassAttributeUpdate c msg f m =
     (case getObjectClass (RequestClassAttributeUpdateMessage_objectClassHandle msg) m of
        None \<Rightarrow> Inl MessageError
      | Some i \<Rightarrow>
          (case accumulateAllPublications (object_parents m) (objectClasses m) i {||} of
             None \<Rightarrow> Inl UndefinedBehaviour
           | Some connects \<Rightarrow> Inr (m, send_set_except f connects c (message.RequestClassAttributeUpdateMessage msg))))"

definition acceptQueryAttributeOwnershipRequest ::
    "ConnectHandle \<Rightarrow> QueryAttributeOwnershipRequestMessage \<Rightarrow> Federation \<Rightarrow> ObjectModel \<Rightarrow> object_handled" where
  "acceptQueryAttributeOwnershipRequest c msg f m =
     (let h = QueryAttributeOwnershipRequestMessage_objectInstanceHandle msg;
          a = QueryAttributeOwnershipRequestMessage_attributeHandle msg
      in case instance_attribute a h m of
        None \<Rightarrow> Inl MessageError
      | Some ia \<Rightarrow> Inr (m, fed_send f c (message.QueryAttributeOwnershipResponseMessage
          \<lparr>QueryAttributeOwnershipResponseMessage_federationHandle = QueryAttributeOwnershipRequestMessage_federationHandle msg,
           QueryAttributeOwnershipResponseMessage_objectInstanceHandle = h,
           QueryAttributeOwnershipResponseMessage_attributeHandle = a,
           QueryAttributeOwnershipResponseMessage_owner = ownerFederate ia\<rparr>)))"

end
