(* ===== verification/Object_Delivery.thy ===== *)
theory Object_Delivery
  imports Object_Routing
begin

text \<open>
  The invariant of the object model and its consequence for the delivery of attribute updates. Each
  handler is a sequence of a few changes of the model - of the sets of a class attribute, of an
  instance, of the references - and every change has a lemma that it keeps the invariant; the
  history of a node is then an induction over the handlers.
\<close>

section \<open>The invariant\<close>

definition instance_class :: "ObjectInstanceHandle \<Rightarrow> ObjectModel \<Rightarrow> nat option" where
  "instance_class h m = Option.bind (getObjectInstance h m) objectClass"

definition classes_ok :: "ObjectModel \<Rightarrow> bool" where
  [inv_defs]: "classes_ok m \<longleftrightarrow> inherits m \<and> (\<forall>a. cumulative_ok (attribute_view a m))"

text \<open>The allocator, the lists of the classes and the attributes say the same of the instances.\<close>

definition instances_ok :: "ObjectModel \<Rightarrow> bool" where
  [inv_defs]: "instances_ok m \<longleftrightarrow>
     allocator_inv (objectInstanceHandleAllocator m) \<and>
     inUse (objectInstanceHandleAllocator m) = {h. getObjectInstance h m \<noteq> None} \<and>
     (\<forall>h i. instance_class h m = Some i \<longleftrightarrow>
        i < length (objectClasses m) \<and> h \<in> set (objectInstanceList (objectClasses m ! i))) \<and>
     (\<forall>h a. instance_attribute a h m \<noteq> None \<longleftrightarrow>
        (\<exists>i. instance_class h m = Some i \<and> has_attribute a (objectClasses m ! i)))"

text \<open>
  What a connect receives of an instance follows its subscriptions, unless the pair is in \<open>R\<close>: the
  connect has released the instance or has lost an attribute of it to another owner.
\<close>

definition synced :: "(ConnectHandle \<times> ObjectInstanceHandle) set \<Rightarrow> ObjectModel \<Rightarrow> bool" where
  [inv_defs]: "synced R m \<longleftrightarrow> (\<forall>h i c a. instance_class h m = Some i \<longrightarrow> a \<noteq> privilegeToDelete \<longrightarrow>
     c \<noteq> invalid_handle \<longrightarrow> (c, h) \<notin> R \<longrightarrow> in_sync c a m i h)"

text \<open>An owner does not receive what it sends.\<close>

definition owners_silent :: "ObjectModel \<Rightarrow> bool" where
  [inv_defs]: "owners_silent m \<longleftrightarrow> (\<forall>a h c. c \<noteq> invalid_handle \<longrightarrow> owner_of a h m = Some c \<longrightarrow> \<not> receives c a h m)"

definition routes_ok :: "(ConnectHandle \<times> ObjectInstanceHandle) set \<Rightarrow> ObjectModel \<Rightarrow> bool" where
  [inv_defs]: "routes_ok R m \<longleftrightarrow> classes_ok m \<and> instances_ok m \<and> synced R m \<and> owners_silent m"

lemma routes_ok_mono: "routes_ok R m \<Longrightarrow> R \<subseteq> R' \<Longrightarrow> routes_ok R' m"
  unfolding routes_ok_def synced_def by blast

lemma routes_ok_known:
  assumes "routes_ok R m" "instance_class h m = Some i"
  shows "i < length (objectClasses m)" "h \<in> set (objectInstanceList (objectClasses m ! i))"
  using assms by (auto simp: routes_ok_def instances_ok_def)

lemma instances_disjoint: "instances_ok m \<Longrightarrow> lists_disjoint m"
  unfolding lists_disjoint_def instances_ok_def by (metis (no_types, lifting) disjoint_iff option.inject)

section \<open>Changes of an instance alone\<close>

definition instance_core :: "ObjectInstanceHandle \<Rightarrow> ObjectModel \<Rightarrow> (nat option \<times> (AttributeHandle \<times> InstanceAttribute) list) option" where
  "instance_core h m = map_option (\<lambda>oi. (objectClass oi, instanceAttributes oi)) (getObjectInstance h m)"

lemma core_facts:
  "(getObjectInstance h m = None) = (instance_core h m = None)"
  "instance_class h m = Option.bind (instance_core h m) fst"
  "instance_attribute a h m = Option.bind (instance_core h m) (\<lambda>(_, as). map_of as a)"
  by (auto simp: instance_core_def instance_class_def instance_attribute_def getInstanceAttribute_def
      split: option.split bind_split)

lemma routes_ok_core:
  assumes "routes_ok R m" "objectClasses m' = objectClasses m"
    and "objectInstanceHandleAllocator m' = objectInstanceHandleAllocator m"
    and core: "\<And>h. instance_core h m' = instance_core h m"
  shows "routes_ok R m'"
proof -
  have "getObjectInstance h m' = None \<longleftrightarrow> getObjectInstance h m = None" for h using core by (simp add: core_facts(1))
  moreover have "instance_class h m' = instance_class h m" "instance_attribute a h m' = instance_attribute a h m" for a h
    using core by (simp_all add: core_facts(2,3))
  moreover have "inherits m' = inherits m" "attribute_view a m' = attribute_view a m" for a
    using assms(2) by (simp_all add: inherits_def object_parents_def attribute_view_def)
  ultimately show ?thesis
    using assms(1-3) by (simp add: routes_ok_def classes_ok_def instances_ok_def synced_def in_sync_def
        owners_silent_def owner_of_def receives_def in_cum_def)
qed

lemma update_instance_core:
  assumes "\<And>oi. objectClass (g oi) = objectClass oi \<and> instanceAttributes (g oi) = instanceAttributes oi"
  shows "instance_core k (update_instance h g m) = instance_core k m"
  by (auto simp: instance_core_def getObjectInstance_def update_instance_def option.map_comp assms comp_def)

lemma update_instance_simps [simp]:
  "objectClasses (update_instance h g m) = objectClasses m"
  "objectInstanceHandleAllocator (update_instance h g m) = objectInstanceHandleAllocator m"
  "objectInstanceConnects (update_instance h g m) = objectInstanceConnects m"
  by (simp_all add: update_instance_def)

lemma routes_ok_update_instance:
  assumes "routes_ok R m"
    and "\<And>oi. objectClass (g oi) = objectClass oi \<and> instanceAttributes (g oi) = instanceAttributes oi"
  shows "routes_ok R (update_instance h g m)"
  by (rule routes_ok_core[OF assms(1)]) (simp_all add: update_instance_core[OF assms(2)])

lemma routes_ok_set_instance:
  assumes "routes_ok R m" "getObjectInstance h m = Some oi"
    and "objectClass oi' = objectClass oi" "instanceAttributes oi' = instanceAttributes oi"
  shows "routes_ok R (update_instance h (\<lambda>_. oi') m)"
proof (rule routes_ok_core[OF assms(1)])
  fix k show "instance_core k (update_instance h (\<lambda>_. oi') m) = instance_core k m"
    using assms(2-) by (simp add: instance_core_def getObjectInstance_def update_instance_def)
qed simp_all

lemma routes_ok_connects:
  "routes_ok R m \<Longrightarrow> routes_ok R (m\<lparr>objectInstanceConnects := refs\<rparr>)"
  by (rule routes_ok_core) (simp_all add: instance_core_def getObjectInstance_def)

lemma routes_ok_reference: "routes_ok R m \<Longrightarrow> routes_ok R (object_reference c h m)"
  by (simp add: object_reference_def routes_ok_connects)

lemma instance_sets [simp]:
  "objectClass (snd (setSubscriptionType c t oi)) = objectClass (oi :: ObjectInstance)"
  "instanceAttributes (snd (setSubscriptionType c t oi)) = instanceAttributes oi"
  "objectClass (snd (setPublicationType c p oi)) = objectClass oi"
  "instanceAttributes (snd (setPublicationType c p oi)) = instanceAttributes oi"
  by (simp_all add: setSubscriptionType_def setPublicationType_def case_prod_beta)

section \<open>New and erased instances\<close>

lemma insertObjectInstance_fresh:
  assumes "routes_ok R m" "insertObjectInstance k name m = Inr (h, m')"
    and k: "handle_valid k \<longrightarrow> getObjectInstance k m = None"
  shows "getObjectInstance h m = None" "handle_valid k \<longrightarrow> h = k"
    "objectInstances m' = imap_insert h (new_instance (instance_name h name)) (objectInstances m)"
    "objectClasses m' = objectClasses m"
    "allocator_inv (objectInstanceHandleAllocator m')"
    "inUse (objectInstanceHandleAllocator m') = insert h (inUse (objectInstanceHandleAllocator m))"
proof -
  let ?a = "objectInstanceHandleAllocator m"
  have inv: "allocator_inv ?a" and used: "inUse ?a = {h. getObjectInstance h m \<noteq> None}"
    using assms(1) by (simp_all add: routes_ok_def instances_ok_def)
  obtain a where a: "getOrTake k ?a = Inr (h, a)" and m': "m' = m\<lparr>objectInstanceHandleAllocator := a,
      objectInstances := imap_insert h (new_instance (instance_name h name)) (objectInstances m)\<rparr>"
    using assms(2) by (auto simp: insertObjectInstance_def split: sum.splits)
  have "h \<notin> inUse ?a \<and> (handle_valid k \<longrightarrow> h = k) \<and> inUse a = insert h (inUse ?a) \<and> allocator_inv a"
  proof (cases "handle_valid k")
    case True
    then show ?thesis using a k used alloc.reserve_law[OF inv True] by (auto simp: getOrTake_def)
  next
    case False
    then show ?thesis using a alloc.obtain_fresh[OF inv, of h a] by (simp add: getOrTake_def)
  qed
  then show "getObjectInstance h m = None" "handle_valid k \<longrightarrow> h = k"
    "objectInstances m' = imap_insert h (new_instance (instance_name h name)) (objectInstances m)"
    "objectClasses m' = objectClasses m"
    "allocator_inv (objectInstanceHandleAllocator m')"
    "inUse (objectInstanceHandleAllocator m') = insert h (inUse ?a)"
    using m' used by auto
qed

lemma routes_ok_insert:
  assumes ok: "routes_ok R m" and ins: "insertObjectInstance k name m = Inr (h, m')"
    and k: "handle_valid k \<longrightarrow> getObjectInstance k m = None"
  shows "routes_ok R m' \<and> getObjectInstance h m' \<noteq> None \<and> instance_class h m' = None \<and>
    (\<forall>k'. k' \<noteq> h \<longrightarrow> getObjectInstance k' m' = getObjectInstance k' m) \<and> (handle_valid k \<longrightarrow> h = k) \<and>
    objectClasses m' = objectClasses m"
proof -
  note new = insertObjectInstance_fresh[OF ok ins k]
  have get: "getObjectInstance k' m' = (if k' = h then Some (new_instance (instance_name h name)) else getObjectInstance k' m)" for k'
    by (simp add: getObjectInstance_def new(3))
  have none: "objectClass (new_instance n) = None" "instanceAttributes (new_instance n) = []" for n
    by (simp_all add: new_instance_def PublishSubscribe.defs)
  have cls: "instance_class k' m' = instance_class k' m" "instance_attribute a k' m' = instance_attribute a k' m" for k' a
    using new(1) by (simp_all add: instance_class_def instance_attribute_def get getInstanceAttribute_def none)
  have "classes_ok m'" using ok new(4)
    by (simp add: routes_ok_def classes_ok_def inherits_def object_parents_def attribute_view_def)
  moreover have "inUse (objectInstanceHandleAllocator m) = {h. getObjectInstance h m \<noteq> None}"
    using ok by (simp add: routes_ok_def instances_ok_def)
  then have "inUse (objectInstanceHandleAllocator m') = {h. getObjectInstance h m' \<noteq> None}"
    by (auto simp: new(6) get)
  then have "instances_ok m'" using ok new(4,5) by (simp add: routes_ok_def instances_ok_def cls)
  moreover have "synced R m'" using ok new(4)
    by (simp add: routes_ok_def synced_def in_sync_def owner_of_def receives_def in_cum_def cls)
  moreover have "owners_silent m'" using ok
    by (simp add: routes_ok_def owners_silent_def owner_of_def receives_def cls)
  moreover have "instance_class h m' = None" by (simp add: instance_class_def get none)
  ultimately show ?thesis using new(2,4) by (simp add: routes_ok_def get)
qed

text \<open>The lists of instances do not matter for the classes.\<close>

lemma same_attributes:
  assumes inh: "inherits m" and len: "length (objectClasses m') = length (objectClasses m)"
    and same: "\<And>j. j < length (objectClasses m) \<Longrightarrow>
      parentObjectClass (objectClasses m' ! j) = parentObjectClass (objectClasses m ! j) \<and>
      classAttributes (objectClasses m' ! j) = classAttributes (objectClasses m ! j)"
  shows "inherits m'" "attribute_view a m' = attribute_view a m"
proof -
  have parents: "object_parents m' = object_parents m"
    using len same by (intro nth_equalityI) (simp_all add: object_parents_def)
  have below: "p < length (objectClasses m)"
    if "j < length (objectClasses m)" "parentObjectClass (objectClasses m ! j) = Some p" for j p
    using inherits_parent(1)[OF inh that] that(1) by simp
  show "inherits m'" using inh len same below unfolding inherits_def parents by simp
  have "attribute_parent a (objectClasses m') (objectClasses m' ! j) =
      attribute_parent a (objectClasses m) (objectClasses m ! j)" if "j < length (objectClasses m)" for j
    using same that below[OF that] by (simp add: attribute_parent_def has_attribute_def split: option.split)
  then show "attribute_view a m' = attribute_view a m"
    using len same by (intro nth_equalityI) (simp_all add: attribute_view_nth getClassAttribute_def)
qed

lemma classes_ok_same:
  assumes "classes_ok m" "length (objectClasses m') = length (objectClasses m)"
    and "\<And>j. j < length (objectClasses m) \<Longrightarrow>
      parentObjectClass (objectClasses m' ! j) = parentObjectClass (objectClasses m ! j) \<and>
      classAttributes (objectClasses m' ! j) = classAttributes (objectClasses m ! j)"
  shows "classes_ok m'"
proof -
  have "inherits m" using assms(1) by (simp add: classes_ok_def)
  from same_attributes[OF this assms(2,3)] assms(1) show ?thesis by (simp add: classes_ok_def)
qed

lemma routes_ok_erase:
  assumes ok: "routes_ok R m" and h: "getObjectInstance h m \<noteq> None"
  shows "routes_ok R (erase_instance h m)"
proof -
  let ?m = "erase_instance h m" and ?a = "objectInstanceHandleAllocator m"
  have get: "getObjectInstance k ?m = (if k = h then None else getObjectInstance k m)" for k
    by (simp add: getObjectInstance_def erase_instance_def)
  have cs: "objectClasses ?m ! j = (objectClasses m ! j)\<lparr>objectInstanceList :=
      filter (\<lambda>h'. h' \<noteq> h) (objectInstanceList (objectClasses m ! j))\<rparr>" if "j < length (objectClasses m)" for j
    using that by (simp add: erase_instance_def)
  have len: "length (objectClasses ?m) = length (objectClasses m)" by (simp add: erase_instance_def)
  have cls: "instance_class k ?m = (if k = h then None else instance_class k m)"
    "instance_attribute a k ?m = (if k = h then None else instance_attribute a k m)" for k a
    by (simp_all add: instance_class_def instance_attribute_def get)
  have io: "instances_ok m" and sy: "synced R m" and co: "classes_ok m" using ok by (simp_all add: routes_ok_def)
  have "classes_ok ?m" by (rule classes_ok_same[OF co len]) (simp add: cs)
  moreover have "instances_ok ?m"
  proof -
    have inv: "allocator_inv ?a" and used: "inUse ?a = {h. getObjectInstance h m \<noteq> None}"
      using io by (simp_all add: instances_ok_def)
    have "allocator_inv (allocator_put h ?a) \<and> inUse (allocator_put h ?a) = {k. getObjectInstance k ?m \<noteq> None}"
      using alloc.release_law[OF inv, of h] h used by (auto simp: get)
    moreover have "instance_class k ?m = Some i \<longleftrightarrow> i < length (objectClasses ?m) \<and>
        k \<in> set (objectInstanceList (objectClasses ?m ! i))" for k i
      using io by (cases "i < length (objectClasses m)") (simp_all add: instances_ok_def cls len cs)
    moreover have "instance_attribute a k ?m \<noteq> None \<longleftrightarrow>
        (\<exists>i. instance_class k ?m = Some i \<and> has_attribute a (objectClasses ?m ! i))" for k a
    proof -
      have "has_attribute a (objectClasses ?m ! i) = has_attribute a (objectClasses m ! i)"
        if "instance_class k m = Some i" for i
        using cs[OF routes_ok_known(1)[OF ok that]] by (simp add: has_attribute_def)
      then show ?thesis using io by (auto simp: instances_ok_def cls)
    qed
    ultimately show ?thesis by (simp add: instances_ok_def erase_instance_def)
  qed
  moreover have "synced R ?m"
    unfolding synced_def
  proof (intro allI impI)
    fix k i c a
    assume k: "instance_class k ?m = Some i" and a: "a \<noteq> privilegeToDelete" "c \<noteq> invalid_handle" "(c, k) \<notin> R"
    then have km: "k \<noteq> h" "instance_class k m = Some i" by (auto simp: cls split: if_splits)
    then have "in_cum c a i ?m = in_cum c a i m"
      using cs[OF routes_ok_known(1)[OF ok km(2)]] by (simp add: in_cum_def getClassAttribute_def)
    then show "in_sync c a ?m i k"
      using sy km a by (simp add: synced_def in_sync_def owner_of_def receives_def cls)
  qed
  moreover have "owners_silent ?m" using ok
    by (simp add: routes_ok_def owners_silent_def owner_of_def receives_def cls)
  ultimately show ?thesis by (simp add: routes_ok_def)
qed

section \<open>The attributes of an instance\<close>

text \<open>Owners and receivers of the attributes of one instance change, nothing else does.\<close>

lemma routes_ok_attributes:
  assumes ok: "routes_ok R m" and sub: "R \<subseteq> R'"
    and same: "objectClasses m' = objectClasses m" "objectInstanceHandleAllocator m' = objectInstanceHandleAllocator m"
      "\<And>k. getObjectInstance k m' = None \<longleftrightarrow> getObjectInstance k m = None" "\<And>k. instance_class k m' = instance_class k m"
    and att: "\<And>a k. instance_attribute a k m' = None \<longleftrightarrow> instance_attribute a k m = None"
    and sync: "\<And>c a k. c \<noteq> invalid_handle \<Longrightarrow> (c, k) \<notin> R' \<Longrightarrow> owner_of a k m' \<noteq> Some c \<Longrightarrow>
      instance_attribute a k m \<noteq> None \<Longrightarrow> owner_of a k m \<noteq> Some c \<and> receives c a k m' = receives c a k m"
    and silent: "owners_silent m'"
  shows "routes_ok R' m'"
proof -
  have "attribute_view a m' = attribute_view a m" "inherits m' = inherits m" for a
    using same(1) by (simp_all add: attribute_view_def inherits_def object_parents_def)
  then have "classes_ok m'" using ok by (simp add: routes_ok_def classes_ok_def)
  moreover have "instances_ok m'" using ok by (simp add: routes_ok_def instances_ok_def same att)
  moreover have "synced R' m'"
    unfolding synced_def in_sync_def
  proof (intro allI impI)
    fix k i c a
    assume k: "instance_class k m' = Some i" and a: "a \<noteq> privilegeToDelete" "c \<noteq> invalid_handle" "(c, k) \<notin> R'"
      and at: "instance_attribute a k m' \<noteq> None" "owner_of a k m' \<noteq> Some c"
    have "(c, k) \<notin> R" using a(3) sub by blast
    moreover have "instance_attribute a k m \<noteq> None" using at(1) att by simp
    ultimately show "receives c a k m' = in_cum c a i m'"
      using ok k a sync[OF a(2,3) at(2)] by (simp add: routes_ok_def synced_def in_sync_def same in_cum_def)
  qed
  ultimately show ?thesis using silent by (simp add: routes_ok_def)
qed

lemma update_instance_get:
  "getObjectInstance k (update_instance h g m) = (if k = h then map_option g (getObjectInstance h m) else getObjectInstance k m)"
  by (simp add: getObjectInstance_def update_instance_def)

lemma forget_attribute:
  "instance_attribute a k (forget_attributes c h m) =
     (if k = h then map_option (attribute_removeConnect c) (instance_attribute a k m) else instance_attribute a k m)"
proof -
  have "map_of (map (\<lambda>(a, ia). (a, attribute_removeConnect c ia)) as) a = map_option (attribute_removeConnect c) (map_of as a)" for as
    by (induction as) auto
  then show ?thesis
    by (cases "getObjectInstance h m") (simp_all add: instance_attribute_def forget_attributes_def update_instance_get
        getInstanceAttribute_def instance_removeConnect_def)
qed

lemma removeConnect_simps:
  "ownerConnectHandle (attribute_removeConnect c ia) =
     (if ownerConnectHandle ia = c then invalid_handle else ownerConnectHandle ia)"
  "receivingConnects (attribute_removeConnect c ia) = receivingConnects ia |-| {|c|}"
  by (simp_all add: attribute_removeConnect_def Let_def)

lemma routes_ok_forget:
  assumes "routes_ok R m"
  shows "routes_ok (insert (c, h) R) (forget_attributes c h m)"
proof (rule routes_ok_attributes[OF assms subset_insertI])
  fix k
  show "(getObjectInstance k (forget_attributes c h m) = None) = (getObjectInstance k m = None)"
    by (simp add: forget_attributes_def update_instance_get)
  show "instance_class k (forget_attributes c h m) = instance_class k m"
    by (cases "k = h"; cases "getObjectInstance h m")
      (simp_all add: instance_class_def forget_attributes_def update_instance_get instance_removeConnect_def)
next
  fix a k show "(instance_attribute a k (forget_attributes c h m) = None) = (instance_attribute a k m = None)"
    by (simp add: forget_attribute)
next
  fix d a k
  assume "d \<noteq> invalid_handle" "(d, k) \<notin> insert (c, h) R" "owner_of a k (forget_attributes c h m) \<noteq> Some d"
    "instance_attribute a k m \<noteq> None"
  then show "owner_of a k m \<noteq> Some d \<and> receives d a k (forget_attributes c h m) = receives d a k m"
    by (auto simp: owner_of_def receives_def forget_attribute removeConnect_simps split: if_splits)
next
  have "owner_of a k m = Some d \<and> (receives d a k (forget_attributes c h m) \<longrightarrow> receives d a k m)"
    if "d \<noteq> invalid_handle" "owner_of a k (forget_attributes c h m) = Some d" for d a k
    using that by (auto simp: owner_of_def receives_def forget_attribute removeConnect_simps split: if_splits option.splits)
  then show "owners_silent (forget_attributes c h m)"
    using assms unfolding routes_ok_def owners_silent_def by blast
qed (simp_all add: forget_attributes_def)

lemma release_instances_ok:
  "routes_ok R m \<Longrightarrow> release_instances c hs m = Inr (released, m') \<Longrightarrow> routes_ok (R \<union> {c} \<times> set hs) m'"
proof (induction hs arbitrary: R m released)
  case (Cons h hs)
  obtain oi where h: "getObjectInstance h m = Some oi" using Cons.prems(2) by (auto split: if_splits)
  obtain unused m1 where m1: "object_unreference c h (forget_attributes c h m) = Some (unused, m1)"
    and rest: "\<exists>released'. release_instances c hs (if unused then erase_instance h m1 else m1) = Inr (released', m')"
    using Cons.prems(2) h by (auto split: option.splits sum.splits)
  have f: "routes_ok (insert (c, h) R) (forget_attributes c h m)" by (rule routes_ok_forget[OF Cons.prems(1)])
  obtain refs where refs: "m1 = (forget_attributes c h m)\<lparr>objectInstanceConnects := refs\<rparr>"
    using m1 by (auto simp: object_unreference_def Let_def split: if_splits)
  have ok1: "routes_ok (insert (c, h) R) m1" unfolding refs by (rule routes_ok_connects[OF f])
  have "getObjectInstance h (forget_attributes c h m) \<noteq> None"
    using h by (simp add: forget_attributes_def update_instance_get)
  then have "getObjectInstance h m1 \<noteq> None" unfolding refs by (simp add: getObjectInstance_def)
  then have "routes_ok (insert (c, h) R) (if unused then erase_instance h m1 else m1)"
    using ok1 routes_ok_erase by simp
  with rest Cons.IH show ?case by fastforce
qed simp

lemma own_attribute_facts:
  assumes "own_attribute c h as m = Some m'"
  shows "objectClasses m' = objectClasses m" "objectInstanceHandleAllocator m' = objectInstanceHandleAllocator m"
    "getObjectInstance k m' = None \<longleftrightarrow> getObjectInstance k m = None" "instance_class k m' = instance_class k m"
    "instance_attribute a k m' = (if k = h \<and> a = AttributeState_attributeHandle as
       then map_option (\<lambda>ia. (setOwnerConnectHandle c ia)\<lparr>ownerFederate := AttributeState_ownerFederate as\<rparr>) (instance_attribute a h m)
       else instance_attribute a k m)"
proof -
  have m': "m' = update_instance h (update_attribute (AttributeState_attributeHandle as)
      (\<lambda>ia. (setOwnerConnectHandle c ia)\<lparr>ownerFederate := AttributeState_ownerFederate as\<rparr>)) m"
    using assms by (auto simp: own_attribute_def split: option.splits)
  show "objectClasses m' = objectClasses m" "objectInstanceHandleAllocator m' = objectInstanceHandleAllocator m"
    by (simp_all add: m')
  show "getObjectInstance k m' = None \<longleftrightarrow> getObjectInstance k m = None" by (simp add: m' update_instance_get)
  show "instance_class k m' = instance_class k m"
    by (cases "k = h"; cases "getObjectInstance h m")
      (simp_all add: m' instance_class_def update_instance_get update_attribute_def)
  show "instance_attribute a k m' = (if k = h \<and> a = AttributeState_attributeHandle as
       then map_option (\<lambda>ia. (setOwnerConnectHandle c ia)\<lparr>ownerFederate := AttributeState_ownerFederate as\<rparr>) (instance_attribute a h m)
       else instance_attribute a k m)"
    unfolding m' by (auto simp: instance_attribute_update)
qed

text \<open>The connects whose ownership of an attribute ends are in \<open>R\<close>.\<close>

definition owners_in :: "ConnectHandle \<Rightarrow> ObjectInstanceHandle \<Rightarrow> (ConnectHandle \<times> ObjectInstanceHandle) set \<Rightarrow> ObjectModel \<Rightarrow> bool" where
  "owners_in c h R m \<longleftrightarrow> (\<forall>a d. owner_of a h m = Some d \<longrightarrow> d = c \<or> d = invalid_handle \<or> (d, h) \<in> R)"

lemma routes_ok_own:
  assumes ok: "routes_ok R m" and own: "owners_in c h R m" and step: "own_attribute c h as m = Some m'"
  shows "routes_ok R m' \<and> owners_in c h R m'"
proof
  note facts = own_attribute_facts[OF step]
  have o: "owner_of a k m' = (if k = h \<and> a = AttributeState_attributeHandle as
      then map_option (\<lambda>_. c) (instance_attribute a h m) else owner_of a k m)"
    and r: "receives d a k m' = (if k = h \<and> a = AttributeState_attributeHandle as
      then d \<noteq> c \<and> receives d a h m else receives d a k m)" for a k d
    by (auto simp: owner_of_def receives_def facts(5) setOwnerConnectHandle_def option.map_comp comp_def split: option.split)
  show "owners_in c h R m'" using own by (auto simp: owners_in_def o split: if_splits)
  show "routes_ok R m'"
  proof (rule routes_ok_attributes[OF ok order_refl facts(1-4)])
    fix a k show "(instance_attribute a k m' = None) = (instance_attribute a k m = None)"
      by (auto simp: facts(5))
  next
    fix d a k
    assume d: "d \<noteq> invalid_handle" "(d, k) \<notin> R" "owner_of a k m' \<noteq> Some d" "instance_attribute a k m \<noteq> None"
    then have "owner_of a k m \<noteq> Some d" using own by (auto simp: owners_in_def o split: if_splits)
    then show "owner_of a k m \<noteq> Some d \<and> receives d a k m' = receives d a k m"
      using d by (auto simp: o r split: if_splits)
  next
    show "owners_silent m'" using ok by (auto simp: routes_ok_def owners_silent_def o r split: if_splits)
  qed
qed

lemma fold_option_invariant:
  assumes "fold (\<lambda>x r. Option.bind r (f x)) xs (Some s) = Some s'" "P s"
    and "\<And>x s s'. x \<in> set xs \<Longrightarrow> P s \<Longrightarrow> f x s = Some s' \<Longrightarrow> P s'"
  shows "P s'"
  using fold_bind_rel[where R = "\<lambda>_ _. True" and P = P, OF assms(1)] assms(2,3) by blast

section \<open>The class of an instance\<close>

lemma fold_subscribers:
  "objectClass (fold (\<lambda>c oi. snd (setSubscriptionType c t oi)) cs oi) = objectClass (oi :: ObjectInstance) \<and>
   instanceAttributes (fold (\<lambda>c oi. snd (setSubscriptionType c t oi)) cs oi) = instanceAttributes oi"
  by (induction cs arbitrary: oi) simp_all

lemma instance_of_class_facts:
  "objectClass (instance_of_class i oc oi) = Some i"
  "instanceAttributes (instance_of_class i oc oi) =
     instanceAttributes oi @ map (\<lambda>(a, ps). (a, new_instance_attribute ps)) (classAttributes oc)"
proof -
  let ?f = "\<lambda>(a, ps) oi'. fold (\<lambda>c oi''. snd (setSubscriptionType c SubscribedActive oi''))
         (sorted_list_of_fset (cumulativeSubscribedConnectHandleSet ps))
         (oi'\<lparr>instanceAttributes := instanceAttributes oi' @ [(a, new_instance_attribute ps)]\<rparr>)"
  have *: "objectClass (fold ?f as oi) = objectClass (oi :: ObjectInstance) \<and>
     instanceAttributes (fold ?f as oi) = instanceAttributes oi @ map (\<lambda>(a, ps). (a, new_instance_attribute ps)) as" for as oi
    by (induction as arbitrary: oi) (auto simp: fold_subscribers)
  show "objectClass (instance_of_class i oc oi) = Some i"
    "instanceAttributes (instance_of_class i oc oi) =
     instanceAttributes oi @ map (\<lambda>(a, ps). (a, new_instance_attribute ps)) (classAttributes oc)"
    unfolding instance_of_class_def by (simp_all add: *)
qed

lemma routes_ok_setObjectClass:
  assumes ok: "routes_ok R m" and i: "i < length (objectClasses m)" and set: "setObjectClass i h m = Some m'"
  shows "if instance_class h m = None then routes_ok {(c, k) \<in> R. k \<noteq> h} m' \<and>
      (\<forall>a d. owner_of a h m' = Some d \<longrightarrow> d = invalid_handle) else m' = m"
proof (cases "instance_class h m")
  case (Some j)
  then show ?thesis using set by (auto simp: setObjectClass_def instance_class_def split: option.splits if_splits bind_splits)
next
  case None
  let ?oc = "objectClasses m ! i"
  obtain oi where oi: "getObjectInstance h m = Some oi" "objectClass oi = None"
    and m': "m' = update_instance h (instance_of_class i ?oc) (m\<lparr>objectClasses :=
        (objectClasses m)[i := ?oc\<lparr>objectInstanceList := objectInstanceList ?oc @ [h]\<rparr>]\<rparr>)"
    using set None by (auto simp: setObjectClass_def instance_class_def Let_def split: option.splits if_splits)
  have io: "instances_ok m" and sy: "synced R m" and co: "classes_ok m" using ok by (simp_all add: routes_ok_def)
  have "instance_attribute a h m \<noteq> None \<longleftrightarrow>
      (\<exists>i. instance_class h m = Some i \<and> has_attribute a (objectClasses m ! i))" for a
    using io unfolding instances_ok_def by blast
  then have "instance_attribute a h m = None" for a using None by simp
  then have "map_of (instanceAttributes oi) a = None" for a
    using oi by (simp add: instance_attribute_def getInstanceAttribute_def)
  then have noatt: "instanceAttributes oi = []" by (cases "instanceAttributes oi") (fastforce split: if_splits)+
  have cs: "objectClasses m' ! j = (if j = i then ?oc\<lparr>objectInstanceList := objectInstanceList ?oc @ [h]\<rparr>
      else objectClasses m ! j)" for j using i by (simp add: m')
  have len: "length (objectClasses m') = length (objectClasses m)" by (simp add: m')
  have get: "getObjectInstance k m' = (if k = h then Some (instance_of_class i ?oc oi) else getObjectInstance k m)" for k
    using oi(1) by (simp add: m' update_instance_get) (simp add: getObjectInstance_def)
  have cls: "instance_class k m' = (if k = h then Some i else instance_class k m)" for k
    by (simp add: instance_class_def get instance_of_class_facts)
  have "map_of (map (\<lambda>(a, ps). (a, new_instance_attribute ps)) as) a = map_option new_instance_attribute (map_of as a)"
    for as :: "(AttributeHandle \<times> PublishSubscribe) list" and a
    by (induction as) auto
  then have att: "instance_attribute a k m' = (if k = h then map_option new_instance_attribute (getClassAttribute a ?oc)
      else instance_attribute a k m)" for a k
    by (simp add: instance_attribute_def get getInstanceAttribute_def instance_of_class_facts noatt getClassAttribute_def)
  have has: "has_attribute a (objectClasses m' ! j) = has_attribute a (objectClasses m ! j)"
    "getClassAttribute a (objectClasses m' ! j) = getClassAttribute a (objectClasses m ! j)" for a j
    by (simp_all add: cs has_attribute_def getClassAttribute_def)
  have "classes_ok m'" by (rule classes_ok_same[OF co len]) (simp add: cs)
  moreover have "instances_ok m'"
  proof -
    have "inUse (objectInstanceHandleAllocator m) = {k. getObjectInstance k m' \<noteq> None}"
      using io oi(1) by (auto simp: instances_ok_def get)
    moreover have mem: "instance_class k m = Some j \<longleftrightarrow>
        j < length (objectClasses m) \<and> k \<in> set (objectInstanceList (objectClasses m ! j))" for k j
      using io unfolding instances_ok_def by blast
    have "(instance_class k m' = Some j) = (j < length (objectClasses m') \<and>
        k \<in> set (objectInstanceList (objectClasses m' ! j)))" for k j
      using mem[of k j] mem[of h j] i None by (auto simp: cls len cs)
    moreover have "(instance_attribute a k m' \<noteq> None) = (\<exists>i. instance_class k m' = Some i \<and>
        has_attribute a (objectClasses m' ! i))" for a k
      using io by (simp add: instances_ok_def att has cls has_attribute_iff)
    ultimately show ?thesis using io by (simp add: instances_ok_def m')
  qed
  moreover have "synced {(c, k) \<in> R. k \<noteq> h} m'"
    unfolding synced_def
  proof (intro allI impI)
    fix k j c a
    assume k: "instance_class k m' = Some j" and a: "a \<noteq> privilegeToDelete" "c \<noteq> invalid_handle"
      "(c, k) \<notin> {(c, k) \<in> R. k \<noteq> h}"
    show "in_sync c a m' j k"
    proof (cases "k = h")
      case True
      then show ?thesis using k by (auto simp: in_sync_def receives_def in_cum_def att has cls new_instance_attribute_def
          split: option.split)
    next
      case False
      then show ?thesis using k a sy
        by (simp add: synced_def in_sync_def owner_of_def receives_def in_cum_def att has cls)
    qed
  qed
  moreover have own: "owner_of a h m' = Some d \<Longrightarrow> d = invalid_handle" for a d
    by (auto simp: owner_of_def att new_instance_attribute_def)
  moreover have "owners_silent m'"
    unfolding owners_silent_def
  proof (intro allI impI)
    fix a k c assume "c \<noteq> invalid_handle" "owner_of a k m' = Some c"
    moreover from this have "k \<noteq> h" using own by blast
    ultimately show "\<not> receives c a k m'"
      using ok by (simp add: routes_ok_def owners_silent_def owner_of_def receives_def att)
  qed
  ultimately show ?thesis using None by (simp add: routes_ok_def)
qed

section \<open>The sets of a class attribute\<close>

text \<open>The frame of \<open>Object_Model\<close> has all that the invariant says of instances but their receivers.\<close>

lemma frame_instances:
  assumes "model_frame m' = model_frame m"
  shows "getObjectInstance h m' = None \<longleftrightarrow> getObjectInstance h m = None" "instance_class h m' = instance_class h m"
proof -
  have f: "map_option instance_frame (getObjectInstance h m') = map_option instance_frame (getObjectInstance h m)"
    unfolding getObjectInstance_def by (rule map_of_frame) (use assms in \<open>simp add: model_frame_def\<close>)
  then show "getObjectInstance h m' = None \<longleftrightarrow> getObjectInstance h m = None" by (metis option.map_disc_iff)
  have "instance_class h m = Option.bind (map_option instance_frame (getObjectInstance h m)) (\<lambda>(_, _, cl, _). cl)" for m
    by (cases "getObjectInstance h m") (simp_all add: instance_class_def instance_frame_def)
  then show "instance_class h m' = instance_class h m" using f by simp
qed

lemma instances_ok_frame:
  assumes "model_frame m' = model_frame m" "instances_ok m"
  shows "instances_ok m'"
proof -
  have "has_attribute a (objectClasses m' ! i) = has_attribute a (objectClasses m ! i)"
    "objectInstanceList (objectClasses m' ! i) = objectInstanceList (objectClasses m ! i)"
    if "i < length (objectClasses m)" for a i
    using frame_attributes[OF assms(1) that] by simp_all
  moreover have "i < length (objectClasses m)" if "instance_class h m = Some i" for h i
    using assms(2) that by (simp add: instances_ok_def)
  moreover have "(instance_attribute a h m' \<noteq> None) = (instance_attribute a h m \<noteq> None)" for a h
    using model_frame_attribute[OF assms(1)] by simp
  ultimately show ?thesis
    using assms(2) unfolding instances_ok_def model_frame_parts(1,3)[OF assms(1)] frame_instances[OF assms(1)]
    by (metis (no_types, lifting))
qed

lemma view_frame:
  assumes "model_frame m' = model_frame m" "inherits m"
    and "\<And>j. uncached a j m' = uncached a j m" "\<And>c j. in_cum c a j m' = in_cum c a j m"
  shows "attribute_view a m' = attribute_view a m"
proof (rule nth_equalityI)
  show "length (attribute_view a m') = length (attribute_view a m)"
    using model_frame_parts(1)[OF assms(1)] by (simp add: attribute_view_nth)
  fix j assume "j < length (attribute_view a m')"
  then have j: "j < length (objectClasses m)" "j < length (objectClasses m')"
    using model_frame_parts(1)[OF assms(1)] by (simp_all add: attribute_view_nth)
  have "getClassAttribute a (objectClasses m' ! j) = getClassAttribute a (objectClasses m ! j)"
  proof (cases "getClassAttribute a (objectClasses m ! j)")
    case None
    then show ?thesis using assms(3)[of j] by (simp add: uncached_def)
  next
    case (Some ps)
    then obtain ps' where ps': "getClassAttribute a (objectClasses m' ! j) = Some ps'"
      "ps'\<lparr>cumulativeSubscribedConnectHandleSet := {||}\<rparr> = ps\<lparr>cumulativeSubscribedConnectHandleSet := {||}\<rparr>"
      using assms(3)[of j] by (auto simp: uncached_def)
    then have "cumulativeSubscribedConnectHandleSet ps' = cumulativeSubscribedConnectHandleSet ps"
      using assms(4)[of _ j] Some by (auto simp: in_cum_def)
    then show ?thesis using ps' Some by (cases ps; cases ps') (simp add: PublishSubscribe.defs)
  qed
  then show "attribute_view a m' ! j = attribute_view a m ! j"
    using j by (simp add: attribute_view_nth attribute_parent_frame[OF assms(1,2)])
qed

lemma set_attribute_view:
  assumes "i < length (objectClasses m)" "getClassAttribute a (objectClasses m ! i) = Some ps"
  shows "attribute_view a' (set_object_attribute i a ps' m) = (if a' = a
    then (attribute_view a m)[i := attribute_class (parentInteractionClass (attribute_view a m ! i)) (Some ps')]
    else attribute_view a' m)"
proof (cases "a' = a")
  case True
  then show ?thesis using view_set[OF assms, of ps'] by (simp add: set_object_attribute_def)
next
  case False
  let ?cs = "(objectClasses m)[i := set_class_attribute a ps' (objectClasses m ! i)]"
  have *: "getClassAttribute a' (?cs ! j) = getClassAttribute a' (objectClasses m ! j)"
    "parentObjectClass (?cs ! j) = parentObjectClass (objectClasses m ! j)" for j
    using False assms(1) by (cases "j = i"; simp add: getClassAttribute_set; simp add: set_class_attribute_def)+
  then have "attribute_parent a' ?cs (?cs ! j) = attribute_parent a' (objectClasses m) (objectClasses m ! j)" for j
    by (simp add: attribute_parent_def has_attribute_iff split: option.split)
  with * False show ?thesis
    by (intro nth_equalityI) (simp_all add: attribute_view_nth set_object_attribute_def)
qed

lemma set_attribute_frame:
  "i < length (objectClasses m) \<Longrightarrow> model_frame (set_object_attribute i a ps m) = model_frame m"
  unfolding set_object_attribute_def by (rule model_frame_classes) simp_all

lemma set_attribute_cum:
  assumes "i < length (objectClasses m)" "getClassAttribute a (objectClasses m ! i) = Some ps"
    and "cumulativeSubscribedConnectHandleSet ps' = cumulativeSubscribedConnectHandleSet ps"
  shows "in_cum c a' j (set_object_attribute i a ps' m) = in_cum c a' j m"
  using assms by (cases "j = i") (simp_all add: in_cum_def set_object_attribute_def getClassAttribute_set)

lemma set_attribute_instances [simp]:
  "instance_attribute a' h (set_object_attribute i a ps m) = instance_attribute a' h m"
  "receives c a' h (set_object_attribute i a ps m) = receives c a' h m"
  "owner_of a' h (set_object_attribute i a ps m) = owner_of a' h m"
  by (simp_all add: set_object_attribute_def)

lemma set_attribute_synced:
  assumes "synced R m" and i: "i < length (objectClasses m)" "getClassAttribute a (objectClasses m ! i) = Some ps"
    "cumulativeSubscribedConnectHandleSet ps' = cumulativeSubscribedConnectHandleSet ps"
  shows "synced R (set_object_attribute i a ps' m)"
  using assms(1) by (simp add: synced_def in_sync_def set_attribute_cum[OF i]
      frame_instances(2)[OF set_attribute_frame[OF i(1)]])

lemma subscribed_attribute [simp]:
  "subscribed_by d (attribute_class p (Some ps)) \<longleftrightarrow> getSubscriptionType d ps \<noteq> Unsubscribed"
  "cumulativeSubscribedConnectHandleSet (attribute_class p (Some ps)) = cumulativeSubscribedConnectHandleSet ps"
  by (simp_all add: subscribed_by_def) (simp add: attribute_class_def PublishSubscribe.defs)

lemma view_attribute:
  assumes "i < length (objectClasses m)" "getClassAttribute a (objectClasses m ! i) = Some ps"
  shows "attribute_view a m ! i = attribute_class (parentInteractionClass (attribute_view a m ! i)) (Some ps)"
  using assms by (simp add: attribute_view_nth)

lemma cumulative_ok_same:
  assumes "cumulative_ok classes" "i < length classes"
    and "parentInteractionClass ic = parentInteractionClass (classes ! i)"
      "cumulativeSubscribedConnectHandleSet ic = cumulativeSubscribedConnectHandleSet (classes ! i)"
      "\<And>d. subscribed_by d ic = subscribed_by d (classes ! i)"
  shows "cumulative_ok (classes[i := ic])"
proof -
  have ps: "class_parents (classes[i := ic]) = class_parents classes" using assms(2,3) by simp
  have "subscribed_above d (classes[i := ic]) j = subscribed_above d classes j" for d j
    by (rule subscribed_above_cong[OF ps]) (use assms(2,5) in \<open>metis nth_list_update_eq nth_list_update_neq\<close>)
  moreover have "in_cumulative d (classes[i := ic] ! j) = in_cumulative d (classes ! j)" for d j
    using assms(2,4) by (cases "j = i") simp_all
  ultimately show ?thesis using assms(1) ps by (simp add: cumulative_ok_def)
qed

lemma routes_ok_publish:
  assumes ok: "routes_ok R m" and i: "i < length (objectClasses m)"
    and ps: "getClassAttribute a (objectClasses m ! i) = Some ps"
  shows "routes_ok R (set_object_attribute i a (snd (setPublicationType c t ps)) m)"
proof -
  let ?ps = "snd (setPublicationType c t ps)"
  have inh: "inherits m" and cum: "cumulative_ok (attribute_view a m)" for a
    using ok by (simp_all add: routes_ok_def classes_ok_def)
  have "cumulative_ok (attribute_view a' (set_object_attribute i a ?ps m))" for a'
  proof (cases "a' = a")
    case True
    have "cumulative_ok ((attribute_view a m)[i := attribute_class (parentInteractionClass (attribute_view a m ! i)) (Some ?ps)])"
      by (rule cumulative_ok_same[OF cum]) (use i view_attribute[OF i ps] in
          \<open>simp_all add: attribute_view_nth ps getSubscriptionType_def\<close>)
    then show ?thesis by (simp add: True set_attribute_view[OF i ps])
  qed (simp add: set_attribute_view[OF i ps] cum)
  moreover have "instances_ok (set_object_attribute i a ?ps m) \<and> owners_silent (set_object_attribute i a ?ps m)"
    using instances_ok_frame[OF set_attribute_frame[OF i]] ok by (simp add: routes_ok_def owners_silent_def)
  ultimately show ?thesis
    using inherits_frame[OF set_attribute_frame[OF i] inh] set_attribute_synced[OF _ i ps] ok
    by (simp add: routes_ok_def classes_ok_def)
qed

lemma publish_attributes_ok:
  "routes_ok R (fst s) \<Longrightarrow> i < length (objectClasses (fst s)) \<Longrightarrow>
   routes_ok R (fst (fold (publish_attribute c t i) as s))"
proof (induction as arbitrary: s)
  case (Cons a as)
  let ?s = "publish_attribute c t i a s"
  have "routes_ok R (fst ?s) \<and> i < length (objectClasses (fst ?s))"
    using Cons.prems routes_ok_publish[of R "fst s" i a _ c t] model_frame_parts(1)[OF set_attribute_frame]
    by (auto simp: publish_attribute_def Let_def case_prod_beta split: option.split)
  then show ?case using Cons.IH[of ?s] by simp
qed simp

section \<open>A subscription\<close>

text \<open>
  Changing the subscription of one attribute and updating the caches and receivers: it does not run
  into a class without the attribute, and the invariant holds again.
\<close>

lemma routes_ok_subscribe:
  assumes ok: "routes_ok R m" and i: "i < length (objectClasses m)"
    and ps: "getClassAttribute a (objectClasses m ! i) = Some ps"
    and ps': "snd (setSubscriptionType c t ps) = ps'"
  shows "\<exists>s. object_updateCumulativeSubscription c a i (set_object_attribute i a ps' m, new) = Some s \<and>
    routes_ok R (fst s) \<and> model_frame (fst s) = model_frame m"
proof -
  let ?m1 = "set_object_attribute i a ps' m" and ?V = "attribute_view a m"
  let ?ic = "attribute_class (parentInteractionClass (?V ! i)) (Some ps')"
  have inh: "inherits m" and cum: "cumulative_ok (attribute_view a m)" and io: "instances_ok m" and sy: "synced R m" for a
    using ok by (simp_all add: routes_ok_def classes_ok_def)
  have f1: "model_frame ?m1 = model_frame m" by (rule set_attribute_frame[OF i])
  have inh1: "inherits ?m1" by (rule inherits_frame[OF f1 inh])
  have i1: "i < length (objectClasses ?m1)" using i model_frame_parts(1)[OF f1] by simp
  have ps1: "getClassAttribute a (objectClasses ?m1 ! i) = Some ps'"
    using i ps by (simp add: set_object_attribute_def getClassAttribute_set)
  have kept: "cumulativeSubscribedConnectHandleSet ps' = cumulativeSubscribedConnectHandleSet ps"
    "\<And>d. d \<noteq> c \<Longrightarrow> getSubscriptionType d ps' = getSubscriptionType d ps"
    by (simp_all add: ps'[symmetric] getSubscriptionType_def)
  define b where "b \<longleftrightarrow> (case parentObjectClass (objectClasses ?m1 ! i) of None \<Rightarrow> False
    | Some p \<Rightarrow> (case getClassAttribute a (objectClasses ?m1 ! p) of None \<Rightarrow> False
      | Some ps \<Rightarrow> c |\<in>| cumulativeSubscribedConnectHandleSet ps))"
  have "has_attribute a (objectClasses ?m1 ! i)" by (simp add: has_attribute_iff ps1)
  from update_view[OF inh1 _ i1 this, of "(?m1, new)" c b] obtain s where
    s: "object_update_cumulative (object_parents ?m1) c a b i (?m1, new) = Some s"
    "model_frame (fst s) = model_frame ?m1"
    "attribute_view a (fst s) = update_cumulative (class_parents (attribute_view a ?m1)) c b i (attribute_view a ?m1)"
    by auto
  have run: "object_updateCumulativeSubscription c a i (?m1, new) = Some s"
    using s(1) unfolding object_updateCumulativeSubscription_def b_def fst_conv Let_def .
  have fr: "model_frame (fst s) = model_frame m" using s(2) f1 by simp
  have rel: "upd_rel c a i ?m1 (fst s)"
    using object_update_cumulative_rel[OF s(1)] i1 by (simp add: object_parents_def)
  have view1: "attribute_view a ?m1 = ?V[i := ?ic]" by (simp add: set_attribute_view[OF i ps])
  have b: "(case parentInteractionClass (attribute_view a ?m1 ! i) of None \<Rightarrow> False
      | Some p \<Rightarrow> in_cumulative c (attribute_view a ?m1 ! p)) = b"
  proof (cases "parentObjectClass (objectClasses ?m1 ! i)")
    case (Some p)
    then have p: "p < length (objectClasses ?m1)" using inherits_parent(1)[OF inh1 i1 Some] i1 by simp
    then show ?thesis using Some ps1 i1
      by (auto simp: b_def attribute_view_nth attribute_parent_def has_attribute_iff split: option.split)
  qed (simp add: b_def attribute_view_nth[OF ] i1 attribute_parent_def)
  have "attribute_view a (fst s) = updateCumulativeSubscription c i (?V[i := ?ic])"
    unfolding updateCumulativeSubscription_def Let_def view1[symmetric] b by (rule s(3))
  moreover have "cumulative_ok (updateCumulativeSubscription c i (?V[i := ?ic]))"
    by (rule updateCumulativeSubscription_ok[OF cum]) (use i view_attribute[OF i ps] kept in
        \<open>simp_all add: attribute_view_nth ps\<close>)
  moreover have "attribute_view a' (fst s) = attribute_view a' m" if "a' \<noteq> a" for a'
  proof -
    have "attribute_view a' (fst s) = attribute_view a' ?m1"
      by (rule view_frame[OF s(2) inh1]) (use rel that in \<open>simp_all add: upd_rel_def upd_frame_def\<close>)
    then show ?thesis using that by (simp add: set_attribute_view[OF i ps])
  qed
  ultimately have "classes_ok (fst s)"
    using cum inherits_frame[OF fr inh] unfolding classes_ok_def by metis
  moreover have "instances_ok (fst s)" by (rule instances_ok_frame[OF fr io])
  moreover have "synced R (fst s)"
    unfolding synced_def
  proof (intro allI impI)
    fix h j d a'
    assume h: "instance_class h (fst s) = Some j" and a': "a' \<noteq> privilegeToDelete" "d \<noteq> invalid_handle" "(d, h) \<notin> R"
    have hm: "instance_class h m = Some j" using h frame_instances(2)[OF fr] by simp
    have j: "j < length (objectClasses ?m1)" "h \<in> set (objectInstanceList (objectClasses ?m1 ! j))"
      using routes_ok_known[OF ok hm] frame_attributes(4)[OF f1] model_frame_parts(1)[OF f1] by simp_all
    have sync1: "in_sync d a' ?m1 j h"
      using set_attribute_synced[OF sy i ps kept(1)] hm a' frame_instances(2)[OF f1] by (simp add: synced_def)
    show "in_sync d a' (fst s) j h"
    proof (cases "d = c \<and> a' = a")
      case True
      have "lists_disjoint ?m1" using lists_disjoint_frame[OF f1] instances_disjoint[OF io] by simp
      then show ?thesis using rel True a'(1) j sync1 by (simp add: upd_rel_def)
    next
      case False
      then show ?thesis using rel sync1 model_frame_owner[OF s(2)] model_frame_attribute[OF s(2)]
        by (auto simp: in_sync_def upd_rel_def upd_frame_def)
    qed
  qed
  moreover have "owners_silent (fst s)"
    unfolding owners_silent_def
  proof (intro allI impI)
    fix a' h d assume d: "d \<noteq> invalid_handle" and o: "owner_of a' h (fst s) = Some d"
    have own: "owner_of a' h m = Some d" using o model_frame_owner[OF fr] by simp
    have "\<forall>d a' h. (d, a') \<noteq> (c, a) \<or> owner_of a' h ?m1 = Some d \<longrightarrow> receives d a' h (fst s) = receives d a' h ?m1"
      using rel unfolding upd_rel_def upd_frame_def by blast
    from this[rule_format, of d a' h] have "receives d a' h (fst s) = receives d a' h m" using own by simp
    then show "\<not> receives d a' h (fst s)" using ok own d by (simp add: routes_ok_def owners_silent_def)
  qed
  ultimately show ?thesis using run fr by (auto simp: routes_ok_def)
qed

lemma subscribe_attribute_ok:
  assumes "routes_ok R (fst (fst s))" "i < length (objectClasses (fst (fst s)))"
  shows "\<exists>s'. subscribe_attribute c t i a s = Some s' \<and> routes_ok R (fst (fst s')) \<and>
    model_frame (fst (fst s')) = model_frame (fst (fst s))"
proof -
  obtain m new sends where s: "s = ((m, new), sends)" by (metis prod.collapse)
  show ?thesis
  proof (cases "getClassAttribute a (objectClasses m ! i)")
    case None
    then show ?thesis using assms by (simp add: s subscribe_attribute_def)
  next
    case (Some ps)
    obtain r where "object_updateCumulativeSubscription c a i
        (set_object_attribute i a (snd (setSubscriptionType c t ps)) m, new) = Some r"
      "routes_ok R (fst r)" "model_frame (fst r) = model_frame m"
      using routes_ok_subscribe[of R m i a ps c t _ new] assms Some by (auto simp: s)
    then show ?thesis using Some
      by (simp add: s subscribe_attribute_def Let_def case_prod_beta del: split_paired_Ex)
  qed
qed

lemma subscribe_attributes_ok:
  assumes "routes_ok R m" "i < length (objectClasses m)"
  shows "\<exists>s'. fold (\<lambda>a r. Option.bind r (subscribe_attribute c t i a)) as (Some ((m, []), [])) = Some s' \<and>
    routes_ok R (fst (fst s')) \<and> model_frame (fst (fst s')) = model_frame m"
proof -
  have "\<exists>s'. fold (\<lambda>a r. Option.bind r (subscribe_attribute c t i a)) as (Some ((m, []), [])) = Some s' \<and>
      (routes_ok R (fst (fst s')) \<and> model_frame (fst (fst s')) = model_frame m) \<and>
      () = fold (\<lambda>_ _. ()) as ()"
  proof (rule fold_bind_view[where V = "\<lambda>_. ()"])
    fix a and s :: "(ObjectModel \<times> ObjectInstanceHandle list) \<times> (ConnectHandle \<times> AttributeHandle) list"
    assume "routes_ok R (fst (fst s)) \<and> model_frame (fst (fst s)) = model_frame m"
    then show "\<exists>s'. subscribe_attribute c t i a s = Some s' \<and>
        (routes_ok R (fst (fst s')) \<and> model_frame (fst (fst s')) = model_frame m) \<and> () = ()"
      using subscribe_attribute_ok[of R s i c t a] assms(2) model_frame_parts(1)[of "fst (fst s)" m] by auto
  qed (use assms in simp)
  then show ?thesis by blast
qed

section \<open>The handlers\<close>

lemma getObjectClass_Some:
  "getObjectClass h m = Some i \<Longrightarrow> i < length (objectClasses m) \<and> objectClassHandle (objectClasses m ! i) = h"
  by (auto simp: getObjectClass_def dest: first_index_Some)

lemma publication_ok:
  assumes "routes_ok R m" "acceptChangeObjectClassPublication c msg f m = Inr (m', es)"
  shows "routes_ok R m'"
proof (cases "getObjectClass (ChangeObjectClassPublicationMessage_objectClassHandle msg) m")
  case None
  then show ?thesis using assms by (simp add: acceptChangeObjectClassPublication_def)
next
  case (Some i)
  then show ?thesis using assms getObjectClass_Some[OF Some]
      publish_attributes_ok[of R "(m, _)" i c "ChangeObjectClassPublicationMessage_publicationType msg"]
    by (auto simp: acceptChangeObjectClassPublication_def Let_def case_prod_beta)
qed

lemma announce_instance_ok:
  assumes "routes_ok R (fst s)" "announce_instance f c h s = Some s'"
  shows "routes_ok R (fst s')"
proof -
  obtain m es where s: "s = (m, es)" by fastforce
  obtain oi where oi: "getObjectInstance h m = Some oi"
    and m': "fst s' = update_instance h (\<lambda>_. snd (setSubscriptionType c SubscribedPassive oi)) m \<or>
      fst s' = object_reference c h (update_instance h (\<lambda>_. snd (setSubscriptionType c SubscribedPassive oi)) m)"
    using assms(2) by (auto simp: s announce_instance_def Let_def split: option.splits)
  have "routes_ok R (update_instance h (\<lambda>_. snd (setSubscriptionType c SubscribedPassive oi)) m)"
    by (rule routes_ok_set_instance[OF _ oi]) (use assms(1) s in simp_all)
  then show ?thesis using m' routes_ok_reference by auto
qed

lemma subscription_ok:
  assumes ok: "routes_ok R m" and run: "acceptChangeObjectClassSubscription c msg f m = Inr (m', es)"
  shows "routes_ok R m'"
proof (cases "getObjectClass (ChangeObjectClassSubscriptionMessage_objectClassHandle msg) m")
  case None
  then show ?thesis using assms by (simp add: acceptChangeObjectClassSubscription_def)
next
  case (Some i)
  let ?t = "ChangeObjectClassSubscriptionMessage_subscriptionType msg"
  obtain m1 new sends where
    s: "fold (\<lambda>a r. Option.bind r (subscribe_attribute c ?t i a))
        (ChangeObjectClassSubscriptionMessage_attributeHandles msg) (Some ((m, []), [])) = Some ((m1, new), sends)"
    "routes_ok R m1"
    using subscribe_attributes_ok[OF ok, of i c ?t "ChangeObjectClassSubscriptionMessage_attributeHandles msg"]
      getObjectClass_Some[OF Some] by auto
  obtain es' where "(if ?t = Unsubscribed then Some (m1, [])
      else fold (\<lambda>h r. Option.bind r (announce_instance f c h)) new (Some (m1, []))) = Some (m', es')"
    using run Some s(1) by (auto simp: acceptChangeObjectClassSubscription_def Let_def split: option.splits)
  then show ?thesis
    using fold_option_invariant[where P = "\<lambda>s. routes_ok R (fst s)" and f = "announce_instance f c" and s = "(m1, [])"]
      s(2) announce_instance_ok by (auto split: if_splits)
qed

lemma instance_subscription_ok:
  assumes "routes_ok R m" "acceptChangeObjectInstanceSubscription c msg f m = Inr (m', es)"
  shows "routes_ok R m'"
proof -
  have "m' = m \<or> (\<exists>oi t. getObjectInstance (ChangeObjectInstanceSubscriptionMessage_objectInstanceHandle msg) m = Some oi \<and>
      m' = update_instance (ChangeObjectInstanceSubscriptionMessage_objectInstanceHandle msg) (\<lambda>_. snd (setSubscriptionType c t oi)) m)"
    using assms(2) by (auto simp: acceptChangeObjectInstanceSubscription_def Let_def case_prod_beta split: option.splits)
  then show ?thesis using routes_ok_set_instance[OF assms(1)] assms(1) by auto
qed

lemma request_update_ok:
  assumes "routes_ok R m" "acceptRequestAttributeUpdate c msg f m = Inr (m', es)"
  shows "routes_ok R m'"
proof -
  have "m' = m \<or> (\<exists>oi t. getObjectInstance (RequestAttributeUpdateMessage_objectInstanceHandle msg) m = Some oi \<and>
      m' = update_instance (RequestAttributeUpdateMessage_objectInstanceHandle msg) (\<lambda>_. snd (setSubscriptionType c t oi)) m)"
    using assms(2) by (auto simp: acceptRequestAttributeUpdate_def Let_def split: option.splits)
  then show ?thesis using routes_ok_set_instance[OF assms(1)] assms(1) by auto
qed

text \<open>The instances of a response are new to the node: the handles come from the root server.\<close>

definition new_pairs :: "ObjectInstanceHandleNamePairVector \<Rightarrow> ObjectModel \<Rightarrow> bool" where
  "new_pairs pairs m \<longleftrightarrow> (\<forall>p \<in> set pairs. fst p = invalid_handle) \<or>
     distinct (map fst pairs) \<and> (\<forall>p \<in> set pairs. handle_valid (fst p) \<and> getObjectInstance (fst p) m = None)"

lemma insert_instances_ok:
  "routes_ok R m \<Longrightarrow> new_pairs pairs m \<Longrightarrow> insert_instances c pairs m = Inr (inserted, m') \<Longrightarrow> routes_ok R m'"
proof (induction pairs arbitrary: m inserted)
  case (Cons p pairs)
  obtain k name where p: "p = (k, name)" by fastforce
  obtain h m1 inserted' where h: "insertObjectInstance k name m = Inr (h, m1)"
    and rest: "insert_instances c pairs (object_reference c h m1) = Inr (inserted', m')"
    using Cons.prems(3) by (auto simp: p split: sum.splits)
  have "handle_valid k \<longrightarrow> getObjectInstance k m = None"
    using Cons.prems(2) by (auto simp: p new_pairs_def handle_valid_def)
  from routes_ok_insert[OF Cons.prems(1) h this]
  have m1: "routes_ok R m1" "\<forall>k'. k' \<noteq> h \<longrightarrow> getObjectInstance k' m1 = getObjectInstance k' m" "handle_valid k \<longrightarrow> h = k"
    by auto
  have ref: "getObjectInstance k' (object_reference c h m1) = getObjectInstance k' m1" for k'
    by (simp add: object_reference_def getObjectInstance_def)
  have "new_pairs pairs (object_reference c h m1)"
  proof (cases "\<forall>q \<in> set (p # pairs). fst q = invalid_handle")
    case False
    then have new: "distinct (map fst (p # pairs))" "\<forall>q \<in> set (p # pairs). handle_valid (fst q) \<and> getObjectInstance (fst q) m = None"
      using Cons.prems(2) unfolding new_pairs_def by blast+
    then have "h = k" using m1(3) by (simp add: p)
    then have "fst q \<noteq> h" if "q \<in> set pairs" for q using new(1) that by (auto simp: p)
    then show ?thesis using new m1(2) by (simp add: new_pairs_def ref)
  qed (simp add: new_pairs_def)
  then show ?case using Cons.IH[OF routes_ok_reference[OF m1(1)] _ rest] by simp
qed simp

lemma accept_instances_ok:
  assumes "routes_ok R m" "new_pairs pairs m" "accept_instances fh pairs msg f m = Inr (m', es)"
  shows "routes_ok R m'"
  using assms(1,3) insert_instances_ok[OF assms(1,2)]
  by (auto simp: accept_instances_def split: option.splits if_splits sum.splits)

lemma unnamed_pairs: "new_pairs (map (\<lambda>name. (invalid_handle, name)) names) m" "new_pairs (replicate n (invalid_handle, [])) m"
  by (auto simp: new_pairs_def)

lemma request_handles_ok:
  assumes "routes_ok R m" "acceptObjectInstanceHandlesRequest c msg f m = Inr (m', es)"
  shows "routes_ok R m'"
proof -
  let ?n = "unat (ObjectInstanceHandlesRequestMessage_count msg)"
  have "m' = m \<or> (\<exists>inserted. insert_instances c (replicate ?n (invalid_handle, [])) m = Inr (inserted, m'))"
    using assms(2) unfolding acceptObjectInstanceHandlesRequest_def
    by (auto split: option.splits if_splits sum.splits)
  then show ?thesis using assms(1) insert_instances_ok[OF assms(1) unnamed_pairs(2)] by auto
qed

lemma reserve_name_ok:
  assumes "routes_ok R m" "acceptReserveObjectInstanceNameRequest msg f m = Inr (m', es)"
  shows "routes_ok R m'"
proof -
  let ?name = "ReserveObjectInstanceNameRequestMessage_name msg"
  have "m' = m \<or> (\<exists>c inserted. insert_instances c [(invalid_handle, ?name)] m = Inr (inserted, m'))"
    using assms(2) unfolding acceptReserveObjectInstanceNameRequest_def Let_def
    by (auto simp del: insert_instances.simps split: option.splits if_splits sum.splits)
  then show ?thesis using assms(1) insert_instances_ok[OF assms(1) unnamed_pairs(1)[of "[?name]"]] by auto
qed

lemma reserve_names_ok:
  assumes "routes_ok R m" "acceptReserveMultipleObjectInstanceNameRequest msg f m = Inr (m', es)"
  shows "routes_ok R m'"
proof -
  let ?names = "ReserveMultipleObjectInstanceNameRequestMessage_nameList msg"
  have "m' = m \<or> (\<exists>c inserted. insert_instances c (map (\<lambda>name. (invalid_handle, name)) ?names) m = Inr (inserted, m'))"
    using assms(2) unfolding acceptReserveMultipleObjectInstanceNameRequest_def Let_def
    by (auto split: option.splits if_splits sum.splits)
  then show ?thesis using assms(1) insert_instances_ok[OF assms(1) unnamed_pairs(1)[of ?names]] by auto
qed

lemma release_ok:
  assumes "routes_ok R m" "acceptReleaseMultipleObjectInstanceNameHandlePairs c msg f m = Inr (m', es)"
  shows "routes_ok (R \<union> {c} \<times> set (ReleaseMultipleObjectInstanceNameHandlePairsMessage_objectInstanceHandleVector msg)) m'"
  using assms release_instances_ok[OF assms(1)]
  by (auto simp: acceptReleaseMultipleObjectInstanceNameHandlePairs_def split: sum.splits)

text \<open>
  An insert gives an instance without a class its attributes, with fresh receivers; for one that has
  its class already the former owners of the attributes are given up.
\<close>

definition after_insert ::
    "ObjectInstanceHandle \<Rightarrow> ObjectModel \<Rightarrow> (ConnectHandle \<times> ObjectInstanceHandle) set \<Rightarrow> (ConnectHandle \<times> ObjectInstanceHandle) set" where
  "after_insert h m R =
     (if instance_class h m \<noteq> None then R \<union> {(d, h) | a d. owner_of a h m = Some d}
      else if handle_valid h then {(d, k) \<in> R. k \<noteq> h} else R)"

definition found_instance ::
    "ObjectInstanceHandle \<Rightarrow> ObjectModel \<Rightarrow> ObjectInstanceHandle option \<times> ObjectModel \<Rightarrow> bool" where
  "found_instance h m s \<longleftrightarrow> objectClasses (snd s) = objectClasses m \<and> (case fst s of
     None \<Rightarrow> getObjectInstance h m = None \<and> snd s = m
   | Some h' \<Rightarrow> (if getObjectInstance h m = None
       then instance_class h' (snd s) = None \<and> (handle_valid h \<longrightarrow> h' = h)
       else h' = h \<and> instance_class h (snd s) = instance_class h m \<and> (\<forall>a. owner_of a h (snd s) = owner_of a h m)))"

lemma reference_core [simp]:
  "objectClasses (object_reference c h m) = objectClasses m"
  "instance_class k (object_reference c h m) = instance_class k m"
  "owner_of a k (object_reference c h m) = owner_of a k m"
  by (simp_all add: object_reference_def instance_class_def owner_of_def instance_attribute_def getObjectInstance_def)

lemma insert_for_subscribers_ok:
  assumes "fold (insert_for_subscriber f c msg) ds (Inr s) = Inr s'"
    and h: "h = InsertObjectInstanceMessage_objectInstanceHandle msg"
    and "routes_ok R (snd s)" "found_instance h m s"
  shows "routes_ok R (snd s') \<and> found_instance h m s'"
  using assms(1,3,4)
proof (induction ds arbitrary: s)
  case (Cons d ds)
  have err: "fold (insert_for_subscriber f c msg) ds (Inl e) = Inl e" for e
    by (induction ds) (simp_all add: insert_for_subscriber_def)
  obtain oi m0 where s: "s = (oi, m0)" by fastforce
  obtain s1 where s1: "insert_for_subscriber f c msg d (Inr s) = Inr s1"
    using Cons.prems(1) err by (cases "insert_for_subscriber f c msg d (Inr s)") auto
  have "routes_ok R (snd s1) \<and> found_instance h m s1"
  proof (cases oi)
    case (Some h')
    then show ?thesis using s1 Cons.prems(2,3)
      by (auto simp: s insert_for_subscriber_def found_instance_def routes_ok_reference split: if_splits)
  next
    case None
    then have m0: "m0 = m" "getObjectInstance h m = None" using Cons.prems(3) by (simp_all add: s found_instance_def)
    show ?thesis
    proof (cases "is_parent f d \<or> d = c")
      case True
      then show ?thesis using s1 Cons.prems(2,3) by (simp add: s insert_for_subscriber_def)
    next
      case False
      then obtain h' m1 where new: "insertObjectInstance h (InsertObjectInstanceMessage_name msg) m = Inr (h', m1)"
        and s1': "s1 = (Some h', if map_of (federationConnects f) d = None then m1 else object_reference d h' m1)"
        using s1 None by (auto simp: s insert_for_subscriber_def m0 h split: sum.splits)
      have "routes_ok R m" using Cons.prems(2) by (simp add: s m0)
      from routes_ok_insert[OF this new] m0(2) show ?thesis
        by (auto simp: s1' found_instance_def routes_ok_reference)
    qed
  qed
  then show ?case using Cons.IH[of s1] Cons.prems(1) s1 by simp
qed simp

lemma insert_in_class_ok:
  assumes ok: "routes_ok R m0" and i: "i < length (objectClasses m0)" and found: "found_instance h m (Some h', m0)"
    and run: "insert_in_class f c msg i h' m0 = Inr (m', es)"
  shows "routes_ok (after_insert h m R) m'"
proof -
  let ?m1 = "update_instance h' (\<lambda>oi. snd (setPublicationType c Published oi)) m0"
  let ?R1 = "if instance_class h' m0 = None then {(d, k) \<in> R. k \<noteq> h'} else R \<union> {(d, h') | a d. owner_of a h' m0 = Some d}"
  obtain m2 where m2: "setObjectClass i h' ?m1 = Some m2"
    and own: "fold (\<lambda>as r. Option.bind r (own_attribute c h' as))
      (InsertObjectInstanceMessage_attributeStateVector msg) (Some m2) = Some m'"
    using run by (auto simp: insert_in_class_def Let_def split: option.splits bind_splits)
  have ok1: "routes_ok R ?m1" by (rule routes_ok_update_instance[OF ok]) simp
  have core: "instance_core k ?m1 = instance_core k m0" for k by (rule update_instance_core) simp
  have same: "instance_class k ?m1 = instance_class k m0" "owner_of a k ?m1 = owner_of a k m0" for k a
    by (simp_all add: owner_of_def core_facts(2,3) core)
  have "routes_ok ?R1 m2 \<and> owners_in c h' ?R1 m2"
  proof (cases "instance_class h' m0")
    case None
    then show ?thesis using routes_ok_setObjectClass[OF ok1 _ m2] i by (auto simp: same owners_in_def)
  next
    case (Some j)
    then have "m2 = ?m1" using routes_ok_setObjectClass[OF ok1 _ m2] i by (simp add: same)
    then show ?thesis using Some routes_ok_mono[OF ok1, of ?R1] by (auto simp: owners_in_def same)
  qed
  then have "routes_ok ?R1 m' \<and> owners_in c h' ?R1 m'"
    by (rule fold_option_invariant[OF own, where P = "\<lambda>m. routes_ok ?R1 m \<and> owners_in c h' ?R1 m"])
      (elim conjE, rule routes_ok_own)
  moreover have "?R1 \<subseteq> after_insert h m R"
  proof (cases "getObjectInstance h m")
    case None
    then have "instance_class h m = None" "instance_class h' m0 = None" "handle_valid h \<longrightarrow> h' = h"
      using found by (simp_all add: found_instance_def instance_class_def)
    then show ?thesis by (auto simp: after_insert_def)
  next
    case (Some oi)
    then have "h' = h" "instance_class h' m0 = instance_class h m" "\<And>a. owner_of a h' m0 = owner_of a h m"
      using found by (simp_all add: found_instance_def)
    then show ?thesis by (auto simp: after_insert_def)
  qed
  ultimately show ?thesis using routes_ok_mono by blast
qed

lemma insert_ok:
  assumes ok: "routes_ok R m" and run: "acceptInsertObjectInstance c msg f m = Inr (m', es)"
  shows "routes_ok (after_insert (InsertObjectInstanceMessage_objectInstanceHandle msg) m R) m'"
proof -
  let ?h = "InsertObjectInstanceMessage_objectInstanceHandle msg"
  obtain i where i: "getObjectClass (InsertObjectInstanceMessage_objectClassHandle msg) m = Some i"
    using run by (auto simp: acceptInsertObjectInstance_def Let_def split: option.splits)
  let ?found = "(case getClassAttribute privilegeToDelete (objectClasses m ! i) of
      None \<Rightarrow> Inr (known_instance ?h m, m)
    | Some ps \<Rightarrow> fold (insert_for_subscriber f c msg)
        (sorted_list_of_fset (cumulativeSubscribedConnectHandleSet ps)) (Inr (known_instance ?h m, m)))"
  obtain oi m0 where found: "?found = Inr (oi, m0)"
    and rest: "oi = None \<and> m' = m0 \<or> (\<exists>h'. oi = Some h' \<and> insert_in_class f c msg i h' m0 = Inr (m', es))"
    using run i by (cases ?found) (auto simp: acceptInsertObjectInstance_def Let_def split: option.splits)
  have start: "found_instance ?h m (known_instance ?h m, m)"
    by (auto simp: found_instance_def known_instance_def split: option.split)
  have m0: "routes_ok R m0 \<and> found_instance ?h m (oi, m0)"
    using found insert_for_subscribers_ok[of f c msg _ "(known_instance ?h m, m)" "(oi, m0)" ?h R m] start ok
    by (auto split: option.splits)
  show ?thesis
  proof (cases oi)
    case None
    then have "m' = m0" "m0 = m" "getObjectInstance ?h m = None" using rest m0 by (auto simp: found_instance_def)
    then have "m' = m" "instance_class ?h m = None" "instance_attribute a ?h m = None" for a
      by (simp_all add: instance_class_def instance_attribute_def)
    then show ?thesis using ok by (auto simp: routes_ok_def synced_def after_insert_def split: if_splits)
  next
    case (Some h')
    then have ins: "insert_in_class f c msg i h' m0 = Inr (m', es)" using rest by simp
    have len: "i < length (objectClasses m0)" using m0 getObjectClass_Some[OF i] by (simp add: found_instance_def)
    show ?thesis by (rule insert_in_class_ok[OF _ len _ ins]) (use m0 Some in simp_all)
  qed
qed

section \<open>Histories of a node\<close>

definition fresh_objects :: "ObjectModel \<Rightarrow> bool" where
  "fresh_objects m \<longleftrightarrow> inherits m \<and> objectInstances m = [] \<and> objectInstanceConnects m = [] \<and>
     objectInstanceHandleAllocator m = new_allocator \<and>
     (\<forall>oc \<in> set (objectClasses m). objectInstanceList oc = [] \<and> (\<forall>(a, ps) \<in> set (classAttributes oc). ps = no_connects))"

text \<open>
  All messages about objects, from any connect, with any state of the rest of the federation. The
  instances of a response are new to the node. The set is the \<open>R\<close> of the invariant.
\<close>

inductive object_history :: "ObjectModel \<Rightarrow> (ConnectHandle \<times> ObjectInstanceHandle) set \<Rightarrow> bool" where
  start: "fresh_objects m \<Longrightarrow> object_history m {}"
| publication: "object_history m R \<Longrightarrow>
    acceptChangeObjectClassPublication c msg f m = Inr (m', es) \<Longrightarrow> object_history m' R"
| subscription: "object_history m R \<Longrightarrow>
    acceptChangeObjectClassSubscription c msg f m = Inr (m', es) \<Longrightarrow> object_history m' R"
| instance_subscription: "object_history m R \<Longrightarrow>
    acceptChangeObjectInstanceSubscription c msg f m = Inr (m', es) \<Longrightarrow> object_history m' R"
| handles: "object_history m R \<Longrightarrow>
    acceptObjectInstanceHandlesRequest c msg f m = Inr (m', es) \<Longrightarrow> object_history m' R"
| name: "object_history m R \<Longrightarrow>
    acceptReserveObjectInstanceNameRequest msg f m = Inr (m', es) \<Longrightarrow> object_history m' R"
| names: "object_history m R \<Longrightarrow>
    acceptReserveMultipleObjectInstanceNameRequest msg f m = Inr (m', es) \<Longrightarrow> object_history m' R"
| handles_response: "object_history m R \<Longrightarrow>
    acceptObjectInstanceHandlesResponse msg f m = Inr (m', es) \<Longrightarrow>
    new_pairs (ObjectInstanceHandlesResponseMessage_objectInstanceHandleNamePairVector msg) m \<Longrightarrow> object_history m' R"
| name_response: "object_history m R \<Longrightarrow>
    acceptReserveObjectInstanceNameResponse msg f m = Inr (m', es) \<Longrightarrow>
    new_pairs [ReserveObjectInstanceNameResponseMessage_objectInstanceHandleNamePair msg] m \<Longrightarrow> object_history m' R"
| names_response: "object_history m R \<Longrightarrow>
    acceptReserveMultipleObjectInstanceNameResponse msg f m = Inr (m', es) \<Longrightarrow>
    new_pairs (ReserveMultipleObjectInstanceNameResponseMessage_objectInstanceHandleNamePairVector msg) m \<Longrightarrow> object_history m' R"
| release: "object_history m R \<Longrightarrow>
    acceptReleaseMultipleObjectInstanceNameHandlePairs c msg f m = Inr (m', es) \<Longrightarrow>
    object_history m' (R \<union> {c} \<times> set (ReleaseMultipleObjectInstanceNameHandlePairsMessage_objectInstanceHandleVector msg))"
| insertion: "object_history m R \<Longrightarrow>
    acceptInsertObjectInstance c msg f m = Inr (m', es) \<Longrightarrow>
    object_history m' (after_insert (InsertObjectInstanceMessage_objectInstanceHandle msg) m R)"
| request: "object_history m R \<Longrightarrow>
    acceptRequestAttributeUpdate c msg f m = Inr (m', es) \<Longrightarrow> object_history m' R"

lemma fresh_objects_ok:
  assumes "fresh_objects m"
  shows "routes_ok {} m"
proof -
  have inh: "inherits m" using assms by (simp add: fresh_objects_def)
  have att: "getClassAttribute a (objectClasses m ! j) \<in> {None, Some no_connects}" if "j < length (objectClasses m)" for a j
  proof (cases "getClassAttribute a (objectClasses m ! j)")
    case (Some ps)
    then have "(a, ps) \<in> set (classAttributes (objectClasses m ! j))"
      by (simp add: getClassAttribute_def map_of_SomeD)
    moreover have "objectClasses m ! j \<in> set (objectClasses m)" using that by simp
    ultimately have "ps = no_connects" using assms unfolding fresh_objects_def by fast
    then show ?thesis using Some by simp
  qed simp
  have none: "attribute_view a m ! j = attribute_class (attribute_parent a (objectClasses m) (objectClasses m ! j)) (Some no_connects)"
    if "j < length (objectClasses m)" for a j
    using att[OF that, of a] that by (auto simp: attribute_view_nth attribute_class_def)
  have "cumulative_ok (attribute_view a m)" for a
  proof -
    have "p < j" if "j < length (objectClasses m)" "attribute_parent a (objectClasses m) (objectClasses m ! j) = Some p" for j p
      using that inherits_parent(1)[OF inh that(1)] by (auto simp: attribute_parent_def split: option.splits if_splits)
    then have tree: "classes_tree (class_parents (attribute_view a m))"
      by (simp add: classes_tree_def attribute_view_nth)
    have "\<not> subscribed_above c (attribute_view a m) j" if j: "j < length (objectClasses m)" for c j
    proof -
      have "k < length (objectClasses m)" if "k \<in> set (class_path (class_parents (attribute_view a m)) j)" for k
        using class_path_le[OF that] j by simp
      then show ?thesis by (auto simp: subscribed_above_def list_ex_iff none getSubscriptionType_def no_connects_def)
    qed
    then show ?thesis using tree by (simp add: cumulative_ok_def attribute_view_nth(1) none no_connects_def)
  qed
  moreover have "getObjectInstance h m = None" for h using assms by (simp add: fresh_objects_def getObjectInstance_def)
  moreover have "objectInstanceList (objectClasses m ! i) = []" if "i < length (objectClasses m)" for i
    using assms that by (simp add: fresh_objects_def)
  ultimately show ?thesis using assms inh
    by (auto simp: routes_ok_def classes_ok_def instances_ok_def synced_def instance_class_def instance_attribute_def fresh_objects_def
        owners_silent_def owner_of_def)
qed

lemma object_history_ok: "object_history m R \<Longrightarrow> routes_ok R m"
proof (induction rule: object_history.induct)
  case (name_response m R msg f m' es)
  then show ?case using accept_instances_ok[OF name_response.IH, of "[]"]
      accept_instances_ok[OF name_response.IH name_response.hyps(3)]
    by (auto simp: acceptReserveObjectInstanceNameResponse_def new_pairs_def split: if_splits)
next
  case (names_response m R msg f m' es)
  then show ?case using accept_instances_ok[OF names_response.IH, of "[]"]
      accept_instances_ok[OF names_response.IH names_response.hyps(3)]
    by (auto simp: acceptReserveMultipleObjectInstanceNameResponse_def new_pairs_def split: if_splits)
next
  case (handles_response m R msg f m' es)
  then show ?case using accept_instances_ok by (simp add: acceptObjectInstanceHandlesResponse_def)
qed (rule fresh_objects_ok publication_ok subscription_ok instance_subscription_ok request_handles_ok
      reserve_name_ok reserve_names_ok release_ok insert_ok request_update_ok; assumption)+

section \<open>Delivery\<close>

text \<open>What the subscriptions of a connect say about an attribute of a class.\<close>

definition attribute_subscribed :: "ConnectHandle \<Rightarrow> AttributeHandle \<Rightarrow> ObjectModel \<Rightarrow> nat \<Rightarrow> bool" where
  "attribute_subscribed c a m i \<longleftrightarrow> list_ex (\<lambda>k.
     (case getClassAttribute a (objectClasses m ! k) of
        None \<Rightarrow> False | Some ps \<Rightarrow> getSubscriptionType c ps \<noteq> Unsubscribed)) (class_path (object_parents m) i)"

lemma attribute_subscribed_view:
  assumes inh: "inherits m" and i: "i < length (objectClasses m)"
  shows "attribute_subscribed c a m i \<longleftrightarrow> subscribed_above c (attribute_view a m) i \<and> has_attribute a (objectClasses m ! i)"
  using i
proof (induction i rule: less_induct)
  case (less i)
  have tree: "classes_tree (object_parents m)" using inh by (simp add: inherits_def)
  have treev: "classes_tree (class_parents (attribute_view a m))"
    using inherits_parent(1)[OF inh]
    by (auto simp: classes_tree_def attribute_view_nth attribute_parent_def split: option.splits if_splits)
  let ?here = "case getClassAttribute a (objectClasses m ! i) of None \<Rightarrow> False | Some ps \<Rightarrow> getSubscriptionType c ps \<noteq> Unsubscribed"
  have l: "attribute_subscribed c a m i \<longleftrightarrow> ?here \<or>
      (\<exists>p. parentObjectClass (objectClasses m ! i) = Some p \<and> attribute_subscribed c a m p)"
    using class_path_parent[OF tree] less.prems
    by (auto simp: attribute_subscribed_def object_parents_def split: option.split)
  have r: "subscribed_above c (attribute_view a m) i \<longleftrightarrow> subscribed_by c (attribute_view a m ! i) \<or>
      (\<exists>p. attribute_parent a (objectClasses m) (objectClasses m ! i) = Some p \<and> subscribed_above c (attribute_view a m) p)"
    using subscribed_above_rec[OF treev] less.prems by (simp add: attribute_view_nth)
  have IH: "attribute_subscribed c a m p \<longleftrightarrow> subscribed_above c (attribute_view a m) p \<and> has_attribute a (objectClasses m ! p)"
    "has_attribute a (objectClasses m ! p) \<Longrightarrow> has_attribute a (objectClasses m ! i)"
    if "parentObjectClass (objectClasses m ! i) = Some p" for p
    using less.IH[of p] inherits_parent[OF inh less.prems that] less.prems by auto
  show ?case
  proof (cases "getClassAttribute a (objectClasses m ! i)")
    case None
    then show ?thesis using l IH by (auto simp: has_attribute_iff)
  next
    case (Some ps)
    then have "subscribed_by c (attribute_view a m ! i) = ?here" using less.prems by (simp add: attribute_view_nth)
    moreover have "has_attribute a (objectClasses m ! i)" using Some by (simp add: has_attribute_iff)
    ultimately show ?thesis unfolding l r using IH
      by (auto simp: attribute_parent_def split: option.splits if_splits)
  qed
qed

text \<open>The messages a connect gets out of a map from connects to vectors.\<close>

lemma sent_to_by_connect:
  "sent_to d (concat (map (\<lambda>(x, vs). fed_send f x (u vs) @ [Metric x k]) (by_connect calls))) =
     (let vs = map snd (filter (\<lambda>(x, _). x = d) calls) in if vs \<noteq> [] \<and> reachable f d then [u vs] else [])"
proof -
  have "map (\<lambda>(x, vs). fed_send f x (u vs) @ [Metric x k]) (by_connect calls) =
      map (\<lambda>x. fed_send f x (u (map snd (filter (\<lambda>(d, _). d = x) calls))) @ [Metric x k]) (sort (remdups (map fst calls)))"
    by (simp add: by_connect_def)
  then have "sent_to d (concat (map (\<lambda>(x, vs). fed_send f x (u vs) @ [Metric x k]) (by_connect calls))) =
      (if d \<in> fst ` set calls then sent_to d (fed_send f d (u (map snd (filter (\<lambda>(x, _). x = d) calls))) @ [Metric d k]) else [])"
    by (simp only:) (subst sent_to_concat_distinct; simp)
  moreover have "d \<in> fst ` set calls \<longleftrightarrow> filter (\<lambda>(x, _). x = d) calls \<noteq> []"
    by (force simp: filter_empty_conv)
  ultimately show ?thesis by (simp add: Let_def)
qed

lemma filter_distinct: "distinct xs \<Longrightarrow> filter (\<lambda>x. P x \<and> x = d) xs = (if d \<in> set xs \<and> P d then [d] else [])"
  by (induction xs) auto

lemma receivers_of:
  "map snd (filter (\<lambda>(x, _). x = d) (attribute_receivers oi vals)) = filter (\<lambda>v.
     (case getInstanceAttribute (AttributeValue_attributeHandle v) oi of
        None \<Rightarrow> False | Some ia \<Rightarrow> d |\<in>| receivingConnects ia) \<and> getSubscriptionType d oi \<noteq> Unsubscribed) vals"
proof (induction vals)
  case (Cons v vals)
  have one: "filter (\<lambda>(x, _). x = d) (map (\<lambda>d. (d, v)) (filter P (sorted_list_of_fset S))) =
      (if d |\<in>| S \<and> P d then [(d, v)] else [])" for P S
    by (simp add: filter_map comp_def filter_distinct sorted_list_of_fset.rep_eq)
  show ?case using Cons.IH by (simp add: attribute_receivers_def one split: option.split)
qed (simp add: attribute_receivers_def)

definition delivered_values :: "ConnectHandle \<Rightarrow> ObjectInstance \<Rightarrow> ObjectModel \<Rightarrow> nat \<Rightarrow> AttributeValueVector \<Rightarrow> AttributeValueVector" where
  "delivered_values d oi m i vals =
     (if getSubscriptionType d oi = Unsubscribed then []
      else filter (\<lambda>v. attribute_subscribed d (AttributeValue_attributeHandle v) m i \<and>
        map_option ownerConnectHandle (getInstanceAttribute (AttributeValue_attributeHandle v) oi) \<noteq> Some d) vals)"

lemma route_update_exact:
  assumes ok: "routes_ok R m" and oi: "getObjectInstance h m = Some oi" "objectClass oi = Some i"
    and d: "d \<noteq> invalid_handle" "(d, h) \<notin> R"
    and vals: "\<forall>v \<in> set vals. AttributeValue_attributeHandle v \<noteq> privilegeToDelete"
  shows "\<exists>es. route_update c h vals u f m = Inr (m, es) \<and> sent_to d es =
    (if delivered_values d oi m i vals \<noteq> [] \<and> reachable f d then [u (delivered_values d oi m i vals)] else [])"
proof -
  have ic: "instance_class h m = Some i" and att: "instance_attribute a h m = getInstanceAttribute a oi" for a
    using oi by (simp_all add: instance_class_def instance_attribute_def)
  have inh: "inherits m" and i: "i < length (objectClasses m)"
    using ok routes_ok_known(1)[OF ok ic] by (simp_all add: routes_ok_def classes_ok_def)
  have "(case getInstanceAttribute (AttributeValue_attributeHandle v) oi of
      None \<Rightarrow> False | Some ia \<Rightarrow> d |\<in>| receivingConnects ia) \<longleftrightarrow>
      attribute_subscribed d (AttributeValue_attributeHandle v) m i \<and>
      map_option ownerConnectHandle (getInstanceAttribute (AttributeValue_attributeHandle v) oi) \<noteq> Some d"
    if v: "v \<in> set vals" for v
  proof -
    let ?a = "AttributeValue_attributeHandle v"
    have sync: "in_sync d ?a m i h" using ok d vals v ic by (simp add: routes_ok_def synced_def)
    have has: "getInstanceAttribute ?a oi \<noteq> None \<longleftrightarrow> has_attribute ?a (objectClasses m ! i)"
      using ok ic att[of ?a] unfolding routes_ok_def instances_ok_def by (metis option.inject)
    have sub: "attribute_subscribed d ?a m i \<longleftrightarrow> in_cum d ?a i m" if "has_attribute ?a (objectClasses m ! i)"
    proof -
      obtain ps where ps: "getClassAttribute ?a (objectClasses m ! i) = Some ps" using \<open>has_attribute _ _\<close> by (auto simp: has_attribute_iff)
      have "cumulative_ok (attribute_view ?a m)" using ok by (simp add: routes_ok_def classes_ok_def)
      then have "in_cumulative d (attribute_view ?a m ! i) = subscribed_above d (attribute_view ?a m) i"
        using i by (simp add: cumulative_ok_def attribute_view_nth(1))
      then show ?thesis using attribute_subscribed_view[OF inh i] that ps i by (simp add: in_cum_def attribute_view_nth)
    qed
    have unowned: "d |\<notin>| receivingConnects ia" if "getInstanceAttribute ?a oi = Some ia" "ownerConnectHandle ia = d" for ia
    proof -
      have "owner_of ?a h m = Some d" using that by (simp add: owner_of_def att)
      then have "\<not> receives d ?a h m" using ok d(1) by (simp add: routes_ok_def owners_silent_def)
      then show ?thesis using that by (simp add: receives_def att)
    qed
    show ?thesis
      using sync has sub unowned attribute_subscribed_view[OF inh i, of d ?a]
      by (cases "getInstanceAttribute ?a oi") (auto simp: in_sync_def owner_of_def receives_def att)
  qed
  then have "map snd (filter (\<lambda>(x, _). x = d) (attribute_receivers oi vals)) = delivered_values d oi m i vals"
    by (auto simp: receivers_of delivered_values_def intro!: filter_cong)
  then show ?thesis using oi by (simp add: route_update_def sent_to_by_connect Let_def del: split_paired_Ex)
qed

end
