(* ===== verification/Object_Properties.thy ===== *)
theory Object_Properties
  imports Object_Delivery
begin

text \<open>
  The properties of the object part of a server node, with an example of two connects: one
  subscribes a class, the other one inserts an object of it and updates an attribute.
\<close>

definition example_object_class :: ObjectClass where
  "example_object_class = \<lparr>objectClassHandle = 20, parentObjectClass = None,
     classAttributes = [(0, no_connects), (1, no_connects)], objectInstanceList = []\<rparr>"

definition example_objects :: ObjectModel where
  "example_objects = \<lparr>objectClasses = [example_object_class], objectInstances = [],
     objectInstanceHandleAllocator = new_allocator, objectInstanceConnects = []\<rparr>"

definition object_example_connect :: FederationConnect where
  "object_example_connect = \<lparr>nodeConnect = \<lparr>isParentConnect = False, messageSender = True\<rparr>, active = True,
     federateList = [], timeRegulatingFederateList = [], timeConstrainedFederateList = []\<rparr>"

definition object_example_federation :: Federation where
  "object_example_federation = \<lparr>federationHandle = 0, parentConnect = None,
     federationConnects = [(1, object_example_connect), (2, object_example_connect)],
     federates = [], federateHandleAllocator = new_allocator, timeRegulatingConnects = [],
     timeConstrainedConnects = [], synchronizations = [], interactionClasses = []\<rparr>"

definition example_object_subscription :: ChangeObjectClassSubscriptionMessage where
  "example_object_subscription = \<lparr>ChangeObjectClassSubscriptionMessage_federationHandle = 0,
     ChangeObjectClassSubscriptionMessage_subscriptionType = SubscribedActive,
     ChangeObjectClassSubscriptionMessage_objectClassHandle = 20,
     ChangeObjectClassSubscriptionMessage_attributeHandles = [0, 1]\<rparr>"

definition example_insert :: InsertObjectInstanceMessage where
  "example_insert = \<lparr>InsertObjectInstanceMessage_federationHandle = 0,
     InsertObjectInstanceMessage_objectClassHandle = 20,
     InsertObjectInstanceMessage_objectInstanceHandle = 0,
     InsertObjectInstanceMessage_name = [65],
     InsertObjectInstanceMessage_attributeStateVector =
       [\<lparr>AttributeState_attributeHandle = 0, AttributeState_ownerFederate = 7\<rparr>,
        \<lparr>AttributeState_attributeHandle = 1, AttributeState_ownerFederate = 7\<rparr>]\<rparr>"

definition subscribed_by_two :: PublishSubscribe where
  "subscribed_by_two = no_connects\<lparr>subscribedConnects := {|2|}, cumulativeSubscribedConnectHandleSet := {|2|}\<rparr>"

definition example_objects2 :: ObjectModel where
  "example_objects2 = example_objects\<lparr>objectClasses := [example_object_class\<lparr>
     classAttributes := [(0, subscribed_by_two), (1, subscribed_by_two)]\<rparr>]\<rparr>"

lemmas object_example_defs = example_objects_def example_object_class_def example_objects2_def subscribed_by_two_def
  no_connects_def example_object_subscription_def object_example_federation_def

lemma object_example_step1:
  "acceptChangeObjectClassSubscription 2 example_object_subscription object_example_federation example_objects =
     Inr (example_objects2, [Metric 2 (objectClassSubscribed 20 [0, 1] True)])"
  by (simp add: object_example_defs acceptChangeObjectClassSubscription_def getObjectClass_def subscribe_attribute_def
      getClassAttribute_def set_object_attribute_def set_class_attribute_def setSubscriptionType_def broadcast_set_insert_def
      entry_update_def object_updateCumulativeSubscription_def object_update_cumulative.simps
      updateCumulativeSubscribedConnectHandleSet_def getSubscriptionType_def childInteractionClassList_def
      object_parents_def by_connect_def sorted_list_of_fset.rep_eq)

definition example_instance :: ObjectInstance where
  "example_instance = \<lparr>cumulativeSubscribedConnectHandleSet = {||}, publishedConnects = {|1|},
     subscribedConnects = {|2|}, activeSubscribedConnects = {||}, objectInstanceName = [65], objectClass = Some 0,
     instanceAttributes = [(0, \<lparr>receivingConnects = {|2|}, ownerConnectHandle = 1, ownerFederate = 7\<rparr>),
       (1, \<lparr>receivingConnects = {|2|}, ownerConnectHandle = 1, ownerFederate = 7\<rparr>)]\<rparr>"

definition example_objects3 :: ObjectModel where
  "example_objects3 = \<lparr>objectClasses = [example_object_class\<lparr>
       classAttributes := [(0, subscribed_by_two), (1, subscribed_by_two)], objectInstanceList := [0]\<rparr>],
     objectInstances = [(0, example_instance)],
     objectInstanceHandleAllocator = \<lparr>handleSet = {}, nextHandle = 1\<rparr>, objectInstanceConnects = [(2, 0)]\<rparr>"

lemma example_instance_sets:
  "setPublicationType 1 Published (oi :: ObjectInstance) =
     (fst (broadcast_set_insert 1 (publishedConnects oi)), oi\<lparr>publishedConnects := snd (broadcast_set_insert 1 (publishedConnects oi))\<rparr>)"
  "setSubscriptionType 2 SubscribedActive (oi :: ObjectInstance) =
     (fst (broadcast_set_insert 2 (subscribedConnects oi)), oi\<lparr>subscribedConnects := snd (broadcast_set_insert 2 (subscribedConnects oi))\<rparr>)"
  by (simp_all add: setPublicationType_def setSubscriptionType_def case_prod_beta)

lemma object_example_step2:
  "acceptInsertObjectInstance 1 example_insert object_example_federation example_objects2 =
     Inr (example_objects3, [Sent 2 (message.InsertObjectInstanceMessage example_insert)])"
  by (simp add: object_example_defs acceptInsertObjectInstance_def getObjectClass_def getClassAttribute_def
      known_instance_def getObjectInstance_def insert_for_subscriber_def is_parent_def insertObjectInstance_def getOrTake_def
      allocator_take_def new_allocator_def take_loop.simps[of 0] handle_valid_def invalid_handle_def object_reference_def insert_in_class_def
      update_instance_def entry_update_def setObjectClass_def example_insert_def privilegeToDelete_def instance_name_def
      example_instance_sets instance_of_class_def new_instance_def new_instance_attribute_def
      broadcast_set_insert_def PublishSubscribe.defs
      own_attribute_def getInstanceAttribute_def update_attribute_def setOwnerConnectHandle_def instance_attribute_def
      send_set_def fed_send_def federation_connect_send_def node_connect_send_def object_example_connect_def
      sorted_list_of_fset.rep_eq example_objects3_def example_instance_def)

lemma object_example_history: "object_history example_objects3 {}"
proof -
  have "fresh_objects example_objects"
    by (simp add: fresh_objects_def inherits_def classes_tree_def object_parents_def example_objects_def
        example_object_class_def)
  from object_history.insertion[OF object_history.subscription[OF object_history.start[OF this] object_example_step1]
      object_example_step2]
  show ?thesis
    by (simp add: after_insert_def instance_class_def getObjectInstance_def example_objects2_def example_objects_def
        split: if_splits)
qed

definition example_update :: AttributeUpdateMessage where
  "example_update = \<lparr>AttributeUpdateMessage_federationHandle = 0, AttributeUpdateMessage_federateHandle = 7,
     AttributeUpdateMessage_objectInstanceHandle = 0, AttributeUpdateMessage_tag = [],
     AttributeUpdateMessage_transportationType = RELIABLE,
     AttributeUpdateMessage_attributeValues =
       [\<lparr>AttributeValue_attributeHandle = 1, AttributeValue_value = [42]\<rparr>,
        \<lparr>AttributeValue_attributeHandle = 9, AttributeValue_value = []\<rparr>]\<rparr>"

definition example_ts_update :: TimeStampedAttributeUpdateMessage where
  "example_ts_update = \<lparr>TimeStampedAttributeUpdateMessage_federationHandle = 0,
     TimeStampedAttributeUpdateMessage_federateHandle = 7, TimeStampedAttributeUpdateMessage_objectInstanceHandle = 0,
     TimeStampedAttributeUpdateMessage_tag = [], TimeStampedAttributeUpdateMessage_timeStamp = [0],
     TimeStampedAttributeUpdateMessage_messageRetractionHandle = 0,
     TimeStampedAttributeUpdateMessage_orderType = TIMESTAMP,
     TimeStampedAttributeUpdateMessage_transportationType = RELIABLE,
     TimeStampedAttributeUpdateMessage_attributeValues = []\<rparr>"

text \<open>
  C3: In every state that the messages about objects reach from object classes without instances
  and subscriptions, an attribute update and a time stamped attribute update of an object are handled
  without an error and change nothing, and each connect that has not released the object or lost an
  attribute of it is sent at most one message, with exactly the values of those attributes that it
  has subscribed at the class of the object or an ancestor and does not own itself - no message when
  there is none, when it cannot be reached or when it has unsubscribed the object. (The privilege to
  delete, whose subscription is never taken back, is not among the attributes.)
\<close>

theorem attribute_updates_reach_exactly_subscribers:
  assumes hist: "object_history m R"
    and oi: "getObjectInstance h m = Some oi" "objectClass oi = Some i"
    and um: "AttributeUpdateMessage_objectInstanceHandle um = h"
      "\<forall>v \<in> set (AttributeUpdateMessage_attributeValues um). AttributeValue_attributeHandle v \<noteq> privilegeToDelete"
    and tm: "TimeStampedAttributeUpdateMessage_objectInstanceHandle tm = h"
      "\<forall>v \<in> set (TimeStampedAttributeUpdateMessage_attributeValues tm). AttributeValue_attributeHandle v \<noteq> privilegeToDelete"
    and d: "d \<noteq> invalid_handle" "(d, h) \<notin> R"
  shows "\<exists>es ts. acceptAttributeUpdate c um f m = Inr (m, es) \<and>
    acceptTimeStampedAttributeUpdate c tm f m = Inr (m, ts) \<and>
    sent_to d es =
      (let vs = delivered_values d oi m i (AttributeUpdateMessage_attributeValues um)
       in if vs \<noteq> [] \<and> reachable f d
          then [message.AttributeUpdateMessage (um\<lparr>AttributeUpdateMessage_federationHandle := federationHandle f,
                  AttributeUpdateMessage_attributeValues := vs\<rparr>)]
          else []) \<and>
    sent_to d ts =
      (let vs = delivered_values d oi m i (TimeStampedAttributeUpdateMessage_attributeValues tm)
       in if vs \<noteq> [] \<and> reachable f d
          then [message.TimeStampedAttributeUpdateMessage
                  (tm\<lparr>TimeStampedAttributeUpdateMessage_federationHandle := federationHandle f,
                      TimeStampedAttributeUpdateMessage_attributeValues := vs\<rparr>)]
          else [])"
proof -
  let ?u = "\<lambda>vs. message.AttributeUpdateMessage (um\<lparr>AttributeUpdateMessage_federationHandle := federationHandle f,
      AttributeUpdateMessage_attributeValues := vs\<rparr>)"
  let ?t = "\<lambda>vs. message.TimeStampedAttributeUpdateMessage
      (tm\<lparr>TimeStampedAttributeUpdateMessage_federationHandle := federationHandle f,
         TimeStampedAttributeUpdateMessage_attributeValues := vs\<rparr>)"
  note exact = route_update_exact[OF object_history_ok[OF hist] oi d]
  from exact[OF um(2), of c ?u f] exact[OF tm(2), of c ?t f] show ?thesis
    unfolding acceptAttributeUpdate_def acceptTimeStampedAttributeUpdate_def um(1) tm(1) Let_def by (elim exE) auto
qed

theorem attribute_updates_reach_exactly_subscribers_witness:
  "\<exists>es. acceptAttributeUpdate 1 example_update object_example_federation example_objects3 = Inr (example_objects3, es) \<and>
     sent_to 2 es = [message.AttributeUpdateMessage (example_update\<lparr>AttributeUpdateMessage_attributeValues :=
       [\<lparr>AttributeValue_attributeHandle = 1, AttributeValue_value = [42]\<rparr>]\<rparr>)] \<and> sent_to 1 es = []"
proof -
  have get: "getObjectInstance 0 example_objects3 = Some example_instance" "objectClass example_instance = Some 0"
    by (simp_all add: getObjectInstance_def example_objects3_def example_instance_def)
  have um: "AttributeUpdateMessage_objectInstanceHandle example_update = 0"
    "\<forall>v \<in> set (AttributeUpdateMessage_attributeValues example_update). AttributeValue_attributeHandle v \<noteq> privilegeToDelete"
    and tm: "TimeStampedAttributeUpdateMessage_objectInstanceHandle example_ts_update = 0"
    "\<forall>v \<in> set (TimeStampedAttributeUpdateMessage_attributeValues example_ts_update). AttributeValue_attributeHandle v \<noteq> privilegeToDelete"
    by (simp_all add: example_update_def example_ts_update_def privilegeToDelete_def)
  note reach = attribute_updates_reach_exactly_subscribers[OF object_example_history get um tm _ _, where c = 1 and f = object_example_federation]
  have "reachable object_example_federation 2"
    by (simp add: reachable_def object_example_federation_def object_example_connect_def)
  moreover have "class_path (object_parents example_objects3) 0 = [0]"
    by (simp add: class_path.simps object_parents_def example_objects3_def example_object_class_def)
  ultimately show ?thesis
    using reach[of 2] reach[of 1]
    by (auto simp: delivered_values_def attribute_subscribed_def example_instance_def getSubscriptionType_def invalid_handle_def
        example_objects3_def example_object_class_def getClassAttribute_def subscribed_by_two_def no_connects_def
        getInstanceAttribute_def example_update_def object_example_federation_def)
qed

section \<open>Requests for all objects of a class\<close>

definition publishes_class :: "ConnectHandle \<Rightarrow> ObjectModel \<Rightarrow> nat \<Rightarrow> bool" where
  "publishes_class d m j \<longleftrightarrow> (case getClassAttribute privilegeToDelete (objectClasses m ! j) of
     None \<Rightarrow> False | Some ps \<Rightarrow> getPublicationType d ps = Published)"

lemma fold_union:
  assumes "\<And>k S. k \<in> set ks \<Longrightarrow> \<exists>S'. g k S = Some S' \<and> fset S' = fset S \<union> A k"
  shows "\<exists>S'. fold (\<lambda>k r. Option.bind r (g k)) ks (Some S) = Some S' \<and> fset S' = fset S \<union> (\<Union>k \<in> set ks. A k)"
  using assms
proof (induction ks arbitrary: S)
  case (Cons k ks)
  from Cons.prems[of k S] obtain S1 where S1: "g k S = Some S1" "fset S1 = fset S \<union> A k" by auto
  from Cons.IH[of S1] Cons.prems obtain S' where
    "fold (\<lambda>k r. Option.bind r (g k)) ks (Some S1) = Some S'" "fset S' = fset S1 \<union> (\<Union>k \<in> set ks. A k)" by auto
  then show ?case using S1 by (auto simp del: fold_simps simp: fold_Cons)
qed simp

lemma accumulate_exact:
  assumes inh: "inherits m"
  shows "i < length (objectClasses m) \<Longrightarrow> has_attribute privilegeToDelete (objectClasses m ! i) \<Longrightarrow>
    \<exists>S'. accumulateAllPublications (object_parents m) (objectClasses m) i S = Some S' \<and>
      fset S' = fset S \<union> {d. \<exists>j \<in> subtree (object_parents m) i. publishes_class d m j}"
proof (induction "length (objectClasses m) - i" arbitrary: i S rule: less_induct)
  case less
  let ?ps = "object_parents m"
  let ?ks = "childInteractionClassList ?ps i"
  let ?A = "\<lambda>i. {d. \<exists>j \<in> subtree ?ps i. publishes_class d m j}"
  have tree: "classes_tree ?ps" using inh by (simp add: inherits_def)
  obtain ps where ps: "getClassAttribute privilegeToDelete (objectClasses m ! i) = Some ps"
    using less.prems(2) by (auto simp: has_attribute_iff)
  have kids: "\<exists>S'. accumulateAllPublications ?ps (objectClasses m) k S = Some S' \<and> fset S' = fset S \<union> ?A k"
    if k: "k \<in> set ?ks" for k S
  proof -
    have k': "i < k" "k < length (objectClasses m)" "parentObjectClass (objectClasses m ! k) = Some i"
      using k by (auto simp: childInteractionClassList_def object_parents_def)
    show ?thesis
      by (rule less.hyps[OF _ k'(2)]) (use k' inherits_parent(2)[OF inh k'(2,3)] less.prems(2) in simp_all)
  qed
  have run: "accumulateAllPublications ?ps (objectClasses m) i S =
      fold (\<lambda>k r. Option.bind r (accumulateAllPublications ?ps (objectClasses m) k)) ?ks (Some (S |\<union>| publishedConnects ps))"
    by (subst accumulateAllPublications.simps) (simp add: ps)
  obtain S' where S': "accumulateAllPublications ?ps (objectClasses m) i S = Some S'"
    "fset S' = fset (S |\<union>| publishedConnects ps) \<union> (\<Union>k \<in> set ?ks. ?A k)"
    using fold_union[of ?ks "accumulateAllPublications ?ps (objectClasses m)" ?A "S |\<union>| publishedConnects ps", OF kids]
    unfolding run by blast
  have "publishes_class d m i \<longleftrightarrow> d |\<in>| publishedConnects ps" for d
    by (simp add: publishes_class_def ps getPublicationType_def)
  moreover have "j \<in> subtree ?ps i \<longleftrightarrow> j = i \<or> (\<exists>k \<in> set ?ks. j \<in> subtree ?ps k)" for j
    by (rule subtree_split[OF tree]) (use less.prems(1) in \<open>simp add: object_parents_def\<close>)
  ultimately show ?case using S' by auto
qed

text \<open>
  C16: A request for the attributes of all objects of a class changes nothing and reaches exactly the
  other connects that publish the class or a class derived from it, each of them once, whatever was
  published and subscribed before.
\<close>

theorem class_requests_reach_all_publishers:
  assumes "object_history m R"
    and i: "getObjectClass (RequestClassAttributeUpdateMessage_objectClassHandle msg) m = Some i"
    and p: "has_attribute privilegeToDelete (objectClasses m ! i)"
  shows "\<exists>es. acceptRequestClassAttributeUpdate c msg f m = Inr (m, es) \<and> sent_to d es =
    (if d \<noteq> c \<and> reachable f d \<and>
        list_ex (\<lambda>j. i \<in> set (class_path (object_parents m) j) \<and> publishes_class d m j) [0..<length (objectClasses m)]
     then [message.RequestClassAttributeUpdateMessage msg] else [])"
proof -
  have inh: "inherits m" using object_history_ok[OF assms(1)] by (simp add: routes_ok_def classes_ok_def)
  obtain S where S: "accumulateAllPublications (object_parents m) (objectClasses m) i {||} = Some S"
    "fset S = {d. \<exists>j \<in> subtree (object_parents m) i. publishes_class d m j}"
    using accumulate_exact[OF inh _ p, of "{||}"] getObjectClass_Some[OF i] by auto
  have "d |\<in>| S \<longleftrightarrow> list_ex (\<lambda>j. i \<in> set (class_path (object_parents m) j) \<and> publishes_class d m j) [0..<length (objectClasses m)]"
    unfolding S(2) by (auto simp: subtree_def object_parents_def list_ex_iff)
  then show ?thesis using S(1) i
    by (simp add: acceptRequestClassAttributeUpdate_def sent_to_send_set_except)
qed

definition example_class_publication :: ChangeObjectClassPublicationMessage where
  "example_class_publication = \<lparr>ChangeObjectClassPublicationMessage_federationHandle = 0,
     ChangeObjectClassPublicationMessage_publicationType = Published,
     ChangeObjectClassPublicationMessage_objectClassHandle = 20,
     ChangeObjectClassPublicationMessage_attributeHandles = [0]\<rparr>"

definition example_class_request :: RequestClassAttributeUpdateMessage where
  "example_class_request = \<lparr>RequestClassAttributeUpdateMessage_federationHandle = 0,
     RequestClassAttributeUpdateMessage_objectClassHandle = 20,
     RequestClassAttributeUpdateMessage_attributeHandles = [1], RequestClassAttributeUpdateMessage_tag = []\<rparr>"

theorem class_requests_reach_all_publishers_witness:
  "\<exists>m es. acceptRequestClassAttributeUpdate 2 example_class_request object_example_federation m = Inr (m, es) \<and>
     sent_to 1 es = [message.RequestClassAttributeUpdateMessage example_class_request] \<and> sent_to 2 es = []"
proof -
  let ?m = "example_objects\<lparr>objectClasses := [example_object_class\<lparr>
     classAttributes := [(0, no_connects\<lparr>publishedConnects := {|1|}\<rparr>), (1, no_connects)]\<rparr>]\<rparr>"
  have "acceptChangeObjectClassPublication 1 example_class_publication object_example_federation example_objects =
      Inr (?m, [Metric 1 (objectClassPublished 20 [0]),
        Sent 2 (message.ChangeObjectClassPublicationMessage example_class_publication)])"
    by (simp add: acceptChangeObjectClassPublication_def Let_def example_class_publication_def object_example_defs getObjectClass_def
        publish_attribute_def getClassAttribute_def setPublicationType_def broadcast_set_insert_def set_object_attribute_def
        set_class_attribute_def entry_update_def getSubscriptionTypeToConnect_def containsMoreThan_def by_connect_def
        broadcast_except_def federation_connect_send_def node_connect_send_def object_example_connect_def)
  moreover have "fresh_objects example_objects"
    by (simp add: fresh_objects_def inherits_def classes_tree_def object_parents_def example_objects_def
        example_object_class_def)
  ultimately have hist: "object_history ?m {}" using object_history.publication[OF object_history.start] by blast
  have i: "getObjectClass (RequestClassAttributeUpdateMessage_objectClassHandle example_class_request) ?m = Some 0"
    "has_attribute privilegeToDelete (objectClasses ?m ! 0)"
    by (simp_all add: getObjectClass_def example_class_request_def example_object_class_def has_attribute_def privilegeToDelete_def)
  have "reachable object_example_federation 1"
    by (simp add: reachable_def object_example_federation_def object_example_connect_def)
  moreover have "publishes_class 1 ?m 0"
    by (simp add: publishes_class_def getClassAttribute_def privilegeToDelete_def getPublicationType_def)
  ultimately show ?thesis
    using class_requests_reach_all_publishers[OF hist i, of 2 object_example_federation 1]
      class_requests_reach_all_publishers[OF hist i, of 2 object_example_federation 2]
    by (intro exI[of _ ?m]) auto
qed

end
