(* ===== verification/Federation_Time.thy ===== *)
theory Federation_Time
  imports Federation_Model
begin

text \<open>
  Time management at a server node: the lists of time regulating and time constrained federates
  (\<open>src/OpenRTI/ServerModel.cpp\<close>) and the handlers that route the messages of time management
  (\<open>src/OpenRTI/ServerNode.cpp\<close>). A federate is linked in the lists of its connect; a connect is
  linked in the lists of the federation while it has such a federate.
\<close>

section \<open>The lists\<close>

definition update_connect ::
    "ConnectHandle \<Rightarrow> (FederationConnect \<Rightarrow> FederationConnect) \<Rightarrow> Federation \<Rightarrow> Federation" where
  "update_connect c g f = f\<lparr>federationConnects := entry_update c g (federationConnects f)\<rparr>"

definition update_federate ::
    "FederateHandle \<Rightarrow> (Federate \<Rightarrow> Federate) \<Rightarrow> Federation \<Rightarrow> Federation" where
  "update_federate h g f = f\<lparr>federates := entry_update h g (federates f)\<rparr>"

definition connect_of :: "FederateHandle \<Rightarrow> Federation \<Rightarrow> ConnectHandle option" where
  "connect_of h f = (case map_of (federates f) h of
     None \<Rightarrow> None | Some federate \<Rightarrow> federationConnect federate)"

definition connect_lists ::
    "(FederationConnect \<Rightarrow> FederateHandle list) \<Rightarrow> ConnectHandle \<Rightarrow> Federation \<Rightarrow> FederateHandle list" where
  "connect_lists sel c f = (case map_of (federationConnects f) c of None \<Rightarrow> [] | Some fc \<Rightarrow> sel fc)"

definition getIsTimeRegulating :: "FederateHandle \<Rightarrow> Federation \<Rightarrow> bool" where
  "getIsTimeRegulating h f = (case connect_of h f of None \<Rightarrow> False
     | Some c \<Rightarrow> h \<in> set (connect_lists timeRegulatingFederateList c f))"

definition getIsTimeConstrained :: "FederateHandle \<Rightarrow> Federation \<Rightarrow> bool" where
  "getIsTimeConstrained h f = (case connect_of h f of None \<Rightarrow> False
     | Some c \<Rightarrow> h \<in> set (connect_lists timeConstrainedFederateList c f))"

text \<open>
  \<open>insertTimeRegulating\<close> takes the connect of the federate without a check, \<open>None\<close> is the
  dereferenced null pointer; \<open>insertTimeConstrained\<close> checks.
\<close>

definition insertTimeRegulating :: "FederateHandle \<Rightarrow> Federation \<Rightarrow> Federation option" where
  "insertTimeRegulating h f = (case connect_of h f of
     None \<Rightarrow> None
   | Some c \<Rightarrow> Some (update_connect c
       (\<lambda>fc. fc\<lparr>timeRegulatingFederateList := timeRegulatingFederateList fc @ [h]\<rparr>)
       (if c \<notin> set (timeRegulatingConnects f)
        then f\<lparr>timeRegulatingConnects := timeRegulatingConnects f @ [c]\<rparr> else f)))"

definition eraseTimeRegulating :: "FederateHandle \<Rightarrow> Federation \<Rightarrow> Federation" where
  "eraseTimeRegulating h f = (case connect_of h f of
     None \<Rightarrow> f
   | Some c \<Rightarrow>
       (let f' = update_connect c
              (\<lambda>fc. fc\<lparr>timeRegulatingFederateList := remove1 h (timeRegulatingFederateList fc)\<rparr>) f
        in if connect_lists timeRegulatingFederateList c f' \<noteq> [] then f'
           else f'\<lparr>timeRegulatingConnects := remove1 c (timeRegulatingConnects f')\<rparr>))"

definition insertTimeConstrained :: "FederateHandle \<Rightarrow> Federation \<Rightarrow> Federation" where
  "insertTimeConstrained h f = (case map_of (federates f) h of
     None \<Rightarrow> f
   | Some federate \<Rightarrow> (case federationConnect federate of
       None \<Rightarrow> f
     | Some c \<Rightarrow>
         (if resignPending federate then f
          else update_connect c
            (\<lambda>fc. fc\<lparr>timeConstrainedFederateList := timeConstrainedFederateList fc @ [h]\<rparr>)
            (if c \<notin> set (timeConstrainedConnects f)
             then f\<lparr>timeConstrainedConnects := timeConstrainedConnects f @ [c]\<rparr> else f))))"

definition eraseTimeConstrained :: "FederateHandle \<Rightarrow> Federation \<Rightarrow> Federation" where
  "eraseTimeConstrained h f = (case connect_of h f of
     None \<Rightarrow> f
   | Some c \<Rightarrow>
       (let f' = update_connect c
              (\<lambda>fc. fc\<lparr>timeConstrainedFederateList := remove1 h (timeConstrainedFederateList fc)\<rparr>) f
        in if connect_lists timeConstrainedFederateList c f' \<noteq> [] then f'
           else f'\<lparr>timeConstrainedConnects := remove1 c (timeConstrainedConnects f')\<rparr>))"

section \<open>The handlers\<close>

text \<open>
  A request is forwarded to the root, which sends it down again; the connect is looked at only
  where the node is not the root.
\<close>

definition from_above :: "ConnectHandle \<Rightarrow> Federation \<Rightarrow> bool option" where
  "from_above c f = (if isRootServer f then Some True
     else map_option (\<lambda>fc. isParentConnect (nodeConnect fc)) (map_of (federationConnects f) c))"

definition acceptEnableTimeRegulationRequest ::
    "ConnectHandle \<Rightarrow> EnableTimeRegulationRequestMessage \<Rightarrow> Federation \<Rightarrow> handled" where
  "acceptEnableTimeRegulationRequest c m f =
     (let h = EnableTimeRegulationRequestMessage_federateHandle m;
          msg = message.EnableTimeRegulationRequestMessage m
      in case map_of (federates f) h of
        None \<Rightarrow> Inl MessageError
      | Some _ \<Rightarrow> (case from_above c f of
          None \<Rightarrow> Inl UndefinedBehaviour
        | Some True \<Rightarrow>
            (if getIsTimeRegulating h f then Inl MessageError
             else (case insertTimeRegulating h f of
                None \<Rightarrow> Inl UndefinedBehaviour
              | Some f' \<Rightarrow>
                  (let f'' = update_federate h (\<lambda>federate. federate\<lparr>
                         timeAdvanceTimeStamp := EnableTimeRegulationRequestMessage_timeStamp m,
                         nextMessageTimeStamp := EnableTimeRegulationRequestMessage_timeStamp m,
                         commitId := EnableTimeRegulationRequestMessage_commitId m\<rparr>) f'
                   in Inr (f'', broadcastToChildren f'' msg))))
        | Some False \<Rightarrow> Inr (f, sendToParent f msg)))"

definition acceptEnableTimeRegulationResponse ::
    "ConnectHandle \<Rightarrow> EnableTimeRegulationResponseMessage \<Rightarrow> Federation \<Rightarrow> handled" where
  "acceptEnableTimeRegulationResponse c m f =
     Inr (f, send_federate f (EnableTimeRegulationResponseMessage_federateHandle m)
       (message.EnableTimeRegulationResponseMessage m))"

definition acceptDisableTimeRegulationRequest ::
    "ConnectHandle \<Rightarrow> DisableTimeRegulationRequestMessage \<Rightarrow> Federation \<Rightarrow> handled" where
  "acceptDisableTimeRegulationRequest c m f =
     (let h = DisableTimeRegulationRequestMessage_federateHandle m
      in case map_of (federates f) h of
        None \<Rightarrow> Inl MessageError
      | Some _ \<Rightarrow>
          (if \<not> getIsTimeRegulating h f then Inl MessageError
           else Inr (eraseTimeRegulating h f,
             broadcast_except f c (message.DisableTimeRegulationRequestMessage m))))"

definition acceptEnableTimeConstrainedNotify ::
    "ConnectHandle \<Rightarrow> EnableTimeConstrainedNotifyMessage \<Rightarrow> Federation \<Rightarrow> handled" where
  "acceptEnableTimeConstrainedNotify c m f =
     (let h = EnableTimeConstrainedNotifyMessage_federateHandle m;
          msg = message.EnableTimeConstrainedNotifyMessage m
      in case map_of (federates f) h of
        None \<Rightarrow> Inl MessageError
      | Some _ \<Rightarrow> (case from_above c f of
          None \<Rightarrow> Inl UndefinedBehaviour
        | Some True \<Rightarrow>
            (if getIsTimeConstrained h f then Inl MessageError
             else (let f' = insertTimeConstrained h f in Inr (f', broadcastToChildren f' msg)))
        | Some False \<Rightarrow> Inr (f, sendToParent f msg)))"

definition acceptDisableTimeConstrainedNotify ::
    "ConnectHandle \<Rightarrow> DisableTimeConstrainedNotifyMessage \<Rightarrow> Federation \<Rightarrow> handled" where
  "acceptDisableTimeConstrainedNotify c m f =
     (let h = DisableTimeConstrainedNotifyMessage_federateHandle m
      in case map_of (federates f) h of
        None \<Rightarrow> Inl MessageError
      | Some _ \<Rightarrow>
          (if \<not> getIsTimeConstrained h f then Inl MessageError
           else Inr (eraseTimeConstrained h f,
             broadcast_except f c (message.DisableTimeConstrainedNotifyMessage m))))"

definition commit_time_stamps ::
    "CommitLowerBoundTimeStampMessage \<Rightarrow> Federate \<Rightarrow> Federate" where
  "commit_time_stamps m federate =
     (let t = CommitLowerBoundTimeStampMessage_timeStamp m;
          n = CommitLowerBoundTimeStampMessage_commitId m
      in case CommitLowerBoundTimeStampMessage_commitType m of
        TimeAdvanceCommit \<Rightarrow> federate\<lparr>timeAdvanceTimeStamp := t, commitId := n\<rparr>
      | TimeAdvanceAndNextMessageCommit \<Rightarrow>
          federate\<lparr>timeAdvanceTimeStamp := t, nextMessageTimeStamp := t, commitId := n\<rparr>
      | NextMessageCommit \<Rightarrow> federate\<lparr>nextMessageTimeStamp := t, commitId := n\<rparr>)"

text \<open>The messages that go to the connects of one of the lists of the federation.\<close>

definition send_list_except ::
    "Federation \<Rightarrow> ConnectHandle list \<Rightarrow> ConnectHandle \<Rightarrow> message \<Rightarrow> effect list" where
  "send_list_except f cs c msg = concat (map (\<lambda>d. if c = d then [] else fed_send f d msg) cs)"

definition acceptCommitLowerBoundTimeStamp ::
    "ConnectHandle \<Rightarrow> CommitLowerBoundTimeStampMessage \<Rightarrow> Federation \<Rightarrow> handled" where
  "acceptCommitLowerBoundTimeStamp c m f =
     (let h = CommitLowerBoundTimeStampMessage_federateHandle m;
          msg = message.CommitLowerBoundTimeStampMessage m
      in case map_of (federates f) h of
        None \<Rightarrow> Inl MessageError
      | Some _ \<Rightarrow>
          (if \<not> getIsTimeRegulating h f then Inl MessageError
           else (let f' = update_federate h (commit_time_stamps m) f
                 in Inr (f', if timeConstrainedConnects f' = [] then broadcast_except f' c msg
                             else send_list_except f' (timeConstrainedConnects f') c msg))))"

definition acceptCommitLowerBoundTimeStampResponse ::
    "ConnectHandle \<Rightarrow> CommitLowerBoundTimeStampResponseMessage \<Rightarrow> Federation \<Rightarrow> handled" where
  "acceptCommitLowerBoundTimeStampResponse c m f =
     Inr (f, send_federate f (CommitLowerBoundTimeStampResponseMessage_federateHandle m)
       (message.CommitLowerBoundTimeStampResponseMessage m))"

definition acceptLockedByNextMessageRequest ::
    "ConnectHandle \<Rightarrow> LockedByNextMessageRequestMessage \<Rightarrow> Federation \<Rightarrow> handled" where
  "acceptLockedByNextMessageRequest c m f =
     Inr (f, send_list_except f (timeRegulatingConnects f) c (message.LockedByNextMessageRequestMessage m))"

section \<open>The lists agree\<close>

definition lists_ok :: "(FederationConnect \<Rightarrow> FederateHandle list) \<Rightarrow> ConnectHandle list \<Rightarrow> Federation \<Rightarrow> bool" where
  "lists_ok sel cs f \<longleftrightarrow> distinct cs \<and> (\<forall>c. c \<in> set cs \<longleftrightarrow> connect_lists sel c f \<noteq> [])"

definition time_ok :: "Federation \<Rightarrow> bool" where
  [inv_defs]: "time_ok f \<longleftrightarrow> distinct (map fst (federationConnects f)) \<and>
     lists_ok timeRegulatingFederateList (timeRegulatingConnects f) f \<and>
     lists_ok timeConstrainedFederateList (timeConstrainedConnects f) f"

lemma connect_lists_update:
  "connect_lists sel d (update_connect c g f) =
     (if d = c then (case map_of (federationConnects f) c of None \<Rightarrow> [] | Some fc \<Rightarrow> sel (g fc))
      else connect_lists sel d f)"
  by (auto simp: connect_lists_def update_connect_def split: option.split)

lemma connect_lists_fields [simp]:
  "connect_lists sel d (f\<lparr>timeRegulatingConnects := cs\<rparr>) = connect_lists sel d f"
  "connect_lists sel d (f\<lparr>timeConstrainedConnects := cs\<rparr>) = connect_lists sel d f"
  "connect_lists sel d (update_federate h u f) = connect_lists sel d f"
  by (simp_all add: connect_lists_def update_federate_def)

lemma time_fields [simp]:
  "map fst (federationConnects (update_connect c g f)) = map fst (federationConnects f)"
  "timeRegulatingConnects (update_connect c g f) = timeRegulatingConnects f"
  "timeConstrainedConnects (update_connect c g f) = timeConstrainedConnects f"
  "federationConnects (update_federate h u f) = federationConnects f"
  "timeRegulatingConnects (update_federate h u f) = timeRegulatingConnects f"
  "timeConstrainedConnects (update_federate h u f) = timeConstrainedConnects f"
  by (simp_all add: update_connect_def update_federate_def)

text \<open>
  Linking a federate in the list of its connect and the connect in the list of the federation, and
  unlinking them: the two lists keep agreeing.
\<close>

lemma lists_ok_insert:
  assumes ok: "lists_ok sel cs f" and c: "map_of (federationConnects f) c = Some fc"
    and f': "\<And>d. connect_lists sel d f' = (if d = c then sel fc @ [h] else connect_lists sel d f)"
  shows "lists_ok sel (if c \<notin> set cs then cs @ [c] else cs) f'"
  using ok by (auto simp: lists_ok_def f')

lemma lists_ok_erase:
  assumes ok: "lists_ok sel cs f"
    and f': "\<And>d. connect_lists sel d f' = (if d = c then xs else connect_lists sel d f)"
    and c: "xs \<noteq> [] \<longrightarrow> c \<in> set cs"
  shows "lists_ok sel (if xs \<noteq> [] then cs else remove1 c cs) f'"
  using ok c by (auto simp: lists_ok_def f')

text \<open>Every federate is behind a connect of the federation, or behind none.\<close>

definition federates_linked :: "Federation \<Rightarrow> bool" where
  [inv_defs]: "federates_linked f \<longleftrightarrow>
     (\<forall>h c. connect_of h f = Some c \<longrightarrow> map_of (federationConnects f) c \<noteq> None)"

lemma time_okI:
  assumes "time_ok f" "map fst (federationConnects f') = map fst (federationConnects f)"
    and "lists_ok timeRegulatingFederateList (timeRegulatingConnects f) f \<Longrightarrow>
      lists_ok timeRegulatingFederateList (timeRegulatingConnects f') f'"
    and "lists_ok timeConstrainedFederateList (timeConstrainedConnects f) f \<Longrightarrow>
      lists_ok timeConstrainedFederateList (timeConstrainedConnects f') f'"
  shows "time_ok f'"
  using assms by (simp add: time_ok_def)

lemma connect_lists_append:
  assumes "map_of (federationConnects f) c = Some fc"
    and "\<And>fc. sel (g fc) = sel fc @ [h]" "\<And>fc. sel' (g fc) = sel' fc"
  shows "connect_lists sel d (update_connect c g f) = (if d = c then sel fc @ [h] else connect_lists sel d f)"
    "connect_lists sel' d (update_connect c g f) = connect_lists sel' d f"
  using assms by (auto simp: connect_lists_update) (simp add: connect_lists_def)

lemma insertTimeRegulating_ok:
  assumes ok: "time_ok f" and linked: "federates_linked f" and ins: "insertTimeRegulating h f = Some f'"
  shows "time_ok f'"
proof -
  obtain c where c: "connect_of h f = Some c"
    using ins by (cases "connect_of h f") (simp_all add: insertTimeRegulating_def)
  then obtain fc where fc: "map_of (federationConnects f) c = Some fc"
    using linked by (auto simp: federates_linked_def)
  let ?g = "\<lambda>fc. fc\<lparr>timeRegulatingFederateList := timeRegulatingFederateList fc @ [h]\<rparr>"
  let ?f = "if c \<notin> set (timeRegulatingConnects f)
    then f\<lparr>timeRegulatingConnects := timeRegulatingConnects f @ [c]\<rparr> else f"
  have f': "f' = update_connect c ?g ?f" using ins c by (simp add: insertTimeRegulating_def)
  have "map_of (federationConnects ?f) c = Some fc" using fc by simp
  note lists = connect_lists_append[OF this, of timeRegulatingFederateList ?g h timeConstrainedFederateList]
  have same: "connect_lists sel d ?f = connect_lists sel d f" for sel d by simp
  show ?thesis
  proof (rule time_okI[OF ok])
    assume "lists_ok timeRegulatingFederateList (timeRegulatingConnects f) f"
    moreover have "connect_lists timeRegulatingFederateList d f' = (if d = c
        then timeRegulatingFederateList fc @ [h] else connect_lists timeRegulatingFederateList d f)" for d
      unfolding f' using lists(1) same by simp
    ultimately show "lists_ok timeRegulatingFederateList (timeRegulatingConnects f') f'"
      using lists_ok_insert[OF _ fc, of timeRegulatingFederateList "timeRegulatingConnects f" f' h]
      by (simp add: f' split: if_splits)
  next
    assume "lists_ok timeConstrainedFederateList (timeConstrainedConnects f) f"
    moreover have "connect_lists timeConstrainedFederateList d f' = connect_lists timeConstrainedFederateList d f" for d
      unfolding f' using lists(2) by (simp only: same) simp
    moreover have "timeConstrainedConnects f' = timeConstrainedConnects f" by (simp add: f')
    ultimately show "lists_ok timeConstrainedFederateList (timeConstrainedConnects f') f'"
      by (simp add: lists_ok_def)
  qed (simp add: f')
qed

lemma insertTimeConstrained_ok:
  assumes ok: "time_ok f" and linked: "federates_linked f"
  shows "time_ok (insertTimeConstrained h f)"
proof (cases "\<exists>federate c. map_of (federates f) h = Some federate \<and>
    federationConnect federate = Some c \<and> \<not> resignPending federate")
  case False
  then have "insertTimeConstrained h f = f"
    by (auto simp: insertTimeConstrained_def split: option.splits)
  then show ?thesis using assms by simp
next
  case True
  then obtain federate c where fd: "map_of (federates f) h = Some federate"
    "federationConnect federate = Some c" "\<not> resignPending federate" by blast
  then have "connect_of h f = Some c" by (simp add: connect_of_def)
  then obtain fc where fc: "map_of (federationConnects f) c = Some fc"
    using linked by (auto simp: federates_linked_def)
  let ?g = "\<lambda>fc. fc\<lparr>timeConstrainedFederateList := timeConstrainedFederateList fc @ [h]\<rparr>"
  let ?f = "if c \<notin> set (timeConstrainedConnects f)
    then f\<lparr>timeConstrainedConnects := timeConstrainedConnects f @ [c]\<rparr> else f"
  have f': "insertTimeConstrained h f = update_connect c ?g ?f"
    using fd by (simp add: insertTimeConstrained_def)
  have "map_of (federationConnects ?f) c = Some fc" using fc by simp
  note lists = connect_lists_append[OF this, of timeConstrainedFederateList ?g h timeRegulatingFederateList]
  have same: "connect_lists sel d ?f = connect_lists sel d f" for sel d by simp
  show ?thesis unfolding f'
  proof (rule time_okI[OF ok])
    assume "lists_ok timeConstrainedFederateList (timeConstrainedConnects f) f"
    moreover have "connect_lists timeConstrainedFederateList d (update_connect c ?g ?f) = (if d = c
        then timeConstrainedFederateList fc @ [h] else connect_lists timeConstrainedFederateList d f)" for d
      using lists(1) same by simp
    ultimately show "lists_ok timeConstrainedFederateList (timeConstrainedConnects (update_connect c ?g ?f))
        (update_connect c ?g ?f)"
      using lists_ok_insert[OF _ fc, of timeConstrainedFederateList "timeConstrainedConnects f"
        "update_connect c ?g ?f" h] by (simp split: if_splits)
  next
    assume "lists_ok timeRegulatingFederateList (timeRegulatingConnects f) f"
    moreover have "connect_lists timeRegulatingFederateList d (update_connect c ?g ?f) =
        connect_lists timeRegulatingFederateList d f" for d
      using lists(2) by (simp only: same) simp
    moreover have "timeRegulatingConnects (update_connect c ?g ?f) = timeRegulatingConnects f" by simp
    ultimately show "lists_ok timeRegulatingFederateList (timeRegulatingConnects (update_connect c ?g ?f))
        (update_connect c ?g ?f)"
      by (simp add: lists_ok_def)
  qed simp
qed

lemma connect_lists_erase:
  assumes "\<And>fc. sel' (g fc) = sel' fc"
  shows "connect_lists sel' d (update_connect c g f) = connect_lists sel' d f"
  using assms by (auto simp: connect_lists_update) (simp add: connect_lists_def split: option.split)

lemma lists_ok_shrink:
  assumes ok: "lists_ok sel cs f" and shrink: "\<And>fc. sel (g fc) \<noteq> [] \<Longrightarrow> sel fc \<noteq> []"
  shows "lists_ok sel (if connect_lists sel c (update_connect c g f) \<noteq> [] then cs else remove1 c cs)
    (update_connect c g f)"
proof (rule lists_ok_erase[OF ok])
  show "connect_lists sel c (update_connect c g f) \<noteq> [] \<longrightarrow> c \<in> set cs"
  proof
    assume "connect_lists sel c (update_connect c g f) \<noteq> []"
    then obtain fc where "map_of (federationConnects f) c = Some fc" "sel (g fc) \<noteq> []"
      by (auto simp: connect_lists_update split: option.splits)
    then show "c \<in> set cs" using ok shrink by (auto simp: lists_ok_def connect_lists_def)
  qed
  show "connect_lists sel d (update_connect c g f) =
      (if d = c then connect_lists sel c (update_connect c g f) else connect_lists sel d f)" for d
    by (simp add: connect_lists_update)
qed

lemma eraseTimeRegulating_ok:
  assumes ok: "time_ok f" shows "time_ok (eraseTimeRegulating h f)"
proof (cases "connect_of h f")
  case None
  then show ?thesis using assms by (simp add: eraseTimeRegulating_def)
next
  case (Some c)
  let ?g = "\<lambda>fc. fc\<lparr>timeRegulatingFederateList := remove1 h (timeRegulatingFederateList fc)\<rparr>"
  let ?f = "update_connect c ?g f"
  have f': "eraseTimeRegulating h f = (if connect_lists timeRegulatingFederateList c ?f \<noteq> [] then ?f
      else ?f\<lparr>timeRegulatingConnects := remove1 c (timeRegulatingConnects ?f)\<rparr>)"
    using Some by (simp add: eraseTimeRegulating_def Let_def)
  show ?thesis
  proof (rule time_okI[OF ok])
    have shrink: "timeRegulatingFederateList (?g fc) \<noteq> [] \<Longrightarrow> timeRegulatingFederateList fc \<noteq> []" for fc by auto
    assume "lists_ok timeRegulatingFederateList (timeRegulatingConnects f) f"
    from lists_ok_shrink[where g = ?g and c = c, OF this shrink] show
      "lists_ok timeRegulatingFederateList (timeRegulatingConnects (eraseTimeRegulating h f)) (eraseTimeRegulating h f)"
      unfolding f' by (auto simp: lists_ok_def split: if_splits)
  next
    assume "lists_ok timeConstrainedFederateList (timeConstrainedConnects f) f"
    then show "lists_ok timeConstrainedFederateList (timeConstrainedConnects (eraseTimeRegulating h f)) (eraseTimeRegulating h f)"
      unfolding f' by (auto simp: lists_ok_def connect_lists_erase)
  qed (simp add: f')
qed

lemma eraseTimeConstrained_ok:
  assumes ok: "time_ok f" shows "time_ok (eraseTimeConstrained h f)"
proof (cases "connect_of h f")
  case None
  then show ?thesis using assms by (simp add: eraseTimeConstrained_def)
next
  case (Some c)
  let ?g = "\<lambda>fc. fc\<lparr>timeConstrainedFederateList := remove1 h (timeConstrainedFederateList fc)\<rparr>"
  let ?f = "update_connect c ?g f"
  have f': "eraseTimeConstrained h f = (if connect_lists timeConstrainedFederateList c ?f \<noteq> [] then ?f
      else ?f\<lparr>timeConstrainedConnects := remove1 c (timeConstrainedConnects ?f)\<rparr>)"
    using Some by (simp add: eraseTimeConstrained_def Let_def)
  show ?thesis
  proof (rule time_okI[OF ok])
    have shrink: "timeConstrainedFederateList (?g fc) \<noteq> [] \<Longrightarrow> timeConstrainedFederateList fc \<noteq> []" for fc by auto
    assume "lists_ok timeConstrainedFederateList (timeConstrainedConnects f) f"
    from lists_ok_shrink[where g = ?g and c = c, OF this shrink] show
      "lists_ok timeConstrainedFederateList (timeConstrainedConnects (eraseTimeConstrained h f)) (eraseTimeConstrained h f)"
      unfolding f' by (auto simp: lists_ok_def split: if_splits)
  next
    assume "lists_ok timeRegulatingFederateList (timeRegulatingConnects f) f"
    then show "lists_ok timeRegulatingFederateList (timeRegulatingConnects (eraseTimeConstrained h f)) (eraseTimeConstrained h f)"
      unfolding f' by (auto simp: lists_ok_def connect_lists_erase)
  qed (simp add: f')
qed

section \<open>Who gets the messages of time management\<close>

inductive time_history :: "Federation \<Rightarrow> bool" where
  start: "distinct (map fst (federationConnects f)) \<Longrightarrow> federates_linked f \<Longrightarrow>
    timeRegulatingConnects f = [] \<Longrightarrow> timeConstrainedConnects f = [] \<Longrightarrow>
    (\<forall>c. connect_lists timeRegulatingFederateList c f = []) \<Longrightarrow>
    (\<forall>c. connect_lists timeConstrainedFederateList c f = []) \<Longrightarrow> time_history f"
| enable_regulation: "time_history f \<Longrightarrow>
    acceptEnableTimeRegulationRequest c em f = Inr (f', es) \<Longrightarrow> time_history f'"
| disable_regulation: "time_history f \<Longrightarrow>
    acceptDisableTimeRegulationRequest c dm f = Inr (f', es) \<Longrightarrow> time_history f'"
| enable_constrained: "time_history f \<Longrightarrow>
    acceptEnableTimeConstrainedNotify c cm f = Inr (f', es) \<Longrightarrow> time_history f'"
| disable_constrained: "time_history f \<Longrightarrow>
    acceptDisableTimeConstrainedNotify c xm f = Inr (f', es) \<Longrightarrow> time_history f'"
| commit: "time_history f \<Longrightarrow>
    acceptCommitLowerBoundTimeStamp c lm f = Inr (f', es) \<Longrightarrow> time_history f'"

lemma connect_of_update_connect [simp]: "connect_of h (update_connect c g f) = connect_of h f"
  by (simp add: connect_of_def update_connect_def)

lemma connect_of_fields [simp]:
  "connect_of h (f\<lparr>timeRegulatingConnects := cs\<rparr>) = connect_of h f"
  "connect_of h (f\<lparr>timeConstrainedConnects := cs\<rparr>) = connect_of h f"
  by (simp_all add: connect_of_def)

lemma connect_of_update_federate:
  assumes "\<And>fd. federationConnect (u fd) = federationConnect fd"
  shows "connect_of h (update_federate k u f) = connect_of h f"
  using assms by (auto simp: connect_of_def update_federate_def split: option.split)

lemma federates_linked_keys:
  assumes "federates_linked f" "\<And>h. connect_of h f' = connect_of h f"
    and "map fst (federationConnects f') = map fst (federationConnects f)"
  shows "federates_linked f'"
proof -
  have "set (map fst (federationConnects f')) = set (map fst (federationConnects f))" using assms(3) by simp
  then show ?thesis using assms(1,2) by (auto simp: federates_linked_def map_of_eq_None_iff)
qed

lemma time_linked [simp]:
  "federates_linked f \<Longrightarrow> insertTimeRegulating h f = Some f' \<Longrightarrow> federates_linked f'"
  "federates_linked f \<Longrightarrow> federates_linked (insertTimeConstrained h f)"
  "federates_linked f \<Longrightarrow> federates_linked (eraseTimeRegulating h f)"
  "federates_linked f \<Longrightarrow> federates_linked (eraseTimeConstrained h f)"
  by (erule federates_linked_keys; auto simp: insertTimeRegulating_def insertTimeConstrained_def
      eraseTimeRegulating_def eraseTimeConstrained_def Let_def split: option.splits if_splits)+

lemma update_federate_ok:
  assumes "time_ok f" shows "time_ok (update_federate k u f)"
  using assms by (simp add: time_ok_def lists_ok_def)

lemma update_federate_linked:
  assumes "federates_linked f" "\<And>fd. federationConnect (u fd) = federationConnect fd"
  shows "federates_linked (update_federate k u f)"
  using assms by (intro federates_linked_keys[OF assms(1)]) (auto simp: connect_of_update_federate)

lemma commit_time_stamps_connect [simp]:
  "federationConnect (commit_time_stamps m fd) = federationConnect fd"
  by (simp add: commit_time_stamps_def Let_def split: LowerBoundTimeStampCommitType.split)

lemma time_history_ok: "time_history f \<Longrightarrow> time_ok f \<and> federates_linked f"
proof (induction rule: time_history.induct)
  case (start f)
  then show ?case by (simp add: time_ok_def lists_ok_def)
next
  case (enable_regulation f c em f' es)
  let ?h = "EnableTimeRegulationRequestMessage_federateHandle em"
  let ?u = "\<lambda>federate. federate\<lparr>
     timeAdvanceTimeStamp := EnableTimeRegulationRequestMessage_timeStamp em,
     nextMessageTimeStamp := EnableTimeRegulationRequestMessage_timeStamp em,
     commitId := EnableTimeRegulationRequestMessage_commitId em\<rparr>"
  have "f' = f \<or> (\<exists>f1. insertTimeRegulating ?h f = Some f1 \<and> f' = update_federate ?h ?u f1)"
    using enable_regulation.hyps(2)
    by (auto simp: acceptEnableTimeRegulationRequest_def Let_def split: option.splits bool.splits if_splits)
  then show ?case
  proof
    assume "\<exists>f1. insertTimeRegulating ?h f = Some f1 \<and> f' = update_federate ?h ?u f1"
    then obtain f1 where f1: "insertTimeRegulating ?h f = Some f1" "f' = update_federate ?h ?u f1" by blast
    have "time_ok f1" "federates_linked f1"
      using enable_regulation.IH insertTimeRegulating_ok[OF _ _ f1(1)] time_linked(1)[OF _ f1(1)] by auto
    then show ?thesis unfolding f1(2) by (simp add: update_federate_ok update_federate_linked)
  qed (use enable_regulation.IH in simp)
next
  case (disable_regulation f c dm f' es)
  then have "\<exists>h. f' = eraseTimeRegulating h f"
    by (auto simp: acceptDisableTimeRegulationRequest_def Let_def split: option.splits if_splits)
  then show ?case using disable_regulation.IH eraseTimeRegulating_ok by auto
next
  case (enable_constrained f c cm f' es)
  then have "f' = f \<or> (\<exists>h. f' = insertTimeConstrained h f)"
    by (auto simp: acceptEnableTimeConstrainedNotify_def Let_def split: option.splits bool.splits if_splits)
  then show ?case using enable_constrained.IH insertTimeConstrained_ok by auto
next
  case (disable_constrained f c xm f' es)
  then have "\<exists>h. f' = eraseTimeConstrained h f"
    by (auto simp: acceptDisableTimeConstrainedNotify_def Let_def split: option.splits if_splits)
  then show ?case using disable_constrained.IH eraseTimeConstrained_ok by auto
next
  case (commit f c lm f' es)
  then have "\<exists>h. f' = update_federate h (commit_time_stamps lm) f"
    by (auto simp: acceptCommitLowerBoundTimeStamp_def Let_def split: option.splits if_splits)
  then show ?case using commit.IH update_federate_ok update_federate_linked by auto
qed

lemma sent_to_list_except:
  assumes "distinct cs"
  shows "sent_to d (send_list_except f cs c m) = (if d \<in> set cs \<and> d \<noteq> c \<and> reachable f d then [m] else [])"
  unfolding send_list_except_def by (subst sent_to_concat_distinct[OF assms]) auto

lemma recorded_time_stamps:
  "commit_time_stamps m fd = fd\<lparr>
     timeAdvanceTimeStamp := if CommitLowerBoundTimeStampMessage_commitType m = NextMessageCommit
       then timeAdvanceTimeStamp fd else CommitLowerBoundTimeStampMessage_timeStamp m,
     nextMessageTimeStamp := if CommitLowerBoundTimeStampMessage_commitType m = TimeAdvanceCommit
       then nextMessageTimeStamp fd else CommitLowerBoundTimeStampMessage_timeStamp m,
     commitId := CommitLowerBoundTimeStampMessage_commitId m\<rparr>"
  by (simp add: commit_time_stamps_def Let_def split: LowerBoundTimeStampCommitType.split)

text \<open>
  C13: In every state the handlers of time management reach, a lower bound that a time regulating
  federate commits is recorded with its commit id at that federate, as its time advance bound, its next
  message bound or both, as the type of the commit says, and nothing else of the federation changes. It
  goes, once, to exactly the reachable connects other than its sender that lead to a time constrained
  federate, or to all of them as long as nobody is time constrained; a request that tells of a locked
  next message goes to exactly those that lead to a time regulating federate.
\<close>

theorem time_messages_reach_their_federates:
  assumes hist: "time_history f"
    and r: "getIsTimeRegulating (CommitLowerBoundTimeStampMessage_federateHandle m) f"
  shows "\<exists>f' es fd. acceptCommitLowerBoundTimeStamp c m f = Inr (f', es) \<and>
    map_of (federates f) (CommitLowerBoundTimeStampMessage_federateHandle m) = Some fd \<and>
    map_of (federates f') = (map_of (federates f))
      (CommitLowerBoundTimeStampMessage_federateHandle m \<mapsto> fd\<lparr>
        timeAdvanceTimeStamp := if CommitLowerBoundTimeStampMessage_commitType m = NextMessageCommit
          then timeAdvanceTimeStamp fd else CommitLowerBoundTimeStampMessage_timeStamp m,
        nextMessageTimeStamp := if CommitLowerBoundTimeStampMessage_commitType m = TimeAdvanceCommit
          then nextMessageTimeStamp fd else CommitLowerBoundTimeStampMessage_timeStamp m,
        commitId := CommitLowerBoundTimeStampMessage_commitId m\<rparr>) \<and>
    f' = f\<lparr>federates := federates f'\<rparr> \<and>
    sent_to d es = (if d \<noteq> c \<and> reachable f d \<and>
        (connect_lists timeConstrainedFederateList d f \<noteq> [] \<or>
         (\<forall>e. connect_lists timeConstrainedFederateList e f = []))
      then [message.CommitLowerBoundTimeStampMessage m] else []) \<and>
    (\<exists>es. acceptLockedByNextMessageRequest c lm f = Inr (f, es) \<and>
      sent_to d es = (if d \<noteq> c \<and> reachable f d \<and> connect_lists timeRegulatingFederateList d f \<noteq> []
        then [message.LockedByNextMessageRequestMessage lm] else []))"
proof -
  let ?h = "CommitLowerBoundTimeStampMessage_federateHandle m"
  let ?f = "update_federate ?h (commit_time_stamps m) f"
  have ok: "time_ok f" using time_history_ok[OF hist] by simp
  then have dist: "distinct (map fst (federationConnects ?f))" "distinct (timeConstrainedConnects f)"
    "distinct (timeRegulatingConnects f)"
    and con: "\<And>e. e \<in> set (timeConstrainedConnects f) \<longleftrightarrow> connect_lists timeConstrainedFederateList e f \<noteq> []"
    and reg: "\<And>e. e \<in> set (timeRegulatingConnects f) \<longleftrightarrow> connect_lists timeRegulatingFederateList e f \<noteq> []"
    by (auto simp: time_ok_def lists_ok_def)
  have known: "map_of (federates f) ?h \<noteq> None"
    using r by (auto simp: getIsTimeRegulating_def connect_of_def split: option.splits)
  have empty: "timeConstrainedConnects f = [] \<longleftrightarrow> (\<forall>e. connect_lists timeConstrainedFederateList e f = [])"
    using con by (metis empty_iff empty_set last_in_set)
  have reach: "reachable ?f d = reachable f d" by (simp add: reachable_def)
  have "sent_to d (if timeConstrainedConnects ?f = []
      then broadcast_except ?f c (message.CommitLowerBoundTimeStampMessage m)
      else send_list_except ?f (timeConstrainedConnects ?f) c (message.CommitLowerBoundTimeStampMessage m)) =
    (if d \<noteq> c \<and> reachable f d \<and> (connect_lists timeConstrainedFederateList d f \<noteq> [] \<or>
         (\<forall>e. connect_lists timeConstrainedFederateList e f = []))
      then [message.CommitLowerBoundTimeStampMessage m] else [])"
    using sent_to_broadcast_except[OF dist(1)] sent_to_list_except[OF dist(2)] reach empty con[of d] by auto
  moreover obtain fd where fd: "map_of (federates f) ?h = Some fd" using known by blast
  moreover have "map_of (federates ?f) = (map_of (federates f))(?h \<mapsto> commit_time_stamps m fd)"
    using fd by (auto simp: update_federate_def fun_eq_iff)
  moreover have "?f = f\<lparr>federates := federates ?f\<rparr>" by (simp add: update_federate_def)
  ultimately show ?thesis
    using r sent_to_list_except[OF dist(3)] reg[of d]
    by (auto simp: acceptCommitLowerBoundTimeStamp_def acceptLockedByNextMessageRequest_def Let_def
        recorded_time_stamps)
qed

text \<open>Two connects with one federate each; federate 1 gets regulating, federate 2 constrained.\<close>

definition time_link :: "FederateHandle list \<Rightarrow> FederationConnect" where
  "time_link hs = \<lparr>nodeConnect = \<lparr>isParentConnect = False, messageSender = True\<rparr>, active = True,
     federateList = hs, timeRegulatingFederateList = [], timeConstrainedFederateList = []\<rparr>"

definition time_member :: "ConnectHandle \<Rightarrow> Federate" where
  "time_member c = \<lparr>federateName = [], federateType = [], resignAction = NO_ACTION, resignPending = False,
     federationConnect = Some c, synchronizationFederateList = [], timeAdvanceTimeStamp = [],
     nextMessageTimeStamp = [], commitId = 0, isInternal = False\<rparr>"

definition time_root :: Federation where
  "time_root = \<lparr>federationHandle = 0, parentConnect = None,
     federationConnects = [(1, time_link [1]), (2, time_link [2]), (3, time_link [])],
     federates = [(1, time_member 1), (2, time_member 2)],
     federateHandleAllocator = new_allocator, timeRegulatingConnects = [], timeConstrainedConnects = [],
     synchronizations = [], interactionClasses = []\<rparr>"

definition time_root1 :: Federation where
  "time_root1 = time_root\<lparr>timeRegulatingConnects := [1],
     federationConnects := [(1, (time_link [1])\<lparr>timeRegulatingFederateList := [1]\<rparr>), (2, time_link [2]), (3, time_link [])]\<rparr>"

definition time_root2 :: Federation where
  "time_root2 = time_root1\<lparr>timeConstrainedConnects := [2],
     federationConnects := [(1, (time_link [1])\<lparr>timeRegulatingFederateList := [1]\<rparr>),
       (2, (time_link [2])\<lparr>timeConstrainedFederateList := [2]\<rparr>), (3, time_link [])]\<rparr>"

definition time_commit :: CommitLowerBoundTimeStampMessage where
  "time_commit = \<lparr>CommitLowerBoundTimeStampMessage_federationHandle = 0,
     CommitLowerBoundTimeStampMessage_federateHandle = 1, CommitLowerBoundTimeStampMessage_timeStamp = [9],
     CommitLowerBoundTimeStampMessage_commitType = TimeAdvanceCommit,
     CommitLowerBoundTimeStampMessage_commitId = 5\<rparr>"

lemmas time_example_defs = time_root_def time_root1_def time_root2_def time_link_def time_member_def time_commit_def

lemma time_root2_history: "time_history time_root2"
proof -
  have "time_history time_root"
    by (rule time_history.start) (auto simp: time_example_defs federates_linked_def connect_of_def
        connect_lists_def split: if_splits option.splits)
  moreover have "\<exists>es. acceptEnableTimeRegulationRequest 1
      \<lparr>EnableTimeRegulationRequestMessage_federationHandle = 0, EnableTimeRegulationRequestMessage_federateHandle = 1,
       EnableTimeRegulationRequestMessage_timeStamp = [], EnableTimeRegulationRequestMessage_commitId = 0\<rparr>
      time_root = Inr (time_root1, es)"
    by (simp add: acceptEnableTimeRegulationRequest_def time_example_defs from_above_def isRootServer_def
        getIsTimeRegulating_def connect_of_def connect_lists_def insertTimeRegulating_def
        update_connect_def update_federate_def entry_update_def Let_def)
  moreover have "\<exists>es. acceptEnableTimeConstrainedNotify 2
      \<lparr>EnableTimeConstrainedNotifyMessage_federationHandle = 0, EnableTimeConstrainedNotifyMessage_federateHandle = 2\<rparr>
      time_root1 = Inr (time_root2, es)"
    by (simp add: acceptEnableTimeConstrainedNotify_def time_example_defs from_above_def isRootServer_def
        getIsTimeConstrained_def connect_of_def connect_lists_def insertTimeConstrained_def
        update_connect_def update_federate_def entry_update_def Let_def)
  ultimately show ?thesis using time_history.enable_regulation time_history.enable_constrained by blast
qed

theorem time_messages_reach_their_federates_witness:
  "\<exists>f es fd. acceptCommitLowerBoundTimeStamp 1 time_commit time_root2 = Inr (f, es) \<and>
     map_of (federates f) 1 = Some fd \<and> timeAdvanceTimeStamp fd = [9] \<and> nextMessageTimeStamp fd = [] \<and>
     commitId fd = 5 \<and>
     sent_to 2 es = [message.CommitLowerBoundTimeStampMessage time_commit] \<and> sent_to 3 es = []"
proof -
  have r: "getIsTimeRegulating (CommitLowerBoundTimeStampMessage_federateHandle time_commit) time_root2"
    by (simp add: getIsTimeRegulating_def connect_of_def connect_lists_def time_example_defs)
  have "reachable time_root2 2" "connect_lists timeConstrainedFederateList 2 time_root2 \<noteq> []"
    "connect_lists timeConstrainedFederateList 3 time_root2 = []"
    by (simp_all add: reachable_def connect_lists_def time_example_defs)
  note lists = this
  let ?lm = "\<lparr>LockedByNextMessageRequestMessage_federationHandle = 0,
    LockedByNextMessageRequestMessage_sendingFederateHandle = 1,
    LockedByNextMessageRequestMessage_lockedByNextMessage = True\<rparr>"
  have "\<not> (\<forall>e. connect_lists timeConstrainedFederateList e time_root2 = [])" using lists by blast
  moreover have "map_of (federates time_root2) 1 = Some (time_member 1)"
    "CommitLowerBoundTimeStampMessage_federateHandle time_commit = 1"
    "CommitLowerBoundTimeStampMessage_timeStamp time_commit = [9]"
    "CommitLowerBoundTimeStampMessage_commitType time_commit = TimeAdvanceCommit"
    "CommitLowerBoundTimeStampMessage_commitId time_commit = 5"
    "timeAdvanceTimeStamp (time_member 1) = []" "nextMessageTimeStamp (time_member 1) = []"
    by (simp_all add: time_example_defs)
  ultimately show ?thesis
    using lists time_messages_reach_their_federates[OF time_root2_history r, of 1 2 ?lm]
      time_messages_reach_their_federates[OF time_root2_history r, of 1 3 ?lm] by auto
qed

end
