(* ===== verification/Federation_Sync.thy ===== *)
theory Federation_Sync
  imports Federation_Time Intrusive_Map
begin

text \<open>
  Synchronization points and the life of federates at a server node: \<open>Synchronization\<close>,
  \<open>SynchronizationFederate\<close> and \<open>Federate\<close> (\<open>src/OpenRTI/ServerModel.cpp\<close>) with the handlers of
  \<open>FederationServer\<close> (\<open>src/OpenRTI/ServerNode.cpp\<close>). The root keeps for each label the federates it
  waits for and those that have achieved the point, child nodes do the same for their federates and
  answer the parent for all of them at once. The containers keyed by labels and federate handles are
  the association lists of \<open>Intrusive_Map\<close>.
\<close>

section \<open>Synchronization points\<close>

definition getIsWaitingFor :: "FederateHandle \<Rightarrow> Synchronization \<Rightarrow> bool" where
  "getIsWaitingFor h s \<longleftrightarrow> map_of (waitingFederates s) h \<noteq> None"

text \<open>
  \<open>Synchronization::insert\<close>; the entry is linked in the map of the synchronization point and in
  the list of the federate.
\<close>

definition sync_insert :: "Label \<Rightarrow> FederateHandle \<Rightarrow> Federation \<Rightarrow> Federation" where
  "sync_insert label h f = (case map_of (federates f) h of
     None \<Rightarrow> f
   | Some federate \<Rightarrow>
       (if resignPending federate then f
        else if isInternal federate then f
        else (update_federate h
                (\<lambda>federate. federate\<lparr>synchronizationFederateList :=
                   synchronizationFederateList federate @ [label]\<rparr>) f)
              \<lparr>synchronizations := entry_update label
                (\<lambda>s. s\<lparr>waitingFederates := imap_insert h False (waitingFederates s)\<rparr>)
                (synchronizations f)\<rparr>))"

definition sync_achieved :: "FederateHandle \<Rightarrow> bool \<Rightarrow> Synchronization \<Rightarrow> Synchronization" where
  "sync_achieved h successful s =
     (if \<not> getIsWaitingFor h s then s
      else s\<lparr>waitingFederates := imap_unlink h (waitingFederates s),
             achievedFederates := imap_insert h successful (achievedFederates s)\<rparr>)"

text \<open>Erasing a label destroys its entries, which unlinks them from the lists of the federates.\<close>

definition erase_synchronization :: "Label \<Rightarrow> Federation \<Rightarrow> Federation" where
  "erase_synchronization label f = f\<lparr>
     synchronizations := entry_erase label (synchronizations f),
     federates := map (\<lambda>(h, federate). (h, federate\<lparr>synchronizationFederateList :=
       filter (\<lambda>l. l \<noteq> label) (synchronizationFederateList federate)\<rparr>)) (federates f)\<rparr>"

section \<open>The handlers of synchronization points\<close>

definition new_synchronization :: "VariableLengthData \<Rightarrow> bool \<Rightarrow> Synchronization" where
  "new_synchronization tag joining = \<lparr>synchronizationTag = tag, addJoiningFederates = joining,
     waitingFederates = [], achievedFederates = []\<rparr>"

definition register_response ::
    "RegisterFederationSynchronizationPointMessage \<Rightarrow> RegisterFederationSynchronizationPointResponseType
      \<Rightarrow> Federation \<Rightarrow> message" where
  "register_response m t f = message.RegisterFederationSynchronizationPointResponseMessage
     \<lparr>RegisterFederationSynchronizationPointResponseMessage_federationHandle = federationHandle f,
      RegisterFederationSynchronizationPointResponseMessage_federateHandle =
        RegisterFederationSynchronizationPointMessage_federateHandle m,
      RegisterFederationSynchronizationPointResponseMessage_label =
        RegisterFederationSynchronizationPointMessage_label m,
      RegisterFederationSynchronizationPointResponseMessage_registerFederationSynchronizationPointResponseType = t\<rparr>"

definition announce_message ::
    "Federation \<Rightarrow> Label \<Rightarrow> VariableLengthData \<Rightarrow> bool \<Rightarrow> FederateHandle list \<Rightarrow> message" where
  "announce_message f label tag joining hs = message.AnnounceSynchronizationPointMessage
     \<lparr>AnnounceSynchronizationPointMessage_federationHandle = federationHandle f,
      AnnounceSynchronizationPointMessage_label = label,
      AnnounceSynchronizationPointMessage_tag = tag,
      AnnounceSynchronizationPointMessage_addJoiningFederates = joining,
      AnnounceSynchronizationPointMessage_federateHandleVector = hs\<rparr>"

text \<open>The announcements of a new point: each connect gets its own federates of the point.\<close>

definition announce_registered :: "Federation \<Rightarrow> Label \<Rightarrow> Synchronization \<Rightarrow> effect list" where
  "announce_registered f label s = concat (map (\<lambda>(c, fc).
     let hs = filter (\<lambda>h. getIsWaitingFor h s) (federateList fc)
     in if hs = [] then []
        else fed_send f c (announce_message f label (synchronizationTag s) (addJoiningFederates s) hs))
     (federationConnects f))"

definition acceptRegisterFederationSynchronizationPoint ::
    "ConnectHandle \<Rightarrow> RegisterFederationSynchronizationPointMessage \<Rightarrow> Federation \<Rightarrow> handled" where
  "acceptRegisterFederationSynchronizationPoint c m f =
     (let label = RegisterFederationSynchronizationPointMessage_label m;
          vector = RegisterFederationSynchronizationPointMessage_federateHandleVector m
      in if label = [] then Inl MessageError
         else if isRootServer f then
           (case map_of (synchronizations f) label of
              Some _ \<Rightarrow> Inr (f, fed_send f c
                (register_response m RegisterFederationSynchronizationPointResponseLabelNotUnique f))
            | None \<Rightarrow>
                (let f1 = f\<lparr>synchronizations := imap_insert label (new_synchronization
                        (RegisterFederationSynchronizationPointMessage_tag m) (vector = [])) (synchronizations f)\<rparr>;
                     members = (if vector = [] then map fst (federates f) else vector);
                     f2 = fold (sync_insert label) members f1
                 in case map_of (synchronizations f2) label of
                   None \<Rightarrow> Inl UndefinedBehaviour
                 | Some s \<Rightarrow> Inr (f2, fed_send f2 c
                     (register_response m RegisterFederationSynchronizationPointResponseSuccess f2)
                     @ announce_registered f2 label s)))
         else Inr (f, sendToParent f (message.RegisterFederationSynchronizationPointMessage m)))"

definition acceptRegisterFederationSynchronizationPointResponse ::
    "ConnectHandle \<Rightarrow> RegisterFederationSynchronizationPointResponseMessage \<Rightarrow> Federation \<Rightarrow> handled" where
  "acceptRegisterFederationSynchronizationPointResponse c m f =
     (if RegisterFederationSynchronizationPointResponseMessage_label m = [] then Inl MessageError
      else Inr (f, send_federate f (RegisterFederationSynchronizationPointResponseMessage_federateHandle m)
        (message.RegisterFederationSynchronizationPointResponseMessage m)))"

text \<open>The child connect a federate is reached through.\<close>

definition child_connect :: "Federation \<Rightarrow> FederateHandle \<Rightarrow> ConnectHandle option" where
  "child_connect f h = (case connect_of h f of
     None \<Rightarrow> None
   | Some c \<Rightarrow> (case map_of (federationConnects f) c of
       None \<Rightarrow> None
     | Some fc \<Rightarrow> (if isParentConnect (nodeConnect fc) then None
                    else if \<not> handle_valid c then None else Some c)))"

text \<open>
  The \<open>std::map\<close> from connects to the parts of a vector for their federates, as the messages
  that are sent from it in the order of the connects.
\<close>

definition send_by_connect ::
    "Federation \<Rightarrow> ('a \<Rightarrow> FederateHandle) \<Rightarrow> ('a list \<Rightarrow> message) \<Rightarrow> 'a list \<Rightarrow> effect list" where
  "send_by_connect f handle msg entries =
     concat (map (\<lambda>c. fed_send f c (msg (filter (\<lambda>e. child_connect f (handle e) = Some c) entries)))
       (sorted_list_of_fset (fset_of_list (List.map_filter (\<lambda>e. child_connect f (handle e)) entries))))"

definition internal_federate :: "Federation \<Rightarrow> FederateHandle \<Rightarrow> bool" where
  "internal_federate f h = (case map_of (federates f) h of None \<Rightarrow> False | Some fd \<Rightarrow> isInternal fd)"

definition acceptAnnounceSynchronizationPoint ::
    "ConnectHandle \<Rightarrow> AnnounceSynchronizationPointMessage \<Rightarrow> Federation \<Rightarrow> handled" where
  "acceptAnnounceSynchronizationPoint c m f =
     (let label = AnnounceSynchronizationPointMessage_label m;
          tag = AnnounceSynchronizationPointMessage_tag m;
          joining = AnnounceSynchronizationPointMessage_addJoiningFederates m;
          announced = (\<lambda>f1.
            let here = filter (\<lambda>h. \<not> internal_federate f1 h \<and> child_connect f1 h \<noteq> None)
                  (AnnounceSynchronizationPointMessage_federateHandleVector m);
                f2 = fold (sync_insert label) here f1
            in Inr (f2, send_by_connect f2 id (announce_message f2 label tag joining) here))
      in if label = [] then Inl MessageError
         else (case map_of (synchronizations f) label of
            None \<Rightarrow> announced (f\<lparr>synchronizations :=
              imap_insert label (new_synchronization tag joining) (synchronizations f)\<rparr>)
          | Some s \<Rightarrow>
              (if \<not> addJoiningFederates s then Inl MessageError
               else if \<not> joining then Inl MessageError
               else announced f)))"

definition synchronized_message ::
    "Federation \<Rightarrow> Label \<Rightarrow> (FederateHandle \<times> bool) list \<Rightarrow> message" where
  "synchronized_message f label ps = message.FederationSynchronizedMessage
     \<lparr>FederationSynchronizedMessage_federationHandle = federationHandle f,
      FederationSynchronizedMessage_label = label,
      FederationSynchronizedMessage_federateHandleBoolPairVector = ps\<rparr>"

definition achieved_message ::
    "Federation \<Rightarrow> Label \<Rightarrow> (FederateHandle \<times> bool) list \<Rightarrow> SynchronizationPointAchievedMessage" where
  "achieved_message f label ps =
     \<lparr>SynchronizationPointAchievedMessage_federationHandle = federationHandle f,
      SynchronizationPointAchievedMessage_label = label,
      SynchronizationPointAchievedMessage_federateHandleBoolPairVector = ps\<rparr>"

text \<open>\<open>broadcastToChildren\<close> to the connects of the given federates.\<close>

definition broadcastToChildren_federates ::
    "Federation \<Rightarrow> FederateHandle list \<Rightarrow> message \<Rightarrow> effect list" where
  "broadcastToChildren_federates f hs msg =
     send_set f (fset_of_list (List.map_filter (child_connect f) hs)) msg"

definition acceptSynchronizationPointAchieved ::
    "ConnectHandle \<Rightarrow> SynchronizationPointAchievedMessage \<Rightarrow> Federation \<Rightarrow> handled" where
  "acceptSynchronizationPointAchieved c m f =
     (let label = SynchronizationPointAchievedMessage_label m
      in case map_of (synchronizations f) label of
        None \<Rightarrow> Inl MessageError
      | Some s \<Rightarrow>
          (let s' = fold (\<lambda>(h, successful). sync_achieved h successful)
                 (SynchronizationPointAchievedMessage_federateHandleBoolPairVector m) s;
               f' = f\<lparr>synchronizations := entry_update label (\<lambda>_. s') (synchronizations f)\<rparr>
           in if waitingFederates s' = [] then
                (if isRootServer f'
                 then Inr (erase_synchronization label f',
                   broadcastToChildren_federates f' (map fst (achievedFederates s'))
                     (synchronized_message f' label (achievedFederates s')))
                 else Inr (f', sendToParent f' (message.SynchronizationPointAchievedMessage
                        (achieved_message f' label (achievedFederates s')))))
              else Inr (f', [])))"

definition acceptFederationSynchronized ::
    "ConnectHandle \<Rightarrow> FederationSynchronizedMessage \<Rightarrow> Federation \<Rightarrow> handled" where
  "acceptFederationSynchronized c m f =
     (let label = FederationSynchronizedMessage_label m
      in case map_of (synchronizations f) label of
        None \<Rightarrow> Inl MessageError
      | Some s \<Rightarrow> Inr (erase_synchronization label f,
          send_by_connect f fst (synchronized_message f label)
            (FederationSynchronizedMessage_federateHandleBoolPairVector m)))"

section \<open>Joining and resigning\<close>

definition erase_federate :: "FederateHandle \<Rightarrow> Federation \<Rightarrow> Federation" where
  "erase_federate h f =
     (let f1 = (if getIsTimeRegulating h f then eraseTimeRegulating h f else f);
          f2 = (if getIsTimeConstrained h f1 then eraseTimeConstrained h f1 else f1);
          f3 = (case connect_of h f2 of None \<Rightarrow> f2
                | Some c \<Rightarrow> update_connect c (\<lambda>fc. fc\<lparr>federateList := remove1 h (federateList fc)\<rparr>) f2)
      in f3\<lparr>federateHandleAllocator := allocator_put h (federateHandleAllocator f3),
            federates := entry_erase h (federates f3),
            synchronizations := map (\<lambda>(label, s). (label,
              s\<lparr>waitingFederates := entry_erase h (waitingFederates s),
                achievedFederates := entry_erase h (achievedFederates s)\<rparr>)) (synchronizations f3)\<rparr>)"

definition resign_notify :: "Federation \<Rightarrow> FederateHandle \<Rightarrow> message" where
  "resign_notify f h = message.ResignFederateNotifyMessage
     \<lparr>ResignFederateNotifyMessage_federationHandle = federationHandle f,
      ResignFederateNotifyMessage_federateHandle = h\<rparr>"

definition eraseFederationExecutionAtConnect ::
    "ConnectHandle \<Rightarrow> Federation \<Rightarrow> Federation \<times> effect list" where
  "eraseFederationExecutionAtConnect c f = (case map_of (federationConnects f) c of
     None \<Rightarrow> (f, [])
   | Some fc \<Rightarrow>
       (if isParentConnect (nodeConnect fc) then (f, [])
        else (update_connect c (\<lambda>fc. fc\<lparr>active := False\<rparr>) f,
          concat (map (\<lambda>(h, _). federation_connect_send c fc (resign_notify f h)) (federates f)) @
          federation_connect_send c fc (message.EraseFederationExecutionMessage
            \<lparr>EraseFederationExecutionMessage_federationHandle = federationHandle f\<rparr>))))"

text \<open>The points a resigning federate is still awaited at count as achieved without success.\<close>

fun resign_synchronizations ::
    "ConnectHandle \<Rightarrow> FederateHandle \<Rightarrow> Label list \<Rightarrow> Federation \<Rightarrow> handled" where
  "resign_synchronizations c h [] f = Inr (f, [])"
| "resign_synchronizations c h (label # labels) f =
     (if \<not> (case map_of (synchronizations f) label of None \<Rightarrow> False | Some s \<Rightarrow> getIsWaitingFor h s)
      then resign_synchronizations c h labels f
      else case acceptSynchronizationPointAchieved c (achieved_message f label [(h, False)]) f of
        Inl e \<Rightarrow> Inl e
      | Inr (f', es) \<Rightarrow> (case resign_synchronizations c h labels f' of
          Inl e \<Rightarrow> Inl e
        | Inr (f'', es') \<Rightarrow> Inr (f'', es @ es')))"

text \<open>Leaving time management.\<close>

definition resign_time :: "ConnectHandle \<Rightarrow> FederateHandle \<Rightarrow> Federation \<Rightarrow> Federation \<times> effect list" where
  "resign_time c h f =
     (let (f1, es1) = (if getIsTimeRegulating h f then
            (eraseTimeRegulating h f, broadcast_except f c (message.DisableTimeRegulationRequestMessage
               \<lparr>DisableTimeRegulationRequestMessage_federationHandle = federationHandle f,
                DisableTimeRegulationRequestMessage_federateHandle = h\<rparr>))
          else (f, []));
          (f2, es2) = (if getIsTimeConstrained h f1 then
            (eraseTimeConstrained h f1, broadcast_except f1 c (message.DisableTimeConstrainedNotifyMessage
               \<lparr>DisableTimeConstrainedNotifyMessage_federationHandle = federationHandle f1,
                DisableTimeConstrainedNotifyMessage_federateHandle = h\<rparr>))
          else (f1, []))
      in (f2, es1 @ es2))"

definition acceptResignFederationExecutionRequest ::
    "ConnectHandle \<Rightarrow> ResignFederationExecutionRequestMessage \<Rightarrow> Federation \<Rightarrow> handled" where
  "acceptResignFederationExecutionRequest c m f =
     (let h = ResignFederationExecutionRequestMessage_federateHandle m
      in case map_of (federates f) h of
        None \<Rightarrow> Inl MessageError
      | Some federate \<Rightarrow>
          (if resignPending federate then Inr (f, [])
           else
            (let f1 = update_federate h (\<lambda>federate. federate\<lparr>resignPending := True\<rparr>) f;
                 (f2, es2) = resign_time c h f1
             in case resign_synchronizations c h (synchronizationFederateList federate) f2 of
               Inl e \<Rightarrow> Inl e
             | Inr (f3, es3) \<Rightarrow>
                 (if isRootServer f3 then
                    (let es4 = broadcastToChildren f3 (resign_notify f3 h);
                         f4 = erase_federate h f3;
                         (f5, es5) = (case map_of (federationConnects f4) c of
                             None \<Rightarrow> (f4, [])
                           | Some fc \<Rightarrow> (if federateList fc = []
                               then eraseFederationExecutionAtConnect c f4 else (f4, [])))
                     in Inr (f5, es2 @ es3 @ es4 @ es5))
                  else Inr (f3, es2 @ es3 @ sendToParent f3
                         (message.ResignFederationExecutionRequestMessage m))))))"

definition new_federate :: "Wire_Types.String \<Rightarrow> Federate" where
  "new_federate name = \<lparr>federateName = name, federateType = [],
     resignAction = CANCEL_THEN_DELETE_THEN_DIVEST, resignPending = False, federationConnect = None,
     synchronizationFederateList = [], timeAdvanceTimeStamp = [], nextMessageTimeStamp = [],
     commitId = 0, isInternal = False\<rparr>"

definition insertFederate ::
    "ConnectHandle \<Rightarrow> Wire_Types.String \<Rightarrow> FederateHandle \<Rightarrow> Federation
      \<Rightarrow> handler_error + FederateHandle \<times> Federation" where
  "insertFederate c name federateHandle f =
     (case getOrTake federateHandle (federateHandleAllocator f) of
        Inl _ \<Rightarrow> Inl HandleAllocationError
      | Inr (h, a) \<Rightarrow>
          (let federate = new_federate (if name = [] then getReservedName ''HLAfederate'' h else name);
               f1 = f\<lparr>federateHandleAllocator := a\<rparr>
           in Inr (h, case map_of (federationConnects f1) c of
               None \<Rightarrow> f1\<lparr>federates := imap_insert h (federate\<lparr>resignPending := True\<rparr>) (federates f1)\<rparr>
             | Some _ \<Rightarrow> update_connect c (\<lambda>fc. fc\<lparr>federateList := federateList fc @ [h]\<rparr>)
                 (f1\<lparr>federates := imap_insert h (federate\<lparr>federationConnect := Some c\<rparr>) (federates f1)\<rparr>))))"

definition acceptJoinFederateNotify ::
    "ConnectHandle \<Rightarrow> JoinFederateNotifyMessage \<Rightarrow> Federation \<Rightarrow> handled" where
  "acceptJoinFederateNotify c m f =
     (if map_of (federates f) (JoinFederateNotifyMessage_federateHandle m) \<noteq> None then Inl MessageError
      else case insertFederate c (JoinFederateNotifyMessage_federateName m)
             (JoinFederateNotifyMessage_federateHandle m) f of
        Inl e \<Rightarrow> Inl e
      | Inr (h, f1) \<Rightarrow>
          (let f2 = update_federate h
             (\<lambda>federate. federate\<lparr>federateType := JoinFederateNotifyMessage_federateType m\<rparr>) f1
           in Inr (f2, broadcastToChildren f2 (message.JoinFederateNotifyMessage m))))"

definition acceptResignFederateNotify ::
    "ConnectHandle \<Rightarrow> ResignFederateNotifyMessage \<Rightarrow> Federation \<Rightarrow> handled" where
  "acceptResignFederateNotify c m f =
     (let h = ResignFederateNotifyMessage_federateHandle m
      in case map_of (federates f) h of
        None \<Rightarrow> Inl MessageError
      | Some federate \<Rightarrow>
          (let es = broadcastToChildren f (message.ResignFederateNotifyMessage m);
               f1 = erase_federate h f;
               (f2, es2) = (case federationConnect federate of
                   None \<Rightarrow> (f1, [])
                 | Some fcHandle \<Rightarrow> (case map_of (federationConnects f1) fcHandle of
                     None \<Rightarrow> (f1, [])
                   | Some fc \<Rightarrow>
                       (if \<not> active fc then (f1, [])
                        else if federateList fc \<noteq> [] then (f1, [])
                        else if isParentConnect (nodeConnect fc) then (f1, [])
                        else eraseFederationExecutionAtConnect fcHandle f1)))
           in Inr (f2, es @ es2)))"

definition acceptChangeAutomaticResignDirective ::
    "ConnectHandle \<Rightarrow> ChangeAutomaticResignDirectiveMessage \<Rightarrow> Federation \<Rightarrow> handled" where
  "acceptChangeAutomaticResignDirective c m f =
     (let h = ChangeAutomaticResignDirectiveMessage_federateHandle m
      in case map_of (federates f) h of
        None \<Rightarrow> Inl MessageError
      | Some _ \<Rightarrow> Inr (update_federate h
            (\<lambda>federate. federate\<lparr>resignAction := ChangeAutomaticResignDirectiveMessage_resignAction m\<rparr>) f,
          broadcast_except f c (message.ChangeAutomaticResignDirectiveMessage m)))"

section \<open>The invariant of the synchronization points\<close>

definition waits :: "Federation \<Rightarrow> Label \<Rightarrow> FederateHandle \<Rightarrow> bool" where
  "waits f label h \<longleftrightarrow> (\<exists>s. map_of (synchronizations f) label = Some s \<and>
     h \<in> set (map fst (waitingFederates s)))"

text \<open>The federate is joined, is not resigning and will look at the point when it resigns.\<close>

definition knows_point :: "Federation \<Rightarrow> FederateHandle \<Rightarrow> Label \<Rightarrow> bool" where
  "knows_point f h label \<longleftrightarrow> (\<exists>fd. map_of (federates f) h = Some fd \<and> \<not> resignPending fd \<and>
     label \<in> set (synchronizationFederateList fd))"

definition sync_ok :: "FederateHandle set \<Rightarrow> Federation \<Rightarrow> bool" where
  [inv_defs]: "sync_ok X f \<longleftrightarrow>
     (\<forall>label s. map_of (synchronizations f) label = Some s \<longrightarrow> distinct (map fst (waitingFederates s))) \<and>
     (\<forall>label h. waits f label h \<longrightarrow> h \<notin> X \<longrightarrow> knows_point f h label)"

lemma getIsWaitingFor_iff: "getIsWaitingFor h s \<longleftrightarrow> h \<in> fst ` set (waitingFederates s)"
  by (auto simp: getIsWaitingFor_def map_of_eq_None_iff)

lemma sync_achieved_waiting:
  assumes "distinct (map fst (waitingFederates s))"
  shows "fst ` set (waitingFederates (sync_achieved h b s)) = fst ` set (waitingFederates s) - {h}"
    "distinct (map fst (waitingFederates (sync_achieved h b s)))"
  using assms by (auto simp: sync_achieved_def getIsWaitingFor_iff)

lemma fold_achieved_waiting:
  "distinct (map fst (waitingFederates s)) \<Longrightarrow>
   fst ` set (waitingFederates (fold (\<lambda>(h, b). sync_achieved h b) ps s)) =
     fst ` set (waitingFederates s) - fst ` set ps \<and>
   distinct (map fst (waitingFederates (fold (\<lambda>(h, b). sync_achieved h b) ps s)))"
  by (induction ps arbitrary: s) (auto simp: sync_achieved_waiting split: prod.split)

lemma map_of_map_value: "map_of (map (\<lambda>(k, v). (k, g v)) xs) k = map_option g (map_of xs k)"
  by (induction xs) auto

lemma erase_synchronization_simps [simp]:
  "map_of (synchronizations (erase_synchronization label f)) l =
     (if l = label then None else map_of (synchronizations f) l)"
  "map_of (federates (erase_synchronization label f)) h =
     map_option (\<lambda>fd. fd\<lparr>synchronizationFederateList :=
       filter (\<lambda>l. l \<noteq> label) (synchronizationFederateList fd)\<rparr>) (map_of (federates f) h)"
  by (simp_all add: erase_synchronization_def map_of_map_value)

lemma knows_point_erase [simp]:
  "knows_point (erase_synchronization label f) h l \<longleftrightarrow> l \<noteq> label \<and> knows_point f h l"
  by (auto simp: knows_point_def)

lemma knows_point_syncs [simp]: "knows_point (f\<lparr>synchronizations := s\<rparr>) h l = knows_point f h l"
  by (simp add: knows_point_def)

text \<open>What an achieved message does to a point: the federates it names are no longer awaited.\<close>

lemma acceptSynchronizationPointAchieved_step:
  assumes ok: "sync_ok X f"
    and acc: "acceptSynchronizationPointAchieved c m f = Inr (f', es)"
  shows "sync_ok X f'"
    "waits f' l h \<longleftrightarrow> waits f l h \<and> \<not> (l = SynchronizationPointAchievedMessage_label m \<and>
       h \<in> fst ` set (SynchronizationPointAchievedMessage_federateHandleBoolPairVector m))"
    "knows_point f' h l \<Longrightarrow> knows_point f h l"
    "isRootServer f' = isRootServer f"
    "map_option resignPending (map_of (federates f') h) = map_option resignPending (map_of (federates f) h)"
proof -
  let ?label = "SynchronizationPointAchievedMessage_label m"
  let ?ps = "SynchronizationPointAchievedMessage_federateHandleBoolPairVector m"
  obtain s where s: "map_of (synchronizations f) ?label = Some s"
    using acc by (cases "map_of (synchronizations f) ?label") (auto simp: acceptSynchronizationPointAchieved_def)
  define s' where "s' = fold (\<lambda>(h, b). sync_achieved h b) ?ps s"
  define f1 where "f1 = f\<lparr>synchronizations := entry_update ?label (\<lambda>_. s') (synchronizations f)\<rparr>"
  have "distinct (map fst (waitingFederates s))" using ok s by (simp add: sync_ok_def)
  note s'_waiting = fold_achieved_waiting[OF this, of ?ps, folded s'_def]
  have waits1: "waits f1 l h \<longleftrightarrow> waits f l h \<and> \<not> (l = ?label \<and> h \<in> fst ` set ?ps)" for l h
    using s s'_waiting by (auto simp: waits_def f1_def)
  have ok1: "sync_ok X f1"
    using ok waits1 s s'_waiting by (auto simp: sync_ok_def f1_def)
  have cases: "(waitingFederates s' = [] \<and> f' = erase_synchronization ?label f1) \<or> f' = f1"
    using acc s by (auto simp: acceptSynchronizationPointAchieved_def Let_def s'_def f1_def
        split: if_splits)
  have waits': "waits f' l h \<longleftrightarrow> waits f1 l h" for l h
    using cases s by (auto simp: waits_def f1_def)
  show "waits f' l h \<longleftrightarrow> waits f l h \<and> \<not> (l = ?label \<and> h \<in> fst ` set ?ps)"
    using waits' waits1 by simp
  show "sync_ok X f'"
  proof (cases "f' = f1")
    case False
    then have erased: "f' = erase_synchronization ?label f1" "waitingFederates s' = []" using cases by auto
    have "\<not> waits f1 ?label h" for h using erased(2) s by (simp add: waits_def f1_def)
    then show ?thesis using ok1 waits' erased(1)
      by (auto simp: sync_ok_def split: if_splits)
  qed (use ok1 in simp)
  show "knows_point f' h l \<Longrightarrow> knows_point f h l" using cases by (auto simp: f1_def)
  show "isRootServer f' = isRootServer f"
    using cases by (auto simp: isRootServer_def f1_def erase_synchronization_def)
  show "map_option resignPending (map_of (federates f') h) = map_option resignPending (map_of (federates f) h)"
    using cases by (auto simp: f1_def option.map_comp comp_def)
qed

lemma acceptSynchronizationPointAchieved_defined:
  assumes "waits f (SynchronizationPointAchievedMessage_label m) h"
  shows "\<exists>f' es. acceptSynchronizationPointAchieved c m f = Inr (f', es)"
  using assms by (auto simp: waits_def acceptSynchronizationPointAchieved_def Let_def)

text \<open>Resigning leaves all the points the federate is in the list of.\<close>

lemma resign_synchronizations_step:
  "sync_ok X f \<Longrightarrow> \<exists>f' es. resign_synchronizations c h labels f = Inr (f', es) \<and>
    sync_ok X f' \<and> isRootServer f' = isRootServer f \<and>
    (\<forall>l h'. waits f' l h' \<longleftrightarrow> waits f l h' \<and> \<not> (l \<in> set labels \<and> h' = h)) \<and>
    (\<forall>h'. map_option resignPending (map_of (federates f') h') = map_option resignPending (map_of (federates f) h'))"
proof (induction labels arbitrary: f)
  case Nil
  then show ?case by simp
next
  case (Cons label labels)
  show ?case
  proof (cases "waits f label h")
    case False
    then have "\<not> (case map_of (synchronizations f) label of None \<Rightarrow> False | Some s \<Rightarrow> getIsWaitingFor h s)"
      by (auto simp: waits_def getIsWaitingFor_iff split: option.split)
    then show ?thesis using Cons.IH[OF Cons.prems] False by auto
  next
    case True
    then have w: "case map_of (synchronizations f) label of None \<Rightarrow> False | Some s \<Rightarrow> getIsWaitingFor h s"
      by (force simp: waits_def getIsWaitingFor_iff)
    let ?m = "achieved_message f label [(h, False)]"
    obtain f1 es1 where acc: "acceptSynchronizationPointAchieved c ?m f = Inr (f1, es1)"
      using acceptSynchronizationPointAchieved_defined[of f ?m h c] True by (auto simp: achieved_message_def)
    note step = acceptSynchronizationPointAchieved_step[OF Cons.prems acc]
    obtain f' es where rest: "resign_synchronizations c h labels f1 = Inr (f', es)" "sync_ok X f'"
      "isRootServer f' = isRootServer f1"
      "\<forall>l h'. waits f' l h' \<longleftrightarrow> waits f1 l h' \<and> \<not> (l \<in> set labels \<and> h' = h)"
      "\<forall>h'. map_option resignPending (map_of (federates f') h') = map_option resignPending (map_of (federates f1) h')"
      using Cons.IH[OF step(1)] by blast
    have "resign_synchronizations c h (label # labels) f = Inr (f', es1 @ es)"
      using w acc rest(1) by simp
    then show ?thesis using rest step by (auto simp: achieved_message_def)
  qed
qed

lemma sync_frame:
  assumes "federates f' = federates f" "synchronizations f' = synchronizations f"
  shows "sync_ok X f' = sync_ok X f" "waits f' l h = waits f l h" "knows_point f' h l = knows_point f h l"
  using assms by (simp_all add: sync_ok_def waits_def knows_point_def)

lemma time_frame [simp]:
  "federates (update_connect c g f) = federates f"
  "synchronizations (update_connect c g f) = synchronizations f"
  "parentConnect (update_connect c g f) = parentConnect f"
  "federates (eraseTimeRegulating h f) = federates f"
  "synchronizations (eraseTimeRegulating h f) = synchronizations f"
  "parentConnect (eraseTimeRegulating h f) = parentConnect f"
  "federates (eraseTimeConstrained h f) = federates f"
  "synchronizations (eraseTimeConstrained h f) = synchronizations f"
  "parentConnect (eraseTimeConstrained h f) = parentConnect f"
  by (simp_all add: update_connect_def eraseTimeRegulating_def eraseTimeConstrained_def Let_def
      split: option.split)

lemma resign_time_frame [simp]:
  "federates (fst (resign_time c h f)) = federates f"
  "synchronizations (fst (resign_time c h f)) = synchronizations f"
  "parentConnect (fst (resign_time c h f)) = parentConnect f"
  by (simp_all add: resign_time_def Let_def)

lemma execution_frame [simp]:
  "federates (fst (eraseFederationExecutionAtConnect c f)) = federates f"
  "synchronizations (fst (eraseFederationExecutionAtConnect c f)) = synchronizations f"
  "parentConnect (fst (eraseFederationExecutionAtConnect c f)) = parentConnect f"
  by (simp_all add: eraseFederationExecutionAtConnect_def split: option.split)

lemma erase_federate_parts:
  "federates (erase_federate h f) = entry_erase h (federates f)"
  "synchronizations (erase_federate h f) = map (\<lambda>(label, s). (label,
     s\<lparr>waitingFederates := entry_erase h (waitingFederates s),
       achievedFederates := entry_erase h (achievedFederates s)\<rparr>)) (synchronizations f)"
  "parentConnect (erase_federate h f) = parentConnect f"
  by (simp_all add: erase_federate_def Let_def split: option.split)

lemma erase_federate_step:
  assumes "sync_ok X f"
  shows "sync_ok (X - {h}) (erase_federate h f)"
    "waits (erase_federate h f) l h' \<longleftrightarrow> waits f l h' \<and> h' \<noteq> h"
proof -
  have fst_erase: "fst ` set (entry_erase h xs) = fst ` set xs - {h}" for xs :: "(FederateHandle \<times> 'b) list"
    by (auto simp: entry_erase_def image_iff)
  show waits: "waits (erase_federate h f) l h' \<longleftrightarrow> waits f l h' \<and> h' \<noteq> h" for l h'
    by (cases "map_of (synchronizations f) l")
      (simp_all add: waits_def erase_federate_parts map_of_map_value fst_erase)
  have "knows_point (erase_federate h f) h' l \<longleftrightarrow> knows_point f h' l \<and> h' \<noteq> h" for l h'
    by (auto simp: knows_point_def erase_federate_parts)
  then show "sync_ok (X - {h}) (erase_federate h f)"
    using assms waits by (auto simp: sync_ok_def erase_federate_parts map_of_map_value)
qed

lemma sync_ok_pending:
  assumes "sync_ok {} f"
  shows "sync_ok {h} (update_federate h (\<lambda>fd. fd\<lparr>resignPending := True\<rparr>) f)"
  using assms by (auto simp: sync_ok_def waits_def knows_point_def update_federate_def)

lemma acceptResign_step:
  assumes ok: "sync_ok {} f" and h: "h = ResignFederationExecutionRequestMessage_federateHandle m"
    and fd: "map_of (federates f) h = Some fd"
  shows "\<exists>f' es. acceptResignFederationExecutionRequest c m f = Inr (f', es) \<and>
    sync_ok {} f' \<and> isRootServer f' = isRootServer f \<and>
    (\<forall>l h'. waits f' l h' \<longleftrightarrow> waits f l h' \<and> h' \<noteq> h)"
proof (cases "resignPending fd")
  case True
  then have "\<not> waits f l h" for l using ok fd by (fastforce simp: sync_ok_def knows_point_def)
  then have "waits f l h' \<longleftrightarrow> waits f l h' \<and> h' \<noteq> h" for l h' by auto
  then show ?thesis using True fd ok h by (simp add: acceptResignFederationExecutionRequest_def)
next
  case False
  let ?f1 = "update_federate h (\<lambda>fd. fd\<lparr>resignPending := True\<rparr>) f"
  obtain f2 es2 where f2: "resign_time c h ?f1 = (f2, es2)" by fastforce
  have same: "federates f2 = federates ?f1" "synchronizations f2 = synchronizations ?f1"
    "isRootServer f2 = isRootServer f" "synchronizations ?f1 = synchronizations f"
    using resign_time_frame[of c h ?f1] unfolding f2
    by (simp_all add: isRootServer_def update_federate_def)
  have ok2: "sync_ok {h} f2" using sync_ok_pending[OF ok] sync_frame(1)[OF same(1,2)] by simp
  have waits2: "waits f2 l h' = waits f l h'" for l h' using same by (simp add: waits_def)
  obtain f3 es3 where f3: "resign_synchronizations c h (synchronizationFederateList fd) f2 = Inr (f3, es3)"
    "sync_ok {h} f3" "isRootServer f3 = isRootServer f2"
    "\<forall>l h'. waits f3 l h' \<longleftrightarrow> waits f2 l h' \<and> \<not> (l \<in> set (synchronizationFederateList fd) \<and> h' = h)"
    using resign_synchronizations_step[OF ok2] by blast
  have known: "l \<in> set (synchronizationFederateList fd)" if "waits f l h" for l
    using ok that fd by (fastforce simp: sync_ok_def knows_point_def)
  have waits3: "waits f3 l h' \<longleftrightarrow> waits f l h' \<and> h' \<noteq> h" for l h'
    using f3(4) waits2 known by auto
  have ok3: "sync_ok {} f3" using f3(2) waits3 by (auto simp: sync_ok_def)
  show ?thesis
  proof (cases "isRootServer f3")
    case False
    then show ?thesis using \<open>\<not> resignPending fd\<close> fd h f2 f3 ok3 waits3 same
      by (simp add: acceptResignFederationExecutionRequest_def)
  next
    case True
    let ?f4 = "erase_federate h f3"
    obtain f5 es5 where f5: "(case map_of (federationConnects ?f4) c of None \<Rightarrow> (?f4, [])
       | Some fc \<Rightarrow> (if federateList fc = [] then eraseFederationExecutionAtConnect c ?f4 else (?f4, []))) = (f5, es5)"
      by fastforce
    then have "f5 = ?f4 \<or> f5 = fst (eraseFederationExecutionAtConnect c ?f4)"
      by (auto split: option.splits if_splits)
    then have same5: "federates f5 = federates ?f4" "synchronizations f5 = synchronizations ?f4"
      "isRootServer f5 = isRootServer ?f4" by (auto simp: isRootServer_def)
    have "sync_ok {} f5" "\<forall>l h'. waits f5 l h' \<longleftrightarrow> waits f l h' \<and> h' \<noteq> h"
      using erase_federate_step[OF ok3, of h] waits3 sync_frame(1,2)[OF same5(1,2)] by auto
    moreover have "isRootServer f5 = isRootServer f"
      using same5(3) f3(3) same(3) by (simp add: isRootServer_def erase_federate_parts)
    moreover have "acceptResignFederationExecutionRequest c m f =
      Inr (f5, es2 @ es3 @ broadcastToChildren f3 (resign_notify f3 h) @ es5)"
      unfolding acceptResignFederationExecutionRequest_def h[symmetric] Let_def
      using \<open>\<not> resignPending fd\<close> True by (simp add: fd f2 f3(1) f5)
    ultimately show ?thesis by blast
  qed
qed

lemma sync_insert_step:
  assumes ok: "sync_ok X f" and label: "map_of (synchronizations f) label = Some s"
    and new: "\<not> waits f label h"
  shows "sync_ok X (sync_insert label h f)"
    "waits (sync_insert label h f) l h' \<Longrightarrow> waits f l h' \<or> l = label \<and> h' = h"
    "\<exists>s'. map_of (synchronizations (sync_insert label h f)) label = Some s'"
    "isRootServer (sync_insert label h f) = isRootServer f"
proof -
  have "sync_ok X (sync_insert label h f) \<and>
    (\<forall>l h'. waits (sync_insert label h f) l h' \<longrightarrow> waits f l h' \<or> l = label \<and> h' = h) \<and>
    (\<exists>s'. map_of (synchronizations (sync_insert label h f)) label = Some s') \<and>
    isRootServer (sync_insert label h f) = isRootServer f"
  proof (cases "map_of (federates f) h")
    case None
    then show ?thesis using ok label by (simp add: sync_insert_def)
  next
    case (Some fd)
    show ?thesis
    proof (cases "resignPending fd \<or> isInternal fd")
      case True
      then have "sync_insert label h f = f" using Some by (auto simp: sync_insert_def)
      then show ?thesis using ok label by simp
    next
      case False
      let ?f = "sync_insert label h f"
      have f': "map_of (synchronizations ?f) l = (if l = label
          then Some (s\<lparr>waitingFederates := imap_insert h False (waitingFederates s)\<rparr>)
          else map_of (synchronizations f) l)"
        "map_of (federates ?f) h' = (if h' = h then Some (fd\<lparr>synchronizationFederateList :=
          synchronizationFederateList fd @ [label]\<rparr>) else map_of (federates f) h')" for l h'
        using False Some label by (simp_all add: sync_insert_def update_federate_def)
      have new': "h \<notin> fst ` set (waitingFederates s)" using new label by (simp add: waits_def)
      have waits': "waits ?f l h' \<longleftrightarrow> waits f l h' \<or> l = label \<and> h' = h" for l h'
        using label by (auto simp: waits_def f'(1))
      have "knows_point ?f h' l \<longleftrightarrow> knows_point f h' l \<or> h' = h \<and> l = label" for h' l
        using False Some by (auto simp: knows_point_def f'(2))
      then have "sync_ok X ?f" using ok waits' new' label by (auto simp: sync_ok_def f'(1))
      moreover have "isRootServer ?f = isRootServer f"
        using False Some by (simp add: sync_insert_def isRootServer_def update_federate_def)
      moreover have "\<exists>s'. map_of (synchronizations ?f) label = Some s'" using f'(1)[of label] by simp
      ultimately show ?thesis using waits' by blast
    qed
  qed
  then show "sync_ok X (sync_insert label h f)"
    "waits (sync_insert label h f) l h' \<Longrightarrow> waits f l h' \<or> l = label \<and> h' = h"
    "\<exists>s'. map_of (synchronizations (sync_insert label h f)) label = Some s'"
    "isRootServer (sync_insert label h f) = isRootServer f" by blast+
qed

lemma fold_sync_insert_step:
  "sync_ok X f \<Longrightarrow> map_of (synchronizations f) label = Some s \<Longrightarrow> distinct hs \<Longrightarrow>
   \<forall>h \<in> set hs. \<not> waits f label h \<Longrightarrow>
   sync_ok X (fold (sync_insert label) hs f) \<and>
   (\<exists>s'. map_of (synchronizations (fold (sync_insert label) hs f)) label = Some s') \<and>
   isRootServer (fold (sync_insert label) hs f) = isRootServer f"
proof (induction hs arbitrary: f s)
  case (Cons h hs)
  from Cons.prems have new: "\<not> waits f label h" by simp
  note step = sync_insert_step[OF Cons.prems(1,2) new]
  obtain s' where s': "map_of (synchronizations (sync_insert label h f)) label = Some s'" using step(3) ..
  have "\<forall>h' \<in> set hs. \<not> waits (sync_insert label h f) label h'"
    using step(2) Cons.prems(3,4) by fastforce
  then show ?case using Cons.IH[OF step(1) s'] Cons.prems(3) step(4) by simp
qed auto

lemma new_point_ok:
  assumes "sync_ok X f" "map_of (synchronizations f) label = None"
  shows "sync_ok X (f\<lparr>synchronizations :=
      imap_insert label (new_synchronization tag joining) (synchronizations f)\<rparr>)"
    "\<not> waits (f\<lparr>synchronizations :=
      imap_insert label (new_synchronization tag joining) (synchronizations f)\<rparr>) label h"
  using assms by (auto simp: sync_ok_def waits_def new_synchronization_def)

lemma acceptRegister_ok:
  assumes ok: "sync_ok {} f" and dist: "distinct (map fst (federates f))"
    "distinct (RegisterFederationSynchronizationPointMessage_federateHandleVector m)"
    and acc: "acceptRegisterFederationSynchronizationPoint c m f = Inr (f', es)"
  shows "sync_ok {} f'"
proof (cases "isRootServer f \<and> map_of (synchronizations f)
    (RegisterFederationSynchronizationPointMessage_label m) = None")
  case True
  let ?label = "RegisterFederationSynchronizationPointMessage_label m"
  let ?vector = "RegisterFederationSynchronizationPointMessage_federateHandleVector m"
  let ?f1 = "f\<lparr>synchronizations := imap_insert ?label (new_synchronization
      (RegisterFederationSynchronizationPointMessage_tag m) (?vector = [])) (synchronizations f)\<rparr>"
  let ?members = "if ?vector = [] then map fst (federates f) else ?vector"
  have "distinct ?members" using dist by simp
  note step = fold_sync_insert_step[OF new_point_ok(1)[OF ok] _ this, of ?label]
  have "sync_ok {} (fold (sync_insert ?label) ?members ?f1)"
    using True new_point_ok(2)[OF ok] by (intro step[THEN conjunct1]) auto
  moreover have "f' = fold (sync_insert ?label) ?members ?f1"
    using acc True by (auto simp: acceptRegisterFederationSynchronizationPoint_def Let_def
        split: option.splits if_splits)
  ultimately show ?thesis by simp
next
  case False
  then have "f' = f" using acc
    by (auto simp: acceptRegisterFederationSynchronizationPoint_def Let_def split: option.splits if_splits)
  then show ?thesis using ok by simp
qed

section \<open>Histories of a root server\<close>

lemma achieved_keys:
  "acceptSynchronizationPointAchieved c m f = Inr (f', es) \<Longrightarrow> map fst (federates f') = map fst (federates f)"
  by (cases "map_of (synchronizations f) (SynchronizationPointAchievedMessage_label m)")
    (auto simp: acceptSynchronizationPointAchieved_def Let_def erase_synchronization_def comp_def
      case_prod_beta split: if_splits)

lemma resign_synchronizations_keys:
  "resign_synchronizations c h labels f = Inr (f', es) \<Longrightarrow> map fst (federates f') = map fst (federates f)"
proof (induction labels arbitrary: f f' es)
  case (Cons label labels)
  then show ?case
    by (auto split: if_splits sum.splits dest!: achieved_keys)
qed simp

lemma acceptResign_keys:
  assumes "distinct (map fst (federates f))"
    and "acceptResignFederationExecutionRequest c m f = Inr (f', es)"
  shows "distinct (map fst (federates f'))"
proof (cases "map_of (federates f) (ResignFederationExecutionRequestMessage_federateHandle m)")
  case None
  with assms(2) show ?thesis by (simp add: acceptResignFederationExecutionRequest_def)
next
  case (Some fd)
  let ?h = "ResignFederationExecutionRequestMessage_federateHandle m"
  let ?f1 = "update_federate ?h (\<lambda>fd. fd\<lparr>resignPending := True\<rparr>) f"
  show ?thesis
  proof (cases "resignPending fd")
    case True
    with assms Some show ?thesis by (simp add: acceptResignFederationExecutionRequest_def)
  next
    case False
    obtain f2 es2 where f2: "resign_time c ?h ?f1 = (f2, es2)" by fastforce
    have "map fst (federates f2) = map fst (federates f)"
      using resign_time_frame(1)[of c ?h ?f1] unfolding f2 by (simp add: update_federate_def)
    then have keys: "distinct (map fst (federates f3))"
      if "resign_synchronizations c ?h (synchronizationFederateList fd) f2 = Inr (f3, es3)" for f3 es3
      using resign_synchronizations_keys[OF that] assms(1) by simp
    show ?thesis
    proof (cases "resign_synchronizations c ?h (synchronizationFederateList fd) f2")
      case (Inl e)
      with assms(2) False Some f2 show ?thesis by (simp add: acceptResignFederationExecutionRequest_def Let_def)
    next
      case (Inr r)
      obtain f3 es3 where r: "r = (f3, es3)" by fastforce
      let ?f4 = "erase_federate ?h f3"
      have "f' = f3 \<or> f' = ?f4 \<or> f' = fst (eraseFederationExecutionAtConnect c ?f4)"
        using assms(2) False Some f2 Inr r
        by (auto simp: acceptResignFederationExecutionRequest_def Let_def split: if_splits option.splits prod.splits)
      then show ?thesis using keys Inr r by (auto simp: erase_federate_parts)
    qed
  qed
qed

lemma sync_insert_keys [simp]: "map fst (federates (sync_insert label h f)) = map fst (federates f)"
  by (simp add: sync_insert_def update_federate_def split: option.split)

lemma fold_sync_insert_keys [simp]:
  "map fst (federates (fold (sync_insert label) hs f)) = map fst (federates f)"
  by (induction hs arbitrary: f) auto

lemma acceptRegister_keys:
  assumes "acceptRegisterFederationSynchronizationPoint c m f = Inr (f', es)"
  shows "map fst (federates f') = map fst (federates f)" "isRootServer f' = isRootServer f"
proof -
  have root: "isRootServer (fold (sync_insert label) hs g) = isRootServer g" for label hs g
    by (induction hs arbitrary: g)
      (auto simp: sync_insert_def isRootServer_def update_federate_def split: option.split)
  show "map fst (federates f') = map fst (federates f)" "isRootServer f' = isRootServer f"
    using assms root by (auto simp: acceptRegisterFederationSynchronizationPoint_def Let_def isRootServer_def
        split: option.splits if_splits)
qed

text \<open>
  A root server, from a state without synchronization points. The members of a registration are
  distinct federates, which the code asserts when it inserts them.
\<close>

inductive sync_history :: "Federation \<Rightarrow> bool" where
  start: "isRootServer f \<Longrightarrow> synchronizations f = [] \<Longrightarrow> distinct (map fst (federates f)) \<Longrightarrow> sync_history f"
| register: "sync_history f \<Longrightarrow>
    distinct (RegisterFederationSynchronizationPointMessage_federateHandleVector m) \<Longrightarrow>
    acceptRegisterFederationSynchronizationPoint c m f = Inr (f', es) \<Longrightarrow> sync_history f'"
| achieved: "sync_history f \<Longrightarrow> acceptSynchronizationPointAchieved c am f = Inr (f', es) \<Longrightarrow> sync_history f'"
| resign: "sync_history f \<Longrightarrow> acceptResignFederationExecutionRequest c rm f = Inr (f', es) \<Longrightarrow> sync_history f'"

lemma sync_history_ok:
  "sync_history f \<Longrightarrow> isRootServer f \<and> distinct (map fst (federates f)) \<and> sync_ok {} f"
proof (induction rule: sync_history.induct)
  case (start f)
  then show ?case by (simp add: sync_ok_def waits_def)
next
  case (register f m c f' es)
  then show ?case using acceptRegister_ok acceptRegister_keys by metis
next
  case (achieved f c am f' es)
  then show ?case using acceptSynchronizationPointAchieved_step(1,4) achieved_keys by metis
next
  case (resign f c rm f' es)
  then obtain fd where
    fd: "map_of (federates f) (ResignFederationExecutionRequestMessage_federateHandle rm) = Some fd"
    by (cases "map_of (federates f) (ResignFederationExecutionRequestMessage_federateHandle rm)")
      (auto simp: acceptResignFederationExecutionRequest_def)
  obtain f1 es1 where f1: "acceptResignFederationExecutionRequest c rm f = Inr (f1, es1)" "sync_ok {} f1"
    "isRootServer f1 = isRootServer f"
    using acceptResign_step[OF _ refl fd, of c] resign.IH by blast
  then have "f' = f1" using resign.hyps(2) by simp
  then show ?case using f1 resign.IH acceptResign_keys[OF _ resign.hyps(2)] by simp
qed

section \<open>Completion\<close>

definition registered :: "Federation \<Rightarrow> Label \<Rightarrow> bool" where
  "registered f label \<longleftrightarrow> map_of (synchronizations f) label \<noteq> None"

lemma achieved_registered:
  assumes "sync_ok X f" "isRootServer f" "acceptSynchronizationPointAchieved c m f = Inr (f', es)"
  shows "registered f' l \<longleftrightarrow> registered f l \<and>
    (l = SynchronizationPointAchievedMessage_label m \<longrightarrow> (\<exists>h. waits f' l h))"
proof -
  let ?label = "SynchronizationPointAchievedMessage_label m"
  let ?ps = "SynchronizationPointAchievedMessage_federateHandleBoolPairVector m"
  obtain s where s: "map_of (synchronizations f) ?label = Some s"
    using assms(3) by (cases "map_of (synchronizations f) ?label") (auto simp: acceptSynchronizationPointAchieved_def)
  define s' where "s' = fold (\<lambda>(h, b). sync_achieved h b) ?ps s"
  define f1 where "f1 = f\<lparr>synchronizations := entry_update ?label (\<lambda>_. s') (synchronizations f)\<rparr>"
  have f': "f' = (if waitingFederates s' = [] then erase_synchronization ?label f1 else f1)"
    using assms(2,3) s by (auto simp: acceptSynchronizationPointAchieved_def Let_def isRootServer_def
        s'_def f1_def split: if_splits)
  show ?thesis
  proof (cases "waitingFederates s'")
    case Nil
    then show ?thesis using f' s by (auto simp: registered_def waits_def f1_def)
  next
    case (Cons p ps)
    then have "waits f' ?label (fst p)" using f' s by (simp add: waits_def f1_def)
    then show ?thesis using f' s Cons by (auto simp: registered_def f1_def)
  qed
qed

lemma resign_synchronizations_registered:
  "sync_ok X f \<Longrightarrow> isRootServer f \<Longrightarrow> resign_synchronizations c h labels f = Inr (f', es) \<Longrightarrow>
   registered f' l \<longleftrightarrow> registered f l \<and> (l \<in> set labels \<and> waits f l h \<longrightarrow> (\<exists>h'. waits f' l h'))"
proof (induction labels arbitrary: f f' es)
  case (Cons label labels)
  show ?case
  proof (cases "waits f label h")
    case False
    then have "\<not> (case map_of (synchronizations f) label of None \<Rightarrow> False | Some s \<Rightarrow> getIsWaitingFor h s)"
      by (auto simp: waits_def getIsWaitingFor_iff split: option.split)
    then show ?thesis using Cons.IH[OF Cons.prems(1,2)] Cons.prems(3) False by auto
  next
    case True
    then have w: "case map_of (synchronizations f) label of None \<Rightarrow> False | Some s \<Rightarrow> getIsWaitingFor h s"
      by (force simp: waits_def getIsWaitingFor_iff)
    let ?m = "achieved_message f label [(h, False)]"
    obtain f1 es1 where acc: "acceptSynchronizationPointAchieved c ?m f = Inr (f1, es1)"
      using acceptSynchronizationPointAchieved_defined[of f ?m h c] True by (auto simp: achieved_message_def)
    note step = acceptSynchronizationPointAchieved_step[OF Cons.prems(1) acc]
    obtain es' where rest: "resign_synchronizations c h labels f1 = Inr (f', es')"
      using Cons.prems(3) w acc by (auto split: sum.splits)
    have waits': "waits f' l h' \<longleftrightarrow> waits f1 l h' \<and> \<not> (l \<in> set labels \<and> h' = h)" for l h'
      using resign_synchronizations_step[OF step(1), of c h labels] rest by auto
    have IH: "registered f' l \<longleftrightarrow> registered f1 l \<and> (l \<in> set labels \<and> waits f1 l h \<longrightarrow> (\<exists>h'. waits f' l h'))"
      using Cons.IH[OF step(1) _ rest] step(4) Cons.prems(2) by simp
    have f1: "registered f1 l \<longleftrightarrow> registered f l \<and> (l = label \<longrightarrow> (\<exists>h'. waits f1 l h'))"
      using achieved_registered[OF Cons.prems(1,2) acc] by (simp add: achieved_message_def)
    have gone: "\<not> waits f1 label h" and same: "l \<noteq> label \<Longrightarrow> waits f1 l h' = waits f l h'" for h'
      using step(2) by (auto simp: achieved_message_def)
    show ?thesis
    proof (cases "l = label")
      case True
      then have "waits f' l h' = waits f1 l h'" for h' using waits' gone by auto
      then show ?thesis using IH f1 gone True \<open>waits f label h\<close> by auto
    next
      case False
      then show ?thesis using IH f1 same by auto
    qed
  qed
qed simp

lemma acceptResign_registered:
  assumes ok: "sync_ok {} f" and root: "isRootServer f"
    and fd: "map_of (federates f) (ResignFederationExecutionRequestMessage_federateHandle m) = Some fd"
    and acc: "acceptResignFederationExecutionRequest c m f = Inr (f', es)"
  shows "registered f' l \<longleftrightarrow> registered f l \<and>
    (waits f l (ResignFederationExecutionRequestMessage_federateHandle m) \<longrightarrow> (\<exists>h. waits f' l h))"
proof (cases "resignPending fd")
  case True
  then have "f' = f" using acc fd by (simp add: acceptResignFederationExecutionRequest_def)
  then show ?thesis by auto
next
  case False
  let ?h = "ResignFederationExecutionRequestMessage_federateHandle m"
  let ?f1 = "update_federate ?h (\<lambda>fd. fd\<lparr>resignPending := True\<rparr>) f"
  obtain f2 es2 where f2: "resign_time c ?h ?f1 = (f2, es2)" by fastforce
  have same: "federates f2 = federates ?f1" "synchronizations f2 = synchronizations ?f1"
    "isRootServer f2" "synchronizations ?f1 = synchronizations f"
    using resign_time_frame[of c ?h ?f1] root unfolding f2
    by (simp_all add: isRootServer_def update_federate_def)
  have ok2: "sync_ok {?h} f2" using sync_ok_pending[OF ok] sync_frame(1)[OF same(1,2)] by simp
  obtain f3 es3 where f3: "resign_synchronizations c ?h (synchronizationFederateList fd) f2 = Inr (f3, es3)"
    "isRootServer f3" "sync_ok {?h} f3"
    using resign_synchronizations_step[OF ok2, of c ?h "synchronizationFederateList fd"] same(3) by blast
  let ?f4 = "erase_federate ?h f3"
  have known: "l \<in> set (synchronizationFederateList fd)" if "waits f l ?h"
    using ok that fd by (fastforce simp: sync_ok_def knows_point_def)
  have reg3: "registered f3 l \<longleftrightarrow> registered f l \<and> (waits f l ?h \<longrightarrow> (\<exists>h'. waits f3 l h'))"
    using resign_synchronizations_registered[OF ok2 same(3) f3(1), of l] known same(2,4)
    by (auto simp: registered_def waits_def)
  have "f' = ?f4 \<or> f' = fst (eraseFederationExecutionAtConnect c ?f4)"
    using acc False fd f2 f3 by (auto simp: acceptResignFederationExecutionRequest_def Let_def
        split: option.splits prod.splits if_splits)
  then have "registered f' l = registered f3 l" "waits f' l h = waits ?f4 l h" for h
    by (auto simp: registered_def waits_def erase_federate_parts map_of_map_value)
  moreover have "waits f3 l ?h \<Longrightarrow> \<not> waits f l ?h"
    using resign_synchronizations_step[OF ok2, of c ?h "synchronizationFederateList fd"] f3(1) known
      same(2,4) by (auto simp: waits_def)
  ultimately show ?thesis using reg3 erase_federate_step(2)[OF f3(3), of ?h l] by metis
qed

text \<open>The ways a federate that is awaited at a point can leave it.\<close>

datatype departure = Achieves FederateHandle bool | Resigns FederateHandle

fun departing :: "departure \<Rightarrow> FederateHandle" where
  "departing (Achieves h _) = h"
| "departing (Resigns h) = h"

fun depart :: "Label \<Rightarrow> ConnectHandle \<times> departure \<Rightarrow> Federation \<Rightarrow> handled" where
  "depart label (c, Achieves h successful) f =
     acceptSynchronizationPointAchieved c (achieved_message f label [(h, successful)]) f"
| "depart label (c, Resigns h) f = acceptResignFederationExecutionRequest c
     \<lparr>ResignFederationExecutionRequestMessage_federationHandle = federationHandle f,
      ResignFederationExecutionRequestMessage_federateHandle = h\<rparr> f"

fun run_departures :: "Label \<Rightarrow> (ConnectHandle \<times> departure) list \<Rightarrow> Federation \<Rightarrow> handled" where
  "run_departures label [] f = Inr (f, [])"
| "run_departures label (d # ds) f = (case depart label d f of
     Inl e \<Rightarrow> Inl e
   | Inr (f', es) \<Rightarrow> (case run_departures label ds f' of
       Inl e \<Rightarrow> Inl e
     | Inr (f'', es') \<Rightarrow> Inr (f'', es @ es')))"

lemma depart_step:
  assumes ok: "sync_ok {} f" "isRootServer f" and w: "waits f label (departing (snd d))"
  shows "\<exists>f' es. depart label d f = Inr (f', es) \<and> sync_ok {} f' \<and> isRootServer f' \<and>
    (\<forall>h. waits f' label h \<longleftrightarrow> waits f label h \<and> h \<noteq> departing (snd d)) \<and>
    (registered f' label \<longleftrightarrow> (\<exists>h. waits f' label h))"
proof -
  have reg: "registered f label" using w by (auto simp: waits_def registered_def)
  obtain c d' where d: "d = (c, d')" by fastforce
  show ?thesis
  proof (cases d')
    case (Achieves h b)
    let ?m = "achieved_message f label [(h, b)]"
    obtain f' es where acc: "acceptSynchronizationPointAchieved c ?m f = Inr (f', es)"
      using acceptSynchronizationPointAchieved_defined[of f ?m h c] w d Achieves
      by (auto simp: achieved_message_def)
    show ?thesis
      using acceptSynchronizationPointAchieved_step[OF ok(1) acc] achieved_registered[OF ok acc, of label]
        acc ok(2) reg d Achieves by (auto simp: achieved_message_def)
  next
    case (Resigns h)
    let ?m = "\<lparr>ResignFederationExecutionRequestMessage_federationHandle = federationHandle f,
      ResignFederationExecutionRequestMessage_federateHandle = h\<rparr>"
    obtain fd where fd: "map_of (federates f) h = Some fd"
    proof -
      have "knows_point f h label" using ok(1) w d Resigns by (simp add: sync_ok_def)
      then show ?thesis using that by (auto simp: knows_point_def)
    qed
    then have fdm: "map_of (federates f) (ResignFederationExecutionRequestMessage_federateHandle ?m) = Some fd"
      by simp
    obtain f' es where acc: "acceptResignFederationExecutionRequest c ?m f = Inr (f', es)" "sync_ok {} f'"
      "isRootServer f' = isRootServer f" "\<forall>l h'. waits f' l h' \<longleftrightarrow> waits f l h' \<and> h' \<noteq> h"
      using acceptResign_step[OF ok(1) refl fdm, of c] by auto
    show ?thesis
      using acceptResign_registered[OF ok fdm acc(1), of label] acc ok(2) reg w d Resigns by auto
  qed
qed

lemma run_departures_complete:
  "sync_ok {} f \<Longrightarrow> isRootServer f \<Longrightarrow> distinct (map (departing \<circ> snd) ds) \<Longrightarrow>
   (\<forall>h. waits f label h \<longleftrightarrow> h \<in> (departing \<circ> snd) ` set ds) \<Longrightarrow> registered f label = (ds \<noteq> []) \<Longrightarrow>
   \<exists>f' es. run_departures label ds f = Inr (f', es) \<and> \<not> registered f' label \<and>
     (\<forall>k < length ds. \<exists>fk esk. run_departures label (take k ds) f = Inr (fk, esk) \<and> registered fk label)"
proof (induction ds arbitrary: f)
  case (Cons d ds)
  have w: "waits f label (departing (snd d))" using Cons.prems(4) by simp
  obtain f1 es1 where d: "depart label d f = Inr (f1, es1)" "sync_ok {} f1" "isRootServer f1"
    "\<forall>h. waits f1 label h \<longleftrightarrow> waits f label h \<and> h \<noteq> departing (snd d)"
    "registered f1 label \<longleftrightarrow> (\<exists>h. waits f1 label h)"
    using depart_step[OF Cons.prems(1,2) w] by blast
  have waits1: "\<forall>h. waits f1 label h \<longleftrightarrow> h \<in> (departing \<circ> snd) ` set ds"
  proof
    fix h
    define S where "S = (departing \<circ> snd) ` set ds"
    have new: "departing (snd d) \<notin> S" using Cons.prems(3) by (simp add: S_def)
    have old: "waits f label h \<longleftrightarrow> h = departing (snd d) \<or> h \<in> S"
      using Cons.prems(4) by (simp add: S_def)
    have "waits f1 label h \<longleftrightarrow> waits f label h \<and> h \<noteq> departing (snd d)" using d(4) by blast
    then show "waits f1 label h \<longleftrightarrow> h \<in> (departing \<circ> snd) ` set ds"
      unfolding S_def[symmetric] old using new by (cases "h = departing (snd d)") simp_all
  qed
  then have "registered f1 label = (ds \<noteq> [])" using d(5) by auto
  have dist: "distinct (map (departing \<circ> snd) ds)" using Cons.prems(3) by (simp add: comp_def)
  note IH = Cons.IH[OF d(2,3) dist waits1 \<open>registered f1 label = (ds \<noteq> [])\<close>]
  then obtain f' es where
    rest: "run_departures label ds f1 = Inr (f', es)" "\<not> registered f' label"
    "\<forall>k < length ds. \<exists>fk esk. run_departures label (take k ds) f1 = Inr (fk, esk) \<and> registered fk label"
    by (elim exE conjE)
  have "\<exists>fk esk. run_departures label (take k (d # ds)) f = Inr (fk, esk) \<and> registered fk label"
    if "k < length (d # ds)" for k
  proof (cases k)
    case 0
    then show ?thesis using Cons.prems(5) by simp
  next
    case (Suc j)
    then show ?thesis using rest(3) that d(1) by fastforce
  qed
  then show ?case using d(1) rest by auto
qed simp

lemma last_achieved_message:
  assumes ok: "sync_ok {} f" "isRootServer f" and s: "map_of (synchronizations f) label = Some s"
    and w: "h \<in> fst ` set (waitingFederates s)"
  shows "\<exists>f' es. acceptSynchronizationPointAchieved c (achieved_message f label [(h, b)]) f = Inr (f', es) \<and>
    (registered f' label \<longleftrightarrow> fst ` set (waitingFederates s) \<noteq> {h}) \<and>
    sent_to d es = (if fst ` set (waitingFederates s) = {h} \<and> reachable f d \<and>
        Some d \<in> child_connect f ` insert h (fst ` set (achievedFederates s))
      then [synchronized_message f label (imap_insert h b (achievedFederates s))] else [])"
proof -
  let ?s = "sync_achieved h b s"
  let ?f1 = "f\<lparr>synchronizations := entry_update label (\<lambda>_. ?s) (synchronizations f)\<rparr>"
  have dist: "distinct (map fst (waitingFederates s))" using ok(1) s by (simp add: sync_ok_def)
  have empty: "waitingFederates ?s = [] \<longleftrightarrow> fst ` set (waitingFederates s) = {h}"
    using sync_achieved_waiting(1)[OF dist, of h b] w by auto
  have ach: "achievedFederates ?s = imap_insert h b (achievedFederates s)"
    using w by (simp add: sync_achieved_def getIsWaitingFor_iff)
  have child: "child_connect ?f1 = child_connect f" "reachable ?f1 = reachable f"
    by (auto simp: fun_eq_iff child_connect_def connect_of_def reachable_def split: option.split)
  have in_set: "d |\<in>| fset_of_list (List.map_filter (child_connect f) hs) \<longleftrightarrow> Some d \<in> child_connect f ` set hs" for hs
    by (induction hs) (auto simp: map_filter_simps split: option.split)
  have sent: "sent_to d (broadcastToChildren_federates ?f1 (map fst (achievedFederates ?s))
      (synchronized_message ?f1 label (achievedFederates ?s))) =
    (if reachable f d \<and> Some d \<in> child_connect f ` insert h (fst ` set (achievedFederates s))
     then [synchronized_message f label (imap_insert h b (achievedFederates s))] else [])"
    unfolding broadcastToChildren_federates_def sent_to_send_set child in_set ach set_map set_imap_insert
    by (simp add: synchronized_message_def)
  show ?thesis
  proof (cases "waitingFederates ?s = []")
    case True
    then show ?thesis using s sent ok(2) empty
      by (simp add: acceptSynchronizationPointAchieved_def achieved_message_def Let_def
          isRootServer_def registered_def)
  next
    case False
    then show ?thesis using s empty
      by (simp add: acceptSynchronizationPointAchieved_def achieved_message_def Let_def registered_def)
  qed
qed

section \<open>Properties\<close>

text \<open>
  C9: A synchronization point of the root never waits in vain: in every state that registrations,
  achieved messages and resignations reach, the federates a point waits for are all different,
  each of them is joined and is not resigning, and has the point in its list, so that its
  resignation will answer for it.
\<close>

theorem points_wait_for_joined_federates:
  assumes "sync_history f" "map_of (synchronizations f) label = Some s"
  shows "distinct (map fst (waitingFederates s)) \<and> (\<forall>h. getIsWaitingFor h s \<longrightarrow>
    (\<exists>fd. map_of (federates f) h = Some fd \<and> \<not> resignPending fd \<and>
      label \<in> set (synchronizationFederateList fd)))"
proof -
  have ok: "sync_ok {} f" using sync_history_ok[OF assms(1)] by simp
  have "knows_point f h label" if "getIsWaitingFor h s" for h
  proof -
    have "waits f label h" using that assms(2) by (simp add: waits_def getIsWaitingFor_iff)
    then show ?thesis using ok by (simp add: sync_ok_def)
  qed
  then show ?thesis using ok assms(2) by (simp add: sync_ok_def knows_point_def)
qed

text \<open>
  C7: Every synchronization point that waits for somebody completes: whatever order the federates
  it waits for achieve it (with or without success) or resign in, none of the messages raises an
  error, the point stays registered until the last of them and is gone after it.
\<close>

theorem synchronization_completes:
  assumes "sync_history f" "map_of (synchronizations f) label = Some s" "waitingFederates s \<noteq> []"
    and "set (map (departing \<circ> snd) ds) = fst ` set (waitingFederates s)"
    and "distinct (map (departing \<circ> snd) ds)"
  shows "\<exists>f' es. run_departures label ds f = Inr (f', es) \<and> \<not> registered f' label \<and>
    (\<forall>k < length ds. \<exists>fk esk. run_departures label (take k ds) f = Inr (fk, esk) \<and> registered fk label)"
proof (rule run_departures_complete)
  show "\<forall>h. waits f label h \<longleftrightarrow> h \<in> (departing \<circ> snd) ` set ds"
    using assms(2,4) by (simp add: waits_def)
  have "ds \<noteq> []" using assms(3,4) by auto
  then show "registered f label = (ds \<noteq> [])" using assms(2) by (simp add: registered_def)
qed (use sync_history_ok[OF assms(1)] assms(5) in auto)

text \<open>
  C15: The end of a synchronization point is told exactly once to exactly those it concerns: when
  a federate the root waits for achieves the point, nothing is sent while others are awaited; when
  it is the last one, each child connect that can be reached and leads to a federate that achieved
  the point gets one message with all the federates that achieved it and their results.
\<close>

theorem completion_told_once:
  assumes "sync_history f" "map_of (synchronizations f) label = Some s"
    and "h \<in> fst ` set (waitingFederates s)"
  shows "\<exists>f' es. acceptSynchronizationPointAchieved c (achieved_message f label [(h, b)]) f = Inr (f', es) \<and>
    (registered f' label \<longleftrightarrow> fst ` set (waitingFederates s) \<noteq> {h}) \<and>
    sent_to d es = (if fst ` set (waitingFederates s) = {h} \<and> reachable f d \<and>
        Some d \<in> child_connect f ` insert h (fst ` set (achievedFederates s))
      then [synchronized_message f label (imap_insert h b (achievedFederates s))] else [])"
  using last_achieved_message sync_history_ok[OF assms(1)] assms(2,3) by blast

text \<open>A root with two connects; federates 1 and 2 behind connect 1, federate 3 behind connect 2.\<close>

definition example_member :: "ConnectHandle \<Rightarrow> Federate" where
  "example_member c = (new_federate [])\<lparr>federationConnect := Some c\<rparr>"

definition example_link :: "FederateHandle list \<Rightarrow> FederationConnect" where
  "example_link hs = \<lparr>nodeConnect = \<lparr>isParentConnect = False, messageSender = True\<rparr>, active = True,
     federateList = hs, timeRegulatingFederateList = [], timeConstrainedFederateList = []\<rparr>"

definition example_root :: Federation where
  "example_root = \<lparr>federationHandle = 0, parentConnect = None,
     federationConnects = [(1, example_link [1, 2]), (2, example_link [3])],
     federates = [(1, example_member 1), (2, example_member 1), (3, example_member 2)],
     federateHandleAllocator = new_allocator, timeRegulatingConnects = [], timeConstrainedConnects = [],
     synchronizations = [], interactionClasses = []\<rparr>"

definition example_register :: RegisterFederationSynchronizationPointMessage where
  "example_register = \<lparr>RegisterFederationSynchronizationPointMessage_federationHandle = 0,
     RegisterFederationSynchronizationPointMessage_federateHandle = 1,
     RegisterFederationSynchronizationPointMessage_label = [82],
     RegisterFederationSynchronizationPointMessage_tag = [],
     RegisterFederationSynchronizationPointMessage_federateHandleVector = [1, 3]\<rparr>"

definition example_point :: Federation where
  "example_point = example_root\<lparr>
     federates := [(1, (example_member 1)\<lparr>synchronizationFederateList := [[82]]\<rparr>), (2, example_member 1),
       (3, (example_member 2)\<lparr>synchronizationFederateList := [[82]]\<rparr>)],
     synchronizations := [([82], (new_synchronization [] False)\<lparr>waitingFederates := [(1, False), (3, False)]\<rparr>)]\<rparr>"

lemmas example_sync_defs = example_root_def example_point_def example_member_def example_link_def
  example_register_def new_federate_def new_synchronization_def

lemma example_point_history: "sync_history example_point"
proof -
  have "sync_history example_root" by (rule sync_history.start) (simp_all add: example_root_def isRootServer_def)
  moreover have "distinct (RegisterFederationSynchronizationPointMessage_federateHandleVector example_register)"
    by (simp add: example_register_def)
  moreover have "\<exists>es. acceptRegisterFederationSynchronizationPoint 1 example_register example_root =
      Inr (example_point, es)"
    by (simp add: acceptRegisterFederationSynchronizationPoint_def example_sync_defs isRootServer_def
        sync_insert_def update_federate_def entry_update_def Let_def)
  ultimately show ?thesis using sync_history.register by blast
qed

theorem points_wait_for_joined_federates_witness:
  "getIsWaitingFor 3 (snd (synchronizations example_point ! 0)) \<and>
   (\<exists>fd. map_of (federates example_point) 3 = Some fd \<and> \<not> resignPending fd \<and>
      [82] \<in> set (synchronizationFederateList fd))"
proof -
  have s: "map_of (synchronizations example_point) [82] = Some (snd (synchronizations example_point ! 0))"
    by (simp add: example_point_def)
  have "getIsWaitingFor 3 (snd (synchronizations example_point ! 0))"
    by (simp add: example_point_def getIsWaitingFor_def)
  with points_wait_for_joined_federates[OF example_point_history s] show ?thesis by blast
qed

theorem synchronization_completes_witness:
  "\<exists>f es. run_departures [82] [(2, Resigns 3), (1, Achieves 1 True)] example_point = Inr (f, es) \<and>
     \<not> registered f [82]"
proof -
  have s: "map_of (synchronizations example_point) [82] = Some (snd (synchronizations example_point ! 0))"
    by (simp add: example_point_def)
  show ?thesis
    using synchronization_completes[OF example_point_history s, of "[(2, Resigns 3), (1, Achieves 1 True)]"]
    by (auto simp: example_point_def)
qed

theorem completion_told_once_witness:
  "\<exists>f es. acceptSynchronizationPointAchieved 1 (achieved_message example_point [82] [(1, True)]) example_point
      = Inr (f, es) \<and> registered f [82] \<and> sent_to 1 es = []"
proof -
  have s: "map_of (synchronizations example_point) [82] = Some (snd (synchronizations example_point ! 0))"
    by (simp add: example_point_def)
  have h: "1 \<in> fst ` set (waitingFederates (snd (synchronizations example_point ! 0)))"
    by (simp add: example_point_def)
  have "fst ` set (waitingFederates (snd (synchronizations example_point ! 0))) \<noteq> {1}"
    by (simp add: example_point_def)
  then show ?thesis using completion_told_once[OF example_point_history s h, of 1 True 1] by auto
qed

end
