(* ===== verification/Std_Map.thy ===== *)
theory Std_Map
  imports Base "HOL-Library.Multiset"
begin

text \<open>
  \<open>std::map\<close> where the code observes the order of the keys (\<open>begin()\<close>, iteration): an
  association list with strictly increasing keys. The locale \<open>std_map\<close> is the interface the
  components use.
\<close>

definition smap_ok :: "('k::linorder \<times> 'v) list \<Rightarrow> bool" where
  "smap_ok m \<longleftrightarrow> sorted_wrt (<) (map fst m)"

text \<open>\<open>m[k] = v\<close>\<close>

fun smap_update :: "'k::linorder \<Rightarrow> 'v \<Rightarrow> ('k \<times> 'v) list \<Rightarrow> ('k \<times> 'v) list" where
  "smap_update k v [] = [(k, v)]"
| "smap_update k v ((k', v') # m) =
     (if k < k' then (k, v) # (k', v') # m
      else if k = k' then (k, v) # m
      else (k', v') # smap_update k v m)"

text \<open>\<open>m.erase(k)\<close>\<close>

fun smap_erase :: "'k \<Rightarrow> ('k \<times> 'v) list \<Rightarrow> ('k \<times> 'v) list" where
  "smap_erase k [] = []"
| "smap_erase k ((k', v') # m) = (if k = k' then m else (k', v') # smap_erase k m)"

text \<open>\<open>m.insert({k, v})\<close> leaves an existing entry alone.\<close>

definition smap_insert :: "'k::linorder \<Rightarrow> 'v \<Rightarrow> ('k \<times> 'v) list \<Rightarrow> ('k \<times> 'v) list" where
  "smap_insert k v m = (case map_of m k of None \<Rightarrow> smap_update k v m | Some _ \<Rightarrow> m)"

lemma smap_ok_Nil [simp]: "smap_ok []"
  by (simp add: smap_ok_def)

lemma smap_ok_Cons: "smap_ok ((k, v) # m) \<longleftrightarrow> smap_ok m \<and> (\<forall>k' \<in> set (map fst m). k < k')"
  by (auto simp: smap_ok_def)

lemma smap_ok_distinct: "smap_ok m \<Longrightarrow> distinct (map fst m)"
  by (simp add: smap_ok_def strict_sorted_iff)

lemma map_of_smap_update [simp]: "map_of (smap_update k v m) = (map_of m)(k \<mapsto> v)"
  by (induction k v m rule: smap_update.induct) (auto simp: fun_eq_iff)

lemma keys_smap_update [simp]:
  "set (map fst (smap_update k v m)) = insert k (set (map fst m))"
  by (induction k v m rule: smap_update.induct) auto

lemma smap_update_neq_Nil [simp]: "smap_update k v m \<noteq> []"
  by (cases "(k, v, m)" rule: smap_update.cases) auto

lemma fst_set_smap_update [simp]: "fst ` set (smap_update k v m) = insert k (fst ` set m)"
  using keys_smap_update[of k v m] by simp

lemma smap_ok_update [simp]: "smap_ok m \<Longrightarrow> smap_ok (smap_update k v m)"
  by (induction k v m rule: smap_update.induct)
    (auto simp: smap_ok_Cons fst_set_smap_update)

lemma keys_smap_erase: "smap_ok m \<Longrightarrow> set (map fst (smap_erase k m)) = set (map fst m) - {k}"
  by (induction k m rule: smap_erase.induct) (auto simp: smap_ok_Cons)

lemma smap_ok_erase [simp]: "smap_ok m \<Longrightarrow> smap_ok (smap_erase k m)"
proof (induction k m rule: smap_erase.induct)
  case (2 k k' v' m)
  then show ?case using keys_smap_erase[of m k] by (auto simp: smap_ok_Cons)
qed simp

lemma map_of_smap_erase [simp]:
  "smap_ok m \<Longrightarrow> map_of (smap_erase k m) = (map_of m)(k := None)"
proof (induction k m rule: smap_erase.induct)
  case (2 k k' v' m)
  then show ?case by (auto simp: fun_eq_iff smap_ok_Cons map_of_eq_None_iff)
qed simp

lemma smap_ok_insert [simp]: "smap_ok m \<Longrightarrow> smap_ok (smap_insert k v m)"
  by (simp add: smap_insert_def split: option.split)

lemma map_of_smap_insert [simp]:
  "map_of (smap_insert k v m) = (if map_of m k = None then (map_of m)(k \<mapsto> v) else map_of m)"
  by (simp add: smap_insert_def split: option.split)

text \<open>The values of the map as a multiset.\<close>

definition smap_values :: "('k \<times> 'v) list \<Rightarrow> 'v multiset" where
  "smap_values m = mset (map snd m)"

lemma smap_values_empty_iff [simp]: "smap_values m = {#} \<longleftrightarrow> m = []"
  by (simp add: smap_values_def)

lemma smap_values_update:
  "smap_ok m \<Longrightarrow> smap_values (smap_update k v m) =
     (case map_of m k of None \<Rightarrow> add_mset v (smap_values m)
      | Some v0 \<Rightarrow> add_mset v (smap_values m - {#v0#}))"
proof (induction k v m rule: smap_update.induct)
  case (2 k v k' v' m)
  have notin: "map_of m k = None" if "k \<le> k'"
    using that "2.prems" by (auto simp: smap_ok_Cons map_of_eq_None_iff)
  have "v0 \<in># smap_values m" if "map_of m k = Some v0" for v0
    using map_of_SomeD[OF that] by (force simp: smap_values_def)
  with 2 notin show ?case
    by (auto simp: smap_values_def smap_ok_Cons split: option.split)
qed (simp add: smap_values_def)

lemma smap_values_erase:
  "smap_values (smap_erase k m) =
     (case map_of m k of None \<Rightarrow> smap_values m | Some v0 \<Rightarrow> smap_values m - {#v0#})"
proof (induction k m rule: smap_erase.induct)
  case (2 k k' v' m)
  have "v0 \<in># smap_values m" if "map_of m k = Some v0" for v0
    using map_of_SomeD[OF that] by (force simp: smap_values_def)
  with 2 show ?case by (auto simp: smap_values_def split: option.split)
qed (simp add: smap_values_def)

text \<open>The first entry is the one with the least key.\<close>

lemma smap_hd_Min:
  assumes "smap_ok m" "m \<noteq> []"
  shows "fst (hd m) = Min (fst ` set m)"
proof (cases m)
  case (Cons p m')
  with assms(1) have "\<forall>k \<in> fst ` set m'. fst p \<le> k"
    by (cases p) (auto simp: smap_ok_Cons less_imp_le)
  then have "Min (insert (fst p) (fst ` set m')) = fst p"
    by (intro Min_insert2) auto
  with Cons show ?thesis by simp
qed (use assms in simp)

subsection \<open>The interface\<close>

locale std_map =
  fixes ok :: "'m \<Rightarrow> bool" and find :: "'m \<Rightarrow> 'k::linorder \<Rightarrow> 'v option"
    and upd :: "'k \<Rightarrow> 'v \<Rightarrow> 'm \<Rightarrow> 'm" and ers :: "'k \<Rightarrow> 'm \<Rightarrow> 'm"
    and first_key :: "'m \<Rightarrow> 'k" and nil :: 'm
  assumes ok_nil: "ok nil" and find_nil: "find nil = Map.empty"
    and find_upd: "ok m \<Longrightarrow> find (upd k v m) = (find m)(k \<mapsto> v)"
    and find_ers: "ok m \<Longrightarrow> find (ers k m) = (find m)(k := None)"
    and ok_upd: "ok m \<Longrightarrow> ok (upd k v m)" and ok_ers: "ok m \<Longrightarrow> ok (ers k m)"
    and finite_dom: "ok m \<Longrightarrow> finite (dom (find m))"
    and first_key: "ok m \<Longrightarrow> dom (find m) \<noteq> {} \<Longrightarrow> first_key m = Min (dom (find m))"
begin

lemma first_key_in: "ok m \<Longrightarrow> find m k = Some v \<Longrightarrow> find m (first_key m) \<noteq> None"
  using Min_in[OF finite_dom, of m] first_key[of m] by (force simp: dom_def)

lemma first_key_le: "ok m \<Longrightarrow> find m k = Some v \<Longrightarrow> first_key m \<le> k"
  using Min_le[OF finite_dom, of m k] first_key[of m] by (force simp: dom_def)

lemma first_keyI:
  "ok m \<Longrightarrow> find m k = Some v \<Longrightarrow> (\<And>k' v'. find m k' = Some v' \<Longrightarrow> k \<le> k') \<Longrightarrow> first_key m = k"
  using first_key_in[of m k v] first_key_le[of m k v] by (meson antisym not_None_eq)

end

interpretation sm: std_map smap_ok map_of smap_update smap_erase "\<lambda>m. fst (hd m)" "[]"
proof unfold_locales
  fix m :: "('k::linorder \<times> 'v) list"
  assume ok: "smap_ok m" and ne: "dom (map_of m) \<noteq> {}"
  then have "m \<noteq> []" by auto
  with ok show "fst (hd m) = Min (dom (map_of m))"
    using smap_hd_Min[of m] by (simp add: dom_map_of_conv_image_fst)
qed (simp_all add: finite_dom_map_of)

end
