(* ===== verification/Lower_Bound_Map.thy ===== *)
theory Lower_Bound_Map
  imports Std_Map
begin

text \<open>
  \<open>FederateHandleLowerBoundTimeStampMap\<close> (\<open>src/OpenRTI/FederateHandleLowerBoundTimeStampMap.h\<close>):
  the lower bound time stamps all known time regulating federates have committed to. Two
  ordered maps count how many federates committed each time, one for the time advance commits
  and one for the next message commits; the federate map holds for each federate the entries
  it refers to. An iterator into a count map is the logical time it points to.
\<close>

type_synonym FederateHandle = u32

subsection \<open>The count maps: \<open>LogicalTimeFederateCountMap\<close>\<close>

type_synonym 't count_map = "('t \<times> nat) list"

definition cm_count :: "'t count_map \<Rightarrow> 't \<Rightarrow> nat" where
  "cm_count m t = (case map_of m t of None \<Rightarrow> 0 | Some n \<Rightarrow> n)"

definition cm_insert :: "'t::linorder \<Rightarrow> 't count_map \<Rightarrow> 't count_map" where
  "cm_insert t m = (let m1 = smap_insert t 0 m in smap_update t (cm_count m1 t + 1) m1)"

definition cm_move :: "'t::linorder \<Rightarrow> 't \<Rightarrow> 't count_map \<Rightarrow> ('t \<times> bool) \<times> 't count_map" where
  "cm_move oldEntry t m =
     (let m1 = smap_insert t 0 m
      in if t = oldEntry then ((oldEntry, False), m1)
      else let m2 = smap_update t (cm_count m1 t + 1) m1;
               m3 = smap_update oldEntry (cm_count m2 oldEntry - 1) m2
           in if cm_count m3 oldEntry \<noteq> 0 then ((t, False), m3)
              else let isFirstLogicalTime = (oldEntry = fst (hd m3))
                   in ((t, isFirstLogicalTime), smap_erase oldEntry m3))"

definition cm_erase :: "'t::linorder \<Rightarrow> 't count_map \<Rightarrow> bool \<times> 't count_map" where
  "cm_erase t m =
     (let m1 = smap_update t (cm_count m t - 1) m
      in if cm_count m1 t \<noteq> 0 then (False, m1)
         else (t = fst (hd m1), smap_erase t m1))"

text \<open>What a count map stands for: the multiset of the committed times.\<close>

definition cm_repr :: "'t::linorder count_map \<Rightarrow> 't multiset \<Rightarrow> bool" where
  [inv_defs]: "cm_repr m M \<longleftrightarrow> smap_ok m \<and>
     (\<forall>t. map_of m t = (if t \<in># M then Some (count M t) else None))"

lemma cm_repr_ok: "cm_repr m M \<Longrightarrow> smap_ok m"
  by (simp add: cm_repr_def)

lemma cm_repr_find:
  "cm_repr m M \<Longrightarrow> map_of m t = (if t \<in># M then Some (count M t) else None)"
  by (simp add: cm_repr_def)

lemma cm_repr_count: "cm_repr m M \<Longrightarrow> cm_count m t = count M t"
  by (auto simp: cm_repr_def cm_count_def count_eq_zero_iff)

lemma cm_repr_dom: "cm_repr m M \<Longrightarrow> fst ` set m = set_mset M"
  using dom_map_of_conv_image_fst[of m] by (auto simp: cm_repr_def dom_def split: if_splits)

lemma cm_repr_empty_iff: "cm_repr m M \<Longrightarrow> m = [] \<longleftrightarrow> M = {#}"
  using cm_repr_dom[of m M] by (cases m) auto

text \<open>The least committed time, \<open>begin()->first\<close>.\<close>

lemma cm_repr_first: "cm_repr m M \<Longrightarrow> M \<noteq> {#} \<Longrightarrow> fst (hd m) = Min_mset M"
  by (metis cm_repr_dom cm_repr_empty_iff cm_repr_ok smap_hd_Min)

lemma cm_reprI:
  "smap_ok m \<Longrightarrow> (\<And>t. map_of m t = (if t \<in># M then Some (count M t) else None)) \<Longrightarrow> cm_repr m M"
  by (simp add: cm_repr_def)

lemma cm_repr_insert:
  assumes "cm_repr m M"
  shows "cm_repr (cm_insert t m) (add_mset t M)"
  using assms
  using cm_repr_count[OF assms]
  by (auto simp: cm_repr_def cm_insert_def cm_count_def Let_def count_eq_zero_iff)

lemma Min_remove_less_iff:
  fixes old :: "'a::linorder"
  assumes "old \<in># M" "M' = M - {#old#}" "M' \<noteq> {#}"
  shows "Min_mset M < Min_mset M' \<longleftrightarrow> old = Min_mset M \<and> count M old = 1"
proof -
  have M: "M = add_mset old M'" using assms(1,2) by simp
  then have Min: "Min_mset M = min old (Min_mset M')" using assms(3) by simp
  have count: "count M old = 1 \<longleftrightarrow> old \<notin># M'" using M by (auto simp: not_in_iff)
  have "old < Min_mset M' \<longleftrightarrow> old \<le> Min_mset M' \<and> old \<notin># M'"
    using assms(3) Min_in[of "set_mset M'"] by (auto simp: order_le_less)
  with Min count show ?thesis by (auto simp: min_def)
qed

lemma cm_repr_erase:
  assumes repr: "cm_repr m M" and t: "t \<in># M"
  shows "cm_repr (snd (cm_erase t m)) (M - {#t#}) \<and>
    fst (cm_erase t m) = (t = Min_mset M \<and> count M t = 1)"
proof -
  let ?m1 = "smap_update t (count M t - 1) m"
  have ok: "smap_ok m" "smap_ok ?m1" using repr by (simp_all add: cm_repr_def)
  have eq: "cm_erase t m = (if count M t - 1 \<noteq> 0 then (False, ?m1)
      else (t = fst (hd ?m1), smap_erase t ?m1))"
    using cm_repr_count[OF repr, of t] by (simp add: cm_erase_def Let_def cm_count_def)
  have dom: "fst ` set ?m1 = set_mset M" using cm_repr_dom[OF repr] t by auto
  then have first: "fst (hd ?m1) = Min_mset M" using smap_hd_Min[OF ok(2)] by simp
  have repr1: "cm_repr (snd (cm_erase t m)) (M - {#t#})"
  proof (rule cm_reprI)
    show "smap_ok (snd (cm_erase t m))" using ok by (simp add: eq)
    show "map_of (snd (cm_erase t m)) x
        = (if x \<in># M - {#t#} then Some (count (M - {#t#}) x) else None)" for x
      using cm_repr_find[OF repr, of x] ok(2) t
      by (cases "x = t") (auto simp: eq in_diff_count)
  qed
  have "count M t = 1 \<longleftrightarrow> count M t - 1 = 0"
    using t by (metis One_nat_def Suc_pred count_greater_zero_iff diff_Suc_1)
  then show ?thesis using repr1 first by (auto simp: eq)
qed

lemma cm_move_eq:
  assumes repr: "cm_repr m M" and old: "old \<in># M"
  shows "cm_move old t m =
    (if t = old then ((old, False), m)
     else ((t, fst (cm_erase old (cm_insert t m))), snd (cm_erase old (cm_insert t m))))"
  using cm_repr_find[OF repr, of old] old
  by (simp add: cm_move_def cm_erase_def cm_insert_def smap_insert_def Let_def cm_count_def
      split: option.split)

lemma cm_repr_move:
  assumes repr: "cm_repr m M" and old: "old \<in># M"
  shows "cm_repr (snd (cm_move old t m)) (add_mset t (M - {#old#})) \<and>
    fst (fst (cm_move old t m)) = t \<and>
    snd (fst (cm_move old t m)) = (Min_mset M < Min_mset (add_mset t (M - {#old#})))"
proof (cases "t = old")
  case True
  with assms show ?thesis by (simp add: cm_move_eq)
next
  case False
  let ?M1 = "add_mset t M" and ?M2 = "add_mset t (M - {#old#})"
  have M2: "?M1 - {#old#} = ?M2" using False by simp
  note er = cm_repr_erase[OF cm_repr_insert[OF repr, of t], of old]
  have "Min_mset M < Min_mset ?M2 \<longleftrightarrow> Min_mset ?M1 < Min_mset ?M2"
  proof -
    have "Min_mset ?M2 \<le> t" by simp
    moreover have "M \<noteq> {#}" using old by auto
    ultimately show ?thesis by (auto simp: min_less_iff_disj)
  qed
  also have "\<dots> \<longleftrightarrow> old = Min_mset ?M1 \<and> count ?M1 old = 1"
    using Min_remove_less_iff[of old ?M1 ?M2] old M2 by simp
  finally show ?thesis
    using er old False M2 by (simp add: cm_move_eq[OF repr old])
qed

subsection \<open>The state\<close>

text \<open>The bits of \<open>LowerBoundTimeStampCommitType\<close>; \<open>CommitNone\<close> is the value 0 that masking gives.\<close>

datatype LowerBoundTimeStampCommitType =
  CommitNone | TimeAdvanceCommit | NextMessageCommit | TimeAdvanceAndNextMessageCommit

fun has_TimeAdvanceCommit :: "LowerBoundTimeStampCommitType \<Rightarrow> bool" where
  "has_TimeAdvanceCommit CommitNone = False"
| "has_TimeAdvanceCommit TimeAdvanceCommit = True"
| "has_TimeAdvanceCommit NextMessageCommit = False"
| "has_TimeAdvanceCommit TimeAdvanceAndNextMessageCommit = True"

fun has_NextMessageCommit :: "LowerBoundTimeStampCommitType \<Rightarrow> bool" where
  "has_NextMessageCommit CommitNone = False"
| "has_NextMessageCommit TimeAdvanceCommit = False"
| "has_NextMessageCommit NextMessageCommit = True"
| "has_NextMessageCommit TimeAdvanceAndNextMessageCommit = True"

record 't commit =
  timeAdvanceCommit :: 't
  nextMessageCommit :: 't
  commitId :: u32
  federateIsWaitingForCommitId :: u32
  federateIsLocked :: bool

definition isInNextMessageMode :: "'t commit \<Rightarrow> bool" where
  "isInNextMessageMode c = (timeAdvanceCommit c \<noteq> nextMessageCommit c)"

record 't lower_bound_map =
  timeAdvanceCounts :: "'t count_map"
  nextMessageCounts :: "'t count_map"
  federateCommits :: "(FederateHandle \<times> 't commit) list"

definition empty_lower_bounds :: "'t lower_bound_map" where
  "empty_lower_bounds = \<lparr>timeAdvanceCounts = [], nextMessageCounts = [], federateCommits = []\<rparr>"

subsection \<open>The operations\<close>

text \<open>
  \<open>insert\<close> counts the two times and then inserts the federate; \<open>std::map::insert\<close> keeps an
  entry that is already there.
\<close>

definition lb_insert ::
    "FederateHandle \<Rightarrow> 't::linorder \<Rightarrow> 't \<Rightarrow> u32 \<Rightarrow> u32 \<Rightarrow> 't lower_bound_map \<Rightarrow> 't lower_bound_map" where
  [step_defs]: "lb_insert federateHandle logicalTime nextMessageTime cid beforeOwnCommitId m =
     m\<lparr>timeAdvanceCounts := cm_insert logicalTime (timeAdvanceCounts m),
       nextMessageCounts := cm_insert nextMessageTime (nextMessageCounts m),
       federateCommits := smap_insert federateHandle
         \<lparr>timeAdvanceCommit = logicalTime, nextMessageCommit = nextMessageTime, commitId = cid,
          federateIsWaitingForCommitId = beforeOwnCommitId, federateIsLocked = False\<rparr>
         (federateCommits m)\<rparr>"

definition lb_erase ::
    "FederateHandle \<Rightarrow> 't::linorder lower_bound_map \<Rightarrow> bool \<times> 't lower_bound_map" where
  [step_defs]: "lb_erase federateHandle m =
     (case map_of (federateCommits m) federateHandle of
        None \<Rightarrow> (False, m)
      | Some c \<Rightarrow>
          (let (first1, ta) = cm_erase (timeAdvanceCommit c) (timeAdvanceCounts m);
               (first2, nm) = cm_erase (nextMessageCommit c) (nextMessageCounts m)
           in (first2 \<or> first1,
               m\<lparr>timeAdvanceCounts := ta, nextMessageCounts := nm,
                 federateCommits := smap_erase federateHandle (federateCommits m)\<rparr>)))"

text \<open>
  \<open>commit\<close>: the entry of the federate is moved in the maps the commit type names. \<open>None\<close>
  when the federate has no entry (the source dereferences the end iterator).
\<close>

definition lb_commit ::
    "FederateHandle \<Rightarrow> 't::linorder \<Rightarrow> LowerBoundTimeStampCommitType \<Rightarrow> u32 \<Rightarrow> 't lower_bound_map
      \<Rightarrow> ((bool \<times> bool) \<times> 't lower_bound_map) option" where
  [step_defs]: "lb_commit federateHandle logicalTime commitType cid m =
     (case map_of (federateCommits m) federateHandle of
        None \<Rightarrow> None
      | Some c \<Rightarrow>
          (let ((ta_entry, isFirstLogicalTime), ta) =
                 (if has_TimeAdvanceCommit commitType
                  then cm_move (timeAdvanceCommit c) logicalTime (timeAdvanceCounts m)
                  else ((timeAdvanceCommit c, False), timeAdvanceCounts m));
               ((nm_entry, _), nm) =
                 (if has_NextMessageCommit commitType
                  then cm_move (nextMessageCommit c) logicalTime (nextMessageCounts m)
                  else ((nextMessageCommit c, False), nextMessageCounts m));
               c1 = c\<lparr>timeAdvanceCommit := ta_entry, nextMessageCommit := nm_entry\<rparr>;
               nextMessageMode = isInNextMessageMode c1;
               c2 = (if \<not> nextMessageMode then c1\<lparr>federateIsLocked := False\<rparr> else c1);
               changed = (commitId c2 \<noteq> cid);
               c3 = (if changed then c2\<lparr>commitId := cid\<rparr> else c2)
           in Some ((isFirstLogicalTime, changed),
                m\<lparr>timeAdvanceCounts := ta, nextMessageCounts := nm,
                  federateCommits := smap_update federateHandle c3 (federateCommits m)\<rparr>)))"

definition lb_empty :: "'t lower_bound_map \<Rightarrow> bool" where
  "lb_empty m = (timeAdvanceCounts m = [])"

definition lb_canAdvanceTo :: "'t::linorder \<times> int \<Rightarrow> 't lower_bound_map \<Rightarrow> bool" where
  "lb_canAdvanceTo logicalTimePair m =
     (if lb_empty m then True
      else if 0 < snd logicalTimePair
        then fst logicalTimePair < fst (hd (timeAdvanceCounts m))
        else fst logicalTimePair \<le> fst (hd (timeAdvanceCounts m)))"

definition lb_canAdvanceToNextMessage :: "'t::linorder \<times> int \<Rightarrow> 't lower_bound_map \<Rightarrow> bool" where
  "lb_canAdvanceToNextMessage logicalTimePair m =
     (if lb_empty m then True
      else if 0 < snd logicalTimePair
        then fst logicalTimePair < fst (hd (nextMessageCounts m))
        else fst logicalTimePair \<le> fst (hd (nextMessageCounts m)))"

text \<open>\<open>begin()->first\<close>; \<open>None\<close> on an empty map, where the source would dereference the end.\<close>

definition lb_getGALT :: "'t lower_bound_map \<Rightarrow> 't option" where
  "lb_getGALT m = (case timeAdvanceCounts m of [] \<Rightarrow> None | p # _ \<Rightarrow> Some (fst p))"

definition lb_getNextMessageGALT :: "'t lower_bound_map \<Rightarrow> 't option" where
  "lb_getNextMessageGALT m = (case nextMessageCounts m of [] \<Rightarrow> None | p # _ \<Rightarrow> Some (fst p))"

definition lb_getFederateIsInNextMessageMode :: "FederateHandle \<Rightarrow> 't lower_bound_map \<Rightarrow> bool" where
  "lb_getFederateIsInNextMessageMode federateHandle m =
     (case map_of (federateCommits m) federateHandle of
        None \<Rightarrow> False | Some c \<Rightarrow> isInNextMessageMode c)"

definition lb_setFederateWaitCommitId ::
    "FederateHandle \<Rightarrow> u32 \<Rightarrow> 't lower_bound_map \<Rightarrow> 't lower_bound_map" where
  [step_defs]: "lb_setFederateWaitCommitId federateHandle cid m =
     (case map_of (federateCommits m) federateHandle of
        None \<Rightarrow> m
      | Some c \<Rightarrow> m\<lparr>federateCommits :=
          smap_update federateHandle (c\<lparr>federateIsWaitingForCommitId := cid\<rparr>) (federateCommits m)\<rparr>)"

definition lb_setFederateLockedByNextMessage ::
    "FederateHandle \<Rightarrow> bool \<Rightarrow> 't lower_bound_map \<Rightarrow> 't lower_bound_map" where
  [step_defs]: "lb_setFederateLockedByNextMessage federateHandle locked m =
     (case map_of (federateCommits m) federateHandle of
        None \<Rightarrow> m
      | Some c \<Rightarrow> m\<lparr>federateCommits :=
          smap_update federateHandle (c\<lparr>federateIsLocked := locked\<rparr>) (federateCommits m)\<rparr>)"

definition lb_getConstrainedByNextMessage :: "'t::linorder lower_bound_map \<Rightarrow> bool" where
  "lb_getConstrainedByNextMessage m =
     (if lb_empty m then False
      else fst (hd (timeAdvanceCounts m)) < fst (hd (nextMessageCounts m)))"

text \<open>The two scans over the federates, with their \<open>continue\<close> guards and early returns.\<close>

fun locked_scan :: "'t::linorder \<Rightarrow> u32 \<Rightarrow> 't commit list \<Rightarrow> bool" where
  "locked_scan nmGALT cid [] = True"
| "locked_scan nmGALT cid (c # cs) =
     (if nmGALT \<le> timeAdvanceCommit c then locked_scan nmGALT cid cs
      else if \<not> isInNextMessageMode c then locked_scan nmGALT cid cs
      else if federateIsWaitingForCommitId c \<noteq> cid then False
      else locked_scan nmGALT cid cs)"

definition lb_getLockedByNextMessage :: "u32 \<Rightarrow> 't::linorder lower_bound_map \<Rightarrow> bool" where
  "lb_getLockedByNextMessage cid m =
     (if \<not> lb_getConstrainedByNextMessage m then False
      else locked_scan (fst (hd (nextMessageCounts m))) cid (map snd (federateCommits m)))"

fun safe_scan :: "'t::linorder \<Rightarrow> u32 \<Rightarrow> 't commit list \<Rightarrow> bool" where
  "safe_scan nmGALT cid [] = True"
| "safe_scan nmGALT cid (c # cs) =
     (if nmGALT \<le> timeAdvanceCommit c then safe_scan nmGALT cid cs
      else if \<not> isInNextMessageMode c then safe_scan nmGALT cid cs
      else if federateIsWaitingForCommitId c \<noteq> cid then False
      else if \<not> federateIsLocked c then False
      else safe_scan nmGALT cid cs)"

definition lb_getIsSafeToAdvanceToNextMessage :: "u32 \<Rightarrow> 't::linorder lower_bound_map \<Rightarrow> bool" where
  "lb_getIsSafeToAdvanceToNextMessage cid m =
     (if \<not> lb_getConstrainedByNextMessage m then False
      else safe_scan (fst (hd (nextMessageCounts m))) cid (map snd (federateCommits m)))"

definition lb_getNextMessageFederateHandleList ::
    "'t lower_bound_map \<Rightarrow> (FederateHandle \<times> u32) list" where
  "lb_getNextMessageFederateHandleList m =
     map (\<lambda>(h, c). (h, commitId c)) (filter (\<lambda>(h, c). isInNextMessageMode c) (federateCommits m))"

subsection \<open>The invariant: counts and federate entries agree\<close>

definition lb_inv :: "'t::linorder lower_bound_map \<Rightarrow> bool" where
  [inv_defs]: "lb_inv m \<longleftrightarrow> smap_ok (federateCommits m) \<and>
     cm_repr (timeAdvanceCounts m) (image_mset timeAdvanceCommit (smap_values (federateCommits m))) \<and>
     cm_repr (nextMessageCounts m) (image_mset nextMessageCommit (smap_values (federateCommits m)))"

lemma lb_inv_empty [simp]: "lb_inv empty_lower_bounds"
  by (simp add: lb_inv_def empty_lower_bounds_def cm_repr_def smap_values_def)

lemma lb_inv_ok: "lb_inv m \<Longrightarrow> smap_ok (federateCommits m)"
  by (simp add: lb_inv_def)

lemma smap_value_in: "map_of m k = Some v \<Longrightarrow> v \<in># smap_values m"
  using map_of_SomeD[of m k v] by (force simp: smap_values_def)

lemma smap_value_find:
  "smap_ok m \<Longrightarrow> v \<in># smap_values m \<Longrightarrow> \<exists>k. map_of m k = Some v"
  using smap_ok_distinct[of m] by (auto simp: smap_values_def)

lemma lb_inv_insert:
  assumes "lb_inv m" and "map_of (federateCommits m) f = None"
  shows "lb_inv (lb_insert f t nt cid own m)"
  using assms cm_repr_insert
  by (auto simp: lb_inv_def lb_insert_def smap_insert_def smap_values_update)

lemma lb_inv_erase:
  assumes inv: "lb_inv m"
  shows "lb_inv (snd (lb_erase f m))"
proof (cases "map_of (federateCommits m) f")
  case (Some c)
  note in1 = smap_value_in[OF Some]
  have ta: "cm_repr (snd (cm_erase (timeAdvanceCommit c) (timeAdvanceCounts m)))
      (image_mset timeAdvanceCommit (smap_values (federateCommits m)) - {#timeAdvanceCommit c#})"
    and nm: "cm_repr (snd (cm_erase (nextMessageCommit c) (nextMessageCounts m)))
      (image_mset nextMessageCommit (smap_values (federateCommits m)) - {#nextMessageCommit c#})"
    using inv in1 by (auto simp: lb_inv_def intro!: conjunct1[OF cm_repr_erase])
  with inv in1 Some show ?thesis
    by (simp add: lb_inv_def lb_erase_def smap_values_erase image_mset_Diff case_prod_beta)
qed (simp add: lb_erase_def inv)

text \<open>The entry after a commit, written without the intermediate states.\<close>

definition committed :: "'t \<Rightarrow> LowerBoundTimeStampCommitType \<Rightarrow> u32 \<Rightarrow> 't commit \<Rightarrow> 't commit" where
  "committed t ct cid c =
     (let ta = (if has_TimeAdvanceCommit ct then t else timeAdvanceCommit c);
          nm = (if has_NextMessageCommit ct then t else nextMessageCommit c)
      in c\<lparr>timeAdvanceCommit := ta, nextMessageCommit := nm, commitId := cid,
           federateIsLocked := (ta \<noteq> nm \<and> federateIsLocked c)\<rparr>)"

lemma lb_commit_eq:
  fixes m :: "'t::linorder lower_bound_map" and t ct f c cid
  assumes "map_of (federateCommits m) f = Some c"
  defines "A \<equiv> (if has_TimeAdvanceCommit ct then cm_move (timeAdvanceCommit c) t (timeAdvanceCounts m)
      else ((timeAdvanceCommit c, False), timeAdvanceCounts m))"
    and "B \<equiv> (if has_NextMessageCommit ct then cm_move (nextMessageCommit c) t (nextMessageCounts m)
      else ((nextMessageCommit c, False), nextMessageCounts m))"
  shows "lb_commit f t ct cid m = Some ((snd (fst A), commitId c \<noteq> cid),
    m\<lparr>timeAdvanceCounts := snd A, nextMessageCounts := snd B,
      federateCommits := smap_update f (c\<lparr>timeAdvanceCommit := fst (fst A),
        nextMessageCommit := fst (fst B), commitId := cid,
        federateIsLocked := (fst (fst A) \<noteq> fst (fst B) \<and> federateIsLocked c)\<rparr>)
        (federateCommits m)\<rparr>)"
proof -
  obtain a1 a2 a3 b1 b2 b3 where AB: "A = ((a1, a2), a3)" "B = ((b1, b2), b3)"
    by (cases A; cases "fst A"; cases B; cases "fst B") auto
  show ?thesis
    unfolding lb_commit_def assms(1) option.case A_def[symmetric] B_def[symmetric] AB
    by (cases c) (auto simp: Let_def isInNextMessageMode_def)
qed

lemma lb_commit_None: "lb_commit f t ct cid m = None \<longleftrightarrow> map_of (federateCommits m) f = None"
proof (cases "map_of (federateCommits m) f")
  case None
  then show ?thesis by (simp add: lb_commit_def)
qed (simp add: lb_commit_eq)

lemma lb_commit_Some:
  assumes inv: "lb_inv m" and f: "map_of (federateCommits m) f = Some c"
  shows "\<exists>m'. lb_commit f t ct cid m = Some
      ((has_TimeAdvanceCommit ct \<and>
          Min_mset (image_mset timeAdvanceCommit (smap_values (federateCommits m)))
            < Min_mset (image_mset timeAdvanceCommit (smap_values (federateCommits m'))),
        commitId c \<noteq> cid), m') \<and>
    lb_inv m' \<and> federateCommits m' = smap_update f (committed t ct cid c) (federateCommits m)"
proof -
  let ?TA = "image_mset timeAdvanceCommit (smap_values (federateCommits m))"
  let ?NM = "image_mset nextMessageCommit (smap_values (federateCommits m))"
  let ?c' = "committed t ct cid c"
  have reprs: "cm_repr (timeAdvanceCounts m) ?TA" "cm_repr (nextMessageCounts m) ?NM"
    and ok: "smap_ok (federateCommits m)" using inv by (simp_all add: lb_inv_def)
  have mem: "timeAdvanceCommit c \<in># ?TA" "nextMessageCommit c \<in># ?NM"
    using smap_value_in[OF f] by auto
  note ta = cm_repr_move[OF reprs(1) mem(1), of t] and nm = cm_repr_move[OF reprs(2) mem(2), of t]
  let ?m' = "m\<lparr>timeAdvanceCounts := (if has_TimeAdvanceCommit ct
        then snd (cm_move (timeAdvanceCommit c) t (timeAdvanceCounts m)) else timeAdvanceCounts m),
      nextMessageCounts := (if has_NextMessageCommit ct
        then snd (cm_move (nextMessageCommit c) t (nextMessageCounts m)) else nextMessageCounts m),
      federateCommits := smap_update f ?c' (federateCommits m)\<rparr>"
  have vals: "smap_values (federateCommits ?m') =
      add_mset ?c' (smap_values (federateCommits m) - {#c#})"
    using smap_values_update[OF ok, of f ?c'] f by simp
  have diff: "image_mset g (smap_values (federateCommits m) - {#c#}) =
      image_mset g (smap_values (federateCommits m)) - {#g c#}" for g :: "'a commit \<Rightarrow> 'a"
    using smap_value_in[OF f] by (simp add: image_mset_Diff)
  have fields: "timeAdvanceCommit ?c' = (if has_TimeAdvanceCommit ct then t else timeAdvanceCommit c)"
    "nextMessageCommit ?c' = (if has_NextMessageCommit ct then t else nextMessageCommit c)"
    by (simp_all add: committed_def Let_def)
  have inv': "lb_inv ?m'"
    using ta nm reprs ok mem unfolding lb_inv_def vals by (simp add: fields diff)
  have "lb_commit f t ct cid m = Some ((has_TimeAdvanceCommit ct \<and>
      snd (fst (cm_move (timeAdvanceCommit c) t (timeAdvanceCounts m))), commitId c \<noteq> cid), ?m')"
    unfolding lb_commit_eq[OF f] using ta nm by (auto simp: committed_def Let_def)
  moreover have "has_TimeAdvanceCommit ct \<Longrightarrow>
      snd (fst (cm_move (timeAdvanceCommit c) t (timeAdvanceCounts m))) \<longleftrightarrow>
      Min_mset ?TA < Min_mset (image_mset timeAdvanceCommit (smap_values (federateCommits ?m')))"
    using ta unfolding vals by (simp add: fields diff)
  ultimately show ?thesis using inv' by (intro exI[of _ ?m']) auto
qed

lemma lb_inv_sets:
  assumes "lb_inv m"
  shows "lb_inv (lb_setFederateWaitCommitId f cid m)"
    and "lb_inv (lb_setFederateLockedByNextMessage f b m)"
proof -
  have "image_mset g (add_mset c' (smap_values (federateCommits m) - {#c#})) =
      image_mset g (smap_values (federateCommits m))"
    if "map_of (federateCommits m) f = Some c" "g c' = g c" for g :: "'a commit \<Rightarrow> 'a" and c c'
    using smap_value_in[OF that(1)] that(2) by (simp add: image_mset_Diff)
  with assms show "lb_inv (lb_setFederateWaitCommitId f cid m)"
    "lb_inv (lb_setFederateLockedByNextMessage f b m)"
    by (auto simp: lb_inv_def step_defs smap_values_update split: option.split)
qed

subsection \<open>What the queries mean\<close>

text \<open>The time stamp guarantee of one federate.\<close>

definition lb_bound :: "'t lower_bound_map \<Rightarrow> FederateHandle \<Rightarrow> 't option" where
  "lb_bound m f = map_option timeAdvanceCommit (map_of (federateCommits m) f)"

definition lb_next :: "'t lower_bound_map \<Rightarrow> FederateHandle \<Rightarrow> 't option" where
  "lb_next m f = map_option nextMessageCommit (map_of (federateCommits m) f)"

lemma lb_empty_iff: "lb_inv m \<Longrightarrow> lb_empty m \<longleftrightarrow> federateCommits m = []"
  using cm_repr_empty_iff[of "timeAdvanceCounts m"
    "image_mset timeAdvanceCommit (smap_values (federateCommits m))"]
  by (simp add: lb_empty_def lb_inv_def)

lemma lb_nm_empty_iff: "lb_inv m \<Longrightarrow> nextMessageCounts m = [] \<longleftrightarrow> federateCommits m = []"
  using cm_repr_empty_iff[of "nextMessageCounts m"
    "image_mset nextMessageCommit (smap_values (federateCommits m))"]
  by (simp add: lb_inv_def)

lemma all_values_iff:
  "smap_ok m \<Longrightarrow> (\<forall>v \<in># smap_values m. P v) \<longleftrightarrow> (\<forall>k v. map_of m k = Some v \<longrightarrow> P v)"
  using smap_value_find[of m] smap_value_in[of m] by blast

lemma Min_image_le_iff:
  fixes g :: "'a \<Rightarrow> 't::linorder"
  assumes "M \<noteq> {#}"
  shows "t \<le> Min_mset (image_mset g M) \<longleftrightarrow> (\<forall>x \<in># M. t \<le> g x)"
    and "t < Min_mset (image_mset g M) \<longleftrightarrow> (\<forall>x \<in># M. t < g x)"
  using assms by auto

lemma lb_first:
  assumes "lb_inv m" "federateCommits m \<noteq> []"
  shows "fst (hd (timeAdvanceCounts m)) = Min_mset (image_mset timeAdvanceCommit (smap_values (federateCommits m)))"
    and "fst (hd (nextMessageCounts m)) = Min_mset (image_mset nextMessageCommit (smap_values (federateCommits m)))"
  using assms cm_repr_first[of "timeAdvanceCounts m"] cm_repr_first[of "nextMessageCounts m"]
  by (auto simp: lb_inv_def)

lemma lb_canAdvanceTo_iff:
  assumes inv: "lb_inv m"
  shows "lb_canAdvanceTo (t, k) m \<longleftrightarrow>
    (\<forall>f b. lb_bound m f = Some b \<longrightarrow> (if 0 < k then t < b else t \<le> b))"
proof (cases "federateCommits m = []")
  case True
  then show ?thesis
    using lb_empty_iff[OF inv] by (simp add: lb_canAdvanceTo_def lb_bound_def)
next
  case False
  then have ne: "smap_values (federateCommits m) \<noteq> {#}" by simp
  show ?thesis
    using False lb_empty_iff[OF inv]
    by (auto simp: lb_canAdvanceTo_def lb_bound_def lb_first(1)[OF inv False] Min_image_le_iff[OF ne]
        all_values_iff[OF lb_inv_ok[OF inv]] simp del: set_image_mset)
qed

lemma lb_canAdvanceToNextMessage_iff:
  assumes inv: "lb_inv m"
  shows "lb_canAdvanceToNextMessage (t, k) m \<longleftrightarrow>
    (\<forall>f b. lb_next m f = Some b \<longrightarrow> (if 0 < k then t < b else t \<le> b))"
proof (cases "federateCommits m = []")
  case True
  then show ?thesis
    using lb_empty_iff[OF inv] by (simp add: lb_canAdvanceToNextMessage_def lb_next_def)
next
  case False
  then have ne: "smap_values (federateCommits m) \<noteq> {#}" by simp
  show ?thesis
    using False lb_empty_iff[OF inv]
    by (auto simp: lb_canAdvanceToNextMessage_def lb_next_def lb_first(2)[OF inv False] Min_image_le_iff[OF ne]
        all_values_iff[OF lb_inv_ok[OF inv]] simp del: set_image_mset)
qed

lemma lb_getGALT_Some:
  assumes inv: "lb_inv m"
  shows "lb_getGALT m = Some g \<longleftrightarrow>
    (\<exists>f. lb_bound m f = Some g) \<and> (\<forall>f b. lb_bound m f = Some b \<longrightarrow> g \<le> b)"
proof -
  have g: "lb_getGALT m = (if timeAdvanceCounts m = [] then None
      else Some (fst (hd (timeAdvanceCounts m))))"
    by (simp add: lb_getGALT_def split: list.split)
  have dom: "(\<exists>f. lb_bound m f = Some t) \<longleftrightarrow> map_of (timeAdvanceCounts m) t \<noteq> None" for t
  proof -
    have "map_of (timeAdvanceCounts m) t \<noteq> None \<longleftrightarrow>
        (\<exists>c \<in># smap_values (federateCommits m). timeAdvanceCommit c = t)"
      using inv cm_repr_find[of "timeAdvanceCounts m"
        "image_mset timeAdvanceCommit (smap_values (federateCommits m))" t]
      by (auto simp: lb_inv_def)
    also have "\<dots> \<longleftrightarrow> (\<exists>f. lb_bound m f = Some t)"
      using smap_value_find[OF lb_inv_ok[OF inv]] smap_value_in[of "federateCommits m"]
      by (auto simp: lb_bound_def) blast+
    finally show ?thesis by blast
  qed
  have ok: "smap_ok (timeAdvanceCounts m)" using inv cm_repr_ok by (auto simp: lb_inv_def)
  show ?thesis
  proof (cases "timeAdvanceCounts m = []")
    case True
    then show ?thesis using dom g by auto
  next
    case False
    then obtain p ps where "timeAdvanceCounts m = p # ps" by (cases "timeAdvanceCounts m") auto
    then have tv: "map_of (timeAdvanceCounts m) (fst p) = Some (snd p)" by (cases p) simp
    define h where "h = fst (hd (timeAdvanceCounts m))"
    have h: "\<exists>f. lb_bound m f = Some h" "\<And>f b. lb_bound m f = Some b \<Longrightarrow> h \<le> b"
      using sm.first_key_in[OF ok tv] sm.first_key_le[OF ok] dom unfolding h_def by blast+
    have "lb_getGALT m = Some h" using False g by (simp add: h_def)
    then show ?thesis using h by (auto intro: antisym)
  qed
qed

lemma lb_getGALT_None: "lb_inv m \<Longrightarrow> lb_getGALT m = None \<longleftrightarrow> lb_bound m = Map.empty"
proof -
  assume inv: "lb_inv m"
  have "lb_getGALT m = None \<longleftrightarrow> federateCommits m = []"
    using lb_empty_iff[OF inv]
    by (cases "timeAdvanceCounts m") (simp_all add: lb_getGALT_def lb_empty_def)
  also have "\<dots> \<longleftrightarrow> lb_bound m = Map.empty"
    by (cases "federateCommits m") (auto simp: lb_bound_def fun_eq_iff)
  finally show ?thesis .
qed

lemma lb_bound_insert:
  "map_of (federateCommits m) f = None \<Longrightarrow> lb_bound (lb_insert f t nt cid own m) = (lb_bound m)(f \<mapsto> t)"
  by (auto simp: lb_bound_def lb_insert_def fun_eq_iff)

lemma lb_bound_erase: "lb_inv m \<Longrightarrow> lb_bound (snd (lb_erase f m)) = (lb_bound m)(f := None)"
  by (auto simp: lb_bound_def lb_erase_def fun_eq_iff case_prod_beta lb_inv_ok split: option.split)

lemma lb_bound_sets [simp]:
  "lb_bound (lb_setFederateWaitCommitId f cid m) = lb_bound m"
  "lb_bound (lb_setFederateLockedByNextMessage f b m) = lb_bound m"
  by (auto simp: lb_bound_def step_defs fun_eq_iff split: option.split)

lemma lb_bound_None: "lb_bound m f = None \<longleftrightarrow> map_of (federateCommits m) f = None"
  by (simp add: lb_bound_def)

lemma lb_bound_commit:
  assumes "lb_inv m" "lb_commit f t ct cid m = Some (r, m')"
  shows "lb_inv m' \<and> lb_bound m' = (if has_TimeAdvanceCommit ct then (lb_bound m)(f \<mapsto> t) else lb_bound m)"
proof -
  obtain c where c: "map_of (federateCommits m) f = Some c"
    using lb_commit_None[of f t ct cid m] assms(2) by (cases "map_of (federateCommits m) f") auto
  from lb_commit_Some[OF assms(1) c, of t ct cid] assms(2) c show ?thesis
    by (auto simp: lb_bound_def fun_eq_iff committed_def Let_def)
qed

subsection \<open>The interface of the time management\<close>

text \<open>
  The time management of a federate uses the map through its bounds: who has promised what, and
  whether a time may be advanced to.
\<close>

locale lower_bounds =
  fixes inv :: "'m \<Rightarrow> bool" and bound :: "'m \<Rightarrow> FederateHandle \<Rightarrow> 't::linorder option"
    and can :: "'t \<times> int \<Rightarrow> 'm \<Rightarrow> bool" and galt :: "'m \<Rightarrow> 't option"
  assumes can_iff: "inv m \<Longrightarrow> can (t, k) m \<longleftrightarrow>
      (\<forall>f b. bound m f = Some b \<longrightarrow> (if 0 < k then t < b else t \<le> b))"
    and galt_Some: "inv m \<Longrightarrow> galt m = Some g \<longleftrightarrow>
      (\<exists>f. bound m f = Some g) \<and> (\<forall>f b. bound m f = Some b \<longrightarrow> g \<le> b)"
    and galt_None: "inv m \<Longrightarrow> galt m = None \<longleftrightarrow> bound m = Map.empty"
begin

lemma can_antimono: "inv m \<Longrightarrow> can (t, k) m \<Longrightarrow> t' \<le> t \<Longrightarrow> can (t', k) m"
  by (auto simp: can_iff split: if_splits intro: order_trans le_less_trans)

lemma can_galt: "inv m \<Longrightarrow> galt m = Some g \<Longrightarrow> can (t, 0) m \<longleftrightarrow> t \<le> g"
  by (auto simp: can_iff galt_Some intro: order_trans)

lemma can_strict_galt: "inv m \<Longrightarrow> galt m = Some g \<Longrightarrow> 0 < k \<Longrightarrow> can (t, k) m \<longleftrightarrow> t < g"
  by (auto simp: can_iff galt_Some intro: less_le_trans)

lemma cannot_has_galt: "inv m \<Longrightarrow> \<not> can p m \<Longrightarrow> \<exists>g. galt m = Some g"
  using galt_None[of m] can_iff[of m "fst p" "snd p"] by (cases "galt m") auto

text \<open>Bounds that only grow keep every advance possible.\<close>

lemma can_mono:
  assumes "inv m" "inv m'" "can p m"
    and "\<And>f b'. bound m' f = Some b' \<Longrightarrow> \<exists>b. bound m f = Some b \<and> b \<le> b'"
  shows "can p m'"
proof -
  obtain t k where p: "p = (t, k)" by (cases p)
  have "if 0 < k then t < b' else t \<le> b'" if b': "bound m' f = Some b'" for f b'
  proof -
    obtain b where "bound m f = Some b" "b \<le> b'" using assms(4)[OF b'] by blast
    with assms(3) show ?thesis unfolding p can_iff[OF assms(1)]
      by (cases "0 < k") (fastforce intro: order_trans less_le_trans)+
  qed
  then show ?thesis unfolding p can_iff[OF assms(2)] by blast
qed

end

interpretation lb: lower_bounds lb_inv lb_bound lb_canAdvanceTo lb_getGALT
  by unfold_locales (simp_all add: lb_canAdvanceTo_iff lb_getGALT_Some lb_getGALT_None)

subsection \<open>Properties\<close>

text \<open>The states the operations reach; a federate is inserted once.\<close>

inductive lb_reachable :: "'t::linorder lower_bound_map \<Rightarrow> bool" where
  lb_start: "lb_reachable empty_lower_bounds"
| lb_ins: "lb_reachable m \<Longrightarrow> map_of (federateCommits m) f = None \<Longrightarrow>
     lb_reachable (lb_insert f t nt cid own m)"
| lb_ers: "lb_reachable m \<Longrightarrow> lb_reachable (snd (lb_erase f m))"
| lb_com: "lb_reachable m \<Longrightarrow> lb_commit f t ct cid m = Some (r, m') \<Longrightarrow> lb_reachable m'"
| lb_wait: "lb_reachable m \<Longrightarrow> lb_reachable (lb_setFederateWaitCommitId f cid m)"
| lb_lock: "lb_reachable m \<Longrightarrow> lb_reachable (lb_setFederateLockedByNextMessage f b m)"

lemma lb_reachable_inv: "lb_reachable m \<Longrightarrow> lb_inv m"
proof (induction rule: lb_reachable.induct)
  case (lb_com m f t ct cid r m')
  then show ?case using lb_bound_commit by blast
qed (auto intro: lb_inv_insert lb_inv_erase lb_inv_sets)

definition example_bounds :: "int lower_bound_map" where
  "example_bounds = lb_insert 2 7 7 0 0 (lb_insert 1 5 5 0 0 empty_lower_bounds)"

lemma example_bounds_reachable: "lb_reachable example_bounds"
  unfolding example_bounds_def
  by (intro lb_reachable.intros) (simp_all add: lb_insert_def empty_lower_bounds_def smap_insert_def)

lemma example_bounds_bound: "lb_bound example_bounds = [1 \<mapsto> 5, 2 \<mapsto> 7]"
  unfolding example_bounds_def
  by (simp add: lb_bound_insert lb_insert_def empty_lower_bounds_def smap_insert_def lb_bound_def
      fun_eq_iff)

text \<open>
  C10: In every reachable state \<open>canAdvanceTo (t, k)\<close> holds exactly when each time regulating
  federate has committed to a time not before \<open>t\<close> (strictly after \<open>t\<close> for a positive \<open>k\<close>),
  and \<open>getGALT\<close> is the least committed time, undefined only when no federate regulates.
\<close>

theorem canAdvanceTo_means_all_committed:
  assumes "lb_reachable m"
  shows "(lb_canAdvanceTo (t, k) m \<longleftrightarrow>
      (\<forall>f b. lb_bound m f = Some b \<longrightarrow> (if 0 < k then t < b else t \<le> b))) \<and>
    (lb_getGALT m = Some g \<longleftrightarrow>
      (\<exists>f. lb_bound m f = Some g) \<and> (\<forall>f b. lb_bound m f = Some b \<longrightarrow> g \<le> b)) \<and>
    (lb_getGALT m = None \<longleftrightarrow> lb_bound m = Map.empty)"
  using lb.can_iff lb.galt_Some lb.galt_None lb_reachable_inv[OF assms] by blast

theorem canAdvanceTo_means_all_committed_witness:
  "lb_reachable example_bounds \<and> lb_canAdvanceTo (5, 0) example_bounds \<and>
   \<not> lb_canAdvanceTo (5, 1) example_bounds \<and> lb_getGALT example_bounds = Some 5"
proof -
  note all = canAdvanceTo_means_all_committed[OF example_bounds_reachable]
  show ?thesis
    using all[of 5 0 5] all[of 5 1 5] example_bounds_reachable
    by (auto simp: example_bounds_bound)
qed

text \<open>
  C28: A commit succeeds exactly for a registered federate. It replaces that federate's bound, when it
  carries a time advance commit, and no other bound; the first result tells whether the greatest available
  logical time has strictly grown, the second whether the commit id is new. What the code only asserts
  about a commit is not assumed.
\<close>

theorem commit_updates_bound_and_reports_GALT:
  assumes "lb_reachable m"
  shows "(lb_commit f t ct cid m = None \<longleftrightarrow> map_of (federateCommits m) f = None) \<and>
    (\<forall>c. map_of (federateCommits m) f = Some c \<longrightarrow>
      (\<exists>m' isFirst. lb_commit f t ct cid m = Some ((isFirst, commitId c \<noteq> cid), m') \<and>
        lb_bound m' = (if has_TimeAdvanceCommit ct then (lb_bound m)(f \<mapsto> t) else lb_bound m) \<and>
        (isFirst \<longleftrightarrow> has_TimeAdvanceCommit ct \<and>
           (\<exists>g g'. lb_getGALT m = Some g \<and> lb_getGALT m' = Some g' \<and> g < g'))))"
proof (intro conjI allI impI)
  show "lb_commit f t ct cid m = None \<longleftrightarrow> map_of (federateCommits m) f = None" by (rule lb_commit_None)
next
  fix c
  assume c: "map_of (federateCommits m) f = Some c"
  note inv = lb_reachable_inv[OF assms]
  from lb_commit_Some[OF inv c, of t ct cid] obtain m' where
    com: "lb_commit f t ct cid m = Some ((has_TimeAdvanceCommit ct \<and>
          Min_mset (image_mset timeAdvanceCommit (smap_values (federateCommits m)))
            < Min_mset (image_mset timeAdvanceCommit (smap_values (federateCommits m'))),
        commitId c \<noteq> cid), m')"
    and inv': "lb_inv m'"
    and upd: "federateCommits m' = smap_update f (committed t ct cid c) (federateCommits m)"
    by blast
  have galt: "lb_getGALT x = Some (Min_mset (image_mset timeAdvanceCommit (smap_values (federateCommits x))))"
    if "lb_inv x" "federateCommits x \<noteq> []" for x :: "'a lower_bound_map"
    using lb_first(1)[OF that] lb_empty_iff[OF that(1)] that(2)
    by (cases "timeAdvanceCounts x") (auto simp: lb_getGALT_def lb_empty_def)
  have "federateCommits m \<noteq> []" "federateCommits m' \<noteq> []" using c upd by auto
  with galt[OF inv] galt[OF inv'] lb_bound_commit[OF inv com] com
  show "\<exists>m' isFirst. lb_commit f t ct cid m = Some ((isFirst, commitId c \<noteq> cid), m') \<and>
      lb_bound m' = (if has_TimeAdvanceCommit ct then (lb_bound m)(f \<mapsto> t) else lb_bound m) \<and>
      (isFirst \<longleftrightarrow> has_TimeAdvanceCommit ct \<and>
         (\<exists>g g'. lb_getGALT m = Some g \<and> lb_getGALT m' = Some g' \<and> g < g'))" by auto
qed

theorem commit_updates_bound_and_reports_GALT_witness:
  "\<exists>m' isFirst changed. lb_commit 1 9 TimeAdvanceAndNextMessageCommit 0 example_bounds
      = Some ((isFirst, changed), m') \<and> lb_bound m' = [1 \<mapsto> 9, 2 \<mapsto> 7]"
proof -
  have "lb_bound example_bounds 1 = Some 5" by (simp add: example_bounds_bound)
  then obtain c where c: "map_of (federateCommits example_bounds) 1 = Some c"
    by (auto simp: lb_bound_def)
  have "(lb_bound example_bounds)(1 \<mapsto> 9) = [1 \<mapsto> 9, 2 \<mapsto> 7]"
    by (auto simp: example_bounds_bound fun_eq_iff)
  with commit_updates_bound_and_reports_GALT[OF example_bounds_reachable,
      of 1 9 TimeAdvanceAndNextMessageCommit 0] c
  show ?thesis by auto
qed

text \<open>
  C29: No advance that is possible is ever taken back by a commit that does not go back in time,
  nor by a federate that leaves.
\<close>

theorem advance_never_revoked:
  assumes "lb_reachable m" and can: "lb_canAdvanceTo p m"
    and com: "lb_commit f t ct cid m = Some (r, m')" and b: "lb_bound m f = Some b" "b \<le> t"
  shows "lb_canAdvanceTo p m' \<and> lb_canAdvanceTo p (snd (lb_erase h m))"
proof
  note inv = lb_reachable_inv[OF assms(1)]
  show "lb_canAdvanceTo p (snd (lb_erase h m))"
    using lb.can_mono[OF inv lb_inv_erase[OF inv] can] lb_bound_erase[OF inv]
    by (fastforce split: if_splits)
  from lb_bound_commit[OF inv com] have inv': "lb_inv m'"
    and bound: "lb_bound m' = (if has_TimeAdvanceCommit ct then (lb_bound m)(f \<mapsto> t) else lb_bound m)"
    by auto
  show "lb_canAdvanceTo p m'"
    by (rule lb.can_mono[OF inv inv' can]) (use b bound in \<open>auto split: if_splits\<close>)
qed

theorem advance_never_revoked_witness:
  "\<exists>r m'. lb_commit 1 9 TimeAdvanceAndNextMessageCommit 0 example_bounds = Some (r, m') \<and>
     lb_canAdvanceTo (5, 0) m' \<and> lb_canAdvanceTo (5, 0) (snd (lb_erase 2 example_bounds))"
proof -
  have b: "lb_bound example_bounds 1 = Some 5" by (simp add: example_bounds_bound)
  then obtain r m' where com: "lb_commit 1 9 TimeAdvanceAndNextMessageCommit 0 example_bounds = Some (r, m')"
    using lb_commit_None[of 1 9 TimeAdvanceAndNextMessageCommit 0 example_bounds]
    by (cases "lb_commit 1 9 TimeAdvanceAndNextMessageCommit 0 example_bounds") (auto simp: lb_bound_def)
  have can: "lb_canAdvanceTo (5, 0) example_bounds"
    using lb.can_iff[OF lb_reachable_inv[OF example_bounds_reachable]] by (auto simp: example_bounds_bound)
  show ?thesis
    using advance_never_revoked[OF example_bounds_reachable can com b] com by auto
qed

lemma safe_scan_iff:
  "safe_scan g cid cs \<longleftrightarrow> (\<forall>c \<in> set cs. timeAdvanceCommit c < g \<longrightarrow> isInNextMessageMode c \<longrightarrow>
     federateIsWaitingForCommitId c = cid \<and> federateIsLocked c)"
proof (induction cs)
  case (Cons c cs)
  show ?case unfolding safe_scan.simps list.set ball_simps Cons.IH by (simp add: not_less)
qed simp

lemma locked_scan_iff:
  "locked_scan g cid cs \<longleftrightarrow> (\<forall>c \<in> set cs. timeAdvanceCommit c < g \<longrightarrow> isInNextMessageMode c \<longrightarrow>
     federateIsWaitingForCommitId c = cid)"
proof (induction cs)
  case (Cons c cs)
  show ?case unfolding locked_scan.simps list.set ball_simps Cons.IH by (simp add: not_less)
qed simp

text \<open>Being safe to advance to the next message implies being locked by next messages.\<close>

lemma safe_implies_locked:
  "lb_getIsSafeToAdvanceToNextMessage cid m \<Longrightarrow> lb_getLockedByNextMessage cid m"
  unfolding lb_getIsSafeToAdvanceToNextMessage_def lb_getLockedByNextMessage_def
    safe_scan_iff locked_scan_iff by meson

lemma set_federateCommits:
  "lb_inv m \<Longrightarrow> c \<in> set (map snd (federateCommits m)) \<longleftrightarrow>
     (\<exists>f. map_of (federateCommits m) f = Some c)"
  using smap_value_find[OF lb_inv_ok, of m c] smap_value_in[of "federateCommits m" _ c]
  by (auto simp: smap_values_def)



end
