(* ===== verification/Time_Modes.thy ===== *)
theory Time_Modes
  imports Base "HOL-Library.Product_Lexorder"
begin

text \<open>
  The modes of \<open>src/OpenRTI/InternalTimeManagement.{h,cpp}\<close> and the logical time factory, the
  template parameter \<open>L\<close> of \<open>src/OpenRTI/TemplateTimeManagement.h\<close>, with the factory for
  64 bit integer times of \<open>src/rti1516ev/RTI1516Einteger64TimeFactory.h\<close>.
\<close>

subsection \<open>Modes\<close>

datatype TimeRegulationMode =
  TimeRegulationDisabled | TimeRegulationEnablePending | TimeRegulationEnabled

datatype TimeConstrainedMode =
  TimeConstrainedDisabled | TimeConstrainedEnablePending | TimeConstrainedEnabled

datatype TimeAdvanceMode =
  TimeAdvanceGranted | TimeAdvanceRequest | TimeAdvanceRequestAvailable
| NextMessageRequest | NextMessageRequestAvailable | FlushQueueRequest

datatype OrderType = RECEIVE | TIMESTAMP

record time_modes =
  timeRegulationMode :: TimeRegulationMode
  timeConstrainedMode :: TimeConstrainedMode
  timeAdvanceMode :: TimeAdvanceMode
  asynchronousDeliveryEnabled :: bool
  allowPendingTimeInNextMessageRequest :: bool
  messageRetractionSerial :: u32

definition initial_modes :: time_modes where
  "initial_modes = \<lparr>timeRegulationMode = TimeRegulationDisabled,
     timeConstrainedMode = TimeConstrainedDisabled, timeAdvanceMode = TimeAdvanceGranted,
     asynchronousDeliveryEnabled = False, allowPendingTimeInNextMessageRequest = False,
     messageRetractionSerial = 0\<rparr>"

text \<open>The queries are used on every state that extends the modes.\<close>

definition getTimeRegulationDisabled :: "'a time_modes_scheme \<Rightarrow> bool" where
  [simp]: "getTimeRegulationDisabled s \<longleftrightarrow> timeRegulationMode s = TimeRegulationDisabled"

definition getTimeRegulationEnabled :: "'a time_modes_scheme \<Rightarrow> bool" where
  [simp]: "getTimeRegulationEnabled s \<longleftrightarrow> timeRegulationMode s = TimeRegulationEnabled"

definition getTimeRegulationEnablePending :: "'a time_modes_scheme \<Rightarrow> bool" where
  [simp]: "getTimeRegulationEnablePending s \<longleftrightarrow> timeRegulationMode s = TimeRegulationEnablePending"

definition getTimeConstrainedDisabled :: "'a time_modes_scheme \<Rightarrow> bool" where
  [simp]: "getTimeConstrainedDisabled s \<longleftrightarrow> timeConstrainedMode s = TimeConstrainedDisabled"

definition getTimeConstrainedEnabled :: "'a time_modes_scheme \<Rightarrow> bool" where
  [simp]: "getTimeConstrainedEnabled s \<longleftrightarrow> timeConstrainedMode s = TimeConstrainedEnabled"

definition getTimeConstrainedEnablePending :: "'a time_modes_scheme \<Rightarrow> bool" where
  [simp]: "getTimeConstrainedEnablePending s \<longleftrightarrow> timeConstrainedMode s = TimeConstrainedEnablePending"

definition getTimeConstrainedEnabledOrPending :: "'a time_modes_scheme \<Rightarrow> bool" where
  [simp]: "getTimeConstrainedEnabledOrPending s \<longleftrightarrow> \<not> getTimeConstrainedDisabled s"

definition getTimeAdvancePending :: "'a time_modes_scheme \<Rightarrow> bool" where
  [simp]: "getTimeAdvancePending s \<longleftrightarrow> timeAdvanceMode s \<noteq> TimeAdvanceGranted"

definition getFlushQueueMode :: "'a time_modes_scheme \<Rightarrow> bool" where
  "getFlushQueueMode s \<longleftrightarrow> timeAdvanceMode s = FlushQueueRequest"

definition getIsAnyAdvanceRequest :: "'a time_modes_scheme \<Rightarrow> bool" where
  "getIsAnyAdvanceRequest s \<longleftrightarrow>
     timeAdvanceMode s = TimeAdvanceRequest \<or> timeAdvanceMode s = TimeAdvanceRequestAvailable"

definition getIsAnyAvailableMode :: "'a time_modes_scheme \<Rightarrow> bool" where
  "getIsAnyAvailableMode s \<longleftrightarrow>
     timeAdvanceMode s = TimeAdvanceRequestAvailable \<or> timeAdvanceMode s = NextMessageRequestAvailable
     \<or> timeAdvanceMode s = FlushQueueRequest"

definition getIsAnyNextMessageMode :: "'a time_modes_scheme \<Rightarrow> bool" where
  "getIsAnyNextMessageMode s \<longleftrightarrow>
     timeAdvanceMode s = NextMessageRequest \<or> timeAdvanceMode s = NextMessageRequestAvailable"

lemmas mode_defs = getFlushQueueMode_def getIsAnyAdvanceRequest_def getIsAnyAvailableMode_def
  getIsAnyNextMessageMode_def

definition getTimeStampOrderDelivery :: "OrderType \<Rightarrow> 'a time_modes_scheme \<Rightarrow> OrderType" where
  "getTimeStampOrderDelivery orderType s =
     (if \<not> getTimeConstrainedEnabled s then RECEIVE else orderType)"

definition getNextMessageRetractionSerial :: "'a time_modes_scheme \<Rightarrow> u32 \<times> 'a time_modes_scheme" where
  "getNextMessageRetractionSerial s =
     (messageRetractionSerial s, s\<lparr>messageRetractionSerial := messageRetractionSerial s + 1\<rparr>)"

subsection \<open>Logical time factories\<close>

text \<open>
  What \<open>TemplateTimeManagement\<close> uses of its factory and of the time types: \<open>nextAfter\<close>,
  \<open>time + interval\<close>, \<open>time - interval\<close>, \<open>time - time\<close>. A native time and its decoded form are
  the same value here, and so are a time and its encoding in a message.
\<close>

record ('t, 'i) time_factory =
  initialLogicalTime :: 't
  zeroLogicalTimeInterval :: 'i
  nextAfter :: "'t \<Rightarrow> 't"
  addInterval :: "'t \<Rightarrow> 'i \<Rightarrow> 't"
  subInterval :: "'t \<Rightarrow> 'i \<Rightarrow> 't"
  diffTime :: "'t \<Rightarrow> 't \<Rightarrow> 'i"
  isZeroTimeInterval :: "'i \<Rightarrow> bool"

text \<open>
  The integer factory. The source computes on \<open>int64_t\<close>, where an overflow is undefined, so the
  integers stand for the runs that do not overflow.
\<close>

definition integer64TimeFactory :: "(int, int) time_factory" where
  "integer64TimeFactory =
     \<lparr>initialLogicalTime = 0, zeroLogicalTimeInterval = 0, nextAfter = (\<lambda>t. t + 1),
      addInterval = (\<lambda>t i. t + i), subInterval = (\<lambda>t i. t - i), diffTime = (\<lambda>t u. t - u),
      isZeroTimeInterval = (\<lambda>i. i = 0)\<rparr>"

text \<open>What the time management expects of a factory.\<close>

locale time_laws =
  fixes fac :: "('t::linorder, 'i::linorder) time_factory"
  assumes nextAfter_le_iff: "nextAfter fac t \<le> u \<longleftrightarrow> t < u"
    and add_mono: "t \<le> u \<Longrightarrow> addInterval fac t i \<le> addInterval fac u i"
    and add_pos: "zeroLogicalTimeInterval fac \<le> i \<Longrightarrow> t \<le> addInterval fac t i"
begin

lemma nextAfter_less [simp]: "t < nextAfter fac t"
  using nextAfter_le_iff[of t "nextAfter fac t"] by simp

lemma less_nextAfter_iff: "u < nextAfter fac t \<longleftrightarrow> u \<le> t"
  using nextAfter_le_iff[of t u] by (simp add: not_le [symmetric])

lemma nextAfter_mono: "t \<le> u \<Longrightarrow> nextAfter fac t \<le> nextAfter fac u"
  by (simp add: nextAfter_le_iff le_less_trans)

end

interpretation int64: time_laws integer64TimeFactory
  by unfold_locales (auto simp: integer64TimeFactory_def)

end
