(* ===== verification/Time_Management.thy ===== *)
theory Time_Management
  imports Lower_Bound_Map Time_Modes
begin

text \<open>
  The time management of one federate, \<open>src/OpenRTI/TemplateTimeManagement.h\<close>, over an arbitrary
  logical time factory \<open>fac\<close>. The ambassador is passed as a record of what the code asks of it;
  the messages it sends and the signals of its notification handle are collected in the state.
  \<open>OpenRTIAssert\<close> does nothing in a release build; the asserted facts are proved in
  \<open>Time_Safety\<close>. The list elements are allocated from a pool, which has no visible effect.
\<close>

type_synonym ObjectInstanceHandle = u32

datatype 't tm_message =
  JoinFederateNotify FederateHandle
| ResignFederateNotify FederateHandle
| EnableTimeRegulationRequest FederateHandle 't u32
| EnableTimeRegulationResponse FederateHandle FederateHandle 't bool
| DisableTimeRegulationRequest FederateHandle
| CommitLowerBoundTimeStamp FederateHandle 't LowerBoundTimeStampCommitType u32
| CommitLowerBoundTimeStampResponse FederateHandle u32 FederateHandle
| LockedByNextMessageRequest FederateHandle bool
| EnableTimeConstrainedNotify FederateHandle
| DisableTimeConstrainedNotify FederateHandle
| TimeStampedUpdate 't OrderType ObjectInstanceHandle vld
| ReceiveOrderUpdate ObjectInstanceHandle vld

text \<open>
  What waits in the queues: the three internal notifications, and the messages for the federate
  with the object instance they belong to and, for time stamped ones, their order type.
\<close>

datatype callback_message =
  TimeConstrainedEnabledMessage
| TimeRegulationEnabledMessage
| TimeAdvanceGrantedMessage
| UserMessage ObjectInstanceHandle "OrderType option" vld

fun getObjectInstanceHandleForMessage :: "callback_message \<Rightarrow> ObjectInstanceHandle" where
  "getObjectInstanceHandleForMessage (UserMessage h _ _) = h"
| "getObjectInstanceHandleForMessage _ = invalid_handle"

record ambassador =
  isConnected :: bool
  timeManagementValid :: bool
  ownHandle :: FederateHandle
  joinedHandles :: "FederateHandle set"

record ('t, 'i) time_management = time_modes +
  logicalTime :: "'t \<times> int"
  pendingLogicalTime :: "'t \<times> int"
  outboundLowerBoundTimeStamp :: "'t \<times> int"
  lastOutboundLowerBoundTimeStamp :: "'t \<times> int"
  committedOutboundLowerBoundTimeStamp :: 't
  committedNextMessageLowerBoundTimeStamp :: 't
  currentLookahead :: 'i
  targetLookahead :: 'i
  federateLowerBoundMap :: "'t lower_bound_map"
  enableFederateHandleSet :: "FederateHandle set"
  enableFederateTimeStampMap :: "(FederateHandle \<times> 't) list"
  timeAdvanceToBeScheduled :: bool
  ownCommitId :: u32
  logicalTimeMessageListMap :: "(('t \<times> int) \<times> callback_message list) list"
  receiveOrderMessages :: "callback_message list"
  notificationHandle :: bool
  signals :: nat
  sent :: "'t tm_message list"

definition initial_time_management :: "('t, 'i) time_factory \<Rightarrow> ('t, 'i) time_management" where
  "initial_time_management fac =
     (let t0 = initialLogicalTime fac; i0 = zeroLogicalTimeInterval fac
      in time_modes.extend initial_modes
        \<lparr>logicalTime = (t0, 0), pendingLogicalTime = (t0, 0),
         outboundLowerBoundTimeStamp = (t0, 0), lastOutboundLowerBoundTimeStamp = (t0, 0),
         committedOutboundLowerBoundTimeStamp = t0, committedNextMessageLowerBoundTimeStamp = t0,
         currentLookahead = i0, targetLookahead = i0,
         federateLowerBoundMap = empty_lower_bounds,
         enableFederateHandleSet = {}, enableFederateTimeStampMap = [],
         timeAdvanceToBeScheduled = False, ownCommitId = - 17,
         logicalTimeMessageListMap = [], receiveOrderMessages = [],
         notificationHandle = False, signals = 0, sent = []\<rparr>)"

subsection \<open>Time pairs and small queries\<close>

definition toLogicalTime :: "('t, 'i) time_factory \<Rightarrow> 't \<times> int \<Rightarrow> 't" where
  "toLogicalTime fac logicalTimePair =
     (if 0 < snd logicalTimePair then nextAfter fac (fst logicalTimePair) else fst logicalTimePair)"

definition getPendingTimeSecondField :: "('t, 'i) time_management \<Rightarrow> int" where
  "getPendingTimeSecondField s =
     (if \<not> getTimeConstrainedEnabled s then 0 else if getIsAnyAvailableMode s then 0 else 1)"

definition getOutboundLowerTimeStampSecondField ::
    "('t, 'i) time_factory \<Rightarrow> 'i \<Rightarrow> ('t, 'i) time_management \<Rightarrow> int" where
  "getOutboundLowerTimeStampSecondField fac lookahead s =
     (if \<not> getTimeRegulationEnabled s then 0
      else if getIsAnyAvailableMode s then 0
      else of_bool (isZeroTimeInterval fac lookahead))"

definition setOutboundLowerTimeStampAndCurrentLookahead ::
    "('t::linorder, 'i::linorder) time_factory \<Rightarrow> 't \<Rightarrow> 't \<times> int \<Rightarrow> ('t, 'i) time_management
      \<Rightarrow> ('t, 'i) time_management" where
  "setOutboundLowerTimeStampAndCurrentLookahead fac t lastOutbound s =
     (let outbound = (addInterval fac t (targetLookahead s),
                      getOutboundLowerTimeStampSecondField fac (targetLookahead s) s)
      in if outbound < lastOutbound
         then s\<lparr>currentLookahead := min (diffTime fac (fst lastOutbound) t) (targetLookahead s),
                outboundLowerBoundTimeStamp := lastOutbound\<rparr>
         else s\<lparr>currentLookahead := targetLookahead s, outboundLowerBoundTimeStamp := outbound\<rparr>)"

text \<open>Logical time in the past, and times a message may no longer be sent with.\<close>

definition isLogicalTimeInThePast :: "'t::linorder \<Rightarrow> ('t, 'i) time_management \<Rightarrow> bool" where
  "isLogicalTimeInThePast t s \<longleftrightarrow> t < fst (logicalTime s)"

definition logicalTimeAlreadyPassed :: "'t::linorder \<Rightarrow> ('t, 'i) time_management \<Rightarrow> bool" where
  "logicalTimeAlreadyPassed t s \<longleftrightarrow>
     (if snd (outboundLowerBoundTimeStamp s) \<noteq> 0 then t \<le> fst (outboundLowerBoundTimeStamp s)
      else t < fst (outboundLowerBoundTimeStamp s))"

text \<open>The overload with a reason, which the sending services use; the text is left out.\<close>

definition logicalTimeAlreadyPassedReason :: "'t::linorder \<Rightarrow> ('t, 'i) time_management \<Rightarrow> bool" where
  "logicalTimeAlreadyPassedReason t s \<longleftrightarrow>
     (if allowPendingTimeInNextMessageRequest s \<and> getIsAnyNextMessageMode s
      then (if snd (pendingLogicalTime s) \<noteq> 0 then t \<le> fst (pendingLogicalTime s)
            else t < fst (pendingLogicalTime s))
      else (if snd (outboundLowerBoundTimeStamp s) \<noteq> 0 then t \<le> fst (outboundLowerBoundTimeStamp s)
            else t < fst (outboundLowerBoundTimeStamp s)))"

definition canAdvanceTo :: "'t::linorder \<times> int \<Rightarrow> ('t, 'i) time_management \<Rightarrow> bool" where
  "canAdvanceTo p s = lb_canAdvanceTo p (federateLowerBoundMap s)"

definition canAdvanceToNextMessage :: "'t::linorder \<times> int \<Rightarrow> ('t, 'i) time_management \<Rightarrow> bool" where
  "canAdvanceToNextMessage p s = lb_canAdvanceToNextMessage p (federateLowerBoundMap s)"

definition getLockedByNextMessage :: "('t::linorder, 'i) time_management \<Rightarrow> bool" where
  "getLockedByNextMessage s =
     (if \<not> getTimeConstrainedEnabled s then False
      else if \<not> getIsAnyNextMessageMode s then False
      else lb_getLockedByNextMessage (ownCommitId s) (federateLowerBoundMap s))"

definition getIsSafeToAdvanceToNextMessage :: "('t::linorder, 'i) time_management \<Rightarrow> bool" where
  "getIsSafeToAdvanceToNextMessage s =
     (if \<not> getIsAnyNextMessageMode s then False
      else lb_getIsSafeToAdvanceToNextMessage (ownCommitId s) (federateLowerBoundMap s))"

definition receiveOrderMessagesPermitted :: "('t, 'i) time_management \<Rightarrow> bool" where
  "receiveOrderMessagesPermitted s =
     (if \<not> getTimeConstrainedEnabled s then True
      else if asynchronousDeliveryEnabled s then True
      else if getTimeAdvancePending s then True
      else False)"

text \<open>\<open>begin()->first\<close> of the queue; only asked when the queue is not empty.\<close>

definition getLeastIncomingTimepair :: "('t, 'i) time_management \<Rightarrow> 't \<times> int" where
  "getLeastIncomingTimepair s = fst (hd (logicalTimeMessageListMap s))"

definition timeStampOrderMessagesPermitted :: "('t::linorder, 'i) time_management \<Rightarrow> bool" where
  "timeStampOrderMessagesPermitted s =
     (if getFlushQueueMode s then True
      else if \<not> getTimeConstrainedEnabledOrPending s then True
      else if pendingLogicalTime s < getLeastIncomingTimepair s then False
      else canAdvanceTo (getLeastIncomingTimepair s) s)"

subsection \<open>Queues\<close>

definition signal :: "('t, 'i) time_management \<Rightarrow> ('t, 'i) time_management" where
  "signal s = (if notificationHandle s then s\<lparr>signals := signals s + 1\<rparr> else s)"

text \<open>\<open>queueTimeStampedMessage(logicalTimePair, message)\<close>\<close>

definition queueMessage ::
    "'t::linorder \<times> int \<Rightarrow> callback_message \<Rightarrow> ('t, 'i) time_management \<Rightarrow> ('t, 'i) time_management" where
  "queueMessage p m s =
     signal (s\<lparr>logicalTimeMessageListMap :=
       smap_update p
         (case map_of (logicalTimeMessageListMap s) p of None \<Rightarrow> [m] | Some ms \<Rightarrow> ms @ [m])
         (logicalTimeMessageListMap s)\<rparr>)"

definition queueReceiveOrderMessage ::
    "callback_message \<Rightarrow> ('t, 'i) time_management \<Rightarrow> ('t, 'i) time_management" where
  "queueReceiveOrderMessage m s =
     signal (s\<lparr>receiveOrderMessages := receiveOrderMessages s @ [m]\<rparr>)"

definition eraseMessagesForObjectInstance ::
    "ObjectInstanceHandle \<Rightarrow> ('t, 'i) time_management \<Rightarrow> ('t, 'i) time_management" where
  "eraseMessagesForObjectInstance h s =
     (if \<not> handle_valid h then s
      else let keep = filter (\<lambda>m. getObjectInstanceHandleForMessage m \<noteq> h)
           in s\<lparr>logicalTimeMessageListMap :=
                  map (\<lambda>(p, ms). (p, keep ms)) (logicalTimeMessageListMap s),
                receiveOrderMessages := keep (receiveOrderMessages s)\<rparr>)"

definition setNotificationHandle :: "bool \<Rightarrow> ('t, 'i) time_management \<Rightarrow> ('t, 'i) time_management" where
  "setNotificationHandle h s =
     (let s1 = s\<lparr>notificationHandle := h\<rparr>
      in if h then
           (let havePendingMessages =
              (if receiveOrderMessages s1 \<noteq> [] then True
               else list_ex (\<lambda>entry. snd entry = []) (logicalTimeMessageListMap s1))
            in if havePendingMessages then signal s1 else s1)
         else s1)"

subsection \<open>Sending commits\<close>

definition send :: "'t tm_message \<Rightarrow> ('t, 'i) time_management \<Rightarrow> ('t, 'i) time_management" where
  "send m s = s\<lparr>sent := sent s @ [m]\<rparr>"

definition sendCommitLowerBoundTimeStamp ::
    "ambassador \<Rightarrow> 't \<Rightarrow> LowerBoundTimeStampCommitType \<Rightarrow> ('t, 'i) time_management
      \<Rightarrow> ('t, 'i) time_management" where
  "sendCommitLowerBoundTimeStamp env t commitType s =
     (let s1 = (if has_TimeAdvanceCommit commitType
                then s\<lparr>committedOutboundLowerBoundTimeStamp := t\<rparr> else s);
          s2 = (if has_NextMessageCommit commitType
                then (let s' = s1\<lparr>committedNextMessageLowerBoundTimeStamp := t\<rparr>
                      in if committedOutboundLowerBoundTimeStamp s'
                            \<noteq> committedNextMessageLowerBoundTimeStamp s'
                         then s'\<lparr>ownCommitId := ownCommitId s' + 1\<rparr> else s')
                else s1)
      in send (CommitLowerBoundTimeStamp (ownHandle env) t commitType (ownCommitId s2)) s2)"

text \<open>Masking a bit out of the commit type.\<close>

fun without_TimeAdvanceCommit :: "LowerBoundTimeStampCommitType \<Rightarrow> LowerBoundTimeStampCommitType" where
  "without_TimeAdvanceCommit TimeAdvanceCommit = CommitNone"
| "without_TimeAdvanceCommit TimeAdvanceAndNextMessageCommit = NextMessageCommit"
| "without_TimeAdvanceCommit c = c"

fun without_NextMessageCommit :: "LowerBoundTimeStampCommitType \<Rightarrow> LowerBoundTimeStampCommitType" where
  "without_NextMessageCommit NextMessageCommit = CommitNone"
| "without_NextMessageCommit TimeAdvanceAndNextMessageCommit = TimeAdvanceCommit"
| "without_NextMessageCommit c = c"

definition sendCommitIfChanged ::
    "ambassador \<Rightarrow> 't::linorder \<Rightarrow> LowerBoundTimeStampCommitType \<Rightarrow> ('t, 'i) time_management
      \<Rightarrow> ('t, 'i) time_management" where
  "sendCommitIfChanged env t commitType s =
     (if t < committedOutboundLowerBoundTimeStamp s then s
      else let ct1 = (if has_TimeAdvanceCommit commitType
                         \<and> \<not> committedOutboundLowerBoundTimeStamp s < t
                      then without_TimeAdvanceCommit commitType else commitType);
               ct2 = (if has_NextMessageCommit ct1
                         \<and> committedNextMessageLowerBoundTimeStamp s = t
                      then without_NextMessageCommit ct1 else ct1)
           in if ct2 = CommitNone then s else sendCommitLowerBoundTimeStamp env t ct2 s)"

text \<open>The overload for a time pair, and the one that adds a lookahead.\<close>

definition sendCommitPairIfChanged ::
    "('t::linorder, 'i) time_factory \<Rightarrow> ambassador \<Rightarrow> 't \<times> int \<Rightarrow> LowerBoundTimeStampCommitType
      \<Rightarrow> ('t, 'i) time_management \<Rightarrow> ('t, 'i) time_management" where
  "sendCommitPairIfChanged fac env p commitType s =
     (if 0 < snd p then sendCommitIfChanged env (nextAfter fac (fst p)) commitType s
      else sendCommitIfChanged env (fst p) commitType s)"

definition sendCommitLookaheadIfChanged ::
    "('t::linorder, 'i) time_factory \<Rightarrow> ambassador \<Rightarrow> 't \<Rightarrow> 'i \<Rightarrow> LowerBoundTimeStampCommitType
      \<Rightarrow> ('t, 'i) time_management \<Rightarrow> ('t, 'i) time_management" where
  "sendCommitLookaheadIfChanged fac env t lookahead commitType s =
     (let plus = addInterval fac t lookahead;
          next = (if getOutboundLowerTimeStampSecondField fac lookahead s \<noteq> 0
                  then nextAfter fac plus else plus)
      in sendCommitIfChanged env (max next (committedOutboundLowerBoundTimeStamp s)) commitType s)"

definition sendCommitResponse ::
    "ambassador \<Rightarrow> FederateHandle \<Rightarrow> u32 \<Rightarrow> ('t, 'i) time_management \<Rightarrow> ('t, 'i) time_management" where
  "sendCommitResponse env f cid s =
     (if \<not> handle_valid (ownHandle env) then s
      else send (CommitLowerBoundTimeStampResponse f cid (ownHandle env)) s)"

definition sendCommitResponses :: "ambassador \<Rightarrow> ('t, 'i) time_management \<Rightarrow> ('t, 'i) time_management" where
  "sendCommitResponses env s =
     fold (\<lambda>(f, cid). sendCommitResponse env f cid)
       (lb_getNextMessageFederateHandleList (federateLowerBoundMap s)) s"

definition sendLockedByNextMessageRequest ::
    "ambassador \<Rightarrow> bool \<Rightarrow> ('t, 'i) time_management \<Rightarrow> ('t, 'i) time_management" where
  "sendLockedByNextMessageRequest env locked s = send (LockedByNextMessageRequest (ownHandle env) locked) s"

text \<open>The end of every handler that may have changed the lock: tell the others when it did.\<close>

definition notifyLocked ::
    "ambassador \<Rightarrow> bool \<Rightarrow> ('t::linorder, 'i) time_management \<Rightarrow> ('t, 'i) time_management" where
  "notifyLocked env previousLockedByNextMessage s =
     (let lockedByNextMessage = getLockedByNextMessage s
      in if previousLockedByNextMessage \<noteq> lockedByNextMessage
         then sendLockedByNextMessageRequest env lockedByNextMessage s else s)"

subsection \<open>Scheduling grants\<close>

text \<open>
  The time advance of the next message modes: granted when the other federates allow it,
  else committed as far as they have come.
\<close>

definition checkForPendingTimeAdvance ::
    "('t::linorder, 'i) time_factory \<Rightarrow> ambassador \<Rightarrow> bool \<Rightarrow> ('t, 'i) time_management
      \<Rightarrow> ('t, 'i) time_management" where
  "checkForPendingTimeAdvance fac env allowNextMessage s =
     (if \<not> timeAdvanceToBeScheduled s then s
      else if getIsAnyNextMessageMode s then
        (if allowNextMessage \<and> getIsSafeToAdvanceToNextMessage s then
           (if canAdvanceToNextMessage (fst (pendingLogicalTime s), 0) s then
              (let s1 = queueMessage (pendingLogicalTime s) TimeAdvanceGrantedMessage
                          (s\<lparr>timeAdvanceToBeScheduled := False\<rparr>)
               in if getTimeRegulationEnabled s1
                  then sendCommitLookaheadIfChanged fac env (fst (pendingLogicalTime s1))
                         (targetLookahead s1) TimeAdvanceAndNextMessageCommit s1
                  else s1)
            else if getTimeRegulationEnabled s then
              sendCommitLookaheadIfChanged fac env
                (the (lb_getNextMessageGALT (federateLowerBoundMap s)))
                (targetLookahead s) TimeAdvanceCommit s
            else s)
         else
           (if canAdvanceTo (fst (pendingLogicalTime s), 0) s then
              (let s1 = queueMessage (pendingLogicalTime s) TimeAdvanceGrantedMessage
                          (s\<lparr>timeAdvanceToBeScheduled := False\<rparr>)
               in if getTimeRegulationEnabled s1
                  then sendCommitLookaheadIfChanged fac env (fst (pendingLogicalTime s1))
                         (targetLookahead s1) TimeAdvanceAndNextMessageCommit s1
                  else s1)
            else if getTimeRegulationEnabled s then
              sendCommitLookaheadIfChanged fac env
                (the (lb_getGALT (federateLowerBoundMap s)))
                (targetLookahead s) TimeAdvanceCommit s
            else s))
      else s)"

definition checkForPendingFlushQueue :: "('t::linorder, 'i) time_management \<Rightarrow> ('t, 'i) time_management" where
  "checkForPendingFlushQueue s =
     (if logicalTimeMessageListMap s = [] \<and> getFlushQueueMode s \<and> timeAdvanceToBeScheduled s
      then queueMessage (pendingLogicalTime s) TimeAdvanceGrantedMessage
             (s\<lparr>timeAdvanceToBeScheduled := False\<rparr>)
      else s)"

text \<open>One turn of the loop over the collected responses in \<open>checkTimeRegulationEnabled\<close>.\<close>

definition collectResponse ::
    "('t::linorder, 'i) time_factory \<Rightarrow> 't \<Rightarrow> ('t, 'i) time_management \<Rightarrow> ('t, 'i) time_management" where
  "collectResponse fac t s =
     (if t \<le> fst (outboundLowerBoundTimeStamp s) then s
      else s\<lparr>outboundLowerBoundTimeStamp := (t, 0),
             pendingLogicalTime := max (pendingLogicalTime s)
               (subInterval fac t (currentLookahead s), 0)\<rparr>)"

definition checkTimeRegulationEnabled ::
    "('t::linorder, 'i) time_factory \<Rightarrow> ambassador \<Rightarrow> ('t, 'i) time_management \<Rightarrow> ('t, 'i) time_management" where
  "checkTimeRegulationEnabled fac env s =
     (if \<not> getTimeRegulationEnablePending s then s
      else if enableFederateHandleSet s \<noteq> {} then s
      else let s1 = fold (\<lambda>(_, t). collectResponse fac t) (enableFederateTimeStampMap s) s;
               s2 = s1\<lparr>enableFederateTimeStampMap := []\<rparr>;
               s3 = sendCommitLowerBoundTimeStamp env (fst (outboundLowerBoundTimeStamp s2))
                      TimeAdvanceAndNextMessageCommit s2
           in queueMessage (pendingLogicalTime s3) TimeRegulationEnabledMessage s3)"

subsection \<open>The services of the federate\<close>

definition enableTimeRegulation ::
    "('t::linorder, 'i) time_factory \<Rightarrow> ambassador \<Rightarrow> 't \<Rightarrow> 'i \<Rightarrow> ('t, 'i) time_management
      \<Rightarrow> ('t, 'i) time_management" where
  "enableTimeRegulation fac env t lookahead s =
     (let s1 = s\<lparr>timeRegulationMode := TimeRegulationEnablePending,
                 currentLookahead := lookahead, targetLookahead := lookahead,
                 pendingLogicalTime := max (logicalTime s) (t, 0)\<rparr>;
          outbound = addInterval fac (fst (pendingLogicalTime s1)) (currentLookahead s1);
          s2 = s1\<lparr>outboundLowerBoundTimeStamp := (outbound, 0),
                  lastOutboundLowerBoundTimeStamp := (outbound, 0),
                  committedOutboundLowerBoundTimeStamp := outbound,
                  committedNextMessageLowerBoundTimeStamp := outbound,
                  enableFederateHandleSet :=
                    enableFederateHandleSet s1 \<union> joinedHandles env \<union> {ownHandle env}\<rparr>
      in sendCommitResponses env
           (send (EnableTimeRegulationRequest (ownHandle env) outbound (ownCommitId s2)) s2))"

definition disableTimeRegulation ::
    "('t, 'i) time_factory \<Rightarrow> ambassador \<Rightarrow> ('t, 'i) time_management \<Rightarrow> ('t, 'i) time_management" where
  "disableTimeRegulation fac env s =
     send (DisableTimeRegulationRequest (ownHandle env))
       (s\<lparr>timeRegulationMode := TimeRegulationDisabled, currentLookahead := targetLookahead s,
          outboundLowerBoundTimeStamp := (initialLogicalTime fac, 0),
          lastOutboundLowerBoundTimeStamp := (initialLogicalTime fac, 0),
          committedOutboundLowerBoundTimeStamp := initialLogicalTime fac,
          committedNextMessageLowerBoundTimeStamp := initialLogicalTime fac\<rparr>)"

definition enableTimeConstrained ::
    "ambassador \<Rightarrow> ('t::linorder, 'i) time_management \<Rightarrow> ('t, 'i) time_management" where
  "enableTimeConstrained env s =
     (let s1 = s\<lparr>timeConstrainedMode := TimeConstrainedEnablePending,
                 pendingLogicalTime := (fst (logicalTime s), 0)\<rparr>
      in send (EnableTimeConstrainedNotify (ownHandle env))
           (queueMessage (pendingLogicalTime s1) TimeConstrainedEnabledMessage s1))"

definition disableTimeConstrained ::
    "ambassador \<Rightarrow> ('t, 'i) time_management \<Rightarrow> ('t, 'i) time_management" where
  "disableTimeConstrained env s =
     send (DisableTimeConstrainedNotify (ownHandle env))
       (s\<lparr>timeConstrainedMode := TimeConstrainedDisabled\<rparr>)"

definition modifyLookahead ::
    "('t::linorder, 'i::linorder) time_factory \<Rightarrow> ambassador \<Rightarrow> 'i \<Rightarrow> ('t, 'i) time_management
      \<Rightarrow> ('t, 'i) time_management" where
  "modifyLookahead fac env lookahead s =
     (let s1 = s\<lparr>targetLookahead := lookahead,
                 lastOutboundLowerBoundTimeStamp := outboundLowerBoundTimeStamp s\<rparr>;
          s2 = setOutboundLowerTimeStampAndCurrentLookahead fac (fst (logicalTime s1))
                 (lastOutboundLowerBoundTimeStamp s1) s1
      in sendCommitPairIfChanged fac env (outboundLowerBoundTimeStamp s2)
           TimeAdvanceAndNextMessageCommit s2)"

definition queryGALT :: "('t, 'i) time_management \<Rightarrow> 't option" where
  "queryGALT s =
     (if lb_empty (federateLowerBoundMap s) then None else lb_getGALT (federateLowerBoundMap s))"

definition queryLITS :: "('t::linorder, 'i) time_management \<Rightarrow> 't option" where
  "queryLITS s =
     (if logicalTimeMessageListMap s = [] then
        (if lb_empty (federateLowerBoundMap s) then None
         else lb_getGALT (federateLowerBoundMap s))
      else if lb_empty (federateLowerBoundMap s) then Some (fst (getLeastIncomingTimepair s))
      else if the (lb_getGALT (federateLowerBoundMap s)) < fst (getLeastIncomingTimepair s)
        then lb_getGALT (federateLowerBoundMap s)
        else Some (fst (getLeastIncomingTimepair s)))"

definition queryLogicalTime :: "('t, 'i) time_management \<Rightarrow> 't" where
  "queryLogicalTime s = fst (logicalTime s)"

definition queryLookahead :: "('t, 'i) time_management \<Rightarrow> 'i" where
  "queryLookahead s = currentLookahead s"

text \<open>
  A time advance request after the flush of the internal messages, by kind of request. The
  pending time of the next message modes is cut to the first queued message.
\<close>

definition advanceRequest ::
    "('t::linorder, 'i) time_factory \<Rightarrow> ambassador \<Rightarrow> ('t, 'i) time_management \<Rightarrow> ('t, 'i) time_management" where
  "advanceRequest fac env s =
     (let s1 = (if getTimeRegulationEnabled s
                then sendCommitPairIfChanged fac env (outboundLowerBoundTimeStamp s)
                       TimeAdvanceAndNextMessageCommit s
                else s)
      in queueMessage (pendingLogicalTime s1) TimeAdvanceGrantedMessage s1)"

definition cutPendingToQueue :: "('t::linorder, 'i) time_management \<Rightarrow> ('t, 'i) time_management" where
  "cutPendingToQueue s =
     (if logicalTimeMessageListMap s \<noteq> []
         \<and> fst (getLeastIncomingTimepair s) < fst (pendingLogicalTime s)
      then s\<lparr>pendingLogicalTime := (fst (getLeastIncomingTimepair s), snd (pendingLogicalTime s))\<rparr>
      else s)"

definition nextMessageRequest ::
    "('t::linorder, 'i) time_factory \<Rightarrow> ambassador \<Rightarrow> ('t, 'i) time_management \<Rightarrow> ('t, 'i) time_management" where
  "nextMessageRequest fac env s =
     (let s1 = (if getTimeConstrainedEnabled s
                then (cutPendingToQueue s)\<lparr>timeAdvanceToBeScheduled := True\<rparr> else s);
          s2 = (if getTimeRegulationEnabled s1 \<and> timeAdvanceToBeScheduled s1
                then sendCommitLookaheadIfChanged fac env (fst (pendingLogicalTime s1))
                       (targetLookahead s1) NextMessageCommit s1
                else s1)
      in if getTimeConstrainedEnabled s2 then checkForPendingTimeAdvance fac env False s2
         else queueMessage (pendingLogicalTime s2) TimeAdvanceGrantedMessage s2)"

definition flushQueueRequest ::
    "('t::linorder, 'i) time_factory \<Rightarrow> ambassador \<Rightarrow> ('t, 'i) time_management \<Rightarrow> ('t, 'i) time_management" where
  "flushQueueRequest fac env s =
     (let s1 = (if getTimeConstrainedEnabled s then cutPendingToQueue s else s);
          s2 = (if getTimeConstrainedEnabled s1 \<and> \<not> canAdvanceTo (fst (pendingLogicalTime s1), 0) s1
                then s1\<lparr>pendingLogicalTime := max (logicalTime s1)
                       (the (lb_getGALT (federateLowerBoundMap s1)), snd (pendingLogicalTime s1))\<rparr>
                else s1);
          s3 = (if getTimeRegulationEnabled s2
                then sendCommitIfChanged env
                       (max (addInterval fac (fst (pendingLogicalTime s2)) (targetLookahead s2))
                          (committedOutboundLowerBoundTimeStamp s2))
                       TimeAdvanceAndNextMessageCommit s2
                else s2)
      in if getTimeConstrainedEnabled s3 then s3\<lparr>timeAdvanceToBeScheduled := True\<rparr>
         else queueMessage (pendingLogicalTime s3) TimeAdvanceGrantedMessage s3)"

definition timeAdvance ::
    "('t::linorder, 'i::linorder) time_factory \<Rightarrow> ambassador \<Rightarrow> 't \<Rightarrow> TimeAdvanceMode
      \<Rightarrow> ('t, 'i) time_management \<Rightarrow> ('t, 'i) time_management" where
  "timeAdvance fac env t mode s =
     (let s1 = s\<lparr>timeAdvanceMode := mode\<rparr>;
          s2 = s1\<lparr>pendingLogicalTime := max (logicalTime s1) (t, getPendingTimeSecondField s1)\<rparr>;
          s3 = (if getTimeRegulationEnabled s2
                then (let s' = s2\<lparr>lastOutboundLowerBoundTimeStamp := outboundLowerBoundTimeStamp s2\<rparr>
                      in setOutboundLowerTimeStampAndCurrentLookahead fac t
                           (lastOutboundLowerBoundTimeStamp s') s')
                else s2)
      in if getIsAnyAdvanceRequest s3 then advanceRequest fac env s3
         else if getIsAnyNextMessageMode s3 then nextMessageRequest fac env s3
         else if getFlushQueueMode s3 then flushQueueRequest fac env s3
         else s3)"

subsection \<open>Messages from the other federates\<close>

text \<open>
  Queueing a message for the federate: in the next message modes an earlier message lowers the
  pending time.
\<close>

definition queueAndAdvance ::
    "('t::linorder, 'i) time_factory \<Rightarrow> ambassador \<Rightarrow> 't \<times> int \<Rightarrow> callback_message
      \<Rightarrow> ('t, 'i) time_management \<Rightarrow> ('t, 'i) time_management" where
  "queueAndAdvance fac env p m s =
     (let s1 = queueMessage p m s
      in if getIsAnyNextMessageMode s1 \<and> getTimeConstrainedEnabled s1
            \<and> fst p < fst (pendingLogicalTime s1)
         then
           (let s2 = (if fst (logicalTime s1) \<le> fst p
                      then s1\<lparr>pendingLogicalTime := (fst p, snd (pendingLogicalTime s1))\<rparr> else s1);
                s3 = (if timeAdvanceToBeScheduled s2 \<and> getTimeRegulationEnabled s2
                      then sendCommitLookaheadIfChanged fac env (fst (pendingLogicalTime s2))
                             (targetLookahead s2) NextMessageCommit s2
                      else s2)
            in checkForPendingTimeAdvance fac env True s3)
         else s1)"

text \<open>
  The arrival of a time stamped message. The debug output for a message behind the GALT asks for
  the GALT even when no federate regulates, which dereferences the end of an empty map: \<open>None\<close>.
\<close>

definition queueTimeStampedMessage ::
    "('t::linorder, 'i) time_factory \<Rightarrow> ambassador \<Rightarrow> 't \<Rightarrow> callback_message \<Rightarrow> bool
      \<Rightarrow> ('t, 'i) time_management \<Rightarrow> ('t, 'i) time_management option" where
  "queueTimeStampedMessage fac env t m loopback s =
     (if \<not> loopback \<and> getTimeConstrainedEnabled s \<and> canAdvanceTo (t, 1) s
         \<and> lb_getGALT (federateLowerBoundMap s) = None then None
      else if getTimeConstrainedEnabled s \<and> (t, 1) < logicalTime s then Some s
      else Some (queueAndAdvance fac env (t, -1) m s))"

definition acceptJoinFederateNotify ::
    "ambassador \<Rightarrow> FederateHandle \<Rightarrow> ('t, 'i) time_management \<Rightarrow> ('t, 'i) time_management" where
  "acceptJoinFederateNotify env f s =
     (if ownHandle env \<in> enableFederateHandleSet s
      then s\<lparr>enableFederateHandleSet := insert f (enableFederateHandleSet s)\<rparr> else s)"

definition removeFederateFromTimeManagement ::
    "('t::linorder, 'i) time_factory \<Rightarrow> ambassador \<Rightarrow> FederateHandle \<Rightarrow> ('t, 'i) time_management
      \<Rightarrow> ('t, 'i) time_management" where
  "removeFederateFromTimeManagement fac env f s =
     (let previous = getLockedByNextMessage s;
          s1 = s\<lparr>federateLowerBoundMap := snd (lb_erase f (federateLowerBoundMap s)),
                 enableFederateTimeStampMap := smap_erase f (enableFederateTimeStampMap s)\<rparr>;
          s2 = (if f \<in> enableFederateHandleSet s1
                then checkTimeRegulationEnabled fac env
                       (s1\<lparr>enableFederateHandleSet := enableFederateHandleSet s1 - {f}\<rparr>)
                else s1)
      in checkForPendingTimeAdvance fac env True (notifyLocked env previous s2))"

text \<open>The time with which a request to get regulating is answered.\<close>

definition correctedResponseTime ::
    "('t::linorder, 'i) time_factory \<Rightarrow> 't \<Rightarrow> ('t, 'i) time_management \<Rightarrow> 't" where
  "correctedResponseTime fac t s =
     (if getTimeConstrainedEnabledOrPending s then
        (if 0 < snd (pendingLogicalTime s)
         then (if t \<le> fst (pendingLogicalTime s) then nextAfter fac (fst (pendingLogicalTime s)) else t)
         else (if t < fst (pendingLogicalTime s) then fst (pendingLogicalTime s) else t))
      else t)"

definition acceptEnableTimeRegulationRequest ::
    "('t::linorder, 'i) time_factory \<Rightarrow> ambassador \<Rightarrow> FederateHandle \<Rightarrow> 't \<Rightarrow> u32
      \<Rightarrow> ('t, 'i) time_management \<Rightarrow> ('t, 'i) time_management" where
  "acceptEnableTimeRegulationRequest fac env f t cid s =
     (if ownHandle env = f then
        (if \<not> getTimeRegulationEnablePending s then s
         else checkTimeRegulationEnabled fac env
                (s\<lparr>enableFederateHandleSet := enableFederateHandleSet s - {ownHandle env}\<rparr>))
      else
        (let t' = (if handle_valid (ownHandle env) then correctedResponseTime fac t s else t);
             s1 = (if handle_valid (ownHandle env)
                   then send (EnableTimeRegulationResponse f (ownHandle env) t'
                          (getTimeConstrainedEnabledOrPending s)) s
                   else s);
             previous = getLockedByNextMessage s1;
             s2 = s1\<lparr>federateLowerBoundMap :=
                       lb_insert f t' t' cid (ownCommitId s1 - 1) (federateLowerBoundMap s1)\<rparr>
         in notifyLocked env previous s2))"

definition acceptEnableTimeRegulationResponse ::
    "('t::linorder, 'i) time_factory \<Rightarrow> ambassador \<Rightarrow> FederateHandle \<Rightarrow> 't \<Rightarrow> bool
      \<Rightarrow> ('t, 'i) time_management \<Rightarrow> ('t, 'i) time_management" where
  "acceptEnableTimeRegulationResponse fac env responding t timeStampValid s =
     (if \<not> getTimeRegulationEnablePending s then s
      else let previous = getLockedByNextMessage s;
               s1 = (if timeStampValid
                     then s\<lparr>enableFederateTimeStampMap :=
                            smap_update responding t (enableFederateTimeStampMap s)\<rparr>
                     else s);
               s2 = s1\<lparr>enableFederateHandleSet := enableFederateHandleSet s1 - {responding}\<rparr>
           in checkTimeRegulationEnabled fac env (notifyLocked env previous s2))"

definition acceptDisableTimeRegulationRequest ::
    "('t::linorder, 'i) time_factory \<Rightarrow> ambassador \<Rightarrow> FederateHandle
      \<Rightarrow> ('t, 'i) time_management \<Rightarrow> ('t, 'i) time_management" where
  "acceptDisableTimeRegulationRequest fac env f s =
     (let previous = getLockedByNextMessage s;
          s1 = s\<lparr>federateLowerBoundMap := snd (lb_erase f (federateLowerBoundMap s))\<rparr>
      in checkForPendingTimeAdvance fac env True (notifyLocked env previous s1))"

text \<open>A commit of a federate that never asked to get regulating is undefined behaviour.\<close>

definition acceptCommitLowerBoundTimeStamp ::
    "('t::linorder, 'i) time_factory \<Rightarrow> ambassador \<Rightarrow> FederateHandle \<Rightarrow> 't
      \<Rightarrow> LowerBoundTimeStampCommitType \<Rightarrow> u32 \<Rightarrow> ('t, 'i) time_management
      \<Rightarrow> ('t, 'i) time_management option" where
  "acceptCommitLowerBoundTimeStamp fac env f t commitType cid s =
     (let previous = getLockedByNextMessage s
      in case lb_commit f t commitType cid (federateLowerBoundMap s) of
           None \<Rightarrow> None
         | Some (changePair, m) \<Rightarrow>
             (let s1 = s\<lparr>federateLowerBoundMap := m\<rparr>;
                  s2 = (if snd changePair then sendCommitResponse env f cid s1 else s1)
              in Some (checkForPendingTimeAdvance fac env True (notifyLocked env previous s2))))"

definition acceptCommitLowerBoundTimeStampResponse ::
    "('t::linorder, 'i) time_factory \<Rightarrow> ambassador \<Rightarrow> u32 \<Rightarrow> FederateHandle
      \<Rightarrow> ('t, 'i) time_management \<Rightarrow> ('t, 'i) time_management" where
  "acceptCommitLowerBoundTimeStampResponse fac env cid sending s =
     (let previous = getLockedByNextMessage s;
          s1 = s\<lparr>federateLowerBoundMap :=
                   lb_setFederateWaitCommitId sending cid (federateLowerBoundMap s)\<rparr>
      in checkForPendingTimeAdvance fac env True (notifyLocked env previous s1))"

definition acceptLockedByNextMessageRequest ::
    "('t::linorder, 'i) time_factory \<Rightarrow> ambassador \<Rightarrow> FederateHandle \<Rightarrow> bool
      \<Rightarrow> ('t, 'i) time_management \<Rightarrow> ('t, 'i) time_management" where
  "acceptLockedByNextMessageRequest fac env sending locked s =
     (let previous = getLockedByNextMessage s;
          s1 = s\<lparr>federateLowerBoundMap :=
                   lb_setFederateLockedByNextMessage sending locked (federateLowerBoundMap s)\<rparr>
      in checkForPendingTimeAdvance fac env True (notifyLocked env previous s1))"

text \<open>
  The dispatch of an internal message; the notifications of the server about who is
  constrained are not addressed to a federate.
\<close>

fun acceptInternalMessage ::
    "('t::linorder, 'i) time_factory \<Rightarrow> ambassador \<Rightarrow> 't tm_message \<Rightarrow> ('t, 'i) time_management
      \<Rightarrow> ('t, 'i) time_management option" where
  "acceptInternalMessage fac env (JoinFederateNotify f) s = Some (acceptJoinFederateNotify env f s)"
| "acceptInternalMessage fac env (ResignFederateNotify f) s =
     Some (removeFederateFromTimeManagement fac env f s)"
| "acceptInternalMessage fac env (EnableTimeRegulationRequest f t cid) s =
     Some (acceptEnableTimeRegulationRequest fac env f t cid s)"
| "acceptInternalMessage fac env (EnableTimeRegulationResponse _ responding t timeStampValid) s =
     Some (acceptEnableTimeRegulationResponse fac env responding t timeStampValid s)"
| "acceptInternalMessage fac env (DisableTimeRegulationRequest f) s =
     Some (acceptDisableTimeRegulationRequest fac env f s)"
| "acceptInternalMessage fac env (CommitLowerBoundTimeStamp f t commitType cid) s =
     acceptCommitLowerBoundTimeStamp fac env f t commitType cid s"
| "acceptInternalMessage fac env (CommitLowerBoundTimeStampResponse _ cid sending) s =
     Some (acceptCommitLowerBoundTimeStampResponse fac env cid sending s)"
| "acceptInternalMessage fac env (LockedByNextMessageRequest sending locked) s =
     Some (acceptLockedByNextMessageRequest fac env sending locked s)"
| "acceptInternalMessage fac env (EnableTimeConstrainedNotify _) s = Some s"
| "acceptInternalMessage fac env (DisableTimeConstrainedNotify _) s = Some s"
| "acceptInternalMessage fac env (TimeStampedUpdate t orderType h payload) s =
     (if orderType = TIMESTAMP
      then queueTimeStampedMessage fac env t (UserMessage h (Some orderType) payload) False s
      else Some (queueReceiveOrderMessage (UserMessage h (Some orderType) payload) s))"
| "acceptInternalMessage fac env (ReceiveOrderUpdate h payload) s =
     Some (queueReceiveOrderMessage (UserMessage h None payload) s)"

text \<open>\<open>flushAndDispatchInternalMessage\<close>: all the messages that have arrived.\<close>

fun flushInternalMessages ::
    "('t::linorder, 'i) time_factory \<Rightarrow> ambassador \<Rightarrow> 't tm_message list \<Rightarrow> ('t, 'i) time_management
      \<Rightarrow> ('t, 'i) time_management option" where
  "flushInternalMessages fac env [] s = Some s"
| "flushInternalMessages fac env (m # ms) s =
     (case acceptInternalMessage fac env m s of
        None \<Rightarrow> None | Some s' \<Rightarrow> flushInternalMessages fac env ms s')"

definition timeAdvanceRequest ::
    "('t::linorder, 'i::linorder) time_factory \<Rightarrow> ambassador \<Rightarrow> 't tm_message list \<Rightarrow> 't
      \<Rightarrow> TimeAdvanceMode \<Rightarrow> ('t, 'i) time_management \<Rightarrow> ('t, 'i) time_management option" where
  "timeAdvanceRequest fac env inbox t mode s =
     (if mode = FlushQueueRequest
      then map_option (timeAdvance fac env t mode) (flushInternalMessages fac env inbox s)
      else Some (timeAdvance fac env t mode s))"

subsection \<open>Callbacks\<close>

text \<open>What the federate gets to see.\<close>

datatype 't federate_event =
  timeConstrainedEnabled 't
| timeRegulationEnabled 't
| timeAdvanceGrant 't
| deliver ObjectInstanceHandle vld OrderType bool

definition acceptTimeAdvanceGranted ::
    "('t::linorder, 'i::linorder) time_factory \<Rightarrow> ('t, 'i) time_management
      \<Rightarrow> 't federate_event \<times> ('t, 'i) time_management" where
  "acceptTimeAdvanceGranted fac s =
     (let s1 = (if (getIsAnyNextMessageMode s \<or> getFlushQueueMode s) \<and> getTimeRegulationEnabled s
                then setOutboundLowerTimeStampAndCurrentLookahead fac (fst (pendingLogicalTime s))
                       (lastOutboundLowerBoundTimeStamp s) s
                else s);
          s2 = s1\<lparr>logicalTime := pendingLogicalTime s1, timeAdvanceMode := TimeAdvanceGranted\<rparr>
      in (timeAdvanceGrant (fst (logicalTime s2)), s2))"

text \<open>
  The order type a message is delivered with, and whether its retraction handle goes with it.
\<close>

fun acceptCallbackMessage ::
    "('t::linorder, 'i::linorder) time_factory \<Rightarrow> callback_message \<Rightarrow> ('t, 'i) time_management
      \<Rightarrow> 't federate_event \<times> ('t, 'i) time_management" where
  "acceptCallbackMessage fac TimeConstrainedEnabledMessage s =
     (let s1 = s\<lparr>timeConstrainedMode := TimeConstrainedEnabled, logicalTime := pendingLogicalTime s\<rparr>
      in (timeConstrainedEnabled (fst (logicalTime s1)), s1))"
| "acceptCallbackMessage fac TimeRegulationEnabledMessage s =
     (let s1 = s\<lparr>timeRegulationMode := TimeRegulationEnabled, logicalTime := pendingLogicalTime s\<rparr>
      in (timeRegulationEnabled (fst (logicalTime s1)), s1))"
| "acceptCallbackMessage fac TimeAdvanceGrantedMessage s = acceptTimeAdvanceGranted fac s"
| "acceptCallbackMessage fac (UserMessage h (Some orderType) payload) s =
     (deliver h payload (getTimeStampOrderDelivery orderType s) (getFlushQueueMode s), s)"
| "acceptCallbackMessage fac (UserMessage h None payload) s = (deliver h payload RECEIVE False, s)"

text \<open>
  The loop over the queue: the empty lists at the front are erased; an empty queue may let a
  flush queue grant in.
\<close>

function cleanQueue :: "('t::linorder, 'i) time_management \<Rightarrow> ('t, 'i) time_management" where
  "cleanQueue s =
     (case logicalTimeMessageListMap s of
        [] \<Rightarrow> s
      | (p, ms) # q \<Rightarrow>
          (if ms = [] then cleanQueue (checkForPendingFlushQueue (s\<lparr>logicalTimeMessageListMap := q\<rparr>))
           else s))"
  by pat_completeness auto

termination
  by (relation "measure (\<lambda>s. 2 * of_bool (timeAdvanceToBeScheduled s)
        + length (logicalTimeMessageListMap s))")
    (auto simp: checkForPendingFlushQueue_def queueMessage_def signal_def)

declare cleanQueue.simps [simp del]

definition popTimeStamped ::
    "('t, 'i) time_management \<Rightarrow> (callback_message \<times> ('t, 'i) time_management) option" where
  "popTimeStamped s =
     (case logicalTimeMessageListMap s of
        (p, m # ms) # q \<Rightarrow>
          Some (m, s\<lparr>logicalTimeMessageListMap := (if ms = [] then q else (p, ms) # q)\<rparr>)
      | _ \<Rightarrow> None)"

definition dispatchCallback ::
    "('t::linorder, 'i::linorder) time_factory \<Rightarrow> ('t, 'i) time_management
      \<Rightarrow> 't federate_event option \<times> ('t, 'i) time_management" where
  "dispatchCallback fac s =
     (if receiveOrderMessagesPermitted s \<and> receiveOrderMessages s \<noteq> []
      then (let (e, s1) = acceptCallbackMessage fac (hd (receiveOrderMessages s))
                            (s\<lparr>receiveOrderMessages := tl (receiveOrderMessages s)\<rparr>)
            in (Some e, s1))
      else
        (let s1 = cleanQueue (checkForPendingFlushQueue s)
         in if logicalTimeMessageListMap s1 = [] \<or> \<not> timeStampOrderMessagesPermitted s1
            then (None, s1)
            else case popTimeStamped s1 of
                   None \<Rightarrow> (None, s1)
                 | Some (m, s2) \<Rightarrow> (let (e, s3) = acceptCallbackMessage fac m s2 in (Some e, s3))))"

definition callbackMessageAvailable ::
    "('t::linorder, 'i) time_management \<Rightarrow> bool \<times> ('t, 'i) time_management" where
  "callbackMessageAvailable s =
     (if receiveOrderMessagesPermitted s \<and> receiveOrderMessages s \<noteq> [] then (True, s)
      else
        (let s1 = cleanQueue (checkForPendingFlushQueue s)
         in (logicalTimeMessageListMap s1 \<noteq> [] \<and> timeStampOrderMessagesPermitted s1, s1)))"

end
