(* ===== verification/Time_Services.thy ===== *)
theory Time_Services
  imports Time_Management
begin

text \<open>
  The time management services of \<open>src/OpenRTI/Ambassador.h\<close>: the checks each of them makes, in
  their order, before it calls the time management. An exception is the left value of the result.
\<close>

datatype service_error =
  NotConnected | FederateNotExecutionMember
| TimeRegulationAlreadyEnabled | TimeRegulationIsNotEnabled | RequestForTimeRegulationPending
| TimeConstrainedAlreadyEnabled | TimeConstrainedIsNotEnabled | RequestForTimeConstrainedPending
| InTimeAdvancingState | LogicalTimeAlreadyPassed | InvalidLogicalTime | InvalidLookahead
| AsynchronousDeliveryAlreadyEnabled | AsynchronousDeliveryAlreadyDisabled
| AllowPendingTimeAlreadyEnabled | AllowPendingTimeAlreadyDisabled

text \<open>The two checks every service begins with.\<close>

definition checkMember :: "ambassador \<Rightarrow> service_error option" where
  "checkMember env =
     (if \<not> isConnected env then Some NotConnected
      else if \<not> timeManagementValid env then Some FederateNotExecutionMember
      else None)"

definition svc_enableTimeRegulation ::
    "('t::linorder, 'i::linorder) time_factory \<Rightarrow> ambassador \<Rightarrow> 'i \<Rightarrow> ('t, 'i) time_management
      \<Rightarrow> service_error + ('t, 'i) time_management" where
  "svc_enableTimeRegulation fac env lookahead s =
     (case checkMember env of Some e \<Rightarrow> Inl e
      | None \<Rightarrow>
          if getTimeRegulationEnabled s then Inl TimeRegulationAlreadyEnabled
          else if getTimeRegulationEnablePending s then Inl RequestForTimeRegulationPending
          else if getTimeAdvancePending s then Inl InTimeAdvancingState
          else if \<not> zeroLogicalTimeInterval fac \<le> lookahead then Inl InvalidLookahead
          else Inr (enableTimeRegulation fac env (fst (logicalTime s)) lookahead s))"

text \<open>The RTI 1.3 variant that also gives the time to start at.\<close>

definition svc_enableTimeRegulationAt ::
    "('t::linorder, 'i::linorder) time_factory \<Rightarrow> ambassador \<Rightarrow> 't \<Rightarrow> 'i \<Rightarrow> ('t, 'i) time_management
      \<Rightarrow> service_error + ('t, 'i) time_management" where
  "svc_enableTimeRegulationAt fac env t lookahead s =
     (case checkMember env of Some e \<Rightarrow> Inl e
      | None \<Rightarrow>
          if getTimeRegulationEnabled s then Inl TimeRegulationAlreadyEnabled
          else if getTimeRegulationEnablePending s then Inl RequestForTimeRegulationPending
          else if getTimeAdvancePending s then Inl InTimeAdvancingState
          else if isLogicalTimeInThePast t s then Inl InvalidLogicalTime
          else if \<not> zeroLogicalTimeInterval fac \<le> lookahead then Inl InvalidLookahead
          else Inr (enableTimeRegulation fac env t lookahead s))"

definition svc_disableTimeRegulation ::
    "('t, 'i) time_factory \<Rightarrow> ambassador \<Rightarrow> ('t, 'i) time_management
      \<Rightarrow> service_error + ('t, 'i) time_management" where
  "svc_disableTimeRegulation fac env s =
     (case checkMember env of Some e \<Rightarrow> Inl e
      | None \<Rightarrow>
          if \<not> getTimeRegulationEnabled s then Inl TimeRegulationIsNotEnabled
          else Inr (disableTimeRegulation fac env s))"

definition svc_enableTimeConstrained ::
    "ambassador \<Rightarrow> ('t::linorder, 'i) time_management \<Rightarrow> service_error + ('t, 'i) time_management" where
  "svc_enableTimeConstrained env s =
     (case checkMember env of Some e \<Rightarrow> Inl e
      | None \<Rightarrow>
          if getTimeConstrainedEnabled s then Inl TimeConstrainedAlreadyEnabled
          else if getTimeConstrainedEnablePending s then Inl RequestForTimeConstrainedPending
          else if getTimeAdvancePending s then Inl InTimeAdvancingState
          else Inr (enableTimeConstrained env s))"

definition svc_disableTimeConstrained ::
    "ambassador \<Rightarrow> ('t, 'i) time_management \<Rightarrow> service_error + ('t, 'i) time_management" where
  "svc_disableTimeConstrained env s =
     (case checkMember env of Some e \<Rightarrow> Inl e
      | None \<Rightarrow>
          if \<not> getTimeConstrainedEnabled s then Inl TimeConstrainedIsNotEnabled
          else Inr (disableTimeConstrained env s))"

text \<open>The checks of the five kinds of time advance request.\<close>

definition checkTimeAdvance ::
    "ambassador \<Rightarrow> 't::linorder \<Rightarrow> ('t, 'i) time_management \<Rightarrow> service_error option" where
  "checkTimeAdvance env t s =
     (case checkMember env of Some e \<Rightarrow> Some e
      | None \<Rightarrow>
          if isLogicalTimeInThePast t s then Some LogicalTimeAlreadyPassed
          else if getTimeAdvancePending s then Some InTimeAdvancingState
          else if getTimeRegulationEnablePending s then Some RequestForTimeRegulationPending
          else if getTimeConstrainedEnablePending s then Some RequestForTimeConstrainedPending
          else None)"

definition svc_timeAdvanceRequest ::
    "('t::linorder, 'i::linorder) time_factory \<Rightarrow> ambassador \<Rightarrow> 't \<Rightarrow> ('t, 'i) time_management
      \<Rightarrow> service_error + ('t, 'i) time_management option" where
  "svc_timeAdvanceRequest fac env t s =
     (case checkTimeAdvance env t s of Some e \<Rightarrow> Inl e
      | None \<Rightarrow> Inr (timeAdvanceRequest fac env [] t TimeAdvanceRequest s))"

definition svc_timeAdvanceRequestAvailable ::
    "('t::linorder, 'i::linorder) time_factory \<Rightarrow> ambassador \<Rightarrow> 't \<Rightarrow> ('t, 'i) time_management
      \<Rightarrow> service_error + ('t, 'i) time_management option" where
  "svc_timeAdvanceRequestAvailable fac env t s =
     (case checkTimeAdvance env t s of Some e \<Rightarrow> Inl e
      | None \<Rightarrow> Inr (timeAdvanceRequest fac env [] t TimeAdvanceRequestAvailable s))"

definition svc_nextMessageRequest ::
    "('t::linorder, 'i::linorder) time_factory \<Rightarrow> ambassador \<Rightarrow> 't \<Rightarrow> ('t, 'i) time_management
      \<Rightarrow> service_error + ('t, 'i) time_management option" where
  "svc_nextMessageRequest fac env t s =
     (case checkTimeAdvance env t s of Some e \<Rightarrow> Inl e
      | None \<Rightarrow> Inr (timeAdvanceRequest fac env [] t NextMessageRequest s))"

definition svc_nextMessageRequestAvailable ::
    "('t::linorder, 'i::linorder) time_factory \<Rightarrow> ambassador \<Rightarrow> 't \<Rightarrow> ('t, 'i) time_management
      \<Rightarrow> service_error + ('t, 'i) time_management option" where
  "svc_nextMessageRequestAvailable fac env t s =
     (case checkTimeAdvance env t s of Some e \<Rightarrow> Inl e
      | None \<Rightarrow> Inr (timeAdvanceRequest fac env [] t NextMessageRequestAvailable s))"

text \<open>The flush queue request also takes the internal messages that have arrived.\<close>

definition svc_flushQueueRequest ::
    "('t::linorder, 'i::linorder) time_factory \<Rightarrow> ambassador \<Rightarrow> 't tm_message list \<Rightarrow> 't
      \<Rightarrow> ('t, 'i) time_management \<Rightarrow> service_error + ('t, 'i) time_management option" where
  "svc_flushQueueRequest fac env inbox t s =
     (case checkTimeAdvance env t s of Some e \<Rightarrow> Inl e
      | None \<Rightarrow> Inr (timeAdvanceRequest fac env inbox t FlushQueueRequest s))"

definition svc_enableAsynchronousDelivery ::
    "ambassador \<Rightarrow> ('t, 'i) time_management \<Rightarrow> service_error + ('t, 'i) time_management" where
  "svc_enableAsynchronousDelivery env s =
     (case checkMember env of Some e \<Rightarrow> Inl e
      | None \<Rightarrow>
          if asynchronousDeliveryEnabled s then Inl AsynchronousDeliveryAlreadyEnabled
          else Inr (s\<lparr>asynchronousDeliveryEnabled := True\<rparr>))"

definition svc_disableAsynchronousDelivery ::
    "ambassador \<Rightarrow> ('t, 'i) time_management \<Rightarrow> service_error + ('t, 'i) time_management" where
  "svc_disableAsynchronousDelivery env s =
     (case checkMember env of Some e \<Rightarrow> Inl e
      | None \<Rightarrow>
          if \<not> asynchronousDeliveryEnabled s then Inl AsynchronousDeliveryAlreadyDisabled
          else Inr (s\<lparr>asynchronousDeliveryEnabled := False\<rparr>))"

definition svc_allowPendingTime ::
    "ambassador \<Rightarrow> ('t, 'i) time_management \<Rightarrow> service_error + ('t, 'i) time_management" where
  "svc_allowPendingTime env s =
     (case checkMember env of Some e \<Rightarrow> Inl e
      | None \<Rightarrow>
          if allowPendingTimeInNextMessageRequest s then Inl AllowPendingTimeAlreadyEnabled
          else Inr (s\<lparr>allowPendingTimeInNextMessageRequest := True\<rparr>))"

definition svc_disallowPendingTime ::
    "ambassador \<Rightarrow> ('t, 'i) time_management \<Rightarrow> service_error + ('t, 'i) time_management" where
  "svc_disallowPendingTime env s =
     (case checkMember env of Some e \<Rightarrow> Inl e
      | None \<Rightarrow>
          if \<not> allowPendingTimeInNextMessageRequest s then Inl AllowPendingTimeAlreadyDisabled
          else Inr (s\<lparr>allowPendingTimeInNextMessageRequest := False\<rparr>))"

definition svc_modifyLookahead ::
    "('t::linorder, 'i::linorder) time_factory \<Rightarrow> ambassador \<Rightarrow> 'i \<Rightarrow> bool \<Rightarrow> ('t, 'i) time_management
      \<Rightarrow> service_error + ('t, 'i) time_management" where
  "svc_modifyLookahead fac env lookahead checkForTimeRegulation s =
     (case checkMember env of Some e \<Rightarrow> Inl e
      | None \<Rightarrow>
          if checkForTimeRegulation \<and> \<not> getTimeRegulationEnabled s then Inl TimeRegulationIsNotEnabled
          else if \<not> zeroLogicalTimeInterval fac \<le> lookahead then Inl InvalidLookahead
          else if getTimeAdvancePending s \<or> getTimeConstrainedEnablePending s
            then Inl InTimeAdvancingState
          else Inr (modifyLookahead fac env lookahead s))"

definition svc_queryLookahead ::
    "ambassador \<Rightarrow> bool \<Rightarrow> ('t, 'i) time_management \<Rightarrow> service_error + 'i" where
  "svc_queryLookahead env checkForTimeRegulation s =
     (case checkMember env of Some e \<Rightarrow> Inl e
      | None \<Rightarrow>
          if checkForTimeRegulation \<and> \<not> getTimeRegulationEnabled s then Inl TimeRegulationIsNotEnabled
          else Inr (queryLookahead s))"

definition svc_queryGALT ::
    "ambassador \<Rightarrow> ('t, 'i) time_management \<Rightarrow> service_error + 't option" where
  "svc_queryGALT env s =
     (case checkMember env of Some e \<Rightarrow> Inl e | None \<Rightarrow> Inr (queryGALT s))"

definition svc_queryLITS ::
    "ambassador \<Rightarrow> ('t::linorder, 'i) time_management \<Rightarrow> service_error + 't option" where
  "svc_queryLITS env s =
     (case checkMember env of Some e \<Rightarrow> Inl e | None \<Rightarrow> Inr (queryLITS s))"

definition svc_queryLogicalTime ::
    "ambassador \<Rightarrow> ('t, 'i) time_management \<Rightarrow> service_error + 't" where
  "svc_queryLogicalTime env s =
     (case checkMember env of Some e \<Rightarrow> Inl e | None \<Rightarrow> Inr (queryLogicalTime s))"

end
