(* ===== verification/Time_Safety.thy ===== *)
theory Time_Safety
  imports Time_Services "HOL-Library.Option_ord"
begin

text \<open>
  The guarantee of a time regulating federate: what it has committed never exceeds the bound below
  which it refuses to send. It is the fact that most assertions of
  \<open>src/OpenRTI/TemplateTimeManagement.h\<close> repeat.
\<close>

subsection \<open>The effect of the senders\<close>

text \<open>Each of them only changes the queue, the outgoing messages and the commits.\<close>

lemma signal_eq: "\<exists>n. signal s = s\<lparr>signals := n\<rparr>"
  by (cases "notificationHandle s") (auto simp: signal_def intro: exI[of _ "signals s"])

lemma queueMessage_eq:
  "\<exists>n. queueMessage p m s =
     s\<lparr>logicalTimeMessageListMap := smap_update p
        (case map_of (logicalTimeMessageListMap s) p of None \<Rightarrow> [m] | Some ms \<Rightarrow> ms @ [m])
        (logicalTimeMessageListMap s), signals := n\<rparr>"
  using signal_eq unfolding queueMessage_def by blast

lemma queueMessageE:
  obtains q n where "queueMessage p m s = s\<lparr>logicalTimeMessageListMap := q, signals := n\<rparr>"
  using queueMessage_eq by metis

lemma notifyLockedE: obtains w where "notifyLocked env b s = s\<lparr>sent := w\<rparr>"
proof -
  have "notifyLocked env b s = s\<lparr>sent := (if b \<noteq> getLockedByNextMessage s
      then sent s @ [LockedByNextMessageRequest (ownHandle env) (getLockedByNextMessage s)]
      else sent s)\<rparr>"
    by (simp add: notifyLocked_def sendLockedByNextMessageRequest_def send_def Let_def)
  then show thesis by (rule that)
qed

lemma sendCommitResponseE: obtains w where "sendCommitResponse env f cid s = s\<lparr>sent := w\<rparr>"
proof -
  have "sendCommitResponse env f cid s = s\<lparr>sent := (if handle_valid (ownHandle env)
      then sent s @ [CommitLowerBoundTimeStampResponse f cid (ownHandle env)] else sent s)\<rparr>"
    by (simp add: sendCommitResponse_def send_def)
  then show thesis by (rule that)
qed

lemma sendCommitResponses_fold:
  "\<exists>w. fold (\<lambda>(f, cid). sendCommitResponse env f cid) xs s = s\<lparr>sent := w\<rparr>"
proof (induction xs arbitrary: s)
  case Nil
  show ?case by (intro exI[of _ "sent s"]) simp
next
  case (Cons x xs)
  obtain f cid where x: "x = (f, cid)" by (cases x)
  obtain w where w: "sendCommitResponse env f cid s = s\<lparr>sent := w\<rparr>"
    by (rule sendCommitResponseE)
  show ?case using Cons[of "s\<lparr>sent := w\<rparr>"] by (simp add: x w)
qed

lemma sendCommitResponsesE: obtains w where "sendCommitResponses env s = s\<lparr>sent := w\<rparr>"
  using sendCommitResponses_fold unfolding sendCommitResponses_def by blast

lemma has_TimeAdvance_without [simp]:
  "has_TimeAdvanceCommit (without_NextMessageCommit c) = has_TimeAdvanceCommit c"
  "\<not> has_TimeAdvanceCommit (without_TimeAdvanceCommit c)"
  "has_NextMessageCommit (without_TimeAdvanceCommit c) = has_NextMessageCommit c"
  "\<not> has_NextMessageCommit (without_NextMessageCommit c)"
  by (cases c; simp)+

text \<open>The effect of a commit: the committed time grows to \<open>t\<close> when it is a time advance.\<close>

lemma sendCommit_eq:
  "\<exists>n w. sendCommitLowerBoundTimeStamp env t ct s =
     s\<lparr>committedOutboundLowerBoundTimeStamp :=
         (if has_TimeAdvanceCommit ct then t else committedOutboundLowerBoundTimeStamp s),
       committedNextMessageLowerBoundTimeStamp :=
         (if has_NextMessageCommit ct then t else committedNextMessageLowerBoundTimeStamp s),
       ownCommitId := n, sent := w\<rparr> \<and> (\<not> has_NextMessageCommit ct \<longrightarrow> n = ownCommitId s)"
proof -
  define n where "n = ownCommitId s + of_bool (has_NextMessageCommit ct \<and>
    (if has_TimeAdvanceCommit ct then t else committedOutboundLowerBoundTimeStamp s) \<noteq> t)"
  show ?thesis
    by (rule exI[of _ n], rule exI[of _ "sent s @ [CommitLowerBoundTimeStamp (ownHandle env) t ct n]"])
      (simp add: sendCommitLowerBoundTimeStamp_def send_def Let_def n_def)
qed

lemma sendCommitIfChangedE:
  assumes "ct \<noteq> CommitNone"
  obtains y n w where "sendCommitIfChanged env t ct s =
     s\<lparr>committedOutboundLowerBoundTimeStamp :=
         (if has_TimeAdvanceCommit ct then max (committedOutboundLowerBoundTimeStamp s) t
          else committedOutboundLowerBoundTimeStamp s),
       committedNextMessageLowerBoundTimeStamp := y, ownCommitId := n, sent := w\<rparr>"
    and "\<not> has_NextMessageCommit ct \<Longrightarrow> n = ownCommitId s"
proof -
  let ?keep = "s\<lparr>committedOutboundLowerBoundTimeStamp := committedOutboundLowerBoundTimeStamp s,
     committedNextMessageLowerBoundTimeStamp := committedNextMessageLowerBoundTimeStamp s,
     ownCommitId := ownCommitId s, sent := sent s\<rparr>"
  define ct1 where "ct1 = (if has_TimeAdvanceCommit ct \<and> \<not> committedOutboundLowerBoundTimeStamp s < t
      then without_TimeAdvanceCommit ct else ct)"
  define ct2 where "ct2 = (if has_NextMessageCommit ct1 \<and> committedNextMessageLowerBoundTimeStamp s = t
      then without_NextMessageCommit ct1 else ct1)"
  have eq: "sendCommitIfChanged env t ct s =
      (if t < committedOutboundLowerBoundTimeStamp s \<or> ct2 = CommitNone then s
       else sendCommitLowerBoundTimeStamp env t ct2 s)"
    by (simp add: sendCommitIfChanged_def ct1_def ct2_def Let_def)
  have ta: "has_TimeAdvanceCommit ct2 \<longleftrightarrow>
      has_TimeAdvanceCommit ct \<and> committedOutboundLowerBoundTimeStamp s < t"
    by (auto simp: ct2_def ct1_def)
  have nm: "has_NextMessageCommit ct2 \<Longrightarrow> has_NextMessageCommit ct"
    by (auto simp: ct2_def ct1_def split: if_splits)
  show thesis
  proof (cases "t < committedOutboundLowerBoundTimeStamp s \<or> ct2 = CommitNone")
    case True
    then have c: "(if has_TimeAdvanceCommit ct then max (committedOutboundLowerBoundTimeStamp s) t
          else committedOutboundLowerBoundTimeStamp s) = committedOutboundLowerBoundTimeStamp s"
      using ta by (auto simp: max_def)
    have keep: "?keep = s" by simp
    have "sendCommitIfChanged env t ct s = s" using True eq by simp
    then have "sendCommitIfChanged env t ct s =
       s\<lparr>committedOutboundLowerBoundTimeStamp :=
           (if has_TimeAdvanceCommit ct then max (committedOutboundLowerBoundTimeStamp s) t
            else committedOutboundLowerBoundTimeStamp s),
         committedNextMessageLowerBoundTimeStamp := committedNextMessageLowerBoundTimeStamp s,
         ownCommitId := ownCommitId s, sent := sent s\<rparr>"
      by (simp only: c keep)
    then show thesis by (rule that) simp
  next
    case False
    obtain n w where nw: "sendCommitLowerBoundTimeStamp env t ct2 s =
       s\<lparr>committedOutboundLowerBoundTimeStamp :=
           (if has_TimeAdvanceCommit ct2 then t else committedOutboundLowerBoundTimeStamp s),
         committedNextMessageLowerBoundTimeStamp :=
           (if has_NextMessageCommit ct2 then t else committedNextMessageLowerBoundTimeStamp s),
         ownCommitId := n, sent := w\<rparr>" and n: "\<not> has_NextMessageCommit ct2 \<longrightarrow> n = ownCommitId s"
      using sendCommit_eq[of env t ct2 s] by (elim exE conjE)
    have c: "(if has_TimeAdvanceCommit ct2 then t else committedOutboundLowerBoundTimeStamp s)
        = (if has_TimeAdvanceCommit ct then max (committedOutboundLowerBoundTimeStamp s) t
           else committedOutboundLowerBoundTimeStamp s)"
      using False ta by (auto simp: max_def)
    have "sendCommitIfChanged env t ct s = sendCommitLowerBoundTimeStamp env t ct2 s"
      using False eq by simp
    from this[unfolded nw c] show thesis by (rule that) (use n nm in blast)
  qed
qed

text \<open>The bound that \<open>t\<close> and the target lookahead give.\<close>

definition lookaheadBound :: "('t, 'i) time_factory \<Rightarrow> 't \<Rightarrow> ('t, 'i) time_management \<Rightarrow> 't" where
  "lookaheadBound fac t s = toLogicalTime fac (addInterval fac t (targetLookahead s),
     getOutboundLowerTimeStampSecondField fac (targetLookahead s) s)"

lemma sendCommitLookaheadE:
  assumes "ct \<noteq> CommitNone"
  obtains y n w where "sendCommitLookaheadIfChanged fac env t (targetLookahead s) ct s =
     s\<lparr>committedOutboundLowerBoundTimeStamp :=
         (if has_TimeAdvanceCommit ct
          then max (committedOutboundLowerBoundTimeStamp s) (lookaheadBound fac t s)
          else committedOutboundLowerBoundTimeStamp s),
       committedNextMessageLowerBoundTimeStamp := y, ownCommitId := n, sent := w\<rparr>"
    and "\<not> has_NextMessageCommit ct \<Longrightarrow> n = ownCommitId s"
proof -
  have "getOutboundLowerTimeStampSecondField fac la s \<noteq> 0
      \<longleftrightarrow> 0 < getOutboundLowerTimeStampSecondField fac la s" for la
    by (simp add: getOutboundLowerTimeStampSecondField_def)
  then have eq: "sendCommitLookaheadIfChanged fac env t (targetLookahead s) ct s =
      sendCommitIfChanged env (max (lookaheadBound fac t s) (committedOutboundLowerBoundTimeStamp s)) ct s"
    by (simp add: sendCommitLookaheadIfChanged_def lookaheadBound_def toLogicalTime_def Let_def)
  have m: "max c (max l c) = max c l" for c l :: 'a by (simp add: max.commute)
  from sendCommitIfChangedE[OF assms, of env
      "max (lookaheadBound fac t s) (committedOutboundLowerBoundTimeStamp s)" s, folded eq, unfolded m]
  show thesis using that by blast
qed

lemma sendCommitLookahead_advanceE:
  assumes "has_TimeAdvanceCommit ct"
  obtains y n w where "sendCommitLookaheadIfChanged fac env t (targetLookahead s) ct s =
     s\<lparr>committedOutboundLowerBoundTimeStamp :=
         max (committedOutboundLowerBoundTimeStamp s) (lookaheadBound fac t s),
       committedNextMessageLowerBoundTimeStamp := y, ownCommitId := n, sent := w\<rparr>"
    and "\<not> has_NextMessageCommit ct \<Longrightarrow> n = ownCommitId s"
proof -
  have ne: "ct \<noteq> CommitNone" using assms by auto
  obtain y n w where eq: "sendCommitLookaheadIfChanged fac env t (targetLookahead s) ct s =
     s\<lparr>committedOutboundLowerBoundTimeStamp :=
         (if has_TimeAdvanceCommit ct
          then max (committedOutboundLowerBoundTimeStamp s) (lookaheadBound fac t s)
          else committedOutboundLowerBoundTimeStamp s),
       committedNextMessageLowerBoundTimeStamp := y, ownCommitId := n, sent := w\<rparr>"
    and n: "\<not> has_NextMessageCommit ct \<Longrightarrow> n = ownCommitId s"
    by (rule sendCommitLookaheadE[OF ne, of fac env t s], rule that)
  from assms have "has_TimeAdvanceCommit ct = True" by simp
  from eq[unfolded this if_True] n show thesis by (rule that)
qed

lemma sendCommitLookahead_nextE:
  obtains y n w where "sendCommitLookaheadIfChanged fac env t (targetLookahead s) NextMessageCommit s =
     s\<lparr>committedOutboundLowerBoundTimeStamp := committedOutboundLowerBoundTimeStamp s,
       committedNextMessageLowerBoundTimeStamp := y, ownCommitId := n, sent := w\<rparr>"
proof -
  have ne: "NextMessageCommit \<noteq> CommitNone" by simp
  show thesis
    by (rule sendCommitLookaheadE[OF ne, of fac env t s], rule that) simp
qed

subsection \<open>The invariant\<close>

text \<open>A request of the next message or flush queue kind by a regulating federate is pending.\<close>

definition advancing :: "('t, 'i) time_management \<Rightarrow> bool" where
  "advancing s \<longleftrightarrow>
     (getIsAnyNextMessageMode s \<or> getFlushQueueMode s) \<and> getTimeRegulationEnabled s"

text \<open>
  The time up to which the federate may have relied on the promises of the others in state
  \<open>s\<close>: the greatest available time, or its pending time once the grant is scheduled.
\<close>

definition usedBound :: "('t::linorder, 'i) time_management \<Rightarrow> 't option" where
  "usedBound s =
     (if timeAdvanceToBeScheduled s \<and> getIsAnyNextMessageMode s
      then map_option (min (fst (pendingLogicalTime s)))
             (if getIsSafeToAdvanceToNextMessage s
              then lb_getNextMessageGALT (federateLowerBoundMap s)
              else lb_getGALT (federateLowerBoundMap s))
      else Some (fst (pendingLogicalTime s)))"

text \<open>The greatest such time since the request, in a run that comes to state \<open>s\<close>.\<close>

definition relied :: "'t option \<Rightarrow> ('t::linorder, 'i) time_management \<Rightarrow> 't option" where
  "relied g s = (if advancing s then max g (usedBound s) else None)"

definition tm_inv ::
    "('t::linorder, 'i::linorder) time_factory \<Rightarrow> ('t, 'i) time_management \<Rightarrow> 't option \<Rightarrow> bool" where
  [inv_defs]: "tm_inv fac s g \<longleftrightarrow>
     lb_inv (federateLowerBoundMap s) \<and>
     zeroLogicalTimeInterval fac \<le> targetLookahead s \<and>
     (getTimeRegulationEnablePending s \<longrightarrow>
        timeAdvanceMode s = TimeAdvanceGranted \<and> snd (outboundLowerBoundTimeStamp s) = 0) \<and>
     (\<not> getTimeRegulationDisabled s \<longrightarrow>
        committedOutboundLowerBoundTimeStamp s \<le> toLogicalTime fac (outboundLowerBoundTimeStamp s)) \<and>
     (\<not> advancing s \<longrightarrow> g = None) \<and>
     (advancing s \<longrightarrow>
        lookaheadBound fac (fst (pendingLogicalTime s)) s
          \<le> toLogicalTime fac (outboundLowerBoundTimeStamp s) \<and>
        (committedOutboundLowerBoundTimeStamp s
            \<le> toLogicalTime fac (lastOutboundLowerBoundTimeStamp s) \<or>
         (\<exists>b. g = Some b \<and> committedOutboundLowerBoundTimeStamp s \<le> lookaheadBound fac b s)) \<and>
        (\<forall>b. g = Some b \<longrightarrow> b \<le> fst (pendingLogicalTime s)))"

lemmas tm_simps = tm_inv_def advancing_def lookaheadBound_def mode_defs
  getOutboundLowerTimeStampSecondField_def

text \<open>The fields the invariant does not look at.\<close>

lemma tm_inv_frame [simp]:
  "tm_inv fac (s\<lparr>logicalTimeMessageListMap := q, signals := n\<rparr>) g = tm_inv fac s g"
  "tm_inv fac (s\<lparr>logicalTimeMessageListMap := q\<rparr>) g = tm_inv fac s g"
  "tm_inv fac (s\<lparr>receiveOrderMessages := r\<rparr>) g = tm_inv fac s g"
  "tm_inv fac (s\<lparr>signals := n\<rparr>) g = tm_inv fac s g"
  "tm_inv fac (s\<lparr>notificationHandle := h\<rparr>) g = tm_inv fac s g"
  "tm_inv fac (s\<lparr>sent := w\<rparr>) g = tm_inv fac s g"
  "tm_inv fac (s\<lparr>committedNextMessageLowerBoundTimeStamp := y, ownCommitId := c, sent := w\<rparr>) g
    = tm_inv fac s g"
  "tm_inv fac (s\<lparr>timeAdvanceToBeScheduled := b\<rparr>) g = tm_inv fac s g"
  "tm_inv fac (s\<lparr>enableFederateHandleSet := hs\<rparr>) g = tm_inv fac s g"
  "tm_inv fac (s\<lparr>enableFederateTimeStampMap := ts\<rparr>) g = tm_inv fac s g"
  "tm_inv fac (s\<lparr>logicalTime := lt\<rparr>) g = tm_inv fac s g"
  "tm_inv fac (s\<lparr>timeConstrainedMode := cm\<rparr>) g = tm_inv fac s g"
  "tm_inv fac (s\<lparr>asynchronousDeliveryEnabled := ad\<rparr>) g = tm_inv fac s g"
  "tm_inv fac (s\<lparr>allowPendingTimeInNextMessageRequest := ap\<rparr>) g = tm_inv fac s g"
  by (simp_all add: tm_simps)

lemma tm_inv_lb:
  "tm_inv fac s g \<Longrightarrow> lb_inv m \<Longrightarrow> tm_inv fac (s\<lparr>federateLowerBoundMap := m\<rparr>) g"
  by (simp add: tm_simps)

lemma getIsSafe_GALT:
  assumes "getIsSafeToAdvanceToNextMessage s" "lb_getNextMessageGALT (federateLowerBoundMap s) = Some n"
    and "lb_getGALT (federateLowerBoundMap s) = Some t"
  shows "t < n"
  using assms
  by (auto simp: getIsSafeToAdvanceToNextMessage_def lb_getIsSafeToAdvanceToNextMessage_def
      lb_getConstrainedByNextMessage_def lb_getNextMessageGALT_def lb_getGALT_def
      split: if_splits list.splits)

lemma cannot_advance:
  assumes "lb_inv (federateLowerBoundMap s)"
  shows "\<not> canAdvanceTo (p, 0) s \<Longrightarrow> \<exists>t. lb_getGALT (federateLowerBoundMap s) = Some t \<and> t < p"
    and "\<not> canAdvanceToNextMessage (p, 0) s \<Longrightarrow>
      \<exists>t. lb_getNextMessageGALT (federateLowerBoundMap s) = Some t \<and> t < p"
  using lb_empty_iff[OF assms] lb_nm_empty_iff[OF assms]
  by (auto simp: canAdvanceTo_def canAdvanceToNextMessage_def lb_canAdvanceTo_def
      lb_canAdvanceToNextMessage_def lb_getGALT_def lb_getNextMessageGALT_def lb_empty_def
      split: if_splits list.splits)

lemma usedBound_le: "usedBound s = Some b \<Longrightarrow> b \<le> fst (pendingLogicalTime s)"
  by (auto simp: usedBound_def split: if_splits)

lemma max_option_Some:
  fixes g :: "'a::linorder option"
  shows "max g h = Some b \<Longrightarrow> g = Some b \<or> h = Some b"
  by (cases "g \<le> h") (auto simp: max_def)

lemma relied_ge: "advancing s \<Longrightarrow> g = Some b \<Longrightarrow> \<exists>b'. relied g s = Some b' \<and> b \<le> b'"
  by (cases "usedBound s") (auto simp: relied_def max_def)

context time_laws
begin

lemma toLogicalTime_mono: "p \<le> q \<Longrightarrow> toLogicalTime fac p \<le> toLogicalTime fac q"
proof -
  assume le: "p \<le> q"
  show ?thesis
  proof (cases "fst p < fst q")
    case True
    then have "nextAfter fac (fst p) \<le> fst q" by (simp add: nextAfter_le_iff)
    moreover have "fst q \<le> nextAfter fac (fst q)" using nextAfter_less less_imp_le by blast
    moreover have "fst p \<le> fst q" using True by simp
    ultimately show ?thesis by (auto simp: toLogicalTime_def intro: order_trans)
  next
    case False
    with le have "fst p = fst q" "snd p \<le> snd q" by (auto simp: less_eq_prod_def)
    then show ?thesis by (auto simp: toLogicalTime_def less_imp_le)
  qed
qed

lemma lookaheadBound_mono: "t \<le> u \<Longrightarrow> lookaheadBound fac t s \<le> lookaheadBound fac u s"
  unfolding lookaheadBound_def
  by (rule toLogicalTime_mono) (use add_mono in \<open>auto simp: less_eq_prod_def less_le\<close>)

lemma tm_inv_relied:
  assumes inv: "tm_inv fac s g"
  shows "tm_inv fac s (relied g s)"
proof (cases "advancing s")
  case True
  have le: "b \<le> fst (pendingLogicalTime s)" if "relied g s = Some b" for b
    using that True max_option_Some[of g "usedBound s" b] usedBound_le[of s b] inv
    by (auto simp: relied_def tm_inv_def)
  have "committedOutboundLowerBoundTimeStamp s \<le> toLogicalTime fac (lastOutboundLowerBoundTimeStamp s) \<or>
      (\<exists>b. relied g s = Some b \<and> committedOutboundLowerBoundTimeStamp s \<le> lookaheadBound fac b s)"
  proof (cases g)
    case None
    then show ?thesis using inv True by (simp add: tm_inv_def)
  next
    case (Some b)
    obtain b' where b': "relied g s = Some b'" "b \<le> b'" using relied_ge[OF True Some] by blast
    then show ?thesis
      using inv True Some lookaheadBound_mono[of b b' s] by (auto simp: tm_inv_def intro: order_trans)
  qed
  with le inv True show ?thesis by (simp add: tm_inv_def)
next
  case False
  with inv show ?thesis by (simp add: relied_def tm_inv_def)
qed

end

subsection \<open>Every operation keeps the invariant\<close>

text \<open>A next message commit, and a time advance commit up to the bound of \<open>b\<close>.\<close>

lemma tm_inv_commit:
  "tm_inv fac s g \<Longrightarrow>
     tm_inv fac (s\<lparr>committedOutboundLowerBoundTimeStamp := committedOutboundLowerBoundTimeStamp s,
       committedNextMessageLowerBoundTimeStamp := y, ownCommitId := c, sent := w\<rparr>) g"
  by (simp add: tm_simps)

lemma relied_eq:
  "advancing s \<Longrightarrow> usedBound s = Some b \<Longrightarrow> relied g s = Some b' \<longleftrightarrow>
     (case g of None \<Rightarrow> b' = b | Some a \<Rightarrow> b' = max a b)"
  by (cases g) (auto simp: relied_def max_def)

context time_laws
begin

lemma tm_inv_advance:
  assumes inv: "tm_inv fac s g" and adv: "advancing s" and b: "b \<le> fst (pendingLogicalTime s)"
    and used: "usedBound (s\<lparr>committedOutboundLowerBoundTimeStamp :=
        max (committedOutboundLowerBoundTimeStamp s) (lookaheadBound fac b s),
        committedNextMessageLowerBoundTimeStamp := y, ownCommitId := c, sent := w\<rparr>) = Some u"
    and bu: "b \<le> u"
  defines "s' \<equiv> s\<lparr>committedOutboundLowerBoundTimeStamp :=
      max (committedOutboundLowerBoundTimeStamp s) (lookaheadBound fac b s),
      committedNextMessageLowerBoundTimeStamp := y, ownCommitId := c, sent := w\<rparr>"
  shows "tm_inv fac s' (relied g s')"
proof -
  have LA: "lookaheadBound fac t s' = lookaheadBound fac t s" for t
    by (simp add: s'_def lookaheadBound_def getOutboundLowerTimeStampSecondField_def mode_defs)
  have adv': "advancing s'" using adv by (simp add: s'_def advancing_def mode_defs)
  have used': "usedBound s' = Some u" using used by (simp add: s'_def)
  obtain r where r: "relied g s' = Some r" using relied_eq[OF adv' used'] by (cases g) auto
  have ur: "u \<le> r" and gr: "\<forall>a. g = Some a \<longrightarrow> a \<le> r" and
    r_or: "r = u \<or> g = Some r"
    using r relied_eq[OF adv' used', of g r] by (auto split: option.splits simp: max_def)
  have rp: "r \<le> fst (pendingLogicalTime s)"
    using r_or usedBound_le[OF used'] inv adv by (auto simp: tm_inv_def s'_def)
  have B: "lookaheadBound fac (fst (pendingLogicalTime s)) s
      \<le> toLogicalTime fac (outboundLowerBoundTimeStamp s)" using inv adv by (simp add: tm_inv_def)
  have bL: "lookaheadBound fac b s \<le> lookaheadBound fac (fst (pendingLogicalTime s)) s"
    by (rule lookaheadBound_mono[OF b])
  have br: "lookaheadBound fac b s \<le> lookaheadBound fac r s"
    by (rule lookaheadBound_mono) (use bu ur in order)
  have "committedOutboundLowerBoundTimeStamp s \<le> toLogicalTime fac (lastOutboundLowerBoundTimeStamp s) \<or>
      committedOutboundLowerBoundTimeStamp s \<le> lookaheadBound fac r s"
  proof (cases g)
    case None
    then show ?thesis using inv adv by (simp add: tm_inv_def)
  next
    case (Some a)
    with gr have "lookaheadBound fac a s \<le> lookaheadBound fac r s" by (intro lookaheadBound_mono) simp
    with Some inv adv show ?thesis by (auto simp: tm_inv_def)
  qed
  then have E: "committedOutboundLowerBoundTimeStamp s' \<le> toLogicalTime fac (lastOutboundLowerBoundTimeStamp s')
      \<or> committedOutboundLowerBoundTimeStamp s' \<le> lookaheadBound fac r s'"
    using br by (auto simp: LA) (auto simp: s'_def max_def)
  have I1: "committedOutboundLowerBoundTimeStamp s' \<le> toLogicalTime fac (outboundLowerBoundTimeStamp s')"
    using inv adv B bL by (auto simp: s'_def tm_inv_def advancing_def)
  show ?thesis
    using inv adv' E I1 B rp unfolding r
    by (simp add: tm_inv_def LA) (simp add: s'_def advancing_def)
qed

text \<open>The two branches of a scheduled advance: granted, or committed as far as \<open>b\<close>.\<close>

lemma tm_inv_grant:
  assumes inv: "tm_inv fac s g" and nm: "getIsAnyNextMessageMode s"
    and s1: "s1 = queueMessage p m (s\<lparr>timeAdvanceToBeScheduled := False\<rparr>)"
    and s2: "s2 = (if getTimeRegulationEnabled s1
      then sendCommitLookaheadIfChanged fac env (fst (pendingLogicalTime s1)) (targetLookahead s1)
             TimeAdvanceAndNextMessageCommit s1 else s1)"
  shows "tm_inv fac s2 (relied g s2)"
proof -
  obtain q n where s1': "s1 = s\<lparr>timeAdvanceToBeScheduled := False, logicalTimeMessageListMap := q,
      signals := n\<rparr>"
    unfolding s1 by (rule queueMessageE)
  have inv1: "tm_inv fac s1 g" using inv by (simp add: s1')
  show ?thesis
  proof (cases "getTimeRegulationEnabled s1")
    case False
    then show ?thesis using tm_inv_relied[OF inv1] by (simp add: s2)
  next
    case True
    then have adv: "advancing s1" using nm by (simp add: s1' advancing_def mode_defs)
    have ta: "has_TimeAdvanceCommit TimeAdvanceAndNextMessageCommit" by simp
    obtain y c w where snd: "sendCommitLookaheadIfChanged fac env (fst (pendingLogicalTime s1))
          (targetLookahead s1) TimeAdvanceAndNextMessageCommit s1 =
        s1\<lparr>committedOutboundLowerBoundTimeStamp :=
          max (committedOutboundLowerBoundTimeStamp s1) (lookaheadBound fac (fst (pendingLogicalTime s1)) s1),
        committedNextMessageLowerBoundTimeStamp := y, ownCommitId := c, sent := w\<rparr>"
      by (rule sendCommitLookahead_advanceE[OF ta, of fac env "fst (pendingLogicalTime s1)" s1], rule that)
    note s2' = s2[unfolded if_P[OF True], unfolded snd]
    have "usedBound s2 = Some (fst (pendingLogicalTime s1))"
      by (simp add: s2' s1' usedBound_def)
    then show ?thesis
      using tm_inv_advance[OF inv1 adv order_refl, where y = y and c = c and w = w] by (simp add: s2')
  qed
qed

end

context time_laws
begin

lemma tm_inv_hold:
  assumes inv: "tm_inv fac s g" and nm: "getIsAnyNextMessageMode s"
    and sch: "timeAdvanceToBeScheduled s" and reg: "getTimeRegulationEnabled s"
    and bound: "b \<le> fst (pendingLogicalTime s)"
    and used: "\<exists>u \<ge> b. usedBound s = Some u"
  shows "tm_inv fac (sendCommitLookaheadIfChanged fac env b (targetLookahead s) TimeAdvanceCommit s)
    (relied g (sendCommitLookaheadIfChanged fac env b (targetLookahead s) TimeAdvanceCommit s))"
proof -
  have ta: "has_TimeAdvanceCommit TimeAdvanceCommit" by simp
  have adv: "advancing s" using nm reg by (simp add: advancing_def)
  obtain y c w where snd: "sendCommitLookaheadIfChanged fac env b (targetLookahead s) TimeAdvanceCommit s =
      s\<lparr>committedOutboundLowerBoundTimeStamp :=
          max (committedOutboundLowerBoundTimeStamp s) (lookaheadBound fac b s),
        committedNextMessageLowerBoundTimeStamp := y, ownCommitId := c, sent := w\<rparr>"
    and c: "\<not> has_NextMessageCommit TimeAdvanceCommit \<Longrightarrow> c = ownCommitId s"
    by (rule sendCommitLookahead_advanceE[OF ta, of fac env b s], rule that)
  obtain u where u: "usedBound s = Some u" "b \<le> u" using used by blast
  have "usedBound (s\<lparr>committedOutboundLowerBoundTimeStamp :=
          max (committedOutboundLowerBoundTimeStamp s) (lookaheadBound fac b s),
        committedNextMessageLowerBoundTimeStamp := y, ownCommitId := c, sent := w\<rparr>) = Some u"
    using u(1) c by (simp add: usedBound_def getIsSafeToAdvanceToNextMessage_def
        getIsAnyNextMessageMode_def cong: if_cong split del: if_split)
  from tm_inv_advance[OF inv adv bound this u(2)] show ?thesis by (simp add: snd)
qed

lemma tm_inv_check:
  assumes inv: "tm_inv fac s g"
  shows "tm_inv fac (checkForPendingTimeAdvance fac env b s)
    (relied g (checkForPendingTimeAdvance fac env b s))"
proof (cases "timeAdvanceToBeScheduled s \<and> getIsAnyNextMessageMode s")
  case False
  then have "checkForPendingTimeAdvance fac env b s = s"
    by (auto simp: checkForPendingTimeAdvance_def)
  then show ?thesis using tm_inv_relied[OF inv] by simp
next
  case True
  then have sch: "timeAdvanceToBeScheduled s" and nm: "getIsAnyNextMessageMode s" by auto
  have lbi: "lb_inv (federateLowerBoundMap s)" using inv by (simp add: tm_inv_def)
  let ?p = "fst (pendingLogicalTime s)"
  define can where "can = (if b \<and> getIsSafeToAdvanceToNextMessage s
      then canAdvanceToNextMessage (?p, 0) s else canAdvanceTo (?p, 0) s)"
  define bound where "bound = (if b \<and> getIsSafeToAdvanceToNextMessage s
      then lb_getNextMessageGALT (federateLowerBoundMap s) else lb_getGALT (federateLowerBoundMap s))"
  define s1 where "s1 = queueMessage (pendingLogicalTime s) TimeAdvanceGrantedMessage
      (s\<lparr>timeAdvanceToBeScheduled := False\<rparr>)"
  define s2 where "s2 = (if getTimeRegulationEnabled s1
      then sendCommitLookaheadIfChanged fac env (fst (pendingLogicalTime s1)) (targetLookahead s1)
             TimeAdvanceAndNextMessageCommit s1 else s1)"
  have eq: "checkForPendingTimeAdvance fac env b s =
      (if can then s2
       else if getTimeRegulationEnabled s
         then sendCommitLookaheadIfChanged fac env (the bound) (targetLookahead s) TimeAdvanceCommit s
       else s)"
    using sch nm by (simp add: checkForPendingTimeAdvance_def can_def bound_def s2_def s1_def Let_def)
  show ?thesis
  proof (cases can)
    case True
    then show ?thesis using tm_inv_grant[OF inv nm s1_def s2_def] by (simp add: eq)
  next
    case cannot: False
    show ?thesis
    proof (cases "getTimeRegulationEnabled s")
      case False
      then show ?thesis using cannot tm_inv_relied[OF inv] by (simp add: eq)
    next
      case reg: True
      obtain t where t: "bound = Some t" "t < ?p"
        using cannot cannot_advance[OF lbi, of ?p] by (auto simp: can_def bound_def split: if_splits)
      have "\<exists>u \<ge> t. usedBound s = Some u"
      proof (cases "getIsSafeToAdvanceToNextMessage s")
        case False
        then show ?thesis using t sch nm by (simp add: usedBound_def bound_def)
      next
        case safe: True
        have ne: "federateCommits (federateLowerBoundMap s) \<noteq> []"
          using safe lb_empty_iff[OF lbi]
          by (auto simp: getIsSafeToAdvanceToNextMessage_def lb_getIsSafeToAdvanceToNextMessage_def
              lb_getConstrainedByNextMessage_def split: if_splits)
        obtain n where n: "lb_getNextMessageGALT (federateLowerBoundMap s) = Some n"
          using lb_nm_empty_iff[OF lbi] ne
          by (cases "nextMessageCounts (federateLowerBoundMap s)") (auto simp: lb_getNextMessageGALT_def)
        have "t \<le> n"
          using t(1) n getIsSafe_GALT[OF safe n, of t] by (auto simp: bound_def split: if_splits)
        then show ?thesis using safe n t(2) sch nm by (simp add: usedBound_def)
      qed
      then show ?thesis
        using tm_inv_hold[OF inv nm sch reg, of t env] t cannot reg by (simp add: eq)
    qed
  qed
qed

end

subsection \<open>The requests\<close>

lemma prod_fst_le: "p \<le> q \<Longrightarrow> fst p \<le> fst q" for p q :: "'a::linorder \<times> int"
  by (auto simp: less_eq_prod_def less_imp_le)

text \<open>What a request has set up before it is treated by kind.\<close>

definition requested ::
    "('t::linorder, 'i::linorder) time_factory \<Rightarrow> 't \<Rightarrow> ('t, 'i) time_management \<Rightarrow> bool" where
  "requested fac t s \<longleftrightarrow>
     tm_inv fac s None \<and> fst (logicalTime s) \<le> t \<and> fst (pendingLogicalTime s) \<le> t \<and>
     (getTimeRegulationEnabled s \<longrightarrow>
        lookaheadBound fac t s \<le> toLogicalTime fac (outboundLowerBoundTimeStamp s))"

lemma advancing_frame:
  "advancing (s\<lparr>committedOutboundLowerBoundTimeStamp := x,
       committedNextMessageLowerBoundTimeStamp := y, ownCommitId := c, sent := w\<rparr>) = advancing s"
  "advancing (s\<lparr>pendingLogicalTime := p\<rparr>) = advancing s"
  "advancing (s\<lparr>outboundLowerBoundTimeStamp := o1\<rparr>) = advancing s"
  "advancing (s\<lparr>currentLookahead := la, outboundLowerBoundTimeStamp := o1\<rparr>) = advancing s"
  by (simp_all add: advancing_def mode_defs)

lemma tm_inv_commit_outbound:
  "tm_inv fac s g \<Longrightarrow> \<not> advancing s \<Longrightarrow>
     tm_inv fac (s\<lparr>committedOutboundLowerBoundTimeStamp :=
         max (committedOutboundLowerBoundTimeStamp s) (toLogicalTime fac (outboundLowerBoundTimeStamp s)),
       committedNextMessageLowerBoundTimeStamp := y, ownCommitId := c, sent := w\<rparr>) g"
  by (simp add: tm_inv_def advancing_frame)

lemma tm_inv_pending:
  assumes "tm_inv fac s g"
    and "advancing s \<Longrightarrow> lookaheadBound fac (fst p) s \<le> toLogicalTime fac (outboundLowerBoundTimeStamp s)"
    and "\<And>b. g = Some b \<Longrightarrow> advancing s \<Longrightarrow> b \<le> fst p"
  shows "tm_inv fac (s\<lparr>pendingLogicalTime := p\<rparr>) g"
  using assms by (simp add: tm_simps)

context time_laws
begin

lemma setOutbound_bounds:
  assumes s'_def: "s' = setOutboundLowerTimeStampAndCurrentLookahead fac t o0 s"
  shows "toLogicalTime fac o0 \<le> toLogicalTime fac (outboundLowerBoundTimeStamp s')"
    and "lookaheadBound fac t s \<le> toLogicalTime fac (outboundLowerBoundTimeStamp s')"
    and "outboundLowerBoundTimeStamp s' = max (addInterval fac t (targetLookahead s),
           getOutboundLowerTimeStampSecondField fac (targetLookahead s) s) o0"
    and "\<exists>la. s' = s\<lparr>currentLookahead := la, outboundLowerBoundTimeStamp := outboundLowerBoundTimeStamp s'\<rparr>"
proof -
  show o: "outboundLowerBoundTimeStamp s' = max (addInterval fac t (targetLookahead s),
           getOutboundLowerTimeStampSecondField fac (targetLookahead s) s) o0"
    by (auto simp: s'_def setOutboundLowerTimeStampAndCurrentLookahead_def Let_def max_def)
  then show "toLogicalTime fac o0 \<le> toLogicalTime fac (outboundLowerBoundTimeStamp s')"
    "lookaheadBound fac t s \<le> toLogicalTime fac (outboundLowerBoundTimeStamp s')"
    unfolding lookaheadBound_def by (auto intro!: toLogicalTime_mono)
  show "\<exists>la. s' = s\<lparr>currentLookahead := la, outboundLowerBoundTimeStamp := outboundLowerBoundTimeStamp s'\<rparr>"
    by (auto simp: s'_def setOutboundLowerTimeStampAndCurrentLookahead_def Let_def)
qed

lemma lookaheadBound_frame [simp]:
  "lookaheadBound fac t (s\<lparr>currentLookahead := la, outboundLowerBoundTimeStamp := ob\<rparr>) = lookaheadBound fac t s"
  "lookaheadBound fac t (s\<lparr>pendingLogicalTime := p\<rparr>) = lookaheadBound fac t s"
  "lookaheadBound fac t (s\<lparr>timeAdvanceToBeScheduled := b\<rparr>) = lookaheadBound fac t s"
  "lookaheadBound fac t (s\<lparr>lastOutboundLowerBoundTimeStamp := ob\<rparr>) = lookaheadBound fac t s"
  by (simp_all add: tm_simps)

lemma requested_cut:
  assumes "requested fac t s"
  shows "requested fac t (cutPendingToQueue s)"
proof -
  have "requested fac t (s\<lparr>pendingLogicalTime := p\<rparr>)" if "fst p \<le> fst (pendingLogicalTime s)" for p
  proof -
    have "fst p \<le> t" using assms that by (auto simp: requested_def)
    then have "advancing s \<Longrightarrow> lookaheadBound fac (fst p) s
        \<le> toLogicalTime fac (outboundLowerBoundTimeStamp s)"
      using assms lookaheadBound_mono[of "fst p" t s] by (auto simp: requested_def advancing_def)
    with \<open>fst p \<le> t\<close> show ?thesis
      using assms tm_inv_pending[of fac s None p] by (simp add: requested_def)
  qed
  then show ?thesis using assms by (simp add: cutPendingToQueue_def less_imp_le)
qed

lemma requested_inv: "requested fac t s \<Longrightarrow> tm_inv fac s None"
  by (simp add: requested_def)

lemma tm_inv_queueMessage [simp]: "tm_inv fac (queueMessage p m s) g = tm_inv fac s g"
  by (rule queueMessageE[of p m s]) simp

lemma relied_advanceRequest:
  assumes req: "requested fac t s" and mode: "getIsAnyAdvanceRequest s"
  shows "tm_inv fac (advanceRequest fac env s) (relied None (advanceRequest fac env s))"
proof (cases "getTimeRegulationEnabled s")
  case False
  then show ?thesis
    using tm_inv_relied[of "advanceRequest fac env s" None] requested_inv[OF req]
    by (simp add: advanceRequest_def)
next
  case True
  have ne: "TimeAdvanceAndNextMessageCommit \<noteq> CommitNone" by simp
  obtain y n w where snd: "sendCommitIfChanged env (toLogicalTime fac (outboundLowerBoundTimeStamp s))
      TimeAdvanceAndNextMessageCommit s =
     s\<lparr>committedOutboundLowerBoundTimeStamp :=
         (if has_TimeAdvanceCommit TimeAdvanceAndNextMessageCommit
          then max (committedOutboundLowerBoundTimeStamp s) (toLogicalTime fac (outboundLowerBoundTimeStamp s))
          else committedOutboundLowerBoundTimeStamp s),
       committedNextMessageLowerBoundTimeStamp := y, ownCommitId := n, sent := w\<rparr>"
    by (rule sendCommitIfChangedE[OF ne, of env _ s], rule that)
  have "sendCommitPairIfChanged fac env (outboundLowerBoundTimeStamp s) TimeAdvanceAndNextMessageCommit s
      = sendCommitIfChanged env (toLogicalTime fac (outboundLowerBoundTimeStamp s))
          TimeAdvanceAndNextMessageCommit s"
    by (simp add: sendCommitPairIfChanged_def toLogicalTime_def)
  moreover have "\<not> advancing s" using mode by (auto simp: advancing_def mode_defs)
  ultimately have "tm_inv fac (advanceRequest fac env s) None"
    using tm_inv_commit_outbound[OF requested_inv[OF req]] True by (simp add: advanceRequest_def snd)
  then show ?thesis by (rule tm_inv_relied)
qed

lemma relied_nextMessageRequest:
  assumes req: "requested fac t s" and mode: "getIsAnyNextMessageMode s"
  shows "tm_inv fac (nextMessageRequest fac env s) (relied None (nextMessageRequest fac env s))"
proof -
  define s1 where "s1 = (if getTimeConstrainedEnabled s
      then (cutPendingToQueue s)\<lparr>timeAdvanceToBeScheduled := True\<rparr> else s)"
  define s2 where "s2 = (if getTimeRegulationEnabled s1 \<and> timeAdvanceToBeScheduled s1
      then sendCommitLookaheadIfChanged fac env (fst (pendingLogicalTime s1))
             (targetLookahead s1) NextMessageCommit s1 else s1)"
  have eq: "nextMessageRequest fac env s =
      (if getTimeConstrainedEnabled s2 then checkForPendingTimeAdvance fac env False s2
       else queueMessage (pendingLogicalTime s2) TimeAdvanceGrantedMessage s2)"
    by (simp add: nextMessageRequest_def s2_def s1_def Let_def)
  have "tm_inv fac s1 None"
    using requested_inv[OF req] requested_inv[OF requested_cut[OF req]] by (simp add: s1_def)
  moreover obtain y c w where "sendCommitLookaheadIfChanged fac env (fst (pendingLogicalTime s1))
      (targetLookahead s1) NextMessageCommit s1 =
     s1\<lparr>committedOutboundLowerBoundTimeStamp := committedOutboundLowerBoundTimeStamp s1,
       committedNextMessageLowerBoundTimeStamp := y, ownCommitId := c, sent := w\<rparr>"
    by (rule sendCommitLookahead_nextE, rule that)
  ultimately have inv2: "tm_inv fac s2 None" using tm_inv_commit[of fac s1 None] by (simp add: s2_def)
  then show ?thesis
    using tm_inv_check tm_inv_relied[of "queueMessage (pendingLogicalTime s2) TimeAdvanceGrantedMessage s2" None]
    by (simp add: eq)
qed

end

context time_laws
begin

lemma relied_flushQueueRequest:
  assumes req: "requested fac t s" and mode: "getFlushQueueMode s"
  shows "tm_inv fac (flushQueueRequest fac env s) (relied None (flushQueueRequest fac env s))"
proof -
  define s1 where "s1 = (if getTimeConstrainedEnabled s then cutPendingToQueue s else s)"
  define s2 where "s2 = (if getTimeConstrainedEnabled s1 \<and> \<not> canAdvanceTo (fst (pendingLogicalTime s1), 0) s1
      then s1\<lparr>pendingLogicalTime := max (logicalTime s1)
             (the (lb_getGALT (federateLowerBoundMap s1)), snd (pendingLogicalTime s1))\<rparr> else s1)"
  define s3 where "s3 = (if getTimeRegulationEnabled s2
      then sendCommitIfChanged env (max (addInterval fac (fst (pendingLogicalTime s2)) (targetLookahead s2))
             (committedOutboundLowerBoundTimeStamp s2)) TimeAdvanceAndNextMessageCommit s2 else s2)"
  have eq: "flushQueueRequest fac env s =
      (if getTimeConstrainedEnabled s3 then s3\<lparr>timeAdvanceToBeScheduled := True\<rparr>
       else queueMessage (pendingLogicalTime s3) TimeAdvanceGrantedMessage s3)"
    unfolding s3_def s2_def s1_def flushQueueRequest_def Let_def by (rule refl)
  have req1: "requested fac t s1" using req requested_cut[OF req] by (simp add: s1_def)
  have req2: "requested fac t s2"
  proof (cases "getTimeConstrainedEnabled s1 \<and> \<not> canAdvanceTo (fst (pendingLogicalTime s1), 0) s1")
    case True
    obtain b where "lb_getGALT (federateLowerBoundMap s1) = Some b" "b < fst (pendingLogicalTime s1)"
      using True cannot_advance(1)[of s1 "fst (pendingLogicalTime s1)"] req1
      by (auto simp: requested_def tm_inv_def)
    with req1 have le: "fst (max (logicalTime s1) (the (lb_getGALT (federateLowerBoundMap s1)),
        snd (pendingLogicalTime s1))) \<le> t"
      by (auto simp: max_def requested_def)
    have "tm_inv fac s2 None"
      unfolding s2_def if_P[OF True]
      by (rule tm_inv_pending[OF requested_inv[OF req1]])
        (use req1 le lookaheadBound_mono[OF le, of s1] in \<open>auto simp: requested_def advancing_def\<close>)
    with True le req1 show ?thesis by (simp add: s2_def requested_def)
  next
    case False
    then show ?thesis using req1 unfolding s2_def if_not_P[OF False] by simp
  qed
  have mode2: "timeAdvanceMode s2 = FlushQueueRequest"
    using mode by (simp add: s2_def s1_def cutPendingToQueue_def getFlushQueueMode_def)
  have "tm_inv fac s3 (relied None s3) \<and> timeAdvanceMode s3 = FlushQueueRequest"
  proof (cases "getTimeRegulationEnabled s2")
    case True
    have ne: "TimeAdvanceAndNextMessageCommit \<noteq> CommitNone" by simp
    have adv: "advancing s2" using True mode2 by (simp add: advancing_def mode_defs)
    have plus: "addInterval fac (fst (pendingLogicalTime s2)) (targetLookahead s2)
        = lookaheadBound fac (fst (pendingLogicalTime s2)) s2"
      using mode2 by (simp add: lookaheadBound_def toLogicalTime_def
          getOutboundLowerTimeStampSecondField_def getIsAnyAvailableMode_def)
    have m: "max c (max l c) = max c l" for c l :: 't by (simp add: max.commute)
    obtain y n w where snd: "sendCommitIfChanged env (max (addInterval fac (fst (pendingLogicalTime s2))
          (targetLookahead s2)) (committedOutboundLowerBoundTimeStamp s2)) TimeAdvanceAndNextMessageCommit s2 =
       s2\<lparr>committedOutboundLowerBoundTimeStamp := (if has_TimeAdvanceCommit TimeAdvanceAndNextMessageCommit
           then max (committedOutboundLowerBoundTimeStamp s2) (max (addInterval fac (fst (pendingLogicalTime s2))
              (targetLookahead s2)) (committedOutboundLowerBoundTimeStamp s2))
           else committedOutboundLowerBoundTimeStamp s2),
         committedNextMessageLowerBoundTimeStamp := y, ownCommitId := n, sent := w\<rparr>"
      by (rule sendCommitIfChangedE[OF ne, of env _ s2], rule that)
    have s3: "s3 = s2\<lparr>committedOutboundLowerBoundTimeStamp := max (committedOutboundLowerBoundTimeStamp s2)
           (lookaheadBound fac (fst (pendingLogicalTime s2)) s2),
         committedNextMessageLowerBoundTimeStamp := y, ownCommitId := n, sent := w\<rparr>"
      unfolding s3_def if_P[OF True] snd by (simp only: has_TimeAdvanceCommit.simps if_True m plus)
    have "usedBound s3 = Some (fst (pendingLogicalTime s2))"
      using mode2 by (simp add: s3 usedBound_def getIsAnyNextMessageMode_def)
    then show ?thesis
      using tm_inv_advance[OF requested_inv[OF req2] adv order_refl, where y = y and c = n and w = w]
      using mode2 by (simp add: s3)
  next
    case False
    then show ?thesis using tm_inv_relied[OF requested_inv[OF req2]] mode2 by (simp add: s3_def)
  qed
  then have inv3: "tm_inv fac s3 (relied None s3)" and mode3: "timeAdvanceMode s3 = FlushQueueRequest"
    by auto
  have "relied None (flushQueueRequest fac env s) = relied None s3"
    using mode3 by (rule_tac queueMessageE[of "pendingLogicalTime s3" TimeAdvanceGrantedMessage s3])
      (simp add: eq relied_def usedBound_def advancing_def mode_defs)
  with inv3 show ?thesis by (simp add: eq)
qed

end

end
