(* ===== verification/Time_Run.thy ===== *)
theory Time_Run
  imports Time_Safety
begin

text \<open>
  The runs of the time management of one federate: every service, every message of the others and
  every callback is a step, and each keeps the invariant of \<open>Time_Safety\<close>.
\<close>

subsection \<open>Requests, messages and callbacks keep the invariant\<close>

context time_laws
begin

lemma tm_inv_timeAdvance:
  assumes inv: "tm_inv fac s g" and mode: "timeAdvanceMode s = TimeAdvanceGranted"
    and past: "\<not> isLogicalTimeInThePast t s" and reg: "\<not> getTimeRegulationEnablePending s"
  shows "tm_inv fac (timeAdvance fac env t m s) (relied g (timeAdvance fac env t m s))"
proof -
  define s2 where "s2 = s\<lparr>timeAdvanceMode := m, pendingLogicalTime := max (logicalTime s)
      (t, getPendingTimeSecondField (s\<lparr>timeAdvanceMode := m\<rparr>))\<rparr>"
  define s2' where "s2' = s2\<lparr>lastOutboundLowerBoundTimeStamp := outboundLowerBoundTimeStamp s2\<rparr>"
  define s3 where "s3 = (if getTimeRegulationEnabled s2
      then setOutboundLowerTimeStampAndCurrentLookahead fac t (lastOutboundLowerBoundTimeStamp s2') s2'
      else s2)"
  have eq: "timeAdvance fac env t m s =
      (if getIsAnyAdvanceRequest s3 then advanceRequest fac env s3
       else if getIsAnyNextMessageMode s3 then nextMessageRequest fac env s3
       else if getFlushQueueMode s3 then flushQueueRequest fac env s3
       else s3)"
    by (simp add: timeAdvance_def s3_def s2'_def s2_def Let_def)
  have g: "g = None" using inv mode by (simp add: tm_inv_def advancing_def mode_defs)
  have lt: "fst (logicalTime s) \<le> t" using past by (simp add: isLogicalTimeInThePast_def)
  then have pend: "fst (pendingLogicalTime s2) = t" "logicalTime s2 = logicalTime s"
    by (auto simp: s2_def max_def less_eq_prod_def)
  have I: "lb_inv (federateLowerBoundMap s)" "zeroLogicalTimeInterval fac \<le> targetLookahead s"
    "\<not> getTimeRegulationDisabled s \<Longrightarrow>
       committedOutboundLowerBoundTimeStamp s \<le> toLogicalTime fac (outboundLowerBoundTimeStamp s)"
    using inv by (auto simp: tm_inv_def)
  have "requested fac t s3"
  proof (cases "getTimeRegulationEnabled s2")
    case False
    have f: "timeRegulationMode s2 = timeRegulationMode s" "targetLookahead s2 = targetLookahead s"
      "federateLowerBoundMap s2 = federateLowerBoundMap s"
      by (simp_all add: s2_def)
    have "timeRegulationMode s = TimeRegulationDisabled"
      using False reg by (cases "timeRegulationMode s") (simp_all add: f)
    then have "tm_inv fac s2 None" "s3 = s2" using I(1,2) False
      by (simp_all add: tm_inv_def advancing_def f s3_def)
    then show ?thesis using False lt pend by (simp add: requested_def)
  next
    case True
    note bounds = setOutbound_bounds[OF refl, where t = t and ?o0.0 = "lastOutboundLowerBoundTimeStamp s2'" and s = s2']
    have s3: "s3 = setOutboundLowerTimeStampAndCurrentLookahead fac t (lastOutboundLowerBoundTimeStamp s2') s2'"
      using True by (simp add: s3_def)
    obtain la where s3': "s3 = s2'\<lparr>currentLookahead := la,
        outboundLowerBoundTimeStamp := outboundLowerBoundTimeStamp s3\<rparr>"
      using bounds(4) s3 by auto
    have LA: "lookaheadBound fac u s3 = lookaheadBound fac u s2'" for u
      by (subst s3') simp
    have f: "timeRegulationMode s3 = timeRegulationMode s" "logicalTime s3 = logicalTime s"
      "pendingLogicalTime s3 = pendingLogicalTime s2" "targetLookahead s3 = targetLookahead s"
      "federateLowerBoundMap s3 = federateLowerBoundMap s"
      "committedOutboundLowerBoundTimeStamp s3 = committedOutboundLowerBoundTimeStamp s"
      "lastOutboundLowerBoundTimeStamp s3 = outboundLowerBoundTimeStamp s"
      by (subst s3', simp add: s2'_def s2_def)+
    have "toLogicalTime fac (outboundLowerBoundTimeStamp s) \<le> toLogicalTime fac (outboundLowerBoundTimeStamp s3)"
      using bounds(1) by (simp add: s3 s2'_def s2_def)
    moreover have "lookaheadBound fac t s3 \<le> toLogicalTime fac (outboundLowerBoundTimeStamp s3)"
      using bounds(2) by (simp add: LA s3 [symmetric])
    moreover have "timeRegulationMode s = TimeRegulationEnabled" using True by (simp add: s2_def)
    ultimately show ?thesis using I lt pend by (auto simp: requested_def tm_inv_def f)
  qed
  then show ?thesis unfolding g
    using relied_advanceRequest relied_nextMessageRequest relied_flushQueueRequest
      tm_inv_relied[OF requested_inv] by (simp add: eq)
qed

lemma tm_inv_queueAndAdvance:
  assumes inv: "tm_inv fac s g"
    and honest: "\<And>b. advancing s \<Longrightarrow> getTimeConstrainedEnabled s \<Longrightarrow> g = Some b \<Longrightarrow> b \<le> fst p"
  shows "tm_inv fac (queueAndAdvance fac env p m s) (relied g (queueAndAdvance fac env p m s))"
proof -
  define s1 where "s1 = queueMessage p m s"
  obtain q n where s1': "s1 = s\<lparr>logicalTimeMessageListMap := q, signals := n\<rparr>"
    unfolding s1_def by (rule queueMessageE)
  have inv1: "tm_inv fac s1 g" using inv by (simp add: s1')
  let ?low = "getIsAnyNextMessageMode s1 \<and> getTimeConstrainedEnabled s1 \<and> fst p < fst (pendingLogicalTime s1)"
  define s2 where "s2 = (if fst (logicalTime s1) \<le> fst p
      then s1\<lparr>pendingLogicalTime := (fst p, snd (pendingLogicalTime s1))\<rparr> else s1)"
  define s3 where "s3 = (if timeAdvanceToBeScheduled s2 \<and> getTimeRegulationEnabled s2
      then sendCommitLookaheadIfChanged fac env (fst (pendingLogicalTime s2))
             (targetLookahead s2) NextMessageCommit s2 else s2)"
  have eq: "queueAndAdvance fac env p m s =
      (if ?low then checkForPendingTimeAdvance fac env True s3 else s1)"
    unfolding queueAndAdvance_def Let_def s1_def s2_def s3_def by (rule refl)
  show ?thesis
  proof (cases ?low)
    case False
    then show ?thesis using tm_inv_relied[OF inv1] unfolding eq if_not_P[OF False] by simp
  next
    case True
    have "tm_inv fac (s1\<lparr>pendingLogicalTime := (fst p, snd (pendingLogicalTime s1))\<rparr>) g"
    proof (rule tm_inv_pending[OF inv1])
      assume adv: "advancing s1"
      show "lookaheadBound fac (fst (fst p, snd (pendingLogicalTime s1))) s1
          \<le> toLogicalTime fac (outboundLowerBoundTimeStamp s1)"
      proof (rule order_trans)
        show "lookaheadBound fac (fst (fst p, snd (pendingLogicalTime s1))) s1
            \<le> lookaheadBound fac (fst (pendingLogicalTime s1)) s1"
          by (rule lookaheadBound_mono) (use True in \<open>simp add: less_imp_le\<close>)
        show "lookaheadBound fac (fst (pendingLogicalTime s1)) s1
            \<le> toLogicalTime fac (outboundLowerBoundTimeStamp s1)"
          using inv1 adv by (simp add: tm_inv_def)
      qed
      show "b \<le> fst (fst p, snd (pendingLogicalTime s1))" if "g = Some b" for b
        using honest[of b] adv True that by (simp add: s1' advancing_def mode_defs)
    qed
    then have inv2: "tm_inv fac s2 g" using inv1 by (simp add: s2_def)
    obtain y c w where "sendCommitLookaheadIfChanged fac env (fst (pendingLogicalTime s2))
        (targetLookahead s2) NextMessageCommit s2 =
       s2\<lparr>committedOutboundLowerBoundTimeStamp := committedOutboundLowerBoundTimeStamp s2,
         committedNextMessageLowerBoundTimeStamp := y, ownCommitId := c, sent := w\<rparr>"
      by (rule sendCommitLookahead_nextE, rule that)
    then have "tm_inv fac s3 g" using inv2 tm_inv_commit[of fac s2 g] by (simp add: s3_def)
    then show ?thesis using tm_inv_check True unfolding eq if_P[OF True] by blast
  qed
qed

text \<open>A message the federate sends to itself is never before its pending time.\<close>

lemma tm_inv_loopback:
  assumes inv: "tm_inv fac s g" and reg: "getTimeRegulationEnabled s"
    and ok: "\<not> logicalTimeAlreadyPassedReason t s"
  shows "tm_inv fac (queueAndAdvance fac env (t, k) m s) (relied g (queueAndAdvance fac env (t, k) m s))"
proof (rule tm_inv_queueAndAdvance[OF inv])
  fix b assume adv: "advancing s" and b: "g = Some b"
  have "b \<le> fst (pendingLogicalTime s)" using inv adv b by (simp add: tm_inv_def)
  also have "fst (pendingLogicalTime s) \<le> t"
  proof (cases "allowPendingTimeInNextMessageRequest s \<and> getIsAnyNextMessageMode s")
    case True
    then show ?thesis using ok by (auto simp: logicalTimeAlreadyPassedReason_def split: if_splits)
  next
    case False
    have "fst (pendingLogicalTime s) \<le> addInterval fac (fst (pendingLogicalTime s)) (targetLookahead s)"
      using inv by (intro add_pos) (simp add: tm_inv_def)
    also have "\<dots> \<le> lookaheadBound fac (fst (pendingLogicalTime s)) s"
      by (simp add: lookaheadBound_def toLogicalTime_def less_imp_le)
    also have "\<dots> \<le> toLogicalTime fac (outboundLowerBoundTimeStamp s)"
      using inv adv by (simp add: tm_inv_def)
    also have "\<dots> \<le> t"
      using ok False by (auto simp: logicalTimeAlreadyPassedReason_def toLogicalTime_def
          nextAfter_le_iff split: if_splits)
    finally show ?thesis .
  qed
  finally show "b \<le> fst (t, k)" by simp
qed

end

lemma collectResponses_fold:
  "\<exists>ob p. fold (\<lambda>(_, t). collectResponse fac t) ts s
       = s\<lparr>outboundLowerBoundTimeStamp := ob, pendingLogicalTime := p\<rparr>
     \<and> (snd (outboundLowerBoundTimeStamp s) = 0 \<longrightarrow> snd ob = 0)"
proof (induction ts arbitrary: s)
  case Nil
  show ?case
    by (rule exI[of _ "outboundLowerBoundTimeStamp s"], rule exI[of _ "pendingLogicalTime s"]) simp
next
  case (Cons x ts)
  obtain f t where x: "x = (f, t)" by (cases x)
  obtain ob p where one: "collectResponse fac t s = s\<lparr>outboundLowerBoundTimeStamp := ob, pendingLogicalTime := p\<rparr>"
    and snd: "snd (outboundLowerBoundTimeStamp s) = 0 \<longrightarrow> snd ob = 0"
  proof (cases "t \<le> fst (outboundLowerBoundTimeStamp s)")
    case True
    show thesis
      by (rule that[where ob = "outboundLowerBoundTimeStamp s" and p = "pendingLogicalTime s"])
        (use True in \<open>simp_all add: collectResponse_def\<close>)
  next
    case False
    show thesis
      by (rule that[where ob = "(t, 0)" and p = "max (pendingLogicalTime s) (subInterval fac t (currentLookahead s), 0)"])
        (use False in \<open>simp_all add: collectResponse_def\<close>)
  qed
  from Cons[of "s\<lparr>outboundLowerBoundTimeStamp := ob, pendingLogicalTime := p\<rparr>"] snd
  show ?case by (auto simp: x one)
qed

context time_laws
begin

lemma tm_inv_checkTimeRegulationEnabled:
  assumes inv: "tm_inv fac s g"
  shows "tm_inv fac (checkTimeRegulationEnabled fac env s) g"
proof (cases "getTimeRegulationEnablePending s \<and> enableFederateHandleSet s = {}")
  case False
  then show ?thesis using inv by (auto simp: checkTimeRegulationEnabled_def)
next
  case True
  obtain ob p where fold: "fold (\<lambda>(_, t). collectResponse fac t) (enableFederateTimeStampMap s) s
       = s\<lparr>outboundLowerBoundTimeStamp := ob, pendingLogicalTime := p\<rparr>"
    and ob: "snd (outboundLowerBoundTimeStamp s) = 0 \<longrightarrow> snd ob = 0"
    using collectResponses_fold[of fac "enableFederateTimeStampMap s" s] by blast
  define s2 where "s2 = s\<lparr>outboundLowerBoundTimeStamp := ob, pendingLogicalTime := p,
      enableFederateTimeStampMap := []\<rparr>"
  have eq: "checkTimeRegulationEnabled fac env s =
      queueMessage (pendingLogicalTime (sendCommitLowerBoundTimeStamp env (fst ob)
          TimeAdvanceAndNextMessageCommit s2)) TimeRegulationEnabledMessage
        (sendCommitLowerBoundTimeStamp env (fst ob) TimeAdvanceAndNextMessageCommit s2)"
    using True by (simp add: checkTimeRegulationEnabled_def fold s2_def Let_def)
  have pend: "timeAdvanceMode s = TimeAdvanceGranted" "snd ob = 0"
    "lb_inv (federateLowerBoundMap s)" "zeroLogicalTimeInterval fac \<le> targetLookahead s" "g = None"
    using inv True ob by (auto simp: tm_inv_def advancing_def)
  obtain n w where "sendCommitLowerBoundTimeStamp env (fst ob) TimeAdvanceAndNextMessageCommit s2 =
     s2\<lparr>committedOutboundLowerBoundTimeStamp :=
         (if has_TimeAdvanceCommit TimeAdvanceAndNextMessageCommit then fst ob
          else committedOutboundLowerBoundTimeStamp s2),
       committedNextMessageLowerBoundTimeStamp :=
         (if has_NextMessageCommit TimeAdvanceAndNextMessageCommit then fst ob
          else committedNextMessageLowerBoundTimeStamp s2),
       ownCommitId := n, sent := w\<rparr>"
    using sendCommit_eq[of env "fst ob" TimeAdvanceAndNextMessageCommit s2] by (elim exE conjE)
  then show ?thesis
    using True pend
    by (simp add: eq) (simp add: s2_def tm_inv_def advancing_def mode_defs toLogicalTime_def)
qed

lemma tm_inv_notifyLocked [simp]: "tm_inv fac (notifyLocked env b s) g = tm_inv fac s g"
  by (rule notifyLockedE[of env b s]) simp

lemma tm_inv_sendCommitResponse [simp]: "tm_inv fac (sendCommitResponse env f cid s) g = tm_inv fac s g"
  by (rule sendCommitResponseE[of env f cid s]) simp

lemma tm_inv_send [simp]: "tm_inv fac (send m s) g = tm_inv fac s g"
  by (simp add: send_def)

end

text \<open>
  What the others owe the federate: a federate registers as regulating once, and no message comes
  from before a time the federate has already relied on.
\<close>

fun honest :: "ambassador \<Rightarrow> 't option \<Rightarrow> ('t::linorder, 'i) time_management \<Rightarrow> 't tm_message \<Rightarrow> bool" where
  "honest env g s (EnableTimeRegulationRequest f t cid) =
     (f \<noteq> ownHandle env \<longrightarrow> map_of (federateCommits (federateLowerBoundMap s)) f = None)"
| "honest env g s (TimeStampedUpdate t ot h payload) = (case g of None \<Rightarrow> True | Some b \<Rightarrow> b \<le> t)"
| "honest env g s _ = True"

context time_laws
begin

lemma tm_inv_acceptInternalMessage:
  assumes inv: "tm_inv fac s g" and honest: "honest env g s m"
    and acc: "acceptInternalMessage fac env m s = Some s'"
  shows "tm_inv fac s' (relied g s')"
proof -
  have lbi: "lb_inv (federateLowerBoundMap s)" using inv by (simp add: tm_inv_def)
  note lbs = lb_inv_erase[OF lbi] lb_inv_sets[OF lbi]
  show ?thesis
  proof (cases m)
    case (JoinFederateNotify f)
    then show ?thesis using inv acc by (auto simp: acceptJoinFederateNotify_def intro!: tm_inv_relied)
  next
    case (ResignFederateNotify f)
    then show ?thesis using inv acc lbs
      by (auto simp: removeFederateFromTimeManagement_def Let_def
          intro!: tm_inv_check tm_inv_checkTimeRegulationEnabled tm_inv_lb)
  next
    case (EnableTimeRegulationRequest f t cid)
    then have "tm_inv fac s' g" using inv acc honest
      by (auto simp: acceptEnableTimeRegulationRequest_def Let_def send_def split: if_splits
          intro!: tm_inv_checkTimeRegulationEnabled tm_inv_lb lb_inv_insert lbi)
    then show ?thesis by (rule tm_inv_relied)
  next
    case (EnableTimeRegulationResponse f r t v)
    then show ?thesis using inv acc
      by (auto simp: acceptEnableTimeRegulationResponse_def Let_def
          intro!: tm_inv_relied tm_inv_checkTimeRegulationEnabled)
  next
    case (DisableTimeRegulationRequest f)
    then show ?thesis using inv acc lbs
      by (auto simp: acceptDisableTimeRegulationRequest_def Let_def intro!: tm_inv_check tm_inv_lb)
  next
    case (CommitLowerBoundTimeStamp f t ct cid)
    then obtain r l where l: "lb_commit f t ct cid (federateLowerBoundMap s) = Some (r, l)"
      and s': "s' = checkForPendingTimeAdvance fac env True (notifyLocked env (getLockedByNextMessage s)
          (if snd r then sendCommitResponse env f cid (s\<lparr>federateLowerBoundMap := l\<rparr>)
           else s\<lparr>federateLowerBoundMap := l\<rparr>))"
      using acc by (auto simp: acceptCommitLowerBoundTimeStamp_def Let_def split: option.splits)
    have "lb_inv l" using lb_bound_commit[OF lbi l] by simp
    then have "tm_inv fac (s\<lparr>federateLowerBoundMap := l\<rparr>) g" using inv by (rule tm_inv_lb[rotated])
    then show ?thesis unfolding s' by (intro tm_inv_check) simp
  next
    case (CommitLowerBoundTimeStampResponse f cid h)
    then show ?thesis using inv acc lbs
      by (auto simp: acceptCommitLowerBoundTimeStampResponse_def Let_def intro!: tm_inv_check tm_inv_lb)
  next
    case (LockedByNextMessageRequest h b)
    then show ?thesis using inv acc lbs
      by (auto simp: acceptLockedByNextMessageRequest_def Let_def intro!: tm_inv_check tm_inv_lb)
  next
    case (TimeStampedUpdate t ot h payload)
    show ?thesis
    proof (cases "s' = queueAndAdvance fac env (t, -1) (UserMessage h (Some ot) payload) s")
      case True
      have "tm_inv fac (queueAndAdvance fac env (t, -1) (UserMessage h (Some ot) payload) s)
          (relied g (queueAndAdvance fac env (t, -1) (UserMessage h (Some ot) payload) s))"
        by (rule tm_inv_queueAndAdvance[OF inv]) (use honest TimeStampedUpdate in simp)
      with True show ?thesis by simp
    next
      case False
      then have "s' = s \<or> s' = queueReceiveOrderMessage (UserMessage h (Some ot) payload) s"
        using acc TimeStampedUpdate by (auto simp: queueTimeStampedMessage_def split: if_splits)
      moreover have "tm_inv fac (queueReceiveOrderMessage cm s) g" for cm
        using signal_eq inv unfolding queueReceiveOrderMessage_def by (metis tm_inv_frame(3,4))
      ultimately show ?thesis using tm_inv_relied inv by blast
    qed
  next
    case (ReceiveOrderUpdate h payload)
    moreover have "tm_inv fac (queueReceiveOrderMessage cm s) g" for cm
      using signal_eq inv unfolding queueReceiveOrderMessage_def by (metis tm_inv_frame(3,4))
    ultimately show ?thesis using acc tm_inv_relied by auto
  qed (use acc tm_inv_relied[OF inv] in auto)
qed

end

lemma checkForPendingFlushQueueE:
  obtains q n b where "checkForPendingFlushQueue s =
    s\<lparr>timeAdvanceToBeScheduled := b, logicalTimeMessageListMap := q, signals := n\<rparr>"
proof (cases "logicalTimeMessageListMap s = [] \<and> getFlushQueueMode s \<and> timeAdvanceToBeScheduled s")
  case True
  obtain q n where "queueMessage (pendingLogicalTime s) TimeAdvanceGrantedMessage
      (s\<lparr>timeAdvanceToBeScheduled := False\<rparr>) =
      s\<lparr>timeAdvanceToBeScheduled := False, logicalTimeMessageListMap := q, signals := n\<rparr>"
    by (rule queueMessageE)
  with True that[where b = False and q = q and n = n] show thesis by (simp add: checkForPendingFlushQueue_def)
next
  case False
  have "checkForPendingFlushQueue s = s" unfolding checkForPendingFlushQueue_def if_not_P[OF False] ..
  with that[where b = "timeAdvanceToBeScheduled s" and q = "logicalTimeMessageListMap s" and n = "signals s"]
  show thesis by simp
qed

lemma cleanQueueE:
  obtains q n b where "cleanQueue s =
    s\<lparr>timeAdvanceToBeScheduled := b, logicalTimeMessageListMap := q, signals := n\<rparr>"
proof -
  have "\<exists>b q n. cleanQueue s = s\<lparr>timeAdvanceToBeScheduled := b, logicalTimeMessageListMap := q, signals := n\<rparr>"
  proof (induction s rule: cleanQueue.induct)
    case (1 s)
    show ?case
    proof (cases "\<exists>p q. logicalTimeMessageListMap s = (p, []) # q")
      case True
      then obtain p q where q: "logicalTimeMessageListMap s = (p, []) # q" by blast
      obtain b' q' n' where f: "checkForPendingFlushQueue (s\<lparr>logicalTimeMessageListMap := q\<rparr>) =
          s\<lparr>timeAdvanceToBeScheduled := b', logicalTimeMessageListMap := q', signals := n'\<rparr>"
        by (rule checkForPendingFlushQueueE[of "s\<lparr>logicalTimeMessageListMap := q\<rparr>"]) (rule that, simp)
      from 1[OF q refl refl] show ?thesis
        by (subst cleanQueue.simps) (auto simp: q f)
    next
      case False
      then have "cleanQueue s = s"
        by (subst cleanQueue.simps) (auto split: list.splits)
      then show ?thesis
        by (intro exI[of _ "timeAdvanceToBeScheduled s"] exI[of _ "logicalTimeMessageListMap s"]
            exI[of _ "signals s"]) simp
    qed
  qed
  with that show thesis by blast
qed

text \<open>The queue work before a callback.\<close>

lemma prepareE:
  obtains q n b where "cleanQueue (checkForPendingFlushQueue s) =
    s\<lparr>timeAdvanceToBeScheduled := b, logicalTimeMessageListMap := q, signals := n\<rparr>"
proof -
  obtain q n b where f: "checkForPendingFlushQueue s =
    s\<lparr>timeAdvanceToBeScheduled := b, logicalTimeMessageListMap := q, signals := n\<rparr>"
    by (rule checkForPendingFlushQueueE)
  show thesis
    by (rule cleanQueueE[of "checkForPendingFlushQueue s"]) (rule that, simp add: f)
qed

lemma popTimeStampedE:
  assumes "popTimeStamped s = Some (m, s')"
  obtains q where "s' = s\<lparr>logicalTimeMessageListMap := q\<rparr>"
  using assms by (auto simp: popTimeStamped_def split: list.splits prod.splits)

context time_laws
begin

lemma tm_inv_acceptCallbackMessage:
  assumes inv: "tm_inv fac s g" and acc: "acceptCallbackMessage fac m s = (e, s')"
    and reg: "\<And>t. e = timeRegulationEnabled t \<Longrightarrow> getTimeRegulationEnablePending s"
  shows "tm_inv fac s' (relied g s')"
proof -
  have I: "lb_inv (federateLowerBoundMap s)" "zeroLogicalTimeInterval fac \<le> targetLookahead s"
    "\<not> getTimeRegulationDisabled s \<Longrightarrow>
       committedOutboundLowerBoundTimeStamp s \<le> toLogicalTime fac (outboundLowerBoundTimeStamp s)"
    "getTimeRegulationEnablePending s \<Longrightarrow>
       timeAdvanceMode s = TimeAdvanceGranted \<and> snd (outboundLowerBoundTimeStamp s) = 0"
    using inv by (simp_all add: tm_inv_def)
  consider (regulation) "m = TimeRegulationEnabledMessage" | (grant) "m = TimeAdvanceGrantedMessage"
    | (other) "\<exists>lt cm. s' = s\<lparr>timeConstrainedMode := cm, logicalTime := lt\<rparr>"
  proof (cases m)
    case (UserMessage h ot payload)
    then have "s' = s" using acc by (cases ot) auto
    then have "s' = s\<lparr>timeConstrainedMode := timeConstrainedMode s, logicalTime := logicalTime s\<rparr>" by simp
    then show thesis using other by blast
  next
    case TimeConstrainedEnabledMessage
    then have "s' = s\<lparr>timeConstrainedMode := TimeConstrainedEnabled, logicalTime := pendingLogicalTime s\<rparr>"
      using acc by (simp add: Let_def)
    then show thesis using other by blast
  qed (use that in blast)+
  then show ?thesis
  proof cases
    case regulation
    then have s': "s' = s\<lparr>timeRegulationMode := TimeRegulationEnabled, logicalTime := pendingLogicalTime s\<rparr>"
      and "getTimeRegulationEnablePending s"
      using acc reg by (auto simp: Let_def)
    with I have "tm_inv fac s' None" by (simp add: tm_inv_def advancing_def mode_defs)
    then show ?thesis using I \<open>getTimeRegulationEnablePending s\<close>
      by (simp add: relied_def s' advancing_def mode_defs)
  next
    case grant
    have "tm_inv fac s' None"
    proof (cases "advancing s")
      case False
      then have "s' = s\<lparr>logicalTime := pendingLogicalTime s, timeAdvanceMode := TimeAdvanceGranted\<rparr>"
        using acc grant by (auto simp: acceptTimeAdvanceGranted_def Let_def advancing_def)
      with I show ?thesis by (simp add: tm_inv_def advancing_def mode_defs)
    next
      case True
      define s1 where "s1 = setOutboundLowerTimeStampAndCurrentLookahead fac (fst (pendingLogicalTime s))
          (lastOutboundLowerBoundTimeStamp s) s"
      have s': "s' = s1\<lparr>logicalTime := pendingLogicalTime s1, timeAdvanceMode := TimeAdvanceGranted\<rparr>"
        using acc grant True by (simp add: acceptTimeAdvanceGranted_def Let_def advancing_def s1_def)
      note b = setOutbound_bounds[OF s1_def]
      obtain la where s1: "s1 = s\<lparr>currentLookahead := la,
          outboundLowerBoundTimeStamp := outboundLowerBoundTimeStamp s1\<rparr>" using b(4) by blast
      have "lookaheadBound fac r s \<le> lookaheadBound fac (fst (pendingLogicalTime s)) s" if "g = Some r" for r
        by (rule lookaheadBound_mono) (use inv True that in \<open>simp add: tm_inv_def\<close>)
      then have "committedOutboundLowerBoundTimeStamp s \<le> toLogicalTime fac (outboundLowerBoundTimeStamp s1)"
        using inv True b(1,2) by (force simp: tm_inv_def intro: order_trans)
      moreover have "timeRegulationMode s1 = timeRegulationMode s" "targetLookahead s1 = targetLookahead s"
        "federateLowerBoundMap s1 = federateLowerBoundMap s"
        "committedOutboundLowerBoundTimeStamp s1 = committedOutboundLowerBoundTimeStamp s"
        by (subst s1, simp)+
      ultimately show ?thesis using I(1,2) True
        by (simp add: s' tm_inv_def) (simp add: advancing_def mode_defs)
    qed
    moreover have "timeAdvanceMode s' = TimeAdvanceGranted"
      using acc grant by (auto simp: acceptTimeAdvanceGranted_def Let_def)
    ultimately show ?thesis by (simp add: relied_def advancing_def mode_defs)
  next
    case other
    then have "tm_inv fac s' g" using inv by auto
    then show ?thesis by (rule tm_inv_relied)
  qed
qed

lemma tm_inv_dispatchCallback:
  assumes inv: "tm_inv fac s g" and disp: "dispatchCallback fac s = (e, s')"
    and reg: "\<And>t. e = Some (timeRegulationEnabled t) \<Longrightarrow> getTimeRegulationEnablePending s"
  shows "tm_inv fac s' (relied g s')"
proof (cases "receiveOrderMessagesPermitted s \<and> receiveOrderMessages s \<noteq> []")
  case True
  obtain e' where acc: "acceptCallbackMessage fac (hd (receiveOrderMessages s))
      (s\<lparr>receiveOrderMessages := tl (receiveOrderMessages s)\<rparr>) = (e', s')" and e: "e = Some e'"
    using disp True by (auto simp: dispatchCallback_def Let_def split: prod.splits)
  show ?thesis
    by (rule tm_inv_acceptCallbackMessage[OF _ acc]) (use inv reg e in simp_all)
next
  case False
  define s1 where "s1 = cleanQueue (checkForPendingFlushQueue s)"
  obtain q n b where s1: "s1 = s\<lparr>timeAdvanceToBeScheduled := b, logicalTimeMessageListMap := q, signals := n\<rparr>"
    by (rule prepareE[of s], rule that) (simp add: s1_def)
  have inv1: "tm_inv fac s1 g" using inv by (simp add: s1)
  have disp1: "(if logicalTimeMessageListMap s1 = [] \<or> \<not> timeStampOrderMessagesPermitted s1
      then (None, s1)
      else case popTimeStamped s1 of None \<Rightarrow> (None, s1)
           | Some (m, s2) \<Rightarrow> (let (e, s3) = acceptCallbackMessage fac m s2 in (Some e, s3))) = (e, s')"
    using disp unfolding dispatchCallback_def if_not_P[OF False] s1_def Let_def .
  then consider "s' = s1" | m s2 e' where "popTimeStamped s1 = Some (m, s2)"
      "acceptCallbackMessage fac m s2 = (e', s')" "e = Some e'"
    by (auto split: if_splits option.splits prod.splits)
  then show ?thesis
  proof cases
    case 1
    then show ?thesis using tm_inv_relied[OF inv1] by simp
  next
    case 2
    obtain q' where s2: "s2 = s1\<lparr>logicalTimeMessageListMap := q'\<rparr>" using 2(1) by (rule popTimeStampedE)
    show ?thesis
      by (rule tm_inv_acceptCallbackMessage[OF _ 2(2)]) (use inv1 reg 2(3) in \<open>simp_all add: s2 s1\<close>)
  qed
qed

end

subsection \<open>Only callbacks move the logical time\<close>

text \<open>The modes and the logical time, which no message of another federate changes.\<close>

definition position ::
    "('t, 'i) time_management \<Rightarrow> TimeRegulationMode \<times> TimeConstrainedMode \<times> TimeAdvanceMode \<times> 't \<times> int" where
  "position s = (timeRegulationMode s, timeConstrainedMode s, timeAdvanceMode s, logicalTime s)"

lemma position_queueMessage [simp]: "position (queueMessage p m s) = position s"
  by (rule queueMessageE[of p m s]) (simp add: position_def)

lemma position_queueReceiveOrderMessage [simp]: "position (queueReceiveOrderMessage m s) = position s"
  using signal_eq[of "s\<lparr>receiveOrderMessages := receiveOrderMessages s @ [m]\<rparr>"]
  by (auto simp: queueReceiveOrderMessage_def position_def)

lemma position_notifyLocked [simp]: "position (notifyLocked env b s) = position s"
  by (rule notifyLockedE[of env b s]) (simp add: position_def)

lemma position_sendCommitResponse [simp]: "position (sendCommitResponse env f cid s) = position s"
  by (rule sendCommitResponseE[of env f cid s]) (simp add: position_def)

lemma position_sendCommit [simp]: "position (sendCommitLowerBoundTimeStamp env t ct s) = position s"
  by (simp add: sendCommitLowerBoundTimeStamp_def position_def send_def Let_def)

lemma position_sendCommitLookahead [simp]:
  "position (sendCommitLookaheadIfChanged fac env t la ct s) = position s"
  by (simp add: sendCommitLookaheadIfChanged_def sendCommitIfChanged_def Let_def)

lemma position_updates [simp]:
  "position (s\<lparr>timeAdvanceToBeScheduled := b\<rparr>) = position s"
  "position (s\<lparr>pendingLogicalTime := p\<rparr>) = position s"
  "position (s\<lparr>federateLowerBoundMap := l\<rparr>) = position s"
  "position (s\<lparr>enableFederateHandleSet := hs\<rparr>) = position s"
  "position (s\<lparr>enableFederateTimeStampMap := ts\<rparr>) = position s"
  "position (s\<lparr>outboundLowerBoundTimeStamp := ob\<rparr>) = position s"
  "position (send m s) = position s"
  by (simp_all add: position_def send_def)

lemma position_checkForPendingTimeAdvance [simp]:
  "position (checkForPendingTimeAdvance fac env b s) = position s"
  by (simp add: checkForPendingTimeAdvance_def Let_def)

lemma position_checkTimeRegulationEnabled [simp]:
  "position (checkTimeRegulationEnabled fac env s) = position s"
  using collectResponses_fold[of fac "enableFederateTimeStampMap s" s]
  by (auto simp: checkTimeRegulationEnabled_def Let_def)

lemma position_queueAndAdvance [simp]: "position (queueAndAdvance fac env p m s) = position s"
  by (simp add: queueAndAdvance_def Let_def)

lemma position_acceptInternalMessage:
  "acceptInternalMessage fac env m s = Some s' \<Longrightarrow> position s' = position s"
  by (cases m)
    (auto simp: acceptJoinFederateNotify_def removeFederateFromTimeManagement_def
      acceptEnableTimeRegulationRequest_def acceptEnableTimeRegulationResponse_def
      acceptDisableTimeRegulationRequest_def acceptCommitLowerBoundTimeStamp_def
      acceptCommitLowerBoundTimeStampResponse_def acceptLockedByNextMessageRequest_def
      queueTimeStampedMessage_def Let_def split: if_splits option.splits prod.splits)

lemma position_flush:
  "flushInternalMessages fac env ms s = Some s' \<Longrightarrow> position s' = position s"
  by (induction ms arbitrary: s)
    (auto split: option.splits dest: position_acceptInternalMessage)

subsection \<open>Steps and runs\<close>

text \<open>The messages flushed before a flush queue request, none of which may break the rules.\<close>

fun flush_honest ::
    "('t::linorder, 'i) time_factory \<Rightarrow> ambassador \<Rightarrow> 't tm_message list \<Rightarrow> ('t, 'i) time_management \<Rightarrow> bool" where
  "flush_honest fac env [] s = True"
| "flush_honest fac env (m # ms) s =
     (honest env None s m \<and>
      (case acceptInternalMessage fac env m s of None \<Rightarrow> True | Some s' \<Rightarrow> flush_honest fac env ms s'))"

text \<open>
  One step of the time management. The ambassador may differ from step to step. A
  \<open>TimeRegulationEnabledMessage\<close> is only dispatched while the request is pending, as its handler
  asserts; a message to the federate itself passes the check of the sending service.
\<close>

inductive tm_step ::
    "('t::linorder, 'i::linorder) time_factory \<Rightarrow> 't option \<Rightarrow> ('t, 'i) time_management
      \<Rightarrow> ('t, 'i) time_management \<Rightarrow> bool"
  for fac :: "('t, 'i) time_factory" and g :: "'t option" and s :: "('t, 'i) time_management" where
  enableRegulation: "svc_enableTimeRegulation fac env la s = Inr s' \<Longrightarrow> tm_step fac g s s'"
| enableRegulationAt: "svc_enableTimeRegulationAt fac env t la s = Inr s' \<Longrightarrow> tm_step fac g s s'"
| disableRegulation: "svc_disableTimeRegulation fac env s = Inr s' \<Longrightarrow> tm_step fac g s s'"
| enableConstrained: "svc_enableTimeConstrained env s = Inr s' \<Longrightarrow> tm_step fac g s s'"
| disableConstrained: "svc_disableTimeConstrained env s = Inr s' \<Longrightarrow> tm_step fac g s s'"
| advance: "svc_timeAdvanceRequest fac env t s = Inr (Some s') \<Longrightarrow> tm_step fac g s s'"
| advanceAvailable: "svc_timeAdvanceRequestAvailable fac env t s = Inr (Some s') \<Longrightarrow> tm_step fac g s s'"
| nextMessage: "svc_nextMessageRequest fac env t s = Inr (Some s') \<Longrightarrow> tm_step fac g s s'"
| nextMessageAvailable: "svc_nextMessageRequestAvailable fac env t s = Inr (Some s') \<Longrightarrow> tm_step fac g s s'"
| flushQueue: "flush_honest fac env inbox s \<Longrightarrow>
     svc_flushQueueRequest fac env inbox t s = Inr (Some s') \<Longrightarrow> tm_step fac g s s'"
| modify: "svc_modifyLookahead fac env la chk s = Inr s' \<Longrightarrow> tm_step fac g s s'"
| enableAsync: "svc_enableAsynchronousDelivery env s = Inr s' \<Longrightarrow> tm_step fac g s s'"
| disableAsync: "svc_disableAsynchronousDelivery env s = Inr s' \<Longrightarrow> tm_step fac g s s'"
| allowPending: "svc_allowPendingTime env s = Inr s' \<Longrightarrow> tm_step fac g s s'"
| disallowPending: "svc_disallowPendingTime env s = Inr s' \<Longrightarrow> tm_step fac g s s'"
| internal: "honest env g s m \<Longrightarrow> acceptInternalMessage fac env m s = Some s' \<Longrightarrow> tm_step fac g s s'"
| loopback: "getTimeRegulationEnabled s \<Longrightarrow> \<not> logicalTimeAlreadyPassedReason t s \<Longrightarrow>
     queueTimeStampedMessage fac env t m True s = Some s' \<Longrightarrow> tm_step fac g s s'"
| loopbackReceive: "tm_step fac g s (queueReceiveOrderMessage m s)"
| callback: "dispatchCallback fac s = (e, s') \<Longrightarrow>
     (\<And>t. e = Some (timeRegulationEnabled t) \<Longrightarrow> getTimeRegulationEnablePending s) \<Longrightarrow> tm_step fac g s s'"
| available: "callbackMessageAvailable s = (b, s') \<Longrightarrow> tm_step fac g s s'"
| eraseMessages: "tm_step fac g s (eraseMessagesForObjectInstance h s)"
| notification: "tm_step fac g s (setNotificationHandle n s)"

text \<open>
  A run, with the time up to which the federate has relied on the others since its last request.
\<close>

inductive tm_run ::
    "('t::linorder, 'i::linorder) time_factory \<Rightarrow> ('t, 'i) time_management \<Rightarrow> 't option \<Rightarrow> bool"
  for fac :: "('t, 'i) time_factory" where
  run_start: "tm_run fac (initial_time_management fac) None"
| run_step: "tm_run fac s g \<Longrightarrow> tm_step fac g s s' \<Longrightarrow> tm_run fac s' (relied g s')"

context time_laws
begin

lemma relied_granted: "timeAdvanceMode s = TimeAdvanceGranted \<Longrightarrow> relied g s = None"
  by (simp add: relied_def advancing_def mode_defs)

lemma tm_inv_flush:
  assumes "tm_inv fac s None" "timeAdvanceMode s = TimeAdvanceGranted"
    "flush_honest fac env ms s" "flushInternalMessages fac env ms s = Some s'"
  shows "tm_inv fac s' None"
  using assms
proof (induction ms arbitrary: s)
  case (Cons m ms)
  then obtain s1 where s1: "acceptInternalMessage fac env m s = Some s1"
    and rest: "flushInternalMessages fac env ms s1 = Some s'" "flush_honest fac env ms s1"
    by (auto split: option.splits)
  have mode: "timeAdvanceMode s1 = TimeAdvanceGranted"
    using position_acceptInternalMessage[OF s1] Cons.prems(2) by (simp add: position_def)
  have "tm_inv fac s1 (relied None s1)"
    using tm_inv_acceptInternalMessage[OF Cons.prems(1) _ s1] Cons.prems(3) by simp
  with mode rest Cons.IH show ?case by (simp add: relied_granted)
qed simp

lemma tm_inv_request:
  assumes inv: "tm_inv fac s g" and chk: "checkTimeAdvance env t s = None"
    and hon: "m = FlushQueueRequest \<Longrightarrow> flush_honest fac env inbox s"
    and req: "timeAdvanceRequest fac env inbox t m s = Some s'"
  shows "tm_inv fac s' (relied g s')"
proof -
  have ok: "\<not> isLogicalTimeInThePast t s" "timeAdvanceMode s = TimeAdvanceGranted"
    "\<not> getTimeRegulationEnablePending s"
    using chk by (auto simp: checkTimeAdvance_def split: option.splits if_splits)
  then have g: "g = None" using inv by (simp add: tm_inv_def advancing_def mode_defs)
  show ?thesis
  proof (cases "m = FlushQueueRequest")
    case False
    then show ?thesis using req tm_inv_timeAdvance[OF inv ok(2,1,3)] by (auto simp: timeAdvanceRequest_def)
  next
    case True
    then obtain s1 where s1: "flushInternalMessages fac env inbox s = Some s1"
      and s': "s' = timeAdvance fac env t m s1"
      using req by (auto simp: timeAdvanceRequest_def)
    have "tm_inv fac s1 None" using tm_inv_flush[OF _ ok(2) hon[OF True] s1] inv g by simp
    moreover have "position s1 = position s" by (rule position_flush[OF s1])
    ultimately show ?thesis
      using ok tm_inv_timeAdvance[of s1 None t env m]
      by (simp add: s' g position_def isLogicalTimeInThePast_def)
  qed
qed

lemma tm_inv_modifyLookahead:
  assumes inv: "tm_inv fac s g" and mode: "timeAdvanceMode s = TimeAdvanceGranted"
    and la: "zeroLogicalTimeInterval fac \<le> la"
  shows "tm_inv fac (modifyLookahead fac env la s) None"
proof -
  define s1 where "s1 = s\<lparr>targetLookahead := la,
      lastOutboundLowerBoundTimeStamp := outboundLowerBoundTimeStamp s\<rparr>"
  define s2 where "s2 = setOutboundLowerTimeStampAndCurrentLookahead fac (fst (logicalTime s1))
      (lastOutboundLowerBoundTimeStamp s1) s1"
  note b = setOutbound_bounds[OF s2_def]
  obtain cl where s2: "s2 = s1\<lparr>currentLookahead := cl,
      outboundLowerBoundTimeStamp := outboundLowerBoundTimeStamp s2\<rparr>" using b(4) by blast
  have f: "timeRegulationMode s2 = timeRegulationMode s" "targetLookahead s2 = la"
    "federateLowerBoundMap s2 = federateLowerBoundMap s" "timeAdvanceMode s2 = timeAdvanceMode s"
    "committedOutboundLowerBoundTimeStamp s2 = committedOutboundLowerBoundTimeStamp s"
    by (subst s2, simp add: s1_def)+
  have "snd (outboundLowerBoundTimeStamp s2) = 0"
    if "getTimeRegulationEnablePending s" "snd (outboundLowerBoundTimeStamp s) = 0"
    using that b(3) by (auto simp: max_def s1_def getOutboundLowerTimeStampSecondField_def)
  moreover have "toLogicalTime fac (outboundLowerBoundTimeStamp s) \<le> toLogicalTime fac (outboundLowerBoundTimeStamp s2)"
    using b(1) by (simp add: s1_def)
  ultimately have inv2: "tm_inv fac s2 None"
    using inv mode la by (auto simp: tm_inv_def f advancing_def mode_defs)
  have nadv: "\<not> advancing s2" using mode by (simp add: f advancing_def mode_defs)
  have eq: "modifyLookahead fac env la s = sendCommitIfChanged env
      (toLogicalTime fac (outboundLowerBoundTimeStamp s2)) TimeAdvanceAndNextMessageCommit s2"
    by (simp add: modifyLookahead_def s2_def s1_def Let_def sendCommitPairIfChanged_def toLogicalTime_def)
  have ne: "TimeAdvanceAndNextMessageCommit \<noteq> CommitNone" by simp
  show ?thesis
    by (rule sendCommitIfChangedE[OF ne, of env "toLogicalTime fac (outboundLowerBoundTimeStamp s2)" s2])
      (use tm_inv_commit_outbound[OF inv2 nadv] in \<open>simp add: eq\<close>)
qed

lemma tm_inv_enableTimeRegulation:
  assumes inv: "tm_inv fac s g" and mode: "timeAdvanceMode s = TimeAdvanceGranted"
    and la: "zeroLogicalTimeInterval fac \<le> la"
  shows "tm_inv fac (enableTimeRegulation fac env t la s) None"
proof -
  have lbi: "lb_inv (federateLowerBoundMap s)" using inv by (simp add: tm_inv_def)
  have x: "tm_inv fac (s\<lparr>timeRegulationMode := TimeRegulationEnablePending, currentLookahead := la,
      targetLookahead := la, pendingLogicalTime := p, outboundLowerBoundTimeStamp := (ob, 0),
      lastOutboundLowerBoundTimeStamp := (ob, 0), committedOutboundLowerBoundTimeStamp := ob,
      committedNextMessageLowerBoundTimeStamp := ob, enableFederateHandleSet := hs\<rparr>) None" for ob p hs
    using lbi mode la by (simp add: tm_inv_def advancing_def toLogicalTime_def)
  have resp: "tm_inv fac (sendCommitResponses env y) None = tm_inv fac y None" for y
    by (rule sendCommitResponsesE[of env y]) simp
  show ?thesis using x by (simp add: enableTimeRegulation_def Let_def resp)
qed

lemmas service_defs = svc_enableTimeRegulation_def svc_enableTimeRegulationAt_def
  svc_disableTimeRegulation_def svc_enableTimeConstrained_def svc_disableTimeConstrained_def
  svc_timeAdvanceRequest_def svc_timeAdvanceRequestAvailable_def svc_nextMessageRequest_def
  svc_nextMessageRequestAvailable_def svc_flushQueueRequest_def svc_modifyLookahead_def
  svc_enableAsynchronousDelivery_def svc_disableAsynchronousDelivery_def svc_allowPendingTime_def
  svc_disallowPendingTime_def

lemma tm_inv_frames:
  assumes inv: "tm_inv fac s g"
  shows "tm_inv fac (queueReceiveOrderMessage m s) g"
    and "tm_inv fac (eraseMessagesForObjectInstance h s) g"
    and "tm_inv fac (setNotificationHandle n s) g"
    and "callbackMessageAvailable s = (b, s') \<Longrightarrow> tm_inv fac s' g"
    and "tm_inv fac (enableTimeConstrained env s) g \<or> timeAdvanceMode s \<noteq> TimeAdvanceGranted"
    and "tm_inv fac (disableTimeConstrained env s) g"
proof -
  show "tm_inv fac (queueReceiveOrderMessage m s) g"
    using signal_eq inv unfolding queueReceiveOrderMessage_def by (metis tm_inv_frame(3,4))
  show "tm_inv fac (eraseMessagesForObjectInstance h s) g"
    using inv by (simp add: eraseMessagesForObjectInstance_def Let_def)
  show "tm_inv fac (setNotificationHandle n s) g"
    using signal_eq[of "s\<lparr>notificationHandle := n\<rparr>"] inv
    by (auto simp: setNotificationHandle_def Let_def)
  show "tm_inv fac s' g" if "callbackMessageAvailable s = (b, s')"
  proof -
    have "tm_inv fac (cleanQueue (checkForPendingFlushQueue s)) g"
      by (rule prepareE[of s]) (use inv in simp)
    with that inv show ?thesis by (auto simp: callbackMessageAvailable_def Let_def split: if_splits)
  qed
  show "tm_inv fac (enableTimeConstrained env s) g \<or> timeAdvanceMode s \<noteq> TimeAdvanceGranted"
    using inv tm_inv_pending[of fac "s\<lparr>timeConstrainedMode := TimeConstrainedEnablePending\<rparr>" g
        "(fst (logicalTime s), 0)"]
    by (auto simp: enableTimeConstrained_def Let_def advancing_def mode_defs)
  show "tm_inv fac (disableTimeConstrained env s) g"
    using inv by (simp add: disableTimeConstrained_def)
qed

lemma tm_inv_step:
  assumes step: "tm_step fac g s s'" and inv: "tm_inv fac s g"
  shows "tm_inv fac s' (relied g s')"
  using step
proof cases
  case (enableRegulation env la)
  then have "tm_inv fac s' None" "timeAdvanceMode s = TimeAdvanceGranted"
    using tm_inv_enableTimeRegulation[OF inv]
    by (auto simp: service_defs split: option.splits if_splits)
  then show ?thesis using tm_inv_relied[of s' None] inv by (simp add: tm_inv_def advancing_def mode_defs)
next
  case (enableRegulationAt env t la)
  then have "tm_inv fac s' None" "timeAdvanceMode s = TimeAdvanceGranted"
    using tm_inv_enableTimeRegulation[OF inv]
    by (auto simp: service_defs split: option.splits if_splits)
  then show ?thesis using tm_inv_relied[of s' None] inv by (simp add: tm_inv_def advancing_def mode_defs)
next
  case (disableRegulation env)
  then have "tm_inv fac s' None" "\<not> advancing s'"
    using inv by (auto simp: service_defs disableTimeRegulation_def tm_inv_def advancing_def send_def
        split: option.splits if_splits)
  then show ?thesis by (simp add: relied_def)
next
  case (enableConstrained env)
  then have "tm_inv fac s' g"
    using tm_inv_frames(5)[OF inv, of env] by (auto simp: service_defs split: option.splits if_splits)
  then show ?thesis by (rule tm_inv_relied)
next
  case (disableConstrained env)
  then have "tm_inv fac s' g"
    using tm_inv_frames(6)[OF inv] by (auto simp: service_defs split: option.splits if_splits)
  then show ?thesis by (rule tm_inv_relied)
next
  case (modify env la chk)
  then have "tm_inv fac s' None" "g = None"
    using tm_inv_modifyLookahead[OF inv] inv
    by (auto simp: service_defs tm_inv_def advancing_def mode_defs split: option.splits if_splits)
  then show ?thesis using tm_inv_relied[of s' None] by simp
next
  case (loopback t env m)
  then have "s' = s \<or> s' = queueAndAdvance fac env (t, -1) m s"
    by (auto simp: queueTimeStampedMessage_def split: if_splits)
  then show ?thesis using tm_inv_relied[OF inv] tm_inv_loopback[OF inv loopback(1,2)] by blast
next
  case (callback e)
  then show ?thesis using tm_inv_dispatchCallback[OF inv] by blast
next
  case (internal env m)
  then show ?thesis using tm_inv_acceptInternalMessage[OF inv] by blast
next
  case (flushQueue env inbox t)
  then show ?thesis using tm_inv_request[OF inv, of env t FlushQueueRequest inbox s']
    by (auto simp: service_defs split: option.splits)
next
  case (advance env t)
  then show ?thesis using tm_inv_request[OF inv, of env t TimeAdvanceRequest "[]" s']
    by (auto simp: service_defs split: option.splits)
next
  case (advanceAvailable env t)
  then show ?thesis using tm_inv_request[OF inv, of env t TimeAdvanceRequestAvailable "[]" s']
    by (auto simp: service_defs split: option.splits)
next
  case (nextMessage env t)
  then show ?thesis using tm_inv_request[OF inv, of env t NextMessageRequest "[]" s']
    by (auto simp: service_defs split: option.splits)
next
  case (nextMessageAvailable env t)
  then show ?thesis using tm_inv_request[OF inv, of env t NextMessageRequestAvailable "[]" s']
    by (auto simp: service_defs split: option.splits)
qed (use inv tm_inv_frames[OF inv] in
      \<open>auto simp: service_defs intro: tm_inv_relied split: option.splits if_splits\<close>)

theorem run_inv: "tm_run fac s g \<Longrightarrow> tm_inv fac s g"
proof (induction rule: tm_run.induct)
  case run_start
  show ?case
    by (simp add: tm_inv_def initial_time_management_def initial_modes_def time_modes.defs Let_def
        advancing_def mode_defs)
qed (rule tm_inv_step)

text \<open>A time stamp the federate may still use is never before what it has committed.\<close>

lemma run_no_early_message:
  assumes "tm_run fac s g" "getTimeRegulationEnabled s" "\<not> logicalTimeAlreadyPassed t s"
  shows "committedOutboundLowerBoundTimeStamp s \<le> t"
proof -
  have "committedOutboundLowerBoundTimeStamp s \<le> toLogicalTime fac (outboundLowerBoundTimeStamp s)"
    using run_inv[OF assms(1)] assms(2) by (simp add: tm_inv_def)
  also have "\<dots> \<le> t"
    using assms(3) by (auto simp: logicalTimeAlreadyPassed_def toLogicalTime_def nextAfter_le_iff
        split: if_splits)
  finally show ?thesis .
qed

end

end
