(* ===== verification/Time_Properties.thy ===== *)
theory Time_Properties
  imports Time_Run
begin

text \<open>
  What the time management promises the federation and its own federate, on the integer times of
  \<open>RTI1516Einteger64TimeFactory\<close>, and where the code falls short of it.
\<close>

abbreviation int64 :: "(int, int) time_factory" where
  "int64 \<equiv> integer64TimeFactory"

subsection \<open>A run for the witnesses\<close>

definition example_ambassador :: ambassador where
  "example_ambassador = \<lparr>isConnected = True, timeManagementValid = True, ownHandle = 1,
     joinedHandles = {1}\<rparr>"

text \<open>A lone federate gets regulating with lookahead 5: asked, answered by itself, called back.\<close>

definition example_asked :: "(int, int) time_management" where
  "example_asked = enableTimeRegulation int64 example_ambassador 0 5 (initial_time_management int64)"

definition example_answered :: "(int, int) time_management" where
  "example_answered = acceptEnableTimeRegulationRequest int64 example_ambassador 1 5 (- 17) example_asked"

definition example_regulating :: "(int, int) time_management" where
  "example_regulating = snd (dispatchCallback int64 example_answered)"

lemmas example_simps = example_ambassador_def integer64TimeFactory_def initial_time_management_def
  initial_modes_def time_modes.defs

lemma example_asked_step: "tm_step int64 None (initial_time_management int64) example_asked"
proof (rule tm_step.enableRegulation)
  show "svc_enableTimeRegulation int64 example_ambassador 5 (initial_time_management int64) = Inr example_asked"
    by (simp add: svc_enableTimeRegulation_def checkMember_def example_asked_def example_simps Let_def)
qed

lemma example_answered_step: "tm_step int64 None example_asked example_answered"
  by (rule tm_step.internal[of example_ambassador None _ "EnableTimeRegulationRequest 1 5 (- 17)"])
    (simp_all add: example_answered_def example_ambassador_def)

lemma example_values:
  "timeRegulationMode example_answered = TimeRegulationEnablePending"
  "timeAdvanceMode example_answered = TimeAdvanceGranted"
  "timeRegulationMode example_regulating = TimeRegulationEnabled"
  "outboundLowerBoundTimeStamp example_regulating = (5, 0)"
  "committedOutboundLowerBoundTimeStamp example_regulating = 5"
  by code_simp+

lemma example_regulating_step: "tm_step int64 None example_answered example_regulating"
proof (rule tm_step.callback)
  show "dispatchCallback int64 example_answered
      = (fst (dispatchCallback int64 example_answered), example_regulating)"
    by (simp add: example_regulating_def)
qed (simp add: example_values)

lemma example_run: "tm_run int64 example_regulating None"
proof -
  have "tm_run int64 example_asked (relied None example_asked)"
    using run_start example_asked_step by (rule run_step)
  moreover have "relied None example_asked = None" by code_simp
  ultimately have "tm_run int64 example_answered (relied None example_answered)"
    using example_answered_step by (metis run_step)
  moreover have "relied None example_answered = None" by code_simp
  ultimately have "tm_run int64 example_regulating (relied None example_regulating)"
    using example_regulating_step by (metis run_step)
  moreover have "relied None example_regulating = None" by code_simp
  ultimately show ?thesis by simp
qed

subsection \<open>The promise of a regulating federate\<close>

text \<open>
  C5: In every run in which the other federates keep the promises this federate has relied on,
  a time stamp that \<open>logicalTimeAlreadyPassed\<close> lets through is never before the lower bound
  that the federate has committed to the federation, and the commit stays below the bound for
  outgoing messages, as the assertions of the class say.
\<close>

theorem no_message_before_commit:
  assumes "tm_run integer64TimeFactory s g" "getTimeRegulationEnabled s"
  shows "committedOutboundLowerBoundTimeStamp s
      \<le> toLogicalTime integer64TimeFactory (outboundLowerBoundTimeStamp s)
    \<and> (\<not> logicalTimeAlreadyPassed t s \<longrightarrow> committedOutboundLowerBoundTimeStamp s \<le> t)"
  using int64.run_inv[OF assms(1)] int64.run_no_early_message[OF assms, of t] assms(2)
  by (simp add: tm_inv_def)

theorem no_message_before_commit_witness:
  "tm_run integer64TimeFactory example_regulating None
   \<and> committedOutboundLowerBoundTimeStamp example_regulating = 5
   \<and> \<not> logicalTimeAlreadyPassed 5 example_regulating \<and> logicalTimeAlreadyPassed 4 example_regulating
   \<and> committedOutboundLowerBoundTimeStamp example_regulating \<le> 5"
proof -
  have reg: "getTimeRegulationEnabled example_regulating" by (simp add: example_values)
  have "\<not> logicalTimeAlreadyPassed 5 example_regulating" "logicalTimeAlreadyPassed 4 example_regulating"
    by (simp_all add: logicalTimeAlreadyPassed_def example_values)
  then show ?thesis
    using no_message_before_commit[OF example_run reg, of 5] example_run by (simp add: example_values)
qed

subsection \<open>Delivery in time stamp order\<close>

text \<open>Outside of the flush queue mode the loop over the queue only drops empty lists.\<close>

lemma cleanQueue_dropWhile:
  "timeAdvanceMode s \<noteq> FlushQueueRequest \<Longrightarrow>
     cleanQueue s = s\<lparr>logicalTimeMessageListMap :=
       dropWhile (\<lambda>e. snd e = []) (logicalTimeMessageListMap s)\<rparr>"
proof (induction s rule: cleanQueue.induct)
  case (1 s)
  show ?case
  proof (cases "logicalTimeMessageListMap s")
    case Nil
    then have "s\<lparr>logicalTimeMessageListMap := []\<rparr> = s" by simp
    with Nil show ?thesis by (subst cleanQueue.simps) simp
  next
    case (Cons e q)
    obtain p ms where e: "e = (p, ms)" by (cases e)
    show ?thesis
    proof (cases "ms = []")
      case True
      have flush: "checkForPendingFlushQueue (s\<lparr>logicalTimeMessageListMap := q\<rparr>)
          = s\<lparr>logicalTimeMessageListMap := q\<rparr>"
        using 1(2) by (simp add: checkForPendingFlushQueue_def getFlushQueueMode_def)
      from 1(1)[OF Cons[unfolded e] refl True] 1(2) show ?thesis
        by (subst cleanQueue.simps) (simp add: Cons e True flush)
    next
      case False
      have "s\<lparr>logicalTimeMessageListMap := (p, ms) # q\<rparr> = s" using Cons e by simp
      with False Cons e show ?thesis by (subst cleanQueue.simps) simp
    qed
  qed
qed

lemma smap_ok_dropWhile: "smap_ok m \<Longrightarrow> smap_ok (dropWhile P m)"
  by (induction m) (auto simp: smap_ok_Cons)

text \<open>
  C12: A time constrained federate that is not flushing gets a time stamped message or a grant
  only when it is the first of its queue, its time is not beyond the pending time, and every
  regulating federate has committed to a time not before it (strictly after it for a grant of a
  request that is not of an \<open>Available\<close> kind).
\<close>

theorem constrained_delivery_in_order:
  assumes con: "getTimeConstrainedEnabled s" and fq: "timeAdvanceMode s \<noteq> FlushQueueRequest"
    and ok: "smap_ok (logicalTimeMessageListMap s)" "lb_inv (federateLowerBoundMap s)"
    and ro: "\<not> receiveOrderMessagesPermitted s \<or> receiveOrderMessages s = []"
    and disp: "dispatchCallback integer64TimeFactory s = (Some e, s')"
  shows "\<exists>p m ms q1 q2. logicalTimeMessageListMap s = q1 @ (p, m # ms) # q2
    \<and> (\<forall>x \<in> set q1. snd x = []) \<and> (\<forall>x \<in> set q2. p < fst x)
    \<and> e = fst (acceptCallbackMessage integer64TimeFactory m
        (s\<lparr>logicalTimeMessageListMap := (if ms = [] then q2 else (p, ms) # q2)\<rparr>))
    \<and> p \<le> pendingLogicalTime s
    \<and> (\<forall>f b. lb_bound (federateLowerBoundMap s) f = Some b
          \<longrightarrow> (if 0 < snd p then fst p < b else fst p \<le> b))"
proof -
  define q where "q = dropWhile (\<lambda>e. snd e = []) (logicalTimeMessageListMap s)"
  have flush: "checkForPendingFlushQueue s = s"
    using fq by (simp add: checkForPendingFlushQueue_def getFlushQueueMode_def)
  have clean: "cleanQueue s = s\<lparr>logicalTimeMessageListMap := q\<rparr>"
    using cleanQueue_dropWhile[OF fq] by (simp add: q_def)
  let ?s1 = "s\<lparr>logicalTimeMessageListMap := q\<rparr>"
  have no: "\<not> (receiveOrderMessagesPermitted s \<and> receiveOrderMessages s \<noteq> [])" using ro by blast
  have step: "(if q = [] \<or> \<not> timeStampOrderMessagesPermitted ?s1 then (None, ?s1)
      else case popTimeStamped ?s1 of None \<Rightarrow> (None, ?s1)
           | Some (m, s2) \<Rightarrow> (let (e, s3) = acceptCallbackMessage int64 m s2 in (Some e, s3))) = (Some e, s')"
    using disp[unfolded dispatchCallback_def if_not_P[OF no]] flush clean by (simp add: Let_def)
  then have ne: "q \<noteq> []" and perm: "timeStampOrderMessagesPermitted ?s1" by (auto split: if_splits)
  obtain p m ms q2 where q: "q = (p, m # ms) # q2"
    using ne hd_dropWhile[of "\<lambda>e. snd e = []" "logicalTimeMessageListMap s"]
    by (cases q) (auto simp: q_def neq_Nil_conv)
  have split: "logicalTimeMessageListMap s
      = takeWhile (\<lambda>e. snd e = []) (logicalTimeMessageListMap s) @ (p, m # ms) # q2"
    using takeWhile_dropWhile_id[of "\<lambda>e. snd e = []" "logicalTimeMessageListMap s", folded q_def]
    unfolding q by (rule sym)
  have "smap_ok q" using smap_ok_dropWhile[OF ok(1)] by (simp add: q_def)
  then have later: "\<forall>x \<in> set q2. p < fst x" by (auto simp: q smap_ok_Cons)
  have ev: "e = fst (acceptCallbackMessage int64 m
      (s\<lparr>logicalTimeMessageListMap := (if ms = [] then q2 else (p, ms) # q2)\<rparr>))"
    using step perm by (auto simp: q popTimeStamped_def split: prod.splits)
  have "\<not> pendingLogicalTime s < p" "canAdvanceTo p s"
    using perm con fq by (auto simp: timeStampOrderMessagesPermitted_def q getLeastIncomingTimepair_def
        getFlushQueueMode_def canAdvanceTo_def split: if_splits)
  moreover have "p = (fst p, snd p)" by simp
  ultimately have "p \<le> pendingLogicalTime s" and
    "\<forall>f b. lb_bound (federateLowerBoundMap s) f = Some b \<longrightarrow> (if 0 < snd p then fst p < b else fst p \<le> b)"
    using lb_canAdvanceTo_iff[OF ok(2), of "fst p" "snd p"] by (auto simp: canAdvanceTo_def not_less)
  moreover have "\<forall>x \<in> set (takeWhile (\<lambda>e. snd e = []) (logicalTimeMessageListMap s)). snd x = []"
    using set_takeWhileD by fast
  ultimately show ?thesis using split later ev by (intro exI conjI)
qed

text \<open>A constrained federate that waits for time 4 while another one has committed to 4.\<close>

definition example_waiting :: "(int, int) time_management" where
  "example_waiting = (initial_time_management int64)
     \<lparr>timeConstrainedMode := TimeConstrainedEnabled, timeAdvanceMode := TimeAdvanceRequest,
      pendingLogicalTime := (4, 1),
      federateLowerBoundMap := lb_insert 2 4 4 0 0 empty_lower_bounds,
      logicalTimeMessageListMap := [((3, - 1), [UserMessage 7 (Some TIMESTAMP) [1]]),
        ((4, 1), [TimeAdvanceGrantedMessage])]\<rparr>"

lemma example_waiting_lb: "lb_inv (federateLowerBoundMap example_waiting)"
proof -
  have "lb_inv (lb_insert 2 4 4 0 0 (empty_lower_bounds :: int lower_bound_map))"
    by (rule lb_inv_insert[OF lb_inv_empty]) (simp add: empty_lower_bounds_def)
  then show ?thesis by (simp add: example_waiting_def)
qed

theorem constrained_delivery_in_order_witness:
  "fst (dispatchCallback integer64TimeFactory example_waiting) = Some (deliver 7 [1] TIMESTAMP False)
   \<and> (\<exists>p m ms q1 q2. logicalTimeMessageListMap example_waiting = q1 @ (p, m # ms) # q2
        \<and> p \<le> pendingLogicalTime example_waiting)"
proof -
  have e: "fst (dispatchCallback integer64TimeFactory example_waiting) = Some (deliver 7 [1] TIMESTAMP False)"
    by code_simp
  then have d: "dispatchCallback integer64TimeFactory example_waiting
      = (Some (deliver 7 [1] TIMESTAMP False), snd (dispatchCallback integer64TimeFactory example_waiting))"
    by (metis prod.collapse)
  have "getTimeConstrainedEnabled example_waiting" "timeAdvanceMode example_waiting \<noteq> FlushQueueRequest"
    "smap_ok (logicalTimeMessageListMap example_waiting)"
    "\<not> receiveOrderMessagesPermitted example_waiting \<or> receiveOrderMessages example_waiting = []"
    by (simp_all add: example_waiting_def smap_ok_def example_simps)
  from constrained_delivery_in_order[OF this(1-3) example_waiting_lb this(4) d] e show ?thesis by blast
qed

subsection \<open>Getting regulating\<close>

text \<open>
  C25: A time constrained federate answers a federate that wants to regulate with a time it can
  live with: the answer is not before the proposal, the advance to its pending time stays
  possible, and the answered time is the bound it registers for the newcomer.
\<close>

theorem new_regulating_federate_keeps_pending_advance:
  assumes "lb_inv (federateLowerBoundMap s)" "f \<noteq> ownHandle env" "handle_valid (ownHandle env)"
    and new: "map_of (federateCommits (federateLowerBoundMap s)) f = None"
    and con: "getTimeConstrainedEnabledOrPending s"
    and can: "canAdvanceTo (pendingLogicalTime s) s"
  shows "canAdvanceTo (pendingLogicalTime s)
      (acceptEnableTimeRegulationRequest integer64TimeFactory env f t cid s)
    \<and> (\<exists>t' \<ge> t. EnableTimeRegulationResponse f (ownHandle env) t' True
            \<in> set (sent (acceptEnableTimeRegulationRequest integer64TimeFactory env f t cid s))
        \<and> lb_bound (federateLowerBoundMap (acceptEnableTimeRegulationRequest integer64TimeFactory env f t cid s))
            = (lb_bound (federateLowerBoundMap s))(f \<mapsto> t'))"
proof -
  define t' where "t' = correctedResponseTime int64 t s"
  define l where "l = lb_insert f t' t' cid (ownCommitId s - 1) (federateLowerBoundMap s)"
  define s1 where "s1 = s\<lparr>sent := sent s @ [EnableTimeRegulationResponse f (ownHandle env) t' True],
      federateLowerBoundMap := l\<rparr>"
  have eq: "acceptEnableTimeRegulationRequest int64 env f t cid s
      = notifyLocked env (getLockedByNextMessage
          (s\<lparr>sent := sent s @ [EnableTimeRegulationResponse f (ownHandle env) t' True]\<rparr>)) s1"
    using assms(2,3) con
    by (simp add: acceptEnableTimeRegulationRequest_def Let_def send_def t'_def l_def s1_def)
  have sub: "set (sent s1) \<subseteq> set (sent (notifyLocked env b s1))" for b
    by (auto simp: notifyLocked_def sendLockedByNextMessageRequest_def send_def Let_def)
  have lb: "federateLowerBoundMap (notifyLocked env b s1) = l" for b
    by (rule notifyLockedE[of env b s1]) (simp add: s1_def)
  have bound: "lb_bound l = (lb_bound (federateLowerBoundMap s))(f \<mapsto> t')"
    unfolding l_def by (rule lb_bound_insert[OF new])
  have linv: "lb_inv l" unfolding l_def by (rule lb_inv_insert[OF assms(1) new])
  obtain p k where pk: "pendingLogicalTime s = (p, k)" by (cases "pendingLogicalTime s")
  have t': "t \<le> t'" "if 0 < k then p < t' else p \<le> t'"
    using con by (auto simp: t'_def correctedResponseTime_def pk integer64TimeFactory_def)
  have "lb_canAdvanceTo (p, k) l"
    using can t'(2) unfolding canAdvanceTo_def pk lb_canAdvanceTo_iff[OF linv] lb_canAdvanceTo_iff[OF assms(1)] bound
    by auto
  then have "canAdvanceTo (pendingLogicalTime s) (acceptEnableTimeRegulationRequest int64 env f t cid s)"
    by (simp add: canAdvanceTo_def eq lb pk)
  moreover have "EnableTimeRegulationResponse f (ownHandle env) t' True
      \<in> set (sent (acceptEnableTimeRegulationRequest int64 env f t cid s))"
    unfolding eq using sub by (auto simp: s1_def)
  ultimately show ?thesis using t'(1) bound by (auto simp: eq lb)
qed

theorem new_regulating_federate_keeps_pending_advance_witness:
  "canAdvanceTo (pendingLogicalTime (example_waiting\<lparr>pendingLogicalTime := (3, 1)\<rparr>))
     (acceptEnableTimeRegulationRequest integer64TimeFactory example_ambassador 9 1 0
        (example_waiting\<lparr>pendingLogicalTime := (3, 1)\<rparr>))"
proof -
  let ?s = "example_waiting\<lparr>pendingLogicalTime := (3, 1)\<rparr>"
  have "canAdvanceTo (pendingLogicalTime ?s) ?s" by code_simp
  moreover have "lb_inv (federateLowerBoundMap ?s)" using example_waiting_lb by simp
  moreover have "map_of (federateCommits (federateLowerBoundMap ?s)) 9 = None" by code_simp
  moreover have "getTimeConstrainedEnabledOrPending ?s" "(9 :: u32) \<noteq> ownHandle example_ambassador"
    "handle_valid (ownHandle example_ambassador)"
    by code_simp+
  ultimately show ?thesis using new_regulating_federate_keeps_pending_advance by blast
qed

text \<open>The bound after the responses are collected: the largest of them and of the old bound.\<close>

lemma collect_bound:
  fixes s :: "(int, int) time_management"
  shows "fst (outboundLowerBoundTimeStamp (fold (\<lambda>(_, t). collectResponse int64 t) ts s))
      = foldl max (fst (outboundLowerBoundTimeStamp s)) (map snd ts)"
proof (induction ts arbitrary: s)
  case (Cons x ts)
  then show ?case by (cases x) (auto simp: collectResponse_def max_def)
qed simp

lemma collect_queue [simp]:
  "logicalTimeMessageListMap (fold (\<lambda>(_, t). collectResponse fac t) ts s) = logicalTimeMessageListMap s"
  by (induction ts arbitrary: s) (auto simp: collectResponse_def)

lemma foldl_max_ge:
  fixes a :: "'a::linorder"
  shows "a \<le> foldl max a xs \<and> (\<forall>x \<in> set xs. x \<le> foldl max a xs)"
proof (induction xs arbitrary: a)
  case (Cons y ys)
  from Cons[of "max a y"] show ?case by auto
qed simp

text \<open>
  C26: When the last answer is in, the federate that gets regulating commits to a bound that no
  federate objects to: not before its own proposal and not before any answer, and every other
  federate is told so. The callback is queued as the last entry at the time that is now pending.
\<close>

theorem regulation_respects_all_answers:
  assumes pend: "getTimeRegulationEnablePending s" and all: "enableFederateHandleSet s = {}"
  shows "let s' = checkTimeRegulationEnabled integer64TimeFactory env s;
             b = committedOutboundLowerBoundTimeStamp s'
         in b = fst (outboundLowerBoundTimeStamp s') \<and> fst (outboundLowerBoundTimeStamp s) \<le> b
          \<and> (\<forall>(f, t) \<in> set (enableFederateTimeStampMap s). t \<le> b)
          \<and> CommitLowerBoundTimeStamp (ownHandle env) b TimeAdvanceAndNextMessageCommit (ownCommitId s')
              \<in> set (sent s')
          \<and> enableFederateTimeStampMap s' = []
          \<and> map_of (logicalTimeMessageListMap s') (pendingLogicalTime s')
              = Some ((case map_of (logicalTimeMessageListMap s) (pendingLogicalTime s') of
                         None \<Rightarrow> [] | Some ms \<Rightarrow> ms) @ [TimeRegulationEnabledMessage])"
proof -
  define s1 where "s1 = (fold (\<lambda>(_, t). collectResponse int64 t) (enableFederateTimeStampMap s) s)
      \<lparr>enableFederateTimeStampMap := []\<rparr>"
  let ?b = "fst (outboundLowerBoundTimeStamp s1)"
  define s2 where "s2 = sendCommitLowerBoundTimeStamp env ?b TimeAdvanceAndNextMessageCommit s1"
  have eq: "checkTimeRegulationEnabled int64 env s
      = queueMessage (pendingLogicalTime s2) TimeRegulationEnabledMessage s2"
    using assms by (simp add: checkTimeRegulationEnabled_def s1_def s2_def Let_def)
  obtain n where q: "checkTimeRegulationEnabled int64 env s = s2\<lparr>logicalTimeMessageListMap :=
      smap_update (pendingLogicalTime s2)
        (case map_of (logicalTimeMessageListMap s2) (pendingLogicalTime s2) of
           None \<Rightarrow> [TimeRegulationEnabledMessage] | Some ms \<Rightarrow> ms @ [TimeRegulationEnabledMessage])
        (logicalTimeMessageListMap s2), signals := n\<rparr>"
    unfolding eq using queueMessage_eq by blast
  have s2: "committedOutboundLowerBoundTimeStamp s2 = ?b" "outboundLowerBoundTimeStamp s2 = outboundLowerBoundTimeStamp s1"
    "enableFederateTimeStampMap s2 = []"
    "CommitLowerBoundTimeStamp (ownHandle env) ?b TimeAdvanceAndNextMessageCommit (ownCommitId s2) \<in> set (sent s2)"
    by (simp_all add: s2_def sendCommitLowerBoundTimeStamp_def send_def Let_def s1_def)
  have "fst (outboundLowerBoundTimeStamp s) \<le> ?b" "\<forall>(f, t) \<in> set (enableFederateTimeStampMap s). t \<le> ?b"
    using foldl_max_ge[of "fst (outboundLowerBoundTimeStamp s)" "map snd (enableFederateTimeStampMap s)"]
    by (auto simp: s1_def collect_bound)
  moreover have "logicalTimeMessageListMap s2 = logicalTimeMessageListMap s"
    by (simp add: s2_def sendCommitLowerBoundTimeStamp_def send_def Let_def s1_def collect_queue)
  ultimately show ?thesis using s2 by (simp add: q Let_def split: option.split)
qed

theorem regulation_respects_all_answers_witness:
  "let s = example_asked\<lparr>enableFederateHandleSet := {}, enableFederateTimeStampMap := [(2, 8), (3, 1)]\<rparr>;
       s' = checkTimeRegulationEnabled integer64TimeFactory example_ambassador s
   in committedOutboundLowerBoundTimeStamp s' = 8 \<and> 8 \<le> committedOutboundLowerBoundTimeStamp s'
     \<and> map_of (logicalTimeMessageListMap s') (pendingLogicalTime s') = Some [TimeRegulationEnabledMessage]"
proof -
  let ?s = "example_asked\<lparr>enableFederateHandleSet := {}, enableFederateTimeStampMap := [(2, 8), (3, 1)]\<rparr>"
  have "getTimeRegulationEnablePending ?s" "enableFederateHandleSet ?s = {}" by code_simp+
  note p = regulation_respects_all_answers[OF this, of example_ambassador]
  have "committedOutboundLowerBoundTimeStamp
      (checkTimeRegulationEnabled integer64TimeFactory example_ambassador ?s) = 8"
    "map_of (logicalTimeMessageListMap ?s) (pendingLogicalTime
      (checkTimeRegulationEnabled integer64TimeFactory example_ambassador ?s)) = None"
    by code_simp+
  with p show ?thesis by (simp add: Let_def)
qed

subsection \<open>Requests\<close>

lemma sendCommitPairE:
  obtains x y n w where "sendCommitPairIfChanged fac env p TimeAdvanceAndNextMessageCommit s =
     s\<lparr>committedOutboundLowerBoundTimeStamp := x, committedNextMessageLowerBoundTimeStamp := y,
       ownCommitId := n, sent := w\<rparr>"
proof -
  have ne: "TimeAdvanceAndNextMessageCommit \<noteq> CommitNone" by simp
  have eq: "sendCommitPairIfChanged fac env p TimeAdvanceAndNextMessageCommit s
      = sendCommitIfChanged env (toLogicalTime fac p) TimeAdvanceAndNextMessageCommit s"
    by (simp add: sendCommitPairIfChanged_def toLogicalTime_def)
  show thesis
    by (rule sendCommitIfChangedE[OF ne, of env "toLogicalTime fac p" s], rule that, unfold eq, assumption)
qed

text \<open>
  C27: A time advance request is refused exactly for a federate that is not connected or not
  joined, a time in the past, or a pending advance or enable request. When it is accepted, the
  pending time is the requested time, the grant is the last entry of the queue at that time, and
  the bound for outgoing messages of a regulating federate is the larger of its old bound and the
  requested time plus its lookahead.
\<close>

theorem time_advance_request_accepted:
  "((\<exists>e. svc_timeAdvanceRequest integer64TimeFactory env t s = Inl e) \<longleftrightarrow>
      \<not> isConnected env \<or> \<not> timeManagementValid env \<or> t < fst (logicalTime s)
      \<or> timeAdvanceMode s \<noteq> TimeAdvanceGranted \<or> timeRegulationMode s = TimeRegulationEnablePending
      \<or> timeConstrainedMode s = TimeConstrainedEnablePending)
   \<and> (\<forall>r. svc_timeAdvanceRequest integer64TimeFactory env t s = Inr r \<longrightarrow>
      (\<exists>s'. r = Some s' \<and> fst (pendingLogicalTime s') = t \<and> timeAdvanceMode s' = TimeAdvanceRequest
        \<and> map_of (logicalTimeMessageListMap s') (pendingLogicalTime s')
            = Some ((case map_of (logicalTimeMessageListMap s) (pendingLogicalTime s') of
                       None \<Rightarrow> [] | Some ms \<Rightarrow> ms) @ [TimeAdvanceGrantedMessage])
        \<and> (getTimeRegulationEnabled s \<longrightarrow> outboundLowerBoundTimeStamp s' =
              max (t + targetLookahead s, of_bool (targetLookahead s = 0)) (outboundLowerBoundTimeStamp s))))"
proof (intro conjI allI impI)
  show "(\<exists>e. svc_timeAdvanceRequest integer64TimeFactory env t s = Inl e) \<longleftrightarrow>
      \<not> isConnected env \<or> \<not> timeManagementValid env \<or> t < fst (logicalTime s)
      \<or> timeAdvanceMode s \<noteq> TimeAdvanceGranted \<or> timeRegulationMode s = TimeRegulationEnablePending
      \<or> timeConstrainedMode s = TimeConstrainedEnablePending"
    by (auto simp: svc_timeAdvanceRequest_def checkTimeAdvance_def checkMember_def isLogicalTimeInThePast_def)
next
  fix r assume acc: "svc_timeAdvanceRequest integer64TimeFactory env t s = Inr r"
  then have r: "r = Some (timeAdvance int64 env t TimeAdvanceRequest s)" and lt: "fst (logicalTime s) \<le> t"
    by (auto simp: svc_timeAdvanceRequest_def checkTimeAdvance_def isLogicalTimeInThePast_def
        timeAdvanceRequest_def split: option.splits if_splits)
  define s2 where "s2 = s\<lparr>timeAdvanceMode := TimeAdvanceRequest, pendingLogicalTime :=
      max (logicalTime s) (t, getPendingTimeSecondField (s\<lparr>timeAdvanceMode := TimeAdvanceRequest\<rparr>))\<rparr>"
  define s3 where "s3 = (if getTimeRegulationEnabled s2
      then setOutboundLowerTimeStampAndCurrentLookahead int64 t (outboundLowerBoundTimeStamp s2)
             (s2\<lparr>lastOutboundLowerBoundTimeStamp := outboundLowerBoundTimeStamp s2\<rparr>) else s2)"
  have f3: "timeAdvanceMode s3 = TimeAdvanceRequest" "pendingLogicalTime s3 = pendingLogicalTime s2"
    "logicalTimeMessageListMap s3 = logicalTimeMessageListMap s" "timeRegulationMode s3 = timeRegulationMode s"
    by (auto simp: s3_def s2_def setOutboundLowerTimeStampAndCurrentLookahead_def Let_def)
  have ob: "getTimeRegulationEnabled s \<Longrightarrow> outboundLowerBoundTimeStamp s3 =
      max (t + targetLookahead s, of_bool (targetLookahead s = 0)) (outboundLowerBoundTimeStamp s)"
    by (auto simp: s3_def s2_def setOutboundLowerTimeStampAndCurrentLookahead_def Let_def max_def
        integer64TimeFactory_def getOutboundLowerTimeStampSecondField_def mode_defs)
  obtain x y n w where snd: "sendCommitPairIfChanged int64 env (outboundLowerBoundTimeStamp s3)
      TimeAdvanceAndNextMessageCommit s3 = s3\<lparr>committedOutboundLowerBoundTimeStamp := x,
        committedNextMessageLowerBoundTimeStamp := y, ownCommitId := n, sent := w\<rparr>"
    by (rule sendCommitPairE[of int64 env "outboundLowerBoundTimeStamp s3" s3], rule that)
  define s4 where "s4 = (if getTimeRegulationEnabled s3 then s3\<lparr>committedOutboundLowerBoundTimeStamp := x,
        committedNextMessageLowerBoundTimeStamp := y, ownCommitId := n, sent := w\<rparr> else s3)"
  have eq: "timeAdvance int64 env t TimeAdvanceRequest s
      = queueMessage (pendingLogicalTime s4) TimeAdvanceGrantedMessage s4"
  proof -
    have "timeAdvance int64 env t TimeAdvanceRequest s =
        (if getIsAnyAdvanceRequest s3 then advanceRequest int64 env s3
         else if getIsAnyNextMessageMode s3 then nextMessageRequest int64 env s3
         else if getFlushQueueMode s3 then flushQueueRequest int64 env s3 else s3)"
      by (simp add: timeAdvance_def s3_def s2_def Let_def)
    with f3(1) snd show ?thesis
      by (simp add: advanceRequest_def s4_def getIsAnyAdvanceRequest_def Let_def)
  qed
  have f4: "timeAdvanceMode s4 = TimeAdvanceRequest" "pendingLogicalTime s4 = pendingLogicalTime s2"
    "logicalTimeMessageListMap s4 = logicalTimeMessageListMap s"
    "outboundLowerBoundTimeStamp s4 = outboundLowerBoundTimeStamp s3"
    by (simp_all add: s4_def f3)
  have pend: "fst (pendingLogicalTime s2) = t"
    using lt by (auto simp: s2_def max_def less_eq_prod_def)
  obtain k where q: "queueMessage (pendingLogicalTime s4) TimeAdvanceGrantedMessage s4 =
     s4\<lparr>logicalTimeMessageListMap := smap_update (pendingLogicalTime s4)
        (case map_of (logicalTimeMessageListMap s4) (pendingLogicalTime s4) of
           None \<Rightarrow> [TimeAdvanceGrantedMessage] | Some ms \<Rightarrow> ms @ [TimeAdvanceGrantedMessage])
        (logicalTimeMessageListMap s4), signals := k\<rparr>"
    using queueMessage_eq by blast
  show "\<exists>s'. r = Some s' \<and> fst (pendingLogicalTime s') = t \<and> timeAdvanceMode s' = TimeAdvanceRequest
        \<and> map_of (logicalTimeMessageListMap s') (pendingLogicalTime s')
            = Some ((case map_of (logicalTimeMessageListMap s) (pendingLogicalTime s') of
                       None \<Rightarrow> [] | Some ms \<Rightarrow> ms) @ [TimeAdvanceGrantedMessage])
        \<and> (getTimeRegulationEnabled s \<longrightarrow> outboundLowerBoundTimeStamp s' =
              max (t + targetLookahead s, of_bool (targetLookahead s = 0)) (outboundLowerBoundTimeStamp s))"
    using pend ob by (simp add: r eq[unfolded q] f4 split: option.split)
qed

theorem time_advance_request_accepted_witness:
  "\<exists>s'. svc_timeAdvanceRequest integer64TimeFactory example_ambassador 7 example_regulating = Inr (Some s')
     \<and> fst (pendingLogicalTime s') = 7 \<and> outboundLowerBoundTimeStamp s' = (12, 0)"
proof -
  have ok: "\<not> (\<exists>e. svc_timeAdvanceRequest integer64TimeFactory example_ambassador 7 example_regulating = Inl e)"
    unfolding time_advance_request_accepted[THEN conjunct1] by code_simp
  then obtain r where "svc_timeAdvanceRequest integer64TimeFactory example_ambassador 7 example_regulating = Inr r"
    by (cases "svc_timeAdvanceRequest integer64TimeFactory example_ambassador 7 example_regulating") auto
  with time_advance_request_accepted[of example_ambassador 7 example_regulating]
  obtain s' where "svc_timeAdvanceRequest integer64TimeFactory example_ambassador 7 example_regulating = Inr (Some s')"
    "fst (pendingLogicalTime s') = 7"
    "outboundLowerBoundTimeStamp s' = max (7 + targetLookahead example_regulating,
       of_bool (targetLookahead example_regulating = 0)) (outboundLowerBoundTimeStamp example_regulating)"
    by (auto simp: example_values)
  moreover have "targetLookahead example_regulating = 5" by code_simp
  ultimately show ?thesis by (auto simp: example_values max_def)
qed

subsection \<open>Where the code falls short\<close>

text \<open>
  A smaller lookahead takes effect at once: after \<open>modifyLookahead\<close> the federate is told
  the new lookahead, although its bound for outgoing messages still stands at the old one. The
  minimum in \<open>_setOutboundLowerTimeStampAndCurrentLookahead\<close> always is the target, so the
  lookahead never shrinks step by step, which is what the two lookahead fields are kept for.
\<close>

theorem lookahead_reduced_at_once:
  "queryLookahead (modifyLookahead integer64TimeFactory env la s) = la
   \<and> (fst (logicalTime s) + la < fst (outboundLowerBoundTimeStamp s) \<longrightarrow>
        outboundLowerBoundTimeStamp (modifyLookahead integer64TimeFactory env la s)
          = outboundLowerBoundTimeStamp s)"
proof -
  define s1 where "s1 = s\<lparr>targetLookahead := la, lastOutboundLowerBoundTimeStamp := outboundLowerBoundTimeStamp s\<rparr>"
  define s2 where "s2 = setOutboundLowerTimeStampAndCurrentLookahead int64 (fst (logicalTime s1))
      (lastOutboundLowerBoundTimeStamp s1) s1"
  have eq: "modifyLookahead int64 env la s = sendCommitPairIfChanged int64 env (outboundLowerBoundTimeStamp s2)
      TimeAdvanceAndNextMessageCommit s2"
    by (simp add: modifyLookahead_def s2_def s1_def Let_def)
  have la: "currentLookahead s2 = la"
    by (auto simp: s2_def s1_def setOutboundLowerTimeStampAndCurrentLookahead_def Let_def
        integer64TimeFactory_def less_prod_def min_def)
  have ob: "fst (logicalTime s) + la < fst (outboundLowerBoundTimeStamp s) \<Longrightarrow>
      outboundLowerBoundTimeStamp s2 = outboundLowerBoundTimeStamp s"
    by (auto simp: s2_def s1_def setOutboundLowerTimeStampAndCurrentLookahead_def Let_def
        integer64TimeFactory_def less_prod_def)
  obtain x y n w where snd: "sendCommitPairIfChanged int64 env (outboundLowerBoundTimeStamp s2)
      TimeAdvanceAndNextMessageCommit s2 = s2\<lparr>committedOutboundLowerBoundTimeStamp := x,
        committedNextMessageLowerBoundTimeStamp := y, ownCommitId := n, sent := w\<rparr>"
    by (rule sendCommitPairE[of int64 env "outboundLowerBoundTimeStamp s2" s2], rule that)
  show ?thesis using la ob by (simp add: eq[unfolded snd] queryLookahead_def)
qed

theorem lookahead_reduced_at_once_witness:
  "queryLookahead (modifyLookahead integer64TimeFactory example_ambassador 2 example_regulating) = 2
   \<and> outboundLowerBoundTimeStamp (modifyLookahead integer64TimeFactory example_ambassador 2 example_regulating)
       = (5, 0)"
proof -
  have "logicalTime example_regulating = (0, 0)" by code_simp
  then show ?thesis
    using lookahead_reduced_at_once[of example_ambassador 2 example_regulating] by (simp add: example_values)
qed

text \<open>
  A next message request can be cut short by a message that is no longer there: when the
  object instance of the only queued message is removed before the request, the empty list stays
  in the queue, and the pending time is lowered to the time of the deleted message.
\<close>

theorem next_message_request_stops_at_deleted_message:
  assumes con: "getTimeConstrainedEnabled s" and reg: "getTimeRegulationDisabled s"
    and q: "logicalTimeMessageListMap s = [((t0, -1), [UserMessage h ot payload])]"
    and h: "handle_valid h" and t0: "fst (logicalTime s) \<le> t0" "t0 < t"
    and lb: "lb_empty (federateLowerBoundMap s)"
  shows "let s' = timeAdvance integer64TimeFactory env t NextMessageRequest (eraseMessagesForObjectInstance h s)
         in logicalTimeMessageListMap (eraseMessagesForObjectInstance h s) = [((t0, -1), [])]
          \<and> pendingLogicalTime s' = (t0, 1)
          \<and> logicalTimeMessageListMap s' = [((t0, -1), []), ((t0, 1), [TimeAdvanceGrantedMessage])]"
proof -
  let ?e = "eraseMessagesForObjectInstance h s"
  have e: "?e = s\<lparr>logicalTimeMessageListMap := [((t0, -1), [])],
      receiveOrderMessages := filter (\<lambda>m. getObjectInstanceHandleForMessage m \<noteq> h) (receiveOrderMessages s)\<rparr>"
    using h q by (simp add: eraseMessagesForObjectInstance_def Let_def)
  define s3 where "s3 = ?e\<lparr>timeAdvanceMode := NextMessageRequest, pendingLogicalTime := (t, 1)\<rparr>"
  have max: "max (logicalTime s) (t, 1) = (t, 1)"
    using t0 by (cases "logicalTime s") (auto simp: max_def less_eq_prod_def)
  have adv: "timeAdvance int64 env t NextMessageRequest ?e = nextMessageRequest int64 env s3"
    using con reg max
    by (simp add: timeAdvance_def e s3_def Let_def getPendingTimeSecondField_def mode_defs)
  define s4 where "s4 = s3\<lparr>pendingLogicalTime := (t0, 1), timeAdvanceToBeScheduled := True\<rparr>"
  have "nextMessageRequest int64 env s3 = checkForPendingTimeAdvance int64 env False s4"
    using con reg t0 by (simp add: nextMessageRequest_def cutPendingToQueue_def s4_def s3_def e
        getLeastIncomingTimepair_def Let_def)
  also have "\<dots> = queueMessage (t0, 1) TimeAdvanceGrantedMessage (s4\<lparr>timeAdvanceToBeScheduled := False\<rparr>)"
    using lb reg by (simp add: checkForPendingTimeAdvance_def s4_def s3_def e mode_defs canAdvanceTo_def
        lb_canAdvanceTo_def Let_def queueMessage_def signal_def)
  finally have final: "timeAdvance int64 env t NextMessageRequest ?e
      = queueMessage (t0, 1) TimeAdvanceGrantedMessage (s4\<lparr>timeAdvanceToBeScheduled := False\<rparr>)"
    unfolding adv .
  show ?thesis
    unfolding Let_def final by (simp add: queueMessage_def signal_def s4_def s3_def e)
qed

definition example_deleted :: "(int, int) time_management" where
  "example_deleted = (initial_time_management int64)\<lparr>timeConstrainedMode := TimeConstrainedEnabled,
     logicalTimeMessageListMap := [((5, - 1), [UserMessage 7 (Some TIMESTAMP) [1]])]\<rparr>"

theorem next_message_request_stops_at_deleted_message_witness:
  "pendingLogicalTime (timeAdvance integer64TimeFactory example_ambassador 10 NextMessageRequest
     (eraseMessagesForObjectInstance 7 example_deleted)) = (5, 1)"
proof -
  have "getTimeConstrainedEnabled example_deleted" "getTimeRegulationDisabled example_deleted"
    "logicalTimeMessageListMap example_deleted = [((5, - 1), [UserMessage 7 (Some TIMESTAMP) [1]])]"
    "handle_valid (7 :: u32)" "fst (logicalTime example_deleted) \<le> 5" "(5 :: int) < 10"
    "lb_empty (federateLowerBoundMap example_deleted)"
    by code_simp+
  from next_message_request_stops_at_deleted_message[OF this, of example_ambassador]
  show ?thesis by (simp add: Let_def)
qed

text \<open>
  \<open>setNotificationHandle\<close> signals the new handle when some list of the queue is empty instead
  of when some list is not: with no receive order message and only proper lists in the queue,
  the messages that wait are never signalled.
\<close>

theorem notification_of_waiting_messages_lost:
  assumes "receiveOrderMessages s = []"
    and "\<forall>entry \<in> set (logicalTimeMessageListMap s). snd entry \<noteq> []"
  shows "signals (setNotificationHandle True s) = signals s"
  using assms by (auto simp: setNotificationHandle_def list_ex_iff Let_def)

theorem notification_of_waiting_messages_lost_witness:
  "logicalTimeMessageListMap example_deleted \<noteq> [] \<and> signals (setNotificationHandle True example_deleted) = 0"
proof -
  have "receiveOrderMessages example_deleted = []"
    "\<forall>entry \<in> set (logicalTimeMessageListMap example_deleted). snd entry \<noteq> []"
    "signals example_deleted = 0" "logicalTimeMessageListMap example_deleted \<noteq> []"
    by code_simp+
  with notification_of_waiting_messages_lost[of example_deleted] show ?thesis by simp
qed

text \<open>
  The regulating federate of the example gets time constrained, allows the pending time in next
  message requests and asks for the next message up to 10.
\<close>

definition example_constraining :: "(int, int) time_management" where
  "example_constraining = enableTimeConstrained example_ambassador example_regulating"

definition example_constrained :: "(int, int) time_management" where
  "example_constrained = snd (dispatchCallback int64 example_constraining)"

definition example_allowing :: "(int, int) time_management" where
  "example_allowing = example_constrained\<lparr>allowPendingTimeInNextMessageRequest := True\<rparr>"

definition example_next_message :: "(int, int) time_management" where
  "example_next_message = timeAdvance int64 example_ambassador 10 NextMessageRequest example_allowing"

lemma run_stepI: "tm_run fac s g \<Longrightarrow> tm_step fac g s s' \<Longrightarrow> relied g s' = g' \<Longrightarrow> tm_run fac s' g'"
  using run_step by blast

lemma example_allowing_run: "tm_run int64 example_allowing None"
proof -
  have "tm_run int64 example_constraining None"
  proof (rule run_stepI[OF example_run tm_step.enableConstrained])
    show "svc_enableTimeConstrained example_ambassador example_regulating = Inr example_constraining"
      by code_simp
    show "relied None example_constraining = None" by code_simp
  qed
  then have "tm_run int64 example_constrained None"
  proof (rule run_stepI[OF _ tm_step.callback])
    show "dispatchCallback int64 example_constraining
        = (Some (timeConstrainedEnabled 0), example_constrained)"
      by code_simp
    show "relied None example_constrained = None" by code_simp
  qed simp
  then show ?thesis
  proof (rule run_stepI[OF _ tm_step.allowPending])
    show "svc_allowPendingTime example_ambassador example_constrained = Inr example_allowing" by code_simp
    show "relied None example_allowing = None" by code_simp
  qed
qed

lemma lb_canAdvanceTo_mono: "lb_canAdvanceTo (t, 0) m \<Longrightarrow> u \<le> t \<Longrightarrow> lb_canAdvanceTo (u, 0) m"
  by (auto simp: lb_canAdvanceTo_def)

lemma cutPendingToQueue_eq:
  "\<exists>u. cutPendingToQueue s = s\<lparr>pendingLogicalTime := (u, snd (pendingLogicalTime s))\<rparr> \<and> u \<le> fst (pendingLogicalTime s)"
proof (cases "logicalTimeMessageListMap s \<noteq> [] \<and> fst (getLeastIncomingTimepair s) < fst (pendingLogicalTime s)")
  case True
  then show ?thesis by (auto simp: cutPendingToQueue_def intro!: exI[of _ "fst (getLeastIncomingTimepair s)"])
next
  case False
  then have "cutPendingToQueue s = s" by (auto simp: cutPendingToQueue_def)
  then show ?thesis by (intro exI[of _ "fst (pendingLogicalTime s)"]) simp
qed

text \<open>Whenever the committed bound changes, the message with the new bound has been sent.\<close>

lemma sent_commit:
  assumes "has_TimeAdvanceCommit ct"
  shows "\<exists>cid. CommitLowerBoundTimeStamp (ownHandle env)
      (committedOutboundLowerBoundTimeStamp (sendCommitLowerBoundTimeStamp env t ct s)) ct cid
    \<in> set (sent (sendCommitLowerBoundTimeStamp env t ct s))"
  using assms by (auto simp: sendCommitLowerBoundTimeStamp_def send_def Let_def)

lemma changed_commit_sent:
  assumes "committedOutboundLowerBoundTimeStamp (sendCommitIfChanged env t ct s) \<noteq> committedOutboundLowerBoundTimeStamp s"
  shows "\<exists>ct'. has_TimeAdvanceCommit ct' \<and> sendCommitIfChanged env t ct s = sendCommitLowerBoundTimeStamp env t ct' s"
proof -
  have "\<not> has_TimeAdvanceCommit ct' \<Longrightarrow>
    committedOutboundLowerBoundTimeStamp (sendCommitLowerBoundTimeStamp env t ct' s) = committedOutboundLowerBoundTimeStamp s"
    for ct' by (simp add: sendCommitLowerBoundTimeStamp_def send_def Let_def)
  moreover have "sendCommitIfChanged env t ct s = s \<or>
      (\<exists>c. sendCommitIfChanged env t ct s = sendCommitLowerBoundTimeStamp env t c s)"
    by (auto simp: sendCommitIfChanged_def Let_def)
  ultimately show ?thesis using assms by (elim disjE exE) auto
qed

lemma commit_if_changed_told:
  assumes "committedOutboundLowerBoundTimeStamp (sendCommitIfChanged env t ct s) \<noteq> committedOutboundLowerBoundTimeStamp s"
  shows "\<exists>ct' cid. has_TimeAdvanceCommit ct' \<and> CommitLowerBoundTimeStamp (ownHandle env)
      (committedOutboundLowerBoundTimeStamp (sendCommitIfChanged env t ct s)) ct' cid
    \<in> set (sent (sendCommitIfChanged env t ct s))"
proof -
  obtain ct' where ct': "has_TimeAdvanceCommit ct'" "sendCommitIfChanged env t ct s = sendCommitLowerBoundTimeStamp env t ct' s"
    using changed_commit_sent[OF assms] by blast
  show ?thesis using sent_commit[OF ct'(1), of env t s] ct'(1) unfolding ct'(2) by blast
qed

lemma commit_told:
  assumes "committedOutboundLowerBoundTimeStamp (sendCommitLookaheadIfChanged fac env t la ct s)
    \<noteq> committedOutboundLowerBoundTimeStamp s"
  shows "\<exists>ct' cid. has_TimeAdvanceCommit ct' \<and> CommitLowerBoundTimeStamp (ownHandle env)
      (committedOutboundLowerBoundTimeStamp (sendCommitLookaheadIfChanged fac env t la ct s)) ct' cid
    \<in> set (sent (sendCommitLookaheadIfChanged fac env t la ct s))"
  using assms unfolding sendCommitLookaheadIfChanged_def Let_def by (rule commit_if_changed_told)

text \<open>A next message request that may advance at once.\<close>

lemma next_message_request_granted:
  fixes s :: "(int, int) time_management"
  assumes con: "getTimeConstrainedEnabled s" and reg: "getTimeRegulationEnabled s"
    and mode: "timeAdvanceMode s = NextMessageRequest" and can: "canAdvanceTo (fst (pendingLogicalTime s), 0) s"
    and s'_def: "s' = nextMessageRequest int64 env s"
  shows "timeAdvanceMode s' = NextMessageRequest" "getTimeRegulationEnabled s'"
    "allowPendingTimeInNextMessageRequest s' = allowPendingTimeInNextMessageRequest s"
    "snd (pendingLogicalTime s') = snd (pendingLogicalTime s)" "fst (pendingLogicalTime s') \<le> fst (pendingLogicalTime s)"
    "fst (pendingLogicalTime s') + targetLookahead s \<le> committedOutboundLowerBoundTimeStamp s'"
    "committedOutboundLowerBoundTimeStamp s' \<noteq> committedOutboundLowerBoundTimeStamp s \<Longrightarrow>
      \<exists>ct cid. has_TimeAdvanceCommit ct \<and>
        CommitLowerBoundTimeStamp (ownHandle env) (committedOutboundLowerBoundTimeStamp s') ct cid \<in> set (sent s')"
proof -
  obtain u where u: "cutPendingToQueue s = s\<lparr>pendingLogicalTime := (u, snd (pendingLogicalTime s))\<rparr>"
    "u \<le> fst (pendingLogicalTime s)" using cutPendingToQueue_eq by blast
  define s1 where "s1 = s\<lparr>pendingLogicalTime := (u, snd (pendingLogicalTime s)), timeAdvanceToBeScheduled := True\<rparr>"
  obtain y n w where "sendCommitLookaheadIfChanged int64 env u (targetLookahead s1) NextMessageCommit s1 =
      s1\<lparr>committedOutboundLowerBoundTimeStamp := committedOutboundLowerBoundTimeStamp s1,
        committedNextMessageLowerBoundTimeStamp := y, ownCommitId := n, sent := w\<rparr>"
    by (rule sendCommitLookahead_nextE)
  then have snd: "sendCommitLookaheadIfChanged int64 env u (targetLookahead s1) NextMessageCommit s1 =
      s1\<lparr>committedNextMessageLowerBoundTimeStamp := y, ownCommitId := n, sent := w\<rparr>" by simp
  define s2 where "s2 = s1\<lparr>committedNextMessageLowerBoundTimeStamp := y, ownCommitId := n, sent := w\<rparr>"
  obtain q k where q: "queueMessage (pendingLogicalTime s2) TimeAdvanceGrantedMessage
      (s2\<lparr>timeAdvanceToBeScheduled := False\<rparr>) =
      s2\<lparr>timeAdvanceToBeScheduled := False, logicalTimeMessageListMap := q, signals := k\<rparr>"
    by (rule queueMessageE)
  define s3 where "s3 = s2\<lparr>timeAdvanceToBeScheduled := False, logicalTimeMessageListMap := q, signals := k\<rparr>"
  have f3: "targetLookahead s3 = targetLookahead s" "pendingLogicalTime s3 = (u, snd (pendingLogicalTime s))"
    "timeAdvanceMode s3 = NextMessageRequest" "timeRegulationMode s3 = timeRegulationMode s"
    "allowPendingTimeInNextMessageRequest s3 = allowPendingTimeInNextMessageRequest s"
    "committedOutboundLowerBoundTimeStamp s3 = committedOutboundLowerBoundTimeStamp s"
    by (simp_all add: s3_def s2_def s1_def mode)
  have "nextMessageRequest int64 env s = checkForPendingTimeAdvance int64 env False s2"
    using con reg snd by (simp add: nextMessageRequest_def u(1) s1_def s2_def mode_defs Let_def)
  moreover have "canAdvanceTo (fst (pendingLogicalTime s2), 0) s2"
    using can u(2) lb_canAdvanceTo_mono by (auto simp: canAdvanceTo_def s2_def s1_def)
  moreover have "timeAdvanceToBeScheduled s2" "getIsAnyNextMessageMode s2" "getTimeRegulationEnabled s3"
    using mode reg by (simp_all add: s3_def s2_def s1_def mode_defs)
  ultimately have s': "s' = sendCommitLookaheadIfChanged int64 env u (targetLookahead s3) TimeAdvanceAndNextMessageCommit s3"
    using f3(2) by (simp add: s'_def checkForPendingTimeAdvance_def q[folded s3_def] Let_def)
  have ta: "has_TimeAdvanceCommit TimeAdvanceAndNextMessageCommit" by simp
  obtain y' n' w' where e: "s' = s3\<lparr>committedOutboundLowerBoundTimeStamp :=
        max (committedOutboundLowerBoundTimeStamp s3) (lookaheadBound int64 u s3),
      committedNextMessageLowerBoundTimeStamp := y', ownCommitId := n', sent := w'\<rparr>"
    unfolding s' by (rule sendCommitLookahead_advanceE[OF ta])
  have "u + targetLookahead s \<le> lookaheadBound int64 u s3"
    by (simp add: lookaheadBound_def toLogicalTime_def f3 integer64TimeFactory_def)
  then show "fst (pendingLogicalTime s') + targetLookahead s \<le> committedOutboundLowerBoundTimeStamp s'"
    by (simp add: e f3)
  show "timeAdvanceMode s' = NextMessageRequest" "getTimeRegulationEnabled s'"
    "allowPendingTimeInNextMessageRequest s' = allowPendingTimeInNextMessageRequest s"
    "snd (pendingLogicalTime s') = snd (pendingLogicalTime s)" "fst (pendingLogicalTime s') \<le> fst (pendingLogicalTime s)"
    using u(2) reg by (simp_all add: e f3 mode_defs)
  show "committedOutboundLowerBoundTimeStamp s' \<noteq> committedOutboundLowerBoundTimeStamp s \<Longrightarrow>
      \<exists>ct cid. has_TimeAdvanceCommit ct \<and>
        CommitLowerBoundTimeStamp (ownHandle env) (committedOutboundLowerBoundTimeStamp s') ct cid \<in> set (sent s')"
    using commit_told[of int64 env u "targetLookahead s3" TimeAdvanceAndNextMessageCommit s3] f3(6)
    unfolding s' by simp
qed

text \<open>
  C35: With \<open>allowPendingTimeInNextMessageRequest\<close> the promise that no message comes before a committed time
  is broken. In any run, when a regulating and constrained federate asks for the next message up to a time
  the others already allow, it commits at least to the time it is granted plus its lookahead, and tells the
  others if the commit is new. But the check of the sending services then lets exactly the times behind the
  granted one through, so with a lookahead above 1 also times before the commit.
\<close>

theorem allowed_pending_time_breaks_commit:
  assumes run: "tm_run integer64TimeFactory s g" and reg: "getTimeRegulationEnabled s"
    and con: "getTimeConstrainedEnabled s" and allow: "allowPendingTimeInNextMessageRequest s"
    and can: "canAdvanceTo (t, 0) s"
    and acc: "svc_nextMessageRequest integer64TimeFactory env t s = Inr (Some s')"
  shows "tm_run integer64TimeFactory s' (relied g s') \<and> getTimeRegulationEnabled s'
    \<and> fst (pendingLogicalTime s') \<le> t
    \<and> fst (pendingLogicalTime s') + targetLookahead s \<le> committedOutboundLowerBoundTimeStamp s'
    \<and> (committedOutboundLowerBoundTimeStamp s' \<noteq> committedOutboundLowerBoundTimeStamp s \<longrightarrow>
        (\<exists>ct cid. has_TimeAdvanceCommit ct \<and>
          CommitLowerBoundTimeStamp (ownHandle env) (committedOutboundLowerBoundTimeStamp s') ct cid \<in> set (sent s')))
    \<and> (logicalTimeAlreadyPassedReason x s' \<longleftrightarrow> x \<le> fst (pendingLogicalTime s'))"
proof -
  have s': "s' = timeAdvance int64 env t NextMessageRequest s" and lt: "fst (logicalTime s) \<le> t"
    using acc by (auto simp: svc_nextMessageRequest_def checkTimeAdvance_def isLogicalTimeInThePast_def
        timeAdvanceRequest_def split: option.splits if_splits)
  define s2 where "s2 = s\<lparr>timeAdvanceMode := NextMessageRequest, pendingLogicalTime := max (logicalTime s) (t, 1)\<rparr>"
  define s3 where "s3 = setOutboundLowerTimeStampAndCurrentLookahead int64 t (outboundLowerBoundTimeStamp s2)
      (s2\<lparr>lastOutboundLowerBoundTimeStamp := outboundLowerBoundTimeStamp s2\<rparr>)"
  have f3: "timeAdvanceMode s3 = NextMessageRequest" "pendingLogicalTime s3 = max (logicalTime s) (t, 1)"
    "timeRegulationMode s3 = timeRegulationMode s" "timeConstrainedMode s3 = timeConstrainedMode s"
    "targetLookahead s3 = targetLookahead s" "federateLowerBoundMap s3 = federateLowerBoundMap s"
    "allowPendingTimeInNextMessageRequest s3 = allowPendingTimeInNextMessageRequest s"
    "committedOutboundLowerBoundTimeStamp s3 = committedOutboundLowerBoundTimeStamp s"
    by (simp_all add: s3_def s2_def setOutboundLowerTimeStampAndCurrentLookahead_def Let_def)
  have m: "fst (max (logicalTime s) (t, 1)) = t" "snd (max (logicalTime s) (t, 1)) \<noteq> 0"
    using lt by (auto simp: max_def less_eq_prod_def)
  have adv: "s' = nextMessageRequest int64 env s3"
    using reg con f3(1) unfolding s'
    by (simp add: timeAdvance_def s3_def s2_def Let_def getPendingTimeSecondField_def mode_defs)
  have pre: "getTimeConstrainedEnabled s3" "getTimeRegulationEnabled s3"
    "canAdvanceTo (fst (pendingLogicalTime s3), 0) s3"
    using reg con can m by (simp_all add: mode_defs f3 canAdvanceTo_def)
  note G = next_message_request_granted[OF pre(1,2) f3(1) pre(3) adv]
  have "tm_run int64 s' (relied g s')"
    using run_stepI[OF run tm_step.nextMessage[OF acc] refl] .
  moreover have "logicalTimeAlreadyPassedReason x s' \<longleftrightarrow> x \<le> fst (pendingLogicalTime s')"
    using G(1,3,4) allow m(2) by (simp add: logicalTimeAlreadyPassedReason_def mode_defs f3)
  ultimately show ?thesis using G m f3 by auto
qed

theorem allowed_pending_time_breaks_commit_witness:
  "tm_run integer64TimeFactory example_next_message (Some 10)
   \<and> committedOutboundLowerBoundTimeStamp example_next_message = 15
   \<and> (\<exists>ct cid. has_TimeAdvanceCommit ct \<and> CommitLowerBoundTimeStamp 1 15 ct cid \<in> set (sent example_next_message))
   \<and> \<not> logicalTimeAlreadyPassedReason 11 example_next_message"
proof -
  have e: "getTimeRegulationEnabled example_allowing" "getTimeConstrainedEnabled example_allowing"
    "allowPendingTimeInNextMessageRequest example_allowing" "canAdvanceTo (10, 0) example_allowing"
    "svc_nextMessageRequest int64 example_ambassador 10 example_allowing = Inr (Some example_next_message)"
    and v: "relied None example_next_message = Some 10" "ownHandle example_ambassador = 1"
    "committedOutboundLowerBoundTimeStamp example_next_message = 15"
    "committedOutboundLowerBoundTimeStamp example_allowing = 5" "fst (pendingLogicalTime example_next_message) = 10"
    by code_simp+
  show ?thesis
    using allowed_pending_time_breaks_commit[OF example_allowing_run e, of 11] v by auto
qed

subsection \<open>Queries\<close>

text \<open>
  C34: \<open>queryLITS\<close> gives the least time at which something may still come in: the smallest of the
  bounds of the regulating federates and of the times in the queue, and nothing exactly when
  there are neither.
\<close>

theorem queryLITS_least:
  assumes ok: "smap_ok (logicalTimeMessageListMap s)" and lb: "lb_inv (federateLowerBoundMap s)"
  shows "(queryLITS s = None \<longleftrightarrow>
      logicalTimeMessageListMap s = [] \<and> lb_bound (federateLowerBoundMap s) = Map.empty)
    \<and> (\<forall>t. queryLITS s = Some t \<longrightarrow>
        (\<forall>p \<in> fst ` set (logicalTimeMessageListMap s). t \<le> fst p)
      \<and> (\<forall>f b. lb_bound (federateLowerBoundMap s) f = Some b \<longrightarrow> t \<le> b)
      \<and> (t \<in> fst ` fst ` set (logicalTimeMessageListMap s)
         \<or> (\<exists>f. lb_bound (federateLowerBoundMap s) f = Some t)))"
proof -
  let ?q = "logicalTimeMessageListMap s" and ?m = "federateLowerBoundMap s"
  have first: "?q \<noteq> [] \<Longrightarrow> getLeastIncomingTimepair s \<in> fst ` set ?q"
    by (simp add: getLeastIncomingTimepair_def)
  have le: "fst (getLeastIncomingTimepair s) \<le> fst p" if "p \<in> fst ` set ?q" for p
  proof -
    have "getLeastIncomingTimepair s \<le> p"
      using that smap_hd_Min[OF ok] by (cases "?q = []") (auto simp: getLeastIncomingTimepair_def)
    then show ?thesis by (rule prod_fst_le)
  qed
  have empty: "lb_empty ?m \<longleftrightarrow> lb_getGALT ?m = None"
    by (simp add: lb_empty_def lb_getGALT_def split: list.split)
  show ?thesis
  proof (cases "lb_getGALT ?m")
    case None
    then have "lb_bound ?m = Map.empty" using lb_getGALT_None[OF lb] by simp
    then show ?thesis using None empty first le by (auto simp: queryLITS_def)
  next
    case (Some g)
    then have g: "\<exists>f. lb_bound ?m f = Some g" "\<And>f b. lb_bound ?m f = Some b \<Longrightarrow> g \<le> b"
      using lb_getGALT_Some[OF lb] by auto
    have Q: "queryLITS s = (if ?q = [] then Some g
        else Some (min g (fst (getLeastIncomingTimepair s))))"
      using Some empty by (auto simp: queryLITS_def min_def)
    have ne: "lb_bound ?m \<noteq> Map.empty" using g(1) by auto
    show ?thesis
    proof (cases "?q = []")
      case True
      then show ?thesis using Q g ne by auto
    next
      case False
      have "min g (fst (getLeastIncomingTimepair s)) \<in> fst ` fst ` set ?q
         \<or> (\<exists>f. lb_bound ?m f = Some (min g (fst (getLeastIncomingTimepair s))))"
        using g(1) first[OF False] by (auto simp: min_def)
      moreover have "\<forall>p \<in> fst ` set ?q. min g (fst (getLeastIncomingTimepair s)) \<le> fst p"
        by (intro ballI min.coboundedI2 le)
      moreover have "\<forall>f b. lb_bound ?m f = Some b \<longrightarrow> min g (fst (getLeastIncomingTimepair s)) \<le> b"
        using g(2) by (auto intro: min.coboundedI1)
      ultimately show ?thesis using Q False ne by simp
    qed
  qed
qed

theorem queryLITS_least_witness:
  "queryLITS example_waiting = Some 3 \<and> (3 \<in> fst ` fst ` set (logicalTimeMessageListMap example_waiting)
     \<or> (\<exists>f. lb_bound (federateLowerBoundMap example_waiting) f = Some 3))"
proof -
  have ok: "smap_ok (logicalTimeMessageListMap example_waiting)" by (simp add: example_waiting_def smap_ok_def)
  have "queryLITS example_waiting = Some 3" by code_simp
  then show ?thesis using queryLITS_least[OF ok example_waiting_lb] by blast
qed

end
