(* ===== verification/Region_Model.thy ===== *)
theory Region_Model
  imports Std_Map
begin

text \<open>
  Data distribution regions: \<open>src/OpenRTI/RangeBounds.h\<close>, \<open>src/OpenRTI/Region.h\<close>,
  \<open>src/OpenRTI/RegionSet.cpp\<close> and the region handles of \<open>src/OpenRTI/Handle.h\<close>. A region is the
  ordered map of its range bounds; a dimension it does not mention is unrestricted. Dereferencing
  an end iterator is the result \<open>None\<close>.
\<close>

unbundle bit_operations_syntax

record range_bounds =
  lowerBound :: u32
  upperBound :: u32

type_synonym dimension = u32
type_synonym region = "(dimension \<times> range_bounds) list"
type_synonym region_handle = u64
type_synonym region_set = "(region_handle \<times> region) list"

section \<open>RangeBounds\<close>

definition no_range :: range_bounds where
  "no_range = \<lparr>lowerBound = - 1, upperBound = 0\<rparr>"

definition range_empty :: "range_bounds \<Rightarrow> bool" where
  "range_empty r \<longleftrightarrow> upperBound r \<le> lowerBound r"

definition range_whole :: "range_bounds \<Rightarrow> bool" where
  "range_whole r \<longleftrightarrow> lowerBound r = 0 \<and> upperBound r = - 1"

definition getCenter :: "range_bounds \<Rightarrow> u32" where
  "getCenter r = drop_bit 1 (upperBound r) + drop_bit 1 (lowerBound r)"

definition range_intersects :: "range_bounds \<Rightarrow> range_bounds \<Rightarrow> bool" where
  "range_intersects r s \<longleftrightarrow> lowerBound r < upperBound s \<and> lowerBound s < upperBound r"

definition range_includes :: "range_bounds \<Rightarrow> range_bounds \<Rightarrow> bool" where
  "range_includes r s \<longleftrightarrow>
     (if range_empty r then False
      else lowerBound r \<le> lowerBound s \<and> upperBound s \<le> upperBound r)"

definition range_extend :: "range_bounds \<Rightarrow> range_bounds \<Rightarrow> range_bounds" where
  "range_extend r s =
     \<lparr>lowerBound = min (lowerBound r) (lowerBound s), upperBound = max (upperBound r) (upperBound s)\<rparr>"

section \<open>Region\<close>

definition region_of_value :: "(dimension \<times> range_bounds) list \<Rightarrow> region" where
  "region_of_value regionValue =
     fold (\<lambda>(d, r) m. if range_whole r then m else smap_update d r m) regionValue []"

definition getRegionValue :: "region \<Rightarrow> (dimension \<times> range_bounds) list" where
  "getRegionValue region = map (\<lambda>(d, r). (d, r)) region"

definition getRangeBounds :: "dimension \<Rightarrow> region \<Rightarrow> range_bounds" where
  "getRangeBounds d region = (case map_of region d of None \<Rightarrow> no_range | Some r \<Rightarrow> r)"

definition setRangeBounds :: "dimension \<Rightarrow> range_bounds \<Rightarrow> region \<Rightarrow> region" where
  "setRangeBounds d r region =
     (if range_whole r then smap_erase d region else smap_update d r region)"

definition hasRangeBounds :: "dimension \<Rightarrow> region \<Rightarrow> bool" where
  "hasRangeBounds d region \<longleftrightarrow> map_of region d \<noteq> None"

text \<open>The two iterators of \<open>intersects\<close> are what is left of the two maps.\<close>

fun region_intersects :: "region \<Rightarrow> region \<Rightarrow> bool" where
  "region_intersects [] _ = True"
| "region_intersects _ [] = True"
| "region_intersects ((d, r) # i) ((e, s) # j) =
     (if d < e then region_intersects i ((e, s) # j)
      else if e < d then region_intersects ((d, r) # i) j
      else if \<not> range_intersects r s then False
      else region_intersects i j)"

text \<open>
  The loop of \<open>includes\<close>, entered with \<open>i\<close> not at its end. With \<open>j\<close> at its end the first branch
  falls through to the comparison of \<open>i->first\<close> with \<open>j->first\<close>.
\<close>

fun includes_loop :: "region \<Rightarrow> region \<Rightarrow> bool option" where
  "includes_loop [] _ = None"
| "includes_loop ((d, r) # i) [] =
     (if \<not> range_whole r then Some False else if i = [] then Some True else None)"
| "includes_loop ((d, r) # i) ((e, s) # j) =
     (if d < e then if i = [] then Some True else includes_loop i ((e, s) # j)
      else if e < d then includes_loop ((d, r) # i) j
      else if \<not> range_includes r s then Some False
      else if i = [] then Some True
      else includes_loop i j)"

definition region_includes :: "region \<Rightarrow> region \<Rightarrow> bool option" where
  "region_includes R S = (if R = [] then Some True else includes_loop R S)"

text \<open>
  The loop of \<open>extend\<close> runs while \<open>j\<close> \<^emph>\<open>is\<close> at the end of the other map: it has no turn for a map
  that has an entry, and dereferences the end iterator for an empty one.
\<close>

definition region_extend :: "region \<Rightarrow> region \<Rightarrow> region option" where
  "region_extend R S = (case S of [] \<Rightarrow> None | _ # _ \<Rightarrow> Some R)"

section \<open>RegionSet and region handles\<close>

definition RegionHandle :: "u32 \<Rightarrow> u32 \<Rightarrow> region_handle" where
  "RegionHandle federate localHandle = push_bit 32 (ucast federate) OR ucast localHandle"

definition getFederateHandle :: "region_handle \<Rightarrow> u32" where
  "getFederateHandle h = ucast (drop_bit 32 h)"

definition getLocalRegionHandle :: "region_handle \<Rightarrow> u32" where
  "getLocalRegionHandle h = ucast (h AND 0xffffffff)"

definition RegionSet_empty :: "region_set \<Rightarrow> bool" where
  "RegionSet_empty rs \<longleftrightarrow> rs = []"

definition RegionSet_insert :: "region_handle \<Rightarrow> region \<Rightarrow> region_set \<Rightarrow> region_set" where
  "RegionSet_insert h R rs = smap_update h R rs"

definition RegionSet_erase :: "region_handle \<Rightarrow> region_set \<Rightarrow> region_set" where
  "RegionSet_erase h rs = smap_erase h rs"

text \<open>Everything from \<open>lower_bound\<close> up to \<open>upper_bound\<close> is erased.\<close>

definition RegionSet_eraseFederate :: "u32 \<Rightarrow> region_set \<Rightarrow> region_set" where
  "RegionSet_eraseFederate federate rs =
     takeWhile (\<lambda>(h, _). h < RegionHandle federate 0) rs
     @ dropWhile (\<lambda>(h, _). h \<le> RegionHandle federate invalid_handle) rs"

definition RegionSet_intersects :: "region_set \<Rightarrow> region_set \<Rightarrow> bool" where
  "RegionSet_intersects rs rs' \<longleftrightarrow>
     list_ex (\<lambda>(_, R). list_ex (\<lambda>(_, S). region_intersects R S) rs') rs"

section \<open>The space a region stands for\<close>

text \<open>A point gives a coordinate on every dimension; a region is the set of its points.\<close>

definition in_region :: "(dimension \<Rightarrow> u32) \<Rightarrow> region \<Rightarrow> bool" where
  "in_region p R \<longleftrightarrow> (\<forall>(d, r) \<in> set R. lowerBound r \<le> p d \<and> p d < upperBound r)"

definition region_ok :: "region \<Rightarrow> bool" where
  [inv_defs]: "region_ok R \<longleftrightarrow> smap_ok R \<and> (\<forall>(d, r) \<in> set R. \<not> range_whole r)"

definition no_empty_range :: "region \<Rightarrow> bool" where
  "no_empty_range R \<longleftrightarrow> (\<forall>(d, r) \<in> set R. \<not> range_empty r)"

lemma in_region_map_of: "smap_ok R \<Longrightarrow>
  in_region p R \<longleftrightarrow> (\<forall>d r. map_of R d = Some r \<longrightarrow> lowerBound r \<le> p d \<and> p d < upperBound r)"
  by (auto simp: in_region_def map_of_eq_Some_iff[OF smap_ok_distinct])

lemma smap_ok_head_notin: "smap_ok ((d, r) # m) \<Longrightarrow> k \<le> d \<Longrightarrow> map_of m k = None"
  by (force simp: smap_ok_Cons map_of_eq_None_iff)

definition agree :: "(range_bounds \<Rightarrow> range_bounds \<Rightarrow> bool) \<Rightarrow> region \<Rightarrow> region \<Rightarrow> bool" where
  "agree P R S \<longleftrightarrow> (\<forall>d r s. map_of R d = Some r \<longrightarrow> map_of S d = Some s \<longrightarrow> P r s)"

lemma agree_Nil [simp]: "agree P [] S" "agree P R []"
  by (simp_all add: agree_def)

lemma agree_skip_left:
  assumes "smap_ok ((e, s) # j)" and "d < e"
  shows "agree P ((d, r) # i) ((e, s) # j) \<longleftrightarrow> agree P i ((e, s) # j)"
  using smap_ok_head_notin[OF assms(1), of d] assms(2) unfolding agree_def
  by (metis map_of_Cons_code(2) option.distinct(1) order_less_irrefl order_less_imp_le)

lemma agree_skip_right:
  assumes "smap_ok ((d, r) # i)" and "e < d"
  shows "agree P ((d, r) # i) ((e, s) # j) \<longleftrightarrow> agree P ((d, r) # i) j"
  using smap_ok_head_notin[OF assms(1), of e] assms(2) unfolding agree_def
  by (metis map_of_Cons_code(2) option.distinct(1) order_less_irrefl order_less_imp_le)

lemma agree_both:
  assumes "smap_ok ((d, r) # i)" and "smap_ok ((d, s) # j)"
  shows "agree P ((d, r) # i) ((d, s) # j) \<longleftrightarrow> P r s \<and> agree P i j"
  using smap_ok_head_notin[OF assms(1), of d] smap_ok_head_notin[OF assms(2), of d]
  unfolding agree_def by auto (metis option.distinct(1))

lemma region_intersects_iff:
  assumes "smap_ok R" and "smap_ok S"
  shows "region_intersects R S \<longleftrightarrow> agree range_intersects R S"
  using assms
proof (induction R S rule: region_intersects.induct)
  case (3 d r i e s j)
  from "3.prems" have oks: "smap_ok i" "smap_ok j" by (auto simp: smap_ok_Cons)
  consider "d < e" | "e < d" | "d = e" by fastforce
  then show ?case
  proof cases
    case 1
    with "3.IH"(1)[OF 1 oks(1) "3.prems"(2)] show ?thesis
      by (simp add: agree_skip_left[OF "3.prems"(2)])
  next
    case 2
    with "3.IH"(2)[OF _ 2 "3.prems"(1) oks(2)] show ?thesis
      by (simp add: agree_skip_right[OF "3.prems"(1)] order_less_not_sym)
  next
    case 3
    with "3.prems" "3.IH"(3)[OF _ _ _ oks] show ?thesis by (auto simp: agree_both)
  qed
qed simp_all


text \<open>The operations keep the map ordered and free of ranges that restrict nothing.\<close>

lemma region_ok_setRangeBounds: "region_ok R \<Longrightarrow> region_ok (setRangeBounds d r R)"
proof -
  assume ok: "region_ok R"
  then have m: "smap_ok R" and w: "\<And>d r. map_of R d = Some r \<Longrightarrow> \<not> range_whole r"
    by (auto simp: region_ok_def dest: map_of_SomeD)
  have "\<not> range_whole r'" if "(d', r') \<in> set (setRangeBounds d r R)" for d' r'
  proof -
    have "smap_ok (setRangeBounds d r R)" using m by (simp add: setRangeBounds_def)
    with that have "map_of (setRangeBounds d r R) d' = Some r'" by (simp add: smap_ok_distinct)
    then have "map_of R d' = Some r' \<or> \<not> range_whole r \<and> r' = r"
      using m by (auto simp: setRangeBounds_def split: if_splits)
    then show ?thesis using w by blast
  qed
  moreover have "smap_ok (setRangeBounds d r R)" using m by (simp add: setRangeBounds_def)
  ultimately show ?thesis by (auto simp: region_ok_def)
qed

lemma region_ok_region_of_value: "region_ok (region_of_value v)"
proof -
  have "region_ok (fold (\<lambda>(d, r) m. if range_whole r then m else smap_update d r m) v R)"
    if "region_ok R" for R
    using that
  proof (induction v arbitrary: R)
    case (Cons x v)
    obtain d r where x: "x = (d, r)" by (cases x)
    have "region_ok (if range_whole r then R else smap_update d r R)"
      using region_ok_setRangeBounds[OF Cons.prems, of d r] Cons.prems by (simp add: setRangeBounds_def split: if_splits)
    then show ?case using Cons.IH by (simp add: x)
  qed simp
  moreover have "region_ok []" by (simp add: region_ok_def)
  ultimately show ?thesis unfolding region_of_value_def by blast
qed

subsection \<open>Intersection\<close>

definition lowest :: "region \<Rightarrow> dimension \<Rightarrow> u32" where
  "lowest R d = (case map_of R d of None \<Rightarrow> 0 | Some r \<Rightarrow> lowerBound r)"

lemma lowest_in_region:
  assumes "smap_ok R" and ne: "no_empty_range R" and ag: "agree range_intersects R S"
  shows "in_region (\<lambda>d. max (lowest R d) (lowest S d)) R"
  unfolding in_region_map_of[OF assms(1)]
proof (intro allI impI)
  fix d r
  assume r: "map_of R d = Some r"
  then have "lowerBound r < upperBound r"
    using ne by (auto simp: no_empty_range_def range_empty_def dest!: map_of_SomeD)
  moreover have "lowerBound s < upperBound r" if "map_of S d = Some s" for s
    using ag r that by (auto simp: agree_def range_intersects_def)
  moreover have "0 < upperBound r" using \<open>lowerBound r < upperBound r\<close> word_gt_0 by force
  ultimately show "lowerBound r \<le> max (lowest R d) (lowest S d)
      \<and> max (lowest R d) (lowest S d) < upperBound r"
    using r by (simp add: lowest_def split: option.split)
qed

lemma agree_range_intersects_sym: "agree range_intersects R S \<longleftrightarrow> agree range_intersects S R"
  by (auto simp: agree_def range_intersects_def)

lemma common_point_iff:
  assumes "smap_ok R" "smap_ok S" "no_empty_range R" "no_empty_range S"
  shows "agree range_intersects R S \<longleftrightarrow> (\<exists>p. in_region p R \<and> in_region p S)"
proof
  assume ag: "agree range_intersects R S"
  have "in_region (\<lambda>d. max (lowest R d) (lowest S d)) R"
    by (rule lowest_in_region[OF assms(1,3) ag])
  moreover have "in_region (\<lambda>d. max (lowest S d) (lowest R d)) S"
    using lowest_in_region[OF assms(2,4)] ag by (simp add: agree_range_intersects_sym)
  ultimately show "\<exists>p. in_region p R \<and> in_region p S" by (auto simp: max.commute)
next
  assume "\<exists>p. in_region p R \<and> in_region p S"
  then show "agree range_intersects R S"
    unfolding in_region_map_of[OF assms(1)] in_region_map_of[OF assms(2)] agree_def
      range_intersects_def by (meson order_le_less_trans)
qed

definition region_set_ok :: "region_set \<Rightarrow> bool" where
  [inv_defs]: "region_set_ok rs \<longleftrightarrow>
     smap_ok rs \<and> (\<forall>(h, R) \<in> set rs. region_ok R \<and> no_empty_range R)"

text \<open>
  C24: two region sets intersect exactly when some point of the routing space lies in a region of
  each of them, provided no region has an empty range.
\<close>

theorem RegionSet_intersects_common_point:
  assumes "region_set_ok rs" and "region_set_ok rs'"
  shows "RegionSet_intersects rs rs' \<longleftrightarrow>
    (\<exists>h R h' S p. map_of rs h = Some R \<and> map_of rs' h' = Some S \<and> in_region p R \<and> in_region p S)"
proof -
  have mem: "(h, R) \<in> set q \<longleftrightarrow> map_of q h = Some R" if "region_set_ok q" for q h R
    using that by (simp add: region_set_ok_def map_of_eq_Some_iff smap_ok_distinct)
  have "region_intersects R S \<longleftrightarrow> (\<exists>p. in_region p R \<and> in_region p S)"
    if "(h, R) \<in> set rs" "(h', S) \<in> set rs'" for h R h' S
  proof -
    have "region_ok R \<and> no_empty_range R" "region_ok S \<and> no_empty_range S"
      using that assms by (auto simp: region_set_ok_def)
    then show ?thesis by (simp add: region_ok_def common_point_iff region_intersects_iff)
  qed
  then have "RegionSet_intersects rs rs' \<longleftrightarrow> (\<exists>h R h' S. (h, R) \<in> set rs \<and> (h', S) \<in> set rs'
      \<and> (\<exists>p. in_region p R \<and> in_region p S))"
    unfolding RegionSet_intersects_def list_ex_iff by fastforce
  then show ?thesis unfolding mem[OF assms(1)] mem[OF assms(2)] by blast
qed

theorem RegionSet_intersects_common_point_witness:
  "\<exists>p. in_region p [(1, \<lparr>lowerBound = 2, upperBound = 5\<rparr>)]
     \<and> in_region p [(1, \<lparr>lowerBound = 4, upperBound = 9\<rparr>), (2, \<lparr>lowerBound = 0, upperBound = 1\<rparr>)]"
proof -
  let ?rs = "[(7, [(1, \<lparr>lowerBound = 2, upperBound = 5\<rparr>)])] :: region_set"
  let ?rs' = "[(8, [(1, \<lparr>lowerBound = 4, upperBound = 9\<rparr>), (2, \<lparr>lowerBound = 0, upperBound = 1\<rparr>)])]
    :: region_set"
  have "region_set_ok ?rs" "region_set_ok ?rs'" "RegionSet_intersects ?rs ?rs'" by code_simp+
  with RegionSet_intersects_common_point[of ?rs ?rs'] show ?thesis
    by (auto split: if_splits)
qed


subsection \<open>Inclusion and extension\<close>

lemma smap_ok_last: "smap_ok (x # m) \<Longrightarrow> m \<noteq> [] \<Longrightarrow> fst x < fst (last m)"
  by (cases x) (auto simp: smap_ok_Cons)

lemma includes_loop_result:
  assumes "smap_ok R" "smap_ok S" "R \<noteq> []" "\<forall>(d, r) \<in> set R. \<not> range_whole r"
  shows "includes_loop R S =
    Some (agree range_includes R S \<and> S \<noteq> [] \<and> fst (last R) \<le> fst (last S))"
  using assms
proof (induction R S rule: includes_loop.induct)
  case (3 d r i e s j)
  have w: "\<forall>(d, r) \<in> set i. \<not> range_whole r" using "3.prems"(4) by simp
  from "3.prems"(1,2) have oks: "smap_ok i" "smap_ok j" by (auto simp: smap_ok_Cons)
  have li: "d < fst (last i)" if "i \<noteq> []" using smap_ok_last[OF "3.prems"(1) that] by simp
  have lj: "e < fst (last j)" if "j \<noteq> []" using smap_ok_last[OF "3.prems"(2) that] by simp
  consider "d < e" | "e < d" | "d = e" by fastforce
  then show ?case
  proof cases
    case 1
    with "3.IH"(1)[OF 1 _ oks(1) "3.prems"(2) _ w] show ?thesis
      using lj by (auto simp: agree_skip_left[OF "3.prems"(2)])
  next
    case 2
    then have "\<not> d < e" by simp
    moreover have "fst (last ((d, r) # i)) > e" using li 2 by auto
    ultimately show ?thesis
      using 2 "3.IH"(2)[OF _ 2 "3.prems"(1) oks(2) _ "3.prems"(4)]
      by (auto simp: agree_skip_right[OF "3.prems"(1)])
  next
    case 3
    show ?thesis
    proof (cases "range_includes r s \<and> i \<noteq> []")
      case True
      have "includes_loop i j
        = Some (agree range_includes i j \<and> j \<noteq> [] \<and> fst (last i) \<le> fst (last j))"
        using "3.IH"(3)[OF _ _ _ _ oks _ w] True 3 by simp
      then show ?thesis using 3 True "3.prems"(1,2) li
        by (cases "j = []") (simp_all add: agree_both)
    next
      case False
      then show ?thesis using 3 "3.prems"(1,2) lj by (auto simp: agree_both)
    qed
  qed
qed (auto split: if_splits)

text \<open>
  What \<open>Region::includes\<close> computes for regions as the library builds them: it compares the
  ranges of the dimensions both regions restrict, and beyond that only whether the last dimension
  this region restricts comes after the last one of the other. A dimension that only this region
  restricts is ignored when the other region has a later one, so \<open>includes\<close> holds for regions that
  are not included.
\<close>

theorem region_includes_compares_shared_dimensions:
  assumes "region_ok R" and "region_ok S"
  shows "region_includes R S = Some (R = [] \<or>
      agree range_includes R S \<and> S \<noteq> [] \<and> fst (last R) \<le> fst (last S))"
  using assms includes_loop_result[of R S] by (simp add: region_includes_def region_ok_def)

theorem region_includes_compares_shared_dimensions_witness:
  "let R = [(1, \<lparr>lowerBound = 0, upperBound = 5\<rparr>)]; S = [(2, \<lparr>lowerBound = 0, upperBound = 5\<rparr>)]
   in region_includes R S = Some True \<and> in_region (\<lambda>d. if d = 1 then 7 else 0) S
     \<and> \<not> in_region (\<lambda>d. if d = 1 then 7 else 0) R"
proof -
  let ?R = "[(1, \<lparr>lowerBound = 0, upperBound = 5\<rparr>)] :: region"
  let ?S = "[(2, \<lparr>lowerBound = 0, upperBound = 5\<rparr>)] :: region"
  have "region_ok ?R" "region_ok ?S" by code_simp+
  from region_includes_compares_shared_dimensions[OF this] have "region_includes ?R ?S = Some True"
    by (simp add: agree_def)
  then show ?thesis by (simp add: in_region_def)
qed

text \<open>
  \<open>Region::extend\<close> never extends: for a region with a range it leaves this region as it is,
  also when a point of the other region is outside of it, and for the whole space it dereferences
  the end iterator.
\<close>

lemma region_extend_never_extends:
  "region_extend R S = (if S = [] then None else Some R)"
  by (cases S) (simp_all add: region_extend_def)

subsection \<open>Region handles\<close>

lemma RegionHandle_unat: "unat (RegionHandle f l) = unat f * 2 ^ 32 + unat l"
proof -
  have "RegionHandle f l = push_bit 32 (ucast f) + ucast l"
    unfolding RegionHandle_def
    by (rule disjunctive_add [symmetric]) (auto simp: bit_simps dest: bit_imp_le_length)
  moreover have "unat f * 2 ^ 32 + unat l < 2 ^ 64"
    using unsigned_less[of f, where 'a = nat] unsigned_less[of l, where 'a = nat] by simp
  ultimately show ?thesis
    by (simp add: push_bit_eq_mult unat_word_ariths unsigned_ucast_eq take_bit_nat_def)
qed

lemma getFederateHandle_unat: "unat (getFederateHandle h) = unat h div 2 ^ 32"
proof -
  have "unat h div 2 ^ 32 < 2 ^ 32" using unsigned_less[of h, where 'a = nat] by simp
  then show ?thesis
    unfolding getFederateHandle_def unsigned_ucast_eq unsigned_drop_bit_eq
    by (simp add: drop_bit_eq_div take_bit_nat_def)
qed

lemma RegionHandle_roundtrip_federate: "getFederateHandle (RegionHandle f l) = f"
  unfolding getFederateHandle_def RegionHandle_def
  by (rule bit_eqI) (auto simp: bit_simps dest: bit_imp_le_length)

text \<open>A region handle gives back the federate and the local handle it was built of.\<close>

lemma RegionHandle_roundtrip:
  "getFederateHandle (RegionHandle f l) = f \<and> getLocalRegionHandle (RegionHandle f l) = l"
proof
  show "getFederateHandle (RegionHandle f l) = f" by (rule RegionHandle_roundtrip_federate)
  have m: "(0xffffffff :: u64) = mask 32" by (simp add: mask_eq_exp_minus_1)
  show "getLocalRegionHandle (RegionHandle f l) = l"
    unfolding getLocalRegionHandle_def RegionHandle_def m
    by (intro bit_eqI) (auto simp: bit_simps dest: bit_imp_le_length)
qed

lemma between_handles:
  "RegionHandle f 0 \<le> h \<and> h \<le> RegionHandle f invalid_handle \<longleftrightarrow> getFederateHandle h = f"
proof -
  have m: "unat (invalid_handle :: u32) = 2 ^ 32 - 1"
    by (simp add: invalid_handle_def unsigned_minus_1_eq_mask mask_eq_exp_minus_1)
  have "RegionHandle f 0 \<le> h \<and> h \<le> RegionHandle f invalid_handle
    \<longleftrightarrow> unat f * 2 ^ 32 \<le> unat h \<and> unat h \<le> unat f * 2 ^ 32 + (2 ^ 32 - 1)"
    by (simp add: word_le_nat_alt RegionHandle_unat m)
  also have "\<dots> \<longleftrightarrow> unat h div 2 ^ 32 = unat f" by auto
  also have "\<dots> \<longleftrightarrow> getFederateHandle h = f"
    by (metis getFederateHandle_unat word_unat_eq_iff)
  finally show ?thesis .
qed


lemma map_of_takeWhile_dropWhile:
  assumes "smap_ok m" and "lo \<le> hi"
  shows "map_of (takeWhile (\<lambda>(k, _). k < lo) m @ dropWhile (\<lambda>(k, _). k \<le> hi) m) k
    = (if lo \<le> k \<and> k \<le> hi then None else map_of m k)"
  using assms(1)
proof (induction m)
  case (Cons x m)
  obtain a v where x: "x = (a, v)" by (cases x)
  have above: "map_of m k' = None" if "k' \<le> a" for k'
    using smap_ok_head_notin[of a v m k'] Cons.prems that x by simp
  have tw: "takeWhile (\<lambda>(k, _). k < lo) m = []" if "lo \<le> a"
    using Cons.prems that by (cases m) (auto simp: x smap_ok_Cons)
  have dw: "dropWhile (\<lambda>(k, _). k \<le> hi) m = m" if "hi < a"
    using Cons.prems that by (cases m) (auto simp: x smap_ok_Cons)
  have IH: "map_of (takeWhile (\<lambda>(k, _). k < lo) m @ dropWhile (\<lambda>(k, _). k \<le> hi) m) k
    = (if lo \<le> k \<and> k \<le> hi then None else map_of m k)"
    using Cons by (simp add: x smap_ok_Cons)
  consider "a < lo" | "lo \<le> a" "a \<le> hi" | "hi < a" by fastforce
  then show ?case
  proof cases
    case 1
    then have "a \<le> hi" using assms(2) by simp
    with 1 IH show ?thesis by (auto simp: x)
  next
    case 2
    with IH tw show ?thesis by (auto simp: x)
  next
    case 3
    then have "\<not> a < lo" using assms(2) by simp
    with 3 above show ?thesis by (auto simp: x)
  qed
qed simp

text \<open>
  Erasing a federate removes exactly the regions the federate created, for every map of
  regions, and keeps all others.
\<close>

lemma eraseFederate_exact:
  assumes "smap_ok rs"
  shows "map_of (RegionSet_eraseFederate f rs) h
    = (if getFederateHandle h = f then None else map_of rs h)"
proof -
  have "RegionHandle f 0 \<le> RegionHandle f invalid_handle"
    using between_handles[of f "RegionHandle f 0"] RegionHandle_roundtrip_federate by simp
  from map_of_takeWhile_dropWhile[OF assms this] show ?thesis
    by (simp only: RegionSet_eraseFederate_def between_handles)
qed

end
