(* ===== verification/Wire_Structs.thy ===== *)
theory Wire_Structs
  imports Wire_Types
begin

text \<open>
  The writers and readers of \<open>src/OpenRTI/TightBE1MessageEncoding.cpp\<close> for the
      enumerations, handles,
  containers, pairs and classes of \<open>src/OpenRTI/Message.h\<close>, each followed by the lemma
      that the
  reader inverts the writer.
\<close>

definition writeCallbackModel :: "CallbackModel writer" where
  "writeCallbackModel v = writeUInt32Compressed (case v of
       HLA_IMMEDIATE \<Rightarrow> 0 | HLA_EVOKED \<Rightarrow> 1)"

definition readCallbackModel :: "CallbackModel reader" where
  "readCallbackModel = dec_bind readUInt32Compressed (\<lambda>n. dec_return (
       if n = 0 then HLA_IMMEDIATE else if n = 1 then HLA_EVOKED else HLA_EVOKED))"

lemma codec_CallbackModel: "wire_codec writeCallbackModel readCallbackModel"
  unfolding writeCallbackModel_def readCallbackModel_def
  by (rule wire_codec.intro, rule rt_last[OF rt_uint32]) (simp split: CallbackModel.split)

definition writeOrderType :: "OrderType writer" where
  "writeOrderType v = writeUInt32Compressed (case v of
       RECEIVE \<Rightarrow> 0 | TIMESTAMP \<Rightarrow> 1)"

definition readOrderType :: "OrderType reader" where
  "readOrderType = dec_bind readUInt32Compressed (\<lambda>n. dec_return (
       if n = 0 then RECEIVE else if n = 1 then TIMESTAMP else TIMESTAMP))"

lemma codec_OrderType: "wire_codec writeOrderType readOrderType"
  unfolding writeOrderType_def readOrderType_def
  by (rule wire_codec.intro, rule rt_last[OF rt_uint32]) (simp split: OrderType.split)

definition writeTransportationType :: "TransportationType writer" where
  "writeTransportationType v = writeUInt32Compressed (case v of
       RELIABLE \<Rightarrow> 0 | BEST_EFFORT \<Rightarrow> 1)"

definition readTransportationType :: "TransportationType reader" where
  "readTransportationType = dec_bind readUInt32Compressed (\<lambda>n. dec_return (
       if n = 0 then RELIABLE else if n = 1 then BEST_EFFORT else BEST_EFFORT))"

lemma codec_TransportationType: "wire_codec writeTransportationType readTransportationType"
  unfolding writeTransportationType_def readTransportationType_def
  by (rule wire_codec.intro, rule rt_last[OF rt_uint32]) (simp split: TransportationType.split)

definition writeSubscriptionType :: "SubscriptionType writer" where
  "writeSubscriptionType v = writeUInt32Compressed (case v of
       Unsubscribed \<Rightarrow> 0 | SubscribedPassive \<Rightarrow> 1 |
       SubscribedActive \<Rightarrow> 2)"

definition readSubscriptionType :: "SubscriptionType reader" where
  "readSubscriptionType = dec_bind readUInt32Compressed (\<lambda>n. dec_return (
       if n = 0 then Unsubscribed else if n = 1 then SubscribedPassive else
       if n = 2 then SubscribedActive else SubscribedActive))"

lemma codec_SubscriptionType: "wire_codec writeSubscriptionType readSubscriptionType"
  unfolding writeSubscriptionType_def readSubscriptionType_def
  by (rule wire_codec.intro, rule rt_last[OF rt_uint32]) (simp split: SubscriptionType.split)

definition writePublicationType :: "PublicationType writer" where
  "writePublicationType v = writeUInt32Compressed (case v of
       Unpublished \<Rightarrow> 0 | Published \<Rightarrow> 1)"

definition readPublicationType :: "PublicationType reader" where
  "readPublicationType = dec_bind readUInt32Compressed (\<lambda>n. dec_return (
       if n = 0 then Unpublished else if n = 1 then Published else Published))"

lemma codec_PublicationType: "wire_codec writePublicationType readPublicationType"
  unfolding writePublicationType_def readPublicationType_def
  by (rule wire_codec.intro, rule rt_last[OF rt_uint32]) (simp split: PublicationType.split)

definition writeResignAction :: "ResignAction writer" where
  "writeResignAction v = writeUInt32Compressed (case v of
       UNCONDITIONALLY_DIVEST_ATTRIBUTES \<Rightarrow> 0 | DELETE_OBJECTS \<Rightarrow> 1 |
       CANCEL_PENDING_OWNERSHIP_ACQUISITIONS \<Rightarrow> 2 |
       DELETE_OBJECTS_THEN_DIVEST \<Rightarrow> 3 |
       CANCEL_THEN_DELETE_THEN_DIVEST \<Rightarrow> 4 | NO_ACTION \<Rightarrow> 5)"

definition readResignAction :: "ResignAction reader" where
  "readResignAction = dec_bind readUInt32Compressed (\<lambda>n. dec_return (
       if n = 0 then UNCONDITIONALLY_DIVEST_ATTRIBUTES else if n = 1 then DELETE_OBJECTS else
       if n = 2 then CANCEL_PENDING_OWNERSHIP_ACQUISITIONS else
       if n = 3 then DELETE_OBJECTS_THEN_DIVEST else
       if n = 4 then CANCEL_THEN_DELETE_THEN_DIVEST else if n = 5 then NO_ACTION else NO_ACTION))"

lemma codec_ResignAction: "wire_codec writeResignAction readResignAction"
  unfolding writeResignAction_def readResignAction_def
  by (rule wire_codec.intro, rule rt_last[OF rt_uint32]) (simp split: ResignAction.split)

definition writeRestoreFailureReason :: "RestoreFailureReason writer" where
  "writeRestoreFailureReason v = writeUInt32Compressed (case v of
       RTI_UNABLE_TO_RESTORE \<Rightarrow> 0 |
       FEDERATE_REPORTED_FAILURE_DURING_RESTORE \<Rightarrow> 1 |
       FEDERATE_RESIGNED_DURING_RESTORE \<Rightarrow> 2 |
       RTI_DETECTED_FAILURE_DURING_RESTORE \<Rightarrow> 3)"

definition readRestoreFailureReason :: "RestoreFailureReason reader" where
  "readRestoreFailureReason = dec_bind readUInt32Compressed (\<lambda>n. dec_return (
       if n = 0 then RTI_UNABLE_TO_RESTORE else
       if n = 1 then FEDERATE_REPORTED_FAILURE_DURING_RESTORE else
       if n = 2 then FEDERATE_RESIGNED_DURING_RESTORE else
       if n = 3 then RTI_DETECTED_FAILURE_DURING_RESTORE else RTI_DETECTED_FAILURE_DURING_RESTORE))"

lemma codec_RestoreFailureReason: "wire_codec writeRestoreFailureReason readRestoreFailureReason"
  unfolding writeRestoreFailureReason_def readRestoreFailureReason_def
  by (rule wire_codec.intro, rule rt_last[OF rt_uint32]) (simp split: RestoreFailureReason.split)

definition writeRestoreStatus :: "RestoreStatus writer" where
  "writeRestoreStatus v = writeUInt32Compressed (case v of
       NO_RESTORE_IN_PROGRESS \<Rightarrow> 0 | FEDERATE_RESTORE_REQUEST_PENDING \<Rightarrow> 1 |
       FEDERATE_WAITING_FOR_RESTORE_TO_BEGIN \<Rightarrow> 2 |
       FEDERATE_PREPARED_TO_RESTORE \<Rightarrow> 3 | FEDERATE_RESTORING \<Rightarrow> 4 |
       FEDERATE_WAITING_FOR_FEDERATION_TO_RESTORE \<Rightarrow> 5)"

definition readRestoreStatus :: "RestoreStatus reader" where
  "readRestoreStatus = dec_bind readUInt32Compressed (\<lambda>n. dec_return (
       if n = 0 then NO_RESTORE_IN_PROGRESS else
       if n = 1 then FEDERATE_RESTORE_REQUEST_PENDING else
       if n = 2 then FEDERATE_WAITING_FOR_RESTORE_TO_BEGIN else
       if n = 3 then FEDERATE_PREPARED_TO_RESTORE else if n = 4 then FEDERATE_RESTORING else
       if n = 5 then FEDERATE_WAITING_FOR_FEDERATION_TO_RESTORE else
       FEDERATE_WAITING_FOR_FEDERATION_TO_RESTORE))"

lemma codec_RestoreStatus: "wire_codec writeRestoreStatus readRestoreStatus"
  unfolding writeRestoreStatus_def readRestoreStatus_def
  by (rule wire_codec.intro, rule rt_last[OF rt_uint32]) (simp split: RestoreStatus.split)

definition writeSaveFailureReason :: "SaveFailureReason writer" where
  "writeSaveFailureReason v = writeUInt32Compressed (case v of
       RTI_UNABLE_TO_SAVE \<Rightarrow> 0 |
       FEDERATE_REPORTED_FAILURE_DURING_SAVE \<Rightarrow> 1 |
       FEDERATE_RESIGNED_DURING_SAVE \<Rightarrow> 2 |
       RTI_DETECTED_FAILURE_DURING_SAVE \<Rightarrow> 3 |
       SAVE_TIME_CANNOT_BE_HONORED \<Rightarrow> 4)"

definition readSaveFailureReason :: "SaveFailureReason reader" where
  "readSaveFailureReason = dec_bind readUInt32Compressed (\<lambda>n. dec_return (
       if n = 0 then RTI_UNABLE_TO_SAVE else
       if n = 1 then FEDERATE_REPORTED_FAILURE_DURING_SAVE else
       if n = 2 then FEDERATE_RESIGNED_DURING_SAVE else
       if n = 3 then RTI_DETECTED_FAILURE_DURING_SAVE else
       if n = 4 then SAVE_TIME_CANNOT_BE_HONORED else SAVE_TIME_CANNOT_BE_HONORED))"

lemma codec_SaveFailureReason: "wire_codec writeSaveFailureReason readSaveFailureReason"
  unfolding writeSaveFailureReason_def readSaveFailureReason_def
  by (rule wire_codec.intro, rule rt_last[OF rt_uint32]) (simp split: SaveFailureReason.split)

definition writeSaveStatus :: "SaveStatus writer" where
  "writeSaveStatus v = writeUInt32Compressed (case v of
       NO_SAVE_IN_PROGRESS \<Rightarrow> 0 | FEDERATE_INSTRUCTED_TO_SAVE \<Rightarrow> 1 |
       FEDERATE_SAVING \<Rightarrow> 2 | FEDERATE_WAITING_FOR_FEDERATION_TO_SAVE \<Rightarrow> 3)"

definition readSaveStatus :: "SaveStatus reader" where
  "readSaveStatus = dec_bind readUInt32Compressed (\<lambda>n. dec_return (
       if n = 0 then NO_SAVE_IN_PROGRESS else if n = 1 then FEDERATE_INSTRUCTED_TO_SAVE else
       if n = 2 then FEDERATE_SAVING else
       if n = 3 then FEDERATE_WAITING_FOR_FEDERATION_TO_SAVE else
       FEDERATE_WAITING_FOR_FEDERATION_TO_SAVE))"

lemma codec_SaveStatus: "wire_codec writeSaveStatus readSaveStatus"
  unfolding writeSaveStatus_def readSaveStatus_def
  by (rule wire_codec.intro, rule rt_last[OF rt_uint32]) (simp split: SaveStatus.split)

definition writeServiceGroupIndicator :: "ServiceGroupIndicator writer" where
  "writeServiceGroupIndicator v = writeUInt32Compressed (case v of
       FEDERATION_MANAGEMENT \<Rightarrow> 0 | DECLARATION_MANAGEMENT \<Rightarrow> 1 |
       OBJECT_MANAGEMENT \<Rightarrow> 2 | OWNERSHIP_MANAGEMENT \<Rightarrow> 3 |
       TIME_MANAGEMENT \<Rightarrow> 4 | DATA_DISTRIBUTION_MANAGEMENT \<Rightarrow> 5 |
       SUPPORT_SERVICES \<Rightarrow> 6)"

definition readServiceGroupIndicator :: "ServiceGroupIndicator reader" where
  "readServiceGroupIndicator = dec_bind readUInt32Compressed (\<lambda>n. dec_return (
       if n = 0 then FEDERATION_MANAGEMENT else if n = 1 then DECLARATION_MANAGEMENT else
       if n = 2 then OBJECT_MANAGEMENT else if n = 3 then OWNERSHIP_MANAGEMENT else
       if n = 4 then TIME_MANAGEMENT else if n = 5 then DATA_DISTRIBUTION_MANAGEMENT else
       if n = 6 then SUPPORT_SERVICES else SUPPORT_SERVICES))"

lemma codec_ServiceGroupIndicator: "wire_codec writeServiceGroupIndicator readServiceGroupIndicator"
  unfolding writeServiceGroupIndicator_def readServiceGroupIndicator_def
  by (rule wire_codec.intro, rule rt_last[OF rt_uint32]) (simp split: ServiceGroupIndicator.split)

definition writeLowerBoundTimeStampCommitType :: "LowerBoundTimeStampCommitType writer" where
  "writeLowerBoundTimeStampCommitType v = writeUInt32Compressed (case v of
       TimeAdvanceCommit \<Rightarrow> 0 | NextMessageCommit \<Rightarrow> 1 |
       TimeAdvanceAndNextMessageCommit \<Rightarrow> 2)"

definition readLowerBoundTimeStampCommitType :: "LowerBoundTimeStampCommitType reader" where
  "readLowerBoundTimeStampCommitType = dec_bind readUInt32Compressed (\<lambda>n. dec_return (
       if n = 0 then TimeAdvanceCommit else if n = 1 then NextMessageCommit else
       if n = 2 then TimeAdvanceAndNextMessageCommit else TimeAdvanceAndNextMessageCommit))"

lemma codec_LowerBoundTimeStampCommitType: "wire_codec writeLowerBoundTimeStampCommitType
    readLowerBoundTimeStampCommitType"
  unfolding writeLowerBoundTimeStampCommitType_def readLowerBoundTimeStampCommitType_def
  by (rule wire_codec.intro, rule rt_last[OF rt_uint32]) (simp split:
      LowerBoundTimeStampCommitType.split)

definition writeSwitchesType :: "SwitchesType writer" where
  "writeSwitchesType v = writeUInt32Compressed (case v of
       InteractionRelevanceAdvisorySwitchesType \<Rightarrow> 0 |
       ObjectClassRelevanceAdvisorySwitchesType \<Rightarrow> 1 |
       AttributeRelevanceAdvisorySwitchesType \<Rightarrow> 2 |
       AttributeScopeAdvisorySwitchesType \<Rightarrow> 3 |
       AutoProvideSwitchesType \<Rightarrow> 4 |
       ConveyRegionDesignatorSetsSwitchesType \<Rightarrow> 5 |
       ServiceReportingSwitchesType \<Rightarrow> 6)"

definition readSwitchesType :: "SwitchesType reader" where
  "readSwitchesType = dec_bind readUInt32Compressed (\<lambda>n. dec_return (
       if n = 0 then InteractionRelevanceAdvisorySwitchesType else
       if n = 1 then ObjectClassRelevanceAdvisorySwitchesType else
       if n = 2 then AttributeRelevanceAdvisorySwitchesType else
       if n = 3 then AttributeScopeAdvisorySwitchesType else
       if n = 4 then AutoProvideSwitchesType else
       if n = 5 then ConveyRegionDesignatorSetsSwitchesType else
       if n = 6 then ServiceReportingSwitchesType else ServiceReportingSwitchesType))"

lemma codec_SwitchesType: "wire_codec writeSwitchesType readSwitchesType"
  unfolding writeSwitchesType_def readSwitchesType_def
  by (rule wire_codec.intro, rule rt_last[OF rt_uint32]) (simp split: SwitchesType.split)

definition writeArrayDataTypeEncoding :: "ArrayDataTypeEncoding writer" where
  "writeArrayDataTypeEncoding v = writeUInt32Compressed (case v of
       FixedArrayDataTypeEncoding \<Rightarrow> 0 | VariableArrayDataTypeEncoding \<Rightarrow> 1)"

definition readArrayDataTypeEncoding :: "ArrayDataTypeEncoding reader" where
  "readArrayDataTypeEncoding = dec_bind readUInt32Compressed (\<lambda>n. dec_return (
       if n = 0 then FixedArrayDataTypeEncoding else
       if n = 1 then VariableArrayDataTypeEncoding else VariableArrayDataTypeEncoding))"

lemma codec_ArrayDataTypeEncoding: "wire_codec writeArrayDataTypeEncoding readArrayDataTypeEncoding"
  unfolding writeArrayDataTypeEncoding_def readArrayDataTypeEncoding_def
  by (rule wire_codec.intro, rule rt_last[OF rt_uint32]) (simp split: ArrayDataTypeEncoding.split)

definition writeEndianness :: "Endianness writer" where
  "writeEndianness v = writeUInt32Compressed (case v of
       BigEndian \<Rightarrow> 0 | LittleEndian \<Rightarrow> 1)"

definition readEndianness :: "Endianness reader" where
  "readEndianness = dec_bind readUInt32Compressed (\<lambda>n. dec_return (
       if n = 0 then BigEndian else if n = 1 then LittleEndian else LittleEndian))"

lemma codec_Endianness: "wire_codec writeEndianness readEndianness"
  unfolding writeEndianness_def readEndianness_def
  by (rule wire_codec.intro, rule rt_last[OF rt_uint32]) (simp split: Endianness.split)

definition writeUnsigned :: "Unsigned writer" where
  "writeUnsigned v = writeUInt32Compressed v"

definition readUnsigned :: "Unsigned reader" where
  "readUnsigned = readUInt32Compressed"

lemma codec_Unsigned: "wire_codec writeUnsigned readUnsigned"
  by (rule wire_codec.intro) (simp only: writeUnsigned_def readUnsigned_def rt_uint32)

definition writeFederationHandle :: "FederationHandle writer" where
  "writeFederationHandle v = writeUInt16Compressed v"

definition readFederationHandle :: "FederationHandle reader" where
  "readFederationHandle = readUInt16Compressed"

lemma codec_FederationHandle: "wire_codec writeFederationHandle readFederationHandle"
  by (rule wire_codec.intro) (simp only: writeFederationHandle_def readFederationHandle_def
      rt_uint16)

definition writeModuleHandle :: "ModuleHandle writer" where
  "writeModuleHandle v = writeUInt16Compressed v"

definition readModuleHandle :: "ModuleHandle reader" where
  "readModuleHandle = readUInt16Compressed"

lemma codec_ModuleHandle: "wire_codec writeModuleHandle readModuleHandle"
  by (rule wire_codec.intro) (simp only: writeModuleHandle_def readModuleHandle_def rt_uint16)

definition writeAttributeHandle :: "AttributeHandle writer" where
  "writeAttributeHandle v = writeUInt32Compressed v"

definition readAttributeHandle :: "AttributeHandle reader" where
  "readAttributeHandle = readUInt32Compressed"

lemma codec_AttributeHandle: "wire_codec writeAttributeHandle readAttributeHandle"
  by (rule wire_codec.intro) (simp only: writeAttributeHandle_def readAttributeHandle_def rt_uint32)

definition writeDimensionHandle :: "DimensionHandle writer" where
  "writeDimensionHandle v = writeUInt32Compressed v"

definition readDimensionHandle :: "DimensionHandle reader" where
  "readDimensionHandle = readUInt32Compressed"

lemma codec_DimensionHandle: "wire_codec writeDimensionHandle readDimensionHandle"
  by (rule wire_codec.intro) (simp only: writeDimensionHandle_def readDimensionHandle_def rt_uint32)

definition writeUpdateRateHandle :: "UpdateRateHandle writer" where
  "writeUpdateRateHandle v = writeUInt32Compressed v"

definition readUpdateRateHandle :: "UpdateRateHandle reader" where
  "readUpdateRateHandle = readUInt32Compressed"

lemma codec_UpdateRateHandle: "wire_codec writeUpdateRateHandle readUpdateRateHandle"
  by (rule wire_codec.intro) (simp only: writeUpdateRateHandle_def readUpdateRateHandle_def
      rt_uint32)

definition writeBasicDataTypeHandle :: "BasicDataTypeHandle writer" where
  "writeBasicDataTypeHandle v = writeUInt32Compressed v"

definition readBasicDataTypeHandle :: "BasicDataTypeHandle reader" where
  "readBasicDataTypeHandle = readUInt32Compressed"

lemma codec_BasicDataTypeHandle: "wire_codec writeBasicDataTypeHandle readBasicDataTypeHandle"
  by (rule wire_codec.intro) (simp only: writeBasicDataTypeHandle_def readBasicDataTypeHandle_def
      rt_uint32)

definition writeSimpleDataTypeHandle :: "SimpleDataTypeHandle writer" where
  "writeSimpleDataTypeHandle v = writeUInt32Compressed v"

definition readSimpleDataTypeHandle :: "SimpleDataTypeHandle reader" where
  "readSimpleDataTypeHandle = readUInt32Compressed"

lemma codec_SimpleDataTypeHandle: "wire_codec writeSimpleDataTypeHandle readSimpleDataTypeHandle"
  by (rule wire_codec.intro) (simp only: writeSimpleDataTypeHandle_def readSimpleDataTypeHandle_def
      rt_uint32)

definition writeEnumeratedDataTypeHandle :: "EnumeratedDataTypeHandle writer" where
  "writeEnumeratedDataTypeHandle v = writeUInt32Compressed v"

definition readEnumeratedDataTypeHandle :: "EnumeratedDataTypeHandle reader" where
  "readEnumeratedDataTypeHandle = readUInt32Compressed"

lemma codec_EnumeratedDataTypeHandle: "wire_codec writeEnumeratedDataTypeHandle
    readEnumeratedDataTypeHandle"
  by (rule wire_codec.intro) (simp only: writeEnumeratedDataTypeHandle_def
      readEnumeratedDataTypeHandle_def rt_uint32)

definition writeArrayDataTypeHandle :: "ArrayDataTypeHandle writer" where
  "writeArrayDataTypeHandle v = writeUInt32Compressed v"

definition readArrayDataTypeHandle :: "ArrayDataTypeHandle reader" where
  "readArrayDataTypeHandle = readUInt32Compressed"

lemma codec_ArrayDataTypeHandle: "wire_codec writeArrayDataTypeHandle readArrayDataTypeHandle"
  by (rule wire_codec.intro) (simp only: writeArrayDataTypeHandle_def readArrayDataTypeHandle_def
      rt_uint32)

definition writeFixedRecordDataTypeHandle :: "FixedRecordDataTypeHandle writer" where
  "writeFixedRecordDataTypeHandle v = writeUInt32Compressed v"

definition readFixedRecordDataTypeHandle :: "FixedRecordDataTypeHandle reader" where
  "readFixedRecordDataTypeHandle = readUInt32Compressed"

lemma codec_FixedRecordDataTypeHandle: "wire_codec writeFixedRecordDataTypeHandle
    readFixedRecordDataTypeHandle"
  by (rule wire_codec.intro) (simp only: writeFixedRecordDataTypeHandle_def
      readFixedRecordDataTypeHandle_def rt_uint32)

definition writeVariantRecordDataTypeHandle :: "VariantRecordDataTypeHandle writer" where
  "writeVariantRecordDataTypeHandle v = writeUInt32Compressed v"

definition readVariantRecordDataTypeHandle :: "VariantRecordDataTypeHandle reader" where
  "readVariantRecordDataTypeHandle = readUInt32Compressed"

lemma codec_VariantRecordDataTypeHandle: "wire_codec writeVariantRecordDataTypeHandle
    readVariantRecordDataTypeHandle"
  by (rule wire_codec.intro) (simp only: writeVariantRecordDataTypeHandle_def
      readVariantRecordDataTypeHandle_def rt_uint32)

definition writeObjectClassHandle :: "ObjectClassHandle writer" where
  "writeObjectClassHandle v = writeUInt32Compressed v"

definition readObjectClassHandle :: "ObjectClassHandle reader" where
  "readObjectClassHandle = readUInt32Compressed"

lemma codec_ObjectClassHandle: "wire_codec writeObjectClassHandle readObjectClassHandle"
  by (rule wire_codec.intro) (simp only: writeObjectClassHandle_def readObjectClassHandle_def
      rt_uint32)

definition writeObjectInstanceHandle :: "ObjectInstanceHandle writer" where
  "writeObjectInstanceHandle v = writeUInt32Compressed v"

definition readObjectInstanceHandle :: "ObjectInstanceHandle reader" where
  "readObjectInstanceHandle = readUInt32Compressed"

lemma codec_ObjectInstanceHandle: "wire_codec writeObjectInstanceHandle readObjectInstanceHandle"
  by (rule wire_codec.intro) (simp only: writeObjectInstanceHandle_def readObjectInstanceHandle_def
      rt_uint32)

definition writeInteractionClassHandle :: "InteractionClassHandle writer" where
  "writeInteractionClassHandle v = writeUInt32Compressed v"

definition readInteractionClassHandle :: "InteractionClassHandle reader" where
  "readInteractionClassHandle = readUInt32Compressed"

lemma codec_InteractionClassHandle: "wire_codec writeInteractionClassHandle
    readInteractionClassHandle"
  by (rule wire_codec.intro) (simp only: writeInteractionClassHandle_def
      readInteractionClassHandle_def rt_uint32)

definition writeParameterHandle :: "ParameterHandle writer" where
  "writeParameterHandle v = writeUInt32Compressed v"

definition readParameterHandle :: "ParameterHandle reader" where
  "readParameterHandle = readUInt32Compressed"

lemma codec_ParameterHandle: "wire_codec writeParameterHandle readParameterHandle"
  by (rule wire_codec.intro) (simp only: writeParameterHandle_def readParameterHandle_def rt_uint32)

definition writeFederateHandle :: "FederateHandle writer" where
  "writeFederateHandle v = writeUInt32Compressed v"

definition readFederateHandle :: "FederateHandle reader" where
  "readFederateHandle = readUInt32Compressed"

lemma codec_FederateHandle: "wire_codec writeFederateHandle readFederateHandle"
  by (rule wire_codec.intro) (simp only: writeFederateHandle_def readFederateHandle_def rt_uint32)

definition writeSpaceHandle :: "SpaceHandle writer" where
  "writeSpaceHandle v = writeUInt32Compressed v"

definition readSpaceHandle :: "SpaceHandle reader" where
  "readSpaceHandle = readUInt32Compressed"

lemma codec_SpaceHandle: "wire_codec writeSpaceHandle readSpaceHandle"
  by (rule wire_codec.intro) (simp only: writeSpaceHandle_def readSpaceHandle_def rt_uint32)

definition writeTransportationHandle :: "TransportationHandle writer" where
  "writeTransportationHandle v = writeUInt8Compressed v"

definition readTransportationHandle :: "TransportationHandle reader" where
  "readTransportationHandle = readUInt8Compressed"

lemma codec_TransportationHandle: "wire_codec writeTransportationHandle readTransportationHandle"
  by (rule wire_codec.intro) (simp only: writeTransportationHandle_def readTransportationHandle_def
      rt_uint8)

definition writeOrderingHandle :: "OrderingHandle writer" where
  "writeOrderingHandle v = writeUInt8Compressed v"

definition readOrderingHandle :: "OrderingHandle reader" where
  "readOrderingHandle = readUInt8Compressed"

lemma codec_OrderingHandle: "wire_codec writeOrderingHandle readOrderingHandle"
  by (rule wire_codec.intro) (simp only: writeOrderingHandle_def readOrderingHandle_def rt_uint8)

definition writeMessageRetractionHandle :: "MessageRetractionHandle writer" where
  "writeMessageRetractionHandle v = writeUInt64Compressed v"

definition readMessageRetractionHandle :: "MessageRetractionHandle reader" where
  "readMessageRetractionHandle = readUInt64Compressed"

lemma codec_MessageRetractionHandle: "wire_codec writeMessageRetractionHandle
    readMessageRetractionHandle"
  by (rule wire_codec.intro) (simp only: writeMessageRetractionHandle_def
      readMessageRetractionHandle_def rt_uint64)

definition writeRegionHandle :: "RegionHandle writer" where
  "writeRegionHandle v = writeUInt64Compressed v"

definition readRegionHandle :: "RegionHandle reader" where
  "readRegionHandle = readUInt64Compressed"

lemma codec_RegionHandle: "wire_codec writeRegionHandle readRegionHandle"
  by (rule wire_codec.intro) (simp only: writeRegionHandle_def readRegionHandle_def rt_uint64)

definition writeAttributeHandleVector :: "AttributeHandleVector writer" where
  "writeAttributeHandleVector = write_vector writeAttributeHandle"

definition readAttributeHandleVector :: "AttributeHandleVector reader" where
  "readAttributeHandleVector = read_vector readAttributeHandle"

lemma codec_AttributeHandleVector: "wire_codec writeAttributeHandleVector readAttributeHandleVector"
  unfolding writeAttributeHandleVector_def readAttributeHandleVector_def by (rule
      wire_codec.vector[OF codec_AttributeHandle])

definition writeFederateHandleVector :: "FederateHandleVector writer" where
  "writeFederateHandleVector = write_vector writeFederateHandle"

definition readFederateHandleVector :: "FederateHandleVector reader" where
  "readFederateHandleVector = read_vector readFederateHandle"

lemma codec_FederateHandleVector: "wire_codec writeFederateHandleVector readFederateHandleVector"
  unfolding writeFederateHandleVector_def readFederateHandleVector_def by (rule
      wire_codec.vector[OF codec_FederateHandle])

definition writeParameterHandleVector :: "ParameterHandleVector writer" where
  "writeParameterHandleVector = write_vector writeParameterHandle"

definition readParameterHandleVector :: "ParameterHandleVector reader" where
  "readParameterHandleVector = read_vector readParameterHandle"

lemma codec_ParameterHandleVector: "wire_codec writeParameterHandleVector readParameterHandleVector"
  unfolding writeParameterHandleVector_def readParameterHandleVector_def by (rule
      wire_codec.vector[OF codec_ParameterHandle])

definition writeDimensionHandleVector :: "DimensionHandleVector writer" where
  "writeDimensionHandleVector = write_vector writeDimensionHandle"

definition readDimensionHandleVector :: "DimensionHandleVector reader" where
  "readDimensionHandleVector = read_vector readDimensionHandle"

lemma codec_DimensionHandleVector: "wire_codec writeDimensionHandleVector readDimensionHandleVector"
  unfolding writeDimensionHandleVector_def readDimensionHandleVector_def by (rule
      wire_codec.vector[OF codec_DimensionHandle])

definition writeDimensionHandleSet :: "DimensionHandleSet writer" where
  "writeDimensionHandleSet = write_set writeDimensionHandle"

definition readDimensionHandleSet :: "DimensionHandleSet reader" where
  "readDimensionHandleSet = read_set readDimensionHandle"

lemma codec_DimensionHandleSet: "wire_codec writeDimensionHandleSet readDimensionHandleSet"
  unfolding writeDimensionHandleSet_def readDimensionHandleSet_def by (rule wire_set[OF
      codec_DimensionHandle])

definition writeObjectInstanceHandleVector :: "ObjectInstanceHandleVector writer" where
  "writeObjectInstanceHandleVector = write_vector writeObjectInstanceHandle"

definition readObjectInstanceHandleVector :: "ObjectInstanceHandleVector reader" where
  "readObjectInstanceHandleVector = read_vector readObjectInstanceHandle"

lemma codec_ObjectInstanceHandleVector: "wire_codec writeObjectInstanceHandleVector
    readObjectInstanceHandleVector"
  unfolding writeObjectInstanceHandleVector_def readObjectInstanceHandleVector_def by (rule
      wire_codec.vector[OF codec_ObjectInstanceHandle])

definition writeRegionHandleVector :: "RegionHandleVector writer" where
  "writeRegionHandleVector = write_vector writeRegionHandle"

definition readRegionHandleVector :: "RegionHandleVector reader" where
  "readRegionHandleVector = read_vector readRegionHandle"

lemma codec_RegionHandleVector: "wire_codec writeRegionHandleVector readRegionHandleVector"
  unfolding writeRegionHandleVector_def readRegionHandleVector_def by (rule wire_codec.vector[OF
      codec_RegionHandle])

definition writeModuleHandleVector :: "ModuleHandleVector writer" where
  "writeModuleHandleVector = write_vector writeModuleHandle"

definition readModuleHandleVector :: "ModuleHandleVector reader" where
  "readModuleHandleVector = read_vector readModuleHandle"

lemma codec_ModuleHandleVector: "wire_codec writeModuleHandleVector readModuleHandleVector"
  unfolding writeModuleHandleVector_def readModuleHandleVector_def by (rule wire_codec.vector[OF
      codec_ModuleHandle])

definition writeStringVector :: "StringVector writer" where
  "writeStringVector = write_vector writeString"

definition readStringVector :: "StringVector reader" where
  "readStringVector = read_vector readString"

lemma codec_StringVector: "wire_codec writeStringVector readStringVector"
  unfolding writeStringVector_def readStringVector_def by (rule wire_codec.vector[OF
      wire_String.wire_codec_axioms])

definition writeStringSet :: "StringSet writer" where
  "writeStringSet = write_set writeString"

definition readStringSet :: "StringSet reader" where
  "readStringSet = read_set readString"

lemma codec_StringSet: "wire_codec writeStringSet readStringSet"
  unfolding writeStringSet_def readStringSet_def by (rule wire_set[OF
      wire_String.wire_codec_axioms])

definition writeFederateHandleBoolPair :: "FederateHandleBoolPair writer" where
  "writeFederateHandleBoolPair v = writes [writeFederateHandle (fst v), writeBool (snd v)]"

definition readFederateHandleBoolPair :: "FederateHandleBoolPair reader" where
  "readFederateHandleBoolPair =
     dec_bind readFederateHandle (\<lambda>first. dec_bind readBool (\<lambda>second. dec_return
         (first, second)))"

lemma codec_FederateHandleBoolPair: "wire_codec writeFederateHandleBoolPair
    readFederateHandleBoolPair"
  using wire_codec.pair[OF codec_FederateHandle wire_Bool.wire_codec_axioms]
  by (simp add: writeFederateHandleBoolPair_def[abs_def] readFederateHandleBoolPair_def
      case_prod_beta')

definition writeFederateHandleBoolPairVector :: "FederateHandleBoolPairVector writer" where
  "writeFederateHandleBoolPairVector = write_vector writeFederateHandleBoolPair"

definition readFederateHandleBoolPairVector :: "FederateHandleBoolPairVector reader" where
  "readFederateHandleBoolPairVector = read_vector readFederateHandleBoolPair"

lemma codec_FederateHandleBoolPairVector: "wire_codec writeFederateHandleBoolPairVector
    readFederateHandleBoolPairVector"
  unfolding writeFederateHandleBoolPairVector_def readFederateHandleBoolPairVector_def by (rule
      wire_codec.vector[OF codec_FederateHandleBoolPair])

definition writeRangeBoundsValue :: "RangeBoundsValue writer" where
  "writeRangeBoundsValue v =
     writes [writeUnsigned (RangeBoundsValue_lowerBound v),
      writeUnsigned (RangeBoundsValue_upperBound v)]"

definition readRangeBoundsValue :: "RangeBoundsValue reader" where
  "readRangeBoundsValue =
     dec_bind readUnsigned (\<lambda>lowerBound. dec_bind readUnsigned (\<lambda>upperBound.
     dec_return \<lparr> RangeBoundsValue_lowerBound = lowerBound,
         RangeBoundsValue_upperBound = upperBound\<rparr>))"

lemma codec_RangeBoundsValue: "wire_codec writeRangeBoundsValue readRangeBoundsValue"
  unfolding writeRangeBoundsValue_def readRangeBoundsValue_def writes.simps
  by (rule wire_codec.intro, rule rt_first[OF codec_Unsigned], rule rt_end[OF codec_Unsigned]) simp

definition writeDimensionHandleRangeBoundsValuePair :: "DimensionHandleRangeBoundsValuePair writer"
    where
  "writeDimensionHandleRangeBoundsValuePair v = writes [writeDimensionHandle (fst v),
      writeRangeBoundsValue (snd v)]"

definition readDimensionHandleRangeBoundsValuePair :: "DimensionHandleRangeBoundsValuePair reader"
    where
  "readDimensionHandleRangeBoundsValuePair =
     dec_bind readDimensionHandle (\<lambda>first. dec_bind readRangeBoundsValue (\<lambda>second.
         dec_return (first, second)))"

lemma codec_DimensionHandleRangeBoundsValuePair: "wire_codec
    writeDimensionHandleRangeBoundsValuePair readDimensionHandleRangeBoundsValuePair"
  using wire_codec.pair[OF codec_DimensionHandle codec_RangeBoundsValue]
  by (simp add: writeDimensionHandleRangeBoundsValuePair_def[abs_def]
      readDimensionHandleRangeBoundsValuePair_def case_prod_beta')

definition writeRegionValue :: "RegionValue writer" where
  "writeRegionValue = write_vector writeDimensionHandleRangeBoundsValuePair"

definition readRegionValue :: "RegionValue reader" where
  "readRegionValue = read_vector readDimensionHandleRangeBoundsValuePair"

lemma codec_RegionValue: "wire_codec writeRegionValue readRegionValue"
  unfolding writeRegionValue_def readRegionValue_def by (rule wire_codec.vector[OF
      codec_DimensionHandleRangeBoundsValuePair])

definition writeRegionValueList :: "RegionValueList writer" where
  "writeRegionValueList = write_vector writeRegionValue"

definition readRegionValueList :: "RegionValueList reader" where
  "readRegionValueList = read_vector readRegionValue"

lemma codec_RegionValueList: "wire_codec writeRegionValueList readRegionValueList"
  unfolding writeRegionValueList_def readRegionValueList_def by (rule wire_codec.vector[OF
      codec_RegionValue])

definition writeRegionHandleDimensionHandleSetPair :: "RegionHandleDimensionHandleSetPair writer"
    where
  "writeRegionHandleDimensionHandleSetPair v = writes [writeRegionHandle (fst v),
      writeDimensionHandleSet (snd v)]"

definition readRegionHandleDimensionHandleSetPair :: "RegionHandleDimensionHandleSetPair reader"
    where
  "readRegionHandleDimensionHandleSetPair =
     dec_bind readRegionHandle (\<lambda>first. dec_bind readDimensionHandleSet (\<lambda>second.
         dec_return (first, second)))"

lemma codec_RegionHandleDimensionHandleSetPair: "wire_codec writeRegionHandleDimensionHandleSetPair
    readRegionHandleDimensionHandleSetPair"
  using wire_codec.pair[OF codec_RegionHandle codec_DimensionHandleSet]
  by (simp add: writeRegionHandleDimensionHandleSetPair_def[abs_def]
      readRegionHandleDimensionHandleSetPair_def case_prod_beta')

definition writeRegionHandleDimensionHandleSetPairVector ::
    "RegionHandleDimensionHandleSetPairVector writer" where
  "writeRegionHandleDimensionHandleSetPairVector = write_vector
      writeRegionHandleDimensionHandleSetPair"

definition readRegionHandleDimensionHandleSetPairVector ::
    "RegionHandleDimensionHandleSetPairVector reader" where
  "readRegionHandleDimensionHandleSetPairVector = read_vector
      readRegionHandleDimensionHandleSetPair"

lemma codec_RegionHandleDimensionHandleSetPairVector: "wire_codec
    writeRegionHandleDimensionHandleSetPairVector readRegionHandleDimensionHandleSetPairVector"
  unfolding writeRegionHandleDimensionHandleSetPairVector_def
      readRegionHandleDimensionHandleSetPairVector_def by (rule wire_codec.vector[OF
      codec_RegionHandleDimensionHandleSetPair])

definition writeRegionHandleSpaceHandlePair :: "RegionHandleSpaceHandlePair writer" where
  "writeRegionHandleSpaceHandlePair v = writes [writeRegionHandle (fst v), writeSpaceHandle (snd
      v)]"

definition readRegionHandleSpaceHandlePair :: "RegionHandleSpaceHandlePair reader" where
  "readRegionHandleSpaceHandlePair =
     dec_bind readRegionHandle (\<lambda>first. dec_bind readSpaceHandle (\<lambda>second.
         dec_return (first, second)))"

lemma codec_RegionHandleSpaceHandlePair: "wire_codec writeRegionHandleSpaceHandlePair
    readRegionHandleSpaceHandlePair"
  using wire_codec.pair[OF codec_RegionHandle codec_SpaceHandle]
  by (simp add: writeRegionHandleSpaceHandlePair_def[abs_def] readRegionHandleSpaceHandlePair_def
      case_prod_beta')

definition writeRegionHandleSpaceHandlePairVector :: "RegionHandleSpaceHandlePairVector writer"
    where
  "writeRegionHandleSpaceHandlePairVector = write_vector writeRegionHandleSpaceHandlePair"

definition readRegionHandleSpaceHandlePairVector :: "RegionHandleSpaceHandlePairVector reader" where
  "readRegionHandleSpaceHandlePairVector = read_vector readRegionHandleSpaceHandlePair"

lemma codec_RegionHandleSpaceHandlePairVector: "wire_codec writeRegionHandleSpaceHandlePairVector
    readRegionHandleSpaceHandlePairVector"
  unfolding writeRegionHandleSpaceHandlePairVector_def readRegionHandleSpaceHandlePairVector_def by
      (rule wire_codec.vector[OF codec_RegionHandleSpaceHandlePair])

definition writeRegionHandleRegionValuePair :: "RegionHandleRegionValuePair writer" where
  "writeRegionHandleRegionValuePair v = writes [writeRegionHandle (fst v), writeRegionValue (snd
      v)]"

definition readRegionHandleRegionValuePair :: "RegionHandleRegionValuePair reader" where
  "readRegionHandleRegionValuePair =
     dec_bind readRegionHandle (\<lambda>first. dec_bind readRegionValue (\<lambda>second.
         dec_return (first, second)))"

lemma codec_RegionHandleRegionValuePair: "wire_codec writeRegionHandleRegionValuePair
    readRegionHandleRegionValuePair"
  using wire_codec.pair[OF codec_RegionHandle codec_RegionValue]
  by (simp add: writeRegionHandleRegionValuePair_def[abs_def] readRegionHandleRegionValuePair_def
      case_prod_beta')

definition writeRegionHandleRegionValuePairVector :: "RegionHandleRegionValuePairVector writer"
    where
  "writeRegionHandleRegionValuePairVector = write_vector writeRegionHandleRegionValuePair"

definition readRegionHandleRegionValuePairVector :: "RegionHandleRegionValuePairVector reader" where
  "readRegionHandleRegionValuePairVector = read_vector readRegionHandleRegionValuePair"

lemma codec_RegionHandleRegionValuePairVector: "wire_codec writeRegionHandleRegionValuePairVector
    readRegionHandleRegionValuePairVector"
  unfolding writeRegionHandleRegionValuePairVector_def readRegionHandleRegionValuePairVector_def by
      (rule wire_codec.vector[OF codec_RegionHandleRegionValuePair])

definition writeInteractionClassHandleRegionValueListPair ::
    "InteractionClassHandleRegionValueListPair writer" where
  "writeInteractionClassHandleRegionValueListPair v = writes [writeInteractionClassHandle (fst v),
      writeRegionValueList (snd v)]"

definition readInteractionClassHandleRegionValueListPair ::
    "InteractionClassHandleRegionValueListPair reader" where
  "readInteractionClassHandleRegionValueListPair =
     dec_bind readInteractionClassHandle (\<lambda>first. dec_bind readRegionValueList
         (\<lambda>second. dec_return (first, second)))"

lemma codec_InteractionClassHandleRegionValueListPair: "wire_codec
    writeInteractionClassHandleRegionValueListPair readInteractionClassHandleRegionValueListPair"
  using wire_codec.pair[OF codec_InteractionClassHandle codec_RegionValueList]
  by (simp add: writeInteractionClassHandleRegionValueListPair_def[abs_def]
      readInteractionClassHandleRegionValueListPair_def case_prod_beta')

definition writeAttributeHandleRegionValueListPair :: "AttributeHandleRegionValueListPair writer"
    where
  "writeAttributeHandleRegionValueListPair v = writes [writeAttributeHandle (fst v),
      writeRegionValueList (snd v)]"

definition readAttributeHandleRegionValueListPair :: "AttributeHandleRegionValueListPair reader"
    where
  "readAttributeHandleRegionValueListPair =
     dec_bind readAttributeHandle (\<lambda>first. dec_bind readRegionValueList (\<lambda>second.
         dec_return (first, second)))"

lemma codec_AttributeHandleRegionValueListPair: "wire_codec writeAttributeHandleRegionValueListPair
    readAttributeHandleRegionValueListPair"
  using wire_codec.pair[OF codec_AttributeHandle codec_RegionValueList]
  by (simp add: writeAttributeHandleRegionValueListPair_def[abs_def]
      readAttributeHandleRegionValueListPair_def case_prod_beta')

definition writeAttributeState :: "AttributeState writer" where
  "writeAttributeState v =
     writes [writeAttributeHandle (AttributeState_attributeHandle v),
      writeFederateHandle (AttributeState_ownerFederate v)]"

definition readAttributeState :: "AttributeState reader" where
  "readAttributeState =
     dec_bind readAttributeHandle (\<lambda>attributeHandle.
     dec_bind readFederateHandle (\<lambda>ownerFederate.
     dec_return \<lparr> AttributeState_attributeHandle = attributeHandle,
         AttributeState_ownerFederate = ownerFederate\<rparr>))"

lemma codec_AttributeState: "wire_codec writeAttributeState readAttributeState"
  unfolding writeAttributeState_def readAttributeState_def writes.simps
  by (rule wire_codec.intro, rule rt_first[OF codec_AttributeHandle],
      rule rt_end[OF codec_FederateHandle]) simp

definition writeAttributeStateVector :: "AttributeStateVector writer" where
  "writeAttributeStateVector = write_vector writeAttributeState"

definition readAttributeStateVector :: "AttributeStateVector reader" where
  "readAttributeStateVector = read_vector readAttributeState"

lemma codec_AttributeStateVector: "wire_codec writeAttributeStateVector readAttributeStateVector"
  unfolding writeAttributeStateVector_def readAttributeStateVector_def by (rule
      wire_codec.vector[OF codec_AttributeState])

definition writeParameterValue :: "ParameterValue writer" where
  "writeParameterValue v =
     writes [writeParameterHandle (ParameterValue_parameterHandle v),
      writeVariableLengthData (ParameterValue_value v)]"

definition readParameterValue :: "ParameterValue reader" where
  "readParameterValue =
     dec_bind readParameterHandle (\<lambda>parameterHandle.
     dec_bind readVariableLengthData (\<lambda>value.
     dec_return \<lparr> ParameterValue_parameterHandle = parameterHandle,
         ParameterValue_value = value\<rparr>))"

definition readPayloadParameterValue :: "ParameterValue \<Rightarrow> (ParameterValue, vld list)
    decoder" where
  "readPayloadParameterValue v =
     dec_bind (readPayloadVariableLengthData (ParameterValue_value v)) (\<lambda>value.
     dec_return (v\<lparr>ParameterValue_value := value\<rparr>))"

definition payload_ParameterValue :: "ParameterValue \<Rightarrow> vld list" where
  "payload_ParameterValue v = vld_payload (ParameterValue_value v)"

definition hollow_ParameterValue :: "ParameterValue \<Rightarrow> ParameterValue" where
  "hollow_ParameterValue v =
     v\<lparr>ParameterValue_value := vld_hollow (ParameterValue_value v)\<rparr>"

lemma codec_ParameterValue: "payload_codec writeParameterValue readParameterValue
    payload_ParameterValue hollow_ParameterValue readPayloadParameterValue"
proof
  fix v :: ParameterValue
  have e: "payload_ParameterValue v = vld_payload (ParameterValue_value v)"
    by (simp add: payload_ParameterValue_def)
  show "rt 1 (writeParameterValue v) readParameterValue (payload_ParameterValue v)
      (hollow_ParameterValue v)"
    unfolding writeParameterValue_def readParameterValue_def writes.simps e
    by (rule rt_first[OF codec_ParameterHandle],
      rule rt_pend[OF wire_VariableLengthData.payload_codec_axioms]) (simp add:
          hollow_ParameterValue_def)
  show "readPayloadParameterValue (hollow_ParameterValue v) (payload_ParameterValue v @ rest) = Inr
      (v, rest)" for rest
    by (simp add: readPayloadParameterValue_def hollow_ParameterValue_def
        payload_ParameterValue_def dec_bind_def dec_return_def
        wire_VariableLengthData.payload)
  show "payload_ParameterValue v = [] \<Longrightarrow> hollow_ParameterValue v = v"
    by (simp add: payload_ParameterValue_def hollow_ParameterValue_def
        wire_VariableLengthData.no_payload)
  show "p \<in> set (payload_ParameterValue v) \<Longrightarrow> p \<noteq> []" for p
    by (auto simp: payload_ParameterValue_def dest: wire_VariableLengthData.nonempty)
qed

definition writeParameterValueVector :: "ParameterValueVector writer" where
  "writeParameterValueVector = write_vector writeParameterValue"

definition readParameterValueVector :: "ParameterValueVector reader" where
  "readParameterValueVector = read_vector readParameterValue"

definition readPayloadParameterValueVector :: "ParameterValueVector \<Rightarrow>
    (ParameterValueVector, vld list) decoder" where
  "readPayloadParameterValueVector = readPayload_vector readPayloadParameterValue"

lemma codec_ParameterValueVector: "payload_codec writeParameterValueVector readParameterValueVector
    (\<lambda>xs. concat (map payload_ParameterValue xs)) (map hollow_ParameterValue)
        readPayloadParameterValueVector"
  unfolding writeParameterValueVector_def readParameterValueVector_def
      readPayloadParameterValueVector_def by (rule payload_codec.vector[OF codec_ParameterValue])

definition writeAttributeValue :: "AttributeValue writer" where
  "writeAttributeValue v =
     writes [writeAttributeHandle (AttributeValue_attributeHandle v),
      writeVariableLengthData (AttributeValue_value v)]"

definition readAttributeValue :: "AttributeValue reader" where
  "readAttributeValue =
     dec_bind readAttributeHandle (\<lambda>attributeHandle.
     dec_bind readVariableLengthData (\<lambda>value.
     dec_return \<lparr> AttributeValue_attributeHandle = attributeHandle,
         AttributeValue_value = value\<rparr>))"

definition readPayloadAttributeValue :: "AttributeValue \<Rightarrow> (AttributeValue, vld list)
    decoder" where
  "readPayloadAttributeValue v =
     dec_bind (readPayloadVariableLengthData (AttributeValue_value v)) (\<lambda>value.
     dec_return (v\<lparr>AttributeValue_value := value\<rparr>))"

definition payload_AttributeValue :: "AttributeValue \<Rightarrow> vld list" where
  "payload_AttributeValue v = vld_payload (AttributeValue_value v)"

definition hollow_AttributeValue :: "AttributeValue \<Rightarrow> AttributeValue" where
  "hollow_AttributeValue v =
     v\<lparr>AttributeValue_value := vld_hollow (AttributeValue_value v)\<rparr>"

lemma codec_AttributeValue: "payload_codec writeAttributeValue readAttributeValue
    payload_AttributeValue hollow_AttributeValue readPayloadAttributeValue"
proof
  fix v :: AttributeValue
  have e: "payload_AttributeValue v = vld_payload (AttributeValue_value v)"
    by (simp add: payload_AttributeValue_def)
  show "rt 1 (writeAttributeValue v) readAttributeValue (payload_AttributeValue v)
      (hollow_AttributeValue v)"
    unfolding writeAttributeValue_def readAttributeValue_def writes.simps e
    by (rule rt_first[OF codec_AttributeHandle],
      rule rt_pend[OF wire_VariableLengthData.payload_codec_axioms]) (simp add:
          hollow_AttributeValue_def)
  show "readPayloadAttributeValue (hollow_AttributeValue v) (payload_AttributeValue v @ rest) = Inr
      (v, rest)" for rest
    by (simp add: readPayloadAttributeValue_def hollow_AttributeValue_def
        payload_AttributeValue_def dec_bind_def dec_return_def
        wire_VariableLengthData.payload)
  show "payload_AttributeValue v = [] \<Longrightarrow> hollow_AttributeValue v = v"
    by (simp add: payload_AttributeValue_def hollow_AttributeValue_def
        wire_VariableLengthData.no_payload)
  show "p \<in> set (payload_AttributeValue v) \<Longrightarrow> p \<noteq> []" for p
    by (auto simp: payload_AttributeValue_def dest: wire_VariableLengthData.nonempty)
qed

definition writeAttributeValueVector :: "AttributeValueVector writer" where
  "writeAttributeValueVector = write_vector writeAttributeValue"

definition readAttributeValueVector :: "AttributeValueVector reader" where
  "readAttributeValueVector = read_vector readAttributeValue"

definition readPayloadAttributeValueVector :: "AttributeValueVector \<Rightarrow>
    (AttributeValueVector, vld list) decoder" where
  "readPayloadAttributeValueVector = readPayload_vector readPayloadAttributeValue"

lemma codec_AttributeValueVector: "payload_codec writeAttributeValueVector readAttributeValueVector
    (\<lambda>xs. concat (map payload_AttributeValue xs)) (map hollow_AttributeValue)
        readPayloadAttributeValueVector"
  unfolding writeAttributeValueVector_def readAttributeValueVector_def
      readPayloadAttributeValueVector_def by (rule payload_codec.vector[OF codec_AttributeValue])

definition writeFederateHandleSaveStatusPair :: "FederateHandleSaveStatusPair writer" where
  "writeFederateHandleSaveStatusPair v = writes [writeFederateHandle (fst v), writeSaveStatus (snd
      v)]"

definition readFederateHandleSaveStatusPair :: "FederateHandleSaveStatusPair reader" where
  "readFederateHandleSaveStatusPair =
     dec_bind readFederateHandle (\<lambda>first. dec_bind readSaveStatus (\<lambda>second.
         dec_return (first, second)))"

lemma codec_FederateHandleSaveStatusPair: "wire_codec writeFederateHandleSaveStatusPair
    readFederateHandleSaveStatusPair"
  using wire_codec.pair[OF codec_FederateHandle codec_SaveStatus]
  by (simp add: writeFederateHandleSaveStatusPair_def[abs_def] readFederateHandleSaveStatusPair_def
      case_prod_beta')

definition writeFederateHandleSaveStatusPairVector :: "FederateHandleSaveStatusPairVector writer"
    where
  "writeFederateHandleSaveStatusPairVector = write_vector writeFederateHandleSaveStatusPair"

definition readFederateHandleSaveStatusPairVector :: "FederateHandleSaveStatusPairVector reader"
    where
  "readFederateHandleSaveStatusPairVector = read_vector readFederateHandleSaveStatusPair"

lemma codec_FederateHandleSaveStatusPairVector: "wire_codec writeFederateHandleSaveStatusPairVector
    readFederateHandleSaveStatusPairVector"
  unfolding writeFederateHandleSaveStatusPairVector_def readFederateHandleSaveStatusPairVector_def
      by (rule wire_codec.vector[OF codec_FederateHandleSaveStatusPair])

definition writeFederateHandleRestoreStatusPair :: "FederateHandleRestoreStatusPair writer" where
  "writeFederateHandleRestoreStatusPair v = writes [writeFederateHandle (fst v), writeRestoreStatus
      (snd v)]"

definition readFederateHandleRestoreStatusPair :: "FederateHandleRestoreStatusPair reader" where
  "readFederateHandleRestoreStatusPair =
     dec_bind readFederateHandle (\<lambda>first. dec_bind readRestoreStatus (\<lambda>second.
         dec_return (first, second)))"

lemma codec_FederateHandleRestoreStatusPair: "wire_codec writeFederateHandleRestoreStatusPair
    readFederateHandleRestoreStatusPair"
  using wire_codec.pair[OF codec_FederateHandle codec_RestoreStatus]
  by (simp add: writeFederateHandleRestoreStatusPair_def[abs_def]
      readFederateHandleRestoreStatusPair_def case_prod_beta')

definition writeFederateHandleRestoreStatusPairVector :: "FederateHandleRestoreStatusPairVector
    writer" where
  "writeFederateHandleRestoreStatusPairVector = write_vector writeFederateHandleRestoreStatusPair"

definition readFederateHandleRestoreStatusPairVector :: "FederateHandleRestoreStatusPairVector
    reader" where
  "readFederateHandleRestoreStatusPairVector = read_vector readFederateHandleRestoreStatusPair"

lemma codec_FederateHandleRestoreStatusPairVector: "wire_codec
    writeFederateHandleRestoreStatusPairVector readFederateHandleRestoreStatusPairVector"
  unfolding writeFederateHandleRestoreStatusPairVector_def
      readFederateHandleRestoreStatusPairVector_def by (rule wire_codec.vector[OF
      codec_FederateHandleRestoreStatusPair])

definition writeFederationExecutionInformation :: "FederationExecutionInformation writer" where
  "writeFederationExecutionInformation v =
     writes [writeString (FederationExecutionInformation_federationExecutionName v),
      writeString (FederationExecutionInformation_logicalTimeFactoryName v)]"

definition readFederationExecutionInformation :: "FederationExecutionInformation reader" where
  "readFederationExecutionInformation =
     dec_bind readString (\<lambda>federationExecutionName.
     dec_bind readString (\<lambda>logicalTimeFactoryName.
     dec_return \<lparr>
         FederationExecutionInformation_federationExecutionName = federationExecutionName,
         FederationExecutionInformation_logicalTimeFactoryName = logicalTimeFactoryName\<rparr>))"

lemma codec_FederationExecutionInformation: "wire_codec writeFederationExecutionInformation
    readFederationExecutionInformation"
  unfolding writeFederationExecutionInformation_def readFederationExecutionInformation_def
      writes.simps
  by (rule wire_codec.intro, rule rt_first[OF wire_String.wire_codec_axioms],
      rule rt_end[OF wire_String.wire_codec_axioms]) simp

definition writeFederationExecutionInformationVector :: "FederationExecutionInformationVector
    writer" where
  "writeFederationExecutionInformationVector = write_vector writeFederationExecutionInformation"

definition readFederationExecutionInformationVector :: "FederationExecutionInformationVector
    reader" where
  "readFederationExecutionInformationVector = read_vector readFederationExecutionInformation"

lemma codec_FederationExecutionInformationVector: "wire_codec
    writeFederationExecutionInformationVector readFederationExecutionInformationVector"
  unfolding writeFederationExecutionInformationVector_def
      readFederationExecutionInformationVector_def by (rule wire_codec.vector[OF
      codec_FederationExecutionInformation])

definition writeObjectInstanceHandleNamePair :: "ObjectInstanceHandleNamePair writer" where
  "writeObjectInstanceHandleNamePair v = writes [writeObjectInstanceHandle (fst v), writeString
      (snd v)]"

definition readObjectInstanceHandleNamePair :: "ObjectInstanceHandleNamePair reader" where
  "readObjectInstanceHandleNamePair =
     dec_bind readObjectInstanceHandle (\<lambda>first. dec_bind readString (\<lambda>second.
         dec_return (first, second)))"

lemma codec_ObjectInstanceHandleNamePair: "wire_codec writeObjectInstanceHandleNamePair
    readObjectInstanceHandleNamePair"
  using wire_codec.pair[OF codec_ObjectInstanceHandle wire_String.wire_codec_axioms]
  by (simp add: writeObjectInstanceHandleNamePair_def[abs_def] readObjectInstanceHandleNamePair_def
      case_prod_beta')

definition writeObjectInstanceHandleNamePairVector :: "ObjectInstanceHandleNamePairVector writer"
    where
  "writeObjectInstanceHandleNamePairVector = write_vector writeObjectInstanceHandleNamePair"

definition readObjectInstanceHandleNamePairVector :: "ObjectInstanceHandleNamePairVector reader"
    where
  "readObjectInstanceHandleNamePairVector = read_vector readObjectInstanceHandleNamePair"

lemma codec_ObjectInstanceHandleNamePairVector: "wire_codec writeObjectInstanceHandleNamePairVector
    readObjectInstanceHandleNamePairVector"
  unfolding writeObjectInstanceHandleNamePairVector_def readObjectInstanceHandleNamePairVector_def
      by (rule wire_codec.vector[OF codec_ObjectInstanceHandleNamePair])

definition writeCreateFederationExecutionResponseType :: "CreateFederationExecutionResponseType
    writer" where
  "writeCreateFederationExecutionResponseType v = writeUInt32Compressed (case v of
       CreateFederationExecutionResponseSuccess \<Rightarrow> 0 |
       CreateFederationExecutionResponseFederationExecutionAlreadyExists \<Rightarrow> 1 |
       CreateFederationExecutionResponseCouldNotOpenFDD \<Rightarrow> 2 |
       CreateFederationExecutionResponseErrorReadingFDD \<Rightarrow> 3 |
       CreateFederationExecutionResponseCouldNotCreateLogicalTimeFactory \<Rightarrow> 4 |
       CreateFederationExecutionResponseInconsistentFDD \<Rightarrow> 5 |
       CreateFederationExecutionResponseRTIinternalError \<Rightarrow> 6 |
       CreateFederationExecutionResponseTimeout \<Rightarrow> 7)"

definition readCreateFederationExecutionResponseType :: "CreateFederationExecutionResponseType
    reader" where
  "readCreateFederationExecutionResponseType = dec_bind readUInt32Compressed (\<lambda>n.
      dec_return (
       if n = 0 then CreateFederationExecutionResponseSuccess else
       if n = 1 then CreateFederationExecutionResponseFederationExecutionAlreadyExists else
       if n = 2 then CreateFederationExecutionResponseCouldNotOpenFDD else
       if n = 3 then CreateFederationExecutionResponseErrorReadingFDD else
       if n = 4 then CreateFederationExecutionResponseCouldNotCreateLogicalTimeFactory else
       if n = 5 then CreateFederationExecutionResponseInconsistentFDD else
       if n = 6 then CreateFederationExecutionResponseRTIinternalError else
       if n = 7 then CreateFederationExecutionResponseTimeout else
       CreateFederationExecutionResponseTimeout))"

lemma codec_CreateFederationExecutionResponseType: "wire_codec
    writeCreateFederationExecutionResponseType readCreateFederationExecutionResponseType"
  unfolding writeCreateFederationExecutionResponseType_def
      readCreateFederationExecutionResponseType_def
  by (rule wire_codec.intro, rule rt_last[OF rt_uint32]) (simp split:
      CreateFederationExecutionResponseType.split)

definition writeDestroyFederationExecutionResponseType :: "DestroyFederationExecutionResponseType
    writer" where
  "writeDestroyFederationExecutionResponseType v = writeUInt32Compressed (case v of
       DestroyFederationExecutionResponseSuccess \<Rightarrow> 0 |
       DestroyFederationExecutionResponseFederatesCurrentlyJoined \<Rightarrow> 1 |
       DestroyFederationExecutionResponseFederationExecutionDoesNotExist \<Rightarrow> 2 |
       DestroyFederationExecutionResponseRTIinternalError \<Rightarrow> 3)"

definition readDestroyFederationExecutionResponseType :: "DestroyFederationExecutionResponseType
    reader" where
  "readDestroyFederationExecutionResponseType = dec_bind readUInt32Compressed (\<lambda>n.
      dec_return (
       if n = 0 then DestroyFederationExecutionResponseSuccess else
       if n = 1 then DestroyFederationExecutionResponseFederatesCurrentlyJoined else
       if n = 2 then DestroyFederationExecutionResponseFederationExecutionDoesNotExist else
       if n = 3 then DestroyFederationExecutionResponseRTIinternalError else
       DestroyFederationExecutionResponseRTIinternalError))"

lemma codec_DestroyFederationExecutionResponseType: "wire_codec
    writeDestroyFederationExecutionResponseType readDestroyFederationExecutionResponseType"
  unfolding writeDestroyFederationExecutionResponseType_def
      readDestroyFederationExecutionResponseType_def
  by (rule wire_codec.intro, rule rt_last[OF rt_uint32]) (simp split:
      DestroyFederationExecutionResponseType.split)

definition writeJoinFederationExecutionResponseType :: "JoinFederationExecutionResponseType writer"
    where
  "writeJoinFederationExecutionResponseType v = writeUInt32Compressed (case v of
       JoinFederationExecutionResponseSuccess \<Rightarrow> 0 |
       JoinFederationExecutionResponseFederateNameAlreadyInUse \<Rightarrow> 1 |
       JoinFederationExecutionResponseFederationExecutionDoesNotExist \<Rightarrow> 2 |
       JoinFederationExecutionResponseSaveInProgress \<Rightarrow> 3 |
       JoinFederationExecutionResponseRestoreInProgress \<Rightarrow> 4 |
       JoinFederationExecutionResponseInconsistentFDD \<Rightarrow> 5 |
       JoinFederationExecutionResponseTimeout \<Rightarrow> 6)"

definition readJoinFederationExecutionResponseType :: "JoinFederationExecutionResponseType reader"
    where
  "readJoinFederationExecutionResponseType = dec_bind readUInt32Compressed (\<lambda>n. dec_return (
       if n = 0 then JoinFederationExecutionResponseSuccess else
       if n = 1 then JoinFederationExecutionResponseFederateNameAlreadyInUse else
       if n = 2 then JoinFederationExecutionResponseFederationExecutionDoesNotExist else
       if n = 3 then JoinFederationExecutionResponseSaveInProgress else
       if n = 4 then JoinFederationExecutionResponseRestoreInProgress else
       if n = 5 then JoinFederationExecutionResponseInconsistentFDD else
       if n = 6 then JoinFederationExecutionResponseTimeout else
       JoinFederationExecutionResponseTimeout))"

lemma codec_JoinFederationExecutionResponseType: "wire_codec
    writeJoinFederationExecutionResponseType readJoinFederationExecutionResponseType"
  unfolding writeJoinFederationExecutionResponseType_def readJoinFederationExecutionResponseType_def
  by (rule wire_codec.intro, rule rt_last[OF rt_uint32]) (simp split:
      JoinFederationExecutionResponseType.split)

definition writeRegisterFederationSynchronizationPointResponseType ::
    "RegisterFederationSynchronizationPointResponseType writer" where
  "writeRegisterFederationSynchronizationPointResponseType v = writeUInt32Compressed (case v of
       RegisterFederationSynchronizationPointResponseSuccess \<Rightarrow> 0 |
       RegisterFederationSynchronizationPointResponseLabelNotUnique \<Rightarrow> 1 |
       RegisterFederationSynchronizationPointResponseMemberNotJoined \<Rightarrow> 2)"

definition readRegisterFederationSynchronizationPointResponseType ::
    "RegisterFederationSynchronizationPointResponseType reader" where
  "readRegisterFederationSynchronizationPointResponseType = dec_bind readUInt32Compressed
      (\<lambda>n. dec_return (
       if n = 0 then RegisterFederationSynchronizationPointResponseSuccess else
       if n = 1 then RegisterFederationSynchronizationPointResponseLabelNotUnique else
       if n = 2 then RegisterFederationSynchronizationPointResponseMemberNotJoined else
       RegisterFederationSynchronizationPointResponseMemberNotJoined))"

lemma codec_RegisterFederationSynchronizationPointResponseType: "wire_codec
    writeRegisterFederationSynchronizationPointResponseType
    readRegisterFederationSynchronizationPointResponseType"
  unfolding writeRegisterFederationSynchronizationPointResponseType_def
      readRegisterFederationSynchronizationPointResponseType_def
  by (rule wire_codec.intro, rule rt_last[OF rt_uint32]) (simp split:
      RegisterFederationSynchronizationPointResponseType.split)

definition writeConfigurationParameterMap :: "ConfigurationParameterMap writer" where
  "writeConfigurationParameterMap m = writes [writeSizeTCompressed (fcard (fmdom m)),
     fold (\<lambda>(key, v). writes [writeString key, writeStringVector v]) (sorted_list_of_fmap
         m)]"

definition readConfigurationParameterMap :: "ConfigurationParameterMap reader" where
  "readConfigurationParameterMap = dec_bind readSizeTCompressed (\<lambda>n. dec_bind
     (read_elements (dec_bind readString (\<lambda>key. dec_bind readStringVector (\<lambda>v.
         dec_return (key, v)))) (unat n))
     (\<lambda>kvs. dec_return (fold (\<lambda>(key, v) m. fmupd key v m) kvs fmempty)))"

lemma codec_ConfigurationParameterMap: "wire_codec writeConfigurationParameterMap
    readConfigurationParameterMap"
  unfolding writeConfigurationParameterMap_def readConfigurationParameterMap_def by (rule
      wire_map[OF wire_String.wire_codec_axioms codec_StringVector])

definition writeFOMStringBasicDataType :: "FOMStringBasicDataType writer" where
  "writeFOMStringBasicDataType v =
     writes [writeString (FOMStringBasicDataType_name v),
      writeUnsigned (FOMStringBasicDataType_size v),
      writeEndianness (FOMStringBasicDataType_endian v)]"

definition readFOMStringBasicDataType :: "FOMStringBasicDataType reader" where
  "readFOMStringBasicDataType =
     dec_bind readString (\<lambda>name. dec_bind readUnsigned (\<lambda>size.
     dec_bind readEndianness (\<lambda>endian.
     dec_return \<lparr> FOMStringBasicDataType_name = name, FOMStringBasicDataType_size = size,
         FOMStringBasicDataType_endian = endian\<rparr>)))"

lemma codec_FOMStringBasicDataType: "wire_codec writeFOMStringBasicDataType
    readFOMStringBasicDataType"
  unfolding writeFOMStringBasicDataType_def readFOMStringBasicDataType_def writes.simps
  by (rule wire_codec.intro, rule rt_first[OF wire_String.wire_codec_axioms],
      rule rt_next[OF codec_Unsigned], rule rt_end[OF codec_Endianness]) simp

definition writeFOMStringBasicDataTypeList :: "FOMStringBasicDataTypeList writer" where
  "writeFOMStringBasicDataTypeList = write_vector writeFOMStringBasicDataType"

definition readFOMStringBasicDataTypeList :: "FOMStringBasicDataTypeList reader" where
  "readFOMStringBasicDataTypeList = read_vector readFOMStringBasicDataType"

lemma codec_FOMStringBasicDataTypeList: "wire_codec writeFOMStringBasicDataTypeList
    readFOMStringBasicDataTypeList"
  unfolding writeFOMStringBasicDataTypeList_def readFOMStringBasicDataTypeList_def by (rule
      wire_codec.vector[OF codec_FOMStringBasicDataType])

definition writeFOMStringSimpleDataType :: "FOMStringSimpleDataType writer" where
  "writeFOMStringSimpleDataType v =
     writes [writeString (FOMStringSimpleDataType_name v),
      writeString (FOMStringSimpleDataType_representation v)]"

definition readFOMStringSimpleDataType :: "FOMStringSimpleDataType reader" where
  "readFOMStringSimpleDataType =
     dec_bind readString (\<lambda>name. dec_bind readString (\<lambda>representation.
     dec_return \<lparr> FOMStringSimpleDataType_name = name,
         FOMStringSimpleDataType_representation = representation\<rparr>))"

lemma codec_FOMStringSimpleDataType: "wire_codec writeFOMStringSimpleDataType
    readFOMStringSimpleDataType"
  unfolding writeFOMStringSimpleDataType_def readFOMStringSimpleDataType_def writes.simps
  by (rule wire_codec.intro, rule rt_first[OF wire_String.wire_codec_axioms],
      rule rt_end[OF wire_String.wire_codec_axioms]) simp

definition writeFOMStringSimpleDataTypeList :: "FOMStringSimpleDataTypeList writer" where
  "writeFOMStringSimpleDataTypeList = write_vector writeFOMStringSimpleDataType"

definition readFOMStringSimpleDataTypeList :: "FOMStringSimpleDataTypeList reader" where
  "readFOMStringSimpleDataTypeList = read_vector readFOMStringSimpleDataType"

lemma codec_FOMStringSimpleDataTypeList: "wire_codec writeFOMStringSimpleDataTypeList
    readFOMStringSimpleDataTypeList"
  unfolding writeFOMStringSimpleDataTypeList_def readFOMStringSimpleDataTypeList_def by (rule
      wire_codec.vector[OF codec_FOMStringSimpleDataType])

definition writeFOMStringEnumerator :: "FOMStringEnumerator writer" where
  "writeFOMStringEnumerator v =
     writes [writeString (FOMStringEnumerator_name v), writeUnsigned (FOMStringEnumerator_value v)]"

definition readFOMStringEnumerator :: "FOMStringEnumerator reader" where
  "readFOMStringEnumerator =
     dec_bind readString (\<lambda>name. dec_bind readUnsigned (\<lambda>value.
     dec_return \<lparr> FOMStringEnumerator_name = name, FOMStringEnumerator_value =
         value\<rparr>))"

lemma codec_FOMStringEnumerator: "wire_codec writeFOMStringEnumerator readFOMStringEnumerator"
  unfolding writeFOMStringEnumerator_def readFOMStringEnumerator_def writes.simps
  by (rule wire_codec.intro, rule rt_first[OF wire_String.wire_codec_axioms],
      rule rt_end[OF codec_Unsigned]) simp

definition writeFOMStringEnumeratorList :: "FOMStringEnumeratorList writer" where
  "writeFOMStringEnumeratorList = write_vector writeFOMStringEnumerator"

definition readFOMStringEnumeratorList :: "FOMStringEnumeratorList reader" where
  "readFOMStringEnumeratorList = read_vector readFOMStringEnumerator"

lemma codec_FOMStringEnumeratorList: "wire_codec writeFOMStringEnumeratorList
    readFOMStringEnumeratorList"
  unfolding writeFOMStringEnumeratorList_def readFOMStringEnumeratorList_def by (rule
      wire_codec.vector[OF codec_FOMStringEnumerator])

definition writeFOMStringEnumeratedDataType :: "FOMStringEnumeratedDataType writer" where
  "writeFOMStringEnumeratedDataType v =
     writes [writeString (FOMStringEnumeratedDataType_name v),
      writeString (FOMStringEnumeratedDataType_representation v),
      writeFOMStringEnumeratorList (FOMStringEnumeratedDataType_enumerators v)]"

definition readFOMStringEnumeratedDataType :: "FOMStringEnumeratedDataType reader" where
  "readFOMStringEnumeratedDataType =
     dec_bind readString (\<lambda>name. dec_bind readString (\<lambda>representation.
     dec_bind readFOMStringEnumeratorList (\<lambda>enumerators.
     dec_return \<lparr> FOMStringEnumeratedDataType_name = name,
         FOMStringEnumeratedDataType_representation = representation,
         FOMStringEnumeratedDataType_enumerators = enumerators\<rparr>)))"

lemma codec_FOMStringEnumeratedDataType: "wire_codec writeFOMStringEnumeratedDataType
    readFOMStringEnumeratedDataType"
  unfolding writeFOMStringEnumeratedDataType_def readFOMStringEnumeratedDataType_def writes.simps
  by (rule wire_codec.intro, rule rt_first[OF wire_String.wire_codec_axioms],
      rule rt_next[OF wire_String.wire_codec_axioms],
      rule rt_end[OF codec_FOMStringEnumeratorList]) simp

definition writeFOMStringEnumeratedDataTypeList :: "FOMStringEnumeratedDataTypeList writer" where
  "writeFOMStringEnumeratedDataTypeList = write_vector writeFOMStringEnumeratedDataType"

definition readFOMStringEnumeratedDataTypeList :: "FOMStringEnumeratedDataTypeList reader" where
  "readFOMStringEnumeratedDataTypeList = read_vector readFOMStringEnumeratedDataType"

lemma codec_FOMStringEnumeratedDataTypeList: "wire_codec writeFOMStringEnumeratedDataTypeList
    readFOMStringEnumeratedDataTypeList"
  unfolding writeFOMStringEnumeratedDataTypeList_def readFOMStringEnumeratedDataTypeList_def by
      (rule wire_codec.vector[OF codec_FOMStringEnumeratedDataType])

definition writeFOMStringArrayDataType :: "FOMStringArrayDataType writer" where
  "writeFOMStringArrayDataType v =
     writes [writeString (FOMStringArrayDataType_name v),
      writeString (FOMStringArrayDataType_dataType v),
      writeString (FOMStringArrayDataType_cardinality v),
      writeString (FOMStringArrayDataType_encoding v)]"

definition readFOMStringArrayDataType :: "FOMStringArrayDataType reader" where
  "readFOMStringArrayDataType =
     dec_bind readString (\<lambda>name. dec_bind readString (\<lambda>dataType.
     dec_bind readString (\<lambda>cardinality. dec_bind readString (\<lambda>encoding.
     dec_return \<lparr> FOMStringArrayDataType_name = name,
         FOMStringArrayDataType_dataType = dataType,
         FOMStringArrayDataType_cardinality = cardinality,
         FOMStringArrayDataType_encoding = encoding\<rparr>))))"

lemma codec_FOMStringArrayDataType: "wire_codec writeFOMStringArrayDataType
    readFOMStringArrayDataType"
  unfolding writeFOMStringArrayDataType_def readFOMStringArrayDataType_def writes.simps
  by (rule wire_codec.intro, rule rt_first[OF wire_String.wire_codec_axioms],
      rule rt_next[OF wire_String.wire_codec_axioms],
      rule rt_next[OF wire_String.wire_codec_axioms],
      rule rt_end[OF wire_String.wire_codec_axioms]) simp

definition writeFOMStringArrayDataTypeList :: "FOMStringArrayDataTypeList writer" where
  "writeFOMStringArrayDataTypeList = write_vector writeFOMStringArrayDataType"

definition readFOMStringArrayDataTypeList :: "FOMStringArrayDataTypeList reader" where
  "readFOMStringArrayDataTypeList = read_vector readFOMStringArrayDataType"

lemma codec_FOMStringArrayDataTypeList: "wire_codec writeFOMStringArrayDataTypeList
    readFOMStringArrayDataTypeList"
  unfolding writeFOMStringArrayDataTypeList_def readFOMStringArrayDataTypeList_def by (rule
      wire_codec.vector[OF codec_FOMStringArrayDataType])

definition writeFOMStringArrayDataType2 :: "FOMStringArrayDataType2 writer" where
  "writeFOMStringArrayDataType2 v =
     writes [writeString (FOMStringArrayDataType2_name v),
      writeString (FOMStringArrayDataType2_dataType v),
      writeString (FOMStringArrayDataType2_cardinality v),
      writeArrayDataTypeEncoding (FOMStringArrayDataType2_encoding v)]"

definition readFOMStringArrayDataType2 :: "FOMStringArrayDataType2 reader" where
  "readFOMStringArrayDataType2 =
     dec_bind readString (\<lambda>name. dec_bind readString (\<lambda>dataType.
     dec_bind readString (\<lambda>cardinality.
     dec_bind readArrayDataTypeEncoding (\<lambda>encoding.
     dec_return \<lparr> FOMStringArrayDataType2_name = name,
         FOMStringArrayDataType2_dataType = dataType,
         FOMStringArrayDataType2_cardinality = cardinality,
         FOMStringArrayDataType2_encoding = encoding\<rparr>))))"

lemma codec_FOMStringArrayDataType2: "wire_codec writeFOMStringArrayDataType2
    readFOMStringArrayDataType2"
  unfolding writeFOMStringArrayDataType2_def readFOMStringArrayDataType2_def writes.simps
  by (rule wire_codec.intro, rule rt_first[OF wire_String.wire_codec_axioms],
      rule rt_next[OF wire_String.wire_codec_axioms],
      rule rt_next[OF wire_String.wire_codec_axioms], rule rt_end[OF codec_ArrayDataTypeEncoding])
          simp

definition writeFOMStringArrayDataType2List :: "FOMStringArrayDataType2List writer" where
  "writeFOMStringArrayDataType2List = write_vector writeFOMStringArrayDataType2"

definition readFOMStringArrayDataType2List :: "FOMStringArrayDataType2List reader" where
  "readFOMStringArrayDataType2List = read_vector readFOMStringArrayDataType2"

lemma codec_FOMStringArrayDataType2List: "wire_codec writeFOMStringArrayDataType2List
    readFOMStringArrayDataType2List"
  unfolding writeFOMStringArrayDataType2List_def readFOMStringArrayDataType2List_def by (rule
      wire_codec.vector[OF codec_FOMStringArrayDataType2])

definition writeFOMStringFixedRecordField :: "FOMStringFixedRecordField writer" where
  "writeFOMStringFixedRecordField v =
     writes [writeString (FOMStringFixedRecordField_name v),
      writeUnsigned (FOMStringFixedRecordField_dataType v)]"

definition readFOMStringFixedRecordField :: "FOMStringFixedRecordField reader" where
  "readFOMStringFixedRecordField =
     dec_bind readString (\<lambda>name. dec_bind readUnsigned (\<lambda>dataType.
     dec_return \<lparr> FOMStringFixedRecordField_name = name,
         FOMStringFixedRecordField_dataType = dataType\<rparr>))"

lemma codec_FOMStringFixedRecordField: "wire_codec writeFOMStringFixedRecordField
    readFOMStringFixedRecordField"
  unfolding writeFOMStringFixedRecordField_def readFOMStringFixedRecordField_def writes.simps
  by (rule wire_codec.intro, rule rt_first[OF wire_String.wire_codec_axioms],
      rule rt_end[OF codec_Unsigned]) simp

definition writeFOMStringFixedRecordFieldList :: "FOMStringFixedRecordFieldList writer" where
  "writeFOMStringFixedRecordFieldList = write_vector writeFOMStringFixedRecordField"

definition readFOMStringFixedRecordFieldList :: "FOMStringFixedRecordFieldList reader" where
  "readFOMStringFixedRecordFieldList = read_vector readFOMStringFixedRecordField"

lemma codec_FOMStringFixedRecordFieldList: "wire_codec writeFOMStringFixedRecordFieldList
    readFOMStringFixedRecordFieldList"
  unfolding writeFOMStringFixedRecordFieldList_def readFOMStringFixedRecordFieldList_def by (rule
      wire_codec.vector[OF codec_FOMStringFixedRecordField])

definition writeFOMStringFixedRecordDataType :: "FOMStringFixedRecordDataType writer" where
  "writeFOMStringFixedRecordDataType v =
     writes [writeString (FOMStringFixedRecordDataType_name v),
      writeString (FOMStringFixedRecordDataType_encoding v),
      writeFOMStringFixedRecordFieldList (FOMStringFixedRecordDataType_fields v)]"

definition readFOMStringFixedRecordDataType :: "FOMStringFixedRecordDataType reader" where
  "readFOMStringFixedRecordDataType =
     dec_bind readString (\<lambda>name. dec_bind readString (\<lambda>encoding.
     dec_bind readFOMStringFixedRecordFieldList (\<lambda>fields.
     dec_return \<lparr> FOMStringFixedRecordDataType_name = name,
         FOMStringFixedRecordDataType_encoding = encoding,
         FOMStringFixedRecordDataType_fields = fields\<rparr>)))"

lemma codec_FOMStringFixedRecordDataType: "wire_codec writeFOMStringFixedRecordDataType
    readFOMStringFixedRecordDataType"
  unfolding writeFOMStringFixedRecordDataType_def readFOMStringFixedRecordDataType_def writes.simps
  by (rule wire_codec.intro, rule rt_first[OF wire_String.wire_codec_axioms],
      rule rt_next[OF wire_String.wire_codec_axioms],
      rule rt_end[OF codec_FOMStringFixedRecordFieldList]) simp

definition writeFOMStringFixedRecordDataTypeList :: "FOMStringFixedRecordDataTypeList writer" where
  "writeFOMStringFixedRecordDataTypeList = write_vector writeFOMStringFixedRecordDataType"

definition readFOMStringFixedRecordDataTypeList :: "FOMStringFixedRecordDataTypeList reader" where
  "readFOMStringFixedRecordDataTypeList = read_vector readFOMStringFixedRecordDataType"

lemma codec_FOMStringFixedRecordDataTypeList: "wire_codec writeFOMStringFixedRecordDataTypeList
    readFOMStringFixedRecordDataTypeList"
  unfolding writeFOMStringFixedRecordDataTypeList_def readFOMStringFixedRecordDataTypeList_def by
      (rule wire_codec.vector[OF codec_FOMStringFixedRecordDataType])

definition writeFOMStringFixedRecordField2 :: "FOMStringFixedRecordField2 writer" where
  "writeFOMStringFixedRecordField2 v =
     writes [writeString (FOMStringFixedRecordField2_name v),
      writeString (FOMStringFixedRecordField2_dataType v),
      writeUnsigned (FOMStringFixedRecordField2_version v)]"

definition readFOMStringFixedRecordField2 :: "FOMStringFixedRecordField2 reader" where
  "readFOMStringFixedRecordField2 =
     dec_bind readString (\<lambda>name. dec_bind readString (\<lambda>dataType.
     dec_bind readUnsigned (\<lambda>version.
     dec_return \<lparr> FOMStringFixedRecordField2_name = name,
         FOMStringFixedRecordField2_dataType = dataType,
         FOMStringFixedRecordField2_version = version\<rparr>)))"

lemma codec_FOMStringFixedRecordField2: "wire_codec writeFOMStringFixedRecordField2
    readFOMStringFixedRecordField2"
  unfolding writeFOMStringFixedRecordField2_def readFOMStringFixedRecordField2_def writes.simps
  by (rule wire_codec.intro, rule rt_first[OF wire_String.wire_codec_axioms],
      rule rt_next[OF wire_String.wire_codec_axioms], rule rt_end[OF codec_Unsigned]) simp

definition writeFOMStringFixedRecordField2List :: "FOMStringFixedRecordField2List writer" where
  "writeFOMStringFixedRecordField2List = write_vector writeFOMStringFixedRecordField2"

definition readFOMStringFixedRecordField2List :: "FOMStringFixedRecordField2List reader" where
  "readFOMStringFixedRecordField2List = read_vector readFOMStringFixedRecordField2"

lemma codec_FOMStringFixedRecordField2List: "wire_codec writeFOMStringFixedRecordField2List
    readFOMStringFixedRecordField2List"
  unfolding writeFOMStringFixedRecordField2List_def readFOMStringFixedRecordField2List_def by (rule
      wire_codec.vector[OF codec_FOMStringFixedRecordField2])

definition writeFOMStringFixedRecordDataType2 :: "FOMStringFixedRecordDataType2 writer" where
  "writeFOMStringFixedRecordDataType2 v =
     writes [writeString (FOMStringFixedRecordDataType2_name v),
      writeString (FOMStringFixedRecordDataType2_encoding v),
      writeString (FOMStringFixedRecordDataType2_include v),
      writeUnsigned (FOMStringFixedRecordDataType2_version v),
      writeFOMStringFixedRecordField2List (FOMStringFixedRecordDataType2_fields v)]"

definition readFOMStringFixedRecordDataType2 :: "FOMStringFixedRecordDataType2 reader" where
  "readFOMStringFixedRecordDataType2 =
     dec_bind readString (\<lambda>name. dec_bind readString (\<lambda>encoding.
     dec_bind readString (\<lambda>include. dec_bind readUnsigned (\<lambda>version.
     dec_bind readFOMStringFixedRecordField2List (\<lambda>fields.
     dec_return \<lparr> FOMStringFixedRecordDataType2_name = name,
         FOMStringFixedRecordDataType2_encoding = encoding,
         FOMStringFixedRecordDataType2_include = include,
         FOMStringFixedRecordDataType2_version = version,
         FOMStringFixedRecordDataType2_fields = fields\<rparr>)))))"

lemma codec_FOMStringFixedRecordDataType2: "wire_codec writeFOMStringFixedRecordDataType2
    readFOMStringFixedRecordDataType2"
  unfolding writeFOMStringFixedRecordDataType2_def readFOMStringFixedRecordDataType2_def
      writes.simps
  by (rule wire_codec.intro, rule rt_first[OF wire_String.wire_codec_axioms],
      rule rt_next[OF wire_String.wire_codec_axioms],
      rule rt_next[OF wire_String.wire_codec_axioms], rule rt_next[OF codec_Unsigned],
      rule rt_end[OF codec_FOMStringFixedRecordField2List]) simp

definition writeFOMStringFixedRecordDataType2List :: "FOMStringFixedRecordDataType2List writer"
    where
  "writeFOMStringFixedRecordDataType2List = write_vector writeFOMStringFixedRecordDataType2"

definition readFOMStringFixedRecordDataType2List :: "FOMStringFixedRecordDataType2List reader" where
  "readFOMStringFixedRecordDataType2List = read_vector readFOMStringFixedRecordDataType2"

lemma codec_FOMStringFixedRecordDataType2List: "wire_codec writeFOMStringFixedRecordDataType2List
    readFOMStringFixedRecordDataType2List"
  unfolding writeFOMStringFixedRecordDataType2List_def readFOMStringFixedRecordDataType2List_def by
      (rule wire_codec.vector[OF codec_FOMStringFixedRecordDataType2])

definition writeFOMStringVariantRecordAlternative :: "FOMStringVariantRecordAlternative writer"
    where
  "writeFOMStringVariantRecordAlternative v =
     writes [writeString (FOMStringVariantRecordAlternative_enumerator v),
      writeString (FOMStringVariantRecordAlternative_name v),
      writeUnsigned (FOMStringVariantRecordAlternative_dataType v)]"

definition readFOMStringVariantRecordAlternative :: "FOMStringVariantRecordAlternative reader" where
  "readFOMStringVariantRecordAlternative =
     dec_bind readString (\<lambda>enumerator. dec_bind readString (\<lambda>name.
     dec_bind readUnsigned (\<lambda>dataType.
     dec_return \<lparr> FOMStringVariantRecordAlternative_enumerator = enumerator,
         FOMStringVariantRecordAlternative_name = name,
         FOMStringVariantRecordAlternative_dataType = dataType\<rparr>)))"

lemma codec_FOMStringVariantRecordAlternative: "wire_codec writeFOMStringVariantRecordAlternative
    readFOMStringVariantRecordAlternative"
  unfolding writeFOMStringVariantRecordAlternative_def readFOMStringVariantRecordAlternative_def
      writes.simps
  by (rule wire_codec.intro, rule rt_first[OF wire_String.wire_codec_axioms],
      rule rt_next[OF wire_String.wire_codec_axioms], rule rt_end[OF codec_Unsigned]) simp

definition writeFOMStringVariantRecordAlternativeList :: "FOMStringVariantRecordAlternativeList
    writer" where
  "writeFOMStringVariantRecordAlternativeList = write_vector writeFOMStringVariantRecordAlternative"

definition readFOMStringVariantRecordAlternativeList :: "FOMStringVariantRecordAlternativeList
    reader" where
  "readFOMStringVariantRecordAlternativeList = read_vector readFOMStringVariantRecordAlternative"

lemma codec_FOMStringVariantRecordAlternativeList: "wire_codec
    writeFOMStringVariantRecordAlternativeList readFOMStringVariantRecordAlternativeList"
  unfolding writeFOMStringVariantRecordAlternativeList_def
      readFOMStringVariantRecordAlternativeList_def by (rule wire_codec.vector[OF
      codec_FOMStringVariantRecordAlternative])

definition writeFOMStringVariantRecordDataType :: "FOMStringVariantRecordDataType writer" where
  "writeFOMStringVariantRecordDataType v =
     writes [writeString (FOMStringVariantRecordDataType_name v),
      writeString (FOMStringVariantRecordDataType_discriminant v),
      writeString (FOMStringVariantRecordDataType_dataType v),
      writeFOMStringVariantRecordAlternativeList (FOMStringVariantRecordDataType_alternatives v),
      writeString (FOMStringVariantRecordDataType_encoding v)]"

definition readFOMStringVariantRecordDataType :: "FOMStringVariantRecordDataType reader" where
  "readFOMStringVariantRecordDataType =
     dec_bind readString (\<lambda>name. dec_bind readString (\<lambda>discriminant.
     dec_bind readString (\<lambda>dataType.
     dec_bind readFOMStringVariantRecordAlternativeList (\<lambda>alternatives.
     dec_bind readString (\<lambda>encoding.
     dec_return \<lparr> FOMStringVariantRecordDataType_name = name,
         FOMStringVariantRecordDataType_discriminant = discriminant,
         FOMStringVariantRecordDataType_dataType = dataType,
         FOMStringVariantRecordDataType_alternatives = alternatives,
         FOMStringVariantRecordDataType_encoding = encoding\<rparr>)))))"

lemma codec_FOMStringVariantRecordDataType: "wire_codec writeFOMStringVariantRecordDataType
    readFOMStringVariantRecordDataType"
  unfolding writeFOMStringVariantRecordDataType_def readFOMStringVariantRecordDataType_def
      writes.simps
  by (rule wire_codec.intro, rule rt_first[OF wire_String.wire_codec_axioms],
      rule rt_next[OF wire_String.wire_codec_axioms],
      rule rt_next[OF wire_String.wire_codec_axioms],
      rule rt_next[OF codec_FOMStringVariantRecordAlternativeList],
      rule rt_end[OF wire_String.wire_codec_axioms]) simp

definition writeFOMStringVariantRecordDataTypeList :: "FOMStringVariantRecordDataTypeList writer"
    where
  "writeFOMStringVariantRecordDataTypeList = write_vector writeFOMStringVariantRecordDataType"

definition readFOMStringVariantRecordDataTypeList :: "FOMStringVariantRecordDataTypeList reader"
    where
  "readFOMStringVariantRecordDataTypeList = read_vector readFOMStringVariantRecordDataType"

lemma codec_FOMStringVariantRecordDataTypeList: "wire_codec writeFOMStringVariantRecordDataTypeList
    readFOMStringVariantRecordDataTypeList"
  unfolding writeFOMStringVariantRecordDataTypeList_def readFOMStringVariantRecordDataTypeList_def
      by (rule wire_codec.vector[OF codec_FOMStringVariantRecordDataType])

definition writeFOMStringVariantRecordAlternative2 :: "FOMStringVariantRecordAlternative2 writer"
    where
  "writeFOMStringVariantRecordAlternative2 v =
     writes [writeString (FOMStringVariantRecordAlternative2_enumerator v),
      writeString (FOMStringVariantRecordAlternative2_name v),
      writeString (FOMStringVariantRecordAlternative2_dataType v)]"

definition readFOMStringVariantRecordAlternative2 :: "FOMStringVariantRecordAlternative2 reader"
    where
  "readFOMStringVariantRecordAlternative2 =
     dec_bind readString (\<lambda>enumerator. dec_bind readString (\<lambda>name.
     dec_bind readString (\<lambda>dataType.
     dec_return \<lparr> FOMStringVariantRecordAlternative2_enumerator = enumerator,
         FOMStringVariantRecordAlternative2_name = name,
         FOMStringVariantRecordAlternative2_dataType = dataType\<rparr>)))"

lemma codec_FOMStringVariantRecordAlternative2: "wire_codec writeFOMStringVariantRecordAlternative2
    readFOMStringVariantRecordAlternative2"
  unfolding writeFOMStringVariantRecordAlternative2_def readFOMStringVariantRecordAlternative2_def
      writes.simps
  by (rule wire_codec.intro, rule rt_first[OF wire_String.wire_codec_axioms],
      rule rt_next[OF wire_String.wire_codec_axioms],
      rule rt_end[OF wire_String.wire_codec_axioms]) simp

definition writeFOMStringVariantRecordAlternative2List :: "FOMStringVariantRecordAlternative2List
    writer" where
  "writeFOMStringVariantRecordAlternative2List = write_vector
      writeFOMStringVariantRecordAlternative2"

definition readFOMStringVariantRecordAlternative2List :: "FOMStringVariantRecordAlternative2List
    reader" where
  "readFOMStringVariantRecordAlternative2List = read_vector readFOMStringVariantRecordAlternative2"

lemma codec_FOMStringVariantRecordAlternative2List: "wire_codec
    writeFOMStringVariantRecordAlternative2List readFOMStringVariantRecordAlternative2List"
  unfolding writeFOMStringVariantRecordAlternative2List_def
      readFOMStringVariantRecordAlternative2List_def by (rule wire_codec.vector[OF
      codec_FOMStringVariantRecordAlternative2])

definition writeFOMStringVariantRecordDataType2 :: "FOMStringVariantRecordDataType2 writer" where
  "writeFOMStringVariantRecordDataType2 v =
     writes [writeString (FOMStringVariantRecordDataType2_name v),
      writeString (FOMStringVariantRecordDataType2_discriminant v),
      writeString (FOMStringVariantRecordDataType2_dataType v),
      writeFOMStringVariantRecordAlternative2List (FOMStringVariantRecordDataType2_alternatives v),
      writeString (FOMStringVariantRecordDataType2_encoding v)]"

definition readFOMStringVariantRecordDataType2 :: "FOMStringVariantRecordDataType2 reader" where
  "readFOMStringVariantRecordDataType2 =
     dec_bind readString (\<lambda>name. dec_bind readString (\<lambda>discriminant.
     dec_bind readString (\<lambda>dataType.
     dec_bind readFOMStringVariantRecordAlternative2List (\<lambda>alternatives.
     dec_bind readString (\<lambda>encoding.
     dec_return \<lparr> FOMStringVariantRecordDataType2_name = name,
         FOMStringVariantRecordDataType2_discriminant = discriminant,
         FOMStringVariantRecordDataType2_dataType = dataType,
         FOMStringVariantRecordDataType2_alternatives = alternatives,
         FOMStringVariantRecordDataType2_encoding = encoding\<rparr>)))))"

lemma codec_FOMStringVariantRecordDataType2: "wire_codec writeFOMStringVariantRecordDataType2
    readFOMStringVariantRecordDataType2"
  unfolding writeFOMStringVariantRecordDataType2_def readFOMStringVariantRecordDataType2_def
      writes.simps
  by (rule wire_codec.intro, rule rt_first[OF wire_String.wire_codec_axioms],
      rule rt_next[OF wire_String.wire_codec_axioms],
      rule rt_next[OF wire_String.wire_codec_axioms],
      rule rt_next[OF codec_FOMStringVariantRecordAlternative2List],
      rule rt_end[OF wire_String.wire_codec_axioms]) simp

definition writeFOMStringVariantRecordDataType2List :: "FOMStringVariantRecordDataType2List writer"
    where
  "writeFOMStringVariantRecordDataType2List = write_vector writeFOMStringVariantRecordDataType2"

definition readFOMStringVariantRecordDataType2List :: "FOMStringVariantRecordDataType2List reader"
    where
  "readFOMStringVariantRecordDataType2List = read_vector readFOMStringVariantRecordDataType2"

lemma codec_FOMStringVariantRecordDataType2List: "wire_codec
    writeFOMStringVariantRecordDataType2List readFOMStringVariantRecordDataType2List"
  unfolding writeFOMStringVariantRecordDataType2List_def
      readFOMStringVariantRecordDataType2List_def by (rule wire_codec.vector[OF
      codec_FOMStringVariantRecordDataType2])

definition writeFOMStringTransportationType :: "FOMStringTransportationType writer" where
  "writeFOMStringTransportationType v =
     writeString (FOMStringTransportationType_name v)"

definition readFOMStringTransportationType :: "FOMStringTransportationType reader" where
  "readFOMStringTransportationType =
     dec_bind readString (\<lambda>name.
     dec_return \<lparr> FOMStringTransportationType_name = name\<rparr>)"

lemma codec_FOMStringTransportationType: "wire_codec writeFOMStringTransportationType
    readFOMStringTransportationType"
  unfolding writeFOMStringTransportationType_def readFOMStringTransportationType_def writes.simps
  by (rule wire_codec.intro, rule rt_single[OF wire_String.wire_codec_axioms]) simp

definition writeFOMStringTransportationTypeList :: "FOMStringTransportationTypeList writer" where
  "writeFOMStringTransportationTypeList = write_vector writeFOMStringTransportationType"

definition readFOMStringTransportationTypeList :: "FOMStringTransportationTypeList reader" where
  "readFOMStringTransportationTypeList = read_vector readFOMStringTransportationType"

lemma codec_FOMStringTransportationTypeList: "wire_codec writeFOMStringTransportationTypeList
    readFOMStringTransportationTypeList"
  unfolding writeFOMStringTransportationTypeList_def readFOMStringTransportationTypeList_def by
      (rule wire_codec.vector[OF codec_FOMStringTransportationType])

definition writeFOMStringDimension :: "FOMStringDimension writer" where
  "writeFOMStringDimension v =
     writes [writeString (FOMStringDimension_name v),
      writeUnsigned (FOMStringDimension_upperBound v)]"

definition readFOMStringDimension :: "FOMStringDimension reader" where
  "readFOMStringDimension =
     dec_bind readString (\<lambda>name. dec_bind readUnsigned (\<lambda>upperBound.
     dec_return \<lparr> FOMStringDimension_name = name,
         FOMStringDimension_upperBound = upperBound\<rparr>))"

lemma codec_FOMStringDimension: "wire_codec writeFOMStringDimension readFOMStringDimension"
  unfolding writeFOMStringDimension_def readFOMStringDimension_def writes.simps
  by (rule wire_codec.intro, rule rt_first[OF wire_String.wire_codec_axioms],
      rule rt_end[OF codec_Unsigned]) simp

definition writeFOMStringDimensionList :: "FOMStringDimensionList writer" where
  "writeFOMStringDimensionList = write_vector writeFOMStringDimension"

definition readFOMStringDimensionList :: "FOMStringDimensionList reader" where
  "readFOMStringDimensionList = read_vector readFOMStringDimension"

lemma codec_FOMStringDimensionList: "wire_codec writeFOMStringDimensionList
    readFOMStringDimensionList"
  unfolding writeFOMStringDimensionList_def readFOMStringDimensionList_def by (rule
      wire_codec.vector[OF codec_FOMStringDimension])

definition writeFOMStringRoutingSpace :: "FOMStringRoutingSpace writer" where
  "writeFOMStringRoutingSpace v =
     writes [writeString (FOMStringRoutingSpace_name v),
      writeStringSet (FOMStringRoutingSpace_dimensionSet v)]"

definition readFOMStringRoutingSpace :: "FOMStringRoutingSpace reader" where
  "readFOMStringRoutingSpace =
     dec_bind readString (\<lambda>name. dec_bind readStringSet (\<lambda>dimensionSet.
     dec_return \<lparr> FOMStringRoutingSpace_name = name,
         FOMStringRoutingSpace_dimensionSet = dimensionSet\<rparr>))"

lemma codec_FOMStringRoutingSpace: "wire_codec writeFOMStringRoutingSpace readFOMStringRoutingSpace"
  unfolding writeFOMStringRoutingSpace_def readFOMStringRoutingSpace_def writes.simps
  by (rule wire_codec.intro, rule rt_first[OF wire_String.wire_codec_axioms],
      rule rt_end[OF codec_StringSet]) simp

definition writeFOMStringRoutingSpaceList :: "FOMStringRoutingSpaceList writer" where
  "writeFOMStringRoutingSpaceList = write_vector writeFOMStringRoutingSpace"

definition readFOMStringRoutingSpaceList :: "FOMStringRoutingSpaceList reader" where
  "readFOMStringRoutingSpaceList = read_vector readFOMStringRoutingSpace"

lemma codec_FOMStringRoutingSpaceList: "wire_codec writeFOMStringRoutingSpaceList
    readFOMStringRoutingSpaceList"
  unfolding writeFOMStringRoutingSpaceList_def readFOMStringRoutingSpaceList_def by (rule
      wire_codec.vector[OF codec_FOMStringRoutingSpace])

definition writeFOMStringParameter :: "FOMStringParameter writer" where
  "writeFOMStringParameter v =
     writes [writeString (FOMStringParameter_name v), writeString (FOMStringParameter_dataType v)]"

definition readFOMStringParameter :: "FOMStringParameter reader" where
  "readFOMStringParameter =
     dec_bind readString (\<lambda>name. dec_bind readString (\<lambda>dataType.
     dec_return \<lparr> FOMStringParameter_name = name, FOMStringParameter_dataType =
         dataType\<rparr>))"

lemma codec_FOMStringParameter: "wire_codec writeFOMStringParameter readFOMStringParameter"
  unfolding writeFOMStringParameter_def readFOMStringParameter_def writes.simps
  by (rule wire_codec.intro, rule rt_first[OF wire_String.wire_codec_axioms],
      rule rt_end[OF wire_String.wire_codec_axioms]) simp

definition writeFOMStringParameterList :: "FOMStringParameterList writer" where
  "writeFOMStringParameterList = write_vector writeFOMStringParameter"

definition readFOMStringParameterList :: "FOMStringParameterList reader" where
  "readFOMStringParameterList = read_vector readFOMStringParameter"

lemma codec_FOMStringParameterList: "wire_codec writeFOMStringParameterList
    readFOMStringParameterList"
  unfolding writeFOMStringParameterList_def readFOMStringParameterList_def by (rule
      wire_codec.vector[OF codec_FOMStringParameter])

definition writeFOMStringInteractionClass :: "FOMStringInteractionClass writer" where
  "writeFOMStringInteractionClass v =
     writes [writeStringVector (FOMStringInteractionClass_name v),
      writeString (FOMStringInteractionClass_orderType v),
      writeString (FOMStringInteractionClass_transportationType v),
      writeString (FOMStringInteractionClass_routingSpace v),
      writeStringSet (FOMStringInteractionClass_dimensionSet v),
      writeFOMStringParameterList (FOMStringInteractionClass_parameterList v)]"

definition readFOMStringInteractionClass :: "FOMStringInteractionClass reader" where
  "readFOMStringInteractionClass =
     dec_bind readStringVector (\<lambda>name. dec_bind readString (\<lambda>orderType.
     dec_bind readString (\<lambda>transportationType. dec_bind readString (\<lambda>routingSpace.
     dec_bind readStringSet (\<lambda>dimensionSet.
     dec_bind readFOMStringParameterList (\<lambda>parameterList.
     dec_return \<lparr> FOMStringInteractionClass_name = name,
         FOMStringInteractionClass_orderType = orderType,
         FOMStringInteractionClass_transportationType = transportationType,
         FOMStringInteractionClass_routingSpace = routingSpace,
         FOMStringInteractionClass_dimensionSet = dimensionSet,
         FOMStringInteractionClass_parameterList = parameterList\<rparr>))))))"

lemma codec_FOMStringInteractionClass: "wire_codec writeFOMStringInteractionClass
    readFOMStringInteractionClass"
  unfolding writeFOMStringInteractionClass_def readFOMStringInteractionClass_def writes.simps
  by (rule wire_codec.intro, rule rt_first[OF codec_StringVector],
      rule rt_next[OF wire_String.wire_codec_axioms],
      rule rt_next[OF wire_String.wire_codec_axioms],
      rule rt_next[OF wire_String.wire_codec_axioms], rule rt_next[OF codec_StringSet],
      rule rt_end[OF codec_FOMStringParameterList]) simp

definition writeFOMStringInteractionClassList :: "FOMStringInteractionClassList writer" where
  "writeFOMStringInteractionClassList = write_vector writeFOMStringInteractionClass"

definition readFOMStringInteractionClassList :: "FOMStringInteractionClassList reader" where
  "readFOMStringInteractionClassList = read_vector readFOMStringInteractionClass"

lemma codec_FOMStringInteractionClassList: "wire_codec writeFOMStringInteractionClassList
    readFOMStringInteractionClassList"
  unfolding writeFOMStringInteractionClassList_def readFOMStringInteractionClassList_def by (rule
      wire_codec.vector[OF codec_FOMStringInteractionClass])

definition writeFOMStringAttribute :: "FOMStringAttribute writer" where
  "writeFOMStringAttribute v =
     writes [writeString (FOMStringAttribute_name v), writeString (FOMStringAttribute_dataType v),
      writeString (FOMStringAttribute_orderType v),
      writeString (FOMStringAttribute_transportationType v),
      writeString (FOMStringAttribute_routingSpace v),
      writeStringSet (FOMStringAttribute_dimensionSet v)]"

definition readFOMStringAttribute :: "FOMStringAttribute reader" where
  "readFOMStringAttribute =
     dec_bind readString (\<lambda>name. dec_bind readString (\<lambda>dataType.
     dec_bind readString (\<lambda>orderType. dec_bind readString (\<lambda>transportationType.
     dec_bind readString (\<lambda>routingSpace. dec_bind readStringSet (\<lambda>dimensionSet.
     dec_return \<lparr> FOMStringAttribute_name = name, FOMStringAttribute_dataType = dataType,
         FOMStringAttribute_orderType = orderType,
         FOMStringAttribute_transportationType = transportationType,
         FOMStringAttribute_routingSpace = routingSpace,
         FOMStringAttribute_dimensionSet = dimensionSet\<rparr>))))))"

lemma codec_FOMStringAttribute: "wire_codec writeFOMStringAttribute readFOMStringAttribute"
  unfolding writeFOMStringAttribute_def readFOMStringAttribute_def writes.simps
  by (rule wire_codec.intro, rule rt_first[OF wire_String.wire_codec_axioms],
      rule rt_next[OF wire_String.wire_codec_axioms],
      rule rt_next[OF wire_String.wire_codec_axioms],
      rule rt_next[OF wire_String.wire_codec_axioms],
      rule rt_next[OF wire_String.wire_codec_axioms], rule rt_end[OF codec_StringSet]) simp

definition writeFOMStringAttributeList :: "FOMStringAttributeList writer" where
  "writeFOMStringAttributeList = write_vector writeFOMStringAttribute"

definition readFOMStringAttributeList :: "FOMStringAttributeList reader" where
  "readFOMStringAttributeList = read_vector readFOMStringAttribute"

lemma codec_FOMStringAttributeList: "wire_codec writeFOMStringAttributeList
    readFOMStringAttributeList"
  unfolding writeFOMStringAttributeList_def readFOMStringAttributeList_def by (rule
      wire_codec.vector[OF codec_FOMStringAttribute])

definition writeFOMStringObjectClass :: "FOMStringObjectClass writer" where
  "writeFOMStringObjectClass v =
     writes [writeStringVector (FOMStringObjectClass_name v),
      writeFOMStringAttributeList (FOMStringObjectClass_attributeList v)]"

definition readFOMStringObjectClass :: "FOMStringObjectClass reader" where
  "readFOMStringObjectClass =
     dec_bind readStringVector (\<lambda>name.
     dec_bind readFOMStringAttributeList (\<lambda>attributeList.
     dec_return \<lparr> FOMStringObjectClass_name = name,
         FOMStringObjectClass_attributeList = attributeList\<rparr>))"

lemma codec_FOMStringObjectClass: "wire_codec writeFOMStringObjectClass readFOMStringObjectClass"
  unfolding writeFOMStringObjectClass_def readFOMStringObjectClass_def writes.simps
  by (rule wire_codec.intro, rule rt_first[OF codec_StringVector],
      rule rt_end[OF codec_FOMStringAttributeList]) simp

definition writeFOMStringObjectClassList :: "FOMStringObjectClassList writer" where
  "writeFOMStringObjectClassList = write_vector writeFOMStringObjectClass"

definition readFOMStringObjectClassList :: "FOMStringObjectClassList reader" where
  "readFOMStringObjectClassList = read_vector readFOMStringObjectClass"

lemma codec_FOMStringObjectClassList: "wire_codec writeFOMStringObjectClassList
    readFOMStringObjectClassList"
  unfolding writeFOMStringObjectClassList_def readFOMStringObjectClassList_def by (rule
      wire_codec.vector[OF codec_FOMStringObjectClass])

definition writeFOMStringUpdateRate :: "FOMStringUpdateRate writer" where
  "writeFOMStringUpdateRate v =
     writes [writeString (FOMStringUpdateRate_name v), writeDouble (FOMStringUpdateRate_rate v)]"

definition readFOMStringUpdateRate :: "FOMStringUpdateRate reader" where
  "readFOMStringUpdateRate =
     dec_bind readString (\<lambda>name. dec_bind readDouble (\<lambda>rate.
     dec_return \<lparr> FOMStringUpdateRate_name = name, FOMStringUpdateRate_rate = rate\<rparr>))"

lemma codec_FOMStringUpdateRate: "wire_codec writeFOMStringUpdateRate readFOMStringUpdateRate"
  unfolding writeFOMStringUpdateRate_def readFOMStringUpdateRate_def writes.simps
  by (rule wire_codec.intro, rule rt_first[OF wire_String.wire_codec_axioms],
      rule rt_end[OF wire_Double.wire_codec_axioms]) simp

definition writeFOMStringUpdateRateList :: "FOMStringUpdateRateList writer" where
  "writeFOMStringUpdateRateList = write_vector writeFOMStringUpdateRate"

definition readFOMStringUpdateRateList :: "FOMStringUpdateRateList reader" where
  "readFOMStringUpdateRateList = read_vector readFOMStringUpdateRate"

lemma codec_FOMStringUpdateRateList: "wire_codec writeFOMStringUpdateRateList
    readFOMStringUpdateRateList"
  unfolding writeFOMStringUpdateRateList_def readFOMStringUpdateRateList_def by (rule
      wire_codec.vector[OF codec_FOMStringUpdateRate])

definition writeFOMStringSwitch :: "FOMStringSwitch writer" where
  "writeFOMStringSwitch v =
     writes [writeSwitchesType (FOMStringSwitch_switchesType v),
      writeBool (FOMStringSwitch_enabled v)]"

definition readFOMStringSwitch :: "FOMStringSwitch reader" where
  "readFOMStringSwitch =
     dec_bind readSwitchesType (\<lambda>switchesType. dec_bind readBool (\<lambda>enabled.
     dec_return \<lparr> FOMStringSwitch_switchesType = switchesType,
         FOMStringSwitch_enabled = enabled\<rparr>))"

lemma codec_FOMStringSwitch: "wire_codec writeFOMStringSwitch readFOMStringSwitch"
  unfolding writeFOMStringSwitch_def readFOMStringSwitch_def writes.simps
  by (rule wire_codec.intro, rule rt_first[OF codec_SwitchesType],
      rule rt_end[OF wire_Bool.wire_codec_axioms]) simp

definition writeFOMStringSwitchList :: "FOMStringSwitchList writer" where
  "writeFOMStringSwitchList = write_vector writeFOMStringSwitch"

definition readFOMStringSwitchList :: "FOMStringSwitchList reader" where
  "readFOMStringSwitchList = read_vector readFOMStringSwitch"

lemma codec_FOMStringSwitchList: "wire_codec writeFOMStringSwitchList readFOMStringSwitchList"
  unfolding writeFOMStringSwitchList_def readFOMStringSwitchList_def by (rule wire_codec.vector[OF
      codec_FOMStringSwitch])

definition writeFOMStringModule :: "FOMStringModule writer" where
  "writeFOMStringModule v =
     writes [writeString (FOMStringModule_designator v),
      writeFOMStringTransportationTypeList (FOMStringModule_transportationTypeList v),
      writeFOMStringDimensionList (FOMStringModule_dimensionList v),
      writeFOMStringRoutingSpaceList (FOMStringModule_routingSpaceList v),
      writeFOMStringInteractionClassList (FOMStringModule_interactionClassList v),
      writeFOMStringObjectClassList (FOMStringModule_objectClassList v),
      writeFOMStringUpdateRateList (FOMStringModule_updateRateList v),
      writeFOMStringSwitchList (FOMStringModule_switchList v),
      writeFOMStringSimpleDataTypeList (FOMStringModule_simpleDataTypeList v),
      writeFOMStringEnumeratedDataTypeList (FOMStringModule_enumeratedDataTypeList v),
      writeFOMStringArrayDataTypeList (FOMStringModule_arrayDataTypeList v),
      writeFOMStringFixedRecordDataTypeList (FOMStringModule_fixedRecordDataTypeList v),
      writeFOMStringVariantRecordDataTypeList (FOMStringModule_variantRecordDataTypeList v),
      writeBool (FOMStringModule_artificialInteractionRoot v),
      writeBool (FOMStringModule_artificialObjectRoot v)]"

definition readFOMStringModule :: "FOMStringModule reader" where
  "readFOMStringModule =
     dec_bind readString (\<lambda>designator.
     dec_bind readFOMStringTransportationTypeList (\<lambda>transportationTypeList.
     dec_bind readFOMStringDimensionList (\<lambda>dimensionList.
     dec_bind readFOMStringRoutingSpaceList (\<lambda>routingSpaceList.
     dec_bind readFOMStringInteractionClassList (\<lambda>interactionClassList.
     dec_bind readFOMStringObjectClassList (\<lambda>objectClassList.
     dec_bind readFOMStringUpdateRateList (\<lambda>updateRateList.
     dec_bind readFOMStringSwitchList (\<lambda>switchList.
     dec_bind readFOMStringSimpleDataTypeList (\<lambda>simpleDataTypeList.
     dec_bind readFOMStringEnumeratedDataTypeList (\<lambda>enumeratedDataTypeList.
     dec_bind readFOMStringArrayDataTypeList (\<lambda>arrayDataTypeList.
     dec_bind readFOMStringFixedRecordDataTypeList (\<lambda>fixedRecordDataTypeList.
     dec_bind readFOMStringVariantRecordDataTypeList (\<lambda>variantRecordDataTypeList.
     dec_bind readBool (\<lambda>artificialInteractionRoot.
     dec_bind readBool (\<lambda>artificialObjectRoot.
     dec_return \<lparr> FOMStringModule_designator = designator,
         FOMStringModule_transportationTypeList = transportationTypeList,
         FOMStringModule_dimensionList = dimensionList,
         FOMStringModule_routingSpaceList = routingSpaceList,
         FOMStringModule_interactionClassList = interactionClassList,
         FOMStringModule_objectClassList = objectClassList,
         FOMStringModule_updateRateList = updateRateList, FOMStringModule_switchList = switchList,
         FOMStringModule_simpleDataTypeList = simpleDataTypeList,
         FOMStringModule_enumeratedDataTypeList = enumeratedDataTypeList,
         FOMStringModule_arrayDataTypeList = arrayDataTypeList,
         FOMStringModule_fixedRecordDataTypeList = fixedRecordDataTypeList,
         FOMStringModule_variantRecordDataTypeList = variantRecordDataTypeList,
         FOMStringModule_artificialInteractionRoot = artificialInteractionRoot,
         FOMStringModule_artificialObjectRoot = artificialObjectRoot\<rparr>)))))))))))))))"

lemma codec_FOMStringModule: "wire_codec writeFOMStringModule readFOMStringModule"
  unfolding writeFOMStringModule_def readFOMStringModule_def writes.simps
  by (rule wire_codec.intro, rule rt_first[OF wire_String.wire_codec_axioms],
      rule rt_next[OF codec_FOMStringTransportationTypeList],
      rule rt_next[OF codec_FOMStringDimensionList],
      rule rt_next[OF codec_FOMStringRoutingSpaceList],
      rule rt_next[OF codec_FOMStringInteractionClassList],
      rule rt_next[OF codec_FOMStringObjectClassList],
      rule rt_next[OF codec_FOMStringUpdateRateList], rule rt_next[OF codec_FOMStringSwitchList],
      rule rt_next[OF codec_FOMStringSimpleDataTypeList],
      rule rt_next[OF codec_FOMStringEnumeratedDataTypeList],
      rule rt_next[OF codec_FOMStringArrayDataTypeList],
      rule rt_next[OF codec_FOMStringFixedRecordDataTypeList],
      rule rt_next[OF codec_FOMStringVariantRecordDataTypeList],
      rule rt_next[OF wire_Bool.wire_codec_axioms], rule rt_end[OF wire_Bool.wire_codec_axioms])
          simp

definition writeFOMStringModuleList :: "FOMStringModuleList writer" where
  "writeFOMStringModuleList = write_vector writeFOMStringModule"

definition readFOMStringModuleList :: "FOMStringModuleList reader" where
  "readFOMStringModuleList = read_vector readFOMStringModule"

lemma codec_FOMStringModuleList: "wire_codec writeFOMStringModuleList readFOMStringModuleList"
  unfolding writeFOMStringModuleList_def readFOMStringModuleList_def by (rule wire_codec.vector[OF
      codec_FOMStringModule])

definition writeFOMStringModule2 :: "FOMStringModule2 writer" where
  "writeFOMStringModule2 v =
     writes [writeString (FOMStringModule2_designator v),
      writeFOMStringTransportationTypeList (FOMStringModule2_transportationTypeList v),
      writeFOMStringDimensionList (FOMStringModule2_dimensionList v),
      writeFOMStringRoutingSpaceList (FOMStringModule2_routingSpaceList v),
      writeFOMStringInteractionClassList (FOMStringModule2_interactionClassList v),
      writeFOMStringObjectClassList (FOMStringModule2_objectClassList v),
      writeFOMStringUpdateRateList (FOMStringModule2_updateRateList v),
      writeFOMStringSwitchList (FOMStringModule2_switchList v),
      writeFOMStringBasicDataTypeList (FOMStringModule2_basicDataTypeList v),
      writeFOMStringSimpleDataTypeList (FOMStringModule2_simpleDataTypeList v),
      writeFOMStringEnumeratedDataTypeList (FOMStringModule2_enumeratedDataTypeList v),
      writeFOMStringArrayDataType2List (FOMStringModule2_arrayDataTypeList v),
      writeFOMStringFixedRecordDataType2List (FOMStringModule2_fixedRecordDataTypeList v),
      writeFOMStringVariantRecordDataType2List (FOMStringModule2_variantRecordDataTypeList v),
      writeBool (FOMStringModule2_artificialInteractionRoot v),
      writeBool (FOMStringModule2_artificialObjectRoot v)]"

definition readFOMStringModule2 :: "FOMStringModule2 reader" where
  "readFOMStringModule2 =
     dec_bind readString (\<lambda>designator.
     dec_bind readFOMStringTransportationTypeList (\<lambda>transportationTypeList.
     dec_bind readFOMStringDimensionList (\<lambda>dimensionList.
     dec_bind readFOMStringRoutingSpaceList (\<lambda>routingSpaceList.
     dec_bind readFOMStringInteractionClassList (\<lambda>interactionClassList.
     dec_bind readFOMStringObjectClassList (\<lambda>objectClassList.
     dec_bind readFOMStringUpdateRateList (\<lambda>updateRateList.
     dec_bind readFOMStringSwitchList (\<lambda>switchList.
     dec_bind readFOMStringBasicDataTypeList (\<lambda>basicDataTypeList.
     dec_bind readFOMStringSimpleDataTypeList (\<lambda>simpleDataTypeList.
     dec_bind readFOMStringEnumeratedDataTypeList (\<lambda>enumeratedDataTypeList.
     dec_bind readFOMStringArrayDataType2List (\<lambda>arrayDataTypeList.
     dec_bind readFOMStringFixedRecordDataType2List (\<lambda>fixedRecordDataTypeList.
     dec_bind readFOMStringVariantRecordDataType2List (\<lambda>variantRecordDataTypeList.
     dec_bind readBool (\<lambda>artificialInteractionRoot.
     dec_bind readBool (\<lambda>artificialObjectRoot.
     dec_return \<lparr> FOMStringModule2_designator = designator,
         FOMStringModule2_transportationTypeList = transportationTypeList,
         FOMStringModule2_dimensionList = dimensionList,
         FOMStringModule2_routingSpaceList = routingSpaceList,
         FOMStringModule2_interactionClassList = interactionClassList,
         FOMStringModule2_objectClassList = objectClassList,
         FOMStringModule2_updateRateList = updateRateList,
         FOMStringModule2_switchList = switchList,
         FOMStringModule2_basicDataTypeList = basicDataTypeList,
         FOMStringModule2_simpleDataTypeList = simpleDataTypeList,
         FOMStringModule2_enumeratedDataTypeList = enumeratedDataTypeList,
         FOMStringModule2_arrayDataTypeList = arrayDataTypeList,
         FOMStringModule2_fixedRecordDataTypeList = fixedRecordDataTypeList,
         FOMStringModule2_variantRecordDataTypeList = variantRecordDataTypeList,
         FOMStringModule2_artificialInteractionRoot = artificialInteractionRoot,
         FOMStringModule2_artificialObjectRoot = artificialObjectRoot\<rparr>))))))))))))))))"

lemma codec_FOMStringModule2: "wire_codec writeFOMStringModule2 readFOMStringModule2"
  unfolding writeFOMStringModule2_def readFOMStringModule2_def writes.simps
  by (rule wire_codec.intro, rule rt_first[OF wire_String.wire_codec_axioms],
      rule rt_next[OF codec_FOMStringTransportationTypeList],
      rule rt_next[OF codec_FOMStringDimensionList],
      rule rt_next[OF codec_FOMStringRoutingSpaceList],
      rule rt_next[OF codec_FOMStringInteractionClassList],
      rule rt_next[OF codec_FOMStringObjectClassList],
      rule rt_next[OF codec_FOMStringUpdateRateList], rule rt_next[OF codec_FOMStringSwitchList],
      rule rt_next[OF codec_FOMStringBasicDataTypeList],
      rule rt_next[OF codec_FOMStringSimpleDataTypeList],
      rule rt_next[OF codec_FOMStringEnumeratedDataTypeList],
      rule rt_next[OF codec_FOMStringArrayDataType2List],
      rule rt_next[OF codec_FOMStringFixedRecordDataType2List],
      rule rt_next[OF codec_FOMStringVariantRecordDataType2List],
      rule rt_next[OF wire_Bool.wire_codec_axioms], rule rt_end[OF wire_Bool.wire_codec_axioms])
          simp

definition writeFOMStringModule2List :: "FOMStringModule2List writer" where
  "writeFOMStringModule2List = write_vector writeFOMStringModule2"

definition readFOMStringModule2List :: "FOMStringModule2List reader" where
  "readFOMStringModule2List = read_vector readFOMStringModule2"

lemma codec_FOMStringModule2List: "wire_codec writeFOMStringModule2List readFOMStringModule2List"
  unfolding writeFOMStringModule2List_def readFOMStringModule2List_def by (rule
      wire_codec.vector[OF codec_FOMStringModule2])

definition writeFOMTransportationType :: "FOMTransportationType writer" where
  "writeFOMTransportationType v =
     writes [writeString (FOMTransportationType_name v),
      writeTransportationType (FOMTransportationType_transportationType v)]"

definition readFOMTransportationType :: "FOMTransportationType reader" where
  "readFOMTransportationType =
     dec_bind readString (\<lambda>name.
     dec_bind readTransportationType (\<lambda>transportationType.
     dec_return \<lparr> FOMTransportationType_name = name,
         FOMTransportationType_transportationType = transportationType\<rparr>))"

lemma codec_FOMTransportationType: "wire_codec writeFOMTransportationType readFOMTransportationType"
  unfolding writeFOMTransportationType_def readFOMTransportationType_def writes.simps
  by (rule wire_codec.intro, rule rt_first[OF wire_String.wire_codec_axioms],
      rule rt_end[OF codec_TransportationType]) simp

definition writeFOMTransportationTypeList :: "FOMTransportationTypeList writer" where
  "writeFOMTransportationTypeList = write_vector writeFOMTransportationType"

definition readFOMTransportationTypeList :: "FOMTransportationTypeList reader" where
  "readFOMTransportationTypeList = read_vector readFOMTransportationType"

lemma codec_FOMTransportationTypeList: "wire_codec writeFOMTransportationTypeList
    readFOMTransportationTypeList"
  unfolding writeFOMTransportationTypeList_def readFOMTransportationTypeList_def by (rule
      wire_codec.vector[OF codec_FOMTransportationType])

definition writeFOMDimension :: "FOMDimension writer" where
  "writeFOMDimension v =
     writes [writeString (FOMDimension_name v),
      writeDimensionHandle (FOMDimension_dimensionHandle v),
      writeUnsigned (FOMDimension_upperBound v)]"

definition readFOMDimension :: "FOMDimension reader" where
  "readFOMDimension =
     dec_bind readString (\<lambda>name. dec_bind readDimensionHandle (\<lambda>dimensionHandle.
     dec_bind readUnsigned (\<lambda>upperBound.
     dec_return \<lparr> FOMDimension_name = name, FOMDimension_dimensionHandle = dimensionHandle,
         FOMDimension_upperBound = upperBound\<rparr>)))"

lemma codec_FOMDimension: "wire_codec writeFOMDimension readFOMDimension"
  unfolding writeFOMDimension_def readFOMDimension_def writes.simps
  by (rule wire_codec.intro, rule rt_first[OF wire_String.wire_codec_axioms],
      rule rt_next[OF codec_DimensionHandle], rule rt_end[OF codec_Unsigned]) simp

definition writeFOMDimensionList :: "FOMDimensionList writer" where
  "writeFOMDimensionList = write_vector writeFOMDimension"

definition readFOMDimensionList :: "FOMDimensionList reader" where
  "readFOMDimensionList = read_vector readFOMDimension"

lemma codec_FOMDimensionList: "wire_codec writeFOMDimensionList readFOMDimensionList"
  unfolding writeFOMDimensionList_def readFOMDimensionList_def by (rule wire_codec.vector[OF
      codec_FOMDimension])

definition writeFOMRoutingSpace :: "FOMRoutingSpace writer" where
  "writeFOMRoutingSpace v =
     writes [writeString (FOMRoutingSpace_name v),
      writeSpaceHandle (FOMRoutingSpace_spaceHandle v),
      writeDimensionHandleSet (FOMRoutingSpace_dimensionHandleSet v)]"

definition readFOMRoutingSpace :: "FOMRoutingSpace reader" where
  "readFOMRoutingSpace =
     dec_bind readString (\<lambda>name. dec_bind readSpaceHandle (\<lambda>spaceHandle.
     dec_bind readDimensionHandleSet (\<lambda>dimensionHandleSet.
     dec_return \<lparr> FOMRoutingSpace_name = name, FOMRoutingSpace_spaceHandle = spaceHandle,
         FOMRoutingSpace_dimensionHandleSet = dimensionHandleSet\<rparr>)))"

lemma codec_FOMRoutingSpace: "wire_codec writeFOMRoutingSpace readFOMRoutingSpace"
  unfolding writeFOMRoutingSpace_def readFOMRoutingSpace_def writes.simps
  by (rule wire_codec.intro, rule rt_first[OF wire_String.wire_codec_axioms],
      rule rt_next[OF codec_SpaceHandle], rule rt_end[OF codec_DimensionHandleSet]) simp

definition writeFOMRoutingSpaceList :: "FOMRoutingSpaceList writer" where
  "writeFOMRoutingSpaceList = write_vector writeFOMRoutingSpace"

definition readFOMRoutingSpaceList :: "FOMRoutingSpaceList reader" where
  "readFOMRoutingSpaceList = read_vector readFOMRoutingSpace"

lemma codec_FOMRoutingSpaceList: "wire_codec writeFOMRoutingSpaceList readFOMRoutingSpaceList"
  unfolding writeFOMRoutingSpaceList_def readFOMRoutingSpaceList_def by (rule wire_codec.vector[OF
      codec_FOMRoutingSpace])

definition writeFOMParameter :: "FOMParameter writer" where
  "writeFOMParameter v =
     writes [writeString (FOMParameter_name v), writeString (FOMParameter_dataType v),
      writeParameterHandle (FOMParameter_parameterHandle v)]"

definition readFOMParameter :: "FOMParameter reader" where
  "readFOMParameter =
     dec_bind readString (\<lambda>name. dec_bind readString (\<lambda>dataType.
     dec_bind readParameterHandle (\<lambda>parameterHandle.
     dec_return \<lparr> FOMParameter_name = name, FOMParameter_dataType = dataType,
         FOMParameter_parameterHandle = parameterHandle\<rparr>)))"

lemma codec_FOMParameter: "wire_codec writeFOMParameter readFOMParameter"
  unfolding writeFOMParameter_def readFOMParameter_def writes.simps
  by (rule wire_codec.intro, rule rt_first[OF wire_String.wire_codec_axioms],
      rule rt_next[OF wire_String.wire_codec_axioms], rule rt_end[OF codec_ParameterHandle]) simp

definition writeFOMParameterList :: "FOMParameterList writer" where
  "writeFOMParameterList = write_vector writeFOMParameter"

definition readFOMParameterList :: "FOMParameterList reader" where
  "readFOMParameterList = read_vector readFOMParameter"

lemma codec_FOMParameterList: "wire_codec writeFOMParameterList readFOMParameterList"
  unfolding writeFOMParameterList_def readFOMParameterList_def by (rule wire_codec.vector[OF
      codec_FOMParameter])

definition writeFOMInteractionClass :: "FOMInteractionClass writer" where
  "writeFOMInteractionClass v =
     writes [writeString (FOMInteractionClass_name v),
      writeInteractionClassHandle (FOMInteractionClass_interactionClassHandle v),
      writeInteractionClassHandle (FOMInteractionClass_parentInteractionClassHandle v),
      writeOrderType (FOMInteractionClass_orderType v),
      writeTransportationType (FOMInteractionClass_transportationType v),
      writeDimensionHandleSet (FOMInteractionClass_dimensionHandleSet v),
      writeFOMParameterList (FOMInteractionClass_parameterList v)]"

definition readFOMInteractionClass :: "FOMInteractionClass reader" where
  "readFOMInteractionClass =
     dec_bind readString (\<lambda>name.
     dec_bind readInteractionClassHandle (\<lambda>interactionClassHandle.
     dec_bind readInteractionClassHandle (\<lambda>parentInteractionClassHandle.
     dec_bind readOrderType (\<lambda>orderType.
     dec_bind readTransportationType (\<lambda>transportationType.
     dec_bind readDimensionHandleSet (\<lambda>dimensionHandleSet.
     dec_bind readFOMParameterList (\<lambda>parameterList.
     dec_return \<lparr> FOMInteractionClass_name = name,
         FOMInteractionClass_interactionClassHandle = interactionClassHandle,
         FOMInteractionClass_parentInteractionClassHandle = parentInteractionClassHandle,
         FOMInteractionClass_orderType = orderType,
         FOMInteractionClass_transportationType = transportationType,
         FOMInteractionClass_dimensionHandleSet = dimensionHandleSet,
         FOMInteractionClass_parameterList = parameterList\<rparr>)))))))"

lemma codec_FOMInteractionClass: "wire_codec writeFOMInteractionClass readFOMInteractionClass"
  unfolding writeFOMInteractionClass_def readFOMInteractionClass_def writes.simps
  by (rule wire_codec.intro, rule rt_first[OF wire_String.wire_codec_axioms],
      rule rt_next[OF codec_InteractionClassHandle],
      rule rt_next[OF codec_InteractionClassHandle], rule rt_next[OF codec_OrderType],
      rule rt_next[OF codec_TransportationType], rule rt_next[OF codec_DimensionHandleSet],
      rule rt_end[OF codec_FOMParameterList]) simp

definition writeFOMInteractionClassList :: "FOMInteractionClassList writer" where
  "writeFOMInteractionClassList = write_vector writeFOMInteractionClass"

definition readFOMInteractionClassList :: "FOMInteractionClassList reader" where
  "readFOMInteractionClassList = read_vector readFOMInteractionClass"

lemma codec_FOMInteractionClassList: "wire_codec writeFOMInteractionClassList
    readFOMInteractionClassList"
  unfolding writeFOMInteractionClassList_def readFOMInteractionClassList_def by (rule
      wire_codec.vector[OF codec_FOMInteractionClass])

definition writeFOMAttribute :: "FOMAttribute writer" where
  "writeFOMAttribute v =
     writes [writeString (FOMAttribute_name v), writeString (FOMAttribute_dataType v),
      writeAttributeHandle (FOMAttribute_attributeHandle v),
      writeOrderType (FOMAttribute_orderType v),
      writeTransportationType (FOMAttribute_transportationType v),
      writeDimensionHandleSet (FOMAttribute_dimensionHandleSet v)]"

definition readFOMAttribute :: "FOMAttribute reader" where
  "readFOMAttribute =
     dec_bind readString (\<lambda>name. dec_bind readString (\<lambda>dataType.
     dec_bind readAttributeHandle (\<lambda>attributeHandle.
     dec_bind readOrderType (\<lambda>orderType.
     dec_bind readTransportationType (\<lambda>transportationType.
     dec_bind readDimensionHandleSet (\<lambda>dimensionHandleSet.
     dec_return \<lparr> FOMAttribute_name = name, FOMAttribute_dataType = dataType,
         FOMAttribute_attributeHandle = attributeHandle, FOMAttribute_orderType = orderType,
         FOMAttribute_transportationType = transportationType,
         FOMAttribute_dimensionHandleSet = dimensionHandleSet\<rparr>))))))"

lemma codec_FOMAttribute: "wire_codec writeFOMAttribute readFOMAttribute"
  unfolding writeFOMAttribute_def readFOMAttribute_def writes.simps
  by (rule wire_codec.intro, rule rt_first[OF wire_String.wire_codec_axioms],
      rule rt_next[OF wire_String.wire_codec_axioms], rule rt_next[OF codec_AttributeHandle],
      rule rt_next[OF codec_OrderType], rule rt_next[OF codec_TransportationType],
      rule rt_end[OF codec_DimensionHandleSet]) simp

definition writeFOMAttributeList :: "FOMAttributeList writer" where
  "writeFOMAttributeList = write_vector writeFOMAttribute"

definition readFOMAttributeList :: "FOMAttributeList reader" where
  "readFOMAttributeList = read_vector readFOMAttribute"

lemma codec_FOMAttributeList: "wire_codec writeFOMAttributeList readFOMAttributeList"
  unfolding writeFOMAttributeList_def readFOMAttributeList_def by (rule wire_codec.vector[OF
      codec_FOMAttribute])

definition writeFOMObjectClass :: "FOMObjectClass writer" where
  "writeFOMObjectClass v =
     writes [writeString (FOMObjectClass_name v),
      writeObjectClassHandle (FOMObjectClass_objectClassHandle v),
      writeObjectClassHandle (FOMObjectClass_parentObjectClassHandle v),
      writeFOMAttributeList (FOMObjectClass_attributeList v)]"

definition readFOMObjectClass :: "FOMObjectClass reader" where
  "readFOMObjectClass =
     dec_bind readString (\<lambda>name.
     dec_bind readObjectClassHandle (\<lambda>objectClassHandle.
     dec_bind readObjectClassHandle (\<lambda>parentObjectClassHandle.
     dec_bind readFOMAttributeList (\<lambda>attributeList.
     dec_return \<lparr> FOMObjectClass_name = name,
         FOMObjectClass_objectClassHandle = objectClassHandle,
         FOMObjectClass_parentObjectClassHandle = parentObjectClassHandle,
         FOMObjectClass_attributeList = attributeList\<rparr>))))"

lemma codec_FOMObjectClass: "wire_codec writeFOMObjectClass readFOMObjectClass"
  unfolding writeFOMObjectClass_def readFOMObjectClass_def writes.simps
  by (rule wire_codec.intro, rule rt_first[OF wire_String.wire_codec_axioms],
      rule rt_next[OF codec_ObjectClassHandle], rule rt_next[OF codec_ObjectClassHandle],
      rule rt_end[OF codec_FOMAttributeList]) simp

definition writeFOMObjectClassList :: "FOMObjectClassList writer" where
  "writeFOMObjectClassList = write_vector writeFOMObjectClass"

definition readFOMObjectClassList :: "FOMObjectClassList reader" where
  "readFOMObjectClassList = read_vector readFOMObjectClass"

lemma codec_FOMObjectClassList: "wire_codec writeFOMObjectClassList readFOMObjectClassList"
  unfolding writeFOMObjectClassList_def readFOMObjectClassList_def by (rule wire_codec.vector[OF
      codec_FOMObjectClass])

definition writeFOMUpdateRate :: "FOMUpdateRate writer" where
  "writeFOMUpdateRate v =
     writes [writeString (FOMUpdateRate_name v),
      writeUpdateRateHandle (FOMUpdateRate_updateRateHandle v), writeDouble (FOMUpdateRate_rate v)]"

definition readFOMUpdateRate :: "FOMUpdateRate reader" where
  "readFOMUpdateRate =
     dec_bind readString (\<lambda>name. dec_bind readUpdateRateHandle (\<lambda>updateRateHandle.
     dec_bind readDouble (\<lambda>rate.
     dec_return \<lparr> FOMUpdateRate_name = name,
         FOMUpdateRate_updateRateHandle = updateRateHandle, FOMUpdateRate_rate = rate\<rparr>)))"

lemma codec_FOMUpdateRate: "wire_codec writeFOMUpdateRate readFOMUpdateRate"
  unfolding writeFOMUpdateRate_def readFOMUpdateRate_def writes.simps
  by (rule wire_codec.intro, rule rt_first[OF wire_String.wire_codec_axioms],
      rule rt_next[OF codec_UpdateRateHandle], rule rt_end[OF wire_Double.wire_codec_axioms]) simp

definition writeFOMUpdateRateList :: "FOMUpdateRateList writer" where
  "writeFOMUpdateRateList = write_vector writeFOMUpdateRate"

definition readFOMUpdateRateList :: "FOMUpdateRateList reader" where
  "readFOMUpdateRateList = read_vector readFOMUpdateRate"

lemma codec_FOMUpdateRateList: "wire_codec writeFOMUpdateRateList readFOMUpdateRateList"
  unfolding writeFOMUpdateRateList_def readFOMUpdateRateList_def by (rule wire_codec.vector[OF
      codec_FOMUpdateRate])

definition writeFOMSwitch :: "FOMSwitch writer" where
  "writeFOMSwitch v =
     writes [writeSwitchesType (FOMSwitch_switchesType v), writeBool (FOMSwitch_enabled v)]"

definition readFOMSwitch :: "FOMSwitch reader" where
  "readFOMSwitch =
     dec_bind readSwitchesType (\<lambda>switchesType. dec_bind readBool (\<lambda>enabled.
     dec_return \<lparr> FOMSwitch_switchesType = switchesType, FOMSwitch_enabled =
         enabled\<rparr>))"

lemma codec_FOMSwitch: "wire_codec writeFOMSwitch readFOMSwitch"
  unfolding writeFOMSwitch_def readFOMSwitch_def writes.simps
  by (rule wire_codec.intro, rule rt_first[OF codec_SwitchesType],
      rule rt_end[OF wire_Bool.wire_codec_axioms]) simp

definition writeFOMSwitchList :: "FOMSwitchList writer" where
  "writeFOMSwitchList = write_vector writeFOMSwitch"

definition readFOMSwitchList :: "FOMSwitchList reader" where
  "readFOMSwitchList = read_vector readFOMSwitch"

lemma codec_FOMSwitchList: "wire_codec writeFOMSwitchList readFOMSwitchList"
  unfolding writeFOMSwitchList_def readFOMSwitchList_def by (rule wire_codec.vector[OF
      codec_FOMSwitch])

definition writeFOMBasicDataType :: "FOMBasicDataType writer" where
  "writeFOMBasicDataType v =
     writes [writeString (FOMBasicDataType_name v), writeUnsigned (FOMBasicDataType_size v),
      writeEndianness (FOMBasicDataType_endian v),
      writeBasicDataTypeHandle (FOMBasicDataType_handle v)]"

definition readFOMBasicDataType :: "FOMBasicDataType reader" where
  "readFOMBasicDataType =
     dec_bind readString (\<lambda>name. dec_bind readUnsigned (\<lambda>size.
     dec_bind readEndianness (\<lambda>endian. dec_bind readBasicDataTypeHandle (\<lambda>handle.
     dec_return \<lparr> FOMBasicDataType_name = name, FOMBasicDataType_size = size,
         FOMBasicDataType_endian = endian, FOMBasicDataType_handle = handle\<rparr>))))"

lemma codec_FOMBasicDataType: "wire_codec writeFOMBasicDataType readFOMBasicDataType"
  unfolding writeFOMBasicDataType_def readFOMBasicDataType_def writes.simps
  by (rule wire_codec.intro, rule rt_first[OF wire_String.wire_codec_axioms],
      rule rt_next[OF codec_Unsigned], rule rt_next[OF codec_Endianness],
      rule rt_end[OF codec_BasicDataTypeHandle]) simp

definition writeFOMBasicDataTypeList :: "FOMBasicDataTypeList writer" where
  "writeFOMBasicDataTypeList = write_vector writeFOMBasicDataType"

definition readFOMBasicDataTypeList :: "FOMBasicDataTypeList reader" where
  "readFOMBasicDataTypeList = read_vector readFOMBasicDataType"

lemma codec_FOMBasicDataTypeList: "wire_codec writeFOMBasicDataTypeList readFOMBasicDataTypeList"
  unfolding writeFOMBasicDataTypeList_def readFOMBasicDataTypeList_def by (rule
      wire_codec.vector[OF codec_FOMBasicDataType])

definition writeFOMSimpleDataType :: "FOMSimpleDataType writer" where
  "writeFOMSimpleDataType v =
     writes [writeString (FOMSimpleDataType_name v),
      writeString (FOMSimpleDataType_representation v),
      writeSimpleDataTypeHandle (FOMSimpleDataType_handle v)]"

definition readFOMSimpleDataType :: "FOMSimpleDataType reader" where
  "readFOMSimpleDataType =
     dec_bind readString (\<lambda>name. dec_bind readString (\<lambda>representation.
     dec_bind readSimpleDataTypeHandle (\<lambda>handle.
     dec_return \<lparr> FOMSimpleDataType_name = name,
         FOMSimpleDataType_representation = representation, FOMSimpleDataType_handle =
             handle\<rparr>)))"

lemma codec_FOMSimpleDataType: "wire_codec writeFOMSimpleDataType readFOMSimpleDataType"
  unfolding writeFOMSimpleDataType_def readFOMSimpleDataType_def writes.simps
  by (rule wire_codec.intro, rule rt_first[OF wire_String.wire_codec_axioms],
      rule rt_next[OF wire_String.wire_codec_axioms], rule rt_end[OF codec_SimpleDataTypeHandle])
          simp

definition writeFOMSimpleDataTypeList :: "FOMSimpleDataTypeList writer" where
  "writeFOMSimpleDataTypeList = write_vector writeFOMSimpleDataType"

definition readFOMSimpleDataTypeList :: "FOMSimpleDataTypeList reader" where
  "readFOMSimpleDataTypeList = read_vector readFOMSimpleDataType"

lemma codec_FOMSimpleDataTypeList: "wire_codec writeFOMSimpleDataTypeList readFOMSimpleDataTypeList"
  unfolding writeFOMSimpleDataTypeList_def readFOMSimpleDataTypeList_def by (rule
      wire_codec.vector[OF codec_FOMSimpleDataType])

definition writeFOMEnumerator :: "FOMEnumerator writer" where
  "writeFOMEnumerator v =
     writes [writeString (FOMEnumerator_name v), writeUnsigned (FOMEnumerator_value v)]"

definition readFOMEnumerator :: "FOMEnumerator reader" where
  "readFOMEnumerator =
     dec_bind readString (\<lambda>name. dec_bind readUnsigned (\<lambda>value.
     dec_return \<lparr> FOMEnumerator_name = name, FOMEnumerator_value = value\<rparr>))"

lemma codec_FOMEnumerator: "wire_codec writeFOMEnumerator readFOMEnumerator"
  unfolding writeFOMEnumerator_def readFOMEnumerator_def writes.simps
  by (rule wire_codec.intro, rule rt_first[OF wire_String.wire_codec_axioms],
      rule rt_end[OF codec_Unsigned]) simp

definition writeFOMEnumeratorList :: "FOMEnumeratorList writer" where
  "writeFOMEnumeratorList = write_vector writeFOMEnumerator"

definition readFOMEnumeratorList :: "FOMEnumeratorList reader" where
  "readFOMEnumeratorList = read_vector readFOMEnumerator"

lemma codec_FOMEnumeratorList: "wire_codec writeFOMEnumeratorList readFOMEnumeratorList"
  unfolding writeFOMEnumeratorList_def readFOMEnumeratorList_def by (rule wire_codec.vector[OF
      codec_FOMEnumerator])

definition writeFOMEnumeratedDataType :: "FOMEnumeratedDataType writer" where
  "writeFOMEnumeratedDataType v =
     writes [writeString (FOMEnumeratedDataType_name v),
      writeString (FOMEnumeratedDataType_representation v),
      writeFOMEnumeratorList (FOMEnumeratedDataType_enumerators v),
      writeEnumeratedDataTypeHandle (FOMEnumeratedDataType_handle v)]"

definition readFOMEnumeratedDataType :: "FOMEnumeratedDataType reader" where
  "readFOMEnumeratedDataType =
     dec_bind readString (\<lambda>name. dec_bind readString (\<lambda>representation.
     dec_bind readFOMEnumeratorList (\<lambda>enumerators.
     dec_bind readEnumeratedDataTypeHandle (\<lambda>handle.
     dec_return \<lparr> FOMEnumeratedDataType_name = name,
         FOMEnumeratedDataType_representation = representation,
         FOMEnumeratedDataType_enumerators = enumerators, FOMEnumeratedDataType_handle =
             handle\<rparr>))))"

lemma codec_FOMEnumeratedDataType: "wire_codec writeFOMEnumeratedDataType readFOMEnumeratedDataType"
  unfolding writeFOMEnumeratedDataType_def readFOMEnumeratedDataType_def writes.simps
  by (rule wire_codec.intro, rule rt_first[OF wire_String.wire_codec_axioms],
      rule rt_next[OF wire_String.wire_codec_axioms], rule rt_next[OF codec_FOMEnumeratorList],
      rule rt_end[OF codec_EnumeratedDataTypeHandle]) simp

definition writeFOMEnumeratedDataTypeList :: "FOMEnumeratedDataTypeList writer" where
  "writeFOMEnumeratedDataTypeList = write_vector writeFOMEnumeratedDataType"

definition readFOMEnumeratedDataTypeList :: "FOMEnumeratedDataTypeList reader" where
  "readFOMEnumeratedDataTypeList = read_vector readFOMEnumeratedDataType"

lemma codec_FOMEnumeratedDataTypeList: "wire_codec writeFOMEnumeratedDataTypeList
    readFOMEnumeratedDataTypeList"
  unfolding writeFOMEnumeratedDataTypeList_def readFOMEnumeratedDataTypeList_def by (rule
      wire_codec.vector[OF codec_FOMEnumeratedDataType])

definition writeFOMArrayDataType :: "FOMArrayDataType writer" where
  "writeFOMArrayDataType v =
     writes [writeString (FOMArrayDataType_name v), writeString (FOMArrayDataType_dataType v),
      writeString (FOMArrayDataType_cardinality v),
      writeArrayDataTypeEncoding (FOMArrayDataType_encoding v),
      writeArrayDataTypeHandle (FOMArrayDataType_handle v)]"

definition readFOMArrayDataType :: "FOMArrayDataType reader" where
  "readFOMArrayDataType =
     dec_bind readString (\<lambda>name. dec_bind readString (\<lambda>dataType.
     dec_bind readString (\<lambda>cardinality.
     dec_bind readArrayDataTypeEncoding (\<lambda>encoding.
     dec_bind readArrayDataTypeHandle (\<lambda>handle.
     dec_return \<lparr> FOMArrayDataType_name = name, FOMArrayDataType_dataType = dataType,
         FOMArrayDataType_cardinality = cardinality, FOMArrayDataType_encoding = encoding,
         FOMArrayDataType_handle = handle\<rparr>)))))"

lemma codec_FOMArrayDataType: "wire_codec writeFOMArrayDataType readFOMArrayDataType"
  unfolding writeFOMArrayDataType_def readFOMArrayDataType_def writes.simps
  by (rule wire_codec.intro, rule rt_first[OF wire_String.wire_codec_axioms],
      rule rt_next[OF wire_String.wire_codec_axioms],
      rule rt_next[OF wire_String.wire_codec_axioms],
      rule rt_next[OF codec_ArrayDataTypeEncoding], rule rt_end[OF codec_ArrayDataTypeHandle]) simp

definition writeFOMArrayDataTypeList :: "FOMArrayDataTypeList writer" where
  "writeFOMArrayDataTypeList = write_vector writeFOMArrayDataType"

definition readFOMArrayDataTypeList :: "FOMArrayDataTypeList reader" where
  "readFOMArrayDataTypeList = read_vector readFOMArrayDataType"

lemma codec_FOMArrayDataTypeList: "wire_codec writeFOMArrayDataTypeList readFOMArrayDataTypeList"
  unfolding writeFOMArrayDataTypeList_def readFOMArrayDataTypeList_def by (rule
      wire_codec.vector[OF codec_FOMArrayDataType])

definition writeFOMFixedRecordField :: "FOMFixedRecordField writer" where
  "writeFOMFixedRecordField v =
     writes [writeString (FOMFixedRecordField_name v),
      writeString (FOMFixedRecordField_dataType v), writeUnsigned (FOMFixedRecordField_version v)]"

definition readFOMFixedRecordField :: "FOMFixedRecordField reader" where
  "readFOMFixedRecordField =
     dec_bind readString (\<lambda>name. dec_bind readString (\<lambda>dataType.
     dec_bind readUnsigned (\<lambda>version.
     dec_return \<lparr> FOMFixedRecordField_name = name, FOMFixedRecordField_dataType = dataType,
         FOMFixedRecordField_version = version\<rparr>)))"

lemma codec_FOMFixedRecordField: "wire_codec writeFOMFixedRecordField readFOMFixedRecordField"
  unfolding writeFOMFixedRecordField_def readFOMFixedRecordField_def writes.simps
  by (rule wire_codec.intro, rule rt_first[OF wire_String.wire_codec_axioms],
      rule rt_next[OF wire_String.wire_codec_axioms], rule rt_end[OF codec_Unsigned]) simp

definition writeFOMFixedRecordFieldList :: "FOMFixedRecordFieldList writer" where
  "writeFOMFixedRecordFieldList = write_vector writeFOMFixedRecordField"

definition readFOMFixedRecordFieldList :: "FOMFixedRecordFieldList reader" where
  "readFOMFixedRecordFieldList = read_vector readFOMFixedRecordField"

lemma codec_FOMFixedRecordFieldList: "wire_codec writeFOMFixedRecordFieldList
    readFOMFixedRecordFieldList"
  unfolding writeFOMFixedRecordFieldList_def readFOMFixedRecordFieldList_def by (rule
      wire_codec.vector[OF codec_FOMFixedRecordField])

definition writeFOMFixedRecordDataType :: "FOMFixedRecordDataType writer" where
  "writeFOMFixedRecordDataType v =
     writes [writeString (FOMFixedRecordDataType_name v),
      writeString (FOMFixedRecordDataType_encoding v),
      writeString (FOMFixedRecordDataType_include v),
      writeUnsigned (FOMFixedRecordDataType_version v),
      writeFOMFixedRecordFieldList (FOMFixedRecordDataType_fields v),
      writeFixedRecordDataTypeHandle (FOMFixedRecordDataType_handle v)]"

definition readFOMFixedRecordDataType :: "FOMFixedRecordDataType reader" where
  "readFOMFixedRecordDataType =
     dec_bind readString (\<lambda>name. dec_bind readString (\<lambda>encoding.
     dec_bind readString (\<lambda>include. dec_bind readUnsigned (\<lambda>version.
     dec_bind readFOMFixedRecordFieldList (\<lambda>fields.
     dec_bind readFixedRecordDataTypeHandle (\<lambda>handle.
     dec_return \<lparr> FOMFixedRecordDataType_name = name,
         FOMFixedRecordDataType_encoding = encoding, FOMFixedRecordDataType_include = include,
         FOMFixedRecordDataType_version = version, FOMFixedRecordDataType_fields = fields,
         FOMFixedRecordDataType_handle = handle\<rparr>))))))"

lemma codec_FOMFixedRecordDataType: "wire_codec writeFOMFixedRecordDataType
    readFOMFixedRecordDataType"
  unfolding writeFOMFixedRecordDataType_def readFOMFixedRecordDataType_def writes.simps
  by (rule wire_codec.intro, rule rt_first[OF wire_String.wire_codec_axioms],
      rule rt_next[OF wire_String.wire_codec_axioms],
      rule rt_next[OF wire_String.wire_codec_axioms], rule rt_next[OF codec_Unsigned],
      rule rt_next[OF codec_FOMFixedRecordFieldList],
      rule rt_end[OF codec_FixedRecordDataTypeHandle]) simp

definition writeFOMFixedRecordDataTypeList :: "FOMFixedRecordDataTypeList writer" where
  "writeFOMFixedRecordDataTypeList = write_vector writeFOMFixedRecordDataType"

definition readFOMFixedRecordDataTypeList :: "FOMFixedRecordDataTypeList reader" where
  "readFOMFixedRecordDataTypeList = read_vector readFOMFixedRecordDataType"

lemma codec_FOMFixedRecordDataTypeList: "wire_codec writeFOMFixedRecordDataTypeList
    readFOMFixedRecordDataTypeList"
  unfolding writeFOMFixedRecordDataTypeList_def readFOMFixedRecordDataTypeList_def by (rule
      wire_codec.vector[OF codec_FOMFixedRecordDataType])

definition writeFOMVariantRecordAlternative :: "FOMVariantRecordAlternative writer" where
  "writeFOMVariantRecordAlternative v =
     writes [writeString (FOMVariantRecordAlternative_enumerator v),
      writeString (FOMVariantRecordAlternative_name v),
      writeString (FOMVariantRecordAlternative_dataType v)]"

definition readFOMVariantRecordAlternative :: "FOMVariantRecordAlternative reader" where
  "readFOMVariantRecordAlternative =
     dec_bind readString (\<lambda>enumerator. dec_bind readString (\<lambda>name.
     dec_bind readString (\<lambda>dataType.
     dec_return \<lparr> FOMVariantRecordAlternative_enumerator = enumerator,
         FOMVariantRecordAlternative_name = name, FOMVariantRecordAlternative_dataType =
             dataType\<rparr>)))"

lemma codec_FOMVariantRecordAlternative: "wire_codec writeFOMVariantRecordAlternative
    readFOMVariantRecordAlternative"
  unfolding writeFOMVariantRecordAlternative_def readFOMVariantRecordAlternative_def writes.simps
  by (rule wire_codec.intro, rule rt_first[OF wire_String.wire_codec_axioms],
      rule rt_next[OF wire_String.wire_codec_axioms],
      rule rt_end[OF wire_String.wire_codec_axioms]) simp

definition writeFOMVariantRecordAlternativeList :: "FOMVariantRecordAlternativeList writer" where
  "writeFOMVariantRecordAlternativeList = write_vector writeFOMVariantRecordAlternative"

definition readFOMVariantRecordAlternativeList :: "FOMVariantRecordAlternativeList reader" where
  "readFOMVariantRecordAlternativeList = read_vector readFOMVariantRecordAlternative"

lemma codec_FOMVariantRecordAlternativeList: "wire_codec writeFOMVariantRecordAlternativeList
    readFOMVariantRecordAlternativeList"
  unfolding writeFOMVariantRecordAlternativeList_def readFOMVariantRecordAlternativeList_def by
      (rule wire_codec.vector[OF codec_FOMVariantRecordAlternative])

definition writeFOMVariantRecordDataType :: "FOMVariantRecordDataType writer" where
  "writeFOMVariantRecordDataType v =
     writes [writeString (FOMVariantRecordDataType_name v),
      writeString (FOMVariantRecordDataType_discriminant v),
      writeString (FOMVariantRecordDataType_dataType v),
      writeFOMVariantRecordAlternativeList (FOMVariantRecordDataType_alternatives v),
      writeString (FOMVariantRecordDataType_encoding v),
      writeVariantRecordDataTypeHandle (FOMVariantRecordDataType_handle v)]"

definition readFOMVariantRecordDataType :: "FOMVariantRecordDataType reader" where
  "readFOMVariantRecordDataType =
     dec_bind readString (\<lambda>name. dec_bind readString (\<lambda>discriminant.
     dec_bind readString (\<lambda>dataType.
     dec_bind readFOMVariantRecordAlternativeList (\<lambda>alternatives.
     dec_bind readString (\<lambda>encoding.
     dec_bind readVariantRecordDataTypeHandle (\<lambda>handle.
     dec_return \<lparr> FOMVariantRecordDataType_name = name,
         FOMVariantRecordDataType_discriminant = discriminant,
         FOMVariantRecordDataType_dataType = dataType,
         FOMVariantRecordDataType_alternatives = alternatives,
         FOMVariantRecordDataType_encoding = encoding, FOMVariantRecordDataType_handle =
             handle\<rparr>))))))"

lemma codec_FOMVariantRecordDataType: "wire_codec writeFOMVariantRecordDataType
    readFOMVariantRecordDataType"
  unfolding writeFOMVariantRecordDataType_def readFOMVariantRecordDataType_def writes.simps
  by (rule wire_codec.intro, rule rt_first[OF wire_String.wire_codec_axioms],
      rule rt_next[OF wire_String.wire_codec_axioms],
      rule rt_next[OF wire_String.wire_codec_axioms],
      rule rt_next[OF codec_FOMVariantRecordAlternativeList],
      rule rt_next[OF wire_String.wire_codec_axioms],
      rule rt_end[OF codec_VariantRecordDataTypeHandle]) simp

definition writeFOMVariantRecordDataTypeList :: "FOMVariantRecordDataTypeList writer" where
  "writeFOMVariantRecordDataTypeList = write_vector writeFOMVariantRecordDataType"

definition readFOMVariantRecordDataTypeList :: "FOMVariantRecordDataTypeList reader" where
  "readFOMVariantRecordDataTypeList = read_vector readFOMVariantRecordDataType"

lemma codec_FOMVariantRecordDataTypeList: "wire_codec writeFOMVariantRecordDataTypeList
    readFOMVariantRecordDataTypeList"
  unfolding writeFOMVariantRecordDataTypeList_def readFOMVariantRecordDataTypeList_def by (rule
      wire_codec.vector[OF codec_FOMVariantRecordDataType])

definition writeFOMModule :: "FOMModule writer" where
  "writeFOMModule v =
     writes [writeModuleHandle (FOMModule_moduleHandle v),
      writeFOMTransportationTypeList (FOMModule_transportationTypeList v),
      writeFOMDimensionList (FOMModule_dimensionList v),
      writeFOMRoutingSpaceList (FOMModule_routingSpaceList v),
      writeFOMInteractionClassList (FOMModule_interactionClassList v),
      writeFOMObjectClassList (FOMModule_objectClassList v),
      writeFOMUpdateRateList (FOMModule_updateRateList v),
      writeFOMSwitchList (FOMModule_switchList v),
      writeBool (FOMModule_artificialInteractionRoot v),
      writeBool (FOMModule_artificialObjectRoot v), writeString (FOMModule_designator v)]"

definition readFOMModule :: "FOMModule reader" where
  "readFOMModule =
     dec_bind readModuleHandle (\<lambda>moduleHandle.
     dec_bind readFOMTransportationTypeList (\<lambda>transportationTypeList.
     dec_bind readFOMDimensionList (\<lambda>dimensionList.
     dec_bind readFOMRoutingSpaceList (\<lambda>routingSpaceList.
     dec_bind readFOMInteractionClassList (\<lambda>interactionClassList.
     dec_bind readFOMObjectClassList (\<lambda>objectClassList.
     dec_bind readFOMUpdateRateList (\<lambda>updateRateList.
     dec_bind readFOMSwitchList (\<lambda>switchList.
     dec_bind readBool (\<lambda>artificialInteractionRoot.
     dec_bind readBool (\<lambda>artificialObjectRoot. dec_bind readString (\<lambda>designator.
     dec_return \<lparr> FOMModule_moduleHandle = moduleHandle,
         FOMModule_transportationTypeList = transportationTypeList,
         FOMModule_dimensionList = dimensionList, FOMModule_routingSpaceList = routingSpaceList,
         FOMModule_interactionClassList = interactionClassList,
         FOMModule_objectClassList = objectClassList, FOMModule_updateRateList = updateRateList,
         FOMModule_switchList = switchList,
         FOMModule_artificialInteractionRoot = artificialInteractionRoot,
         FOMModule_artificialObjectRoot = artificialObjectRoot, FOMModule_designator =
             designator\<rparr>)))))))))))"

lemma codec_FOMModule: "wire_codec writeFOMModule readFOMModule"
  unfolding writeFOMModule_def readFOMModule_def writes.simps
  by (rule wire_codec.intro, rule rt_first[OF codec_ModuleHandle],
      rule rt_next[OF codec_FOMTransportationTypeList], rule rt_next[OF codec_FOMDimensionList],
      rule rt_next[OF codec_FOMRoutingSpaceList], rule rt_next[OF codec_FOMInteractionClassList],
      rule rt_next[OF codec_FOMObjectClassList], rule rt_next[OF codec_FOMUpdateRateList],
      rule rt_next[OF codec_FOMSwitchList], rule rt_next[OF wire_Bool.wire_codec_axioms],
      rule rt_next[OF wire_Bool.wire_codec_axioms], rule rt_end[OF wire_String.wire_codec_axioms])
          simp

definition writeFOMModuleList :: "FOMModuleList writer" where
  "writeFOMModuleList = write_vector writeFOMModule"

definition readFOMModuleList :: "FOMModuleList reader" where
  "readFOMModuleList = read_vector readFOMModule"

lemma codec_FOMModuleList: "wire_codec writeFOMModuleList readFOMModuleList"
  unfolding writeFOMModuleList_def readFOMModuleList_def by (rule wire_codec.vector[OF
      codec_FOMModule])

definition writeFOMModule2 :: "FOMModule2 writer" where
  "writeFOMModule2 v =
     writes [writeFOMBasicDataTypeList (FOMModule2_basicDataTypeList v),
      writeFOMSimpleDataTypeList (FOMModule2_simpleDataTypeList v),
      writeFOMEnumeratedDataTypeList (FOMModule2_enumeratedDataTypeList v),
      writeFOMArrayDataTypeList (FOMModule2_arrayDataTypeList v),
      writeFOMFixedRecordDataTypeList (FOMModule2_fixedRecordDataTypeList v),
      writeFOMVariantRecordDataTypeList (FOMModule2_variantRecordDataTypeList v)]"

definition readFOMModule2 :: "FOMModule2 reader" where
  "readFOMModule2 =
     dec_bind readFOMBasicDataTypeList (\<lambda>basicDataTypeList.
     dec_bind readFOMSimpleDataTypeList (\<lambda>simpleDataTypeList.
     dec_bind readFOMEnumeratedDataTypeList (\<lambda>enumeratedDataTypeList.
     dec_bind readFOMArrayDataTypeList (\<lambda>arrayDataTypeList.
     dec_bind readFOMFixedRecordDataTypeList (\<lambda>fixedRecordDataTypeList.
     dec_bind readFOMVariantRecordDataTypeList (\<lambda>variantRecordDataTypeList.
     dec_return \<lparr> FOMModule2_basicDataTypeList = basicDataTypeList,
         FOMModule2_simpleDataTypeList = simpleDataTypeList,
         FOMModule2_enumeratedDataTypeList = enumeratedDataTypeList,
         FOMModule2_arrayDataTypeList = arrayDataTypeList,
         FOMModule2_fixedRecordDataTypeList = fixedRecordDataTypeList,
         FOMModule2_variantRecordDataTypeList = variantRecordDataTypeList\<rparr>))))))"

lemma codec_FOMModule2: "wire_codec writeFOMModule2 readFOMModule2"
  unfolding writeFOMModule2_def readFOMModule2_def writes.simps
  by (rule wire_codec.intro, rule rt_first[OF codec_FOMBasicDataTypeList],
      rule rt_next[OF codec_FOMSimpleDataTypeList],
      rule rt_next[OF codec_FOMEnumeratedDataTypeList],
      rule rt_next[OF codec_FOMArrayDataTypeList],
      rule rt_next[OF codec_FOMFixedRecordDataTypeList],
      rule rt_end[OF codec_FOMVariantRecordDataTypeList]) simp

definition writeFOMModule2List :: "FOMModule2List writer" where
  "writeFOMModule2List = write_vector writeFOMModule2"

definition readFOMModule2List :: "FOMModule2List reader" where
  "readFOMModule2List = read_vector readFOMModule2"

lemma codec_FOMModule2List: "wire_codec writeFOMModule2List readFOMModule2List"
  unfolding writeFOMModule2List_def readFOMModule2List_def by (rule wire_codec.vector[OF
      codec_FOMModule2])

text \<open>The payload laws of the members that carry buffers.\<close>

lemmas payload_facts = wire_VariableLengthData.payload
  payload_codec.payload[OF codec_ParameterValueVector] payload_codec.payload[OF
      codec_AttributeValueVector]
lemmas no_payload_facts = wire_VariableLengthData.no_payload
  payload_codec.no_payload[OF codec_ParameterValueVector] payload_codec.no_payload[OF
      codec_AttributeValueVector]
lemmas nonempty_facts = wire_VariableLengthData.nonempty
  payload_codec.nonempty[OF codec_ParameterValue] payload_codec.nonempty[OF codec_AttributeValue]

end
