(* ===== verification/Message_Codec.thy ===== *)
theory Message_Codec
  imports Message_Types Wire_Structs
begin

text \<open>
  The writers, readers and payload decoders of
      \<open>src/OpenRTI/TightBE1MessageEncoding.cpp\<close> for the
  messages, each followed by the lemma that reading inverts writing.
\<close>

definition writeConnectionLostMessage :: "ConnectionLostMessage writer" where
  "writeConnectionLostMessage v =
     writeString (ConnectionLostMessage_faultDescription v)"

definition readConnectionLostMessage :: "ConnectionLostMessage reader" where
  "readConnectionLostMessage =
     dec_bind readString (\<lambda>faultDescription.
     dec_return \<lparr> ConnectionLostMessage_faultDescription = faultDescription\<rparr>)"

lemma codec_ConnectionLostMessage: "wire_codec writeConnectionLostMessage readConnectionLostMessage"
  unfolding writeConnectionLostMessage_def readConnectionLostMessage_def writes.simps
  by (rule wire_codec.intro, rule rt_single[OF wire_String.wire_codec_axioms]) simp

definition writeCreateFederationExecutionRequestMessage :: "CreateFederationExecutionRequestMessage
    writer" where
  "writeCreateFederationExecutionRequestMessage v =
     writes [writeString (CreateFederationExecutionRequestMessage_federationExecution v),
      writeString (CreateFederationExecutionRequestMessage_logicalTimeFactoryName v),
      writeFOMStringModuleList (CreateFederationExecutionRequestMessage_fOMStringModuleList v)]"

definition readCreateFederationExecutionRequestMessage :: "CreateFederationExecutionRequestMessage
    reader" where
  "readCreateFederationExecutionRequestMessage =
     dec_bind readString (\<lambda>federationExecution.
     dec_bind readString (\<lambda>logicalTimeFactoryName.
     dec_bind readFOMStringModuleList (\<lambda>fOMStringModuleList.
     dec_return \<lparr>
         CreateFederationExecutionRequestMessage_federationExecution = federationExecution,
         CreateFederationExecutionRequestMessage_logicalTimeFactoryName = logicalTimeFactoryName,
         CreateFederationExecutionRequestMessage_fOMStringModuleList =
             fOMStringModuleList\<rparr>)))"

lemma codec_CreateFederationExecutionRequestMessage: "wire_codec
    writeCreateFederationExecutionRequestMessage readCreateFederationExecutionRequestMessage"
  unfolding writeCreateFederationExecutionRequestMessage_def
      readCreateFederationExecutionRequestMessage_def writes.simps
  by (rule wire_codec.intro, rule rt_first[OF wire_String.wire_codec_axioms],
      rule rt_next[OF wire_String.wire_codec_axioms], rule rt_end[OF codec_FOMStringModuleList])
          simp

definition writeCreateFederationExecutionRequest2Message ::
    "CreateFederationExecutionRequest2Message writer" where
  "writeCreateFederationExecutionRequest2Message v =
     writes [writeString (CreateFederationExecutionRequest2Message_federationExecution v),
      writeString (CreateFederationExecutionRequest2Message_logicalTimeFactoryName v),
      writeFOMStringModule2List (CreateFederationExecutionRequest2Message_fOMStringModuleList v)]"

definition readCreateFederationExecutionRequest2Message ::
    "CreateFederationExecutionRequest2Message reader" where
  "readCreateFederationExecutionRequest2Message =
     dec_bind readString (\<lambda>federationExecution.
     dec_bind readString (\<lambda>logicalTimeFactoryName.
     dec_bind readFOMStringModule2List (\<lambda>fOMStringModuleList.
     dec_return \<lparr>
         CreateFederationExecutionRequest2Message_federationExecution = federationExecution,
         CreateFederationExecutionRequest2Message_logicalTimeFactoryName = logicalTimeFactoryName,
         CreateFederationExecutionRequest2Message_fOMStringModuleList =
             fOMStringModuleList\<rparr>)))"

lemma codec_CreateFederationExecutionRequest2Message: "wire_codec
    writeCreateFederationExecutionRequest2Message readCreateFederationExecutionRequest2Message"
  unfolding writeCreateFederationExecutionRequest2Message_def
      readCreateFederationExecutionRequest2Message_def writes.simps
  by (rule wire_codec.intro, rule rt_first[OF wire_String.wire_codec_axioms],
      rule rt_next[OF wire_String.wire_codec_axioms], rule rt_end[OF codec_FOMStringModule2List])
          simp

definition writeCreateFederationExecutionResponseMessage ::
    "CreateFederationExecutionResponseMessage writer" where
  "writeCreateFederationExecutionResponseMessage v =
     writes [
      writeCreateFederationExecutionResponseType
          (CreateFederationExecutionResponseMessage_createFederationExecutionResponseType v),
      writeString (CreateFederationExecutionResponseMessage_exceptionString v)]"

definition readCreateFederationExecutionResponseMessage ::
    "CreateFederationExecutionResponseMessage reader" where
  "readCreateFederationExecutionResponseMessage =
     dec_bind readCreateFederationExecutionResponseType
         (\<lambda>createFederationExecutionResponseType.
     dec_bind readString (\<lambda>exceptionString.
     dec_return \<lparr>
         CreateFederationExecutionResponseMessage_createFederationExecutionResponseType =
             createFederationExecutionResponseType,
         CreateFederationExecutionResponseMessage_exceptionString = exceptionString\<rparr>))"

lemma codec_CreateFederationExecutionResponseMessage: "wire_codec
    writeCreateFederationExecutionResponseMessage readCreateFederationExecutionResponseMessage"
  unfolding writeCreateFederationExecutionResponseMessage_def
      readCreateFederationExecutionResponseMessage_def writes.simps
  by (rule wire_codec.intro, rule rt_first[OF codec_CreateFederationExecutionResponseType],
      rule rt_end[OF wire_String.wire_codec_axioms]) simp

definition writeDestroyFederationExecutionRequestMessage ::
    "DestroyFederationExecutionRequestMessage writer" where
  "writeDestroyFederationExecutionRequestMessage v =
     writeString (DestroyFederationExecutionRequestMessage_federationExecution v)"

definition readDestroyFederationExecutionRequestMessage ::
    "DestroyFederationExecutionRequestMessage reader" where
  "readDestroyFederationExecutionRequestMessage =
     dec_bind readString (\<lambda>federationExecution.
     dec_return \<lparr>
         DestroyFederationExecutionRequestMessage_federationExecution =
             federationExecution\<rparr>)"

lemma codec_DestroyFederationExecutionRequestMessage: "wire_codec
    writeDestroyFederationExecutionRequestMessage readDestroyFederationExecutionRequestMessage"
  unfolding writeDestroyFederationExecutionRequestMessage_def
      readDestroyFederationExecutionRequestMessage_def writes.simps
  by (rule wire_codec.intro, rule rt_single[OF wire_String.wire_codec_axioms]) simp

definition writeDestroyFederationExecutionResponseMessage ::
    "DestroyFederationExecutionResponseMessage writer" where
  "writeDestroyFederationExecutionResponseMessage v =
     writeDestroyFederationExecutionResponseType
         (DestroyFederationExecutionResponseMessage_destroyFederationExecutionResponseType v)"

definition readDestroyFederationExecutionResponseMessage ::
    "DestroyFederationExecutionResponseMessage reader" where
  "readDestroyFederationExecutionResponseMessage =
     dec_bind readDestroyFederationExecutionResponseType
         (\<lambda>destroyFederationExecutionResponseType.
     dec_return \<lparr>
         DestroyFederationExecutionResponseMessage_destroyFederationExecutionResponseType =
             destroyFederationExecutionResponseType\<rparr>)"

lemma codec_DestroyFederationExecutionResponseMessage: "wire_codec
    writeDestroyFederationExecutionResponseMessage readDestroyFederationExecutionResponseMessage"
  unfolding writeDestroyFederationExecutionResponseMessage_def
      readDestroyFederationExecutionResponseMessage_def writes.simps
  by (rule wire_codec.intro, rule rt_single[OF codec_DestroyFederationExecutionResponseType]) simp

definition writeEnumerateFederationExecutionsResponseMessage ::
    "EnumerateFederationExecutionsResponseMessage writer" where
  "writeEnumerateFederationExecutionsResponseMessage v =
     writeFederationExecutionInformationVector
         (EnumerateFederationExecutionsResponseMessage_federationExecutionInformationVector v)"

definition readEnumerateFederationExecutionsResponseMessage ::
    "EnumerateFederationExecutionsResponseMessage reader" where
  "readEnumerateFederationExecutionsResponseMessage =
     dec_bind readFederationExecutionInformationVector
         (\<lambda>federationExecutionInformationVector.
     dec_return \<lparr>
         EnumerateFederationExecutionsResponseMessage_federationExecutionInformationVector =
             federationExecutionInformationVector\<rparr>)"

lemma codec_EnumerateFederationExecutionsResponseMessage: "wire_codec
    writeEnumerateFederationExecutionsResponseMessage
    readEnumerateFederationExecutionsResponseMessage"
  unfolding writeEnumerateFederationExecutionsResponseMessage_def
      readEnumerateFederationExecutionsResponseMessage_def writes.simps
  by (rule wire_codec.intro, rule rt_single[OF codec_FederationExecutionInformationVector]) simp

definition writeInsertFederationExecutionMessage :: "InsertFederationExecutionMessage writer" where
  "writeInsertFederationExecutionMessage v =
     writes [writeFederationHandle (InsertFederationExecutionMessage_federationHandle v),
      writeString (InsertFederationExecutionMessage_federationName v),
      writeString (InsertFederationExecutionMessage_logicalTimeFactoryName v),
      writeConfigurationParameterMap (InsertFederationExecutionMessage_configurationParameterMap
          v)]"

definition readInsertFederationExecutionMessage :: "InsertFederationExecutionMessage reader" where
  "readInsertFederationExecutionMessage =
     dec_bind readFederationHandle (\<lambda>federationHandle.
     dec_bind readString (\<lambda>federationName.
     dec_bind readString (\<lambda>logicalTimeFactoryName.
     dec_bind readConfigurationParameterMap (\<lambda>configurationParameterMap.
     dec_return \<lparr> InsertFederationExecutionMessage_federationHandle = federationHandle,
         InsertFederationExecutionMessage_federationName = federationName,
         InsertFederationExecutionMessage_logicalTimeFactoryName = logicalTimeFactoryName,
         InsertFederationExecutionMessage_configurationParameterMap =
             configurationParameterMap\<rparr>))))"

lemma codec_InsertFederationExecutionMessage: "wire_codec writeInsertFederationExecutionMessage
    readInsertFederationExecutionMessage"
  unfolding writeInsertFederationExecutionMessage_def readInsertFederationExecutionMessage_def
      writes.simps
  by (rule wire_codec.intro, rule rt_first[OF codec_FederationHandle],
      rule rt_next[OF wire_String.wire_codec_axioms],
      rule rt_next[OF wire_String.wire_codec_axioms],
      rule rt_end[OF codec_ConfigurationParameterMap]) simp

definition writeShutdownFederationExecutionMessage :: "ShutdownFederationExecutionMessage writer"
    where
  "writeShutdownFederationExecutionMessage v =
     writeFederationHandle (ShutdownFederationExecutionMessage_federationHandle v)"

definition readShutdownFederationExecutionMessage :: "ShutdownFederationExecutionMessage reader"
    where
  "readShutdownFederationExecutionMessage =
     dec_bind readFederationHandle (\<lambda>federationHandle.
     dec_return \<lparr> ShutdownFederationExecutionMessage_federationHandle =
         federationHandle\<rparr>)"

lemma codec_ShutdownFederationExecutionMessage: "wire_codec writeShutdownFederationExecutionMessage
    readShutdownFederationExecutionMessage"
  unfolding writeShutdownFederationExecutionMessage_def readShutdownFederationExecutionMessage_def
      writes.simps
  by (rule wire_codec.intro, rule rt_single[OF codec_FederationHandle]) simp

definition writeEraseFederationExecutionMessage :: "EraseFederationExecutionMessage writer" where
  "writeEraseFederationExecutionMessage v =
     writeFederationHandle (EraseFederationExecutionMessage_federationHandle v)"

definition readEraseFederationExecutionMessage :: "EraseFederationExecutionMessage reader" where
  "readEraseFederationExecutionMessage =
     dec_bind readFederationHandle (\<lambda>federationHandle.
     dec_return \<lparr> EraseFederationExecutionMessage_federationHandle =
         federationHandle\<rparr>)"

lemma codec_EraseFederationExecutionMessage: "wire_codec writeEraseFederationExecutionMessage
    readEraseFederationExecutionMessage"
  unfolding writeEraseFederationExecutionMessage_def readEraseFederationExecutionMessage_def
      writes.simps
  by (rule wire_codec.intro, rule rt_single[OF codec_FederationHandle]) simp

definition writeReleaseFederationHandleMessage :: "ReleaseFederationHandleMessage writer" where
  "writeReleaseFederationHandleMessage v =
     writeFederationHandle (ReleaseFederationHandleMessage_federationHandle v)"

definition readReleaseFederationHandleMessage :: "ReleaseFederationHandleMessage reader" where
  "readReleaseFederationHandleMessage =
     dec_bind readFederationHandle (\<lambda>federationHandle.
     dec_return \<lparr> ReleaseFederationHandleMessage_federationHandle =
         federationHandle\<rparr>)"

lemma codec_ReleaseFederationHandleMessage: "wire_codec writeReleaseFederationHandleMessage
    readReleaseFederationHandleMessage"
  unfolding writeReleaseFederationHandleMessage_def readReleaseFederationHandleMessage_def
      writes.simps
  by (rule wire_codec.intro, rule rt_single[OF codec_FederationHandle]) simp

definition writeInsertModulesMessage :: "InsertModulesMessage writer" where
  "writeInsertModulesMessage v =
     writes [writeFederationHandle (InsertModulesMessage_federationHandle v),
      writeFOMModuleList (InsertModulesMessage_fOMModuleList v)]"

definition readInsertModulesMessage :: "InsertModulesMessage reader" where
  "readInsertModulesMessage =
     dec_bind readFederationHandle (\<lambda>federationHandle.
     dec_bind readFOMModuleList (\<lambda>fOMModuleList.
     dec_return \<lparr> InsertModulesMessage_federationHandle = federationHandle,
         InsertModulesMessage_fOMModuleList = fOMModuleList\<rparr>))"

lemma codec_InsertModulesMessage: "wire_codec writeInsertModulesMessage readInsertModulesMessage"
  unfolding writeInsertModulesMessage_def readInsertModulesMessage_def writes.simps
  by (rule wire_codec.intro, rule rt_first[OF codec_FederationHandle],
      rule rt_end[OF codec_FOMModuleList]) simp

definition writeInsertModules2Message :: "InsertModules2Message writer" where
  "writeInsertModules2Message v =
     writes [writeFederationHandle (InsertModules2Message_federationHandle v),
      writeFOMModule2List (InsertModules2Message_fOMModule2List v)]"

definition readInsertModules2Message :: "InsertModules2Message reader" where
  "readInsertModules2Message =
     dec_bind readFederationHandle (\<lambda>federationHandle.
     dec_bind readFOMModule2List (\<lambda>fOMModule2List.
     dec_return \<lparr> InsertModules2Message_federationHandle = federationHandle,
         InsertModules2Message_fOMModule2List = fOMModule2List\<rparr>))"

lemma codec_InsertModules2Message: "wire_codec writeInsertModules2Message readInsertModules2Message"
  unfolding writeInsertModules2Message_def readInsertModules2Message_def writes.simps
  by (rule wire_codec.intro, rule rt_first[OF codec_FederationHandle],
      rule rt_end[OF codec_FOMModule2List]) simp

definition writeJoinFederationExecutionRequestMessage :: "JoinFederationExecutionRequestMessage
    writer" where
  "writeJoinFederationExecutionRequestMessage v =
     writes [writeString (JoinFederationExecutionRequestMessage_federationExecution v),
      writeString (JoinFederationExecutionRequestMessage_federateType v),
      writeString (JoinFederationExecutionRequestMessage_federateName v),
      writeFOMStringModuleList (JoinFederationExecutionRequestMessage_fOMStringModuleList v),
      writeConfigurationParameterMap
          (JoinFederationExecutionRequestMessage_configurationParameterMap v),
      writeBool (JoinFederationExecutionRequestMessage_isInternal v)]"

definition readJoinFederationExecutionRequestMessage :: "JoinFederationExecutionRequestMessage
    reader" where
  "readJoinFederationExecutionRequestMessage =
     dec_bind readString (\<lambda>federationExecution.
     dec_bind readString (\<lambda>federateType. dec_bind readString (\<lambda>federateName.
     dec_bind readFOMStringModuleList (\<lambda>fOMStringModuleList.
     dec_bind readConfigurationParameterMap (\<lambda>configurationParameterMap.
     dec_bind readBool (\<lambda>isInternal.
     dec_return \<lparr>
         JoinFederationExecutionRequestMessage_federationExecution = federationExecution,
         JoinFederationExecutionRequestMessage_federateType = federateType,
         JoinFederationExecutionRequestMessage_federateName = federateName,
         JoinFederationExecutionRequestMessage_fOMStringModuleList = fOMStringModuleList,
         JoinFederationExecutionRequestMessage_configurationParameterMap =
             configurationParameterMap,
         JoinFederationExecutionRequestMessage_isInternal = isInternal\<rparr>))))))"

lemma codec_JoinFederationExecutionRequestMessage: "wire_codec
    writeJoinFederationExecutionRequestMessage readJoinFederationExecutionRequestMessage"
  unfolding writeJoinFederationExecutionRequestMessage_def
      readJoinFederationExecutionRequestMessage_def writes.simps
  by (rule wire_codec.intro, rule rt_first[OF wire_String.wire_codec_axioms],
      rule rt_next[OF wire_String.wire_codec_axioms],
      rule rt_next[OF wire_String.wire_codec_axioms], rule rt_next[OF codec_FOMStringModuleList],
      rule rt_next[OF codec_ConfigurationParameterMap],
      rule rt_end[OF wire_Bool.wire_codec_axioms]) simp

definition writeJoinFederationExecutionRequest2Message :: "JoinFederationExecutionRequest2Message
    writer" where
  "writeJoinFederationExecutionRequest2Message v =
     writes [writeString (JoinFederationExecutionRequest2Message_federationExecution v),
      writeString (JoinFederationExecutionRequest2Message_federateType v),
      writeString (JoinFederationExecutionRequest2Message_federateName v),
      writeFOMStringModule2List (JoinFederationExecutionRequest2Message_fOMStringModuleList v),
      writeConfigurationParameterMap
          (JoinFederationExecutionRequest2Message_configurationParameterMap v),
      writeBool (JoinFederationExecutionRequest2Message_isInternal v)]"

definition readJoinFederationExecutionRequest2Message :: "JoinFederationExecutionRequest2Message
    reader" where
  "readJoinFederationExecutionRequest2Message =
     dec_bind readString (\<lambda>federationExecution.
     dec_bind readString (\<lambda>federateType. dec_bind readString (\<lambda>federateName.
     dec_bind readFOMStringModule2List (\<lambda>fOMStringModuleList.
     dec_bind readConfigurationParameterMap (\<lambda>configurationParameterMap.
     dec_bind readBool (\<lambda>isInternal.
     dec_return \<lparr>
         JoinFederationExecutionRequest2Message_federationExecution = federationExecution,
         JoinFederationExecutionRequest2Message_federateType = federateType,
         JoinFederationExecutionRequest2Message_federateName = federateName,
         JoinFederationExecutionRequest2Message_fOMStringModuleList = fOMStringModuleList,
         JoinFederationExecutionRequest2Message_configurationParameterMap =
             configurationParameterMap,
         JoinFederationExecutionRequest2Message_isInternal = isInternal\<rparr>))))))"

lemma codec_JoinFederationExecutionRequest2Message: "wire_codec
    writeJoinFederationExecutionRequest2Message readJoinFederationExecutionRequest2Message"
  unfolding writeJoinFederationExecutionRequest2Message_def
      readJoinFederationExecutionRequest2Message_def writes.simps
  by (rule wire_codec.intro, rule rt_first[OF wire_String.wire_codec_axioms],
      rule rt_next[OF wire_String.wire_codec_axioms],
      rule rt_next[OF wire_String.wire_codec_axioms], rule rt_next[OF codec_FOMStringModule2List],
      rule rt_next[OF codec_ConfigurationParameterMap],
      rule rt_end[OF wire_Bool.wire_codec_axioms]) simp

definition writeJoinFederationExecutionResponseMessage :: "JoinFederationExecutionResponseMessage
    writer" where
  "writeJoinFederationExecutionResponseMessage v =
     writes [writeFederationHandle (JoinFederationExecutionResponseMessage_federationHandle v),
      writeJoinFederationExecutionResponseType
          (JoinFederationExecutionResponseMessage_joinFederationExecutionResponseType v),
      writeString (JoinFederationExecutionResponseMessage_exceptionString v),
      writeFederateHandle (JoinFederationExecutionResponseMessage_federateHandle v),
      writeString (JoinFederationExecutionResponseMessage_federateType v),
      writeString (JoinFederationExecutionResponseMessage_federateName v)]"

definition readJoinFederationExecutionResponseMessage :: "JoinFederationExecutionResponseMessage
    reader" where
  "readJoinFederationExecutionResponseMessage =
     dec_bind readFederationHandle (\<lambda>federationHandle.
     dec_bind readJoinFederationExecutionResponseType (\<lambda>joinFederationExecutionResponseType.
     dec_bind readString (\<lambda>exceptionString.
     dec_bind readFederateHandle (\<lambda>federateHandle.
     dec_bind readString (\<lambda>federateType. dec_bind readString (\<lambda>federateName.
     dec_return \<lparr>
         JoinFederationExecutionResponseMessage_federationHandle = federationHandle,
         JoinFederationExecutionResponseMessage_joinFederationExecutionResponseType =
             joinFederationExecutionResponseType,
         JoinFederationExecutionResponseMessage_exceptionString = exceptionString,
         JoinFederationExecutionResponseMessage_federateHandle = federateHandle,
         JoinFederationExecutionResponseMessage_federateType = federateType,
         JoinFederationExecutionResponseMessage_federateName = federateName\<rparr>))))))"

lemma codec_JoinFederationExecutionResponseMessage: "wire_codec
    writeJoinFederationExecutionResponseMessage readJoinFederationExecutionResponseMessage"
  unfolding writeJoinFederationExecutionResponseMessage_def
      readJoinFederationExecutionResponseMessage_def writes.simps
  by (rule wire_codec.intro, rule rt_first[OF codec_FederationHandle],
      rule rt_next[OF codec_JoinFederationExecutionResponseType],
      rule rt_next[OF wire_String.wire_codec_axioms], rule rt_next[OF codec_FederateHandle],
      rule rt_next[OF wire_String.wire_codec_axioms],
      rule rt_end[OF wire_String.wire_codec_axioms]) simp

definition writeResignFederationExecutionRequestMessage :: "ResignFederationExecutionRequestMessage
    writer" where
  "writeResignFederationExecutionRequestMessage v =
     writes [writeFederationHandle (ResignFederationExecutionRequestMessage_federationHandle v),
      writeFederateHandle (ResignFederationExecutionRequestMessage_federateHandle v)]"

definition readResignFederationExecutionRequestMessage :: "ResignFederationExecutionRequestMessage
    reader" where
  "readResignFederationExecutionRequestMessage =
     dec_bind readFederationHandle (\<lambda>federationHandle.
     dec_bind readFederateHandle (\<lambda>federateHandle.
     dec_return \<lparr>
         ResignFederationExecutionRequestMessage_federationHandle = federationHandle,
         ResignFederationExecutionRequestMessage_federateHandle = federateHandle\<rparr>))"

lemma codec_ResignFederationExecutionRequestMessage: "wire_codec
    writeResignFederationExecutionRequestMessage readResignFederationExecutionRequestMessage"
  unfolding writeResignFederationExecutionRequestMessage_def
      readResignFederationExecutionRequestMessage_def writes.simps
  by (rule wire_codec.intro, rule rt_first[OF codec_FederationHandle],
      rule rt_end[OF codec_FederateHandle]) simp

definition writeJoinFederateNotifyMessage :: "JoinFederateNotifyMessage writer" where
  "writeJoinFederateNotifyMessage v =
     writes [writeFederationHandle (JoinFederateNotifyMessage_federationHandle v),
      writeFederateHandle (JoinFederateNotifyMessage_federateHandle v),
      writeString (JoinFederateNotifyMessage_federateType v),
      writeString (JoinFederateNotifyMessage_federateName v),
      writeBool (JoinFederateNotifyMessage_isInternal v)]"

definition readJoinFederateNotifyMessage :: "JoinFederateNotifyMessage reader" where
  "readJoinFederateNotifyMessage =
     dec_bind readFederationHandle (\<lambda>federationHandle.
     dec_bind readFederateHandle (\<lambda>federateHandle.
     dec_bind readString (\<lambda>federateType. dec_bind readString (\<lambda>federateName.
     dec_bind readBool (\<lambda>isInternal.
     dec_return \<lparr> JoinFederateNotifyMessage_federationHandle = federationHandle,
         JoinFederateNotifyMessage_federateHandle = federateHandle,
         JoinFederateNotifyMessage_federateType = federateType,
         JoinFederateNotifyMessage_federateName = federateName,
         JoinFederateNotifyMessage_isInternal = isInternal\<rparr>)))))"

lemma codec_JoinFederateNotifyMessage: "wire_codec writeJoinFederateNotifyMessage
    readJoinFederateNotifyMessage"
  unfolding writeJoinFederateNotifyMessage_def readJoinFederateNotifyMessage_def writes.simps
  by (rule wire_codec.intro, rule rt_first[OF codec_FederationHandle],
      rule rt_next[OF codec_FederateHandle], rule rt_next[OF wire_String.wire_codec_axioms],
      rule rt_next[OF wire_String.wire_codec_axioms], rule rt_end[OF wire_Bool.wire_codec_axioms])
          simp

definition writeResignFederateNotifyMessage :: "ResignFederateNotifyMessage writer" where
  "writeResignFederateNotifyMessage v =
     writes [writeFederationHandle (ResignFederateNotifyMessage_federationHandle v),
      writeFederateHandle (ResignFederateNotifyMessage_federateHandle v)]"

definition readResignFederateNotifyMessage :: "ResignFederateNotifyMessage reader" where
  "readResignFederateNotifyMessage =
     dec_bind readFederationHandle (\<lambda>federationHandle.
     dec_bind readFederateHandle (\<lambda>federateHandle.
     dec_return \<lparr> ResignFederateNotifyMessage_federationHandle = federationHandle,
         ResignFederateNotifyMessage_federateHandle = federateHandle\<rparr>))"

lemma codec_ResignFederateNotifyMessage: "wire_codec writeResignFederateNotifyMessage
    readResignFederateNotifyMessage"
  unfolding writeResignFederateNotifyMessage_def readResignFederateNotifyMessage_def writes.simps
  by (rule wire_codec.intro, rule rt_first[OF codec_FederationHandle],
      rule rt_end[OF codec_FederateHandle]) simp

definition writeChangeAutomaticResignDirectiveMessage :: "ChangeAutomaticResignDirectiveMessage
    writer" where
  "writeChangeAutomaticResignDirectiveMessage v =
     writes [writeFederationHandle (ChangeAutomaticResignDirectiveMessage_federationHandle v),
      writeFederateHandle (ChangeAutomaticResignDirectiveMessage_federateHandle v),
      writeResignAction (ChangeAutomaticResignDirectiveMessage_resignAction v)]"

definition readChangeAutomaticResignDirectiveMessage :: "ChangeAutomaticResignDirectiveMessage
    reader" where
  "readChangeAutomaticResignDirectiveMessage =
     dec_bind readFederationHandle (\<lambda>federationHandle.
     dec_bind readFederateHandle (\<lambda>federateHandle.
     dec_bind readResignAction (\<lambda>resignAction.
     dec_return \<lparr>
         ChangeAutomaticResignDirectiveMessage_federationHandle = federationHandle,
         ChangeAutomaticResignDirectiveMessage_federateHandle = federateHandle,
         ChangeAutomaticResignDirectiveMessage_resignAction = resignAction\<rparr>)))"

lemma codec_ChangeAutomaticResignDirectiveMessage: "wire_codec
    writeChangeAutomaticResignDirectiveMessage readChangeAutomaticResignDirectiveMessage"
  unfolding writeChangeAutomaticResignDirectiveMessage_def
      readChangeAutomaticResignDirectiveMessage_def writes.simps
  by (rule wire_codec.intro, rule rt_first[OF codec_FederationHandle],
      rule rt_next[OF codec_FederateHandle], rule rt_end[OF codec_ResignAction]) simp

definition writeRegisterFederationSynchronizationPointMessage ::
    "RegisterFederationSynchronizationPointMessage writer" where
  "writeRegisterFederationSynchronizationPointMessage v =
     writes [
      writeFederationHandle (RegisterFederationSynchronizationPointMessage_federationHandle v),
      writeFederateHandle (RegisterFederationSynchronizationPointMessage_federateHandle v),
      writeString (RegisterFederationSynchronizationPointMessage_label v),
      writeVariableLengthData (RegisterFederationSynchronizationPointMessage_tag v),
      writeFederateHandleVector (RegisterFederationSynchronizationPointMessage_federateHandleVector
          v)]"

definition readRegisterFederationSynchronizationPointMessage ::
    "RegisterFederationSynchronizationPointMessage reader" where
  "readRegisterFederationSynchronizationPointMessage =
     dec_bind readFederationHandle (\<lambda>federationHandle.
     dec_bind readFederateHandle (\<lambda>federateHandle. dec_bind readString (\<lambda>label.
     dec_bind readVariableLengthData (\<lambda>tag.
     dec_bind readFederateHandleVector (\<lambda>federateHandleVector.
     dec_return \<lparr>
         RegisterFederationSynchronizationPointMessage_federationHandle = federationHandle,
         RegisterFederationSynchronizationPointMessage_federateHandle = federateHandle,
         RegisterFederationSynchronizationPointMessage_label = label,
         RegisterFederationSynchronizationPointMessage_tag = tag,
         RegisterFederationSynchronizationPointMessage_federateHandleVector =
             federateHandleVector\<rparr>)))))"

definition readPayloadRegisterFederationSynchronizationPointMessage ::
    "RegisterFederationSynchronizationPointMessage \<Rightarrow>
    (RegisterFederationSynchronizationPointMessage, vld list) decoder" where
  "readPayloadRegisterFederationSynchronizationPointMessage v =
     dec_bind (readPayloadVariableLengthData (RegisterFederationSynchronizationPointMessage_tag v))
         (\<lambda>tag.
     dec_return (v\<lparr>RegisterFederationSynchronizationPointMessage_tag := tag\<rparr>))"

definition payload_RegisterFederationSynchronizationPointMessage ::
    "RegisterFederationSynchronizationPointMessage \<Rightarrow> vld list" where
  "payload_RegisterFederationSynchronizationPointMessage v = vld_payload
      (RegisterFederationSynchronizationPointMessage_tag v)"

definition hollow_RegisterFederationSynchronizationPointMessage ::
    "RegisterFederationSynchronizationPointMessage \<Rightarrow>
    RegisterFederationSynchronizationPointMessage" where
  "hollow_RegisterFederationSynchronizationPointMessage v =
     v\<lparr>RegisterFederationSynchronizationPointMessage_tag := vld_hollow
         (RegisterFederationSynchronizationPointMessage_tag v)\<rparr>"

lemma codec_RegisterFederationSynchronizationPointMessage: "payload_codec
    writeRegisterFederationSynchronizationPointMessage
    readRegisterFederationSynchronizationPointMessage
    payload_RegisterFederationSynchronizationPointMessage
    hollow_RegisterFederationSynchronizationPointMessage
    readPayloadRegisterFederationSynchronizationPointMessage"
proof
  fix v :: RegisterFederationSynchronizationPointMessage
  have e: "payload_RegisterFederationSynchronizationPointMessage v = vld_payload
      (RegisterFederationSynchronizationPointMessage_tag v) @ []"
    by (simp add: payload_RegisterFederationSynchronizationPointMessage_def)
  show "rt 1 (writeRegisterFederationSynchronizationPointMessage v)
      readRegisterFederationSynchronizationPointMessage
      (payload_RegisterFederationSynchronizationPointMessage v)
      (hollow_RegisterFederationSynchronizationPointMessage v)"
    unfolding writeRegisterFederationSynchronizationPointMessage_def
        readRegisterFederationSynchronizationPointMessage_def writes.simps e
    by (rule rt_first[OF codec_FederationHandle], rule rt_next[OF codec_FederateHandle],
      rule rt_next[OF wire_String.wire_codec_axioms],
      rule rt_pnext[OF wire_VariableLengthData.payload_codec_axioms],
      rule rt_end[OF codec_FederateHandleVector]) (simp add:
          hollow_RegisterFederationSynchronizationPointMessage_def)
  show "readPayloadRegisterFederationSynchronizationPointMessage
      (hollow_RegisterFederationSynchronizationPointMessage v)
      (payload_RegisterFederationSynchronizationPointMessage v @ rest) = Inr (v, rest)" for rest
    by (simp add: readPayloadRegisterFederationSynchronizationPointMessage_def
        hollow_RegisterFederationSynchronizationPointMessage_def
        payload_RegisterFederationSynchronizationPointMessage_def dec_bind_def dec_return_def
        payload_facts)
  show "payload_RegisterFederationSynchronizationPointMessage v = [] \<Longrightarrow>
      hollow_RegisterFederationSynchronizationPointMessage v = v"
    by (simp add: payload_RegisterFederationSynchronizationPointMessage_def
        hollow_RegisterFederationSynchronizationPointMessage_def no_payload_facts)
  show "p \<in> set (payload_RegisterFederationSynchronizationPointMessage v) \<Longrightarrow> p
      \<noteq> []" for p
    by (auto simp: payload_RegisterFederationSynchronizationPointMessage_def dest: nonempty_facts)
qed

definition writeRegisterFederationSynchronizationPointResponseMessage ::
    "RegisterFederationSynchronizationPointResponseMessage writer" where
  "writeRegisterFederationSynchronizationPointResponseMessage v =
     writes [
      writeFederationHandle (RegisterFederationSynchronizationPointResponseMessage_federationHandle
          v),
      writeFederateHandle (RegisterFederationSynchronizationPointResponseMessage_federateHandle v),
      writeString (RegisterFederationSynchronizationPointResponseMessage_label v),
      writeRegisterFederationSynchronizationPointResponseType
          (RegisterFederationSynchronizationPointResponseMessage_registerFederationSynchronizationPointResponseType v)]"

definition readRegisterFederationSynchronizationPointResponseMessage ::
    "RegisterFederationSynchronizationPointResponseMessage reader" where
  "readRegisterFederationSynchronizationPointResponseMessage =
     dec_bind readFederationHandle (\<lambda>federationHandle.
     dec_bind readFederateHandle (\<lambda>federateHandle. dec_bind readString (\<lambda>label.
     dec_bind readRegisterFederationSynchronizationPointResponseType
         (\<lambda>registerFederationSynchronizationPointResponseType.
     dec_return \<lparr>
         RegisterFederationSynchronizationPointResponseMessage_federationHandle = federationHandle,
         RegisterFederationSynchronizationPointResponseMessage_federateHandle = federateHandle,
         RegisterFederationSynchronizationPointResponseMessage_label = label,
         RegisterFederationSynchronizationPointResponseMessage_registerFederationSynchronizationPointResponseType = registerFederationSynchronizationPointResponseType\<rparr>))))"

lemma codec_RegisterFederationSynchronizationPointResponseMessage: "wire_codec
    writeRegisterFederationSynchronizationPointResponseMessage
    readRegisterFederationSynchronizationPointResponseMessage"
  unfolding writeRegisterFederationSynchronizationPointResponseMessage_def
      readRegisterFederationSynchronizationPointResponseMessage_def writes.simps
  by (rule wire_codec.intro, rule rt_first[OF codec_FederationHandle],
      rule rt_next[OF codec_FederateHandle], rule rt_next[OF wire_String.wire_codec_axioms],
      rule rt_end[OF codec_RegisterFederationSynchronizationPointResponseType]) simp

definition writeAnnounceSynchronizationPointMessage :: "AnnounceSynchronizationPointMessage writer"
    where
  "writeAnnounceSynchronizationPointMessage v =
     writes [writeFederationHandle (AnnounceSynchronizationPointMessage_federationHandle v),
      writeString (AnnounceSynchronizationPointMessage_label v),
      writeVariableLengthData (AnnounceSynchronizationPointMessage_tag v),
      writeBool (AnnounceSynchronizationPointMessage_addJoiningFederates v),
      writeFederateHandleVector (AnnounceSynchronizationPointMessage_federateHandleVector v)]"

definition readAnnounceSynchronizationPointMessage :: "AnnounceSynchronizationPointMessage reader"
    where
  "readAnnounceSynchronizationPointMessage =
     dec_bind readFederationHandle (\<lambda>federationHandle.
     dec_bind readString (\<lambda>label. dec_bind readVariableLengthData (\<lambda>tag.
     dec_bind readBool (\<lambda>addJoiningFederates.
     dec_bind readFederateHandleVector (\<lambda>federateHandleVector.
     dec_return \<lparr> AnnounceSynchronizationPointMessage_federationHandle = federationHandle,
         AnnounceSynchronizationPointMessage_label = label,
         AnnounceSynchronizationPointMessage_tag = tag,
         AnnounceSynchronizationPointMessage_addJoiningFederates = addJoiningFederates,
         AnnounceSynchronizationPointMessage_federateHandleVector =
             federateHandleVector\<rparr>)))))"

definition readPayloadAnnounceSynchronizationPointMessage :: "AnnounceSynchronizationPointMessage
    \<Rightarrow> (AnnounceSynchronizationPointMessage, vld list) decoder" where
  "readPayloadAnnounceSynchronizationPointMessage v =
     dec_bind (readPayloadVariableLengthData (AnnounceSynchronizationPointMessage_tag v))
         (\<lambda>tag.
     dec_return (v\<lparr>AnnounceSynchronizationPointMessage_tag := tag\<rparr>))"

definition payload_AnnounceSynchronizationPointMessage :: "AnnounceSynchronizationPointMessage
    \<Rightarrow> vld list" where
  "payload_AnnounceSynchronizationPointMessage v = vld_payload
      (AnnounceSynchronizationPointMessage_tag v)"

definition hollow_AnnounceSynchronizationPointMessage :: "AnnounceSynchronizationPointMessage
    \<Rightarrow> AnnounceSynchronizationPointMessage" where
  "hollow_AnnounceSynchronizationPointMessage v =
     v\<lparr>AnnounceSynchronizationPointMessage_tag := vld_hollow
         (AnnounceSynchronizationPointMessage_tag v)\<rparr>"

lemma codec_AnnounceSynchronizationPointMessage: "payload_codec
    writeAnnounceSynchronizationPointMessage readAnnounceSynchronizationPointMessage
    payload_AnnounceSynchronizationPointMessage hollow_AnnounceSynchronizationPointMessage
    readPayloadAnnounceSynchronizationPointMessage"
proof
  fix v :: AnnounceSynchronizationPointMessage
  have e: "payload_AnnounceSynchronizationPointMessage v = vld_payload
      (AnnounceSynchronizationPointMessage_tag v) @ []"
    by (simp add: payload_AnnounceSynchronizationPointMessage_def)
  show "rt 1 (writeAnnounceSynchronizationPointMessage v) readAnnounceSynchronizationPointMessage
      (payload_AnnounceSynchronizationPointMessage v) (hollow_AnnounceSynchronizationPointMessage
      v)"
    unfolding writeAnnounceSynchronizationPointMessage_def
        readAnnounceSynchronizationPointMessage_def writes.simps e
    by (rule rt_first[OF codec_FederationHandle], rule rt_next[OF wire_String.wire_codec_axioms],
      rule rt_pnext[OF wire_VariableLengthData.payload_codec_axioms],
      rule rt_next[OF wire_Bool.wire_codec_axioms], rule rt_end[OF codec_FederateHandleVector])
          (simp add: hollow_AnnounceSynchronizationPointMessage_def)
  show "readPayloadAnnounceSynchronizationPointMessage (hollow_AnnounceSynchronizationPointMessage
      v) (payload_AnnounceSynchronizationPointMessage v @ rest) = Inr (v, rest)" for rest
    by (simp add: readPayloadAnnounceSynchronizationPointMessage_def
        hollow_AnnounceSynchronizationPointMessage_def
        payload_AnnounceSynchronizationPointMessage_def dec_bind_def dec_return_def
        payload_facts)
  show "payload_AnnounceSynchronizationPointMessage v = [] \<Longrightarrow>
      hollow_AnnounceSynchronizationPointMessage v = v"
    by (simp add: payload_AnnounceSynchronizationPointMessage_def
        hollow_AnnounceSynchronizationPointMessage_def no_payload_facts)
  show "p \<in> set (payload_AnnounceSynchronizationPointMessage v) \<Longrightarrow> p \<noteq>
      []" for p
    by (auto simp: payload_AnnounceSynchronizationPointMessage_def dest: nonempty_facts)
qed

definition writeSynchronizationPointAchievedMessage :: "SynchronizationPointAchievedMessage writer"
    where
  "writeSynchronizationPointAchievedMessage v =
     writes [writeFederationHandle (SynchronizationPointAchievedMessage_federationHandle v),
      writeString (SynchronizationPointAchievedMessage_label v),
      writeFederateHandleBoolPairVector
          (SynchronizationPointAchievedMessage_federateHandleBoolPairVector v)]"

definition readSynchronizationPointAchievedMessage :: "SynchronizationPointAchievedMessage reader"
    where
  "readSynchronizationPointAchievedMessage =
     dec_bind readFederationHandle (\<lambda>federationHandle.
     dec_bind readString (\<lambda>label.
     dec_bind readFederateHandleBoolPairVector (\<lambda>federateHandleBoolPairVector.
     dec_return \<lparr> SynchronizationPointAchievedMessage_federationHandle = federationHandle,
         SynchronizationPointAchievedMessage_label = label,
         SynchronizationPointAchievedMessage_federateHandleBoolPairVector =
             federateHandleBoolPairVector\<rparr>)))"

lemma codec_SynchronizationPointAchievedMessage: "wire_codec
    writeSynchronizationPointAchievedMessage readSynchronizationPointAchievedMessage"
  unfolding writeSynchronizationPointAchievedMessage_def
      readSynchronizationPointAchievedMessage_def writes.simps
  by (rule wire_codec.intro, rule rt_first[OF codec_FederationHandle],
      rule rt_next[OF wire_String.wire_codec_axioms],
      rule rt_end[OF codec_FederateHandleBoolPairVector]) simp

definition writeFederationSynchronizedMessage :: "FederationSynchronizedMessage writer" where
  "writeFederationSynchronizedMessage v =
     writes [writeFederationHandle (FederationSynchronizedMessage_federationHandle v),
      writeString (FederationSynchronizedMessage_label v),
      writeFederateHandleBoolPairVector (FederationSynchronizedMessage_federateHandleBoolPairVector
          v)]"

definition readFederationSynchronizedMessage :: "FederationSynchronizedMessage reader" where
  "readFederationSynchronizedMessage =
     dec_bind readFederationHandle (\<lambda>federationHandle.
     dec_bind readString (\<lambda>label.
     dec_bind readFederateHandleBoolPairVector (\<lambda>federateHandleBoolPairVector.
     dec_return \<lparr> FederationSynchronizedMessage_federationHandle = federationHandle,
         FederationSynchronizedMessage_label = label,
         FederationSynchronizedMessage_federateHandleBoolPairVector =
             federateHandleBoolPairVector\<rparr>)))"

lemma codec_FederationSynchronizedMessage: "wire_codec writeFederationSynchronizedMessage
    readFederationSynchronizedMessage"
  unfolding writeFederationSynchronizedMessage_def readFederationSynchronizedMessage_def
      writes.simps
  by (rule wire_codec.intro, rule rt_first[OF codec_FederationHandle],
      rule rt_next[OF wire_String.wire_codec_axioms],
      rule rt_end[OF codec_FederateHandleBoolPairVector]) simp

definition writeEnableTimeRegulationRequestMessage :: "EnableTimeRegulationRequestMessage writer"
    where
  "writeEnableTimeRegulationRequestMessage v =
     writes [writeFederationHandle (EnableTimeRegulationRequestMessage_federationHandle v),
      writeFederateHandle (EnableTimeRegulationRequestMessage_federateHandle v),
      writeVariableLengthData (EnableTimeRegulationRequestMessage_timeStamp v),
      writeUnsigned (EnableTimeRegulationRequestMessage_commitId v)]"

definition readEnableTimeRegulationRequestMessage :: "EnableTimeRegulationRequestMessage reader"
    where
  "readEnableTimeRegulationRequestMessage =
     dec_bind readFederationHandle (\<lambda>federationHandle.
     dec_bind readFederateHandle (\<lambda>federateHandle.
     dec_bind readVariableLengthData (\<lambda>timeStamp.
     dec_bind readUnsigned (\<lambda>commitId.
     dec_return \<lparr> EnableTimeRegulationRequestMessage_federationHandle = federationHandle,
         EnableTimeRegulationRequestMessage_federateHandle = federateHandle,
         EnableTimeRegulationRequestMessage_timeStamp = timeStamp,
         EnableTimeRegulationRequestMessage_commitId = commitId\<rparr>))))"

definition readPayloadEnableTimeRegulationRequestMessage :: "EnableTimeRegulationRequestMessage
    \<Rightarrow> (EnableTimeRegulationRequestMessage, vld list) decoder" where
  "readPayloadEnableTimeRegulationRequestMessage v =
     dec_bind (readPayloadVariableLengthData (EnableTimeRegulationRequestMessage_timeStamp v))
         (\<lambda>timeStamp.
     dec_return (v\<lparr>EnableTimeRegulationRequestMessage_timeStamp := timeStamp\<rparr>))"

definition payload_EnableTimeRegulationRequestMessage :: "EnableTimeRegulationRequestMessage
    \<Rightarrow> vld list" where
  "payload_EnableTimeRegulationRequestMessage v = vld_payload
      (EnableTimeRegulationRequestMessage_timeStamp v)"

definition hollow_EnableTimeRegulationRequestMessage :: "EnableTimeRegulationRequestMessage
    \<Rightarrow> EnableTimeRegulationRequestMessage" where
  "hollow_EnableTimeRegulationRequestMessage v =
     v\<lparr>EnableTimeRegulationRequestMessage_timeStamp := vld_hollow
         (EnableTimeRegulationRequestMessage_timeStamp v)\<rparr>"

lemma codec_EnableTimeRegulationRequestMessage: "payload_codec
    writeEnableTimeRegulationRequestMessage readEnableTimeRegulationRequestMessage
    payload_EnableTimeRegulationRequestMessage hollow_EnableTimeRegulationRequestMessage
    readPayloadEnableTimeRegulationRequestMessage"
proof
  fix v :: EnableTimeRegulationRequestMessage
  have e: "payload_EnableTimeRegulationRequestMessage v = vld_payload
      (EnableTimeRegulationRequestMessage_timeStamp v) @ []"
    by (simp add: payload_EnableTimeRegulationRequestMessage_def)
  show "rt 1 (writeEnableTimeRegulationRequestMessage v) readEnableTimeRegulationRequestMessage
      (payload_EnableTimeRegulationRequestMessage v) (hollow_EnableTimeRegulationRequestMessage v)"
    unfolding writeEnableTimeRegulationRequestMessage_def
        readEnableTimeRegulationRequestMessage_def writes.simps e
    by (rule rt_first[OF codec_FederationHandle], rule rt_next[OF codec_FederateHandle],
      rule rt_pnext[OF wire_VariableLengthData.payload_codec_axioms],
      rule rt_end[OF codec_Unsigned]) (simp add: hollow_EnableTimeRegulationRequestMessage_def)
  show "readPayloadEnableTimeRegulationRequestMessage (hollow_EnableTimeRegulationRequestMessage v)
      (payload_EnableTimeRegulationRequestMessage v @ rest) = Inr (v, rest)" for rest
    by (simp add: readPayloadEnableTimeRegulationRequestMessage_def
        hollow_EnableTimeRegulationRequestMessage_def
        payload_EnableTimeRegulationRequestMessage_def dec_bind_def dec_return_def
        payload_facts)
  show "payload_EnableTimeRegulationRequestMessage v = [] \<Longrightarrow>
      hollow_EnableTimeRegulationRequestMessage v = v"
    by (simp add: payload_EnableTimeRegulationRequestMessage_def
        hollow_EnableTimeRegulationRequestMessage_def no_payload_facts)
  show "p \<in> set (payload_EnableTimeRegulationRequestMessage v) \<Longrightarrow> p \<noteq> []"
      for p
    by (auto simp: payload_EnableTimeRegulationRequestMessage_def dest: nonempty_facts)
qed

definition writeEnableTimeRegulationResponseMessage :: "EnableTimeRegulationResponseMessage writer"
    where
  "writeEnableTimeRegulationResponseMessage v =
     writes [writeFederationHandle (EnableTimeRegulationResponseMessage_federationHandle v),
      writeFederateHandle (EnableTimeRegulationResponseMessage_federateHandle v),
      writeFederateHandle (EnableTimeRegulationResponseMessage_respondingFederateHandle v),
      writeBool (EnableTimeRegulationResponseMessage_timeStampValid v),
      writeVariableLengthData (EnableTimeRegulationResponseMessage_timeStamp v)]"

definition readEnableTimeRegulationResponseMessage :: "EnableTimeRegulationResponseMessage reader"
    where
  "readEnableTimeRegulationResponseMessage =
     dec_bind readFederationHandle (\<lambda>federationHandle.
     dec_bind readFederateHandle (\<lambda>federateHandle.
     dec_bind readFederateHandle (\<lambda>respondingFederateHandle.
     dec_bind readBool (\<lambda>timeStampValid.
     dec_bind readVariableLengthData (\<lambda>timeStamp.
     dec_return \<lparr> EnableTimeRegulationResponseMessage_federationHandle = federationHandle,
         EnableTimeRegulationResponseMessage_federateHandle = federateHandle,
         EnableTimeRegulationResponseMessage_respondingFederateHandle = respondingFederateHandle,
         EnableTimeRegulationResponseMessage_timeStampValid = timeStampValid,
         EnableTimeRegulationResponseMessage_timeStamp = timeStamp\<rparr>)))))"

definition readPayloadEnableTimeRegulationResponseMessage :: "EnableTimeRegulationResponseMessage
    \<Rightarrow> (EnableTimeRegulationResponseMessage, vld list) decoder" where
  "readPayloadEnableTimeRegulationResponseMessage v =
     dec_bind (readPayloadVariableLengthData (EnableTimeRegulationResponseMessage_timeStamp v))
         (\<lambda>timeStamp.
     dec_return (v\<lparr>EnableTimeRegulationResponseMessage_timeStamp := timeStamp\<rparr>))"

definition payload_EnableTimeRegulationResponseMessage :: "EnableTimeRegulationResponseMessage
    \<Rightarrow> vld list" where
  "payload_EnableTimeRegulationResponseMessage v = vld_payload
      (EnableTimeRegulationResponseMessage_timeStamp v)"

definition hollow_EnableTimeRegulationResponseMessage :: "EnableTimeRegulationResponseMessage
    \<Rightarrow> EnableTimeRegulationResponseMessage" where
  "hollow_EnableTimeRegulationResponseMessage v =
     v\<lparr>EnableTimeRegulationResponseMessage_timeStamp := vld_hollow
         (EnableTimeRegulationResponseMessage_timeStamp v)\<rparr>"

lemma codec_EnableTimeRegulationResponseMessage: "payload_codec
    writeEnableTimeRegulationResponseMessage readEnableTimeRegulationResponseMessage
    payload_EnableTimeRegulationResponseMessage hollow_EnableTimeRegulationResponseMessage
    readPayloadEnableTimeRegulationResponseMessage"
proof
  fix v :: EnableTimeRegulationResponseMessage
  have e: "payload_EnableTimeRegulationResponseMessage v = vld_payload
      (EnableTimeRegulationResponseMessage_timeStamp v)"
    by (simp add: payload_EnableTimeRegulationResponseMessage_def)
  show "rt 1 (writeEnableTimeRegulationResponseMessage v) readEnableTimeRegulationResponseMessage
      (payload_EnableTimeRegulationResponseMessage v) (hollow_EnableTimeRegulationResponseMessage
      v)"
    unfolding writeEnableTimeRegulationResponseMessage_def
        readEnableTimeRegulationResponseMessage_def writes.simps e
    by (rule rt_first[OF codec_FederationHandle], rule rt_next[OF codec_FederateHandle],
      rule rt_next[OF codec_FederateHandle], rule rt_next[OF wire_Bool.wire_codec_axioms],
      rule rt_pend[OF wire_VariableLengthData.payload_codec_axioms]) (simp add:
          hollow_EnableTimeRegulationResponseMessage_def)
  show "readPayloadEnableTimeRegulationResponseMessage (hollow_EnableTimeRegulationResponseMessage
      v) (payload_EnableTimeRegulationResponseMessage v @ rest) = Inr (v, rest)" for rest
    by (simp add: readPayloadEnableTimeRegulationResponseMessage_def
        hollow_EnableTimeRegulationResponseMessage_def
        payload_EnableTimeRegulationResponseMessage_def dec_bind_def dec_return_def
        payload_facts)
  show "payload_EnableTimeRegulationResponseMessage v = [] \<Longrightarrow>
      hollow_EnableTimeRegulationResponseMessage v = v"
    by (simp add: payload_EnableTimeRegulationResponseMessage_def
        hollow_EnableTimeRegulationResponseMessage_def no_payload_facts)
  show "p \<in> set (payload_EnableTimeRegulationResponseMessage v) \<Longrightarrow> p \<noteq>
      []" for p
    by (auto simp: payload_EnableTimeRegulationResponseMessage_def dest: nonempty_facts)
qed

definition writeDisableTimeRegulationRequestMessage :: "DisableTimeRegulationRequestMessage writer"
    where
  "writeDisableTimeRegulationRequestMessage v =
     writes [writeFederationHandle (DisableTimeRegulationRequestMessage_federationHandle v),
      writeFederateHandle (DisableTimeRegulationRequestMessage_federateHandle v)]"

definition readDisableTimeRegulationRequestMessage :: "DisableTimeRegulationRequestMessage reader"
    where
  "readDisableTimeRegulationRequestMessage =
     dec_bind readFederationHandle (\<lambda>federationHandle.
     dec_bind readFederateHandle (\<lambda>federateHandle.
     dec_return \<lparr> DisableTimeRegulationRequestMessage_federationHandle = federationHandle,
         DisableTimeRegulationRequestMessage_federateHandle = federateHandle\<rparr>))"

lemma codec_DisableTimeRegulationRequestMessage: "wire_codec
    writeDisableTimeRegulationRequestMessage readDisableTimeRegulationRequestMessage"
  unfolding writeDisableTimeRegulationRequestMessage_def
      readDisableTimeRegulationRequestMessage_def writes.simps
  by (rule wire_codec.intro, rule rt_first[OF codec_FederationHandle],
      rule rt_end[OF codec_FederateHandle]) simp

definition writeEnableTimeConstrainedNotifyMessage :: "EnableTimeConstrainedNotifyMessage writer"
    where
  "writeEnableTimeConstrainedNotifyMessage v =
     writes [writeFederationHandle (EnableTimeConstrainedNotifyMessage_federationHandle v),
      writeFederateHandle (EnableTimeConstrainedNotifyMessage_federateHandle v)]"

definition readEnableTimeConstrainedNotifyMessage :: "EnableTimeConstrainedNotifyMessage reader"
    where
  "readEnableTimeConstrainedNotifyMessage =
     dec_bind readFederationHandle (\<lambda>federationHandle.
     dec_bind readFederateHandle (\<lambda>federateHandle.
     dec_return \<lparr> EnableTimeConstrainedNotifyMessage_federationHandle = federationHandle,
         EnableTimeConstrainedNotifyMessage_federateHandle = federateHandle\<rparr>))"

lemma codec_EnableTimeConstrainedNotifyMessage: "wire_codec writeEnableTimeConstrainedNotifyMessage
    readEnableTimeConstrainedNotifyMessage"
  unfolding writeEnableTimeConstrainedNotifyMessage_def readEnableTimeConstrainedNotifyMessage_def
      writes.simps
  by (rule wire_codec.intro, rule rt_first[OF codec_FederationHandle],
      rule rt_end[OF codec_FederateHandle]) simp

definition writeDisableTimeConstrainedNotifyMessage :: "DisableTimeConstrainedNotifyMessage writer"
    where
  "writeDisableTimeConstrainedNotifyMessage v =
     writes [writeFederationHandle (DisableTimeConstrainedNotifyMessage_federationHandle v),
      writeFederateHandle (DisableTimeConstrainedNotifyMessage_federateHandle v)]"

definition readDisableTimeConstrainedNotifyMessage :: "DisableTimeConstrainedNotifyMessage reader"
    where
  "readDisableTimeConstrainedNotifyMessage =
     dec_bind readFederationHandle (\<lambda>federationHandle.
     dec_bind readFederateHandle (\<lambda>federateHandle.
     dec_return \<lparr> DisableTimeConstrainedNotifyMessage_federationHandle = federationHandle,
         DisableTimeConstrainedNotifyMessage_federateHandle = federateHandle\<rparr>))"

lemma codec_DisableTimeConstrainedNotifyMessage: "wire_codec
    writeDisableTimeConstrainedNotifyMessage readDisableTimeConstrainedNotifyMessage"
  unfolding writeDisableTimeConstrainedNotifyMessage_def
      readDisableTimeConstrainedNotifyMessage_def writes.simps
  by (rule wire_codec.intro, rule rt_first[OF codec_FederationHandle],
      rule rt_end[OF codec_FederateHandle]) simp

definition writeCommitLowerBoundTimeStampMessage :: "CommitLowerBoundTimeStampMessage writer" where
  "writeCommitLowerBoundTimeStampMessage v =
     writes [writeFederationHandle (CommitLowerBoundTimeStampMessage_federationHandle v),
      writeFederateHandle (CommitLowerBoundTimeStampMessage_federateHandle v),
      writeVariableLengthData (CommitLowerBoundTimeStampMessage_timeStamp v),
      writeLowerBoundTimeStampCommitType (CommitLowerBoundTimeStampMessage_commitType v),
      writeUnsigned (CommitLowerBoundTimeStampMessage_commitId v)]"

definition readCommitLowerBoundTimeStampMessage :: "CommitLowerBoundTimeStampMessage reader" where
  "readCommitLowerBoundTimeStampMessage =
     dec_bind readFederationHandle (\<lambda>federationHandle.
     dec_bind readFederateHandle (\<lambda>federateHandle.
     dec_bind readVariableLengthData (\<lambda>timeStamp.
     dec_bind readLowerBoundTimeStampCommitType (\<lambda>commitType.
     dec_bind readUnsigned (\<lambda>commitId.
     dec_return \<lparr> CommitLowerBoundTimeStampMessage_federationHandle = federationHandle,
         CommitLowerBoundTimeStampMessage_federateHandle = federateHandle,
         CommitLowerBoundTimeStampMessage_timeStamp = timeStamp,
         CommitLowerBoundTimeStampMessage_commitType = commitType,
         CommitLowerBoundTimeStampMessage_commitId = commitId\<rparr>)))))"

definition readPayloadCommitLowerBoundTimeStampMessage :: "CommitLowerBoundTimeStampMessage
    \<Rightarrow> (CommitLowerBoundTimeStampMessage, vld list) decoder" where
  "readPayloadCommitLowerBoundTimeStampMessage v =
     dec_bind (readPayloadVariableLengthData (CommitLowerBoundTimeStampMessage_timeStamp v))
         (\<lambda>timeStamp.
     dec_return (v\<lparr>CommitLowerBoundTimeStampMessage_timeStamp := timeStamp\<rparr>))"

definition payload_CommitLowerBoundTimeStampMessage :: "CommitLowerBoundTimeStampMessage
    \<Rightarrow> vld list" where
  "payload_CommitLowerBoundTimeStampMessage v = vld_payload
      (CommitLowerBoundTimeStampMessage_timeStamp v)"

definition hollow_CommitLowerBoundTimeStampMessage :: "CommitLowerBoundTimeStampMessage
    \<Rightarrow> CommitLowerBoundTimeStampMessage" where
  "hollow_CommitLowerBoundTimeStampMessage v =
     v\<lparr>CommitLowerBoundTimeStampMessage_timeStamp := vld_hollow
         (CommitLowerBoundTimeStampMessage_timeStamp v)\<rparr>"

lemma codec_CommitLowerBoundTimeStampMessage: "payload_codec writeCommitLowerBoundTimeStampMessage
    readCommitLowerBoundTimeStampMessage payload_CommitLowerBoundTimeStampMessage
    hollow_CommitLowerBoundTimeStampMessage readPayloadCommitLowerBoundTimeStampMessage"
proof
  fix v :: CommitLowerBoundTimeStampMessage
  have e: "payload_CommitLowerBoundTimeStampMessage v = vld_payload
      (CommitLowerBoundTimeStampMessage_timeStamp v) @ []"
    by (simp add: payload_CommitLowerBoundTimeStampMessage_def)
  show "rt 1 (writeCommitLowerBoundTimeStampMessage v) readCommitLowerBoundTimeStampMessage
      (payload_CommitLowerBoundTimeStampMessage v) (hollow_CommitLowerBoundTimeStampMessage v)"
    unfolding writeCommitLowerBoundTimeStampMessage_def readCommitLowerBoundTimeStampMessage_def
        writes.simps e
    by (rule rt_first[OF codec_FederationHandle], rule rt_next[OF codec_FederateHandle],
      rule rt_pnext[OF wire_VariableLengthData.payload_codec_axioms],
      rule rt_next[OF codec_LowerBoundTimeStampCommitType], rule rt_end[OF codec_Unsigned]) (simp
          add: hollow_CommitLowerBoundTimeStampMessage_def)
  show "readPayloadCommitLowerBoundTimeStampMessage (hollow_CommitLowerBoundTimeStampMessage v)
      (payload_CommitLowerBoundTimeStampMessage v @ rest) = Inr (v, rest)" for rest
    by (simp add: readPayloadCommitLowerBoundTimeStampMessage_def
        hollow_CommitLowerBoundTimeStampMessage_def payload_CommitLowerBoundTimeStampMessage_def
        dec_bind_def dec_return_def
        payload_facts)
  show "payload_CommitLowerBoundTimeStampMessage v = [] \<Longrightarrow>
      hollow_CommitLowerBoundTimeStampMessage v = v"
    by (simp add: payload_CommitLowerBoundTimeStampMessage_def
        hollow_CommitLowerBoundTimeStampMessage_def no_payload_facts)
  show "p \<in> set (payload_CommitLowerBoundTimeStampMessage v) \<Longrightarrow> p \<noteq> []"
      for p
    by (auto simp: payload_CommitLowerBoundTimeStampMessage_def dest: nonempty_facts)
qed

definition writeCommitLowerBoundTimeStampResponseMessage ::
    "CommitLowerBoundTimeStampResponseMessage writer" where
  "writeCommitLowerBoundTimeStampResponseMessage v =
     writes [writeFederationHandle (CommitLowerBoundTimeStampResponseMessage_federationHandle v),
      writeFederateHandle (CommitLowerBoundTimeStampResponseMessage_federateHandle v),
      writeFederateHandle (CommitLowerBoundTimeStampResponseMessage_sendingFederateHandle v),
      writeUnsigned (CommitLowerBoundTimeStampResponseMessage_commitId v)]"

definition readCommitLowerBoundTimeStampResponseMessage ::
    "CommitLowerBoundTimeStampResponseMessage reader" where
  "readCommitLowerBoundTimeStampResponseMessage =
     dec_bind readFederationHandle (\<lambda>federationHandle.
     dec_bind readFederateHandle (\<lambda>federateHandle.
     dec_bind readFederateHandle (\<lambda>sendingFederateHandle.
     dec_bind readUnsigned (\<lambda>commitId.
     dec_return \<lparr>
         CommitLowerBoundTimeStampResponseMessage_federationHandle = federationHandle,
         CommitLowerBoundTimeStampResponseMessage_federateHandle = federateHandle,
         CommitLowerBoundTimeStampResponseMessage_sendingFederateHandle = sendingFederateHandle,
         CommitLowerBoundTimeStampResponseMessage_commitId = commitId\<rparr>))))"

lemma codec_CommitLowerBoundTimeStampResponseMessage: "wire_codec
    writeCommitLowerBoundTimeStampResponseMessage readCommitLowerBoundTimeStampResponseMessage"
  unfolding writeCommitLowerBoundTimeStampResponseMessage_def
      readCommitLowerBoundTimeStampResponseMessage_def writes.simps
  by (rule wire_codec.intro, rule rt_first[OF codec_FederationHandle],
      rule rt_next[OF codec_FederateHandle], rule rt_next[OF codec_FederateHandle],
      rule rt_end[OF codec_Unsigned]) simp

definition writeLockedByNextMessageRequestMessage :: "LockedByNextMessageRequestMessage writer"
    where
  "writeLockedByNextMessageRequestMessage v =
     writes [writeFederationHandle (LockedByNextMessageRequestMessage_federationHandle v),
      writeFederateHandle (LockedByNextMessageRequestMessage_sendingFederateHandle v),
      writeBool (LockedByNextMessageRequestMessage_lockedByNextMessage v)]"

definition readLockedByNextMessageRequestMessage :: "LockedByNextMessageRequestMessage reader" where
  "readLockedByNextMessageRequestMessage =
     dec_bind readFederationHandle (\<lambda>federationHandle.
     dec_bind readFederateHandle (\<lambda>sendingFederateHandle.
     dec_bind readBool (\<lambda>lockedByNextMessage.
     dec_return \<lparr> LockedByNextMessageRequestMessage_federationHandle = federationHandle,
         LockedByNextMessageRequestMessage_sendingFederateHandle = sendingFederateHandle,
         LockedByNextMessageRequestMessage_lockedByNextMessage = lockedByNextMessage\<rparr>)))"

lemma codec_LockedByNextMessageRequestMessage: "wire_codec writeLockedByNextMessageRequestMessage
    readLockedByNextMessageRequestMessage"
  unfolding writeLockedByNextMessageRequestMessage_def readLockedByNextMessageRequestMessage_def
      writes.simps
  by (rule wire_codec.intro, rule rt_first[OF codec_FederationHandle],
      rule rt_next[OF codec_FederateHandle], rule rt_end[OF wire_Bool.wire_codec_axioms]) simp

definition writeInsertRegionMessage :: "InsertRegionMessage writer" where
  "writeInsertRegionMessage v =
     writes [writeFederationHandle (InsertRegionMessage_federationHandle v),
      writeRegionHandleDimensionHandleSetPairVector
          (InsertRegionMessage_regionHandleDimensionHandleSetPairVector v)]"

definition readInsertRegionMessage :: "InsertRegionMessage reader" where
  "readInsertRegionMessage =
     dec_bind readFederationHandle (\<lambda>federationHandle.
     dec_bind readRegionHandleDimensionHandleSetPairVector
         (\<lambda>regionHandleDimensionHandleSetPairVector.
     dec_return \<lparr> InsertRegionMessage_federationHandle = federationHandle,
         InsertRegionMessage_regionHandleDimensionHandleSetPairVector =
             regionHandleDimensionHandleSetPairVector\<rparr>))"

lemma codec_InsertRegionMessage: "wire_codec writeInsertRegionMessage readInsertRegionMessage"
  unfolding writeInsertRegionMessage_def readInsertRegionMessage_def writes.simps
  by (rule wire_codec.intro, rule rt_first[OF codec_FederationHandle],
      rule rt_end[OF codec_RegionHandleDimensionHandleSetPairVector]) simp

definition writeCommitRegionMessage :: "CommitRegionMessage writer" where
  "writeCommitRegionMessage v =
     writes [writeFederationHandle (CommitRegionMessage_federationHandle v),
      writeRegionHandleRegionValuePairVector (CommitRegionMessage_regionHandleRegionValuePairVector
          v)]"

definition readCommitRegionMessage :: "CommitRegionMessage reader" where
  "readCommitRegionMessage =
     dec_bind readFederationHandle (\<lambda>federationHandle.
     dec_bind readRegionHandleRegionValuePairVector (\<lambda>regionHandleRegionValuePairVector.
     dec_return \<lparr> CommitRegionMessage_federationHandle = federationHandle,
         CommitRegionMessage_regionHandleRegionValuePairVector =
             regionHandleRegionValuePairVector\<rparr>))"

lemma codec_CommitRegionMessage: "wire_codec writeCommitRegionMessage readCommitRegionMessage"
  unfolding writeCommitRegionMessage_def readCommitRegionMessage_def writes.simps
  by (rule wire_codec.intro, rule rt_first[OF codec_FederationHandle],
      rule rt_end[OF codec_RegionHandleRegionValuePairVector]) simp

definition writeEraseRegionMessage :: "EraseRegionMessage writer" where
  "writeEraseRegionMessage v =
     writes [writeFederationHandle (EraseRegionMessage_federationHandle v),
      writeRegionHandleVector (EraseRegionMessage_regionHandleVector v)]"

definition readEraseRegionMessage :: "EraseRegionMessage reader" where
  "readEraseRegionMessage =
     dec_bind readFederationHandle (\<lambda>federationHandle.
     dec_bind readRegionHandleVector (\<lambda>regionHandleVector.
     dec_return \<lparr> EraseRegionMessage_federationHandle = federationHandle,
         EraseRegionMessage_regionHandleVector = regionHandleVector\<rparr>))"

lemma codec_EraseRegionMessage: "wire_codec writeEraseRegionMessage readEraseRegionMessage"
  unfolding writeEraseRegionMessage_def readEraseRegionMessage_def writes.simps
  by (rule wire_codec.intro, rule rt_first[OF codec_FederationHandle],
      rule rt_end[OF codec_RegionHandleVector]) simp

definition writeChangeInteractionClassPublicationMessage ::
    "ChangeInteractionClassPublicationMessage writer" where
  "writeChangeInteractionClassPublicationMessage v =
     writes [writeFederationHandle (ChangeInteractionClassPublicationMessage_federationHandle v),
      writePublicationType (ChangeInteractionClassPublicationMessage_publicationType v),
      writeInteractionClassHandle (ChangeInteractionClassPublicationMessage_interactionClassHandle
          v)]"

definition readChangeInteractionClassPublicationMessage ::
    "ChangeInteractionClassPublicationMessage reader" where
  "readChangeInteractionClassPublicationMessage =
     dec_bind readFederationHandle (\<lambda>federationHandle.
     dec_bind readPublicationType (\<lambda>publicationType.
     dec_bind readInteractionClassHandle (\<lambda>interactionClassHandle.
     dec_return \<lparr>
         ChangeInteractionClassPublicationMessage_federationHandle = federationHandle,
         ChangeInteractionClassPublicationMessage_publicationType = publicationType,
         ChangeInteractionClassPublicationMessage_interactionClassHandle =
             interactionClassHandle\<rparr>)))"

lemma codec_ChangeInteractionClassPublicationMessage: "wire_codec
    writeChangeInteractionClassPublicationMessage readChangeInteractionClassPublicationMessage"
  unfolding writeChangeInteractionClassPublicationMessage_def
      readChangeInteractionClassPublicationMessage_def writes.simps
  by (rule wire_codec.intro, rule rt_first[OF codec_FederationHandle],
      rule rt_next[OF codec_PublicationType], rule rt_end[OF codec_InteractionClassHandle]) simp

definition writeChangeObjectClassPublicationMessage :: "ChangeObjectClassPublicationMessage writer"
    where
  "writeChangeObjectClassPublicationMessage v =
     writes [writeFederationHandle (ChangeObjectClassPublicationMessage_federationHandle v),
      writePublicationType (ChangeObjectClassPublicationMessage_publicationType v),
      writeObjectClassHandle (ChangeObjectClassPublicationMessage_objectClassHandle v),
      writeAttributeHandleVector (ChangeObjectClassPublicationMessage_attributeHandles v)]"

definition readChangeObjectClassPublicationMessage :: "ChangeObjectClassPublicationMessage reader"
    where
  "readChangeObjectClassPublicationMessage =
     dec_bind readFederationHandle (\<lambda>federationHandle.
     dec_bind readPublicationType (\<lambda>publicationType.
     dec_bind readObjectClassHandle (\<lambda>objectClassHandle.
     dec_bind readAttributeHandleVector (\<lambda>attributeHandles.
     dec_return \<lparr> ChangeObjectClassPublicationMessage_federationHandle = federationHandle,
         ChangeObjectClassPublicationMessage_publicationType = publicationType,
         ChangeObjectClassPublicationMessage_objectClassHandle = objectClassHandle,
         ChangeObjectClassPublicationMessage_attributeHandles = attributeHandles\<rparr>))))"

lemma codec_ChangeObjectClassPublicationMessage: "wire_codec
    writeChangeObjectClassPublicationMessage readChangeObjectClassPublicationMessage"
  unfolding writeChangeObjectClassPublicationMessage_def
      readChangeObjectClassPublicationMessage_def writes.simps
  by (rule wire_codec.intro, rule rt_first[OF codec_FederationHandle],
      rule rt_next[OF codec_PublicationType], rule rt_next[OF codec_ObjectClassHandle],
      rule rt_end[OF codec_AttributeHandleVector]) simp

definition writeChangeInteractionClassSubscriptionMessage ::
    "ChangeInteractionClassSubscriptionMessage writer" where
  "writeChangeInteractionClassSubscriptionMessage v =
     writes [
      writeFederationHandle (ChangeInteractionClassSubscriptionMessage_federationHandle v),
      writeSubscriptionType (ChangeInteractionClassSubscriptionMessage_subscriptionType v),
      writeInteractionClassHandle (ChangeInteractionClassSubscriptionMessage_interactionClassHandle
          v),
      writeParameterValueVector (ChangeInteractionClassSubscriptionMessage_parameterFilterValues
          v)]"

definition readChangeInteractionClassSubscriptionMessage ::
    "ChangeInteractionClassSubscriptionMessage reader" where
  "readChangeInteractionClassSubscriptionMessage =
     dec_bind readFederationHandle (\<lambda>federationHandle.
     dec_bind readSubscriptionType (\<lambda>subscriptionType.
     dec_bind readInteractionClassHandle (\<lambda>interactionClassHandle.
     dec_bind readParameterValueVector (\<lambda>parameterFilterValues.
     dec_return \<lparr>
         ChangeInteractionClassSubscriptionMessage_federationHandle = federationHandle,
         ChangeInteractionClassSubscriptionMessage_subscriptionType = subscriptionType,
         ChangeInteractionClassSubscriptionMessage_interactionClassHandle = interactionClassHandle,
         ChangeInteractionClassSubscriptionMessage_parameterFilterValues =
             parameterFilterValues\<rparr>))))"

definition readPayloadChangeInteractionClassSubscriptionMessage ::
    "ChangeInteractionClassSubscriptionMessage \<Rightarrow>
    (ChangeInteractionClassSubscriptionMessage, vld list) decoder" where
  "readPayloadChangeInteractionClassSubscriptionMessage v =
     dec_bind (readPayloadParameterValueVector
         (ChangeInteractionClassSubscriptionMessage_parameterFilterValues v))
         (\<lambda>parameterFilterValues.
     dec_return (v\<lparr>ChangeInteractionClassSubscriptionMessage_parameterFilterValues :=
         parameterFilterValues\<rparr>))"

definition payload_ChangeInteractionClassSubscriptionMessage ::
    "ChangeInteractionClassSubscriptionMessage \<Rightarrow> vld list" where
  "payload_ChangeInteractionClassSubscriptionMessage v = concat (map payload_ParameterValue
      (ChangeInteractionClassSubscriptionMessage_parameterFilterValues v))"

definition hollow_ChangeInteractionClassSubscriptionMessage ::
    "ChangeInteractionClassSubscriptionMessage \<Rightarrow>
    ChangeInteractionClassSubscriptionMessage" where
  "hollow_ChangeInteractionClassSubscriptionMessage v =
     v\<lparr>ChangeInteractionClassSubscriptionMessage_parameterFilterValues := map
         hollow_ParameterValue (ChangeInteractionClassSubscriptionMessage_parameterFilterValues
         v)\<rparr>"

lemma codec_ChangeInteractionClassSubscriptionMessage: "payload_codec
    writeChangeInteractionClassSubscriptionMessage readChangeInteractionClassSubscriptionMessage
    payload_ChangeInteractionClassSubscriptionMessage
    hollow_ChangeInteractionClassSubscriptionMessage
    readPayloadChangeInteractionClassSubscriptionMessage"
proof
  fix v :: ChangeInteractionClassSubscriptionMessage
  have e: "payload_ChangeInteractionClassSubscriptionMessage v = concat (map payload_ParameterValue
      (ChangeInteractionClassSubscriptionMessage_parameterFilterValues v))"
    by (simp add: payload_ChangeInteractionClassSubscriptionMessage_def)
  show "rt 1 (writeChangeInteractionClassSubscriptionMessage v)
      readChangeInteractionClassSubscriptionMessage
      (payload_ChangeInteractionClassSubscriptionMessage v)
      (hollow_ChangeInteractionClassSubscriptionMessage v)"
    unfolding writeChangeInteractionClassSubscriptionMessage_def
        readChangeInteractionClassSubscriptionMessage_def writes.simps e
    by (rule rt_first[OF codec_FederationHandle], rule rt_next[OF codec_SubscriptionType],
      rule rt_next[OF codec_InteractionClassHandle], rule rt_pend[OF codec_ParameterValueVector])
          (simp add: hollow_ChangeInteractionClassSubscriptionMessage_def)
  show "readPayloadChangeInteractionClassSubscriptionMessage
      (hollow_ChangeInteractionClassSubscriptionMessage v)
      (payload_ChangeInteractionClassSubscriptionMessage v @ rest) = Inr (v, rest)" for rest
    by (simp add: readPayloadChangeInteractionClassSubscriptionMessage_def
        hollow_ChangeInteractionClassSubscriptionMessage_def
        payload_ChangeInteractionClassSubscriptionMessage_def dec_bind_def dec_return_def
        payload_facts)
  show "payload_ChangeInteractionClassSubscriptionMessage v = [] \<Longrightarrow>
      hollow_ChangeInteractionClassSubscriptionMessage v = v"
    by (simp add: payload_ChangeInteractionClassSubscriptionMessage_def
        hollow_ChangeInteractionClassSubscriptionMessage_def no_payload_facts)
  show "p \<in> set (payload_ChangeInteractionClassSubscriptionMessage v) \<Longrightarrow> p
      \<noteq> []" for p
    by (auto simp: payload_ChangeInteractionClassSubscriptionMessage_def dest: nonempty_facts)
qed

definition writeChangeObjectClassSubscriptionMessage :: "ChangeObjectClassSubscriptionMessage
    writer" where
  "writeChangeObjectClassSubscriptionMessage v =
     writes [writeFederationHandle (ChangeObjectClassSubscriptionMessage_federationHandle v),
      writeSubscriptionType (ChangeObjectClassSubscriptionMessage_subscriptionType v),
      writeObjectClassHandle (ChangeObjectClassSubscriptionMessage_objectClassHandle v),
      writeAttributeHandleVector (ChangeObjectClassSubscriptionMessage_attributeHandles v)]"

definition readChangeObjectClassSubscriptionMessage :: "ChangeObjectClassSubscriptionMessage
    reader" where
  "readChangeObjectClassSubscriptionMessage =
     dec_bind readFederationHandle (\<lambda>federationHandle.
     dec_bind readSubscriptionType (\<lambda>subscriptionType.
     dec_bind readObjectClassHandle (\<lambda>objectClassHandle.
     dec_bind readAttributeHandleVector (\<lambda>attributeHandles.
     dec_return \<lparr> ChangeObjectClassSubscriptionMessage_federationHandle = federationHandle,
         ChangeObjectClassSubscriptionMessage_subscriptionType = subscriptionType,
         ChangeObjectClassSubscriptionMessage_objectClassHandle = objectClassHandle,
         ChangeObjectClassSubscriptionMessage_attributeHandles = attributeHandles\<rparr>))))"

lemma codec_ChangeObjectClassSubscriptionMessage: "wire_codec
    writeChangeObjectClassSubscriptionMessage readChangeObjectClassSubscriptionMessage"
  unfolding writeChangeObjectClassSubscriptionMessage_def
      readChangeObjectClassSubscriptionMessage_def writes.simps
  by (rule wire_codec.intro, rule rt_first[OF codec_FederationHandle],
      rule rt_next[OF codec_SubscriptionType], rule rt_next[OF codec_ObjectClassHandle],
      rule rt_end[OF codec_AttributeHandleVector]) simp

definition writeChangeObjectInstanceSubscriptionMessage :: "ChangeObjectInstanceSubscriptionMessage
    writer" where
  "writeChangeObjectInstanceSubscriptionMessage v =
     writes [writeFederationHandle (ChangeObjectInstanceSubscriptionMessage_federationHandle v),
      writeSubscriptionType (ChangeObjectInstanceSubscriptionMessage_subscriptionType v),
      writeObjectClassHandle (ChangeObjectInstanceSubscriptionMessage_objectClassHandle v),
      writeObjectInstanceHandle (ChangeObjectInstanceSubscriptionMessage_objectInstanceHandle v)]"

definition readChangeObjectInstanceSubscriptionMessage :: "ChangeObjectInstanceSubscriptionMessage
    reader" where
  "readChangeObjectInstanceSubscriptionMessage =
     dec_bind readFederationHandle (\<lambda>federationHandle.
     dec_bind readSubscriptionType (\<lambda>subscriptionType.
     dec_bind readObjectClassHandle (\<lambda>objectClassHandle.
     dec_bind readObjectInstanceHandle (\<lambda>objectInstanceHandle.
     dec_return \<lparr>
         ChangeObjectInstanceSubscriptionMessage_federationHandle = federationHandle,
         ChangeObjectInstanceSubscriptionMessage_subscriptionType = subscriptionType,
         ChangeObjectInstanceSubscriptionMessage_objectClassHandle = objectClassHandle,
         ChangeObjectInstanceSubscriptionMessage_objectInstanceHandle =
             objectInstanceHandle\<rparr>))))"

lemma codec_ChangeObjectInstanceSubscriptionMessage: "wire_codec
    writeChangeObjectInstanceSubscriptionMessage readChangeObjectInstanceSubscriptionMessage"
  unfolding writeChangeObjectInstanceSubscriptionMessage_def
      readChangeObjectInstanceSubscriptionMessage_def writes.simps
  by (rule wire_codec.intro, rule rt_first[OF codec_FederationHandle],
      rule rt_next[OF codec_SubscriptionType], rule rt_next[OF codec_ObjectClassHandle],
      rule rt_end[OF codec_ObjectInstanceHandle]) simp

definition writeInteractionMessage :: "InteractionMessage writer" where
  "writeInteractionMessage v =
     writes [writeFederationHandle (InteractionMessage_federationHandle v),
      writeFederateHandle (InteractionMessage_federateHandle v),
      writeInteractionClassHandle (InteractionMessage_interactionClassHandle v),
      writeTransportationType (InteractionMessage_transportationType v),
      writeVariableLengthData (InteractionMessage_tag v),
      writeParameterValueVector (InteractionMessage_parameterValues v)]"

definition readInteractionMessage :: "InteractionMessage reader" where
  "readInteractionMessage =
     dec_bind readFederationHandle (\<lambda>federationHandle.
     dec_bind readFederateHandle (\<lambda>federateHandle.
     dec_bind readInteractionClassHandle (\<lambda>interactionClassHandle.
     dec_bind readTransportationType (\<lambda>transportationType.
     dec_bind readVariableLengthData (\<lambda>tag.
     dec_bind readParameterValueVector (\<lambda>parameterValues.
     dec_return \<lparr> InteractionMessage_federationHandle = federationHandle,
         InteractionMessage_federateHandle = federateHandle,
         InteractionMessage_interactionClassHandle = interactionClassHandle,
         InteractionMessage_transportationType = transportationType, InteractionMessage_tag = tag,
         InteractionMessage_parameterValues = parameterValues\<rparr>))))))"

definition readPayloadInteractionMessage :: "InteractionMessage \<Rightarrow> (InteractionMessage,
    vld list) decoder" where
  "readPayloadInteractionMessage v =
     dec_bind (readPayloadVariableLengthData (InteractionMessage_tag v)) (\<lambda>tag.
     dec_bind (readPayloadParameterValueVector (InteractionMessage_parameterValues v))
         (\<lambda>parameterValues.
     dec_return (v\<lparr>InteractionMessage_tag := tag, InteractionMessage_parameterValues :=
         parameterValues\<rparr>)))"

definition payload_InteractionMessage :: "InteractionMessage \<Rightarrow> vld list" where
  "payload_InteractionMessage v = vld_payload (InteractionMessage_tag v) @ concat (map
      payload_ParameterValue (InteractionMessage_parameterValues v))"

definition hollow_InteractionMessage :: "InteractionMessage \<Rightarrow> InteractionMessage" where
  "hollow_InteractionMessage v =
     v\<lparr>InteractionMessage_tag := vld_hollow (InteractionMessage_tag v),
       InteractionMessage_parameterValues := map hollow_ParameterValue
           (InteractionMessage_parameterValues v)\<rparr>"

lemma codec_InteractionMessage: "payload_codec writeInteractionMessage readInteractionMessage
    payload_InteractionMessage hollow_InteractionMessage readPayloadInteractionMessage"
proof
  fix v :: InteractionMessage
  have e: "payload_InteractionMessage v = vld_payload (InteractionMessage_tag v) @ concat (map
      payload_ParameterValue (InteractionMessage_parameterValues v))"
    by (simp add: payload_InteractionMessage_def)
  show "rt 1 (writeInteractionMessage v) readInteractionMessage (payload_InteractionMessage v)
      (hollow_InteractionMessage v)"
    unfolding writeInteractionMessage_def readInteractionMessage_def writes.simps e
    by (rule rt_first[OF codec_FederationHandle], rule rt_next[OF codec_FederateHandle],
      rule rt_next[OF codec_InteractionClassHandle], rule rt_next[OF codec_TransportationType],
      rule rt_pnext[OF wire_VariableLengthData.payload_codec_axioms],
      rule rt_pend[OF codec_ParameterValueVector]) (simp add: hollow_InteractionMessage_def)
  show "readPayloadInteractionMessage (hollow_InteractionMessage v) (payload_InteractionMessage v @
      rest) = Inr (v, rest)" for rest
    by (simp add: readPayloadInteractionMessage_def hollow_InteractionMessage_def
        payload_InteractionMessage_def dec_bind_def dec_return_def
        payload_facts)
  show "payload_InteractionMessage v = [] \<Longrightarrow> hollow_InteractionMessage v = v"
    by (simp add: payload_InteractionMessage_def hollow_InteractionMessage_def no_payload_facts)
  show "p \<in> set (payload_InteractionMessage v) \<Longrightarrow> p \<noteq> []" for p
    by (auto simp: payload_InteractionMessage_def dest: nonempty_facts)
qed

definition writeTimeStampedInteractionMessage :: "TimeStampedInteractionMessage writer" where
  "writeTimeStampedInteractionMessage v =
     writes [writeFederationHandle (TimeStampedInteractionMessage_federationHandle v),
      writeFederateHandle (TimeStampedInteractionMessage_federateHandle v),
      writeInteractionClassHandle (TimeStampedInteractionMessage_interactionClassHandle v),
      writeOrderType (TimeStampedInteractionMessage_orderType v),
      writeTransportationType (TimeStampedInteractionMessage_transportationType v),
      writeVariableLengthData (TimeStampedInteractionMessage_tag v),
      writeVariableLengthData (TimeStampedInteractionMessage_timeStamp v),
      writeMessageRetractionHandle (TimeStampedInteractionMessage_messageRetractionHandle v),
      writeParameterValueVector (TimeStampedInteractionMessage_parameterValues v)]"

definition readTimeStampedInteractionMessage :: "TimeStampedInteractionMessage reader" where
  "readTimeStampedInteractionMessage =
     dec_bind readFederationHandle (\<lambda>federationHandle.
     dec_bind readFederateHandle (\<lambda>federateHandle.
     dec_bind readInteractionClassHandle (\<lambda>interactionClassHandle.
     dec_bind readOrderType (\<lambda>orderType.
     dec_bind readTransportationType (\<lambda>transportationType.
     dec_bind readVariableLengthData (\<lambda>tag.
     dec_bind readVariableLengthData (\<lambda>timeStamp.
     dec_bind readMessageRetractionHandle (\<lambda>messageRetractionHandle.
     dec_bind readParameterValueVector (\<lambda>parameterValues.
     dec_return \<lparr> TimeStampedInteractionMessage_federationHandle = federationHandle,
         TimeStampedInteractionMessage_federateHandle = federateHandle,
         TimeStampedInteractionMessage_interactionClassHandle = interactionClassHandle,
         TimeStampedInteractionMessage_orderType = orderType,
         TimeStampedInteractionMessage_transportationType = transportationType,
         TimeStampedInteractionMessage_tag = tag,
         TimeStampedInteractionMessage_timeStamp = timeStamp,
         TimeStampedInteractionMessage_messageRetractionHandle = messageRetractionHandle,
         TimeStampedInteractionMessage_parameterValues = parameterValues\<rparr>)))))))))"

definition readPayloadTimeStampedInteractionMessage :: "TimeStampedInteractionMessage \<Rightarrow>
    (TimeStampedInteractionMessage, vld list) decoder" where
  "readPayloadTimeStampedInteractionMessage v =
     dec_bind (readPayloadVariableLengthData (TimeStampedInteractionMessage_tag v)) (\<lambda>tag.
     dec_bind (readPayloadVariableLengthData (TimeStampedInteractionMessage_timeStamp v))
         (\<lambda>timeStamp.
     dec_bind (readPayloadParameterValueVector (TimeStampedInteractionMessage_parameterValues v))
         (\<lambda>parameterValues.
     dec_return (v\<lparr>TimeStampedInteractionMessage_tag := tag,
         TimeStampedInteractionMessage_timeStamp := timeStamp,
         TimeStampedInteractionMessage_parameterValues := parameterValues\<rparr>))))"

definition payload_TimeStampedInteractionMessage :: "TimeStampedInteractionMessage \<Rightarrow>
    vld list" where
  "payload_TimeStampedInteractionMessage v = vld_payload (TimeStampedInteractionMessage_tag v) @
      vld_payload (TimeStampedInteractionMessage_timeStamp v) @ concat (map payload_ParameterValue
      (TimeStampedInteractionMessage_parameterValues v))"

definition hollow_TimeStampedInteractionMessage :: "TimeStampedInteractionMessage \<Rightarrow>
    TimeStampedInteractionMessage" where
  "hollow_TimeStampedInteractionMessage v =
     v\<lparr>TimeStampedInteractionMessage_tag := vld_hollow (TimeStampedInteractionMessage_tag v),
       TimeStampedInteractionMessage_timeStamp := vld_hollow
           (TimeStampedInteractionMessage_timeStamp v),
       TimeStampedInteractionMessage_parameterValues := map hollow_ParameterValue
           (TimeStampedInteractionMessage_parameterValues v)\<rparr>"

lemma codec_TimeStampedInteractionMessage: "payload_codec writeTimeStampedInteractionMessage
    readTimeStampedInteractionMessage payload_TimeStampedInteractionMessage
    hollow_TimeStampedInteractionMessage readPayloadTimeStampedInteractionMessage"
proof
  fix v :: TimeStampedInteractionMessage
  have e: "payload_TimeStampedInteractionMessage v = vld_payload (TimeStampedInteractionMessage_tag
      v) @ vld_payload (TimeStampedInteractionMessage_timeStamp v) @ concat (map
      payload_ParameterValue (TimeStampedInteractionMessage_parameterValues v))"
    by (simp add: payload_TimeStampedInteractionMessage_def)
  show "rt 1 (writeTimeStampedInteractionMessage v) readTimeStampedInteractionMessage
      (payload_TimeStampedInteractionMessage v) (hollow_TimeStampedInteractionMessage v)"
    unfolding writeTimeStampedInteractionMessage_def readTimeStampedInteractionMessage_def
        writes.simps e
    by (rule rt_first[OF codec_FederationHandle], rule rt_next[OF codec_FederateHandle],
      rule rt_next[OF codec_InteractionClassHandle], rule rt_next[OF codec_OrderType],
      rule rt_next[OF codec_TransportationType],
      rule rt_pnext[OF wire_VariableLengthData.payload_codec_axioms],
      rule rt_pnext[OF wire_VariableLengthData.payload_codec_axioms],
      rule rt_next[OF codec_MessageRetractionHandle], rule rt_pend[OF codec_ParameterValueVector])
          (simp add: hollow_TimeStampedInteractionMessage_def)
  show "readPayloadTimeStampedInteractionMessage (hollow_TimeStampedInteractionMessage v)
      (payload_TimeStampedInteractionMessage v @ rest) = Inr (v, rest)" for rest
    by (simp add: readPayloadTimeStampedInteractionMessage_def
        hollow_TimeStampedInteractionMessage_def payload_TimeStampedInteractionMessage_def
        dec_bind_def dec_return_def
        payload_facts)
  show "payload_TimeStampedInteractionMessage v = [] \<Longrightarrow>
      hollow_TimeStampedInteractionMessage v = v"
    by (simp add: payload_TimeStampedInteractionMessage_def
        hollow_TimeStampedInteractionMessage_def no_payload_facts)
  show "p \<in> set (payload_TimeStampedInteractionMessage v) \<Longrightarrow> p \<noteq> []" for p
    by (auto simp: payload_TimeStampedInteractionMessage_def dest: nonempty_facts)
qed

definition writeObjectInstanceHandlesRequestMessage :: "ObjectInstanceHandlesRequestMessage writer"
    where
  "writeObjectInstanceHandlesRequestMessage v =
     writes [writeFederationHandle (ObjectInstanceHandlesRequestMessage_federationHandle v),
      writeFederateHandle (ObjectInstanceHandlesRequestMessage_federateHandle v),
      writeUnsigned (ObjectInstanceHandlesRequestMessage_count v)]"

definition readObjectInstanceHandlesRequestMessage :: "ObjectInstanceHandlesRequestMessage reader"
    where
  "readObjectInstanceHandlesRequestMessage =
     dec_bind readFederationHandle (\<lambda>federationHandle.
     dec_bind readFederateHandle (\<lambda>federateHandle. dec_bind readUnsigned (\<lambda>count.
     dec_return \<lparr> ObjectInstanceHandlesRequestMessage_federationHandle = federationHandle,
         ObjectInstanceHandlesRequestMessage_federateHandle = federateHandle,
         ObjectInstanceHandlesRequestMessage_count = count\<rparr>)))"

lemma codec_ObjectInstanceHandlesRequestMessage: "wire_codec
    writeObjectInstanceHandlesRequestMessage readObjectInstanceHandlesRequestMessage"
  unfolding writeObjectInstanceHandlesRequestMessage_def
      readObjectInstanceHandlesRequestMessage_def writes.simps
  by (rule wire_codec.intro, rule rt_first[OF codec_FederationHandle],
      rule rt_next[OF codec_FederateHandle], rule rt_end[OF codec_Unsigned]) simp

definition writeObjectInstanceHandlesResponseMessage :: "ObjectInstanceHandlesResponseMessage
    writer" where
  "writeObjectInstanceHandlesResponseMessage v =
     writes [writeFederationHandle (ObjectInstanceHandlesResponseMessage_federationHandle v),
      writeFederateHandle (ObjectInstanceHandlesResponseMessage_federateHandle v),
      writeObjectInstanceHandleNamePairVector
          (ObjectInstanceHandlesResponseMessage_objectInstanceHandleNamePairVector v)]"

definition readObjectInstanceHandlesResponseMessage :: "ObjectInstanceHandlesResponseMessage
    reader" where
  "readObjectInstanceHandlesResponseMessage =
     dec_bind readFederationHandle (\<lambda>federationHandle.
     dec_bind readFederateHandle (\<lambda>federateHandle.
     dec_bind readObjectInstanceHandleNamePairVector (\<lambda>objectInstanceHandleNamePairVector.
     dec_return \<lparr> ObjectInstanceHandlesResponseMessage_federationHandle = federationHandle,
         ObjectInstanceHandlesResponseMessage_federateHandle = federateHandle,
         ObjectInstanceHandlesResponseMessage_objectInstanceHandleNamePairVector =
             objectInstanceHandleNamePairVector\<rparr>)))"

lemma codec_ObjectInstanceHandlesResponseMessage: "wire_codec
    writeObjectInstanceHandlesResponseMessage readObjectInstanceHandlesResponseMessage"
  unfolding writeObjectInstanceHandlesResponseMessage_def
      readObjectInstanceHandlesResponseMessage_def writes.simps
  by (rule wire_codec.intro, rule rt_first[OF codec_FederationHandle],
      rule rt_next[OF codec_FederateHandle],
      rule rt_end[OF codec_ObjectInstanceHandleNamePairVector]) simp

definition writeReleaseMultipleObjectInstanceNameHandlePairsMessage ::
    "ReleaseMultipleObjectInstanceNameHandlePairsMessage writer" where
  "writeReleaseMultipleObjectInstanceNameHandlePairsMessage v =
     writes [
      writeFederationHandle (ReleaseMultipleObjectInstanceNameHandlePairsMessage_federationHandle
          v),
      writeObjectInstanceHandleVector
          (ReleaseMultipleObjectInstanceNameHandlePairsMessage_objectInstanceHandleVector v)]"

definition readReleaseMultipleObjectInstanceNameHandlePairsMessage ::
    "ReleaseMultipleObjectInstanceNameHandlePairsMessage reader" where
  "readReleaseMultipleObjectInstanceNameHandlePairsMessage =
     dec_bind readFederationHandle (\<lambda>federationHandle.
     dec_bind readObjectInstanceHandleVector (\<lambda>objectInstanceHandleVector.
     dec_return \<lparr>
         ReleaseMultipleObjectInstanceNameHandlePairsMessage_federationHandle = federationHandle,
         ReleaseMultipleObjectInstanceNameHandlePairsMessage_objectInstanceHandleVector =
             objectInstanceHandleVector\<rparr>))"

lemma codec_ReleaseMultipleObjectInstanceNameHandlePairsMessage: "wire_codec
    writeReleaseMultipleObjectInstanceNameHandlePairsMessage
    readReleaseMultipleObjectInstanceNameHandlePairsMessage"
  unfolding writeReleaseMultipleObjectInstanceNameHandlePairsMessage_def
      readReleaseMultipleObjectInstanceNameHandlePairsMessage_def writes.simps
  by (rule wire_codec.intro, rule rt_first[OF codec_FederationHandle],
      rule rt_end[OF codec_ObjectInstanceHandleVector]) simp

definition writeReserveObjectInstanceNameRequestMessage :: "ReserveObjectInstanceNameRequestMessage
    writer" where
  "writeReserveObjectInstanceNameRequestMessage v =
     writes [writeFederationHandle (ReserveObjectInstanceNameRequestMessage_federationHandle v),
      writeFederateHandle (ReserveObjectInstanceNameRequestMessage_federateHandle v),
      writeString (ReserveObjectInstanceNameRequestMessage_name v),
      writeBool (ReserveObjectInstanceNameRequestMessage_isInternal v)]"

definition readReserveObjectInstanceNameRequestMessage :: "ReserveObjectInstanceNameRequestMessage
    reader" where
  "readReserveObjectInstanceNameRequestMessage =
     dec_bind readFederationHandle (\<lambda>federationHandle.
     dec_bind readFederateHandle (\<lambda>federateHandle. dec_bind readString (\<lambda>name.
     dec_bind readBool (\<lambda>isInternal.
     dec_return \<lparr>
         ReserveObjectInstanceNameRequestMessage_federationHandle = federationHandle,
         ReserveObjectInstanceNameRequestMessage_federateHandle = federateHandle,
         ReserveObjectInstanceNameRequestMessage_name = name,
         ReserveObjectInstanceNameRequestMessage_isInternal = isInternal\<rparr>))))"

lemma codec_ReserveObjectInstanceNameRequestMessage: "wire_codec
    writeReserveObjectInstanceNameRequestMessage readReserveObjectInstanceNameRequestMessage"
  unfolding writeReserveObjectInstanceNameRequestMessage_def
      readReserveObjectInstanceNameRequestMessage_def writes.simps
  by (rule wire_codec.intro, rule rt_first[OF codec_FederationHandle],
      rule rt_next[OF codec_FederateHandle], rule rt_next[OF wire_String.wire_codec_axioms],
      rule rt_end[OF wire_Bool.wire_codec_axioms]) simp

definition writeReserveObjectInstanceNameResponseMessage ::
    "ReserveObjectInstanceNameResponseMessage writer" where
  "writeReserveObjectInstanceNameResponseMessage v =
     writes [writeFederationHandle (ReserveObjectInstanceNameResponseMessage_federationHandle v),
      writeFederateHandle (ReserveObjectInstanceNameResponseMessage_federateHandle v),
      writeObjectInstanceHandleNamePair
          (ReserveObjectInstanceNameResponseMessage_objectInstanceHandleNamePair v),
      writeBool (ReserveObjectInstanceNameResponseMessage_success v)]"

definition readReserveObjectInstanceNameResponseMessage ::
    "ReserveObjectInstanceNameResponseMessage reader" where
  "readReserveObjectInstanceNameResponseMessage =
     dec_bind readFederationHandle (\<lambda>federationHandle.
     dec_bind readFederateHandle (\<lambda>federateHandle.
     dec_bind readObjectInstanceHandleNamePair (\<lambda>objectInstanceHandleNamePair.
     dec_bind readBool (\<lambda>success.
     dec_return \<lparr>
         ReserveObjectInstanceNameResponseMessage_federationHandle = federationHandle,
         ReserveObjectInstanceNameResponseMessage_federateHandle = federateHandle,
         ReserveObjectInstanceNameResponseMessage_objectInstanceHandleNamePair =
             objectInstanceHandleNamePair,
         ReserveObjectInstanceNameResponseMessage_success = success\<rparr>))))"

lemma codec_ReserveObjectInstanceNameResponseMessage: "wire_codec
    writeReserveObjectInstanceNameResponseMessage readReserveObjectInstanceNameResponseMessage"
  unfolding writeReserveObjectInstanceNameResponseMessage_def
      readReserveObjectInstanceNameResponseMessage_def writes.simps
  by (rule wire_codec.intro, rule rt_first[OF codec_FederationHandle],
      rule rt_next[OF codec_FederateHandle], rule rt_next[OF codec_ObjectInstanceHandleNamePair],
      rule rt_end[OF wire_Bool.wire_codec_axioms]) simp

definition writeReserveMultipleObjectInstanceNameRequestMessage ::
    "ReserveMultipleObjectInstanceNameRequestMessage writer" where
  "writeReserveMultipleObjectInstanceNameRequestMessage v =
     writes [
      writeFederationHandle (ReserveMultipleObjectInstanceNameRequestMessage_federationHandle v),
      writeFederateHandle (ReserveMultipleObjectInstanceNameRequestMessage_federateHandle v),
      writeStringVector (ReserveMultipleObjectInstanceNameRequestMessage_nameList v)]"

definition readReserveMultipleObjectInstanceNameRequestMessage ::
    "ReserveMultipleObjectInstanceNameRequestMessage reader" where
  "readReserveMultipleObjectInstanceNameRequestMessage =
     dec_bind readFederationHandle (\<lambda>federationHandle.
     dec_bind readFederateHandle (\<lambda>federateHandle.
     dec_bind readStringVector (\<lambda>nameList.
     dec_return \<lparr>
         ReserveMultipleObjectInstanceNameRequestMessage_federationHandle = federationHandle,
         ReserveMultipleObjectInstanceNameRequestMessage_federateHandle = federateHandle,
         ReserveMultipleObjectInstanceNameRequestMessage_nameList = nameList\<rparr>)))"

lemma codec_ReserveMultipleObjectInstanceNameRequestMessage: "wire_codec
    writeReserveMultipleObjectInstanceNameRequestMessage
    readReserveMultipleObjectInstanceNameRequestMessage"
  unfolding writeReserveMultipleObjectInstanceNameRequestMessage_def
      readReserveMultipleObjectInstanceNameRequestMessage_def writes.simps
  by (rule wire_codec.intro, rule rt_first[OF codec_FederationHandle],
      rule rt_next[OF codec_FederateHandle], rule rt_end[OF codec_StringVector]) simp

definition writeReserveMultipleObjectInstanceNameResponseMessage ::
    "ReserveMultipleObjectInstanceNameResponseMessage writer" where
  "writeReserveMultipleObjectInstanceNameResponseMessage v =
     writes [
      writeFederationHandle (ReserveMultipleObjectInstanceNameResponseMessage_federationHandle v),
      writeFederateHandle (ReserveMultipleObjectInstanceNameResponseMessage_federateHandle v),
      writeObjectInstanceHandleNamePairVector
          (ReserveMultipleObjectInstanceNameResponseMessage_objectInstanceHandleNamePairVector v),
      writeBool (ReserveMultipleObjectInstanceNameResponseMessage_success v)]"

definition readReserveMultipleObjectInstanceNameResponseMessage ::
    "ReserveMultipleObjectInstanceNameResponseMessage reader" where
  "readReserveMultipleObjectInstanceNameResponseMessage =
     dec_bind readFederationHandle (\<lambda>federationHandle.
     dec_bind readFederateHandle (\<lambda>federateHandle.
     dec_bind readObjectInstanceHandleNamePairVector (\<lambda>objectInstanceHandleNamePairVector.
     dec_bind readBool (\<lambda>success.
     dec_return \<lparr>
         ReserveMultipleObjectInstanceNameResponseMessage_federationHandle = federationHandle,
         ReserveMultipleObjectInstanceNameResponseMessage_federateHandle = federateHandle,
         ReserveMultipleObjectInstanceNameResponseMessage_objectInstanceHandleNamePairVector =
             objectInstanceHandleNamePairVector,
         ReserveMultipleObjectInstanceNameResponseMessage_success = success\<rparr>))))"

lemma codec_ReserveMultipleObjectInstanceNameResponseMessage: "wire_codec
    writeReserveMultipleObjectInstanceNameResponseMessage
    readReserveMultipleObjectInstanceNameResponseMessage"
  unfolding writeReserveMultipleObjectInstanceNameResponseMessage_def
      readReserveMultipleObjectInstanceNameResponseMessage_def writes.simps
  by (rule wire_codec.intro, rule rt_first[OF codec_FederationHandle],
      rule rt_next[OF codec_FederateHandle],
      rule rt_next[OF codec_ObjectInstanceHandleNamePairVector],
      rule rt_end[OF wire_Bool.wire_codec_axioms]) simp

definition writeInsertObjectInstanceMessage :: "InsertObjectInstanceMessage writer" where
  "writeInsertObjectInstanceMessage v =
     writes [writeFederationHandle (InsertObjectInstanceMessage_federationHandle v),
      writeObjectClassHandle (InsertObjectInstanceMessage_objectClassHandle v),
      writeObjectInstanceHandle (InsertObjectInstanceMessage_objectInstanceHandle v),
      writeString (InsertObjectInstanceMessage_name v),
      writeAttributeStateVector (InsertObjectInstanceMessage_attributeStateVector v)]"

definition readInsertObjectInstanceMessage :: "InsertObjectInstanceMessage reader" where
  "readInsertObjectInstanceMessage =
     dec_bind readFederationHandle (\<lambda>federationHandle.
     dec_bind readObjectClassHandle (\<lambda>objectClassHandle.
     dec_bind readObjectInstanceHandle (\<lambda>objectInstanceHandle.
     dec_bind readString (\<lambda>name.
     dec_bind readAttributeStateVector (\<lambda>attributeStateVector.
     dec_return \<lparr> InsertObjectInstanceMessage_federationHandle = federationHandle,
         InsertObjectInstanceMessage_objectClassHandle = objectClassHandle,
         InsertObjectInstanceMessage_objectInstanceHandle = objectInstanceHandle,
         InsertObjectInstanceMessage_name = name,
         InsertObjectInstanceMessage_attributeStateVector = attributeStateVector\<rparr>)))))"

lemma codec_InsertObjectInstanceMessage: "wire_codec writeInsertObjectInstanceMessage
    readInsertObjectInstanceMessage"
  unfolding writeInsertObjectInstanceMessage_def readInsertObjectInstanceMessage_def writes.simps
  by (rule wire_codec.intro, rule rt_first[OF codec_FederationHandle],
      rule rt_next[OF codec_ObjectClassHandle], rule rt_next[OF codec_ObjectInstanceHandle],
      rule rt_next[OF wire_String.wire_codec_axioms], rule rt_end[OF codec_AttributeStateVector])
          simp

definition writeDeleteObjectInstanceMessage :: "DeleteObjectInstanceMessage writer" where
  "writeDeleteObjectInstanceMessage v =
     writes [writeFederationHandle (DeleteObjectInstanceMessage_federationHandle v),
      writeFederateHandle (DeleteObjectInstanceMessage_federateHandle v),
      writeObjectInstanceHandle (DeleteObjectInstanceMessage_objectInstanceHandle v),
      writeVariableLengthData (DeleteObjectInstanceMessage_tag v)]"

definition readDeleteObjectInstanceMessage :: "DeleteObjectInstanceMessage reader" where
  "readDeleteObjectInstanceMessage =
     dec_bind readFederationHandle (\<lambda>federationHandle.
     dec_bind readFederateHandle (\<lambda>federateHandle.
     dec_bind readObjectInstanceHandle (\<lambda>objectInstanceHandle.
     dec_bind readVariableLengthData (\<lambda>tag.
     dec_return \<lparr> DeleteObjectInstanceMessage_federationHandle = federationHandle,
         DeleteObjectInstanceMessage_federateHandle = federateHandle,
         DeleteObjectInstanceMessage_objectInstanceHandle = objectInstanceHandle,
         DeleteObjectInstanceMessage_tag = tag\<rparr>))))"

definition readPayloadDeleteObjectInstanceMessage :: "DeleteObjectInstanceMessage \<Rightarrow>
    (DeleteObjectInstanceMessage, vld list) decoder" where
  "readPayloadDeleteObjectInstanceMessage v =
     dec_bind (readPayloadVariableLengthData (DeleteObjectInstanceMessage_tag v)) (\<lambda>tag.
     dec_return (v\<lparr>DeleteObjectInstanceMessage_tag := tag\<rparr>))"

definition payload_DeleteObjectInstanceMessage :: "DeleteObjectInstanceMessage \<Rightarrow> vld
    list" where
  "payload_DeleteObjectInstanceMessage v = vld_payload (DeleteObjectInstanceMessage_tag v)"

definition hollow_DeleteObjectInstanceMessage :: "DeleteObjectInstanceMessage \<Rightarrow>
    DeleteObjectInstanceMessage" where
  "hollow_DeleteObjectInstanceMessage v =
     v\<lparr>DeleteObjectInstanceMessage_tag := vld_hollow (DeleteObjectInstanceMessage_tag
         v)\<rparr>"

lemma codec_DeleteObjectInstanceMessage: "payload_codec writeDeleteObjectInstanceMessage
    readDeleteObjectInstanceMessage payload_DeleteObjectInstanceMessage
    hollow_DeleteObjectInstanceMessage readPayloadDeleteObjectInstanceMessage"
proof
  fix v :: DeleteObjectInstanceMessage
  have e: "payload_DeleteObjectInstanceMessage v = vld_payload (DeleteObjectInstanceMessage_tag v)"
    by (simp add: payload_DeleteObjectInstanceMessage_def)
  show "rt 1 (writeDeleteObjectInstanceMessage v) readDeleteObjectInstanceMessage
      (payload_DeleteObjectInstanceMessage v) (hollow_DeleteObjectInstanceMessage v)"
    unfolding writeDeleteObjectInstanceMessage_def readDeleteObjectInstanceMessage_def writes.simps
        e
    by (rule rt_first[OF codec_FederationHandle], rule rt_next[OF codec_FederateHandle],
      rule rt_next[OF codec_ObjectInstanceHandle],
      rule rt_pend[OF wire_VariableLengthData.payload_codec_axioms]) (simp add:
          hollow_DeleteObjectInstanceMessage_def)
  show "readPayloadDeleteObjectInstanceMessage (hollow_DeleteObjectInstanceMessage v)
      (payload_DeleteObjectInstanceMessage v @ rest) = Inr (v, rest)" for rest
    by (simp add: readPayloadDeleteObjectInstanceMessage_def hollow_DeleteObjectInstanceMessage_def
        payload_DeleteObjectInstanceMessage_def dec_bind_def dec_return_def
        payload_facts)
  show "payload_DeleteObjectInstanceMessage v = [] \<Longrightarrow>
      hollow_DeleteObjectInstanceMessage v = v"
    by (simp add: payload_DeleteObjectInstanceMessage_def hollow_DeleteObjectInstanceMessage_def
        no_payload_facts)
  show "p \<in> set (payload_DeleteObjectInstanceMessage v) \<Longrightarrow> p \<noteq> []" for p
    by (auto simp: payload_DeleteObjectInstanceMessage_def dest: nonempty_facts)
qed

definition writeTimeStampedDeleteObjectInstanceMessage :: "TimeStampedDeleteObjectInstanceMessage
    writer" where
  "writeTimeStampedDeleteObjectInstanceMessage v =
     writes [writeFederationHandle (TimeStampedDeleteObjectInstanceMessage_federationHandle v),
      writeFederateHandle (TimeStampedDeleteObjectInstanceMessage_federateHandle v),
      writeObjectInstanceHandle (TimeStampedDeleteObjectInstanceMessage_objectInstanceHandle v),
      writeOrderType (TimeStampedDeleteObjectInstanceMessage_orderType v),
      writeVariableLengthData (TimeStampedDeleteObjectInstanceMessage_tag v),
      writeVariableLengthData (TimeStampedDeleteObjectInstanceMessage_timeStamp v),
      writeMessageRetractionHandle (TimeStampedDeleteObjectInstanceMessage_messageRetractionHandle
          v)]"

definition readTimeStampedDeleteObjectInstanceMessage :: "TimeStampedDeleteObjectInstanceMessage
    reader" where
  "readTimeStampedDeleteObjectInstanceMessage =
     dec_bind readFederationHandle (\<lambda>federationHandle.
     dec_bind readFederateHandle (\<lambda>federateHandle.
     dec_bind readObjectInstanceHandle (\<lambda>objectInstanceHandle.
     dec_bind readOrderType (\<lambda>orderType. dec_bind readVariableLengthData (\<lambda>tag.
     dec_bind readVariableLengthData (\<lambda>timeStamp.
     dec_bind readMessageRetractionHandle (\<lambda>messageRetractionHandle.
     dec_return \<lparr>
         TimeStampedDeleteObjectInstanceMessage_federationHandle = federationHandle,
         TimeStampedDeleteObjectInstanceMessage_federateHandle = federateHandle,
         TimeStampedDeleteObjectInstanceMessage_objectInstanceHandle = objectInstanceHandle,
         TimeStampedDeleteObjectInstanceMessage_orderType = orderType,
         TimeStampedDeleteObjectInstanceMessage_tag = tag,
         TimeStampedDeleteObjectInstanceMessage_timeStamp = timeStamp,
         TimeStampedDeleteObjectInstanceMessage_messageRetractionHandle =
             messageRetractionHandle\<rparr>)))))))"

definition readPayloadTimeStampedDeleteObjectInstanceMessage ::
    "TimeStampedDeleteObjectInstanceMessage \<Rightarrow> (TimeStampedDeleteObjectInstanceMessage,
    vld list) decoder" where
  "readPayloadTimeStampedDeleteObjectInstanceMessage v =
     dec_bind (readPayloadVariableLengthData (TimeStampedDeleteObjectInstanceMessage_tag v))
         (\<lambda>tag.
     dec_bind (readPayloadVariableLengthData (TimeStampedDeleteObjectInstanceMessage_timeStamp v))
         (\<lambda>timeStamp.
     dec_return (v\<lparr>TimeStampedDeleteObjectInstanceMessage_tag := tag,
         TimeStampedDeleteObjectInstanceMessage_timeStamp := timeStamp\<rparr>)))"

definition payload_TimeStampedDeleteObjectInstanceMessage ::
    "TimeStampedDeleteObjectInstanceMessage \<Rightarrow> vld list" where
  "payload_TimeStampedDeleteObjectInstanceMessage v = vld_payload
      (TimeStampedDeleteObjectInstanceMessage_tag v) @ vld_payload
      (TimeStampedDeleteObjectInstanceMessage_timeStamp v)"

definition hollow_TimeStampedDeleteObjectInstanceMessage :: "TimeStampedDeleteObjectInstanceMessage
    \<Rightarrow> TimeStampedDeleteObjectInstanceMessage" where
  "hollow_TimeStampedDeleteObjectInstanceMessage v =
     v\<lparr>TimeStampedDeleteObjectInstanceMessage_tag := vld_hollow
         (TimeStampedDeleteObjectInstanceMessage_tag v),
       TimeStampedDeleteObjectInstanceMessage_timeStamp := vld_hollow
           (TimeStampedDeleteObjectInstanceMessage_timeStamp v)\<rparr>"

lemma codec_TimeStampedDeleteObjectInstanceMessage: "payload_codec
    writeTimeStampedDeleteObjectInstanceMessage readTimeStampedDeleteObjectInstanceMessage
    payload_TimeStampedDeleteObjectInstanceMessage hollow_TimeStampedDeleteObjectInstanceMessage
    readPayloadTimeStampedDeleteObjectInstanceMessage"
proof
  fix v :: TimeStampedDeleteObjectInstanceMessage
  have e: "payload_TimeStampedDeleteObjectInstanceMessage v = vld_payload
      (TimeStampedDeleteObjectInstanceMessage_tag v) @ vld_payload
      (TimeStampedDeleteObjectInstanceMessage_timeStamp v) @ []"
    by (simp add: payload_TimeStampedDeleteObjectInstanceMessage_def)
  show "rt 1 (writeTimeStampedDeleteObjectInstanceMessage v)
      readTimeStampedDeleteObjectInstanceMessage (payload_TimeStampedDeleteObjectInstanceMessage v)
      (hollow_TimeStampedDeleteObjectInstanceMessage v)"
    unfolding writeTimeStampedDeleteObjectInstanceMessage_def
        readTimeStampedDeleteObjectInstanceMessage_def writes.simps e
    by (rule rt_first[OF codec_FederationHandle], rule rt_next[OF codec_FederateHandle],
      rule rt_next[OF codec_ObjectInstanceHandle], rule rt_next[OF codec_OrderType],
      rule rt_pnext[OF wire_VariableLengthData.payload_codec_axioms],
      rule rt_pnext[OF wire_VariableLengthData.payload_codec_axioms],
      rule rt_end[OF codec_MessageRetractionHandle]) (simp add:
          hollow_TimeStampedDeleteObjectInstanceMessage_def)
  show "readPayloadTimeStampedDeleteObjectInstanceMessage
      (hollow_TimeStampedDeleteObjectInstanceMessage v)
      (payload_TimeStampedDeleteObjectInstanceMessage v @ rest) = Inr (v, rest)" for rest
    by (simp add: readPayloadTimeStampedDeleteObjectInstanceMessage_def
        hollow_TimeStampedDeleteObjectInstanceMessage_def
        payload_TimeStampedDeleteObjectInstanceMessage_def dec_bind_def dec_return_def
        payload_facts)
  show "payload_TimeStampedDeleteObjectInstanceMessage v = [] \<Longrightarrow>
      hollow_TimeStampedDeleteObjectInstanceMessage v = v"
    by (simp add: payload_TimeStampedDeleteObjectInstanceMessage_def
        hollow_TimeStampedDeleteObjectInstanceMessage_def no_payload_facts)
  show "p \<in> set (payload_TimeStampedDeleteObjectInstanceMessage v) \<Longrightarrow> p \<noteq>
      []" for p
    by (auto simp: payload_TimeStampedDeleteObjectInstanceMessage_def dest: nonempty_facts)
qed

definition writeAttributeUpdateMessage :: "AttributeUpdateMessage writer" where
  "writeAttributeUpdateMessage v =
     writes [writeFederationHandle (AttributeUpdateMessage_federationHandle v),
      writeFederateHandle (AttributeUpdateMessage_federateHandle v),
      writeObjectInstanceHandle (AttributeUpdateMessage_objectInstanceHandle v),
      writeVariableLengthData (AttributeUpdateMessage_tag v),
      writeTransportationType (AttributeUpdateMessage_transportationType v),
      writeAttributeValueVector (AttributeUpdateMessage_attributeValues v)]"

definition readAttributeUpdateMessage :: "AttributeUpdateMessage reader" where
  "readAttributeUpdateMessage =
     dec_bind readFederationHandle (\<lambda>federationHandle.
     dec_bind readFederateHandle (\<lambda>federateHandle.
     dec_bind readObjectInstanceHandle (\<lambda>objectInstanceHandle.
     dec_bind readVariableLengthData (\<lambda>tag.
     dec_bind readTransportationType (\<lambda>transportationType.
     dec_bind readAttributeValueVector (\<lambda>attributeValues.
     dec_return \<lparr> AttributeUpdateMessage_federationHandle = federationHandle,
         AttributeUpdateMessage_federateHandle = federateHandle,
         AttributeUpdateMessage_objectInstanceHandle = objectInstanceHandle,
         AttributeUpdateMessage_tag = tag,
         AttributeUpdateMessage_transportationType = transportationType,
         AttributeUpdateMessage_attributeValues = attributeValues\<rparr>))))))"

definition readPayloadAttributeUpdateMessage :: "AttributeUpdateMessage \<Rightarrow>
    (AttributeUpdateMessage, vld list) decoder" where
  "readPayloadAttributeUpdateMessage v =
     dec_bind (readPayloadVariableLengthData (AttributeUpdateMessage_tag v)) (\<lambda>tag.
     dec_bind (readPayloadAttributeValueVector (AttributeUpdateMessage_attributeValues v))
         (\<lambda>attributeValues.
     dec_return (v\<lparr>AttributeUpdateMessage_tag := tag, AttributeUpdateMessage_attributeValues
         := attributeValues\<rparr>)))"

definition payload_AttributeUpdateMessage :: "AttributeUpdateMessage \<Rightarrow> vld list" where
  "payload_AttributeUpdateMessage v = vld_payload (AttributeUpdateMessage_tag v) @ concat (map
      payload_AttributeValue (AttributeUpdateMessage_attributeValues v))"

definition hollow_AttributeUpdateMessage :: "AttributeUpdateMessage \<Rightarrow>
    AttributeUpdateMessage" where
  "hollow_AttributeUpdateMessage v =
     v\<lparr>AttributeUpdateMessage_tag := vld_hollow (AttributeUpdateMessage_tag v),
       AttributeUpdateMessage_attributeValues := map hollow_AttributeValue
           (AttributeUpdateMessage_attributeValues v)\<rparr>"

lemma codec_AttributeUpdateMessage: "payload_codec writeAttributeUpdateMessage
    readAttributeUpdateMessage payload_AttributeUpdateMessage hollow_AttributeUpdateMessage
    readPayloadAttributeUpdateMessage"
proof
  fix v :: AttributeUpdateMessage
  have e: "payload_AttributeUpdateMessage v = vld_payload (AttributeUpdateMessage_tag v) @ concat
      (map payload_AttributeValue (AttributeUpdateMessage_attributeValues v))"
    by (simp add: payload_AttributeUpdateMessage_def)
  show "rt 1 (writeAttributeUpdateMessage v) readAttributeUpdateMessage
      (payload_AttributeUpdateMessage v) (hollow_AttributeUpdateMessage v)"
    unfolding writeAttributeUpdateMessage_def readAttributeUpdateMessage_def writes.simps e
    by (rule rt_first[OF codec_FederationHandle], rule rt_next[OF codec_FederateHandle],
      rule rt_next[OF codec_ObjectInstanceHandle],
      rule rt_pnext[OF wire_VariableLengthData.payload_codec_axioms],
      rule rt_next[OF codec_TransportationType], rule rt_pend[OF codec_AttributeValueVector]) (simp
          add: hollow_AttributeUpdateMessage_def)
  show "readPayloadAttributeUpdateMessage (hollow_AttributeUpdateMessage v)
      (payload_AttributeUpdateMessage v @ rest) = Inr (v, rest)" for rest
    by (simp add: readPayloadAttributeUpdateMessage_def hollow_AttributeUpdateMessage_def
        payload_AttributeUpdateMessage_def dec_bind_def dec_return_def
        payload_facts)
  show "payload_AttributeUpdateMessage v = [] \<Longrightarrow> hollow_AttributeUpdateMessage v = v"
    by (simp add: payload_AttributeUpdateMessage_def hollow_AttributeUpdateMessage_def
        no_payload_facts)
  show "p \<in> set (payload_AttributeUpdateMessage v) \<Longrightarrow> p \<noteq> []" for p
    by (auto simp: payload_AttributeUpdateMessage_def dest: nonempty_facts)
qed

definition writeTimeStampedAttributeUpdateMessage :: "TimeStampedAttributeUpdateMessage writer"
    where
  "writeTimeStampedAttributeUpdateMessage v =
     writes [writeFederationHandle (TimeStampedAttributeUpdateMessage_federationHandle v),
      writeFederateHandle (TimeStampedAttributeUpdateMessage_federateHandle v),
      writeObjectInstanceHandle (TimeStampedAttributeUpdateMessage_objectInstanceHandle v),
      writeVariableLengthData (TimeStampedAttributeUpdateMessage_tag v),
      writeVariableLengthData (TimeStampedAttributeUpdateMessage_timeStamp v),
      writeMessageRetractionHandle (TimeStampedAttributeUpdateMessage_messageRetractionHandle v),
      writeOrderType (TimeStampedAttributeUpdateMessage_orderType v),
      writeTransportationType (TimeStampedAttributeUpdateMessage_transportationType v),
      writeAttributeValueVector (TimeStampedAttributeUpdateMessage_attributeValues v)]"

definition readTimeStampedAttributeUpdateMessage :: "TimeStampedAttributeUpdateMessage reader" where
  "readTimeStampedAttributeUpdateMessage =
     dec_bind readFederationHandle (\<lambda>federationHandle.
     dec_bind readFederateHandle (\<lambda>federateHandle.
     dec_bind readObjectInstanceHandle (\<lambda>objectInstanceHandle.
     dec_bind readVariableLengthData (\<lambda>tag.
     dec_bind readVariableLengthData (\<lambda>timeStamp.
     dec_bind readMessageRetractionHandle (\<lambda>messageRetractionHandle.
     dec_bind readOrderType (\<lambda>orderType.
     dec_bind readTransportationType (\<lambda>transportationType.
     dec_bind readAttributeValueVector (\<lambda>attributeValues.
     dec_return \<lparr> TimeStampedAttributeUpdateMessage_federationHandle = federationHandle,
         TimeStampedAttributeUpdateMessage_federateHandle = federateHandle,
         TimeStampedAttributeUpdateMessage_objectInstanceHandle = objectInstanceHandle,
         TimeStampedAttributeUpdateMessage_tag = tag,
         TimeStampedAttributeUpdateMessage_timeStamp = timeStamp,
         TimeStampedAttributeUpdateMessage_messageRetractionHandle = messageRetractionHandle,
         TimeStampedAttributeUpdateMessage_orderType = orderType,
         TimeStampedAttributeUpdateMessage_transportationType = transportationType,
         TimeStampedAttributeUpdateMessage_attributeValues = attributeValues\<rparr>)))))))))"

definition readPayloadTimeStampedAttributeUpdateMessage :: "TimeStampedAttributeUpdateMessage
    \<Rightarrow> (TimeStampedAttributeUpdateMessage, vld list) decoder" where
  "readPayloadTimeStampedAttributeUpdateMessage v =
     dec_bind (readPayloadVariableLengthData (TimeStampedAttributeUpdateMessage_tag v))
         (\<lambda>tag.
     dec_bind (readPayloadVariableLengthData (TimeStampedAttributeUpdateMessage_timeStamp v))
         (\<lambda>timeStamp.
     dec_bind (readPayloadAttributeValueVector (TimeStampedAttributeUpdateMessage_attributeValues
         v)) (\<lambda>attributeValues.
     dec_return (v\<lparr>TimeStampedAttributeUpdateMessage_tag := tag,
         TimeStampedAttributeUpdateMessage_timeStamp := timeStamp,
         TimeStampedAttributeUpdateMessage_attributeValues := attributeValues\<rparr>))))"

definition payload_TimeStampedAttributeUpdateMessage :: "TimeStampedAttributeUpdateMessage
    \<Rightarrow> vld list" where
  "payload_TimeStampedAttributeUpdateMessage v = vld_payload (TimeStampedAttributeUpdateMessage_tag
      v) @ vld_payload (TimeStampedAttributeUpdateMessage_timeStamp v) @ concat (map
      payload_AttributeValue (TimeStampedAttributeUpdateMessage_attributeValues v))"

definition hollow_TimeStampedAttributeUpdateMessage :: "TimeStampedAttributeUpdateMessage
    \<Rightarrow> TimeStampedAttributeUpdateMessage" where
  "hollow_TimeStampedAttributeUpdateMessage v =
     v\<lparr>TimeStampedAttributeUpdateMessage_tag := vld_hollow
         (TimeStampedAttributeUpdateMessage_tag v),
       TimeStampedAttributeUpdateMessage_timeStamp := vld_hollow
           (TimeStampedAttributeUpdateMessage_timeStamp v),
       TimeStampedAttributeUpdateMessage_attributeValues := map hollow_AttributeValue
           (TimeStampedAttributeUpdateMessage_attributeValues v)\<rparr>"

lemma codec_TimeStampedAttributeUpdateMessage: "payload_codec
    writeTimeStampedAttributeUpdateMessage readTimeStampedAttributeUpdateMessage
    payload_TimeStampedAttributeUpdateMessage hollow_TimeStampedAttributeUpdateMessage
    readPayloadTimeStampedAttributeUpdateMessage"
proof
  fix v :: TimeStampedAttributeUpdateMessage
  have e: "payload_TimeStampedAttributeUpdateMessage v = vld_payload
      (TimeStampedAttributeUpdateMessage_tag v) @ vld_payload
      (TimeStampedAttributeUpdateMessage_timeStamp v) @ concat (map payload_AttributeValue
      (TimeStampedAttributeUpdateMessage_attributeValues v))"
    by (simp add: payload_TimeStampedAttributeUpdateMessage_def)
  show "rt 1 (writeTimeStampedAttributeUpdateMessage v) readTimeStampedAttributeUpdateMessage
      (payload_TimeStampedAttributeUpdateMessage v) (hollow_TimeStampedAttributeUpdateMessage v)"
    unfolding writeTimeStampedAttributeUpdateMessage_def readTimeStampedAttributeUpdateMessage_def
        writes.simps e
    by (rule rt_first[OF codec_FederationHandle], rule rt_next[OF codec_FederateHandle],
      rule rt_next[OF codec_ObjectInstanceHandle],
      rule rt_pnext[OF wire_VariableLengthData.payload_codec_axioms],
      rule rt_pnext[OF wire_VariableLengthData.payload_codec_axioms],
      rule rt_next[OF codec_MessageRetractionHandle], rule rt_next[OF codec_OrderType],
      rule rt_next[OF codec_TransportationType], rule rt_pend[OF codec_AttributeValueVector]) (simp
          add: hollow_TimeStampedAttributeUpdateMessage_def)
  show "readPayloadTimeStampedAttributeUpdateMessage (hollow_TimeStampedAttributeUpdateMessage v)
      (payload_TimeStampedAttributeUpdateMessage v @ rest) = Inr (v, rest)" for rest
    by (simp add: readPayloadTimeStampedAttributeUpdateMessage_def
        hollow_TimeStampedAttributeUpdateMessage_def payload_TimeStampedAttributeUpdateMessage_def
        dec_bind_def dec_return_def
        payload_facts)
  show "payload_TimeStampedAttributeUpdateMessage v = [] \<Longrightarrow>
      hollow_TimeStampedAttributeUpdateMessage v = v"
    by (simp add: payload_TimeStampedAttributeUpdateMessage_def
        hollow_TimeStampedAttributeUpdateMessage_def no_payload_facts)
  show "p \<in> set (payload_TimeStampedAttributeUpdateMessage v) \<Longrightarrow> p \<noteq> []"
      for p
    by (auto simp: payload_TimeStampedAttributeUpdateMessage_def dest: nonempty_facts)
qed

definition writeRequestAttributeUpdateMessage :: "RequestAttributeUpdateMessage writer" where
  "writeRequestAttributeUpdateMessage v =
     writes [writeFederationHandle (RequestAttributeUpdateMessage_federationHandle v),
      writeObjectInstanceHandle (RequestAttributeUpdateMessage_objectInstanceHandle v),
      writeAttributeHandleVector (RequestAttributeUpdateMessage_attributeHandles v),
      writeVariableLengthData (RequestAttributeUpdateMessage_tag v)]"

definition readRequestAttributeUpdateMessage :: "RequestAttributeUpdateMessage reader" where
  "readRequestAttributeUpdateMessage =
     dec_bind readFederationHandle (\<lambda>federationHandle.
     dec_bind readObjectInstanceHandle (\<lambda>objectInstanceHandle.
     dec_bind readAttributeHandleVector (\<lambda>attributeHandles.
     dec_bind readVariableLengthData (\<lambda>tag.
     dec_return \<lparr> RequestAttributeUpdateMessage_federationHandle = federationHandle,
         RequestAttributeUpdateMessage_objectInstanceHandle = objectInstanceHandle,
         RequestAttributeUpdateMessage_attributeHandles = attributeHandles,
         RequestAttributeUpdateMessage_tag = tag\<rparr>))))"

definition readPayloadRequestAttributeUpdateMessage :: "RequestAttributeUpdateMessage \<Rightarrow>
    (RequestAttributeUpdateMessage, vld list) decoder" where
  "readPayloadRequestAttributeUpdateMessage v =
     dec_bind (readPayloadVariableLengthData (RequestAttributeUpdateMessage_tag v)) (\<lambda>tag.
     dec_return (v\<lparr>RequestAttributeUpdateMessage_tag := tag\<rparr>))"

definition payload_RequestAttributeUpdateMessage :: "RequestAttributeUpdateMessage \<Rightarrow>
    vld list" where
  "payload_RequestAttributeUpdateMessage v = vld_payload (RequestAttributeUpdateMessage_tag v)"

definition hollow_RequestAttributeUpdateMessage :: "RequestAttributeUpdateMessage \<Rightarrow>
    RequestAttributeUpdateMessage" where
  "hollow_RequestAttributeUpdateMessage v =
     v\<lparr>RequestAttributeUpdateMessage_tag := vld_hollow (RequestAttributeUpdateMessage_tag
         v)\<rparr>"

lemma codec_RequestAttributeUpdateMessage: "payload_codec writeRequestAttributeUpdateMessage
    readRequestAttributeUpdateMessage payload_RequestAttributeUpdateMessage
    hollow_RequestAttributeUpdateMessage readPayloadRequestAttributeUpdateMessage"
proof
  fix v :: RequestAttributeUpdateMessage
  have e: "payload_RequestAttributeUpdateMessage v = vld_payload (RequestAttributeUpdateMessage_tag
      v)"
    by (simp add: payload_RequestAttributeUpdateMessage_def)
  show "rt 1 (writeRequestAttributeUpdateMessage v) readRequestAttributeUpdateMessage
      (payload_RequestAttributeUpdateMessage v) (hollow_RequestAttributeUpdateMessage v)"
    unfolding writeRequestAttributeUpdateMessage_def readRequestAttributeUpdateMessage_def
        writes.simps e
    by (rule rt_first[OF codec_FederationHandle], rule rt_next[OF codec_ObjectInstanceHandle],
      rule rt_next[OF codec_AttributeHandleVector],
      rule rt_pend[OF wire_VariableLengthData.payload_codec_axioms]) (simp add:
          hollow_RequestAttributeUpdateMessage_def)
  show "readPayloadRequestAttributeUpdateMessage (hollow_RequestAttributeUpdateMessage v)
      (payload_RequestAttributeUpdateMessage v @ rest) = Inr (v, rest)" for rest
    by (simp add: readPayloadRequestAttributeUpdateMessage_def
        hollow_RequestAttributeUpdateMessage_def payload_RequestAttributeUpdateMessage_def
        dec_bind_def dec_return_def
        payload_facts)
  show "payload_RequestAttributeUpdateMessage v = [] \<Longrightarrow>
      hollow_RequestAttributeUpdateMessage v = v"
    by (simp add: payload_RequestAttributeUpdateMessage_def
        hollow_RequestAttributeUpdateMessage_def no_payload_facts)
  show "p \<in> set (payload_RequestAttributeUpdateMessage v) \<Longrightarrow> p \<noteq> []" for p
    by (auto simp: payload_RequestAttributeUpdateMessage_def dest: nonempty_facts)
qed

definition writeRequestClassAttributeUpdateMessage :: "RequestClassAttributeUpdateMessage writer"
    where
  "writeRequestClassAttributeUpdateMessage v =
     writes [writeFederationHandle (RequestClassAttributeUpdateMessage_federationHandle v),
      writeObjectClassHandle (RequestClassAttributeUpdateMessage_objectClassHandle v),
      writeAttributeHandleVector (RequestClassAttributeUpdateMessage_attributeHandles v),
      writeVariableLengthData (RequestClassAttributeUpdateMessage_tag v)]"

definition readRequestClassAttributeUpdateMessage :: "RequestClassAttributeUpdateMessage reader"
    where
  "readRequestClassAttributeUpdateMessage =
     dec_bind readFederationHandle (\<lambda>federationHandle.
     dec_bind readObjectClassHandle (\<lambda>objectClassHandle.
     dec_bind readAttributeHandleVector (\<lambda>attributeHandles.
     dec_bind readVariableLengthData (\<lambda>tag.
     dec_return \<lparr> RequestClassAttributeUpdateMessage_federationHandle = federationHandle,
         RequestClassAttributeUpdateMessage_objectClassHandle = objectClassHandle,
         RequestClassAttributeUpdateMessage_attributeHandles = attributeHandles,
         RequestClassAttributeUpdateMessage_tag = tag\<rparr>))))"

definition readPayloadRequestClassAttributeUpdateMessage :: "RequestClassAttributeUpdateMessage
    \<Rightarrow> (RequestClassAttributeUpdateMessage, vld list) decoder" where
  "readPayloadRequestClassAttributeUpdateMessage v =
     dec_bind (readPayloadVariableLengthData (RequestClassAttributeUpdateMessage_tag v))
         (\<lambda>tag.
     dec_return (v\<lparr>RequestClassAttributeUpdateMessage_tag := tag\<rparr>))"

definition payload_RequestClassAttributeUpdateMessage :: "RequestClassAttributeUpdateMessage
    \<Rightarrow> vld list" where
  "payload_RequestClassAttributeUpdateMessage v = vld_payload
      (RequestClassAttributeUpdateMessage_tag v)"

definition hollow_RequestClassAttributeUpdateMessage :: "RequestClassAttributeUpdateMessage
    \<Rightarrow> RequestClassAttributeUpdateMessage" where
  "hollow_RequestClassAttributeUpdateMessage v =
     v\<lparr>RequestClassAttributeUpdateMessage_tag := vld_hollow
         (RequestClassAttributeUpdateMessage_tag v)\<rparr>"

lemma codec_RequestClassAttributeUpdateMessage: "payload_codec
    writeRequestClassAttributeUpdateMessage readRequestClassAttributeUpdateMessage
    payload_RequestClassAttributeUpdateMessage hollow_RequestClassAttributeUpdateMessage
    readPayloadRequestClassAttributeUpdateMessage"
proof
  fix v :: RequestClassAttributeUpdateMessage
  have e: "payload_RequestClassAttributeUpdateMessage v = vld_payload
      (RequestClassAttributeUpdateMessage_tag v)"
    by (simp add: payload_RequestClassAttributeUpdateMessage_def)
  show "rt 1 (writeRequestClassAttributeUpdateMessage v) readRequestClassAttributeUpdateMessage
      (payload_RequestClassAttributeUpdateMessage v) (hollow_RequestClassAttributeUpdateMessage v)"
    unfolding writeRequestClassAttributeUpdateMessage_def
        readRequestClassAttributeUpdateMessage_def writes.simps e
    by (rule rt_first[OF codec_FederationHandle], rule rt_next[OF codec_ObjectClassHandle],
      rule rt_next[OF codec_AttributeHandleVector],
      rule rt_pend[OF wire_VariableLengthData.payload_codec_axioms]) (simp add:
          hollow_RequestClassAttributeUpdateMessage_def)
  show "readPayloadRequestClassAttributeUpdateMessage (hollow_RequestClassAttributeUpdateMessage v)
      (payload_RequestClassAttributeUpdateMessage v @ rest) = Inr (v, rest)" for rest
    by (simp add: readPayloadRequestClassAttributeUpdateMessage_def
        hollow_RequestClassAttributeUpdateMessage_def
        payload_RequestClassAttributeUpdateMessage_def dec_bind_def dec_return_def
        payload_facts)
  show "payload_RequestClassAttributeUpdateMessage v = [] \<Longrightarrow>
      hollow_RequestClassAttributeUpdateMessage v = v"
    by (simp add: payload_RequestClassAttributeUpdateMessage_def
        hollow_RequestClassAttributeUpdateMessage_def no_payload_facts)
  show "p \<in> set (payload_RequestClassAttributeUpdateMessage v) \<Longrightarrow> p \<noteq> []"
      for p
    by (auto simp: payload_RequestClassAttributeUpdateMessage_def dest: nonempty_facts)
qed

definition writeQueryAttributeOwnershipRequestMessage :: "QueryAttributeOwnershipRequestMessage
    writer" where
  "writeQueryAttributeOwnershipRequestMessage v =
     writes [writeFederationHandle (QueryAttributeOwnershipRequestMessage_federationHandle v),
      writeObjectInstanceHandle (QueryAttributeOwnershipRequestMessage_objectInstanceHandle v),
      writeAttributeHandle (QueryAttributeOwnershipRequestMessage_attributeHandle v)]"

definition readQueryAttributeOwnershipRequestMessage :: "QueryAttributeOwnershipRequestMessage
    reader" where
  "readQueryAttributeOwnershipRequestMessage =
     dec_bind readFederationHandle (\<lambda>federationHandle.
     dec_bind readObjectInstanceHandle (\<lambda>objectInstanceHandle.
     dec_bind readAttributeHandle (\<lambda>attributeHandle.
     dec_return \<lparr>
         QueryAttributeOwnershipRequestMessage_federationHandle = federationHandle,
         QueryAttributeOwnershipRequestMessage_objectInstanceHandle = objectInstanceHandle,
         QueryAttributeOwnershipRequestMessage_attributeHandle = attributeHandle\<rparr>)))"

lemma codec_QueryAttributeOwnershipRequestMessage: "wire_codec
    writeQueryAttributeOwnershipRequestMessage readQueryAttributeOwnershipRequestMessage"
  unfolding writeQueryAttributeOwnershipRequestMessage_def
      readQueryAttributeOwnershipRequestMessage_def writes.simps
  by (rule wire_codec.intro, rule rt_first[OF codec_FederationHandle],
      rule rt_next[OF codec_ObjectInstanceHandle], rule rt_end[OF codec_AttributeHandle]) simp

definition writeQueryAttributeOwnershipResponseMessage :: "QueryAttributeOwnershipResponseMessage
    writer" where
  "writeQueryAttributeOwnershipResponseMessage v =
     writes [writeFederationHandle (QueryAttributeOwnershipResponseMessage_federationHandle v),
      writeObjectInstanceHandle (QueryAttributeOwnershipResponseMessage_objectInstanceHandle v),
      writeAttributeHandle (QueryAttributeOwnershipResponseMessage_attributeHandle v),
      writeFederateHandle (QueryAttributeOwnershipResponseMessage_owner v)]"

definition readQueryAttributeOwnershipResponseMessage :: "QueryAttributeOwnershipResponseMessage
    reader" where
  "readQueryAttributeOwnershipResponseMessage =
     dec_bind readFederationHandle (\<lambda>federationHandle.
     dec_bind readObjectInstanceHandle (\<lambda>objectInstanceHandle.
     dec_bind readAttributeHandle (\<lambda>attributeHandle.
     dec_bind readFederateHandle (\<lambda>owner.
     dec_return \<lparr>
         QueryAttributeOwnershipResponseMessage_federationHandle = federationHandle,
         QueryAttributeOwnershipResponseMessage_objectInstanceHandle = objectInstanceHandle,
         QueryAttributeOwnershipResponseMessage_attributeHandle = attributeHandle,
         QueryAttributeOwnershipResponseMessage_owner = owner\<rparr>))))"

lemma codec_QueryAttributeOwnershipResponseMessage: "wire_codec
    writeQueryAttributeOwnershipResponseMessage readQueryAttributeOwnershipResponseMessage"
  unfolding writeQueryAttributeOwnershipResponseMessage_def
      readQueryAttributeOwnershipResponseMessage_def writes.simps
  by (rule wire_codec.intro, rule rt_first[OF codec_FederationHandle],
      rule rt_next[OF codec_ObjectInstanceHandle], rule rt_next[OF codec_AttributeHandle],
      rule rt_end[OF codec_FederateHandle]) simp

end
