(* ===== verification/TightBE1.thy ===== *)
theory TightBE1
  imports Message_Codec
begin

text \<open>
  \<open>TightBE1MessageEncoding\<close>: the dispatch of a message to its writer and of a packet
      to the reader its
  operation code selects. A packet is a list of buffers: the size of the body as a big endian
  number, the body that starts with the operation code, and the buffers of the opaque data.
\<close>

text \<open>\<open>DispatchFunctor::encode\<close>: what is written to the body; the fall-back
    overload throws.\<close>

primrec encode :: "message \<Rightarrow> (message_encode \<Rightarrow> message_encode) option" where
    "encode (ConnectionLostMessage v) =
       Some (fcomp (writeUInt16Compressed 1) (writeConnectionLostMessage v))"
  | "encode (CreateFederationExecutionRequestMessage v) =
       Some (fcomp (writeUInt16Compressed 2) (writeCreateFederationExecutionRequestMessage v))"
  | "encode (CreateFederationExecutionRequest2Message v) =
       Some (fcomp (writeUInt16Compressed 104) (writeCreateFederationExecutionRequest2Message v))"
  | "encode (CreateFederationExecutionResponseMessage v) =
       Some (fcomp (writeUInt16Compressed 3) (writeCreateFederationExecutionResponseMessage v))"
  | "encode (DestroyFederationExecutionRequestMessage v) =
       Some (fcomp (writeUInt16Compressed 4) (writeDestroyFederationExecutionRequestMessage v))"
  | "encode (DestroyFederationExecutionResponseMessage v) =
       Some (fcomp (writeUInt16Compressed 5) (writeDestroyFederationExecutionResponseMessage v))"
  | "encode (EnumerateFederationExecutionsRequestMessage v) = Some (writeUInt16Compressed 6)"
  | "encode (EnumerateFederationExecutionsResponseMessage v) =
       Some (fcomp (writeUInt16Compressed 7) (writeEnumerateFederationExecutionsResponseMessage v))"
  | "encode (InsertFederationExecutionMessage v) =
       Some (fcomp (writeUInt16Compressed 8) (writeInsertFederationExecutionMessage v))"
  | "encode (ShutdownFederationExecutionMessage v) =
       Some (fcomp (writeUInt16Compressed 9) (writeShutdownFederationExecutionMessage v))"
  | "encode (EraseFederationExecutionMessage v) =
       Some (fcomp (writeUInt16Compressed 10) (writeEraseFederationExecutionMessage v))"
  | "encode (ReleaseFederationHandleMessage v) =
       Some (fcomp (writeUInt16Compressed 11) (writeReleaseFederationHandleMessage v))"
  | "encode (InsertModulesMessage v) =
       Some (fcomp (writeUInt16Compressed 12) (writeInsertModulesMessage v))"
  | "encode (InsertModules2Message v) =
       Some (fcomp (writeUInt16Compressed 106) (writeInsertModules2Message v))"
  | "encode (JoinFederationExecutionRequestMessage v) =
       Some (fcomp (writeUInt16Compressed 13) (writeJoinFederationExecutionRequestMessage v))"
  | "encode (JoinFederationExecutionRequest2Message v) =
       Some (fcomp (writeUInt16Compressed 105) (writeJoinFederationExecutionRequest2Message v))"
  | "encode (JoinFederationExecutionResponseMessage v) =
       Some (fcomp (writeUInt16Compressed 14) (writeJoinFederationExecutionResponseMessage v))"
  | "encode (ResignFederationExecutionRequestMessage v) =
       Some (fcomp (writeUInt16Compressed 15) (writeResignFederationExecutionRequestMessage v))"
  | "encode (JoinFederateNotifyMessage v) =
       Some (fcomp (writeUInt16Compressed 16) (writeJoinFederateNotifyMessage v))"
  | "encode (ResignFederateNotifyMessage v) =
       Some (fcomp (writeUInt16Compressed 17) (writeResignFederateNotifyMessage v))"
  | "encode (ChangeAutomaticResignDirectiveMessage v) =
       Some (fcomp (writeUInt16Compressed 18) (writeChangeAutomaticResignDirectiveMessage v))"
  | "encode (RegisterFederationSynchronizationPointMessage v) =
       Some (fcomp (writeUInt16Compressed 30) (writeRegisterFederationSynchronizationPointMessage
           v))"
  | "encode (RegisterFederationSynchronizationPointResponseMessage v) =
       Some (fcomp (writeUInt16Compressed 31)
           (writeRegisterFederationSynchronizationPointResponseMessage v))"
  | "encode (AnnounceSynchronizationPointMessage v) =
       Some (fcomp (writeUInt16Compressed 32) (writeAnnounceSynchronizationPointMessage v))"
  | "encode (SynchronizationPointAchievedMessage v) =
       Some (fcomp (writeUInt16Compressed 33) (writeSynchronizationPointAchievedMessage v))"
  | "encode (FederationSynchronizedMessage v) =
       Some (fcomp (writeUInt16Compressed 34) (writeFederationSynchronizedMessage v))"
  | "encode (EnableTimeRegulationRequestMessage v) =
       Some (fcomp (writeUInt16Compressed 40) (writeEnableTimeRegulationRequestMessage v))"
  | "encode (EnableTimeRegulationResponseMessage v) =
       Some (fcomp (writeUInt16Compressed 41) (writeEnableTimeRegulationResponseMessage v))"
  | "encode (DisableTimeRegulationRequestMessage v) =
       Some (fcomp (writeUInt16Compressed 42) (writeDisableTimeRegulationRequestMessage v))"
  | "encode (EnableTimeConstrainedNotifyMessage v) =
       Some (fcomp (writeUInt16Compressed 100) (writeEnableTimeConstrainedNotifyMessage v))"
  | "encode (DisableTimeConstrainedNotifyMessage v) =
       Some (fcomp (writeUInt16Compressed 101) (writeDisableTimeConstrainedNotifyMessage v))"
  | "encode (CommitLowerBoundTimeStampMessage v) =
       Some (fcomp (writeUInt16Compressed 43) (writeCommitLowerBoundTimeStampMessage v))"
  | "encode (CommitLowerBoundTimeStampResponseMessage v) =
       Some (fcomp (writeUInt16Compressed 44) (writeCommitLowerBoundTimeStampResponseMessage v))"
  | "encode (LockedByNextMessageRequestMessage v) =
       Some (fcomp (writeUInt16Compressed 45) (writeLockedByNextMessageRequestMessage v))"
  | "encode (InsertRegionMessage v) =
       Some (fcomp (writeUInt16Compressed 46) (writeInsertRegionMessage v))"
  | "encode (CommitRegionMessage v) =
       Some (fcomp (writeUInt16Compressed 47) (writeCommitRegionMessage v))"
  | "encode (EraseRegionMessage v) =
       Some (fcomp (writeUInt16Compressed 48) (writeEraseRegionMessage v))"
  | "encode (ChangeInteractionClassPublicationMessage v) =
       Some (fcomp (writeUInt16Compressed 50) (writeChangeInteractionClassPublicationMessage v))"
  | "encode (ChangeObjectClassPublicationMessage v) =
       Some (fcomp (writeUInt16Compressed 51) (writeChangeObjectClassPublicationMessage v))"
  | "encode (ChangeInteractionClassSubscriptionMessage v) =
       Some (fcomp (writeUInt16Compressed 52) (writeChangeInteractionClassSubscriptionMessage v))"
  | "encode (ChangeObjectClassSubscriptionMessage v) =
       Some (fcomp (writeUInt16Compressed 53) (writeChangeObjectClassSubscriptionMessage v))"
  | "encode (ChangeObjectInstanceSubscriptionMessage v) =
       Some (fcomp (writeUInt16Compressed 99) (writeChangeObjectInstanceSubscriptionMessage v))"
  | "encode (InteractionMessage v) =
       Some (fcomp (writeUInt16Compressed 80) (writeInteractionMessage v))"
  | "encode (TimeStampedInteractionMessage v) =
       Some (fcomp (writeUInt16Compressed 81) (writeTimeStampedInteractionMessage v))"
  | "encode (ObjectInstanceHandlesRequestMessage v) =
       Some (fcomp (writeUInt16Compressed 60) (writeObjectInstanceHandlesRequestMessage v))"
  | "encode (ObjectInstanceHandlesResponseMessage v) =
       Some (fcomp (writeUInt16Compressed 61) (writeObjectInstanceHandlesResponseMessage v))"
  | "encode (ReleaseMultipleObjectInstanceNameHandlePairsMessage v) =
       Some (fcomp (writeUInt16Compressed 62)
           (writeReleaseMultipleObjectInstanceNameHandlePairsMessage v))"
  | "encode (ReserveObjectInstanceNameRequestMessage v) =
       Some (fcomp (writeUInt16Compressed 63) (writeReserveObjectInstanceNameRequestMessage v))"
  | "encode (ReserveObjectInstanceNameResponseMessage v) =
       Some (fcomp (writeUInt16Compressed 64) (writeReserveObjectInstanceNameResponseMessage v))"
  | "encode (ReserveMultipleObjectInstanceNameRequestMessage v) =
       Some (fcomp (writeUInt16Compressed 65) (writeReserveMultipleObjectInstanceNameRequestMessage
           v))"
  | "encode (ReserveMultipleObjectInstanceNameResponseMessage v) =
       Some (fcomp (writeUInt16Compressed 66)
           (writeReserveMultipleObjectInstanceNameResponseMessage v))"
  | "encode (InsertObjectInstanceMessage v) =
       Some (fcomp (writeUInt16Compressed 90) (writeInsertObjectInstanceMessage v))"
  | "encode (DeleteObjectInstanceMessage v) =
       Some (fcomp (writeUInt16Compressed 91) (writeDeleteObjectInstanceMessage v))"
  | "encode (TimeStampedDeleteObjectInstanceMessage v) =
       Some (fcomp (writeUInt16Compressed 92) (writeTimeStampedDeleteObjectInstanceMessage v))"
  | "encode (AttributeUpdateMessage v) =
       Some (fcomp (writeUInt16Compressed 94) (writeAttributeUpdateMessage v))"
  | "encode (TimeStampedAttributeUpdateMessage v) =
       Some (fcomp (writeUInt16Compressed 96) (writeTimeStampedAttributeUpdateMessage v))"
  | "encode (RequestAttributeUpdateMessage v) =
       Some (fcomp (writeUInt16Compressed 97) (writeRequestAttributeUpdateMessage v))"
  | "encode (RequestClassAttributeUpdateMessage v) =
       Some (fcomp (writeUInt16Compressed 98) (writeRequestClassAttributeUpdateMessage v))"
  | "encode (QueryAttributeOwnershipRequestMessage v) =
       Some (fcomp (writeUInt16Compressed 102) (writeQueryAttributeOwnershipRequestMessage v))"
  | "encode (QueryAttributeOwnershipResponseMessage v) =
       Some (fcomp (writeUInt16Compressed 103) (writeQueryAttributeOwnershipResponseMessage v))"
  | "encode OtherMessage = None"

text \<open>The cases of the switch of \<open>decodeBody\<close>.\<close>

definition body_decoders :: "(16 word \<times> message reader) list" where
  "body_decoders = [
     (1, dec_bind readConnectionLostMessage (\<lambda>v. dec_return (ConnectionLostMessage v))),
     (2, dec_bind readCreateFederationExecutionRequestMessage (\<lambda>v. dec_return
         (CreateFederationExecutionRequestMessage v))),
     (104, dec_bind readCreateFederationExecutionRequest2Message (\<lambda>v. dec_return
         (CreateFederationExecutionRequest2Message v))),
     (3, dec_bind readCreateFederationExecutionResponseMessage (\<lambda>v. dec_return
         (CreateFederationExecutionResponseMessage v))),
     (4, dec_bind readDestroyFederationExecutionRequestMessage (\<lambda>v. dec_return
         (DestroyFederationExecutionRequestMessage v))),
     (5, dec_bind readDestroyFederationExecutionResponseMessage (\<lambda>v. dec_return
         (DestroyFederationExecutionResponseMessage v))),
     (6, dec_return (EnumerateFederationExecutionsRequestMessage ())),
     (7, dec_bind readEnumerateFederationExecutionsResponseMessage (\<lambda>v. dec_return
         (EnumerateFederationExecutionsResponseMessage v))),
     (8, dec_bind readInsertFederationExecutionMessage (\<lambda>v. dec_return
         (InsertFederationExecutionMessage v))),
     (9, dec_bind readShutdownFederationExecutionMessage (\<lambda>v. dec_return
         (ShutdownFederationExecutionMessage v))),
     (10, dec_bind readEraseFederationExecutionMessage (\<lambda>v. dec_return
         (EraseFederationExecutionMessage v))),
     (11, dec_bind readReleaseFederationHandleMessage (\<lambda>v. dec_return
         (ReleaseFederationHandleMessage v))),
     (12, dec_bind readInsertModulesMessage (\<lambda>v. dec_return (InsertModulesMessage v))),
     (106, dec_bind readInsertModules2Message (\<lambda>v. dec_return (InsertModules2Message v))),
     (13, dec_bind readJoinFederationExecutionRequestMessage (\<lambda>v. dec_return
         (JoinFederationExecutionRequestMessage v))),
     (105, dec_bind readJoinFederationExecutionRequest2Message (\<lambda>v. dec_return
         (JoinFederationExecutionRequest2Message v))),
     (14, dec_bind readJoinFederationExecutionResponseMessage (\<lambda>v. dec_return
         (JoinFederationExecutionResponseMessage v))),
     (15, dec_bind readResignFederationExecutionRequestMessage (\<lambda>v. dec_return
         (ResignFederationExecutionRequestMessage v))),
     (16, dec_bind readJoinFederateNotifyMessage (\<lambda>v. dec_return (JoinFederateNotifyMessage
         v))),
     (17, dec_bind readResignFederateNotifyMessage (\<lambda>v. dec_return
         (ResignFederateNotifyMessage v))),
     (18, dec_bind readChangeAutomaticResignDirectiveMessage (\<lambda>v. dec_return
         (ChangeAutomaticResignDirectiveMessage v))),
     (30, dec_bind readRegisterFederationSynchronizationPointMessage (\<lambda>v. dec_return
         (RegisterFederationSynchronizationPointMessage v))),
     (31, dec_bind readRegisterFederationSynchronizationPointResponseMessage (\<lambda>v.
         dec_return (RegisterFederationSynchronizationPointResponseMessage v))),
     (32, dec_bind readAnnounceSynchronizationPointMessage (\<lambda>v. dec_return
         (AnnounceSynchronizationPointMessage v))),
     (33, dec_bind readSynchronizationPointAchievedMessage (\<lambda>v. dec_return
         (SynchronizationPointAchievedMessage v))),
     (34, dec_bind readFederationSynchronizedMessage (\<lambda>v. dec_return
         (FederationSynchronizedMessage v))),
     (40, dec_bind readEnableTimeRegulationRequestMessage (\<lambda>v. dec_return
         (EnableTimeRegulationRequestMessage v))),
     (41, dec_bind readEnableTimeRegulationResponseMessage (\<lambda>v. dec_return
         (EnableTimeRegulationResponseMessage v))),
     (42, dec_bind readDisableTimeRegulationRequestMessage (\<lambda>v. dec_return
         (DisableTimeRegulationRequestMessage v))),
     (100, dec_bind readEnableTimeConstrainedNotifyMessage (\<lambda>v. dec_return
         (EnableTimeConstrainedNotifyMessage v))),
     (101, dec_bind readDisableTimeConstrainedNotifyMessage (\<lambda>v. dec_return
         (DisableTimeConstrainedNotifyMessage v))),
     (43, dec_bind readCommitLowerBoundTimeStampMessage (\<lambda>v. dec_return
         (CommitLowerBoundTimeStampMessage v))),
     (44, dec_bind readCommitLowerBoundTimeStampResponseMessage (\<lambda>v. dec_return
         (CommitLowerBoundTimeStampResponseMessage v))),
     (45, dec_bind readLockedByNextMessageRequestMessage (\<lambda>v. dec_return
         (LockedByNextMessageRequestMessage v))),
     (46, dec_bind readInsertRegionMessage (\<lambda>v. dec_return (InsertRegionMessage v))),
     (47, dec_bind readCommitRegionMessage (\<lambda>v. dec_return (CommitRegionMessage v))),
     (48, dec_bind readEraseRegionMessage (\<lambda>v. dec_return (EraseRegionMessage v))),
     (50, dec_bind readChangeInteractionClassPublicationMessage (\<lambda>v. dec_return
         (ChangeInteractionClassPublicationMessage v))),
     (51, dec_bind readChangeObjectClassPublicationMessage (\<lambda>v. dec_return
         (ChangeObjectClassPublicationMessage v))),
     (52, dec_bind readChangeInteractionClassSubscriptionMessage (\<lambda>v. dec_return
         (ChangeInteractionClassSubscriptionMessage v))),
     (53, dec_bind readChangeObjectClassSubscriptionMessage (\<lambda>v. dec_return
         (ChangeObjectClassSubscriptionMessage v))),
     (99, dec_bind readChangeObjectInstanceSubscriptionMessage (\<lambda>v. dec_return
         (ChangeObjectInstanceSubscriptionMessage v))),
     (80, dec_bind readInteractionMessage (\<lambda>v. dec_return (InteractionMessage v))),
     (81, dec_bind readTimeStampedInteractionMessage (\<lambda>v. dec_return
         (TimeStampedInteractionMessage v))),
     (60, dec_bind readObjectInstanceHandlesRequestMessage (\<lambda>v. dec_return
         (ObjectInstanceHandlesRequestMessage v))),
     (61, dec_bind readObjectInstanceHandlesResponseMessage (\<lambda>v. dec_return
         (ObjectInstanceHandlesResponseMessage v))),
     (62, dec_bind readReleaseMultipleObjectInstanceNameHandlePairsMessage (\<lambda>v. dec_return
         (ReleaseMultipleObjectInstanceNameHandlePairsMessage v))),
     (63, dec_bind readReserveObjectInstanceNameRequestMessage (\<lambda>v. dec_return
         (ReserveObjectInstanceNameRequestMessage v))),
     (64, dec_bind readReserveObjectInstanceNameResponseMessage (\<lambda>v. dec_return
         (ReserveObjectInstanceNameResponseMessage v))),
     (65, dec_bind readReserveMultipleObjectInstanceNameRequestMessage (\<lambda>v. dec_return
         (ReserveMultipleObjectInstanceNameRequestMessage v))),
     (66, dec_bind readReserveMultipleObjectInstanceNameResponseMessage (\<lambda>v. dec_return
         (ReserveMultipleObjectInstanceNameResponseMessage v))),
     (90, dec_bind readInsertObjectInstanceMessage (\<lambda>v. dec_return
         (InsertObjectInstanceMessage v))),
     (91, dec_bind readDeleteObjectInstanceMessage (\<lambda>v. dec_return
         (DeleteObjectInstanceMessage v))),
     (92, dec_bind readTimeStampedDeleteObjectInstanceMessage (\<lambda>v. dec_return
         (TimeStampedDeleteObjectInstanceMessage v))),
     (94, dec_bind readAttributeUpdateMessage (\<lambda>v. dec_return (AttributeUpdateMessage v))),
     (96, dec_bind readTimeStampedAttributeUpdateMessage (\<lambda>v. dec_return
         (TimeStampedAttributeUpdateMessage v))),
     (97, dec_bind readRequestAttributeUpdateMessage (\<lambda>v. dec_return
         (RequestAttributeUpdateMessage v))),
     (98, dec_bind readRequestClassAttributeUpdateMessage (\<lambda>v. dec_return
         (RequestClassAttributeUpdateMessage v))),
     (102, dec_bind readQueryAttributeOwnershipRequestMessage (\<lambda>v. dec_return
         (QueryAttributeOwnershipRequestMessage v))),
     (103, dec_bind readQueryAttributeOwnershipResponseMessage (\<lambda>v. dec_return
         (QueryAttributeOwnershipResponseMessage v)))]"

definition decodeBody :: "message option reader" where
  "decodeBody = dec_bind readUInt16Compressed (\<lambda>opcode.
     case map_of body_decoders opcode of
       None \<Rightarrow> dec_return None
     | Some rd \<Rightarrow> dec_bind rd (\<lambda>m. dec_return (Some m)))"

text \<open>
  The switch of \<open>decodePayload\<close>: the operation code is read again from the body and
      selects the
  payload decoder, which is applied to the message the body was decoded to.
\<close>

definition payload_decoder :: "message \<Rightarrow> (message, vld list) decoder" where
  "payload_decoder m = (case m of
       RegisterFederationSynchronizationPointMessage v \<Rightarrow> dec_bind
           (readPayloadRegisterFederationSynchronizationPointMessage v) (\<lambda>v. dec_return
           (RegisterFederationSynchronizationPointMessage v))
     | AnnounceSynchronizationPointMessage v \<Rightarrow> dec_bind
         (readPayloadAnnounceSynchronizationPointMessage v) (\<lambda>v. dec_return
         (AnnounceSynchronizationPointMessage v))
     | EnableTimeRegulationRequestMessage v \<Rightarrow> dec_bind
         (readPayloadEnableTimeRegulationRequestMessage v) (\<lambda>v. dec_return
         (EnableTimeRegulationRequestMessage v))
     | EnableTimeRegulationResponseMessage v \<Rightarrow> dec_bind
         (readPayloadEnableTimeRegulationResponseMessage v) (\<lambda>v. dec_return
         (EnableTimeRegulationResponseMessage v))
     | CommitLowerBoundTimeStampMessage v \<Rightarrow> dec_bind
         (readPayloadCommitLowerBoundTimeStampMessage v) (\<lambda>v. dec_return
         (CommitLowerBoundTimeStampMessage v))
     | ChangeInteractionClassSubscriptionMessage v \<Rightarrow> dec_bind
         (readPayloadChangeInteractionClassSubscriptionMessage v) (\<lambda>v. dec_return
         (ChangeInteractionClassSubscriptionMessage v))
     | InteractionMessage v \<Rightarrow> dec_bind (readPayloadInteractionMessage v) (\<lambda>v.
         dec_return (InteractionMessage v))
     | TimeStampedInteractionMessage v \<Rightarrow> dec_bind
         (readPayloadTimeStampedInteractionMessage v) (\<lambda>v. dec_return
         (TimeStampedInteractionMessage v))
     | DeleteObjectInstanceMessage v \<Rightarrow> dec_bind (readPayloadDeleteObjectInstanceMessage
         v) (\<lambda>v. dec_return (DeleteObjectInstanceMessage v))
     | TimeStampedDeleteObjectInstanceMessage v \<Rightarrow> dec_bind
         (readPayloadTimeStampedDeleteObjectInstanceMessage v) (\<lambda>v. dec_return
         (TimeStampedDeleteObjectInstanceMessage v))
     | AttributeUpdateMessage v \<Rightarrow> dec_bind (readPayloadAttributeUpdateMessage v)
         (\<lambda>v. dec_return (AttributeUpdateMessage v))
     | TimeStampedAttributeUpdateMessage v \<Rightarrow> dec_bind
         (readPayloadTimeStampedAttributeUpdateMessage v) (\<lambda>v. dec_return
         (TimeStampedAttributeUpdateMessage v))
     | RequestAttributeUpdateMessage v \<Rightarrow> dec_bind
         (readPayloadRequestAttributeUpdateMessage v) (\<lambda>v. dec_return
         (RequestAttributeUpdateMessage v))
     | RequestClassAttributeUpdateMessage v \<Rightarrow> dec_bind
         (readPayloadRequestClassAttributeUpdateMessage v) (\<lambda>v. dec_return
         (RequestClassAttributeUpdateMessage v))
     | _ \<Rightarrow> dec_return m)"

definition payload_opcodes :: "16 word list" where
  "payload_opcodes = [30, 32, 40, 41, 43, 52, 80, 81, 91, 92, 94, 96, 97, 98]"

text \<open>The buffers of a message and what its body alone is decoded to.\<close>

definition message_payload :: "message \<Rightarrow> vld list" where
  "message_payload m = (case m of
       RegisterFederationSynchronizationPointMessage v \<Rightarrow>
           payload_RegisterFederationSynchronizationPointMessage v
     | AnnounceSynchronizationPointMessage v \<Rightarrow>
         payload_AnnounceSynchronizationPointMessage v
     | EnableTimeRegulationRequestMessage v \<Rightarrow>
         payload_EnableTimeRegulationRequestMessage v
     | EnableTimeRegulationResponseMessage v \<Rightarrow>
         payload_EnableTimeRegulationResponseMessage v
     | CommitLowerBoundTimeStampMessage v \<Rightarrow> payload_CommitLowerBoundTimeStampMessage v
     | ChangeInteractionClassSubscriptionMessage v \<Rightarrow>
         payload_ChangeInteractionClassSubscriptionMessage v
     | InteractionMessage v \<Rightarrow> payload_InteractionMessage v
     | TimeStampedInteractionMessage v \<Rightarrow> payload_TimeStampedInteractionMessage v
     | DeleteObjectInstanceMessage v \<Rightarrow> payload_DeleteObjectInstanceMessage v
     | TimeStampedDeleteObjectInstanceMessage v \<Rightarrow>
         payload_TimeStampedDeleteObjectInstanceMessage v
     | AttributeUpdateMessage v \<Rightarrow> payload_AttributeUpdateMessage v
     | TimeStampedAttributeUpdateMessage v \<Rightarrow> payload_TimeStampedAttributeUpdateMessage v
     | RequestAttributeUpdateMessage v \<Rightarrow> payload_RequestAttributeUpdateMessage v
     | RequestClassAttributeUpdateMessage v \<Rightarrow>
         payload_RequestClassAttributeUpdateMessage v
     | _ \<Rightarrow> [])"

definition message_hollow :: "message \<Rightarrow> message" where
  "message_hollow m = (case m of
       RegisterFederationSynchronizationPointMessage v \<Rightarrow>
           RegisterFederationSynchronizationPointMessage
           (hollow_RegisterFederationSynchronizationPointMessage v)
     | AnnounceSynchronizationPointMessage v \<Rightarrow> AnnounceSynchronizationPointMessage
         (hollow_AnnounceSynchronizationPointMessage v)
     | EnableTimeRegulationRequestMessage v \<Rightarrow> EnableTimeRegulationRequestMessage
         (hollow_EnableTimeRegulationRequestMessage v)
     | EnableTimeRegulationResponseMessage v \<Rightarrow> EnableTimeRegulationResponseMessage
         (hollow_EnableTimeRegulationResponseMessage v)
     | CommitLowerBoundTimeStampMessage v \<Rightarrow> CommitLowerBoundTimeStampMessage
         (hollow_CommitLowerBoundTimeStampMessage v)
     | ChangeInteractionClassSubscriptionMessage v \<Rightarrow>
         ChangeInteractionClassSubscriptionMessage
         (hollow_ChangeInteractionClassSubscriptionMessage v)
     | InteractionMessage v \<Rightarrow> InteractionMessage (hollow_InteractionMessage v)
     | TimeStampedInteractionMessage v \<Rightarrow> TimeStampedInteractionMessage
         (hollow_TimeStampedInteractionMessage v)
     | DeleteObjectInstanceMessage v \<Rightarrow> DeleteObjectInstanceMessage
         (hollow_DeleteObjectInstanceMessage v)
     | TimeStampedDeleteObjectInstanceMessage v \<Rightarrow>
         TimeStampedDeleteObjectInstanceMessage (hollow_TimeStampedDeleteObjectInstanceMessage v)
     | AttributeUpdateMessage v \<Rightarrow> AttributeUpdateMessage (hollow_AttributeUpdateMessage
         v)
     | TimeStampedAttributeUpdateMessage v \<Rightarrow> TimeStampedAttributeUpdateMessage
         (hollow_TimeStampedAttributeUpdateMessage v)
     | RequestAttributeUpdateMessage v \<Rightarrow> RequestAttributeUpdateMessage
         (hollow_RequestAttributeUpdateMessage v)
     | RequestClassAttributeUpdateMessage v \<Rightarrow> RequestClassAttributeUpdateMessage
         (hollow_RequestClassAttributeUpdateMessage v)
     | _ \<Rightarrow> m)"

lemmas plain_bodies =
  rt_single[OF codec_ConnectionLostMessage refl, where h = ConnectionLostMessage]
  rt_single[OF codec_CreateFederationExecutionRequestMessage refl, where h =
      CreateFederationExecutionRequestMessage]
  rt_single[OF codec_CreateFederationExecutionRequest2Message refl, where h =
      CreateFederationExecutionRequest2Message]
  rt_single[OF codec_CreateFederationExecutionResponseMessage refl, where h =
      CreateFederationExecutionResponseMessage]
  rt_single[OF codec_DestroyFederationExecutionRequestMessage refl, where h =
      DestroyFederationExecutionRequestMessage]
  rt_single[OF codec_DestroyFederationExecutionResponseMessage refl, where h =
      DestroyFederationExecutionResponseMessage]
  rt_single[OF codec_EnumerateFederationExecutionsResponseMessage refl, where h =
      EnumerateFederationExecutionsResponseMessage]
  rt_single[OF codec_InsertFederationExecutionMessage refl, where h =
      InsertFederationExecutionMessage]
  rt_single[OF codec_ShutdownFederationExecutionMessage refl, where h =
      ShutdownFederationExecutionMessage]
  rt_single[OF codec_EraseFederationExecutionMessage refl, where h =
      EraseFederationExecutionMessage]
  rt_single[OF codec_ReleaseFederationHandleMessage refl, where h = ReleaseFederationHandleMessage]
  rt_single[OF codec_InsertModulesMessage refl, where h = InsertModulesMessage]
  rt_single[OF codec_InsertModules2Message refl, where h = InsertModules2Message]
  rt_single[OF codec_JoinFederationExecutionRequestMessage refl, where h =
      JoinFederationExecutionRequestMessage]
  rt_single[OF codec_JoinFederationExecutionRequest2Message refl, where h =
      JoinFederationExecutionRequest2Message]
  rt_single[OF codec_JoinFederationExecutionResponseMessage refl, where h =
      JoinFederationExecutionResponseMessage]
  rt_single[OF codec_ResignFederationExecutionRequestMessage refl, where h =
      ResignFederationExecutionRequestMessage]
  rt_single[OF codec_JoinFederateNotifyMessage refl, where h = JoinFederateNotifyMessage]
  rt_single[OF codec_ResignFederateNotifyMessage refl, where h = ResignFederateNotifyMessage]
  rt_single[OF codec_ChangeAutomaticResignDirectiveMessage refl, where h =
      ChangeAutomaticResignDirectiveMessage]
  rt_single[OF codec_RegisterFederationSynchronizationPointResponseMessage refl, where h =
      RegisterFederationSynchronizationPointResponseMessage]
  rt_single[OF codec_SynchronizationPointAchievedMessage refl, where h =
      SynchronizationPointAchievedMessage]
  rt_single[OF codec_FederationSynchronizedMessage refl, where h = FederationSynchronizedMessage]
  rt_single[OF codec_DisableTimeRegulationRequestMessage refl, where h =
      DisableTimeRegulationRequestMessage]
  rt_single[OF codec_EnableTimeConstrainedNotifyMessage refl, where h =
      EnableTimeConstrainedNotifyMessage]
  rt_single[OF codec_DisableTimeConstrainedNotifyMessage refl, where h =
      DisableTimeConstrainedNotifyMessage]
  rt_single[OF codec_CommitLowerBoundTimeStampResponseMessage refl, where h =
      CommitLowerBoundTimeStampResponseMessage]
  rt_single[OF codec_LockedByNextMessageRequestMessage refl, where h =
      LockedByNextMessageRequestMessage]
  rt_single[OF codec_InsertRegionMessage refl, where h = InsertRegionMessage]
  rt_single[OF codec_CommitRegionMessage refl, where h = CommitRegionMessage]
  rt_single[OF codec_EraseRegionMessage refl, where h = EraseRegionMessage]
  rt_single[OF codec_ChangeInteractionClassPublicationMessage refl, where h =
      ChangeInteractionClassPublicationMessage]
  rt_single[OF codec_ChangeObjectClassPublicationMessage refl, where h =
      ChangeObjectClassPublicationMessage]
  rt_single[OF codec_ChangeObjectClassSubscriptionMessage refl, where h =
      ChangeObjectClassSubscriptionMessage]
  rt_single[OF codec_ChangeObjectInstanceSubscriptionMessage refl, where h =
      ChangeObjectInstanceSubscriptionMessage]
  rt_single[OF codec_ObjectInstanceHandlesRequestMessage refl, where h =
      ObjectInstanceHandlesRequestMessage]
  rt_single[OF codec_ObjectInstanceHandlesResponseMessage refl, where h =
      ObjectInstanceHandlesResponseMessage]
  rt_single[OF codec_ReleaseMultipleObjectInstanceNameHandlePairsMessage refl, where h =
      ReleaseMultipleObjectInstanceNameHandlePairsMessage]
  rt_single[OF codec_ReserveObjectInstanceNameRequestMessage refl, where h =
      ReserveObjectInstanceNameRequestMessage]
  rt_single[OF codec_ReserveObjectInstanceNameResponseMessage refl, where h =
      ReserveObjectInstanceNameResponseMessage]
  rt_single[OF codec_ReserveMultipleObjectInstanceNameRequestMessage refl, where h =
      ReserveMultipleObjectInstanceNameRequestMessage]
  rt_single[OF codec_ReserveMultipleObjectInstanceNameResponseMessage refl, where h =
      ReserveMultipleObjectInstanceNameResponseMessage]
  rt_single[OF codec_InsertObjectInstanceMessage refl, where h = InsertObjectInstanceMessage]
  rt_single[OF codec_QueryAttributeOwnershipRequestMessage refl, where h =
      QueryAttributeOwnershipRequestMessage]
  rt_single[OF codec_QueryAttributeOwnershipResponseMessage refl, where h =
      QueryAttributeOwnershipResponseMessage]

lemmas payload_bodies =
  rt_psingle[OF codec_RegisterFederationSynchronizationPointMessage refl, where h =
      RegisterFederationSynchronizationPointMessage]
  rt_psingle[OF codec_AnnounceSynchronizationPointMessage refl, where h =
      AnnounceSynchronizationPointMessage]
  rt_psingle[OF codec_EnableTimeRegulationRequestMessage refl, where h =
      EnableTimeRegulationRequestMessage]
  rt_psingle[OF codec_EnableTimeRegulationResponseMessage refl, where h =
      EnableTimeRegulationResponseMessage]
  rt_psingle[OF codec_CommitLowerBoundTimeStampMessage refl, where h =
      CommitLowerBoundTimeStampMessage]
  rt_psingle[OF codec_ChangeInteractionClassSubscriptionMessage refl, where h =
      ChangeInteractionClassSubscriptionMessage]
  rt_psingle[OF codec_InteractionMessage refl, where h = InteractionMessage]
  rt_psingle[OF codec_TimeStampedInteractionMessage refl, where h = TimeStampedInteractionMessage]
  rt_psingle[OF codec_DeleteObjectInstanceMessage refl, where h = DeleteObjectInstanceMessage]
  rt_psingle[OF codec_TimeStampedDeleteObjectInstanceMessage refl, where h =
      TimeStampedDeleteObjectInstanceMessage]
  rt_psingle[OF codec_AttributeUpdateMessage refl, where h = AttributeUpdateMessage]
  rt_psingle[OF codec_TimeStampedAttributeUpdateMessage refl, where h =
      TimeStampedAttributeUpdateMessage]
  rt_psingle[OF codec_RequestAttributeUpdateMessage refl, where h = RequestAttributeUpdateMessage]
  rt_psingle[OF codec_RequestClassAttributeUpdateMessage refl, where h =
      RequestClassAttributeUpdateMessage]

lemmas payload_laws =
  payload_codec.payload[OF codec_RegisterFederationSynchronizationPointMessage]
  payload_codec.payload[OF codec_AnnounceSynchronizationPointMessage]
  payload_codec.payload[OF codec_EnableTimeRegulationRequestMessage]
  payload_codec.payload[OF codec_EnableTimeRegulationResponseMessage]
  payload_codec.payload[OF codec_CommitLowerBoundTimeStampMessage]
  payload_codec.payload[OF codec_ChangeInteractionClassSubscriptionMessage]
  payload_codec.payload[OF codec_InteractionMessage]
  payload_codec.payload[OF codec_TimeStampedInteractionMessage]
  payload_codec.payload[OF codec_DeleteObjectInstanceMessage]
  payload_codec.payload[OF codec_TimeStampedDeleteObjectInstanceMessage]
  payload_codec.payload[OF codec_AttributeUpdateMessage]
  payload_codec.payload[OF codec_TimeStampedAttributeUpdateMessage]
  payload_codec.payload[OF codec_RequestAttributeUpdateMessage]
  payload_codec.payload[OF codec_RequestClassAttributeUpdateMessage]

lemmas payload_none =
  payload_codec.no_payload[OF codec_RegisterFederationSynchronizationPointMessage]
  payload_codec.no_payload[OF codec_AnnounceSynchronizationPointMessage]
  payload_codec.no_payload[OF codec_EnableTimeRegulationRequestMessage]
  payload_codec.no_payload[OF codec_EnableTimeRegulationResponseMessage]
  payload_codec.no_payload[OF codec_CommitLowerBoundTimeStampMessage]
  payload_codec.no_payload[OF codec_ChangeInteractionClassSubscriptionMessage]
  payload_codec.no_payload[OF codec_InteractionMessage]
  payload_codec.no_payload[OF codec_TimeStampedInteractionMessage]
  payload_codec.no_payload[OF codec_DeleteObjectInstanceMessage]
  payload_codec.no_payload[OF codec_TimeStampedDeleteObjectInstanceMessage]
  payload_codec.no_payload[OF codec_AttributeUpdateMessage]
  payload_codec.no_payload[OF codec_TimeStampedAttributeUpdateMessage]
  payload_codec.no_payload[OF codec_RequestAttributeUpdateMessage]
  payload_codec.no_payload[OF codec_RequestClassAttributeUpdateMessage]

lemmas payload_nonempty =
  payload_codec.nonempty[OF codec_RegisterFederationSynchronizationPointMessage]
  payload_codec.nonempty[OF codec_AnnounceSynchronizationPointMessage]
  payload_codec.nonempty[OF codec_EnableTimeRegulationRequestMessage]
  payload_codec.nonempty[OF codec_EnableTimeRegulationResponseMessage]
  payload_codec.nonempty[OF codec_CommitLowerBoundTimeStampMessage]
  payload_codec.nonempty[OF codec_ChangeInteractionClassSubscriptionMessage]
  payload_codec.nonempty[OF codec_InteractionMessage]
  payload_codec.nonempty[OF codec_TimeStampedInteractionMessage]
  payload_codec.nonempty[OF codec_DeleteObjectInstanceMessage]
  payload_codec.nonempty[OF codec_TimeStampedDeleteObjectInstanceMessage]
  payload_codec.nonempty[OF codec_AttributeUpdateMessage]
  payload_codec.nonempty[OF codec_TimeStampedAttributeUpdateMessage]
  payload_codec.nonempty[OF codec_RequestAttributeUpdateMessage]
  payload_codec.nonempty[OF codec_RequestClassAttributeUpdateMessage]

lemma payload_decoder_hollow:
  "payload_decoder (message_hollow m) (message_payload m @ rest) = Inr (m, rest)"
  by (cases m) (simp_all add: payload_decoder_def message_hollow_def message_payload_def
      dec_bind_def dec_return_def payload_laws)

lemma opcode_body:
  assumes "map_of body_decoders op = Some rd" and "rt 1 w rd ps y"
  shows "rt 1 (fcomp (writeUInt16Compressed op) w) decodeBody ps (Some y)"
proof -
  have "rt 0 w (case map_of body_decoders op of None \<Rightarrow> dec_return None
      | Some rd \<Rightarrow> dec_bind rd (\<lambda>m. dec_return (Some m))) ps (Some y)"
    using rt_weaken[OF rt_last[OF assms(2), of Some]] assms(1) by simp
  then show ?thesis unfolding decodeBody_def by (rule rt_field_first[OF rt_uint16])
qed

lemma dec_bind_return: "dec_bind (dec_return x) f = f x"
  by (simp add: dec_bind_def dec_return_def fun_eq_iff)

lemma opcode_body_empty:
  assumes "map_of body_decoders op = Some (dec_return y)"
  shows "rt 1 (writeUInt16Compressed op) decodeBody [] (Some y)"
proof -
  have "rt 0 id (case map_of body_decoders op of None \<Rightarrow> dec_return None
      | Some rd \<Rightarrow> dec_bind rd (\<lambda>m. dec_return (Some m))) [] (Some y)"
    using rt_return[of "Some y"] assms by (simp add: dec_bind_return)
  then have "rt 1 (fcomp (writeUInt16Compressed op) id) decodeBody [] (Some y)"
    unfolding decodeBody_def by (rule rt_field_first[OF rt_uint16])
  then show ?thesis by simp
qed

lemma encode_body:
  "encode m = Some f \<Longrightarrow> rt 1 f decodeBody (message_payload m) (Some (message_hollow m))"
  by (cases m) (auto simp: message_payload_def message_hollow_def body_decoders_def
      simp del: One_nat_def intro!: opcode_body opcode_body_empty plain_bodies payload_bodies)

section \<open>Packets\<close>

definition empty_encode :: message_encode where
  "empty_encode = \<lparr>enc_data = [], enc_offset = 0, writeBuffers = []\<rparr>"

text \<open>
  \<open>writeMessage\<close>: the buffers a message adds to the output. The size in the header is the size of the
  body as a 32 bit number.
\<close>

definition writeMessage :: "message \<Rightarrow> vld list option" where
  "writeMessage m = (case encode m of
       None \<Rightarrow> None
     | Some f \<Rightarrow>
         let s = f empty_encode;
             header = writeUInt32BE (word_of_nat (length (enc_data s))) \<lparr>enc_data = [], enc_offset = 0\<rparr>
         in Some (enc_data header # enc_data s # writeBuffers s))"

definition decodePayload :: "vld \<Rightarrow> vld list \<Rightarrow> message \<Rightarrow> decode_error + message" where
  "decodePayload body bufs m = (case readUInt16Compressed \<lparr>dec_data = body, dec_offset = 0\<rparr> of
       Inl e \<Rightarrow> Inl e
     | Inr (op, _) \<Rightarrow>
         if op \<in> set payload_opcodes then map_sum id fst (payload_decoder m bufs) else Inr m)"

text \<open>
  The messages that fit into a packet: the size of the body into the header, the sizes of the opaque
  data into a \<open>size_t\<close>.
\<close>

definition sendable :: "message \<Rightarrow> bool" where
  "sendable m \<longleftrightarrow> (case writeMessage m of
       Some (header # body # bufs) \<Rightarrow> length body < 2 ^ 32 \<and> (\<forall>b \<in> set bufs. length b < 2 ^ 64)
     | _ \<Rightarrow> False)"

lemma message_payload_opcode:
  assumes "encode m = Some f" and "message_payload m \<noteq> []"
  shows "\<exists>op w. f = fcomp (writeUInt16Compressed op) w \<and> op \<in> set payload_opcodes
    \<and> (\<exists>r ps y. rt 1 w (r :: message reader) ps y)"
  using assms by (cases m) (auto simp: message_payload_def payload_opcodes_def simp del: One_nat_def
      intro!: exI payload_bodies)

lemma message_payload_nonempty: "p \<in> set (message_payload m) \<Longrightarrow> p \<noteq> []"
  by (cases m) (auto simp: message_payload_def dest: payload_nonempty)

lemma message_no_payload: "message_payload m = [] \<Longrightarrow> message_hollow m = m"
  by (cases m) (simp_all add: message_payload_def message_hollow_def payload_none)

definition header_bytes :: "nat \<Rightarrow> vld" where
  "header_bytes n = enc_data (writeUInt32BE (word_of_nat n) \<lparr>enc_data = [], enc_offset = 0\<rparr>)"

lemma header_bytes_eq:
  "header_bytes n = (let v = word_of_nat n :: u32
     in [ucast (drop_bit 24 v), ucast (drop_bit 16 v), ucast (drop_bit 8 v), ucast v])"
  by (simp add: header_bytes_def write_fixed_push(4) at_end_def push_def Let_def)

lemma length_header_bytes: "length (header_bytes n) = 4"
  by (simp add: header_bytes_eq Let_def)

lemma header_bytes:
  assumes "n < 2 ^ 32"
  shows "length (header_bytes n) = 4" "unat (getUInt32BE 0 (header_bytes n)) = n"
proof -
  let ?v = "word_of_nat n :: u32"
  have "supplies \<lparr>dec_data = header_bytes n, dec_offset = 0\<rparr> (header_bytes n)" by (simp add: supplies_def)
  from read32_supplied(2)[OF this[unfolded header_bytes_eq Let_def]] have "getUInt32BE 0 (header_bytes n) = ?v"
    by (simp add: readUInt32BE_def read_at_def header_bytes_eq Let_def split: if_splits)
  then show "unat (getUInt32BE 0 (header_bytes n)) = n"
    using assms by (simp add: unat_of_nat take_bit_nat_eq_self)
qed (rule length_header_bytes)

lemma at_end_empty [simp]: "at_end empty_encode"
  by (simp add: empty_encode_def at_end_def)

lemma emit_empty: "emit bs ps empty_encode
  = \<lparr>enc_data = bs, enc_offset = length bs, writeBuffers = ps\<rparr>"
  by (simp add: emit_def push_def empty_encode_def)

lemma decodePayload_hollow:
  assumes "encode m = Some f" and "message_payload m \<noteq> []"
    and "f empty_encode = emit bs ps empty_encode"
  shows "decodePayload bs (message_payload m) (message_hollow m) = Inr m"
proof -
  obtain op w r pq y where op: "f = fcomp (writeUInt16Compressed op) w" "op \<in> set payload_opcodes"
    "rt 1 w (r :: message reader) pq y"
    using message_payload_opcode[OF assms(1,2)] by blast
  obtain cs where w: "\<And>s. at_end s \<Longrightarrow> w s = emit cs pq s" using op(3) by (rule rtE) auto
  have "f empty_encode = emit (compressed op @ cs) pq empty_encode"
    using w[of "emit (compressed op) [] empty_encode"]
    by (simp add: op(1) writeUInt16Compressed_def writeTemplateCompressed_push push_emit emit_emit)
  with assms(3) have "bs = compressed op @ cs" by (simp add: emit_empty)
  then have "supplies \<lparr>dec_data = bs, dec_offset = 0\<rparr> (compressed op)" by (simp add: supplies_def)
  from readTemplateCompressed_supplied[OF _ this] op(2) show ?thesis
    using payload_decoder_hollow[of m "[]"]
    by (simp add: decodePayload_def readUInt16Compressed_def)
qed

definition packet_of :: "message \<Rightarrow> vld \<Rightarrow> vld list \<Rightarrow> message \<Rightarrow> bool" where
  "packet_of m body bufs hollow \<longleftrightarrow> body \<noteq> [] \<and> [] \<notin> set bufs
    \<and> decodeBody \<lparr>dec_data = body, dec_offset = 0, readBuffers = []\<rparr>
        = Inr (Some hollow, \<lparr>dec_data = body, dec_offset = length body, readBuffers = map length bufs\<rparr>)
    \<and> (if bufs = [] then hollow = m else decodePayload body bufs hollow = Inr m)"

lemma message_packet:
  assumes "writeMessage m = Some packet" and "sendable m"
  obtains body bufs hollow where "packet = header_bytes (length body) # body # bufs"
    "length body < 2 ^ 32" "packet_of m body bufs hollow"
proof -
  from assms(1) obtain f where f: "encode m = Some f" by (auto simp: writeMessage_def split: option.splits)
  let ?ps = "message_payload m"
  obtain bs where bs: "1 \<le> length bs" "\<And>s. at_end s \<Longrightarrow> f s = emit bs ?ps s"
    "\<And>d. small bs ?ps \<Longrightarrow> supplies d bs
      \<Longrightarrow> decodeBody d = Inr (Some (message_hollow m), accept (length bs) (map length ?ps) d)"
    using encode_body[OF f] by (rule rtE) auto
  have "f empty_encode = \<lparr>enc_data = bs, enc_offset = length bs, writeBuffers = ?ps\<rparr>"
    using bs(2)[of empty_encode] by (simp add: emit_empty)
  then have packet: "packet = header_bytes (length bs) # bs # ?ps"
    and sm: "small bs ?ps" and lt: "length bs < 2 ^ 32"
    using assms by (auto simp: writeMessage_def sendable_def f Let_def header_bytes_def small_def)
  let ?d = "\<lparr>dec_data = bs, dec_offset = 0, readBuffers = []\<rparr>"
  have "decodeBody ?d = Inr (Some (message_hollow m), accept (length bs) (map length ?ps) ?d)"
    by (rule bs(3)[OF sm]) (simp add: supplies_def)
  moreover have "if ?ps = [] then message_hollow m = m else decodePayload bs ?ps (message_hollow m) = Inr m"
    using message_no_payload decodePayload_hollow[OF f _ bs(2)[OF at_end_empty]] by simp
  moreover have "[] \<notin> set ?ps" using message_payload_nonempty by blast
  ultimately have "packet_of m bs ?ps (message_hollow m)"
    using bs(1) by (auto simp: packet_of_def accept_def skip_def)
  with packet lt show ?thesis by (rule that)
qed

text \<open>
  C6: a message written as a packet and decoded again is the same message, for every kind of message
  that has an encoding and every value of its members that fits: the first buffer holds the size of
  the second, decoding the second asks for buffers of the sizes of the others, and filling these in
  gives the message.
\<close>

theorem message_roundtrip:
  assumes "writeMessage m = Some packet" and "sendable m"
  shows "\<exists>header body bufs hollow. packet = header # body # bufs
    \<and> length header = 4 \<and> unat (getUInt32BE 0 header) = length body \<and> body \<noteq> [] \<and> [] \<notin> set bufs
    \<and> decodeBody \<lparr>dec_data = body, dec_offset = 0, readBuffers = []\<rparr>
        = Inr (Some hollow, \<lparr>dec_data = body, dec_offset = length body, readBuffers = map length bufs\<rparr>)
    \<and> (if bufs = [] then hollow = m else decodePayload body bufs hollow = Inr m)"
proof -
  obtain body bufs hollow where "packet = header_bytes (length body) # body # bufs"
    "length body < 2 ^ 32" "packet_of m body bufs hollow"
    using assms by (rule message_packet)
  then show ?thesis using header_bytes[of "length body"] unfolding packet_of_def by blast
qed

section \<open>An example\<close>

lemma addWriteBuffer_emit: "d \<noteq> [] \<Longrightarrow> addWriteBuffer d s = emit [] [d] s"
  by (simp add: addWriteBuffer_def emit_def)

lemma header_bytes_7:
  "enc_data (writeUInt32BE 7 \<lparr>enc_data = [], enc_offset = 0\<rparr>) = [0, 0, 0, 7]"
  by code_simp

abbreviation example_commit :: message where
  "example_commit \<equiv> CommitLowerBoundTimeStampMessage
      \<lparr>CommitLowerBoundTimeStampMessage_federationHandle = 1,
       CommitLowerBoundTimeStampMessage_federateHandle = 200,
       CommitLowerBoundTimeStampMessage_timeStamp = [7, 8, 9],
       CommitLowerBoundTimeStampMessage_commitType = NextMessageCommit,
       CommitLowerBoundTimeStampMessage_commitId = 5\<rparr>"

lemma example_packet:
  "writeMessage example_commit = Some [[0, 0, 0, 7], [43, 1, 200, 1, 3, 1, 5], [7, 8, 9]]"
proof -
  have "compressed (43 :: 16 word) = [43]" "compressed (1 :: 16 word) = [1]"
    "compressed (200 :: u32) = [200, 1]" "compressed (3 :: u64) = [3]" "compressed (1 :: u32) = [1]"
    "compressed (5 :: u32) = [5]" by code_simp+
  then have "writeUInt16Compressed 43 (empty_encode) = emit [43] [] empty_encode"
    "\<And>s. at_end s \<Longrightarrow> writeCommitLowerBoundTimeStampMessage
        (case example_commit of CommitLowerBoundTimeStampMessage v \<Rightarrow> v) s
      = emit [1, 200, 1, 3, 1, 5] [[7, 8, 9]] s"
    by (simp_all add: writeCommitLowerBoundTimeStampMessage_def writeFederationHandle_def
        writeFederateHandle_def writeVariableLengthData_def writeLowerBoundTimeStampCommitType_def
        writeUnsigned_def writeUInt16Compressed_def writeUInt32Compressed_def writeSizeTCompressed_def
        writeTemplateCompressed_push push_emit emit_emit addWriteBuffer_emit)
  then show ?thesis by (simp add: writeMessage_def emit_emit) (simp add: emit_empty header_bytes_7)
qed

theorem message_roundtrip_witness:
  "let body = [43, 1, 200, 1, 3, 1, 5]
   in writeMessage example_commit = Some [[0, 0, 0, 7], body, [7, 8, 9]]
     \<and> (\<exists>hollow. decodeBody \<lparr>dec_data = body, dec_offset = 0, readBuffers = []\<rparr>
           = Inr (Some hollow, \<lparr>dec_data = body, dec_offset = 7, readBuffers = [3]\<rparr>)
         \<and> decodePayload body [[7, 8, 9]] hollow = Inr example_commit)"
proof -
  have "sendable example_commit" by (simp add: sendable_def example_packet)
  from message_roundtrip[OF example_packet this] example_packet show ?thesis
    by (simp add: Let_def eval_nat_numeral)
qed

end
