(* ===== verification/Stream_Protocol.thy ===== *)
theory Stream_Protocol
  imports TightBE1 "HOL-Library.Sublist"
begin

text \<open>
  How packets come out of a byte stream: \<open>src/OpenRTI/StreamBufferProtocol.cpp\<close>, the byte iterator of
  \<open>src/OpenRTI/Buffer.h\<close> and \<open>TightBE1MessageEncoding::readPacket\<close>. The protocol keeps a list of input
  buffers of known size and an iterator to the first byte that has not arrived yet; when all are
  filled, \<open>readPacket\<close> decodes them and asks for more buffers or delivers a message.
\<close>

record stream_protocol =
  inputBuffer :: "vld list"
  inputIterator :: "nat \<times> nat"
  currentMessage :: "message option"
  delivered :: "message list"

definition initial_protocol :: stream_protocol where
  "initial_protocol =
     \<lparr>inputBuffer = [], inputIterator = (0, 0), currentMessage = None, delivered = []\<rparr>"

definition getInputBufferComplete :: "stream_protocol \<Rightarrow> bool" where
  "getInputBufferComplete s \<longleftrightarrow> inputIterator s = (length (inputBuffer s), 0)"

text \<open>
  The iterator is the number of buffers before it and an offset. The new buffer is the last one; an
  iterator that was at the end points to it.
\<close>

definition addScratchReadBuffer :: "nat \<Rightarrow> stream_protocol \<Rightarrow> stream_protocol" where
  "addScratchReadBuffer n s =
     (let back = length (inputBuffer s)
      in s\<lparr>inputBuffer := inputBuffer s @ [replicate n 0],
           inputIterator := if fst (inputIterator s) = back then (back, 0) else inputIterator s\<rparr>)"

definition stream_addReadBuffer :: "nat \<Rightarrow> stream_protocol \<Rightarrow> stream_protocol" where
  "stream_addReadBuffer n s =
     (if inputIterator s = (length (inputBuffer s), 0)
      then s\<lparr>inputBuffer := inputBuffer s @ [replicate n 0], inputIterator := (length (inputBuffer s), 0)\<rparr>
      else s\<lparr>inputBuffer := inputBuffer s @ [replicate n 0]\<rparr>)"

text \<open>\<open>_increment\<close> and \<open>skip_empty_chunks\<close>, relative to the buffers from the iterator on.\<close>

fun byte_increment :: "vld list \<Rightarrow> nat \<Rightarrow> nat \<Rightarrow> nat \<times> nat" where
  "byte_increment [] offset n = (0, offset)"
| "byte_increment (b # bs) offset n =
     (if n = 0 then (0, offset)
      else let sz = length b - offset
        in if sz \<le> n then (case byte_increment bs 0 (n - sz) of (i, k) \<Rightarrow> (Suc i, k))
           else (0, offset + n))"

fun empty_chunks :: "vld list \<Rightarrow> nat" where
  "empty_chunks [] = 0"
| "empty_chunks (b # bs) = (if b = [] then Suc (empty_chunks bs) else 0)"

text \<open>What \<open>recv\<close> writes into the buffers from the iterator on.\<close>

fun fill_buffers :: "nat \<Rightarrow> u8 list \<Rightarrow> vld list \<Rightarrow> vld list" where
  "fill_buffers offset data [] = []"
| "fill_buffers offset data (b # bs) =
     (let sz = length b - offset
      in (take offset b @ take sz data @ drop (offset + length data) b) # fill_buffers 0 (drop sz data) bs)"

definition capacity :: "stream_protocol \<Rightarrow> nat" where
  "capacity s = (case inputIterator s of (i, offset) \<Rightarrow>
     sum_list (map length (drop i (inputBuffer s))) - offset)"

text \<open>The iterator moves on by a number of bytes and then behind empty buffers.\<close>

definition advance :: "nat \<Rightarrow> nat \<times> nat \<Rightarrow> vld list \<Rightarrow> nat \<times> nat" where
  "advance n iter bufs = (case iter of (i, offset) \<Rightarrow>
     let (di, k) = byte_increment (drop i bufs) offset n;
         skipped = (if k \<noteq> 0 then 0 else empty_chunks (drop (i + di) bufs))
     in (i + di + skipped, k))"

text \<open>Bytes have been received at the iterator, which moves behind them.\<close>

definition received :: "u8 list \<Rightarrow> stream_protocol \<Rightarrow> stream_protocol" where
  "received data s =
     (case inputIterator s of (i, offset) \<Rightarrow>
        s\<lparr>inputBuffer := take i (inputBuffer s) @ fill_buffers offset data (drop i (inputBuffer s)),
          inputIterator := advance (length data) (i, offset) (inputBuffer s)\<rparr>)"

definition readPacket :: "stream_protocol \<Rightarrow> decode_error + stream_protocol" where
  "readPacket s =
     (case (case inputBuffer s of
          [] \<Rightarrow> Inr (addScratchReadBuffer 4 s)
        | [header] \<Rightarrow> Inr (addScratchReadBuffer (unat (getUInt32BE 0 header)) s)
        | [header, body] \<Rightarrow>
            (case decodeBody \<lparr>dec_data = body, dec_offset = 0, readBuffers = []\<rparr> of
               Inl e \<Rightarrow> Inl e
             | Inr (m, d) \<Rightarrow>
                 Inr (fold stream_addReadBuffer (readBuffers d)
                   (case m of None \<Rightarrow> s | Some m \<Rightarrow> s\<lparr>currentMessage := Some m\<rparr>)))
        | header # body # bufs \<Rightarrow>
            (case currentMessage s of
               None \<Rightarrow> Inr s
             | Some m \<Rightarrow> (case decodePayload body bufs m of
                 Inl e \<Rightarrow> Inl e
               | Inr m \<Rightarrow> Inr (s\<lparr>currentMessage := Some m\<rparr>)))) of
        Inl e \<Rightarrow> Inl e
      | Inr s \<Rightarrow>
          (case currentMessage s of
             Some m \<Rightarrow>
               Inr (if getInputBufferComplete s
                    then s\<lparr>delivered := delivered s @ [m], currentMessage := None\<rparr> else s)
           | None \<Rightarrow> Inr s))"

lemma readPacket_empty:
  assumes "inputBuffer s = []" and "getInputBufferComplete s" and "readPacket s = Inr s'"
  shows "\<not> getInputBufferComplete s'"
  using assms
  by (auto simp: readPacket_def addScratchReadBuffer_def getInputBufferComplete_def Let_def
      split: option.splits)

text \<open>
  \<open>StreamBufferProtocol::read\<close>. The socket is the list of the pieces in which the bytes arrive: \<open>recv\<close>
  takes as much of the first piece as the buffers hold, reports that nothing is there (the function
  returns) when the list is empty, and an empty piece is the end of the stream (the socket is closed,
  the second component of the result).
\<close>

function protocol_read ::
  "stream_protocol \<Rightarrow> u8 list list \<Rightarrow> decode_error + stream_protocol \<times> bool" where
  "protocol_read s chunks =
     (if \<not> getInputBufferComplete s then
        (case chunks of
           [] \<Rightarrow> Inr (s, False)
         | chunk # rest \<Rightarrow>
             let n = min (length chunk) (capacity s)
             in if n = 0 then Inr (s, True)
                else protocol_read (received (take n chunk) s)
                  (if n = length chunk then rest else drop n chunk # rest))
      else case readPacket s of
          Inl e \<Rightarrow> Inl e
        | Inr s' \<Rightarrow>
            if \<not> getInputBufferComplete s' then protocol_read s' chunks
            else protocol_read (s'\<lparr>inputBuffer := [], inputIterator := (0, 0)\<rparr>) chunks)"
  by pat_completeness auto
termination
proof (relation "inv_image (less_than <*lex*> less_than) (\<lambda>(s, chunks). (sum_list (map length chunks),
    if \<not> getInputBufferComplete s then 0 else if inputBuffer s = [] then 1 else 2 :: nat))", goal_cases)
  case 1
  then show ?case by auto
next
  case (2 s chunks chunk rest n)
  then show ?case by (auto simp: min_def)
next
  case (3 s chunks s')
  then show ?case by auto
next
  case (4 s chunks s')
  then have "inputBuffer s \<noteq> []" using readPacket_empty by blast
  with 4 show ?case by (simp add: getInputBufferComplete_def)
qed

declare protocol_read.simps [simp del]

lemma protocol_read_complete:
  "getInputBufferComplete s \<Longrightarrow> protocol_read s chunks = (case readPacket s of
       Inl e \<Rightarrow> Inl e
     | Inr s' \<Rightarrow> protocol_read (if getInputBufferComplete s'
         then s'\<lparr>inputBuffer := [], inputIterator := (0, 0)\<rparr> else s') chunks)"
  by (subst protocol_read.simps) (simp split: sum.split)

lemma protocol_read_wait: "\<not> getInputBufferComplete s \<Longrightarrow> protocol_read s [] = Inr (s, False)"
  by (subst protocol_read.simps) simp

lemma protocol_read_chunk:
  "\<not> getInputBufferComplete s \<Longrightarrow> n = min (length chunk) (capacity s) \<Longrightarrow>
   protocol_read s (chunk # rest) = (if n = 0 then Inr (s, True)
     else protocol_read (received (take n chunk) s) (if n = length chunk then rest else drop n chunk # rest))"
  by (subst protocol_read.simps) (simp add: Let_def)

section \<open>Filling the buffers\<close>

text \<open>
  The state of the buffers is determined by their sizes and the bytes that have arrived: \<open>spread\<close>
  are the buffers, \<open>position\<close> is the iterator.
\<close>

fun spread :: "nat list \<Rightarrow> u8 list \<Rightarrow> vld list" where
  "spread [] bs = []"
| "spread (n # ns) bs = (take n bs @ replicate (n - length bs) 0) # spread ns (drop n bs)"

fun position :: "nat list \<Rightarrow> nat \<Rightarrow> nat \<times> nat" where
  "position [] k = (0, 0)"
| "position (n # ns) k = (if k < n then (0, k) else map_prod Suc id (position ns (k - n)))"

definition arrived :: "nat list \<Rightarrow> u8 list \<Rightarrow> stream_protocol \<Rightarrow> stream_protocol" where
  "arrived szs bs s = s\<lparr>inputBuffer := spread szs bs, inputIterator := position szs (length bs)\<rparr>"

lemma map_length_spread [simp]: "map length (spread szs bs) = szs"
  by (induction szs arbitrary: bs) auto

lemma length_spread [simp]: "length (spread szs bs) = length szs"
  using map_length_spread[of szs bs] by (metis length_map)

lemma spread_concat: "spread (map length bufs) (concat bufs) = bufs"
  by (induction bufs) auto

lemma spread_snoc: "length bs \<le> sum_list szs \<Longrightarrow> spread (szs @ [n]) bs = spread szs bs @ [replicate n 0]"
  by (induction szs arbitrary: bs) auto

lemma position_snoc: "k \<le> sum_list szs \<Longrightarrow> 0 < n \<Longrightarrow> position (szs @ [n]) k = position szs k"
  by (induction szs arbitrary: k) auto

lemma position_end_iff:
  "0 \<notin> set szs \<Longrightarrow> position szs k = (length szs, 0) \<longleftrightarrow> sum_list szs \<le> k"
proof (induction szs arbitrary: k)
  case (Cons n ns)
  have "position (n # ns) k = (length (n # ns), 0) \<longleftrightarrow> n \<le> k \<and> position ns (k - n) = (length ns, 0)"
    using Cons.prems by (cases "position ns (k - n)") auto
  also have "\<dots> \<longleftrightarrow> n \<le> k \<and> sum_list ns \<le> k - n" using Cons.IH[of "k - n"] Cons.prems by simp
  also have "\<dots> \<longleftrightarrow> sum_list (n # ns) \<le> k" by auto
  finally show ?case .
qed simp

lemma byte_increment_position:
  assumes "[] \<notin> set bufs" and "case bufs of [] \<Rightarrow> k = 0 | b # _ \<Rightarrow> k < length b"
  shows "byte_increment bufs k n = position (map length bufs) (k + n)"
  using assms
proof (induction bufs arbitrary: k n)
  case (Cons b bufs)
  then have "case bufs of [] \<Rightarrow> 0 = (0 :: nat) | b # _ \<Rightarrow> 0 < length b" by (cases bufs) auto
  with Cons show ?case by (auto simp: Let_def map_prod_def add.commute)
qed simp

lemma fill_buffers_spread:
  assumes "case szs of [] \<Rightarrow> got = [] | n # _ \<Rightarrow> length got \<le> n"
  shows "fill_buffers (length got) bs (spread szs got) = spread szs (got @ bs)"
  using assms
proof (induction szs arbitrary: got bs)
  case (Cons n ns)
  have "fill_buffers 0 (drop (n - length got) bs) (spread ns []) = spread ns (drop (n - length got) bs)"
    using Cons.IH[of "[]" "drop (n - length got) bs"] by (cases ns) simp_all
  with Cons.prems show ?case by (simp add: Let_def)
qed simp

lemma spread_nonempty: "0 \<notin> set szs \<Longrightarrow> [] \<notin> set (spread szs bs)"
  by (induction szs arbitrary: bs) auto

lemma empty_chunks_0: "[] \<notin> set bufs \<Longrightarrow> empty_chunks (drop i bufs) = 0"
  using in_set_dropD[of "[]" i bufs] by (cases "drop i bufs") auto

lemma advance_position:
  assumes "[] \<notin> set bufs" and "k < sum_list (map length bufs)"
  shows "advance n (position (map length bufs) k) bufs = position (map length bufs) (k + n)"
proof -
  obtain i offset where p: "position (map length bufs) k = (i, offset)" by fastforce
  have "map_prod ((+) i) id (byte_increment (drop i bufs) offset n) = position (map length bufs) (k + n)"
    using assms p
  proof (induction bufs arbitrary: k i)
    case (Cons b bufs)
    show ?case
    proof (cases "k < length b")
      case True
      with Cons.prems have "i = 0" "offset = k" by auto
      then show ?thesis using byte_increment_position[of "b # bufs" k n] Cons.prems(1) True
        by (simp add: map_prod_def split: prod.splits del: byte_increment.simps position.simps)
    next
      case False
      then obtain j where j: "i = Suc j" "position (map length bufs) (k - length b) = (j, offset)"
        using Cons.prems(3) by (cases "position (map length bufs) (k - length b)") auto
      have "map_prod ((+) j) id (byte_increment (drop j bufs) offset n)
          = position (map length bufs) (k - length b + n)"
        by (rule Cons.IH) (use Cons.prems False j(2) in auto)
      moreover have "k - length b + n = k + n - length b" using False by simp
      ultimately show ?thesis using False j(1)
        by (cases "byte_increment (drop j bufs) offset n"; cases "position (map length bufs) (k + n - length b)") auto
    qed
  qed simp
  then show ?thesis using empty_chunks_0[OF assms(1)]
    by (auto simp: advance_def p Let_def split: prod.splits)
qed

lemma spread_step:
  assumes "length got < sum_list szs" and "position szs (length got) = (i, k)"
  shows "take i (spread szs got) @ fill_buffers k bs (drop i (spread szs got)) = spread szs (got @ bs)
    \<and> sum_list (map length (drop i (spread szs got))) - k = sum_list szs - length got"
  using assms
proof (induction szs arbitrary: got i)
  case (Cons n ns)
  show ?case
  proof (cases "length got < n")
    case True
    with Cons.prems have "i = 0" "k = length got" by auto
    then show ?thesis using fill_buffers_spread[of got "n # ns" bs] True map_length_spread[of "n # ns" got]
      by (simp del: position.simps spread.simps fill_buffers.simps map_length_spread)
  next
    case False
    then obtain j where j: "i = Suc j" "position ns (length (drop n got)) = (j, k)"
      using Cons.prems(2) by (cases "position ns (length got - n)") auto
    have "length (drop n got) < sum_list ns" using Cons.prems(1) False by auto
    from Cons.IH[OF this j(2)] show ?thesis using False j(1) by auto
  qed
qed simp

lemma received_arrived:
  assumes "0 \<notin> set szs" and "length got < sum_list szs"
  shows "received bs (arrived szs got s) = arrived szs (got @ bs) s"
    "capacity (arrived szs got s) = sum_list szs - length got"
proof -
  obtain i k where p: "position szs (length got) = (i, k)" by fastforce
  from spread_step[OF assms(2) p, of bs] advance_position[OF spread_nonempty[OF assms(1)], of "length got" got] assms(2)
  show "received bs (arrived szs got s) = arrived szs (got @ bs) s"
    "capacity (arrived szs got s) = sum_list szs - length got"
    by (simp_all add: received_def capacity_def arrived_def p)
qed

lemma arrived_complete:
  "0 \<notin> set szs \<Longrightarrow> getInputBufferComplete (arrived szs got s) \<longleftrightarrow> sum_list szs \<le> length got"
  by (simp add: getInputBufferComplete_def arrived_def position_end_iff)

lemma arrived_add:
  assumes "0 \<notin> set szs" and "length got \<le> sum_list szs" and "0 < n"
  shows "stream_addReadBuffer n (arrived szs got s) = arrived (szs @ [n]) got s"
    "length got = sum_list szs \<Longrightarrow> addScratchReadBuffer n (arrived szs got s) = arrived (szs @ [n]) got s"
  using assms position_end_iff[OF assms(1), of "length got"]
  by (auto simp: stream_addReadBuffer_def addScratchReadBuffer_def arrived_def spread_snoc position_snoc Let_def)

lemma arrived_add_all:
  assumes "0 \<notin> set szs" and "length got \<le> sum_list szs" and "0 \<notin> set ns"
  shows "fold stream_addReadBuffer ns (arrived szs got s) = arrived (szs @ ns) got s"
  using assms
proof (induction ns arbitrary: szs)
  case (Cons n ns)
  then show ?case using arrived_add(1)[of szs got n s] Cons.IH[of "szs @ [n]"] by simp
qed simp

text \<open>However the bytes arrive, the buffers fill up.\<close>

definition stream_bytes :: "u8 list list \<Rightarrow> u8 list \<Rightarrow> bool" where
  "stream_bytes chunks bs \<longleftrightarrow> [] \<notin> set chunks \<and> concat chunks = bs"

lemma read_arrived:
  assumes "0 \<notin> set szs" and "length got + length need = sum_list szs"
    and "stream_bytes chunks (need @ rest)"
  obtains chunks' where "stream_bytes chunks' rest"
    "protocol_read (arrived szs got s) chunks = protocol_read (arrived szs (got @ need) s) chunks'"
  using assms
proof (induction need arbitrary: got chunks thesis rule: length_induct)
  case (1 need)
  show ?case
  proof (cases "need = []")
    case True
    then show ?thesis using 1(2,5) by simp
  next
    case False
    then have lt: "length got < sum_list szs" using 1(4) by (cases need) auto
    obtain chunk chunks0 where c: "chunks = chunk # chunks0" "chunk \<noteq> []"
      using 1(5) False by (cases chunks) (auto simp: stream_bytes_def)
    define n where "n = min (length chunk) (length need)"
    have n: "n \<noteq> 0" "take n chunk = take n need" "n \<le> length need"
      using c False 1(5) by (auto simp: n_def stream_bytes_def min_def append_eq_append_conv_if take_append)
    let ?chunks = "if n = length chunk then chunks0 else drop n chunk # chunks0"
    have "protocol_read (arrived szs got s) chunks = protocol_read (arrived szs (got @ take n need) s) ?chunks"
    proof -
      have "\<not> getInputBufferComplete (arrived szs got s)" using arrived_complete[OF 1(3)] lt by simp
      moreover have "min (length chunk) (capacity (arrived szs got s)) = n"
        using received_arrived(2)[OF 1(3) lt] 1(4) by (simp add: n_def)
      ultimately show ?thesis using received_arrived(1)[OF 1(3) lt, of "take n chunk"] n
        by (simp add: c protocol_read_chunk[OF _ refl])
    qed
    moreover have s: "stream_bytes ?chunks (drop n need @ rest)"
      using 1(5) c n(2) by (auto simp: stream_bytes_def n_def min_def append_eq_append_conv_if)
    ultimately show ?thesis
      using 1(1)[rule_format, OF _ _ 1(3) _ s, of "got @ take n need"] 1(2,4) n False by auto
  qed
qed

lemma read_full:
  assumes "0 \<notin> set szs" and "length got + length need = sum_list szs"
    and "stream_bytes chunks (need @ rest)" and "readPacket (arrived szs (got @ need) s) = Inr s'"
  obtains (more) chunks' where "stream_bytes chunks' rest" "\<not> getInputBufferComplete s'"
      "protocol_read (arrived szs got s) chunks = protocol_read s' chunks'"
  | (finished) chunks' where "stream_bytes chunks' rest" "getInputBufferComplete s'"
      "protocol_read (arrived szs got s) chunks
        = protocol_read (s'\<lparr>inputBuffer := [], inputIterator := (0, 0)\<rparr>) chunks'"
proof -
  obtain chunks' where c: "stream_bytes chunks' rest"
    "protocol_read (arrived szs got s) chunks = protocol_read (arrived szs (got @ need) s) chunks'"
    using assms(1-3) by (rule read_arrived)
  have "protocol_read (arrived szs (got @ need) s) chunks'
    = protocol_read (if getInputBufferComplete s' then s'\<lparr>inputBuffer := [], inputIterator := (0, 0)\<rparr> else s') chunks'"
    using arrived_complete[OF assms(1), of "got @ need" s] assms(2,4) by (simp add: protocol_read_complete)
  with c that show ?thesis by (cases "getInputBufferComplete s'") auto
qed

section \<open>Packets\<close>

lemma arrived_all: "arrived (map length bufs) (concat bufs) s
    = s\<lparr>inputBuffer := bufs, inputIterator := position (map length bufs) (length (concat bufs))\<rparr>"
  by (simp add: arrived_def spread_concat)

lemma arrived_simps [simp]:
  "currentMessage (arrived szs bs s) = currentMessage s" "delivered (arrived szs bs s) = delivered s"
  "(arrived szs bs s)\<lparr>currentMessage := c\<rparr> = arrived szs bs (s\<lparr>currentMessage := c\<rparr>)"
  "(arrived szs bs s)\<lparr>delivered := d\<rparr> = arrived szs bs (s\<lparr>delivered := d\<rparr>)"
  "(arrived szs bs s)\<lparr>inputBuffer := [], inputIterator := (0, 0)\<rparr> = arrived [] [] s"
  by (simp_all add: arrived_def)

lemma readPacket_no_buffer:
  "currentMessage s = None \<Longrightarrow> readPacket (arrived [] [] s) = Inr (arrived [4] [] s)"
  using arrived_add(2)[of "[]" "[]" 4 s]
  by (simp add: readPacket_def) (simp add: arrived_def)

lemma readPacket_header:
  assumes "currentMessage s = None" and "0 < n" and "n < 2 ^ 32"
  shows "readPacket (arrived [4] (header_bytes n) s) = Inr (arrived [4, n] (header_bytes n) s)"
  using arrived_add(2)[of "[4]" "header_bytes n" n s] assms header_bytes[of n] arrived_all[of "[header_bytes n]" s]
  by (simp add: readPacket_def)

lemma sizes_nonempty: "[] \<notin> set bufs \<Longrightarrow> 0 \<notin> set (map length bufs)"
  by auto

lemma no_current: "currentMessage s = None \<Longrightarrow>
    s\<lparr>delivered := d, currentMessage := None\<rparr> = s\<lparr>delivered := d\<rparr>"
  by (cases s) simp

lemma readPacket_body:
  assumes "packet_of m body bufs hollow" and "length body < 2 ^ 32" and "currentMessage s = None"
  shows "readPacket (arrived [4, length body] (header_bytes (length body) @ body) s)
    = Inr (if bufs = [] then arrived [4, length body] (header_bytes (length body) @ body)
             (s\<lparr>delivered := delivered s @ [m]\<rparr>)
           else arrived (4 # length body # map length bufs) (header_bytes (length body) @ body)
             (s\<lparr>currentMessage := Some hollow\<rparr>))"
proof -
  let ?h = "header_bytes (length body)" and ?szs = "[4, length body]"
  note h = header_bytes[OF assms(2)]
  have pos: "0 \<notin> set ?szs" "0 \<notin> set (map length bufs)"
    using assms(1) by (auto simp: packet_of_def)
  have "inputBuffer (arrived ?szs (?h @ body) s) = [?h, body]"
    using arrived_all[of "[?h, body]" s] h by simp
  moreover have "getInputBufferComplete (arrived (?szs @ map length bufs) (?h @ body) s') \<longleftrightarrow> bufs = []" for s'
    using arrived_complete[of "?szs @ map length bufs" "?h @ body" s'] pos h by (cases bufs) auto
  ultimately show ?thesis using assms(1,3) arrived_add_all[OF pos(1) _ pos(2), of "?h @ body"] h
    by (simp add: readPacket_def packet_of_def del: append_Cons) (auto simp: no_current)
qed

lemma readPacket_payload:
  assumes "packet_of m body bufs hollow" and "length body < 2 ^ 32" and "bufs \<noteq> []"
    and "currentMessage s = Some hollow"
  shows "readPacket (arrived (4 # length body # map length bufs) (header_bytes (length body) @ body @ concat bufs) s)
    = Inr (arrived (4 # length body # map length bufs) (header_bytes (length body) @ body @ concat bufs)
         (s\<lparr>delivered := delivered s @ [m], currentMessage := None\<rparr>))"
proof -
  let ?h = "header_bytes (length body)" and ?szs = "4 # length body # map length bufs"
  let ?bs = "header_bytes (length body) @ body @ concat bufs"
  note h = header_bytes[OF assms(2)]
  have pos: "0 \<notin> set ?szs" using assms(1) by (auto simp: packet_of_def)
  have "inputBuffer (arrived ?szs ?bs s) = ?h # body # bufs"
    using arrived_all[of "?h # body # bufs" s] h by simp
  moreover have "getInputBufferComplete (arrived ?szs ?bs s')" for s'
    using arrived_complete[OF pos, of ?bs s'] h by (simp add: length_concat)
  ultimately show ?thesis using assms
    by (cases bufs) (simp_all add: readPacket_def packet_of_def)
qed

lemma arrived_arrived [simp]: "arrived szs bs (arrived szs' bs' s) = arrived szs bs s"
  by (simp add: arrived_def)

lemma read_packet:
  assumes "writeMessage m = Some packet" and "sendable m" and "currentMessage s = None"
    and "stream_bytes chunks (concat packet @ rest)"
  obtains chunks' where "stream_bytes chunks' rest" "protocol_read (arrived [] [] s) chunks
    = protocol_read (arrived [] [] (s\<lparr>delivered := delivered s @ [m]\<rparr>)) chunks'"
proof -
  obtain body bufs hollow where p: "packet = header_bytes (length body) # body # bufs"
    "length body < 2 ^ 32" "packet_of m body bufs hollow"
    using assms(1,2) by (rule message_packet)
  let ?h = "header_bytes (length body)" and ?n = "length body" and ?szs = "4 # length body # map length bufs"
  let ?s = "s\<lparr>currentMessage := Some hollow\<rparr>" and ?s' = "s\<lparr>delivered := delivered s @ [m]\<rparr>"
  note h = header_bytes[OF p(2)]
  have pos: "0 < ?n" "[] \<notin> set bufs" using p(3) by (auto simp: packet_of_def)
  obtain c1 where c1: "stream_bytes c1 (concat packet @ rest)"
    "protocol_read (arrived [] [] s) chunks = protocol_read (arrived [4] [] s) c1"
    by (rule read_full[of "[]" "[]" "[]" chunks "concat packet @ rest" s "arrived [4] [] s"])
      (use assms(3,4) in \<open>simp_all add: readPacket_no_buffer arrived_complete\<close>)
  obtain c2 where c2: "stream_bytes c2 (body @ concat bufs @ rest)"
    "protocol_read (arrived [4] [] s) c1 = protocol_read (arrived [4, ?n] ?h s) c2"
    by (rule read_full[of "[4]" "[]" ?h c1 "body @ concat bufs @ rest" s "arrived [4, ?n] ?h s"])
      (use c1(1) readPacket_header[OF assms(3) pos(1) p(2)] pos(1) h p(1)
       in \<open>simp_all add: arrived_complete\<close>)
  have body: "readPacket (arrived [4, ?n] (?h @ body) s) = Inr (if bufs = [] then arrived [4, ?n] (?h @ body) ?s'
      else arrived ?szs (?h @ body) ?s)"
    by (rule readPacket_body[OF p(3,2) assms(3)])
  show ?thesis
  proof (cases "bufs = []")
    case True
    obtain c3 where "stream_bytes c3 rest"
      "protocol_read (arrived [4, ?n] ?h s) c2 = protocol_read (arrived [] [] ?s') c3"
      by (rule read_full[of "[4, ?n]" ?h body c2 rest s, OF _ _ _ body])
        (use c2(1) pos(1) h True in \<open>simp_all add: arrived_complete\<close>)
    with c1 c2 that show ?thesis by simp
  next
    case False
    then have szs: "0 \<notin> set ?szs" "sum_list ?szs = 4 + ?n + length (concat bufs)" "concat bufs \<noteq> []"
      using pos by (cases bufs; auto simp: length_concat)+
    have inc: "\<not> getInputBufferComplete (arrived ?szs (?h @ body) ?s)"
      using arrived_complete[OF szs(1), of "?h @ body" ?s] szs(2,3) h by auto
    obtain c3 where c3: "stream_bytes c3 (concat bufs @ rest)"
      "protocol_read (arrived [4, ?n] ?h s) c2 = protocol_read (arrived ?szs (?h @ body) ?s) c3"
      by (rule read_full[of "[4, ?n]" ?h body c2 "concat bufs @ rest" s, OF _ _ _ body])
        (use c2(1) pos(1) h False inc in simp_all)
    have pay: "readPacket (arrived ?szs ((?h @ body) @ concat bufs) ?s) = Inr (arrived ?szs (?h @ body @ concat bufs) ?s')"
      using readPacket_payload[OF p(3,2) False, of ?s] no_current[OF assms(3)] by simp
    obtain c4 where c4: "stream_bytes c4 rest"
      "protocol_read (arrived ?szs (?h @ body) ?s) c3 = protocol_read (arrived [] [] ?s') c4"
      by (rule read_full[of ?szs "?h @ body" "concat bufs" c3 rest ?s, OF szs(1) _ c3(1) pay])
        (use szs(2) h arrived_complete[OF szs(1), of "?h @ body @ concat bufs" ?s'] in simp_all)
    then show ?thesis using c1 c2 c3 that by simp
  qed
qed

section \<open>Streams of messages\<close>

definition message_bytes :: "message \<Rightarrow> u8 list" where
  "message_bytes m = (case writeMessage m of None \<Rightarrow> [] | Some packet \<Rightarrow> concat packet)"

definition wire_bytes :: "message list \<Rightarrow> u8 list" where
  "wire_bytes ms = concat (map message_bytes ms)"

lemma read_messages:
  assumes "\<forall>m \<in> set ms. sendable m" and "currentMessage s = None"
    and "stream_bytes chunks (wire_bytes ms @ rest)"
  obtains chunks' where "stream_bytes chunks' rest" "protocol_read (arrived [] [] s) chunks
    = protocol_read (arrived [] [] (s\<lparr>delivered := delivered s @ ms\<rparr>)) chunks'"
  using assms
proof (induction ms arbitrary: s chunks thesis)
  case Nil
  then show ?case by (auto simp: wire_bytes_def)
next
  case (Cons m ms)
  then have m: "sendable m" by simp
  then obtain packet where packet: "writeMessage m = Some packet"
    by (cases "writeMessage m") (auto simp: sendable_def)
  obtain c where c: "stream_bytes c (wire_bytes ms @ rest)" "protocol_read (arrived [] [] s) chunks
      = protocol_read (arrived [] [] (s\<lparr>delivered := delivered s @ [m]\<rparr>)) c"
    by (rule read_packet[OF packet m Cons.prems(3)])
      (use Cons.prems(4) packet in \<open>simp_all add: wire_bytes_def message_bytes_def\<close>)
  obtain c' where "stream_bytes c' rest"
    "protocol_read (arrived [] [] (s\<lparr>delivered := delivered s @ [m]\<rparr>)) c
      = protocol_read (arrived [] [] (s\<lparr>delivered := delivered s @ m # ms\<rparr>)) c'"
    by (rule Cons.IH[OF _ _ _ c(1), of "s\<lparr>delivered := delivered s @ [m]\<rparr>"])
      (use Cons.prems(2,3) in simp_all)
  with c(2) show ?case using Cons.prems(1) by simp
qed

lemma read_nothing:
  assumes "currentMessage s = None"
  shows "protocol_read (arrived [] [] s) [] = Inr (arrived [4] [] s, False)"
  using assms by (simp add: protocol_read_complete protocol_read_wait readPacket_no_buffer arrived_complete)

lemma initial_arrived: "initial_protocol = arrived [] [] initial_protocol"
  by (simp add: initial_protocol_def arrived_def)

lemma read_all_messages:
  assumes "\<forall>m \<in> set ms. sendable m" and "stream_bytes chunks (wire_bytes ms)"
  shows "\<exists>s. protocol_read initial_protocol chunks = Inr (s, False) \<and> delivered s = ms"
proof -
  obtain c where "stream_bytes c []" "protocol_read (arrived [] [] initial_protocol) chunks
      = protocol_read (arrived [] [] (initial_protocol\<lparr>delivered := delivered initial_protocol @ ms\<rparr>)) c"
    by (rule read_messages[OF assms(1), of initial_protocol chunks "[]"])
      (use assms(2) in \<open>simp_all add: initial_protocol_def\<close>)
  moreover from this(1) have "c = []" by (cases c) (auto simp: stream_bytes_def)
  ultimately show ?thesis using initial_arrived
    by (simp add: read_nothing initial_protocol_def)
qed

text \<open>
  A call that finds no more bytes returns and the next call goes on where it stopped: it does not
  matter how the pieces are divided among the calls.
\<close>

lemma protocol_read_append:
  "protocol_read s (chunks @ later) = (case protocol_read s chunks of
       Inl e \<Rightarrow> Inl e
     | Inr (s', closed) \<Rightarrow> if closed then Inr (s', True) else protocol_read s' later)"
proof (induction s chunks rule: protocol_read.induct)
  case (1 s chunks)
  show ?case
  proof (cases "getInputBufferComplete s")
    case True
    then show ?thesis using 1(2,3) by (simp add: protocol_read_complete split: sum.split)
  next
    case False
    show ?thesis
    proof (cases chunks)
      case Nil
      then show ?thesis using False by (simp add: protocol_read_wait)
    next
      case (Cons chunk rest)
      obtain n where n: "n = min (length chunk) (capacity s)" by simp
      note IH = 1(1)[OF False Cons n]
      show ?thesis
      proof (cases "n = 0")
        case True
        then show ?thesis using Cons by (simp add: protocol_read_chunk[OF False n])
      next
        case False
        with IH show ?thesis using Cons
          by (cases "n = length chunk") (simp_all add: protocol_read_chunk[OF \<open>\<not> getInputBufferComplete s\<close> n])
      qed
    qed
  qed
qed

lemma add_buffer_delivered [simp]:
  "delivered (addScratchReadBuffer n s) = delivered s"
  "delivered (fold stream_addReadBuffer ns s) = delivered s"
proof -
  have "delivered (stream_addReadBuffer n s) = delivered s" for n s
    by (simp add: stream_addReadBuffer_def)
  then show "delivered (fold stream_addReadBuffer ns s) = delivered s" by (induction ns arbitrary: s) simp_all
qed (simp add: addScratchReadBuffer_def Let_def)

lemma readPacket_delivered: "readPacket s = Inr s' \<Longrightarrow> prefix (delivered s) (delivered s')"
  by (auto simp: readPacket_def split: list.splits option.splits sum.splits prod.splits if_splits)

lemma protocol_read_delivered:
  "protocol_read s chunks = Inr (s', closed) \<Longrightarrow> prefix (delivered s) (delivered s')"
proof (induction s chunks rule: protocol_read.induct)
  case (1 s chunks)
  have r: "delivered (received bs s) = delivered s" for bs
    by (simp add: received_def Let_def split: prod.split)
  show ?case
  proof (cases "getInputBufferComplete s")
    case True
    with 1(4) obtain s1 where s1: "readPacket s = Inr s1"
      by (auto simp: protocol_read_complete split: sum.splits)
    then have "prefix (delivered s1) (delivered s')"
      using 1(2,3)[OF _ s1] 1(4) True by (auto simp: protocol_read_complete split: if_splits)
    with readPacket_delivered[OF s1] show ?thesis by (rule prefix_order.trans)
  next
    case False
    show ?thesis
    proof (cases chunks)
      case Nil
      then show ?thesis using 1(4) False by (simp add: protocol_read_wait)
    next
      case (Cons chunk rest)
      obtain n where n: "n = min (length chunk) (capacity s)" by simp
      from 1(1)[OF False Cons n] 1(4) r show ?thesis
        by (auto simp: Cons protocol_read_chunk[OF False n] split: if_splits)
    qed
  qed
qed

lemma protocol_read_stream:
  assumes "\<forall>m \<in> set ms. sendable m" and "[] \<notin> set chunks" and "prefix (concat chunks) (wire_bytes ms)"
  shows "\<exists>s. protocol_read initial_protocol chunks = Inr (s, False) \<and> prefix (delivered s) ms
    \<and> (concat chunks = wire_bytes ms \<longrightarrow> delivered s = ms)"
proof -
  from assms(3) obtain rest where rest: "wire_bytes ms = concat chunks @ rest" by (rule prefixE)
  define later where "later = (if rest = [] then [] else [rest])"
  have "stream_bytes (chunks @ later) (wire_bytes ms)"
    using assms(2) by (auto simp: stream_bytes_def rest later_def)
  from read_all_messages[OF assms(1) this] obtain s where
    s: "protocol_read initial_protocol (chunks @ later) = Inr (s, False)" "delivered s = ms" by blast
  then obtain s1 where s1: "protocol_read initial_protocol chunks = Inr (s1, False)"
    "protocol_read s1 later = Inr (s, False)"
    by (auto simp: protocol_read_append split: sum.splits if_splits prod.splits)
  moreover have "prefix (delivered s1) ms" using protocol_read_delivered[OF s1(2)] s(2) by simp
  moreover have "delivered s1 = ms" if "concat chunks = wire_bytes ms"
    using read_all_messages[OF assms(1), of chunks] assms(2) that s1(1) by (auto simp: stream_bytes_def)
  ultimately show ?thesis by blast
qed

text \<open>
  C19: messages sent over a byte stream arrive in order, completely and unchanged, whatever the pieces
  in which the stream hands the bytes over: from the beginning of the bytes of the messages a
  beginning of the messages is delivered, and from all bytes all messages. The reader returns, finds
  no error and does not close the socket.
\<close>

theorem messages_survive_fragmentation:
  assumes "\<forall>m \<in> set ms. sendable m" and "[] \<notin> set chunks" and "prefix (concat chunks) (wire_bytes ms)"
  shows "\<exists>s. protocol_read initial_protocol chunks = Inr (s, False) \<and> prefix (delivered s) ms
    \<and> (concat chunks = wire_bytes ms \<longrightarrow> delivered s = ms)"
  using assms by (rule protocol_read_stream)

theorem messages_survive_fragmentation_witness:
  "let ms = [example_commit, example_commit];
     chunks = [[0, 0], [0, 7, 43, 1, 200, 1, 3], [1, 5, 7, 8, 9, 0, 0, 0, 7, 43, 1, 200, 1, 3, 1, 5, 7, 8], [9]]
   in sendable example_commit \<and> concat chunks = wire_bytes ms
     \<and> (\<exists>s. protocol_read initial_protocol chunks = Inr (s, False) \<and> delivered s = ms)"
proof -
  let ?ms = "[example_commit, example_commit]" and ?chunks = "[[0, 0], [0, 7, 43, 1, 200, 1, 3],
      [1, 5, 7, 8, 9, 0, 0, 0, 7, 43, 1, 200, 1, 3, 1, 5, 7, 8], [9]] :: u8 list list"
  have "sendable example_commit" by (simp add: sendable_def example_packet)
  moreover have "concat ?chunks = wire_bytes ?ms"
    by (simp add: wire_bytes_def message_bytes_def example_packet)
  ultimately show ?thesis
    using messages_survive_fragmentation[of ?ms ?chunks] by (auto simp: Let_def)
qed

end
