(* ===== verification/Stream_Output.thy ===== *)
theory Stream_Output
  imports Stream_Protocol
begin

text \<open>
  The sending half of \<open>src/OpenRTI/StreamBufferProtocol.cpp\<close> with \<open>writePacket\<close> and
  \<open>getMoreToSend\<close> of \<open>src/OpenRTI/AbstractMessageEncoding.cpp\<close>: messages are taken from the queue of
  the connection and encoded until the send buffer of the socket could be full, and the bytes are
  handed to the socket, which takes as many as it likes.
\<close>

text \<open>
  \<open>outputQueue\<close> are the messages in the queue of the connection, \<open>sent\<close> the bytes the socket has
  taken, \<open>outputClosed\<close> tells whether \<open>close\<close> was called on the socket and \<open>outputThrown\<close> whether the
  last call of \<open>write\<close> ended with the exception for a message that has no encoding.
\<close>

record stream_output =
  outputBuffer :: "vld list"
  outputIterator :: "nat \<times> nat"
  outputQueue :: "message list"
  sent :: "u8 list"
  outputClosed :: bool
  outputThrown :: bool

definition initial_output :: "message list \<Rightarrow> stream_output" where
  "initial_output ms =
     \<lparr>outputBuffer = [], outputIterator = (0, 0), outputQueue = ms, sent = [],
      outputClosed = False, outputThrown = False\<rparr>"

definition getOutputBufferComplete :: "stream_output \<Rightarrow> bool" where
  "getOutputBufferComplete s \<longleftrightarrow> outputIterator s = (length (outputBuffer s), 0)"

definition getMoreToSend :: "stream_output \<Rightarrow> bool" where
  "getMoreToSend s \<longleftrightarrow> outputQueue s \<noteq> []"

definition getEnableWrite :: "stream_output \<Rightarrow> bool" where
  "getEnableWrite s \<longleftrightarrow> \<not> getOutputBufferComplete s \<or> getMoreToSend s"

definition stream_addWriteBuffer :: "vld \<Rightarrow> stream_output \<Rightarrow> stream_output" where
  "stream_addWriteBuffer v s =
     (if v = [] then s
      else if outputIterator s = (length (outputBuffer s), 0)
        then s\<lparr>outputBuffer := outputBuffer s @ [v], outputIterator := (length (outputBuffer s), 0)\<rparr>
        else s\<lparr>outputBuffer := outputBuffer s @ [v]\<rparr>)"

text \<open>The buffer is added empty and then written through the reference; here with what is written.\<close>

definition addScratchWriteBuffer :: "vld \<Rightarrow> stream_output \<Rightarrow> stream_output" where
  "addScratchWriteBuffer v s =
     (let back = length (outputBuffer s)
      in s\<lparr>outputBuffer := outputBuffer s @ [v],
           outputIterator := if fst (outputIterator s) = back then (back, 0) else outputIterator s\<rparr>)"

definition writePacket :: "stream_output \<Rightarrow> stream_output" where
  "writePacket s = (case outputQueue s of
       [] \<Rightarrow> s
     | m # ms \<Rightarrow>
         let s = s\<lparr>outputQueue := ms\<rparr>
         in case writeMessage m of
              Some (header # body # bufs) \<Rightarrow>
                fold stream_addWriteBuffer bufs
                  (addScratchWriteBuffer body (addScratchWriteBuffer header s))
            | _ \<Rightarrow> s\<lparr>outputThrown := True\<rparr>)"

definition new_bytes :: "stream_output \<Rightarrow> nat \<Rightarrow> nat" where
  "new_bytes s numElements = sum_list (map length (drop numElements (outputBuffer s)))"

lemma add_buffer_queue [simp]:
  "outputQueue (stream_addWriteBuffer v s) = outputQueue s"
  "outputQueue (addScratchWriteBuffer v s) = outputQueue s"
  "outputQueue (fold stream_addWriteBuffer bufs s) = outputQueue s"
proof -
  show a: "outputQueue (stream_addWriteBuffer v s) = outputQueue s" for v s
    by (simp add: stream_addWriteBuffer_def)
  show "outputQueue (fold stream_addWriteBuffer bufs s) = outputQueue s"
    by (induction bufs arbitrary: s) (simp_all add: a)
qed (simp add: addScratchWriteBuffer_def Let_def)

lemma writePacket_queue [simp]: "outputQueue (writePacket s) = tl (outputQueue s)"
  by (simp add: writePacket_def Let_def split: list.split option.split)

text \<open>The loop that fills the output buffer while there are messages and room in the socket.\<close>

function gather :: "nat \<Rightarrow> nat \<Rightarrow> stream_output \<Rightarrow> stream_output" where
  "gather kMaxBufferSize bytesSoFar s =
     (if \<not> outputThrown s \<and> getMoreToSend s \<and> bytesSoFar < kMaxBufferSize
      then let s' = writePacket s
        in gather kMaxBufferSize (bytesSoFar + new_bytes s' (length (outputBuffer s))) s'
      else s)"
  by pat_completeness auto
termination by (relation "measure (\<lambda>(_, _, s). length (outputQueue s))") (auto simp: getMoreToSend_def)

declare gather.simps [simp del]

text \<open>
  The socket is the list of its answers to the calls of \<open>send\<close>: \<open>Some k\<close> when it has room for \<open>k\<close> bytes
  (none is \<open>EAGAIN\<close>), \<open>None\<close> when it reports an error; a list at its end is a socket without room. The
  loop ends with the answers left and whether all has been sent.
\<close>

definition pending :: "stream_output \<Rightarrow> u8 list" where
  "pending s = (case outputIterator s of (i, offset) \<Rightarrow> drop offset (concat (drop i (outputBuffer s))))"

fun send_loop :: "nat option list \<Rightarrow> stream_output \<Rightarrow> stream_output \<times> nat option list \<times> bool" where
  "send_loop [] s = (s, [], getOutputBufferComplete s)"
| "send_loop (answer # answers) s =
     (if getOutputBufferComplete s then (s, answer # answers, True)
      else case answer of
          None \<Rightarrow> (s\<lparr>outputClosed := True\<rparr>, answers, False)
        | Some room \<Rightarrow>
            let ret = min room (length (pending s))
            in if ret = 0 then (s, answers, False)
               else send_loop answers
                 (s\<lparr>sent := sent s @ take ret (pending s),
                    outputIterator := advance ret (outputIterator s) (outputBuffer s)\<rparr>))"

lemma send_loop_queue: "outputQueue (fst (send_loop answers s)) = outputQueue s"
  by (induction answers s rule: send_loop.induct) (auto simp: Let_def split: option.split)

definition first_packet :: "stream_output \<Rightarrow> stream_output \<times> nat" where
  "first_packet s = (if outputBuffer s = []
     then let s' = writePacket s in (s', new_bytes s' (length (outputBuffer s)))
     else (s, 0))"

definition fill_output :: "nat \<Rightarrow> stream_output \<Rightarrow> stream_output" where
  "fill_output kMaxBufferSize s = (case first_packet s of (s', n) \<Rightarrow> gather kMaxBufferSize n s')"

lemma gather_queue: "length (outputQueue (gather k n s)) \<le> length (outputQueue s)"
proof (induction k n s rule: gather.induct)
  case (1 k n s)
  then show ?case by (subst gather.simps) (auto simp: Let_def)
qed

lemma fill_output_queue:
  "length (outputQueue (fill_output k s)) \<le> length (outputQueue s) - (if outputBuffer s = [] then 1 else 0)"
  using gather_queue[of k _ "writePacket s"] gather_queue[of k 0 s]
  by (auto simp: fill_output_def first_packet_def Let_def)

lemma send_loop_no_buffer:
  "outputBuffer s = [] \<Longrightarrow> \<not> getOutputBufferComplete s \<Longrightarrow> send_loop answers s = (s', answers', finished) \<Longrightarrow> \<not> finished"
  by (cases answers) (auto simp: pending_def Let_def split: option.splits prod.splits)

lemma fill_output_idle: "outputQueue s = [] \<Longrightarrow> fill_output k s = s"
  by (simp add: fill_output_def first_packet_def Let_def gather.simps[of k _ s] getMoreToSend_def writePacket_def)

text \<open>\<open>StreamBufferProtocol::write\<close>.\<close>

function write_loop :: "nat \<Rightarrow> nat option list \<Rightarrow> stream_output \<Rightarrow> stream_output" where
  "write_loop kMaxBufferSize answers s =
     (if getEnableWrite s then
        if outputThrown (fill_output kMaxBufferSize s) then fill_output kMaxBufferSize s
        else (case send_loop answers (fill_output kMaxBufferSize s) of
           (s', answers', finished) \<Rightarrow>
             if finished
             then write_loop kMaxBufferSize answers' (s'\<lparr>outputBuffer := [], outputIterator := (0, 0)\<rparr>)
             else s')
      else s)"
  by pat_completeness auto
termination
proof (relation "measure (\<lambda>(_, _, s). length (outputQueue s) + (if outputBuffer s = [] then 0 else 1))", goal_cases)
  case (2 k answers s s' q answers' finished)
  then have sl: "send_loop answers (fill_output k s) = (s', answers', finished)" by simp
  then have q: "outputQueue s' = outputQueue (fill_output k s)"
    using send_loop_queue[of answers "fill_output k s"] by simp
  have "outputBuffer s \<noteq> [] \<or> outputQueue s \<noteq> []"
    using 2(1,5) sl send_loop_no_buffer[of s answers] fill_output_idle[of s k]
    by (auto simp: getEnableWrite_def getMoreToSend_def)
  then show ?case using fill_output_queue[of k s] q by (cases "outputQueue s") auto
qed simp

declare write_loop.simps [simp del]

definition protocol_write :: "nat \<Rightarrow> nat option list \<Rightarrow> stream_output \<Rightarrow> stream_output" where
  "protocol_write kMaxBufferSize answers s = write_loop kMaxBufferSize answers (s\<lparr>outputThrown := False\<rparr>)"

section \<open>The bytes on their way\<close>

definition wf_output :: "stream_output \<Rightarrow> bool" where
  "wf_output s \<longleftrightarrow> [] \<notin> set (outputBuffer s)
    \<and> (\<exists>k \<le> length (concat (outputBuffer s)). outputIterator s = position (map length (outputBuffer s)) k)"

definition undelivered :: "stream_output \<Rightarrow> u8 list" where
  "undelivered s = pending s @ wire_bytes (outputQueue s)"

lemma wf_initial [simp]: "wf_output (initial_output ms)"
  by (simp add: wf_output_def initial_output_def)

lemma undelivered_initial [simp]: "undelivered (initial_output ms) = wire_bytes ms" "sent (initial_output ms) = []"
  by (simp_all add: undelivered_def pending_def initial_output_def)

lemma position_drop:
  "position (map length bufs) k = (i, offset) \<Longrightarrow> k \<le> length (concat bufs) \<Longrightarrow>
   drop offset (concat (drop i bufs)) = drop k (concat bufs)"
proof (induction bufs arbitrary: k i)
  case (Cons b bufs)
  then show ?case by (cases "position (map length bufs) (k - length b)") (auto split: if_splits)
qed simp

lemma position_room:
  "k \<le> length (concat bufs) \<Longrightarrow> snd (position (map length bufs) k)
     \<le> length (concat (drop (fst (position (map length bufs) k)) bufs))"
  by (induction bufs arbitrary: k) auto

lemma wf_outputE:
  assumes "wf_output s"
  obtains k where "k \<le> length (concat (outputBuffer s))" "[] \<notin> set (outputBuffer s)"
    "outputIterator s = position (map length (outputBuffer s)) k" "pending s = drop k (concat (outputBuffer s))"
  using assms position_drop unfolding wf_output_def pending_def by (fastforce split: prod.splits)

lemma wf_complete: "wf_output s \<Longrightarrow> getOutputBufferComplete s \<longleftrightarrow> pending s = []"
  using position_end_iff[OF sizes_nonempty, of "outputBuffer s"]
  by (elim wf_outputE) (auto simp: getOutputBufferComplete_def length_concat)

lemma position_last: "fst (position szs k) \<le> length szs \<and> (fst (position szs k) = length szs \<longrightarrow> snd (position szs k) = 0)"
  by (induction szs arbitrary: k) auto

lemma wf_add_buffer:
  assumes "wf_output s" and "v \<noteq> []"
  shows "stream_addWriteBuffer v s = s\<lparr>outputBuffer := outputBuffer s @ [v]\<rparr>"
    "addScratchWriteBuffer v s = s\<lparr>outputBuffer := outputBuffer s @ [v]\<rparr>"
    "wf_output (s\<lparr>outputBuffer := outputBuffer s @ [v]\<rparr>)"
proof -
  obtain k where k: "k \<le> length (concat (outputBuffer s))" "[] \<notin> set (outputBuffer s)"
    "outputIterator s = position (map length (outputBuffer s)) k" using assms(1) by (rule wf_outputE)
  show "stream_addWriteBuffer v s = s\<lparr>outputBuffer := outputBuffer s @ [v]\<rparr>"
    using assms(2) by (simp add: stream_addWriteBuffer_def)
  show "addScratchWriteBuffer v s = s\<lparr>outputBuffer := outputBuffer s @ [v]\<rparr>"
    using position_last[of "map length (outputBuffer s)" k] k(3)
    by (cases s) (auto simp: addScratchWriteBuffer_def Let_def prod_eq_iff)
  show "wf_output (s\<lparr>outputBuffer := outputBuffer s @ [v]\<rparr>)"
    using k assms(2) position_snoc[of k "map length (outputBuffer s)" "length v"]
    by (auto simp: wf_output_def length_concat intro!: exI[of _ k])
qed

lemma writeMessage_buffers:
  assumes "writeMessage m = Some packet"
  obtains header body bufs where "packet = header # body # bufs" "[] \<notin> set packet"
proof -
  from assms obtain f where f: "encode m = Some f" by (auto simp: writeMessage_def split: option.splits)
  obtain bs where bs: "1 \<le> length bs" "\<And>s. at_end s \<Longrightarrow> f s = emit bs (message_payload m) s"
    using encode_body[OF f] by (rule rtE) auto
  have "packet = header_bytes (length bs) # bs # message_payload m"
    using assms bs(2)[of empty_encode] by (simp add: writeMessage_def f Let_def header_bytes_def emit_empty)
  moreover have "header_bytes (length bs) \<noteq> []" using length_header_bytes[of "length bs"] by auto
  moreover have "bs \<noteq> []" "[] \<notin> set (message_payload m)"
    using bs(1) message_payload_nonempty[of "[]" m] by auto
  ultimately show ?thesis using that[of "header_bytes (length bs)" bs "message_payload m"] by auto
qed

lemma wf_add_buffers:
  "wf_output s \<Longrightarrow> [] \<notin> set bufs \<Longrightarrow>
     fold stream_addWriteBuffer bufs s = s\<lparr>outputBuffer := outputBuffer s @ bufs\<rparr>
     \<and> wf_output (s\<lparr>outputBuffer := outputBuffer s @ bufs\<rparr>)"
proof (induction bufs arbitrary: s)
  case (Cons b bufs)
  then have b: "b \<noteq> []" by auto
  show ?case using wf_add_buffer[OF Cons.prems(1) b] Cons.prems(2)
      Cons.IH[of "s\<lparr>outputBuffer := outputBuffer s @ [b]\<rparr>"] by simp
qed simp

lemma pending_append:
  assumes "wf_output s"
  shows "pending (s\<lparr>outputBuffer := outputBuffer s @ bufs\<rparr>) = pending s @ concat bufs"
proof -
  obtain k where k: "k \<le> length (concat (outputBuffer s))"
    "outputIterator s = position (map length (outputBuffer s)) k" using assms by (rule wf_outputE)
  have "fst (outputIterator s) \<le> length (outputBuffer s)"
    using position_last[of "map length (outputBuffer s)" k] k(2) by simp
  moreover have "snd (outputIterator s) \<le> length (concat (drop (fst (outputIterator s)) (outputBuffer s)))"
    using k by (simp add: position_room)
  ultimately show ?thesis by (cases "outputIterator s") (simp add: pending_def)
qed

lemma wf_queue [simp]: "wf_output (s\<lparr>outputQueue := ms\<rparr>) = wf_output s"
  "pending (s\<lparr>outputQueue := ms\<rparr>) = pending s"
  "wf_output (s\<lparr>outputClosed := b\<rparr>) = wf_output s" "pending (s\<lparr>outputClosed := b\<rparr>) = pending s"
  "wf_output (s\<lparr>outputThrown := b\<rparr>) = wf_output s" "pending (s\<lparr>outputThrown := b\<rparr>) = pending s"
  by (simp_all add: wf_output_def pending_def)

lemma writePacket_bytes:
  assumes "wf_output s"
  shows "wf_output (writePacket s) \<and> undelivered (writePacket s) = undelivered s \<and> sent (writePacket s) = sent s"
proof (cases "outputQueue s")
  case Nil
  then show ?thesis using assms by (simp add: writePacket_def)
next
  case (Cons m ms)
  let ?s = "s\<lparr>outputQueue := ms\<rparr>"
  show ?thesis
  proof (cases "writeMessage m")
    case None
    then show ?thesis using assms Cons
      by (simp add: writePacket_def undelivered_def wire_bytes_def message_bytes_def)
  next
    case (Some packet)
    then obtain header body bufs where p: "packet = header # body # bufs" "[] \<notin> set packet"
      by (rule writeMessage_buffers)
    have "writePacket s = ?s\<lparr>outputBuffer := outputBuffer s @ packet\<rparr> \<and> wf_output (?s\<lparr>outputBuffer := outputBuffer s @ packet\<rparr>)"
      using assms p wf_add_buffer[of ?s header] wf_add_buffer[of "?s\<lparr>outputBuffer := outputBuffer s @ [header]\<rparr>" body]
        wf_add_buffers[of "?s\<lparr>outputBuffer := outputBuffer s @ [header, body]\<rparr>" bufs]
      by (auto simp: writePacket_def Cons Some)
    then show ?thesis using pending_append[of ?s packet] assms Cons Some
      by (simp add: undelivered_def wire_bytes_def message_bytes_def)
  qed
qed

lemma gather_bytes:
  "wf_output s \<Longrightarrow> wf_output (gather k n s) \<and> undelivered (gather k n s) = undelivered s \<and> sent (gather k n s) = sent s"
proof (induction k n s rule: gather.induct)
  case (1 k n s)
  then show ?case using writePacket_bytes[of s] by (subst (1 2 3) gather.simps) (auto simp: Let_def)
qed

lemma fill_output_bytes:
  "wf_output s \<Longrightarrow> wf_output (fill_output k s) \<and> undelivered (fill_output k s) = undelivered s
    \<and> sent (fill_output k s) = sent s"
  using gather_bytes[of _ k] writePacket_bytes[of s]
  by (auto simp: fill_output_def first_packet_def Let_def)

lemma sent_step:
  assumes "wf_output s" and "n \<le> length (pending s)" and "pending s \<noteq> []"
  defines "s' \<equiv> s\<lparr>sent := sent s @ take n (pending s),
    outputIterator := advance n (outputIterator s) (outputBuffer s)\<rparr>"
  shows "wf_output s'" "sent s' = sent s @ take n (pending s)" "pending s' = drop n (pending s)"
proof -
  obtain k where k: "k \<le> length (concat (outputBuffer s))" "[] \<notin> set (outputBuffer s)"
    "outputIterator s = position (map length (outputBuffer s)) k" "pending s = drop k (concat (outputBuffer s))"
    using assms(1) by (rule wf_outputE)
  have n: "k + n \<le> length (concat (outputBuffer s))" using assms(2) k(1,4) by simp
  have p: "outputIterator s' = position (map length (outputBuffer s)) (k + n)"
    using advance_position[OF k(2), of k n] assms(3) k(3,4) by (simp add: s'_def length_concat)
  show "wf_output s'" "pending s' = drop n (pending s)"
    using p n k(2,4) position_drop[of "outputBuffer s" "k + n"]
    by (auto simp: wf_output_def s'_def pending_def add.commute split: prod.splits)
qed (simp add: s'_def)

lemma send_loop_bytes:
  assumes "wf_output s" and "send_loop answers s = (s', answers', finished)"
  shows "wf_output s' \<and> sent s' @ pending s' = sent s @ pending s \<and> outputQueue s' = outputQueue s
    \<and> (finished \<longrightarrow> pending s' = [])"
  using assms
proof (induction answers s rule: send_loop.induct)
  case (1 s)
  then show ?case using wf_complete[of s] by auto
next
  case (2 answer answers s)
  show ?case
  proof (cases "getOutputBufferComplete s \<or> answer = None")
    case True
    then show ?thesis using 2(2,3) wf_complete[of s] by auto
  next
    case False
    then obtain room where room: "answer = Some room" "\<not> getOutputBufferComplete s" by auto
    obtain n where n: "n = min room (length (pending s))" by simp
    show ?thesis
    proof (cases "n = 0")
      case True
      then show ?thesis using 2(2,3) room n by (auto simp: Let_def)
    next
      case False
      have "pending s \<noteq> []" using wf_complete[OF 2(2)] room(2) by simp
      note step = sent_step[OF 2(2) _ this, of n]
      from 2(1)[OF room(2,1) n False] 2(3) room n False step show ?thesis by (simp add: Let_def)
    qed
  qed
qed

text \<open>
  Nothing is lost, repeated or reordered on the way out: what the socket has taken, followed by what
  is still in the buffers and the queue, stays the same.
\<close>

lemma write_loop_step:
  assumes "getEnableWrite s" and "send_loop answers (fill_output k s) = (s', answers', finished)"
  shows "write_loop k answers s = (if outputThrown (fill_output k s) then fill_output k s
    else if finished then write_loop k answers' (s'\<lparr>outputBuffer := [], outputIterator := (0, 0)\<rparr>) else s')"
  using assms by (subst write_loop.simps) simp

lemma write_loop_bytes:
  assumes "wf_output s"
  shows "wf_output (write_loop k answers s)
    \<and> sent (write_loop k answers s) @ undelivered (write_loop k answers s) = sent s @ undelivered s"
  using assms
proof (induction k answers s rule: write_loop.induct)
  case (1 k answers s)
  show ?case
  proof (cases "getEnableWrite s")
    case False
    then show ?thesis using 1(2) by (simp add: write_loop.simps[of k answers s])
  next
    case True
    obtain s' answers' finished where sl: "send_loop answers (fill_output k s) = (s', answers', finished)"
      using prod_cases3 by blast
    note fill = fill_output_bytes[OF 1(2), of k]
    note loop = send_loop_bytes[OF conjunct1[OF fill] sl]
    let ?s = "s'\<lparr>outputBuffer := [], outputIterator := (0, 0)\<rparr>"
    have s: "wf_output ?s" "pending ?s = []" by (simp_all add: wf_output_def pending_def)
    have eq: "sent s' @ undelivered s' = sent s @ undelivered s"
      using fill loop unfolding undelivered_def by (metis append_assoc)
    show ?thesis
    proof (cases "outputThrown (fill_output k s) \<or> \<not> finished")
      case True
      then show ?thesis using fill loop eq by (auto simp: write_loop_step[OF \<open>getEnableWrite s\<close> sl])
    next
      case False
      then have "wf_output (write_loop k answers' ?s)
          \<and> sent (write_loop k answers' ?s) @ undelivered (write_loop k answers' ?s) = sent ?s @ undelivered ?s"
        using 1(1)[OF True _ sl[symmetric] refl _ s(1)] by blast
      then show ?thesis using False eq loop s(2)
        by (simp add: write_loop_step[OF True sl] undelivered_def[of ?s] undelivered_def[of s'])
    qed
  qed
qed

text \<open>No exception ends the writing of messages that have an encoding.\<close>

definition encodable :: "stream_output \<Rightarrow> bool" where
  "encodable s \<longleftrightarrow> \<not> outputThrown s \<and> (\<forall>m \<in> set (outputQueue s). writeMessage m \<noteq> None)"

lemma add_buffer_thrown [simp]:
  "outputThrown (addScratchWriteBuffer v s) = outputThrown s"
  "outputThrown (fold stream_addWriteBuffer bufs s) = outputThrown s"
proof -
  have a: "outputThrown (stream_addWriteBuffer v s) = outputThrown s" for v s
    by (simp add: stream_addWriteBuffer_def)
  show "outputThrown (fold stream_addWriteBuffer bufs s) = outputThrown s"
    by (induction bufs arbitrary: s) (simp_all add: a)
qed (simp add: addScratchWriteBuffer_def Let_def)

lemma encodable_writePacket: "encodable s \<Longrightarrow> encodable (writePacket s)"
proof (cases "outputQueue s")
  case (Cons m ms)
  assume "encodable s"
  then obtain packet where p: "writeMessage m = Some packet" using Cons by (auto simp: encodable_def)
  then obtain header body bufs where "packet = header # body # bufs" by (rule writeMessage_buffers)
  with p \<open>encodable s\<close> Cons show ?thesis by (simp add: encodable_def writePacket_def)
qed (simp add: writePacket_def)

lemma encodable_fill_output: "encodable s \<Longrightarrow> encodable (fill_output k s)"
proof -
  have "encodable s \<Longrightarrow> encodable (gather k n s)" for n s
  proof (induction k n s rule: gather.induct)
    case (1 k n s)
    then show ?case using encodable_writePacket[of s] by (subst gather.simps) (simp add: Let_def)
  qed
  then show "encodable s \<Longrightarrow> encodable (fill_output k s)"
    using encodable_writePacket[of s] by (simp add: fill_output_def first_packet_def Let_def)
qed

lemma send_loop_encodable: "encodable (fst (send_loop answers s)) = encodable s"
  by (induction answers s rule: send_loop.induct) (auto simp: Let_def encodable_def split: option.split)

lemma send_loop_live:
  assumes "wf_output s" and "\<forall>a \<in> set answers. \<exists>room > 0. a = Some room"
    and "length (pending s) \<le> length answers"
  shows "\<exists>s' answers'. send_loop answers s = (s', answers', True)
    \<and> length answers \<le> length (pending s) + length answers' \<and> set answers' \<subseteq> set answers"
  using assms
proof (induction answers s rule: send_loop.induct)
  case (1 s)
  then show ?case using wf_complete[of s] by auto
next
  case (2 answer answers s)
  show ?case
  proof (cases "getOutputBufferComplete s")
    case True
    then show ?thesis by auto
  next
    case False
    then have p: "pending s \<noteq> []" using wf_complete[OF 2(2)] by simp
    obtain room where room: "answer = Some room" "0 < room" using 2(3) by auto
    obtain n where n: "n = min room (length (pending s))" by simp
    then have "n \<noteq> 0" using p room(2) by simp
    let ?s = "s\<lparr>sent := sent s @ take n (pending s), outputIterator := advance n (outputIterator s) (outputBuffer s)\<rparr>"
    have "n \<le> length (pending s)" using n by simp
    note step = sent_step[OF 2(2) this p]
    have "length (pending ?s) \<le> length answers" using step(3) 2(4) \<open>n \<noteq> 0\<close> by auto
    moreover have "\<forall>a \<in> set answers. \<exists>room > 0. a = Some room" using 2(3) by simp
    ultimately obtain s' answers' where s': "send_loop answers ?s = (s', answers', True)"
      "length answers \<le> length (pending ?s) + length answers'" "set answers' \<subseteq> set answers"
      using 2(1)[OF False room(1) n \<open>n \<noteq> 0\<close> step(1)] by blast
    have "send_loop (answer # answers) s = (s', answers', True)"
      using s'(1) False room(1) n \<open>n \<noteq> 0\<close> by (simp add: Let_def)
    moreover have "length (pending ?s) < length (pending s)"
      using step(3) \<open>n \<noteq> 0\<close> \<open>n \<le> length (pending s)\<close> by simp
    then have "length (answer # answers) \<le> length (pending s) + length answers'" using s'(2) by simp
    ultimately show ?thesis using s'(3) by (meson set_subset_Cons subset_trans)
  qed
qed

lemma write_loop_live:
  assumes "wf_output s" and "encodable s" and "\<forall>a \<in> set answers. \<exists>room > 0. a = Some room"
    and "length (undelivered s) \<le> length answers"
  shows "\<not> getEnableWrite (write_loop k answers s) \<and> \<not> outputThrown (write_loop k answers s)"
  using assms
proof (induction k answers s rule: write_loop.induct)
  case (1 k answers s)
  show ?case
  proof (cases "getEnableWrite s")
    case False
    then show ?thesis using 1(3) by (simp add: write_loop.simps[of k answers s] encodable_def)
  next
    case True
    note fill = fill_output_bytes[OF 1(2), of k]
    have enc: "encodable (fill_output k s)" using 1(3) by (rule encodable_fill_output)
    have len: "length (undelivered s) = length (pending (fill_output k s)) + length (wire_bytes (outputQueue (fill_output k s)))"
      using fill by (metis undelivered_def length_append)
    then have le: "length (pending (fill_output k s)) \<le> length answers" using 1(5) by simp
    obtain s' answers' where sl: "send_loop answers (fill_output k s) = (s', answers', True)"
      "length answers \<le> length (pending (fill_output k s)) + length answers'" "set answers' \<subseteq> set answers"
      using send_loop_live[OF conjunct1[OF fill] 1(4) le] by blast
    let ?s = "s'\<lparr>outputBuffer := [], outputIterator := (0, 0)\<rparr>"
    have s: "wf_output ?s" "pending ?s = []" "encodable ?s"
      using send_loop_encodable[of answers "fill_output k s"] sl(1) enc
      by (simp_all add: wf_output_def pending_def encodable_def)
    moreover have "outputQueue s' = outputQueue (fill_output k s)"
      using send_loop_queue[of answers "fill_output k s"] sl(1) by simp
    ultimately have "length (undelivered ?s) \<le> length answers'"
      using len sl(2) 1(5) by (simp add: undelivered_def)
    moreover have "\<forall>a \<in> set answers'. \<exists>room > 0. a = Some room" using 1(4) sl(3) by blast
    moreover have t: "\<not> outputThrown (fill_output k s)" using enc by (simp add: encodable_def)
    ultimately show ?thesis
      using 1(1)[OF True t sl(1)[symmetric] refl TrueI s(1,3)] by (simp add: write_loop_step[OF True sl(1)])
  qed
qed

lemma not_enabled_sent: "wf_output s \<Longrightarrow> \<not> getEnableWrite s \<Longrightarrow> undelivered s = []"
  using wf_complete[of s] by (simp add: getEnableWrite_def getMoreToSend_def undelivered_def wire_bytes_def)

lemma protocol_write_bytes:
  "let s = protocol_write k answers (initial_output ms)
   in sent s @ pending s @ wire_bytes (outputQueue s) = wire_bytes ms"
proof -
  have "(initial_output ms)\<lparr>outputThrown := False\<rparr> = initial_output ms" by (simp add: initial_output_def)
  with write_loop_bytes[OF wf_initial, of k answers ms]
  show ?thesis by (simp add: Let_def undelivered_def[of "write_loop k answers (initial_output ms)"] protocol_write_def)
qed

text \<open>
  C20: writing to the socket neither loses nor repeats nor reorders a byte, whatever number of bytes
  the socket takes at each call: the bytes it has taken are the beginning of the packets of the
  queued messages, followed by those that are still in the buffer and in the queue. When the messages
  have encodings and the socket keeps taking at least one byte, a call of \<open>write\<close> sends them all.
\<close>

theorem write_sends_packets_in_order:
  "let s = protocol_write kMaxBufferSize answers (initial_output ms)
   in sent s @ pending s @ wire_bytes (outputQueue s) = wire_bytes ms
     \<and> ((\<forall>m \<in> set ms. writeMessage m \<noteq> None) \<and> (\<forall>a \<in> set answers. \<exists>room > 0. a = Some room)
          \<and> length (wire_bytes ms) \<le> length answers
        \<longrightarrow> sent s = wire_bytes ms \<and> outputQueue s = [] \<and> getOutputBufferComplete s \<and> \<not> outputThrown s)"
proof -
  have i: "(initial_output ms)\<lparr>outputThrown := False\<rparr> = initial_output ms" by (simp add: initial_output_def)
  let ?s = "write_loop kMaxBufferSize answers (initial_output ms)"
  note bytes = write_loop_bytes[OF wf_initial, of kMaxBufferSize answers ms]
  have "sent ?s = wire_bytes ms \<and> outputQueue ?s = [] \<and> getOutputBufferComplete ?s \<and> \<not> outputThrown ?s"
    if "\<forall>m \<in> set ms. writeMessage m \<noteq> None" "\<forall>a \<in> set answers. \<exists>room > 0. a = Some room"
      "length (wire_bytes ms) \<le> length answers"
  proof -
    have "encodable (initial_output ms)" using that(1) by (simp add: encodable_def initial_output_def)
    then have "\<not> getEnableWrite ?s \<and> \<not> outputThrown ?s"
      by (rule write_loop_live[OF wf_initial]) (use that in simp_all)
    moreover from this have "undelivered ?s = []" using bytes not_enabled_sent by blast
    ultimately show ?thesis using bytes by (simp add: getEnableWrite_def getMoreToSend_def)
  qed
  with bytes show ?thesis by (simp add: Let_def undelivered_def[of ?s] protocol_write_def i)
qed

theorem write_sends_packets_in_order_witness:
  "let s = protocol_write 1000 (replicate 14 (Some 3)) (initial_output [example_commit])
   in sent s = [0, 0, 0, 7, 43, 1, 200, 1, 3, 1, 5, 7, 8, 9] \<and> outputQueue s = []
     \<and> getOutputBufferComplete s"
  using write_sends_packets_in_order[of 1000 "replicate 14 (Some 3)" "[example_commit]"]
  by (simp add: wire_bytes_def message_bytes_def example_packet Let_def)

end
