(* ===== verification/Clock_Model.thy ===== *)
theory Clock_Model
  imports Base
begin

text \<open>
  Clocks and timeouts: the saturating nanosecond counter \<open>Clock\<close> (\<open>src/OpenRTI/Clock.h\<close>) and the
  absolute timeout \<open>AbsTimeout\<close> (\<open>src/OpenRTI/AbsTimeout.cpp\<close>) that a watch dog thread prolongs by the
  time the program was suspended. Readings of the steady clock are arguments of the operations.
\<close>

unbundle bit_operations_syntax

section \<open>Clock\<close>

text \<open>The member \<open>_nsec\<close>, a \<open>uint64_t\<close>.\<close>

datatype Clock = Clock (getNanoSeconds: u64)

definition clock_zero :: Clock where
  "clock_zero = Clock 0"

definition clock_max :: Clock where
  "clock_max = Clock (- 1)"

text \<open>\<open>fromSeconds(int)\<close>; the argument is a 32 bit \<open>int\<close>.\<close>

definition fromSeconds :: "32 word \<Rightarrow> Clock" where
  "fromSeconds seconds =
     (if sint seconds \<le> 0 then clock_zero
      else if (- 1 :: u64) div 1000000000 \<le> scast seconds then clock_max
      else Clock (scast seconds * 1000000000))"

definition fromMilliSeconds :: "u32 \<Rightarrow> Clock" where
  "fromMilliSeconds milliSeconds =
     (if milliSeconds \<le> 0 then clock_zero
      else if (- 1 :: u64) div 1000000 \<le> ucast milliSeconds then clock_max
      else Clock (ucast milliSeconds * 1000000))"

definition getMilliSeconds :: "Clock \<Rightarrow> u64" where
  "getMilliSeconds c = getNanoSeconds c div 1000000"

definition getMicroSeconds :: "Clock \<Rightarrow> u64" where
  "getMicroSeconds c = getNanoSeconds c div 1000"

text \<open>The operators \<open>+=\<close> and \<open>-=\<close>, and the comparisons.\<close>

definition clock_plus :: "Clock \<Rightarrow> Clock \<Rightarrow> Clock" where
  "clock_plus a b = (if NOT (getNanoSeconds a) \<le> getNanoSeconds b then clock_max
            else Clock (getNanoSeconds a + getNanoSeconds b))"

definition clock_minus :: "Clock \<Rightarrow> Clock \<Rightarrow> Clock" where
  "clock_minus a b = (if getNanoSeconds a \<le> getNanoSeconds b then Clock 0
            else Clock (getNanoSeconds a - getNanoSeconds b))"

definition clock_less_eq :: "Clock \<Rightarrow> Clock \<Rightarrow> bool" where
  "clock_less_eq a b \<longleftrightarrow> getNanoSeconds a \<le> getNanoSeconds b"

definition clock_less :: "Clock \<Rightarrow> Clock \<Rightarrow> bool" where
  "clock_less a b \<longleftrightarrow> getNanoSeconds a < getNanoSeconds b"

text \<open>They are the operations of the library's classes.\<close>

instantiation Clock :: "{plus, minus, zero}"
begin

definition zero_Clock :: Clock where
  "0 = clock_zero"

definition plus_Clock :: "Clock \<Rightarrow> Clock \<Rightarrow> Clock" where
  "a + b = clock_plus a b"

definition minus_Clock :: "Clock \<Rightarrow> Clock \<Rightarrow> Clock" where
  "a - b = clock_minus a b"

instance ..

end

instantiation Clock :: linorder
begin

definition less_eq_Clock :: "Clock \<Rightarrow> Clock \<Rightarrow> bool" where
  "a \<le> b \<longleftrightarrow> clock_less_eq a b"

definition less_Clock :: "Clock \<Rightarrow> Clock \<Rightarrow> bool" where
  "a < b \<longleftrightarrow> clock_less a b"

instance
  by standard (auto simp: less_eq_Clock_def less_Clock_def clock_less_eq_def clock_less_def intro: Clock.expand)

end

lemmas clock_operator_defs = plus_Clock_def minus_Clock_def less_eq_Clock_def less_Clock_def
  clock_plus_def clock_minus_def clock_less_eq_def clock_less_def

text \<open>The nanoseconds as a natural number: the value that the operations are exact or saturate on.\<close>

definition ns :: "Clock \<Rightarrow> nat" where
  "ns c = unat (getNanoSeconds c)"

lemma clock_eq_iff: "a = b \<longleftrightarrow> ns a = ns b"
  by (cases a; cases b) (simp add: ns_def word_unat_eq_iff)

lemma ns_less: "a < b \<longleftrightarrow> ns a < ns b" "a \<le> b \<longleftrightarrow> ns a \<le> ns b"
  by (simp_all add: clock_operator_defs ns_def word_less_nat_alt word_le_nat_alt)

lemma ns_limits [simp]: "ns clock_zero = 0" "ns 0 = 0" "ns clock_max = 2 ^ 64 - 1" "ns c \<le> 18446744073709551615"
  using unsigned_less[of "getNanoSeconds c", where ?'a = nat]
  by (simp_all add: ns_def clock_zero_def clock_max_def zero_Clock_def unsigned_minus_1_eq_mask mask_eq_exp_minus_1)

lemma unat_NOT: "unat (NOT x :: u64) = 2 ^ 64 - 1 - unat x"
proof -
  have "NOT x = - 1 - x" by (simp add: not_eq_complement)
  moreover have "x \<le> - 1" by simp
  ultimately have "unat (NOT x) = unat (- 1 :: u64) - unat x" by (simp only: unat_sub)
  then show ?thesis by (simp add: unsigned_minus_1_eq_mask mask_eq_exp_minus_1)
qed

lemma ns_plus: "ns (a + b) = min (2 ^ 64 - 1) (ns a + ns b)"
proof (cases "NOT (getNanoSeconds a) \<le> getNanoSeconds b")
  case True
  then have "2 ^ 64 - 1 \<le> ns a + ns b" by (simp add: word_le_nat_alt unat_NOT ns_def)
  then show ?thesis using True by (simp add: clock_operator_defs)
next
  case False
  then have "ns a + ns b < 2 ^ 64 - 1" by (simp add: word_le_nat_alt unat_NOT ns_def)
  moreover from this have "unat (getNanoSeconds a + getNanoSeconds b) = ns a + ns b"
    by (simp add: ns_def unat_word_ariths)
  ultimately show ?thesis using False by (simp add: clock_operator_defs ns_def)
qed

lemma ns_minus: "ns (a - b) = ns a - ns b"
  by (auto simp: clock_operator_defs ns_def unat_sub word_le_nat_alt unat_sub_if')

instance Clock :: ordered_comm_monoid_add
  by standard (auto simp: clock_eq_iff ns_plus ns_less min_def intro: le_antisym)

lemma ns_fromSeconds: "ns (fromSeconds s) = nat (sint s) * 1000000000"
proof (cases "sint s \<le> 0")
  case False
  have s: "sint s < 2 ^ 31" using sint_less[of s] by simp
  have u: "unat (scast s :: u64) = nat (sint s)"
  proof -
    have "uint (scast s :: u64) = sint s mod 2 ^ 64"
      by (simp only: scast_eq uint_word_of_int) simp
    also have "\<dots> = sint s" using False s by (intro mod_pos_pos_trivial) simp_all
    finally show ?thesis by (simp only: unat_eq_nat_uint)
  qed
  have "\<not> (- 1 :: u64) div 1000000000 \<le> scast s"
    using s False by (simp add: word_le_nat_alt u)
  then show ?thesis using False s u by (simp add: fromSeconds_def ns_def unat_mult_lem[THEN iffD1])
qed (simp add: fromSeconds_def)

lemma unat_ucast_u32 [simp]: "unat (ucast (x :: u32) :: u64) = unat x"
proof -
  have "unat x < 2 ^ 64" using unsigned_less[of x, where ?'a = nat] by (rule less_trans) simp
  then show ?thesis by (simp add: unsigned_ucast_eq take_bit_nat_eq_self)
qed

lemma ns_fromMilliSeconds: "ns (fromMilliSeconds ms) = unat ms * 1000000"
proof (cases "ms = 0")
  case False
  have ms: "unat ms < 2 ^ 32" using unsigned_less[of ms, where ?'a = nat] by simp
  have u: "unat (ucast ms :: u64) = unat ms" by (rule unat_ucast_u32)
  have "\<not> (- 1 :: u64) div 1000000 \<le> ucast ms" using ms by (simp add: word_le_nat_alt u)
  then show ?thesis using False ms u by (simp add: fromMilliSeconds_def ns_def unat_mult_lem[THEN iffD1])
qed (simp add: fromMilliSeconds_def)


lemma ns_getters: "unat (getMilliSeconds c) = ns c div 1000000" "unat (getMicroSeconds c) = ns c div 1000"
  by (simp_all add: getMilliSeconds_def getMicroSeconds_def ns_def unat_div)

section \<open>AbsTimeout\<close>

text \<open>
  \<open>watchDog\<close> tells whether \<open>_watchDogThreadResult\<close> is valid, that is whether the constructor started
  the thread, and \<open>timeout_delay\<close> is \<open>_delay\<close>, which the thread accumulates. \<open>getDelay\<close> waits until
  the thread has passed one turn of its loop, so it reads the delay after a \<open>watchDog_turn\<close>; this turn
  is a step of its own in the histories below.
\<close>

record AbsTimeout =
  absTime :: Clock
  timeout_delay :: u64
  watchDog :: bool

definition watchDogPeriod :: Clock where
  "watchDogPeriod = fromMilliSeconds 100"

definition watchDogMinPeriod :: Clock where
  "watchDogMinPeriod = fromMilliSeconds 200"

definition new_AbsTimeout :: "Clock \<Rightarrow> Clock \<Rightarrow> AbsTimeout" where
  "new_AbsTimeout now abstime =
     \<lparr>absTime = abstime, timeout_delay = 0,
      watchDog = (abstime > clock_zero \<and> abstime < clock_max \<and> abstime > now + watchDogMinPeriod)\<rparr>"

text \<open>One turn of \<open>watchDogFunc\<close>, from the reading before the wait to the one after it.\<close>

definition watchDog_turn :: "Clock \<Rightarrow> Clock \<Rightarrow> AbsTimeout \<Rightarrow> AbsTimeout" where
  "watchDog_turn start now t =
     (if now - start > watchDogPeriod
      then t\<lparr>timeout_delay := timeout_delay t + getNanoSeconds ((now - start) - watchDogPeriod)\<rparr>
      else t)"

definition getDelay :: "AbsTimeout \<Rightarrow> Clock" where
  "getDelay t = Clock (timeout_delay t)"

text \<open>\<open>isExpired()\<close> and \<open>isExpired(Clock& remaining)\<close>.\<close>

definition isExpired :: "Clock \<Rightarrow> AbsTimeout \<Rightarrow> bool" where
  "isExpired now t =
     (if absTime t = clock_max then False
      else if absTime t = clock_zero then True
      else if watchDog t then now > absTime t + getDelay t
      else now > absTime t)"

definition isExpired_remaining :: "Clock \<Rightarrow> AbsTimeout \<Rightarrow> bool \<times> Clock" where
  "isExpired_remaining now t =
     (if absTime t = clock_max then (False, clock_max)
      else if absTime t = clock_zero then (True, clock_zero)
      else (let delay = (if watchDog t then getDelay t else clock_zero)
            in if now < absTime t + delay then (False, (absTime t + delay) - now)
               else (True, clock_zero)))"

text \<open>
  The time at which the timeout ends. The two overloads differ at exactly this time, where only the
  one with the remaining time says that the timeout has expired.
\<close>

definition time_limit :: "AbsTimeout \<Rightarrow> Clock" where
  "time_limit t = absTime t + (if watchDog t then getDelay t else 0)"

lemma clock_add_diff: "a \<le> b \<Longrightarrow> a + (b - a) = (b :: Clock)"
  using ns_limits(4)[of b] by (simp add: clock_eq_iff ns_plus ns_minus ns_less)

lemma isExpired_iff:
  assumes "absTime t \<noteq> clock_max" "absTime t \<noteq> clock_zero"
  shows "isExpired now t \<longleftrightarrow> time_limit t < now"
    "fst (isExpired_remaining now t) \<longleftrightarrow> time_limit t \<le> now"
    "now + snd (isExpired_remaining now t) = max now (time_limit t)"
  using assms
  by (auto simp: isExpired_def isExpired_remaining_def time_limit_def Let_def zero_Clock_def[symmetric]
      not_less max_def clock_add_diff)

lemma watchDog_turn_prolongs:
  assumes "ns (getDelay t) + ns (now - start) < 2 ^ 64" "watchDog t"
  shows "time_limit (watchDog_turn start now t) = time_limit t + ((now - start) - watchDogPeriod)"
proof (cases "now - start > watchDogPeriod")
  case True
  have "ns (getDelay t) + ns ((now - start) - watchDogPeriod) < 2 ^ 64"
    using assms(1) by (simp add: ns_minus)
  then have "Clock (timeout_delay t + getNanoSeconds ((now - start) - watchDogPeriod)) =
      getDelay t + ((now - start) - watchDogPeriod)"
    unfolding clock_eq_iff ns_plus by (simp add: ns_def getDelay_def unat_word_ariths)
  then show ?thesis using True assms(2)
    by (simp add: time_limit_def watchDog_turn_def getDelay_def add.assoc)
next
  case False
  then have "(now - start) - watchDogPeriod = 0"
    by (simp add: clock_eq_iff ns_less ns_minus)
  then show ?thesis using False by (simp add: watchDog_turn_def)
qed

section \<open>Properties\<close>

text \<open>
  C23: The arithmetic of \<open>Clock\<close> never wraps: a sum is the exact one or the maximum, a difference is
  the exact one or zero, the conversions from seconds and milliseconds are exact for every argument
  (negative seconds are zero) and never reach their saturation branch, and reading milliseconds and
  microseconds rounds down.
\<close>

theorem clock_arithmetic_saturates:
  "ns (a + b) = min (2 ^ 64 - 1) (ns a + ns b) \<and> ns (a - b) = ns a - ns b \<and>
   ns (fromSeconds s) = nat (sint s) * 1000000000 \<and>
   ns (fromMilliSeconds ms) = unat ms * 1000000 \<and>
   unat (getMilliSeconds a) = ns a div 1000000 \<and> unat (getMicroSeconds a) = ns a div 1000 \<and>
   getMilliSeconds (fromMilliSeconds ms) = ucast ms"
proof -
  have "unat (getMilliSeconds (fromMilliSeconds ms)) = unat (ucast ms :: u64)"
    by (simp add: ns_getters ns_fromMilliSeconds)
  then show ?thesis
    by (simp only: ns_plus ns_minus ns_fromSeconds ns_fromMilliSeconds ns_getters word_unat_eq_iff)
qed

end
