(* ===== verification/Federate_Classes.thy ===== *)
theory Federate_Classes
  imports Message_Types Tuple_Set Region_Model Handle_Allocator "HOL-Library.List_Lexorder"
begin

text \<open>
  The classes and instances in the object model a federate keeps of its federation, from
  \<open>src/OpenRTI/Federate.h\<close> and \<open>Federate.cpp\<close>: interaction classes with their parameter filters, object
  classes with their attributes, object instances. A vector of shared pointers
  is a list of options, a class is named by its index in the vector, and a \<open>std::map\<close> that is only
  asked for keys is a partial function. \<open>OpenRTIAssert\<close> does nothing in a release build; following
  a null pointer is the result \<open>None\<close>.
\<close>

section \<open>The order of the enumerations\<close>

text \<open>\<open>std::max\<close> compares enumerators by their position.\<close>

primrec subscription_rank :: "SubscriptionType \<Rightarrow> nat" where
  "subscription_rank Unsubscribed = 0"
| "subscription_rank SubscribedPassive = 1"
| "subscription_rank SubscribedActive = 2"

primrec publication_rank :: "PublicationType \<Rightarrow> nat" where
  "publication_rank Unpublished = 0"
| "publication_rank Published = 1"

lemma subscription_rank_inject: "subscription_rank a = subscription_rank b \<Longrightarrow> a = b"
  by (cases a; cases b) auto

lemma publication_rank_inject: "publication_rank a = publication_rank b \<Longrightarrow> a = b"
  by (cases a; cases b) auto

instantiation SubscriptionType :: linorder
begin

definition less_eq_SubscriptionType :: "SubscriptionType \<Rightarrow> SubscriptionType \<Rightarrow> bool" where
  "less_eq_SubscriptionType a b \<longleftrightarrow> subscription_rank a \<le> subscription_rank b"

definition less_SubscriptionType :: "SubscriptionType \<Rightarrow> SubscriptionType \<Rightarrow> bool" where
  "less_SubscriptionType a b \<longleftrightarrow> subscription_rank a < subscription_rank b"

instance
  by standard (auto simp: less_eq_SubscriptionType_def less_SubscriptionType_def
      dest: subscription_rank_inject)

end

instantiation PublicationType :: linorder
begin

definition less_eq_PublicationType :: "PublicationType \<Rightarrow> PublicationType \<Rightarrow> bool" where
  "less_eq_PublicationType a b \<longleftrightarrow> publication_rank a \<le> publication_rank b"

definition less_PublicationType :: "PublicationType \<Rightarrow> PublicationType \<Rightarrow> bool" where
  "less_PublicationType a b \<longleftrightarrow> publication_rank a < publication_rank b"

instance
  by standard (auto simp: less_eq_PublicationType_def less_PublicationType_def
      dest: publication_rank_inject)

end

lemma Unsubscribed_le [simp]: "Unsubscribed \<le> t"
  by (simp add: less_eq_SubscriptionType_def)

lemma le_SubscribedActive [simp]: "t \<le> SubscribedActive"
  by (cases t) (auto simp: less_eq_SubscriptionType_def)

lemma Unpublished_le [simp]: "Unpublished \<le> t"
  by (simp add: less_eq_PublicationType_def)

lemma le_Published [simp]: "t \<le> Published"
  by (cases t) (auto simp: less_eq_PublicationType_def)

lemma max_Unsubscribed [simp]: "max Unsubscribed t = t" "max t Unsubscribed = t"
  by (simp_all add: max_def antisym)

lemma max_Unpublished [simp]: "max Unpublished t = t" "max t Unpublished = t"
  by (simp_all add: max_def antisym)

lemma max_Published [simp]: "max Published t = Published" "max t Published = Published"
  by (simp_all add: max_def antisym)

lemma max_SubscribedActive [simp]: "max SubscribedActive t = SubscribedActive"
  "max t SubscribedActive = SubscribedActive"
  by (simp_all add: max_def antisym)

section \<open>Publication and subscription\<close>

record FedPublishSubscribe =
  fps_name :: String
  fps_orderType :: OrderType
  fps_transportationType :: TransportationType
  fps_subscriptionType :: SubscriptionType
  fps_publicationType :: PublicationType
  fps_dimensionHandleSet :: DimensionHandleSet

definition new_fps :: FedPublishSubscribe where
  "new_fps = \<lparr>fps_name = [], fps_orderType = RECEIVE, fps_transportationType = RELIABLE,
     fps_subscriptionType = Unsubscribed, fps_publicationType = Unpublished,
     fps_dimensionHandleSet = {||}\<rparr>"

definition fps_setSubscriptionType ::
    "SubscriptionType \<Rightarrow> 'a FedPublishSubscribe_scheme \<Rightarrow> bool \<times> 'a FedPublishSubscribe_scheme" where
  "fps_setSubscriptionType t p = (t \<noteq> fps_subscriptionType p, p\<lparr>fps_subscriptionType := t\<rparr>)"

definition fps_setPublicationType ::
    "PublicationType \<Rightarrow> 'a FedPublishSubscribe_scheme \<Rightarrow> bool \<times> 'a FedPublishSubscribe_scheme" where
  "fps_setPublicationType t p = (t \<noteq> fps_publicationType p, p\<lparr>fps_publicationType := t\<rparr>)"

definition fps_isPublished :: "'a FedPublishSubscribe_scheme \<Rightarrow> bool" where
  "fps_isPublished p \<longleftrightarrow> Unpublished \<noteq> fps_publicationType p"

text \<open>The element of a vector of shared pointers with a handle; null is \<open>None\<close>.\<close>

definition vector_get :: "'w::len word \<Rightarrow> 'a option list \<Rightarrow> 'a option" where
  "vector_get h xs = (if length xs \<le> unat h then None else xs ! unat h)"

text \<open>Making room for a handle, and setting an element that is there.\<close>

definition vector_room :: "'w::len word \<Rightarrow> 'a option list \<Rightarrow> 'a option list" where
  "vector_room h xs = (if length xs \<le> unat h then vec_resize (unat h + 1) None xs else xs)"

definition vector_set :: "'w::len word \<Rightarrow> 'a \<Rightarrow> 'a option list \<Rightarrow> 'a option list" where
  "vector_set h x xs = xs[unat h := Some x]"

section \<open>Interaction classes\<close>

record FedParameter =
  fedParameter_name :: String
  fedParameter_dataType :: String

text \<open>
  The parameters of a base class are shared with the derived ones, which shows nowhere since they
  never change. The list of derived classes holds their indices.
\<close>

record FedInteractionClass = FedPublishSubscribe +
  fic_fqName :: String
  fic_parentInteractionClassHandle :: InteractionClassHandle
  fic_parameterVector :: "FedParameter option list"
  fic_nameParameterHandleMap :: "(String \<times> ParameterHandle) list"
  fic_childInteractionClassList :: "nat list"
  fic_deliverToSelf :: bool
  fic_parameterFilterKeyPrototype :: ParameterHandleVector
  fic_parameterFilterValues :: tuple_set

definition new_interaction_class :: FedInteractionClass where
  "new_interaction_class = FedPublishSubscribe.extend new_fps
     \<lparr>fic_fqName = [], fic_parentInteractionClassHandle = invalid_handle, fic_parameterVector = [],
      fic_nameParameterHandleMap = [], fic_childInteractionClassList = [], fic_deliverToSelf = False,
      fic_parameterFilterKeyPrototype = [], fic_parameterFilterValues = empty_tuple_set\<rparr>"

definition fic_getParameter :: "ParameterHandle \<Rightarrow> FedInteractionClass \<Rightarrow> FedParameter option" where
  "fic_getParameter h c = vector_get h (fic_parameterVector c)"

definition fic_getParameterHandle :: "String \<Rightarrow> FedInteractionClass \<Rightarrow> ParameterHandle" where
  "fic_getParameterHandle name c =
     (case map_of (fic_nameParameterHandleMap c) name of None \<Rightarrow> invalid_handle | Some h \<Rightarrow> h)"

subsection \<open>The parameter filters\<close>

text \<open>Keys the prototype does not have yet are appended to it.\<close>

definition fic_extendPrototype :: "ParameterValueVector \<Rightarrow> ParameterHandleVector \<Rightarrow> ParameterHandleVector" where
  "fic_extendPrototype parameterFilters prototype =
     fold (\<lambda>item proto. if ParameterValue_parameterHandle item \<in> set proto then proto
           else proto @ [ParameterValue_parameterHandle item]) parameterFilters prototype"

definition fic_NormalizeFilterValues :: "ParameterValueVector \<Rightarrow> ParameterHandleVector \<Rightarrow> vld_tuple" where
  "fic_NormalizeFilterValues parameterFilters prototype =
     map (\<lambda>key. case find (\<lambda>pv. ParameterValue_parameterHandle pv = key) parameterFilters of
            None \<Rightarrow> [] | Some pv \<Rightarrow> ParameterValue_value pv) prototype"

definition fic_AddParameterFilterValues ::
    "ParameterValueVector \<Rightarrow> FedInteractionClass \<Rightarrow> bool \<times> FedInteractionClass" where
  "fic_AddParameterFilterValues parameterFilters c =
     (let proto = fic_extendPrototype parameterFilters (fic_parameterFilterKeyPrototype c);
          row = fic_NormalizeFilterValues parameterFilters proto;
          c1 = c\<lparr>fic_parameterFilterKeyPrototype := proto\<rparr>
      in if \<not> TupleSet_Contains row (fic_parameterFilterValues c)
         then (True, c1\<lparr>fic_parameterFilterValues := TupleSet_Insert row (fic_parameterFilterValues c)\<rparr>)
         else (False, c1))"

definition fic_RemoveParameterFilterValues ::
    "ParameterValueVector \<Rightarrow> FedInteractionClass \<Rightarrow> bool \<times> FedInteractionClass" where
  "fic_RemoveParameterFilterValues parameterFilters c =
     (let proto = fic_extendPrototype parameterFilters (fic_parameterFilterKeyPrototype c);
          row = fic_NormalizeFilterValues parameterFilters proto;
          c1 = c\<lparr>fic_parameterFilterKeyPrototype := proto\<rparr>
      in if TupleSet_Contains row (fic_parameterFilterValues c)
         then (True, c1\<lparr>fic_parameterFilterValues := snd (TupleSet_Erase row (fic_parameterFilterValues c))\<rparr>)
         else (False, c1))"

definition fic_updateParameterFilterValues ::
    "ParameterValueVector \<Rightarrow> bool \<Rightarrow> FedInteractionClass \<Rightarrow> bool \<times> FedInteractionClass" where
  "fic_updateParameterFilterValues parameterFilters remove =
     (if remove then fic_RemoveParameterFilterValues parameterFilters
      else fic_AddParameterFilterValues parameterFilters)"

definition fic_HasParameterFilters :: "FedInteractionClass \<Rightarrow> bool" where
  "fic_HasParameterFilters c \<longleftrightarrow> mImpl (fic_parameterFilterValues c) \<noteq> []"

definition fic_setSubscriptionType ::
    "SubscriptionType \<Rightarrow> ParameterValueVector \<Rightarrow> FedInteractionClass \<Rightarrow> bool \<times> FedInteractionClass" where
  "fic_setSubscriptionType t filterValues c =
     (if filterValues \<noteq> [] then
        (case fic_updateParameterFilterValues filterValues (t = Unsubscribed) c of (filterChanged, c1) \<Rightarrow>
           (filterChanged,
            if t = Unsubscribed
            then (if \<not> fic_HasParameterFilters c1 then snd (fps_setSubscriptionType Unsubscribed c1) else c1)
            else snd (fps_setSubscriptionType t c1)))
      else fps_setSubscriptionType t c)"

subsection \<open>Parameters reach the derived classes\<close>

text \<open>\<open>insertParameter\<close> without its recursion; it leaves a parameter that is there alone.\<close>

definition fic_addParameter :: "FOMParameter \<Rightarrow> FedInteractionClass \<Rightarrow> FedInteractionClass" where
  "fic_addParameter p c =
     (let h = FOMParameter_parameterHandle p; name = FOMParameter_name p
      in c\<lparr>fic_parameterVector := vector_set h
             \<lparr>fedParameter_name = name, fedParameter_dataType = FOMParameter_dataType p\<rparr>
             (vector_room h (fic_parameterVector c)),
           fic_nameParameterHandleMap := smap_update (fic_fqName c @ [46] @ name) h
             (smap_update name h (fic_nameParameterHandleMap c))\<rparr>)"

lemma unat_less_vector_room: "unat h < length (vector_room h xs)"
  by (simp add: vector_room_def)

lemma vector_get_set_room [simp]: "vector_get h (vector_set h x (vector_room h xs)) = Some x"
  using unat_less_vector_room[of h xs] by (simp add: vector_get_def vector_set_def not_le)

lemma fic_getParameter_addParameter [simp]:
  "fic_getParameter (FOMParameter_parameterHandle p) (fic_addParameter p c) \<noteq> None"
  by (simp add: fic_getParameter_def fic_addParameter_def Let_def)

text \<open>The classes that still lack a parameter.\<close>

definition classes_without :: "('c \<Rightarrow> bool) \<Rightarrow> 'c option list \<Rightarrow> nat set" where
  "classes_without has cs = {i. i < length cs \<and> (case cs ! i of None \<Rightarrow> False | Some c \<Rightarrow> \<not> has c)}"

lemma finite_classes_without [simp]: "finite (classes_without has cs)"
  by (simp add: classes_without_def)

lemma classes_without_fill:
  assumes "i < length cs" "has c'"
  shows "classes_without has (cs[i := Some c']) = classes_without has cs - {i}"
proof (rule set_eqI)
  show "k \<in> classes_without has (cs[i := Some c']) \<longleftrightarrow> k \<in> classes_without has cs - {i}" for k
    using assms by (cases "k = i") (simp_all add: classes_without_def)
qed

lemma card_classes_without_fill:
  assumes "i < length cs" "cs ! i = Some c" "\<not> has c" "has c'"
  shows "card (classes_without has (cs[i := Some c'])) < card (classes_without has cs)"
proof -
  have "i \<in> classes_without has cs" using assms by (simp add: classes_without_def)
  then show ?thesis using assms
    by (metis card_Diff1_less classes_without_fill finite_classes_without)
qed

text \<open>
  \<open>insertParameter\<close> of a class and, depth first, of the classes derived from it. The recursion ends
  whatever the lists of derived classes are: each class takes the parameter at most once.
\<close>

definition fic_hasParameter :: "FOMParameter \<Rightarrow> FedInteractionClass \<Rightarrow> bool" where
  "fic_hasParameter p c \<longleftrightarrow> fic_getParameter (FOMParameter_parameterHandle p) c \<noteq> None"

lemma fic_hasParameter_addParameter [simp]: "fic_hasParameter p (fic_addParameter p c)"
  by (simp add: fic_hasParameter_def)

function (sequential) fic_insertParameter ::
    "FOMParameter \<Rightarrow> nat list \<Rightarrow> FedInteractionClass option list \<Rightarrow> FedInteractionClass option list" where
  "fic_insertParameter p [] cs = cs"
| "fic_insertParameter p (i # is) cs =
     (if length cs \<le> i then fic_insertParameter p is cs
      else case cs ! i of
        None \<Rightarrow> fic_insertParameter p is cs
      | Some c \<Rightarrow>
          (if fic_hasParameter p c then fic_insertParameter p is cs
           else fic_insertParameter p (fic_childInteractionClassList c @ is) (cs[i := Some (fic_addParameter p c)])))"
  by pat_completeness simp_all
termination
  by (relation "measures [\<lambda>(p, is, cs). card (classes_without (fic_hasParameter p) cs), \<lambda>(p, is, cs). length is]")
    (simp_all add: card_classes_without_fill)

section \<open>Object classes\<close>

record FedAttribute = FedPublishSubscribe +
  fedAttribute_dataType :: String

record FedObjectClass =
  foc_name :: String
  foc_fqName :: String
  foc_parentObjectClassHandle :: ObjectClassHandle
  foc_attributeVector :: "FedAttribute option list"
  foc_nameAttributeHandleMap :: "(String \<times> AttributeHandle) list"
  foc_subscriptionType :: SubscriptionType
  foc_publicationType :: PublicationType
  foc_childObjectClassList :: "nat list"
  foc_deliverToSelf :: bool
  foc_classHandle :: ObjectClassHandle

definition new_object_class :: FedObjectClass where
  "new_object_class = \<lparr>foc_name = [], foc_fqName = [], foc_parentObjectClassHandle = invalid_handle,
     foc_attributeVector = [], foc_nameAttributeHandleMap = [], foc_subscriptionType = Unsubscribed,
     foc_publicationType = Unpublished, foc_childObjectClassList = [], foc_deliverToSelf = False,
     foc_classHandle = invalid_handle\<rparr>"

definition foc_getAttribute :: "AttributeHandle \<Rightarrow> FedObjectClass \<Rightarrow> FedAttribute option" where
  "foc_getAttribute h c = vector_get h (foc_attributeVector c)"

definition foc_getAttributeHandle :: "String \<Rightarrow> FedObjectClass \<Rightarrow> AttributeHandle" where
  "foc_getAttributeHandle name c =
     (case map_of (foc_nameAttributeHandleMap c) name of None \<Rightarrow> invalid_handle | Some h \<Rightarrow> h)"

definition foc_getNumAttributes :: "FedObjectClass \<Rightarrow> u32" where
  "foc_getNumAttributes c = of_nat (length (foc_attributeVector c))"

text \<open>The handles in the order of the names; a handle comes once for each of its names.\<close>

definition foc_getAttributeHandles :: "FedObjectClass \<Rightarrow> AttributeHandleVector" where
  "foc_getAttributeHandles c = map snd (foc_nameAttributeHandleMap c)"

text \<open>An attribute the code takes to be there.\<close>

definition attribute_at :: "AttributeHandle \<Rightarrow> FedObjectClass \<Rightarrow> FedAttribute" where
  "attribute_at h c = the (foc_attributeVector c ! unat h)"

definition change_attribute ::
    "AttributeHandle \<Rightarrow> (FedAttribute \<Rightarrow> FedAttribute) \<Rightarrow> FedObjectClass \<Rightarrow> FedObjectClass" where
  "change_attribute h g c =
     c\<lparr>foc_attributeVector := vector_set h (g (attribute_at h c)) (foc_attributeVector c)\<rparr>"

definition foc_getEffectiveAttributeSubscriptionType ::
    "AttributeHandle \<Rightarrow> FedObjectClass \<Rightarrow> SubscriptionType" where
  "foc_getEffectiveAttributeSubscriptionType h c =
     (let t = fps_subscriptionType (attribute_at h c)
      in if h = 0 then max t (foc_subscriptionType c) else t)"

definition foc_getAttributeSubscriptionType :: "AttributeHandle \<Rightarrow> FedObjectClass \<Rightarrow> SubscriptionType" where
  "foc_getAttributeSubscriptionType h c = fps_subscriptionType (attribute_at h c)"

definition foc_isAttributeSubscribed :: "AttributeHandle \<Rightarrow> FedObjectClass \<Rightarrow> bool" where
  "foc_isAttributeSubscribed h c \<longleftrightarrow> Unsubscribed \<noteq> foc_getEffectiveAttributeSubscriptionType h c"

definition foc_setAttributeSubscriptionType ::
    "SubscriptionType \<Rightarrow> AttributeHandle \<Rightarrow> FedObjectClass \<Rightarrow> bool \<times> FedObjectClass" where
  "foc_setAttributeSubscriptionType t h c =
     (let old = foc_getEffectiveAttributeSubscriptionType h c;
          c1 = change_attribute h (\<lambda>a. snd (fps_setSubscriptionType t a)) c
      in (old \<noteq> foc_getEffectiveAttributeSubscriptionType h c1, c1))"

definition foc_getEffectiveSubscriptionType :: "FedObjectClass \<Rightarrow> SubscriptionType" where
  "foc_getEffectiveSubscriptionType c =
     max (foc_subscriptionType c) (fps_subscriptionType (attribute_at 0 c))"

definition foc_setSubscriptionType :: "SubscriptionType \<Rightarrow> FedObjectClass \<Rightarrow> bool \<times> FedObjectClass" where
  "foc_setSubscriptionType t c =
     (let old = foc_getEffectiveSubscriptionType c; c1 = c\<lparr>foc_subscriptionType := t\<rparr>
      in (old \<noteq> foc_getEffectiveSubscriptionType c1, c1))"

definition foc_getEffectiveAttributePublicationType ::
    "AttributeHandle \<Rightarrow> FedObjectClass \<Rightarrow> PublicationType" where
  "foc_getEffectiveAttributePublicationType h c =
     (let t = fps_publicationType (attribute_at h c)
      in if h = 0 then max t (foc_publicationType c) else t)"

definition foc_getAttributePublicationType :: "AttributeHandle \<Rightarrow> FedObjectClass \<Rightarrow> PublicationType" where
  "foc_getAttributePublicationType h c = fps_publicationType (attribute_at h c)"

definition foc_isAttributePublished :: "AttributeHandle \<Rightarrow> FedObjectClass \<Rightarrow> bool" where
  "foc_isAttributePublished h c \<longleftrightarrow> Unpublished \<noteq> foc_getEffectiveAttributePublicationType h c"

definition foc_setAttributePublicationType ::
    "PublicationType \<Rightarrow> AttributeHandle \<Rightarrow> FedObjectClass \<Rightarrow> bool \<times> FedObjectClass" where
  "foc_setAttributePublicationType t h c =
     (let old = foc_getEffectiveAttributePublicationType h c;
          c1 = change_attribute h (\<lambda>a. snd (fps_setPublicationType t a)) c
      in (old \<noteq> foc_getEffectiveAttributePublicationType h c1, c1))"

definition foc_getEffectivePublicationType :: "FedObjectClass \<Rightarrow> PublicationType" where
  "foc_getEffectivePublicationType c =
     max (foc_publicationType c) (fps_publicationType (attribute_at 0 c))"

definition foc_isPublished :: "FedObjectClass \<Rightarrow> bool" where
  "foc_isPublished c \<longleftrightarrow> Unpublished \<noteq> foc_getEffectivePublicationType c"

definition foc_setPublicationType :: "PublicationType \<Rightarrow> FedObjectClass \<Rightarrow> bool \<times> FedObjectClass" where
  "foc_setPublicationType t c =
     (let old = foc_getEffectivePublicationType c; c1 = c\<lparr>foc_publicationType := t\<rparr>
      in (old \<noteq> foc_getEffectivePublicationType c1, c1))"

subsection \<open>Attributes reach the derived classes\<close>

definition new_attribute :: "FOMAttribute \<Rightarrow> FedAttribute" where
  "new_attribute f = FedPublishSubscribe.extend
     (new_fps\<lparr>fps_name := FOMAttribute_name f, fps_orderType := FOMAttribute_orderType f,
        fps_transportationType := FOMAttribute_transportationType f,
        fps_dimensionHandleSet := FOMAttribute_dimensionHandleSet f\<rparr>)
     \<lparr>fedAttribute_dataType = FOMAttribute_dataType f\<rparr>"

definition foc_addAttribute :: "FOMAttribute \<Rightarrow> FedObjectClass \<Rightarrow> FedObjectClass" where
  "foc_addAttribute f c =
     (let h = FOMAttribute_attributeHandle f; name = FOMAttribute_name f
      in c\<lparr>foc_attributeVector := vector_set h (new_attribute f) (vector_room h (foc_attributeVector c)),
           foc_nameAttributeHandleMap := smap_update (foc_fqName c @ [46] @ name) h
             (smap_update name h (foc_nameAttributeHandleMap c))\<rparr>)"

definition foc_hasAttribute :: "FOMAttribute \<Rightarrow> FedObjectClass \<Rightarrow> bool" where
  "foc_hasAttribute f c \<longleftrightarrow> foc_getAttribute (FOMAttribute_attributeHandle f) c \<noteq> None"

lemma foc_hasAttribute_addAttribute [simp]: "foc_hasAttribute f (foc_addAttribute f c)"
  by (simp add: foc_hasAttribute_def foc_getAttribute_def foc_addAttribute_def Let_def)

text \<open>\<open>insertAttribute\<close> of a class and, depth first, of the classes derived from it.\<close>

function (sequential) foc_insertAttribute ::
    "FOMAttribute \<Rightarrow> nat list \<Rightarrow> FedObjectClass option list \<Rightarrow> FedObjectClass option list" where
  "foc_insertAttribute f [] cs = cs"
| "foc_insertAttribute f (i # is) cs =
     (if length cs \<le> i then foc_insertAttribute f is cs
      else case cs ! i of
        None \<Rightarrow> foc_insertAttribute f is cs
      | Some c \<Rightarrow>
          (if foc_hasAttribute f c then foc_insertAttribute f is cs
           else foc_insertAttribute f (foc_childObjectClassList c @ is) (cs[i := Some (foc_addAttribute f c)])))"
  by pat_completeness simp_all
termination
  by (relation "measures [\<lambda>(f, is, cs). card (classes_without (foc_hasAttribute f) cs), \<lambda>(f, is, cs). length is]")
    (simp_all add: card_classes_without_fill)

section \<open>Object instances\<close>

record FedInstanceAttribute =
  fia_orderType :: OrderType
  fia_transportationType :: TransportationType
  fia_isOwnedByFederate :: bool
  fia_updateRate :: Double

text \<open>The name of an instance is the key of its entry in the map of the names.\<close>

record FedObjectInstance =
  foi_objectClassHandle :: ObjectClassHandle
  foi_name :: String
  foi_instanceAttributeVector :: "FedInstanceAttribute option list"
  foi_subscriptionType :: SubscriptionType

definition new_fed_instance_attribute :: "FedAttribute \<Rightarrow> bool \<Rightarrow> FedInstanceAttribute" where
  "new_fed_instance_attribute a owned = \<lparr>fia_orderType = fps_orderType a,
     fia_transportationType = fps_transportationType a, fia_isOwnedByFederate = owned,
     fia_updateRate = 0\<rparr>"

text \<open>Only the published attributes of an instance of its own belong to the federate.\<close>

definition new_object_instance :: "String \<Rightarrow> FedObjectClass \<Rightarrow> bool \<Rightarrow> FedObjectInstance" where
  "new_object_instance name c owned =
     \<lparr>foi_objectClassHandle = invalid_handle, foi_name = name,
      foi_instanceAttributeVector =
        map (\<lambda>k. case foc_getAttribute (of_nat k) c of
               Some a \<Rightarrow> Some (new_fed_instance_attribute a
                   (if foc_isAttributePublished (of_nat k) c then owned else False))
             | None \<Rightarrow> None) [0..<unat (foc_getNumAttributes c)],
      foi_subscriptionType = Unsubscribed\<rparr>"

definition foi_getInstanceAttribute ::
    "AttributeHandle \<Rightarrow> FedObjectInstance \<Rightarrow> FedInstanceAttribute option" where
  "foi_getInstanceAttribute h oi = vector_get h (foi_instanceAttributeVector oi)"

definition foi_isOwnedByFederate :: "FedObjectInstance \<Rightarrow> bool" where
  "foi_isOwnedByFederate oi = (case foi_getInstanceAttribute 0 oi of
     None \<Rightarrow> False | Some a \<Rightarrow> fia_isOwnedByFederate a)"

definition foi_ownsAnyAttribute :: "FedObjectInstance \<Rightarrow> bool" where
  "foi_ownsAnyAttribute oi \<longleftrightarrow>
     list_ex (\<lambda>a. case a of None \<Rightarrow> False | Some a \<Rightarrow> fia_isOwnedByFederate a)
       (foi_instanceAttributeVector oi)"

definition foi_setSubscriptionType :: "SubscriptionType \<Rightarrow> FedObjectInstance \<Rightarrow> bool \<times> FedObjectInstance" where
  "foi_setSubscriptionType t oi = (foi_subscriptionType oi \<noteq> t, oi\<lparr>foi_subscriptionType := t\<rparr>)"

end
