(* ===== verification/Federate_Model.thy ===== *)
theory Federate_Model
  imports Federate_Classes
begin

text \<open>
  The object model of a federate as a whole: the class \<open>Federate\<close> of \<open>src/OpenRTI/Federate.h\<close> and
  \<open>Federate.cpp\<close>. The FOM modules fill it, the services of the ambassador read and change it, and so
  do the messages from the server.
\<close>

section \<open>The state\<close>

record FedRegionData =
  frd_dimensionHandleSet :: DimensionHandleSet
  frd_region :: region

record FederateModel =
  fm_federateType :: String
  fm_federateName :: String
  fm_federateHandle :: FederateHandle
  fm_federationHandle :: FederationHandle
  fm_logicalTimeFactoryName :: String
  fm_automaticResignDirective :: ResignAction
  fm_objectClassRelevanceAdvisorySwitchEnabled :: bool
  fm_attributeRelevanceAdvisorySwitchEnabled :: bool
  fm_attributeScopeAdvisorySwitchEnabled :: bool
  fm_interactionRelevanceAdvisorySwitchEnabled :: bool
  fm_nameUpdateRateMap :: "String \<rightharpoonup> Double"
  fm_nameTransportationTypeMap :: "String \<rightharpoonup> TransportationType"
  fm_transportationTypeNameMap :: "TransportationType \<rightharpoonup> String"
  fm_nameOrderTypeMap :: "String \<rightharpoonup> OrderType"
  fm_orderTypeNameMap :: "OrderType \<rightharpoonup> String"
  fm_dimensionVector :: "(String \<times> Unsigned) option list"
  fm_nameDimensionHandleMap :: "String \<rightharpoonup> DimensionHandle"
  fm_regionHandleRegionDataMap :: "(RegionHandle \<times> FedRegionData) list"
  fm_localRegionHandleAllocator :: "u32 allocator"
  fm_interactionClassVector :: "FedInteractionClass option list"
  fm_nameInteractionClassHandleMap :: "String \<rightharpoonup> InteractionClassHandle"
  fm_objectClassVector :: "FedObjectClass option list"
  fm_nameObjectClassHandleMap :: "String \<rightharpoonup> ObjectClassHandle"
  fm_objectInstanceHandleMap :: "(ObjectInstanceHandle \<times> FedObjectInstance) list"
  fm_nameObjectInstanceHandleMap :: "String \<rightharpoonup> ObjectInstanceHandle"
  fm_privateNameObjectInstanceHandlePairs :: "(String \<times> ObjectInstanceHandle) list"
  fm_reservedNameObjectInstanceHandlePairs :: "String \<rightharpoonup> ObjectInstanceHandle"
  fm_nameFederateHandleMap :: "String \<rightharpoonup> FederateHandle"
  fm_federateHandleMap :: "(FederateHandle \<times> String) list"
  fm_announcedFederationSynchonizationLabels :: "String fset"
  fm_moduleMap :: "ModuleHandle \<rightharpoonup> FOMModule"

definition new_federate_model :: FederateModel where
  "new_federate_model = \<lparr>fm_federateType = [], fm_federateName = [], fm_federateHandle = invalid_handle,
     fm_federationHandle = invalid_handle, fm_logicalTimeFactoryName = [],
     fm_automaticResignDirective = CANCEL_THEN_DELETE_THEN_DIVEST,
     fm_objectClassRelevanceAdvisorySwitchEnabled = False,
     fm_attributeRelevanceAdvisorySwitchEnabled = False,
     fm_attributeScopeAdvisorySwitchEnabled = False,
     fm_interactionRelevanceAdvisorySwitchEnabled = False,
     fm_nameUpdateRateMap = Map.empty, fm_nameTransportationTypeMap = Map.empty,
     fm_transportationTypeNameMap = Map.empty, fm_nameOrderTypeMap = Map.empty,
     fm_orderTypeNameMap = Map.empty, fm_dimensionVector = [], fm_nameDimensionHandleMap = Map.empty,
     fm_regionHandleRegionDataMap = [], fm_localRegionHandleAllocator = new_allocator,
     fm_interactionClassVector = [], fm_nameInteractionClassHandleMap = Map.empty,
     fm_objectClassVector = [], fm_nameObjectClassHandleMap = Map.empty,
     fm_objectInstanceHandleMap = [], fm_nameObjectInstanceHandleMap = Map.empty,
     fm_privateNameObjectInstanceHandlePairs = [], fm_reservedNameObjectInstanceHandlePairs = Map.empty,
     fm_nameFederateHandleMap = Map.empty, fm_federateHandleMap = [],
     fm_announcedFederationSynchonizationLabels = {||}, fm_moduleMap = Map.empty\<rparr>"

text \<open>Looking up a name that is mapped to a handle; the invalid handle stands for none.\<close>

definition named_handle :: "('k \<rightharpoonup> 'w::len word) \<Rightarrow> 'k \<Rightarrow> 'w word" where
  "named_handle m name = (case m name of None \<Rightarrow> invalid_handle | Some h \<Rightarrow> h)"

section \<open>Switches, update rates, transportation and order types, dimensions\<close>

definition fm_applySwitch :: "FOMSwitch \<Rightarrow> FederateModel \<Rightarrow> FederateModel" where
  "fm_applySwitch sw F = (case FOMSwitch_switchesType sw of
     InteractionRelevanceAdvisorySwitchesType \<Rightarrow>
       F\<lparr>fm_interactionRelevanceAdvisorySwitchEnabled := FOMSwitch_enabled sw\<rparr>
   | ObjectClassRelevanceAdvisorySwitchesType \<Rightarrow>
       F\<lparr>fm_objectClassRelevanceAdvisorySwitchEnabled := FOMSwitch_enabled sw\<rparr>
   | AttributeRelevanceAdvisorySwitchesType \<Rightarrow>
       F\<lparr>fm_attributeRelevanceAdvisorySwitchEnabled := FOMSwitch_enabled sw\<rparr>
   | AttributeScopeAdvisorySwitchesType \<Rightarrow>
       F\<lparr>fm_attributeScopeAdvisorySwitchEnabled := FOMSwitch_enabled sw\<rparr>
   | _ \<Rightarrow> F)"

text \<open>The rates are kept as their bits; \<open>None\<close> stands for the result \<open>-1\<close>.\<close>

definition fm_getUpdateRateValue :: "String \<Rightarrow> FederateModel \<Rightarrow> Double option" where
  "fm_getUpdateRateValue name F = fm_nameUpdateRateMap F name"

definition fm_insertUpdateRate :: "String \<Rightarrow> Double \<Rightarrow> FederateModel \<Rightarrow> FederateModel" where
  "fm_insertUpdateRate name rate F = F\<lparr>fm_nameUpdateRateMap := (fm_nameUpdateRateMap F)(name \<mapsto> rate)\<rparr>"

definition fm_getTransportationType :: "String \<Rightarrow> FederateModel \<Rightarrow> TransportationType option" where
  "fm_getTransportationType name F = fm_nameTransportationTypeMap F name"

definition fm_getTransportationName :: "TransportationType \<Rightarrow> FederateModel \<Rightarrow> String option" where
  "fm_getTransportationName t F = fm_transportationTypeNameMap F t"

text \<open>Only the first name of a transportation type is the one it is known by.\<close>

definition fm_insertTransportationType ::
    "String \<Rightarrow> TransportationType \<Rightarrow> FederateModel \<Rightarrow> FederateModel" where
  "fm_insertTransportationType name t F =
     F\<lparr>fm_nameTransportationTypeMap := (fm_nameTransportationTypeMap F)(name \<mapsto> t),
       fm_transportationTypeNameMap := (case fm_transportationTypeNameMap F t of
          None \<Rightarrow> (fm_transportationTypeNameMap F)(t \<mapsto> name)
        | Some _ \<Rightarrow> fm_transportationTypeNameMap F)\<rparr>"

definition fm_getOrderType :: "String \<Rightarrow> FederateModel \<Rightarrow> OrderType option" where
  "fm_getOrderType name F = fm_nameOrderTypeMap F name"

definition fm_getOrderName :: "OrderType \<Rightarrow> FederateModel \<Rightarrow> String option" where
  "fm_getOrderName t F = fm_orderTypeNameMap F t"

definition fm_insertOrderType :: "String \<Rightarrow> OrderType \<Rightarrow> FederateModel \<Rightarrow> FederateModel" where
  "fm_insertOrderType name t F =
     F\<lparr>fm_nameOrderTypeMap := (fm_nameOrderTypeMap F)(name \<mapsto> t),
       fm_orderTypeNameMap := (fm_orderTypeNameMap F)(t \<mapsto> name)\<rparr>"

definition fm_getDimension :: "DimensionHandle \<Rightarrow> FederateModel \<Rightarrow> (String \<times> Unsigned) option" where
  "fm_getDimension h F = vector_get h (fm_dimensionVector F)"

definition fm_getDimensionHandle :: "String \<Rightarrow> FederateModel \<Rightarrow> DimensionHandle" where
  "fm_getDimensionHandle name F = named_handle (fm_nameDimensionHandleMap F) name"

definition fm_insertDimension ::
    "String \<Rightarrow> DimensionHandle \<Rightarrow> Unsigned \<Rightarrow> FederateModel \<Rightarrow> FederateModel" where
  "fm_insertDimension name h upper F =
     F\<lparr>fm_dimensionVector := vector_set h (name, upper) (vector_room h (fm_dimensionVector F)),
       fm_nameDimensionHandleMap := (fm_nameDimensionHandleMap F)(name \<mapsto> h)\<rparr>"

section \<open>Regions\<close>

definition frd_containsDimensionHandle :: "DimensionHandle \<Rightarrow> FedRegionData \<Rightarrow> bool" where
  "frd_containsDimensionHandle d r \<longleftrightarrow> d |\<in>| frd_dimensionHandleSet r"

definition fm_getRegion :: "RegionHandle \<Rightarrow> FederateModel \<Rightarrow> FedRegionData option" where
  "fm_getRegion h F = map_of (fm_regionHandleRegionDataMap F) h"

definition fm_insertRegion :: "RegionHandle \<Rightarrow> DimensionHandleSet \<Rightarrow> FederateModel \<Rightarrow> FederateModel" where
  "fm_insertRegion h dims F = F\<lparr>fm_regionHandleRegionDataMap :=
     smap_update h \<lparr>frd_dimensionHandleSet = dims, frd_region = []\<rparr> (fm_regionHandleRegionDataMap F)\<rparr>"

definition fm_insertRegions ::
    "RegionHandleDimensionHandleSetPairVector \<Rightarrow> FederateModel \<Rightarrow> FederateModel" where
  "fm_insertRegions pairs F = fold (\<lambda>(h, dims). fm_insertRegion h dims) pairs F"

definition fm_eraseRegion :: "RegionHandle \<Rightarrow> FederateModel \<Rightarrow> FederateModel" where
  "fm_eraseRegion h F =
     F\<lparr>fm_regionHandleRegionDataMap := smap_erase h (fm_regionHandleRegionDataMap F)\<rparr>"

definition fm_eraseRegions :: "RegionHandleVector \<Rightarrow> FederateModel \<Rightarrow> FederateModel" where
  "fm_eraseRegions hs F = fold fm_eraseRegion hs F"

text \<open>When the local handles are used up the allocator throws.\<close>

definition fm_insertLocalRegion ::
    "DimensionHandleSet \<Rightarrow> FederateModel \<Rightarrow> allocator_error + RegionHandle \<times> FederateModel" where
  "fm_insertLocalRegion dims F = (case allocator_get (fm_localRegionHandleAllocator F) of
     Inl e \<Rightarrow> Inl e
   | Inr (l, a) \<Rightarrow> (let h = RegionHandle (fm_federateHandle F) l
       in Inr (h, fm_insertRegion h dims (F\<lparr>fm_localRegionHandleAllocator := a\<rparr>))))"

definition fm_eraseLocalRegion :: "RegionHandle \<Rightarrow> FederateModel \<Rightarrow> FederateModel" where
  "fm_eraseLocalRegion h F = (let F1 = fm_eraseRegion h F
     in F1\<lparr>fm_localRegionHandleAllocator :=
          allocator_put (getLocalRegionHandle h) (fm_localRegionHandleAllocator F1)\<rparr>)"

definition fm_getLocalRegionHandles :: "FederateModel \<Rightarrow> RegionHandleVector" where
  "fm_getLocalRegionHandles F =
     filter (\<lambda>h. getFederateHandle h = fm_federateHandle F) (map fst (fm_regionHandleRegionDataMap F))"

text \<open>\<open>Region(regionValue)\<close> for a value from a message.\<close>

definition region_of_wire :: "RegionValue \<Rightarrow> region" where
  "region_of_wire rv = region_of_value
     (map (\<lambda>(d, b). (d, \<lparr>lowerBound = RangeBoundsValue_lowerBound b, upperBound = RangeBoundsValue_upperBound b\<rparr>)) rv)"

definition fm_commitRegion :: "RegionHandle \<Rightarrow> RegionValue \<Rightarrow> FederateModel \<Rightarrow> FederateModel option" where
  "fm_commitRegion h rv F = (case fm_getRegion h F of
     None \<Rightarrow> None
   | Some r \<Rightarrow> Some (F\<lparr>fm_regionHandleRegionDataMap :=
       smap_update h (r\<lparr>frd_region := region_of_wire rv\<rparr>) (fm_regionHandleRegionDataMap F)\<rparr>))"

definition fm_commitRegions ::
    "RegionHandleRegionValuePairVector \<Rightarrow> FederateModel \<Rightarrow> FederateModel option" where
  "fm_commitRegions pairs F =
     fold (\<lambda>(h, rv) F'. Option.bind F' (fm_commitRegion h rv)) pairs (Some F)"

section \<open>Interaction and object classes\<close>

definition fm_getInteractionClass :: "InteractionClassHandle \<Rightarrow> FederateModel \<Rightarrow> FedInteractionClass option" where
  "fm_getInteractionClass h F = vector_get h (fm_interactionClassVector F)"

definition fm_getInteractionClassHandle :: "String \<Rightarrow> FederateModel \<Rightarrow> InteractionClassHandle" where
  "fm_getInteractionClassHandle name F = named_handle (fm_nameInteractionClassHandleMap F) name"

definition fm_getObjectClass :: "ObjectClassHandle \<Rightarrow> FederateModel \<Rightarrow> FedObjectClass option" where
  "fm_getObjectClass h F = vector_get h (fm_objectClassVector F)"

definition fm_getObjectClassHandle :: "String \<Rightarrow> FederateModel \<Rightarrow> ObjectClassHandle" where
  "fm_getObjectClassHandle name F = named_handle (fm_nameObjectClassHandleMap F) name"

text \<open>
  The full name of a class: its name behind that of its parent; the artificial root of a FOM of an
  older standard is left out.
\<close>

definition ascii :: "string \<Rightarrow> String" where
  "ascii s = map (\<lambda>ch. of_nat (of_char ch)) s"

definition full_name :: "String option \<Rightarrow> String \<Rightarrow> String \<Rightarrow> bool \<Rightarrow> String" where
  "full_name parentName root name artificialRoot =
     (let fq = (case parentName of None \<Rightarrow> [] | Some fq \<Rightarrow> (if fq \<noteq> [] then fq @ [46] else fq)) @ name
      in if artificialRoot \<and> take (length root) fq = root then drop (length root) fq else fq)"

text \<open>The names a class is found by.\<close>

definition add_class_names :: "String \<Rightarrow> String \<Rightarrow> u32 \<Rightarrow> (String \<rightharpoonup> u32) \<Rightarrow> (String \<rightharpoonup> u32)" where
  "add_class_names name fqName h m =
     (let m1 = m(name \<mapsto> h) in if fqName \<noteq> [] \<and> fqName \<noteq> name then m1(fqName \<mapsto> h) else m1)"

text \<open>A derived class starts with the parameters of its base class.\<close>

definition fic_insertChild ::
    "nat \<Rightarrow> nat \<Rightarrow> FedInteractionClass option list \<Rightarrow> FedInteractionClass option list" where
  "fic_insertChild parent i cs =
     (case (cs ! parent, cs ! i) of
        (Some p, Some c) \<Rightarrow>
          (let cs1 = cs[i := Some (c\<lparr>fic_parameterVector := fic_parameterVector p,
                                     fic_nameParameterHandleMap := fic_nameParameterHandleMap p\<rparr>)]
           in cs1[parent := map_option (\<lambda>p. p\<lparr>fic_childInteractionClassList :=
                fic_childInteractionClassList p @ [i]\<rparr>) (cs1 ! parent)])
      | _ \<Rightarrow> cs)"

definition fm_newInteractionClass :: "FOMInteractionClass \<Rightarrow> String \<Rightarrow> FedInteractionClass" where
  "fm_newInteractionClass f fqName = new_interaction_class\<lparr>
     fps_name := FOMInteractionClass_name f, fic_fqName := fqName,
     fic_parentInteractionClassHandle := FOMInteractionClass_parentInteractionClassHandle f,
     fps_orderType := FOMInteractionClass_orderType f,
     fps_transportationType := FOMInteractionClass_transportationType f,
     fps_dimensionHandleSet := FOMInteractionClass_dimensionHandleSet f\<rparr>"

definition fm_createInteractionClass ::
    "FOMInteractionClass \<Rightarrow> bool \<Rightarrow> FederateModel \<Rightarrow> FederateModel option" where
  "fm_createInteractionClass f artificialRoot F =
     (let h = FOMInteractionClass_interactionClassHandle f; name = FOMInteractionClass_name f;
          parent = FOMInteractionClass_parentInteractionClassHandle f;
          cs = vector_set h new_interaction_class (fm_interactionClassVector F)
      in if handle_valid parent \<and> vector_get parent cs = None then None
         else let parentName = (if handle_valid parent then map_option fic_fqName (vector_get parent cs) else None);
                  fqName = full_name parentName (ascii ''HLAinteractionRoot.'') name artificialRoot;
                  cs1 = vector_set h (fm_newInteractionClass f fqName) cs
              in Some (F\<lparr>fm_nameInteractionClassHandleMap :=
                           add_class_names name fqName h (fm_nameInteractionClassHandleMap F),
                         fm_interactionClassVector :=
                           (if handle_valid parent then fic_insertChild (unat parent) (unat h) cs1 else cs1)\<rparr>))"

definition fm_insertInteractionClass ::
    "FOMInteractionClass \<Rightarrow> bool \<Rightarrow> FederateModel \<Rightarrow> FederateModel option" where
  "fm_insertInteractionClass f artificialRoot F =
     (let h = FOMInteractionClass_interactionClassHandle f;
          F1 = F\<lparr>fm_interactionClassVector := vector_room h (fm_interactionClassVector F)\<rparr>
      in case (if fm_interactionClassVector F1 ! unat h = None
               then fm_createInteractionClass f artificialRoot F1 else Some F1) of
        None \<Rightarrow> None
      | Some F2 \<Rightarrow> Some (fold (\<lambda>p F'. F'\<lparr>fm_interactionClassVector :=
            fic_insertParameter p [unat h] (fm_interactionClassVector F')\<rparr>)
          (FOMInteractionClass_parameterList f) F2))"

text \<open>A derived class starts with copies of the attributes of its base class.\<close>

definition foc_insertChild :: "nat \<Rightarrow> nat \<Rightarrow> FedObjectClass option list \<Rightarrow> FedObjectClass option list" where
  "foc_insertChild parent i cs =
     (case (cs ! parent, cs ! i) of
        (Some p, Some c) \<Rightarrow>
          (let cs1 = cs[i := Some (c\<lparr>foc_attributeVector := foc_attributeVector c @ foc_attributeVector p,
                                     foc_nameAttributeHandleMap := foc_nameAttributeHandleMap p\<rparr>)]
           in cs1[parent := map_option (\<lambda>p. p\<lparr>foc_childObjectClassList :=
                foc_childObjectClassList p @ [i]\<rparr>) (cs1 ! parent)])
      | _ \<Rightarrow> cs)"

definition fm_createObjectClass :: "FOMObjectClass \<Rightarrow> bool \<Rightarrow> FederateModel \<Rightarrow> FederateModel option" where
  "fm_createObjectClass f artificialRoot F =
     (let h = FOMObjectClass_objectClassHandle f; name = FOMObjectClass_name f;
          parent = FOMObjectClass_parentObjectClassHandle f;
          cs = vector_set h (new_object_class\<lparr>foc_classHandle := h\<rparr>) (fm_objectClassVector F)
      in if handle_valid parent \<and> vector_get parent cs = None then None
         else let parentName = (if handle_valid parent then map_option foc_fqName (vector_get parent cs) else None);
                  fqName = full_name parentName (ascii ''HLAobjectRoot.'') name artificialRoot;
                  cs1 = vector_set h (new_object_class\<lparr>foc_classHandle := h, foc_name := name,
                          foc_fqName := fqName, foc_parentObjectClassHandle := parent\<rparr>) cs
              in Some (F\<lparr>fm_nameObjectClassHandleMap :=
                           add_class_names name fqName h (fm_nameObjectClassHandleMap F),
                         fm_objectClassVector :=
                           (if handle_valid parent then foc_insertChild (unat parent) (unat h) cs1 else cs1)\<rparr>))"

definition fm_insertObjectClass :: "FOMObjectClass \<Rightarrow> bool \<Rightarrow> FederateModel \<Rightarrow> FederateModel option" where
  "fm_insertObjectClass f artificialRoot F =
     (let h = FOMObjectClass_objectClassHandle f;
          F1 = F\<lparr>fm_objectClassVector := vector_room h (fm_objectClassVector F)\<rparr>
      in case (if fm_objectClassVector F1 ! unat h = None
               then fm_createObjectClass f artificialRoot F1 else Some F1) of
        None \<Rightarrow> None
      | Some F2 \<Rightarrow> Some (fold (\<lambda>a F'. F'\<lparr>fm_objectClassVector :=
            foc_insertAttribute a [unat h] (fm_objectClassVector F')\<rparr>)
          (FOMObjectClass_attributeList f) F2))"

section \<open>Object instances and their names\<close>

definition fm_getObjectInstance :: "ObjectInstanceHandle \<Rightarrow> FederateModel \<Rightarrow> FedObjectInstance option" where
  "fm_getObjectInstance h F = map_of (fm_objectInstanceHandleMap F) h"

definition fm_getObjectInstanceHandle :: "String \<Rightarrow> FederateModel \<Rightarrow> ObjectInstanceHandle" where
  "fm_getObjectInstanceHandle name F = named_handle (fm_nameObjectInstanceHandleMap F) name"

text \<open>Neither of the two maps replaces an entry that is there.\<close>

definition fm_insertObjectInstance ::
    "ObjectInstanceHandle \<Rightarrow> String \<Rightarrow> ObjectClassHandle \<Rightarrow> bool \<Rightarrow> FederateModel \<Rightarrow> FederateModel option" where
  "fm_insertObjectInstance h name c owned F = (case fm_getObjectClass c F of
     None \<Rightarrow> None
   | Some oc \<Rightarrow> Some (F\<lparr>
       fm_nameObjectInstanceHandleMap := (case fm_nameObjectInstanceHandleMap F name of
          None \<Rightarrow> (fm_nameObjectInstanceHandleMap F)(name \<mapsto> h)
        | Some _ \<Rightarrow> fm_nameObjectInstanceHandleMap F),
       fm_objectInstanceHandleMap := smap_insert h
         (snd (foi_setSubscriptionType SubscribedActive
            ((new_object_instance name oc owned)\<lparr>foi_objectClassHandle := c\<rparr>)))
         (fm_objectInstanceHandleMap F)\<rparr>))"

definition fm_eraseObjectInstance :: "ObjectInstanceHandle \<Rightarrow> FederateModel \<Rightarrow> FederateModel" where
  "fm_eraseObjectInstance h F = (case fm_getObjectInstance h F of
     None \<Rightarrow> F
   | Some oi \<Rightarrow> F\<lparr>fm_nameObjectInstanceHandleMap := (fm_nameObjectInstanceHandleMap F)(foi_name oi := None),
                  fm_objectInstanceHandleMap := smap_erase h (fm_objectInstanceHandleMap F)\<rparr>)"

text \<open>The pool of handles with generated names, in the order of the names.\<close>

definition fm_insertObjectInstanceHandleNamePairs ::
    "ObjectInstanceHandleNamePairVector \<Rightarrow> FederateModel \<Rightarrow> FederateModel" where
  "fm_insertObjectInstanceHandleNamePairs pairs F = F\<lparr>fm_privateNameObjectInstanceHandlePairs :=
     fold (\<lambda>(h, name). smap_update name h) pairs (fm_privateNameObjectInstanceHandlePairs F)\<rparr>"

definition fm_haveFreeObjectInstanceHandleNamePair :: "FederateModel \<Rightarrow> bool" where
  "fm_haveFreeObjectInstanceHandleNamePair F \<longleftrightarrow> fm_privateNameObjectInstanceHandlePairs F \<noteq> []"

definition fm_takeFreeObjectInstanceHandleNamePair ::
    "FederateModel \<Rightarrow> ObjectInstanceHandleNamePair \<times> FederateModel" where
  "fm_takeFreeObjectInstanceHandleNamePair F = (case fm_privateNameObjectInstanceHandlePairs F of
     [] \<Rightarrow> ((invalid_handle, []), F)
   | (name, h) # rest \<Rightarrow> ((h, name), F\<lparr>fm_privateNameObjectInstanceHandlePairs := rest\<rparr>))"

text \<open>The names reserved for the federate.\<close>

definition fm_insertReservedObjectInstanceHandleNamePair ::
    "ObjectInstanceHandleNamePair \<Rightarrow> FederateModel \<Rightarrow> FederateModel" where
  "fm_insertReservedObjectInstanceHandleNamePair pair F = F\<lparr>fm_reservedNameObjectInstanceHandlePairs :=
     (fm_reservedNameObjectInstanceHandlePairs F)(snd pair \<mapsto> fst pair)\<rparr>"

definition fm_objectInstanceNameReserved :: "String \<Rightarrow> FederateModel \<Rightarrow> bool" where
  "fm_objectInstanceNameReserved name F \<longleftrightarrow> fm_reservedNameObjectInstanceHandlePairs F name \<noteq> None"

definition fm_takeReservedObjectInstanceName ::
    "String \<Rightarrow> FederateModel \<Rightarrow> ObjectInstanceHandle \<times> FederateModel" where
  "fm_takeReservedObjectInstanceName name F = (case fm_reservedNameObjectInstanceHandlePairs F name of
     None \<Rightarrow> (invalid_handle, F)
   | Some h \<Rightarrow> (h, F\<lparr>fm_reservedNameObjectInstanceHandlePairs :=
       (fm_reservedNameObjectInstanceHandlePairs F)(name := None)\<rparr>))"

section \<open>The other federates and the synchronization labels\<close>

definition fm_getFederate :: "FederateHandle \<Rightarrow> FederateModel \<Rightarrow> String option" where
  "fm_getFederate h F = map_of (fm_federateHandleMap F) h"

definition fm_getFederateHandle :: "String \<Rightarrow> FederateModel \<Rightarrow> FederateHandle" where
  "fm_getFederateHandle name F = named_handle (fm_nameFederateHandleMap F) name"

definition fm_insertFederate :: "FederateHandle \<Rightarrow> String \<Rightarrow> FederateModel \<Rightarrow> FederateModel" where
  "fm_insertFederate h name F = F\<lparr>
     fm_nameFederateHandleMap := (case fm_nameFederateHandleMap F name of
        None \<Rightarrow> (fm_nameFederateHandleMap F)(name \<mapsto> h) | Some _ \<Rightarrow> fm_nameFederateHandleMap F),
     fm_federateHandleMap := smap_insert h name (fm_federateHandleMap F)\<rparr>"

definition fm_eraseFederate :: "FederateHandle \<Rightarrow> FederateModel \<Rightarrow> FederateModel" where
  "fm_eraseFederate h F = (case fm_getFederate h F of
     None \<Rightarrow> F
   | Some name \<Rightarrow> F\<lparr>fm_nameFederateHandleMap := (fm_nameFederateHandleMap F)(name := None),
                    fm_federateHandleMap := smap_erase h (fm_federateHandleMap F)\<rparr>)"

definition fm_getFederateHandleSet :: "FederateHandle set \<Rightarrow> FederateModel \<Rightarrow> FederateHandle set" where
  "fm_getFederateHandleSet S F = fold Set.insert (map fst (fm_federateHandleMap F)) S"

definition fm_insertAnnouncedLabel :: "String \<Rightarrow> FederateModel \<Rightarrow> FederateModel" where
  "fm_insertAnnouncedLabel l F = F\<lparr>fm_announcedFederationSynchonizationLabels :=
     finsert l (fm_announcedFederationSynchonizationLabels F)\<rparr>"

definition fm_eraseAnnouncedLabel :: "String \<Rightarrow> FederateModel \<Rightarrow> FederateModel" where
  "fm_eraseAnnouncedLabel l F = F\<lparr>fm_announcedFederationSynchonizationLabels :=
     fm_announcedFederationSynchonizationLabels F |-| {|l|}\<rparr>"

definition fm_synchronizationLabelAnnounced :: "String \<Rightarrow> FederateModel \<Rightarrow> bool" where
  "fm_synchronizationLabelAnnounced l F \<longleftrightarrow> l |\<in>| fm_announcedFederationSynchonizationLabels F"

section \<open>FOM modules\<close>

text \<open>Routing spaces are ignored. A second module with the same handle is not recorded.\<close>

definition fold_option :: "('a \<Rightarrow> 's \<Rightarrow> 's option) \<Rightarrow> 'a list \<Rightarrow> 's \<Rightarrow> 's option" where
  "fold_option f xs s = fold (\<lambda>x s'. Option.bind s' (f x)) xs (Some s)"

definition fm_insertModuleParts :: "FOMModule \<Rightarrow> FederateModel \<Rightarrow> FederateModel" where
  "fm_insertModuleParts m F =
     fold (\<lambda>t. fm_insertTransportationType (FOMTransportationType_name t) (FOMTransportationType_transportationType t))
       (FOMModule_transportationTypeList m)
     (fold (\<lambda>d. fm_insertDimension (FOMDimension_name d) (FOMDimension_dimensionHandle d) (FOMDimension_upperBound d))
       (FOMModule_dimensionList m)
     (fold (\<lambda>u. fm_insertUpdateRate (FOMUpdateRate_name u) (FOMUpdateRate_rate u))
       (FOMModule_updateRateList m) F))"

definition fm_insertFOMModule :: "FOMModule \<Rightarrow> FederateModel \<Rightarrow> FederateModel option" where
  "fm_insertFOMModule m F =
     (case fold_option (\<lambda>c. fm_insertInteractionClass c (FOMModule_artificialInteractionRoot m))
             (FOMModule_interactionClassList m) (fm_insertModuleParts m F) of
        None \<Rightarrow> None
      | Some F1 \<Rightarrow> (case fold_option (\<lambda>c. fm_insertObjectClass c (FOMModule_artificialObjectRoot m))
             (FOMModule_objectClassList m) F1 of
          None \<Rightarrow> None
        | Some F2 \<Rightarrow> (let F3 = fold fm_applySwitch (FOMModule_switchList m) F2
            in Some (F3\<lparr>fm_moduleMap := (case fm_moduleMap F3 (FOMModule_moduleHandle m) of
                 None \<Rightarrow> (fm_moduleMap F3)(FOMModule_moduleHandle m \<mapsto> m) | Some _ \<Rightarrow> fm_moduleMap F3)\<rparr>))))"

definition fm_insertFOMModuleList :: "FOMModuleList \<Rightarrow> FederateModel \<Rightarrow> FederateModel option" where
  "fm_insertFOMModuleList ms F = fold_option fm_insertFOMModule ms F"

text \<open>A \<open>FOMModule2\<close> is a module with data types; these are not used here.\<close>

definition fm_insertFOMModule2 :: "FOMModule \<times> FOMModule2 \<Rightarrow> FederateModel \<Rightarrow> FederateModel option" where
  "fm_insertFOMModule2 m F = fm_insertFOMModule (fst m) F"

definition fm_insertFOMModule2List ::
    "(FOMModule \<times> FOMModule2) list \<Rightarrow> FederateModel \<Rightarrow> FederateModel option" where
  "fm_insertFOMModule2List ms F = fold_option fm_insertFOMModule2 ms F"

end
