(* ===== verification/Ambassador_Model.thy ===== *)
theory Ambassador_Model
  imports Federate_Model
begin

text \<open>
  The ambassador of a federate (\<open>src/OpenRTI/Ambassador.h\<close>, \<open>InternalAmbassador.h\<close> and
  \<open>InternalAmbassador.cpp\<close>): its state, the ways it sends, queues and waits, and the messages of the
  server it handles before a callback. A service takes the ambassador and gives an exception or a
  result, and the ambassador after it: an exception does not undo what happened before it.
\<close>

section \<open>The state\<close>

text \<open>
  What waits to be called back: messages of the server and those the ambassador makes itself, which
  are never sent.
\<close>

datatype callback_entry =
  FromServer message
| RegistrationForObjectClass ObjectClassHandle bool
| AttributesInScope ObjectInstanceHandle AttributeHandleVector bool
| TurnUpdatesOnForInstance ObjectInstanceHandle AttributeHandleVector bool
| TurnInteractionsOn InteractionClassHandle bool

text \<open>
  The time management has its own theories; here it is a partner that gets calls: messages for its
  two queues, the internal messages about time, and the removal of the messages of an instance.
\<close>

datatype time_call =
  QueueReceiveOrder message
| QueueTimeStamped vld message bool
| TimeMessage message
| EraseMessagesForObjectInstance ObjectInstanceHandle

text \<open>
  \<open>incoming\<close> holds the messages the connection will still hand over before the time a service waits for
  is up; \<open>timeCalls\<close> is \<open>None\<close> while there is no time management, which also counts the serial numbers.
\<close>

record Ambassador =
  connected :: bool
  federate :: "FederateModel option"
  callbackMessageList :: "callback_entry list"
  callbacksEnabled :: bool
  outgoing :: "message list"
  incoming :: "message list"
  timeCalls :: "time_call list option"
  messageRetractionSerial :: u32

datatype (plugins only: code) rti_exception =
  NotConnected | AlreadyConnected | ConnectionFailed | FederateNotExecutionMember
| FederateIsExecutionMember | FederateAlreadyExecutionMember
| RTIinternalError | NullPointer
| ObjectClassNotDefined ObjectClassHandle | AttributeNotDefined AttributeHandle
| InteractionClassNotDefined InteractionClassHandle | InvalidUpdateRateDesignator String
| ObjectInstanceNotKnown ObjectInstanceHandle | ObjectInstanceNameNotKnown String
| IllegalName | NameSetWasEmpty | ObjectInstanceNameNotReserved String
| ObjectInstanceNameInUse String | ObjectClassNotPublished String | AttributeNotOwned AttributeHandle
| InteractionClassNotPublished InteractionClassHandle | InteractionClassNameNotPublished String
| InteractionParameterNotDefined ParameterHandle | InvalidLogicalTime
| DeletePrivilegeNotHeld ObjectInstanceHandle | FederateOwnsAttributes ObjectInstanceHandle
| NameNotFound String | InvalidFederateHandle FederateHandle | InvalidObjectClassHandle ObjectClassHandle
| InvalidAttributeHandle AttributeHandle | InvalidInteractionClassHandle InteractionClassHandle
| InvalidParameterHandle ParameterHandle | InvalidDimensionHandle DimensionHandle
| InvalidTransportationName String | InvalidTransportationType
| InvalidOrderName String | InvalidOrderType | InvalidRegion RegionHandle
| RegionNotCreatedByThisFederate RegionHandle | RegionDoesNotContainSpecifiedDimension
| InvalidRangeBound | InvalidMessageRetractionHandle MessageRetractionHandle
| TimeRegulationIsNotEnabled | InvalidResignAction
| AdvisorySwitchIsOn | AdvisorySwitchIsOff | SynchronizationPointLabelNotAnnounced
| FederationExecutionAlreadyExists String | CouldNotCreateLogicalTimeFactory String
| InconsistentFDD String | OperationTimeout String | InternalErrorBecause String
| FederatesCurrentlyJoined String | FederationExecutionDoesNotExist String
| FederateNameAlreadyInUse String | SaveInProgress | RestoreInProgress

type_synonym 'a service = "Ambassador \<Rightarrow> (rti_exception + 'a) \<times> Ambassador"

definition throw :: "rti_exception \<Rightarrow> 'a service" where
  "throw e A = (Inl e, A)"

definition return :: "'a \<Rightarrow> 'a service" where
  "return x A = (Inr x, A)"

text \<open>The two checks almost every service begins with.\<close>

definition as_member :: "(FederateModel \<Rightarrow> 'a service) \<Rightarrow> 'a service" where
  "as_member k A =
     (if \<not> connected A then throw NotConnected A
      else case federate A of
        None \<Rightarrow> throw FederateNotExecutionMember A
      | Some F \<Rightarrow> k F A)"

text \<open>A lookup that throws when nothing is found, and a check.\<close>

definition found :: "rti_exception \<Rightarrow> 'x option \<Rightarrow> ('x \<Rightarrow> 'a service) \<Rightarrow> 'a service" where
  "found e x k = (case x of None \<Rightarrow> throw e | Some y \<Rightarrow> k y)"

definition checked :: "rti_exception \<Rightarrow> bool \<Rightarrow> 'a service \<Rightarrow> 'a service" where
  "checked e ok k = (if \<not> ok then throw e else k)"

text \<open>The loop over a vector that throws for the first bad element.\<close>

fun check_each :: "('x \<Rightarrow> rti_exception option) \<Rightarrow> 'x list \<Rightarrow> 'a service \<Rightarrow> 'a service" where
  "check_each bad [] k = k"
| "check_each bad (x # xs) k = (case bad x of Some e \<Rightarrow> throw e | None \<Rightarrow> check_each bad xs k)"

section \<open>Sending and queueing\<close>

definition send :: "message \<Rightarrow> Ambassador \<Rightarrow> Ambassador" where
  "send m A = A\<lparr>outgoing := outgoing A @ [m]\<rparr>"

definition queueCallback :: "callback_entry \<Rightarrow> Ambassador \<Rightarrow> Ambassador" where
  "queueCallback m A = A\<lparr>callbackMessageList := callbackMessageList A @ [m]\<rparr>"

definition time_management :: "time_call \<Rightarrow> Ambassador \<Rightarrow> Ambassador" where
  "time_management c A = A\<lparr>timeCalls := map_option (\<lambda>cs. cs @ [c]) (timeCalls A)\<rparr>"

definition queueTimeStampedMessage :: "vld \<Rightarrow> message \<Rightarrow> bool \<Rightarrow> Ambassador \<Rightarrow> Ambassador" where
  "queueTimeStampedMessage timeStamp m loopback A = time_management (QueueTimeStamped timeStamp m loopback) A"

definition queueReceiveOrderMessage :: "message \<Rightarrow> Ambassador \<Rightarrow> Ambassador" where
  "queueReceiveOrderMessage m A = time_management (QueueReceiveOrder m) A"

definition update_federate :: "(FederateModel \<Rightarrow> FederateModel) \<Rightarrow> Ambassador \<Rightarrow> Ambassador" where
  "update_federate g A = A\<lparr>federate := map_option g (federate A)\<rparr>"

definition put_object_class :: "ObjectClassHandle \<Rightarrow> FedObjectClass \<Rightarrow> FederateModel \<Rightarrow> FederateModel" where
  "put_object_class h c F = F\<lparr>fm_objectClassVector := vector_set h c (fm_objectClassVector F)\<rparr>"

definition put_interaction_class ::
    "InteractionClassHandle \<Rightarrow> FedInteractionClass \<Rightarrow> FederateModel \<Rightarrow> FederateModel" where
  "put_interaction_class h c F = F\<lparr>fm_interactionClassVector := vector_set h c (fm_interactionClassVector F)\<rparr>"

definition put_object_instance ::
    "ObjectInstanceHandle \<Rightarrow> FedObjectInstance \<Rightarrow> FederateModel \<Rightarrow> FederateModel" where
  "put_object_instance h oi F =
     F\<lparr>fm_objectInstanceHandleMap := smap_update h oi (fm_objectInstanceHandleMap F)\<rparr>"

definition requestObjectInstanceHandles :: "u32 \<Rightarrow> FederateModel \<Rightarrow> Ambassador \<Rightarrow> Ambassador" where
  "requestObjectInstanceHandles n F A = send (ObjectInstanceHandlesRequestMessage
     \<lparr>ObjectInstanceHandlesRequestMessage_federationHandle = fm_federationHandle F,
      ObjectInstanceHandlesRequestMessage_federateHandle = fm_federateHandle F,
      ObjectInstanceHandlesRequestMessage_count = n\<rparr>) A"

definition releaseObjectInstance :: "ObjectInstanceHandle \<Rightarrow> FederateModel \<Rightarrow> Ambassador \<Rightarrow> Ambassador" where
  "releaseObjectInstance h F A =
     time_management (EraseMessagesForObjectInstance h)
       (send (ReleaseMultipleObjectInstanceNameHandlePairsMessage
          \<lparr>ReleaseMultipleObjectInstanceNameHandlePairsMessage_federationHandle = fm_federationHandle F,
           ReleaseMultipleObjectInstanceNameHandlePairsMessage_objectInstanceHandleVector = [h]\<rparr>)
         (update_federate (fm_eraseObjectInstance h) A))"

section \<open>Messages before a callback\<close>

text \<open>
  Whether the instances of a class belong to the class a request names: the loop over the base classes.
  It follows the handles as long as they are valid; \<open>fuel\<close> is the number of classes, one more step than
  there are classes means a loop of parents. Classes are created after their parents (\<open>Ambassador_Parents\<close>), so
  there is no such loop.
\<close>

fun derived_from ::
    "nat \<Rightarrow> ObjectClassHandle \<Rightarrow> ObjectClassHandle \<Rightarrow> FederateModel \<Rightarrow> bool option" where
  "derived_from 0 target h F = None"
| "derived_from (Suc fuel) target h F =
     (if \<not> handle_valid h then Some False
      else if h = target then Some True
      else case fm_getObjectClass h F of
        None \<Rightarrow> None
      | Some c \<Rightarrow> derived_from fuel target (foc_parentObjectClassHandle c) F)"

definition acceptChangeObjectInstanceSubscription ::
    "ChangeObjectInstanceSubscriptionMessage \<Rightarrow> unit service" where
  "acceptChangeObjectInstanceSubscription m A =
     (let h = ChangeObjectInstanceSubscriptionMessage_objectInstanceHandle m
      in case federate A of
        None \<Rightarrow> throw NullPointer A
      | Some F \<Rightarrow>
          (case (fm_getObjectInstance h F,
                 fm_getObjectClass (ChangeObjectInstanceSubscriptionMessage_objectClassHandle m) F) of
             (Some oi, Some c) \<Rightarrow>
               (let t = ChangeObjectInstanceSubscriptionMessage_subscriptionType m
                in case foi_setSubscriptionType t oi of (changed, oi') \<Rightarrow>
                  (let A1 = update_federate (put_object_instance h oi') A
                   in return () (if changed
                        then queueCallback (TurnUpdatesOnForInstance h (foc_getAttributeHandles c)
                               (t \<noteq> Unsubscribed)) A1
                        else A1)))
           | _ \<Rightarrow> return () A))"

text \<open>One request for each instance of the class and of the classes derived from it.\<close>

fun request_instances ::
    "RequestClassAttributeUpdateMessage \<Rightarrow> FederateModel \<Rightarrow> (ObjectInstanceHandle \<times> FedObjectInstance) list
      \<Rightarrow> unit service" where
  "request_instances m F [] A = return () A"
| "request_instances m F ((h, oi) # ois) A =
     (case derived_from (Suc (length (fm_objectClassVector F)))
             (RequestClassAttributeUpdateMessage_objectClassHandle m) (foi_objectClassHandle oi) F of
        None \<Rightarrow> throw NullPointer A
      | Some False \<Rightarrow> request_instances m F ois A
      | Some True \<Rightarrow> request_instances m F ois (queueCallback (FromServer (RequestAttributeUpdateMessage
          \<lparr>RequestAttributeUpdateMessage_federationHandle = fm_federationHandle F,
           RequestAttributeUpdateMessage_objectInstanceHandle = h,
           RequestAttributeUpdateMessage_attributeHandles = RequestClassAttributeUpdateMessage_attributeHandles m,
           RequestAttributeUpdateMessage_tag = RequestClassAttributeUpdateMessage_tag m\<rparr>)) A))"

definition acceptRequestClassAttributeUpdate :: "RequestClassAttributeUpdateMessage \<Rightarrow> unit service" where
  "acceptRequestClassAttributeUpdate m A = (case federate A of
     None \<Rightarrow> throw NullPointer A
   | Some F \<Rightarrow> request_instances m F (fm_objectInstanceHandleMap F) A)"

definition acceptInsertFederationExecution :: "InsertFederationExecutionMessage \<Rightarrow> bool \<Rightarrow> Ambassador \<Rightarrow> Ambassador" where
  "acceptInsertFederationExecution m timeFactoryKnown A =
     A\<lparr>federate := Some (new_federate_model\<lparr>
         fm_federationHandle := InsertFederationExecutionMessage_federationHandle m,
         fm_logicalTimeFactoryName := InsertFederationExecutionMessage_logicalTimeFactoryName m\<rparr>),
       timeCalls := (if timeFactoryKnown then Some [] else None), messageRetractionSerial := 0\<rparr>"

definition acceptJoinFederationExecutionResponse ::
    "JoinFederationExecutionResponseMessage \<Rightarrow> Ambassador \<Rightarrow> Ambassador" where
  "acceptJoinFederationExecutionResponse m A = update_federate (\<lambda>F. F\<lparr>
     fm_federateHandle := JoinFederationExecutionResponseMessage_federateHandle m,
     fm_federateName := JoinFederationExecutionResponseMessage_federateName m,
     fm_federateType := JoinFederationExecutionResponseMessage_federateType m\<rparr>) A"

text \<open>A step of the federate's model that may follow a null pointer.\<close>

definition model_step :: "(FederateModel \<Rightarrow> FederateModel option) \<Rightarrow> unit service" where
  "model_step g A = (case federate A of
     None \<Rightarrow> return () A
   | Some F \<Rightarrow> (case g F of None \<Rightarrow> throw NullPointer A | Some F' \<Rightarrow> return () (A\<lparr>federate := Some F'\<rparr>)))"

text \<open>The order type decides which queue a time stamped message waits in.\<close>

definition queue_by_order :: "OrderType \<Rightarrow> vld \<Rightarrow> message \<Rightarrow> Ambassador \<Rightarrow> Ambassador" where
  "queue_by_order order timeStamp m A =
     (if order = TIMESTAMP then queueTimeStampedMessage timeStamp m False A
      else queueReceiveOrderMessage m A)"

text \<open>
  \<open>acceptInternalMessage\<close> by the type of the message. Whether the time management knows the time factory
  that a message names is a parameter; it depends on the binding. A module with data types arrives
  without its base part, which has no encoding.
\<close>

definition empty_module :: FOMModule where
  "empty_module = \<lparr>FOMModule_moduleHandle = invalid_handle, FOMModule_transportationTypeList = [],
     FOMModule_dimensionList = [], FOMModule_routingSpaceList = [], FOMModule_interactionClassList = [],
     FOMModule_objectClassList = [], FOMModule_updateRateList = [], FOMModule_switchList = [],
     FOMModule_artificialInteractionRoot = False, FOMModule_artificialObjectRoot = False,
     FOMModule_designator = []\<rparr>"

definition acceptInternalMessage :: "(String \<Rightarrow> bool) \<Rightarrow> message \<Rightarrow> unit service" where
  "acceptInternalMessage timeFactory m A = (case m of
     ConnectionLostMessage _ \<Rightarrow> return () (queueCallback (FromServer m) A)
   | EnumerateFederationExecutionsResponseMessage _ \<Rightarrow> return () (queueCallback (FromServer m) A)
   | InsertFederationExecutionMessage i \<Rightarrow> return () (acceptInsertFederationExecution i
       (timeFactory (InsertFederationExecutionMessage_logicalTimeFactoryName i)) A)
   | ShutdownFederationExecutionMessage _ \<Rightarrow> return () A
   | DestroyFederationExecutionResponseMessage _ \<Rightarrow> return () A
   | EraseFederationExecutionMessage _ \<Rightarrow> return () A
   | ReleaseFederationHandleMessage _ \<Rightarrow> return () A
   | InsertModulesMessage i \<Rightarrow> model_step (fm_insertFOMModuleList (InsertModulesMessage_fOMModuleList i)) A
   | InsertModules2Message i \<Rightarrow> model_step (fm_insertFOMModule2List
       (map (\<lambda>m2. (empty_module, m2)) (InsertModules2Message_fOMModule2List i))) A
   | JoinFederationExecutionResponseMessage r \<Rightarrow> return () (acceptJoinFederationExecutionResponse r A)
   | JoinFederateNotifyMessage j \<Rightarrow> return () (time_management (TimeMessage m)
       (update_federate (fm_insertFederate (JoinFederateNotifyMessage_federateHandle j)
          (JoinFederateNotifyMessage_federateName j)) A))
   | ResignFederateNotifyMessage r \<Rightarrow> return () (update_federate
       (fm_eraseFederate (ResignFederateNotifyMessage_federateHandle r)) (time_management (TimeMessage m) A))
   | ChangeAutomaticResignDirectiveMessage _ \<Rightarrow> return () A
   | RegisterFederationSynchronizationPointResponseMessage _ \<Rightarrow> return () (queueCallback (FromServer m) A)
   | AnnounceSynchronizationPointMessage _ \<Rightarrow> return () (queueCallback (FromServer m) A)
   | SynchronizationPointAchievedMessage _ \<Rightarrow> return () A
   | FederationSynchronizedMessage _ \<Rightarrow> return () (queueCallback (FromServer m) A)
   | EnableTimeRegulationRequestMessage _ \<Rightarrow> return () (time_management (TimeMessage m) A)
   | EnableTimeRegulationResponseMessage _ \<Rightarrow> return () (time_management (TimeMessage m) A)
   | DisableTimeRegulationRequestMessage _ \<Rightarrow> return () (time_management (TimeMessage m) A)
   | EnableTimeConstrainedNotifyMessage _ \<Rightarrow> return () A
   | DisableTimeConstrainedNotifyMessage _ \<Rightarrow> return () A
   | CommitLowerBoundTimeStampMessage _ \<Rightarrow> return () (time_management (TimeMessage m) A)
   | CommitLowerBoundTimeStampResponseMessage _ \<Rightarrow> return () (time_management (TimeMessage m) A)
   | LockedByNextMessageRequestMessage _ \<Rightarrow> return () (time_management (TimeMessage m) A)
   | InsertRegionMessage r \<Rightarrow> return () (update_federate (fm_insertRegions
       (InsertRegionMessage_regionHandleDimensionHandleSetPairVector r)) A)
   | CommitRegionMessage r \<Rightarrow> model_step (fm_commitRegions
       (CommitRegionMessage_regionHandleRegionValuePairVector r)) A
   | EraseRegionMessage r \<Rightarrow> return () (update_federate (fm_eraseRegions (EraseRegionMessage_regionHandleVector r)) A)
   | ChangeInteractionClassPublicationMessage _ \<Rightarrow> return () A
   | ChangeObjectClassPublicationMessage _ \<Rightarrow> return () A
   | ChangeInteractionClassSubscriptionMessage _ \<Rightarrow> return () A
   | ChangeObjectClassSubscriptionMessage _ \<Rightarrow> return () A
   | ChangeObjectInstanceSubscriptionMessage c \<Rightarrow> acceptChangeObjectInstanceSubscription c A
   | InteractionMessage _ \<Rightarrow> return () (queueReceiveOrderMessage m A)
   | TimeStampedInteractionMessage i \<Rightarrow> return () (queue_by_order (TimeStampedInteractionMessage_orderType i)
       (TimeStampedInteractionMessage_timeStamp i) m A)
   | ObjectInstanceHandlesResponseMessage r \<Rightarrow> return () (update_federate (fm_insertObjectInstanceHandleNamePairs
       (ObjectInstanceHandlesResponseMessage_objectInstanceHandleNamePairVector r)) A)
   | ReserveObjectInstanceNameResponseMessage _ \<Rightarrow> return () (queueCallback (FromServer m) A)
   | ReserveMultipleObjectInstanceNameResponseMessage _ \<Rightarrow> return () (queueCallback (FromServer m) A)
   | InsertObjectInstanceMessage _ \<Rightarrow> return () (queueCallback (FromServer m) A)
   | DeleteObjectInstanceMessage _ \<Rightarrow> return () (queueReceiveOrderMessage m A)
   | TimeStampedDeleteObjectInstanceMessage d \<Rightarrow> return () (queue_by_order
       (TimeStampedDeleteObjectInstanceMessage_orderType d) (TimeStampedDeleteObjectInstanceMessage_timeStamp d) m A)
   | AttributeUpdateMessage _ \<Rightarrow> return () (queueReceiveOrderMessage m A)
   | TimeStampedAttributeUpdateMessage u \<Rightarrow> return () (queue_by_order
       (TimeStampedAttributeUpdateMessage_orderType u) (TimeStampedAttributeUpdateMessage_timeStamp u) m A)
   | RequestAttributeUpdateMessage _ \<Rightarrow> return () (queueCallback (FromServer m) A)
   | RequestClassAttributeUpdateMessage r \<Rightarrow> acceptRequestClassAttributeUpdate r A
   | QueryAttributeOwnershipRequestMessage _ \<Rightarrow> return () A
   | _ \<Rightarrow> throw RTIinternalError A)"

text \<open>
  \<open>receiveAndDispatchInternalMessage\<close>: it takes the next message and handles it; false means that no
  message came in time. \<open>flushAndDispatchInternalMessage\<close> takes all that are there.
\<close>

definition receiveAndDispatchInternalMessage :: "(String \<Rightarrow> bool) \<Rightarrow> bool service" where
  "receiveAndDispatchInternalMessage timeFactory A = (case incoming A of
     [] \<Rightarrow> return False A
   | m # ms \<Rightarrow> (case acceptInternalMessage timeFactory m (A\<lparr>incoming := ms\<rparr>) of
       (Inl e, A') \<Rightarrow> (Inl e, A')
     | (Inr _, A') \<Rightarrow> return True A'))"

text \<open>
  The wait for an answer: the messages go to \<open>f\<close>, which hands over those it does not wait for, until it
  is done or the time is up.
\<close>

fun wait_for :: "(message \<Rightarrow> 'r option service) \<Rightarrow> message list \<Rightarrow> 'r option service" where
  "wait_for f [] A = return None (A\<lparr>incoming := []\<rparr>)"
| "wait_for f (m # ms) A = (case f m (A\<lparr>incoming := ms\<rparr>) of
     (Inl e, A') \<Rightarrow> (Inl e, A')
   | (Inr (Some r), A') \<Rightarrow> return (Some r) A'
   | (Inr None, A') \<Rightarrow> wait_for f ms A')"

definition bind :: "'a service \<Rightarrow> ('a \<Rightarrow> 'b service) \<Rightarrow> 'b service" where
  "bind m k A = (case m A of (Inl e, A') \<Rightarrow> (Inl e, A') | (Inr x, A') \<Rightarrow> k x A')"

text \<open>Handling a message as usual, without being done or with a result.\<close>

definition hand_over :: "(String \<Rightarrow> bool) \<Rightarrow> message \<Rightarrow> 'r option \<Rightarrow> 'r option service" where
  "hand_over timeFactory m r = bind (acceptInternalMessage timeFactory m) (\<lambda>_. return r)"

end
