(* ===== verification/Ambassador_Declare.thy ===== *)
theory Ambassador_Declare
  imports Ambassador_Model
begin

text \<open>
  Declaration management of the ambassador (\<open>src/OpenRTI/Ambassador.h\<close>): what a federate publishes and
  subscribes. A service changes the model of the federate and tells the server only what changed; the
  vector of attributes it got is compacted in place to the changed ones and becomes the message.
\<close>

section \<open>Compacting the attributes\<close>

text \<open>
  The loop with the reading position \<open>i\<close> and the writing position \<open>j\<close>; \<open>f\<close> changes the state of an
  attribute and tells whether that was a change.
\<close>

function compact_loop ::
    "('a \<Rightarrow> 's \<Rightarrow> bool \<times> 's) \<Rightarrow> nat \<Rightarrow> nat \<Rightarrow> 'a list \<Rightarrow> 's \<Rightarrow> nat \<times> 'a list \<times> 's" where
  "compact_loop f i j xs s =
     (if length xs \<le> i then (j, xs, s)
      else case f (xs ! i) s of (changed, s') \<Rightarrow>
        (if \<not> changed then compact_loop f (i + 1) j xs s'
         else compact_loop f (i + 1) (j + 1) (if i \<noteq> j then xs[j := xs ! i] else xs) s'))"
  by pat_completeness simp_all
termination
  by (relation "measure (\<lambda>(f, i, j, xs, s). length xs - i)") auto

declare compact_loop.simps [simp del]

text \<open>The loop from a position on, and the erasure of what is left behind the writing position.\<close>

definition compact :: "('a \<Rightarrow> 's \<Rightarrow> bool \<times> 's) \<Rightarrow> nat \<Rightarrow> 'a list \<Rightarrow> 's \<Rightarrow> 'a list \<times> 's" where
  "compact f j xs s = (case compact_loop f j j xs s of (j', xs', s') \<Rightarrow> (take j' xs', s'))"

text \<open>
  The class itself is \<open>AttributeHandle(0)\<close>: a change of the class is told by putting it in front,
  unless it is in front already.
\<close>

definition front_handle :: "bool \<Rightarrow> AttributeHandleVector \<Rightarrow> AttributeHandleVector \<times> nat" where
  "front_handle class_changed attrs =
     (if class_changed then (if attrs = [] \<or> hd attrs \<noteq> 0 then 0 # attrs else attrs, 1) else (attrs, 0))"

section \<open>Messages\<close>

definition publication_message ::
    "FederateModel \<Rightarrow> ObjectClassHandle \<Rightarrow> PublicationType \<Rightarrow> AttributeHandleVector \<Rightarrow> message" where
  "publication_message F h t attrs = ChangeObjectClassPublicationMessage
     \<lparr>ChangeObjectClassPublicationMessage_federationHandle = fm_federationHandle F,
      ChangeObjectClassPublicationMessage_publicationType = t,
      ChangeObjectClassPublicationMessage_objectClassHandle = h,
      ChangeObjectClassPublicationMessage_attributeHandles = attrs\<rparr>"

definition subscription_message ::
    "FederateModel \<Rightarrow> ObjectClassHandle \<Rightarrow> SubscriptionType \<Rightarrow> AttributeHandleVector \<Rightarrow> message" where
  "subscription_message F h t attrs = ChangeObjectClassSubscriptionMessage
     \<lparr>ChangeObjectClassSubscriptionMessage_federationHandle = fm_federationHandle F,
      ChangeObjectClassSubscriptionMessage_subscriptionType = t,
      ChangeObjectClassSubscriptionMessage_objectClassHandle = h,
      ChangeObjectClassSubscriptionMessage_attributeHandles = attrs\<rparr>"

definition interaction_publication_message ::
    "FederateModel \<Rightarrow> InteractionClassHandle \<Rightarrow> PublicationType \<Rightarrow> message" where
  "interaction_publication_message F h t = ChangeInteractionClassPublicationMessage
     \<lparr>ChangeInteractionClassPublicationMessage_federationHandle = fm_federationHandle F,
      ChangeInteractionClassPublicationMessage_publicationType = t,
      ChangeInteractionClassPublicationMessage_interactionClassHandle = h\<rparr>"

definition interaction_subscription_message ::
    "FederateModel \<Rightarrow> InteractionClassHandle \<Rightarrow> SubscriptionType \<Rightarrow> ParameterValueVector \<Rightarrow> message" where
  "interaction_subscription_message F h t filterValues = ChangeInteractionClassSubscriptionMessage
     \<lparr>ChangeInteractionClassSubscriptionMessage_federationHandle = fm_federationHandle F,
      ChangeInteractionClassSubscriptionMessage_subscriptionType = t,
      ChangeInteractionClassSubscriptionMessage_interactionClassHandle = h,
      ChangeInteractionClassSubscriptionMessage_parameterFilterValues = filterValues\<rparr>"

text \<open>If nothing has changed, nothing is sent.\<close>

definition send_changes :: "(AttributeHandleVector \<Rightarrow> message) \<Rightarrow> AttributeHandleVector \<Rightarrow> Ambassador \<Rightarrow> Ambassador" where
  "send_changes msg attrs A = (if attrs = [] then A else send (msg attrs) A)"

section \<open>Object classes\<close>

definition attribute_defined :: "FedObjectClass \<Rightarrow> AttributeHandle \<Rightarrow> rti_exception option" where
  "attribute_defined c a = (if foc_getAttribute a c = None then Some (AttributeNotDefined a) else None)"

text \<open>
  The first element of the attribute vector, and with a loop over all attributes every element, is used
  without a test for null.
\<close>

definition has_slot_0 :: "FedObjectClass \<Rightarrow> bool" where
  "has_slot_0 c \<longleftrightarrow> foc_getAttribute 0 c \<noteq> None"

definition all_slots :: "FedObjectClass \<Rightarrow> bool" where
  "all_slots c \<longleftrightarrow> foc_attributeVector c \<noteq> [] \<and> list_all (\<lambda>a. a \<noteq> None) (foc_attributeVector c)"

text \<open>The declaration of some attributes with the class, and of some attributes alone.\<close>

definition declare_class ::
    "(FedObjectClass \<Rightarrow> bool \<times> FedObjectClass) \<Rightarrow> (AttributeHandle \<Rightarrow> FedObjectClass \<Rightarrow> bool \<times> FedObjectClass)
      \<Rightarrow> AttributeHandleVector \<Rightarrow> FedObjectClass \<Rightarrow> bool \<times> AttributeHandleVector \<times> FedObjectClass" where
  "declare_class set_class set_attribute attrs c =
     (case set_class c of (fresh, c1) \<Rightarrow>
      case front_handle fresh attrs of (attrs1, j) \<Rightarrow>
        (fresh, compact set_attribute j attrs1 c1))"

text \<open>All attributes of a class with the class itself, which comes first.\<close>

definition withdraw_class ::
    "(FedObjectClass \<Rightarrow> bool \<times> FedObjectClass) \<Rightarrow> (AttributeHandle \<Rightarrow> FedObjectClass \<Rightarrow> bool \<times> FedObjectClass)
      \<Rightarrow> FedObjectClass \<Rightarrow> AttributeHandleVector \<times> FedObjectClass" where
  "withdraw_class set_class set_attribute c =
     (case set_class c of (changed, c1) \<Rightarrow>
        fold (\<lambda>h (attrs, c'). case set_attribute h c' of (changed, c'') \<Rightarrow>
            (if changed then attrs @ [h] else attrs, c''))
          (map of_nat [0..<unat (foc_getNumAttributes c1)]) (if changed then [0] else [], c1))"

definition publishObjectClassAttributes ::
    "ObjectClassHandle \<Rightarrow> AttributeHandleVector \<Rightarrow> unit service" where
  "publishObjectClassAttributes h attrs =
     as_member (\<lambda>F. found (ObjectClassNotDefined h) (fm_getObjectClass h F) (\<lambda>c.
       check_each (attribute_defined c) attrs (checked NullPointer (has_slot_0 c) (\<lambda>A.
         case declare_class (foc_setPublicationType Published) (foc_setAttributePublicationType Published) attrs c
         of (fresh, attrs', c') \<Rightarrow>
           (let A1 = send_changes (publication_message F h Published) attrs'
                       (update_federate (put_object_class h c') A)
            in return () (if fresh \<and> fm_objectClassRelevanceAdvisorySwitchEnabled F
                 then queueCallback (RegistrationForObjectClass h True) A1 else A1))))))"

definition unpublishObjectClass :: "ObjectClassHandle \<Rightarrow> unit service" where
  "unpublishObjectClass h =
     as_member (\<lambda>F. found (ObjectClassNotDefined h) (fm_getObjectClass h F) (\<lambda>c.
       checked NullPointer (all_slots c) (\<lambda>A.
         case withdraw_class (foc_setPublicationType Unpublished) (foc_setAttributePublicationType Unpublished) c
         of (attrs', c') \<Rightarrow>
           return () (send_changes (publication_message F h Unpublished) attrs'
             (update_federate (put_object_class h c') A)))))"

definition unpublishObjectClassAttributes ::
    "ObjectClassHandle \<Rightarrow> AttributeHandleVector \<Rightarrow> unit service" where
  "unpublishObjectClassAttributes h attrs =
     as_member (\<lambda>F. found (ObjectClassNotDefined h) (fm_getObjectClass h F) (\<lambda>c.
       check_each (attribute_defined c) attrs (\<lambda>A.
         case compact (foc_setAttributePublicationType Unpublished) 0 attrs c of (attrs', c') \<Rightarrow>
           return () (send_changes (publication_message F h Unpublished) attrs'
             (update_federate (put_object_class h c') A)))))"

definition check_update_rate :: "String \<Rightarrow> FederateModel \<Rightarrow> unit service \<Rightarrow> unit service" where
  "check_update_rate designator F k =
     (if designator \<noteq> [] \<and> (case fm_getUpdateRateValue designator F of None \<Rightarrow> True | Some d \<Rightarrow>
            (push_bit 1 d \<noteq> 0 \<and> bit d 63 \<and> \<not> 0x7FF0000000000000 < (d AND 0x7FFFFFFFFFFFFFFF)))
      then throw (InvalidUpdateRateDesignator designator)
      else if designator \<noteq> [] then throw RTIinternalError else k)"

definition subscription_of :: "bool \<Rightarrow> SubscriptionType" where
  "subscription_of active = (if active then SubscribedActive else SubscribedPassive)"

definition subscribeObjectClassAttributes ::
    "ObjectClassHandle \<Rightarrow> AttributeHandleVector \<Rightarrow> bool \<Rightarrow> String \<Rightarrow> unit service" where
  "subscribeObjectClassAttributes h attrs active updateRateDesignator =
     as_member (\<lambda>F. found (ObjectClassNotDefined h) (fm_getObjectClass h F) (\<lambda>c.
       check_each (attribute_defined c) attrs (check_update_rate updateRateDesignator F
         (checked NullPointer (has_slot_0 c) (\<lambda>A.
           let t = subscription_of active
           in case declare_class (foc_setSubscriptionType t) (foc_setAttributeSubscriptionType t) attrs c
              of (_, attrs', c') \<Rightarrow>
                return () (send_changes (subscription_message F h t) attrs'
                  (update_federate (put_object_class h c') A)))))))"

text \<open>The instances of a class that do not belong to the federate are forgotten.\<close>

definition release_instances :: "ObjectClassHandle \<Rightarrow> FederateModel \<Rightarrow> Ambassador \<Rightarrow> Ambassador" where
  "release_instances c F A =
     fold (\<lambda>(h, oi) A'. if foi_objectClassHandle oi \<noteq> c then A'
             else if foi_isOwnedByFederate oi then A'
             else releaseObjectInstance h F A') (fm_objectInstanceHandleMap F) A"

definition unsubscribeObjectClass :: "ObjectClassHandle \<Rightarrow> unit service" where
  "unsubscribeObjectClass h =
     as_member (\<lambda>F. found (ObjectClassNotDefined h) (fm_getObjectClass h F) (\<lambda>c.
       checked NullPointer (all_slots c) (\<lambda>A.
         case withdraw_class (foc_setSubscriptionType Unsubscribed)
                (foc_setAttributeSubscriptionType Unsubscribed) c
         of (attrs', c') \<Rightarrow>
           (let A1 = update_federate (put_object_class h c') A
            in return () (if attrs' = [] then A1
                 else release_instances h F (send (subscription_message F h Unsubscribed attrs') A1))))))"

definition unsubscribeObjectClassAttributes ::
    "ObjectClassHandle \<Rightarrow> AttributeHandleVector \<Rightarrow> unit service" where
  "unsubscribeObjectClassAttributes h attrs =
     as_member (\<lambda>F. found (ObjectClassNotDefined h) (fm_getObjectClass h F) (\<lambda>c.
       check_each (attribute_defined c) attrs (\<lambda>A.
         case compact (foc_setAttributeSubscriptionType Unsubscribed) 0 attrs c of (attrs', c') \<Rightarrow>
           (let A1 = update_federate (put_object_class h c') A
            in if attrs' = [] then return () A1
               else let A2 = send (subscription_message F h Unsubscribed attrs') A1
                    in if \<not> has_slot_0 c' then throw NullPointer A2
                       else return () (if foc_getEffectiveSubscriptionType c' = Unsubscribed
                              then release_instances h F A2 else A2)))))"

definition unsubscribeObjectInstance :: "ObjectInstanceHandle \<Rightarrow> unit service" where
  "unsubscribeObjectInstance h =
     as_member (\<lambda>F. found (ObjectInstanceNotKnown h) (fm_getObjectInstance h F) (\<lambda>oi.
       let c = foi_objectClassHandle oi
       in found (ObjectClassNotDefined c) (fm_getObjectClass c F) (\<lambda>_ A.
         case foi_setSubscriptionType Unsubscribed oi of (changed, oi') \<Rightarrow>
           (let A1 = update_federate (put_object_instance h oi') A
            in return () (if changed then send (ChangeObjectInstanceSubscriptionMessage
                   \<lparr>ChangeObjectInstanceSubscriptionMessage_federationHandle = fm_federationHandle F,
                    ChangeObjectInstanceSubscriptionMessage_subscriptionType = Unsubscribed,
                    ChangeObjectInstanceSubscriptionMessage_objectClassHandle = c,
                    ChangeObjectInstanceSubscriptionMessage_objectInstanceHandle = h\<rparr>) A1 else A1)))))"

section \<open>Interaction classes\<close>

definition publishInteractionClass :: "InteractionClassHandle \<Rightarrow> unit service" where
  "publishInteractionClass h =
     as_member (\<lambda>F. found (InteractionClassNotDefined h) (fm_getInteractionClass h F) (\<lambda>c A.
       case fps_setPublicationType Published c of (changed, c') \<Rightarrow>
         (let A1 = update_federate (put_interaction_class h c') A
          in if \<not> changed then return () A1
             else let A2 = send (interaction_publication_message F h Published) A1
                  in return () (if fm_interactionRelevanceAdvisorySwitchEnabled F
                       then queueCallback (TurnInteractionsOn h True) A2 else A2))))"

definition unpublishInteractionClass :: "InteractionClassHandle \<Rightarrow> unit service" where
  "unpublishInteractionClass h =
     as_member (\<lambda>F. found (InteractionClassNotDefined h) (fm_getInteractionClass h F) (\<lambda>c A.
       case fps_setPublicationType Unpublished c of (changed, c') \<Rightarrow>
         (let A1 = update_federate (put_interaction_class h c') A
          in return () (if \<not> changed then A1
               else send (interaction_publication_message F h Unpublished) A1))))"

text \<open>The four services that subscribe and unsubscribe, with and without a filter.\<close>

definition change_interaction_subscription ::
    "InteractionClassHandle \<Rightarrow> SubscriptionType \<Rightarrow> ParameterValueVector \<Rightarrow> unit service" where
  "change_interaction_subscription h t filterValues =
     as_member (\<lambda>F. found (InteractionClassNotDefined h) (fm_getInteractionClass h F) (\<lambda>c A.
       case fic_setSubscriptionType t filterValues c of (changed, c') \<Rightarrow>
         (let A1 = update_federate (put_interaction_class h c') A
          in return () (if changed then send (interaction_subscription_message F h t filterValues) A1
               else A1))))"

definition subscribeInteractionClass :: "InteractionClassHandle \<Rightarrow> bool \<Rightarrow> unit service" where
  "subscribeInteractionClass h active = change_interaction_subscription h (subscription_of active) []"

definition subscribeInteractionClassWithFilter ::
    "InteractionClassHandle \<Rightarrow> ParameterValueVector \<Rightarrow> bool \<Rightarrow> unit service" where
  "subscribeInteractionClassWithFilter h filterValues active =
     change_interaction_subscription h (subscription_of active) filterValues"

definition unsubscribeInteractionClass :: "InteractionClassHandle \<Rightarrow> unit service" where
  "unsubscribeInteractionClass h = change_interaction_subscription h Unsubscribed []"

definition unsubscribeInteractionClassWithFilter ::
    "InteractionClassHandle \<Rightarrow> ParameterValueVector \<Rightarrow> unit service" where
  "unsubscribeInteractionClassWithFilter h filterValues =
     change_interaction_subscription h Unsubscribed filterValues"

section \<open>Switches and self delivery\<close>

definition setInteractionClassDeliverToSelf :: "InteractionClassHandle \<Rightarrow> bool \<Rightarrow> unit service" where
  "setInteractionClassDeliverToSelf h enable =
     as_member (\<lambda>F. found (InteractionClassNotDefined h) (fm_getInteractionClass h F) (\<lambda>c A.
       return () (update_federate (put_interaction_class h (c\<lparr>fic_deliverToSelf := enable\<rparr>)) A)))"

definition setObjectClassDeliverToSelf :: "ObjectClassHandle \<Rightarrow> bool \<Rightarrow> unit service" where
  "setObjectClassDeliverToSelf h enable =
     as_member (\<lambda>F. found (ObjectClassNotDefined h) (fm_getObjectClass h F) (\<lambda>c A.
       return () (update_federate (put_object_class h (c\<lparr>foc_deliverToSelf := enable\<rparr>)) A)))"

end
