(* ===== verification/Ambassador_Changes.thy ===== *)
theory Ambassador_Changes
  imports Ambassador_Declare
begin

text \<open>
  What the declaration services do to a class and what they tell the server. The loop that compacts
  the attributes in place keeps, in their order, those whose state changed. The contract of the two
  kinds of declarations, publication and subscription, is the locale \<open>declarations\<close>.
\<close>

section \<open>The compaction keeps the changed elements\<close>

fun run_changes :: "('a \<Rightarrow> 's \<Rightarrow> bool \<times> 's) \<Rightarrow> 'a list \<Rightarrow> 's \<Rightarrow> 'a list \<times> 's" where
  "run_changes f [] s = ([], s)"
| "run_changes f (x # xs) s = (case f x s of (changed, s') \<Rightarrow>
     case run_changes f xs s' of (ys, s'') \<Rightarrow> (if changed then x # ys else ys, s''))"

lemma compact_loop_run_changes:
  assumes "j \<le> i" "i \<le> length xs"
  shows "case compact_loop f i j xs s of (j', xs', s') \<Rightarrow>
    (take j xs @ fst (run_changes f (drop i xs) s) = take j' xs' \<and> s' = snd (run_changes f (drop i xs) s))"
  using assms
proof (induction f i j xs s rule: compact_loop.induct)
  case (1 f i j xs s)
  show ?case
  proof (cases "i < length xs")
    case False
    then have "i = length xs" using 1(4) by simp
    then show ?thesis by (subst compact_loop.simps) simp
  next
    case i: True
    then have dr: "drop i xs = xs ! i # drop (Suc i) xs" by (simp add: Cons_nth_drop_Suc)
    obtain changed s' where f: "f (xs ! i) s = (changed, s')" by fastforce
    let ?xs = "if i \<noteq> j then xs[j := xs ! i] else xs"
    have j: "take (Suc j) ?xs = take j xs @ [xs ! i]" "drop (Suc i) ?xs = drop (Suc i) xs"
      using i 1(3) by (auto simp: take_Suc_conv_app_nth)
    show ?thesis
    proof (cases changed)
      case True
      have "case compact_loop f (i + 1) (j + 1) ?xs s' of (j', xs', s'') \<Rightarrow>
         (take (j + 1) ?xs @ fst (run_changes f (drop (i + 1) ?xs) s') = take j' xs' \<and>
          s'' = snd (run_changes f (drop (i + 1) ?xs) s'))"
        using 1(2)[OF _ f[symmetric]] i True 1(3) by simp
      then show ?thesis using i f True j dr
        by (subst compact_loop.simps) (auto split: prod.splits)
    next
      case False
      have "case compact_loop f (i + 1) j xs s' of (j', xs', s'') \<Rightarrow>
         (take j xs @ fst (run_changes f (drop (i + 1) xs) s') = take j' xs' \<and>
          s'' = snd (run_changes f (drop (i + 1) xs) s'))"
        using 1(1)[OF _ f[symmetric]] i False 1(3) by simp
      then show ?thesis using i f False dr
        by (subst compact_loop.simps) (auto split: prod.splits)
    qed
  qed
qed

lemma compact_run_changes:
  "j \<le> length xs \<Longrightarrow>
     compact f j xs s = (take j xs @ fst (run_changes f (drop j xs) s), snd (run_changes f (drop j xs) s))"
  using compact_loop_run_changes[of j j xs f s] by (auto simp: compact_def split: prod.splits)

lemma fold_run_changes:
  "fold (\<lambda>h (attrs, c). case f h c of (changed, c') \<Rightarrow> (if changed then attrs @ [h] else attrs, c'))
     hs (acc, c) = (acc @ fst (run_changes f hs c), snd (run_changes f hs c))"
  by (induction hs arbitrary: acc c) (auto split: prod.splits)

lemma set_words_upt:
  "a \<in> set (map of_nat [0..<unat n]) \<longleftrightarrow> unat a < unat n" for a n :: "'w::len word"
proof
  assume "a \<in> set (map of_nat [0..<unat n])"
  then obtain k where k: "k < unat n" "a = of_nat k" by auto
  then have "unat a = k" using unsigned_less[of n] by (simp add: unat_of_nat mod_less less_trans[OF k(1)])
  then show "unat a < unat n" using k by simp
next
  assume "unat a < unat n"
  then have "(of_nat (unat a) :: 'w word) \<in> of_nat ` {0..<unat n}" by (intro imageI) simp
  then show "a \<in> set (map of_nat [0..<unat n])" by simp
qed

section \<open>The contract of a declaration\<close>

text \<open>
  \<open>raw\<close> is the state of an attribute, \<open>cls\<close> that of the class, and the effective state of attribute 0
  is the greater of the two. There are at most two states above the least.
\<close>

locale declarations =
  fixes raw :: "AttributeHandle \<Rightarrow> FedObjectClass \<Rightarrow> 't::linorder" and cls :: "FedObjectClass \<Rightarrow> 't"
    and eff :: "AttributeHandle \<Rightarrow> FedObjectClass \<Rightarrow> 't" and least :: 't
    and setc :: "'t \<Rightarrow> FedObjectClass \<Rightarrow> bool \<times> FedObjectClass"
    and seta :: "'t \<Rightarrow> AttributeHandle \<Rightarrow> FedObjectClass \<Rightarrow> bool \<times> FedObjectClass"
    and has :: "AttributeHandle \<Rightarrow> FedObjectClass \<Rightarrow> bool"
  assumes eff: "eff a c = (if a = 0 then max (raw a c) (cls c) else raw a c)"
    and least: "least \<le> t"
    and levels: "t \<noteq> least \<Longrightarrow> t < x \<Longrightarrow> y \<le> x"
    and raw_seta: "has h c \<Longrightarrow> raw a (snd (seta t h c)) = (if a = h then t else raw a c)"
    and cls_seta: "cls (snd (seta t h c)) = cls c"
    and fst_seta: "fst (seta t h c) \<longleftrightarrow> eff h c \<noteq> eff h (snd (seta t h c))"
    and has_seta: "has h c \<Longrightarrow> has a (snd (seta t h c)) = has a c"
    and raw_setc: "raw a (snd (setc t c)) = raw a c"
    and cls_setc: "cls (snd (setc t c)) = t"
    and fst_setc: "fst (setc t c) \<longleftrightarrow> eff 0 c \<noteq> eff 0 (snd (setc t c))"
    and has_setc: "has a (snd (setc t c)) = has a c"
begin

text \<open>Setting some attributes to \<open>t\<close>: each one whose effective state changes is named once.\<close>

lemma run_seta_all:
  "\<forall>h \<in> set hs. has h c \<Longrightarrow>
     (\<forall>a. raw a (snd (run_changes (seta t) hs c)) = (if a \<in> set hs then t else raw a c)) \<and>
     cls (snd (run_changes (seta t) hs c)) = cls c \<and>
     (\<forall>a. has a (snd (run_changes (seta t) hs c)) = has a c) \<and>
     set (fst (run_changes (seta t) hs c)) = {h \<in> set hs. eff h c \<noteq> eff h (snd (run_changes (seta t) hs c))} \<and>
     distinct (fst (run_changes (seta t) hs c))"
proof (induction hs arbitrary: c)
  case (Cons h hs)
  define e where "e = snd (seta t h c)"
  define d where "d = snd (run_changes (seta t) hs e)"
  have has: "\<forall>k \<in> set hs. has k e" "has h c" using Cons.prems has_seta by (auto simp: e_def)
  note IH = Cons.IH[OF has(1), folded d_def]
  have split: "run_changes (seta t) (h # hs) c =
      (if fst (seta t h c) then h # fst (run_changes (seta t) hs e) else fst (run_changes (seta t) hs e), d)"
    by (simp add: d_def e_def split: prod.splits)
  have re: "raw a e = (if a = h then t else raw a c)" for a using raw_seta[OF has(2)] by (simp add: e_def)
  have ce: "cls e = cls c" by (simp add: e_def cls_seta)
  have r: "raw a d = (if a \<in> set (h # hs) then t else raw a c)" for a using IH re by auto
  have cl: "cls d = cls c" using IH ce by simp
  have ha: "has a d = has a c" for a using IH has_seta[OF has(2)] by (simp add: e_def)
  have effd: "eff k d = (if k \<in> set (h # hs) then (if k = 0 then max t (cls c) else t) else eff k c)" for k
    by (simp add: eff r cl)
  have effc: "eff k e = (if k = h then (if k = 0 then max t (cls c) else t) else eff k c)" for k
    by (simp add: eff re ce)
  have st: "set (fst (run_changes (seta t) hs e)) = {k \<in> set hs. eff k e \<noteq> eff k d}"
    using IH by blast
  have nin: "h \<notin> set (fst (run_changes (seta t) hs e))"
    using effd[of h] effc[of h] by (simp add: st)
  have fs: "fst (seta t h c) \<longleftrightarrow> eff h c \<noteq> eff h d"
    using fst_seta[of t h c] effc[of h] effd[of h] by (simp add: e_def)
  have "k \<in> set (fst (run_changes (seta t) (h # hs) c)) \<longleftrightarrow> k \<in> set (h # hs) \<and> eff k c \<noteq> eff k d" for k
  proof (cases "k = h")
    case True
    then show ?thesis using nin fs split by auto
  next
    case False
    then show ?thesis using st effc[of k] split by auto
  qed
  then have se: "set (fst (run_changes (seta t) (h # hs) c)) = {k \<in> set (h # hs). eff k c \<noteq> eff k d}"
    by blast
  have "distinct (fst (run_changes (seta t) (h # hs) c))" using IH nin split by simp
  then show ?case using r cl ha se split by simp
qed simp

lemmas run_seta = run_seta_all[THEN conjunct1, THEN spec] run_seta_all[THEN conjunct2, THEN conjunct1]
  run_seta_all[THEN conjunct2, THEN conjunct2, THEN conjunct1, THEN spec]
  run_seta_all[THEN conjunct2, THEN conjunct2, THEN conjunct2, THEN conjunct1]
  run_seta_all[THEN conjunct2, THEN conjunct2, THEN conjunct2, THEN conjunct2]

lemma eff_run_seta:
  assumes "\<forall>h \<in> set hs. has h c"
  shows "eff a (snd (run_changes (seta t) hs c)) =
    (if a \<in> set hs then (if a = 0 then max t (cls c) else t) else eff a c)"
  using run_seta(1,2)[OF assms] by (simp add: eff)

text \<open>
  Declaring attributes together with the class, for a state above the least. Afterwards the class and
  the attributes have that state, and the attributes named are those whose effective state changed.
\<close>

lemma fresh_class:
  assumes "t \<noteq> least" "fst (setc t c)"
  shows "eff 0 (snd (setc t c)) = t" "eff 0 c \<noteq> t"
proof -
  have 1: "eff 0 c = max (raw 0 c) (cls c)" "eff 0 (snd (setc t c)) = max (raw 0 c) t"
    using raw_setc[of 0 t c] cls_setc[of t c] by (simp_all add: eff)
  then have ne: "max (raw 0 c) (cls c) \<noteq> max (raw 0 c) t" using assms fst_setc by simp
  have "\<not> t < raw 0 c"
  proof
    assume "t < raw 0 c"
    then have "cls c \<le> raw 0 c" using levels assms(1) by blast
    then show False using ne \<open>t < raw 0 c\<close> by (simp add: max_def split: if_splits)
  qed
  then show "eff 0 (snd (setc t c)) = t" using 1 by (simp add: not_less max_absorb2)
  then show "eff 0 c \<noteq> t" using assms fst_setc by auto
qed

lemma declare_class_changes:
  assumes "t \<noteq> least" "has 0 c" "\<forall>a \<in> set attrs. has a c"
    and d: "declare_class (setc t) (seta t) attrs c = (fresh, attrs', c')"
  shows "fresh \<longleftrightarrow> fst (setc t c)" "cls c' = t" "has a c' = has a c"
    and "a \<noteq> 0 \<Longrightarrow> raw a c' = (if a \<in> set attrs then t else raw a c)"
    and "raw 0 c' = t \<or> raw 0 c' = raw 0 c"
    and "set attrs' = {a. (a = 0 \<or> a \<in> set attrs) \<and> eff a c \<noteq> eff a c'}"
    and "a \<in> set attrs' \<Longrightarrow> eff a c' = t" and "distinct attrs'"
proof -
  let ?c = "snd (setc t c)"
  have hs: "\<forall>a \<in> set attrs. has a ?c" "has 0 ?c" using assms has_setc by auto
  let ?front = "front_handle (fst (setc t c)) attrs"
  let ?rest = "drop (snd ?front) (fst ?front)" and ?head = "take (snd ?front) (fst ?front)"
  have le: "snd ?front \<le> length (fst ?front)" by (auto simp: front_handle_def Suc_le_eq)
  have head: "?head = (if fst (setc t c) then [0] else [])"
    by (cases attrs) (auto simp: front_handle_def)
  have rest: "set ?rest \<subseteq> set attrs" "set attrs \<subseteq> insert 0 (set ?rest)"
    "\<not> fst (setc t c) \<Longrightarrow> set ?rest = set attrs"
    by (cases attrs; auto simp: front_handle_def)+
  have hr: "\<forall>a \<in> set ?rest. has a ?c" using rest hs by auto
  note R = run_seta[OF hr, where t = t] and E = eff_run_seta[OF hr, where t = t]
  have D: "fresh = fst (setc t c)" "attrs' = ?head @ fst (run_changes (seta t) ?rest ?c)"
    "c' = snd (run_changes (seta t) ?rest ?c)"
    using d compact_run_changes[OF le, of "seta t" ?c]
    by (auto simp: declare_class_def split: prod.splits)
  show "fresh \<longleftrightarrow> fst (setc t c)" by (rule D)
  show cl: "cls c' = t" using D R(2) cls_setc by simp
  show "has a c' = has a c" using D R(3) has_setc by simp
  show rw: "raw a c' = (if a \<in> set attrs then t else raw a c)" if "a \<noteq> 0" for a
    using that D(3) R(1)[of a] rest raw_setc by auto
  show "raw 0 c' = t \<or> raw 0 c' = raw 0 c" using D(3) R(1)[of 0] raw_setc by auto
  have ec: "eff a ?c = eff a c" if "a \<noteq> 0" for a using that raw_setc by (simp add: eff)
  have e0: "eff 0 c' = (if 0 \<in> set ?rest then t else eff 0 ?c)" using E[of 0] D(3) cls_setc by simp
  have s': "set attrs' = set ?head \<union> {a \<in> set ?rest. eff a ?c \<noteq> eff a c'}" using D R(4) by simp
  have z: "0 \<in> set attrs' \<longleftrightarrow> eff 0 c \<noteq> eff 0 c'"
  proof (cases "fst (setc t c)")
    case True
    then show ?thesis using fresh_class[OF assms(1) True] e0 head s' by auto
  next
    case False
    then have same: "eff 0 ?c = eff 0 c" using fst_setc by simp
    then show ?thesis using e0 head s' False by (auto split: if_splits)
  qed
  have z2: "eff 0 c' = t" if "0 \<in> set attrs'"
    using that fresh_class(1)[OF assms(1)] e0 head s' by (auto split: if_splits)
  have nz: "a \<in> set attrs' \<longleftrightarrow> a \<in> set attrs \<and> eff a c \<noteq> eff a c'" if "a \<noteq> 0" for a
    using that s' head rest ec by (auto split: if_splits)
  show "set attrs' = {a. (a = 0 \<or> a \<in> set attrs) \<and> eff a c \<noteq> eff a c'}"
  proof (rule set_eqI)
    show "a \<in> set attrs' \<longleftrightarrow> a \<in> {a. (a = 0 \<or> a \<in> set attrs) \<and> eff a c \<noteq> eff a c'}" for a
      by (cases "a = 0") (simp_all add: z nz)
  qed
  show "eff a c' = t" if "a \<in> set attrs'" for a
    using that z2 nz[of a] rw[of a] cl by (cases "a = 0") (auto simp: eff)
  have "0 \<notin> set (fst (run_changes (seta t) ?rest ?c))" if "fst (setc t c)"
    using R(4) fresh_class(1)[OF assms(1) that] e0 D(3) by auto
  then show "distinct attrs'" using D(2) R(5) head by auto
qed

text \<open>Withdrawing the class with all its attributes.\<close>

lemma withdraw_class_changes:
  assumes all: "\<And>a. has a c \<longleftrightarrow> unat a < unat (foc_getNumAttributes c)"
    and num: "foc_getNumAttributes (snd (setc least c)) = foc_getNumAttributes c"
    and d: "withdraw_class (setc least) (seta least) c = (attrs', c')"
  shows "cls c' = least" "has a c' = has a c" "has a c \<Longrightarrow> raw a c' = least" "has a c \<Longrightarrow> eff a c' = least"
    and "has 0 c \<Longrightarrow> a \<in> set attrs' \<longleftrightarrow> has a c \<and> eff a c \<noteq> least"
proof -
  let ?c = "snd (setc least c)" and ?hs = "map of_nat [0..<unat (foc_getNumAttributes c)] :: AttributeHandle list"
  have hs: "a \<in> set ?hs \<longleftrightarrow> has a c" for a
    by (simp only: all set_words_upt)
  have h: "\<forall>a \<in> set ?hs. has a ?c" using hs has_setc by auto
  note R = run_seta[OF h, where t = least] and E = eff_run_seta[OF h, where t = least]
  have D: "attrs' = (if fst (setc least c) then [0] else []) @ fst (run_changes (seta least) ?hs ?c)"
    "c' = snd (run_changes (seta least) ?hs ?c)"
    using d num by (auto simp: withdraw_class_def fold_run_changes split: prod.splits)
  show cl: "cls c' = least" using D R(2) cls_setc by simp
  show "has a c' = has a c" using D R(3) has_setc by simp
  show r: "has a c \<Longrightarrow> raw a c' = least" for a using D R(1)[of a] hs by simp
  show e: "has a c \<Longrightarrow> eff a c' = least" for a using r[of a] cl by (cases "a = 0") (simp_all add: eff)
  show "a \<in> set attrs' \<longleftrightarrow> has a c \<and> eff a c \<noteq> least" if h0: "has 0 c"
  proof (cases "a = 0")
    case False
    then have "eff a ?c = eff a c" using raw_setc by (simp add: eff)
    then show ?thesis using D R(4) hs False e by auto
  next
    case True
    have "eff 0 c = least \<Longrightarrow> eff 0 ?c = least"
      using raw_setc[of 0 least c] cls_setc[of least c] least
      by (simp add: eff max_def split: if_splits)
    then have "0 \<in> set attrs' \<longleftrightarrow> eff 0 c \<noteq> least"
      using D R(4) hs h0 e[OF h0] fst_setc[of least c] by auto
    then show ?thesis using True h0 by simp
  qed
qed

text \<open>Withdrawing some attributes alone leaves the state of the class.\<close>

lemma compact_withdraw_changes:
  assumes "\<forall>a \<in> set attrs. has a c" and d: "compact (seta least) 0 attrs c = (attrs', c')"
  shows "cls c' = cls c" "has a c' = has a c" "raw a c' = (if a \<in> set attrs then least else raw a c)"
    and "set attrs' = {a \<in> set attrs. eff a c \<noteq> eff a c'}" and "distinct attrs'"
    and "a \<in> set attrs' \<Longrightarrow> raw a c \<noteq> least"
    and "a \<in> set attrs' \<Longrightarrow> a \<noteq> 0 \<Longrightarrow> eff a c' = least"
proof -
  note R = run_seta[OF assms(1), where t = least]
  have D: "attrs' = fst (run_changes (seta least) attrs c)" "c' = snd (run_changes (seta least) attrs c)"
    using d compact_run_changes[of 0 attrs "seta least" c] by auto
  show cl: "cls c' = cls c" and "has a c' = has a c"
    and r: "raw a c' = (if a \<in> set attrs then least else raw a c)" for a using D R(1,2,3) by simp_all
  show st: "set attrs' = {a \<in> set attrs. eff a c \<noteq> eff a c'}" and "distinct attrs'"
    using D R(4,5) by auto
  show "a \<in> set attrs' \<Longrightarrow> raw a c \<noteq> least" using st r[of a] cl by (auto simp: eff split: if_splits)
  show "a \<in> set attrs' \<Longrightarrow> a \<noteq> 0 \<Longrightarrow> eff a c' = least" using st r[of a] by (auto simp: eff)
qed

end

section \<open>The contract of publications and of subscriptions\<close>

definition has_attribute :: "AttributeHandle \<Rightarrow> FedObjectClass \<Rightarrow> bool" where
  "has_attribute a c \<longleftrightarrow> foc_getAttribute a c \<noteq> None"

lemma attribute_at_change:
  assumes "has_attribute h c"
  shows "attribute_at a (change_attribute h g c) = (if a = h then g (attribute_at h c) else attribute_at a c)"
proof (cases "a = h")
  case True
  then show ?thesis using assms
    by (auto simp: has_attribute_def foc_getAttribute_def vector_get_def attribute_at_def
        change_attribute_def vector_set_def split: if_splits)
next
  case False
  then have "unat a \<noteq> unat h" using unsigned_word_eqI by blast
  then show ?thesis using False by (auto simp: attribute_at_def change_attribute_def vector_set_def)
qed

lemma has_attribute_change:
  "has_attribute h c \<Longrightarrow> has_attribute a (change_attribute h g c) = has_attribute a c"
  by (auto simp: has_attribute_def foc_getAttribute_def vector_get_def change_attribute_def
      vector_set_def nth_list_update split: if_splits)

lemma change_attribute_others [simp]:
  "foc_publicationType (change_attribute h g c) = foc_publicationType c"
  "foc_subscriptionType (change_attribute h g c) = foc_subscriptionType c"
  "foc_getNumAttributes (change_attribute h g c) = foc_getNumAttributes c"
  by (simp_all add: change_attribute_def vector_set_def foc_getNumAttributes_def)

lemma has_attribute_upd [simp]:
  "has_attribute a (c\<lparr>foc_publicationType := p\<rparr>) = has_attribute a c"
  "has_attribute a (c\<lparr>foc_subscriptionType := s\<rparr>) = has_attribute a c"
  "attribute_at a (c\<lparr>foc_publicationType := p\<rparr>) = attribute_at a c"
  "attribute_at a (c\<lparr>foc_subscriptionType := s\<rparr>) = attribute_at a c"
  by (simp_all add: has_attribute_def foc_getAttribute_def attribute_at_def)

abbreviation published_at :: "AttributeHandle \<Rightarrow> FedObjectClass \<Rightarrow> PublicationType" where
  "published_at a c \<equiv> fps_publicationType (attribute_at a c)"

abbreviation subscribed_at :: "AttributeHandle \<Rightarrow> FedObjectClass \<Rightarrow> SubscriptionType" where
  "subscribed_at a c \<equiv> fps_subscriptionType (attribute_at a c)"

lemma publication_levels: "(t::PublicationType) \<noteq> Unpublished \<Longrightarrow> t < x \<Longrightarrow> y \<le> x"
  by (cases t; cases x; cases y; simp add: less_PublicationType_def less_eq_PublicationType_def)

lemma least_publication: "Unpublished \<le> t"
  by (cases t) (simp_all add: less_eq_PublicationType_def)

lemma subscription_levels: "(t::SubscriptionType) \<noteq> Unsubscribed \<Longrightarrow> t < x \<Longrightarrow> y \<le> x"
  by (cases t; cases x; cases y; simp add: less_SubscriptionType_def less_eq_SubscriptionType_def)

lemma least_subscription: "Unsubscribed \<le> t"
  by (cases t) (simp_all add: less_eq_SubscriptionType_def)

lemmas declaration_defs = foc_setPublicationType_def foc_setAttributePublicationType_def
  foc_getEffectiveAttributePublicationType_def foc_getEffectivePublicationType_def
  fps_setPublicationType_def foc_setSubscriptionType_def foc_setAttributeSubscriptionType_def
  foc_getEffectiveAttributeSubscriptionType_def foc_getEffectiveSubscriptionType_def
  fps_setSubscriptionType_def Let_def max.commute

interpretation publications: declarations published_at foc_publicationType
  foc_getEffectiveAttributePublicationType Unpublished foc_setPublicationType
  foc_setAttributePublicationType has_attribute
  by unfold_locales (auto simp: declaration_defs attribute_at_change has_attribute_change
      least_publication dest: publication_levels)

interpretation subscriptions: declarations subscribed_at foc_subscriptionType
  foc_getEffectiveAttributeSubscriptionType Unsubscribed foc_setSubscriptionType
  foc_setAttributeSubscriptionType has_attribute
  by unfold_locales (auto simp: declaration_defs attribute_at_change has_attribute_change
      least_subscription dest: subscription_levels)

end
