(* ===== verification/Ambassador_Mirror.thy ===== *)
theory Ambassador_Mirror
  imports Ambassador_Changes
begin

text \<open>
  The declarations a federate makes are mirrored at the server: the table the server builds from the
  messages agrees with the state of the classes in the federate, whatever services were called.
\<close>

section \<open>Reasoning about services\<close>

text \<open>A service keeps a property of the ambassador, exception or not; the proof goes through its checks.\<close>

definition keeps :: "(Ambassador \<Rightarrow> bool) \<Rightarrow> 'a service \<Rightarrow> Ambassador \<Rightarrow> bool" where
  "keeps P s A \<longleftrightarrow> P (snd (s A))"

lemma keeps_as_member:
  assumes "P A" "\<And>F. connected A \<Longrightarrow> federate A = Some F \<Longrightarrow> keeps P (k F) A"
  shows "keeps P (as_member k) A"
  using assms by (auto simp: keeps_def as_member_def throw_def split: option.splits)

lemma keeps_found:
  assumes "P A" "\<And>y. x = Some y \<Longrightarrow> keeps P (k y) A"
  shows "keeps P (found e x k) A"
  using assms by (auto simp: keeps_def found_def throw_def split: option.splits)

lemma keeps_checked:
  assumes "P A" "ok \<Longrightarrow> keeps P k A"
  shows "keeps P (checked e ok k) A"
  using assms by (auto simp: keeps_def checked_def throw_def)

lemma keeps_check_each:
  assumes "P A" "\<forall>x \<in> set xs. bad x = None \<Longrightarrow> keeps P k A"
  shows "keeps P (check_each bad xs k) A"
  using assms by (induction xs) (auto simp: keeps_def throw_def split: option.splits)

lemma keeps_check_update_rate:
  assumes "P A" "keeps P k A"
  shows "keeps P (check_update_rate rate F k) A"
  using assms by (auto simp: keeps_def check_update_rate_def throw_def)

lemmas keeps_checks = keeps_as_member keeps_found keeps_checked keeps_check_each keeps_check_update_rate

section \<open>What the server is told\<close>

text \<open>The last message that names an attribute of a class decides.\<close>

definition publication_of_message :: "ObjectClassHandle \<Rightarrow> AttributeHandle \<Rightarrow> message \<Rightarrow> PublicationType \<Rightarrow> PublicationType" where
  "publication_of_message h a m t = (case m of
     ChangeObjectClassPublicationMessage p \<Rightarrow>
       (if ChangeObjectClassPublicationMessage_objectClassHandle p = h \<and>
           a \<in> set (ChangeObjectClassPublicationMessage_attributeHandles p)
        then ChangeObjectClassPublicationMessage_publicationType p else t)
   | _ \<Rightarrow> t)"

definition subscription_of_message :: "ObjectClassHandle \<Rightarrow> AttributeHandle \<Rightarrow> message \<Rightarrow> SubscriptionType \<Rightarrow> SubscriptionType" where
  "subscription_of_message h a m t = (case m of
     ChangeObjectClassSubscriptionMessage p \<Rightarrow>
       (if ChangeObjectClassSubscriptionMessage_objectClassHandle p = h \<and>
           a \<in> set (ChangeObjectClassSubscriptionMessage_attributeHandles p)
        then ChangeObjectClassSubscriptionMessage_subscriptionType p else t)
   | _ \<Rightarrow> t)"

definition told_publication :: "message list \<Rightarrow> ObjectClassHandle \<Rightarrow> AttributeHandle \<Rightarrow> PublicationType" where
  "told_publication ms h a = fold (publication_of_message h a) ms Unpublished"

definition told_subscription :: "message list \<Rightarrow> ObjectClassHandle \<Rightarrow> AttributeHandle \<Rightarrow> SubscriptionType" where
  "told_subscription ms h a = fold (subscription_of_message h a) ms Unsubscribed"

lemma told_append:
  "told_publication (ms @ [m]) h a = publication_of_message h a m (told_publication ms h a)"
  "told_subscription (ms @ [m]) h a = subscription_of_message h a m (told_subscription ms h a)"
  by (simp_all add: told_publication_def told_subscription_def)

lemma told_publication_changes:
  "told_publication (outgoing (send_changes (publication_message F h t) attrs A)) k a =
     (if k = h \<and> a \<in> set attrs then t else told_publication (outgoing A) k a)"
  "told_subscription (outgoing (send_changes (publication_message F h t) attrs A)) k a =
     told_subscription (outgoing A) k a"
  by (auto simp: send_changes_def send_def told_append publication_message_def
      publication_of_message_def subscription_of_message_def)

lemma told_subscription_changes:
  "told_subscription (outgoing (send_changes (subscription_message F h s) attrs A)) k a =
     (if k = h \<and> a \<in> set attrs then s else told_subscription (outgoing A) k a)"
  "told_publication (outgoing (send_changes (subscription_message F h s) attrs A)) k a =
     told_publication (outgoing A) k a"
  by (auto simp: send_changes_def send_def told_append subscription_message_def
      publication_of_message_def subscription_of_message_def)

section \<open>A class and the table\<close>

text \<open>Every element of the attribute vector is there, and the handles do not run out.\<close>

definition class_ok :: "FedObjectClass \<Rightarrow> bool" where
  "class_ok c \<longleftrightarrow> all_slots c \<and> length (foc_attributeVector c) < 2 ^ 32"

lemma class_ok_has:
  assumes "class_ok c"
  shows "has_attribute a c \<longleftrightarrow> unat a < unat (foc_getNumAttributes c)" "has_attribute 0 c"
proof -
  have l: "unat (foc_getNumAttributes c) = length (foc_attributeVector c)"
    using assms by (simp add: class_ok_def foc_getNumAttributes_def unat_of_nat take_bit_eq_mod)
  have "foc_attributeVector c ! n \<noteq> None" if "n < length (foc_attributeVector c)" for n
    using assms that by (auto simp: class_ok_def all_slots_def list_all_length)
  then show h: "has_attribute a c \<longleftrightarrow> unat a < unat (foc_getNumAttributes c)" for a
    using l by (auto simp: has_attribute_def foc_getAttribute_def vector_get_def)
  show "has_attribute 0 c"
    using assms l by (simp add: h class_ok_def all_slots_def)
qed

lemma class_ok_upd [simp]:
  "class_ok (c\<lparr>foc_publicationType := p\<rparr>) = class_ok c"
  "class_ok (c\<lparr>foc_subscriptionType := s\<rparr>) = class_ok c"
  by (simp_all add: class_ok_def all_slots_def)

lemma class_ok_change: "class_ok c \<Longrightarrow> class_ok (change_attribute h g c)"
  by (auto simp: class_ok_def all_slots_def change_attribute_def vector_set_def list_all_iff
      dest!: set_update_subset_insert[THEN subsetD])

text \<open>An attribute is subscribed only together with its class.\<close>

definition subscribed_with_class :: "FedObjectClass \<Rightarrow> bool" where
  "subscribed_with_class c \<longleftrightarrow>
     (\<forall>a. has_attribute a c \<longrightarrow> subscribed_at a c \<noteq> Unsubscribed \<longrightarrow> foc_subscriptionType c \<noteq> Unsubscribed)"

definition mirrored_class :: "message list \<Rightarrow> ObjectClassHandle \<Rightarrow> FedObjectClass \<Rightarrow> bool" where
  "mirrored_class ms h c \<longleftrightarrow> class_ok c \<and> subscribed_with_class c \<and>
     (\<forall>a. has_attribute a c \<longrightarrow> told_publication ms h a = foc_getEffectiveAttributePublicationType a c) \<and>
     (\<forall>a. has_attribute a c \<longrightarrow> a \<noteq> 0 \<longrightarrow>
        told_subscription ms h a = foc_getEffectiveAttributeSubscriptionType a c)"

text \<open>A change of the publications leaves the subscriptions, and the other way round.\<close>

definition same_subscriptions :: "FedObjectClass \<Rightarrow> FedObjectClass \<Rightarrow> bool" where
  "same_subscriptions c c' \<longleftrightarrow> class_ok c' \<and> (\<forall>a. has_attribute a c' = has_attribute a c) \<and>
     foc_subscriptionType c' = foc_subscriptionType c \<and>
     (\<forall>a. has_attribute a c \<longrightarrow> subscribed_at a c' = subscribed_at a c)"

definition same_publications :: "FedObjectClass \<Rightarrow> FedObjectClass \<Rightarrow> bool" where
  "same_publications c c' \<longleftrightarrow> class_ok c' \<and> (\<forall>a. has_attribute a c' = has_attribute a c) \<and>
     foc_publicationType c' = foc_publicationType c \<and>
     (\<forall>a. has_attribute a c \<longrightarrow> published_at a c' = published_at a c)"

lemma same_subscriptions_setters:
  "same_subscriptions c d \<Longrightarrow> same_subscriptions c (snd (foc_setPublicationType t d))"
  "same_subscriptions c d \<Longrightarrow> has_attribute h c \<Longrightarrow>
     same_subscriptions c (snd (foc_setAttributePublicationType t h d))"
  by (auto simp: same_subscriptions_def declaration_defs attribute_at_change has_attribute_change
      class_ok_change)

lemma same_publications_setters:
  "same_publications c d \<Longrightarrow> same_publications c (snd (foc_setSubscriptionType s d))"
  "same_publications c d \<Longrightarrow> has_attribute h c \<Longrightarrow>
     same_publications c (snd (foc_setAttributeSubscriptionType s h d))"
  by (auto simp: same_publications_def declaration_defs attribute_at_change has_attribute_change
      class_ok_change)

lemma run_changes_keeps:
  assumes "\<And>h d. h \<in> set hs \<Longrightarrow> P d \<Longrightarrow> P (snd (f h d))" "P c"
  shows "P (snd (run_changes f hs c))"
  using assms
proof (induction hs arbitrary: c)
  case (Cons h hs)
  have "P (snd (run_changes f hs (snd (f h c))))"
    using Cons.prems by (intro Cons.IH) auto
  then show ?case by (simp add: case_prod_unfold)
qed simp

lemma declare_class_keeps:
  assumes d: "declare_class sc sa attrs c = (fresh, attrs', c')"
    and "P (snd (sc c))" "\<And>h d. h \<in> set attrs \<Longrightarrow> P d \<Longrightarrow> P (snd (sa h d))"
  shows "P c'"
proof -
  let ?front = "front_handle (fst (sc c)) attrs"
  have le: "snd ?front \<le> length (fst ?front)" by (auto simp: front_handle_def Suc_le_eq)
  have rest: "set (drop (snd ?front) (fst ?front)) \<subseteq> set attrs"
    by (cases attrs) (auto simp: front_handle_def)
  have "c' = snd (run_changes sa (drop (snd ?front) (fst ?front)) (snd (sc c)))"
    using d compact_run_changes[OF le, of sa "snd (sc c)"]
    by (auto simp: declare_class_def split: prod.splits)
  then show ?thesis using run_changes_keeps[of _ P] rest assms(2,3) by blast
qed

lemma withdraw_class_keeps:
  assumes d: "withdraw_class sc sa c = (attrs', c')"
    and "P (snd (sc c))"
    and "\<And>h d. unat h < unat (foc_getNumAttributes (snd (sc c))) \<Longrightarrow> P d \<Longrightarrow> P (snd (sa h d))"
  shows "P c'"
proof -
  let ?hs = "map of_nat [0..<unat (foc_getNumAttributes (snd (sc c)))]"
  have "c' = snd (run_changes sa ?hs (snd (sc c)))"
    using d by (auto simp: withdraw_class_def fold_run_changes split: prod.splits)
  moreover have "P (snd (run_changes sa ?hs (snd (sc c))))"
    by (rule run_changes_keeps[of _ P]) (use assms(2,3) set_words_upt in blast)+
  ultimately show ?thesis by simp
qed

lemma compact_keeps:
  assumes "compact sa 0 attrs c = (attrs', c')" "P c" "\<And>h d. h \<in> set attrs \<Longrightarrow> P d \<Longrightarrow> P (snd (sa h d))"
  shows "P c'"
  using assms compact_run_changes[of 0 attrs sa c] run_changes_keeps[of attrs P sa c] by auto


section \<open>One declaration of a class\<close>

lemma mirrored_publication:
  assumes m: "mirrored_class ms h c" and s: "same_subscriptions c c'"
    and p: "\<And>a. has_attribute a c \<Longrightarrow> foc_getEffectiveAttributePublicationType a c' =
        (if a \<in> set attrs then t else foc_getEffectiveAttributePublicationType a c)"
    and told: "\<And>a. told_publication ms' h a = (if a \<in> set attrs then t else told_publication ms h a)"
      "\<And>a. told_subscription ms' h a = told_subscription ms h a"
  shows "mirrored_class ms' h c'"
  using m s p by (simp add: mirrored_class_def same_subscriptions_def subscribed_with_class_def told
      foc_getEffectiveAttributeSubscriptionType_def Let_def)

lemma mirrored_subscription:
  assumes m: "mirrored_class ms h c" and s: "same_publications c c'" and w: "subscribed_with_class c'"
    and p: "\<And>a. has_attribute a c \<Longrightarrow> a \<noteq> 0 \<Longrightarrow> foc_getEffectiveAttributeSubscriptionType a c' =
        (if a \<in> set attrs then t else foc_getEffectiveAttributeSubscriptionType a c)"
    and told: "\<And>a. told_subscription ms' h a = (if a \<in> set attrs then t else told_subscription ms h a)"
      "\<And>a. told_publication ms' h a = told_publication ms h a"
  shows "mirrored_class ms' h c'"
  using m s w p by (simp add: mirrored_class_def same_publications_def told
      foc_getEffectiveAttributePublicationType_def Let_def)

lemma same_self: "class_ok c \<Longrightarrow> same_subscriptions c c" "class_ok c \<Longrightarrow> same_publications c c"
  by (simp_all add: same_subscriptions_def same_publications_def)

lemma published_change:
  assumes "declare_class (foc_setPublicationType Published) (foc_setAttributePublicationType Published) attrs c
      = (fresh, attrs', c')"
    and ok: "class_ok c" and attrs: "\<forall>a \<in> set attrs. has_attribute a c"
  shows "same_subscriptions c c'"
    and "foc_getEffectiveAttributePublicationType a c' =
      (if a \<in> set attrs' then Published else foc_getEffectiveAttributePublicationType a c)"
proof -
  note D = publications.declare_class_changes[OF _ class_ok_has(2)[OF ok] attrs assms(1)]
  show "same_subscriptions c c'"
    by (rule declare_class_keeps[OF assms(1)])
      (use attrs same_self(1)[OF ok] same_subscriptions_setters in auto)
  have "a \<noteq> 0 \<Longrightarrow> a \<notin> set attrs \<Longrightarrow> foc_getEffectiveAttributePublicationType a c' =
      foc_getEffectiveAttributePublicationType a c"
    using D(4)[of a] by (simp add: foc_getEffectiveAttributePublicationType_def)
  then show "foc_getEffectiveAttributePublicationType a c' =
      (if a \<in> set attrs' then Published else foc_getEffectiveAttributePublicationType a c)"
    using D(6) D(7)[of a] by auto
qed

lemma subscribed_change:
  assumes "declare_class (foc_setSubscriptionType t) (foc_setAttributeSubscriptionType t) attrs c
      = (fresh, attrs', c')"
    and ok: "class_ok c" and attrs: "\<forall>a \<in> set attrs. has_attribute a c" and t: "t \<noteq> Unsubscribed"
  shows "same_publications c c'" and "foc_subscriptionType c' = t"
    and "foc_getEffectiveAttributeSubscriptionType a c' =
      (if a \<in> set attrs' then t else foc_getEffectiveAttributeSubscriptionType a c)"
proof -
  note D = subscriptions.declare_class_changes[OF t class_ok_has(2)[OF ok] attrs assms(1)]
  show "same_publications c c'"
    by (rule declare_class_keeps[OF assms(1)])
      (use attrs same_self(2)[OF ok] same_publications_setters in auto)
  show "foc_subscriptionType c' = t" by (rule D(2))
  have "a \<noteq> 0 \<Longrightarrow> a \<notin> set attrs \<Longrightarrow> foc_getEffectiveAttributeSubscriptionType a c' =
      foc_getEffectiveAttributeSubscriptionType a c"
    using D(4)[of a] by (simp add: foc_getEffectiveAttributeSubscriptionType_def)
  then show "foc_getEffectiveAttributeSubscriptionType a c' =
      (if a \<in> set attrs' then t else foc_getEffectiveAttributeSubscriptionType a c)"
    using D(6) D(7)[of a] by auto
qed

lemma num_setters [simp]:
  "foc_getNumAttributes (snd (foc_setPublicationType t c)) = foc_getNumAttributes c"
  "foc_getNumAttributes (snd (foc_setSubscriptionType s c)) = foc_getNumAttributes c"
  by (simp_all add: foc_setPublicationType_def foc_setSubscriptionType_def foc_getNumAttributes_def Let_def)

lemma unpublished_class_change:
  assumes "withdraw_class (foc_setPublicationType Unpublished) (foc_setAttributePublicationType Unpublished) c
      = (attrs', c')"
    and ok: "class_ok c"
  shows "same_subscriptions c c'"
    and "has_attribute a c \<Longrightarrow> foc_getEffectiveAttributePublicationType a c' =
      (if a \<in> set attrs' then Unpublished else foc_getEffectiveAttributePublicationType a c)"
proof -
  note D = publications.withdraw_class_changes[OF class_ok_has(1)[OF ok] num_setters(1) assms(1)]
  show "same_subscriptions c c'"
    by (rule withdraw_class_keeps[OF assms(1)])
      (use same_self(1)[OF ok] same_subscriptions_setters class_ok_has(1)[OF ok] in auto)
  show "has_attribute a c \<Longrightarrow> foc_getEffectiveAttributePublicationType a c' =
      (if a \<in> set attrs' then Unpublished else foc_getEffectiveAttributePublicationType a c)"
    using D(4)[of a] D(5)[OF class_ok_has(2)[OF ok], of a] by auto
qed

lemma unsubscribed_class_change:
  assumes "withdraw_class (foc_setSubscriptionType Unsubscribed) (foc_setAttributeSubscriptionType Unsubscribed) c
      = (attrs', c')"
    and ok: "class_ok c"
  shows "same_publications c c'" and "subscribed_with_class c'"
    and "has_attribute a c \<Longrightarrow> foc_getEffectiveAttributeSubscriptionType a c' =
      (if a \<in> set attrs' then Unsubscribed else foc_getEffectiveAttributeSubscriptionType a c)"
proof -
  note D = subscriptions.withdraw_class_changes[OF class_ok_has(1)[OF ok] num_setters(2) assms(1)]
  show "same_publications c c'"
    by (rule withdraw_class_keeps[OF assms(1)])
      (use same_self(2)[OF ok] same_publications_setters class_ok_has(1)[OF ok] in auto)
  show "subscribed_with_class c'" using D(2,3) by (simp add: subscribed_with_class_def)
  show "has_attribute a c \<Longrightarrow> foc_getEffectiveAttributeSubscriptionType a c' =
      (if a \<in> set attrs' then Unsubscribed else foc_getEffectiveAttributeSubscriptionType a c)"
    using D(4)[of a] D(5)[OF class_ok_has(2)[OF ok], of a] by auto
qed

lemma unpublished_change:
  assumes "compact (foc_setAttributePublicationType Unpublished) 0 attrs c = (attrs', c')"
    and ok: "class_ok c" and attrs: "\<forall>a \<in> set attrs. has_attribute a c"
  shows "same_subscriptions c c'"
    and "foc_getEffectiveAttributePublicationType a c' =
      (if a \<in> set attrs' then Unpublished else foc_getEffectiveAttributePublicationType a c)"
proof -
  note D = publications.compact_withdraw_changes[OF attrs assms(1)]
  show "same_subscriptions c c'"
    by (rule compact_keeps[OF assms(1)])
      (use attrs same_self(1)[OF ok] same_subscriptions_setters in auto)
  have "foc_getEffectiveAttributePublicationType 0 c' = Unpublished" if "0 \<in> set attrs'"
  proof -
    have "foc_getEffectiveAttributePublicationType 0 c \<noteq> foc_getEffectiveAttributePublicationType 0 c'"
      and "published_at 0 c' = Unpublished"
      using that D(3)[of 0] D(4) by auto
    then show ?thesis using D(1) publication_levels[of Published] least_publication
      by (cases "foc_publicationType c"; cases "published_at 0 c")
        (auto simp: foc_getEffectiveAttributePublicationType_def max_def less_eq_PublicationType_def)
  qed
  moreover have "a \<notin> set attrs \<Longrightarrow> foc_getEffectiveAttributePublicationType a c' =
      foc_getEffectiveAttributePublicationType a c"
    using D(1) D(3)[of a] by (simp add: foc_getEffectiveAttributePublicationType_def Let_def)
  moreover have "a \<in> set attrs \<Longrightarrow> a \<notin> set attrs' \<Longrightarrow>
      foc_getEffectiveAttributePublicationType a c' = foc_getEffectiveAttributePublicationType a c"
    unfolding D(4) by simp
  ultimately show "foc_getEffectiveAttributePublicationType a c' =
      (if a \<in> set attrs' then Unpublished else foc_getEffectiveAttributePublicationType a c)"
    using D(7)[of a] by (cases "a = 0"; cases "a \<in> set attrs'"; cases "a \<in> set attrs") simp_all
qed

lemma unsubscribed_change:
  assumes "compact (foc_setAttributeSubscriptionType Unsubscribed) 0 attrs c = (attrs', c')"
    and ok: "class_ok c" and attrs: "\<forall>a \<in> set attrs. has_attribute a c" and w: "subscribed_with_class c"
  shows "same_publications c c'" and "subscribed_with_class c'" and "foc_subscriptionType c' = foc_subscriptionType c"
    and "attrs' \<noteq> [] \<Longrightarrow> foc_subscriptionType c \<noteq> Unsubscribed"
    and "a \<noteq> 0 \<Longrightarrow> foc_getEffectiveAttributeSubscriptionType a c' =
      (if a \<in> set attrs' then Unsubscribed else foc_getEffectiveAttributeSubscriptionType a c)"
proof -
  note D = subscriptions.compact_withdraw_changes[OF attrs assms(1)]
  show "same_publications c c'"
    by (rule compact_keeps[OF assms(1)])
      (use attrs same_self(2)[OF ok] same_publications_setters in auto)
  show cl: "foc_subscriptionType c' = foc_subscriptionType c" by (rule D(1))
  show "subscribed_with_class c'"
    using w cl D(2,3) by (auto simp: subscribed_with_class_def)
  show "attrs' \<noteq> [] \<Longrightarrow> foc_subscriptionType c \<noteq> Unsubscribed"
  proof -
    assume "attrs' \<noteq> []"
    then have "hd attrs' \<in> set attrs'" by simp
    then show ?thesis using D(6)[of "hd attrs'"] D(4) attrs w by (auto simp: subscribed_with_class_def)
  qed
  show "foc_getEffectiveAttributeSubscriptionType a c' =
      (if a \<in> set attrs' then Unsubscribed else foc_getEffectiveAttributeSubscriptionType a c)" if "a \<noteq> 0"
  proof (cases "a \<in> set attrs")
    case True
    then have "a \<notin> set attrs' \<Longrightarrow>
        foc_getEffectiveAttributeSubscriptionType a c' = foc_getEffectiveAttributeSubscriptionType a c"
      unfolding D(4) by simp
    then show ?thesis using D(7)[of a] that by simp
  next
    case False
    then have "a \<notin> set attrs'" unfolding D(4) by simp
    then show ?thesis
      using D(3)[of a] False that by (simp add: foc_getEffectiveAttributeSubscriptionType_def)
  qed
qed


section \<open>The services\<close>

datatype declare_request =
  PublishAttributes ObjectClassHandle AttributeHandleVector
| UnpublishClass ObjectClassHandle
| UnpublishAttributes ObjectClassHandle AttributeHandleVector
| SubscribeAttributes ObjectClassHandle AttributeHandleVector bool String
| UnsubscribeClass ObjectClassHandle
| UnsubscribeAttributes ObjectClassHandle AttributeHandleVector
| UnsubscribeInstance ObjectInstanceHandle
| PublishInteraction InteractionClassHandle
| UnpublishInteraction InteractionClassHandle
| SubscribeInteraction InteractionClassHandle bool
| SubscribeInteractionWithFilter InteractionClassHandle ParameterValueVector bool
| UnsubscribeInteraction InteractionClassHandle
| UnsubscribeInteractionWithFilter InteractionClassHandle ParameterValueVector

primrec declaration_service :: "declare_request \<Rightarrow> unit service" where
  "declaration_service (PublishAttributes h attrs) = publishObjectClassAttributes h attrs"
| "declaration_service (UnpublishClass h) = unpublishObjectClass h"
| "declaration_service (UnpublishAttributes h attrs) = unpublishObjectClassAttributes h attrs"
| "declaration_service (SubscribeAttributes h attrs active rate) =
     subscribeObjectClassAttributes h attrs active rate"
| "declaration_service (UnsubscribeClass h) = unsubscribeObjectClass h"
| "declaration_service (UnsubscribeAttributes h attrs) = unsubscribeObjectClassAttributes h attrs"
| "declaration_service (UnsubscribeInstance h) = unsubscribeObjectInstance h"
| "declaration_service (PublishInteraction h) = publishInteractionClass h"
| "declaration_service (UnpublishInteraction h) = unpublishInteractionClass h"
| "declaration_service (SubscribeInteraction h active) = subscribeInteractionClass h active"
| "declaration_service (SubscribeInteractionWithFilter h fv active) =
     subscribeInteractionClassWithFilter h fv active"
| "declaration_service (UnsubscribeInteraction h) = unsubscribeInteractionClass h"
| "declaration_service (UnsubscribeInteractionWithFilter h fv) = unsubscribeInteractionClassWithFilter h fv"

definition run_declarations :: "declare_request list \<Rightarrow> Ambassador \<Rightarrow> Ambassador" where
  "run_declarations ds A = fold (\<lambda>d A'. snd (declaration_service d A')) ds A"

definition mirrored :: "Ambassador \<Rightarrow> bool" where
  "mirrored A \<longleftrightarrow> (\<exists>F. federate A = Some F \<and>
     (\<forall>h c. fm_getObjectClass h F = Some c \<longrightarrow> mirrored_class (outgoing A) h c))"

lemma mirrored_class_cong:
  assumes "\<And>a. told_publication ms' h a = told_publication ms h a"
    "\<And>a. told_subscription ms' h a = told_subscription ms h a"
  shows "mirrored_class ms' h c = mirrored_class ms h c"
  using assms by (simp add: mirrored_class_def)

lemma get_put_object_class:
  assumes "fm_getObjectClass h F = Some c"
  shows "fm_getObjectClass k (put_object_class h c' F) = (if k = h then Some c' else fm_getObjectClass k F)"
proof (cases "k = h")
  case True
  then show ?thesis using assms
    by (auto simp: fm_getObjectClass_def put_object_class_def vector_get_def vector_set_def split: if_splits)
next
  case False
  then have "unat k \<noteq> unat h" using unsigned_word_eqI by blast
  then show ?thesis using False
    by (auto simp: fm_getObjectClass_def put_object_class_def vector_get_def vector_set_def)
qed

text \<open>A service that changes one class and tells the server about that class alone.\<close>

lemma mirrored_step:
  assumes m: "mirrored A" and F: "federate A = Some F" and c: "fm_getObjectClass h F = Some c"
    and F': "federate A' = Some F'" "fm_objectClassVector F' = fm_objectClassVector (put_object_class h c' F)"
    and others: "\<And>k a. k \<noteq> h \<Longrightarrow> told_publication (outgoing A') k a = told_publication (outgoing A) k a"
      "\<And>k a. k \<noteq> h \<Longrightarrow> told_subscription (outgoing A') k a = told_subscription (outgoing A) k a"
    and new: "mirrored_class (outgoing A) h c \<Longrightarrow> mirrored_class (outgoing A') h c'"
  shows "mirrored A'"
proof -
  have g: "fm_getObjectClass k F' = (if k = h then Some c' else fm_getObjectClass k F)" for k
    using get_put_object_class[OF c, of k c'] F'(2) by (simp add: fm_getObjectClass_def)
  have "mirrored_class (outgoing A') k d" if "fm_getObjectClass k F' = Some d" for k d
  proof (cases "k = h")
    case True
    then show ?thesis using that g[of k] m F c new by (auto simp: mirrored_def)
  next
    case False
    then have "mirrored_class (outgoing A) k d" using that g[of k] m F by (auto simp: mirrored_def)
    then show ?thesis
      using mirrored_class_cong[of "outgoing A'" k "outgoing A" d] others False by simp
  qed
  then show ?thesis using F'(1) by (auto simp: mirrored_def)
qed

lemma federate_sends [simp]:
  "federate (send m A) = federate A" "federate (send_changes msg attrs A) = federate A"
  "federate (queueCallback e A) = federate A" "outgoing (queueCallback e A) = outgoing A"
  "federate (update_federate g A) = map_option g (federate A)" "outgoing (update_federate g A) = outgoing A"
  "federate (time_management t A) = federate A" "outgoing (time_management t A) = outgoing A"
  by (simp_all add: send_def send_changes_def queueCallback_def update_federate_def time_management_def)

lemma snd_return [simp]: "snd (return x A) = A" "snd (throw e A) = A"
  by (simp_all add: return_def throw_def)

text \<open>Releasing instances changes no class and makes no declaration.\<close>

definition same_declarations :: "Ambassador \<Rightarrow> Ambassador \<Rightarrow> bool" where
  "same_declarations A A' \<longleftrightarrow>
     map_option fm_objectClassVector (federate A') = map_option fm_objectClassVector (federate A) \<and>
     (\<forall>h a. told_publication (outgoing A') h a = told_publication (outgoing A) h a) \<and>
     (\<forall>h a. told_subscription (outgoing A') h a = told_subscription (outgoing A) h a)"

lemma same_declarations_release: "same_declarations A A' \<Longrightarrow> same_declarations A (releaseObjectInstance h F A')"
  by (cases "federate A'")
    (auto simp: same_declarations_def releaseObjectInstance_def send_def told_append
      publication_of_message_def subscription_of_message_def update_federate_def time_management_def
      fm_eraseObjectInstance_def split: option.splits)

lemma same_declarations_release_instances: "same_declarations A (release_instances c F A)"
proof -
  have "same_declarations A A' \<Longrightarrow> same_declarations A
     (fold (\<lambda>(h, oi) A'. if foi_objectClassHandle oi \<noteq> c then A'
             else if foi_isOwnedByFederate oi then A'
             else releaseObjectInstance h F A') ois A')" for ois A'
    by (induction ois arbitrary: A') (auto simp: same_declarations_release)
  then show ?thesis by (simp add: release_instances_def same_declarations_def)
qed

lemma mirrored_same_declarations:
  assumes "mirrored A" "same_declarations A A'"
  shows "mirrored A'"
proof -
  obtain F where F: "federate A = Some F" using assms(1) by (auto simp: mirrored_def)
  then obtain F' where F': "federate A' = Some F'" "fm_objectClassVector F' = fm_objectClassVector F"
    using assms(2) by (auto simp: same_declarations_def)
  then have "fm_getObjectClass h F' = fm_getObjectClass h F" for h by (simp add: fm_getObjectClass_def)
  then show ?thesis
    using assms F F' mirrored_class_cong[of "outgoing A'" _ "outgoing A"]
    by (auto simp: mirrored_def same_declarations_def)
qed

lemma mirrored_class_ok: "mirrored A \<Longrightarrow> federate A = Some F \<Longrightarrow> fm_getObjectClass h F = Some c \<Longrightarrow>
    mirrored_class (outgoing A) h c"
  by (auto simp: mirrored_def)

lemma attributes_defined:
  "(\<forall>a \<in> set attrs. attribute_defined c a = None) \<longleftrightarrow> (\<forall>a \<in> set attrs. has_attribute a c)"
  by (auto simp: attribute_defined_def has_attribute_def)

text \<open>The change of one class, as the six services make it.\<close>

lemma mirrored_put_publication:
  assumes m: "mirrored A" and F: "federate A = Some F" and c: "fm_getObjectClass h F = Some c"
    and s: "same_subscriptions c c'"
    and p: "\<And>a. has_attribute a c \<Longrightarrow> foc_getEffectiveAttributePublicationType a c' =
        (if a \<in> set attrs then t else foc_getEffectiveAttributePublicationType a c)"
  shows "mirrored (send_changes (publication_message F h t) attrs (update_federate (put_object_class h c') A))"
  by (rule mirrored_step[OF m F c, where F' = "put_object_class h c' F" and c' = c'])
    (use F s p in \<open>auto simp: told_publication_changes intro!: mirrored_publication[OF _ s p]\<close>)

lemma mirrored_put_subscription:
  assumes m: "mirrored A" and F: "federate A = Some F" and c: "fm_getObjectClass h F = Some c"
    and s: "same_publications c c'" and w: "subscribed_with_class c'"
    and p: "\<And>a. has_attribute a c \<Longrightarrow> a \<noteq> 0 \<Longrightarrow> foc_getEffectiveAttributeSubscriptionType a c' =
        (if a \<in> set attrs then t else foc_getEffectiveAttributeSubscriptionType a c)"
  shows "mirrored (send_changes (subscription_message F h t) attrs (update_federate (put_object_class h c') A))"
  by (rule mirrored_step[OF m F c, where F' = "put_object_class h c' F" and c' = c'])
    (use F s p w in \<open>auto simp: told_subscription_changes intro!: mirrored_subscription[OF _ s w p]\<close>)


section \<open>Every service keeps the mirror\<close>

lemma mirrored_queueCallback [simp]: "mirrored (queueCallback e A) = mirrored A"
  by (simp add: mirrored_def)

lemma mirrored_publish:
  assumes m: "mirrored A"
  shows "keeps mirrored (publishObjectClassAttributes h attrs) A"
  unfolding publishObjectClassAttributes_def
proof (intro keeps_checks m)
  fix F c
  assume F: "federate A = Some F" and c: "fm_getObjectClass h F = Some c"
    and d: "\<forall>a\<in>set attrs. attribute_defined c a = None"
  obtain fresh attrs' c' where e: "declare_class (foc_setPublicationType Published)
      (foc_setAttributePublicationType Published) attrs c = (fresh, attrs', c')" by (metis surj_pair)
  have ok: "class_ok c" using mirrored_class_ok[OF m F c] by (simp add: mirrored_class_def)
  note ch = published_change[OF e ok d[unfolded attributes_defined]]
  show "keeps mirrored (\<lambda>A. case declare_class (foc_setPublicationType Published)
      (foc_setAttributePublicationType Published) attrs c of (fresh, attrs', c') \<Rightarrow>
         (let A1 = send_changes (publication_message F h Published) attrs'
                       (update_federate (put_object_class h c') A)
            in return () (if fresh \<and> fm_objectClassRelevanceAdvisorySwitchEnabled F
                 then queueCallback (RegistrationForObjectClass h True) A1 else A1))) A"
    using mirrored_put_publication[OF m F c ch(1), of attrs' Published] ch(2) by (simp add: keeps_def e Let_def)
qed

lemma mirrored_unpublish_class:
  assumes m: "mirrored A"
  shows "keeps mirrored (unpublishObjectClass h) A"
  unfolding unpublishObjectClass_def
proof (intro keeps_checks m)
  fix F c
  assume F: "federate A = Some F" and c: "fm_getObjectClass h F = Some c"
  obtain attrs' c' where e: "withdraw_class (foc_setPublicationType Unpublished)
      (foc_setAttributePublicationType Unpublished) c = (attrs', c')" by (metis surj_pair)
  have ok: "class_ok c" using mirrored_class_ok[OF m F c] by (simp add: mirrored_class_def)
  note ch = unpublished_class_change[OF e ok]
  show "keeps mirrored (\<lambda>A. case withdraw_class (foc_setPublicationType Unpublished)
      (foc_setAttributePublicationType Unpublished) c of (attrs', c') \<Rightarrow>
           return () (send_changes (publication_message F h Unpublished) attrs'
             (update_federate (put_object_class h c') A))) A"
    using mirrored_put_publication[OF m F c ch(1), of attrs' Unpublished] ch(2) by (simp add: keeps_def e)
qed

lemma mirrored_unpublish_attributes:
  assumes m: "mirrored A"
  shows "keeps mirrored (unpublishObjectClassAttributes h attrs) A"
  unfolding unpublishObjectClassAttributes_def
proof (intro keeps_checks m)
  fix F c
  assume F: "federate A = Some F" and c: "fm_getObjectClass h F = Some c"
    and d: "\<forall>a\<in>set attrs. attribute_defined c a = None"
  obtain attrs' c' where e: "compact (foc_setAttributePublicationType Unpublished) 0 attrs c = (attrs', c')"
    by (metis surj_pair)
  have ok: "class_ok c" using mirrored_class_ok[OF m F c] by (simp add: mirrored_class_def)
  note ch = unpublished_change[OF e ok d[unfolded attributes_defined]]
  show "keeps mirrored (\<lambda>A. case compact (foc_setAttributePublicationType Unpublished) 0 attrs c of (attrs', c') \<Rightarrow>
           return () (send_changes (publication_message F h Unpublished) attrs'
             (update_federate (put_object_class h c') A))) A"
    using mirrored_put_publication[OF m F c ch(1), of attrs' Unpublished] ch(2) by (simp add: keeps_def e)
qed

lemma subscription_of_not [simp]: "subscription_of active \<noteq> Unsubscribed"
  by (simp add: subscription_of_def)

lemma mirrored_subscribe:
  assumes m: "mirrored A"
  shows "keeps mirrored (subscribeObjectClassAttributes h attrs active rate) A"
  unfolding subscribeObjectClassAttributes_def
proof (intro keeps_checks m)
  fix F c
  assume F: "federate A = Some F" and c: "fm_getObjectClass h F = Some c"
    and d: "\<forall>a\<in>set attrs. attribute_defined c a = None"
  define t where "t = subscription_of active"
  obtain fresh attrs' c' where e: "declare_class (foc_setSubscriptionType t)
      (foc_setAttributeSubscriptionType t) attrs c = (fresh, attrs', c')" by (metis surj_pair)
  have ok: "class_ok c" using mirrored_class_ok[OF m F c] by (simp add: mirrored_class_def)
  have t: "t \<noteq> Unsubscribed" by (simp add: t_def)
  note ch = subscribed_change[OF e ok d[unfolded attributes_defined] t]
  have w: "subscribed_with_class c'" using ch(2) t by (simp add: subscribed_with_class_def)
  show "keeps mirrored (\<lambda>A. let t = subscription_of active
           in case declare_class (foc_setSubscriptionType t) (foc_setAttributeSubscriptionType t) attrs c
              of (_, attrs', c') \<Rightarrow>
                return () (send_changes (subscription_message F h t) attrs'
                  (update_federate (put_object_class h c') A))) A"
    using mirrored_put_subscription[OF m F c ch(1) w, of attrs' t] ch(3)
    by (simp add: keeps_def e t_def[symmetric])
qed

lemma mirrored_unsubscribe_class:
  assumes m: "mirrored A"
  shows "keeps mirrored (unsubscribeObjectClass h) A"
  unfolding unsubscribeObjectClass_def
proof (intro keeps_checks m)
  fix F c
  assume F: "federate A = Some F" and c: "fm_getObjectClass h F = Some c"
  obtain attrs' c' where e: "withdraw_class (foc_setSubscriptionType Unsubscribed)
      (foc_setAttributeSubscriptionType Unsubscribed) c = (attrs', c')" by (metis surj_pair)
  have ok: "class_ok c" using mirrored_class_ok[OF m F c] by (simp add: mirrored_class_def)
  note ch = unsubscribed_class_change[OF e ok]
  define A1 where "A1 = update_federate (put_object_class h c') A"
  have k: "mirrored (send_changes (subscription_message F h Unsubscribed) attrs' A1)"
    using mirrored_put_subscription[OF m F c ch(1,2), of attrs' Unsubscribed] ch(3) by (simp add: A1_def)
  then show "keeps mirrored (\<lambda>A. case withdraw_class (foc_setSubscriptionType Unsubscribed)
                (foc_setAttributeSubscriptionType Unsubscribed) c
         of (attrs', c') \<Rightarrow>
           (let A1 = update_federate (put_object_class h c') A
            in return () (if attrs' = [] then A1
                 else release_instances h F (send (subscription_message F h Unsubscribed attrs') A1)))) A"
    using mirrored_same_declarations[OF k same_declarations_release_instances, of h F]
    by (simp add: keeps_def e Let_def A1_def[symmetric] send_changes_def split: if_splits)
qed

lemma effective_class_unsubscribed:
  "foc_getEffectiveSubscriptionType c = Unsubscribed \<Longrightarrow> foc_subscriptionType c = Unsubscribed"
  using least_subscription[of "foc_subscriptionType c"]
    max.cobounded1[of "foc_subscriptionType c" "subscribed_at 0 c"]
  by (auto simp: foc_getEffectiveSubscriptionType_def intro: order.antisym)

text \<open>The branch that releases the instances is never taken.\<close>

definition only_unsubscribed :: "ObjectClassHandle \<Rightarrow> Ambassador \<Rightarrow> Ambassador \<Rightarrow> bool" where
  "only_unsubscribed h A A' \<longleftrightarrow> A' = A \<or>
    (\<exists>F c c' attrs'. federate A = Some F \<and> fm_getObjectClass h F = Some c \<and>
       (attrs' \<noteq> [] \<longrightarrow> foc_getEffectiveSubscriptionType c' \<noteq> Unsubscribed) \<and>
       A' = send_changes (subscription_message F h Unsubscribed) attrs' (update_federate (put_object_class h c') A) \<and>
       same_publications c c' \<and> subscribed_with_class c' \<and>
       (\<forall>a. a \<noteq> 0 \<longrightarrow> foc_getEffectiveAttributeSubscriptionType a c' =
        (if a \<in> set attrs' then Unsubscribed else foc_getEffectiveAttributeSubscriptionType a c)))"

lemma unsubscribe_attributes_outcome:
  assumes m: "mirrored A"
  shows "keeps (only_unsubscribed h A) (unsubscribeObjectClassAttributes h attrs) A"
  unfolding unsubscribeObjectClassAttributes_def
proof (intro keeps_checks)
  fix F c
  assume F: "federate A = Some F" and c: "fm_getObjectClass h F = Some c"
    and d: "\<forall>a\<in>set attrs. attribute_defined c a = None"
  obtain attrs' c' where e: "compact (foc_setAttributeSubscriptionType Unsubscribed) 0 attrs c = (attrs', c')"
    by (metis surj_pair)
  have ok: "class_ok c" and w: "subscribed_with_class c"
    using mirrored_class_ok[OF m F c] by (simp_all add: mirrored_class_def)
  note ch = unsubscribed_change[OF e ok d[unfolded attributes_defined] w]
  have r: "attrs' \<noteq> [] \<Longrightarrow> foc_getEffectiveSubscriptionType c' \<noteq> Unsubscribed"
    using ch(3,4) effective_class_unsubscribed by metis
  have "only_unsubscribed h A
      (send_changes (subscription_message F h Unsubscribed) attrs' (update_federate (put_object_class h c') A))"
    using F c ch(1,2,5) r unfolding only_unsubscribed_def by blast
  with r show "keeps (only_unsubscribed h A)
      (\<lambda>A. case compact (foc_setAttributeSubscriptionType Unsubscribed) 0 attrs c of (attrs', c') \<Rightarrow>
           (let A1 = update_federate (put_object_class h c') A
            in if attrs' = [] then return () A1
               else let A2 = send (subscription_message F h Unsubscribed attrs') A1
                    in if \<not> has_slot_0 c' then throw NullPointer A2
                       else return () (if foc_getEffectiveSubscriptionType c' = Unsubscribed
                              then release_instances h F A2 else A2))) A"
    by (auto simp: keeps_def e Let_def send_changes_def)
qed (simp_all add: only_unsubscribed_def)

lemma mirrored_unsubscribe_attributes:
  assumes m: "mirrored A"
  shows "keeps mirrored (unsubscribeObjectClassAttributes h attrs) A"
  using unsubscribe_attributes_outcome[OF m, of h attrs] mirrored_put_subscription[OF m] m
  by (auto simp: keeps_def only_unsubscribed_def)

lemma mirrored_unsubscribe_instance:
  assumes m: "mirrored A"
  shows "keeps mirrored (unsubscribeObjectInstance h) A"
  unfolding unsubscribeObjectInstance_def Let_def
proof (intro keeps_checks m)
  fix F oi
  assume F: "federate A = Some F"
  show "keeps mirrored (\<lambda>A. case foi_setSubscriptionType Unsubscribed oi of (changed, oi') \<Rightarrow>
           return () (if changed then send (ChangeObjectInstanceSubscriptionMessage
                   \<lparr>ChangeObjectInstanceSubscriptionMessage_federationHandle = fm_federationHandle F,
                    ChangeObjectInstanceSubscriptionMessage_subscriptionType = Unsubscribed,
                    ChangeObjectInstanceSubscriptionMessage_objectClassHandle = foi_objectClassHandle oi,
                    ChangeObjectInstanceSubscriptionMessage_objectInstanceHandle = h\<rparr>)
                (update_federate (put_object_instance h oi') A)
              else update_federate (put_object_instance h oi') A)) A"
    unfolding keeps_def by (rule mirrored_same_declarations[OF m])
      (auto simp: same_declarations_def F put_object_instance_def send_def told_append
        publication_of_message_def subscription_of_message_def split: prod.splits)
qed

text \<open>The services about interaction classes leave the object classes and their messages alone.\<close>

lemma same_declarations_interaction:
  "same_declarations A A' \<Longrightarrow> same_declarations A (update_federate (put_interaction_class h c) A')"
  "same_declarations A A' \<Longrightarrow> same_declarations A (send (interaction_publication_message F h p) A')"
  "same_declarations A A' \<Longrightarrow> same_declarations A (send (interaction_subscription_message F h t fv) A')"
  "same_declarations A A' \<Longrightarrow> same_declarations A (queueCallback e A')"
  by (cases "federate A'"; simp add: same_declarations_def put_interaction_class_def send_def told_append
      interaction_publication_message_def interaction_subscription_message_def publication_of_message_def
      subscription_of_message_def)+

lemma same_declarations_self [simp]: "same_declarations A A"
  by (simp add: same_declarations_def)

lemma mirrored_publish_interaction:
  assumes m: "mirrored A"
  shows "keeps mirrored (publishInteractionClass h) A" "keeps mirrored (unpublishInteractionClass h) A"
  unfolding publishInteractionClass_def unpublishInteractionClass_def
  by (intro keeps_checks m; unfold keeps_def; rule mirrored_same_declarations[OF m];
      simp add: same_declarations_interaction Let_def split: prod.split)+

lemma mirrored_subscribe_interaction:
  assumes m: "mirrored A"
  shows "keeps mirrored (change_interaction_subscription h t fv) A"
  unfolding change_interaction_subscription_def
  by (intro keeps_checks m; unfold keeps_def; rule mirrored_same_declarations[OF m];
      simp add: same_declarations_interaction Let_def split: prod.split)

lemmas interaction_subscription_services = subscribeInteractionClass_def subscribeInteractionClassWithFilter_def
  unsubscribeInteractionClass_def unsubscribeInteractionClassWithFilter_def

lemma mirrored_service: "mirrored A \<Longrightarrow> mirrored (snd (declaration_service d A))"
  by (cases d) (simp_all add: keeps_def[symmetric] mirrored_publish mirrored_unpublish_class mirrored_unpublish_attributes
      mirrored_subscribe mirrored_unsubscribe_class mirrored_unsubscribe_attributes
      mirrored_unsubscribe_instance mirrored_publish_interaction mirrored_subscribe_interaction
      interaction_subscription_services)

lemma mirrored_run: "mirrored A \<Longrightarrow> mirrored (run_declarations ds A)"
  unfolding run_declarations_def by (induction ds arbitrary: A) (simp_all add: mirrored_service)

end
