(* ===== verification/Ambassador_Callbacks.thy ===== *)
theory Ambassador_Callbacks
  imports Ambassador_Model
begin

text \<open>
  The callbacks of the ambassador (\<open>src/OpenRTI/Ambassador.h\<close>, \<open>acceptCallbackMessage\<close> and
  \<open>dispatchCallback\<close>): what the messages that wait become in the federate, and what they do to its model.
  The three messages about time alone belong to the time management.
\<close>

text \<open>
  The calls of the federate; the last three leave to the time management which form they have. What the
  federate does in a call is not part of this model.
\<close>

datatype (plugins only: code) user_callback =
  cb_connectionLost String
| cb_reportFederationExecutions FederationExecutionInformationVector
| cb_synchronizationPointRegistrationResponse String RegisterFederationSynchronizationPointResponseType
| cb_announceSynchronizationPoint String vld
| cb_federationSynchronized String FederateHandleBoolPairVector
| cb_registrationForObjectClass ObjectClassHandle bool
| cb_attributesInScope ObjectInstanceHandle AttributeHandleVector
| cb_attributesOutOfScope ObjectInstanceHandle AttributeHandleVector
| cb_turnUpdatesOn ObjectInstanceHandle AttributeHandleVector
| cb_turnUpdatesOff ObjectInstanceHandle AttributeHandleVector
| cb_turnInteractionsOn InteractionClassHandle bool
| cb_objectInstanceNameReservationSucceeded String
| cb_objectInstanceNameReservationFailed String
| cb_multipleObjectInstanceNameReservationSucceeded StringVector
| cb_multipleObjectInstanceNameReservationFailed StringVector
| cb_discoverObjectInstance ObjectInstanceHandle ObjectClassHandle String
| cb_removeObjectInstance ObjectInstanceHandle vld FederateHandle
| cb_reflectAttributeValues FedObjectClass ObjectInstanceHandle AttributeValueVector vld TransportationType FederateHandle
| cb_receiveInteraction FedInteractionClass InteractionClassHandle ParameterValueVector vld TransportationType FederateHandle
| cb_provideAttributeValueUpdate ObjectInstanceHandle AttributeHandleVector vld
| cb_timedRemove TimeStampedDeleteObjectInstanceMessage
| cb_timedReflect FedObjectClass TimeStampedAttributeUpdateMessage
| cb_timedReceive FedInteractionClass InteractionClassHandle TimeStampedInteractionMessage

text \<open>A callback goes on only while there is a federate, and otherwise does nothing.\<close>

definition if_federate :: "(FederateModel \<Rightarrow> user_callback option service) \<Rightarrow> user_callback option service" where
  "if_federate k A = (case federate A of None \<Rightarrow> return None A | Some F \<Rightarrow> k F A)"

definition if_there :: "'x option \<Rightarrow> ('x \<Rightarrow> user_callback option service) \<Rightarrow> user_callback option service" where
  "if_there x k = (case x of None \<Rightarrow> return None | Some y \<Rightarrow> k y)"

definition if_timed :: "user_callback option service \<Rightarrow> user_callback option service" where
  "if_timed k A = (if timeCalls A = None then return None A else k A)"

section \<open>The class a federate knows\<close>

text \<open>
  The nearest class, from one on towards the root, that the federate subscribes: \<open>Some None\<close> if there is
  none, and \<open>None\<close> when more classes were looked at than there are, which \<open>search_ends\<close> excludes.
\<close>

fun subscribed_ancestor ::
    "(u32 \<Rightarrow> 'c option) \<Rightarrow> ('c \<Rightarrow> SubscriptionType) \<Rightarrow> ('c \<Rightarrow> u32) \<Rightarrow> nat \<Rightarrow> u32 \<Rightarrow> (u32 \<times> 'c) option option" where
  "subscribed_ancestor get sub parent 0 h = None"
| "subscribed_ancestor get sub parent (Suc fuel) h = (case get h of
     None \<Rightarrow> Some None
   | Some c \<Rightarrow> (if sub c = Unsubscribed then subscribed_ancestor get sub parent fuel (parent c)
               else Some (Some (h, c))))"

definition known_object_class :: "ObjectClassHandle \<Rightarrow> FederateModel \<Rightarrow> (ObjectClassHandle \<times> FedObjectClass) option option" where
  "known_object_class h F = subscribed_ancestor (\<lambda>k. fm_getObjectClass k F) foc_getEffectiveSubscriptionType
     foc_parentObjectClassHandle (Suc (length (fm_objectClassVector F))) h"

definition known_interaction_class ::
    "InteractionClassHandle \<Rightarrow> FederateModel \<Rightarrow> (InteractionClassHandle \<times> FedInteractionClass) option option" where
  "known_interaction_class h F = subscribed_ancestor (\<lambda>k. fm_getInteractionClass k F) fps_subscriptionType
     fic_parentInteractionClassHandle (Suc (length (fm_interactionClassVector F))) h"

section \<open>The handlers\<close>

definition callback_announce :: "AnnounceSynchronizationPointMessage \<Rightarrow> user_callback option service" where
  "callback_announce m = if_federate (\<lambda>_ A.
     let label = AnnounceSynchronizationPointMessage_label m
     in return (Some (cb_announceSynchronizationPoint label (AnnounceSynchronizationPointMessage_tag m)))
          (update_federate (fm_insertAnnouncedLabel label) A))"

definition callback_synchronized :: "FederationSynchronizedMessage \<Rightarrow> user_callback option service" where
  "callback_synchronized m = if_federate (\<lambda>_ A.
     let label = FederationSynchronizedMessage_label m
     in return (Some (cb_federationSynchronized label (FederationSynchronizedMessage_federateHandleBoolPairVector m)))
          (update_federate (fm_eraseAnnouncedLabel label) A))"

definition callback_name :: "ReserveObjectInstanceNameResponseMessage \<Rightarrow> user_callback option service" where
  "callback_name m = if_federate (\<lambda>_ A.
     let pair = ReserveObjectInstanceNameResponseMessage_objectInstanceHandleNamePair m
     in if ReserveObjectInstanceNameResponseMessage_success m
        then return (Some (cb_objectInstanceNameReservationSucceeded (snd pair)))
               (update_federate (fm_insertReservedObjectInstanceHandleNamePair pair) A)
        else return (Some (cb_objectInstanceNameReservationFailed (snd pair))) A)"

definition callback_names :: "ReserveMultipleObjectInstanceNameResponseMessage \<Rightarrow> user_callback option service" where
  "callback_names m = if_federate (\<lambda>_ A.
     let pairs = ReserveMultipleObjectInstanceNameResponseMessage_objectInstanceHandleNamePairVector m
     in if ReserveMultipleObjectInstanceNameResponseMessage_success m
        then return (Some (cb_multipleObjectInstanceNameReservationSucceeded (map snd pairs)))
               (update_federate (fold fm_insertReservedObjectInstanceHandleNamePair pairs) A)
        else return (Some (cb_multipleObjectInstanceNameReservationFailed (map snd pairs))) A)"

text \<open>A second insertion of an instance is ignored. The last branch follows no null pointer: the class is there.\<close>

definition callback_insert :: "InsertObjectInstanceMessage \<Rightarrow> user_callback option service" where
  "callback_insert m = if_federate (\<lambda>F.
     case known_object_class (InsertObjectInstanceMessage_objectClassHandle m) F of
       None \<Rightarrow> throw RTIinternalError
     | Some None \<Rightarrow> return None
     | Some (Some (c, _)) \<Rightarrow>
         (let h = InsertObjectInstanceMessage_objectInstanceHandle m; name = InsertObjectInstanceMessage_name m
          in if fm_getObjectInstance h F \<noteq> None then return None
             else case fm_insertObjectInstance h name c False F of
               None \<Rightarrow> throw NullPointer
             | Some F' \<Rightarrow> (\<lambda>A. return (Some (cb_discoverObjectInstance h c name)) (A\<lparr>federate := Some F'\<rparr>))))"

text \<open>Whether the class of an instance is there and subscribed.\<close>

definition class_subscribed :: "FedObjectInstance \<Rightarrow> FederateModel \<Rightarrow> bool" where
  "class_subscribed oi F = (case fm_getObjectClass (foi_objectClassHandle oi) F of
     None \<Rightarrow> False | Some c \<Rightarrow> foc_getEffectiveSubscriptionType c \<noteq> Unsubscribed)"

definition callback_delete :: "DeleteObjectInstanceMessage \<Rightarrow> user_callback option service" where
  "callback_delete m =
     (let h = DeleteObjectInstanceMessage_objectInstanceHandle m
      in if_federate (\<lambda>F. if_there (fm_getObjectInstance h F) (\<lambda>oi A.
           return (if class_subscribed oi F
                   then Some (cb_removeObjectInstance h (DeleteObjectInstanceMessage_tag m)
                          (DeleteObjectInstanceMessage_federateHandle m))
                   else None)
             (releaseObjectInstance h F A))))"

definition callback_timed_delete :: "TimeStampedDeleteObjectInstanceMessage \<Rightarrow> user_callback option service" where
  "callback_timed_delete m =
     (let h = TimeStampedDeleteObjectInstanceMessage_objectInstanceHandle m
      in if_federate (\<lambda>F. if_timed (if_there (fm_getObjectInstance h F) (\<lambda>oi A.
           return (if class_subscribed oi F then Some (cb_timedRemove m) else None)
             (releaseObjectInstance h F A)))))"

definition callback_update :: "AttributeUpdateMessage \<Rightarrow> user_callback option service" where
  "callback_update m =
     (let h = AttributeUpdateMessage_objectInstanceHandle m
      in if_federate (\<lambda>F. if_there (fm_getObjectInstance h F) (\<lambda>oi.
           if foi_subscriptionType oi = Unsubscribed then return None
           else if_there (fm_getObjectClass (foi_objectClassHandle oi) F) (\<lambda>c.
             return (Some (cb_reflectAttributeValues c h (AttributeUpdateMessage_attributeValues m)
               (AttributeUpdateMessage_tag m) (AttributeUpdateMessage_transportationType m)
               (AttributeUpdateMessage_federateHandle m)))))))"

definition callback_timed_update :: "TimeStampedAttributeUpdateMessage \<Rightarrow> user_callback option service" where
  "callback_timed_update m =
     if_federate (\<lambda>F. if_timed (
       if_there (fm_getObjectInstance (TimeStampedAttributeUpdateMessage_objectInstanceHandle m) F) (\<lambda>oi.
         if foi_subscriptionType oi = Unsubscribed then return None
         else if_there (fm_getObjectClass (foi_objectClassHandle oi) F) (\<lambda>c.
           return (Some (cb_timedReflect c m))))))"

definition callback_interaction :: "InteractionMessage \<Rightarrow> user_callback option service" where
  "callback_interaction m = if_federate (\<lambda>F.
     case known_interaction_class (InteractionMessage_interactionClassHandle m) F of
       None \<Rightarrow> throw RTIinternalError
     | Some None \<Rightarrow> return None
     | Some (Some (h, c)) \<Rightarrow> return (Some (cb_receiveInteraction c h (InteractionMessage_parameterValues m)
         (InteractionMessage_tag m) (InteractionMessage_transportationType m)
         (InteractionMessage_federateHandle m))))"

definition callback_timed_interaction :: "TimeStampedInteractionMessage \<Rightarrow> user_callback option service" where
  "callback_timed_interaction m = if_federate (\<lambda>F. if_timed (
     case known_interaction_class (TimeStampedInteractionMessage_interactionClassHandle m) F of
       None \<Rightarrow> throw RTIinternalError
     | Some None \<Rightarrow> return None
     | Some (Some (h, c)) \<Rightarrow> return (Some (cb_timedReceive c h m))))"

text \<open>Only the attributes that the federate owns are asked of it.\<close>

definition callback_request :: "RequestAttributeUpdateMessage \<Rightarrow> user_callback option service" where
  "callback_request m =
     (let h = RequestAttributeUpdateMessage_objectInstanceHandle m
      in if_federate (\<lambda>F. if_there (fm_getObjectInstance h F) (\<lambda>oi.
           let attrs = filter (\<lambda>a. case foi_getInstanceAttribute a oi of
                   None \<Rightarrow> False | Some ia \<Rightarrow> fia_isOwnedByFederate ia)
                 (RequestAttributeUpdateMessage_attributeHandles m)
           in return (if attrs = [] then None
                else Some (cb_provideAttributeValueUpdate h attrs (RequestAttributeUpdateMessage_tag m))))))"

definition acceptCallbackMessage :: "callback_entry \<Rightarrow> user_callback option service" where
  "acceptCallbackMessage e = (case e of
     RegistrationForObjectClass h start \<Rightarrow> return (Some (cb_registrationForObjectClass h start))
   | AttributesInScope h attrs inScope \<Rightarrow>
       return (Some (if inScope then cb_attributesInScope h attrs else cb_attributesOutOfScope h attrs))
   | TurnUpdatesOnForInstance h attrs on \<Rightarrow>
       return (Some (if on then cb_turnUpdatesOn h attrs else cb_turnUpdatesOff h attrs))
   | TurnInteractionsOn h on \<Rightarrow> return (Some (cb_turnInteractionsOn h on))
   | FromServer msg \<Rightarrow> (case msg of
       ConnectionLostMessage m \<Rightarrow> return (Some (cb_connectionLost (ConnectionLostMessage_faultDescription m)))
     | EnumerateFederationExecutionsResponseMessage m \<Rightarrow> return (Some (cb_reportFederationExecutions
         (EnumerateFederationExecutionsResponseMessage_federationExecutionInformationVector m)))
     | RegisterFederationSynchronizationPointResponseMessage m \<Rightarrow>
         return (Some (cb_synchronizationPointRegistrationResponse
           (RegisterFederationSynchronizationPointResponseMessage_label m)
           (RegisterFederationSynchronizationPointResponseMessage_registerFederationSynchronizationPointResponseType m)))
     | AnnounceSynchronizationPointMessage m \<Rightarrow> callback_announce m
     | FederationSynchronizedMessage m \<Rightarrow> callback_synchronized m
     | ReserveObjectInstanceNameResponseMessage m \<Rightarrow> callback_name m
     | ReserveMultipleObjectInstanceNameResponseMessage m \<Rightarrow> callback_names m
     | InsertObjectInstanceMessage m \<Rightarrow> callback_insert m
     | DeleteObjectInstanceMessage m \<Rightarrow> callback_delete m
     | TimeStampedDeleteObjectInstanceMessage m \<Rightarrow> callback_timed_delete m
     | AttributeUpdateMessage m \<Rightarrow> callback_update m
     | TimeStampedAttributeUpdateMessage m \<Rightarrow> callback_timed_update m
     | InteractionMessage m \<Rightarrow> callback_interaction m
     | TimeStampedInteractionMessage m \<Rightarrow> callback_timed_interaction m
     | RequestAttributeUpdateMessage m \<Rightarrow> callback_request m
     | _ \<Rightarrow> throw RTIinternalError))"

section \<open>Dispatching\<close>

text \<open>
  One callback: the list of the ambassador comes first, then what the time management hands out, given
  by \<open>deliver\<close>. An exception is caught; it counts as a callback only for a message of the list.
\<close>

definition dispatchCallbackMessage ::
    "(time_call list \<Rightarrow> (message \<times> time_call list) option) \<Rightarrow> Ambassador \<Rightarrow> bool \<times> user_callback option \<times> Ambassador" where
  "dispatchCallbackMessage deliver A = (case callbackMessageList A of
     e # es \<Rightarrow> (case acceptCallbackMessage e (A\<lparr>callbackMessageList := es\<rparr>) of
         (Inl _, A') \<Rightarrow> (True, None, A') | (Inr cb, A') \<Rightarrow> (True, cb, A'))
   | [] \<Rightarrow> (case Option.bind (timeCalls A) deliver of
         None \<Rightarrow> (False, None, A)
       | Some (m, rest) \<Rightarrow> (case acceptCallbackMessage (FromServer m) (A\<lparr>timeCalls := Some rest\<rparr>) of
           (Inl _, A') \<Rightarrow> (False, None, A') | (Inr cb, A') \<Rightarrow> (True, cb, A'))))"

definition callbackMessageAvailable ::
    "(time_call list \<Rightarrow> (message \<times> time_call list) option) \<Rightarrow> Ambassador \<Rightarrow> bool" where
  "callbackMessageAvailable deliver A \<longleftrightarrow>
     callbackMessageList A \<noteq> [] \<or> Option.bind (timeCalls A) deliver \<noteq> None"

text \<open>The messages that are there are handled first; the loop waits for those that come in time.\<close>

fun flush_messages :: "(String \<Rightarrow> bool) \<Rightarrow> message list \<Rightarrow> unit service" where
  "flush_messages timeFactory [] A = return () A"
| "flush_messages timeFactory (m # ms) A = (case acceptInternalMessage timeFactory m A of
     (Inl e, A') \<Rightarrow> (Inl e, A') | (Inr _, A') \<Rightarrow> flush_messages timeFactory ms A')"

fun dispatch_loop ::
    "(String \<Rightarrow> bool) \<Rightarrow> (time_call list \<Rightarrow> (message \<times> time_call list) option) \<Rightarrow> message list
      \<Rightarrow> (bool \<times> user_callback option) service" where
  "dispatch_loop timeFactory deliver [] A = (case dispatchCallbackMessage deliver A of
     (dispatched, cb, A') \<Rightarrow>
       return (dispatched \<and> callbackMessageAvailable deliver A', cb) (A'\<lparr>incoming := []\<rparr>))"
| "dispatch_loop timeFactory deliver (m # ms) A = (case dispatchCallbackMessage deliver A of
     (True, cb, A') \<Rightarrow> return (callbackMessageAvailable deliver A', cb) (A'\<lparr>incoming := m # ms\<rparr>)
   | (False, _, A') \<Rightarrow> (case acceptInternalMessage timeFactory m (A'\<lparr>incoming := ms\<rparr>) of
       (Inl e, A'') \<Rightarrow> (Inl e, A'') | (Inr _, A'') \<Rightarrow> dispatch_loop timeFactory deliver ms A''))"

text \<open>\<open>dispatchCallback\<close>, where the first \<open>there\<close> of the incoming messages are there at once.\<close>

definition dispatchCallback ::
    "(String \<Rightarrow> bool) \<Rightarrow> (time_call list \<Rightarrow> (message \<times> time_call list) option) \<Rightarrow> nat
      \<Rightarrow> (bool \<times> user_callback option) service" where
  "dispatchCallback timeFactory deliver there A =
     (case flush_messages timeFactory (take there (incoming A)) (A\<lparr>incoming := drop there (incoming A)\<rparr>) of
        (Inl e, A') \<Rightarrow> (Inl e, A')
      | (Inr _, A') \<Rightarrow> (if \<not> callbacksEnabled A' then return (False, None) A'
          else dispatch_loop timeFactory deliver (incoming A') A'))"

end
