(* ===== verification/Ambassador_Parents.thy ===== *)
theory Ambassador_Parents
  imports Ambassador_Callbacks
begin

text \<open>
  The loops of the ambassador over the base classes of a class end: a class is created after its parent,
  so no class is reached twice on the way to the root.
\<close>

section \<open>Parents come first\<close>

text \<open>
  \<open>ps\<close> holds the handle of the parent for each class that is there. The classes can be put in an order,
  that of their creation, in which a valid parent comes before its children.
\<close>

definition creation_order :: "nat list \<Rightarrow> u32 option list \<Rightarrow> bool" where
  "creation_order order ps \<longleftrightarrow> distinct order \<and> set order = {i. i < length ps \<and> ps ! i \<noteq> None} \<and>
     (\<forall>k < length order. \<forall>p. ps ! (order ! k) = Some p \<longrightarrow> handle_valid p \<longrightarrow> unat p \<in> set (take k order))"

definition ordered_parents :: "u32 option list \<Rightarrow> bool" where
  "ordered_parents ps \<longleftrightarrow> length ps \<le> unat (invalid_handle :: u32) \<and> (\<exists>order. creation_order order ps)"

lemma ordered_parents_Nil [simp]: "ordered_parents []"
  by (auto simp: ordered_parents_def creation_order_def intro: exI[of _ "[]"])

lemma ordered_parents_room:
  assumes "ordered_parents ps" "length ps + n \<le> unat (invalid_handle :: u32)"
  shows "ordered_parents (ps @ replicate n None)"
proof -
  obtain order where o: "creation_order order ps" using assms by (auto simp: ordered_parents_def)
  have e: "{i. i < length (ps @ replicate n None) \<and> (ps @ replicate n None) ! i \<noteq> None} =
      {i. i < length ps \<and> ps ! i \<noteq> None}"
  proof (rule set_eqI)
    show "i \<in> {i. i < length (ps @ replicate n None) \<and> (ps @ replicate n None) ! i \<noteq> None} \<longleftrightarrow>
        i \<in> {i. i < length ps \<and> ps ! i \<noteq> None}" for i
      by (cases "i < length ps"; cases "i < length ps + n") (simp_all add: nth_append)
  qed
  have "order ! k < length ps" if "k < length order" for k
    using o that nth_mem[OF that] by (auto simp: creation_order_def)
  then have "creation_order order (ps @ replicate n None)"
    using o unfolding creation_order_def e by (simp add: nth_append)
  then show ?thesis using assms(2) by (auto simp: ordered_parents_def)
qed

lemma ordered_parents_new:
  assumes "ordered_parents ps" "i < length ps" "ps ! i = None"
    and p: "handle_valid p \<Longrightarrow> unat p < length ps \<and> ps ! unat p \<noteq> None"
  shows "ordered_parents (ps[i := Some p])"
proof -
  obtain order where o: "creation_order order ps" using assms by (auto simp: ordered_parents_def)
  have ni: "i \<notin> set order" using o assms(3) by (auto simp: creation_order_def)
  have "set (order @ [i]) = {k. k < length (ps[i := Some p]) \<and> ps[i := Some p] ! k \<noteq> None}"
    using o assms(2) by (auto simp: creation_order_def nth_list_update)
  moreover have "unat q \<in> set (take k (order @ [i]))"
    if k: "k < length (order @ [i])" and q: "ps[i := Some p] ! ((order @ [i]) ! k) = Some q" "handle_valid q" for k q
  proof (cases "k < length order")
    case True
    then have "order ! k \<noteq> i" using ni nth_mem by metis
    then show ?thesis using o q True by (auto simp: creation_order_def nth_append)
  next
    case False
    then have "k = length order" using k by simp
    then show ?thesis using q p o assms(2) by (auto simp: creation_order_def)
  qed
  ultimately have "creation_order (order @ [i]) (ps[i := Some p])"
    using o ni unfolding creation_order_def by auto
  then show ?thesis using assms(1) by (auto simp: ordered_parents_def)
qed

section \<open>The searches end\<close>

text \<open>The class with position \<open>k\<close> in the order is searched in at most \<open>k + 2\<close> steps.\<close>

lemma subscribed_ancestor_ends:
  assumes "creation_order order (map (map_option parent) cs)" "length cs \<le> unat (invalid_handle :: u32)"
  shows "k < length order \<Longrightarrow> unat h = order ! k \<Longrightarrow> Suc k < fuel \<Longrightarrow>
    subscribed_ancestor (\<lambda>i. vector_get i cs) sub parent fuel h \<noteq> None"
proof (induction k arbitrary: h fuel rule: less_induct)
  case (less k)
  obtain n where n: "fuel = Suc (Suc n)" "k \<le> n"
    using less.prems(3) by (metis Suc_le_D Suc_less_eq2 less_Suc_eq_le)
  show ?case
  proof (cases "vector_get h cs")
    case (Some c)
    then have h: "unat h < length cs" "cs ! unat h = Some c"
      by (auto simp: vector_get_def split: if_splits)
    then have pk: "handle_valid (parent c) \<Longrightarrow> unat (parent c) \<in> set (take k order)"
      using assms(1) less.prems(1,2) by (auto simp: creation_order_def)
    have "subscribed_ancestor (\<lambda>i. vector_get i cs) sub parent (Suc n) (parent c) \<noteq> None"
    proof (cases "handle_valid (parent c)")
      case True
      then obtain j where "j < k" "j < length order" "order ! j = unat (parent c)"
        using pk by (auto simp: in_set_conv_nth)
      then show ?thesis using less.IH[of j "parent c" "Suc n"] n(2) by simp
    next
      case False
      then have "vector_get (parent c) cs = None"
        using assms(2) by (simp add: handle_valid_def vector_get_def)
      then show ?thesis by simp
    qed
    then show ?thesis using Some n(1) by simp
  qed (simp add: n(1))
qed

lemma search_ends:
  assumes "ordered_parents (map (map_option parent) cs)"
  shows "subscribed_ancestor (\<lambda>i. vector_get i cs) sub parent (Suc (length cs)) h \<noteq> None"
proof (cases "vector_get h cs")
  case (Some c)
  obtain order where o: "creation_order order (map (map_option parent) cs)"
    and l: "length cs \<le> unat (invalid_handle :: u32)"
    using assms by (auto simp: ordered_parents_def)
  have s: "set order \<subseteq> {..<length cs}" "distinct order" using o by (auto simp: creation_order_def)
  then have "length order \<le> length cs"
    using card_mono[of "{..<length cs}" "set order"] by (simp add: distinct_card)
  moreover have "unat h \<in> set order"
    using o Some by (auto simp: creation_order_def vector_get_def split: if_splits)
  then obtain k where "k < length order" "order ! k = unat h" by (auto simp: in_set_conv_nth)
  ultimately show ?thesis using subscribed_ancestor_ends[OF o l, of k h "Suc (length cs)"] by simp
qed simp


section \<open>The modules keep the order\<close>

definition object_parents :: "FedObjectClass option list \<Rightarrow> u32 option list" where
  "object_parents cs = map (map_option foc_parentObjectClassHandle) cs"

definition interaction_parents :: "FedInteractionClass option list \<Rightarrow> u32 option list" where
  "interaction_parents cs = map (map_option fic_parentInteractionClassHandle) cs"

lemma ordered_parents_vector_room:
  assumes "ordered_parents (map (map_option parent) cs)" "handle_valid (h::u32)"
  shows "ordered_parents (map (map_option parent) (vector_room h cs))"
proof (cases "length cs \<le> unat h")
  case True
  have "h < invalid_handle" using assms(2) by (simp add: handle_valid_def invalid_handle_def word_order.not_eq_extremum)
  then have "unat h + 1 \<le> unat (invalid_handle :: u32)" by (simp add: word_less_nat_alt)
  moreover have "vector_room h cs = cs @ replicate (unat h + 1 - length cs) None"
    using True by (simp add: vector_room_def vec_resize_def)
  ultimately show ?thesis
    using ordered_parents_room[OF assms(1), of "unat h + 1 - length cs"] True by simp
qed (use assms in \<open>simp add: vector_room_def\<close>)

lemma object_parents_insertAttribute [simp]:
  "object_parents (foc_insertAttribute f is cs) = object_parents cs"
proof (induction f "is" cs rule: foc_insertAttribute.induct)
  case (2 f i "is" cs)
  then show ?case
    by (subst foc_insertAttribute.simps)
      (auto simp: object_parents_def map_update foc_addAttribute_def Let_def list_update_same_conv
        split: option.splits)
qed simp

lemma interaction_parents_insertParameter [simp]:
  "interaction_parents (fic_insertParameter p is cs) = interaction_parents cs"
proof (induction p "is" cs rule: fic_insertParameter.induct)
  case (2 p i "is" cs)
  then show ?case
    by (subst fic_insertParameter.simps)
      (auto simp: interaction_parents_def map_update fic_addParameter_def Let_def list_update_same_conv
        split: option.splits)
qed simp

lemma object_parents_insertChild:
  "parent < length cs \<Longrightarrow> i < length cs \<Longrightarrow> object_parents (foc_insertChild parent i cs) = object_parents cs"
  by (cases "cs ! parent"; cases "cs ! i")
    (auto simp: foc_insertChild_def object_parents_def Let_def list_eq_iff_nth_eq nth_list_update)

lemma interaction_parents_insertChild:
  "parent < length cs \<Longrightarrow> i < length cs \<Longrightarrow> interaction_parents (fic_insertChild parent i cs) = interaction_parents cs"
  by (cases "cs ! parent"; cases "cs ! i")
    (auto simp: fic_insertChild_def interaction_parents_def Let_def list_eq_iff_nth_eq nth_list_update)

text \<open>A module is proper if its classes have handles and none is its own parent.\<close>

definition proper_module :: "FOMModule \<Rightarrow> bool" where
  "proper_module m \<longleftrightarrow>
     list_all (\<lambda>c. handle_valid (FOMInteractionClass_interactionClassHandle c) \<and>
        FOMInteractionClass_parentInteractionClassHandle c \<noteq> FOMInteractionClass_interactionClassHandle c)
       (FOMModule_interactionClassList m) \<and>
     list_all (\<lambda>c. handle_valid (FOMObjectClass_objectClassHandle c) \<and>
        FOMObjectClass_parentObjectClassHandle c \<noteq> FOMObjectClass_objectClassHandle c)
       (FOMModule_objectClassList m)"

definition parents_ok :: "FederateModel \<Rightarrow> bool" where
  "parents_ok F \<longleftrightarrow> ordered_parents (object_parents (fm_objectClassVector F)) \<and>
     ordered_parents (interaction_parents (fm_interactionClassVector F))"

lemma fold_option_keeps:
  assumes "\<And>x s s'. x \<in> set xs \<Longrightarrow> P s \<Longrightarrow> f x s = Some s' \<Longrightarrow> P s'" "P s" "fold_option f xs s = Some s'"
  shows "P s'"
proof -
  have n: "fold (\<lambda>x s'. Option.bind s' (f x)) ys None = None" for ys by (induction ys) simp_all
  show ?thesis using assms
  proof (induction xs arbitrary: s)
    case (Cons x xs)
    then obtain r where r: "f x s = Some r" "fold_option f xs r = Some s'"
      using n[of xs] by (cases "f x s") (auto simp: fold_option_def)
    show ?case by (rule Cons.IH[OF _ _ r(2)]) (use Cons.prems r(1) in auto)
  qed (simp add: fold_option_def)
qed

lemma vector_get_set_other:
  assumes "k \<noteq> h"
  shows "vector_get k (vector_set h x xs) = vector_get k xs"
proof -
  have "unat k \<noteq> unat h" using assms unsigned_word_eqI by blast
  then show ?thesis by (simp add: vector_get_def vector_set_def)
qed

lemma createObjectClass_parents:
  assumes "fm_createObjectClass f root F = Some F'"
    and o: "ordered_parents (object_parents (fm_objectClassVector F))"
    and h: "unat (FOMObjectClass_objectClassHandle f) < length (fm_objectClassVector F)"
      "fm_objectClassVector F ! unat (FOMObjectClass_objectClassHandle f) = None"
    and p: "FOMObjectClass_parentObjectClassHandle f \<noteq> FOMObjectClass_objectClassHandle f"
  shows "ordered_parents (object_parents (fm_objectClassVector F'))"
    and "fm_interactionClassVector F' = fm_interactionClassVector F"
proof -
  define h p where "h = FOMObjectClass_objectClassHandle f" and "p = FOMObjectClass_parentObjectClassHandle f"
  define c0 where "c0 = new_object_class\<lparr>foc_classHandle := h\<rparr>"
  define c where "c = c0\<lparr>foc_name := FOMObjectClass_name f, foc_fqName := full_name
      (if handle_valid p then map_option foc_fqName (vector_get p (vector_set h c0 (fm_objectClassVector F))) else None)
      (ascii ''HLAobjectRoot.'') (FOMObjectClass_name f) root, foc_parentObjectClassHandle := p\<rparr>"
  have c: "foc_parentObjectClassHandle c = p" by (simp add: c_def)
  have e: "fm_objectClassVector F' = (if handle_valid p
        then foc_insertChild (unat p) (unat h) (vector_set h c (vector_set h c0 (fm_objectClassVector F)))
        else vector_set h c (vector_set h c0 (fm_objectClassVector F)))"
    and n: "handle_valid p \<Longrightarrow> vector_get p (vector_set h c0 (fm_objectClassVector F)) \<noteq> None"
    using assms(1) by (auto simp: fm_createObjectClass_def Let_def h_def p_def c0_def c_def split: if_splits)
  show "fm_interactionClassVector F' = fm_interactionClassVector F"
    using assms(1) by (auto simp: fm_createObjectClass_def Let_def split: if_splits)
  have q: "unat p < length (fm_objectClassVector F) \<and> fm_objectClassVector F ! unat p \<noteq> None" if "handle_valid p"
    using n[OF that] vector_get_set_other[of p h c0] assms(5) by (auto simp: h_def p_def vector_get_def split: if_splits)
  then have "object_parents (fm_objectClassVector F') = (object_parents (fm_objectClassVector F))[unat h := Some p]"
    using h c by (auto simp: e object_parents_insertChild h_def vector_set_def)
      (simp_all add: object_parents_def map_update)
  moreover have "ordered_parents ((object_parents (fm_objectClassVector F))[unat h := Some p])"
    by (rule ordered_parents_new[OF o]) (use h q in \<open>auto simp: object_parents_def h_def\<close>)
  ultimately show "ordered_parents (object_parents (fm_objectClassVector F'))" by simp
qed

lemma createInteractionClass_parents:
  assumes "fm_createInteractionClass f root F = Some F'"
    and o: "ordered_parents (interaction_parents (fm_interactionClassVector F))"
    and h: "unat (FOMInteractionClass_interactionClassHandle f) < length (fm_interactionClassVector F)"
      "fm_interactionClassVector F ! unat (FOMInteractionClass_interactionClassHandle f) = None"
    and p: "FOMInteractionClass_parentInteractionClassHandle f \<noteq> FOMInteractionClass_interactionClassHandle f"
  shows "ordered_parents (interaction_parents (fm_interactionClassVector F'))"
    and "fm_objectClassVector F' = fm_objectClassVector F"
proof -
  define h p where "h = FOMInteractionClass_interactionClassHandle f"
    and "p = FOMInteractionClass_parentInteractionClassHandle f"
  define c where "c = fm_newInteractionClass f (full_name
      (if handle_valid p then map_option fic_fqName
         (vector_get p (vector_set h new_interaction_class (fm_interactionClassVector F))) else None)
      (ascii ''HLAinteractionRoot.'') (FOMInteractionClass_name f) root)"
  have c: "fic_parentInteractionClassHandle c = p" by (simp add: c_def fm_newInteractionClass_def p_def)
  have e: "fm_interactionClassVector F' = (if handle_valid p
        then fic_insertChild (unat p) (unat h)
          (vector_set h c (vector_set h new_interaction_class (fm_interactionClassVector F)))
        else vector_set h c (vector_set h new_interaction_class (fm_interactionClassVector F)))"
    and n: "handle_valid p \<Longrightarrow> vector_get p (vector_set h new_interaction_class (fm_interactionClassVector F)) \<noteq> None"
    using assms(1) by (auto simp: fm_createInteractionClass_def Let_def h_def p_def c_def split: if_splits)
  show "fm_objectClassVector F' = fm_objectClassVector F"
    using assms(1) by (auto simp: fm_createInteractionClass_def Let_def split: if_splits)
  have q: "unat p < length (fm_interactionClassVector F) \<and> fm_interactionClassVector F ! unat p \<noteq> None"
    if "handle_valid p"
    using n[OF that] vector_get_set_other[of p h new_interaction_class] assms(5)
    by (auto simp: h_def p_def vector_get_def split: if_splits)
  then have "interaction_parents (fm_interactionClassVector F') =
      (interaction_parents (fm_interactionClassVector F))[unat h := Some p]"
    using h c by (auto simp: e interaction_parents_insertChild h_def vector_set_def)
      (simp_all add: interaction_parents_def map_update)
  moreover have "ordered_parents ((interaction_parents (fm_interactionClassVector F))[unat h := Some p])"
    by (rule ordered_parents_new[OF o]) (use h q in \<open>auto simp: interaction_parents_def h_def\<close>)
  ultimately show "ordered_parents (interaction_parents (fm_interactionClassVector F'))" by simp
qed

lemma fold_inserts_parents [simp]:
  "object_parents (fm_objectClassVector (fold (\<lambda>a F. F\<lparr>fm_objectClassVector :=
     foc_insertAttribute a is (fm_objectClassVector F)\<rparr>) as F)) = object_parents (fm_objectClassVector F)"
  "fm_interactionClassVector (fold (\<lambda>a F. F\<lparr>fm_objectClassVector :=
     foc_insertAttribute a is (fm_objectClassVector F)\<rparr>) as F) = fm_interactionClassVector F"
  "interaction_parents (fm_interactionClassVector (fold (\<lambda>p F. F\<lparr>fm_interactionClassVector :=
     fic_insertParameter p is (fm_interactionClassVector F)\<rparr>) ps F)) =
     interaction_parents (fm_interactionClassVector F)"
  "fm_objectClassVector (fold (\<lambda>p F. F\<lparr>fm_interactionClassVector :=
     fic_insertParameter p is (fm_interactionClassVector F)\<rparr>) ps F) = fm_objectClassVector F"
  by (induction "as" arbitrary: F, simp_all) (induction ps arbitrary: F, simp_all)+

lemma unat_less_room: "unat h < length (vector_room h xs)" for h :: u32
  by (simp add: vector_room_def)

lemma insertObjectClass_parents:
  assumes o: "parents_ok F" and f: "handle_valid (FOMObjectClass_objectClassHandle f)"
      "FOMObjectClass_parentObjectClassHandle f \<noteq> FOMObjectClass_objectClassHandle f"
    and i: "fm_insertObjectClass f root F = Some F'"
  shows "parents_ok F'"
proof -
  define h where "h = FOMObjectClass_objectClassHandle f"
  define F1 where "F1 = F\<lparr>fm_objectClassVector := vector_room h (fm_objectClassVector F)\<rparr>"
  have o1: "parents_ok F1"
    using o ordered_parents_vector_room[OF _ f(1), of foc_parentObjectClassHandle "fm_objectClassVector F"]
    by (simp add: parents_ok_def F1_def h_def object_parents_def)
  obtain F2 where F2: "(if fm_objectClassVector F1 ! unat h = None
      then fm_createObjectClass f root F1 else Some F1) = Some F2"
    and F': "F' = fold (\<lambda>a F'. F'\<lparr>fm_objectClassVector := foc_insertAttribute a [unat h] (fm_objectClassVector F')\<rparr>)
      (FOMObjectClass_attributeList f) F2"
    using i unfolding fm_insertObjectClass_def Let_def h_def[symmetric] F1_def[symmetric]
    by (auto simp del: foc_insertAttribute.simps split: option.splits)
  have "parents_ok F2"
  proof (cases "fm_objectClassVector F1 ! unat h = None")
    case True
    then have c: "fm_createObjectClass f root F1 = Some F2" using F2 by simp
    have l: "unat h < length (fm_objectClassVector F1)" by (simp add: F1_def unat_less_room)
    show ?thesis
      using createObjectClass_parents[OF c _ _ _ f(2)] o1 l True by (simp add: parents_ok_def h_def)
  qed (use F2 o1 in auto)
  then show ?thesis by (simp add: F' parents_ok_def del: foc_insertAttribute.simps)
qed

lemma insertInteractionClass_parents:
  assumes o: "parents_ok F" and f: "handle_valid (FOMInteractionClass_interactionClassHandle f)"
      "FOMInteractionClass_parentInteractionClassHandle f \<noteq> FOMInteractionClass_interactionClassHandle f"
    and i: "fm_insertInteractionClass f root F = Some F'"
  shows "parents_ok F'"
proof -
  define h where "h = FOMInteractionClass_interactionClassHandle f"
  define F1 where "F1 = F\<lparr>fm_interactionClassVector := vector_room h (fm_interactionClassVector F)\<rparr>"
  have o1: "parents_ok F1"
    using o ordered_parents_vector_room[OF _ f(1), of fic_parentInteractionClassHandle "fm_interactionClassVector F"]
    by (simp add: parents_ok_def F1_def h_def interaction_parents_def)
  obtain F2 where F2: "(if fm_interactionClassVector F1 ! unat h = None
      then fm_createInteractionClass f root F1 else Some F1) = Some F2"
    and F': "F' = fold (\<lambda>p F'. F'\<lparr>fm_interactionClassVector := fic_insertParameter p [unat h] (fm_interactionClassVector F')\<rparr>)
      (FOMInteractionClass_parameterList f) F2"
    using i unfolding fm_insertInteractionClass_def Let_def h_def[symmetric] F1_def[symmetric]
    by (auto simp del: fic_insertParameter.simps split: option.splits)
  have "parents_ok F2"
  proof (cases "fm_interactionClassVector F1 ! unat h = None")
    case True
    then have c: "fm_createInteractionClass f root F1 = Some F2" using F2 by simp
    have l: "unat h < length (fm_interactionClassVector F1)" by (simp add: F1_def unat_less_room)
    show ?thesis
      using createInteractionClass_parents[OF c _ _ _ f(2)] o1 l True by (simp add: parents_ok_def h_def)
  qed (use F2 o1 in auto)
  then show ?thesis by (simp add: F' parents_ok_def del: fic_insertParameter.simps)
qed

lemma fold_keeps: "(\<And>x F. g (f x F) = g F) \<Longrightarrow> g (fold f xs F) = g F"
  by (induction xs arbitrary: F) simp_all

lemma moduleParts_vectors [simp]:
  "fm_objectClassVector (fm_insertModuleParts m F) = fm_objectClassVector F"
  "fm_interactionClassVector (fm_insertModuleParts m F) = fm_interactionClassVector F"
  by (simp_all add: fm_insertModuleParts_def fold_keeps fm_insertTransportationType_def
      fm_insertDimension_def fm_insertUpdateRate_def)

lemma switches_vectors [simp]:
  "fm_objectClassVector (fold fm_applySwitch sws F) = fm_objectClassVector F"
  "fm_interactionClassVector (fold fm_applySwitch sws F) = fm_interactionClassVector F"
  by (rule fold_keeps; simp add: fm_applySwitch_def split: SwitchesType.splits)+

lemma insertFOMModule_parents:
  assumes "parents_ok F" "proper_module m" "fm_insertFOMModule m F = Some F'"
  shows "parents_ok F'"
proof -
  obtain F1 F2 where F1: "fold_option (\<lambda>c. fm_insertInteractionClass c (FOMModule_artificialInteractionRoot m))
        (FOMModule_interactionClassList m) (fm_insertModuleParts m F) = Some F1"
    and F2: "fold_option (\<lambda>c. fm_insertObjectClass c (FOMModule_artificialObjectRoot m))
        (FOMModule_objectClassList m) F1 = Some F2"
    and F': "fm_objectClassVector F' = fm_objectClassVector F2"
      "fm_interactionClassVector F' = fm_interactionClassVector F2"
    using assms(3) by (auto simp: fm_insertFOMModule_def Let_def split: option.splits)
  have "parents_ok (fm_insertModuleParts m F)" using assms(1) by (simp add: parents_ok_def)
  then have "parents_ok F1"
    by (rule fold_option_keeps[OF _ _ F1, rotated])
      (use assms(2) insertInteractionClass_parents in \<open>auto simp: proper_module_def list_all_iff\<close>)
  then have "parents_ok F2"
    by (rule fold_option_keeps[OF _ _ F2, rotated])
      (use assms(2) insertObjectClass_parents in \<open>auto simp: proper_module_def list_all_iff\<close>)
  then show ?thesis by (simp add: parents_ok_def F')
qed

lemma modules_parents_ok:
  assumes "list_all proper_module ms" "fm_insertFOMModuleList ms F = Some F'" "parents_ok F"
  shows "parents_ok F'"
  by (rule fold_option_keeps[of ms parents_ok, OF _ assms(3) assms(2)[unfolded fm_insertFOMModuleList_def]])
    (use assms(1) insertFOMModule_parents in \<open>auto simp: list_all_iff\<close>)

lemma parents_ok_new [simp]: "parents_ok new_federate_model"
  by (simp add: parents_ok_def new_federate_model_def object_parents_def interaction_parents_def)

lemma known_classes_found:
  assumes "parents_ok F"
  shows "known_object_class h F \<noteq> None" "known_interaction_class h F \<noteq> None"
  using assms search_ends[of foc_parentObjectClassHandle "fm_objectClassVector F"]
    search_ends[of fic_parentInteractionClassHandle "fm_interactionClassVector F"]
  by (simp_all add: parents_ok_def known_object_class_def known_interaction_class_def
      fm_getObjectClass_def fm_getInteractionClass_def object_parents_def interaction_parents_def)

text \<open>The loop that looks whether a class belongs to another one ends as well, and follows no null pointer.\<close>

lemma derived_from_ends:
  assumes "creation_order order (object_parents (fm_objectClassVector F))"
  shows "k < length order \<Longrightarrow> unat h = order ! k \<Longrightarrow> Suc k < fuel \<Longrightarrow> derived_from fuel target h F \<noteq> None"
proof (induction k arbitrary: h fuel rule: less_induct)
  case (less k)
  obtain n where n: "fuel = Suc (Suc n)" "k \<le> n"
    using less.prems(3) by (metis Suc_le_D Suc_less_eq2 less_Suc_eq_le)
  have "unat h \<in> set order" using less.prems(1,2) by simp
  then obtain c where h: "unat h < length (fm_objectClassVector F)" "fm_objectClassVector F ! unat h = Some c"
    using assms by (auto simp: creation_order_def object_parents_def)
  have "derived_from (Suc n) target (foc_parentObjectClassHandle c) F \<noteq> None"
  proof (cases "handle_valid (foc_parentObjectClassHandle c)")
    case True
    then have "unat (foc_parentObjectClassHandle c) \<in> set (take k order)"
      using assms h less.prems(1,2) by (auto simp: creation_order_def object_parents_def)
    then obtain j where "j < k" "j < length order" "order ! j = unat (foc_parentObjectClassHandle c)"
      by (auto simp: in_set_conv_nth)
    then show ?thesis using less.IH[of j "foc_parentObjectClassHandle c" "Suc n"] n(2) by simp
  qed simp
  then show ?case using h unfolding n(1)
    by (subst derived_from.simps)
      (auto simp: fm_getObjectClass_def vector_get_def simp del: derived_from.simps intro: exI[of _ False])
qed

lemma derived_from_found:
  assumes "parents_ok F" "fm_getObjectClass h F = Some c"
  shows "derived_from (Suc (length (fm_objectClassVector F))) target h F \<noteq> None"
proof -
  obtain order where o: "creation_order order (object_parents (fm_objectClassVector F))"
    using assms(1) by (auto simp: parents_ok_def ordered_parents_def)
  then have "set order \<subseteq> {..<length (fm_objectClassVector F)}" "distinct order"
    by (auto simp: creation_order_def object_parents_def)
  then have "length order \<le> length (fm_objectClassVector F)"
    using card_mono[of "{..<length (fm_objectClassVector F)}" "set order"] by (simp add: distinct_card)
  moreover have "unat h \<in> set order"
    using o assms(2)
    by (auto simp: creation_order_def object_parents_def fm_getObjectClass_def vector_get_def split: if_splits)
  then obtain k where "k < length order" "order ! k = unat h" by (auto simp: in_set_conv_nth)
  ultimately show ?thesis
    using derived_from_ends[OF o, of k h "Suc (length (fm_objectClassVector F))" target]
    by (simp del: derived_from.simps)
qed

end
