(* ===== verification/Ambassador_Objects.thy ===== *)
theory Ambassador_Objects
  imports Ambassador_Declare
begin

text \<open>
  Object management of the ambassador (\<open>src/OpenRTI/Ambassador.h\<close>): names, registration, updates and
  interactions, deletion, transportation and order types, requests.
\<close>

section \<open>Names\<close>

definition reserved_for_rti :: "String \<Rightarrow> bool" where
  "reserved_for_rti name \<longleftrightarrow> take 3 name = ascii ''HLA''"

definition name_request :: "FederateModel \<Rightarrow> String \<Rightarrow> message" where
  "name_request F name = ReserveObjectInstanceNameRequestMessage
     \<lparr>ReserveObjectInstanceNameRequestMessage_federationHandle = fm_federationHandle F,
      ReserveObjectInstanceNameRequestMessage_federateHandle = fm_federateHandle F,
      ReserveObjectInstanceNameRequestMessage_name = name,
      ReserveObjectInstanceNameRequestMessage_isInternal = False\<rparr>"

definition release_names_message :: "FederateModel \<Rightarrow> ObjectInstanceHandleVector \<Rightarrow> message" where
  "release_names_message F hs = ReleaseMultipleObjectInstanceNameHandlePairsMessage
     \<lparr>ReleaseMultipleObjectInstanceNameHandlePairsMessage_federationHandle = fm_federationHandle F,
      ReleaseMultipleObjectInstanceNameHandlePairsMessage_objectInstanceHandleVector = hs\<rparr>"

definition reserveObjectInstanceName :: "String \<Rightarrow> unit service" where
  "reserveObjectInstanceName name =
     as_member (\<lambda>F. checked IllegalName (name \<noteq> []) (checked IllegalName (\<not> reserved_for_rti name)
       (\<lambda>A. return () (send (name_request F name) A))))"

definition releaseObjectInstanceName :: "String \<Rightarrow> unit service" where
  "releaseObjectInstanceName name =
     as_member (\<lambda>F A. case fm_takeReservedObjectInstanceName name F of (h, F') \<Rightarrow>
       (let A1 = A\<lparr>federate := Some F'\<rparr>
        in if \<not> handle_valid h then throw (ObjectInstanceNameNotReserved name) A1
           else return () (send (release_names_message F [h]) A1)))"

text \<open>The set of names is iterated in its order, here it is the sorted list of its elements.\<close>

definition illegal_name :: "String \<Rightarrow> rti_exception option" where
  "illegal_name name = (if name = [] \<or> reserved_for_rti name then Some IllegalName else None)"

definition reserveMultipleObjectInstanceName :: "String list \<Rightarrow> unit service" where
  "reserveMultipleObjectInstanceName names =
     as_member (\<lambda>F. checked NameSetWasEmpty (names \<noteq> []) (check_each illegal_name names (\<lambda>A.
       return () (send (ReserveMultipleObjectInstanceNameRequestMessage
         \<lparr>ReserveMultipleObjectInstanceNameRequestMessage_federationHandle = fm_federationHandle F,
          ReserveMultipleObjectInstanceNameRequestMessage_federateHandle = fm_federateHandle F,
          ReserveMultipleObjectInstanceNameRequestMessage_nameList = names\<rparr>) A))))"

definition name_not_reserved :: "FederateModel \<Rightarrow> String \<Rightarrow> rti_exception option" where
  "name_not_reserved F name =
     (if \<not> fm_objectInstanceNameReserved name F then Some (ObjectInstanceNameNotReserved name) else None)"

definition releaseMultipleObjectInstanceName :: "String list \<Rightarrow> unit service" where
  "releaseMultipleObjectInstanceName names =
     as_member (\<lambda>F. check_each (name_not_reserved F) names (\<lambda>A.
       case fold (\<lambda>name (hs, F'). case fm_takeReservedObjectInstanceName name F' of (h, F'') \<Rightarrow> (hs @ [h], F''))
              names ([], F) of (hs, F') \<Rightarrow>
         return () (send (release_names_message F hs) (A\<lparr>federate := Some F'\<rparr>))))"

section \<open>Registration\<close>

text \<open>
  A handle with a generated name from the pool. One more is requested each time; when the pool is empty
  the ambassador handles messages until it gets some.
\<close>

fun wait_for_handles :: "(String \<Rightarrow> bool) \<Rightarrow> message list \<Rightarrow> unit service" where
  "wait_for_handles timeFactory ms A =
     (if (case federate A of None \<Rightarrow> False | Some F \<Rightarrow> fm_haveFreeObjectInstanceHandleNamePair F)
      then return () (A\<lparr>incoming := ms\<rparr>)
      else case ms of
        [] \<Rightarrow> throw RTIinternalError (A\<lparr>incoming := []\<rparr>)
      | m # ms' \<Rightarrow> (case acceptInternalMessage timeFactory m (A\<lparr>incoming := ms'\<rparr>) of
          (Inl e, A') \<Rightarrow> (Inl e, A')
        | (Inr _, A') \<Rightarrow> wait_for_handles timeFactory ms' A'))"

declare wait_for_handles.simps [simp del]

definition getFreeObjectInstanceHandleNamePair ::
    "(String \<Rightarrow> bool) \<Rightarrow> FederateModel \<Rightarrow> ObjectInstanceHandleNamePair service" where
  "getFreeObjectInstanceHandleNamePair timeFactory F A =
     bind (\<lambda>A'. wait_for_handles timeFactory (incoming A') A')
       (\<lambda>_ A'. case federate A' of
          None \<Rightarrow> throw NullPointer A'
        | Some F' \<Rightarrow> (case fm_takeFreeObjectInstanceHandleNamePair F' of (pair, F'') \<Rightarrow>
            return pair (A'\<lparr>federate := Some F''\<rparr>)))
       (requestObjectInstanceHandles 1 F A)"

definition published_attributes :: "FedObjectClass \<Rightarrow> AttributeHandleVector" where
  "published_attributes c =
     filter (\<lambda>a. foc_isAttributePublished a c) (map of_nat [0..<unat (foc_getNumAttributes c)])"

definition insert_instance_message ::
    "FederateModel \<Rightarrow> ObjectClassHandle \<Rightarrow> ObjectInstanceHandle \<Rightarrow> String \<Rightarrow> AttributeHandleVector \<Rightarrow> message" where
  "insert_instance_message F c h name attrs = InsertObjectInstanceMessage
     \<lparr>InsertObjectInstanceMessage_federationHandle = fm_federationHandle F,
      InsertObjectInstanceMessage_objectClassHandle = c,
      InsertObjectInstanceMessage_objectInstanceHandle = h,
      InsertObjectInstanceMessage_name = name,
      InsertObjectInstanceMessage_attributeStateVector =
        map (\<lambda>a. \<lparr>AttributeState_attributeHandle = a, AttributeState_ownerFederate = fm_federateHandle F\<rparr>) attrs\<rparr>"

text \<open>The second half of both services: the instance is inserted, told, and the advisories are queued.\<close>

definition insert_and_tell ::
    "ObjectClassHandle \<Rightarrow> ObjectInstanceHandle \<Rightarrow> String \<Rightarrow> ObjectInstanceHandle service" where
  "insert_and_tell c h name A = (case federate A of
     None \<Rightarrow> throw NullPointer A
   | Some F \<Rightarrow> (case (fm_insertObjectInstance h name c True F, fm_getObjectClass c F) of
       (Some F', Some oc) \<Rightarrow>
         (if \<not> all_slots oc then throw NullPointer A
          else let attrs = published_attributes oc;
                   A1 = send (insert_instance_message F c h name attrs) (A\<lparr>federate := Some F'\<rparr>);
                   A2 = (if attrs \<noteq> [] \<and> fm_attributeScopeAdvisorySwitchEnabled F
                         then queueCallback (AttributesInScope h attrs True) A1 else A1);
                   A3 = (if attrs \<noteq> [] \<and> fm_attributeRelevanceAdvisorySwitchEnabled F
                         then queueCallback (TurnUpdatesOnForInstance h attrs True) A2 else A2)
               in return h A3)
     | _ \<Rightarrow> throw NullPointer A))"

definition registerObjectInstance ::
    "(String \<Rightarrow> bool) \<Rightarrow> ObjectClassHandle \<Rightarrow> ObjectInstanceHandle service" where
  "registerObjectInstance timeFactory c =
     as_member (\<lambda>F. found (ObjectClassNotDefined c) (fm_getObjectClass c F) (\<lambda>oc.
       checked NullPointer (has_slot_0 oc)
        (checked (ObjectClassNotPublished (foc_name oc)) (foc_getEffectivePublicationType oc = Published)
          (bind (getFreeObjectInstanceHandleNamePair timeFactory F)
            (\<lambda>(h, name). insert_and_tell c h name)))))"

text \<open>
  The name of the instance is given. It was reserved before, or it is reserved now, in a request whose
  answer the ambassador waits for.
\<close>

definition reserve_functor ::
    "(String \<Rightarrow> bool) \<Rightarrow> String \<Rightarrow> message \<Rightarrow> ObjectInstanceHandle option service" where
  "reserve_functor timeFactory name m = (case m of
     ConnectionLostMessage _ \<Rightarrow> hand_over timeFactory m (Some invalid_handle)
   | ReserveObjectInstanceNameResponseMessage r \<Rightarrow>
       (if name = snd (ReserveObjectInstanceNameResponseMessage_objectInstanceHandleNamePair r)
        then return (Some (fst (ReserveObjectInstanceNameResponseMessage_objectInstanceHandleNamePair r)))
        else hand_over timeFactory m None)
   | _ \<Rightarrow> hand_over timeFactory m None)"

definition dispatchWaitReserveObjectInstanceName ::
    "(String \<Rightarrow> bool) \<Rightarrow> FederateModel \<Rightarrow> String \<Rightarrow> ObjectInstanceHandle service" where
  "dispatchWaitReserveObjectInstanceName timeFactory F name A =
     bind (\<lambda>A'. wait_for (reserve_functor timeFactory name) (incoming A') A')
       (\<lambda>r. return (case r of None \<Rightarrow> invalid_handle | Some h \<Rightarrow> h))
       (send (name_request F name) A)"

definition registerNamedObjectInstance ::
    "(String \<Rightarrow> bool) \<Rightarrow> ObjectClassHandle \<Rightarrow> String \<Rightarrow> bool \<Rightarrow> ObjectInstanceHandle service" where
  "registerNamedObjectInstance timeFactory c name allowUnreservedObjectNames =
     as_member (\<lambda>F. found (ObjectClassNotDefined c) (fm_getObjectClass c F) (\<lambda>oc.
       checked NullPointer (has_slot_0 oc)
        (checked (ObjectClassNotPublished (foc_name oc)) (foc_getEffectivePublicationType oc = Published)
          (checked (ObjectInstanceNameNotReserved name) (name \<noteq> []) (\<lambda>A.
             case fm_takeReservedObjectInstanceName name F of (h, F') \<Rightarrow>
               (let A1 = A\<lparr>federate := Some F'\<rparr>
                in if handle_valid h then insert_and_tell c h name A1
                   else if \<not> allowUnreservedObjectNames then throw (ObjectInstanceNameNotReserved name) A1
                   else bind (dispatchWaitReserveObjectInstanceName timeFactory F' name)
                     (\<lambda>h'. if \<not> handle_valid h' then throw (ObjectInstanceNameInUse name)
                           else insert_and_tell c h' name) A1))))))"

section \<open>Updates and interactions\<close>

definition owned_attribute :: "FedObjectInstance \<Rightarrow> AttributeHandle \<Rightarrow> rti_exception option" where
  "owned_attribute oi a = (case foi_getInstanceAttribute a oi of
     None \<Rightarrow> Some (AttributeNotDefined a)
   | Some ia \<Rightarrow> (if \<not> fia_isOwnedByFederate ia then Some (AttributeNotOwned a) else None))"

text \<open>The passel of the attributes with a transportation type.\<close>

definition transportation_of :: "FedObjectInstance \<Rightarrow> AttributeHandle \<Rightarrow> TransportationType" where
  "transportation_of oi a = fia_transportationType (the (foi_getInstanceAttribute a oi))"

definition passel :: "FedObjectInstance \<Rightarrow> TransportationType \<Rightarrow> AttributeValueVector \<Rightarrow> AttributeValueVector" where
  "passel oi t attributeValues =
     filter (\<lambda>av. transportation_of oi (AttributeValue_attributeHandle av) = t) attributeValues"

text \<open>The tag is swapped into the first message; a second one gets what is left, an empty tag.\<close>

fun send_passels ::
    "('p \<Rightarrow> AttributeValueVector \<Rightarrow> vld \<Rightarrow> Ambassador \<Rightarrow> Ambassador) \<Rightarrow> ('p \<times> AttributeValueVector) list
      \<Rightarrow> vld \<Rightarrow> Ambassador \<Rightarrow> Ambassador" where
  "send_passels f [] tag A = A"
| "send_passels f ((p, avs) # rest) tag A =
     (if avs = [] then send_passels f rest tag A else send_passels f rest [] (f p avs tag A))"

definition update_message ::
    "FederateModel \<Rightarrow> ObjectInstanceHandle \<Rightarrow> TransportationType \<Rightarrow> AttributeValueVector \<Rightarrow> vld \<Rightarrow> message" where
  "update_message F h t avs tag = AttributeUpdateMessage
     \<lparr>AttributeUpdateMessage_federationHandle = fm_federationHandle F,
      AttributeUpdateMessage_federateHandle = fm_federateHandle F,
      AttributeUpdateMessage_objectInstanceHandle = h,
      AttributeUpdateMessage_tag = tag,
      AttributeUpdateMessage_transportationType = t,
      AttributeUpdateMessage_attributeValues = avs\<rparr>"

text \<open>Whether updates of an instance come back to the federate itself.\<close>

definition delivers_to_self :: "FederateModel \<Rightarrow> FedObjectInstance \<Rightarrow> bool option" where
  "delivers_to_self F oi =
     (if foi_subscriptionType oi = Unsubscribed then Some False
      else map_option foc_deliverToSelf (fm_getObjectClass (foi_objectClassHandle oi) F))"

definition updateAttributeValues ::
    "ObjectInstanceHandle \<Rightarrow> AttributeValueVector \<Rightarrow> vld \<Rightarrow> unit service" where
  "updateAttributeValues h attributeValues tag =
     as_member (\<lambda>F. found (ObjectInstanceNotKnown h) (fm_getObjectInstance h F) (\<lambda>oi.
       check_each (\<lambda>av. owned_attribute oi (AttributeValue_attributeHandle av)) attributeValues (\<lambda>A.
         if attributeValues = [] then return () A
         else case delivers_to_self F oi of
           None \<Rightarrow> throw NullPointer A
         | Some self \<Rightarrow> return () (send_passels (\<lambda>t avs tg A'.
               (let m = update_message F h t avs tg
                in send m (if self then queueReceiveOrderMessage m A' else A')))
             [(RELIABLE, passel oi RELIABLE attributeValues), (BEST_EFFORT, passel oi BEST_EFFORT attributeValues)]
             tag A))))"

text \<open>
  What a service with a time stamp asks the time management: whether it regulates, whether the time has
  passed already, and the encoded time. Without time management it follows a null pointer.
\<close>

record time_answers =
  regulating :: bool
  alreadyPassed :: bool
  encodedTime :: vld

definition with_time :: "'a service \<Rightarrow> 'a service" where
  "with_time k A = (if timeCalls A = None then throw NullPointer A else k A)"

definition getNextMessageRetractionHandle :: "FederateModel \<Rightarrow> MessageRetractionHandle service" where
  "getNextMessageRetractionHandle F A =
     return (push_bit 32 (ucast (fm_federateHandle F)) OR ucast (messageRetractionSerial A))
       (A\<lparr>messageRetractionSerial := messageRetractionSerial A + 1\<rparr>)"

definition order_of :: "bool \<Rightarrow> FedObjectInstance \<Rightarrow> AttributeHandle \<Rightarrow> OrderType" where
  "order_of reg oi a = (if reg then fia_orderType (the (foi_getInstanceAttribute a oi)) else RECEIVE)"

definition queue_to_self :: "OrderType \<Rightarrow> vld \<Rightarrow> message \<Rightarrow> Ambassador \<Rightarrow> Ambassador" where
  "queue_to_self order timeStamp m A =
     (if order = TIMESTAMP then queueTimeStampedMessage timeStamp m True A else queueReceiveOrderMessage m A)"

definition timed_update_message ::
    "FederateModel \<Rightarrow> ObjectInstanceHandle \<Rightarrow> vld \<Rightarrow> MessageRetractionHandle \<Rightarrow> TransportationType \<Rightarrow> OrderType
      \<Rightarrow> AttributeValueVector \<Rightarrow> vld \<Rightarrow> message" where
  "timed_update_message F h timeStamp r t order avs tag = TimeStampedAttributeUpdateMessage
     \<lparr>TimeStampedAttributeUpdateMessage_federationHandle = fm_federationHandle F,
      TimeStampedAttributeUpdateMessage_federateHandle = fm_federateHandle F,
      TimeStampedAttributeUpdateMessage_objectInstanceHandle = h,
      TimeStampedAttributeUpdateMessage_tag = tag,
      TimeStampedAttributeUpdateMessage_timeStamp = timeStamp,
      TimeStampedAttributeUpdateMessage_messageRetractionHandle = r,
      TimeStampedAttributeUpdateMessage_orderType = order,
      TimeStampedAttributeUpdateMessage_transportationType = t,
      TimeStampedAttributeUpdateMessage_attributeValues = avs\<rparr>"

definition timed_passel ::
    "FedObjectInstance \<Rightarrow> bool \<Rightarrow> TransportationType \<Rightarrow> OrderType \<Rightarrow> AttributeValueVector \<Rightarrow> AttributeValueVector" where
  "timed_passel oi reg t order avs =
     filter (\<lambda>av. order_of reg oi (AttributeValue_attributeHandle av) = order) (passel oi t avs)"

definition updateAttributeValuesAt ::
    "ObjectInstanceHandle \<Rightarrow> AttributeValueVector \<Rightarrow> vld \<Rightarrow> time_answers \<Rightarrow> MessageRetractionHandle service" where
  "updateAttributeValuesAt h attributeValues tag tm =
     as_member (\<lambda>F. found (ObjectInstanceNotKnown h) (fm_getObjectInstance h F) (\<lambda>oi.
       with_time (check_each (\<lambda>av. owned_attribute oi (AttributeValue_attributeHandle av)) attributeValues
         (checked InvalidLogicalTime (\<not> (regulating tm \<and> alreadyPassed tm))
           (bind (getNextMessageRetractionHandle F) (\<lambda>r A.
             if attributeValues = [] then return r A
             else case delivers_to_self F oi of
               None \<Rightarrow> throw NullPointer A
             | Some self \<Rightarrow> return r (send_passels (\<lambda>(t, order) avs tg A'.
                   (let m = timed_update_message F h (encodedTime tm) r t order avs tg
                    in send m (if self then queue_to_self order (encodedTime tm) m A' else A')))
                 (map (\<lambda>(t, order). ((t, order), timed_passel oi (regulating tm) t order attributeValues))
                    [(RELIABLE, RECEIVE), (RELIABLE, TIMESTAMP), (BEST_EFFORT, RECEIVE), (BEST_EFFORT, TIMESTAMP)])
                 tag A)))))))"

definition parameter_defined :: "FedInteractionClass \<Rightarrow> ParameterValue \<Rightarrow> rti_exception option" where
  "parameter_defined c pv = (if fic_getParameter (ParameterValue_parameterHandle pv) c = None
     then Some (InteractionParameterNotDefined (ParameterValue_parameterHandle pv)) else None)"

definition self_interaction :: "FedInteractionClass \<Rightarrow> bool" where
  "self_interaction c \<longleftrightarrow> fps_subscriptionType c \<noteq> Unsubscribed \<and> fic_deliverToSelf c"

definition interaction_message ::
    "FederateModel \<Rightarrow> InteractionClassHandle \<Rightarrow> FedInteractionClass \<Rightarrow> ParameterValueVector \<Rightarrow> vld \<Rightarrow> message" where
  "interaction_message F h c pvs tag = InteractionMessage
     \<lparr>InteractionMessage_federationHandle = fm_federationHandle F,
      InteractionMessage_federateHandle = fm_federateHandle F,
      InteractionMessage_interactionClassHandle = h,
      InteractionMessage_transportationType = fps_transportationType c,
      InteractionMessage_tag = tag,
      InteractionMessage_parameterValues = pvs\<rparr>"

definition sendInteraction ::
    "InteractionClassHandle \<Rightarrow> ParameterValueVector \<Rightarrow> vld \<Rightarrow> unit service" where
  "sendInteraction h pvs tag =
     as_member (\<lambda>F. found (InteractionClassNotDefined h) (fm_getInteractionClass h F) (\<lambda>c.
       checked (InteractionClassNotPublished h) (fps_isPublished c) (check_each (parameter_defined c) pvs (\<lambda>A.
         let m = interaction_message F h c pvs tag
         in return () (send m (if self_interaction c then queueReceiveOrderMessage m A else A))))))"

definition timed_interaction_message ::
    "FederateModel \<Rightarrow> InteractionClassHandle \<Rightarrow> FedInteractionClass \<Rightarrow> OrderType \<Rightarrow> ParameterValueVector \<Rightarrow> vld
      \<Rightarrow> vld \<Rightarrow> MessageRetractionHandle \<Rightarrow> message" where
  "timed_interaction_message F h c order pvs tag timeStamp r = TimeStampedInteractionMessage
     \<lparr>TimeStampedInteractionMessage_federationHandle = fm_federationHandle F,
      TimeStampedInteractionMessage_federateHandle = fm_federateHandle F,
      TimeStampedInteractionMessage_interactionClassHandle = h,
      TimeStampedInteractionMessage_orderType = order,
      TimeStampedInteractionMessage_transportationType = fps_transportationType c,
      TimeStampedInteractionMessage_tag = tag,
      TimeStampedInteractionMessage_timeStamp = timeStamp,
      TimeStampedInteractionMessage_messageRetractionHandle = r,
      TimeStampedInteractionMessage_parameterValues = pvs\<rparr>"

definition sendInteractionAt ::
    "InteractionClassHandle \<Rightarrow> ParameterValueVector \<Rightarrow> vld \<Rightarrow> time_answers \<Rightarrow> MessageRetractionHandle service" where
  "sendInteractionAt h pvs tag tm =
     as_member (\<lambda>F. found (InteractionClassNotDefined h) (fm_getInteractionClass h F) (\<lambda>c.
       checked (InteractionClassNotPublished h) (fps_isPublished c) (check_each (parameter_defined c) pvs
        (with_time (checked InvalidLogicalTime (\<not> (regulating tm \<and> alreadyPassed tm))
          (bind (getNextMessageRetractionHandle F) (\<lambda>r A.
             let order = (if regulating tm then fps_orderType c else RECEIVE);
                 m = timed_interaction_message F h c order pvs tag (encodedTime tm) r
             in return r (send m (if self_interaction c then queue_to_self order (encodedTime tm) m A else A)))))))))"

section \<open>Deletion\<close>

definition delete_message :: "FederateModel \<Rightarrow> ObjectInstanceHandle \<Rightarrow> vld \<Rightarrow> message" where
  "delete_message F h tag = DeleteObjectInstanceMessage
     \<lparr>DeleteObjectInstanceMessage_federationHandle = fm_federationHandle F,
      DeleteObjectInstanceMessage_federateHandle = fm_federateHandle F,
      DeleteObjectInstanceMessage_objectInstanceHandle = h,
      DeleteObjectInstanceMessage_tag = tag\<rparr>"

definition deleteObjectInstance :: "ObjectInstanceHandle \<Rightarrow> vld \<Rightarrow> unit service" where
  "deleteObjectInstance h tag =
     as_member (\<lambda>F. found (ObjectInstanceNotKnown h) (fm_getObjectInstance h F) (\<lambda>oi.
       checked (DeletePrivilegeNotHeld h) (foi_isOwnedByFederate oi) (\<lambda>A.
         return () (releaseObjectInstance h F (send (delete_message F h tag) A)))))"

text \<open>The deletion at a time is done at once; the retraction handle it gives is the invalid one.\<close>

definition deleteObjectInstanceAt ::
    "ObjectInstanceHandle \<Rightarrow> vld \<Rightarrow> time_answers \<Rightarrow> MessageRetractionHandle service" where
  "deleteObjectInstanceAt h tag tm =
     as_member (\<lambda>F. found (ObjectInstanceNotKnown h) (fm_getObjectInstance h F) (\<lambda>oi.
       found (DeletePrivilegeNotHeld h) (foi_getInstanceAttribute 0 oi) (\<lambda>ia.
       checked (DeletePrivilegeNotHeld h) (foi_isOwnedByFederate oi)
       (with_time (checked InvalidLogicalTime (\<not> (regulating tm \<and> alreadyPassed tm))
         (bind (getNextMessageRetractionHandle F) (\<lambda>r A.
            return invalid_handle (releaseObjectInstance h F (send (TimeStampedDeleteObjectInstanceMessage
              \<lparr>TimeStampedDeleteObjectInstanceMessage_federationHandle = fm_federationHandle F,
               TimeStampedDeleteObjectInstanceMessage_federateHandle = fm_federateHandle F,
               TimeStampedDeleteObjectInstanceMessage_objectInstanceHandle = h,
               TimeStampedDeleteObjectInstanceMessage_orderType =
                 (if regulating tm then fia_orderType ia else RECEIVE),
               TimeStampedDeleteObjectInstanceMessage_tag = tag,
               TimeStampedDeleteObjectInstanceMessage_timeStamp = encodedTime tm,
               TimeStampedDeleteObjectInstanceMessage_messageRetractionHandle = r\<rparr>) A)))))))))"

definition localDeleteObjectInstance :: "ObjectInstanceHandle \<Rightarrow> unit service" where
  "localDeleteObjectInstance h =
     as_member (\<lambda>F. found (ObjectInstanceNotKnown h) (fm_getObjectInstance h F) (\<lambda>oi.
       checked (FederateOwnsAttributes h) (\<not> foi_ownsAnyAttribute oi) (throw RTIinternalError)))"

section \<open>Transportation and order types\<close>

definition change_instance_attributes ::
    "(FedInstanceAttribute \<Rightarrow> FedInstanceAttribute) \<Rightarrow> AttributeHandleVector \<Rightarrow> FedObjectInstance \<Rightarrow> FedObjectInstance" where
  "change_instance_attributes g attrs oi = oi\<lparr>foi_instanceAttributeVector :=
     fold (\<lambda>a v. v[unat a := map_option g (v ! unat a)]) attrs (foi_instanceAttributeVector oi)\<rparr>"

definition changeAttributeTransportationType ::
    "ObjectInstanceHandle \<Rightarrow> AttributeHandleVector \<Rightarrow> TransportationType \<Rightarrow> unit service" where
  "changeAttributeTransportationType h attrs t =
     as_member (\<lambda>F. found (ObjectInstanceNotKnown h) (fm_getObjectInstance h F) (\<lambda>oi.
       check_each (owned_attribute oi) attrs (\<lambda>A. return () (update_federate (put_object_instance h
         (change_instance_attributes (\<lambda>ia. ia\<lparr>fia_transportationType := t\<rparr>) attrs oi)) A))))"

definition changeAttributeOrderType ::
    "ObjectInstanceHandle \<Rightarrow> AttributeHandleVector \<Rightarrow> OrderType \<Rightarrow> unit service" where
  "changeAttributeOrderType h attrs order =
     as_member (\<lambda>F. found (ObjectInstanceNotKnown h) (fm_getObjectInstance h F) (\<lambda>oi.
       check_each (owned_attribute oi) attrs (\<lambda>A. return () (update_federate (put_object_instance h
         (change_instance_attributes (\<lambda>ia. ia\<lparr>fia_orderType := order\<rparr>) attrs oi)) A))))"

definition changeInteractionTransportationType ::
    "InteractionClassHandle \<Rightarrow> TransportationType \<Rightarrow> unit service" where
  "changeInteractionTransportationType h t =
     as_member (\<lambda>F. found (InteractionClassNotDefined h) (fm_getInteractionClass h F) (\<lambda>c.
       checked (InteractionClassNameNotPublished (fps_name c)) (fps_isPublished c) (\<lambda>A.
         return () (update_federate (put_interaction_class h (c\<lparr>fps_transportationType := t\<rparr>)) A))))"

definition changeInteractionOrderType :: "InteractionClassHandle \<Rightarrow> OrderType \<Rightarrow> unit service" where
  "changeInteractionOrderType h order =
     as_member (\<lambda>F. found (InteractionClassNotDefined h) (fm_getInteractionClass h F) (\<lambda>c.
       checked (InteractionClassNameNotPublished (fps_name c)) (fps_isPublished c) (\<lambda>A.
         return () (update_federate (put_interaction_class h (c\<lparr>fps_orderType := order\<rparr>)) A))))"

section \<open>Requests\<close>

definition instance_attribute_defined :: "FedObjectInstance \<Rightarrow> AttributeHandle \<Rightarrow> rti_exception option" where
  "instance_attribute_defined oi a =
     (if foi_getInstanceAttribute a oi = None then Some (AttributeNotDefined a) else None)"

text \<open>The request of an instance subscribes the instance again.\<close>

definition requestAttributeValueUpdate ::
    "ObjectInstanceHandle \<Rightarrow> AttributeHandleVector \<Rightarrow> vld \<Rightarrow> unit service" where
  "requestAttributeValueUpdate h attrs tag =
     as_member (\<lambda>F. found (ObjectInstanceNotKnown h) (fm_getObjectInstance h F) (\<lambda>oi.
       check_each (instance_attribute_defined oi) attrs (\<lambda>A.
         return () (send (RequestAttributeUpdateMessage
           \<lparr>RequestAttributeUpdateMessage_federationHandle = fm_federationHandle F,
            RequestAttributeUpdateMessage_objectInstanceHandle = h,
            RequestAttributeUpdateMessage_attributeHandles = attrs,
            RequestAttributeUpdateMessage_tag = tag\<rparr>)
           (update_federate (put_object_instance h (snd (foi_setSubscriptionType SubscribedPassive oi))) A)))))"

definition requestClassAttributeValueUpdate ::
    "ObjectClassHandle \<Rightarrow> AttributeHandleVector \<Rightarrow> vld \<Rightarrow> unit service" where
  "requestClassAttributeValueUpdate h attrs tag =
     as_member (\<lambda>F. found (ObjectClassNotDefined h) (fm_getObjectClass h F) (\<lambda>c.
       check_each (attribute_defined c) attrs (\<lambda>A. return () (send (RequestClassAttributeUpdateMessage
         \<lparr>RequestClassAttributeUpdateMessage_federationHandle = fm_federationHandle F,
          RequestClassAttributeUpdateMessage_objectClassHandle = h,
          RequestClassAttributeUpdateMessage_attributeHandles = attrs,
          RequestClassAttributeUpdateMessage_tag = tag\<rparr>) A))))"

definition queryAttributeOwnership :: "ObjectInstanceHandle \<Rightarrow> AttributeHandle \<Rightarrow> unit service" where
  "queryAttributeOwnership h a =
     as_member (\<lambda>F. found (ObjectInstanceNotKnown h) (fm_getObjectInstance h F) (\<lambda>oi.
       found (AttributeNotDefined a) (foi_getInstanceAttribute a oi) (\<lambda>_ A.
         return () (send (QueryAttributeOwnershipRequestMessage
           \<lparr>QueryAttributeOwnershipRequestMessage_federationHandle = fm_federationHandle F,
            QueryAttributeOwnershipRequestMessage_objectInstanceHandle = h,
            QueryAttributeOwnershipRequestMessage_attributeHandle = a\<rparr>) A))))"

definition isAttributeOwnedByFederate :: "ObjectInstanceHandle \<Rightarrow> AttributeHandle \<Rightarrow> bool service" where
  "isAttributeOwnedByFederate h a =
     as_member (\<lambda>F. found (ObjectInstanceNotKnown h) (fm_getObjectInstance h F) (\<lambda>oi.
       found (AttributeNotDefined a) (foi_getInstanceAttribute a oi) (\<lambda>ia.
         return (fia_isOwnedByFederate ia))))"

definition retract :: "MessageRetractionHandle \<Rightarrow> bool \<Rightarrow> unit service" where
  "retract r timeRegulationEnabled =
     as_member (\<lambda>F. checked (InvalidMessageRetractionHandle r) (handle_valid r)
       (checked (InvalidMessageRetractionHandle r) (ucast (drop_bit 32 r) = fm_federateHandle F)
         (with_time (checked TimeRegulationIsNotEnabled timeRegulationEnabled (throw RTIinternalError)))))"

end
