(* ===== verification/Ambassador_Properties.thy ===== *)
theory Ambassador_Properties
  imports Ambassador_Mirror Ambassador_Parents Ambassador_Objects
begin

text \<open>
  The properties of the ambassador of a federate: the server knows what the federate declares, objects and
  interactions are reported for the nearest class the federate subscribes, an update reaches the server
  with all its values.
\<close>

section \<open>Declarations\<close>

text \<open>A class no declaration was made for.\<close>

definition undeclared :: "FedObjectClass \<Rightarrow> bool" where
  "undeclared c \<longleftrightarrow> class_ok c \<and> foc_publicationType c = Unpublished \<and> foc_subscriptionType c = Unsubscribed \<and>
     list_all (\<lambda>a. case a of None \<Rightarrow> True
        | Some a \<Rightarrow> fps_publicationType a = Unpublished \<and> fps_subscriptionType a = Unsubscribed)
       (foc_attributeVector c)"

definition undeclared_federate :: "FederateModel \<Rightarrow> bool" where
  "undeclared_federate F \<longleftrightarrow> list_all (\<lambda>c. case c of None \<Rightarrow> True | Some c \<Rightarrow> undeclared c) (fm_objectClassVector F)"

lemma undeclared_mirrored:
  assumes "undeclared c"
  shows "mirrored_class [] h c"
proof -
  have s: "published_at a c = Unpublished \<and> subscribed_at a c = Unsubscribed" if "has_attribute a c" for a
  proof -
    have "unat a < length (foc_attributeVector c)" "foc_attributeVector c ! unat a \<noteq> None"
      using that by (auto simp: has_attribute_def foc_getAttribute_def vector_get_def split: if_splits)
    then show ?thesis using assms by (auto simp: undeclared_def list_all_length attribute_at_def)
  qed
  then show ?thesis using assms
    by (auto simp: mirrored_class_def undeclared_def subscribed_with_class_def told_publication_def
        told_subscription_def foc_getEffectiveAttributePublicationType_def
        foc_getEffectiveAttributeSubscriptionType_def Let_def)
qed

lemma undeclared_federate_mirrored:
  assumes "federate A = Some F" "outgoing A = []" "undeclared_federate F"
  shows "mirrored A"
proof -
  have "undeclared c" if "fm_getObjectClass h F = Some c" for h c
  proof -
    have "unat h < length (fm_objectClassVector F)" "fm_objectClassVector F ! unat h = Some c"
      using that by (auto simp: fm_getObjectClass_def vector_get_def split: if_splits)
    then have "Some c \<in> set (fm_objectClassVector F)" by (metis nth_mem)
    then show ?thesis using assms(3) by (auto simp: undeclared_federate_def list_all_iff)
  qed
  then show ?thesis using assms(1,2) undeclared_mirrored by (auto simp: mirrored_def)
qed

text \<open>
  C4: The server knows what the federate declares. Whatever publications and subscriptions of object classes a
  federate makes and withdraws, failing calls included, the table a server builds from the messages agrees
  with the federate: each attribute of each class has there the publication the federate has, and each
  attribute but the privilege to delete the subscription.
\<close>

theorem declarations_mirrored_at_server:
  assumes "federate A = Some F" "outgoing A = []" "undeclared_federate F"
  shows "\<exists>F'. federate (run_declarations ds A) = Some F' \<and>
    (\<forall>h c a. fm_getObjectClass h F' = Some c \<longrightarrow> foc_getAttribute a c \<noteq> None \<longrightarrow>
      told_publication (outgoing (run_declarations ds A)) h a = foc_getEffectiveAttributePublicationType a c \<and>
      (a \<noteq> 0 \<longrightarrow> told_subscription (outgoing (run_declarations ds A)) h a =
         foc_getEffectiveAttributeSubscriptionType a c))"
  using mirrored_run[OF undeclared_federate_mirrored[OF assms], of ds]
  by (auto simp: mirrored_def mirrored_class_def has_attribute_def)

definition example_attribute :: FedAttribute where
  "example_attribute = FedPublishSubscribe.extend new_fps \<lparr>fedAttribute_dataType = []\<rparr>"

definition example_class :: FedObjectClass where
  "example_class = new_object_class\<lparr>foc_attributeVector := replicate 3 (Some example_attribute)\<rparr>"

definition example_model :: FederateModel where
  "example_model = new_federate_model\<lparr>fm_objectClassVector := [None, Some example_class]\<rparr>"

definition example_ambassador :: Ambassador where
  "example_ambassador = \<lparr>connected = True, federate = Some example_model, callbackMessageList = [],
     callbacksEnabled = True, outgoing = [], incoming = [], timeCalls = Some [], messageRetractionSerial = 0\<rparr>"

lemma example_undeclared: "undeclared_federate example_model"
  by (simp add: undeclared_federate_def example_model_def new_federate_model_def undeclared_def class_ok_def
      all_slots_def example_class_def new_object_class_def example_attribute_def new_fps_def
      FedPublishSubscribe.defs numeral_3_eq_3)

lemma example_federate: "federate example_ambassador = Some example_model" "outgoing example_ambassador = []"
  "connected example_ambassador"
  by (simp_all add: example_ambassador_def)

definition example_declarations :: "declare_request list" where
  "example_declarations = [PublishAttributes 1 [1, 2], SubscribeAttributes 1 [2] True [],
     UnpublishAttributes 1 [1], SubscribeAttributes 1 [1] False [], SubscribeAttributes 7 [] True []]"


lemma example_declarations_run:
  "case federate (run_declarations example_declarations example_ambassador) of None \<Rightarrow> False
   | Some F \<Rightarrow> (case fm_getObjectClass 1 F of None \<Rightarrow> False
     | Some c \<Rightarrow> foc_getAttribute 1 c \<noteq> None \<and> foc_getAttribute 2 c \<noteq> None \<and>
         foc_getEffectiveAttributePublicationType 1 c = Unpublished \<and>
         foc_getEffectiveAttributePublicationType 2 c = Published \<and>
         foc_getEffectiveAttributeSubscriptionType 1 c = SubscribedPassive \<and>
         foc_getEffectiveAttributeSubscriptionType 2 c = SubscribedActive)"
  by code_simp

theorem declarations_mirrored_at_server_witness:
  "told_publication (outgoing (run_declarations example_declarations example_ambassador)) 1 1 = Unpublished \<and>
   told_publication (outgoing (run_declarations example_declarations example_ambassador)) 1 2 = Published \<and>
   told_subscription (outgoing (run_declarations example_declarations example_ambassador)) 1 1 = SubscribedPassive"
  using declarations_mirrored_at_server[OF example_federate(1,2) example_undeclared, of example_declarations]
    example_declarations_run by (auto split: option.splits)

lemma only_unsubscribedE:
  assumes "only_unsubscribed h A A'"
  obtains "A' = A"
  | F c c' attrs' where "federate A = Some F" "fm_getObjectClass h F = Some c"
      "attrs' \<noteq> [] \<Longrightarrow> foc_getEffectiveSubscriptionType c' \<noteq> Unsubscribed"
      "A' = send_changes (subscription_message F h Unsubscribed) attrs' (update_federate (put_object_class h c') A)"
  using assms unfolding only_unsubscribed_def by blast

text \<open>
  C38: Withdrawing attributes never makes a federate forget object instances. The services that
  unsubscribe have code for that, but an attribute is only subscribed together with its class, so after
  any declarations the class is still subscribed when unsubscribeObjectClassAttributes asks: the instances
  the federate knows stay the same and the time management is told nothing. The only message the service
  sends, if it sends any, is the change of the subscription, with the class still subscribed behind it; so
  no instance is released to the server.
\<close>

theorem unsubscribing_attributes_keeps_instances:
  assumes "federate A = Some F" "outgoing A = []" "undeclared_federate F"
    and "B = run_declarations ds A" "B' = snd (unsubscribeObjectClassAttributes h attrs B)"
  shows "map_option fm_objectInstanceHandleMap (federate B') = map_option fm_objectInstanceHandleMap (federate B) \<and>
    timeCalls B' = timeCalls B \<and>
    (outgoing B' = outgoing B \<or>
     (\<exists>F' c' attrs'. federate B' = Some F' \<and> fm_getObjectClass h F' = Some c' \<and>
       foc_getEffectiveSubscriptionType c' \<noteq> Unsubscribed \<and>
       outgoing B' = outgoing B @ [subscription_message F' h Unsubscribed attrs']))"
proof -
  have "mirrored B" using mirrored_run[OF undeclared_federate_mirrored[OF assms(1-3)]] assms(4) by simp
  then have "only_unsubscribed h B B'"
    using unsubscribe_attributes_outcome assms(5) by (simp add: keeps_def)
  then show ?thesis
  proof (elim only_unsubscribedE)
    fix F c c' attrs'
    assume F: "federate B = Some F" "fm_getObjectClass h F = Some c"
      and c': "attrs' \<noteq> [] \<Longrightarrow> foc_getEffectiveSubscriptionType c' \<noteq> Unsubscribed"
      and B': "B' = send_changes (subscription_message F h Unsubscribed) attrs' (update_federate (put_object_class h c') B)"
    have "subscription_message (put_object_class h c' F) = subscription_message F"
      by (simp add: subscription_message_def put_object_class_def fun_eq_iff)
    moreover have "fm_getObjectClass h (put_object_class h c' F) = Some c'" using get_put_object_class[OF F(2)] by simp
    moreover have "fm_objectInstanceHandleMap (put_object_class h c' F) = fm_objectInstanceHandleMap F"
      by (simp add: put_object_class_def)
    ultimately show ?thesis
      using F(1) c' by (cases "attrs' = []") (auto simp: B' send_changes_def send_def update_federate_def)
  qed simp
qed

definition example_instances :: FederateModel where
  "example_instances = example_model\<lparr>fm_objectInstanceHandleMap :=
     [(5, (new_object_instance [65] example_class False)\<lparr>foi_objectClassHandle := 1\<rparr>)]\<rparr>"

lemma example_instances_undeclared: "undeclared_federate example_instances"
  using example_undeclared by (simp add: undeclared_federate_def example_instances_def)

definition example_unsubscribed :: Ambassador where
  "example_unsubscribed = snd (unsubscribeObjectClassAttributes 1 [2] (run_declarations [SubscribeAttributes 1 [2] True []]
     (example_ambassador\<lparr>federate := Some example_instances\<rparr>)))"

theorem unsubscribing_attributes_keeps_instances_witness:
  "map_option (\<lambda>F. map fst (fm_objectInstanceHandleMap F)) (federate example_unsubscribed) = Some [5] \<and>
   (\<exists>F' c' attrs'. federate example_unsubscribed = Some F' \<and> fm_getObjectClass 1 F' = Some c' \<and>
     foc_getEffectiveSubscriptionType c' \<noteq> Unsubscribed \<and>
     last (outgoing example_unsubscribed) = subscription_message F' 1 Unsubscribed attrs')"
proof -
  let ?A = "example_ambassador\<lparr>federate := Some example_instances\<rparr>"
  let ?B = "run_declarations [SubscribeAttributes 1 [2] True []] ?A"
  have "map_option (\<lambda>F. map fst (fm_objectInstanceHandleMap F)) (federate ?B) = Some [5]"
    "length (outgoing ?B) = 1" "length (outgoing example_unsubscribed) = 2"
    by code_simp+
  then show ?thesis
    using unsubscribing_attributes_keeps_instances[of ?A, OF _ _ example_instances_undeclared refl example_unsubscribed_def]
      example_federate
    by (cases "federate example_unsubscribed") auto
qed

section \<open>Failing services\<close>

text \<open>A service that throws has changed nothing.\<close>

definition clean :: "'a service \<Rightarrow> Ambassador \<Rightarrow> bool" where
  "clean s A \<longleftrightarrow> (case fst (s A) of Inl _ \<Rightarrow> snd (s A) = A | Inr _ \<Rightarrow> True)"

lemma clean_as_member:
  "(\<And>F. connected A \<Longrightarrow> federate A = Some F \<Longrightarrow> clean (k F) A) \<Longrightarrow> clean (as_member k) A"
  by (cases "connected A"; cases "federate A") (simp_all add: clean_def as_member_def throw_def split: sum.splits)

lemma clean_found: "(\<And>y. x = Some y \<Longrightarrow> clean (k y) A) \<Longrightarrow> clean (found e x k) A"
  by (auto simp: clean_def found_def throw_def split: option.splits)

lemma clean_checked: "(ok \<Longrightarrow> clean k A) \<Longrightarrow> clean (checked e ok k) A"
  by (auto simp: clean_def checked_def throw_def)

lemma clean_check_each: "(\<forall>x \<in> set xs. bad x = None \<Longrightarrow> clean k A) \<Longrightarrow> clean (check_each bad xs k) A"
  by (induction xs) (auto simp: clean_def throw_def split: option.splits)

lemma clean_check_update_rate: "clean k A \<Longrightarrow> clean (check_update_rate rate F k) A"
  by (auto simp: clean_def check_update_rate_def throw_def)

lemma clean_returns: "fst (k A) = Inr x \<Longrightarrow> clean k A"
  by (simp add: clean_def)

lemmas clean_checks = clean_as_member clean_found clean_checked clean_check_each clean_check_update_rate

lemma fst_return [simp]: "fst (return x A) = Inr x"
  by (simp add: return_def)

lemma clean_unsubscribe_attributes:
  assumes m: "mirrored A"
  shows "clean (unsubscribeObjectClassAttributes h attrs) A"
  unfolding unsubscribeObjectClassAttributes_def
proof (intro clean_checks)
  fix F c
  assume F: "federate A = Some F" and c: "fm_getObjectClass h F = Some c"
    and d: "\<forall>a\<in>set attrs. attribute_defined c a = None"
  obtain attrs' c' where e: "compact (foc_setAttributeSubscriptionType Unsubscribed) 0 attrs c = (attrs', c')"
    by (metis surj_pair)
  have ok: "class_ok c" and w: "subscribed_with_class c"
    using mirrored_class_ok[OF m F c] by (simp_all add: mirrored_class_def)
  have "class_ok c'"
    using unsubscribed_change(1)[OF e ok d[unfolded attributes_defined] w] by (simp add: same_publications_def)
  then have "has_slot_0 c'"
    using class_ok_has(2) by (simp add: has_slot_0_def has_attribute_def)
  then show "clean (\<lambda>A. case compact (foc_setAttributeSubscriptionType Unsubscribed) 0 attrs c of (attrs', c') \<Rightarrow>
           (let A1 = update_federate (put_object_class h c') A
            in if attrs' = [] then return () A1
               else let A2 = send (subscription_message F h Unsubscribed attrs') A1
                    in if \<not> has_slot_0 c' then throw NullPointer A2
                       else return () (if foc_getEffectiveSubscriptionType c' = Unsubscribed
                              then release_instances h F A2 else A2))) A"
    by (intro clean_returns) (auto simp: e Let_def)
qed

lemma clean_services:
  "clean (publishObjectClassAttributes h attrs) A" "clean (unpublishObjectClass h) A"
  "clean (unpublishObjectClassAttributes h attrs) A" "clean (subscribeObjectClassAttributes h attrs active rate) A"
  "clean (unsubscribeObjectClass h) A" "clean (unsubscribeObjectInstance oi) A"
  unfolding publishObjectClassAttributes_def unpublishObjectClass_def unpublishObjectClassAttributes_def
    subscribeObjectClassAttributes_def unsubscribeObjectClass_def unsubscribeObjectInstance_def Let_def
  by (intro clean_checks; rule clean_returns; simp add: Let_def split: prod.splits)+

lemma clean_interaction_services:
  "clean (publishInteractionClass h) A" "clean (unpublishInteractionClass h) A"
  "clean (change_interaction_subscription h t fv) A"
  unfolding publishInteractionClass_def unpublishInteractionClass_def change_interaction_subscription_def
  by (intro clean_checks; rule clean_returns; simp add: Let_def split: prod.splits)+

lemma clean_service: "mirrored A \<Longrightarrow> clean (declaration_service d) A"
  by (cases d) (simp_all add: clean_services clean_unsubscribe_attributes clean_interaction_services
      interaction_subscription_services)

text \<open>
  C37: A declaration that throws leaves the federate and what was sent as they were: after any declarations, a
  service that publishes or subscribes an object class, its attributes or an interaction class, with a filter
  or without, or that withdraws one of these or an instance, and ends with an exception has changed no
  class, queued no callback and sent no message.
\<close>

theorem failed_declaration_changes_nothing:
  assumes "federate A = Some F" "outgoing A = []" "undeclared_federate F"
    and "B = run_declarations ds A" "fst (declaration_service d B) = Inl e"
  shows "snd (declaration_service d B) = B"
  using clean_service[of B d] mirrored_run[OF undeclared_federate_mirrored[OF assms(1-3)], of ds] assms(4,5)
  by (simp add: clean_def)

theorem failed_declaration_changes_nothing_witness:
  "snd (declaration_service (PublishAttributes 1 [2, 3]) (run_declarations example_declarations example_ambassador)) =
     run_declarations example_declarations example_ambassador \<and>
   snd (declaration_service (SubscribeInteraction 4 True) (run_declarations example_declarations example_ambassador)) =
     run_declarations example_declarations example_ambassador"
proof -
  have "fst (declaration_service (PublishAttributes 1 [2, 3])
      (run_declarations example_declarations example_ambassador)) = Inl (AttributeNotDefined 3)"
    "fst (declaration_service (SubscribeInteraction 4 True)
      (run_declarations example_declarations example_ambassador)) = Inl (InteractionClassNotDefined 4)"
    by code_simp+
  then show ?thesis
    using failed_declaration_changes_nothing[OF example_federate(1,2) example_undeclared refl] by blast
qed


section \<open>The privilege to delete\<close>

text \<open>The class a federate has under a handle, and what the two services do to it.\<close>

definition holds_class :: "Ambassador \<Rightarrow> ObjectClassHandle \<Rightarrow> FedObjectClass \<Rightarrow> bool" where
  "holds_class A h c \<longleftrightarrow> connected A \<and> (\<exists>F. federate A = Some F \<and> fm_getObjectClass h F = Some c)"

lemma check_each_defined:
  "\<forall>a \<in> set xs. has_attribute a c \<Longrightarrow> check_each (attribute_defined c) xs k = k"
  by (induction xs) (auto simp: attribute_defined_def has_attribute_def)

lemma holds_class_put:
  assumes "connected A" "federate A = Some F" "fm_getObjectClass h F = Some c"
  shows "holds_class (send_changes msg attrs (update_federate (put_object_class h c') A)) h c'"
  using assms get_put_object_class[OF assms(3), of h c']
  by (simp add: holds_class_def send_changes_def send_def update_federate_def)

lemma subscribe_holds_class:
  assumes "holds_class A h c" "has_attribute 0 c" "\<forall>a \<in> set attrs. has_attribute a c"
    and d: "declare_class (foc_setSubscriptionType (subscription_of active))
      (foc_setAttributeSubscriptionType (subscription_of active)) attrs c = (fresh, attrs', c')"
    and A': "A' = snd (declaration_service (SubscribeAttributes h attrs active []) A)"
  shows "holds_class A' h c'"
    and "told_subscription (outgoing A') h a =
      (if a \<in> set attrs' then subscription_of active else told_subscription (outgoing A) h a)"
proof -
  obtain F where F: "connected A" "federate A = Some F" "fm_getObjectClass h F = Some c"
    using assms(1) by (auto simp: holds_class_def)
  have "has_slot_0 c" using assms(2) by (simp add: has_slot_0_def has_attribute_def)
  then have "A' = send_changes (subscription_message F h (subscription_of active)) attrs'
      (update_federate (put_object_class h c') A)"
    using F d A'
    by (simp add: check_each_defined[OF assms(3)] subscribeObjectClassAttributes_def as_member_def found_def check_update_rate_def
        checked_def Let_def)
  then show "holds_class A' h c'" and "told_subscription (outgoing A') h a =
      (if a \<in> set attrs' then subscription_of active else told_subscription (outgoing A) h a)"
    using holds_class_put[OF F] by (simp_all add: told_subscription_changes)
qed

lemma unsubscribe_holds_class:
  assumes "holds_class A h c" "\<forall>a \<in> set attrs. has_attribute a c"
    and d: "compact (foc_setAttributeSubscriptionType Unsubscribed) 0 attrs c = (attrs', c')"
    and c': "has_attribute 0 c'" "foc_getEffectiveSubscriptionType c' \<noteq> Unsubscribed"
    and A': "A' = snd (declaration_service (UnsubscribeAttributes h attrs) A)"
  shows "holds_class A' h c'"
    and "told_subscription (outgoing A') h a =
      (if a \<in> set attrs' then Unsubscribed else told_subscription (outgoing A) h a)"
proof -
  obtain F where F: "connected A" "federate A = Some F" "fm_getObjectClass h F = Some c"
    using assms(1) by (auto simp: holds_class_def)
  have "has_slot_0 c'" using c'(1) by (simp add: has_slot_0_def has_attribute_def)
  then have "A' = send_changes (subscription_message F h Unsubscribed) attrs'
      (update_federate (put_object_class h c') A)"
    using F d A' c'(2)
    by (simp add: check_each_defined[OF assms(2)] unsubscribeObjectClassAttributes_def as_member_def found_def
        checked_def send_changes_def Let_def)
  then show "holds_class A' h c'" and "told_subscription (outgoing A') h a =
      (if a \<in> set attrs' then Unsubscribed else told_subscription (outgoing A) h a)"
    using holds_class_put[OF F] by (simp_all add: told_subscription_changes)
qed

lemma compact_none: "compact f j [] s = ([], s)"
  by (simp add: compact_def compact_loop.simps)

lemma compact_behind: "compact f (Suc 0) [x] s = ([x], s)"
  by (simp add: compact_def compact_loop.simps)

lemma compact_one: "compact f 0 [x] s = (if fst (f x s) then [x] else [], snd (f x s))"
  by (simp add: compact_def compact_loop.simps split: prod.splits)

text \<open>
  C39: For the privilege to delete, which stands for the class itself, the server can be told the wrong thing.
  A federate subscribes a class actively, then that attribute too, then the class passively, and then it
  withdraws the attribute: now it tells the server that the class is unsubscribed, while the class is
  subscribed passively in the federate: the table a server builds from the messages has it unsubscribed.
\<close>

theorem class_told_unsubscribed_while_passive:
  assumes "connected A" "federate A = Some F" "fm_getObjectClass h F = Some c" "undeclared c"
    and "B = run_declarations [SubscribeAttributes h [] True [], SubscribeAttributes h [0] True [],
      SubscribeAttributes h [] False [], UnsubscribeAttributes h [0]] A"
  shows "told_subscription (outgoing B) h 0 = Unsubscribed \<and>
    (\<exists>F' c'. federate B = Some F' \<and> fm_getObjectClass h F' = Some c' \<and>
       foc_getEffectiveSubscriptionType c' = SubscribedPassive)"
proof -
  have h0: "has_attribute 0 c" using assms(4) class_ok_has(2) by (simp add: undeclared_def)
  have s0: "subscribed_at 0 c = Unsubscribed" "foc_subscriptionType c = Unsubscribed"
    using undeclared_mirrored[OF assms(4), of h] h0 assms(4)
    by (auto simp: mirrored_class_def subscribed_with_class_def undeclared_def)
  define set_sub where "set_sub t = (\<lambda>a :: FedAttribute. a\<lparr>fps_subscriptionType := t\<rparr>)" for t
  define c1 c2 c3 c4 where "c1 = c\<lparr>foc_subscriptionType := SubscribedActive\<rparr>"
    and "c2 = change_attribute 0 (set_sub SubscribedActive) c1"
    and "c3 = c2\<lparr>foc_subscriptionType := SubscribedPassive\<rparr>"
    and "c4 = change_attribute 0 (set_sub Unsubscribed) c3"
  note cs = c1_def c2_def c3_def c4_def set_sub_def
  have max: "max Unsubscribed t = t" "max SubscribedPassive SubscribedActive = SubscribedActive"
    "max SubscribedActive SubscribedPassive = SubscribedActive" "max t t = t" for t
    by (cases t; simp add: max_def less_eq_SubscriptionType_def)+
  have has: "has_attribute 0 c1" "has_attribute 0 c2" "has_attribute 0 c3" "has_attribute 0 c4"
    using h0 by (simp_all add: cs has_attribute_change)
  have sub: "subscribed_at 0 c1 = Unsubscribed" "foc_subscriptionType c1 = SubscribedActive"
    "subscribed_at 0 c2 = SubscribedActive" "foc_subscriptionType c2 = SubscribedActive"
    "subscribed_at 0 c3 = SubscribedActive" "foc_subscriptionType c3 = SubscribedPassive"
    "subscribed_at 0 c4 = Unsubscribed" "foc_subscriptionType c4 = SubscribedPassive"
    using s0 h0 by (simp_all add: cs attribute_at_change has_attribute_change)
  have c1: "c1\<lparr>foc_subscriptionType := SubscribedActive\<rparr> = c1" by (simp add: c1_def)
  note defs = declare_class_def declaration_defs subscription_of_def compact_one compact_none compact_behind
    front_handle_def s0 sub max
  define A1 where "A1 = snd (declaration_service (SubscribeAttributes h [] True []) A)"
  define A2 where "A2 = snd (declaration_service (SubscribeAttributes h [0] True []) A1)"
  define A3 where "A3 = snd (declaration_service (SubscribeAttributes h [] False []) A2)"
  have "holds_class A h c" using assms(1-3) by (simp add: holds_class_def)
  moreover have "declare_class (foc_setSubscriptionType (subscription_of True))
      (foc_setAttributeSubscriptionType (subscription_of True)) [] c = (True, [0], c1)"
    by (simp add: defs c1_def[symmetric])
  ultimately have 1: "holds_class A1 h c1"
    using subscribe_holds_class(1)[OF _ h0 _ _ A1_def] by simp
  moreover have "declare_class (foc_setSubscriptionType (subscription_of True))
      (foc_setAttributeSubscriptionType (subscription_of True)) [0] c1 = (False, [], c2)"
    by (simp add: defs) (simp only: c1 c2_def set_sub_def)
  ultimately have 2: "holds_class A2 h c2"
    using subscribe_holds_class(1)[OF _ has(1) _ _ A2_def, of False "[]" c2] has(1) by simp
  moreover have "declare_class (foc_setSubscriptionType (subscription_of False))
      (foc_setAttributeSubscriptionType (subscription_of False)) [] c2 = (False, [], c3)"
    by (simp add: defs c3_def[symmetric])
  ultimately have 3: "holds_class A3 h c3"
    using subscribe_holds_class(1)[OF _ has(2) _ _ A3_def, of False "[]" c3] by simp
  have "compact (foc_setAttributeSubscriptionType Unsubscribed) 0 [0] c3 = ([0], c4)"
    by (simp add: defs c4_def[unfolded set_sub_def, symmetric])
  moreover have e: "foc_getEffectiveSubscriptionType c4 = SubscribedPassive"
    by (simp add: defs)
  moreover have B: "B = snd (declaration_service (UnsubscribeAttributes h [0]) A3)"
    by (simp add: assms(5) run_declarations_def A1_def A2_def A3_def)
  ultimately have "holds_class B h c4" "told_subscription (outgoing B) h 0 = Unsubscribed"
    using unsubscribe_holds_class[OF 3 _ _ has(4) _ B, of "[0]"] has(3) by simp_all
  then show ?thesis using e by (auto simp: holds_class_def)
qed

theorem class_told_unsubscribed_while_passive_witness:
  "told_subscription (outgoing (run_declarations [SubscribeAttributes 1 [] True [],
     SubscribeAttributes 1 [0] True [], SubscribeAttributes 1 [] False [], UnsubscribeAttributes 1 [0]]
     example_ambassador)) 1 0 = Unsubscribed"
proof -
  have "fm_getObjectClass 1 example_model = Some example_class" "undeclared example_class"
    using example_undeclared
    by (simp_all add: example_model_def fm_getObjectClass_def vector_get_def undeclared_federate_def)
  then show ?thesis
    using class_told_unsubscribed_while_passive[OF example_federate(3,1) _ _ refl] by blast
qed

section \<open>The nearest class\<close>

lemma subscribed_ancestor_nearest:
  assumes "subscribed_ancestor get sub parent fuel h = Some r"
  defines "up \<equiv> \<lambda>k. case get k of None \<Rightarrow> k | Some c \<Rightarrow> parent c"
  shows "\<exists>n. (\<forall>m<n. \<exists>d. get ((up ^^ m) h) = Some d \<and> sub d = Unsubscribed) \<and>
    (case r of None \<Rightarrow> get ((up ^^ n) h) = None
     | Some (k, c) \<Rightarrow> k = (up ^^ n) h \<and> get k = Some c \<and> sub c \<noteq> Unsubscribed)"
  using assms(1)
proof (induction fuel arbitrary: h)
  case (Suc fuel)
  show ?case
  proof (cases "get h")
    case None
    then show ?thesis using Suc.prems by (intro exI[of _ 0]) auto
  next
    case (Some c)
    show ?thesis
    proof (cases "sub c = Unsubscribed")
      case False
      then show ?thesis using Suc.prems Some by (intro exI[of _ 0]) auto
    next
      case True
      have up: "up h = parent c" using Some by (simp add: up_def)
      obtain n where n: "\<forall>m<n. \<exists>d. get ((up ^^ m) (parent c)) = Some d \<and> sub d = Unsubscribed"
        "case r of None \<Rightarrow> get ((up ^^ n) (parent c)) = None
         | Some (k, c') \<Rightarrow> k = (up ^^ n) (parent c) \<and> get k = Some c' \<and> sub c' \<noteq> Unsubscribed"
        using Suc.IH[of "parent c"] Suc.prems Some True by auto
      have "\<exists>d. get ((up ^^ m) h) = Some d \<and> sub d = Unsubscribed" if "m < Suc n" for m
        using that n(1) Some True up by (cases m) (auto simp: funpow_Suc_right simp del: funpow.simps)
      then show ?thesis using n(2) up
        by (intro exI[of _ "Suc n"]) (auto simp: funpow_Suc_right simp del: funpow.simps split: option.splits)
    qed
  qed
qed simp

text \<open>The base class of a class, and when the class \<open>n\<close> steps up is the nearest one subscribed.\<close>

definition base_object_class :: "FederateModel \<Rightarrow> ObjectClassHandle \<Rightarrow> ObjectClassHandle" where
  "base_object_class F h = (case fm_getObjectClass h F of None \<Rightarrow> h | Some c \<Rightarrow> foc_parentObjectClassHandle c)"

definition object_class_has :: "(SubscriptionType \<Rightarrow> bool) \<Rightarrow> FederateModel \<Rightarrow> ObjectClassHandle \<Rightarrow> bool" where
  "object_class_has P F h \<longleftrightarrow> (case fm_getObjectClass h F of None \<Rightarrow> False
     | Some c \<Rightarrow> P (foc_getEffectiveSubscriptionType c))"

definition nearest_subscribed_class :: "FederateModel \<Rightarrow> ObjectClassHandle \<Rightarrow> nat \<Rightarrow> bool" where
  "nearest_subscribed_class F h n \<longleftrightarrow>
     list_all (\<lambda>m. object_class_has (\<lambda>t. t = Unsubscribed) F ((base_object_class F ^^ m) h)) [0..<n] \<and>
     object_class_has (\<lambda>t. t \<noteq> Unsubscribed) F ((base_object_class F ^^ n) h)"

lemma nearest_subscribed_unique:
  assumes "nearest_subscribed_class F h n" "nearest_subscribed_class F h k"
  shows "n = k"
proof (rule ccontr)
  assume "n \<noteq> k"
  then consider "n < k" | "k < n" by linarith
  then show False
    using assms by cases (auto simp: nearest_subscribed_class_def list_all_iff object_class_has_def split: option.splits)
qed

lemma known_object_class_nearest:
  assumes "parents_ok F"
  shows "(\<exists>n c. known_object_class h F = Some (Some ((base_object_class F ^^ n) h, c)) \<and> nearest_subscribed_class F h n \<and>
      fm_getObjectClass ((base_object_class F ^^ n) h) F = Some c) \<or>
    known_object_class h F = Some None \<and> (\<forall>n. \<not> nearest_subscribed_class F h n)"
proof -
  obtain r where r: "known_object_class h F = Some r" using known_classes_found(1)[OF assms] by auto
  have up: "(\<lambda>k. case fm_getObjectClass k F of None \<Rightarrow> k | Some c \<Rightarrow> foc_parentObjectClassHandle c) = base_object_class F"
    by (simp add: base_object_class_def fun_eq_iff)
  obtain n where n: "\<forall>m<n. \<exists>d. fm_getObjectClass ((base_object_class F ^^ m) h) F = Some d \<and>
      foc_getEffectiveSubscriptionType d = Unsubscribed"
    "case r of None \<Rightarrow> fm_getObjectClass ((base_object_class F ^^ n) h) F = None
     | Some (k, c) \<Rightarrow> k = (base_object_class F ^^ n) h \<and> fm_getObjectClass k F = Some c \<and>
         foc_getEffectiveSubscriptionType c \<noteq> Unsubscribed"
    using subscribed_ancestor_nearest[OF r[unfolded known_object_class_def], unfolded up] by auto
  have u: "list_all (\<lambda>m. object_class_has (\<lambda>t. t = Unsubscribed) F ((base_object_class F ^^ m) h)) [0..<n]"
    using n(1) by (auto simp: list_all_iff object_class_has_def split: option.splits)
  show ?thesis
  proof (cases r)
    case None
    have "\<not> nearest_subscribed_class F h k" for k
    proof
      assume k: "nearest_subscribed_class F h k"
      then have "object_class_has (\<lambda>t. t = Unsubscribed) F ((base_object_class F ^^ n) h)" if "n < k"
        using that by (simp add: nearest_subscribed_class_def list_all_iff)
      then have "\<not> n < k" using n(2) None by (auto simp: object_class_has_def)
      moreover have "object_class_has (\<lambda>t. t = Unsubscribed) F ((base_object_class F ^^ k) h)" if "k < n"
        using that u by (simp add: list_all_iff)
      then have "\<not> k < n" using k by (auto simp: nearest_subscribed_class_def object_class_has_def split: option.splits)
      ultimately have "k = n" by simp
      then show False using k n(2) None by (simp add: nearest_subscribed_class_def object_class_has_def)
    qed
    then show ?thesis using r None by simp
  next
    case (Some p)
    then show ?thesis using r n(2) u by (cases p) (auto simp: nearest_subscribed_class_def object_class_has_def)
  qed
qed

text \<open>
  C11: A federate discovers an object instance as an instance of the nearest class it subscribes. In the tree of
  classes that any FOM modules build whose classes are not their own parents, and whatever is subscribed, the
  search for that class ends; the instance is entered into the federate's model under that class and the
  federate is told. When no class up to the root is subscribed, the message is ignored and nothing changes.
\<close>

theorem discovery_at_nearest_subscribed_class:
  assumes "federate A = Some F" "list_all proper_module ms" "fm_insertFOMModuleList ms new_federate_model = Some F0"
    and "object_parents (fm_objectClassVector F) = object_parents (fm_objectClassVector F0)"
    and "interaction_parents (fm_interactionClassVector F) = interaction_parents (fm_interactionClassVector F0)"
    and "fm_getObjectInstance (InsertObjectInstanceMessage_objectInstanceHandle m) F = None"
  shows "(\<exists>n F' oi. nearest_subscribed_class F (InsertObjectInstanceMessage_objectClassHandle m) n \<and>
      callback_insert m A = (Inr (Some (cb_discoverObjectInstance (InsertObjectInstanceMessage_objectInstanceHandle m)
        ((base_object_class F ^^ n) (InsertObjectInstanceMessage_objectClassHandle m))
        (InsertObjectInstanceMessage_name m))), A\<lparr>federate := Some F'\<rparr>) \<and>
      fm_getObjectInstance (InsertObjectInstanceMessage_objectInstanceHandle m) F' = Some oi \<and>
      foi_objectClassHandle oi = (base_object_class F ^^ n) (InsertObjectInstanceMessage_objectClassHandle m) \<and>
      foi_name oi = InsertObjectInstanceMessage_name m) \<or>
    (\<forall>n. \<not> nearest_subscribed_class F (InsertObjectInstanceMessage_objectClassHandle m) n) \<and>
      callback_insert m A = (Inr None, A)"
proof -
  have "parents_ok F"
    using modules_parents_ok[OF assms(2,3) parents_ok_new] assms(4,5) by (simp add: parents_ok_def)
  from known_object_class_nearest[OF this, of "InsertObjectInstanceMessage_objectClassHandle m"]
  show ?thesis
  proof (elim disjE exE conjE)
    fix n c
    define k where "k = (base_object_class F ^^ n) (InsertObjectInstanceMessage_objectClassHandle m)"
    define h where "h = InsertObjectInstanceMessage_objectInstanceHandle m"
    assume n: "nearest_subscribed_class F (InsertObjectInstanceMessage_objectClassHandle m) n"
      and kc: "known_object_class (InsertObjectInstanceMessage_objectClassHandle m) F =
        Some (Some ((base_object_class F ^^ n) (InsertObjectInstanceMessage_objectClassHandle m), c))"
        "fm_getObjectClass ((base_object_class F ^^ n) (InsertObjectInstanceMessage_objectClassHandle m)) F = Some c"
    obtain F' where F': "fm_insertObjectInstance h (InsertObjectInstanceMessage_name m) k False F = Some F'"
      using kc(2) by (simp add: fm_insertObjectInstance_def k_def)
    have "callback_insert m A = (Inr (Some (cb_discoverObjectInstance h k (InsertObjectInstanceMessage_name m))),
        A\<lparr>federate := Some F'\<rparr>)"
      using assms(1,6) kc F' by (simp add: callback_insert_def if_federate_def return_def k_def h_def)
    moreover have "map_of (fm_objectInstanceHandleMap F') h = Some (snd (foi_setSubscriptionType SubscribedActive
        ((new_object_instance (InsertObjectInstanceMessage_name m) c False)\<lparr>foi_objectClassHandle := k\<rparr>)))"
      using F' kc(2) assms(6) by (auto simp: fm_insertObjectInstance_def k_def h_def fm_getObjectInstance_def)
    ultimately show ?thesis using n
      by (intro disjI1 exI[of _ n] exI[of _ F'])
        (simp add: k_def h_def fm_getObjectInstance_def foi_setSubscriptionType_def new_object_instance_def)
  next
    assume "known_object_class (InsertObjectInstanceMessage_objectClassHandle m) F = Some None"
      and "\<forall>n. \<not> nearest_subscribed_class F (InsertObjectInstanceMessage_objectClassHandle m) n"
    then show ?thesis using assms(1) by (simp add: callback_insert_def if_federate_def return_def)
  qed
qed

definition example_module :: FOMModule where
  "example_module = empty_module\<lparr>FOMModule_moduleHandle := 0, FOMModule_objectClassList :=
     [\<lparr>FOMObjectClass_name = [82], FOMObjectClass_objectClassHandle = 0,
       FOMObjectClass_parentObjectClassHandle = invalid_handle,
       FOMObjectClass_attributeList = [\<lparr>FOMAttribute_name = [80], FOMAttribute_dataType = [],
          FOMAttribute_attributeHandle = 0, FOMAttribute_orderType = RECEIVE,
          FOMAttribute_transportationType = RELIABLE, FOMAttribute_dimensionHandleSet = {||}\<rparr>]\<rparr>,
      \<lparr>FOMObjectClass_name = [83], FOMObjectClass_objectClassHandle = 1,
       FOMObjectClass_parentObjectClassHandle = 0, FOMObjectClass_attributeList = []\<rparr>]\<rparr>"

definition example_tree :: FederateModel where
  "example_tree = the (fm_insertFOMModuleList [example_module] new_federate_model)"

definition example_subscriber :: Ambassador where
  "example_subscriber = snd (subscribeObjectClassAttributes 0 [0] True []
     (example_ambassador\<lparr>federate := Some example_tree\<rparr>))"

definition example_federate_model :: FederateModel where
  "example_federate_model = the (federate example_subscriber)"

definition example_insertion :: InsertObjectInstanceMessage where
  "example_insertion = \<lparr>InsertObjectInstanceMessage_federationHandle = 0,
     InsertObjectInstanceMessage_objectClassHandle = 1, InsertObjectInstanceMessage_objectInstanceHandle = 9,
     InsertObjectInstanceMessage_name = [66], InsertObjectInstanceMessage_attributeStateVector = []\<rparr>"

lemma example_tree_facts:
  "list_all proper_module [example_module]"
  "fm_insertFOMModuleList [example_module] new_federate_model \<noteq> None"
  "federate example_subscriber \<noteq> None"
  "object_parents (fm_objectClassVector example_federate_model) = object_parents (fm_objectClassVector example_tree)"
  "interaction_parents (fm_interactionClassVector example_federate_model) =
     interaction_parents (fm_interactionClassVector example_tree)"
  "fm_getObjectInstance 9 example_federate_model = None"
  "nearest_subscribed_class example_federate_model 1 1" "base_object_class example_federate_model 1 = 0"
  by code_simp+

theorem discovery_at_nearest_subscribed_class_witness:
  "fst (callback_insert example_insertion example_subscriber) = Inr (Some (cb_discoverObjectInstance 9 0 [66]))"
proof -
  have F: "federate example_subscriber = Some example_federate_model"
    using example_tree_facts(3) by (simp add: example_federate_model_def)
  have F0: "fm_insertFOMModuleList [example_module] new_federate_model = Some example_tree"
    using example_tree_facts(2) by (simp add: example_tree_def)
  have u: "(base_object_class example_federate_model ^^ n) 1 = 0" if "nearest_subscribed_class example_federate_model 1 n" for n
    using nearest_subscribed_unique[OF example_tree_facts(7) that] example_tree_facts(8) by (cases n) auto
  show ?thesis
    using discovery_at_nearest_subscribed_class[OF F example_tree_facts(1) F0 example_tree_facts(4,5),
        of example_insertion] example_tree_facts(6,7) u
    by (auto simp: example_insertion_def)
qed

section \<open>Updates\<close>

lemma send_to_both:
  "outgoing (send m (if self then queueReceiveOrderMessage m A else A)) = outgoing A @ [m]"
  "timeCalls (send m (if self then queueReceiveOrderMessage m A else A)) =
     map_option (\<lambda>cs. cs @ (if self then [QueueReceiveOrder m] else [])) (timeCalls A)"
  by (cases "timeCalls A"; simp add: send_def queueReceiveOrderMessage_def time_management_def)+

lemma send_two_passels:
  fixes f :: "'p \<Rightarrow> AttributeValueVector \<Rightarrow> vld \<Rightarrow> message"
  assumes "g = (\<lambda>t avs tg A. send (f t avs tg) (if self then queueReceiveOrderMessage (f t avs tg) A else A))"
    and "ms = (if r = [] then if b = [] then [] else [f q b tag]
      else f p r tag # (if b = [] then [] else [f q b []]))"
  shows "outgoing (send_passels g [(p, r), (q, b)] tag A) = outgoing A @ ms"
    "timeCalls (send_passels g [(p, r), (q, b)] tag A) =
       map_option (\<lambda>cs. cs @ (if self then map QueueReceiveOrder ms else [])) (timeCalls A)"
  by (cases "timeCalls A"; simp add: assms send_to_both)+

lemma two_passels: "mset (passel oi RELIABLE avs) + mset (passel oi BEST_EFFORT avs) = mset avs"
proof -
  have "filter (\<lambda>av. transportation_of oi (AttributeValue_attributeHandle av) = BEST_EFFORT) avs =
      filter (\<lambda>av. \<not> transportation_of oi (AttributeValue_attributeHandle av) = RELIABLE) avs"
    by (rule filter_cong[OF refl]) (metis TransportationType.exhaust TransportationType.distinct(1))
  then show ?thesis by (simp add: passel_def)
qed

text \<open>The messages of an update.\<close>

definition passel_message ::
    "FederateModel \<Rightarrow> ObjectInstanceHandle \<Rightarrow> TransportationType \<Rightarrow> AttributeValueVector \<Rightarrow> vld \<Rightarrow> AttributeUpdateMessage" where
  "passel_message F h t avs tag = \<lparr>AttributeUpdateMessage_federationHandle = fm_federationHandle F,
     AttributeUpdateMessage_federateHandle = fm_federateHandle F,
     AttributeUpdateMessage_objectInstanceHandle = h, AttributeUpdateMessage_tag = tag,
     AttributeUpdateMessage_transportationType = t, AttributeUpdateMessage_attributeValues = avs\<rparr>"

definition passel_messages ::
    "FederateModel \<Rightarrow> ObjectInstanceHandle \<Rightarrow> AttributeValueVector \<Rightarrow> AttributeValueVector \<Rightarrow> vld \<Rightarrow> AttributeUpdateMessage list" where
  "passel_messages F h r b tag =
     (if r = [] then if b = [] then [] else [passel_message F h BEST_EFFORT b tag]
      else passel_message F h RELIABLE r tag # (if b = [] then [] else [passel_message F h BEST_EFFORT b []]))"

lemma passel_messages_sent:
  assumes "connected A" "federate A = Some F" "fm_getObjectInstance h F = Some oi"
    and owned: "list_all (\<lambda>av. owned_attribute oi (AttributeValue_attributeHandle av) = None) avs"
    and self: "delivers_to_self F oi = Some self"
    and ms: "ms = passel_messages F h (passel oi RELIABLE avs) (passel oi BEST_EFFORT avs) tag"
  shows "fst (updateAttributeValues h avs tag A) = Inr () \<and>
    outgoing (snd (updateAttributeValues h avs tag A)) = outgoing A @ map AttributeUpdateMessage ms \<and>
    timeCalls (snd (updateAttributeValues h avs tag A)) = map_option (\<lambda>cs. cs @
      (if self then map (\<lambda>m. QueueReceiveOrder (AttributeUpdateMessage m)) ms else [])) (timeCalls A)"
proof (cases "avs = []")
  case True
  then show ?thesis using assms(1-3) ms
    by (cases "timeCalls A")
      (simp_all add: updateAttributeValues_def as_member_def found_def return_def passel_messages_def passel_def)
next
  case False
  let ?r = "passel oi RELIABLE avs" and ?b = "passel oi BEST_EFFORT avs"
  let ?g = "\<lambda>t avs tg A. send (update_message F h t avs tg)
    (if self then queueReceiveOrderMessage (update_message F h t avs tg) A else A)"
  have "check_each (\<lambda>av. owned_attribute oi (AttributeValue_attributeHandle av)) avs k = k" for k :: "unit service"
    using owned by (induction avs) auto
  then have upd: "updateAttributeValues h avs tag A = (Inr (), send_passels ?g [(RELIABLE, ?r), (BEST_EFFORT, ?b)] tag A)"
    using False assms(1-3) self
    by (simp add: updateAttributeValues_def as_member_def found_def return_def Let_def del: send_passels.simps)
  have ums: "map AttributeUpdateMessage ms = (if ?r = [] then if ?b = [] then [] else [update_message F h BEST_EFFORT ?b tag]
    else update_message F h RELIABLE ?r tag # (if ?b = [] then [] else [update_message F h BEST_EFFORT ?b []]))"
    by (simp add: ms passel_messages_def passel_message_def update_message_def)
  have "map (\<lambda>m. QueueReceiveOrder (AttributeUpdateMessage m)) ms = map QueueReceiveOrder (map AttributeUpdateMessage ms)"
    by simp
  then show ?thesis
    by (simp only: upd fst_conv snd_conv send_two_passels[where f = "update_message F h", OF refl ums] simp_thms)
qed

text \<open>
  C14: An update sends every value once. When a federate owns all the attributes of an update, the service
  succeeds and the messages it sends carry together exactly the values given, each in the message with the
  transportation type of its attribute. There is at most one message for each type, the reliable one goes
  first and no message is empty. But only the first message has the tag of the federate: when the attributes
  have two transportation types, the best effort message has an empty tag. The same messages, tags included,
  are queued for the federate itself if the instance is subscribed and its class delivers to the federate;
  \<open>delivers_to_self\<close> says so, and it is defined unless the class of a subscribed instance is unknown, where the
  code follows a null pointer.
\<close>

theorem update_sends_each_value_once:
  assumes "connected A" "federate A = Some F" "fm_getObjectInstance h F = Some oi"
    and "list_all (\<lambda>av. owned_attribute oi (AttributeValue_attributeHandle av) = None) avs"
    and "delivers_to_self F oi = Some self"
  shows "\<exists>ms. fst (updateAttributeValues h avs tag A) = Inr () \<and>
    outgoing (snd (updateAttributeValues h avs tag A)) = outgoing A @ map AttributeUpdateMessage ms \<and>
    timeCalls (snd (updateAttributeValues h avs tag A)) = map_option (\<lambda>cs. cs @
      (if self then map (\<lambda>m. QueueReceiveOrder (AttributeUpdateMessage m)) ms else [])) (timeCalls A) \<and>
    mset (concat (map AttributeUpdateMessage_attributeValues ms)) = mset avs \<and>
    list_all (\<lambda>m. AttributeUpdateMessage_objectInstanceHandle m = h \<and>
      AttributeUpdateMessage_federateHandle m = fm_federateHandle F \<and>
      AttributeUpdateMessage_attributeValues m \<noteq> [] \<and>
      list_all (\<lambda>av. transportation_of oi (AttributeValue_attributeHandle av) =
        AttributeUpdateMessage_transportationType m) (AttributeUpdateMessage_attributeValues m)) ms \<and>
    map (\<lambda>m. (AttributeUpdateMessage_transportationType m, AttributeUpdateMessage_tag m)) ms \<in>
      {[], [(RELIABLE, tag)], [(BEST_EFFORT, tag)], [(RELIABLE, tag), (BEST_EFFORT, [])]}"
proof (intro exI conjI)
  let ?ms = "passel_messages F h (passel oi RELIABLE avs) (passel oi BEST_EFFORT avs) tag"
  note passel_messages_sent[OF assms refl, of tag]
  then show "fst (updateAttributeValues h avs tag A) = Inr ()"
    "outgoing (snd (updateAttributeValues h avs tag A)) = outgoing A @ map AttributeUpdateMessage ?ms"
    "timeCalls (snd (updateAttributeValues h avs tag A)) = map_option (\<lambda>cs. cs @
      (if self then map (\<lambda>m. QueueReceiveOrder (AttributeUpdateMessage m)) ?ms else [])) (timeCalls A)" by blast+
  show "mset (concat (map AttributeUpdateMessage_attributeValues ?ms)) = mset avs"
    using two_passels[of oi avs] by (auto simp: passel_messages_def passel_message_def)
  show "list_all (\<lambda>m. AttributeUpdateMessage_objectInstanceHandle m = h \<and>
      AttributeUpdateMessage_federateHandle m = fm_federateHandle F \<and>
      AttributeUpdateMessage_attributeValues m \<noteq> [] \<and>
      list_all (\<lambda>av. transportation_of oi (AttributeValue_attributeHandle av) =
        AttributeUpdateMessage_transportationType m) (AttributeUpdateMessage_attributeValues m)) ?ms"
    by (auto simp: passel_messages_def passel_message_def passel_def list_all_iff)
  show "map (\<lambda>m. (AttributeUpdateMessage_transportationType m, AttributeUpdateMessage_tag m)) ?ms \<in>
      {[], [(RELIABLE, tag)], [(BEST_EFFORT, tag)], [(RELIABLE, tag), (BEST_EFFORT, [])]}"
    by (auto simp: passel_messages_def passel_message_def)
qed

definition example_owned :: "TransportationType \<Rightarrow> FedInstanceAttribute" where
  "example_owned t = \<lparr>fia_orderType = RECEIVE, fia_transportationType = t, fia_isOwnedByFederate = True,
     fia_updateRate = 0\<rparr>"

definition example_object :: FedObjectInstance where
  "example_object = \<lparr>foi_objectClassHandle = 1, foi_name = [66],
     foi_instanceAttributeVector = [Some (example_owned RELIABLE), Some (example_owned BEST_EFFORT),
       Some (example_owned RELIABLE)], foi_subscriptionType = SubscribedActive\<rparr>"

definition example_values :: AttributeValueVector where
  "example_values = map (\<lambda>a. \<lparr>AttributeValue_attributeHandle = a, AttributeValue_value = [ucast a]\<rparr>) [1, 2]"

definition example_updating :: FederateModel where
  "example_updating = example_model\<lparr>
     fm_objectClassVector := [None, Some (example_class\<lparr>foc_deliverToSelf := True\<rparr>)],
     fm_objectInstanceHandleMap := [(5, example_object)]\<rparr>"

theorem update_sends_each_value_once_witness:
  "\<exists>ms. outgoing (snd (updateAttributeValues 5 example_values [7]
        (example_ambassador\<lparr>federate := Some example_updating\<rparr>))) = map AttributeUpdateMessage ms \<and>
    timeCalls (snd (updateAttributeValues 5 example_values [7]
        (example_ambassador\<lparr>federate := Some example_updating\<rparr>))) =
      Some (map (\<lambda>m. QueueReceiveOrder (AttributeUpdateMessage m)) ms) \<and>
    mset (concat (map AttributeUpdateMessage_attributeValues ms)) = mset example_values"
proof -
  have f: "connected (example_ambassador\<lparr>federate := Some example_updating\<rparr>)"
    "federate (example_ambassador\<lparr>federate := Some example_updating\<rparr>) = Some example_updating"
    "fm_getObjectInstance 5 example_updating = Some example_object"
    "outgoing (example_ambassador\<lparr>federate := Some example_updating\<rparr>) = []"
    "timeCalls (example_ambassador\<lparr>federate := Some example_updating\<rparr>) = Some []"
    by (simp_all add: example_updating_def example_ambassador_def fm_getObjectInstance_def)
  have "list_all (\<lambda>av. owned_attribute example_object (AttributeValue_attributeHandle av) = None) example_values"
    "delivers_to_self example_updating example_object = Some True"
    by code_simp+
  then show ?thesis
    using update_sends_each_value_once[OF f(1-3), of example_values True "[7]"] f(4,5) by auto
qed

section \<open>Interaction filters\<close>

text \<open>
  C40: After a subscription with a parameter filter a federate cannot get rid of the filter by subscribing
  without one, actively or passively as before. The federate compares the plain subscription with the state the filtered one left, finds
  no change and sends nothing, so the server goes on filtering.
\<close>

theorem plain_subscription_after_filter_not_sent:
  assumes "connected A" "federate A = Some F" "fm_getInteractionClass h F = Some c" "filterValues \<noteq> []"
    and "B = snd (subscribeInteractionClassWithFilter h filterValues active A)"
  shows "outgoing (snd (subscribeInteractionClass h active B)) = outgoing B"
proof -
  obtain changed c' where c': "fic_setSubscriptionType (subscription_of active) filterValues c = (changed, c')"
    by (metis surj_pair)
  have s: "fps_subscriptionType c' = subscription_of active"
    using c' assms(4) by (auto simp: fic_setSubscriptionType_def fps_setSubscriptionType_def split: prod.splits)
  have B: "connected B" "federate B = Some (put_interaction_class h c' F)"
    using assms c' by (simp_all add: subscribeInteractionClassWithFilter_def change_interaction_subscription_def
        as_member_def found_def send_def update_federate_def Let_def)
  have "fm_getInteractionClass h (put_interaction_class h c' F) = Some c'"
    using assms(3) by (auto simp: fm_getInteractionClass_def put_interaction_class_def vector_get_def
        vector_set_def split: if_splits)
  then show ?thesis using B s
    by (simp add: subscribeInteractionClass_def change_interaction_subscription_def as_member_def found_def
        fic_setSubscriptionType_def fps_setSubscriptionType_def Let_def)
qed

definition example_interactions :: Ambassador where
  "example_interactions = example_ambassador\<lparr>federate := Some (new_federate_model\<lparr>
     fm_interactionClassVector := [Some new_interaction_class]\<rparr>)\<rparr>"

theorem plain_subscription_after_filter_not_sent_witness:
  "length (outgoing (snd (subscribeInteractionClass 0 True (snd (subscribeInteractionClassWithFilter 0
     [\<lparr>ParameterValue_parameterHandle = 1, ParameterValue_value = [9]\<rparr>] True example_interactions))))) = 1"
proof -
  let ?fv = "[\<lparr>ParameterValue_parameterHandle = 1, ParameterValue_value = [9]\<rparr>]"
  have f: "connected example_interactions" "federate example_interactions = Some (new_federate_model\<lparr>
      fm_interactionClassVector := [Some new_interaction_class]\<rparr>)"
    "fm_getInteractionClass 0 (new_federate_model\<lparr>fm_interactionClassVector := [Some new_interaction_class]\<rparr>) =
      Some new_interaction_class"
    by (simp_all add: example_interactions_def example_ambassador_def fm_getInteractionClass_def vector_get_def)
  have "length (outgoing (snd (subscribeInteractionClassWithFilter 0 ?fv True example_interactions))) = 1"
    by code_simp
  then show ?thesis
    using plain_subscription_after_filter_not_sent[OF f _ refl, of ?fv True] by simp
qed

end
