(* ===== verification/Ambassador_Support.thy ===== *)
theory Ambassador_Support
  imports Ambassador_Model
begin

text \<open>
  The support services of the ambassador (\<open>src/OpenRTI/Ambassador.h\<close>): names and handles, dimensions and
  regions, advisory switches, the automatic resign directive.
\<close>

section \<open>Names and handles\<close>

text \<open>A name whose handle is the invalid one is not found.\<close>

definition known_name :: "String \<Rightarrow> 'w::len word \<Rightarrow> 'w word service" where
  "known_name name h = checked (NameNotFound name) (handle_valid h) (return h)"

definition svc_getFederateHandle :: "String \<Rightarrow> FederateHandle service" where
  "svc_getFederateHandle name = as_member (\<lambda>F.
     if fm_federateName F = name then return (fm_federateHandle F)
     else known_name name (fm_getFederateHandle name F))"

definition svc_getFederateName :: "FederateHandle \<Rightarrow> String service" where
  "svc_getFederateName h = as_member (\<lambda>F.
     if fm_federateHandle F = h then return (fm_federateName F)
     else found (InvalidFederateHandle h) (fm_getFederate h F) return)"

definition svc_getObjectClassHandle :: "String \<Rightarrow> ObjectClassHandle service" where
  "svc_getObjectClassHandle name = as_member (\<lambda>F. known_name name (fm_getObjectClassHandle name F))"

definition svc_getObjectClassName :: "ObjectClassHandle \<Rightarrow> String service" where
  "svc_getObjectClassName h = as_member (\<lambda>F.
     found (InvalidObjectClassHandle h) (fm_getObjectClass h F) (\<lambda>c. return (foc_name c)))"

definition svc_getAttributeHandle :: "ObjectClassHandle \<Rightarrow> String \<Rightarrow> AttributeHandle service" where
  "svc_getAttributeHandle h name = as_member (\<lambda>F.
     found (InvalidObjectClassHandle h) (fm_getObjectClass h F) (\<lambda>c.
       known_name name (foc_getAttributeHandle name c)))"

definition class_attribute ::
    "ObjectClassHandle \<Rightarrow> AttributeHandle \<Rightarrow> (FedAttribute \<Rightarrow> 'a service) \<Rightarrow> 'a service" where
  "class_attribute h a k = as_member (\<lambda>F.
     found (InvalidObjectClassHandle h) (fm_getObjectClass h F) (\<lambda>c.
       found (InvalidAttributeHandle a) (foc_getAttribute a c) k))"

definition svc_getAttributeName :: "ObjectClassHandle \<Rightarrow> AttributeHandle \<Rightarrow> String service" where
  "svc_getAttributeName h a = class_attribute h a (\<lambda>attr. return (fps_name attr))"

definition svc_getAttributeDataType :: "ObjectClassHandle \<Rightarrow> AttributeHandle \<Rightarrow> String service" where
  "svc_getAttributeDataType h a = class_attribute h a (\<lambda>attr. return (fedAttribute_dataType attr))"

definition svc_getAvailableDimensionsForClassAttribute ::
    "ObjectClassHandle \<Rightarrow> AttributeHandle \<Rightarrow> DimensionHandleSet service" where
  "svc_getAvailableDimensionsForClassAttribute h a =
     class_attribute h a (\<lambda>attr. return (fps_dimensionHandleSet attr))"

definition svc_getUpdateRateValueForAttribute :: "ObjectInstanceHandle \<Rightarrow> AttributeHandle \<Rightarrow> Double service" where
  "svc_getUpdateRateValueForAttribute h a = as_member (\<lambda>F.
     found (ObjectInstanceNotKnown h) (fm_getObjectInstance h F) (\<lambda>oi.
       found (AttributeNotDefined a) (foi_getInstanceAttribute a oi) (\<lambda>ia. return (fia_updateRate ia))))"

definition svc_getInteractionClassHandle :: "String \<Rightarrow> InteractionClassHandle service" where
  "svc_getInteractionClassHandle name = as_member (\<lambda>F. known_name name (fm_getInteractionClassHandle name F))"

definition svc_getInteractionClassName :: "InteractionClassHandle \<Rightarrow> String service" where
  "svc_getInteractionClassName h = as_member (\<lambda>F.
     found (InvalidInteractionClassHandle h) (fm_getInteractionClass h F) (\<lambda>c. return (fps_name c)))"

definition svc_getParameterHandle :: "InteractionClassHandle \<Rightarrow> String \<Rightarrow> ParameterHandle service" where
  "svc_getParameterHandle h name = as_member (\<lambda>F.
     found (InvalidInteractionClassHandle h) (fm_getInteractionClass h F) (\<lambda>c.
       known_name name (fic_getParameterHandle name c)))"

definition class_parameter ::
    "InteractionClassHandle \<Rightarrow> ParameterHandle \<Rightarrow> (FedParameter \<Rightarrow> 'a service) \<Rightarrow> 'a service" where
  "class_parameter h p k = as_member (\<lambda>F.
     found (InvalidInteractionClassHandle h) (fm_getInteractionClass h F) (\<lambda>c.
       found (InvalidParameterHandle p) (fic_getParameter p c) k))"

definition svc_getParameterName :: "InteractionClassHandle \<Rightarrow> ParameterHandle \<Rightarrow> String service" where
  "svc_getParameterName h p = class_parameter h p (\<lambda>par. return (fedParameter_name par))"

definition svc_getParameterDataType :: "InteractionClassHandle \<Rightarrow> ParameterHandle \<Rightarrow> String service" where
  "svc_getParameterDataType h p = class_parameter h p (\<lambda>par. return (fedParameter_dataType par))"

definition svc_getObjectInstanceHandle :: "String \<Rightarrow> ObjectInstanceHandle service" where
  "svc_getObjectInstanceHandle name = as_member (\<lambda>F.
     let h = fm_getObjectInstanceHandle name F
     in checked (ObjectInstanceNameNotKnown name) (handle_valid h) (return h))"

definition svc_getObjectInstanceName :: "ObjectInstanceHandle \<Rightarrow> String service" where
  "svc_getObjectInstanceName h = as_member (\<lambda>F.
     found (ObjectInstanceNotKnown h) (fm_getObjectInstance h F) (\<lambda>oi. return (foi_name oi)))"

definition svc_getKnownObjectClassHandle :: "ObjectInstanceHandle \<Rightarrow> ObjectClassHandle service" where
  "svc_getKnownObjectClassHandle h = as_member (\<lambda>F.
     found (ObjectInstanceNotKnown h) (fm_getObjectInstance h F) (\<lambda>oi. return (foi_objectClassHandle oi)))"

section \<open>Dimensions, transportation and order types\<close>

definition svc_getDimensionHandle :: "String \<Rightarrow> DimensionHandle service" where
  "svc_getDimensionHandle name = as_member (\<lambda>F. known_name name (fm_getDimensionHandle name F))"

definition svc_getDimensionName :: "DimensionHandle \<Rightarrow> String service" where
  "svc_getDimensionName h = as_member (\<lambda>F.
     found (InvalidDimensionHandle h) (fm_getDimension h F) (\<lambda>d. return (fst d)))"

definition svc_getDimensionUpperBound :: "DimensionHandle \<Rightarrow> Unsigned service" where
  "svc_getDimensionUpperBound h = as_member (\<lambda>F.
     found (InvalidDimensionHandle h) (fm_getDimension h F) (\<lambda>d. return (snd d)))"

definition svc_getAvailableDimensionsForInteractionClass ::
    "InteractionClassHandle \<Rightarrow> DimensionHandleSet service" where
  "svc_getAvailableDimensionsForInteractionClass h = as_member (\<lambda>F.
     found (InvalidInteractionClassHandle h) (fm_getInteractionClass h F) (\<lambda>c.
       return (fps_dimensionHandleSet c)))"

definition svc_getTransportationType :: "String \<Rightarrow> TransportationType service" where
  "svc_getTransportationType name = as_member (\<lambda>F.
     found (InvalidTransportationName name) (fm_getTransportationType name F) return)"

definition svc_getTransportationName :: "TransportationType \<Rightarrow> String service" where
  "svc_getTransportationName t = as_member (\<lambda>F.
     found InvalidTransportationType (fm_getTransportationName t F) return)"

definition svc_getOrderType :: "String \<Rightarrow> OrderType service" where
  "svc_getOrderType name = as_member (\<lambda>F. found (InvalidOrderName name) (fm_getOrderType name F) return)"

definition svc_getOrderName :: "OrderType \<Rightarrow> String service" where
  "svc_getOrderName t = as_member (\<lambda>F. found InvalidOrderType (fm_getOrderName t F) return)"

section \<open>Advisory switches\<close>

text \<open>
  Switching an advisory on queues it for everything the federate itself has declared; null classes are
  skipped, a class without attribute 0 is not.
\<close>

definition enableObjectClassRelevanceAdvisorySwitch :: "unit service" where
  "enableObjectClassRelevanceAdvisorySwitch = as_member (\<lambda>F.
     checked AdvisorySwitchIsOn (\<not> fm_objectClassRelevanceAdvisorySwitchEnabled F)
      (checked NullPointer
        (list_all (\<lambda>c. case c of None \<Rightarrow> True | Some c \<Rightarrow> foc_getAttribute 0 c \<noteq> None) (fm_objectClassVector F))
        (\<lambda>A. return ()
          (fold (\<lambda>i A'. case fm_objectClassVector F ! i of
              None \<Rightarrow> A'
            | Some c \<Rightarrow> (if \<not> foc_isPublished c then A'
                else queueCallback (RegistrationForObjectClass (of_nat i) True) A'))
            [0..<length (fm_objectClassVector F)]
            (update_federate (\<lambda>F. F\<lparr>fm_objectClassRelevanceAdvisorySwitchEnabled := True\<rparr>) A)))))"

definition disableObjectClassRelevanceAdvisorySwitch :: "unit service" where
  "disableObjectClassRelevanceAdvisorySwitch = as_member (\<lambda>F.
     checked AdvisorySwitchIsOff (fm_objectClassRelevanceAdvisorySwitchEnabled F) (\<lambda>A.
       return () (update_federate (\<lambda>F. F\<lparr>fm_objectClassRelevanceAdvisorySwitchEnabled := False\<rparr>) A)))"

text \<open>
  The attributes of an instance the federate owns, over the number of attributes of its class; an
  attribute the instance does not have is a null pointer.
\<close>

definition owned_attributes :: "FedObjectInstance \<Rightarrow> FedObjectClass \<Rightarrow> AttributeHandleVector option" where
  "owned_attributes oi c =
     (let hs = map of_nat [0..<unat (foc_getNumAttributes c)]
      in if list_ex (\<lambda>a. foi_getInstanceAttribute a oi = None) hs then None
         else Some (filter (\<lambda>a. fia_isOwnedByFederate (the (foi_getInstanceAttribute a oi))) hs))"

fun advise_instances ::
    "(ObjectInstanceHandle \<Rightarrow> AttributeHandleVector \<Rightarrow> callback_entry) \<Rightarrow> FederateModel
      \<Rightarrow> (ObjectInstanceHandle \<times> FedObjectInstance) list \<Rightarrow> unit service" where
  "advise_instances msg F [] A = return () A"
| "advise_instances msg F ((h, oi) # ois) A =
     (case fm_getObjectClass (foi_objectClassHandle oi) F of
        None \<Rightarrow> advise_instances msg F ois A
      | Some c \<Rightarrow> (case owned_attributes oi c of
          None \<Rightarrow> throw NullPointer A
        | Some attrs \<Rightarrow>
            advise_instances msg F ois (if attrs = [] then A else queueCallback (msg h attrs) A)))"

definition enableAttributeRelevanceAdvisorySwitch :: "unit service" where
  "enableAttributeRelevanceAdvisorySwitch = as_member (\<lambda>F.
     checked AdvisorySwitchIsOn (\<not> fm_attributeRelevanceAdvisorySwitchEnabled F) (\<lambda>A.
       advise_instances (\<lambda>h attrs. TurnUpdatesOnForInstance h attrs True) F (fm_objectInstanceHandleMap F)
         (update_federate (\<lambda>F. F\<lparr>fm_attributeRelevanceAdvisorySwitchEnabled := True\<rparr>) A)))"

definition disableAttributeRelevanceAdvisorySwitch :: "unit service" where
  "disableAttributeRelevanceAdvisorySwitch = as_member (\<lambda>F.
     checked AdvisorySwitchIsOff (fm_attributeRelevanceAdvisorySwitchEnabled F) (\<lambda>A.
       return () (update_federate (\<lambda>F. F\<lparr>fm_attributeRelevanceAdvisorySwitchEnabled := False\<rparr>) A)))"

definition enableAttributeScopeAdvisorySwitch :: "unit service" where
  "enableAttributeScopeAdvisorySwitch = as_member (\<lambda>F.
     checked AdvisorySwitchIsOn (\<not> fm_attributeScopeAdvisorySwitchEnabled F) (\<lambda>A.
       advise_instances (\<lambda>h attrs. AttributesInScope h attrs True) F (fm_objectInstanceHandleMap F)
         (update_federate (\<lambda>F. F\<lparr>fm_attributeScopeAdvisorySwitchEnabled := True\<rparr>) A)))"

definition disableAttributeScopeAdvisorySwitch :: "unit service" where
  "disableAttributeScopeAdvisorySwitch = as_member (\<lambda>F.
     checked AdvisorySwitchIsOff (fm_attributeScopeAdvisorySwitchEnabled F) (\<lambda>A.
       return () (update_federate (\<lambda>F. F\<lparr>fm_attributeScopeAdvisorySwitchEnabled := False\<rparr>) A)))"

definition enableInteractionRelevanceAdvisorySwitch :: "unit service" where
  "enableInteractionRelevanceAdvisorySwitch = as_member (\<lambda>F.
     checked AdvisorySwitchIsOn (\<not> fm_interactionRelevanceAdvisorySwitchEnabled F) (\<lambda>A. return ()
       (fold (\<lambda>i A'. case fm_interactionClassVector F ! i of
           None \<Rightarrow> A'
         | Some c \<Rightarrow> (if \<not> fps_isPublished c then A' else queueCallback (TurnInteractionsOn (of_nat i) True) A'))
         [0..<length (fm_interactionClassVector F)]
         (update_federate (\<lambda>F. F\<lparr>fm_interactionRelevanceAdvisorySwitchEnabled := True\<rparr>) A))))"

definition disableInteractionRelevanceAdvisorySwitch :: "unit service" where
  "disableInteractionRelevanceAdvisorySwitch = as_member (\<lambda>F.
     checked AdvisorySwitchIsOff (fm_interactionRelevanceAdvisorySwitchEnabled F) (\<lambda>A.
       return () (update_federate (\<lambda>F. F\<lparr>fm_interactionRelevanceAdvisorySwitchEnabled := False\<rparr>) A)))"

section \<open>The automatic resign directive\<close>

definition svc_getAutomaticResignDirective :: "ResignAction service" where
  "svc_getAutomaticResignDirective = as_member (\<lambda>F. return (fm_automaticResignDirective F))"

definition svc_setAutomaticResignDirective :: "ResignAction \<Rightarrow> unit service" where
  "svc_setAutomaticResignDirective action = as_member (\<lambda>F A.
     if fm_automaticResignDirective F = action then return () A
     else return () (send (ChangeAutomaticResignDirectiveMessage
       \<lparr>ChangeAutomaticResignDirectiveMessage_federationHandle = fm_federationHandle F,
        ChangeAutomaticResignDirectiveMessage_federateHandle = fm_federateHandle F,
        ChangeAutomaticResignDirectiveMessage_resignAction = action\<rparr>)
       (update_federate (\<lambda>F. F\<lparr>fm_automaticResignDirective := action\<rparr>) A)))"

section \<open>Regions\<close>

definition dimension_known :: "FederateModel \<Rightarrow> DimensionHandle \<Rightarrow> rti_exception option" where
  "dimension_known F d = (if fm_getDimension d F = None then Some (InvalidDimensionHandle d) else None)"

definition createRegion :: "DimensionHandleSet \<Rightarrow> RegionHandle service" where
  "createRegion dims = as_member (\<lambda>F. check_each (dimension_known F) (sorted_list_of_fset dims) (\<lambda>A.
     case fm_insertLocalRegion dims F of
       Inl _ \<Rightarrow> throw RTIinternalError A
     | Inr (h, F') \<Rightarrow> return h (send (InsertRegionMessage
         \<lparr>InsertRegionMessage_federationHandle = fm_federationHandle F,
          InsertRegionMessage_regionHandleDimensionHandleSetPairVector = [(h, dims)]\<rparr>)
         (A\<lparr>federate := Some F'\<rparr>))))"

text \<open>
  The loop writes into the last element of a vector it never puts an element into; that is undefined
  with the first region that passes the checks.
\<close>

definition region_of_own :: "FederateModel \<Rightarrow> RegionHandle \<Rightarrow> rti_exception option" where
  "region_of_own F h =
     (if \<not> handle_valid h then Some (InvalidRegion h)
      else if getFederateHandle h \<noteq> fm_federateHandle F then Some (RegionNotCreatedByThisFederate h)
      else if fm_getRegion h F = None then Some (InvalidRegion h)
      else Some NullPointer)"

definition commitRegionModifications :: "RegionHandleVector \<Rightarrow> unit service" where
  "commitRegionModifications hs = as_member (\<lambda>F. check_each (region_of_own F) hs (\<lambda>A.
     return () (send (CommitRegionMessage
       \<lparr>CommitRegionMessage_federationHandle = fm_federationHandle F,
        CommitRegionMessage_regionHandleRegionValuePairVector = []\<rparr>) A)))"

definition deleteRegion :: "RegionHandle \<Rightarrow> unit service" where
  "deleteRegion h = as_member (\<lambda>F. checked (InvalidRegion h) (handle_valid h)
     (found (InvalidRegion h) (fm_getRegion h F) (\<lambda>_.
       checked (RegionNotCreatedByThisFederate h) (getFederateHandle h = fm_federateHandle F) (\<lambda>A.
         return () (send (EraseRegionMessage
           \<lparr>EraseRegionMessage_federationHandle = fm_federationHandle F,
            EraseRegionMessage_regionHandleVector = [h]\<rparr>)
           (update_federate (fm_eraseLocalRegion h) A))))))"

definition svc_getDimensionHandleSet :: "RegionHandle \<Rightarrow> DimensionHandleSet service" where
  "svc_getDimensionHandleSet h = as_member (\<lambda>F.
     found (InvalidRegion h) (fm_getRegion h F) (\<lambda>r. return (frd_dimensionHandleSet r)))"

definition svc_getRangeBounds :: "RegionHandle \<Rightarrow> DimensionHandle \<Rightarrow> range_bounds service" where
  "svc_getRangeBounds h d = as_member (\<lambda>F.
     found (InvalidRegion h) (fm_getRegion h F) (\<lambda>r.
       checked RegionDoesNotContainSpecifiedDimension (frd_containsDimensionHandle d r)
         (return (getRangeBounds d (frd_region r)))))"

definition svc_setRangeBounds :: "RegionHandle \<Rightarrow> DimensionHandle \<Rightarrow> range_bounds \<Rightarrow> unit service" where
  "svc_setRangeBounds h d bounds = as_member (\<lambda>F.
     found (InvalidRegion h) (fm_getRegion h F) (\<lambda>r.
       checked (RegionNotCreatedByThisFederate h) (getFederateHandle h = fm_federateHandle F)
        (checked RegionDoesNotContainSpecifiedDimension (frd_containsDimensionHandle d r)
          (found NullPointer (fm_getDimension d F) (\<lambda>dim.
            checked InvalidRangeBound (\<not> snd dim < upperBound bounds) (\<lambda>A.
              return () (update_federate (\<lambda>F. F\<lparr>fm_regionHandleRegionDataMap :=
                smap_update h (r\<lparr>frd_region := setRangeBounds d bounds (frd_region r)\<rparr>)
                  (fm_regionHandleRegionDataMap F)\<rparr>) A)))))))"

end
