(* ===== verification/Ambassador_Federation.thy ===== *)
theory Ambassador_Federation
  imports Ambassador_Model
begin

text \<open>
  Federation management of the ambassador (\<open>src/OpenRTI/Ambassador.h\<close>, \<open>InternalAmbassador.cpp\<close>): the
  connection, creating and destroying a federation, joining and resigning, synchronization points. A
  request waits for its answer and hands over every other message; meanwhile there are no callbacks.
\<close>

section \<open>The connection\<close>

text \<open>Whether the connection can be made is a parameter.\<close>

definition svc_connect :: "bool \<Rightarrow> unit service" where
  "svc_connect success A =
     (if connected A then throw AlreadyConnected A
      else let A1 = A\<lparr>connected := success\<rparr>
           in if \<not> connected A1 then throw ConnectionFailed A1 else return () A1)"

definition svc_disconnect :: "unit service" where
  "svc_disconnect A =
     (if federate A \<noteq> None then throw FederateIsExecutionMember A
      else if \<not> connected A then return () A
      else return () (A\<lparr>connected := False\<rparr>))"

section \<open>Waiting for an answer\<close>

definition dispatch_wait :: "(message \<Rightarrow> 'r option service) \<Rightarrow> 'r option service" where
  "dispatch_wait f A = (let A1 = A\<lparr>callbacksEnabled := False\<rparr>
     in bind (wait_for f (incoming A1)) (\<lambda>r A'. return r (A'\<lparr>callbacksEnabled := True\<rparr>)) A1)"

definition create_functor ::
    "(String \<Rightarrow> bool) \<Rightarrow> message \<Rightarrow> (CreateFederationExecutionResponseType \<times> String) option service" where
  "create_functor timeFactory m = (case m of
     ConnectionLostMessage l \<Rightarrow> hand_over timeFactory m (Some (CreateFederationExecutionResponseRTIinternalError,
       ConnectionLostMessage_faultDescription l))
   | CreateFederationExecutionResponseMessage r \<Rightarrow>
       return (Some (CreateFederationExecutionResponseMessage_createFederationExecutionResponseType r,
         CreateFederationExecutionResponseMessage_exceptionString r))
   | _ \<Rightarrow> hand_over timeFactory m None)"

definition destroy_functor ::
    "(String \<Rightarrow> bool) \<Rightarrow> message \<Rightarrow> DestroyFederationExecutionResponseType option service" where
  "destroy_functor timeFactory m = (case m of
     ConnectionLostMessage _ \<Rightarrow> hand_over timeFactory m (Some DestroyFederationExecutionResponseRTIinternalError)
   | DestroyFederationExecutionResponseMessage r \<Rightarrow>
       return (Some (DestroyFederationExecutionResponseMessage_destroyFederationExecutionResponseType r))
   | _ \<Rightarrow> hand_over timeFactory m None)"

text \<open>An answer about another federate is handed over, and the wait goes on.\<close>

definition join_functor ::
    "(String \<Rightarrow> bool) \<Rightarrow> String \<Rightarrow> message \<Rightarrow> (JoinFederationExecutionResponseType \<times> String) option service" where
  "join_functor timeFactory federateName m = (case m of
     ConnectionLostMessage l \<Rightarrow> hand_over timeFactory m
       (Some (JoinFederationExecutionResponseFederationExecutionDoesNotExist,
          ConnectionLostMessage_faultDescription l))
   | JoinFederationExecutionResponseMessage r \<Rightarrow> hand_over timeFactory m
       (let name = JoinFederationExecutionResponseMessage_federateName r
        in if name = federateName \<or> (federateName = [] \<and> take 11 name = ascii ''HLAfederate'')
           then Some (JoinFederationExecutionResponseMessage_joinFederationExecutionResponseType r,
             JoinFederationExecutionResponseMessage_exceptionString r)
           else None)
   | CreateFederationExecutionResponseMessage _ \<Rightarrow> return None
   | _ \<Rightarrow> hand_over timeFactory m None)"

text \<open>A resigning federate drops every other message.\<close>

definition erase_functor :: "(String \<Rightarrow> bool) \<Rightarrow> message \<Rightarrow> unit option service" where
  "erase_functor timeFactory m = (case m of
     ConnectionLostMessage _ \<Rightarrow> hand_over timeFactory m (Some ())
   | EraseFederationExecutionMessage e \<Rightarrow> (\<lambda>A. return (Some ()) (send (ReleaseFederationHandleMessage
       \<lparr>ReleaseFederationHandleMessage_federationHandle = EraseFederationExecutionMessage_federationHandle e\<rparr>) A))
   | _ \<Rightarrow> return None)"

section \<open>Creating and destroying federations\<close>

text \<open>The translation of the modules for servers that speak the older version.\<close>

definition encoding_name :: "ArrayDataTypeEncoding \<Rightarrow> String" where
  "encoding_name e = (case e of FixedArrayDataTypeEncoding \<Rightarrow> ascii ''HLAfixedArray''
     | VariableArrayDataTypeEncoding \<Rightarrow> ascii ''HLAvariableArray'')"

definition translate_array :: "FOMStringArrayDataType2 \<Rightarrow> FOMStringArrayDataType" where
  "translate_array r = \<lparr>FOMStringArrayDataType_name = FOMStringArrayDataType2_name r,
     FOMStringArrayDataType_dataType = FOMStringArrayDataType2_dataType r,
     FOMStringArrayDataType_cardinality = FOMStringArrayDataType2_cardinality r,
     FOMStringArrayDataType_encoding = encoding_name (FOMStringArrayDataType2_encoding r)\<rparr>"

definition translate_module :: "FOMStringModule2 \<Rightarrow> FOMStringModule" where
  "translate_module r = \<lparr>
     FOMStringModule_designator = FOMStringModule2_designator r,
     FOMStringModule_transportationTypeList = FOMStringModule2_transportationTypeList r,
     FOMStringModule_dimensionList = FOMStringModule2_dimensionList r,
     FOMStringModule_routingSpaceList = FOMStringModule2_routingSpaceList r,
     FOMStringModule_interactionClassList = FOMStringModule2_interactionClassList r,
     FOMStringModule_objectClassList = FOMStringModule2_objectClassList r,
     FOMStringModule_updateRateList = FOMStringModule2_updateRateList r,
     FOMStringModule_switchList = FOMStringModule2_switchList r,
     FOMStringModule_simpleDataTypeList = FOMStringModule2_simpleDataTypeList r,
     FOMStringModule_enumeratedDataTypeList = FOMStringModule2_enumeratedDataTypeList r,
     FOMStringModule_arrayDataTypeList = map translate_array (FOMStringModule2_arrayDataTypeList r),
     FOMStringModule_fixedRecordDataTypeList = [],
     FOMStringModule_variantRecordDataTypeList = [],
     FOMStringModule_artificialInteractionRoot = FOMStringModule2_artificialInteractionRoot r,
     FOMStringModule_artificialObjectRoot = FOMStringModule2_artificialObjectRoot r\<rparr>"

text \<open>A request in the version of the protocol; other versions send nothing.\<close>

definition send_create_request :: "nat \<Rightarrow> String \<Rightarrow> FOMStringModule2List \<Rightarrow> String \<Rightarrow> Ambassador \<Rightarrow> Ambassador" where
  "send_create_request version name modules timeFactoryName A =
     (if version = 8 then send (CreateFederationExecutionRequestMessage
        \<lparr>CreateFederationExecutionRequestMessage_federationExecution = name,
         CreateFederationExecutionRequestMessage_logicalTimeFactoryName = timeFactoryName,
         CreateFederationExecutionRequestMessage_fOMStringModuleList = map translate_module modules\<rparr>) A
      else if version = 9 then send (CreateFederationExecutionRequest2Message
        \<lparr>CreateFederationExecutionRequest2Message_federationExecution = name,
         CreateFederationExecutionRequest2Message_logicalTimeFactoryName = timeFactoryName,
         CreateFederationExecutionRequest2Message_fOMStringModuleList = modules\<rparr>) A
      else A)"

definition createFederationExecution ::
    "(String \<Rightarrow> bool) \<Rightarrow> nat \<Rightarrow> String \<Rightarrow> FOMStringModule2List \<Rightarrow> String \<Rightarrow> unit service" where
  "createFederationExecution timeFactory version name modules timeFactoryName A =
     (if \<not> connected A then throw NotConnected A
      else bind (dispatch_wait (create_functor timeFactory)) (\<lambda>r.
        case (case r of None \<Rightarrow> (CreateFederationExecutionResponseTimeout,
                ascii ''Timeout while waiting for CreateFederationExecutionResponse'') | Some p \<Rightarrow> p)
        of (t, reason) \<Rightarrow>
          (if t = CreateFederationExecutionResponseFederationExecutionAlreadyExists
             then throw (FederationExecutionAlreadyExists name)
           else if t = CreateFederationExecutionResponseCouldNotCreateLogicalTimeFactory
             then throw (CouldNotCreateLogicalTimeFactory timeFactoryName)
           else if t = CreateFederationExecutionResponseInconsistentFDD then throw (InconsistentFDD reason)
           else if t = CreateFederationExecutionResponseTimeout then throw (OperationTimeout reason)
           else if t \<noteq> CreateFederationExecutionResponseSuccess then throw (InternalErrorBecause reason)
           else return ()))
        (send_create_request version name modules timeFactoryName A))"

definition destroyFederationExecution :: "(String \<Rightarrow> bool) \<Rightarrow> String \<Rightarrow> unit service" where
  "destroyFederationExecution timeFactory name A =
     (if \<not> connected A then throw NotConnected A
      else bind (dispatch_wait (destroy_functor timeFactory)) (\<lambda>r.
        let t = (case r of None \<Rightarrow> DestroyFederationExecutionResponseRTIinternalError | Some t \<Rightarrow> t)
        in if t = DestroyFederationExecutionResponseFederatesCurrentlyJoined
             then throw (FederatesCurrentlyJoined name)
           else if t = DestroyFederationExecutionResponseFederationExecutionDoesNotExist
             then throw (FederationExecutionDoesNotExist name)
           else if t = DestroyFederationExecutionResponseRTIinternalError then throw NotConnected
           else return ())
        (send (DestroyFederationExecutionRequestMessage
          \<lparr>DestroyFederationExecutionRequestMessage_federationExecution = name\<rparr>) A))"

definition listFederationExecutions :: "unit service" where
  "listFederationExecutions A =
     (if \<not> connected A then throw NotConnected A
      else return () (send (EnumerateFederationExecutionsRequestMessage ()) A))"

section \<open>Joining and resigning\<close>

definition empty_configuration :: ConfigurationParameterMap where
  "empty_configuration = fmempty"

definition send_join_request ::
    "nat \<Rightarrow> String \<Rightarrow> String \<Rightarrow> String \<Rightarrow> FOMStringModule2List \<Rightarrow> Ambassador \<Rightarrow> Ambassador" where
  "send_join_request version federateName federateType name modules A =
     (if version = 8 then send (JoinFederationExecutionRequestMessage
        \<lparr>JoinFederationExecutionRequestMessage_federationExecution = name,
         JoinFederationExecutionRequestMessage_federateType = federateType,
         JoinFederationExecutionRequestMessage_federateName = federateName,
         JoinFederationExecutionRequestMessage_fOMStringModuleList = map translate_module modules,
         JoinFederationExecutionRequestMessage_configurationParameterMap = empty_configuration,
         JoinFederationExecutionRequestMessage_isInternal = False\<rparr>) A
      else if version = 9 then send (JoinFederationExecutionRequest2Message
        \<lparr>JoinFederationExecutionRequest2Message_federationExecution = name,
         JoinFederationExecutionRequest2Message_federateType = federateType,
         JoinFederationExecutionRequest2Message_federateName = federateName,
         JoinFederationExecutionRequest2Message_fOMStringModuleList = modules,
         JoinFederationExecutionRequest2Message_configurationParameterMap = empty_configuration,
         JoinFederationExecutionRequest2Message_isInternal = False\<rparr>) A
      else A)"

text \<open>
  Resigning gives up the time management first and the federate when the federation is erased; when that
  does not come in time the federate stays. The leaf request has no encoding.
\<close>

definition resign :: "(String \<Rightarrow> bool) \<Rightarrow> unit service" where
  "resign timeFactory A = (case federate A of
     None \<Rightarrow> return () A
   | Some F \<Rightarrow> bind (dispatch_wait (erase_functor timeFactory)) (\<lambda>r A'.
       case r of None \<Rightarrow> throw RTIinternalError A' | Some _ \<Rightarrow> return () (A'\<lparr>federate := None\<rparr>))
       ((send OtherMessage A)\<lparr>timeCalls := None\<rparr>))"

definition resignFederationExecution :: "(String \<Rightarrow> bool) \<Rightarrow> unit service" where
  "resignFederationExecution timeFactory = as_member (\<lambda>_. resign timeFactory)"

text \<open>The exception for an answer that is no success; every one of them gives up the federate.\<close>

definition join_failure ::
    "String \<Rightarrow> String \<Rightarrow> JoinFederationExecutionResponseType \<times> String \<Rightarrow> rti_exception option" where
  "join_failure federateName name r = (case fst r of
     JoinFederationExecutionResponseFederateNameAlreadyInUse \<Rightarrow> Some (FederateNameAlreadyInUse federateName)
   | JoinFederationExecutionResponseFederationExecutionDoesNotExist \<Rightarrow> Some (FederationExecutionDoesNotExist name)
   | JoinFederationExecutionResponseSaveInProgress \<Rightarrow> Some SaveInProgress
   | JoinFederationExecutionResponseRestoreInProgress \<Rightarrow> Some RestoreInProgress
   | JoinFederationExecutionResponseInconsistentFDD \<Rightarrow> Some (InconsistentFDD (snd r))
   | JoinFederationExecutionResponseTimeout \<Rightarrow> Some (OperationTimeout (snd r))
   | JoinFederationExecutionResponseSuccess \<Rightarrow> None)"

definition joinFederationExecution ::
    "(String \<Rightarrow> bool) \<Rightarrow> nat \<Rightarrow> String \<Rightarrow> String \<Rightarrow> String \<Rightarrow> FOMStringModule2List \<Rightarrow> FederateHandle service" where
  "joinFederationExecution timeFactory version federateName federateType name modules A =
     (if \<not> connected A then throw NotConnected A
      else if federate A \<noteq> None then throw FederateAlreadyExecutionMember A
      else bind (dispatch_wait (join_functor timeFactory federateName)) (\<lambda>r A'.
        case join_failure federateName name
          (case r of None \<Rightarrow> (JoinFederationExecutionResponseTimeout,
             ascii ''Timeout while waiting for JoinFederationExecutionResponse'') | Some p \<Rightarrow> p) of
          Some e \<Rightarrow> throw e (A'\<lparr>federate := None\<rparr>)
        | None \<Rightarrow> (case federate A' of
            None \<Rightarrow> throw RTIinternalError A'
          | Some F \<Rightarrow>
              (if timeCalls A' = None
               then let timeFactoryName = fm_logicalTimeFactoryName F
                    in bind (resign timeFactory) (\<lambda>_. if timeFactoryName \<noteq> []
                         then throw (CouldNotCreateLogicalTimeFactory timeFactoryName)
                         else throw RTIinternalError) A'
               else return (fm_federateHandle F) (requestObjectInstanceHandles 16 F A'))))
        (send_join_request version federateName federateType name modules A))"

section \<open>Synchronization points\<close>

definition registerFederationSynchronizationPoint ::
    "String \<Rightarrow> vld \<Rightarrow> FederateHandleVector \<Rightarrow> unit service" where
  "registerFederationSynchronizationPoint label tag syncSet = as_member (\<lambda>F A.
     return () (send (RegisterFederationSynchronizationPointMessage
       \<lparr>RegisterFederationSynchronizationPointMessage_federationHandle = fm_federationHandle F,
        RegisterFederationSynchronizationPointMessage_federateHandle = fm_federateHandle F,
        RegisterFederationSynchronizationPointMessage_label = label,
        RegisterFederationSynchronizationPointMessage_tag = tag,
        RegisterFederationSynchronizationPointMessage_federateHandleVector = syncSet\<rparr>) A))"

definition synchronizationPointAchieved :: "String \<Rightarrow> bool \<Rightarrow> unit service" where
  "synchronizationPointAchieved label successfully = as_member (\<lambda>F.
     checked SynchronizationPointLabelNotAnnounced (fm_synchronizationLabelAnnounced label F) (\<lambda>A.
       return () (send (SynchronizationPointAchievedMessage
         \<lparr>SynchronizationPointAchievedMessage_federationHandle = fm_federationHandle F,
          SynchronizationPointAchievedMessage_label = label,
          SynchronizationPointAchievedMessage_federateHandleBoolPairVector =
            [(fm_federateHandle F, successfully)]\<rparr>) A)))"

text \<open>Saving and restoring are not implemented: they end with an exception in any case.\<close>

definition requestFederationSave :: "unit service" where
  "requestFederationSave = as_member (\<lambda>_. throw RTIinternalError)"

end
