(* ===== verification/Spec2Isabelle.thy ===== *)
theory Spec2Isabelle
  imports Interaction_Routing Object_Properties Federation_Sync Time_Properties Region_Model Stream_Output Clock_Model
    Ambassador_Properties Ambassador_Support Ambassador_Federation
begin

text \<open>
  A verification development for OpenRTI, a run time infrastructure for distributed simulation (HLA):
  federates join a federation, publish and subscribe to classes, exchange updates and interactions,
  and advance logical time together. A federate talks to a server node, server nodes form a tree;
  all talk in messages over byte streams. Paths below are relative to \<open>src/\<close> of the repository.

  \<^bold>\<open>The message stream.\<close> \<open>Data_Stream\<close> models the byte streams (\<open>OpenRTI/VariableLengthData.h\<close>,
  \<open>EncodeDataStream.h\<close>, \<open>DecodeDataStream.h\<close>): byte orders, alignment, compressed numbers, reading beyond
  the end. \<open>Wire_Codec\<close> holds the contract of a pair of a writer and a reader (\<open>wire_codec\<close>) and of data
  that travels in buffers of its own (\<open>payload_codec\<close>), with the combinators for strings, sequences,
  sets and maps. \<open>Wire_Types\<close> and \<open>Message_Types\<close> are the value types and message classes of
  \<open>OpenRTI/Message.h\<close> as records and datatypes with their members; \<open>Wire_Structs\<close> and \<open>Message_Codec\<close> are
  the \<open>writeX\<close>, \<open>readX\<close> and \<open>readPayloadX\<close> functions of \<open>OpenRTI/TightBE1MessageEncoding.cpp\<close>, each shown
  to obey the contract; \<open>TightBE1\<close> is the dispatch by opcode and the packets. \<open>Stream_Protocol\<close> and
  \<open>Stream_Output\<close> are the two halves of \<open>OpenRTI/StreamBufferProtocol.cpp\<close>: the read loop over the pieces
  the socket hands over, with \<open>readPacket\<close>, and the write loop over the answers of the socket. The
  theorem below puts the two together: what is queued on one side arrives on the other.

  \<^bold>\<open>Time management.\<close> \<open>Lower_Bound_Map\<close> is \<open>OpenRTI/FederateHandleLowerBoundTimeStampMap.h\<close>: the bounds the
  federates have committed to and the tests whether time may advance, over ordered maps
  (\<open>Std_Map\<close>). \<open>Time_Modes\<close>, \<open>Time_Management\<close> and \<open>Time_Services\<close> are the state machine of a federate
  (\<open>OpenRTI/InternalTimeManagement.h\<close>, \<open>TemplateTimeManagement.h\<close> and the services of \<open>Ambassador.h\<close>, over
  any logical time that behaves like a number). \<open>Time_Safety\<close> holds the invariants every operation
  keeps, \<open>Time_Run\<close> the runs of a federate as an inductive relation over them, \<open>Time_Properties\<close> the
  guarantees: no message before a committed bound, delivery in time order, answers to requests.

  \<^bold>\<open>Interaction filters.\<close> \<open>Tuple_Set\<close> is the indexed table of \<open>OpenRTI/VariableLengthDataTuple.cpp\<close> with
  wildcards, refined to a linear search; \<open>Interaction_Filter\<close> the tables of an interaction class in
  \<open>OpenRTI/ServerModel.cpp\<close>. After any history of subscriptions and withdrawals the messages of a
  connection are those its log of filters accepts; a connection that has withdrawn a filter is exempt,
  since erasing a row leaves a wrong index.

  \<^bold>\<open>The server node.\<close> A node keeps for each federation its federates, the connects they are behind, one
  of which may lead to the parent node, and the tables that route messages (\<open>OpenRTI/ServerModel.cpp\<close>);
  \<open>FederationServer\<close> in \<open>OpenRTI/ServerNode.cpp\<close> handles each message. \<open>Publish_Subscribe\<close> holds the sets
  of publishing and subscribing connects of a class with what a change propagates, stated as a contract
  (\<open>announced_set\<close>) that both kinds of sets fulfil; \<open>Interaction_Class\<close> the tree of classes with the
  cache of subscribers routing reads; \<open>Federation_Model\<close> the records of a federation and the ways to
  send. A handler maps a connect, a message and a federation to an exception or a new federation with
  the list of its effects: messages sent to connects, and reports to the metrics. \<open>Interaction_Routing\<close>
  models publications, subscriptions and interactions: after any history of them an interaction goes to
  the subscribers of its class or of a parent and to nobody else, and publishers have heard whether
  there are subscribers. \<open>Object_Model\<close> holds object classes and instances with the owner and the
  receivers of every attribute; seen through one attribute the classes are a tree like that of
  interactions, so the lemmas on its cache carry over. \<open>Object_Routing\<close> are the handlers of everything
  about objects, \<open>Object_Delivery\<close> their common invariant, lemma by lemma for each change they make,
  and the histories of a node; \<open>Object_Properties\<close> says who gets an attribute update and who is asked
  for one. A null pointer the code would follow is an error of its own. \<open>Federation_Time\<close> is time
  management at the server: regulating federates and constrained connects, over any history of its
  messages. \<open>Federation_Sync\<close> is synchronization points
  with resigning federates: a point waits for joined federates alone, and when the last of them has
  achieved it or has resigned it is completed, once, with a message to all children concerned.
  \<open>Intrusive_Map\<close> is the hash map behind all these tables (\<open>OpenRTI/IntrusiveUnorderedMap.h\<close>), refined
  to the association list the other theories use. The classes of a federation are a list in which a
  parent stands in front of its children; objects that the code links by pointers are named by handles,
  and the place of a link in an intrusive list is the membership of the handle in a list.

  \<^bold>\<open>The federate.\<close> \<open>Federate_Classes\<close> and \<open>Federate_Model\<close> are the object model a federate keeps
  (\<open>OpenRTI/Federate.h\<close>, \<open>Federate.cpp\<close>): the classes from the FOM modules with what it publishes and
  subscribes, its instances, names, regions, switches. \<open>Ambassador_Model\<close> is the state of the ambassador
  (\<open>Ambassador.h\<close>, \<open>InternalAmbassador.cpp\<close>), its queues, the handlers of messages that come before a
  callback and the wait for an answer; the time management is a partner that gets calls.
  \<open>Ambassador_Declare\<close>, \<open>Ambassador_Objects\<close>, \<open>Ambassador_Federation\<close> and \<open>Ambassador_Support\<close> are the
  services, \<open>Ambassador_Callbacks\<close> the handlers of callbacks and their dispatch. A service maps an
  ambassador to an exception or a result, and to the ambassador after it. \<open>Ambassador_Changes\<close> shows
  that the compaction in place keeps the attributes that changed, and states what publication and
  subscription have in common as a contract (\<open>declarations\<close>); \<open>Ambassador_Mirror\<close> that after any
  declarations the table a server builds from the messages is the state of the federate;
  \<open>Ambassador_Parents\<close> that the FOM modules build a tree of classes, so that the loops to the root end;
  their fuel is the number of classes and one. \<open>Ambassador_Properties\<close> holds the guarantees.

  \<^bold>\<open>Handles and regions.\<close> \<open>Handle_Allocator\<close> is \<open>OpenRTI/HandleAllocator.h\<close>; \<open>Region_Model\<close> the ranges,
  regions and region sets of \<open>RangeBounds.h\<close>, \<open>Region.h\<close> and \<open>RegionSet.cpp\<close>.

  \<^bold>\<open>Clocks.\<close> \<open>Clock_Model\<close> is the saturating \<open>Clock\<close>, an ordered monoid, and the timeouts of
  \<open>AbsTimeout.cpp\<close> with the readings of the system clock as arguments.

  \<^bold>\<open>Conventions.\<close> A class is a record, a mutating member function a function from state to state.
  Exceptions are the left side of a sum, undefined behaviour (a dereferenced end iterator, a shift by
  the width) a value of its own (\<open>None\<close> or an error constructor), so that no theorem relies on it.
  Machine integers are words. \<open>std::map\<close> and \<open>std::set\<close> are sorted association lists where their order
  matters and finite sets where it does not. The other side of a socket is the sequence of its answers.
  Sizes in memory are natural numbers; where the code keeps them in 32 or 64 bits on the wire, the
  bound is a hypothesis (\<open>sendable\<close>). All loops are total functions with a measure: the read loop
  consumes bytes or fills its first buffers, the write loop takes messages from the queue; only the
  loops over base classes in the federate have fuel. The messages a connection delivers while a service
  waits are a list, at whose end the time is up.

  \<^bold>\<open>Not modelled.\<close> Of the server model the modules of object models, and in the server node the
  request to join, regions, federations as a whole and the loss of connects; connection set up, the
  readers of FOM files, the encoders of HLA data types, URLs and strings are code that could be modelled
  and is not yet. The services of the ambassador that only throw "not implemented" (saving, ownership
  transfer, updates with regions) are left out. Sockets, threads, mutexes, compression and the XML parser
  are outside the repository or call the operating system; the comparison and printing of messages is
  generated and has no logic; reference counting, pools and the pointers of intrusive lists only manage
  memory, the model has values in their place. Bindings and
  tools are glue.
\<close>

text \<open>
  C1: the messages queued on one side of a connection arrive on the other side in order, each one
  once and unchanged. Whatever room the sending socket has at each call, whatever number of bytes the
  receiving socket hands over at a time, and however much of the stream is still on its way, the
  messages delivered are a beginning of the messages queued; they are all of them when everything
  was sent and has arrived. The receiver reports no error and keeps the connection open.
\<close>

theorem sent_messages_arrive:
  assumes "\<forall>m \<in> set ms. sendable m"
    and "s = protocol_write kMaxBufferSize answers (initial_output ms)"
    and "[] \<notin> set chunks" and "prefix (concat chunks) (sent s)"
  shows "\<exists>r. protocol_read initial_protocol chunks = Inr (r, False) \<and> prefix (delivered r) ms
    \<and> (outputQueue s = [] \<and> pending s = [] \<and> concat chunks = sent s \<longrightarrow> delivered r = ms)"
proof -
  have bytes: "sent s @ pending s @ wire_bytes (outputQueue s) = wire_bytes ms"
    using protocol_write_bytes[of kMaxBufferSize answers ms] by (simp add: assms(2) Let_def)
  have "prefix (sent s) (wire_bytes ms)" using bytes by (metis prefixI)
  with assms(4) have "prefix (concat chunks) (wire_bytes ms)" by (rule prefix_order.trans)
  from protocol_read_stream[OF assms(1,3) this] obtain r where
    r: "protocol_read initial_protocol chunks = Inr (r, False)" "prefix (delivered r) ms"
      "concat chunks = wire_bytes ms \<longrightarrow> delivered r = ms" by blast
  moreover have "outputQueue s = [] \<and> pending s = [] \<longrightarrow> sent s = wire_bytes ms"
    using bytes by (auto simp: wire_bytes_def)
  ultimately show ?thesis by metis
qed

theorem sent_messages_arrive_witness:
  "let s = protocol_write 1000 [Some 5, Some 4, Some 0] (initial_output [example_commit])
   in sent s = [0, 0, 0, 7, 43, 1, 200, 1, 3]
     \<and> (\<exists>r. protocol_read initial_protocol [[0], [0, 0, 7, 43, 1], [200, 1, 3]] = Inr (r, False)
          \<and> prefix (delivered r) [example_commit])"
proof -
  let ?s = "protocol_write 1000 [Some 5, Some 4, Some 0] (initial_output [example_commit])"
  have s: "sent ?s = [0, 0, 0, 7, 43, 1, 200, 1, 3]"
    by (simp add: protocol_write_def initial_output_def write_loop.simps getEnableWrite_def getMoreToSend_def
        getOutputBufferComplete_def fill_output_def first_packet_def writePacket_def example_packet
        addScratchWriteBuffer_def stream_addWriteBuffer_def gather.simps Let_def pending_def advance_def)
  have "sendable example_commit" by (simp add: sendable_def example_packet)
  then show ?thesis
    using sent_messages_arrive[of "[example_commit]" ?s 1000 "[Some 5, Some 4, Some 0]" "[[0], [0, 0, 7, 43, 1], [200, 1, 3]]"] s
    by (auto simp: Let_def)
qed
end
